(* ===== verification/Prelude.thy ===== *)
theory Prelude
  imports Complex_Main "HOL-Library.Multiset" "HOL-Library.Monad_Syntax"
begin

text \<open>
  What every other theory of the development shares: the proof collections, the pieces of
  Python and NumPy the sources use (rounding, clipping, text formatting, \<open>bisect.insort\<close>,
  insertion-ordered dictionaries), and the generic lemmas about them.

  Conventions of the whole development. A Python \<open>float\<close> is the rational number it denotes
  (type \<^typ>\<open>rat\<close>): comparisons are those of the code, the rounding of float arithmetic is not
  modelled, and NaN appears only where the code produces it explicitly, as \<open>None\<close>. Python's
  unbounded \<open>int\<close> is \<^typ>\<open>int\<close>, or \<^typ>\<open>nat\<close> where the code keeps it non-negative. A
  \<open>KeyError\<close> raised by a dictionary access is the value \<open>None\<close> of an \<open>option\<close> result.
\<close>

named_theorems ev_simps \<open>rewriting rules for the event lists\<close>
named_theorems ev_intros \<open>preservation of the well-formedness of event lists\<close>
named_theorems step_defs \<open>unfolding rules of one-step functions of the state machines\<close>

section \<open>Numbers\<close>

text \<open>\<open>int(x)\<close> of a float truncates towards zero; \<open>round(x)\<close> rounds half to even.\<close>

definition py_trunc :: "rat \<Rightarrow> int" where
  "py_trunc x = (if 0 \<le> x then \<lfloor>x\<rfloor> else \<lceil>x\<rceil>)"

definition py_round :: "rat \<Rightarrow> int" where
  "py_round x =
     (let f = \<lfloor>x\<rfloor>; d = x - of_int f
      in if d < 1 / 2 then f
         else if d > 1 / 2 then f + 1
         else if even f then f else f + 1)"

text \<open>\<open>round(x, n)\<close>: the decimal with \<open>n\<close> digits nearest to \<open>x\<close>.\<close>

definition py_round_dp :: "nat \<Rightarrow> rat \<Rightarrow> rat" where
  "py_round_dp n x = of_int (py_round (x * 10 ^ n)) / 10 ^ n"

definition np_clip :: "rat \<Rightarrow> rat \<Rightarrow> rat \<Rightarrow> rat" where
  "np_clip x lo hi = min (max x lo) hi"

lemma py_trunc_of_int [simp]: "py_trunc (of_int k) = k"
  by (simp add: py_trunc_def)

lemma py_trunc_numeral [simp]: "py_trunc (numeral k) = numeral k"
  by (simp add: py_trunc_def)

lemma py_trunc_0 [simp]: "py_trunc 0 = 0"
  by (simp add: py_trunc_def)

lemma py_trunc_1 [simp]: "py_trunc 1 = 1"
  by (simp add: py_trunc_def)

lemma py_round_of_int [simp]: "py_round (of_int k) = k"
  by (simp add: py_round_def)

lemma py_round_error: "\<bar>of_int (py_round x) - x\<bar> \<le> 1 / 2"
proof -
  have "of_int \<lfloor>x\<rfloor> \<le> x" "x < of_int \<lfloor>x\<rfloor> + 1"
    by linarith+
  then show ?thesis
    unfolding py_round_def Let_def by (auto simp: abs_le_iff)
qed

lemma py_round_unique:
  assumes "of_int k - 1 / 2 < x" "x < of_int k + 1 / 2"
  shows "py_round x = k"
proof (cases "of_int k \<le> x")
  case True
  then have "\<lfloor>x\<rfloor> = k"
    using assms by (intro floor_unique) auto
  with assms show ?thesis
    by (simp add: py_round_def Let_def)
next
  case False
  then have "\<lfloor>x\<rfloor> = k - 1"
    using assms by (intro floor_unique) auto
  with assms False show ?thesis
    by (simp add: py_round_def Let_def)
qed

lemma py_round_mono: "x \<le> y \<Longrightarrow> py_round x \<le> py_round y"
proof -
  assume xy: "x \<le> y"
  have b: "of_int \<lfloor>x\<rfloor> \<le> x" "x < of_int \<lfloor>x\<rfloor> + 1" "of_int \<lfloor>y\<rfloor> \<le> y" "y < of_int \<lfloor>y\<rfloor> + 1"
    by linarith+
  have f: "\<lfloor>x\<rfloor> \<le> \<lfloor>y\<rfloor>"
    using xy by (rule floor_mono)
  show ?thesis
  proof (cases "\<lfloor>x\<rfloor> = \<lfloor>y\<rfloor>")
    case True
    then show ?thesis
      using xy by (auto simp: py_round_def Let_def)
  next
    case False
    with f have "\<lfloor>x\<rfloor> + 1 \<le> \<lfloor>y\<rfloor>"
      by simp
    moreover have "py_round x \<le> \<lfloor>x\<rfloor> + 1" "\<lfloor>y\<rfloor> \<le> py_round y"
      by (simp_all add: py_round_def Let_def)
    ultimately show ?thesis
      by linarith
  qed
qed

lemma np_clip_range: "lo \<le> hi \<Longrightarrow> lo \<le> np_clip x lo hi \<and> np_clip x lo hi \<le> hi"
  by (simp add: np_clip_def)

lemma np_clip_id [simp]: "lo \<le> x \<Longrightarrow> x \<le> hi \<Longrightarrow> np_clip x lo hi = x"
  by (simp add: np_clip_def)

lemma np_clip_idem [simp]: "lo \<le> hi \<Longrightarrow> np_clip (np_clip x lo hi) lo hi = np_clip x lo hi"
  by (simp add: np_clip_def)

section \<open>Text\<close>

definition digit :: "nat \<Rightarrow> char" where
  "digit n = char_of (48 + n)"

fun str_nat :: "nat \<Rightarrow> string" where
  "str_nat n = (if n < 10 then [digit n] else str_nat (n div 10) @ [digit (n mod 10)])"

declare str_nat.simps [simp del]

definition str_int :: "int \<Rightarrow> string" where
  "str_int k = (if k < 0 then CHR ''-'' # str_nat (nat (- k)) else str_nat (nat k))"

text \<open>\<open>f"{x:.nf}"\<close>: sign, integer part and exactly \<open>n\<close> decimals, rounded half to even.\<close>

fun str_frac :: "nat \<Rightarrow> nat \<Rightarrow> string" where
  "str_frac 0 k = []"
| "str_frac (Suc n) k = str_frac n (k div 10) @ [digit (k mod 10)]"

definition str_fixed :: "nat \<Rightarrow> rat \<Rightarrow> string" where
  "str_fixed n x =
     (let k = nat (py_round (\<bar>x\<bar> * 10 ^ n));
          body = str_nat (k div 10 ^ n) @ (if n = 0 then [] else CHR ''.'' # str_frac n k)
      in if x < 0 then CHR ''-'' # body else body)"

text \<open>The same for a value that may be NaN (\<open>None\<close>).\<close>

definition str_fixed_nan :: "nat \<Rightarrow> rat option \<Rightarrow> string" where
  "str_fixed_nan n x = (case x of None \<Rightarrow> ''nan'' | Some v \<Rightarrow> str_fixed n v)"

fun str_join :: "string \<Rightarrow> string list \<Rightarrow> string" where
  "str_join sep [] = []"
| "str_join sep [s] = s"
| "str_join sep (s # t # ss) = s @ sep @ str_join sep (t # ss)"

fun is_prefix :: "string \<Rightarrow> string \<Rightarrow> bool" where
  "is_prefix [] s = True"
| "is_prefix (c # p) [] = False"
| "is_prefix (c # p) (d # s) = (c = d \<and> is_prefix p s)"

text \<open>\<open>sub in s\<close>, and \<open>s.replace(old, '')\<close> for a non-empty \<open>old\<close>.\<close>

fun is_infix :: "string \<Rightarrow> string \<Rightarrow> bool" where
  "is_infix p [] = (p = [])"
| "is_infix p (c # s) = (is_prefix p (c # s) \<or> is_infix p s)"

function str_remove :: "string \<Rightarrow> string \<Rightarrow> string" where
  "str_remove old [] = []"
| "str_remove old (c # s) =
     (if is_prefix old (c # s) \<and> old \<noteq> [] then str_remove old (drop (length old) (c # s))
      else c # str_remove old s)"
  by pat_completeness auto
termination
  by (relation "measure (\<lambda>(old, s). length s)") (auto simp: neq_Nil_conv)

text \<open>The UTF-8 bytes of the degree sign.\<close>

definition degree_sign :: string where
  "degree_sign = [CHR 0xC2, CHR 0xB0]"

lemma str_nat_nonempty: "str_nat n \<noteq> []"
  by (subst str_nat.simps) simp

lemma length_str_frac [simp]: "length (str_frac n k) = n"
  by (induction n arbitrary: k) auto

section \<open>Sorted insertion\<close>

text \<open>
  \<open>bisect.bisect_right\<close> and \<open>bisect.insort\<close> of the standard library, with their binary search.
\<close>

function bisect_right :: "nat list \<Rightarrow> nat \<Rightarrow> nat \<Rightarrow> nat \<Rightarrow> nat" where
  "bisect_right a x lo hi =
     (if lo < hi
      then (let mid = (lo + hi) div 2
            in if x < a ! mid then bisect_right a x lo mid
               else bisect_right a x (mid + 1) hi)
      else lo)"
  by pat_completeness auto
termination
  by (relation "measure (\<lambda>(a, x, lo, hi). hi - lo)") auto

declare bisect_right.simps [simp del]

definition bisect_insort :: "nat list \<Rightarrow> nat \<Rightarrow> nat list" where
  "bisect_insort a x = (let k = bisect_right a x 0 (length a) in take k a @ x # drop k a)"

lemma bisect_right_correct:
  assumes "sorted a" "lo \<le> hi" "hi \<le> length a"
    and "\<forall>i<lo. a ! i \<le> x" and "\<forall>i. hi \<le> i \<and> i < length a \<longrightarrow> x < a ! i"
  shows "bisect_right a x lo hi \<le> length a
    \<and> (\<forall>i<bisect_right a x lo hi. a ! i \<le> x)
    \<and> (\<forall>i. bisect_right a x lo hi \<le> i \<and> i < length a \<longrightarrow> x < a ! i)"
  using assms
proof (induction a x lo hi rule: bisect_right.induct)
  case (1 a x lo hi)
  show ?case
  proof (cases "lo < hi")
    case False
    then have "bisect_right a x lo hi = lo"
      by (subst bisect_right.simps) simp
    with False "1.prems" show ?thesis
      by auto
  next
    case True
    let ?mid = "(lo + hi) div 2"
    have mid: "lo \<le> ?mid" "?mid < hi" "?mid < length a"
      using True "1.prems" by auto
    show ?thesis
    proof (cases "x < a ! ?mid")
      case less: True
      have step: "bisect_right a x lo hi = bisect_right a x lo ?mid"
        using True less by (subst bisect_right.simps) (simp add: Let_def)
      have "\<forall>i. ?mid \<le> i \<and> i < length a \<longrightarrow> x < a ! i"
        using less "1.prems"(1) mid by (auto simp: sorted_iff_nth_mono intro: less_le_trans)
      from "1.IH"(1) [OF True refl less "1.prems"(1) mid(1) less_imp_le [OF mid(3)] "1.prems"(4) this]
      show ?thesis
        unfolding step .
    next
      case ge: False
      have step: "bisect_right a x lo hi = bisect_right a x (?mid + 1) hi"
        using True ge by (subst bisect_right.simps) (simp add: Let_def)
      have below: "a ! i \<le> x" if "i < ?mid + 1" for i
      proof -
        have "a ! i \<le> a ! ?mid"
          using that "1.prems"(1) mid by (simp add: sorted_iff_nth_mono)
        then show ?thesis
          using ge by simp
      qed
      have le: "?mid + 1 \<le> hi"
        using mid by simp
      have "\<forall>i<?mid + 1. a ! i \<le> x"
        using below by blast
      from "1.IH"(2) [OF True refl ge "1.prems"(1) le "1.prems"(3) this "1.prems"(5)]
      show ?thesis
        unfolding step .
    qed
  qed
qed

lemma mset_bisect_insort [simp]: "mset (bisect_insort a x) = add_mset x (mset a)"
proof -
  have "mset (take k a) + mset (drop k a) = mset a" for k
    by (metis append_take_drop_id mset_append)
  then show ?thesis
    by (simp add: bisect_insort_def Let_def)
qed

lemma set_bisect_insort [simp]: "set (bisect_insort a x) = insert x (set a)"
  by (metis mset_bisect_insort set_mset_add_mset_insert set_mset_mset)

lemma length_bisect_insort [simp]: "length (bisect_insort a x) = Suc (length a)"
  by (metis mset_bisect_insort size_add_mset size_mset)

lemma sorted_bisect_insort:
  assumes "sorted a"
  shows "sorted (bisect_insort a x)"
proof -
  let ?k = "bisect_right a x 0 (length a)"
  from assms have k: "?k \<le> length a" "\<forall>i<?k. a ! i \<le> x" "\<forall>i. ?k \<le> i \<and> i < length a \<longrightarrow> x < a ! i"
    using bisect_right_correct [of a 0 "length a" x] by auto
  have "\<forall>y\<in>set (take ?k a). y \<le> x"
    using k by (auto simp: in_set_conv_nth)
  moreover have "\<forall>y\<in>set (drop ?k a). x \<le> y"
    using k by (auto simp: in_set_conv_nth less_imp_le)
  ultimately show ?thesis
    using assms
    by (auto simp: bisect_insort_def Let_def sorted_append sorted_wrt_take sorted_wrt_drop
        intro: order_trans)
qed

text \<open>The binary search inserts exactly where the sorted-list specification does.\<close>

lemma bisect_insort_eq_insort: "sorted a \<Longrightarrow> bisect_insort a x = insort x a"
  by (metis mset_bisect_insort mset_insort properties_for_sort sorted_bisect_insort sorted_insort
      sort_key_id_if_sorted sorted_sort_id)

lemma insort_not_Nil [simp]: "insort (x::nat) a \<noteq> []"
  by (cases a) auto

lemma sorted_remove1 [simp]: "sorted a \<Longrightarrow> sorted (remove1 (x::nat) a)"
  using sorted_remove1 by blast

section \<open>Insertion-ordered dictionaries\<close>

text \<open>
  A Python dictionary whose iteration order matters is an association list in insertion order
  with distinct keys. Writing an existing key keeps its place.
\<close>

fun dict_set :: "'k \<Rightarrow> 'v \<Rightarrow> ('k \<times> 'v) list \<Rightarrow> ('k \<times> 'v) list" where
  "dict_set k v [] = [(k, v)]"
| "dict_set k v ((k', v') # d) = (if k' = k then (k, v) # d else (k', v') # dict_set k v d)"

definition dict_get :: "'v \<Rightarrow> ('k \<times> 'v) list \<Rightarrow> 'k \<Rightarrow> 'v" where
  "dict_get dflt d k = (case map_of d k of None \<Rightarrow> dflt | Some v \<Rightarrow> v)"

fun dict_update :: "('k \<times> 'v) list \<Rightarrow> ('k \<times> 'v) list \<Rightarrow> ('k \<times> 'v) list" where
  "dict_update d [] = d"
| "dict_update d ((k, v) # e) = dict_update (dict_set k v d) e"

lemma map_of_dict_set [simp]: "map_of (dict_set k v d) = (map_of d)(k \<mapsto> v)"
  by (induction d) (auto simp: fun_eq_iff)

lemma keys_dict_set [simp]: "fst ` set (dict_set k v d) = insert k (fst ` set d)"
  by (simp flip: dom_map_of_conv_image_fst)

lemma distinct_dict_set: "distinct (map fst d) \<Longrightarrow> distinct (map fst (dict_set k v d))"
proof (induction d)
  case (Cons p d)
  moreover obtain k' v' where "p = (k', v')"
    by (cases p)
  ultimately show ?case
    using keys_dict_set [of k v d] by auto
qed simp

lemma map_of_dict_update: "map_of (dict_update d e) = map_of d ++ map_of (rev e)"
  by (induction e arbitrary: d) (auto simp: map_add_def fun_eq_iff split: option.splits)

lemma dict_get_set [simp]:
  "dict_get dflt (dict_set k v d) k' = (if k' = k then v else dict_get dflt d k')"
  by (simp add: dict_get_def)

end
