(* ===== verification/EventNames.thy ===== *)
theory EventNames
  imports Prelude
begin

text \<open>
  The event names of \<open>log.OnroadEvent.EventName\<close> (\<open>cereal/log.capnp\<close>) and of sunnypilot's
  \<open>custom.OnroadEventSP.EventName\<close> (\<open>cereal/custom.capnp\<close>). The Python code handles events by
  their raw enumerant value, an \<open>int\<close>: lists of events are kept sorted by it and dictionaries are
  keyed by it. An event is therefore a \<^typ>\<open>nat\<close> here, and each name abbreviates its value. The
  prefix \<open>EN\<close> stands for \<open>EventName\<close>, \<open>ENSP\<close> for \<open>EventNameSP\<close>.
\<close>

type_synonym event = nat

section \<open>openpilot events\<close>

abbreviation (input) EN_canError :: event where "EN_canError \<equiv> 0"
abbreviation (input) EN_steerUnavailable :: event where "EN_steerUnavailable \<equiv> 1"
abbreviation (input) EN_wrongGear :: event where "EN_wrongGear \<equiv> 2"
abbreviation (input) EN_doorOpen :: event where "EN_doorOpen \<equiv> 3"
abbreviation (input) EN_seatbeltNotLatched :: event where "EN_seatbeltNotLatched \<equiv> 4"
abbreviation (input) EN_espDisabled :: event where "EN_espDisabled \<equiv> 5"
abbreviation (input) EN_wrongCarMode :: event where "EN_wrongCarMode \<equiv> 6"
abbreviation (input) EN_steerTempUnavailable :: event where "EN_steerTempUnavailable \<equiv> 7"
abbreviation (input) EN_reverseGear :: event where "EN_reverseGear \<equiv> 8"
abbreviation (input) EN_buttonCancel :: event where "EN_buttonCancel \<equiv> 9"
abbreviation (input) EN_buttonEnable :: event where "EN_buttonEnable \<equiv> 10"
abbreviation (input) EN_pedalPressed :: event where "EN_pedalPressed \<equiv> 11"
abbreviation (input) EN_preEnableStandstill :: event where "EN_preEnableStandstill \<equiv> 12"
abbreviation (input) EN_gasPressedOverride :: event where "EN_gasPressedOverride \<equiv> 13"
abbreviation (input) EN_steerOverride :: event where "EN_steerOverride \<equiv> 14"
abbreviation (input) EN_cruiseDisabled :: event where "EN_cruiseDisabled \<equiv> 15"
abbreviation (input) EN_speedTooLow :: event where "EN_speedTooLow \<equiv> 16"
abbreviation (input) EN_outOfSpace :: event where "EN_outOfSpace \<equiv> 17"
abbreviation (input) EN_overheat :: event where "EN_overheat \<equiv> 18"
abbreviation (input) EN_calibrationIncomplete :: event where "EN_calibrationIncomplete \<equiv> 19"
abbreviation (input) EN_calibrationInvalid :: event where "EN_calibrationInvalid \<equiv> 20"
abbreviation (input) EN_calibrationRecalibrating :: event where "EN_calibrationRecalibrating \<equiv> 21"
abbreviation (input) EN_controlsMismatch :: event where "EN_controlsMismatch \<equiv> 22"
abbreviation (input) EN_pcmEnable :: event where "EN_pcmEnable \<equiv> 23"
abbreviation (input) EN_pcmDisable :: event where "EN_pcmDisable \<equiv> 24"
abbreviation (input) EN_radarFault :: event where "EN_radarFault \<equiv> 25"
abbreviation (input) EN_brakeHold :: event where "EN_brakeHold \<equiv> 26"
abbreviation (input) EN_parkBrake :: event where "EN_parkBrake \<equiv> 27"
abbreviation (input) EN_manualRestart :: event where "EN_manualRestart \<equiv> 28"
abbreviation (input) EN_joystickDebug :: event where "EN_joystickDebug \<equiv> 29"
abbreviation (input) EN_longitudinalManeuver :: event where "EN_longitudinalManeuver \<equiv> 30"
abbreviation (input) EN_steerTempUnavailableSilent :: event where "EN_steerTempUnavailableSilent \<equiv> 31"
abbreviation (input) EN_resumeRequired :: event where "EN_resumeRequired \<equiv> 32"
abbreviation (input) EN_driverDistracted1 :: event where "EN_driverDistracted1 \<equiv> 33"
abbreviation (input) EN_driverDistracted2 :: event where "EN_driverDistracted2 \<equiv> 34"
abbreviation (input) EN_driverDistracted3 :: event where "EN_driverDistracted3 \<equiv> 35"
abbreviation (input) EN_driverUnresponsive1 :: event where "EN_driverUnresponsive1 \<equiv> 36"
abbreviation (input) EN_driverUnresponsive2 :: event where "EN_driverUnresponsive2 \<equiv> 37"
abbreviation (input) EN_driverUnresponsive3 :: event where "EN_driverUnresponsive3 \<equiv> 38"
abbreviation (input) EN_belowSteerSpeed :: event where "EN_belowSteerSpeed \<equiv> 39"
abbreviation (input) EN_lowBattery :: event where "EN_lowBattery \<equiv> 40"
abbreviation (input) EN_accFaulted :: event where "EN_accFaulted \<equiv> 41"
abbreviation (input) EN_sensorDataInvalid :: event where "EN_sensorDataInvalid \<equiv> 42"
abbreviation (input) EN_commIssue :: event where "EN_commIssue \<equiv> 43"
abbreviation (input) EN_commIssueAvgFreq :: event where "EN_commIssueAvgFreq \<equiv> 44"
abbreviation (input) EN_tooDistracted :: event where "EN_tooDistracted \<equiv> 45"
abbreviation (input) EN_posenetInvalid :: event where "EN_posenetInvalid \<equiv> 46"
abbreviation (input) EN_soundsUnavailableDEPRECATED :: event where "EN_soundsUnavailableDEPRECATED \<equiv> 47"
abbreviation (input) EN_preLaneChangeLeft :: event where "EN_preLaneChangeLeft \<equiv> 48"
abbreviation (input) EN_preLaneChangeRight :: event where "EN_preLaneChangeRight \<equiv> 49"
abbreviation (input) EN_laneChange :: event where "EN_laneChange \<equiv> 50"
abbreviation (input) EN_lowMemory :: event where "EN_lowMemory \<equiv> 51"
abbreviation (input) EN_stockAeb :: event where "EN_stockAeb \<equiv> 52"
abbreviation (input) EN_ldw :: event where "EN_ldw \<equiv> 53"
abbreviation (input) EN_carUnrecognized :: event where "EN_carUnrecognized \<equiv> 54"
abbreviation (input) EN_invalidLkasSetting :: event where "EN_invalidLkasSetting \<equiv> 55"
abbreviation (input) EN_speedTooHigh :: event where "EN_speedTooHigh \<equiv> 56"
abbreviation (input) EN_laneChangeBlocked :: event where "EN_laneChangeBlocked \<equiv> 57"
abbreviation (input) EN_relayMalfunction :: event where "EN_relayMalfunction \<equiv> 58"
abbreviation (input) EN_stockFcw :: event where "EN_stockFcw \<equiv> 59"
abbreviation (input) EN_startup :: event where "EN_startup \<equiv> 60"
abbreviation (input) EN_startupNoCar :: event where "EN_startupNoCar \<equiv> 61"
abbreviation (input) EN_startupNoControl :: event where "EN_startupNoControl \<equiv> 62"
abbreviation (input) EN_startupNoSecOcKey :: event where "EN_startupNoSecOcKey \<equiv> 63"
abbreviation (input) EN_startupMaster :: event where "EN_startupMaster \<equiv> 64"
abbreviation (input) EN_fcw :: event where "EN_fcw \<equiv> 65"
abbreviation (input) EN_steerSaturated :: event where "EN_steerSaturated \<equiv> 66"
abbreviation (input) EN_belowEngageSpeed :: event where "EN_belowEngageSpeed \<equiv> 67"
abbreviation (input) EN_noGps :: event where "EN_noGps \<equiv> 68"
abbreviation (input) EN_wrongCruiseMode :: event where "EN_wrongCruiseMode \<equiv> 69"
abbreviation (input) EN_modeldLagging :: event where "EN_modeldLagging \<equiv> 70"
abbreviation (input) EN_deviceFalling :: event where "EN_deviceFalling \<equiv> 71"
abbreviation (input) EN_fanMalfunction :: event where "EN_fanMalfunction \<equiv> 72"
abbreviation (input) EN_cameraMalfunction :: event where "EN_cameraMalfunction \<equiv> 73"
abbreviation (input) EN_cameraFrameRate :: event where "EN_cameraFrameRate \<equiv> 74"
abbreviation (input) EN_processNotRunning :: event where "EN_processNotRunning \<equiv> 75"
abbreviation (input) EN_dashcamMode :: event where "EN_dashcamMode \<equiv> 76"
abbreviation (input) EN_selfdriveInitializing :: event where "EN_selfdriveInitializing \<equiv> 77"
abbreviation (input) EN_usbError :: event where "EN_usbError \<equiv> 78"
abbreviation (input) EN_cruiseMismatch :: event where "EN_cruiseMismatch \<equiv> 79"
abbreviation (input) EN_canBusMissing :: event where "EN_canBusMissing \<equiv> 80"
abbreviation (input) EN_selfdrivedLagging :: event where "EN_selfdrivedLagging \<equiv> 81"
abbreviation (input) EN_resumeBlocked :: event where "EN_resumeBlocked \<equiv> 82"
abbreviation (input) EN_steerTimeLimit :: event where "EN_steerTimeLimit \<equiv> 83"
abbreviation (input) EN_vehicleSensorsInvalid :: event where "EN_vehicleSensorsInvalid \<equiv> 84"
abbreviation (input) EN_locationdTemporaryError :: event where "EN_locationdTemporaryError \<equiv> 85"
abbreviation (input) EN_locationdPermanentError :: event where "EN_locationdPermanentError \<equiv> 86"
abbreviation (input) EN_paramsdTemporaryError :: event where "EN_paramsdTemporaryError \<equiv> 87"
abbreviation (input) EN_paramsdPermanentError :: event where "EN_paramsdPermanentError \<equiv> 88"
abbreviation (input) EN_actuatorsApiUnavailable :: event where "EN_actuatorsApiUnavailable \<equiv> 89"
abbreviation (input) EN_espActive :: event where "EN_espActive \<equiv> 90"
abbreviation (input) EN_personalityChanged :: event where "EN_personalityChanged \<equiv> 91"
abbreviation (input) EN_aeb :: event where "EN_aeb \<equiv> 92"
abbreviation (input) EN_radarTempUnavailable :: event where "EN_radarTempUnavailable \<equiv> 93"
abbreviation (input) EN_steerDisengage :: event where "EN_steerDisengage \<equiv> 94"
abbreviation (input) EN_userBookmark :: event where "EN_userBookmark \<equiv> 95"
abbreviation (input) EN_excessiveActuation :: event where "EN_excessiveActuation \<equiv> 96"
abbreviation (input) EN_audioFeedback :: event where "EN_audioFeedback \<equiv> 97"
abbreviation (input) EN_stockLkas :: event where "EN_stockLkas \<equiv> 98"
abbreviation (input) EN_lateralManeuver :: event where "EN_lateralManeuver \<equiv> 99"

section \<open>sunnypilot events\<close>

abbreviation (input) ENSP_lkasEnable :: event where "ENSP_lkasEnable \<equiv> 0"
abbreviation (input) ENSP_lkasDisable :: event where "ENSP_lkasDisable \<equiv> 1"
abbreviation (input) ENSP_manualSteeringRequired :: event where "ENSP_manualSteeringRequired \<equiv> 2"
abbreviation (input) ENSP_manualLongitudinalRequired :: event where "ENSP_manualLongitudinalRequired \<equiv> 3"
abbreviation (input) ENSP_silentLkasEnable :: event where "ENSP_silentLkasEnable \<equiv> 4"
abbreviation (input) ENSP_silentLkasDisable :: event where "ENSP_silentLkasDisable \<equiv> 5"
abbreviation (input) ENSP_silentBrakeHold :: event where "ENSP_silentBrakeHold \<equiv> 6"
abbreviation (input) ENSP_silentWrongGear :: event where "ENSP_silentWrongGear \<equiv> 7"
abbreviation (input) ENSP_silentReverseGear :: event where "ENSP_silentReverseGear \<equiv> 8"
abbreviation (input) ENSP_silentDoorOpen :: event where "ENSP_silentDoorOpen \<equiv> 9"
abbreviation (input) ENSP_silentSeatbeltNotLatched :: event where "ENSP_silentSeatbeltNotLatched \<equiv> 10"
abbreviation (input) ENSP_silentParkBrake :: event where "ENSP_silentParkBrake \<equiv> 11"
abbreviation (input) ENSP_controlsMismatchLateral :: event where "ENSP_controlsMismatchLateral \<equiv> 12"
abbreviation (input) ENSP_hyundaiRadarTracksConfirmed :: event where "ENSP_hyundaiRadarTracksConfirmed \<equiv> 13"
abbreviation (input) ENSP_experimentalModeSwitched :: event where "ENSP_experimentalModeSwitched \<equiv> 14"
abbreviation (input) ENSP_wrongCarModeAlertOnly :: event where "ENSP_wrongCarModeAlertOnly \<equiv> 15"
abbreviation (input) ENSP_pedalPressedAlertOnly :: event where "ENSP_pedalPressedAlertOnly \<equiv> 16"
abbreviation (input) ENSP_laneTurnLeft :: event where "ENSP_laneTurnLeft \<equiv> 17"
abbreviation (input) ENSP_laneTurnRight :: event where "ENSP_laneTurnRight \<equiv> 18"
abbreviation (input) ENSP_speedLimitPreActive :: event where "ENSP_speedLimitPreActive \<equiv> 19"
abbreviation (input) ENSP_speedLimitActive :: event where "ENSP_speedLimitActive \<equiv> 20"
abbreviation (input) ENSP_speedLimitChanged :: event where "ENSP_speedLimitChanged \<equiv> 21"
abbreviation (input) ENSP_speedLimitPending :: event where "ENSP_speedLimitPending \<equiv> 22"
abbreviation (input) ENSP_e2eChime :: event where "ENSP_e2eChime \<equiv> 23"

section \<open>Printable names\<close>

text \<open>\<open>EVENT_NAME\<close> and \<open>EVENT_NAME_SP\<close>: the inverted enumerant tables of the two schemas.\<close>

definition EVENT_NAME :: "(event \<times> string) list" where
  "EVENT_NAME = [
     (EN_canError, ''canError''), (EN_steerUnavailable, ''steerUnavailable''),
     (EN_wrongGear, ''wrongGear''), (EN_doorOpen, ''doorOpen''),
     (EN_seatbeltNotLatched, ''seatbeltNotLatched''), (EN_espDisabled, ''espDisabled''),
     (EN_wrongCarMode, ''wrongCarMode''), (EN_steerTempUnavailable, ''steerTempUnavailable''),
     (EN_reverseGear, ''reverseGear''), (EN_buttonCancel, ''buttonCancel''),
     (EN_buttonEnable, ''buttonEnable''), (EN_pedalPressed, ''pedalPressed''),
     (EN_preEnableStandstill, ''preEnableStandstill''),
     (EN_gasPressedOverride, ''gasPressedOverride''), (EN_steerOverride, ''steerOverride''),
     (EN_cruiseDisabled, ''cruiseDisabled''), (EN_speedTooLow, ''speedTooLow''),
     (EN_outOfSpace, ''outOfSpace''), (EN_overheat, ''overheat''),
     (EN_calibrationIncomplete, ''calibrationIncomplete''),
     (EN_calibrationInvalid, ''calibrationInvalid''),
     (EN_calibrationRecalibrating, ''calibrationRecalibrating''),
     (EN_controlsMismatch, ''controlsMismatch''), (EN_pcmEnable, ''pcmEnable''),
     (EN_pcmDisable, ''pcmDisable''), (EN_radarFault, ''radarFault''),
     (EN_brakeHold, ''brakeHold''), (EN_parkBrake, ''parkBrake''),
     (EN_manualRestart, ''manualRestart''), (EN_joystickDebug, ''joystickDebug''),
     (EN_longitudinalManeuver, ''longitudinalManeuver''),
     (EN_steerTempUnavailableSilent, ''steerTempUnavailableSilent''),
     (EN_resumeRequired, ''resumeRequired''), (EN_driverDistracted1, ''driverDistracted1''),
     (EN_driverDistracted2, ''driverDistracted2''),
     (EN_driverDistracted3, ''driverDistracted3''),
     (EN_driverUnresponsive1, ''driverUnresponsive1''),
     (EN_driverUnresponsive2, ''driverUnresponsive2''),
     (EN_driverUnresponsive3, ''driverUnresponsive3''),
     (EN_belowSteerSpeed, ''belowSteerSpeed''), (EN_lowBattery, ''lowBattery''),
     (EN_accFaulted, ''accFaulted''), (EN_sensorDataInvalid, ''sensorDataInvalid''),
     (EN_commIssue, ''commIssue''), (EN_commIssueAvgFreq, ''commIssueAvgFreq''),
     (EN_tooDistracted, ''tooDistracted''), (EN_posenetInvalid, ''posenetInvalid''),
     (EN_soundsUnavailableDEPRECATED, ''soundsUnavailableDEPRECATED''),
     (EN_preLaneChangeLeft, ''preLaneChangeLeft''),
     (EN_preLaneChangeRight, ''preLaneChangeRight''), (EN_laneChange, ''laneChange''),
     (EN_lowMemory, ''lowMemory''), (EN_stockAeb, ''stockAeb''), (EN_ldw, ''ldw''),
     (EN_carUnrecognized, ''carUnrecognized''),
     (EN_invalidLkasSetting, ''invalidLkasSetting''), (EN_speedTooHigh, ''speedTooHigh''),
     (EN_laneChangeBlocked, ''laneChangeBlocked''),
     (EN_relayMalfunction, ''relayMalfunction''), (EN_stockFcw, ''stockFcw''),
     (EN_startup, ''startup''), (EN_startupNoCar, ''startupNoCar''),
     (EN_startupNoControl, ''startupNoControl''),
     (EN_startupNoSecOcKey, ''startupNoSecOcKey''), (EN_startupMaster, ''startupMaster''),
     (EN_fcw, ''fcw''), (EN_steerSaturated, ''steerSaturated''),
     (EN_belowEngageSpeed, ''belowEngageSpeed''), (EN_noGps, ''noGps''),
     (EN_wrongCruiseMode, ''wrongCruiseMode''), (EN_modeldLagging, ''modeldLagging''),
     (EN_deviceFalling, ''deviceFalling''), (EN_fanMalfunction, ''fanMalfunction''),
     (EN_cameraMalfunction, ''cameraMalfunction''), (EN_cameraFrameRate, ''cameraFrameRate''),
     (EN_processNotRunning, ''processNotRunning''), (EN_dashcamMode, ''dashcamMode''),
     (EN_selfdriveInitializing, ''selfdriveInitializing''), (EN_usbError, ''usbError''),
     (EN_cruiseMismatch, ''cruiseMismatch''), (EN_canBusMissing, ''canBusMissing''),
     (EN_selfdrivedLagging, ''selfdrivedLagging''), (EN_resumeBlocked, ''resumeBlocked''),
     (EN_steerTimeLimit, ''steerTimeLimit''),
     (EN_vehicleSensorsInvalid, ''vehicleSensorsInvalid''),
     (EN_locationdTemporaryError, ''locationdTemporaryError''),
     (EN_locationdPermanentError, ''locationdPermanentError''),
     (EN_paramsdTemporaryError, ''paramsdTemporaryError''),
     (EN_paramsdPermanentError, ''paramsdPermanentError''),
     (EN_actuatorsApiUnavailable, ''actuatorsApiUnavailable''), (EN_espActive, ''espActive''),
     (EN_personalityChanged, ''personalityChanged''), (EN_aeb, ''aeb''),
     (EN_radarTempUnavailable, ''radarTempUnavailable''),
     (EN_steerDisengage, ''steerDisengage''), (EN_userBookmark, ''userBookmark''),
     (EN_excessiveActuation, ''excessiveActuation''), (EN_audioFeedback, ''audioFeedback''),
     (EN_stockLkas, ''stockLkas''), (EN_lateralManeuver, ''lateralManeuver'')]"

definition EVENT_NAME_SP :: "(event \<times> string) list" where
  "EVENT_NAME_SP = [
     (ENSP_lkasEnable, ''lkasEnable''), (ENSP_lkasDisable, ''lkasDisable''),
     (ENSP_manualSteeringRequired, ''manualSteeringRequired''),
     (ENSP_manualLongitudinalRequired, ''manualLongitudinalRequired''),
     (ENSP_silentLkasEnable, ''silentLkasEnable''),
     (ENSP_silentLkasDisable, ''silentLkasDisable''),
     (ENSP_silentBrakeHold, ''silentBrakeHold''), (ENSP_silentWrongGear, ''silentWrongGear''),
     (ENSP_silentReverseGear, ''silentReverseGear''),
     (ENSP_silentDoorOpen, ''silentDoorOpen''),
     (ENSP_silentSeatbeltNotLatched, ''silentSeatbeltNotLatched''),
     (ENSP_silentParkBrake, ''silentParkBrake''),
     (ENSP_controlsMismatchLateral, ''controlsMismatchLateral''),
     (ENSP_hyundaiRadarTracksConfirmed, ''hyundaiRadarTracksConfirmed''),
     (ENSP_experimentalModeSwitched, ''experimentalModeSwitched''),
     (ENSP_wrongCarModeAlertOnly, ''wrongCarModeAlertOnly''),
     (ENSP_pedalPressedAlertOnly, ''pedalPressedAlertOnly''),
     (ENSP_laneTurnLeft, ''laneTurnLeft''), (ENSP_laneTurnRight, ''laneTurnRight''),
     (ENSP_speedLimitPreActive, ''speedLimitPreActive''),
     (ENSP_speedLimitActive, ''speedLimitActive''),
     (ENSP_speedLimitChanged, ''speedLimitChanged''),
     (ENSP_speedLimitPending, ''speedLimitPending''), (ENSP_e2eChime, ''e2eChime'')]"

lemma distinct_EVENT_NAME: "distinct (map fst EVENT_NAME)"
  by (simp add: EVENT_NAME_def)

lemma distinct_EVENT_NAME_SP: "distinct (map fst EVENT_NAME_SP)"
  by (simp add: EVENT_NAME_SP_def)

end
