(* ===== verification/EventsBase.thy ===== *)
theory EventsBase
  imports EventNames
begin

text \<open>
  \<open>sunnypilot/selfdrive/selfdrived/events_base.py\<close>: alert priorities, event types, the alert
  classes, and the class \<open>EventsBase\<close> that holds the events of one control cycle. The abstract
  methods of the class (\<open>get_events_mapping\<close>, \<open>get_event_name\<close>) are the arguments \<open>m\<close> and
  \<open>names\<close> of the operations that call them; the theories of the two subclasses supply them.
\<close>

section \<open>Alerts\<close>

datatype Priority = LOWEST | LOWER | LOW | MID | HIGH | HIGHEST

definition priority_value :: "Priority \<Rightarrow> nat" where
  "priority_value p =
     (case p of LOWEST \<Rightarrow> 0 | LOWER \<Rightarrow> 1 | LOW \<Rightarrow> 2 | MID \<Rightarrow> 3 | HIGH \<Rightarrow> 4 | HIGHEST \<Rightarrow> 5)"

lemma priority_value_inj [simp]: "priority_value p = priority_value q \<longleftrightarrow> p = q"
  by (cases p; cases q) (simp_all add: priority_value_def)

text \<open>\<open>IntEnum\<close> values compare by their integer.\<close>

instantiation Priority :: linorder
begin

definition less_eq_Priority :: "Priority \<Rightarrow> Priority \<Rightarrow> bool" where
  "p \<le> q \<longleftrightarrow> priority_value p \<le> priority_value q"

definition less_Priority :: "Priority \<Rightarrow> Priority \<Rightarrow> bool" where
  "p < q \<longleftrightarrow> priority_value p < priority_value q"

instance
  by standard (auto simp: less_eq_Priority_def less_Priority_def)

end

datatype ET =
    ENABLE | PRE_ENABLE | OVERRIDE_LATERAL | OVERRIDE_LONGITUDINAL | NO_ENTRY | WARNING
  | USER_DISABLE | SOFT_DISABLE | IMMEDIATE_DISABLE | PERMANENT

definition ET_str :: "ET \<Rightarrow> string" where
  "ET_str t = (case t of
      ENABLE \<Rightarrow> ''enable'' | PRE_ENABLE \<Rightarrow> ''preEnable''
    | OVERRIDE_LATERAL \<Rightarrow> ''overrideLateral''
    | OVERRIDE_LONGITUDINAL \<Rightarrow> ''overrideLongitudinal''
    | NO_ENTRY \<Rightarrow> ''noEntry'' | WARNING \<Rightarrow> ''warning'' | USER_DISABLE \<Rightarrow> ''userDisable''
    | SOFT_DISABLE \<Rightarrow> ''softDisable'' | IMMEDIATE_DISABLE \<Rightarrow> ''immediateDisable''
    | PERMANENT \<Rightarrow> ''permanent'')"

lemma ET_str_inj [simp]: "ET_str s = ET_str t \<longleftrightarrow> s = t"
  by (cases s; cases t) (simp_all add: ET_str_def)

datatype AlertStatus = AStat_normal | AStat_userPrompt | AStat_critical

datatype AlertSize = ASize_none | ASize_small | ASize_mid | ASize_full

datatype VisualAlert = VA_none | VA_fcw | VA_steerRequired | VA_brakePressed | VA_ldw

datatype AudibleAlert =
    AA_none | AA_engage | AA_disengage | AA_refuse | AA_warningSoft | AA_warningImmediate
  | AA_prompt | AA_promptRepeat | AA_promptDistracted
  | AASP_promptSingleLow | AASP_promptSingleHigh

record Alert =
  alert_text_1 :: string
  alert_text_2 :: string
  alert_status :: AlertStatus
  alert_size :: AlertSize
  alert_priority :: Priority
  visual_alert :: VisualAlert
  audible_alert :: AudibleAlert
  alert_duration :: int \<comment> \<open>frames of \<open>DT_CTRL\<close>\<close>
  creation_delay :: rat \<comment> \<open>seconds\<close>
  alert_type :: string
  event_type :: "ET option"

definition DT_CTRL :: rat where
  "DT_CTRL = 1 / 100"

text \<open>\<open>Alert.__init__\<close>, with the creation delay as an explicit last argument.\<close>

definition mk_Alert_delay :: "string \<Rightarrow> string \<Rightarrow> AlertStatus \<Rightarrow> AlertSize \<Rightarrow> Priority \<Rightarrow>
    VisualAlert \<Rightarrow> AudibleAlert \<Rightarrow> rat \<Rightarrow> rat \<Rightarrow> Alert" where
  "mk_Alert_delay t1 t2 st sz pr va aa dur delay =
     \<lparr>alert_text_1 = t1, alert_text_2 = t2, alert_status = st, alert_size = sz,
      alert_priority = pr, visual_alert = va, audible_alert = aa,
      alert_duration = py_trunc (dur / DT_CTRL), creation_delay = delay,
      alert_type = [], event_type = None\<rparr>"

definition mk_Alert :: "string \<Rightarrow> string \<Rightarrow> AlertStatus \<Rightarrow> AlertSize \<Rightarrow> Priority \<Rightarrow>
    VisualAlert \<Rightarrow> AudibleAlert \<Rightarrow> rat \<Rightarrow> Alert" where
  "mk_Alert t1 t2 st sz pr va aa dur = mk_Alert_delay t1 t2 st sz pr va aa dur 0"

definition alert_gt :: "Alert \<Rightarrow> Alert \<Rightarrow> bool" where
  "alert_gt a b \<longleftrightarrow> alert_priority a > alert_priority b"

definition EmptyAlert :: Alert where
  "EmptyAlert = mk_Alert [] [] AStat_normal ASize_none LOWEST VA_none AA_none 0"

text \<open>
  The subclasses. \<open>mici\<close> says whether \<open>HARDWARE.get_device_type() == 'mici'\<close>, which the code
  asks when the alert is built.
\<close>

definition NoEntryAlert_full :: "bool \<Rightarrow> string \<Rightarrow> string \<Rightarrow> VisualAlert \<Rightarrow> Alert" where
  "NoEntryAlert_full mici text_2 text_1 va =
     (let (t1, t2) = (if mici then (text_2, text_1) else (text_1, text_2))
      in mk_Alert t1 t2 AStat_normal ASize_mid LOW va AA_refuse 3)"

definition NoEntryAlert :: "bool \<Rightarrow> string \<Rightarrow> Alert" where
  "NoEntryAlert mici text_2 = NoEntryAlert_full mici text_2 ''openpilot Unavailable'' VA_none"

definition SoftDisableAlert :: "string \<Rightarrow> Alert" where
  "SoftDisableAlert text_2 =
     mk_Alert ''TAKE CONTROL IMMEDIATELY'' text_2 AStat_userPrompt ASize_full MID
       VA_steerRequired AA_warningSoft 2"

definition UserSoftDisableAlert :: "string \<Rightarrow> Alert" where
  "UserSoftDisableAlert text_2 =
     (SoftDisableAlert text_2)\<lparr>alert_text_1 := ''openpilot will disengage''\<rparr>"

definition ImmediateDisableAlert :: "string \<Rightarrow> Alert" where
  "ImmediateDisableAlert text_2 =
     mk_Alert ''TAKE CONTROL IMMEDIATELY'' text_2 AStat_critical ASize_full HIGHEST
       VA_steerRequired AA_warningImmediate 4"

definition EngagementAlert :: "AudibleAlert \<Rightarrow> Alert" where
  "EngagementAlert aa = mk_Alert [] [] AStat_normal ASize_none MID VA_none aa (2 / 10)"

definition NormalPermanentAlert_full ::
    "string \<Rightarrow> string \<Rightarrow> rat \<Rightarrow> Priority \<Rightarrow> rat \<Rightarrow> Alert" where
  "NormalPermanentAlert_full t1 t2 dur pr delay =
     mk_Alert_delay t1 t2 AStat_normal (if length t2 \<noteq> 0 then ASize_mid else ASize_small)
       pr VA_none AA_none dur delay"

definition NormalPermanentAlert :: "string \<Rightarrow> string \<Rightarrow> Alert" where
  "NormalPermanentAlert t1 t2 = NormalPermanentAlert_full t1 t2 (2 / 10) LOWER 0"

definition startup_default_text :: string where
  "startup_default_text = ''Always keep hands on wheel and eyes on road''"

definition StartupAlert_full :: "bool \<Rightarrow> string \<Rightarrow> string \<Rightarrow> AlertStatus \<Rightarrow> Alert" where
  "StartupAlert_full mici t1 t2 st =
     (let t2' = (if mici \<and> t2 = startup_default_text then [] else t2);
          sz = (if mici then ASize_small else ASize_mid)
      in mk_Alert t1 t2' st sz LOWER VA_none AA_none 5)"

definition StartupAlert :: "bool \<Rightarrow> string \<Rightarrow> Alert" where
  "StartupAlert mici t1 = StartupAlert_full mici t1 startup_default_text AStat_normal"

lemmas alert_defs =
  mk_Alert_def mk_Alert_delay_def NoEntryAlert_def NoEntryAlert_full_def SoftDisableAlert_def
  UserSoftDisableAlert_def ImmediateDisableAlert_def EngagementAlert_def
  NormalPermanentAlert_def NormalPermanentAlert_full_def StartupAlert_def StartupAlert_full_def

section \<open>The event mapping\<close>

text \<open>
  \<open>dict[int, dict[str, Alert | AlertCallbackType]]\<close>: a value is an alert or a function that
  builds one from the callback arguments, of type \<^typ>\<open>'a\<close>. The keys of the inner dictionaries are
  the strings of class \<open>ET\<close>. A lookup may be asked for any Python value; \<open>Event_key\<close> is an event
  number used as a key, which no inner dictionary holds.
\<close>

datatype 'a alert_def = Static Alert | Callback "'a \<Rightarrow> Alert"

type_synonym 'a events_mapping = "(event \<times> (ET \<times> 'a alert_def) list) list"

datatype dict_key = ET_key ET | Event_key event

fun eval_alert :: "'a alert_def \<Rightarrow> 'a \<Rightarrow> Alert" where
  "eval_alert (Static a) args = a"
| "eval_alert (Callback f) args = f args"

definition event_dict :: "'a events_mapping \<Rightarrow> event \<Rightarrow> (ET \<times> 'a alert_def) list" where
  "event_dict m e = (case map_of m e of None \<Rightarrow> [] | Some d \<Rightarrow> d)"

definition event_keys :: "'a events_mapping \<Rightarrow> event \<Rightarrow> dict_key list" where
  "event_keys m e = map (ET_key \<circ> fst) (event_dict m e)"

section \<open>Class EventsBase\<close>

record EventsState =
  events :: "event list"
  static_events :: "event list"
  event_counters :: "event \<rightharpoonup> nat"

text \<open>\<open>__init__\<close> of the two subclasses: all counters of the mapping's keys start at zero.\<close>

definition init_events :: "'a events_mapping \<Rightarrow> EventsState" where
  "init_events m =
     \<lparr>events = [], static_events = [],
      event_counters = map_of (map (\<lambda>(e, d). (e, 0)) m)\<rparr>"

definition add :: "EventsState \<Rightarrow> event \<Rightarrow> EventsState" where
  "add ev e = ev\<lparr>events := bisect_insort (events ev) e\<rparr>"

definition add_static :: "EventsState \<Rightarrow> event \<Rightarrow> EventsState" where
  "add_static ev e =
     (let ev' = ev\<lparr>static_events := bisect_insort (static_events ev) e\<rparr>
      in ev'\<lparr>events := bisect_insort (events ev') e\<rparr>)"

definition clear :: "EventsState \<Rightarrow> EventsState" where
  "clear ev =
     ev\<lparr>event_counters :=
           (\<lambda>k. map_option (\<lambda>v. if k \<in> set (events ev) then v + 1 else 0) (event_counters ev k)),
        events := static_events ev\<rparr>"

definition contains :: "'a events_mapping \<Rightarrow> EventsState \<Rightarrow> dict_key \<Rightarrow> bool" where
  "contains m ev k \<longleftrightarrow> list_ex (\<lambda>e. k \<in> set (event_keys m e)) (events ev)"

definition has :: "EventsState \<Rightarrow> event \<Rightarrow> bool" where
  "has ev e \<longleftrightarrow> e \<in> set (events ev)"

definition contains_in_list :: "EventsState \<Rightarrow> event list \<Rightarrow> bool" where
  "contains_in_list ev es \<longleftrightarrow> list_ex (\<lambda>e. e \<in> set (events ev)) es"

text \<open>
  \<open>remove\<close> (never called with \<open>static=True\<close> in the modelled code; \<open>remove_static\<close> is that variant).
  The counter of a removed event is incremented, a \<open>KeyError\<close> when it has none.
\<close>

definition remove :: "EventsState \<Rightarrow> event \<Rightarrow> EventsState option" where
  "remove ev e =
     (if e \<in> set (events ev)
      then do {
        c \<leftarrow> event_counters ev e;
        Some (ev\<lparr>event_counters := (event_counters ev)(e \<mapsto> c + 1),
                events := remove1 e (events ev)\<rparr>)
      }
      else Some ev)"

definition remove_static :: "EventsState \<Rightarrow> event \<Rightarrow> EventsState option" where
  "remove_static ev e = remove (ev\<lparr>static_events := remove1 e (static_events ev)\<rparr>) e"

fun add_from_msg :: "EventsState \<Rightarrow> event list \<Rightarrow> EventsState" where
  "add_from_msg ev [] = ev"
| "add_from_msg ev (e # es) = add_from_msg (ev\<lparr>events := bisect_insort (events ev) e\<rparr>) es"

text \<open>A message entry: the event's name and the event types set to true.\<close>

definition to_msg :: "'a events_mapping \<Rightarrow> EventsState \<Rightarrow> (event \<times> ET list) list" where
  "to_msg m ev = map (\<lambda>e. (e, map fst (event_dict m e))) (events ev)"

text \<open>
  \<open>create_alerts\<close>. The inner loop runs over the requested event types, the outer one over the
  events; \<open>mapping[e]\<close>, \<open>event_counters[e]\<close> and the name table raise \<open>KeyError\<close> on a missing key.
\<close>

definition stamp_alert :: "string \<Rightarrow> ET \<Rightarrow> Alert \<Rightarrow> Alert" where
  "stamp_alert name et a =
     a\<lparr>alert_type := name @ ''/'' @ ET_str et, event_type := Some et\<rparr>"

fun alerts_of_event :: "(event \<times> string) list \<Rightarrow> (event \<rightharpoonup> nat) \<Rightarrow> 'a \<Rightarrow> event \<Rightarrow>
    (ET \<times> 'a alert_def) list \<Rightarrow> ET list \<Rightarrow> Alert list option" where
  "alerts_of_event names cnt args e d [] = Some []"
| "alerts_of_event names cnt args e d (et # ets) =
     (case map_of d et of
        None \<Rightarrow> alerts_of_event names cnt args e d ets
      | Some ad \<Rightarrow> do {
          let a = eval_alert ad args;
          c \<leftarrow> cnt e;
          if DT_CTRL * of_nat (c + 1) \<ge> creation_delay a
          then do {
            name \<leftarrow> map_of names e;
            rest \<leftarrow> alerts_of_event names cnt args e d ets;
            Some (stamp_alert name et a # rest)
          }
          else alerts_of_event names cnt args e d ets
        })"

fun create_alerts_from :: "'a events_mapping \<Rightarrow> (event \<times> string) list \<Rightarrow> (event \<rightharpoonup> nat) \<Rightarrow> 'a \<Rightarrow>
    ET list \<Rightarrow> event list \<Rightarrow> Alert list option" where
  "create_alerts_from m names cnt args ets [] = Some []"
| "create_alerts_from m names cnt args ets (e # es) = do {
     d \<leftarrow> map_of m e;
     xs \<leftarrow> alerts_of_event names cnt args e d ets;
     ys \<leftarrow> create_alerts_from m names cnt args ets es;
     Some (xs @ ys)
   }"

definition create_alerts :: "'a events_mapping \<Rightarrow> (event \<times> string) list \<Rightarrow> EventsState \<Rightarrow>
    ET list \<Rightarrow> 'a \<Rightarrow> Alert list option" where
  "create_alerts m names ev ets args =
     create_alerts_from m names (event_counters ev) args ets (events ev)"

section \<open>Well-formed event states\<close>

text \<open>
  The invariant of the class for a set \<open>K\<close> of known events (the keys of the mapping): both lists
  are sorted, hold known events only, and exactly the known events have counters.
\<close>

definition wf_events :: "event set \<Rightarrow> EventsState \<Rightarrow> bool" where
  "wf_events K ev \<longleftrightarrow>
     sorted (events ev) \<and> sorted (static_events ev)
     \<and> set (events ev) \<subseteq> K \<and> set (static_events ev) \<subseteq> K \<and> dom (event_counters ev) = K"

definition drop_event :: "EventsState \<Rightarrow> event \<Rightarrow> EventsState" where
  "drop_event ev e = the (remove ev e)"

lemma wf_init [ev_intros]: "K = fst ` set m \<Longrightarrow> wf_events K (init_events m)"
  by (simp add: wf_events_def init_events_def dom_map_of_conv_image_fst image_image split_def)

lemma wf_add [ev_intros]: "wf_events K ev \<Longrightarrow> e \<in> K \<Longrightarrow> wf_events K (add ev e)"
  by (auto simp: wf_events_def add_def sorted_bisect_insort)

lemma wf_add_static [ev_intros]:
  "wf_events K ev \<Longrightarrow> e \<in> K \<Longrightarrow> wf_events K (add_static ev e)"
  by (auto simp: wf_events_def add_static_def sorted_bisect_insort Let_def)

lemma wf_clear [ev_intros]: "wf_events K ev \<Longrightarrow> wf_events K (clear ev)"
  by (auto simp: wf_events_def clear_def dom_def)

lemma wf_counter: "wf_events K ev \<Longrightarrow> e \<in> set (events ev) \<Longrightarrow> \<exists>c. event_counters ev e = Some c"
  by (auto simp: wf_events_def)

lemma remove_eq_Some: "wf_events K ev \<Longrightarrow> remove ev e = Some (drop_event ev e)"
  by (auto simp: remove_def drop_event_def dest: wf_counter)

lemma events_drop: "wf_events K ev \<Longrightarrow> events (drop_event ev e) = remove1 e (events ev)"
  by (auto simp: remove_def drop_event_def remove1_idem dest: wf_counter)

lemma static_events_drop: "wf_events K ev \<Longrightarrow> static_events (drop_event ev e) = static_events ev"
  by (auto simp: remove_def drop_event_def dest: wf_counter)

lemma wf_drop [ev_intros]: "wf_events K ev \<Longrightarrow> wf_events K (drop_event ev e)"
  unfolding drop_event_def
  by (auto simp: wf_events_def remove_def dest: notin_set_remove1 intro: sorted_remove1
      split: option.splits bind_splits)

lemma wf_add_from_msg [ev_intros]:
  "wf_events K ev \<Longrightarrow> set es \<subseteq> K \<Longrightarrow> wf_events K (add_from_msg ev es)"
proof (induction es arbitrary: ev)
  case (Cons e es)
  have "wf_events K (add ev e)"
    using Cons.prems by (auto intro: wf_add)
  with Cons show ?case
    by (simp add: add_def)
qed simp

section \<open>What the queries see after an operation\<close>

lemma events_add [ev_simps]: "set (events (add ev e)) = insert e (set (events ev))"
  by (simp add: add_def)

lemma has_add [ev_simps]: "has (add ev e) e' \<longleftrightarrow> e' = e \<or> has ev e'"
  by (auto simp: has_def ev_simps)

lemma contains_add [ev_simps]:
  "contains m (add ev e) k \<longleftrightarrow> k \<in> set (event_keys m e) \<or> contains m ev k"
  by (auto simp: contains_def list_ex_iff ev_simps)

lemma has_clear [ev_simps]: "has (clear ev) e \<longleftrightarrow> e \<in> set (static_events ev)"
  by (simp add: has_def clear_def)

lemma has_drop_other: "wf_events K ev \<Longrightarrow> e' \<noteq> e \<Longrightarrow> has (drop_event ev e) e' = has ev e'"
  by (simp add: has_def events_drop)

lemma has_drop_imp: "wf_events K ev \<Longrightarrow> has (drop_event ev e) e' \<Longrightarrow> has ev e'"
  using set_remove1_subset [of e "events ev"] by (auto simp: has_def events_drop)

lemma drop_event_absent: "\<not> has ev e \<Longrightarrow> drop_event ev e = ev"
  by (simp add: drop_event_def remove_def has_def)

lemma events_add_eq: "wf_events K ev \<Longrightarrow> events (add ev e) = insort e (events ev)"
  by (simp add: wf_events_def add_def bisect_insort_eq_insort)

text \<open>An event number is never an event type, so no event "contains" it.\<close>

lemma contains_Event_key [simp]: "\<not> contains m ev (Event_key n)"
  by (auto simp: contains_def event_keys_def list_ex_iff)

lemma contains_iff:
  "contains m ev (ET_key t) \<longleftrightarrow> (\<exists>e\<in>set (events ev). t \<in> fst ` set (event_dict m e))"
  by (auto simp: contains_def event_keys_def list_ex_iff)

lemma static_events_simps [ev_simps]:
  "static_events (add ev e) = static_events ev"
  "static_events (clear ev) = static_events ev"
  by (simp_all add: add_def clear_def)

lemma event_counters_add [ev_simps]: "event_counters (add ev e) = event_counters ev"
  by (simp add: add_def)

lemma events_add_from_msg:
  "mset (events (add_from_msg ev es)) = mset (events ev) + mset es"
  by (induction es arbitrary: ev) auto

lemma set_add_from_msg [ev_simps]:
  "set (events (add_from_msg ev es)) = set (events ev) \<union> set es"
  by (metis events_add_from_msg set_mset_mset set_mset_union)

text \<open>Republishing the events of a message: \<open>to_msg\<close> then \<open>add_from_msg\<close> keeps the list.\<close>

lemma add_from_msg_to_msg:
  assumes "wf_events K ev" "events ev0 = []"
  shows "events (add_from_msg ev0 (map fst (to_msg m ev))) = events ev"
proof -
  have names: "map fst (to_msg m ev) = events ev"
    by (simp add: to_msg_def o_def)
  have "sorted (events (add_from_msg ev0 es))" for es
    using \<open>events ev0 = []\<close>
  proof (induction es arbitrary: ev0 rule: rev_induct)
    case (snoc e es)
    have "add_from_msg ev0 (xs @ ys) = add_from_msg (add_from_msg ev0 xs) ys" for ev0 xs ys
      by (induction xs arbitrary: ev0) auto
    with snoc show ?case
      by (simp add: sorted_bisect_insort)
  qed simp
  moreover have "mset (events (add_from_msg ev0 (events ev))) = mset (events ev)"
    using assms by (simp add: events_add_from_msg)
  moreover have "sorted (events ev)"
    using assms by (simp add: wf_events_def)
  ultimately show ?thesis
    by (metis names properties_for_sort)
qed

section \<open>Alert creation never raises on a well-formed state\<close>

lemma alerts_of_event_Some:
  assumes "cnt e = Some c" "map_of names e = Some n"
  shows "\<exists>xs. alerts_of_event names cnt args e d ets = Some xs"
proof (induction ets)
  case (Cons et ets)
  then obtain xs where "alerts_of_event names cnt args e d ets = Some xs"
    by blast
  with assms show ?case
    by (cases "map_of d et") (simp_all add: Let_def)
qed simp

lemma create_alerts_from_Some:
  "\<forall>e\<in>set es. e \<in> dom cnt \<and> e \<in> fst ` set m \<and> e \<in> fst ` set names \<Longrightarrow>
     \<exists>xs. create_alerts_from m names cnt args ets es = Some xs"
proof (induction es)
  case (Cons e es)
  from Cons.prems have "e \<in> dom cnt" "e \<in> dom (map_of m)" "e \<in> dom (map_of names)"
    unfolding dom_map_of_conv_image_fst by (blast intro: list.set_intros)+
  then obtain d n c where e: "map_of m e = Some d" "map_of names e = Some n" "cnt e = Some c"
    by blast
  obtain xs where "alerts_of_event names cnt args e d ets = Some xs"
    using alerts_of_event_Some [of cnt e c names n args d ets] e by blast
  moreover obtain ys where "create_alerts_from m names cnt args ets es = Some ys"
    using Cons.IH Cons.prems by auto
  ultimately show ?case
    using e by simp
qed simp

lemma create_alerts_Some:
  assumes "wf_events (fst ` set m) ev" "fst ` set m \<subseteq> fst ` set names"
  shows "\<exists>xs. create_alerts m names ev ets args = Some xs"
  unfolding create_alerts_def
  using assms by (intro create_alerts_from_Some) (auto simp: wf_events_def)

section \<open>The interface of an event log\<close>

text \<open>
  What the clients of the class rely on (\<open>SelfdriveD\<close>, MADS and the car-specific events insert,
  test and delete events by name): a sorted log of known events in which a deletion never fails.
\<close>

locale event_log =
  fixes names :: "'s \<Rightarrow> event list"
    and insert_ev :: "'s \<Rightarrow> event \<Rightarrow> 's"
    and delete_ev :: "'s \<Rightarrow> event \<Rightarrow> 's option"
    and inv :: "'s \<Rightarrow> bool"
    and known :: "event set"
  assumes names_sorted: "inv s \<Longrightarrow> sorted (names s)"
    and names_known: "inv s \<Longrightarrow> set (names s) \<subseteq> known"
    and insert_inv: "inv s \<Longrightarrow> e \<in> known \<Longrightarrow> inv (insert_ev s e)"
    and insert_names: "inv s \<Longrightarrow> e \<in> known \<Longrightarrow>
           mset (names (insert_ev s e)) = add_mset e (mset (names s))"
    and delete_names: "inv s \<Longrightarrow>
           \<exists>s'. delete_ev s e = Some s' \<and> inv s' \<and> names s' = remove1 e (names s)"
begin

lemma delete_total: "inv s \<Longrightarrow> delete_ev s e \<noteq> None"
  by (metis delete_names option.distinct(1))

lemma delete_inv: "inv s \<Longrightarrow> delete_ev s e = Some s' \<Longrightarrow> inv s'"
  by (metis delete_names option.inject)

lemma insert_insort: "inv s \<Longrightarrow> e \<in> known \<Longrightarrow> names (insert_ev s e) = insort e (names s)"
  by (metis insert_inv insert_names mset_insort names_sorted properties_for_sort sorted_insort)

lemma insert_delete:
  "inv s \<Longrightarrow> e \<in> known \<Longrightarrow> delete_ev (insert_ev s e) e = Some s' \<Longrightarrow> names s' = names s"
  using delete_names [OF insert_inv, of s e e]
  by (auto simp: insert_insort remove1_insort_key)

text \<open>Replacing one event by another in two logs (\<open>replace_event\<close> of MADS).\<close>

lemma delete_count:
  "inv s \<Longrightarrow> delete_ev s e = Some s' \<Longrightarrow>
     count_list (names s') x = count_list (names s) x - (if x = e then 1 else 0)"
  using delete_names [of s e] by (auto simp: count_list_remove1)

end

lemma count_events_add [ev_simps]:
  "count_list (events (add ev e)) x = count_list (events ev) x + (if x = e then 1 else 0)"
  by (simp add: add_def flip: count_mset)

section \<open>Properties\<close>

text \<open>Publishing a log with \<open>to_msg\<close> and reading the message back with
  \<open>add_from_msg\<close> into an empty log gives the same events, and the flags of the message name exactly the
  event types the log contains.\<close>

theorem event_message_roundtrip:
  assumes "wf_events K ev" "events ev0 = []"
  shows "events (add_from_msg ev0 (map fst (to_msg m ev))) = events ev
    \<and> (\<forall>t. contains m ev (ET_key t) \<longleftrightarrow> list_ex (\<lambda>(e, ts). t \<in> set ts) (to_msg m ev))"
  using add_from_msg_to_msg [OF assms] by (auto simp: contains_iff to_msg_def list_ex_iff)

definition two_events :: "unit events_mapping" where
  "two_events = [(3, []), (5, [])]"

theorem event_message_roundtrip_witness:
  "events (add_from_msg (init_events two_events)
     (map fst (to_msg two_events (add (add (init_events two_events) 5) 3)))) = [3, 5]"
proof -
  have "wf_events {3, 5} (add (add (init_events two_events) 5) 3)"
    by (intro ev_intros) (auto simp: two_events_def)
  moreover have "events (init_events two_events) = []"
    by (simp add: init_events_def)
  ultimately have "events (add_from_msg (init_events two_events)
      (map fst (to_msg two_events (add (add (init_events two_events) 5) 3))))
      = events (add (add (init_events two_events) 5) 3)"
    using event_message_roundtrip by blast
  also have "\<dots> = [3, 5]"
    by code_simp
  finally show ?thesis .
qed

end
