(* ===== verification/AlertManager.thy ===== *)
theory AlertManager
  imports EventsBase
begin

text \<open>
  \<open>selfdrive/selfdrived/alertmanager.py\<close>: the alerts that are on screen for a while after their
  event, and the choice of the one that is shown. The dictionary of entries is an association list
  in insertion order, because ties are resolved by the iteration order.
\<close>

section \<open>Offroad alerts\<close>

record OffroadAlert =
  oa_text :: string
  oa_severity :: int
  oa_extra :: string

text \<open>
  The file \<open>alerts_offroad.json\<close> is the argument \<open>OFFROAD_ALERTS\<close>, the parameter store the map
  \<open>params\<close>. An unknown name raises \<open>KeyError\<close> when the alert is to be shown.
\<close>

definition set_offroad_alert :: "(string \<rightharpoonup> OffroadAlert) \<Rightarrow> string \<Rightarrow> bool \<Rightarrow> string option \<Rightarrow>
    (string \<rightharpoonup> OffroadAlert) \<Rightarrow> (string \<rightharpoonup> OffroadAlert) option" where
  "set_offroad_alert OFFROAD_ALERTS alert show_alert extra_text params =
     (if show_alert
      then do {
        a \<leftarrow> OFFROAD_ALERTS alert;
        Some (params(alert \<mapsto> a\<lparr>oa_extra := (case extra_text of None \<Rightarrow> [] | Some t \<Rightarrow> t)\<rparr>))
      }
      else Some (params(alert := None)))"

section \<open>Alert entries\<close>

record AlertEntry =
  ae_alert :: "Alert option"
  start_frame :: int
  end_frame :: int
  added_frame :: int

definition new_AlertEntry :: AlertEntry where
  "new_AlertEntry = \<lparr>ae_alert = None, start_frame = -1, end_frame = -1, added_frame = -1\<rparr>"

definition ae_active :: "AlertEntry \<Rightarrow> int \<Rightarrow> bool" where
  "ae_active e fr \<longleftrightarrow> fr \<le> end_frame e"

definition just_added :: "AlertEntry \<Rightarrow> int \<Rightarrow> bool" where
  "just_added e fr \<longleftrightarrow> ae_active e fr \<and> fr = added_frame e + 1"

section \<open>Class AlertManager\<close>

record AlertManager =
  am_alerts :: "(string \<times> AlertEntry) list"
  current_alert :: Alert

definition new_AlertManager :: AlertManager where
  "new_AlertManager = \<lparr>am_alerts = [], current_alert = EmptyAlert\<rparr>"

text \<open>The body of the loop of \<open>add_many\<close> on the entry of one alert type.\<close>

definition refresh_entry :: "int \<Rightarrow> Alert \<Rightarrow> AlertEntry \<Rightarrow> AlertEntry" where
  "refresh_entry fr alert entry =
     (let e1 = entry\<lparr>ae_alert := Some alert\<rparr>;
          e2 = (if \<not> just_added e1 fr then e1\<lparr>start_frame := fr\<rparr> else e1);
          min_end_frame = start_frame e2 + alert_duration alert
      in e2\<lparr>end_frame := max (fr + 1) min_end_frame, added_frame := fr\<rparr>)"

definition add_alert :: "int \<Rightarrow> Alert \<Rightarrow> (string \<times> AlertEntry) list \<Rightarrow> (string \<times> AlertEntry) list" where
  "add_alert fr alert d =
     dict_set (alert_type alert)
       (refresh_entry fr alert (dict_get new_AlertEntry d (alert_type alert))) d"

definition add_many :: "int \<Rightarrow> Alert list \<Rightarrow> AlertManager \<Rightarrow> AlertManager" where
  "add_many fr alerts am = am\<lparr>am_alerts := fold (add_alert fr) alerts (am_alerts am)\<rparr>"

text \<open>\<open>process_alerts\<close>: the entries after clearing, and the entry chosen so far.\<close>

definition clear_entry :: "ET set \<Rightarrow> AlertEntry \<Rightarrow> AlertEntry" where
  "clear_entry clear_event_types v =
     (case ae_alert v of
        None \<Rightarrow> v
      | Some a \<Rightarrow> if event_type a \<in> Some ` clear_event_types then v\<lparr>end_frame := -1\<rparr> else v)"

definition tuple_gt :: "Priority \<times> int \<Rightarrow> Priority \<times> int \<Rightarrow> bool" where
  "tuple_gt x y \<longleftrightarrow> fst x > fst y \<or> (fst x = fst y \<and> snd x > snd y)"

definition is_greater :: "AlertEntry \<Rightarrow> AlertEntry \<Rightarrow> bool" where
  "is_greater v ae \<longleftrightarrow>
     (case (ae_alert v, ae_alert ae) of
        (Some a, Some b) \<Rightarrow>
          tuple_gt (alert_priority a, start_frame v) (alert_priority b, start_frame ae)
      | (_, None) \<Rightarrow> True
      | (None, _) \<Rightarrow> False)"

fun choose_alert :: "int \<Rightarrow> ET set \<Rightarrow> AlertEntry \<Rightarrow> AlertEntry list \<Rightarrow> AlertEntry" where
  "choose_alert fr clr ae [] = ae"
| "choose_alert fr clr ae (v # vs) =
     (if ae_alert v = None then choose_alert fr clr ae vs
      else let v' = clear_entry clr v
           in if ae_active v' fr \<and> is_greater v' ae then choose_alert fr clr v' vs
              else choose_alert fr clr ae vs)"

definition process_alerts :: "int \<Rightarrow> ET set \<Rightarrow> AlertManager \<Rightarrow> AlertManager" where
  "process_alerts fr clr am =
     (let ae = choose_alert fr clr new_AlertEntry (map snd (am_alerts am))
      in \<lparr>am_alerts = map (\<lambda>(k, v). (k, clear_entry clr v)) (am_alerts am),
          current_alert = (case ae_alert ae of None \<Rightarrow> EmptyAlert | Some a \<Rightarrow> a)\<rparr>)"

section \<open>The shown alert is the greatest active one\<close>

text \<open>
  The specification: among the entries that are active after clearing, the shown alert has the
  greatest pair of priority and start frame, and nothing is shown when no entry is active.
\<close>

definition candidates :: "int \<Rightarrow> ET set \<Rightarrow> AlertEntry list \<Rightarrow> AlertEntry list" where
  "candidates fr clr vs = filter (\<lambda>v. ae_alert v \<noteq> None \<and> ae_active v fr) (map (clear_entry clr) vs)"

definition rank :: "AlertEntry \<Rightarrow> Priority \<times> int" where
  "rank v = (alert_priority (the (ae_alert v)), start_frame v)"

lemma tuple_gt_irrefl [simp]: "\<not> tuple_gt x x"
  by (simp add: tuple_gt_def)

lemma tuple_gt_trans: "tuple_gt x y \<Longrightarrow> tuple_gt y z \<Longrightarrow> tuple_gt x z"
  by (auto simp: tuple_gt_def)

lemma tuple_not_gt_trans: "\<not> tuple_gt x y \<Longrightarrow> \<not> tuple_gt y z \<Longrightarrow> \<not> tuple_gt x z"
  by (auto simp: tuple_gt_def)

lemma tuple_gt_asym: "tuple_gt x y \<Longrightarrow> \<not> tuple_gt y x"
  by (auto simp: tuple_gt_def)

lemma tuple_gt_or: "tuple_gt x y \<Longrightarrow> \<not> tuple_gt z y \<Longrightarrow> tuple_gt x z"
  by (auto simp: tuple_gt_def)

lemma ae_alert_clear [simp]: "ae_alert (clear_entry clr v) = ae_alert v"
  by (simp add: clear_entry_def split: option.splits)

lemma clear_entry_cleared:
  "ae_alert v = Some a \<Longrightarrow> event_type a \<in> Some ` clr \<Longrightarrow> end_frame (clear_entry clr v) = -1"
  by (simp add: clear_entry_def)

lemma candidates_simps [simp]:
  "candidates fr clr [] = []"
  "candidates fr clr (v # vs) =
     (if ae_alert v \<noteq> None \<and> ae_active (clear_entry clr v) fr
      then clear_entry clr v # candidates fr clr vs else candidates fr clr vs)"
  by (simp_all add: candidates_def)

text \<open>The loop is a fold over the candidates.\<close>

definition keep_greater :: "AlertEntry \<Rightarrow> AlertEntry \<Rightarrow> AlertEntry" where
  "keep_greater ae v = (if is_greater v ae then v else ae)"

lemma choose_alert_foldl:
  "choose_alert fr clr ae vs = foldl keep_greater ae (candidates fr clr vs)"
  by (induction fr clr ae vs rule: choose_alert.induct) (auto simp: Let_def keep_greater_def)

lemma is_greater_rank:
  "ae_alert v \<noteq> None \<Longrightarrow> ae_alert ae \<noteq> None \<Longrightarrow> is_greater v ae \<longleftrightarrow> tuple_gt (rank v) (rank ae)"
  by (auto simp: is_greater_def rank_def)

text \<open>
  A split of a list at its winner: everything before it is strictly smaller, nothing after it is
  greater. The winner is unique.
\<close>

definition wins :: "AlertEntry \<Rightarrow> AlertEntry list \<Rightarrow> bool" where
  "wins v vs \<longleftrightarrow> (\<exists>xs ys. vs = xs @ v # ys \<and> (\<forall>w\<in>set xs. tuple_gt (rank v) (rank w))
      \<and> (\<forall>w\<in>set ys. \<not> tuple_gt (rank w) (rank v)))"

lemma wins_singleton [simp]: "wins v [v]"
  by (force simp: wins_def)

lemma wins_mem: "wins v vs \<Longrightarrow> v \<in> set vs"
  by (auto simp: wins_def)

lemma wins_max: "wins v vs \<Longrightarrow> w \<in> set vs \<Longrightarrow> \<not> tuple_gt (rank w) (rank v)"
  by (auto simp: wins_def) (metis tuple_gt_asym)

lemma wins_snoc_keep: "wins v vs \<Longrightarrow> \<not> tuple_gt (rank w) (rank v) \<Longrightarrow> wins v (vs @ [w])"
  unfolding wins_def
  by (elim exE conjE, rename_tac xs ys, rule_tac x = xs in exI, rule_tac x = "ys @ [w]" in exI) auto

lemma wins_snoc_replace:
  assumes "wins v vs" "tuple_gt (rank w) (rank v)"
  shows "wins w (vs @ [w])"
proof -
  have "\<forall>u\<in>set vs. tuple_gt (rank w) (rank u)"
    using assms(2) wins_max [OF assms(1)] tuple_gt_or by blast
  then show ?thesis
    unfolding wins_def by (intro exI [of _ vs] exI [of _ "[]"]) simp
qed

lemma foldl_keep_greater_wins:
  assumes "ae_alert v \<noteq> None" "\<forall>w\<in>set vs. ae_alert w \<noteq> None"
  shows "wins (foldl keep_greater v vs) (v # vs)"
  using assms(2)
proof (induction vs rule: rev_induct)
  case (snoc w ws)
  let ?r = "foldl keep_greater v ws"
  have r: "wins ?r (v # ws)"
    using snoc by simp
  then have "ae_alert ?r \<noteq> None"
    using wins_mem [OF r] assms(1) snoc.prems by auto
  then have "is_greater w ?r \<longleftrightarrow> tuple_gt (rank w) (rank ?r)"
    using snoc.prems by (simp add: is_greater_rank)
  then have "foldl keep_greater v (ws @ [w]) = (if tuple_gt (rank w) (rank ?r) then w else ?r)"
    by (simp add: keep_greater_def)
  then show ?case
    using wins_snoc_keep [OF r, of w] wins_snoc_replace [OF r, of w] by simp
qed simp

lemma candidates_alert: "v \<in> set (candidates fr clr vs) \<Longrightarrow> ae_alert v \<noteq> None"
  by (auto simp: candidates_def)

lemma choose_alert_wins:
  assumes "candidates fr clr vs \<noteq> []"
  shows "wins (choose_alert fr clr new_AlertEntry vs) (candidates fr clr vs)"
proof -
  obtain c cs where c: "candidates fr clr vs = c # cs"
    using assms by (cases "candidates fr clr vs") auto
  have "keep_greater new_AlertEntry c = c"
    by (auto simp: keep_greater_def is_greater_def new_AlertEntry_def split: option.splits)
  then show ?thesis
    using foldl_keep_greater_wins [of c cs] candidates_alert [of _ fr clr vs]
    by (simp add: choose_alert_foldl c)
qed

lemma choose_alert_none:
  "candidates fr clr vs = [] \<Longrightarrow> choose_alert fr clr new_AlertEntry vs = new_AlertEntry"
  by (simp add: choose_alert_foldl)

section \<open>Entries of the dictionary\<close>

lemma add_alert_entry:
  "map_of (add_alert fr alert d) (alert_type alert) =
     Some (refresh_entry fr alert (dict_get new_AlertEntry d (alert_type alert)))"
  by (simp add: add_alert_def map_of_dict_set)

lemma add_alert_other:
  "k \<noteq> alert_type alert \<Longrightarrow> map_of (add_alert fr alert d) k = map_of d k"
  by (simp add: add_alert_def map_of_dict_set)

lemma refresh_entry_fields [simp]:
  "ae_alert (refresh_entry fr a e) = Some a"
  "added_frame (refresh_entry fr a e) = fr"
  "fr + 1 \<le> end_frame (refresh_entry fr a e)"
  by (auto simp: refresh_entry_def Let_def)

text \<open>An alert that is renewed in consecutive frames keeps its start frame.\<close>

lemma refresh_entry_start:
  "start_frame (refresh_entry fr a e) = (if just_added e fr then start_frame e else fr)"
  by (auto simp: refresh_entry_def just_added_def ae_active_def Let_def)

lemma add_many_untouched:
  "k \<notin> alert_type ` set alerts \<Longrightarrow> map_of (am_alerts (add_many fr alerts am)) k = map_of (am_alerts am) k"
proof -
  have "k \<notin> alert_type ` set alerts \<Longrightarrow> map_of (fold (add_alert fr) alerts d) k = map_of d k" for d
    by (induction alerts arbitrary: d) (auto simp: add_alert_other)
  then show "k \<notin> alert_type ` set alerts \<Longrightarrow> ?thesis"
    by (simp add: add_many_def)
qed

lemma add_many_touched:
  assumes "k \<in> alert_type ` set alerts"
  shows "\<exists>e. map_of (am_alerts (add_many fr alerts am)) k = Some e \<and> added_frame e = fr
    \<and> fr + 1 \<le> end_frame e \<and> (\<exists>a\<in>set alerts. alert_type a = k \<and> ae_alert e = Some a)"
proof -
  have "\<exists>e. map_of (fold (add_alert fr) alerts d) k = Some e \<and> added_frame e = fr
    \<and> fr + 1 \<le> end_frame e \<and> (\<exists>a\<in>set alerts. alert_type a = k \<and> ae_alert e = Some a)" for d
    using assms
  proof (induction alerts rule: rev_induct)
    case (snoc b bs)
    show ?case
    proof (cases "alert_type b = k")
      case True
      then show ?thesis
        using add_alert_entry [of fr b "fold (add_alert fr) bs d"] by auto
    next
      case False
      with snoc show ?thesis
        by (auto simp: add_alert_other)
    qed
  qed simp
  then show ?thesis
    by (simp add: add_many_def)
qed

section \<open>Properties\<close>

text \<open>The alert shown after \<open>process_alerts\<close> is that of an entry that is active after
  clearing and has the greatest pair of priority and start frame among the active entries; the empty
  alert is shown exactly when no entry is active.\<close>

theorem shown_alert_is_greatest:
  "let cs = candidates fr clr (map snd (am_alerts am)) in
   (cs = [] \<and> current_alert (process_alerts fr clr am) = EmptyAlert)
   \<or> (\<exists>v\<in>set cs. wins v cs \<and> current_alert (process_alerts fr clr am) = the (ae_alert v)
        \<and> list_all (\<lambda>w. \<not> tuple_gt (rank w) (rank v)) cs)"
proof (cases "candidates fr clr (map snd (am_alerts am)) = []")
  case True
  then show ?thesis
    by (simp add: process_alerts_def choose_alert_none) (simp add: new_AlertEntry_def)
next
  case False
  let ?cs = "candidates fr clr (map snd (am_alerts am))"
  let ?v = "choose_alert fr clr new_AlertEntry (map snd (am_alerts am))"
  have v: "wins ?v ?cs"
    by (rule choose_alert_wins [OF False])
  then obtain a where "ae_alert ?v = Some a"
    using candidates_alert [OF wins_mem [OF v]] by auto
  then have "current_alert (process_alerts fr clr am) = the (ae_alert ?v)"
    by (simp add: process_alerts_def Let_def)
  then show ?thesis
    using v wins_mem [OF v] wins_max [OF v] by (auto simp: Let_def list_all_iff)
qed

text \<open>An alert type that was raised this frame and not cleared is shown for at least
  this frame: its entry ends later than the frame, holds the last alert raised with that type, and an
  alert renewed in consecutive frames keeps its start frame. Types that were not raised keep their
  entry.\<close>

theorem raised_alert_is_active:
  "(if k \<in> alert_type ` set alerts
    then (\<exists>e. map_of (am_alerts (add_many fr alerts am)) k = Some e \<and> ae_active e fr
            \<and> added_frame e = fr \<and> (\<exists>a\<in>set alerts. alert_type a = k \<and> ae_alert e = Some a))
    else map_of (am_alerts (add_many fr alerts am)) k = map_of (am_alerts am) k)
   \<and> start_frame (refresh_entry fr a e) = (if just_added e fr then start_frame e else fr)"
  using add_many_touched [of k alerts fr am] add_many_untouched [of k alerts fr am] refresh_entry_start [of fr a e]
  by (auto simp: ae_active_def)

end
