(* ===== verification/StateMachine.thy ===== *)
theory StateMachine
  imports EventsBase
begin

text \<open>
  \<open>selfdrive/selfdrived/state.py\<close>: the engagement state machine of \<open>selfdrived\<close>. It reads the events
  only through \<open>contains\<close>, so the step is a function of that query. The interface
  \<open>engagement_machine\<close> states what an engagement machine promises; the MADS machine shares it.
\<close>

section \<open>Class StateMachine\<close>

datatype OpenpilotState = S_disabled | S_preEnabled | S_enabled | S_softDisabling | S_overriding

definition SOFT_DISABLE_TIME :: rat where "SOFT_DISABLE_TIME = 3"

definition SOFT_DISABLE_FRAMES :: int where
  "SOFT_DISABLE_FRAMES = py_trunc (SOFT_DISABLE_TIME / DT_CTRL)"

lemma SOFT_DISABLE_FRAMES_eval [simp]: "SOFT_DISABLE_FRAMES = 300"
  by (simp add: SOFT_DISABLE_FRAMES_def SOFT_DISABLE_TIME_def DT_CTRL_def py_trunc_def)

definition ACTIVE_STATES :: "OpenpilotState list" where
  "ACTIVE_STATES = [S_enabled, S_softDisabling, S_overriding]"

definition ENABLED_STATES :: "OpenpilotState list" where
  "ENABLED_STATES = S_preEnabled # ACTIVE_STATES"

record StateMachine =
  current_alert_types :: "ET list"
  sm_state :: OpenpilotState
  soft_disable_timer :: int

definition new_StateMachine :: StateMachine where
  "new_StateMachine =
     \<lparr>current_alert_types = [PERMANENT], sm_state = S_disabled, soft_disable_timer = 0\<rparr>"

definition alert_with :: "ET list \<Rightarrow> StateMachine \<Rightarrow> StateMachine" where
  "alert_with ts s = s\<lparr>current_alert_types := current_alert_types s @ ts\<rparr>"

definition go :: "OpenpilotState \<Rightarrow> StateMachine \<Rightarrow> StateMachine" where
  "go st s = s\<lparr>sm_state := st\<rparr>"

definition start_soft_disabling :: "StateMachine \<Rightarrow> StateMachine" where
  "start_soft_disabling s =
     alert_with [SOFT_DISABLE] ((go S_softDisabling s)\<lparr>soft_disable_timer := SOFT_DISABLE_FRAMES\<rparr>)"

text \<open>\<open>update\<close>, with \<open>c\<close> for \<open>events.contains\<close>: the new machine and the pair (enabled, active).\<close>

definition update_with :: "(ET \<Rightarrow> bool) \<Rightarrow> StateMachine \<Rightarrow> StateMachine \<times> bool \<times> bool" where
  "update_with c sm0 =
     (let sm = sm0\<lparr>soft_disable_timer := max 0 (soft_disable_timer sm0 - 1),
                   current_alert_types := [PERMANENT]\<rparr>;
          sm1 =
            (if sm_state sm \<noteq> S_disabled then
               (if c USER_DISABLE then alert_with [USER_DISABLE] (go S_disabled sm)
                else if c IMMEDIATE_DISABLE then alert_with [IMMEDIATE_DISABLE] (go S_disabled sm)
                else (case sm_state sm of
                   S_enabled \<Rightarrow>
                     if c SOFT_DISABLE then start_soft_disabling sm
                     else if c OVERRIDE_LATERAL \<or> c OVERRIDE_LONGITUDINAL
                     then alert_with [OVERRIDE_LATERAL, OVERRIDE_LONGITUDINAL] (go S_overriding sm)
                     else sm
                 | S_softDisabling \<Rightarrow>
                     if \<not> c SOFT_DISABLE then go S_enabled sm
                     else if soft_disable_timer sm > 0 then alert_with [SOFT_DISABLE] sm
                     else if soft_disable_timer sm \<le> 0 then go S_disabled sm
                     else sm
                 | S_preEnabled \<Rightarrow>
                     if \<not> c PRE_ENABLE then go S_enabled sm
                     else alert_with [PRE_ENABLE] sm
                 | S_overriding \<Rightarrow>
                     if c SOFT_DISABLE then start_soft_disabling sm
                     else if \<not> (c OVERRIDE_LATERAL \<or> c OVERRIDE_LONGITUDINAL) then go S_enabled sm
                     else alert_with [OVERRIDE_LATERAL, OVERRIDE_LONGITUDINAL] sm
                 | S_disabled \<Rightarrow> sm))
             else
               (if c ENABLE then
                  (if c NO_ENTRY then alert_with [NO_ENTRY] sm
                   else alert_with [ENABLE]
                     (if c PRE_ENABLE then go S_preEnabled sm
                      else if c OVERRIDE_LATERAL \<or> c OVERRIDE_LONGITUDINAL then go S_overriding sm
                      else go S_enabled sm))
                else sm));
          enabled = (sm_state sm1 \<in> set ENABLED_STATES);
          active = (sm_state sm1 \<in> set ACTIVE_STATES)
      in (if active then alert_with [WARNING] sm1 else sm1, enabled, active))"

definition sm_update :: "'a events_mapping \<Rightarrow> EventsState \<Rightarrow> StateMachine \<Rightarrow>
    StateMachine \<times> bool \<times> bool" where
  "sm_update m ev sm = update_with (\<lambda>t. contains m ev (ET_key t)) sm"

text \<open>The machine after one step, without the returned flags.\<close>

definition sm_step :: "(ET \<Rightarrow> bool) \<Rightarrow> StateMachine \<Rightarrow> StateMachine" where
  "sm_step c sm = fst (update_with c sm)"

section \<open>The transitions\<close>

text \<open>The specification: which moves the machine may make, and under which queries.\<close>

inductive sm_move :: "(ET \<Rightarrow> bool) \<Rightarrow> int \<Rightarrow> OpenpilotState \<Rightarrow> OpenpilotState \<Rightarrow> bool" for c t where
  off: "s \<noteq> S_disabled \<Longrightarrow> c USER_DISABLE \<or> c IMMEDIATE_DISABLE \<Longrightarrow> sm_move c t s S_disabled"
| soft: "s \<in> {S_enabled, S_overriding} \<Longrightarrow> \<not> c USER_DISABLE \<Longrightarrow> \<not> c IMMEDIATE_DISABLE \<Longrightarrow>
    c SOFT_DISABLE \<Longrightarrow> sm_move c t s S_softDisabling"
| steady: "s \<in> {S_enabled, S_overriding} \<Longrightarrow> \<not> c USER_DISABLE \<Longrightarrow> \<not> c IMMEDIATE_DISABLE \<Longrightarrow>
    \<not> c SOFT_DISABLE \<Longrightarrow>
    sm_move c t s (if c OVERRIDE_LATERAL \<or> c OVERRIDE_LONGITUDINAL then S_overriding else S_enabled)"
| recover: "\<not> c USER_DISABLE \<Longrightarrow> \<not> c IMMEDIATE_DISABLE \<Longrightarrow> \<not> c SOFT_DISABLE \<Longrightarrow>
    sm_move c t S_softDisabling S_enabled"
| wait: "\<not> c USER_DISABLE \<Longrightarrow> \<not> c IMMEDIATE_DISABLE \<Longrightarrow> c SOFT_DISABLE \<Longrightarrow> 1 < t \<Longrightarrow>
    sm_move c t S_softDisabling S_softDisabling"
| timeout: "\<not> c USER_DISABLE \<Longrightarrow> \<not> c IMMEDIATE_DISABLE \<Longrightarrow> c SOFT_DISABLE \<Longrightarrow> t \<le> 1 \<Longrightarrow>
    sm_move c t S_softDisabling S_disabled"
| pre_done: "\<not> c USER_DISABLE \<Longrightarrow> \<not> c IMMEDIATE_DISABLE \<Longrightarrow>
    sm_move c t S_preEnabled (if c PRE_ENABLE then S_preEnabled else S_enabled)"
| engage: "c ENABLE \<Longrightarrow> \<not> c NO_ENTRY \<Longrightarrow> sm_move c t S_disabled
    (if c PRE_ENABLE then S_preEnabled
     else if c OVERRIDE_LATERAL \<or> c OVERRIDE_LONGITUDINAL then S_overriding else S_enabled)"
| rest: "\<not> c ENABLE \<or> c NO_ENTRY \<Longrightarrow> sm_move c t S_disabled S_disabled"

inductive_simps sm_move_disabled: "sm_move c t S_disabled s"
inductive_simps sm_move_preEnabled: "sm_move c t S_preEnabled s"
inductive_simps sm_move_enabled: "sm_move c t S_enabled s"
inductive_simps sm_move_softDisabling: "sm_move c t S_softDisabling s"
inductive_simps sm_move_overriding: "sm_move c t S_overriding s"

lemmas sm_move_cases = sm_move_disabled sm_move_preEnabled sm_move_enabled sm_move_softDisabling
  sm_move_overriding

lemma sm_sets [simp]:
  "set ACTIVE_STATES = {S_enabled, S_softDisabling, S_overriding}"
  "set ENABLED_STATES = {S_preEnabled, S_enabled, S_softDisabling, S_overriding}"
  by (simp_all add: ACTIVE_STATES_def ENABLED_STATES_def)

lemma sm_helpers [simp]:
  "sm_state (alert_with ts s) = sm_state s"
  "soft_disable_timer (alert_with ts s) = soft_disable_timer s"
  "current_alert_types (alert_with ts s) = current_alert_types s @ ts"
  "sm_state (go st s) = st"
  "soft_disable_timer (go st s) = soft_disable_timer s"
  "current_alert_types (go st s) = current_alert_types s"
  "sm_state (start_soft_disabling s) = S_softDisabling"
  "soft_disable_timer (start_soft_disabling s) = 300"
  "current_alert_types (start_soft_disabling s) = current_alert_types s @ [SOFT_DISABLE]"
  by (simp_all add: alert_with_def go_def start_soft_disabling_def)

lemma not_disabled_iff: "s \<noteq> S_disabled \<longleftrightarrow> s \<in> set ENABLED_STATES"
  by (cases s) simp_all

lemma update_with_flags:
  "fst (snd (update_with c sm)) \<longleftrightarrow> sm_state (sm_step c sm) \<noteq> S_disabled"
  "snd (snd (update_with c sm)) \<longleftrightarrow> sm_state (sm_step c sm) \<in> set ACTIVE_STATES"
  unfolding sm_step_def update_with_def Let_def not_disabled_iff by simp_all

lemma sm_step_moves:
  "sm_move c (soft_disable_timer sm) (sm_state sm) s' \<longleftrightarrow> s' = sm_state (sm_step c sm)"
  by (cases "sm_state sm")
    (auto simp: sm_step_def update_with_def Let_def sm_move_cases)

lemma sm_step_timer:
  "soft_disable_timer (sm_step c sm) =
     (if sm_state sm \<in> {S_enabled, S_overriding} \<and> \<not> c USER_DISABLE \<and> \<not> c IMMEDIATE_DISABLE
         \<and> c SOFT_DISABLE
      then 300 else max 0 (soft_disable_timer sm - 1))"
  by (cases "sm_state sm") (simp_all add: sm_step_def update_with_def Let_def)

lemma sm_step_alerts:
  "hd (current_alert_types (sm_step c sm)) = PERMANENT"
  "WARNING \<in> set (current_alert_types (sm_step c sm)) \<longleftrightarrow> sm_state (sm_step c sm) \<in> set ACTIVE_STATES"
  by (cases "sm_state sm"; simp add: sm_step_def update_with_def Let_def)+

section \<open>The interface of an engagement machine\<close>

text \<open>
  \<open>step i s\<close> is one control frame with input \<open>i\<close>, \<open>c i\<close> the queries of that frame, \<open>engaged\<close> the
  states from which the actuators can become active without a new request of the driver. \<open>left s\<close>
  bounds the frames for which a soft disable can still be waiting.
\<close>

locale engagement_machine =
  fixes step :: "'i \<Rightarrow> 's \<Rightarrow> 's"
    and c :: "'i \<Rightarrow> ET \<Rightarrow> bool"
    and engaged :: "'s \<Rightarrow> bool"
  assumes engage_law: "\<not> engaged s \<Longrightarrow> engaged (step i s) \<Longrightarrow> c i ENABLE \<and> \<not> c i NO_ENTRY"
    and disengage_law: "engaged s \<Longrightarrow> c i USER_DISABLE \<or> c i IMMEDIATE_DISABLE \<Longrightarrow> \<not> engaged (step i s)"
begin

lemma no_entry_blocks:
  "\<not> engaged s \<Longrightarrow> \<forall>i\<in>set is. \<not> c i ENABLE \<or> c i NO_ENTRY \<Longrightarrow> \<not> engaged (fold step is s)"
  by (induction "is" arbitrary: s) (use engage_law in auto)

text \<open>An engaged machine was engaged by a request, and nothing has disabled it since.\<close>

lemma engaged_since:
  assumes "\<not> engaged s" "engaged (fold step is s)"
  shows "\<exists>xs i ys. is = xs @ i # ys \<and> c i ENABLE \<and> \<not> c i NO_ENTRY
    \<and> (\<forall>j\<in>set ys. \<not> c j USER_DISABLE \<and> \<not> c j IMMEDIATE_DISABLE)"
  using assms(2)
proof (induction "is" rule: rev_induct)
  case Nil
  with assms(1) show ?case by simp
next
  case (snoc i xs)
  let ?s = "fold step xs s"
  show ?case
  proof (cases "engaged ?s")
    case False
    with snoc.prems have "c i ENABLE \<and> \<not> c i NO_ENTRY"
      using engage_law [of ?s i] by simp
    then show ?thesis
      by (intro exI [of _ xs] exI [of _ i] exI [of _ "[]"]) simp
  next
    case True
    with snoc obtain as j bs where ih: "xs = as @ j # bs" "c j ENABLE" "\<not> c j NO_ENTRY"
      "\<forall>k\<in>set bs. \<not> c k USER_DISABLE \<and> \<not> c k IMMEDIATE_DISABLE"
      by blast
    moreover have "\<not> c i USER_DISABLE \<and> \<not> c i IMMEDIATE_DISABLE"
      using disengage_law [OF True, of i] snoc.prems by auto
    ultimately show ?thesis
      by (intro exI [of _ as] exI [of _ j] exI [of _ "bs @ [i]"]) auto
  qed
qed

end

definition sm_engaged :: "StateMachine \<Rightarrow> bool" where
  "sm_engaged sm \<longleftrightarrow> sm_state sm \<noteq> S_disabled"

interpretation ssm: engagement_machine sm_step "\<lambda>c. c" sm_engaged
proof
  fix s :: StateMachine and c
  assume "\<not> sm_engaged s" "sm_engaged (sm_step c s)"
  moreover have "sm_move c (soft_disable_timer s) (sm_state s) (sm_state (sm_step c s))"
    by (simp add: sm_step_moves)
  ultimately show "c ENABLE \<and> \<not> c NO_ENTRY"
    by (auto simp: sm_engaged_def sm_move_disabled)
next
  fix s :: StateMachine and c :: "ET \<Rightarrow> bool"
  assume "sm_engaged s" "c USER_DISABLE \<or> c IMMEDIATE_DISABLE"
  then have "sm_move c (soft_disable_timer s) (sm_state s) S_disabled"
    by (auto simp: sm_engaged_def intro: sm_move.off)
  then show "\<not> sm_engaged (sm_step c s)"
    by (simp add: sm_step_moves sm_engaged_def)
qed

section \<open>Soft disabling is bounded\<close>

text \<open>The invariant of every reachable machine.\<close>

definition sm_inv :: "StateMachine \<Rightarrow> bool" where
  "sm_inv sm \<longleftrightarrow> 0 \<le> soft_disable_timer sm \<and> soft_disable_timer sm \<le> SOFT_DISABLE_FRAMES
     \<and> (sm_state sm = S_softDisabling \<longrightarrow> 0 < soft_disable_timer sm)"

lemma sm_inv_new [simp]: "sm_inv new_StateMachine"
  by (simp add: sm_inv_def new_StateMachine_def)

lemma sm_inv_step: "sm_inv sm \<Longrightarrow> sm_inv (sm_step c sm)"
proof -
  assume inv: "sm_inv sm"
  have move: "sm_move c (soft_disable_timer sm) (sm_state sm) (sm_state (sm_step c sm))"
    by (simp add: sm_step_moves)
  show ?thesis
    using inv move by (cases "sm_state sm")
      (auto simp: sm_inv_def sm_step_timer sm_move_cases split: if_splits)
qed

lemma sm_inv_run: "sm_inv sm \<Longrightarrow> sm_inv (fold sm_step cs sm)"
  by (induction cs arbitrary: sm) (auto intro: sm_inv_step)

lemma soft_disabling_step:
  assumes "sm_state sm = S_softDisabling" "c SOFT_DISABLE" "\<not> c USER_DISABLE" "\<not> c IMMEDIATE_DISABLE"
  shows "sm_state (sm_step c sm) =
      (if 1 < soft_disable_timer sm then S_softDisabling else S_disabled)"
    and "soft_disable_timer (sm_step c sm) = max 0 (soft_disable_timer sm - 1)"
  using assms sm_move.wait [of c "soft_disable_timer sm"]
    sm_move.timeout [of c "soft_disable_timer sm"] sm_step_moves [of c sm]
  by (auto simp: sm_step_timer)

lemma soft_disabling_run:
  assumes "sm_state sm = S_softDisabling" "soft_disable_timer sm = int t"
    and "\<forall>c\<in>set cs. c SOFT_DISABLE \<and> \<not> c USER_DISABLE \<and> \<not> c IMMEDIATE_DISABLE" "length cs < t"
  shows "sm_state (fold sm_step cs sm) = S_softDisabling
    \<and> soft_disable_timer (fold sm_step cs sm) = int t - int (length cs)"
  using assms
proof (induction cs arbitrary: sm t)
  case (Cons c cs)
  have c: "c SOFT_DISABLE" "\<not> c USER_DISABLE" "\<not> c IMMEDIATE_DISABLE" and t: "1 < t"
    using Cons.prems by auto
  have "sm_state (sm_step c sm) = S_softDisabling" "soft_disable_timer (sm_step c sm) = int (t - 1)"
    using soft_disabling_step [OF Cons.prems(1) c] Cons.prems(2) t by auto
  moreover have "length cs < t - 1" "\<forall>c\<in>set cs. c SOFT_DISABLE \<and> \<not> c USER_DISABLE \<and> \<not> c IMMEDIATE_DISABLE"
    using Cons.prems(3,4) by auto
  ultimately show ?case
    using Cons.IH [of "sm_step c sm" "t - 1"] t by auto
qed simp

section \<open>Properties\<close>

text \<open>C34 (refinement). One call of \<open>StateMachine.update\<close> makes exactly the move the transition relation
  allows on the event types present in the log, and the two returned flags are "not disabled" and "in
  an active state".\<close>

theorem state_machine_refines:
  "(\<forall>s'. sm_move (\<lambda>t. contains m ev (ET_key t)) (soft_disable_timer sm) (sm_state sm) s' \<longleftrightarrow>
       s' = sm_state (fst (sm_update m ev sm)))
   \<and> (fst (snd (sm_update m ev sm)) \<longleftrightarrow> sm_state (fst (sm_update m ev sm)) \<noteq> S_disabled)
   \<and> (snd (snd (sm_update m ev sm)) \<longleftrightarrow> sm_state (fst (sm_update m ev sm)) \<in> set ACTIVE_STATES)"
  using sm_step_moves update_with_flags by (simp add: sm_update_def sm_step_def)

definition sm_run :: "'a events_mapping \<Rightarrow> EventsState list \<Rightarrow> StateMachine \<Rightarrow> StateMachine" where
  "sm_run m evs sm = fold (\<lambda>ev s. fst (sm_update m ev s)) evs sm"

lemma sm_run_fold: "sm_run m evs sm = fold sm_step (map (\<lambda>ev t. contains m ev (ET_key t)) evs) sm"
  by (induction evs arbitrary: sm) (simp_all add: sm_run_def sm_update_def sm_step_def)

text \<open>The machine on event logs is an engagement machine, too.\<close>

interpretation osm: engagement_machine "\<lambda>ev s. fst (sm_update m ev s)" "\<lambda>ev t. contains m ev (ET_key t)"
  sm_engaged for m
  using ssm.engage_law ssm.disengage_law
  by unfold_locales (simp_all add: sm_update_def flip: sm_step_def)

text \<open>C6 (safety). Over any run of frames: openpilot is engaged at the end of a run that started
  disengaged only if some frame asked for it (an event of type ENABLE and none of type NO_ENTRY) and no
  later frame had an event that disables at once.\<close>

theorem engaged_only_by_request:
  assumes "sm_state sm = S_disabled" "sm_state (sm_run m evs sm) \<noteq> S_disabled"
  shows "\<exists>xs ev ys. evs = xs @ ev # ys \<and> contains m ev (ET_key ENABLE) \<and> \<not> contains m ev (ET_key NO_ENTRY)
    \<and> list_all (\<lambda>e. \<not> contains m e (ET_key USER_DISABLE) \<and> \<not> contains m e (ET_key IMMEDIATE_DISABLE)) ys"
  using osm.engaged_since [of sm m evs] assms by (simp add: sm_engaged_def sm_run_def list_all_iff)

definition sample_log :: "event list \<Rightarrow> EventsState" where
  "sample_log es = \<lparr>events = es, static_events = [], event_counters = (\<lambda>_. None)\<rparr>"

definition sample_mapping :: "unit events_mapping" where
  "sample_mapping = [(0, [(ENABLE, Static EmptyAlert)]), (1, [(SOFT_DISABLE, Static EmptyAlert)])]"

theorem engaged_only_by_request_witness:
  "\<exists>xs ev ys. [sample_log [0], sample_log []] = xs @ ev # ys
    \<and> contains sample_mapping ev (ET_key ENABLE) \<and> \<not> contains sample_mapping ev (ET_key NO_ENTRY)
    \<and> list_all (\<lambda>e. \<not> contains sample_mapping e (ET_key USER_DISABLE)
        \<and> \<not> contains sample_mapping e (ET_key IMMEDIATE_DISABLE)) ys"
  by (rule engaged_only_by_request [of new_StateMachine]) code_simp+

text \<open>An engaged machine whose every frame carries a soft-disable event, and none that
  disables at once, stays in soft disabling for exactly \<open>SOFT_DISABLE_TIME\<close> seconds: it is still there
  after 300 frames and disengaged after the next.\<close>

theorem soft_disable_lasts_300_frames:
  assumes "sm_state sm = S_enabled \<or> sm_state sm = S_overriding" "evs \<noteq> []" "length evs \<le> 301"
    and "list_all (\<lambda>ev. contains m ev (ET_key SOFT_DISABLE) \<and> \<not> contains m ev (ET_key USER_DISABLE)
        \<and> \<not> contains m ev (ET_key IMMEDIATE_DISABLE)) evs"
  shows "sm_state (sm_run m evs sm) = (if length evs \<le> 300 then S_softDisabling else S_disabled)"
proof -
  let ?q = "\<lambda>ev t. contains m ev (ET_key t)"
  obtain ev es where evs: "evs = ev # es"
    using assms(2) by (cases evs) auto
  define s where "s = sm_step (?q ev) sm"
  have "sm_move (?q ev) (soft_disable_timer sm) (sm_state sm) S_softDisabling"
    using assms(1,4) by (intro sm_move.soft) (auto simp: evs)
  then have s: "sm_state s = S_softDisabling" "soft_disable_timer s = 300"
    using assms(1,4) by (auto simp: s_def evs sm_step_moves sm_step_timer)
  have soft: "\<forall>c\<in>set (map ?q xs). c SOFT_DISABLE \<and> \<not> c USER_DISABLE \<and> \<not> c IMMEDIATE_DISABLE"
    if "set xs \<subseteq> set es" for xs
    using assms(4) that by (auto simp: evs list_all_iff)
  have run: "sm_run m evs sm = fold sm_step (map ?q es) s"
    by (simp add: sm_run_fold evs s_def)
  show ?thesis
  proof (cases "length evs \<le> 300")
    case True
    then show ?thesis
      using soft_disabling_run [of s 300 "map ?q es"] s soft [of es] unfolding run by (simp add: evs)
  next
    case False
    then obtain e xs where es: "es = xs @ [e]" "length xs = 299"
      using assms(3) by (cases es rule: rev_cases) (auto simp: evs)
    have xs: "set xs \<subseteq> set es"
      by (auto simp: es)
    have "sm_state (fold sm_step (map ?q xs) s) = S_softDisabling
        \<and> soft_disable_timer (fold sm_step (map ?q xs) s) = 1"
      using soft_disabling_run [of s 300 "map ?q xs"] s soft [OF xs] es(2) by simp
    moreover have "?q e SOFT_DISABLE" "\<not> ?q e USER_DISABLE" "\<not> ?q e IMMEDIATE_DISABLE"
      using assms(4) by (auto simp: evs es)
    ultimately show ?thesis
      using False soft_disabling_step(1) [of "fold sm_step (map ?q xs) s" "?q e"] unfolding run by (simp add: es)
  qed
qed

theorem soft_disable_lasts_300_frames_witness:
  "sm_state (sm_run sample_mapping (replicate 301 (sample_log [1])) (go S_enabled new_StateMachine)) = S_disabled"
proof -
  have "contains sample_mapping (sample_log [1]) (ET_key SOFT_DISABLE)
      \<and> \<not> contains sample_mapping (sample_log [1]) (ET_key USER_DISABLE)
      \<and> \<not> contains sample_mapping (sample_log [1]) (ET_key IMMEDIATE_DISABLE)"
    by code_simp
  then show ?thesis
    using soft_disable_lasts_300_frames
      [of "go S_enabled new_StateMachine" "replicate 301 (sample_log [1])" sample_mapping]
    by (simp add: list_all_iff)
qed

text \<open>In every reachable state the soft-disable timer is between 0 and 300, and it is
  positive while the machine is soft disabling; the alert types always start with PERMANENT, and
  include WARNING exactly in the active states.\<close>

theorem state_machine_invariant:
  "sm_inv (sm_run m evs new_StateMachine)
   \<and> hd (current_alert_types (sm_run m evs new_StateMachine)) = PERMANENT
   \<and> (WARNING \<in> set (current_alert_types (sm_run m evs new_StateMachine)) \<longleftrightarrow>
        sm_state (sm_run m evs new_StateMachine) \<in> set ACTIVE_STATES)"
proof (intro conjI)
  show "sm_inv (sm_run m evs new_StateMachine)"
    by (simp add: sm_run_fold sm_inv_run)
  let ?q = "\<lambda>ev t. contains m ev (ET_key t)"
  have snoc: "sm_run m (xs @ [e]) s = sm_step (?q e) (sm_run m xs s)" for xs e s
    by (simp add: sm_run_fold)
  show "hd (current_alert_types (sm_run m evs new_StateMachine)) = PERMANENT"
    by (cases evs rule: rev_cases) (simp_all add: snoc sm_step_alerts, simp add: sm_run_def new_StateMachine_def)
  show "WARNING \<in> set (current_alert_types (sm_run m evs new_StateMachine)) \<longleftrightarrow>
      sm_state (sm_run m evs new_StateMachine) \<in> set ACTIVE_STATES"
    by (cases evs rule: rev_cases) (simp_all add: snoc sm_step_alerts, simp add: sm_run_def new_StateMachine_def)
qed

end
