(* ===== verification/MovingAverage.thy ===== *)
theory MovingAverage
  imports Prelude
begin

text \<open>
  The ring-buffer average of \<open>common/utils.py\<close> (class \<open>MovingAverage\<close>). An index outside the buffer
  raises \<open>IndexError\<close>, which is \<open>None\<close>; it can only happen for an empty window. The average of no
  values is NaN, again \<open>None\<close>.
\<close>

record MovingAverage =
  window_size :: nat
  buffer :: "rat list"
  ma_index :: nat
  ma_count :: nat
  ma_sum :: rat

definition new_MovingAverage :: "nat \<Rightarrow> MovingAverage" where
  "new_MovingAverage w =
     \<lparr>window_size = w, buffer = replicate w 0, ma_index = 0, ma_count = 0, ma_sum = 0\<rparr>"

definition add_value :: "MovingAverage \<Rightarrow> rat \<Rightarrow> MovingAverage option" where
  "add_value m x =
     (if ma_index m < length (buffer m)
      then Some (m\<lparr>ma_sum := ma_sum m - buffer m ! ma_index m + x,
                   buffer := (buffer m)[ma_index m := x],
                   ma_index := (ma_index m + 1) mod window_size m,
                   ma_count := min (ma_count m + 1) (window_size m)\<rparr>)
      else None)"

definition get_average :: "MovingAverage \<Rightarrow> rat option" where
  "get_average m = (if ma_count m = 0 then None else Some (ma_sum m / of_nat (ma_count m)))"

fun add_values :: "MovingAverage \<Rightarrow> rat list \<Rightarrow> MovingAverage option" where
  "add_values m [] = Some m"
| "add_values m (x # xs) = do { m' \<leftarrow> add_value m x; add_values m' xs }"

section \<open>The buffer holds the last values, oldest first from the index\<close>

text \<open>
  \<open>ring_inv w hist m\<close>: after the values \<open>hist\<close>, read from the index and around, the buffer is the
  last \<open>w\<close> entries of \<open>hist\<close> preceded by \<open>w\<close> zeros.
\<close>

definition ring_inv :: "nat \<Rightarrow> rat list \<Rightarrow> MovingAverage \<Rightarrow> bool" where
  "ring_inv w hist m \<longleftrightarrow>
     0 < w \<and> window_size m = w \<and> length (buffer m) = w \<and> ma_index m = length hist mod w
     \<and> ma_count m = min (length hist) w \<and> ma_sum m = sum_list (buffer m)
     \<and> rotate (ma_index m) (buffer m) = drop (length hist) (replicate w 0 @ hist)"

lemma rotate_update:
  assumes "i < length b"
  shows "rotate (Suc i mod length b) (b[i := x]) = tl (rotate i b) @ [x]"
proof -
  have b: "drop i b = b ! i # drop (Suc i) b"
    using assms by (simp add: Cons_nth_drop_Suc)
  have upd: "b[i := x] = take i b @ x # drop (Suc i) b"
    using assms by (rule upd_conv_take_nth_drop)
  have rot: "rotate i b = drop i b @ take i b"
    using assms by (simp add: rotate_drop_take)
  show ?thesis
  proof (cases "Suc i = length b")
    case True
    then show ?thesis
      by (simp add: rot b upd)
  next
    case False
    with assms have "Suc i < length b"
      by simp
    then show ?thesis
      by (simp add: rotate_drop_take rot b upd)
  qed
qed

lemma ring_inv_new: "0 < w \<Longrightarrow> ring_inv w [] (new_MovingAverage w)"
  by (simp add: ring_inv_def new_MovingAverage_def sum_list_replicate)

lemma tl_drop_snoc: "n < length ys \<Longrightarrow> tl (drop n ys) @ [x] = drop (Suc n) (ys @ [x])"
  by (simp add: tl_drop drop_Suc tl_append2)

lemma ring_inv_add_value:
  assumes inv: "ring_inv w hist m"
  shows "\<exists>m'. add_value m x = Some m' \<and> ring_inv w (hist @ [x]) m'"
proof -
  let ?i = "ma_index m" and ?b = "buffer m" and ?n = "length hist"
  have w: "0 < w" and b: "length ?b = w" and i: "?i = ?n mod w" and ws: "window_size m = w"
    and c: "ma_count m = min ?n w" and s: "ma_sum m = sum_list ?b"
    and r: "rotate ?i ?b = drop ?n (replicate w 0 @ hist)"
    using inv unfolding ring_inv_def by blast+
  have lt: "?i < length ?b"
    using w b i by simp
  have "rotate (Suc ?i mod w) (?b[?i := x]) = tl (rotate ?i ?b) @ [x]"
    using rotate_update [OF lt] b by simp
  also have "\<dots> = drop (Suc ?n) ((replicate w 0 @ hist) @ [x])"
    unfolding r using w by (intro tl_drop_snoc) simp
  finally have r': "rotate (Suc ?i mod w) (?b[?i := x]) = drop (Suc ?n) (replicate w 0 @ hist @ [x])"
    by simp
  have s': "ma_sum m - ?b ! ?i + x = sum_list (?b[?i := x])"
  proof -
    have "sum_list ?b = sum_list (take ?i ?b) + ?b ! ?i + sum_list (drop (Suc ?i) ?b)"
      using lt by (subst (1) id_take_nth_drop [OF lt]) (simp only: sum_list_append sum_list.Cons add.assoc)
    then show ?thesis
      using lt by (simp add: s upd_conv_take_nth_drop)
  qed
  have "ring_inv w (hist @ [x])
      (m\<lparr>ma_sum := ma_sum m - ?b ! ?i + x, buffer := ?b[?i := x],
         ma_index := (?i + 1) mod window_size m, ma_count := min (ma_count m + 1) (window_size m)\<rparr>)"
    unfolding ring_inv_def using w b i ws c r' s' by (auto simp: mod_Suc_eq)
  with lt show ?thesis
    by (auto simp: add_value_def)
qed

lemma ring_inv_add_values:
  "ring_inv w hist m \<Longrightarrow> \<exists>m'. add_values m xs = Some m' \<and> ring_inv w (hist @ xs) m'"
proof (induction xs arbitrary: hist m)
  case (Cons x xs)
  obtain m' where m': "add_value m x = Some m'" "ring_inv w (hist @ [x]) m'"
    using ring_inv_add_value [OF Cons.prems] by blast
  from Cons.IH [OF m'(2)] show ?case
    by (simp add: m'(1))
qed simp

text \<open>The last \<open>k\<close> values of a history.\<close>

definition last_values :: "nat \<Rightarrow> rat list \<Rightarrow> rat list" where
  "last_values k xs = drop (length xs - k) xs"

lemma ring_inv_sum: "ring_inv w hist m \<Longrightarrow> ma_sum m = sum_list (last_values w hist)"
proof -
  assume inv: "ring_inv w hist m"
  have s: "ma_sum m = sum_list (buffer m)"
    and r: "rotate (ma_index m) (buffer m) = drop (length hist) (replicate w 0 @ hist)"
    using inv unfolding ring_inv_def by blast+
  have "sum_list (buffer m) = sum_list (rotate (ma_index m) (buffer m))"
    by (simp add: rotate_drop_take flip: sum_list_append)
      (metis add.commute append_take_drop_id sum_list_append)
  also have "\<dots> = sum_list (last_values w hist)"
    by (simp add: r last_values_def sum_list_replicate)
  finally show ?thesis
    by (simp add: s)
qed

lemma ring_inv_average:
  assumes "ring_inv w hist m"
  shows "get_average m =
    (if hist = [] then None
     else Some (sum_list (last_values w hist) / of_nat (length (last_values w hist))))"
proof -
  have c: "ma_count m = length (last_values w hist)" and z: "ma_count m = 0 \<longleftrightarrow> hist = []"
    using assms by (auto simp: ring_inv_def last_values_def min_def split: if_splits)
  show ?thesis
    using z by (simp add: get_average_def ring_inv_sum [OF assms] c)
qed

section \<open>Properties\<close>

text \<open>The ring buffer with a running sum never raises for a positive window, and its
  average is the mean of the last values: as many as were added, but at most the window.\<close>

theorem moving_average_mean:
  assumes "0 < w"
  shows "\<exists>m. add_values (new_MovingAverage w) xs = Some m
    \<and> get_average m = (if xs = [] then None
        else Some (sum_list (drop (length xs - w) xs) / of_nat (min w (length xs))))"
proof -
  obtain m where m: "add_values (new_MovingAverage w) xs = Some m" "ring_inv w xs m"
    using ring_inv_add_values [OF ring_inv_new [OF assms], of xs] by auto
  then show ?thesis
    using ring_inv_average [OF m(2)] by (auto simp: last_values_def min_def)
qed

theorem moving_average_mean_witness:
  "\<exists>m. add_values (new_MovingAverage 2) [4, 1, 3] = Some m \<and> get_average m = Some 2"
  using moving_average_mean [of 2 "[4, 1, 3]"] by simp

end
