(* ===== verification/Services.thy ===== *)
theory Services
  imports Prelude
begin

text \<open>
  \<open>cereal/services.py\<close>: the message services, whether they are logged, their nominal frequency in
  Hz, the decimation of the small log, and the size of their queue.
\<close>

datatype QueueSize = BIG | MEDIUM | SMALL

definition queue_bytes :: "QueueSize \<Rightarrow> nat" where
  "queue_bytes q = (case q of BIG \<Rightarrow> 10 * 1024 * 1024 | MEDIUM \<Rightarrow> 2 * 1024 * 1024 | SMALL \<Rightarrow> 250 * 1024)"

record Service =
  should_log :: bool
  frequency :: rat
  decimation :: "nat option"
  queue_size :: QueueSize

definition mk_Service :: "bool \<Rightarrow> rat \<Rightarrow> nat option \<Rightarrow> QueueSize \<Rightarrow> Service" where
  "mk_Service lg fr dec qs = \<lparr>should_log = lg, frequency = fr, decimation = dec, queue_size = qs\<rparr>"

definition SERVICE_LIST :: "(string \<times> Service) list" where
  "SERVICE_LIST = [
     (''gyroscope'', mk_Service True (104) (Some 104) SMALL),
     (''accelerometer'', mk_Service True (104) (Some 104) SMALL),
     (''temperatureSensor'', mk_Service True (2) (Some 200) SMALL),
     (''deviceState'', mk_Service True (2) (Some 1) SMALL),
     (''touch'', mk_Service True (20) (Some 1) SMALL),
     (''can'', mk_Service True (100) (Some 2053) BIG),
     (''controlsState'', mk_Service True (100) (Some 10) MEDIUM),
     (''selfdriveState'', mk_Service True (100) (Some 10) SMALL),
     (''pandaStates'', mk_Service True (10) (Some 1) SMALL),
     (''peripheralState'', mk_Service True (2) (Some 1) SMALL),
     (''radarState'', mk_Service True (20) (Some 5) SMALL),
     (''roadEncodeIdx'', mk_Service False (20) (Some 1) SMALL),
     (''liveTracks'', mk_Service True (20) None SMALL),
     (''sendcan'', mk_Service True (100) (Some 139) MEDIUM),
     (''logMessage'', mk_Service True (0) None BIG),
     (''errorLogMessage'', mk_Service True (0) (Some 1) BIG),
     (''liveCalibration'', mk_Service True (4) (Some 4) SMALL),
     (''liveTorqueParameters'', mk_Service True (4) (Some 1) SMALL),
     (''liveDelay'', mk_Service True (4) (Some 1) SMALL),
     (''androidLog'', mk_Service True (0) None SMALL),
     (''carState'', mk_Service True (100) (Some 10) SMALL),
     (''carControl'', mk_Service True (100) (Some 10) SMALL),
     (''carOutput'', mk_Service True (100) (Some 10) SMALL),
     (''longitudinalPlan'', mk_Service True (20) (Some 10) SMALL),
     (''lateralManeuverPlan'', mk_Service True (20) None SMALL),
     (''driverAssistance'', mk_Service True (20) (Some 20) SMALL),
     (''procLog'', mk_Service True (1 / 2) (Some 15) BIG),
     (''gpsLocationExternal'', mk_Service True (10) (Some 10) SMALL),
     (''gpsLocation'', mk_Service True (1) (Some 1) SMALL),
     (''ubloxGnss'', mk_Service True (10) None SMALL),
     (''qcomGnss'', mk_Service True (2) None SMALL),
     (''clocks'', mk_Service True (1 / 10) (Some 1) SMALL),
     (''ubloxRaw'', mk_Service True (20) None SMALL),
     (''livePose'', mk_Service True (20) (Some 4) SMALL),
     (''liveParameters'', mk_Service True (20) (Some 5) SMALL),
     (''cameraOdometry'', mk_Service True (20) (Some 10) SMALL),
     (''thumbnail'', mk_Service True (1 / 60) (Some 1) SMALL),
     (''onroadEvents'', mk_Service True (1) (Some 1) SMALL),
     (''carParams'', mk_Service True (1 / 50) (Some 1) SMALL),
     (''roadCameraState'', mk_Service True (20) (Some 20) SMALL),
     (''driverCameraState'', mk_Service True (20) (Some 20) SMALL),
     (''driverEncodeIdx'', mk_Service False (20) (Some 1) SMALL),
     (''driverStateV2'', mk_Service True (20) (Some 10) SMALL),
     (''driverMonitoringState'', mk_Service True (20) (Some 10) SMALL),
     (''wideRoadEncodeIdx'', mk_Service False (20) (Some 1) SMALL),
     (''wideRoadCameraState'', mk_Service True (20) (Some 20) SMALL),
     (''drivingModelData'', mk_Service True (20) (Some 10) SMALL),
     (''modelV2'', mk_Service True (20) None BIG),
     (''managerState'', mk_Service True (2) (Some 1) SMALL),
     (''qRoadEncodeIdx'', mk_Service False (20) None SMALL),
     (''userBookmark'', mk_Service True (0) (Some 1) SMALL),
     (''soundPressure'', mk_Service True (10) (Some 10) SMALL),
     (''rawAudioData'', mk_Service False (20) None SMALL),
     (''bookmarkButton'', mk_Service True (0) (Some 1) SMALL),
     (''audioFeedback'', mk_Service True (0) (Some 1) SMALL),
     (''roadEncodeData'', mk_Service False (20) None BIG),
     (''driverEncodeData'', mk_Service False (20) None BIG),
     (''wideRoadEncodeData'', mk_Service False (20) None BIG),
     (''qRoadEncodeData'', mk_Service False (20) None BIG),
     (''modelManagerSP'', mk_Service False (1) (Some 1) BIG),
     (''backupManagerSP'', mk_Service False (1) (Some 1) BIG),
     (''selfdriveStateSP'', mk_Service True (100) (Some 10) SMALL),
     (''longitudinalPlanSP'', mk_Service True (20) (Some 10) SMALL),
     (''onroadEventsSP'', mk_Service True (1) (Some 1) SMALL),
     (''carParamsSP'', mk_Service True (1 / 50) (Some 1) SMALL),
     (''carControlSP'', mk_Service True (100) (Some 10) SMALL),
     (''carStateSP'', mk_Service True (100) (Some 10) SMALL),
     (''liveMapDataSP'', mk_Service True (1) (Some 1) SMALL),
     (''modelDataV2SP'', mk_Service True (20) None BIG),
     (''liveLocationKalman'', mk_Service True (20) None SMALL),
     (''uiDebug'', mk_Service True (0) (Some 1) SMALL),
     (''testJoystick'', mk_Service True (0) None SMALL),
     (''alertDebug'', mk_Service True (20) (Some 5) SMALL),
     (''livestreamWideRoadEncodeIdx'', mk_Service False (20) None SMALL),
     (''livestreamRoadEncodeIdx'', mk_Service False (20) None SMALL),
     (''livestreamDriverEncodeIdx'', mk_Service False (20) None SMALL),
     (''livestreamWideRoadEncodeData'', mk_Service False (20) None MEDIUM),
     (''livestreamRoadEncodeData'', mk_Service False (20) None MEDIUM),
     (''livestreamDriverEncodeData'', mk_Service False (20) None MEDIUM),
     (''customReservedRawData0'', mk_Service True (0) None SMALL)]"

text \<open>The nominal frequency of a service that exists.\<close>

definition service_frequency :: "string \<Rightarrow> rat" where
  "service_frequency s = (case map_of SERVICE_LIST s of None \<Rightarrow> 0 | Some v \<Rightarrow> frequency v)"

lemma frequency_mk_Service [simp]: "frequency (mk_Service lg fr dec qs) = fr"
  by (simp add: mk_Service_def)

lemma SERVICE_LIST_frequency_nonneg: "list_all (\<lambda>(s, v). 0 \<le> frequency v) SERVICE_LIST"
  by (simp add: SERVICE_LIST_def)

lemma service_frequency_nonneg: "0 \<le> service_frequency s"
proof (cases "map_of SERVICE_LIST s")
  case (Some v)
  then have "(s, v) \<in> set SERVICE_LIST"
    by (rule map_of_SomeD)
  then show ?thesis
    using SERVICE_LIST_frequency_nonneg Some by (auto simp: service_frequency_def list_all_iff)
qed (simp add: service_frequency_def)

end
