(* ===== verification/SubMaster.thy ===== *)
theory SubMaster
  imports MovingAverage Services
begin

text \<open>
  The subscriber of \<open>cereal/messaging/__init__.py\<close>: \<open>FrequencyTracker\<close> and \<open>SubMaster\<close>. Sockets,
  polling and message decoding stay outside: an update is given the clock and the messages that
  arrived. The dictionaries of a \<open>SubMaster\<close> have exactly the subscribed services as keys, so they
  are functions on service names that are only read at subscribed services; the latest payloads
  are one value of type \<^typ>\<open>'d\<close>, and a message carries the function that stores its payload there.
  \<open>None\<close> is the \<open>ZeroDivisionError\<close> of \<open>1.0 / average\<close> (all messages received at the same instant).
\<close>

section \<open>FrequencyTracker\<close>

record FrequencyTracker =
  min_freq :: rat
  max_freq :: rat
  avg_dt :: MovingAverage
  recent_avg_dt :: MovingAverage
  prev_time :: rat

definition new_FrequencyTracker :: "rat \<Rightarrow> rat \<Rightarrow> bool \<Rightarrow> FrequencyTracker" where
  "new_FrequencyTracker service_freq update_freq is_poll =
     (let freq = max (min service_freq update_freq) 1;
          (lo, hi) =
            (if is_poll then (freq, freq)
             else (if service_freq \<ge> 2 * update_freq then update_freq
                   else if update_freq \<ge> 2 * service_freq then freq
                   else min freq (freq / 2),
                   min freq update_freq))
      in \<lparr>min_freq = lo * (8 / 10), max_freq = hi * (12 / 10),
          avg_dt = new_MovingAverage (nat (py_trunc (10 * freq))),
          recent_avg_dt = new_MovingAverage (nat (py_trunc freq)),
          prev_time = 0\<rparr>)"

definition record_recv_time :: "FrequencyTracker \<Rightarrow> rat \<Rightarrow> FrequencyTracker option" where
  "record_recv_time ft cur_time = do {
     ft' \<leftarrow> (if prev_time ft > 1 / 100000
            then do {
              let dt = cur_time - prev_time ft;
              a \<leftarrow> add_value (avg_dt ft) dt;
              r \<leftarrow> add_value (recent_avg_dt ft) dt;
              Some (ft\<lparr>avg_dt := a, recent_avg_dt := r\<rparr>)
            }
            else Some ft);
     Some (ft'\<lparr>prev_time := cur_time\<rparr>)
   }"

text \<open>\<open>1.0 / m.get_average()\<close>; the caller has checked that there is a value.\<close>

definition avg_frequency :: "MovingAverage \<Rightarrow> rat option" where
  "avg_frequency m =
     (case get_average m of None \<Rightarrow> None | Some a \<Rightarrow> if a = 0 then None else Some (1 / a))"

definition freq_valid :: "FrequencyTracker \<Rightarrow> bool option" where
  "freq_valid ft =
     (if ma_count (avg_dt ft) = 0 then Some False
      else do {
        avg_freq \<leftarrow> avg_frequency (avg_dt ft);
        if min_freq ft \<le> avg_freq \<and> avg_freq \<le> max_freq ft then Some True
        else do {
          avg_freq_recent \<leftarrow> avg_frequency (recent_avg_dt ft);
          Some (min_freq ft \<le> avg_freq_recent \<and> avg_freq_recent \<le> max_freq ft)
        }
      })"

section \<open>SubMaster\<close>

record 'd SubMaster =
  frame :: int
  services :: "string list"
  seen :: "string \<Rightarrow> bool"
  updated :: "string \<Rightarrow> bool"
  recv_time :: "string \<Rightarrow> rat"
  recv_frame :: "string \<Rightarrow> int"
  logMonoTime :: "string \<Rightarrow> nat"
  alive :: "string \<Rightarrow> bool"
  freq_ok :: "string \<Rightarrow> bool"
  valid :: "string \<Rightarrow> bool"
  freq_tracker :: "string \<Rightarrow> FrequencyTracker"
  ignore_average_freq :: "string list"
  ignore_alive :: "string list"
  ignore_valid :: "string list"
  sm_simulation :: bool
  data :: 'd

record 'd Msg =
  which :: string
  msg_logMonoTime :: nat
  msg_valid :: bool
  store :: "'d \<Rightarrow> 'd"

definition on_demand :: "string \<Rightarrow> bool" where
  "on_demand s \<longleftrightarrow> service_frequency s \<le> 1 / 100000"

definition static_freq_services :: "'d SubMaster \<Rightarrow> string list" where
  "static_freq_services sm = filter (\<lambda>s. \<not> on_demand s) (services sm)"

text \<open>\<open>__init__\<close>: \<open>upd_freq\<close> is the resulting \<open>update_freq\<close>, \<open>poll\<close> the polled service if one is given.\<close>

definition new_SubMaster :: "string list \<Rightarrow> string option \<Rightarrow> string list \<Rightarrow> string list \<Rightarrow>
    string list \<Rightarrow> rat \<Rightarrow> bool \<Rightarrow> 'd \<Rightarrow> 'd SubMaster" where
  "new_SubMaster ss poll ign_alive ign_freq ign_valid upd_freq sim d =
     \<lparr>frame = -1, services = ss, seen = (\<lambda>_. False), updated = (\<lambda>_. False),
      recv_time = (\<lambda>_. 0), recv_frame = (\<lambda>_. 0), logMonoTime = (\<lambda>_. 0),
      alive = on_demand, freq_ok = on_demand, valid = on_demand,
      freq_tracker = (\<lambda>s. new_FrequencyTracker (service_frequency s) upd_freq (Some s = poll)),
      ignore_average_freq = ign_freq, ignore_alive = ign_alive, ignore_valid = ign_valid,
      sm_simulation = sim, data = d\<rparr>"

definition check_avg_freq :: "'d SubMaster \<Rightarrow> string \<Rightarrow> bool" where
  "check_avg_freq sm s \<longleftrightarrow>
     service_frequency s > 99 / 100 \<and> s \<notin> set (ignore_average_freq sm) \<and> s \<notin> set (ignore_alive sm)"

text \<open>The two loops of \<open>update_msgs\<close>: one message, then the liveness of one service.\<close>

definition receive_msg :: "rat \<Rightarrow> 'd SubMaster \<Rightarrow> 'd Msg \<Rightarrow> 'd SubMaster option" where
  "receive_msg cur_time sm msg = do {
     let s = which msg;
     ft \<leftarrow> record_recv_time (freq_tracker sm s) cur_time;
     Some (sm\<lparr>seen := (seen sm)(s := True), updated := (updated sm)(s := True),
              freq_tracker := (freq_tracker sm)(s := ft),
              recv_time := (recv_time sm)(s := cur_time),
              recv_frame := (recv_frame sm)(s := frame sm),
              data := store msg (data sm),
              logMonoTime := (logMonoTime sm)(s := msg_logMonoTime msg),
              valid := (valid sm)(s := msg_valid msg)\<rparr>)
   }"

fun receive_msgs :: "rat \<Rightarrow> 'd SubMaster \<Rightarrow> 'd Msg option list \<Rightarrow> 'd SubMaster option" where
  "receive_msgs cur_time sm [] = Some sm"
| "receive_msgs cur_time sm (None # ms) = receive_msgs cur_time sm ms"
| "receive_msgs cur_time sm (Some msg # ms) = do {
     sm' \<leftarrow> receive_msg cur_time sm msg;
     receive_msgs cur_time sm' ms
   }"

definition is_alive :: "rat \<Rightarrow> 'd SubMaster \<Rightarrow> string \<Rightarrow> bool" where
  "is_alive cur_time sm s \<longleftrightarrow>
     cur_time - recv_time sm s < 10 / service_frequency s \<or> (seen sm s \<and> sm_simulation sm)"

fun check_services :: "rat \<Rightarrow> 'd SubMaster \<Rightarrow> string list \<Rightarrow> 'd SubMaster option" where
  "check_services cur_time sm [] = Some sm"
| "check_services cur_time sm (s # ss) = do {
     v \<leftarrow> freq_valid (freq_tracker sm s);
     check_services cur_time
       (sm\<lparr>alive := (alive sm)(s := is_alive cur_time sm s),
           freq_ok := (freq_ok sm)(s := (v \<or> sm_simulation sm))\<rparr>) ss
   }"

definition update_msgs :: "rat \<Rightarrow> 'd SubMaster \<Rightarrow> 'd Msg option list \<Rightarrow> 'd SubMaster option" where
  "update_msgs cur_time sm msgs = do {
     let sm0 = sm\<lparr>frame := frame sm + 1, updated := (\<lambda>_. False)\<rparr>;
     sm1 \<leftarrow> receive_msgs cur_time sm0 msgs;
     check_services cur_time sm1 (static_freq_services sm1)
   }"

text \<open>The checks; an empty list argument means "all subscribed services".\<close>

definition chosen :: "'d SubMaster \<Rightarrow> string list \<Rightarrow> string list" where
  "chosen sm service_list = (if service_list = [] then services sm else service_list)"

definition all_alive :: "'d SubMaster \<Rightarrow> string list \<Rightarrow> bool" where
  "all_alive sm l \<longleftrightarrow>
     list_all (\<lambda>s. alive sm s) (filter (\<lambda>s. s \<notin> set (ignore_alive sm)) (chosen sm l))"

definition all_freq_ok :: "'d SubMaster \<Rightarrow> string list \<Rightarrow> bool" where
  "all_freq_ok sm l \<longleftrightarrow> list_all (\<lambda>s. freq_ok sm s) (filter (check_avg_freq sm) (chosen sm l))"

definition all_valid :: "'d SubMaster \<Rightarrow> string list \<Rightarrow> bool" where
  "all_valid sm l \<longleftrightarrow>
     list_all (\<lambda>s. valid sm s) (filter (\<lambda>s. s \<notin> set (ignore_valid sm)) (chosen sm l))"

definition all_checks :: "'d SubMaster \<Rightarrow> string list \<Rightarrow> bool" where
  "all_checks sm l \<longleftrightarrow> all_alive sm l \<and> all_freq_ok sm l \<and> all_valid sm l"

section \<open>What one update does\<close>

definition received :: "'d Msg option list \<Rightarrow> string \<Rightarrow> bool" where
  "received msgs s \<longleftrightarrow> (\<exists>m. Some m \<in> set msgs \<and> which m = s)"

lemma received_simps [simp]:
  "received [] s = False"
  "received (None # ms) s = received ms s"
  "received (Some m # ms) s \<longleftrightarrow> which m = s \<or> received ms s"
  by (auto simp: received_def)

lemma receive_msg_fields:
  assumes "receive_msg t sm m = Some sm'"
  shows "frame sm' = frame sm" "services sm' = services sm" "sm_simulation sm' = sm_simulation sm"
    "ignore_alive sm' = ignore_alive sm" "ignore_average_freq sm' = ignore_average_freq sm"
    "ignore_valid sm' = ignore_valid sm" "alive sm' = alive sm" "freq_ok sm' = freq_ok sm"
    "updated sm' = (updated sm)(which m := True)" "seen sm' = (seen sm)(which m := True)"
    "recv_time sm' = (recv_time sm)(which m := t)"
    "recv_frame sm' = (recv_frame sm)(which m := frame sm)"
    "valid sm' = (valid sm)(which m := msg_valid m)"
  using assms by (auto simp: receive_msg_def Let_def bind_eq_Some_conv)

lemma receive_msgs_frame:
  assumes "receive_msgs t sm ms = Some sm'"
  shows "frame sm' = frame sm" "services sm' = services sm" "sm_simulation sm' = sm_simulation sm"
    "ignore_alive sm' = ignore_alive sm" "ignore_average_freq sm' = ignore_average_freq sm"
    "ignore_valid sm' = ignore_valid sm" "alive sm' = alive sm" "freq_ok sm' = freq_ok sm"
  using assms
  by (induction t sm ms rule: receive_msgs.induct)
    (auto simp: bind_eq_Some_conv receive_msg_fields)

lemma receive_msgs_state:
  assumes "receive_msgs t sm ms = Some sm'"
  shows "updated sm' s \<longleftrightarrow> updated sm s \<or> received ms s"
    "seen sm' s \<longleftrightarrow> seen sm s \<or> received ms s"
    "recv_time sm' s = (if received ms s then t else recv_time sm s)"
    "recv_frame sm' s = (if received ms s then frame sm else recv_frame sm s)"
  using assms
  by (induction t sm ms rule: receive_msgs.induct)
    (auto simp: bind_eq_Some_conv receive_msg_fields split: if_splits)

text \<open>A later message of the same service overrides an earlier one.\<close>

lemma receive_msgs_append:
  "receive_msgs t sm (xs @ ys) =
     (case receive_msgs t sm xs of None \<Rightarrow> None | Some sm' \<Rightarrow> receive_msgs t sm' ys)"
  by (induction t sm xs rule: receive_msgs.induct) (auto split: Option.bind_split)

lemma check_services_keeps:
  assumes "check_services t sm ss = Some sm'"
  shows "frame sm' = frame sm" "services sm' = services sm" "sm_simulation sm' = sm_simulation sm"
    "ignore_alive sm' = ignore_alive sm" "ignore_average_freq sm' = ignore_average_freq sm"
    "ignore_valid sm' = ignore_valid sm" "updated sm' = updated sm" "seen sm' = seen sm"
    "recv_time sm' = recv_time sm" "recv_frame sm' = recv_frame sm" "valid sm' = valid sm"
    "freq_tracker sm' = freq_tracker sm"
  using assms
  by (induction t sm ss rule: check_services.induct) (auto simp: bind_eq_Some_conv)

lemma check_services_alive:
  assumes "check_services t sm ss = Some sm'"
  shows "alive sm' s = (if s \<in> set ss then is_alive t sm s else alive sm s)"
  using assms
  by (induction t sm ss rule: check_services.induct)
    (auto simp: bind_eq_Some_conv is_alive_def split: if_splits)

lemma on_demand_not_static: "s \<in> set (static_freq_services sm) \<Longrightarrow> 0 < service_frequency s"
  by (auto simp: static_freq_services_def on_demand_def)

lemma update_msgs_cases:
  assumes "update_msgs t sm msgs = Some sm'"
  obtains sm1 where
    "receive_msgs t (sm\<lparr>frame := frame sm + 1, updated := (\<lambda>_. False)\<rparr>) msgs = Some sm1"
    "check_services t sm1 (static_freq_services sm1) = Some sm'"
  using assms by (auto simp: update_msgs_def Let_def bind_eq_Some_conv)

lemma update_msgs_updated: "update_msgs t sm msgs = Some sm' \<Longrightarrow> updated sm' s = received msgs s"
  by (elim update_msgs_cases)
    (simp add: check_services_keeps receive_msgs_state)

lemma update_msgs_frame:
  "update_msgs t sm msgs = Some sm' \<Longrightarrow> frame sm' = frame sm + 1 \<and> services sm' = services sm"
  by (elim update_msgs_cases)
    (simp add: check_services_keeps receive_msgs_frame)

lemma update_msgs_recv_frame:
  "update_msgs t sm msgs = Some sm' \<Longrightarrow>
     recv_frame sm' s = (if received msgs s then frame sm + 1 else recv_frame sm s)"
  by (elim update_msgs_cases)
    (simp add: check_services_keeps receive_msgs_state)

lemma update_msgs_alive:
  assumes "update_msgs t sm msgs = Some sm'" "s \<in> set (services sm)" "\<not> on_demand s"
  shows "alive sm' s \<longleftrightarrow>
    received msgs s \<or> t - recv_time sm s < 10 / service_frequency s
    \<or> (seen sm s \<and> sm_simulation sm)"
  using assms(1)
proof (rule update_msgs_cases)
  fix sm1
  let ?sm0 = "sm\<lparr>frame := frame sm + 1, updated := (\<lambda>_. False)\<rparr>"
  assume r: "receive_msgs t ?sm0 msgs = Some sm1"
    and c: "check_services t sm1 (static_freq_services sm1) = Some sm'"
  have in1: "s \<in> set (static_freq_services sm1)"
    using assms(2,3) r by (simp add: static_freq_services_def receive_msgs_frame)
  then have "0 < service_frequency s"
    by (rule on_demand_not_static)
  then show ?thesis
    using in1 r by (simp add: check_services_alive [OF c] is_alive_def receive_msgs_state
        receive_msgs_frame)
qed

text \<open>Only a service that failed one of its own checks can fail \<open>all_checks\<close>.\<close>

lemma all_checks_iff:
  "all_checks sm l \<longleftrightarrow>
     (\<forall>s\<in>set (chosen sm l).
        (s \<in> set (ignore_alive sm) \<or> alive sm s)
        \<and> (check_avg_freq sm s \<longrightarrow> freq_ok sm s)
        \<and> (s \<in> set (ignore_valid sm) \<or> valid sm s))"
  by (auto simp: all_checks_def all_alive_def all_freq_ok_def all_valid_def list_all_iff)

section \<open>An update under an increasing clock returns\<close>

text \<open>
  The state of a frequency tracker at time \<open>now\<close>: both averages hold a history of positive intervals,
  and the last message is not younger than \<open>now\<close>.
\<close>

definition tracker_ok :: "rat \<Rightarrow> FrequencyTracker \<Rightarrow> bool" where
  "tracker_ok now ft \<longleftrightarrow> prev_time ft \<le> now
     \<and> (\<exists>w v hist. ring_inv w hist (avg_dt ft) \<and> ring_inv v hist (recent_avg_dt ft) \<and> (\<forall>x\<in>set hist. 0 < x))"

definition trackers_ok :: "rat \<Rightarrow> 'd SubMaster \<Rightarrow> bool" where
  "trackers_ok now sm \<longleftrightarrow> (\<forall>s. tracker_ok now (freq_tracker sm s))"

lemma tracker_ok_new: "0 \<le> now \<Longrightarrow> tracker_ok now (new_FrequencyTracker f u p)"
proof -
  assume now: "0 \<le> now"
  define freq where "freq = max (min f u) 1"
  have freq: "1 \<le> freq"
    by (simp add: freq_def)
  then have "0 < nat (py_trunc freq)" "0 < nat (py_trunc (10 * freq))"
    by (auto simp: py_trunc_def floor_less_iff less_floor_iff not_le)
  then show ?thesis
    using now by (auto simp: tracker_ok_def new_FrequencyTracker_def freq_def [symmetric] Let_def
        split_def intro!: exI [of _ "[]"] ring_inv_new exI)
qed

lemma tracker_record:
  assumes "tracker_ok now ft" "now < t"
  shows "\<exists>ft'. record_recv_time ft t = Some ft' \<and> tracker_ok t ft'"
proof -
  obtain w v hist where inv: "ring_inv w hist (avg_dt ft)" "ring_inv v hist (recent_avg_dt ft)"
    and pos: "\<forall>x\<in>set hist. 0 < x" and p: "prev_time ft \<le> now"
    using assms(1) by (auto simp: tracker_ok_def)
  define x where "x = t - prev_time ft"
  have x: "0 < x"
    using p assms(2) by (simp add: x_def)
  obtain a where a: "add_value (avg_dt ft) x = Some a" "ring_inv w (hist @ [x]) a"
    using ring_inv_add_value [OF inv(1)] by blast
  obtain r where r: "add_value (recent_avg_dt ft) x = Some r" "ring_inv v (hist @ [x]) r"
    using ring_inv_add_value [OF inv(2)] by blast
  have "\<forall>y\<in>set (hist @ [x]). 0 < y"
    using pos x by simp
  then have "tracker_ok t (ft\<lparr>avg_dt := a, recent_avg_dt := r, prev_time := t\<rparr>)"
    using a(2) r(2) unfolding tracker_ok_def by (intro conjI exI [of _ w] exI [of _ v] exI [of _ "hist @ [x]"]) simp_all
  moreover have "tracker_ok t (ft\<lparr>prev_time := t\<rparr>)"
    using inv pos unfolding tracker_ok_def by (intro conjI exI [of _ w] exI [of _ v] exI [of _ hist]) simp_all
  ultimately show ?thesis
    using a(1) r(1) by (simp add: record_recv_time_def flip: x_def)
qed

lemma sum_list_positive: "xs \<noteq> [] \<Longrightarrow> \<forall>x\<in>set xs. 0 < x \<Longrightarrow> 0 < sum_list (xs :: rat list)"
  by (induction xs rule: list_nonempty_induct) (auto intro: add_pos_pos)

lemma average_positive:
  assumes "ring_inv w hist m" "\<forall>x\<in>set hist. 0 < x" "hist \<noteq> []"
  shows "\<exists>f. avg_frequency m = Some f"
proof -
  have w: "0 < w"
    using assms(1) by (simp add: ring_inv_def)
  have ne: "last_values w hist \<noteq> []"
    using assms(3) w by (cases hist) (auto simp: last_values_def)
  have pos: "\<forall>x\<in>set (last_values w hist). 0 < x"
    using assms(2) set_drop_subset by (fastforce simp: last_values_def)
  have "0 < sum_list (last_values w hist)"
    using ne pos by (rule sum_list_positive)
  then show ?thesis
    unfolding avg_frequency_def ring_inv_average [OF assms(1)] using assms(3) ne by simp
qed

lemma tracker_valid: "tracker_ok now ft \<Longrightarrow> \<exists>b. freq_valid ft = Some b"
proof -
  assume "tracker_ok now ft"
  then obtain w v hist where inv: "ring_inv w hist (avg_dt ft)" "ring_inv v hist (recent_avg_dt ft)"
    and pos: "\<forall>x\<in>set hist. 0 < x"
    by (auto simp: tracker_ok_def)
  show ?thesis
  proof (cases "hist = []")
    case True
    then show ?thesis
      using inv(1) by (intro exI [of _ False]) (simp add: freq_valid_def ring_inv_def)
  next
    case False
    then show ?thesis
      using average_positive [OF inv(1) pos] average_positive [OF inv(2) pos]
      by (auto simp: freq_valid_def)
  qed
qed

lemma tracker_later: "tracker_ok now ft \<Longrightarrow> now \<le> t \<Longrightarrow> tracker_ok t ft"
  by (auto simp: tracker_ok_def)

text \<open>\<open>update_msgs\<close> is given at most one message of a service: each socket is read once.\<close>

definition one_each :: "'d Msg option list \<Rightarrow> bool" where
  "one_each msgs \<longleftrightarrow> distinct (map (which \<circ> the) (filter (\<lambda>m. m \<noteq> None) msgs))"

lemma one_each_simps [simp]:
  "one_each []" "one_each (None # ms) = one_each ms"
  "one_each (Some m # ms) \<longleftrightarrow> \<not> received ms (which m) \<and> one_each ms"
  by (force simp: one_each_def received_def)+

lemma receive_msgs_ok:
  assumes "trackers_ok t sm" "\<forall>s. received ms s \<longrightarrow> tracker_ok now (freq_tracker sm s)" "now < t"
    "one_each ms"
  shows "\<exists>sm'. receive_msgs t sm ms = Some sm' \<and> trackers_ok t sm'"
  using assms
proof (induction t sm ms rule: receive_msgs.induct)
  case (3 t sm msg ms)
  obtain ft where ft: "record_recv_time (freq_tracker sm (which msg)) t = Some ft" "tracker_ok t ft"
    using tracker_record [of now _ t] 3(3,4) by auto
  then obtain sm' where sm': "receive_msg t sm msg = Some sm'"
    "freq_tracker sm' = (freq_tracker sm)(which msg := ft)"
    by (auto simp: receive_msg_def Let_def)
  have "trackers_ok t sm'"
    using 3(2) ft(2) by (auto simp: trackers_ok_def sm'(2))
  moreover have "\<forall>s. received ms s \<longrightarrow> tracker_ok now (freq_tracker sm' s)"
    using 3(3,5) by (auto simp: sm'(2))
  ultimately show ?case
    using 3(1) [OF sm'(1)] 3(4,5) sm'(1) by auto
qed auto

lemma check_services_ok:
  "trackers_ok t sm \<Longrightarrow> \<exists>sm'. check_services now sm ss = Some sm' \<and> trackers_ok t sm'"
proof (induction ss arbitrary: sm)
  case (Cons s ss)
  obtain v where "freq_valid (freq_tracker sm s) = Some v"
    using tracker_valid [of t] Cons.prems unfolding trackers_ok_def by blast
  then show ?case
    using Cons.IH [of "sm\<lparr>alive := (alive sm)(s := is_alive now sm s),
      freq_ok := (freq_ok sm)(s := (v \<or> sm_simulation sm))\<rparr>"] Cons.prems
    by (auto simp: trackers_ok_def)
qed auto

lemma trackers_ok_new: "0 \<le> now \<Longrightarrow> trackers_ok now (new_SubMaster ss poll ia iaf iv u sim d)"
  by (simp add: trackers_ok_def new_SubMaster_def tracker_ok_new)

lemma update_msgs_total:
  assumes "trackers_ok now sm" "now < t" "one_each msgs"
  shows "\<exists>sm'. update_msgs t sm msgs = Some sm' \<and> trackers_ok t sm'"
proof -
  let ?sm0 = "sm\<lparr>frame := frame sm + 1, updated := (\<lambda>_. False)\<rparr>"
  have "trackers_ok t ?sm0" "\<forall>s. received msgs s \<longrightarrow> tracker_ok now (freq_tracker ?sm0 s)"
    using assms(1,2) by (auto simp: trackers_ok_def intro: tracker_later)
  from receive_msgs_ok [OF this assms(2,3)] obtain sm1 where
    "receive_msgs t ?sm0 msgs = Some sm1" "trackers_ok t sm1"
    by blast
  then show ?thesis
    using check_services_ok [of t sm1 t "static_freq_services sm1"] by (auto simp: update_msgs_def)
qed

section \<open>Properties\<close>

text \<open>An update at a later time with at most one message per socket returns, advances
  the frame, and for every subscribed periodic service \<open>updated\<close> says whether a message arrived,
  \<open>recv_frame\<close> is the frame of its last message, and \<open>alive\<close> holds exactly when a message arrived or the
  last one is younger than ten periods (or, in simulation, when one was ever seen).\<close>

theorem update_tracks_services:
  assumes "trackers_ok now sm" "now < t" "one_each msgs"
  shows "\<exists>sm'. update_msgs t sm msgs = Some sm' \<and> trackers_ok t sm' \<and> frame sm' = frame sm + 1
    \<and> (\<forall>s. updated sm' s = received msgs s
        \<and> recv_frame sm' s = (if received msgs s then frame sm' else recv_frame sm s))
    \<and> list_all (\<lambda>s. alive sm' s \<longleftrightarrow> received msgs s \<or> t - recv_time sm s < 10 / service_frequency s
        \<or> (seen sm s \<and> sm_simulation sm)) (static_freq_services sm)"
proof -
  obtain sm' where u: "update_msgs t sm msgs = Some sm'" "trackers_ok t sm'"
    using update_msgs_total [OF assms] by blast
  moreover have "alive sm' s \<longleftrightarrow> received msgs s \<or> t - recv_time sm s < 10 / service_frequency s
      \<or> (seen sm s \<and> sm_simulation sm)" if "s \<in> set (static_freq_services sm)" for s
    using update_msgs_alive [OF u(1), of s] that by (simp add: static_freq_services_def)
  ultimately show ?thesis
    using update_msgs_updated [OF u(1)] update_msgs_frame [OF u(1)] update_msgs_recv_frame [OF u(1)]
    by (auto simp: list_all_iff)
qed

theorem update_tracks_services_witness:
  "\<exists>sm'. update_msgs 1 (new_SubMaster [''modelV2'', ''carState''] None [] [] [] 100 False ()) [None,
      Some \<lparr>which = ''carState'', msg_logMonoTime = 7, msg_valid = True, store = (id :: unit \<Rightarrow> unit)\<rparr>] = Some sm'
     \<and> updated sm' ''carState'' \<and> \<not> updated sm' ''modelV2''"
proof -
  let ?sm = "new_SubMaster [''modelV2'', ''carState''] None [] [] [] 100 False ()"
  let ?ms = "[None, Some \<lparr>which = ''carState'', msg_logMonoTime = 7, msg_valid = True, store = (id :: unit \<Rightarrow> unit)\<rparr>]"
  have one: "one_each ?ms"
    by simp
  have new: "trackers_ok 0 ?sm"
    by (rule trackers_ok_new) simp
  obtain sm' where "update_msgs 1 ?sm ?ms = Some sm'" "\<forall>s. updated sm' s = received ?ms s"
    using update_tracks_services [OF new zero_less_one one] by auto
  then show ?thesis
    by simp
qed

end
