(* ===== verification/Messages.thy ===== *)
theory Messages
  imports SubMaster EventNames
begin

text \<open>
  The messages the controls code exchanges: the fields of \<open>CarParams\<close>, \<open>CarState\<close>, \<open>CarControl\<close> and
  of the services \<open>selfdrived\<close> subscribes to, as far as the modelled code reads them. The \<open>car\<close>
  schema belongs to \<open>opendbc\<close>, which is not part of the repository: enumerations of it list the
  values the code names and a constructor for the others.
\<close>

section \<open>Unit conversions (\<open>common/constants.py\<close>)\<close>

definition MPH_TO_KPH :: rat where "MPH_TO_KPH = 1609344 / 1000000"
definition KPH_TO_MPH :: rat where "KPH_TO_MPH = 1 / MPH_TO_KPH"
definition MS_TO_KPH :: rat where "MS_TO_KPH = 36 / 10"
definition KPH_TO_MS :: rat where "KPH_TO_MS = 1 / MS_TO_KPH"
definition MS_TO_MPH :: rat where "MS_TO_MPH = MS_TO_KPH * KPH_TO_MPH"
definition MPH_TO_MS :: rat where "MPH_TO_MS = MPH_TO_KPH * KPH_TO_MS"

lemmas CV_defs = MPH_TO_KPH_def KPH_TO_MPH_def MS_TO_KPH_def KPH_TO_MS_def MS_TO_MPH_def MPH_TO_MS_def

lemma CV_pos [simp]: "0 < MS_TO_KPH" "0 < MS_TO_MPH" "0 < KPH_TO_MS" "0 < MPH_TO_MS" "0 < MPH_TO_KPH"
  by (simp_all add: CV_defs)

lemma MS_TO_KPH_inverse [simp]: "KPH_TO_MS * MS_TO_KPH = 1" "MPH_TO_MS * MS_TO_MPH = 1"
  by (simp_all add: CV_defs)

section \<open>Car messages\<close>

datatype GearShifter = GS_drive | GS_reverse | GS_park | GS_low | GS_other nat

datatype ButtonType =
    BT_accelCruise | BT_decelCruise | BT_setCruise | BT_resumeCruise | BT_cancel | BT_mainCruise
  | BT_lkas | BT_gapAdjustCruise | BT_other nat

record ButtonEvent =
  be_type :: ButtonType
  be_pressed :: bool

record CruiseState =
  cr_enabled :: bool
  cr_available :: bool
  cr_standstill :: bool
  cr_nonAdaptive :: bool
  cr_speed :: rat
  cr_speedCluster :: rat

record CarState =
  cs_vEgo :: rat
  cs_aEgo :: rat
  cs_vCruise :: rat
  cs_vCruiseCluster :: rat
  cs_standstill :: bool
  cs_gasPressed :: bool
  cs_brakePressed :: bool
  cs_regenBraking :: bool
  cs_steeringPressed :: bool
  cs_steeringDisengage :: bool
  cs_steeringTorque :: rat
  cs_steeringAngleDeg :: rat
  cs_canValid :: bool
  cs_canTimeout :: bool
  cs_doorOpen :: bool
  cs_seatbeltUnlatched :: bool
  cs_gearShifter :: GearShifter
  cs_espDisabled :: bool
  cs_espActive :: bool
  cs_stockFcw :: bool
  cs_stockAeb :: bool
  cs_stockLkas :: bool
  cs_brakeHoldActive :: bool
  cs_parkingBrake :: bool
  cs_accFaulted :: bool
  cs_vehicleSensorsInvalid :: bool
  cs_invalidLkasSetting :: bool
  cs_lowSpeedAlert :: bool
  cs_buttonEnable :: bool
  cs_steerFaultTemporary :: bool
  cs_steerFaultPermanent :: bool
  cs_blockPcmEnable :: bool
  cs_leftBlindspot :: bool
  cs_rightBlindspot :: bool
  cs_leftBlinker :: bool
  cs_rightBlinker :: bool
  cs_buttonEvents :: "ButtonEvent list"
  cs_cruiseState :: CruiseState

datatype SafetyModel = SM_silent | SM_noOutput | SM_other nat

datatype NetworkLocation = NL_fwdCamera | NL_other nat

record SafetyConfig =
  sc_safetyModel :: SafetyModel
  sc_safetyParam :: nat

record CarParams =
  cp_brand :: string
  cp_carFingerprint :: string
  cp_passive :: bool
  cp_notCar :: bool
  cp_pcmCruise :: bool
  cp_openpilotLongitudinalControl :: bool
  cp_alphaLongitudinalAvailable :: bool
  cp_secOcRequired :: bool
  cp_secOcKeyAvailable :: bool
  cp_minEnableSpeed :: rat
  cp_minSteerSpeed :: rat
  cp_flags :: nat
  cp_networkLocation :: NetworkLocation
  cp_safetyConfigs :: "SafetyConfig list"
  cp_alternativeExperience :: nat
  cp_vEgoStarting :: rat
  cp_startingState :: bool
  cp_stopAccel :: rat
  cp_startAccel :: rat
  cp_stoppingDecelRate :: rat
  cp_longitudinal_kp :: "rat list \<times> rat list"
  cp_longitudinal_ki :: "rat list \<times> rat list"

record CarParamsSP =
  cpsp_flags :: nat
  cpsp_safetyParam :: int
  cpsp_pcmCruiseSpeed :: bool
  cpsp_enableGasInterceptor :: bool
  cpsp_icbmAvailable :: bool

record CarControl =
  cc_enabled :: bool
  cc_latActive :: bool
  cc_longActive :: bool
  cc_accel :: rat
  cc_torque :: rat
  cc_cruise_override :: bool
  cc_cruise_cancel :: bool
  cc_cruise_resume :: bool

text \<open>The message default of a freshly allocated \<open>CarState\<close> (all fields zero).\<close>

definition default_CruiseState :: CruiseState where
  "default_CruiseState =
     \<lparr>cr_enabled = False, cr_available = False, cr_standstill = False, cr_nonAdaptive = False,
      cr_speed = 0, cr_speedCluster = 0\<rparr>"

definition default_CarState :: CarState where
  "default_CarState =
     \<lparr>cs_vEgo = 0, cs_aEgo = 0, cs_vCruise = 0, cs_vCruiseCluster = 0, cs_standstill = False,
      cs_gasPressed = False, cs_brakePressed = False, cs_regenBraking = False,
      cs_steeringPressed = False, cs_steeringDisengage = False, cs_steeringTorque = 0,
      cs_steeringAngleDeg = 0,
      cs_canValid = False, cs_canTimeout = False, cs_doorOpen = False,
      cs_seatbeltUnlatched = False, cs_gearShifter = GS_other 0, cs_espDisabled = False,
      cs_espActive = False, cs_stockFcw = False, cs_stockAeb = False, cs_stockLkas = False,
      cs_brakeHoldActive = False, cs_parkingBrake = False, cs_accFaulted = False,
      cs_vehicleSensorsInvalid = False, cs_invalidLkasSetting = False, cs_lowSpeedAlert = False,
      cs_buttonEnable = False, cs_steerFaultTemporary = False, cs_steerFaultPermanent = False,
      cs_blockPcmEnable = False, cs_leftBlindspot = False, cs_rightBlindspot = False,
      cs_leftBlinker = False, cs_rightBlinker = False, cs_buttonEvents = [],
      cs_cruiseState = default_CruiseState\<rparr>"

text \<open>An ordinary car with openpilot longitudinal control, for examples.\<close>

definition plain_CP :: CarParams where
  "plain_CP =
     \<lparr>cp_brand = ''honda'', cp_carFingerprint = ''HONDA_CIVIC'', cp_passive = False, cp_notCar = False,
      cp_pcmCruise = False, cp_openpilotLongitudinalControl = True,
      cp_alphaLongitudinalAvailable = False, cp_secOcRequired = False, cp_secOcKeyAvailable = False,
      cp_minEnableSpeed = -1, cp_minSteerSpeed = 0, cp_flags = 0, cp_networkLocation = NL_other 0,
      cp_safetyConfigs = [], cp_alternativeExperience = 0, cp_vEgoStarting = 1/2, cp_startingState = False,
      cp_stopAccel = -2, cp_startAccel = 1, cp_stoppingDecelRate = 8/10,
      cp_longitudinal_kp = ([0], [1]), cp_longitudinal_ki = ([0], [0])\<rparr>"

section \<open>Messages selfdrived subscribes to\<close>

datatype CalStatus = CAL_uncalibrated | CAL_calibrated | CAL_invalid | CAL_recalibrating

datatype ThermalStatus = TH_ok | TH_warmDEPRECATED | TH_overheated | TH_critical

definition thermal_value :: "ThermalStatus \<Rightarrow> nat" where
  "thermal_value t =
     (case t of TH_ok \<Rightarrow> 0 | TH_warmDEPRECATED \<Rightarrow> 1 | TH_overheated \<Rightarrow> 2 | TH_critical \<Rightarrow> 3)"

datatype LaneChangeState = LC_off | LC_preLaneChange | LC_laneChangeStarting | LC_laneChangeFinishing

datatype LaneChangeDirection = LCD_none | LCD_left | LCD_right

datatype TurnDirection = TD_none | TD_turnLeft | TD_turnRight

datatype AlertLevel = AL_none | AL_one | AL_two | AL_three

datatype MonitoringPolicy = MP_wheeltouch | MP_vision

record PandaState =
  ps_safetyModel :: SafetyModel
  ps_safetyParam :: nat
  ps_alternativeExperience :: nat
  ps_safetyRxChecksInvalid :: bool
  ps_controlsAllowed :: bool
  ps_controlsAllowedLateral :: bool
  ps_relayMalfunction :: bool \<comment> \<open>\<open>FaultType.relayMalfunction in faults\<close>\<close>

record ProcessState =
  pr_name :: string
  pr_running :: bool
  pr_shouldBeRunning :: bool

record SpeedLimitResolverMsg =
  rm_speedLimit :: rat
  rm_speedLimitFinalLast :: rat
  rm_speedLimitValid :: bool
  rm_speedLimitLastValid :: bool

record SdData =
  \<comment> \<open>controlsState, carControl\<close>
  d_lat_debugState :: bool
  d_lac_active :: bool
  d_lac_saturated :: bool
  d_curvature :: rat
  d_vCruise_deprecated :: rat
  d_carControl :: CarControl
  \<comment> \<open>driverMonitoringState\<close>
  d_dm_lockout :: bool
  d_dm_alwaysOnLockout :: bool
  d_dm_alertLevel :: AlertLevel
  d_dm_activePolicy :: MonitoringPolicy
  d_dm_uncertainPercent :: int
  \<comment> \<open>longitudinalPlanSP, longitudinalPlan\<close>
  d_lpsp_events :: "event list"
  d_lpsp_vTarget :: rat
  d_lpsp_resolver :: SpeedLimitResolverMsg
  d_lp_fcw :: bool
  \<comment> \<open>deviceState, peripheralState\<close>
  d_thermalStatus :: ThermalStatus
  d_freeSpacePercent :: rat
  d_memoryUsagePercent :: int
  d_cpuUsagePercent :: "int list"
  d_cpuTempC :: "rat list"
  d_gpuTempC :: "rat list"
  d_memoryTempC :: rat
  d_fanSpeedPercentDesired :: nat
  d_fanSpeedRpm :: nat
  d_pandaType_unknown :: bool
  \<comment> \<open>liveCalibration, livePose, liveParameters\<close>
  d_calStatus :: CalStatus
  d_calPerc :: int
  d_rpyCalib :: "rat list"
  d_posenetOK :: bool
  d_inputsOK :: bool
  d_params_valid :: bool
  d_roll :: rat
  d_angleOffsetValid :: bool
  d_angleOffsetDeg :: rat
  d_steerRatioValid :: bool
  d_steerRatio :: rat
  d_stiffnessFactorValid :: bool
  d_stiffnessFactor :: rat
  \<comment> \<open>driverAssistance, modelV2, modelDataV2SP\<close>
  d_leftLaneDeparture :: bool
  d_rightLaneDeparture :: bool
  d_laneChangeState :: LaneChangeState
  d_laneChangeDirection :: LaneChangeDirection
  d_laneTurnDirection :: TurnDirection
  d_desiredCurvature :: rat
  d_hardBrakePredicted :: bool
  d_frameDropPerc :: rat
  d_model_velocity_x :: "rat list"
  \<comment> \<open>pandaStates, managerState, radarState\<close>
  d_pandaStates :: "PandaState list"
  d_processes :: "ProcessState list"
  d_radar_canError :: bool
  d_radar_unavailableTemporary :: bool
  d_radar_other_error :: bool \<comment> \<open>any other field of \<open>radarErrors\<close> is set\<close>
  \<comment> \<open>alertDebug, audioFeedback\<close>
  d_alertText1 :: string
  d_alertText2 :: string
  d_audio_blockNum :: nat

end
