(* ===== verification/AlertCallbacks.thy ===== *)
theory AlertCallbacks
  imports EventsBase Messages
begin

text \<open>
  The alert callback functions of \<open>selfdrive/selfdrived/events.py\<close> and of sunnypilot's
  \<open>events.py\<close>: alerts whose text or severity depends on the car, the latest messages and the soft
  disable timer. The environment (device type, git branch, environment variables) is the record
  \<open>Env\<close>; \<open>get_short_branch\<close> runs git, so the branch is a field.
\<close>

record Env =
  env_mici :: bool
  env_short_branch :: string
  env_REPLAY :: bool
  env_SIMULATION :: bool
  env_TESTING_CLOSET :: bool

record cb_args =
  ca_CP :: CarParams
  ca_CS :: CarState
  ca_sm :: "SdData SubMaster"
  ca_metric :: bool
  ca_soft_disable_time :: int
  ca_personality :: string

text \<open>The double \<open>math.pi\<close>, and \<open>math.degrees\<close>.\<close>

definition py_pi :: rat where
  "py_pi = 884279719003555 / 281474976710656"

definition py_degrees :: "rat \<Rightarrow> rat" where
  "py_degrees x = x * (180 / py_pi)"

text \<open>\<open>str.title\<close> on ASCII text.\<close>

definition is_lower :: "char \<Rightarrow> bool" where
  "is_lower c \<longleftrightarrow> 97 \<le> (of_char c :: nat) \<and> of_char c \<le> (122 :: nat)"

definition is_upper :: "char \<Rightarrow> bool" where
  "is_upper c \<longleftrightarrow> 65 \<le> (of_char c :: nat) \<and> of_char c \<le> (90 :: nat)"

fun title_from :: "bool \<Rightarrow> string \<Rightarrow> string" where
  "title_from in_word [] = []"
| "title_from in_word (c # s) =
     (if is_lower c \<or> is_upper c
      then (if in_word then (if is_upper c then char_of (of_char c + (32 :: nat)) else c)
            else (if is_lower c then char_of (of_char c - (32 :: nat)) else c))
           # title_from True s
      else c # title_from False s)"

definition str_title :: "string \<Rightarrow> string" where
  "str_title s = title_from False s"

section \<open>Helper functions\<close>

definition get_display_speed :: "rat \<Rightarrow> bool \<Rightarrow> string" where
  "get_display_speed speed_ms metric =
     (let speed = py_round (speed_ms * (if metric then MS_TO_KPH else MS_TO_MPH));
          unit = (if metric then ''km/h'' else ''mph'')
      in str_int speed @ '' '' @ unit)"

definition MIN_SPEED_FILTER :: rat where
  "MIN_SPEED_FILTER = 15 * MPH_TO_MS"

section \<open>Callbacks of openpilot\<close>

definition wrong_car_mode_alert :: "Env \<Rightarrow> cb_args \<Rightarrow> Alert" where
  "wrong_car_mode_alert env a =
     (let text = (if cp_brand (ca_CP a) = ''honda'' then ''Enable Main Switch to Engage''
                  else ''Enable Adaptive Cruise to Engage'')
      in NoEntryAlert (env_mici env) text)"

definition soft_disable_alert :: "string \<Rightarrow> cb_args \<Rightarrow> Alert" where
  "soft_disable_alert text_2 a =
     (if ca_soft_disable_time a < py_trunc ((5 / 10) / DT_CTRL) then ImmediateDisableAlert text_2
      else SoftDisableAlert text_2)"

definition user_soft_disable_alert :: "string \<Rightarrow> cb_args \<Rightarrow> Alert" where
  "user_soft_disable_alert text_2 a =
     (if ca_soft_disable_time a < py_trunc ((5 / 10) / DT_CTRL) then ImmediateDisableAlert text_2
      else UserSoftDisableAlert text_2)"

definition startup_master_alert :: "Env \<Rightarrow> cb_args \<Rightarrow> Alert" where
  "startup_master_alert env a =
     (let branch = (if env_REPLAY env then ''replay'' else env_short_branch env)
      in StartupAlert_full (env_mici env) ''WARNING: This branch is not tested'' branch
           AStat_userPrompt)"

definition below_engage_speed_alert :: "Env \<Rightarrow> cb_args \<Rightarrow> Alert" where
  "below_engage_speed_alert env a =
     NoEntryAlert (env_mici env)
       (''Drive above '' @ get_display_speed (cp_minEnableSpeed (ca_CP a)) (ca_metric a)
        @ '' to engage'')"

definition below_steer_speed_alert :: "cb_args \<Rightarrow> Alert" where
  "below_steer_speed_alert a =
     mk_Alert (''Steer Assist Unavailable Below ''
               @ get_display_speed (cp_minSteerSpeed (ca_CP a)) (ca_metric a))
       [] AStat_userPrompt ASize_small LOW VA_none AA_prompt (4 / 10)"

definition calibration_incomplete_alert :: "cb_args \<Rightarrow> Alert" where
  "calibration_incomplete_alert a =
     (let d = data (ca_sm a);
          first_word = (if d_calStatus d = CAL_recalibrating then ''Recalibrating''
                        else ''Calibrating'')
      in mk_Alert (first_word @ '': '' @ str_fixed 0 (of_int (d_calPerc d)) @ ''%'')
           (''Drive Above '' @ get_display_speed MIN_SPEED_FILTER (ca_metric a))
           AStat_normal ASize_mid LOWEST VA_none AA_none (2 / 10))"

definition audio_feedback_alert :: "cb_args \<Rightarrow> Alert" where
  "audio_feedback_alert a =
     (let duration = 10 - (of_nat (d_audio_blockNum (data (ca_sm a)) + 1) * 800 / 16000)
      in NormalPermanentAlert_full ''Recording Audio Feedback''
           (str_int (py_round duration) @ '' second''
            @ (if py_round duration \<noteq> 1 then ''s'' else [])
            @ '' remaining. Press again to save early.'')
           (2 / 10) LOW 0)"

definition out_of_space_alert :: "cb_args \<Rightarrow> Alert" where
  "out_of_space_alert a =
     (let full_perc = py_round (100 - d_freeSpacePercent (data (ca_sm a)))
      in NormalPermanentAlert ''Out of Storage'' (str_int full_perc @ ''% full''))"

definition posenet_invalid_alert :: "Env \<Rightarrow> cb_args \<Rightarrow> Alert" where
  "posenet_invalid_alert env a =
     (let mdl = (case d_model_velocity_x (data (ca_sm a)) of [] \<Rightarrow> None | x # _ \<Rightarrow> Some x);
          err = map_option (\<lambda>v. cs_vEgo (ca_CS a) - v) mdl
      in NoEntryAlert_full (env_mici env) (''Speed Error: '' @ str_fixed_nan 1 err @ '' m/s'')
           ''Posenet Speed Invalid'' VA_none)"

definition process_not_running_alert :: "Env \<Rightarrow> cb_args \<Rightarrow> Alert" where
  "process_not_running_alert env a =
     (let not_running = map pr_name
            (filter (\<lambda>p. \<not> pr_running p \<and> pr_shouldBeRunning p) (d_processes (data (ca_sm a))))
      in NoEntryAlert_full (env_mici env) (str_join '', '' not_running)
           ''Process Not Running'' VA_none)"

definition comm_issue_alert :: "Env \<Rightarrow> cb_args \<Rightarrow> Alert" where
  "comm_issue_alert env a =
     (let bs = filter (\<lambda>s. \<not> all_checks (ca_sm a) [s]) (services (ca_sm a))
      in NoEntryAlert_full (env_mici env) (str_join '', '' (take 4 bs))
           ''Communication Issue Between Processes'' VA_none)"

definition camera_malfunction_alert :: "cb_args \<Rightarrow> Alert" where
  "camera_malfunction_alert a =
     (let all_cams = [''roadCameraState'', ''driverCameraState'', ''wideRoadCameraState''];
          bad_cams = map (str_remove ''State'')
            (filter (\<lambda>s. s \<in> set (services (ca_sm a)) \<and> \<not> all_checks (ca_sm a) [s]) all_cams)
      in NormalPermanentAlert ''Camera Malfunction'' (str_join '', '' bad_cams))"

definition calibration_invalid_alert :: "cb_args \<Rightarrow> Alert" where
  "calibration_invalid_alert a =
     (let rpy = d_rpyCalib (data (ca_sm a));
          yaw = (if length rpy = 3 then Some (py_degrees (rpy ! 2)) else None);
          pitch = (if length rpy = 3 then Some (py_degrees (rpy ! 1)) else None);
          angles = ''Remount Device (Pitch: '' @ str_fixed_nan 1 pitch @ degree_sign @ '', Yaw: ''
                   @ str_fixed_nan 1 yaw @ degree_sign @ '')''
      in NormalPermanentAlert ''Calibration Invalid'' angles)"

definition paramsd_invalid_alert :: "Env \<Rightarrow> cb_args \<Rightarrow> Alert" where
  "paramsd_invalid_alert env a =
     (let d = data (ca_sm a) in
      if \<not> d_angleOffsetValid d
      then NoEntryAlert_full (env_mici env)
             (''Angle offset too high (Offset: '' @ str_fixed 1 (d_angleOffsetDeg d)
              @ degree_sign @ '')'')
             ''Steering misalignment detected'' VA_none
      else if \<not> d_steerRatioValid d
      then NoEntryAlert_full (env_mici env)
             (''Steering rack geometry may be off (Ratio: '' @ str_fixed 1 (d_steerRatio d) @ '')'')
             ''Steer ratio mismatch'' VA_none
      else if \<not> d_stiffnessFactorValid d
      then NoEntryAlert_full (env_mici env)
             (''Check tires, pressure, or alignment (Factor: '' @ str_fixed 1 (d_stiffnessFactor d)
              @ '')'')
             ''Abnormal tire stiffness'' VA_none
      else NoEntryAlert (env_mici env) ''paramsd Temporary Error'')"

definition overheat_alert :: "cb_args \<Rightarrow> Alert" where
  "overheat_alert a =
     (let d = data (ca_sm a);
          cpu = (if d_cpuTempC d = [] then 0 else foldr max (tl (d_cpuTempC d)) (hd (d_cpuTempC d)));
          gpu = (if d_gpuTempC d = [] then 0 else foldr max (tl (d_gpuTempC d)) (hd (d_gpuTempC d)));
          temp = max (max cpu gpu) (d_memoryTempC d)
      in NormalPermanentAlert ''System Overheated'' (str_fixed 0 temp @ '' '' @ degree_sign @ ''C''))"

definition low_memory_alert :: "cb_args \<Rightarrow> Alert" where
  "low_memory_alert a =
     NormalPermanentAlert ''Low Memory''
       (str_int (d_memoryUsagePercent (data (ca_sm a))) @ ''% used'')"

definition high_cpu_usage_alert :: "cb_args \<Rightarrow> Alert" where
  "high_cpu_usage_alert a =
     (let us = d_cpuUsagePercent (data (ca_sm a));
          x = (if us = [] then ''0.0'' else str_int (foldr max (tl us) (hd us)))
      in NormalPermanentAlert ''High CPU Usage'' (x @ ''% used''))"

definition modeld_lagging_alert :: "cb_args \<Rightarrow> Alert" where
  "modeld_lagging_alert a =
     NormalPermanentAlert ''Driving Model Lagging''
       (str_fixed 1 (d_frameDropPerc (data (ca_sm a))) @ ''% frames dropped'')"

definition joystick_alert :: "cb_args \<Rightarrow> Alert" where
  "joystick_alert a =
     (let gb = cc_accel (d_carControl (data (ca_sm a))) / 4;
          steer = cc_torque (d_carControl (data (ca_sm a)))
      in NormalPermanentAlert ''Joystick Mode''
           (''Gas: '' @ str_int (py_round (gb * 100)) @ ''%, Steer: ''
            @ str_int (py_round (steer * 100)) @ ''%''))"

definition longitudinal_maneuver_alert :: "cb_args \<Rightarrow> Alert" where
  "longitudinal_maneuver_alert a =
     (let d = data (ca_sm a); active = is_infix ''Active'' (d_alertText1 d)
      in mk_Alert (d_alertText1 d) (d_alertText2 d)
           (if active then AStat_userPrompt else AStat_normal)
           (if d_alertText2 d \<noteq> [] then ASize_mid else ASize_small)
           LOW VA_none (if active then AA_prompt else AA_none) (2 / 10))"

definition personality_changed_alert :: "cb_args \<Rightarrow> Alert" where
  "personality_changed_alert a =
     NormalPermanentAlert_full (''Driving Personality: '' @ str_title (ca_personality a)) []
       (15 / 10) LOWER 0"

definition invalid_lkas_setting_alert :: "cb_args \<Rightarrow> Alert" where
  "invalid_lkas_setting_alert a =
     (let brand = cp_brand (ca_CP a);
          text = (if brand = ''tesla'' then ''Switch to Traffic-Aware Cruise Control to engage''
                  else if brand = ''mazda'' then ''Enable your car's LKAS to engage''
                  else if brand = ''nissan'' then ''Disable your car's stock LKAS to engage''
                  else ''Toggle stock LKAS on or off to engage'')
      in NormalPermanentAlert ''Invalid LKAS setting'' text)"

section \<open>Callbacks of sunnypilot\<close>

definition PCM_LONG_REQUIRED_MAX_SET_SPEED :: "bool \<Rightarrow> rat \<times> rat" where
  "PCM_LONG_REQUIRED_MAX_SET_SPEED metric =
     (if metric then (333333 / 10000, 361111 / 10000) else (312928 / 10000, 357632 / 10000))"

definition CONFIRM_SPEED_THRESHOLD :: "bool \<Rightarrow> int" where
  "CONFIRM_SPEED_THRESHOLD metric = (if metric then 80 else 50)"

definition speed_limit_adjust_alert :: "cb_args \<Rightarrow> Alert" where
  "speed_limit_adjust_alert a =
     (let speedLimit = rm_speedLimit (d_lpsp_resolver (data (ca_sm a)));
          speed = py_round (speedLimit * (if ca_metric a then MS_TO_KPH else MS_TO_MPH));
          message = ''Adjusting to '' @ str_int speed @ '' ''
                    @ (if ca_metric a then ''km/h'' else ''mph'') @ '' speed limit''
      in mk_Alert message [] AStat_normal ASize_small LOW VA_none AA_none 4)"

definition speed_limit_pre_active_alert :: "Env \<Rightarrow> cb_args \<Rightarrow> Alert" where
  "speed_limit_pre_active_alert env a =
     (let metric = ca_metric a; CP = ca_CP a; d = data (ca_sm a);
          speed_conv = (if metric then MS_TO_KPH else MS_TO_MPH);
          v_cruise_cluster = cs_vCruiseCluster (ca_CS a);
          set_speed = (if v_cruise_cluster = 0 then d_vCruise_deprecated d else v_cruise_cluster);
          set_speed_conv = py_round (set_speed * speed_conv);
          final_last_conv = py_round (rm_speedLimitFinalLast (d_lpsp_resolver d) * speed_conv);
          (text, sz) =
            (if cp_openpilotLongitudinalControl CP \<and> cp_pcmCruise CP
             then (let (cst_low, cst_high) = PCM_LONG_REQUIRED_MAX_SET_SPEED metric;
                       req = (if final_last_conv < CONFIRM_SPEED_THRESHOLD metric then cst_low
                              else cst_high)
                   in (''Speed Limit Assist: set to '' @ str_int (py_round (req * speed_conv)) @ '' ''
                       @ (if metric then ''km/h'' else ''mph'') @ '' to engage'', ASize_small))
             else if env_mici env
             then (if set_speed_conv < final_last_conv then ''Press + to confirm speed limit''
                   else if set_speed_conv > final_last_conv then ''Press - to confirm speed limit''
                   else [], ASize_small)
             else ([], ASize_none))
      in mk_Alert text [] AStat_normal sz LOW VA_none AASP_promptSingleLow (1 / 10))"

end
