(* ===== verification/EventTable.thy ===== *)
theory EventTable
  imports AlertCallbacks
begin

text \<open>
  The dictionary \<open>EVENTS\<close> of \<open>selfdrive/selfdrived/events.py\<close>: for every openpilot event its event
  types and the alert each one shows. It is cut into consecutive parts in the order of the source;
  \<open>EVENTS\<close> joins them and applies the \<open>EVENTS.update\<close> of the small device (\<open>mici\<close>).
\<close>

definition EVENTS_permanent :: "Env \<Rightarrow> cb_args events_mapping" where
  "EVENTS_permanent env = [
     (EN_stockFcw, []),
     (EN_actuatorsApiUnavailable, []),
     (EN_joystickDebug, [
       (WARNING, Callback joystick_alert),
       (PERMANENT, Static (NormalPermanentAlert ''Joystick Mode'' []))]),
     (EN_longitudinalManeuver, [
       (WARNING, Callback longitudinal_maneuver_alert),
       (PERMANENT, Static (NormalPermanentAlert ''Longitudinal Maneuver Mode'' ''Ensure road ahead is clear''))]),
     (EN_lateralManeuver, [
       (WARNING, Callback longitudinal_maneuver_alert),
       (PERMANENT, Static (NormalPermanentAlert ''Lateral Maneuver Mode'' []))]),
     (EN_selfdriveInitializing, [
       (NO_ENTRY, Static (NoEntryAlert (env_mici env) ''System Initializing''))]),
     (EN_startup, [
       (PERMANENT, Static (StartupAlert (env_mici env) ''Be ready to take over at any time''))]),
     (EN_startupMaster, [
       (PERMANENT, Callback (startup_master_alert env))]),
     (EN_startupNoControl, [
       (PERMANENT, Static (StartupAlert (env_mici env) ''Dashcam mode'')),
       (NO_ENTRY, Static (NoEntryAlert (env_mici env) ''Dashcam mode''))]),
     (EN_startupNoCar, [
       (PERMANENT, Static (StartupAlert (env_mici env) ''Dashcam mode for unsupported car''))]),
     (EN_startupNoSecOcKey, [
       (PERMANENT, Static (NormalPermanentAlert_full ''Dashcam Mode'' ''Security Key Not Available'' (2 / 10) HIGH 0))]),
     (EN_dashcamMode, [
       (PERMANENT, Static (NormalPermanentAlert_full ''Dashcam Mode'' [] (2 / 10) LOWEST 0))]),
     (EN_invalidLkasSetting, [
       (PERMANENT, Callback invalid_lkas_setting_alert),
       (NO_ENTRY, Static (NoEntryAlert (env_mici env) ''Invalid LKAS setting''))]),
     (EN_cruiseMismatch, []),
     (EN_carUnrecognized, [
       (PERMANENT, Static (NormalPermanentAlert_full ''Dashcam Mode'' ''Car Unrecognized'' (2 / 10) LOWEST 0))]),
     (EN_aeb, [
       (PERMANENT, Static (mk_Alert ''BRAKE!'' ''Emergency Braking: Risk of Collision'' AStat_critical ASize_full HIGHEST VA_fcw AA_none 2)),
       (NO_ENTRY, Static (NoEntryAlert (env_mici env) ''AEB: Risk of Collision''))]),
     (EN_stockAeb, [
       (PERMANENT, Static (mk_Alert ''BRAKE!'' ''Stock AEB: Risk of Collision'' AStat_critical ASize_full HIGHEST VA_fcw AA_none 2)),
       (NO_ENTRY, Static (NoEntryAlert (env_mici env) ''Stock AEB: Risk of Collision''))]),
     (EN_stockLkas, [
       (NO_ENTRY, Static (NoEntryAlert (env_mici env) ''Stock LKAS: Lane Departure Detected''))]),
     (EN_fcw, [
       (PERMANENT, Static (mk_Alert ''BRAKE!'' ''Risk of Collision'' AStat_critical ASize_full HIGHEST VA_fcw AA_warningSoft 2))]),
     (EN_ldw, [
       (PERMANENT, Static (mk_Alert ''Lane Departure Detected'' [] AStat_userPrompt ASize_small LOW VA_ldw AA_prompt 3))])]"

definition EVENTS_warning_1 :: "Env \<Rightarrow> cb_args events_mapping" where
  "EVENTS_warning_1 env = [
     (EN_steerTempUnavailableSilent, [
       (WARNING, Static (mk_Alert ''Steering Assist Temporarily Unavailable'' [] AStat_userPrompt ASize_small LOW VA_steerRequired AA_prompt (18 / 10)))]),
     (EN_driverDistracted1, [
       (PERMANENT, Static (mk_Alert ''Pay Attention'' [] AStat_normal ASize_small LOW VA_none AA_none (1 / 10)))]),
     (EN_driverDistracted2, [
       (PERMANENT, Static (mk_Alert ''Pay Attention'' ''Driver Distracted'' AStat_userPrompt ASize_mid MID VA_steerRequired AA_promptDistracted (1 / 10)))]),
     (EN_driverDistracted3, [
       (PERMANENT, Static (mk_Alert ''DISENGAGE IMMEDIATELY'' ''Driver Distracted'' AStat_critical ASize_full HIGH VA_steerRequired AA_warningImmediate (1 / 10)))]),
     (EN_driverUnresponsive1, [
       (PERMANENT, Static (mk_Alert ''Touch Steering Wheel: No Face Detected'' [] AStat_normal ASize_small LOW VA_steerRequired AA_none (1 / 10)))]),
     (EN_driverUnresponsive2, [
       (PERMANENT, Static (mk_Alert ''Touch Steering Wheel'' ''Driver Unresponsive'' AStat_userPrompt ASize_mid MID VA_steerRequired AA_promptDistracted (1 / 10)))]),
     (EN_driverUnresponsive3, [
       (PERMANENT, Static (mk_Alert ''DISENGAGE IMMEDIATELY'' ''Driver Unresponsive'' AStat_critical ASize_full HIGH VA_steerRequired AA_warningImmediate (1 / 10)))]),
     (EN_manualRestart, [
       (WARNING, Static (mk_Alert ''TAKE CONTROL'' ''Resume Driving Manually'' AStat_userPrompt ASize_mid LOW VA_none AA_none (2 / 10)))]),
     (EN_resumeRequired, [
       (WARNING, Static (mk_Alert ''Press Resume to Exit Standstill'' [] AStat_userPrompt ASize_small LOW VA_none AA_none (2 / 10)))]),
     (EN_belowSteerSpeed, [
       (WARNING, Callback below_steer_speed_alert)]),
     (EN_preLaneChangeLeft, [
       (WARNING, Static (mk_Alert ''Steer Left to Start Lane Change Once Safe'' [] AStat_normal ASize_small LOW VA_none AA_none (1 / 10)))]),
     (EN_preLaneChangeRight, [
       (WARNING, Static (mk_Alert ''Steer Right to Start Lane Change Once Safe'' [] AStat_normal ASize_small LOW VA_none AA_none (1 / 10)))])]"

definition EVENTS_warning_2 :: "Env \<Rightarrow> cb_args events_mapping" where
  "EVENTS_warning_2 env = [
     (EN_laneChangeBlocked, [
       (WARNING, Static (mk_Alert ''Car Detected in Blindspot'' [] AStat_userPrompt ASize_small LOW VA_none AA_prompt (1 / 10)))]),
     (EN_laneChange, [
       (WARNING, Static (mk_Alert ''Changing Lanes'' [] AStat_normal ASize_small LOW VA_none AA_none (1 / 10)))]),
     (EN_steerSaturated, [
       (WARNING, Static (mk_Alert ''Take Control'' ''Turn Exceeds Steering Limit'' AStat_userPrompt ASize_mid LOW VA_steerRequired AA_promptRepeat 2))]),
     (EN_fanMalfunction, [
       (PERMANENT, Static (NormalPermanentAlert ''Fan Malfunction'' ''Likely Hardware Issue''))]),
     (EN_cameraMalfunction, [
       (PERMANENT, Callback camera_malfunction_alert),
       (SOFT_DISABLE, Callback (soft_disable_alert ''Camera Malfunction'')),
       (NO_ENTRY, Static (NoEntryAlert (env_mici env) ''Camera Malfunction: Reboot Your Device''))]),
     (EN_cameraFrameRate, [
       (PERMANENT, Static (NormalPermanentAlert ''Camera Frame Rate Low'' ''Reboot your Device'')),
       (SOFT_DISABLE, Callback (soft_disable_alert ''Camera Frame Rate Low'')),
       (NO_ENTRY, Static (NoEntryAlert (env_mici env) ''Camera Frame Rate Low: Reboot Your Device''))]),
     (EN_locationdTemporaryError, [
       (NO_ENTRY, Static (NoEntryAlert (env_mici env) ''locationd Temporary Error'')),
       (SOFT_DISABLE, Callback (soft_disable_alert ''locationd Temporary Error''))]),
     (EN_locationdPermanentError, [
       (NO_ENTRY, Static (NoEntryAlert (env_mici env) ''locationd Permanent Error'')),
       (IMMEDIATE_DISABLE, Static (ImmediateDisableAlert ''locationd Permanent Error'')),
       (PERMANENT, Static (NormalPermanentAlert ''locationd Permanent Error'' []))]),
     (EN_paramsdTemporaryError, [
       (NO_ENTRY, Callback (paramsd_invalid_alert env)),
       (SOFT_DISABLE, Callback (soft_disable_alert ''paramsd Temporary Error''))]),
     (EN_paramsdPermanentError, [
       (NO_ENTRY, Static (NoEntryAlert (env_mici env) ''paramsd Permanent Error'')),
       (IMMEDIATE_DISABLE, Static (ImmediateDisableAlert ''paramsd Permanent Error'')),
       (PERMANENT, Static (NormalPermanentAlert ''paramsd Permanent Error'' []))])]"

definition EVENTS_transitions_1 :: "Env \<Rightarrow> cb_args events_mapping" where
  "EVENTS_transitions_1 env = [
     (EN_pcmEnable, [
       (ENABLE, Static (EngagementAlert AA_engage))]),
     (EN_buttonEnable, [
       (ENABLE, Static (EngagementAlert AA_engage))]),
     (EN_pcmDisable, [
       (USER_DISABLE, Static (EngagementAlert AA_disengage))]),
     (EN_buttonCancel, [
       (USER_DISABLE, Static (EngagementAlert AA_disengage)),
       (NO_ENTRY, Static (NoEntryAlert (env_mici env) ''Cancel Pressed''))]),
     (EN_brakeHold, [
       (WARNING, Static (mk_Alert ''Press Resume to Exit Brake Hold'' [] AStat_userPrompt ASize_small LOW VA_none AA_none (2 / 10)))]),
     (EN_parkBrake, [
       (USER_DISABLE, Static (EngagementAlert AA_disengage)),
       (NO_ENTRY, Static (NoEntryAlert (env_mici env) ''Parking Brake Engaged''))]),
     (EN_pedalPressed, [
       (USER_DISABLE, Static (EngagementAlert AA_disengage)),
       (NO_ENTRY, Static (NoEntryAlert_full (env_mici env) ''Pedal Pressed'' ''openpilot Unavailable'' VA_brakePressed))]),
     (EN_steerDisengage, [
       (USER_DISABLE, Static (EngagementAlert AA_disengage)),
       (NO_ENTRY, Static (NoEntryAlert (env_mici env) ''Steering Pressed''))]),
     (EN_preEnableStandstill, [
       (PRE_ENABLE, Static (mk_Alert_delay ''Release Brake to Engage'' [] AStat_normal ASize_small LOWEST VA_none AA_none (1 / 10) 1))]),
     (EN_gasPressedOverride, [
       (OVERRIDE_LONGITUDINAL, Static (mk_Alert [] [] AStat_normal ASize_none LOWEST VA_none AA_none (1 / 10)))]),
     (EN_steerOverride, [
       (OVERRIDE_LATERAL, Static (mk_Alert [] [] AStat_normal ASize_none LOWEST VA_none AA_none (1 / 10)))]),
     (EN_wrongCarMode, [
       (USER_DISABLE, Static (EngagementAlert AA_disengage)),
       (NO_ENTRY, Callback (wrong_car_mode_alert env))]),
     (EN_resumeBlocked, [
       (NO_ENTRY, Static (NoEntryAlert (env_mici env) ''Press Set to Engage''))]),
     (EN_wrongCruiseMode, [
       (USER_DISABLE, Static (EngagementAlert AA_disengage)),
       (NO_ENTRY, Static (NoEntryAlert (env_mici env) ''Adaptive Cruise Disabled''))]),
     (EN_steerTempUnavailable, [
       (SOFT_DISABLE, Callback (soft_disable_alert ''Steering Assist Temporarily Unavailable'')),
       (NO_ENTRY, Static (NoEntryAlert (env_mici env) ''Steering Temporarily Unavailable''))]),
     (EN_steerTimeLimit, [
       (SOFT_DISABLE, Callback (soft_disable_alert ''Vehicle Steering Time Limit'')),
       (NO_ENTRY, Static (NoEntryAlert (env_mici env) ''Vehicle Steering Time Limit''))]),
     (EN_outOfSpace, [
       (PERMANENT, Callback out_of_space_alert),
       (NO_ENTRY, Static (NoEntryAlert (env_mici env) ''Out of Storage''))]),
     (EN_belowEngageSpeed, [
       (NO_ENTRY, Callback (below_engage_speed_alert env))]),
     (EN_sensorDataInvalid, [
       (PERMANENT, Static (mk_Alert_delay ''Sensor Data Invalid'' ''Possible Hardware Issue'' AStat_normal ASize_mid LOWER VA_none AA_none (2 / 10) 1)),
       (NO_ENTRY, Static (NoEntryAlert (env_mici env) ''Sensor Data Invalid'')),
       (SOFT_DISABLE, Callback (soft_disable_alert ''Sensor Data Invalid''))]),
     (EN_noGps, [])]"

definition EVENTS_transitions_2 :: "Env \<Rightarrow> cb_args events_mapping" where
  "EVENTS_transitions_2 env = [
     (EN_tooDistracted, [
       (NO_ENTRY, Static (NoEntryAlert (env_mici env) ''Distraction Level Too High''))]),
     (EN_excessiveActuation, [
       (SOFT_DISABLE, Callback (soft_disable_alert ''Excessive Actuation'')),
       (NO_ENTRY, Static (NoEntryAlert (env_mici env) ''Excessive Actuation''))]),
     (EN_overheat, [
       (PERMANENT, Callback overheat_alert),
       (SOFT_DISABLE, Callback (soft_disable_alert ''System Overheated'')),
       (NO_ENTRY, Static (NoEntryAlert (env_mici env) ''System Overheated''))]),
     (EN_wrongGear, [
       (SOFT_DISABLE, Callback (user_soft_disable_alert ''Gear not D'')),
       (NO_ENTRY, Static (NoEntryAlert (env_mici env) ''Gear not D''))]),
     (EN_calibrationInvalid, [
       (PERMANENT, Callback calibration_invalid_alert),
       (SOFT_DISABLE, Callback (soft_disable_alert ''Calibration Invalid: Remount Device & Recalibrate'')),
       (NO_ENTRY, Static (NoEntryAlert (env_mici env) ''Calibration Invalid: Remount Device & Recalibrate''))]),
     (EN_calibrationIncomplete, [
       (PERMANENT, Callback calibration_incomplete_alert),
       (SOFT_DISABLE, Callback (soft_disable_alert ''Calibration Incomplete'')),
       (NO_ENTRY, Static (NoEntryAlert (env_mici env) ''Calibration in Progress''))]),
     (EN_calibrationRecalibrating, [
       (PERMANENT, Callback calibration_incomplete_alert),
       (SOFT_DISABLE, Callback (soft_disable_alert ''Device Remount Detected: Recalibrating'')),
       (NO_ENTRY, Static (NoEntryAlert (env_mici env) ''Remount Detected: Recalibrating''))]),
     (EN_doorOpen, [
       (SOFT_DISABLE, Callback (user_soft_disable_alert ''Door Open'')),
       (NO_ENTRY, Static (NoEntryAlert (env_mici env) ''Door Open''))]),
     (EN_seatbeltNotLatched, [
       (SOFT_DISABLE, Callback (user_soft_disable_alert ''Seatbelt Unlatched'')),
       (NO_ENTRY, Static (NoEntryAlert (env_mici env) ''Seatbelt Unlatched''))]),
     (EN_espDisabled, [
       (SOFT_DISABLE, Callback (soft_disable_alert ''Electronic Stability Control Disabled'')),
       (NO_ENTRY, Static (NoEntryAlert (env_mici env) ''Electronic Stability Control Disabled''))]),
     (EN_lowBattery, [
       (SOFT_DISABLE, Callback (soft_disable_alert ''Low Battery'')),
       (NO_ENTRY, Static (NoEntryAlert (env_mici env) ''Low Battery''))]),
     (EN_commIssue, [
       (SOFT_DISABLE, Callback (soft_disable_alert ''Communication Issue Between Processes'')),
       (NO_ENTRY, Callback (comm_issue_alert env))]),
     (EN_commIssueAvgFreq, [
       (SOFT_DISABLE, Callback (soft_disable_alert ''Low Communication Rate Between Processes'')),
       (NO_ENTRY, Static (NoEntryAlert (env_mici env) ''Low Communication Rate Between Processes''))]),
     (EN_selfdrivedLagging, [
       (SOFT_DISABLE, Callback (soft_disable_alert ''System Lagging'')),
       (NO_ENTRY, Static (NoEntryAlert (env_mici env) ''Selfdrive Process Lagging: Reboot Your Device''))]),
     (EN_processNotRunning, [
       (NO_ENTRY, Callback (process_not_running_alert env)),
       (SOFT_DISABLE, Callback (soft_disable_alert ''Process Not Running''))]),
     (EN_radarFault, [
       (SOFT_DISABLE, Callback (soft_disable_alert ''Radar Error: Restart the Car'')),
       (NO_ENTRY, Static (NoEntryAlert (env_mici env) ''Radar Error: Restart the Car''))])]"

definition EVENTS_transitions_3 :: "Env \<Rightarrow> cb_args events_mapping" where
  "EVENTS_transitions_3 env = [
     (EN_radarTempUnavailable, [
       (SOFT_DISABLE, Callback (soft_disable_alert ''Radar Temporarily Unavailable'')),
       (NO_ENTRY, Static (NoEntryAlert (env_mici env) ''Radar Temporarily Unavailable''))]),
     (EN_modeldLagging, [
       (SOFT_DISABLE, Callback (soft_disable_alert ''Driving Model Lagging'')),
       (NO_ENTRY, Static (NoEntryAlert (env_mici env) ''Driving Model Lagging'')),
       (PERMANENT, Callback modeld_lagging_alert)]),
     (EN_posenetInvalid, [
       (SOFT_DISABLE, Callback (soft_disable_alert ''Posenet Speed Invalid'')),
       (NO_ENTRY, Callback (posenet_invalid_alert env))]),
     (EN_deviceFalling, [
       (SOFT_DISABLE, Callback (soft_disable_alert ''Device Fell Off Mount'')),
       (NO_ENTRY, Static (NoEntryAlert (env_mici env) ''Device Fell Off Mount''))]),
     (EN_lowMemory, [
       (SOFT_DISABLE, Callback (soft_disable_alert ''Low Memory: Reboot Your Device'')),
       (PERMANENT, Callback low_memory_alert),
       (NO_ENTRY, Static (NoEntryAlert (env_mici env) ''Low Memory: Reboot Your Device''))]),
     (EN_accFaulted, [
       (IMMEDIATE_DISABLE, Static (ImmediateDisableAlert ''Cruise Fault: Restart the Car'')),
       (PERMANENT, Static (NormalPermanentAlert ''Cruise Fault: Restart the car to engage'' [])),
       (NO_ENTRY, Static (NoEntryAlert (env_mici env) ''Cruise Fault: Restart the Car''))]),
     (EN_espActive, [
       (SOFT_DISABLE, Callback (soft_disable_alert ''Electronic Stability Control Active'')),
       (NO_ENTRY, Static (NoEntryAlert (env_mici env) ''Electronic Stability Control Active''))]),
     (EN_controlsMismatch, [
       (IMMEDIATE_DISABLE, Static (ImmediateDisableAlert ''Controls Mismatch'')),
       (NO_ENTRY, Static (NoEntryAlert (env_mici env) ''Controls Mismatch''))]),
     (EN_usbError, [
       (SOFT_DISABLE, Callback (soft_disable_alert ''USB Error: Reboot Your Device'')),
       (PERMANENT, Static (NormalPermanentAlert ''USB Error: Reboot Your Device'' [])),
       (NO_ENTRY, Static (NoEntryAlert (env_mici env) ''USB Error: Reboot Your Device''))]),
     (EN_canError, [
       (IMMEDIATE_DISABLE, Static (ImmediateDisableAlert ''Unknown Vehicle Variant'')),
       (PERMANENT, Static (mk_Alert_delay ''Unknown Vehicle Variant'' [] AStat_normal ASize_small LOW VA_none AA_none 1 1)),
       (NO_ENTRY, Static (NoEntryAlert (env_mici env) ''Unknown Vehicle Variant''))]),
     (EN_canBusMissing, [
       (IMMEDIATE_DISABLE, Static (ImmediateDisableAlert ''CAN Bus Disconnected'')),
       (PERMANENT, Static (mk_Alert_delay ''CAN Bus Disconnected: Likely Faulty Cable'' [] AStat_normal ASize_small LOW VA_none AA_none 1 1)),
       (NO_ENTRY, Static (NoEntryAlert (env_mici env) ''CAN Bus Disconnected: Check Connections''))]),
     (EN_steerUnavailable, [
       (IMMEDIATE_DISABLE, Static (ImmediateDisableAlert ''LKAS Fault: Restart the Car'')),
       (PERMANENT, Static (NormalPermanentAlert ''LKAS Fault: Restart the car to engage'' [])),
       (NO_ENTRY, Static (NoEntryAlert (env_mici env) ''LKAS Fault: Restart the Car''))])]"

definition EVENTS_transitions_4 :: "Env \<Rightarrow> cb_args events_mapping" where
  "EVENTS_transitions_4 env = [
     (EN_reverseGear, [
       (PERMANENT, Static (mk_Alert_delay (''Reverse'' @ [CHR 0x0A] @ ''Gear'') [] AStat_normal ASize_full LOWEST VA_none AA_none (2 / 10) (5 / 10))),
       (USER_DISABLE, Static (ImmediateDisableAlert ''Reverse Gear'')),
       (NO_ENTRY, Static (NoEntryAlert (env_mici env) ''Reverse Gear''))]),
     (EN_cruiseDisabled, [
       (IMMEDIATE_DISABLE, Static (ImmediateDisableAlert ''Cruise Is Off''))]),
     (EN_relayMalfunction, [
       (IMMEDIATE_DISABLE, Static (ImmediateDisableAlert ''Harness Relay Malfunction'')),
       (PERMANENT, Static (NormalPermanentAlert ''Harness Relay Malfunction'' ''Check Hardware'')),
       (NO_ENTRY, Static (NoEntryAlert (env_mici env) ''Harness Relay Malfunction''))]),
     (EN_speedTooLow, [
       (IMMEDIATE_DISABLE, Static (mk_Alert ''openpilot Canceled'' ''Speed too low'' AStat_normal ASize_mid HIGH VA_none AA_disengage 3))]),
     (EN_speedTooHigh, [
       (WARNING, Static (mk_Alert ''Speed Too High'' ''Model uncertain at this speed'' AStat_userPrompt ASize_mid HIGH VA_steerRequired AA_promptRepeat 4)),
       (NO_ENTRY, Static (NoEntryAlert (env_mici env) ''Slow down to engage''))]),
     (EN_vehicleSensorsInvalid, [
       (IMMEDIATE_DISABLE, Static (ImmediateDisableAlert ''Vehicle Sensors Invalid'')),
       (PERMANENT, Static (NormalPermanentAlert ''Vehicle Sensors Calibrating'' ''Drive to Calibrate'')),
       (NO_ENTRY, Static (NoEntryAlert (env_mici env) ''Vehicle Sensors Calibrating''))]),
     (EN_personalityChanged, [
       (WARNING, Callback personality_changed_alert)]),
     (EN_userBookmark, [
       (PERMANENT, Static (NormalPermanentAlert_full ''Bookmark Saved'' [] (15 / 10) LOWER 0))]),
     (EN_audioFeedback, [
       (PERMANENT, Callback audio_feedback_alert)])]"

text \<open>\<open>EVENTS.update\<close> for the small device.\<close>

definition EVENTS_mici :: "Env \<Rightarrow> cb_args events_mapping" where
  "EVENTS_mici env = [
     (EN_driverDistracted1, [
       (PERMANENT, Static (mk_Alert ''Pay Attention'' [] AStat_normal ASize_small LOW VA_none AA_none 2))]),
     (EN_driverDistracted2, [
       (PERMANENT, Static (mk_Alert ''Pay Attention'' ''Driver Distracted'' AStat_userPrompt ASize_mid MID VA_steerRequired AA_promptDistracted 1))]),
     (EN_resumeRequired, [
       (WARNING, Static (mk_Alert ''Press Resume'' [] AStat_userPrompt ASize_small LOW VA_none AA_none (2 / 10)))]),
     (EN_preLaneChangeLeft, [
       (WARNING, Static (mk_Alert ''Steer Left'' ''Confirm Lane Change'' AStat_normal ASize_mid LOW VA_none AA_none (1 / 10)))]),
     (EN_preLaneChangeRight, [
       (WARNING, Static (mk_Alert ''Steer Right'' ''Confirm Lane Change'' AStat_normal ASize_mid LOW VA_none AA_none (1 / 10)))]),
     (EN_laneChangeBlocked, [
       (WARNING, Static (mk_Alert ''Car in Blindspot'' [] AStat_userPrompt ASize_small LOW VA_none AA_prompt (1 / 10)))]),
     (EN_steerSaturated, [
       (WARNING, Static (mk_Alert ''take control'' ''turn exceeds limit'' AStat_userPrompt ASize_mid LOW VA_steerRequired AA_promptRepeat 2))]),
     (EN_calibrationIncomplete, [
       (PERMANENT, Callback calibration_incomplete_alert),
       (SOFT_DISABLE, Callback (soft_disable_alert ''Calibration Incomplete'')),
       (NO_ENTRY, Static (NoEntryAlert (env_mici env) ''Calibrating''))]),
     (EN_reverseGear, [
       (PERMANENT, Static (mk_Alert_delay ''Reverse'' [] AStat_normal ASize_full LOWEST VA_none AA_none (2 / 10) (5 / 10))),
       (USER_DISABLE, Static (ImmediateDisableAlert ''Reverse'')),
       (NO_ENTRY, Static (NoEntryAlert (env_mici env) ''Reverse''))])]"

lemmas EVENTS_parts =
  EVENTS_permanent_def EVENTS_warning_1_def EVENTS_warning_2_def
  EVENTS_transitions_1_def EVENTS_transitions_2_def EVENTS_transitions_3_def EVENTS_transitions_4_def

definition EVENTS :: "Env \<Rightarrow> cb_args events_mapping" where
  "EVENTS env =
     (let base = EVENTS_permanent env @
        EVENTS_warning_1 env @
        EVENTS_warning_2 env @
        EVENTS_transitions_1 env @
        EVENTS_transitions_2 env @
        EVENTS_transitions_3 env @
        EVENTS_transitions_4 env
      in if env_mici env then dict_update base (EVENTS_mici env) else base)"

end
