(* ===== verification/EventTableSP.thy ===== *)
theory EventTableSP
  imports AlertCallbacks
begin

text \<open>
  The dictionary \<open>EVENTS_SP\<close> of \<open>sunnypilot/selfdrive/selfdrived/events.py\<close>, in the order of the
  source and cut into two parts.
\<close>

definition EVENTS_SP_lateral :: "Env \<Rightarrow> cb_args events_mapping" where
  "EVENTS_SP_lateral env = [
     (ENSP_lkasEnable, [
       (ENABLE, Static (EngagementAlert AA_engage))]),
     (ENSP_lkasDisable, [
       (USER_DISABLE, Static (EngagementAlert AA_disengage))]),
     (ENSP_manualSteeringRequired, [
       (USER_DISABLE, Static (mk_Alert ''Automatic Lane Centering is OFF'' ''Manual Steering Required'' AStat_normal ASize_mid LOW VA_none AA_disengage 1))]),
     (ENSP_manualLongitudinalRequired, [
       (WARNING, Static (mk_Alert ''Smart/Adaptive Cruise Control: OFF'' ''Manual Speed Control Required'' AStat_normal ASize_mid LOW VA_none AA_none 1))]),
     (ENSP_silentLkasEnable, [
       (ENABLE, Static (EngagementAlert AA_none))]),
     (ENSP_silentLkasDisable, [
       (USER_DISABLE, Static (EngagementAlert AA_none))]),
     (ENSP_silentBrakeHold, [
       (WARNING, Static (EngagementAlert AA_none)),
       (NO_ENTRY, Static (NoEntryAlert (env_mici env) ''Brake Hold Active''))]),
     (ENSP_silentWrongGear, [
       (WARNING, Static (mk_Alert [] [] AStat_normal ASize_none LOWEST VA_none AA_none 0)),
       (NO_ENTRY, Static (mk_Alert ''Gear not D'' ''openpilot Unavailable'' AStat_normal ASize_mid LOW VA_none AA_none 0))]),
     (ENSP_silentReverseGear, [
       (PERMANENT, Static (mk_Alert_delay (''Reverse'' @ [CHR 0x0A] @ ''Gear'') [] AStat_normal ASize_full LOWEST VA_none AA_none (2 / 10) (5 / 10))),
       (NO_ENTRY, Static (NoEntryAlert (env_mici env) ''Reverse Gear''))]),
     (ENSP_silentDoorOpen, [
       (WARNING, Static (mk_Alert [] [] AStat_normal ASize_none LOWEST VA_none AA_none 0)),
       (NO_ENTRY, Static (NoEntryAlert (env_mici env) ''Door Open''))]),
     (ENSP_silentSeatbeltNotLatched, [
       (WARNING, Static (mk_Alert [] [] AStat_normal ASize_none LOWEST VA_none AA_none 0)),
       (NO_ENTRY, Static (NoEntryAlert (env_mici env) ''Seatbelt Unlatched''))]),
     (ENSP_silentParkBrake, [
       (WARNING, Static (mk_Alert [] [] AStat_normal ASize_none LOWEST VA_none AA_none 0)),
       (NO_ENTRY, Static (NoEntryAlert (env_mici env) ''Parking Brake Engaged''))])]"

definition EVENTS_SP_other :: "Env \<Rightarrow> cb_args events_mapping" where
  "EVENTS_SP_other env = [
     (ENSP_controlsMismatchLateral, [
       (IMMEDIATE_DISABLE, Static (ImmediateDisableAlert ''Controls Mismatch: Lateral'')),
       (NO_ENTRY, Static (NoEntryAlert (env_mici env) ''Controls Mismatch: Lateral''))]),
     (ENSP_experimentalModeSwitched, [
       (WARNING, Static (NormalPermanentAlert_full ''Experimental Mode Switched'' [] (15 / 10) LOWER 0))]),
     (ENSP_wrongCarModeAlertOnly, [
       (WARNING, Callback (wrong_car_mode_alert env))]),
     (ENSP_pedalPressedAlertOnly, [
       (WARNING, Static (NoEntryAlert (env_mici env) ''Pedal Pressed''))]),
     (ENSP_laneTurnLeft, [
       (WARNING, Static (mk_Alert ''Turning Left'' [] AStat_normal ASize_small LOW VA_none AA_none 1))]),
     (ENSP_laneTurnRight, [
       (WARNING, Static (mk_Alert ''Turning Right'' [] AStat_normal ASize_small LOW VA_none AA_none 1))]),
     (ENSP_speedLimitActive, [
       (WARNING, Static (mk_Alert ''Auto adjusting to speed limit'' [] AStat_normal ASize_small LOW VA_none AASP_promptSingleHigh 5))]),
     (ENSP_speedLimitChanged, [
       (WARNING, Static (mk_Alert ''Set speed changed'' [] AStat_normal ASize_small LOW VA_none AASP_promptSingleHigh 5))]),
     (ENSP_speedLimitPreActive, [
       (WARNING, Callback (speed_limit_pre_active_alert env))]),
     (ENSP_speedLimitPending, [
       (WARNING, Static (mk_Alert ''Auto adjusting to last speed limit'' [] AStat_normal ASize_small LOW VA_none AASP_promptSingleHigh 5))]),
     (ENSP_e2eChime, [
       (PERMANENT, Static (mk_Alert [] [] AStat_normal ASize_none MID VA_none AA_prompt 3))])]"

definition EVENTS_SP :: "Env \<Rightarrow> cb_args events_mapping" where
  "EVENTS_SP env = EVENTS_SP_lateral env @ EVENTS_SP_other env"

end
