(* ===== verification/EventLogs.thy ===== *)
theory EventLogs
  imports EventTable EventTableSP
begin

text \<open>
  The two concrete event logs, \<open>Events\<close> and \<open>EventsSP\<close>: \<open>EventsBase\<close> with \<open>EVENTS\<close> and with
  \<open>EVENTS_SP\<close>. The facts about the tables that the state machines rest on are proved here, and both
  classes are shown to be event logs in the sense of the interface of \<open>EventsBase\<close>.
\<close>

section \<open>The keys of the tables\<close>

definition known_events :: "event set" where
  "known_events = {e. e < 100 \<and> e \<noteq> EN_soundsUnavailableDEPRECATED}"

definition known_events_sp :: "event set" where
  "known_events_sp = {e. e < 24 \<and> e \<noteq> ENSP_hyundaiRadarTracksConfirmed}"

text \<open>The event types of every event, with the alerts left out: the same on every device.\<close>

definition types_of :: "'a events_mapping \<Rightarrow> (event \<times> ET list) list" where
  "types_of m = map (\<lambda>(e, d). (e, map fst d)) m"

lemma map_of_types_of: "map_of (types_of m) e = map_option (map fst) (map_of m e)"
  by (induction m) (auto simp: types_of_def)

lemma event_keys_types_of:
  "event_keys m e = (case map_of (types_of m) e of None \<Rightarrow> [] | Some ts \<Rightarrow> map ET_key ts)"
  by (auto simp: event_keys_def event_dict_def map_of_types_of split: option.splits)

lemma types_of_Nil: "types_of [] = []"
  by (simp add: types_of_def)

lemma types_of_Cons: "types_of ((k, d) # m) = (k, map fst d) # types_of m"
  by (simp add: types_of_def)

lemma types_of_append: "types_of (m @ n) = types_of m @ types_of n"
  by (simp add: types_of_def)

text \<open>A dictionary update that keeps the types of every key keeps all types.\<close>

lemma types_of_dict_set:
  "map_of (types_of d) k = Some (map fst v) \<Longrightarrow> types_of (dict_set k v d) = types_of d"
  by (induction d) (auto simp: types_of_def split: if_splits)

lemma types_of_dict_update:
  "list_all (\<lambda>(k, ts). map_of (types_of d) k = Some ts) (types_of u) \<Longrightarrow>
     types_of (dict_update d u) = types_of d"
  by (induction d u rule: dict_update.induct) (simp_all add: types_of_dict_set types_of_Cons types_of_Nil)

definition plain_env :: Env where
  "plain_env = \<lparr>env_mici = False, env_short_branch = [], env_REPLAY = False,
     env_SIMULATION = False, env_TESTING_CLOSET = False\<rparr>"

definition EVENTS_types :: "(event \<times> ET list) list" where
  "EVENTS_types = types_of (EVENTS plain_env)"

lemma EVENTS_types_eval: "EVENTS_types =
    [(EN_stockFcw, []), (EN_actuatorsApiUnavailable, []), (EN_joystickDebug, [WARNING,
    PERMANENT]), (EN_longitudinalManeuver, [WARNING, PERMANENT]), (EN_lateralManeuver,
    [WARNING, PERMANENT]), (EN_selfdriveInitializing, [NO_ENTRY]), (EN_startup, [PERMANENT]),
    (EN_startupMaster, [PERMANENT]), (EN_startupNoControl, [PERMANENT, NO_ENTRY]),
    (EN_startupNoCar, [PERMANENT]), (EN_startupNoSecOcKey, [PERMANENT]), (EN_dashcamMode,
    [PERMANENT]), (EN_invalidLkasSetting, [PERMANENT, NO_ENTRY]), (EN_cruiseMismatch, []),
    (EN_carUnrecognized, [PERMANENT]), (EN_aeb, [PERMANENT, NO_ENTRY]), (EN_stockAeb,
    [PERMANENT, NO_ENTRY]), (EN_stockLkas, [NO_ENTRY]), (EN_fcw, [PERMANENT]), (EN_ldw,
    [PERMANENT]), (EN_steerTempUnavailableSilent, [WARNING]), (EN_driverDistracted1,
    [PERMANENT]), (EN_driverDistracted2, [PERMANENT]), (EN_driverDistracted3, [PERMANENT]),
    (EN_driverUnresponsive1, [PERMANENT]), (EN_driverUnresponsive2, [PERMANENT]),
    (EN_driverUnresponsive3, [PERMANENT]), (EN_manualRestart, [WARNING]), (EN_resumeRequired,
    [WARNING]), (EN_belowSteerSpeed, [WARNING]), (EN_preLaneChangeLeft, [WARNING]),
    (EN_preLaneChangeRight, [WARNING]), (EN_laneChangeBlocked, [WARNING]), (EN_laneChange,
    [WARNING]), (EN_steerSaturated, [WARNING]), (EN_fanMalfunction, [PERMANENT]),
    (EN_cameraMalfunction, [PERMANENT, SOFT_DISABLE, NO_ENTRY]), (EN_cameraFrameRate,
    [PERMANENT, SOFT_DISABLE, NO_ENTRY]), (EN_locationdTemporaryError, [NO_ENTRY,
    SOFT_DISABLE]), (EN_locationdPermanentError, [NO_ENTRY, IMMEDIATE_DISABLE, PERMANENT]),
    (EN_paramsdTemporaryError, [NO_ENTRY, SOFT_DISABLE]), (EN_paramsdPermanentError,
    [NO_ENTRY, IMMEDIATE_DISABLE, PERMANENT]), (EN_pcmEnable, [ENABLE]), (EN_buttonEnable,
    [ENABLE]), (EN_pcmDisable, [USER_DISABLE]), (EN_buttonCancel, [USER_DISABLE, NO_ENTRY]),
    (EN_brakeHold, [WARNING]), (EN_parkBrake, [USER_DISABLE, NO_ENTRY]), (EN_pedalPressed,
    [USER_DISABLE, NO_ENTRY]), (EN_steerDisengage, [USER_DISABLE, NO_ENTRY]),
    (EN_preEnableStandstill, [PRE_ENABLE]), (EN_gasPressedOverride, [OVERRIDE_LONGITUDINAL]),
    (EN_steerOverride, [OVERRIDE_LATERAL]), (EN_wrongCarMode, [USER_DISABLE, NO_ENTRY]),
    (EN_resumeBlocked, [NO_ENTRY]), (EN_wrongCruiseMode, [USER_DISABLE, NO_ENTRY]),
    (EN_steerTempUnavailable, [SOFT_DISABLE, NO_ENTRY]), (EN_steerTimeLimit, [SOFT_DISABLE,
    NO_ENTRY]), (EN_outOfSpace, [PERMANENT, NO_ENTRY]), (EN_belowEngageSpeed, [NO_ENTRY]),
    (EN_sensorDataInvalid, [PERMANENT, NO_ENTRY, SOFT_DISABLE]), (EN_noGps, []),
    (EN_tooDistracted, [NO_ENTRY]), (EN_excessiveActuation, [SOFT_DISABLE, NO_ENTRY]),
    (EN_overheat, [PERMANENT, SOFT_DISABLE, NO_ENTRY]), (EN_wrongGear, [SOFT_DISABLE,
    NO_ENTRY]), (EN_calibrationInvalid, [PERMANENT, SOFT_DISABLE, NO_ENTRY]),
    (EN_calibrationIncomplete, [PERMANENT, SOFT_DISABLE, NO_ENTRY]),
    (EN_calibrationRecalibrating, [PERMANENT, SOFT_DISABLE, NO_ENTRY]), (EN_doorOpen,
    [SOFT_DISABLE, NO_ENTRY]), (EN_seatbeltNotLatched, [SOFT_DISABLE, NO_ENTRY]),
    (EN_espDisabled, [SOFT_DISABLE, NO_ENTRY]), (EN_lowBattery, [SOFT_DISABLE, NO_ENTRY]),
    (EN_commIssue, [SOFT_DISABLE, NO_ENTRY]), (EN_commIssueAvgFreq, [SOFT_DISABLE, NO_ENTRY]),
    (EN_selfdrivedLagging, [SOFT_DISABLE, NO_ENTRY]), (EN_processNotRunning, [NO_ENTRY,
    SOFT_DISABLE]), (EN_radarFault, [SOFT_DISABLE, NO_ENTRY]), (EN_radarTempUnavailable,
    [SOFT_DISABLE, NO_ENTRY]), (EN_modeldLagging, [SOFT_DISABLE, NO_ENTRY, PERMANENT]),
    (EN_posenetInvalid, [SOFT_DISABLE, NO_ENTRY]), (EN_deviceFalling, [SOFT_DISABLE,
    NO_ENTRY]), (EN_lowMemory, [SOFT_DISABLE, PERMANENT, NO_ENTRY]), (EN_accFaulted,
    [IMMEDIATE_DISABLE, PERMANENT, NO_ENTRY]), (EN_espActive, [SOFT_DISABLE, NO_ENTRY]),
    (EN_controlsMismatch, [IMMEDIATE_DISABLE, NO_ENTRY]), (EN_usbError, [SOFT_DISABLE,
    PERMANENT, NO_ENTRY]), (EN_canError, [IMMEDIATE_DISABLE, PERMANENT, NO_ENTRY]),
    (EN_canBusMissing, [IMMEDIATE_DISABLE, PERMANENT, NO_ENTRY]), (EN_steerUnavailable,
    [IMMEDIATE_DISABLE, PERMANENT, NO_ENTRY]), (EN_reverseGear, [PERMANENT, USER_DISABLE,
    NO_ENTRY]), (EN_cruiseDisabled, [IMMEDIATE_DISABLE]), (EN_relayMalfunction,
    [IMMEDIATE_DISABLE, PERMANENT, NO_ENTRY]), (EN_speedTooLow, [IMMEDIATE_DISABLE]),
    (EN_speedTooHigh, [WARNING, NO_ENTRY]), (EN_vehicleSensorsInvalid, [IMMEDIATE_DISABLE,
    PERMANENT, NO_ENTRY]), (EN_personalityChanged, [WARNING]), (EN_userBookmark, [PERMANENT]),
    (EN_audioFeedback, [PERMANENT])]"
  by (simp only: EVENTS_types_def EVENTS_def Let_def plain_env_def Env.simps if_False EVENTS_parts
      append.simps types_of_def list.map prod.case fst_conv)

lemma types_of_parts:
  "types_of (EVENTS_permanent env) = types_of (EVENTS_permanent plain_env)"
  "types_of (EVENTS_warning_1 env) = types_of (EVENTS_warning_1 plain_env)"
  "types_of (EVENTS_warning_2 env) = types_of (EVENTS_warning_2 plain_env)"
  "types_of (EVENTS_transitions_1 env) = types_of (EVENTS_transitions_1 plain_env)"
  "types_of (EVENTS_transitions_2 env) = types_of (EVENTS_transitions_2 plain_env)"
  "types_of (EVENTS_transitions_3 env) = types_of (EVENTS_transitions_3 plain_env)"
  "types_of (EVENTS_transitions_4 env) = types_of (EVENTS_transitions_4 plain_env)"
  "types_of (EVENTS_mici env) = types_of (EVENTS_mici plain_env)"
  by (simp_all only: EVENTS_parts EVENTS_mici_def types_of_def list.map prod.case fst_conv)

lemma EVENTS_types_mici:
  "list_all (\<lambda>(k, ts). map_of EVENTS_types k = Some ts) (types_of (EVENTS_mici plain_env))"
  unfolding EVENTS_mici_def types_of_def list.map prod.case EVENTS_types_eval by simp

lemma types_of_EVENTS: "types_of (EVENTS env) = EVENTS_types"
proof -
  let ?base = "EVENTS_permanent env @ EVENTS_warning_1 env @ EVENTS_warning_2 env @
    EVENTS_transitions_1 env @ EVENTS_transitions_2 env @ EVENTS_transitions_3 env @
    EVENTS_transitions_4 env"
  have plain: "env_mici plain_env = False"
    by (simp add: plain_env_def)
  have base: "types_of ?base = EVENTS_types"
    by (simp only: EVENTS_types_def EVENTS_def Let_def plain if_False types_of_append
        types_of_parts [of env])
  moreover have "types_of (dict_update ?base (EVENTS_mici env)) = EVENTS_types"
    using types_of_dict_update [of ?base "EVENTS_mici env"] EVENTS_types_mici
    unfolding base types_of_parts(8) [of env] by (simp only:)
  ultimately show ?thesis
    by (simp only: EVENTS_def Let_def if_split)
      simp
qed

lemma EVENTS_keys_list: "map fst (EVENTS env) = map fst EVENTS_types"
  by (simp add: types_of_def split_def o_def flip: types_of_EVENTS [of env])

lemma EVENTS_types_keys: "sort (map fst EVENTS_types) = filter (\<lambda>e. e \<noteq> 47) [0..<100]"
  unfolding EVENTS_types_eval by code_simp

lemma EVENTS_keys: "fst ` set (EVENTS env) = known_events"
proof -
  have "fst ` set (EVENTS env) = set (map fst EVENTS_types)"
    using EVENTS_keys_list [of env] by (metis image_set)
  also have "\<dots> = set (sort (map fst EVENTS_types))"
    by simp
  finally show ?thesis
    by (auto simp: EVENTS_types_keys known_events_def)
qed

definition EVENTS_SP_types :: "(event \<times> ET list) list" where
  "EVENTS_SP_types = types_of (EVENTS_SP plain_env)"

lemma EVENTS_SP_types_eval: "EVENTS_SP_types =
    [(ENSP_lkasEnable, [ENABLE]), (ENSP_lkasDisable, [USER_DISABLE]),
    (ENSP_manualSteeringRequired, [USER_DISABLE]), (ENSP_manualLongitudinalRequired,
    [WARNING]), (ENSP_silentLkasEnable, [ENABLE]), (ENSP_silentLkasDisable, [USER_DISABLE]),
    (ENSP_silentBrakeHold, [WARNING, NO_ENTRY]), (ENSP_silentWrongGear, [WARNING, NO_ENTRY]),
    (ENSP_silentReverseGear, [PERMANENT, NO_ENTRY]), (ENSP_silentDoorOpen, [WARNING,
    NO_ENTRY]), (ENSP_silentSeatbeltNotLatched, [WARNING, NO_ENTRY]), (ENSP_silentParkBrake,
    [WARNING, NO_ENTRY]), (ENSP_controlsMismatchLateral, [IMMEDIATE_DISABLE, NO_ENTRY]),
    (ENSP_experimentalModeSwitched, [WARNING]), (ENSP_wrongCarModeAlertOnly, [WARNING]),
    (ENSP_pedalPressedAlertOnly, [WARNING]), (ENSP_laneTurnLeft, [WARNING]),
    (ENSP_laneTurnRight, [WARNING]), (ENSP_speedLimitActive, [WARNING]),
    (ENSP_speedLimitChanged, [WARNING]), (ENSP_speedLimitPreActive, [WARNING]),
    (ENSP_speedLimitPending, [WARNING]), (ENSP_e2eChime, [PERMANENT])]"
  by (simp only: EVENTS_SP_types_def EVENTS_SP_def EVENTS_SP_lateral_def EVENTS_SP_other_def
      append.simps types_of_def list.map prod.case fst_conv)

lemma types_of_EVENTS_SP: "types_of (EVENTS_SP env) = EVENTS_SP_types"
  by (simp only: EVENTS_SP_types_def EVENTS_SP_def EVENTS_SP_lateral_def EVENTS_SP_other_def
      types_of_def list.map prod.case fst_conv append.simps)

lemma EVENTS_SP_types_keys: "sort (map fst EVENTS_SP_types) = filter (\<lambda>e. e \<noteq> 13) [0..<24]"
  unfolding EVENTS_SP_types_eval by code_simp

lemma EVENTS_SP_keys: "fst ` set (EVENTS_SP env) = known_events_sp"
proof -
  have "fst ` set (EVENTS_SP env) = set (map fst (types_of (EVENTS_SP env)))"
    by (simp add: types_of_def image_image split_def)
  also have "\<dots> = set (sort (map fst EVENTS_SP_types))"
    by (simp add: types_of_EVENTS_SP)
  finally show ?thesis
    by (auto simp: EVENTS_SP_types_keys known_events_sp_def)
qed

section \<open>Which events have which type\<close>

text \<open>The events of one type, computed from the tables.\<close>

definition events_with :: "ET \<Rightarrow> event list" where
  "events_with t = sort (map fst (filter (\<lambda>(e, ts). t \<in> set ts) EVENTS_types))"

definition events_sp_with :: "ET \<Rightarrow> event list" where
  "events_sp_with t = sort (map fst (filter (\<lambda>(e, ts). t \<in> set ts) EVENTS_SP_types))"

lemma distinct_EVENTS_types: "distinct (map fst EVENTS_types)"
proof -
  have "distinct (sort (map fst EVENTS_types))"
    unfolding EVENTS_types_keys by simp
  then show ?thesis
    by simp
qed

lemma distinct_EVENTS_SP_types: "distinct (map fst EVENTS_SP_types)"
proof -
  have "distinct (sort (map fst EVENTS_SP_types))"
    unfolding EVENTS_SP_types_keys by simp
  then show ?thesis
    by simp
qed

lemma in_keys_iff:
  assumes "distinct (map fst (types_of m))"
  shows "ET_key t \<in> set (event_keys m e) \<longleftrightarrow>
    e \<in> set (map fst (filter (\<lambda>(e, ts). t \<in> set ts) (types_of m)))"
  using assms
  by (force simp: event_keys_types_of map_of_eq_Some_iff map_of_eq_None_iff image_iff
      split: option.splits)

lemma EVENTS_keys_iff [ev_simps]:
  "ET_key t \<in> set (event_keys (EVENTS env) e) \<longleftrightarrow> e \<in> set (events_with t)"
  by (simp add: in_keys_iff types_of_EVENTS distinct_EVENTS_types events_with_def)

lemma EVENTS_SP_keys_iff [ev_simps]:
  "ET_key t \<in> set (event_keys (EVENTS_SP env) e) \<longleftrightarrow> e \<in> set (events_sp_with t)"
  by (simp add: in_keys_iff types_of_EVENTS_SP distinct_EVENTS_SP_types events_sp_with_def)

lemma contains_EVENTS [ev_simps]:
  "contains (EVENTS env) ev (ET_key t) \<longleftrightarrow> (\<exists>e\<in>set (events ev). e \<in> set (events_with t))"
  by (simp add: contains_def list_ex_iff EVENTS_keys_iff)

lemma contains_EVENTS_SP [ev_simps]:
  "contains (EVENTS_SP env) ev (ET_key t) \<longleftrightarrow> (\<exists>e\<in>set (events ev). e \<in> set (events_sp_with t))"
  by (simp add: contains_def list_ex_iff EVENTS_SP_keys_iff)

section \<open>The event types enumerated\<close>

text \<open>Closed evaluations of the two tables.\<close>

lemma events_with_ENABLE: "events_with ENABLE =
    [10, 23]"
  by (simp add: events_with_def EVENTS_types_eval)

lemma events_with_PRE_ENABLE: "events_with PRE_ENABLE =
    [12]"
  by (simp add: events_with_def EVENTS_types_eval)

lemma events_with_OVERRIDE_LATERAL: "events_with OVERRIDE_LATERAL =
    [14]"
  by (simp add: events_with_def EVENTS_types_eval)

lemma events_with_OVERRIDE_LONGITUDINAL: "events_with OVERRIDE_LONGITUDINAL =
    [13]"
  by (simp add: events_with_def EVENTS_types_eval)

lemma events_with_NO_ENTRY: "events_with NO_ENTRY =
    [0, 1, 2, 3, 4, 5, 6, 7, 8, 9, 11, 17, 18, 19, 20, 21, 22, 25, 27, 40, 41, 42, 43, 44,
    45, 46, 51, 52, 55, 56, 58, 62, 67, 69, 70, 71, 73, 74, 75, 77, 78, 80, 81, 82, 83, 84,
    85, 86, 87, 88, 90, 92, 93, 94, 96, 98]"
  by (simp add: events_with_def EVENTS_types_eval)

lemma events_with_USER_DISABLE: "events_with USER_DISABLE =
    [6, 8, 9, 11, 24, 27, 69, 94]"
  by (simp add: events_with_def EVENTS_types_eval)

lemma events_with_SOFT_DISABLE: "events_with SOFT_DISABLE =
    [2, 3, 4, 5, 7, 18, 19, 20, 21, 25, 40, 42, 43, 44, 46, 51, 70, 71, 73, 74, 75, 78, 81,
    83, 85, 87, 90, 93, 96]"
  by (simp add: events_with_def EVENTS_types_eval)

lemma events_with_IMMEDIATE_DISABLE: "events_with IMMEDIATE_DISABLE =
    [0, 1, 15, 16, 22, 41, 58, 80, 84, 86, 88]"
  by (simp add: events_with_def EVENTS_types_eval)

lemma events_sp_with_ENABLE: "events_sp_with ENABLE =
    [0, 4]"
  by (simp add: events_sp_with_def EVENTS_SP_types_eval)

lemma events_sp_with_PRE_ENABLE: "events_sp_with PRE_ENABLE =
    []"
  by (simp add: events_sp_with_def EVENTS_SP_types_eval)

lemma events_sp_with_OVERRIDE_LATERAL: "events_sp_with OVERRIDE_LATERAL =
    []"
  by (simp add: events_sp_with_def EVENTS_SP_types_eval)

lemma events_sp_with_OVERRIDE_LONGITUDINAL: "events_sp_with OVERRIDE_LONGITUDINAL =
    []"
  by (simp add: events_sp_with_def EVENTS_SP_types_eval)

lemma events_sp_with_NO_ENTRY: "events_sp_with NO_ENTRY =
    [6, 7, 8, 9, 10, 11, 12]"
  by (simp add: events_sp_with_def EVENTS_SP_types_eval)

lemma events_sp_with_USER_DISABLE: "events_sp_with USER_DISABLE =
    [1, 2, 5]"
  by (simp add: events_sp_with_def EVENTS_SP_types_eval)

lemma events_sp_with_SOFT_DISABLE: "events_sp_with SOFT_DISABLE =
    []"
  by (simp add: events_sp_with_def EVENTS_SP_types_eval)

lemma events_sp_with_IMMEDIATE_DISABLE: "events_sp_with IMMEDIATE_DISABLE =
    [12]"
  by (simp add: events_sp_with_def EVENTS_SP_types_eval)

lemmas events_with_eval =
  events_with_ENABLE events_with_PRE_ENABLE events_with_OVERRIDE_LATERAL
  events_with_OVERRIDE_LONGITUDINAL events_with_NO_ENTRY events_with_USER_DISABLE
  events_with_SOFT_DISABLE events_with_IMMEDIATE_DISABLE events_sp_with_ENABLE
  events_sp_with_PRE_ENABLE events_sp_with_OVERRIDE_LATERAL
  events_sp_with_OVERRIDE_LONGITUDINAL events_sp_with_NO_ENTRY events_sp_with_USER_DISABLE
  events_sp_with_SOFT_DISABLE events_sp_with_IMMEDIATE_DISABLE

section \<open>Both classes are event logs\<close>

lemma remove_is_drop:
  "wf_events K ev \<Longrightarrow>
     \<exists>ev'. remove ev e = Some ev' \<and> wf_events K ev' \<and> events ev' = remove1 e (events ev)"
  by (blast intro: remove_eq_Some wf_drop events_drop)

lemma wf_sorted: "wf_events K ev \<Longrightarrow> sorted (events ev)"
  and wf_known: "wf_events K ev \<Longrightarrow> set (events ev) \<subseteq> K"
  by (simp_all add: wf_events_def)

lemma mset_events_add: "mset (events (add ev e)) = add_mset e (mset (events ev))"
  by (simp add: add_def)

interpretation op_log: event_log events add remove "wf_events known_events" known_events
  by unfold_locales (rule wf_sorted wf_known wf_add mset_events_add remove_is_drop; assumption)+

interpretation sp_log: event_log events add remove "wf_events known_events_sp" known_events_sp
  by unfold_locales (rule wf_sorted wf_known wf_add mset_events_add remove_is_drop; assumption)+

lemma wf_init_EVENTS [ev_intros]: "wf_events known_events (init_events (EVENTS env))"
  by (rule wf_init) (simp add: EVENTS_keys)

lemma wf_init_EVENTS_SP [ev_intros]: "wf_events known_events_sp (init_events (EVENTS_SP env))"
  by (rule wf_init) (simp add: EVENTS_SP_keys)

lemma EVENT_NAME_covers: "known_events \<subseteq> fst ` set EVENT_NAME"
proof
  fix e assume "e \<in> known_events"
  then have "e \<in> set (filter (\<lambda>e. e \<noteq> 47) [0..<100])"
    by (simp add: known_events_def)
  moreover have "list_all (\<lambda>e. e \<in> fst ` set EVENT_NAME) (filter (\<lambda>e. e \<noteq> 47) [0..<100])"
    by code_simp
  ultimately show "e \<in> fst ` set EVENT_NAME"
    by (simp only: list_all_iff)
qed

lemma EVENT_NAME_SP_covers: "known_events_sp \<subseteq> fst ` set EVENT_NAME_SP"
proof
  fix e assume "e \<in> known_events_sp"
  then have "e \<in> set (filter (\<lambda>e. e \<noteq> 13) [0..<24])"
    by (simp add: known_events_sp_def)
  moreover have "list_all (\<lambda>e. e \<in> fst ` set EVENT_NAME_SP) (filter (\<lambda>e. e \<noteq> 13) [0..<24])"
    by code_simp
  ultimately show "e \<in> fst ` set EVENT_NAME_SP"
    by (simp only: list_all_iff)
qed

section \<open>Properties\<close>

text \<open>Fail-safe tables: in the table of \<open>events.py\<close> on every device, an event that soft
  disables or disables immediately also forbids a new engagement, with the two exceptions
  \<open>cruiseDisabled\<close> and \<open>speedTooLow\<close>.\<close>

theorem disabling_events_forbid_entry:
  "{e. (ET_key SOFT_DISABLE \<in> set (event_keys (EVENTS env) e) \<or> ET_key IMMEDIATE_DISABLE \<in> set (event_keys (EVENTS env) e))
       \<and> ET_key NO_ENTRY \<notin> set (event_keys (EVENTS env) e)} = {EN_cruiseDisabled, EN_speedTooLow}"
  unfolding EVENTS_keys_iff events_with_eval by auto

text \<open>On well-formed logs \<open>create_alerts\<close> raises no \<open>KeyError\<close>, for either table, any list
  of requested types and any callback arguments: every event the log can hold has an entry, a counter and
  a name.\<close>

theorem alerts_never_raise:
  assumes "wf_events known_events ev" "wf_events known_events_sp sp"
  shows "create_alerts (EVENTS env) EVENT_NAME ev ts args \<noteq> None
    \<and> create_alerts (EVENTS_SP env) EVENT_NAME_SP sp ts args \<noteq> None"
  using create_alerts_Some [of "EVENTS env" ev EVENT_NAME ts args]
    create_alerts_Some [of "EVENTS_SP env" sp EVENT_NAME_SP ts args]
    EVENT_NAME_covers EVENT_NAME_SP_covers assms by (auto simp: EVENTS_keys EVENTS_SP_keys)

theorem alerts_never_raise_witness:
  "\<forall>args. create_alerts (EVENTS plain_env) EVENT_NAME (add (init_events (EVENTS plain_env)) EN_canError)
        [PERMANENT, IMMEDIATE_DISABLE] args \<noteq> None
     \<and> create_alerts (EVENTS_SP plain_env) EVENT_NAME_SP (init_events (EVENTS_SP plain_env)) [PERMANENT] args \<noteq> None"
  using alerts_never_raise [OF wf_add [OF wf_init_EVENTS, of EN_canError plain_env] wf_init_EVENTS_SP [of plain_env]]
  by (simp add: known_events_def)

text \<open>On a well-formed log \<open>add\<close> inserts at the sorted position, and removing the event
  that was just added returns, with the list of events as it was before.\<close>

theorem event_add_remove:
  assumes "wf_events known_events ev" "e \<in> known_events"
  shows "events (add ev e) = insort e (events ev)
    \<and> (\<exists>ev'. remove (add ev e) e = Some ev' \<and> wf_events known_events ev' \<and> events ev' = events ev)"
  using op_log.insert_insort [OF assms] op_log.delete_names [OF op_log.insert_inv [OF assms], of e]
    op_log.insert_delete [OF assms] by blast

theorem event_add_remove_witness:
  "\<exists>ev'. remove (add (init_events (EVENTS plain_env)) EN_pedalPressed) EN_pedalPressed = Some ev' \<and> events ev' = []"
proof -
  have "EN_pedalPressed \<in> known_events"
    by (simp add: known_events_def)
  then show ?thesis
    using event_add_remove [OF wf_init_EVENTS [of plain_env], of EN_pedalPressed]
    by (auto simp: init_events_def)
qed

end
