(* ===== verification/EventPair.thy ===== *)
theory EventPair
  imports EventLogs
begin

text \<open>
  \<open>selfdrived\<close>, MADS and the cruise helpers work on two event logs at once, \<open>self.events\<close> and
  \<open>self.events_sp\<close>. The pair of them is threaded through their code; an operation that deletes events
  may raise \<open>KeyError\<close>, so operations are partial functions on pairs. The lemmas carry the proofs that
  none of them ever raises on well-formed logs.
\<close>

type_synonym logs = "EventsState \<times> EventsState"

definition add_op :: "event \<Rightarrow> logs \<Rightarrow> logs option" where
  "add_op e = (\<lambda>(ev, sp). Some (add ev e, sp))"

definition add_sp :: "event \<Rightarrow> logs \<Rightarrow> logs option" where
  "add_sp e = (\<lambda>(ev, sp). Some (ev, add sp e))"

definition remove_op :: "event \<Rightarrow> logs \<Rightarrow> logs option" where
  "remove_op e = (\<lambda>(ev, sp). do { ev' \<leftarrow> remove ev e; Some (ev', sp) })"

definition remove_sp :: "event \<Rightarrow> logs \<Rightarrow> logs option" where
  "remove_sp e = (\<lambda>(ev, sp). do { sp' \<leftarrow> remove sp e; Some (ev, sp') })"

text \<open>Sequencing and an \<open>if\<close> without \<open>else\<close>.\<close>

definition also_do :: "('s \<Rightarrow> 's option) \<Rightarrow> ('s \<Rightarrow> 's option) \<Rightarrow> 's \<Rightarrow> 's option" where
  "also_do f g = (\<lambda>s. Option.bind (f s) g)"

definition when_do :: "bool \<Rightarrow> ('s \<Rightarrow> 's option) \<Rightarrow> 's \<Rightarrow> 's option" where
  "when_do b f = (\<lambda>s. if b then f s else Some s)"

text \<open>An \<open>if\<close> whose condition reads the logs.\<close>

definition when_at :: "('s \<Rightarrow> bool) \<Rightarrow> ('s \<Rightarrow> 's option) \<Rightarrow> 's \<Rightarrow> 's option" where
  "when_at b f = (\<lambda>s. if b s then f s else Some s)"

fun all_do :: "('s \<Rightarrow> 's option) list \<Rightarrow> 's \<Rightarrow> 's option" where
  "all_do [] s = Some s"
| "all_do (f # fs) s = Option.bind (f s) (all_do fs)"

lemma when_do_simps [simp]: "when_do True f s = f s" "when_do False f s = Some s"
  by (simp_all add: when_do_def)

lemma all_do_append: "all_do (fs @ gs) s = Option.bind (all_do fs s) (all_do gs)"
proof (induction fs arbitrary: s)
  case (Cons f fs)
  then show ?case
    by (cases "f s") simp_all
qed simp

section \<open>Total operations\<close>

text \<open>
  \<open>keeps R f\<close>: on well-formed logs the operation returns well-formed logs, related to the given ones
  by the preorder \<open>R\<close>.
\<close>

definition wf_logs :: "logs \<Rightarrow> bool" where
  "wf_logs p \<longleftrightarrow> wf_events known_events (fst p) \<and> wf_events known_events_sp (snd p)"

definition keeps :: "(logs \<Rightarrow> logs \<Rightarrow> bool) \<Rightarrow> (logs \<Rightarrow> logs option) \<Rightarrow> bool" where
  "keeps R f \<longleftrightarrow> (\<forall>p. wf_logs p \<longrightarrow> (\<exists>p'. f p = Some p' \<and> wf_logs p' \<and> R p p'))"

definition any_change :: "logs \<Rightarrow> logs \<Rightarrow> bool" where
  "any_change p p' \<longleftrightarrow> True"

text \<open>Nothing is added to the first log and nothing is deleted from the second.\<close>

definition moves_over :: "logs \<Rightarrow> logs \<Rightarrow> bool" where
  "moves_over p p' \<longleftrightarrow> mset (events (fst p')) \<subseteq># mset (events (fst p))
     \<and> mset (events (snd p)) \<subseteq># mset (events (snd p'))"

definition preorder :: "('p \<Rightarrow> 'p \<Rightarrow> bool) \<Rightarrow> bool" where
  "preorder R \<longleftrightarrow> (\<forall>p. R p p) \<and> (\<forall>p q r. R p q \<longrightarrow> R q r \<longrightarrow> R p r)"

lemma preorder_any_change [simp]: "preorder any_change"
  by (simp add: preorder_def any_change_def)

lemma moves_over_refl [simp]: "moves_over p p"
  by (simp add: moves_over_def)

lemma preorder_moves_over [simp]: "preorder moves_over"
  by (auto simp: preorder_def moves_over_def intro: subset_mset.order_trans)

lemma keepsD: "keeps R f \<Longrightarrow> wf_logs p \<Longrightarrow> \<exists>p'. f p = Some p' \<and> wf_logs p' \<and> R p p'"
  unfolding keeps_def by blast

lemma keeps_cases:
  assumes "keeps R f" "wf_logs p"
  obtains p' where "f p = Some p'" "wf_logs p'" "R p p'"
  using keepsD [OF assms] by blast

lemma keeps_all_do:
  assumes "preorder R" "\<forall>f\<in>set fs. keeps R f"
  shows "keeps R (all_do fs)"
  using assms(2)
proof (induction fs)
  case Nil
  then show ?case
    using assms(1) by (simp add: keeps_def preorder_def)
next
  case (Cons f fs)
  show ?case
    unfolding keeps_def
  proof (intro allI impI)
    fix p assume "wf_logs p"
    then obtain q where q: "f p = Some q" "wf_logs q" "R p q"
      using Cons.prems keepsD [of R f p] by auto
    moreover obtain r where r: "all_do fs q = Some r" "wf_logs r" "R q r"
      using Cons q keepsD [of R "all_do fs" q] by auto
    moreover have "R p r"
      using assms(1) q(3) r(3) unfolding preorder_def by blast
    ultimately show "\<exists>p'. all_do (f # fs) p = Some p' \<and> wf_logs p' \<and> R p p'"
      by simp
  qed
qed

lemma keeps_when_do:
  assumes "preorder R" "b \<Longrightarrow> keeps R f"
  shows "keeps R (when_do b f)"
  using assms by (cases b) (auto simp: keeps_def preorder_def)

lemma keeps_when_at: "preorder R \<Longrightarrow> keeps R f \<Longrightarrow> keeps R (when_at b f)"
  by (simp add: when_at_def keeps_def preorder_def)

text \<open>An operation that first computes a value from the logs.\<close>

lemma keeps_read: "(\<And>x. keeps R (f x)) \<Longrightarrow> (\<And>p. g p = f (h p) p) \<Longrightarrow> keeps R g"
  by (simp add: keeps_def)

lemma keeps_if: "(b \<Longrightarrow> keeps R f) \<Longrightarrow> (\<not> b \<Longrightarrow> keeps R g) \<Longrightarrow> keeps R (if b then f else g)"
  by simp

lemma keeps_any: "keeps R f \<Longrightarrow> keeps any_change f"
  unfolding keeps_def any_change_def by blast

text \<open>The elementary operations. The deletions are total because both logs are event logs.\<close>

lemma keeps_add_op: "e \<in> known_events \<Longrightarrow> keeps any_change (add_op e)"
  by (auto simp: keeps_def add_op_def wf_logs_def any_change_def intro: ev_intros)

lemma keeps_add_sp: "e \<in> known_events_sp \<Longrightarrow> keeps moves_over (add_sp e)"
  by (auto simp: keeps_def add_sp_def wf_logs_def moves_over_def mset_events_add intro: ev_intros)

lemma remove_op_effect:
  assumes "wf_logs p"
  shows "remove_op e p = Some (drop_event (fst p) e, snd p)"
    and "wf_logs (drop_event (fst p) e, snd p)"
    and "events (drop_event (fst p) e) = remove1 e (events (fst p))"
  using assms
  by (auto simp: remove_op_def wf_logs_def split_def remove_eq_Some events_drop intro: wf_drop)

lemma keeps_remove_op: "keeps moves_over (remove_op e)"
  unfolding keeps_def using remove_op_effect by (auto simp: moves_over_def)

lemma keeps_remove_sp: "keeps any_change (remove_sp e)"
  by (auto simp: keeps_def remove_sp_def wf_logs_def split_def any_change_def remove_eq_Some
      intro: wf_drop)

text \<open>What \<open>moves_over\<close> means for the queries.\<close>

lemma moves_over_has:
  assumes "moves_over p q"
  shows "has (fst q) e \<Longrightarrow> has (fst p) e"
    and "has (snd p) e \<Longrightarrow> has (snd q) e"
  using assms mset_subset_eqD unfolding moves_over_def has_def by (metis set_mset_mset)+

lemma distinct_count_le: "distinct xs \<longleftrightarrow> (\<forall>x. count (mset xs) x \<le> 1)"
proof
  assume "\<forall>x. count (mset xs) x \<le> 1"
  then show "distinct xs"
    unfolding distinct_count_atmost_1
    by (metis count_greater_zero_iff count_mset_0_iff le_antisym less_one linorder_not_less set_mset_mset)
qed (simp add: distinct_count_atmost_1)

lemma moves_over_distinct:
  "moves_over p q \<Longrightarrow> distinct (events (fst p)) \<Longrightarrow> distinct (events (fst q))"
  unfolding moves_over_def distinct_count_le by (meson dual_order.trans mset_subset_eq_count)

text \<open>An operation that deletes the only occurrence of an event.\<close>

definition removes :: "event \<Rightarrow> (logs \<Rightarrow> logs option) \<Rightarrow> bool" where
  "removes e f \<longleftrightarrow> (\<forall>p p'. wf_logs p \<longrightarrow> distinct (events (fst p)) \<longrightarrow> f p = Some p' \<longrightarrow>
     \<not> has (fst p') e)"

lemma removes_remove_op: "removes e (remove_op e)"
  unfolding removes_def using remove_op_effect by (auto simp: has_def)

lemma removes_all_do:
  assumes "f \<in> set fs" "removes e f" "\<forall>g\<in>set fs. keeps moves_over g"
  shows "removes e (all_do fs)"
  unfolding removes_def
proof (intro allI impI)
  fix p p' assume p: "wf_logs p" "distinct (events (fst p))" "all_do fs p = Some p'"
  obtain as bs where fs: "fs = as @ f # bs"
    using assms(1) by (metis split_list)
  have "keeps moves_over (all_do as)" "keeps moves_over (all_do bs)" "keeps moves_over f"
    using assms(3) fs by (auto intro!: keeps_all_do)
  then obtain q where q: "all_do as p = Some q" "wf_logs q" "moves_over p q"
    using p(1) by (meson keepsD)
  obtain r where r: "f q = Some r" "wf_logs r" "moves_over q r"
    using \<open>keeps moves_over f\<close> q(2) by (meson keepsD)
  obtain t where t: "all_do bs r = Some t" "moves_over r t"
    using \<open>keeps moves_over (all_do bs)\<close> r(2) by (meson keepsD)
  have "\<not> has (fst r) e"
    using assms(2) q(2) moves_over_distinct [OF q(3) p(2)] r(1) unfolding removes_def by blast
  then show "\<not> has (fst p') e"
    using p(3) q(1) r(1) t moves_over_has(1) [OF t(2)] by (auto simp: fs all_do_append)
qed

text \<open>An operation that inserts an event into the second log.\<close>

definition inserts_sp :: "event \<Rightarrow> (logs \<Rightarrow> logs option) \<Rightarrow> bool" where
  "inserts_sp e f \<longleftrightarrow> (\<forall>p p'. wf_logs p \<longrightarrow> f p = Some p' \<longrightarrow> has (snd p') e)"

lemma inserts_add_sp: "inserts_sp e (add_sp e)"
  by (auto simp: inserts_sp_def add_sp_def ev_simps)

lemma inserts_all_do:
  assumes "f \<in> set fs" "inserts_sp e f" "\<forall>g\<in>set fs. keeps moves_over g"
  shows "inserts_sp e (all_do fs)"
  unfolding inserts_sp_def
proof (intro allI impI)
  fix p p' assume p: "wf_logs p" "all_do fs p = Some p'"
  obtain as bs where fs: "fs = as @ f # bs"
    using assms(1) by (metis split_list)
  have "keeps moves_over (all_do as)" "keeps moves_over (all_do bs)" "keeps moves_over f"
    using assms(3) fs by (auto intro!: keeps_all_do)
  then obtain q where q: "all_do as p = Some q" "wf_logs q"
    using p(1) by (meson keepsD)
  obtain r where r: "f q = Some r" "wf_logs r"
    using \<open>keeps moves_over f\<close> q(2) by (meson keepsD)
  obtain t where t: "all_do bs r = Some t" "moves_over r t"
    using \<open>keeps moves_over (all_do bs)\<close> r(2) by (meson keepsD)
  have "has (snd r) e"
    using assms(2) q(2) r(1) unfolding inserts_sp_def by blast
  then show "has (snd p') e"
    using p(2) q(1) r(1) t moves_over_has(2) [OF t(2)] by (auto simp: fs all_do_append)
qed

text \<open>
  \<open>moves_over\<close> with a bound \<open>S\<close> on the events that are inserted when none of the events \<open>Q\<close> is in the
  first log.
\<close>

definition moves_within :: "event set \<Rightarrow> event set \<Rightarrow> logs \<Rightarrow> logs \<Rightarrow> bool" where
  "moves_within Q S p p' \<longleftrightarrow> moves_over p p' \<and>
     ((\<forall>e\<in>Q. \<not> has (fst p) e) \<longrightarrow> set (events (snd p')) \<subseteq> set (events (snd p)) \<union> S)"

lemma preorder_moves_within [simp]: "preorder (moves_within Q S)"
proof -
  have "moves_within Q S p r" if "moves_within Q S p q" "moves_within Q S q r" for p q r
  proof -
    have "moves_over p r"
      using that preorder_moves_over unfolding moves_within_def preorder_def by blast
    moreover have "set (events (snd r)) \<subseteq> set (events (snd p)) \<union> S" if none: "\<forall>e\<in>Q. \<not> has (fst p) e"
    proof -
      have "\<forall>e\<in>Q. \<not> has (fst q) e"
        using none moves_over_has(1) \<open>moves_within Q S p q\<close> unfolding moves_within_def by blast
      with none \<open>moves_within Q S p q\<close> \<open>moves_within Q S q r\<close> show ?thesis
        unfolding moves_within_def by blast
    qed
    ultimately show ?thesis
      by (simp add: moves_within_def)
  qed
  moreover have "moves_within Q S p p" for p
    by (simp add: moves_within_def)
  ultimately show ?thesis
    unfolding preorder_def by blast
qed

lemma keeps_within_add_sp:
  "e \<in> S \<Longrightarrow> e \<in> known_events_sp \<Longrightarrow> keeps (moves_within Q S) (add_sp e)"
  using keeps_add_sp [of e] by (auto simp: keeps_def moves_within_def add_sp_def ev_simps)

lemma keeps_within_remove_op: "keeps (moves_within Q S) (remove_op e)"
  unfolding keeps_def using remove_op_effect by (auto simp: moves_within_def moves_over_def)

lemma keeps_within_absent:
  "old \<in> Q \<Longrightarrow> keeps moves_over f \<Longrightarrow> keeps (moves_within Q S) (when_at (\<lambda>p. b \<and> has (fst p) old) f)"
  by (force simp: keeps_def when_at_def moves_within_def)

lemmas keeps_intros = keeps_all_do keeps_when_do keeps_when_at keeps_if keeps_add_op keeps_add_sp keeps_remove_op
  keeps_within_add_sp keeps_within_remove_op

lemma known_numerals [simp]:
  "numeral n \<in> known_events \<longleftrightarrow> numeral n < (100::nat) \<and> numeral n \<noteq> (47::nat)"
  "(0::nat) \<in> known_events" "(1::nat) \<in> known_events" "Suc 0 \<in> known_events"
  "numeral n \<in> known_events_sp \<longleftrightarrow> numeral n < (24::nat) \<and> numeral n \<noteq> (13::nat)"
  "(0::nat) \<in> known_events_sp" "(1::nat) \<in> known_events_sp" "Suc 0 \<in> known_events_sp"
  by (simp_all add: known_events_def known_events_sp_def)

end
