(* ===== verification/MadsState.thy ===== *)
theory MadsState
  imports StateMachine EventPair
begin

text \<open>
  \<open>sunnypilot/mads/state.py\<close>: the state machine of MADS, which engages steering independently of
  cruise control. It shares the soft disable timer and the alert types with the machine of
  \<open>selfdrived\<close> (\<open>ss\<close> below) and writes them only under the conditions of the code.
\<close>

section \<open>Class StateMachine of MADS\<close>

datatype MadsState = M_disabled | M_paused | M_enabled | M_softDisabling | M_overriding

definition MADS_ACTIVE_STATES :: "MadsState list" where
  "MADS_ACTIVE_STATES = [M_enabled, M_softDisabling, M_overriding]"

definition MADS_ENABLED_STATES :: "MadsState list" where
  "MADS_ENABLED_STATES = M_paused # MADS_ACTIVE_STATES"

definition GEARS_ALLOW_PAUSED_SILENT :: "event list" where
  "GEARS_ALLOW_PAUSED_SILENT =
     [ENSP_silentWrongGear, ENSP_silentReverseGear, ENSP_silentBrakeHold,
      ENSP_silentDoorOpen, ENSP_silentSeatbeltNotLatched, ENSP_silentParkBrake]"

definition GEARS_ALLOW_PAUSED :: "event list" where
  "GEARS_ALLOW_PAUSED =
     [EN_wrongGear, EN_reverseGear, EN_brakeHold,
      EN_doorOpen, EN_seatbeltNotLatched, EN_parkBrake]"

text \<open>
  What a step reads: whether \<open>selfdrived\<close> is enabled, the query \<open>check_contains\<close>, the query
  \<open>check_contains_in_list\<close>, and whether \<open>silentLkasDisable\<close> was sent.
\<close>

record MadsQueries =
  q_sd_enabled :: bool
  q_contains :: "ET \<Rightarrow> bool"
  q_in_list :: bool
  q_silentLkasDisable :: bool

definition check_contains :: "'a events_mapping \<Rightarrow> 'b events_mapping \<Rightarrow> logs \<Rightarrow> ET \<Rightarrow> bool" where
  "check_contains m m_sp p t \<longleftrightarrow>
     contains m (fst p) (ET_key t) \<or> contains m_sp (snd p) (ET_key t)"

definition check_contains_in_list :: "logs \<Rightarrow> bool" where
  "check_contains_in_list p \<longleftrightarrow>
     contains_in_list (fst p) GEARS_ALLOW_PAUSED \<or> contains_in_list (snd p) GEARS_ALLOW_PAUSED_SILENT"

definition mads_queries :: "'a events_mapping \<Rightarrow> 'b events_mapping \<Rightarrow> bool \<Rightarrow> logs \<Rightarrow> MadsQueries" where
  "mads_queries m m_sp sd_enabled p =
     \<lparr>q_sd_enabled = sd_enabled, q_contains = check_contains m m_sp p,
      q_in_list = check_contains_in_list p,
      q_silentLkasDisable = has (snd p) ENSP_silentLkasDisable\<rparr>"

definition add_current_alert_types :: "bool \<Rightarrow> ET \<Rightarrow> StateMachine \<Rightarrow> StateMachine" where
  "add_current_alert_types sd_enabled t ss = (if \<not> sd_enabled then alert_with [t] ss else ss)"

text \<open>On entering soft disabling the timer is started only when \<open>selfdrived\<close> is not enabled.\<close>

definition mads_start_soft :: "bool \<Rightarrow> StateMachine \<Rightarrow> StateMachine" where
  "mads_start_soft sd_enabled ss =
     (if \<not> sd_enabled
      then alert_with [SOFT_DISABLE] (ss\<lparr>soft_disable_timer := SOFT_DISABLE_FRAMES\<rparr>)
      else ss)"

definition mads_sm_update :: "MadsQueries \<Rightarrow> MadsState \<times> StateMachine \<Rightarrow>
    (MadsState \<times> StateMachine) \<times> bool \<times> bool" where
  "mads_sm_update q s0 =
     (let c = q_contains q;
          note_alert = add_current_alert_types (q_sd_enabled q);
          st = fst s0;
          ss = snd s0;
          (st1, ss1) =
            (if st \<noteq> M_disabled then
               (if c USER_DISABLE then
                  (if q_silentLkasDisable q then M_paused else M_disabled, alert_with [USER_DISABLE] ss)
                else if c IMMEDIATE_DISABLE then (M_disabled, note_alert IMMEDIATE_DISABLE ss)
                else (case st of
                   M_enabled \<Rightarrow>
                     if c SOFT_DISABLE then (M_softDisabling, mads_start_soft (q_sd_enabled q) ss)
                     else if c OVERRIDE_LATERAL then (M_overriding, note_alert OVERRIDE_LATERAL ss)
                     else (st, ss)
                 | M_softDisabling \<Rightarrow>
                     if \<not> c SOFT_DISABLE then (M_enabled, ss)
                     else if soft_disable_timer ss > 0 then (st, note_alert SOFT_DISABLE ss)
                     else if soft_disable_timer ss \<le> 0 then (M_disabled, ss)
                     else (st, ss)
                 | M_paused \<Rightarrow>
                     if c ENABLE then
                       (if c NO_ENTRY then (st, note_alert NO_ENTRY ss)
                        else (if c OVERRIDE_LATERAL then M_overriding else M_enabled,
                              note_alert ENABLE ss))
                     else (st, ss)
                 | M_overriding \<Rightarrow>
                     if c SOFT_DISABLE then (M_softDisabling, mads_start_soft (q_sd_enabled q) ss)
                     else if \<not> c OVERRIDE_LATERAL then (M_enabled, ss)
                     else (st, alert_with [OVERRIDE_LATERAL] ss)
                 | M_disabled \<Rightarrow> (st, ss)))
             else
               (if c ENABLE then
                  (if c NO_ENTRY then
                     (if q_in_list q then M_paused else st, note_alert NO_ENTRY ss)
                   else (if c OVERRIDE_LATERAL then M_overriding else M_enabled, note_alert ENABLE ss))
                else (st, ss)));
          enabled = (st1 \<in> set MADS_ENABLED_STATES);
          active = (st1 \<in> set MADS_ACTIVE_STATES)
      in ((st1, if active then note_alert WARNING ss1 else ss1), enabled, active))"

section \<open>The transitions\<close>

lemma mads_sets [simp]:
  "set MADS_ACTIVE_STATES = {M_enabled, M_softDisabling, M_overriding}"
  "set MADS_ENABLED_STATES = {M_paused, M_enabled, M_softDisabling, M_overriding}"
  by (simp_all add: MADS_ACTIVE_STATES_def MADS_ENABLED_STATES_def)

lemma mads_helpers [simp]:
  "sm_state (add_current_alert_types b t ss) = sm_state ss"
  "soft_disable_timer (add_current_alert_types b t ss) = soft_disable_timer ss"
  "sm_state (mads_start_soft b ss) = sm_state ss"
  "soft_disable_timer (mads_start_soft b ss) = (if b then soft_disable_timer ss else 300)"
  by (simp_all add: add_current_alert_types_def mads_start_soft_def)

text \<open>The specification of the moves, with \<open>t\<close> for the shared timer.\<close>

inductive mads_move :: "MadsQueries \<Rightarrow> int \<Rightarrow> MadsState \<Rightarrow> MadsState \<Rightarrow> bool" for q t where
  user_off: "s \<noteq> M_disabled \<Longrightarrow> q_contains q USER_DISABLE \<Longrightarrow>
    mads_move q t s (if q_silentLkasDisable q then M_paused else M_disabled)"
| fault_off: "s \<noteq> M_disabled \<Longrightarrow> \<not> q_contains q USER_DISABLE \<Longrightarrow> q_contains q IMMEDIATE_DISABLE \<Longrightarrow>
    mads_move q t s M_disabled"
| m_soft: "s \<in> {M_enabled, M_overriding} \<Longrightarrow> \<not> q_contains q USER_DISABLE \<Longrightarrow>
    \<not> q_contains q IMMEDIATE_DISABLE \<Longrightarrow> q_contains q SOFT_DISABLE \<Longrightarrow> mads_move q t s M_softDisabling"
| m_steady: "s \<in> {M_enabled, M_overriding} \<Longrightarrow> \<not> q_contains q USER_DISABLE \<Longrightarrow>
    \<not> q_contains q IMMEDIATE_DISABLE \<Longrightarrow> \<not> q_contains q SOFT_DISABLE \<Longrightarrow>
    mads_move q t s (if q_contains q OVERRIDE_LATERAL then M_overriding else M_enabled)"
| m_wait: "\<not> q_contains q USER_DISABLE \<Longrightarrow> \<not> q_contains q IMMEDIATE_DISABLE \<Longrightarrow>
    mads_move q t M_softDisabling
      (if \<not> q_contains q SOFT_DISABLE then M_enabled else if 0 < t then M_softDisabling else M_disabled)"
| m_resume: "\<not> q_contains q USER_DISABLE \<Longrightarrow> \<not> q_contains q IMMEDIATE_DISABLE \<Longrightarrow>
    mads_move q t M_paused
      (if q_contains q ENABLE \<and> \<not> q_contains q NO_ENTRY
       then if q_contains q OVERRIDE_LATERAL then M_overriding else M_enabled
       else M_paused)"
| m_engage: "q_contains q ENABLE \<Longrightarrow> \<not> q_contains q NO_ENTRY \<Longrightarrow>
    mads_move q t M_disabled (if q_contains q OVERRIDE_LATERAL then M_overriding else M_enabled)"
| m_blocked: "\<not> q_contains q ENABLE \<or> q_contains q NO_ENTRY \<Longrightarrow>
    mads_move q t M_disabled (if q_contains q ENABLE \<and> q_in_list q then M_paused else M_disabled)"

inductive_simps mads_move_disabled: "mads_move q t M_disabled s"
inductive_simps mads_move_paused: "mads_move q t M_paused s"
inductive_simps mads_move_enabled: "mads_move q t M_enabled s"
inductive_simps mads_move_softDisabling: "mads_move q t M_softDisabling s"
inductive_simps mads_move_overriding: "mads_move q t M_overriding s"

lemmas mads_move_cases = mads_move_disabled mads_move_paused mads_move_enabled
  mads_move_softDisabling mads_move_overriding

definition mads_next :: "MadsQueries \<times> StateMachine \<Rightarrow> MadsState \<Rightarrow> MadsState" where
  "mads_next i st = fst (fst (mads_sm_update (fst i) (st, snd i)))"

lemma mads_next_moves: "mads_move q (soft_disable_timer ss) st st' \<longleftrightarrow> st' = mads_next (q, ss) st"
  by (cases st) (auto simp: mads_next_def mads_sm_update_def Let_def mads_move_cases)

lemma mads_flags:
  "fst (snd (mads_sm_update q (st, ss))) \<longleftrightarrow> mads_next (q, ss) st \<noteq> M_disabled"
  "snd (snd (mads_sm_update q (st, ss))) \<longleftrightarrow> mads_next (q, ss) st \<in> set MADS_ACTIVE_STATES"
  by (auto simp: mads_next_def mads_sm_update_def Let_def split_def MADS_ENABLED_STATES_def)
    (metis MadsState.exhaust)+

lemma mads_shared:
  "sm_state (snd (fst (mads_sm_update q (st, ss)))) = sm_state ss"
  "soft_disable_timer (snd (fst (mads_sm_update q (st, ss)))) =
     (if st \<in> {M_enabled, M_overriding} \<and> mads_next (q, ss) st = M_softDisabling \<and> \<not> q_sd_enabled q
      then 300 else soft_disable_timer ss)"
  by (cases st; simp add: mads_next_def mads_sm_update_def Let_def)+

section \<open>An engagement machine\<close>

definition mads_engaged :: "MadsState \<Rightarrow> bool" where
  "mads_engaged st \<longleftrightarrow> st \<in> set MADS_ACTIVE_STATES"

interpretation msm: engagement_machine mads_next "\<lambda>i :: MadsQueries \<times> StateMachine. q_contains (fst i)" mads_engaged
proof
  fix st and i :: "MadsQueries \<times> StateMachine"
  assume "\<not> mads_engaged st" "mads_engaged (mads_next i st)"
  moreover have "mads_move (fst i) (soft_disable_timer (snd i)) st (mads_next i st)"
    by (simp add: mads_next_moves)
  ultimately show "q_contains (fst i) ENABLE \<and> \<not> q_contains (fst i) NO_ENTRY"
    by (cases st) (auto simp: mads_engaged_def mads_move_cases split: if_splits)
next
  fix st and i :: "MadsQueries \<times> StateMachine"
  assume "mads_engaged st" "q_contains (fst i) USER_DISABLE \<or> q_contains (fst i) IMMEDIATE_DISABLE"
  moreover have "mads_move (fst i) (soft_disable_timer (snd i)) st (mads_next i st)"
    by (simp add: mads_next_moves)
  ultimately show "\<not> mads_engaged (mads_next i st)"
    by (cases st) (auto simp: mads_engaged_def mads_move_cases split: if_splits)
qed

section \<open>The two machines together\<close>

text \<open>
  One control frame of both machines: first the one of \<open>selfdrived\<close> on its query \<open>c\<close>, then MADS on
  the rewritten logs. \<open>q_sd_enabled\<close> is the result of the first.
\<close>

definition joint_step :: "(ET \<Rightarrow> bool) \<times> MadsQueries \<Rightarrow> StateMachine \<times> MadsState \<Rightarrow>
    StateMachine \<times> MadsState" where
  "joint_step i s =
     (let ss1 = sm_step (fst i) (fst s);
          q = (snd i)\<lparr>q_sd_enabled := sm_state ss1 \<noteq> S_disabled\<rparr>;
          r = fst (mads_sm_update q (snd s, ss1))
      in (snd r, fst r))"

lemma joint_step_simps:
  assumes "ss1 = sm_step c ss" "q1 = q\<lparr>q_sd_enabled := sm_state ss1 \<noteq> S_disabled\<rparr>"
  shows "snd (joint_step (c, q) (ss, st)) = mads_next (q1, ss1) st"
    and "sm_state (fst (joint_step (c, q) (ss, st))) = sm_state ss1"
    and "soft_disable_timer (fst (joint_step (c, q) (ss, st))) =
      (if st \<in> {M_enabled, M_overriding} \<and> mads_next (q1, ss1) st = M_softDisabling
          \<and> sm_state ss1 = S_disabled
       then 300 else soft_disable_timer ss1)"
proof -
  have joint: "joint_step (c, q) (ss, st) =
      (snd (fst (mads_sm_update q1 (st, ss1))), mads_next (q1, ss1) st)"
    by (simp add: joint_step_def Let_def mads_next_def assms)
  show "snd (joint_step (c, q) (ss, st)) = mads_next (q1, ss1) st"
    "sm_state (fst (joint_step (c, q) (ss, st))) = sm_state ss1"
    by (simp_all add: joint mads_shared)
  have "q_sd_enabled q1 \<longleftrightarrow> sm_state ss1 \<noteq> S_disabled"
    by (simp add: assms(2))
  then show "soft_disable_timer (fst (joint_step (c, q) (ss, st))) =
      (if st \<in> {M_enabled, M_overriding} \<and> mads_next (q1, ss1) st = M_softDisabling
          \<and> sm_state ss1 = S_disabled
       then 300 else soft_disable_timer ss1)"
    by (simp add: joint mads_shared)
qed

lemma joint_inv: "sm_inv (fst s) \<Longrightarrow> sm_inv (fst (joint_step i s))"
  using sm_inv_step [of "fst s" "fst i"]
  by (cases i; cases s) (auto simp: sm_inv_def joint_step_simps [OF refl refl])

text \<open>
  The frames for which MADS can stay in soft disabling: the timer it waits for is restarted at most
  once, when \<open>selfdrived\<close> enters its own soft disabling.
\<close>

definition frames_left :: "StateMachine \<Rightarrow> nat" where
  "frames_left ss =
     (case sm_state ss of
        S_preEnabled \<Rightarrow> nat (soft_disable_timer ss) + 301
      | S_enabled \<Rightarrow> 301
      | S_overriding \<Rightarrow> 301
      | _ \<Rightarrow> nat (soft_disable_timer ss))"

lemma frames_left_cong:
  "sm_state a = sm_state b \<Longrightarrow> soft_disable_timer a = soft_disable_timer b \<Longrightarrow>
     frames_left a = frames_left b"
  by (simp add: frames_left_def split: OpenpilotState.splits)

definition mads_frames_left :: "StateMachine \<times> MadsState \<Rightarrow> nat" where
  "mads_frames_left s =
     (if snd s = M_softDisabling then frames_left (fst s) else 602)"

definition soft_input :: "(ET \<Rightarrow> bool) \<times> MadsQueries \<Rightarrow> bool" where
  "soft_input i \<longleftrightarrow> fst i SOFT_DISABLE \<and> fst i NO_ENTRY
     \<and> q_contains (snd i) SOFT_DISABLE \<and> q_contains (snd i) NO_ENTRY
     \<and> \<not> q_contains (snd i) USER_DISABLE \<and> \<not> q_contains (snd i) IMMEDIATE_DISABLE"

lemma frames_left_step:
  assumes "sm_inv ss" "c SOFT_DISABLE" "c NO_ENTRY" "0 < soft_disable_timer (sm_step c ss)"
  shows "frames_left (sm_step c ss) < frames_left ss"
proof -
  have "sm_move c (soft_disable_timer ss) (sm_state ss) (sm_state (sm_step c ss))"
    by (simp add: sm_step_moves)
  with assms show ?thesis
    by (cases "sm_state ss")
      (auto simp: frames_left_def sm_step_timer sm_move_cases sm_inv_def split: if_splits)
qed

lemma frames_left_bound: "sm_inv ss \<Longrightarrow> frames_left ss < 602"
  by (auto simp: frames_left_def sm_inv_def split: OpenpilotState.splits)

lemma joint_soft_step:
  assumes "sm_inv ss" "soft_input (c, q)" "mads_engaged (snd (joint_step (c, q) (ss, st)))"
  shows "mads_engaged st
    \<and> mads_frames_left (joint_step (c, q) (ss, st)) < mads_frames_left (ss, st)"
proof -
  define ss1 where "ss1 = sm_step c ss"
  define q1 where "q1 = q\<lparr>q_sd_enabled := sm_state ss1 \<noteq> S_disabled\<rparr>"
  note js = joint_step_simps [OF ss1_def q1_def]
  let ?st = "mads_next (q1, ss1) st"
  have move: "mads_move q1 (soft_disable_timer ss1) st ?st"
    by (simp add: mads_next_moves)
  have q1: "q_contains q1 = q_contains q"
    by (simp add: q1_def)
  have act: "mads_engaged ?st"
    using assms(3) js by simp
  have st: "?st = M_softDisabling" "st \<in> {M_enabled, M_overriding, M_softDisabling}"
    "st = M_softDisabling \<Longrightarrow> 0 < soft_disable_timer ss1"
    using move act assms(2) q1
    by (cases st; auto simp: soft_input_def mads_engaged_def mads_move_cases split: if_splits)+
  have bound: "frames_left (fst (joint_step (c, q) (ss, st))) < 602"
    using joint_inv [of "(ss, st)" "(c, q)"] assms(1) by (intro frames_left_bound) simp
  show ?thesis
  proof (cases "st = M_softDisabling")
    case True
    have "frames_left ss1 < frames_left ss"
      using frames_left_step [of ss c] assms(1,2) st(3) [OF True] by (simp add: soft_input_def ss1_def)
    moreover have "frames_left (fst (joint_step (c, q) (ss, st))) = frames_left ss1"
      using True js(2,3) [of M_softDisabling] by (intro frames_left_cong) simp_all
    ultimately show ?thesis
      using True st(1) js(1) by (simp add: mads_frames_left_def mads_engaged_def)
  next
    case False
    then show ?thesis
      using bound st js by (auto simp: mads_frames_left_def mads_engaged_def)
  qed
qed

lemma joint_soft_run:
  assumes "sm_inv (fst s)" "\<forall>i\<in>set is. soft_input i" "mads_engaged (snd (fold joint_step is s))"
  shows "mads_engaged (snd s) \<and>
    mads_frames_left (fold joint_step is s) + length is \<le> mads_frames_left s"
  using assms
proof (induction "is" arbitrary: s)
  case (Cons i "is")
  let ?s = "joint_step i s"
  have "mads_engaged (snd ?s)"
    "mads_frames_left (fold joint_step is ?s) + length is \<le> mads_frames_left ?s"
    using Cons.IH [of ?s] Cons.prems joint_inv [of s i] by simp_all
  then show ?case
    using joint_soft_step [of "fst s" "fst i" "snd i" "snd s"] Cons.prems by simp
qed simp

lemma joint_soft_bounded:
  assumes "sm_inv (fst s)" "\<forall>i\<in>set is. soft_input i" "602 < length is"
  shows "\<not> mads_engaged (snd (fold joint_step is s))"
proof
  assume "mads_engaged (snd (fold joint_step is s))"
  then have "length is \<le> mads_frames_left s"
    using joint_soft_run [OF assms(1,2)] by simp
  moreover have "mads_frames_left s \<le> 602"
    using frames_left_bound [OF assms(1)] by (auto simp: mads_frames_left_def)
  ultimately show False
    using assms(3) by simp
qed

section \<open>Properties\<close>

text \<open>C35 (refinement). One call of the MADS state machine makes exactly the move the relation
  \<open>mads_move\<close> allows, the returned flags are "not disabled" and "in an active state", and it never
  changes the state of \<open>selfdrived\<close>'s own machine.\<close>

theorem mads_machine_refines:
  "(\<forall>st'. mads_move q (soft_disable_timer ss) st st' \<longleftrightarrow> st' = fst (fst (mads_sm_update q (st, ss))))
   \<and> (fst (snd (mads_sm_update q (st, ss))) \<longleftrightarrow> fst (fst (mads_sm_update q (st, ss))) \<noteq> M_disabled)
   \<and> (snd (snd (mads_sm_update q (st, ss))) \<longleftrightarrow> fst (fst (mads_sm_update q (st, ss))) \<in> set MADS_ACTIVE_STATES)
   \<and> sm_state (snd (fst (mads_sm_update q (st, ss)))) = sm_state ss"
  using mads_next_moves [of q ss st] mads_flags [of q st ss] mads_shared(1) [of q st ss]
  by (simp add: mads_next_def)

text \<open>C7 (safety). Over any run, with any interleaving of timer values: steering assistance is active
  at the end only if some frame asked for it (ENABLE without NO_ENTRY) and no later frame carried an
  event of type USER_DISABLE or IMMEDIATE_DISABLE.\<close>

theorem mads_active_only_by_request:
  assumes "st \<notin> set MADS_ACTIVE_STATES" "fold mads_next is st \<in> set MADS_ACTIVE_STATES"
  shows "\<exists>xs i ys. is = xs @ i # ys \<and> q_contains (fst i) ENABLE \<and> \<not> q_contains (fst i) NO_ENTRY
    \<and> list_all (\<lambda>j. \<not> q_contains (fst j) USER_DISABLE \<and> \<not> q_contains (fst j) IMMEDIATE_DISABLE) ys"
  using msm.engaged_since [of st "is"] assms by (simp add: mads_engaged_def list_all_iff)

definition sample_queries :: "ET list \<Rightarrow> MadsQueries" where
  "sample_queries ts = \<lparr>q_sd_enabled = False, q_contains = (\<lambda>t. t \<in> set ts), q_in_list = False,
     q_silentLkasDisable = False\<rparr>"

theorem mads_active_only_by_request_witness:
  "\<exists>xs i ys. [(sample_queries [ENABLE], new_StateMachine), (sample_queries [], new_StateMachine)] = xs @ i # ys
    \<and> q_contains (fst i) ENABLE \<and> \<not> q_contains (fst i) NO_ENTRY
    \<and> list_all (\<lambda>j. \<not> q_contains (fst j) USER_DISABLE \<and> \<not> q_contains (fst j) IMMEDIATE_DISABLE) ys"
  by (rule mads_active_only_by_request [of M_disabled])
    (simp_all add: sample_queries_def mads_next_def mads_sm_update_def)

text \<open>Whatever states the two machines share their timer in: once every frame carries a
  soft-disable event that also forbids entry (and none that disables at once), steering assistance is off
  after at most 603 frames, although each machine may restart the timer the other one waits for.\<close>

theorem mads_soft_disable_ends:
  assumes "sm_inv ss" "list_all soft_input is" "602 < length is"
  shows "snd (fold joint_step is (ss, st)) \<notin> set MADS_ACTIVE_STATES"
  using joint_soft_bounded [of "(ss, st)" "is"] assms by (simp add: mads_engaged_def list_all_iff)

theorem mads_soft_disable_ends_witness:
  "snd (fold joint_step (replicate 603 (\<lambda>t. t = SOFT_DISABLE \<or> t = NO_ENTRY,
      sample_queries [SOFT_DISABLE, NO_ENTRY])) (go S_enabled new_StateMachine, M_enabled)) \<notin> set MADS_ACTIVE_STATES"
  by (rule mads_soft_disable_ends)
    (simp_all add: sm_inv_def go_def new_StateMachine_def soft_input_def sample_queries_def list_all_iff)

end
