(* ===== verification/Platform.thy ===== *)
theory Platform
  imports Messages
begin

text \<open>
  What the code takes from outside the repository's Python: the parameter store (\<open>common/params\<close>, a
  key-value store on disk) and the constants and functions of \<open>opendbc\<close>, which is a submodule. Both
  are arguments of the definitions that use them.
\<close>

section \<open>The parameter store\<close>

text \<open>
  A map from keys to values. Booleans are stored as 1 and 0, and \<open>get_bool\<close> is the comparison with 1;
  \<open>get\<close> with \<open>return_default=True\<close> falls back on the default \<open>dflt\<close> of the key.
\<close>

type_synonym Params = "string \<rightharpoonup> int"

definition get_bool :: "Params \<Rightarrow> string \<Rightarrow> bool" where
  "get_bool params key \<longleftrightarrow> params key = Some 1"

definition get_default :: "(string \<Rightarrow> int) \<Rightarrow> Params \<Rightarrow> string \<Rightarrow> int" where
  "get_default dflt params key = (case params key of Some v \<Rightarrow> v | None \<Rightarrow> dflt key)"

definition put_bool :: "string \<Rightarrow> bool \<Rightarrow> Params \<Rightarrow> Params" where
  "put_bool key b params = params(key \<mapsto> (if b then 1 else 0))"

lemma get_bool_put_bool [simp]:
  "get_bool (put_bool k b params) k' \<longleftrightarrow> (if k' = k then b else get_bool params k')"
  by (simp add: get_bool_def put_bool_def)

text \<open>\<open>sunnypilot/__init__.py\<close>: reading a bounded integer, written back when it was out of bounds.\<close>

definition get_sanitize_int_param :: "(string \<Rightarrow> int) \<Rightarrow> string \<Rightarrow> int \<Rightarrow> int \<Rightarrow> Params \<Rightarrow>
    int \<times> Params" where
  "get_sanitize_int_param dflt key min_val max_val params =
     (let val = get_default dflt params key;
          clipped_val = max min_val (min max_val val)
      in (clipped_val, if clipped_val \<noteq> val then params(key \<mapsto> clipped_val) else params))"

lemma get_sanitize_bounds:
  "min_val \<le> max_val \<Longrightarrow> fst (get_sanitize_int_param dflt key min_val max_val params) \<in> {min_val..max_val}"
  by (simp add: get_sanitize_int_param_def Let_def)

text \<open>After the call the store holds the returned value, so a second call changes nothing.\<close>

lemma get_sanitize_stored:
  assumes "get_sanitize_int_param dflt key lo hi params = (v, params')"
  shows "get_default dflt params' key = v"
    and "lo \<le> hi \<Longrightarrow> get_sanitize_int_param dflt key lo hi params' = (v, params')"
  using assms
  by (auto simp: get_sanitize_int_param_def get_default_def Let_def split: if_splits option.splits)

section \<open>Constants of opendbc\<close>

record Opendbc =
  ob_TeslaFlagsSP_HAS_VEHICLE_BUS :: nat
  ob_ALTEXP_ENABLE_MADS :: nat
  ob_ALTEXP_MADS_DISENGAGE_LATERAL_ON_BRAKE :: nat
  ob_ALTEXP_MADS_PAUSE_LATERAL_ON_BRAKE :: nat
  ob_HyundaiFlagsSP_LONGITUDINAL_MAIN_CRUISE_TOGGLEABLE :: nat
  ob_HyundaiSafetyFlagsSP_LONG_MAIN_CRUISE_TOGGLEABLE :: int
  ob_HyundaiFlags_HAS_LDA_BUTTON :: nat
  ob_HyundaiFlags_CANFD :: nat
  ob_ToyotaFlags_HYBRID :: nat
  ob_DRIVABLE_GEARS :: "string \<Rightarrow> GearShifter list" \<comment> \<open>of the car interface of a fingerprint\<close>
  ob_MAX_CTRL_SPEED :: rat
  ob_RAM_DT :: "string list"
  ob_ACCEL_MIN :: rat
  ob_ACCEL_MAX :: rat
  ob_ACCELERATION_DUE_TO_GRAVITY :: rat
  ob_ISO_LATERAL_ACCEL :: rat
  ob_apply_hysteresis :: "rat \<Rightarrow> rat \<Rightarrow> rat \<Rightarrow> rat" \<comment> \<open>value, steady value, gap\<close>

text \<open>Some values of these constants, for examples.\<close>

definition plain_ob :: Opendbc where
  "plain_ob =
     \<lparr>ob_TeslaFlagsSP_HAS_VEHICLE_BUS = 1, ob_ALTEXP_ENABLE_MADS = 1024,
      ob_ALTEXP_MADS_DISENGAGE_LATERAL_ON_BRAKE = 2048, ob_ALTEXP_MADS_PAUSE_LATERAL_ON_BRAKE = 4096,
      ob_HyundaiFlagsSP_LONGITUDINAL_MAIN_CRUISE_TOGGLEABLE = 16,
      ob_HyundaiSafetyFlagsSP_LONG_MAIN_CRUISE_TOGGLEABLE = 2, ob_HyundaiFlags_HAS_LDA_BUTTON = 32,
      ob_HyundaiFlags_CANFD = 64, ob_ToyotaFlags_HYBRID = 1, ob_DRIVABLE_GEARS = (\<lambda>_. []),
      ob_MAX_CTRL_SPEED = 40, ob_RAM_DT = [], ob_ACCEL_MIN = -7/2, ob_ACCEL_MAX = 2,
      ob_ACCELERATION_DUE_TO_GRAVITY = 981/100, ob_ISO_LATERAL_ACCEL = 3,
      ob_apply_hysteresis = (\<lambda>v s gap. v)\<rparr>"

end
