(* ===== verification/Mads.thy ===== *)
theory Mads
  imports MadsState Platform
begin

unbundle bit_operations_syntax

text \<open>
  \<open>sunnypilot/mads/mads.py\<close> and \<open>sunnypilot/mads/helpers.py\<close>: the Modular Assistive Driving System.
  It rewrites the two event logs after the state machine of \<open>selfdrived\<close> has run, so that steering can
  stay engaged when cruise control does not, and then runs its own state machine on them.
\<close>

section \<open>Helpers\<close>

definition MADS_NO_ACC_MAIN_BUTTON :: "string list" where
  "MADS_NO_ACC_MAIN_BUTTON = [''rivian'', ''tesla'']"

definition REMAIN_ACTIVE :: int where "REMAIN_ACTIVE = 0"
definition PAUSE :: int where "PAUSE = 1"
definition DISENGAGE :: int where "DISENGAGE = 2"

definition get_mads_limited_brands :: "Opendbc \<Rightarrow> CarParams \<Rightarrow> CarParamsSP \<Rightarrow> bool" where
  "get_mads_limited_brands ob CP CP_SP =
     (if cp_brand CP = ''rivian'' then True
      else if cp_brand CP = ''tesla''
      then cpsp_flags CP_SP AND ob_TeslaFlagsSP_HAS_VEHICLE_BUS ob = 0
      else False)"

definition read_steering_mode_param :: "Opendbc \<Rightarrow> CarParams \<Rightarrow> CarParamsSP \<Rightarrow>
    (string \<Rightarrow> int) \<Rightarrow> Params \<Rightarrow> int" where
  "read_steering_mode_param ob CP CP_SP dflt params =
     (if get_mads_limited_brands ob CP CP_SP then DISENGAGE
      else get_default dflt params ''MadsSteeringMode'')"

definition set_alternative_experience :: "Opendbc \<Rightarrow> CarParams \<Rightarrow> CarParamsSP \<Rightarrow>
    (string \<Rightarrow> int) \<Rightarrow> Params \<Rightarrow> CarParams" where
  "set_alternative_experience ob CP CP_SP dflt params =
     (let enabled = get_bool params ''Mads'';
          steering_mode = read_steering_mode_param ob CP CP_SP dflt params
      in if enabled then
           (let ae = cp_alternativeExperience CP OR ob_ALTEXP_ENABLE_MADS ob
            in CP\<lparr>cp_alternativeExperience :=
                 (if steering_mode = DISENGAGE
                  then ae OR ob_ALTEXP_MADS_DISENGAGE_LATERAL_ON_BRAKE ob
                  else if steering_mode = PAUSE
                  then ae OR ob_ALTEXP_MADS_PAUSE_LATERAL_ON_BRAKE ob
                  else ae)\<rparr>)
         else CP)"

definition set_car_specific_params :: "Opendbc \<Rightarrow> CarParams \<Rightarrow> CarParamsSP \<Rightarrow> Params \<Rightarrow>
    CarParamsSP \<times> Params" where
  "set_car_specific_params ob CP CP_SP params =
     (let CP_SP1 =
            (if cp_brand CP = ''hyundai''
             then CP_SP\<lparr>cpsp_flags := cpsp_flags CP_SP OR
                          ob_HyundaiFlagsSP_LONGITUDINAL_MAIN_CRUISE_TOGGLEABLE ob,
                        cpsp_safetyParam := cpsp_safetyParam CP_SP OR
                          ob_HyundaiSafetyFlagsSP_LONG_MAIN_CRUISE_TOGGLEABLE ob\<rparr>
             else CP_SP);
          params1 =
            (if get_mads_limited_brands ob CP CP_SP1
             then put_bool ''MadsUnifiedEngagementMode'' True (params(''MadsSteeringMode'' \<mapsto> 2))
             else params);
          params2 =
            (if cp_brand CP \<in> set MADS_NO_ACC_MAIN_BUTTON
             then params1(''MadsMainCruiseAllowed'' := None) else params1)
      in (CP_SP1, params2))"

section \<open>Class ModularAssistiveDrivingSystem\<close>

text \<open>
  The attribute \<open>available\<close> is never read. \<open>enabled_prev\<close> is an attribute of \<open>selfdrived\<close> that only
  MADS reads and writes.
\<close>

record Mads =
  md_enabled :: bool
  md_active :: bool
  lateral_mismatch_counter :: int
  allow_always :: bool
  no_main_cruise :: bool
  md_state :: MadsState
  md_disengage_on_accelerator :: bool
  enabled_toggle :: bool
  main_enabled_toggle :: bool
  steering_mode_on_brake :: int
  unified_engagement_mode :: bool
  enabled_prev :: bool

definition SET_SPEED_BUTTONS :: "ButtonType list" where
  "SET_SPEED_BUTTONS = [BT_accelCruise, BT_resumeCruise, BT_decelCruise, BT_setCruise]"

definition IGNORED_SAFETY_MODES :: "SafetyModel list" where
  "IGNORED_SAFETY_MODES = [SM_silent, SM_noOutput]"

definition new_Mads :: "Opendbc \<Rightarrow> CarParams \<Rightarrow> CarParamsSP \<Rightarrow> (string \<Rightarrow> int) \<Rightarrow> Params \<Rightarrow> Mads" where
  "new_Mads ob CP CP_SP dflt params =
     \<lparr>md_enabled = False, md_active = False, lateral_mismatch_counter = 0,
      allow_always =
        ((cp_brand CP = ''hyundai''
          \<and> cp_flags CP AND (ob_HyundaiFlags_HAS_LDA_BUTTON ob OR ob_HyundaiFlags_CANFD ob) \<noteq> 0)
         \<or> cp_brand CP = ''tesla''),
      no_main_cruise = (cp_brand CP \<in> set MADS_NO_ACC_MAIN_BUTTON),
      md_state = M_disabled,
      md_disengage_on_accelerator = get_bool params ''DisengageOnAccelerator'',
      enabled_toggle = get_bool params ''Mads'',
      main_enabled_toggle = get_bool params ''MadsMainCruiseAllowed'',
      steering_mode_on_brake = read_steering_mode_param ob CP CP_SP dflt params,
      unified_engagement_mode = get_bool params ''MadsUnifiedEngagementMode'',
      enabled_prev = False\<rparr>"

definition read_params :: "Params \<Rightarrow> Mads \<Rightarrow> Mads" where
  "read_params params md =
     md\<lparr>main_enabled_toggle := get_bool params ''MadsMainCruiseAllowed'',
        unified_engagement_mode := get_bool params ''MadsUnifiedEngagementMode''\<rparr>"

definition pedal_pressed_non_gas_pressed :: "Mads \<Rightarrow> CarState \<Rightarrow> CarState \<Rightarrow> logs \<Rightarrow> bool" where
  "pedal_pressed_non_gas_pressed md CS_prev CS p \<longleftrightarrow>
     has (fst p) EN_pedalPressed \<and>
     \<not> (cs_gasPressed CS \<and> \<not> cs_gasPressed CS_prev \<and> md_disengage_on_accelerator md)"

definition should_silent_lkas_enable :: "Mads \<Rightarrow> CarState \<Rightarrow> CarState \<Rightarrow> logs \<Rightarrow> bool" where
  "should_silent_lkas_enable md CS_prev CS p =
     (if steering_mode_on_brake md = PAUSE \<and> pedal_pressed_non_gas_pressed md CS_prev CS p then False
      else if contains_in_list (snd p) GEARS_ALLOW_PAUSED_SILENT then False
      else True)"

definition block_unified_engagement_mode :: "Mads \<Rightarrow> bool \<Rightarrow> bool" where
  "block_unified_engagement_mode md sd_enabled =
     (if \<not> unified_engagement_mode md then True
      else if md_enabled md then True
      else if sd_enabled \<and> enabled_prev md then True
      else False)"

definition replace_event :: "event \<Rightarrow> event \<Rightarrow> logs \<Rightarrow> logs option" where
  "replace_event old_event new_event = all_do [remove_op old_event, add_sp new_event]"

definition get_wrong_car_mode :: "bool \<Rightarrow> logs \<Rightarrow> logs option" where
  "get_wrong_car_mode alert_only =
     (if alert_only then
        when_at (\<lambda>p. has (fst p) EN_wrongCarMode)
          (replace_event EN_wrongCarMode ENSP_wrongCarModeAlertOnly)
      else remove_op EN_wrongCarMode)"

definition transition_paused_state :: "Mads \<Rightarrow> logs \<Rightarrow> logs option" where
  "transition_paused_state md = when_do (md_state md \<noteq> M_paused) (add_sp ENSP_silentLkasDisable)"

definition md_data_sample :: "bool \<Rightarrow> PandaState list \<Rightarrow> Mads \<Rightarrow> Mads" where
  "md_data_sample sd_enabled pandaStates md =
     (if \<not> md_active md \<or> sd_enabled then md\<lparr>lateral_mismatch_counter := 0\<rparr>
      else if \<exists>ps\<in>set pandaStates. ps_safetyModel ps \<notin> set IGNORED_SAFETY_MODES
                                  \<and> \<not> ps_controlsAllowedLateral ps
      then md\<lparr>lateral_mismatch_counter := lateral_mismatch_counter md + 1\<rparr>
      else md)"

text \<open>\<open>update_events\<close>, first part: the events that pause MADS become silent ones.\<close>

definition silence :: "Mads \<Rightarrow> event \<Rightarrow> event \<Rightarrow> bool \<Rightarrow> logs \<Rightarrow> logs option" where
  "silence md old_event new_event b =
     when_at (\<lambda>p. b \<and> has (fst p) old_event)
       (all_do [replace_event old_event new_event, transition_paused_state md])"

definition silence_events :: "Mads \<Rightarrow> bool \<Rightarrow> CarState \<Rightarrow> CarState \<Rightarrow> logs \<Rightarrow> logs option" where
  "silence_events md sd_enabled CS_prev CS =
     when_do (\<not> sd_enabled \<and> md_enabled md) (all_do
       [silence md EN_doorOpen ENSP_silentDoorOpen (cs_standstill CS),
        silence md EN_seatbeltNotLatched ENSP_silentSeatbeltNotLatched (cs_standstill CS),
        silence md EN_wrongGear ENSP_silentWrongGear
          (cs_vEgo CS < 5/2 \<or> cs_gearShifter CS = GS_reverse),
        silence md EN_reverseGear ENSP_silentReverseGear True,
        silence md EN_brakeHold ENSP_silentBrakeHold True,
        silence md EN_parkBrake ENSP_silentParkBrake True,
        when_at (\<lambda>p. steering_mode_on_brake md = PAUSE \<and> pedal_pressed_non_gas_pressed md CS_prev CS p)
          (transition_paused_state md),
        remove_op EN_preEnableStandstill,
        remove_op EN_belowEngageSpeed,
        remove_op EN_speedTooLow,
        remove_op EN_cruiseDisabled,
        remove_op EN_manualRestart,
        remove_op EN_espActive])"

text \<open>Second part: the events that enable \<open>selfdrived\<close>, or the main button.\<close>

definition selfdrive_enable_events :: "logs \<Rightarrow> bool" where
  "selfdrive_enable_events p \<longleftrightarrow> has (fst p) EN_pcmEnable \<or> has (fst p) EN_buttonEnable"

definition enable_events_with :: "bool \<Rightarrow> Mads \<Rightarrow> bool \<Rightarrow> CarState \<Rightarrow> CarState \<Rightarrow>
    logs \<Rightarrow> logs option" where
  "enable_events_with sd_enable md sd_enabled CS_prev CS =
     (let set_speed_btns_enable =
            list_ex (\<lambda>be. be_type be \<in> set SET_SPEED_BUTTONS) (cs_buttonEvents CS)
      in all_do
        [get_wrong_car_mode (sd_enable \<or> set_speed_btns_enable),
         if sd_enable then
           all_do
             [when_at (pedal_pressed_non_gas_pressed md CS_prev CS) (add_sp ENSP_pedalPressedAlertOnly),
              when_do (block_unified_engagement_mode md sd_enabled)
                (all_do [remove_op EN_pcmEnable, remove_op EN_buttonEnable])]
         else
           when_do (main_enabled_toggle md \<and> cr_available (cs_cruiseState CS)
                    \<and> \<not> cr_available (cs_cruiseState CS_prev))
             (add_sp ENSP_lkasEnable)])"

definition enable_events :: "Mads \<Rightarrow> bool \<Rightarrow> CarState \<Rightarrow> CarState \<Rightarrow> logs \<Rightarrow> logs option" where
  "enable_events md sd_enabled CS_prev CS p =
     enable_events_with (selfdrive_enable_events p) md sd_enabled CS_prev CS p"

text \<open>Third part: the loop over the button events.\<close>

definition button_event :: "Mads \<Rightarrow> bool \<Rightarrow> CarState \<Rightarrow> ButtonEvent \<Rightarrow> logs \<Rightarrow> logs option" where
  "button_event md sd_enabled CS be = all_do
     [when_do (be_type be = BT_cancel \<and> \<not> sd_enabled \<and> enabled_prev md)
        (add_sp ENSP_manualLongitudinalRequired),
      when_do (be_type be = BT_lkas \<and> be_pressed be
               \<and> (cr_available (cs_cruiseState CS) \<or> allow_always md))
        (if md_enabled md
         then (if sd_enabled then add_sp ENSP_manualSteeringRequired else add_sp ENSP_lkasDisable)
         else add_sp ENSP_lkasEnable)]"

text \<open>
  Last part. The membership test for \<open>lkasEnable\<close> is written in the code as
  \<open>events_sp.contains(EventNameSP.lkasEnable)\<close>, that is, as the search for an event type.
\<close>

definition disable_events :: "'a events_mapping \<Rightarrow> Mads \<Rightarrow> CarState \<Rightarrow> CarState \<Rightarrow> logs \<Rightarrow> logs option" where
  "disable_events m_sp md CS_prev CS = all_do
     [when_do (\<not> cr_available (cs_cruiseState CS) \<and> \<not> no_main_cruise md)
        (all_do [remove_op EN_buttonEnable,
                 when_do (cr_available (cs_cruiseState CS_prev)) (add_sp ENSP_lkasDisable)]),
      when_at (\<lambda>p. steering_mode_on_brake md = DISENGAGE \<and> pedal_pressed_non_gas_pressed md CS_prev CS p)
        (if md_enabled md then add_sp ENSP_lkasDisable
         else when_at (\<lambda>p. contains m_sp (snd p) (Event_key ENSP_lkasEnable))
                (all_do [remove_sp ENSP_lkasEnable, add_sp ENSP_pedalPressedAlertOnly])),
      when_at (\<lambda>p. should_silent_lkas_enable md CS_prev CS p \<and> md_state md = M_paused)
        (add_sp ENSP_silentLkasEnable),
      when_do (lateral_mismatch_counter md \<ge> 200) (add_sp ENSP_controlsMismatchLateral),
      remove_op EN_pcmDisable,
      remove_op EN_buttonCancel,
      remove_op EN_pedalPressed,
      remove_op EN_wrongCruiseMode]"

definition md_update_events :: "'a events_mapping \<Rightarrow> Mads \<Rightarrow> bool \<Rightarrow> CarState \<Rightarrow> CarState \<Rightarrow>
    logs \<Rightarrow> logs option" where
  "md_update_events m_sp md sd_enabled CS_prev CS = all_do
     [silence_events md sd_enabled CS_prev CS,
      enable_events md sd_enabled CS_prev CS,
      all_do (map (button_event md sd_enabled CS) (cs_buttonEvents CS)),
      disable_events m_sp md CS_prev CS]"

text \<open>
  \<open>update\<close>: \<open>ss\<close> is the state machine of \<open>selfdrived\<close>, whose timer and alert types MADS shares.
\<close>

definition md_update :: "'a events_mapping \<Rightarrow> 'b events_mapping \<Rightarrow> CarParams \<Rightarrow> bool \<Rightarrow> bool \<Rightarrow>
    PandaState list \<Rightarrow> CarState \<Rightarrow> CarState \<Rightarrow> Mads \<times> StateMachine \<times> logs \<Rightarrow>
    (Mads \<times> StateMachine \<times> logs) option" where
  "md_update m m_sp CP sd_enabled initialized pandaStates CS_prev CS = (\<lambda>(md, ss, p).
     if \<not> enabled_toggle md then Some (md, ss, p)
     else do {
       let md1 = md_data_sample sd_enabled pandaStates md;
       p' \<leftarrow> md_update_events m_sp md1 sd_enabled CS_prev CS p;
       let (md2, ss2) =
         (if \<not> cp_passive CP \<and> initialized then
            (case mads_sm_update (mads_queries m m_sp sd_enabled p') (md_state md1, ss) of
               ((st, ss'), enabled, active) \<Rightarrow>
                 (md1\<lparr>md_state := st, md_enabled := enabled, md_active := active\<rparr>, ss'))
          else (md1, ss));
       Some (md2\<lparr>enabled_prev := sd_enabled\<rparr>, ss2, p')
     })"

section \<open>The rewriting of the events never fails\<close>

lemma keeps_replace: "new \<in> known_events_sp \<Longrightarrow> keeps moves_over (replace_event old new)"
  by (auto simp: replace_event_def intro!: keeps_intros)

lemma keeps_transition: "keeps moves_over (transition_paused_state md)"
  by (auto simp: transition_paused_state_def intro!: keeps_intros)

lemma keeps_silence: "new \<in> known_events_sp \<Longrightarrow> keeps moves_over (silence md old new b)"
  by (auto simp: silence_def intro!: keeps_intros keeps_replace keeps_transition)

lemma keeps_wrong_car_mode: "keeps moves_over (get_wrong_car_mode b)"
  by (auto simp: get_wrong_car_mode_def intro!: keeps_intros keeps_replace)

lemma keeps_silence_events: "keeps moves_over (silence_events md b CS_prev CS)"
  by (auto simp: silence_events_def intro!: keeps_intros keeps_silence keeps_transition)

lemma keeps_enable_events: "keeps moves_over (enable_events md b CS_prev CS)"
proof (rule keeps_read [where f = "\<lambda>x. enable_events_with x md b CS_prev CS"
      and h = selfdrive_enable_events])
  show "keeps moves_over (enable_events_with x md b CS_prev CS)" for x
    by (auto simp: enable_events_with_def Let_def intro!: keeps_intros keeps_wrong_car_mode)
qed (simp add: enable_events_def)

lemma keeps_button_event: "keeps moves_over (button_event md b CS be)"
  by (auto simp: button_event_def intro!: keeps_intros)

text \<open>The test of the dead branch is never true.\<close>

lemma when_at_never [simp]: "when_at (\<lambda>p. False) f = Some"
  by (rule ext) (simp add: when_at_def)

lemma keeps_Some: "preorder R \<Longrightarrow> keeps R Some"
  by (simp add: keeps_def preorder_def)

lemma keeps_disable_events: "keeps moves_over (disable_events m_sp md CS_prev CS)"
  by (auto simp: disable_events_def intro!: keeps_intros keeps_Some)

lemma keeps_md_update_events: "keeps moves_over (md_update_events m_sp md b CS_prev CS)"
  unfolding md_update_events_def
  by (auto intro!: keeps_intros keeps_silence_events keeps_enable_events keeps_button_event
      keeps_disable_events)

lemma md_update_events_cases:
  assumes "wf_logs p"
  obtains p' where "md_update_events m_sp md b CS_prev CS p = Some p'" "wf_logs p'" "moves_over p p'"
  using keeps_cases [OF keeps_md_update_events assms] .

lemma md_update_total:
  assumes "wf_logs p"
  shows "\<exists>md' ss' p'. md_update m m_sp CP b init pss CS_prev CS (md, ss, p) = Some (md', ss', p')
    \<and> wf_logs p' \<and> moves_over p p'"
proof (cases "enabled_toggle md")
  case True
  obtain p' where "md_update_events m_sp (md_data_sample b pss md) b CS_prev CS p = Some p'"
    "wf_logs p'" "moves_over p p'"
    using md_update_events_cases [OF assms] .
  with True show ?thesis
    by (cases p') (simp add: md_update_def Let_def split: prod.splits)
next
  case False
  then show ?thesis
    using assms by (simp add: md_update_def)
qed

section \<open>What is left for the state machine\<close>

text \<open>The events of cruise control that no longer disable steering.\<close>

definition cruise_only_events :: "event set" where
  "cruise_only_events =
     {EN_wrongCarMode, EN_pcmDisable, EN_buttonCancel, EN_pedalPressed, EN_wrongCruiseMode}"

lemma removes_replace: "new \<in> known_events_sp \<Longrightarrow> removes old (replace_event old new)"
  unfolding replace_event_def
  by (rule removes_all_do [of "remove_op old"])
    (auto intro: removes_remove_op keeps_remove_op keeps_add_sp)

lemma removes_wrong_car_mode: "removes EN_wrongCarMode (get_wrong_car_mode b)"
proof (cases b)
  case True
  have "removes EN_wrongCarMode (replace_event EN_wrongCarMode ENSP_wrongCarModeAlertOnly)"
    by (rule removes_replace) simp
  then show ?thesis
    using True by (auto simp: get_wrong_car_mode_def removes_def when_at_def)
next
  case False
  then show ?thesis
    by (simp add: get_wrong_car_mode_def removes_remove_op)
qed

lemma removes_enable_events: "removes EN_wrongCarMode (enable_events md b CS_prev CS)"
proof -
  have "removes EN_wrongCarMode (enable_events_with x md b CS_prev CS)" for x
    unfolding enable_events_with_def Let_def
    by (rule removes_all_do [of "get_wrong_car_mode (x \<or>
          list_ex (\<lambda>be. be_type be \<in> set SET_SPEED_BUTTONS) (cs_buttonEvents CS))"])
      (auto simp: removes_wrong_car_mode intro!: keeps_intros keeps_wrong_car_mode)
  then show ?thesis
    unfolding removes_def enable_events_def by blast
qed

lemma removes_disable_events:
  assumes "e \<in> {EN_pcmDisable, EN_buttonCancel, EN_pedalPressed, EN_wrongCruiseMode}"
  shows "removes e (disable_events m_sp md CS_prev CS)"
  unfolding disable_events_def
  by (rule removes_all_do [of "remove_op e"])
    (use assms in \<open>auto simp: removes_remove_op intro!: keeps_intros keeps_Some\<close>)

lemma md_update_events_removes:
  assumes "e \<in> cruise_only_events"
  shows "removes e (md_update_events m_sp md b CS_prev CS)"
proof -
  let ?fs = "[silence_events md b CS_prev CS, enable_events md b CS_prev CS,
    all_do (map (button_event md b CS) (cs_buttonEvents CS)), disable_events m_sp md CS_prev CS]"
  have "\<forall>g\<in>set ?fs. keeps moves_over g"
    by (auto intro!: keeps_intros keeps_silence_events keeps_enable_events keeps_button_event
        keeps_disable_events)
  moreover have "removes e (enable_events md b CS_prev CS) \<or> removes e (disable_events m_sp md CS_prev CS)"
    using assms removes_enable_events [of md b CS_prev CS] removes_disable_events [of e m_sp md CS_prev CS]
    by (simp only: cruise_only_events_def insert_iff empty_iff) metis
  then have "\<exists>f\<in>set ?fs. removes e f"
    unfolding list.set by blast
  ultimately show ?thesis
    unfolding md_update_events_def using removes_all_do by blast
qed

text \<open>
  When nothing asks for steering to pause or stop, the rewriting inserts no event that stops it.
  \<open>PAUSE_CAUSES\<close> are the car events that pause MADS.
\<close>

definition PAUSE_CAUSES :: "event set" where
  "PAUSE_CAUSES = {EN_doorOpen, EN_seatbeltNotLatched, EN_wrongGear, EN_reverseGear, EN_brakeHold,
     EN_parkBrake}"

definition STEERING_STOPS :: "event set" where
  "STEERING_STOPS = {ENSP_lkasDisable, ENSP_manualSteeringRequired, ENSP_silentLkasDisable,
     ENSP_controlsMismatchLateral}"

definition no_stop_request :: "Mads \<Rightarrow> CarState \<Rightarrow> bool" where
  "no_stop_request md CS \<longleftrightarrow> steering_mode_on_brake md = REMAIN_ACTIVE
     \<and> list_all (\<lambda>be. \<not> (be_type be = BT_lkas \<and> be_pressed be)) (cs_buttonEvents CS)
     \<and> (cr_available (cs_cruiseState CS) \<or> no_main_cruise md)
     \<and> lateral_mismatch_counter md < 200"

lemma mode_distinct [simp]:
  "REMAIN_ACTIVE \<noteq> PAUSE" "REMAIN_ACTIVE \<noteq> DISENGAGE" "PAUSE \<noteq> DISENGAGE"
  by (simp_all add: REMAIN_ACTIVE_def PAUSE_def DISENGAGE_def)

lemma within_silence:
  "old \<in> Q \<Longrightarrow> new \<in> known_events_sp \<Longrightarrow> keeps (moves_within Q S) (silence md old new b)"
  unfolding silence_def
  by (rule keeps_within_absent) (auto intro!: keeps_intros keeps_replace keeps_transition)

lemma STEERING_STOPS_iff [simp]: "e \<in> STEERING_STOPS \<longleftrightarrow> e = 1 \<or> e = 2 \<or> e = 5 \<or> e = 12"
  by (simp add: STEERING_STOPS_def)

lemma within_md_update_events:
  assumes "no_stop_request md CS"
  shows "keeps (moves_within PAUSE_CAUSES (- STEERING_STOPS)) (md_update_events m_sp md b CS_prev CS)"
proof -
  let ?R = "moves_within PAUSE_CAUSES (- STEERING_STOPS)"
  have md: "steering_mode_on_brake md = REMAIN_ACTIVE" "lateral_mismatch_counter md < 200"
    "cr_available (cs_cruiseState CS) \<or> no_main_cruise md"
    using assms by (auto simp: no_stop_request_def)
  have 1: "keeps ?R (silence_events md b CS_prev CS)"
    unfolding silence_events_def md
    by (auto simp: PAUSE_CAUSES_def intro!: keeps_intros within_silence keeps_Some)
  have wrong: "keeps ?R (get_wrong_car_mode x)" for x
    unfolding get_wrong_car_mode_def replace_event_def
    by (auto intro!: keeps_intros)
  have "keeps ?R (enable_events_with x md b CS_prev CS)" for x
    unfolding enable_events_with_def Let_def
    by (auto intro!: keeps_intros wrong)
  then have 2: "keeps ?R (enable_events md b CS_prev CS)"
    by (rule keeps_read) (simp add: enable_events_def)
  have 3: "keeps ?R (button_event md b CS be)" if "be \<in> set (cs_buttonEvents CS)" for be
    using assms that unfolding button_event_def no_stop_request_def list_all_iff
    by (auto intro!: keeps_intros)
  have 4: "keeps ?R (disable_events m_sp md CS_prev CS)"
    unfolding disable_events_def using md
    by (auto intro!: keeps_intros keeps_Some)
  show ?thesis
    unfolding md_update_events_def
    by (rule keeps_all_do) (use 1 2 3 4 in \<open>auto intro!: keeps_all_do\<close>)
qed

section \<open>Events that MADS leaves alone\<close>

definition retains :: "event \<Rightarrow> logs \<Rightarrow> logs \<Rightarrow> bool" where
  "retains e p p' \<longleftrightarrow> (has (fst p) e \<longrightarrow> has (fst p') e)"

lemma preorder_retains [simp]: "preorder (retains e)"
  by (simp add: preorder_def retains_def)

lemma keeps_retains_remove: "e' \<noteq> e \<Longrightarrow> keeps (retains e) (remove_op e')"
  unfolding keeps_def using remove_op_effect by (auto simp: retains_def has_def)

lemma keeps_retains_add: "e' \<in> known_events_sp \<Longrightarrow> keeps (retains e) (add_sp e')"
  by (auto simp: keeps_def add_sp_def wf_logs_def retains_def intro: ev_intros)

definition MADS_REMOVED :: "event set" where
  "MADS_REMOVED = PAUSE_CAUSES \<union> cruise_only_events \<union>
     {EN_preEnableStandstill, EN_belowEngageSpeed, EN_speedTooLow, EN_cruiseDisabled, EN_manualRestart,
      EN_espActive, EN_pcmEnable, EN_buttonEnable}"

lemma retains_md_update_events:
  assumes "e \<notin> MADS_REMOVED"
  shows "keeps (retains e) (md_update_events m_sp md b CS_prev CS)"
proof -
  have e: "\<forall>x\<in>MADS_REMOVED. x \<noteq> e"
    using assms by auto
  note rules = keeps_all_do keeps_when_do keeps_when_at keeps_if keeps_retains_add keeps_retains_remove
    keeps_Some
  note removed = MADS_REMOVED_def PAUSE_CAUSES_def cruise_only_events_def
  have sil: "keeps (retains e) (silence md old new x)" if "old \<in> MADS_REMOVED" "new \<in> known_events_sp"
    for old new x
    using that e assms by (auto simp: silence_def replace_event_def transition_paused_state_def intro!: rules)
  have 1: "keeps (retains e) (silence_events md b CS_prev CS)"
    using e unfolding silence_events_def transition_paused_state_def
    by (auto simp: removed intro!: rules sil)
  have 2: "keeps (retains e) (enable_events_with x md b CS_prev CS)" for x
    using e unfolding enable_events_with_def Let_def get_wrong_car_mode_def replace_event_def
    by (auto simp: removed intro!: rules)
  have 3: "keeps (retains e) (enable_events md b CS_prev CS)"
    by (rule keeps_read [OF 2]) (simp add: enable_events_def)
  have 4: "keeps (retains e) (button_event md b CS be)" for be
    unfolding button_event_def by (auto intro!: rules)
  have 5: "keeps (retains e) (disable_events m_sp md CS_prev CS)"
    using e unfolding disable_events_def by (auto simp: removed intro!: rules)
  show ?thesis
    unfolding md_update_events_def by (rule keeps_all_do) (use 1 3 4 5 in \<open>auto intro!: keeps_all_do\<close>)
qed

text \<open>An event that stays in the log and disables immediately leaves MADS inactive.\<close>

lemma md_update_fault:
  assumes "wf_logs p" "md_update (EVENTS env) m_sp CP b True pss CS_prev CS (md, ss, p) = Some (md', ss', p')"
    "has (fst p) e" "e \<notin> MADS_REMOVED" "e \<in> set (events_with IMMEDIATE_DISABLE)"
    "e \<in> set (events_with NO_ENTRY)" "enabled_toggle md" "\<not> cp_passive CP"
  shows "\<not> md_active md' \<and> has (fst p') e"
proof -
  define md1 where "md1 = md_data_sample b pss md"
  obtain p1 where p1: "md_update_events m_sp md1 b CS_prev CS p = Some p1" "retains e p p1"
    using keepsD [OF retains_md_update_events [OF assms(4)] assms(1)] by blast
  define q where "q = mads_queries (EVENTS env) m_sp b p1"
  have has: "has (fst p1) e"
    using p1(2) assms(3) by (simp add: retains_def)
  then have q: "q_contains q IMMEDIATE_DISABLE" "q_contains q NO_ENTRY"
    using assms(5,6) unfolding q_def mads_queries_def check_contains_def
    by (auto simp: ev_simps has_def)
  have off: "\<not> mads_engaged (mads_next (q, ss) st)" for st
  proof (cases "mads_engaged st")
    case True
    then show ?thesis
      using msm.disengage_law [of st "(q, ss)"] q by simp
  next
    case False
    then show ?thesis
      using msm.engage_law [of st "(q, ss)"] q by auto
  qed
  have "md_active md' \<longleftrightarrow> snd (snd (mads_sm_update q (md_state md1, ss)))" "p' = p1"
    using assms(2,7,8) p1(1) by (auto simp: md_update_def Let_def q_def md1_def split: prod.splits)
  then show ?thesis
    using off has by (simp add: mads_flags mads_engaged_def)
qed

section \<open>Properties\<close>

text \<open>The brake event reaches the last part of the rewriting.\<close>

lemma retains_pedal:
  "keeps (retains EN_pedalPressed) (silence_events md b CS_prev CS)"
  "keeps (retains EN_pedalPressed) (enable_events md b CS_prev CS)"
  "keeps (retains EN_pedalPressed) (all_do (map (button_event md b CS) bes))"
proof -
  note rules = keeps_all_do keeps_when_do keeps_when_at keeps_if keeps_retains_add keeps_retains_remove
    keeps_Some
  have sil: "keeps (retains EN_pedalPressed) (silence md old new x)"
    if "old \<noteq> EN_pedalPressed" "new \<in> known_events_sp" for old new x
    using that by (auto simp: silence_def replace_event_def transition_paused_state_def intro!: rules)
  show "keeps (retains EN_pedalPressed) (silence_events md b CS_prev CS)"
    unfolding silence_events_def transition_paused_state_def by (auto intro!: rules sil)
  have 2: "keeps (retains EN_pedalPressed) (enable_events_with x md b CS_prev CS)" for x
    unfolding enable_events_with_def Let_def get_wrong_car_mode_def replace_event_def
    by (auto intro!: rules)
  show "keeps (retains EN_pedalPressed) (enable_events md b CS_prev CS)"
    by (rule keeps_read [OF 2]) (simp add: enable_events_def)
  show "keeps (retains EN_pedalPressed) (all_do (map (button_event md b CS) bes))"
    unfolding button_event_def by (auto intro!: rules)
qed

lemma disengage_inserts:
  assumes "wf_logs p" "steering_mode_on_brake md = DISENGAGE" "md_enabled md"
    "pedal_pressed_non_gas_pressed md CS_prev CS p"
  shows "\<exists>p'. disable_events m_sp md CS_prev CS p = Some p' \<and> has (snd p') ENSP_lkasDisable"
proof -
  let ?f1 = "when_do (\<not> cr_available (cs_cruiseState CS) \<and> \<not> no_main_cruise md)
        (all_do [remove_op EN_buttonEnable, when_do (cr_available (cs_cruiseState CS_prev)) (add_sp ENSP_lkasDisable)])"
  let ?rest = "[when_at (\<lambda>p. should_silent_lkas_enable md CS_prev CS p \<and> md_state md = M_paused)
        (add_sp ENSP_silentLkasEnable),
      when_do (lateral_mismatch_counter md \<ge> 200) (add_sp ENSP_controlsMismatchLateral),
      remove_op EN_pcmDisable, remove_op EN_buttonCancel, remove_op EN_pedalPressed,
      remove_op EN_wrongCruiseMode]"
  have "keeps (retains EN_pedalPressed) ?f1"
    by (auto intro!: keeps_all_do keeps_when_do keeps_retains_add keeps_retains_remove)
  then obtain p1 where p1: "?f1 p = Some p1" "wf_logs p1" "retains EN_pedalPressed p p1"
    using assms(1) by (rule keeps_cases)
  have "pedal_pressed_non_gas_pressed md CS_prev CS p1"
    using assms(4) p1(3) by (simp add: pedal_pressed_non_gas_pressed_def retains_def)
  moreover obtain p2 where p2: "add_sp ENSP_lkasDisable p1 = Some p2" "wf_logs p2"
    using keeps_add_sp [of ENSP_lkasDisable] p1(2) by (auto elim: keeps_cases)
  moreover have "keeps moves_over (all_do ?rest)"
    by (auto intro!: keeps_intros keeps_Some)
  then obtain p3 where p3: "all_do ?rest p2 = Some p3" "moves_over p2 p3"
    using p2(2) by (rule keeps_cases)
  ultimately have "disable_events m_sp md CS_prev CS p = Some p3"
    using p1(1) assms(2,3) unfolding disable_events_def by (simp add: when_at_def)
  moreover have "has (snd p3) ENSP_lkasDisable"
    using inserts_add_sp [of ENSP_lkasDisable] p1(2) p2(1) moves_over_has(2) [OF p3(2)]
    unfolding inserts_sp_def by blast
  ultimately show ?thesis
    by blast
qed

lemma pause_inserts:
  assumes "wf_logs p" "steering_mode_on_brake md = PAUSE" "md_enabled md" "md_state md \<noteq> M_paused"
    "pedal_pressed_non_gas_pressed md CS_prev CS p"
  shows "\<exists>p'. silence_events md False CS_prev CS p = Some p' \<and> has (snd p') ENSP_silentLkasDisable"
proof -
  define fs where "fs = [silence md EN_doorOpen ENSP_silentDoorOpen (cs_standstill CS),
      silence md EN_seatbeltNotLatched ENSP_silentSeatbeltNotLatched (cs_standstill CS),
      silence md EN_wrongGear ENSP_silentWrongGear (cs_vEgo CS < 5/2 \<or> cs_gearShifter CS = GS_reverse),
      silence md EN_reverseGear ENSP_silentReverseGear True,
      silence md EN_brakeHold ENSP_silentBrakeHold True,
      silence md EN_parkBrake ENSP_silentParkBrake True]"
  define gs where "gs = [remove_op EN_preEnableStandstill, remove_op EN_belowEngageSpeed,
      remove_op EN_speedTooLow, remove_op EN_cruiseDisabled, remove_op EN_manualRestart, remove_op EN_espActive]"
  let ?w = "when_at (\<lambda>p. steering_mode_on_brake md = PAUSE \<and> pedal_pressed_non_gas_pressed md CS_prev CS p)
      (transition_paused_state md)"
  have "keeps (retains EN_pedalPressed) (all_do fs)"
    unfolding fs_def silence_def replace_event_def transition_paused_state_def
    by (auto intro!: keeps_all_do keeps_when_do keeps_when_at keeps_retains_add keeps_retains_remove)
  then obtain p1 where p1: "all_do fs p = Some p1" "wf_logs p1" "retains EN_pedalPressed p p1"
    using assms(1) by (rule keeps_cases)
  have "pedal_pressed_non_gas_pressed md CS_prev CS p1"
    using assms(5) p1(3) by (simp add: pedal_pressed_non_gas_pressed_def retains_def)
  then have w: "?w p1 = add_sp ENSP_silentLkasDisable p1"
    using assms(2,4) by (simp add: when_at_def transition_paused_state_def)
  obtain p2 where p2: "add_sp ENSP_silentLkasDisable p1 = Some p2" "wf_logs p2"
    using keeps_add_sp [of ENSP_silentLkasDisable] p1(2) by (auto elim: keeps_cases)
  have "keeps moves_over (all_do gs)"
    unfolding gs_def by (auto intro!: keeps_intros)
  then obtain p3 where p3: "all_do gs p2 = Some p3" "moves_over p2 p3"
    using p2(2) by (rule keeps_cases)
  have "silence_events md False CS_prev CS p = all_do (fs @ ?w # gs) p"
    using assms(3) by (simp add: silence_events_def fs_def gs_def)
  then have "silence_events md False CS_prev CS p = Some p3"
    using p1(1) w p2(1) p3(1) by (simp add: all_do_append)
  moreover have "has (snd p3) ENSP_silentLkasDisable"
    using inserts_add_sp [of ENSP_silentLkasDisable] p1(2) p2(1) moves_over_has(2) [OF p3(2)]
    unfolding inserts_sp_def by blast
  ultimately show ?thesis
    by blast
qed

text \<open>
  The brake adds one of the two events that end or pause steering: in the mode "disengage" always, in the
  mode "pause" when \<open>selfdrived\<close> is off and MADS is not already paused
  (\<open>transition_paused_state\<close> tests the state).
\<close>

lemma brake_inserts:
  assumes "wf_logs p" "md_enabled md" "pedal_pressed_non_gas_pressed md CS_prev CS p"
    "steering_mode_on_brake md = DISENGAGE \<or> steering_mode_on_brake md = PAUSE \<and> \<not> b \<and> md_state md \<noteq> M_paused"
  shows "\<exists>p' e. md_update_events m_sp md b CS_prev CS p = Some p' \<and> wf_logs p'
    \<and> has (snd p') e \<and> e \<in> {ENSP_lkasDisable, ENSP_silentLkasDisable}"
proof -
  let ?f2 = "enable_events md b CS_prev CS"
  let ?f3 = "all_do (map (button_event md b CS) (cs_buttonEvents CS))"
  let ?f4 = "disable_events m_sp md CS_prev CS"
  obtain p1 where p1: "silence_events md b CS_prev CS p = Some p1" "wf_logs p1" "retains EN_pedalPressed p p1"
    using retains_pedal(1) assms(1) by (rule keeps_cases)
  obtain p2 where p2: "?f2 p1 = Some p2" "wf_logs p2" "retains EN_pedalPressed p1 p2"
    using retains_pedal(2) p1(2) by (rule keeps_cases)
  obtain p3 where p3: "?f3 p2 = Some p3" "wf_logs p3" "retains EN_pedalPressed p2 p3"
    using retains_pedal(3) p2(2) by (rule keeps_cases)
  obtain p4 where p4: "?f4 p3 = Some p4" "wf_logs p4" "moves_over p3 p4"
    using keeps_disable_events p3(2) by (rule keeps_cases)
  have over: "moves_over p1 p2" "moves_over p2 p3"
    using keepsD [OF keeps_enable_events p1(2), of md b CS_prev CS] p2(1)
      keepsD [OF keeps_all_do [OF preorder_moves_over] p2(2), of "map (button_event md b CS) (cs_buttonEvents CS)"]
      p3(1) keeps_button_event by auto
  have run: "md_update_events m_sp md b CS_prev CS p = Some p4"
    by (simp add: md_update_events_def p1(1) p2(1) p3(1) p4(1))
  have "\<exists>e. has (snd p4) e \<and> e \<in> {ENSP_lkasDisable, ENSP_silentLkasDisable}"
  proof (cases "steering_mode_on_brake md = DISENGAGE")
    case True
    have "pedal_pressed_non_gas_pressed md CS_prev CS p3"
      using assms(3) p1(3) p2(3) p3(3) by (auto simp: pedal_pressed_non_gas_pressed_def retains_def)
    from disengage_inserts [OF p3(2) True assms(2) this, of m_sp] show ?thesis
      using p4(1) by auto
  next
    case False
    with assms(3,4) have mode: "steering_mode_on_brake md = PAUSE" "\<not> b" "md_state md \<noteq> M_paused"
      "pedal_pressed_non_gas_pressed md CS_prev CS p"
      by auto
    from pause_inserts [OF assms(1) mode(1) assms(2) mode(3,4)] have "has (snd p1) ENSP_silentLkasDisable"
      using p1(1) mode(2) by auto
    then show ?thesis
      using moves_over_has(2) over p4(3) by blast
  qed
  then show ?thesis
    using run p4(2) by blast
qed

text \<open>C9 (safety). A brake press (the log has \<open>pedalPressed\<close> and the gas was not what caused it) stops steering:
  in the mode "disengage" an enabled MADS in any state but disabled, and in the mode "pause", with
  \<open>selfdrived\<close> off, a MADS that steers (its state is neither disabled nor paused), is disabled or paused
  after the frame, and steering is not active. The update does not raise. (In the mode "pause" a MADS that
  is paused already is not covered: the code adds no event then, and a request to enable, such as the main
  switch coming on while the brake is held, activates it when no event forbids entry.)\<close>

theorem brake_stops_steering:
  assumes "wf_logs p" "enabled_toggle md" "\<not> cp_passive CP" "md_enabled md"
    "pedal_pressed_non_gas_pressed md CS_prev CS p"
    "(steering_mode_on_brake md = DISENGAGE \<and> md_state md \<noteq> M_disabled)
     \<or> (steering_mode_on_brake md = PAUSE \<and> \<not> b \<and> md_state md \<in> {M_enabled, M_softDisabling, M_overriding})"
  shows "\<exists>md' ss' p'. md_update m (EVENTS_SP env) CP b True pss CS_prev CS (md, ss, p) = Some (md', ss', p')
    \<and> md_state md' \<in> {M_disabled, M_paused} \<and> \<not> md_active md'"
proof -
  define md1 where "md1 = md_data_sample b pss md"
  have md1: "md_enabled md1 = md_enabled md" "md_state md1 = md_state md"
    "steering_mode_on_brake md1 = steering_mode_on_brake md" "pedal_pressed_non_gas_pressed md1 CS_prev CS p"
    using assms(5) by (auto simp: md1_def md_data_sample_def pedal_pressed_non_gas_pressed_def)
  have on: "md_state md \<noteq> M_disabled"
    using assms(6) by auto
  have mode: "steering_mode_on_brake md1 = DISENGAGE
      \<or> steering_mode_on_brake md1 = PAUSE \<and> \<not> b \<and> md_state md1 \<noteq> M_paused"
    using assms(6) md1(2,3) by auto
  obtain p' e where p': "md_update_events (EVENTS_SP env) md1 b CS_prev CS p = Some p'"
    "has (snd p') e" "e \<in> {ENSP_lkasDisable, ENSP_silentLkasDisable}"
    using brake_inserts [OF assms(1) _ md1(4) mode, of "EVENTS_SP env"] assms(4) md1(1) by auto
  define q where "q = mads_queries m (EVENTS_SP env) b p'"
  have "contains (EVENTS_SP env) (snd p') (ET_key USER_DISABLE)"
    using p'(2,3) by (auto simp: contains_EVENTS_SP has_def events_sp_with_USER_DISABLE)
  then have "q_contains q USER_DISABLE"
    by (simp add: q_def mads_queries_def check_contains_def)
  then have "mads_move q (soft_disable_timer ss) (md_state md)
      (if q_silentLkasDisable q then M_paused else M_disabled)"
    by (rule mads_move.user_off [OF on])
  then have nxt: "mads_next (q, ss) (md_state md) \<in> {M_disabled, M_paused}"
    unfolding mads_next_moves by (metis insertCI)
  show ?thesis
    using assms(2,3) p'(1) md1(2) nxt
    by (auto simp: md_update_def Let_def mads_flags mads_next_def md1_def [symmetric] q_def [symmetric] split_def)
qed

definition sample_Mads :: Mads where
  "sample_Mads = \<lparr>md_enabled = True, md_active = True, lateral_mismatch_counter = 0, allow_always = False,
     no_main_cruise = False, md_state = M_enabled, md_disengage_on_accelerator = False,
     enabled_toggle = True, main_enabled_toggle = True, steering_mode_on_brake = DISENGAGE,
     unified_engagement_mode = False, enabled_prev = False\<rparr>"

definition plain_logs :: "event list \<Rightarrow> logs" where
  "plain_logs es = (fold (\<lambda>e ev. add ev e) es (init_events (EVENTS plain_env)), init_events (EVENTS_SP plain_env))"

lemma wf_plain_logs: "set es \<subseteq> known_events \<Longrightarrow> wf_logs (plain_logs es)"
proof -
  have "wf_events known_events ev \<Longrightarrow> set es \<subseteq> known_events \<Longrightarrow>
      wf_events known_events (fold (\<lambda>e ev. add ev e) es ev)" for ev
    by (induction es arbitrary: ev) (auto intro: wf_add)
  then show "set es \<subseteq> known_events \<Longrightarrow> ?thesis"
    by (simp add: wf_logs_def plain_logs_def wf_init_EVENTS wf_init_EVENTS_SP)
qed

lemma has_plain_logs: "has (fst (plain_logs es)) e \<longleftrightarrow> e \<in> set es"
proof -
  have "has (fold (\<lambda>e ev. add ev e) es ev) e \<longleftrightarrow> e \<in> set es \<or> has ev e" for ev
    by (induction es arbitrary: ev) (auto simp: has_add)
  then show ?thesis
    by (simp add: plain_logs_def init_events_def has_def)
qed

theorem brake_stops_steering_witness:
  "\<exists>md' ss' p'. md_update (EVENTS plain_env) (EVENTS_SP plain_env) plain_CP False True []
      default_CarState default_CarState (sample_Mads, new_StateMachine, plain_logs [EN_pedalPressed]) = Some (md', ss', p')
    \<and> md_state md' \<in> {M_disabled, M_paused} \<and> \<not> md_active md'"
  by (rule brake_stops_steering [OF wf_plain_logs])
    (simp_all add: sample_Mads_def plain_CP_def pedal_pressed_non_gas_pressed_def has_plain_logs)

text \<open>C8 (safety). An event in the log that disables immediately and forbids entry, and that MADS does not
  rewrite, leaves steering inactive after the frame, from every state of the machine.\<close>

theorem fault_stops_steering:
  assumes "wf_logs p" "enabled_toggle md" "\<not> cp_passive CP" "has (fst p) e" "e \<notin> MADS_REMOVED"
    "e \<in> set (events_with IMMEDIATE_DISABLE)" "e \<in> set (events_with NO_ENTRY)"
  shows "\<exists>md' ss' p'. md_update (EVENTS env) (EVENTS_SP env) CP b True pss CS_prev CS (md, ss, p) = Some (md', ss', p')
    \<and> \<not> md_active md' \<and> has (fst p') e"
proof -
  obtain md' ss' p' where u: "md_update (EVENTS env) (EVENTS_SP env) CP b True pss CS_prev CS (md, ss, p) = Some (md', ss', p')"
    using md_update_total [OF assms(1)] by blast
  then show ?thesis
    using md_update_fault [OF assms(1) u assms(4-7,2,3)] by blast
qed

theorem fault_stops_steering_witness:
  "\<exists>md' ss' p'. md_update (EVENTS plain_env) (EVENTS_SP plain_env) plain_CP True True []
      default_CarState default_CarState (sample_Mads, new_StateMachine, plain_logs [EN_canError]) = Some (md', ss', p')
    \<and> \<not> md_active md' \<and> has (fst p') EN_canError"
  by (rule fault_stops_steering [OF wf_plain_logs])
    (simp_all add: sample_Mads_def plain_CP_def has_plain_logs MADS_REMOVED_def PAUSE_CAUSES_def
      cruise_only_events_def events_with_eval)

text \<open>On well-formed logs the MADS update never raises (every \<open>remove\<close> finds its
  counter), keeps the logs well-formed, only deletes events of the first log and only adds to the second;
  when no event occurs twice and MADS is switched on, the five events that only concern cruise control
  are gone.\<close>

theorem mads_rewrites_events:
  assumes "wf_logs p"
  shows "\<exists>md' ss' p'. md_update m m_sp CP b init pss CS_prev CS (md, ss, p) = Some (md', ss', p')
    \<and> wf_logs p' \<and> mset (events (fst p')) \<subseteq># mset (events (fst p))
    \<and> mset (events (snd p)) \<subseteq># mset (events (snd p'))
    \<and> (enabled_toggle md \<and> distinct (events (fst p)) \<longrightarrow> set (events (fst p')) \<inter> cruise_only_events = {})"
proof -
  obtain md' ss' p' where u: "md_update m m_sp CP b init pss CS_prev CS (md, ss, p) = Some (md', ss', p')"
    "wf_logs p'" "moves_over p p'"
    using md_update_total [OF assms] by blast
  have "set (events (fst p')) \<inter> cruise_only_events = {}" if "enabled_toggle md" "distinct (events (fst p))"
  proof -
    have "md_update_events m_sp (md_data_sample b pss md) b CS_prev CS p = Some p'"
      using u(1) that(1) by (auto simp: md_update_def Let_def bind_eq_Some_conv split: prod.splits if_splits)
    then show ?thesis
      using md_update_events_removes assms that(2) unfolding removes_def has_def by blast
  qed
  then show ?thesis
    using u by (auto simp: moves_over_def)
qed

theorem mads_rewrites_events_witness:
  "\<exists>md' ss' p'. md_update (EVENTS plain_env) (EVENTS_SP plain_env) plain_CP False True []
      default_CarState default_CarState (sample_Mads, new_StateMachine, plain_logs [EN_pedalPressed]) = Some (md', ss', p')
    \<and> wf_logs p'"
  using mads_rewrites_events [OF wf_plain_logs, of "[EN_pedalPressed]" "EVENTS plain_env" "EVENTS_SP plain_env" plain_CP
      False True "[]" default_CarState default_CarState sample_Mads new_StateMachine] by auto

text \<open>
  The car events that neither disable (by the user, at once or softly) nor pause MADS. \<open>brakeHold\<close> and the
  other \<open>PAUSE_CAUSES\<close> are not among them.
\<close>

definition harmless :: "event set" where
  "harmless = known_events - PAUSE_CAUSES - set (events_with USER_DISABLE)
     - set (events_with IMMEDIATE_DISABLE) - set (events_with SOFT_DISABLE)"

text \<open>C10 (functional). In the mode "remain active", steering stays active through the brake pedal and every
  event that only concerns cruise control. An enabled or overriding MADS is enabled or overriding after a frame
  in which: the LKAS button is not pressed; the main switch is on (or the car has none); the panda has
  disagreed on lateral control for fewer than 200 samples; the first log holds (once each) only cruise-control
  events and events that neither disable nor pause MADS (so no open door or unlatched belt, no wrong or
  reverse gear, no brake hold, no parking brake); the second log nothing that stops steering.\<close>

theorem steering_remains_active:
  assumes "wf_logs p" "enabled_toggle md" "\<not> cp_passive CP" "md_state md \<in> {M_enabled, M_overriding}"
    "steering_mode_on_brake md = REMAIN_ACTIVE"
    "list_all (\<lambda>be. \<not> (be_type be = BT_lkas \<and> be_pressed be)) (cs_buttonEvents CS)"
    "cr_available (cs_cruiseState CS) \<or> no_main_cruise md"
    "lateral_mismatch_counter (md_data_sample b pss md) < 200"
    "distinct (events (fst p))" "set (events (fst p)) \<subseteq> cruise_only_events \<union> harmless"
    "set (events (snd p)) \<inter> STEERING_STOPS = {}"
  shows "\<exists>md' ss' p'. md_update (EVENTS env) (EVENTS_SP env) CP b True pss CS_prev CS (md, ss, p) = Some (md', ss', p')
    \<and> md_state md' \<in> {M_enabled, M_overriding} \<and> md_active md'"
proof -
  define md1 where "md1 = md_data_sample b pss md"
  have md1: "md_state md1 = md_state md" "no_stop_request md1 CS"
    using assms(5-8) by (simp_all add: md1_def md_data_sample_def no_stop_request_def)
  obtain p' where p': "md_update_events (EVENTS_SP env) md1 b CS_prev CS p = Some p'"
    "moves_within PAUSE_CAUSES (- STEERING_STOPS) p p'"
    using keepsD [OF within_md_update_events [OF md1(2)] assms(1)] by blast
  have op: "set (events (fst p')) \<subseteq> harmless"
  proof
    fix e assume e: "e \<in> set (events (fst p'))"
    then have "has (fst p) e"
      using moves_over_has(1) [of p p' e] p'(2) by (simp add: moves_within_def has_def)
    moreover have "e \<notin> cruise_only_events"
      using md_update_events_removes [of e] assms(1,9) p'(1) e unfolding removes_def has_def by blast
    ultimately show "e \<in> harmless"
      using assms(10) by (auto simp: has_def)
  qed
  have "PAUSE_CAUSES \<inter> cruise_only_events = {}"
    by (auto simp: PAUSE_CAUSES_def cruise_only_events_def)
  then have "\<forall>e\<in>PAUSE_CAUSES. \<not> has (fst p) e"
    using assms(10) by (auto simp: has_def harmless_def)
  then have sp: "set (events (snd p')) \<inter> STEERING_STOPS = {}"
    using p'(2) assms(11) unfolding moves_within_def by blast
  define q where "q = mads_queries (EVENTS env) (EVENTS_SP env) b p'"
  have none: "\<not> q_contains q t" if "t \<in> {USER_DISABLE, IMMEDIATE_DISABLE, SOFT_DISABLE}" for t
  proof -
    have "set (events (fst p')) \<inter> set (events_with t) = {}"
      using op that by (auto simp: harmless_def)
    moreover have "set (events_sp_with t) \<subseteq> STEERING_STOPS"
      using that by (auto simp: events_sp_with_USER_DISABLE events_sp_with_SOFT_DISABLE
          events_sp_with_IMMEDIATE_DISABLE)
    ultimately show ?thesis
      using sp by (auto simp: q_def mads_queries_def check_contains_def contains_EVENTS contains_EVENTS_SP)
  qed
  then have "mads_move q (soft_disable_timer ss) (md_state md)
      (if q_contains q OVERRIDE_LATERAL then M_overriding else M_enabled)"
    using assms(4) by (intro mads_move.m_steady) auto
  then have nxt: "mads_next (q, ss) (md_state md) \<in> {M_enabled, M_overriding}"
    unfolding mads_next_moves by (metis insertCI)
  then show ?thesis
    using assms(2,3) p'(1) md1(1)
    by (auto simp: md_update_def Let_def mads_flags mads_next_def md1_def [symmetric] q_def [symmetric] split_def)
qed

theorem steering_remains_active_witness:
  "\<exists>md' ss' p'. md_update (EVENTS plain_env) (EVENTS_SP plain_env) plain_CP False True []
      default_CarState (default_CarState\<lparr>cs_cruiseState := default_CruiseState\<lparr>cr_available := True\<rparr>\<rparr>)
      (sample_Mads\<lparr>steering_mode_on_brake := REMAIN_ACTIVE\<rparr>, new_StateMachine, plain_logs [EN_pedalPressed]) = Some (md', ss', p')
    \<and> md_state md' \<in> {M_enabled, M_overriding} \<and> md_active md'"
  by (rule steering_remains_active [OF wf_plain_logs])
    (simp_all add: sample_Mads_def plain_CP_def md_data_sample_def default_CarState_def
      cruise_only_events_def plain_logs_def init_events_def add_def bisect_insort_def bisect_right.simps)

text \<open>C36 (functional). The request \<open>lkasEnable\<close> that the last part of \<open>update_events\<close> means to block when
  the brake is pressed in the mode "disengage" is never removed: the test looks for an event type, and no
  event has the event name as a type.\<close>

theorem lkas_enable_is_not_blocked:
  assumes "wf_logs p" "has (snd p) ENSP_lkasEnable"
  shows "\<exists>p'. disable_events (EVENTS_SP env) md CS_prev CS p = Some p' \<and> has (snd p') ENSP_lkasEnable"
  using keepsD [OF keeps_disable_events assms(1)] moves_over_has(2) assms(2) by blast

theorem lkas_enable_is_not_blocked_witness:
  "\<exists>p'. disable_events (EVENTS_SP plain_env) (sample_Mads\<lparr>md_enabled := False\<rparr>) default_CarState default_CarState
      (fst (plain_logs [EN_pedalPressed]), add (snd (plain_logs [])) ENSP_lkasEnable) = Some p' \<and> has (snd p') ENSP_lkasEnable"
proof (rule lkas_enable_is_not_blocked)
  show "wf_logs (fst (plain_logs [EN_pedalPressed]), add (snd (plain_logs [])) ENSP_lkasEnable)"
    using wf_plain_logs [of "[EN_pedalPressed]"] wf_plain_logs [of "[]"] by (auto simp: wf_logs_def intro: wf_add)
qed (simp add: has_add)

end
