(* ===== verification/CarSpecific.thy ===== *)
theory CarSpecific
  imports EventPair Platform
begin

unbundle bit_operations_syntax

text \<open>
  \<open>selfdrive/car/car_specific.py\<close> and \<open>sunnypilot/selfdrive/car/car_specific.py\<close>: the events derived
  from the car's state, common to all brands and specific to some. A sequence of \<open>if c: events.add(e)\<close>
  statements is the list of the pairs of guard and event.
\<close>

section \<open>Guarded insertions\<close>

definition add_if :: "bool \<times> event \<Rightarrow> EventsState \<Rightarrow> EventsState" where
  "add_if g ev = (if fst g then add ev (snd g) else ev)"

definition add_guarded :: "(bool \<times> event) list \<Rightarrow> EventsState \<Rightarrow> EventsState" where
  "add_guarded gs ev = fold add_if gs ev"

lemma add_guarded_simps [simp]:
  "add_guarded [] ev = ev"
  "add_guarded (g # gs) ev = add_guarded gs (add_if g ev)"
  by (simp_all add: add_guarded_def)

lemma has_add_if: "has (add_if g ev) e \<longleftrightarrow> has ev e \<or> g = (True, e)"
  by (cases g) (auto simp: add_if_def ev_simps)

lemma wf_add_if: "wf_events K ev \<Longrightarrow> snd g \<in> K \<Longrightarrow> wf_events K (add_if g ev)"
  by (auto simp: add_if_def intro: ev_intros)

lemma mset_add_if:
  "mset (events (add_if g ev)) = mset (events ev) + mset (map snd (filter fst [g]))"
  by (simp add: add_if_def mset_events_add)

lemma has_add_guarded: "has (add_guarded gs ev) e \<longleftrightarrow> has ev e \<or> (True, e) \<in> set gs"
  by (induction gs arbitrary: ev) (simp_all add: has_add_if disj_ac eq_commute)

lemma wf_add_guarded:
  "wf_events K ev \<Longrightarrow> snd ` set gs \<subseteq> K \<Longrightarrow> wf_events K (add_guarded gs ev)"
  by (induction gs arbitrary: ev) (simp_all add: wf_add_if)

lemma mset_add_guarded:
  "mset (events (add_guarded gs ev)) = mset (events ev) + mset (map snd (filter fst gs))"
  by (induction gs arbitrary: ev) (simp_all add: mset_add_if)

section \<open>Class CarSpecificEvents\<close>

record CarSpecificEvents =
  steering_unpressed :: int
  low_speed_alert :: bool
  no_steer_warning :: bool
  silent_steer_warning :: bool

definition new_CarSpecificEvents :: CarSpecificEvents where
  "new_CarSpecificEvents =
     \<lparr>steering_unpressed = 0, low_speed_alert = False, no_steer_warning = False,
      silent_steer_warning = True\<rparr>"

text \<open>\<open>create_common_events\<close>: the stateless part.\<close>

definition common_guards :: "Opendbc \<Rightarrow> CarParams \<Rightarrow> CarState \<Rightarrow> CarState \<Rightarrow> (bool \<times> event) list" where
  "common_guards ob CP CS CS_prev =
     [(cs_doorOpen CS, EN_doorOpen),
      (cs_seatbeltUnlatched CS, EN_seatbeltNotLatched),
      (cs_gearShifter CS \<noteq> GS_drive
       \<and> cs_gearShifter CS \<notin> set (ob_DRIVABLE_GEARS ob (cp_carFingerprint CP)), EN_wrongGear),
      (cs_gearShifter CS = GS_reverse, EN_reverseGear),
      (\<not> cr_available (cs_cruiseState CS), EN_wrongCarMode),
      (cs_espDisabled CS, EN_espDisabled),
      (cs_espActive CS, EN_espActive),
      (cs_stockFcw CS, EN_stockFcw),
      (cs_stockAeb CS, EN_stockAeb),
      (cs_stockLkas CS, EN_stockLkas),
      (cs_vEgo CS > ob_MAX_CTRL_SPEED ob, EN_speedTooHigh),
      (cr_nonAdaptive (cs_cruiseState CS), EN_wrongCruiseMode),
      (cs_brakeHoldActive CS \<and> cp_openpilotLongitudinalControl CP, EN_brakeHold),
      (cs_parkingBrake CS, EN_parkBrake),
      (cs_accFaulted CS, EN_accFaulted),
      (cs_steeringPressed CS, EN_steerOverride),
      (cs_steeringDisengage CS \<and> \<not> cs_steeringDisengage CS_prev, EN_steerDisengage),
      (cs_brakePressed CS \<and> cs_standstill CS, EN_preEnableStandstill),
      (cs_gasPressed CS, EN_gasPressedOverride),
      (cs_vehicleSensorsInvalid CS, EN_vehicleSensorsInvalid),
      (cs_invalidLkasSetting CS, EN_invalidLkasSetting),
      (cs_lowSpeedAlert CS, EN_belowSteerSpeed),
      (cs_buttonEnable CS, EN_buttonEnable)]
     @ map (\<lambda>b. (be_type b = BT_cancel \<and> (cp_brand CP \<noteq> ''hyundai'' \<or> \<not> cp_pcmCruise CP),
                EN_buttonCancel)) (cs_buttonEvents CS)"

text \<open>The steering faults, with their memory.\<close>

definition steer_faults :: "rat \<Rightarrow> CarState \<Rightarrow> CarState \<Rightarrow> CarSpecificEvents \<times> EventsState \<Rightarrow>
    CarSpecificEvents \<times> EventsState" where
  "steer_faults dt CS CS_prev = (\<lambda>(cse, ev).
     let cse1 = cse\<lparr>steering_unpressed :=
                 (if cs_steeringPressed CS then 0 else steering_unpressed cse + 1)\<rparr>
     in if cs_steerFaultTemporary CS then
          (if cs_steeringPressed CS \<and> (\<not> cs_steerFaultTemporary CS_prev \<or> no_steer_warning cse1)
           then (cse1\<lparr>no_steer_warning := True\<rparr>, ev)
           else
             (let cse2 = cse1\<lparr>no_steer_warning := False\<rparr>
              in if silent_steer_warning cse2 \<or> cs_standstill CS
                    \<or> steering_unpressed cse2 < py_trunc (3/2 / dt)
                 then (cse2\<lparr>silent_steer_warning := True\<rparr>, add ev EN_steerTempUnavailableSilent)
                 else (cse2, add ev EN_steerTempUnavailable)))
        else (cse1\<lparr>no_steer_warning := False, silent_steer_warning := False\<rparr>, ev))"

definition create_common_events :: "'a events_mapping \<Rightarrow> Opendbc \<Rightarrow> rat \<Rightarrow> CarParams \<Rightarrow> CarState \<Rightarrow>
    CarState \<Rightarrow> CarSpecificEvents \<Rightarrow> CarSpecificEvents \<times> EventsState" where
  "create_common_events m ob dt CP CS CS_prev cse =
     (let pcm_enable = cp_pcmCruise CP \<and> cp_brand CP \<noteq> ''honda'';
          ev1 = add_guarded (common_guards ob CP CS CS_prev) (init_events m);
          (cse2, ev2) = steer_faults dt CS CS_prev (cse, ev1);
          ev3 = add_guarded [(cs_steerFaultPermanent CS, EN_steerUnavailable)] ev2;
          cruise_enabled = cr_enabled (cs_cruiseState CS)
      in (cse2,
          if pcm_enable then
            (if cruise_enabled \<and> \<not> cr_enabled (cs_cruiseState CS_prev) \<and> \<not> cs_blockPcmEnable CS
             then add ev3 EN_pcmEnable
             else if \<not> cruise_enabled then add ev3 EN_pcmDisable
             else ev3)
          else ev3))"

text \<open>The brands of \<open>update\<close>.\<close>

definition chrysler_low_speed :: "CarParams \<Rightarrow> CarState \<Rightarrow> bool \<Rightarrow> bool" where
  "chrysler_low_speed CP CS alert =
     (if cp_minSteerSpeed CP > 0 \<and> cs_vEgo CS < cp_minSteerSpeed CP + 1/2 then True
      else if cs_vEgo CS > cp_minSteerSpeed CP + 1 then False
      else alert)"

definition honda_guards :: "CarParams \<Rightarrow> CarState \<Rightarrow> CarState \<Rightarrow> CarControl \<Rightarrow> (bool \<times> event) list" where
  "honda_guards CP CS CS_prev CC =
     (let rising = cr_enabled (cs_cruiseState CS) \<and> \<not> cr_enabled (cs_cruiseState CS_prev);
          off = \<not> cr_enabled (cs_cruiseState CS)
                \<and> (cc_accel CC \<ge> 0 \<or> \<not> cp_openpilotLongitudinalControl CP);
          slow = cs_vEgo CS < cp_minEnableSpeed CP + 2
      in [(cp_pcmCruise CP \<and> cs_vEgo CS < cp_minEnableSpeed CP, EN_belowEngageSpeed),
          (cp_pcmCruise CP \<and> rising, EN_pcmEnable),
          (cp_pcmCruise CP \<and> \<not> rising \<and> off \<and> slow, EN_speedTooLow),
          (cp_pcmCruise CP \<and> \<not> rising \<and> off \<and> \<not> slow, EN_cruiseDisabled),
          (cp_minEnableSpeed CP > 0 \<and> cs_vEgo CS < 1/1000, EN_manualRestart)])"

definition toyota_guards :: "Opendbc \<Rightarrow> CarParams \<Rightarrow> CarState \<Rightarrow> CarControl \<Rightarrow> (bool \<times> event) list" where
  "toyota_guards ob CP CS CC =
     (let long = cp_openpilotLongitudinalControl CP;
          slow = cs_vEgo CS < cp_minEnableSpeed CP
      in [(long \<and> cr_standstill (cs_cruiseState CS) \<and> \<not> cs_brakePressed CS
           \<and> (cc_cruise_resume CC \<or> cp_flags CP AND ob_ToyotaFlags_HYBRID ob \<noteq> 0),
           EN_resumeRequired),
          (long \<and> slow, EN_belowEngageSpeed),
          (long \<and> slow \<and> cc_accel CC > 3/10, EN_speedTooLow),
          (long \<and> slow \<and> cs_vEgo CS < 1/1000, EN_manualRestart)])"

definition gm_guards :: "CarParams \<Rightarrow> CarState \<Rightarrow> (bool \<times> event) list" where
  "gm_guards CP CS =
     [(cs_vEgo CS < cp_minEnableSpeed CP
       \<and> \<not> (cs_standstill CS \<and> cs_brakePressed CS \<and> cp_networkLocation CP = NL_fwdCamera),
       EN_belowEngageSpeed),
      (cr_standstill (cs_cruiseState CS), EN_resumeRequired)]"

definition volkswagen_guards :: "CarParams \<Rightarrow> CarState \<Rightarrow> CarControl \<Rightarrow> (bool \<times> event) list" where
  "volkswagen_guards CP CS CC =
     [(cp_openpilotLongitudinalControl CP \<and> cs_vEgo CS < cp_minEnableSpeed CP + 1/2,
       EN_belowEngageSpeed),
      (cp_openpilotLongitudinalControl CP \<and> cc_enabled CC \<and> cs_vEgo CS < cp_minEnableSpeed CP,
       EN_speedTooLow)]"

definition car_events_update :: "'a events_mapping \<Rightarrow> Opendbc \<Rightarrow> rat \<Rightarrow> CarParams \<Rightarrow> CarState \<Rightarrow>
    CarState \<Rightarrow> CarControl \<Rightarrow> CarSpecificEvents \<Rightarrow> CarSpecificEvents \<times> EventsState" where
  "car_events_update m ob dt CP CS CS_prev CC cse =
     (if cp_brand CP = ''body'' \<or> cp_brand CP = ''mock'' then (cse, init_events m)
      else
        (let (cse1, ev) = create_common_events m ob dt CP CS CS_prev cse
         in if cp_brand CP = ''chrysler'' then
              (let low = chrysler_low_speed CP CS (low_speed_alert cse1)
               in (cse1\<lparr>low_speed_alert := low\<rparr>, add_guarded [(low, EN_belowSteerSpeed)] ev))
            else if cp_brand CP = ''honda'' then
              (cse1, add_guarded (honda_guards CP CS CS_prev CC) ev)
            else if cp_brand CP = ''toyota'' then
              (cse1, add_guarded (toyota_guards ob CP CS CC) ev)
            else if cp_brand CP = ''gm'' then (cse1, add_guarded (gm_guards CP CS) ev)
            else if cp_brand CP = ''volkswagen'' then
              (cse1, add_guarded (volkswagen_guards CP CS CC) ev)
            else (cse1, ev)))"

section \<open>Class CarSpecificEventsSP\<close>

text \<open>
  The state is the flag \<open>low_speed_alert\<close>; the function changes the events of \<open>selfdrived\<close> in place and
  returns an empty log.
\<close>

definition remove_if_has :: "event \<Rightarrow> EventsState \<Rightarrow> EventsState option" where
  "remove_if_has e ev = (if has ev e then remove ev e else Some ev)"

definition car_events_sp_update :: "'b events_mapping \<Rightarrow> Opendbc \<Rightarrow> CarParams \<Rightarrow> CarParamsSP \<Rightarrow>
    CarState \<Rightarrow> EventsState \<Rightarrow> bool \<Rightarrow> (bool \<times> EventsState \<times> EventsState) option" where
  "car_events_sp_update m_sp ob CP CP_SP CS ev low =
     (if cp_brand CP = ''chrysler'' then
        (if cp_carFingerprint CP \<in> set (ob_RAM_DT ob) then do {
           ev1 \<leftarrow> remove_if_has EN_belowSteerSpeed ev;
           let low1 = (if cs_vEgo CS \<ge> cp_minEnableSpeed CP then False else low);
           let low2 = (if cp_minEnableSpeed CP \<ge> 29/2 \<and> cs_gearShifter CS \<noteq> GS_drive
                       then True else low1);
           Some (low2, add_guarded [(low2, EN_belowSteerSpeed)] ev1, init_events m_sp)
         }
         else Some (low, add_guarded [(low, EN_belowSteerSpeed)] ev, init_events m_sp))
      else if cp_brand CP = ''toyota'' \<and> cp_openpilotLongitudinalControl CP
              \<and> cr_standstill (cs_cruiseState CS) \<and> \<not> cs_brakePressed CS
              \<and> cpsp_enableGasInterceptor CP_SP then do {
        ev1 \<leftarrow> remove_if_has EN_resumeRequired ev;
        Some (low, ev1, init_events m_sp)
      }
      else Some (low, ev, init_events m_sp))"

section \<open>Well-formedness\<close>

lemma wf_steer_faults:
  "wf_events known_events ev \<Longrightarrow> wf_events known_events (snd (steer_faults dt CS CS_prev (cse, ev)))"
  by (auto simp: steer_faults_def Let_def intro: ev_intros)

lemma common_guards_known: "snd ` set (common_guards ob CP CS CS_prev) \<subseteq> known_events"
  by (auto simp: common_guards_def)

lemma wf_create_common:
  "wf_events known_events (snd (create_common_events (EVENTS env) ob dt CP CS CS_prev cse))"
proof -
  let ?ev = "add_guarded (common_guards ob CP CS CS_prev) (init_events (EVENTS env))"
  have "wf_events known_events ?ev"
    using common_guards_known by (intro wf_add_guarded wf_init_EVENTS)
  then have "wf_events known_events (snd (steer_faults dt CS CS_prev (cse, ?ev)))"
    by (rule wf_steer_faults)
  then show ?thesis
    by (auto simp: create_common_events_def Let_def split_def intro!: wf_add wf_add_guarded wf_add_if)
qed

lemma wf_car_events_update:
  "wf_events known_events (snd (car_events_update (EVENTS env) ob dt CP CS CS_prev CC cse))"
  using wf_create_common [of env ob dt CP CS CS_prev cse]
  by (auto simp: car_events_update_def Let_def split_def honda_guards_def toyota_guards_def
      gm_guards_def volkswagen_guards_def intro!: wf_init_EVENTS wf_add_guarded wf_add_if)

lemma wf_remove_if_has:
  assumes "wf_events known_events ev"
  shows "\<exists>ev'. remove_if_has e ev = Some ev' \<and> wf_events known_events ev'"
  using assms remove_eq_Some [OF assms, of e] wf_drop [OF assms, of e]
  by (simp add: remove_if_has_def)

lemma car_events_sp_total:
  assumes "wf_events known_events ev"
  shows "\<exists>low' ev' sp'. car_events_sp_update (EVENTS_SP env) ob CP CP_SP CS ev low = Some (low', ev', sp')
    \<and> wf_events known_events ev' \<and> events sp' = []"
proof -
  obtain a where a: "remove_if_has EN_belowSteerSpeed ev = Some a" "wf_events known_events a"
    using wf_remove_if_has [OF assms] by blast
  obtain b where b: "remove_if_has EN_resumeRequired ev = Some b" "wf_events known_events b"
    using wf_remove_if_has [OF assms] by blast
  show ?thesis
    using assms a b
    by (auto simp: car_events_sp_update_def Let_def init_events_def intro!: wf_add_guarded wf_add_if)
qed

section \<open>Steering faults\<close>

text \<open>
  The loud alert needs a fault that was not silenced: it is only raised when the driver has not
  touched the wheel for a second and a half, and never again in a fault that began silently.
\<close>

lemma steer_fault_loud:
  assumes "has (snd (steer_faults dt CS CS_prev (cse, ev))) EN_steerTempUnavailable"
    and "\<not> has ev EN_steerTempUnavailable"
  shows "cs_steerFaultTemporary CS \<and> \<not> silent_steer_warning cse \<and> \<not> cs_standstill CS
    \<and> py_trunc (3/2 / dt) \<le> (if cs_steeringPressed CS then 0 else steering_unpressed cse + 1)"
  using assms
  by (auto simp: steer_faults_def Let_def ev_simps split: if_splits)

lemma steer_fault_silent_stays:
  assumes "silent_steer_warning cse" "cs_steerFaultTemporary CS"
  shows "silent_steer_warning (fst (steer_faults dt CS CS_prev (cse, ev)))"
    and "\<not> has ev EN_steerTempUnavailable \<Longrightarrow>
      \<not> has (snd (steer_faults dt CS CS_prev (cse, ev))) EN_steerTempUnavailable"
  using assms by (auto simp: steer_faults_def Let_def ev_simps)

section \<open>Properties\<close>

text \<open>The loud event for a temporary steering fault is only added when there is a fault,
  the car moves, the fault is not already reported silently and the driver has had the hands off the wheel
  for a second and a half; a fault that was reported silently stays silent.\<close>

theorem steer_fault_event_is_justified:
  assumes "\<not> has ev EN_steerTempUnavailable" "steer_faults dt CS CS_prev (cse, ev) = (cse', ev')"
  shows "(has ev' EN_steerTempUnavailable \<longrightarrow> cs_steerFaultTemporary CS \<and> \<not> silent_steer_warning cse
            \<and> \<not> cs_standstill CS
            \<and> py_trunc (3/2 / dt) \<le> (if cs_steeringPressed CS then 0 else steering_unpressed cse + 1))
    \<and> (silent_steer_warning cse \<and> cs_steerFaultTemporary CS \<longrightarrow>
         silent_steer_warning cse' \<and> \<not> has ev' EN_steerTempUnavailable)"
  using steer_fault_loud [where dt = dt and CS = CS and CS_prev = CS_prev and cse = cse and ev = ev]
    steer_fault_silent_stays [where dt = dt and CS = CS and CS_prev = CS_prev and cse = cse and ev = ev] assms by simp

theorem steer_fault_event_is_justified_witness:
  "\<not> has (snd (steer_faults (1/100) (default_CarState\<lparr>cs_steerFaultTemporary := True\<rparr>) default_CarState
      (new_CarSpecificEvents, init_events (EVENTS plain_env)))) EN_steerTempUnavailable"
  using steer_fault_event_is_justified [of "init_events (EVENTS plain_env)", OF _ surjective_pairing,
      of "1/100" "default_CarState\<lparr>cs_steerFaultTemporary := True\<rparr>" default_CarState new_CarSpecificEvents]
  by (simp add: new_CarSpecificEvents_def init_events_def has_def)

end
