(* ===== verification/ButtonTimers.thy ===== *)
theory ButtonTimers
  imports Messages
begin

text \<open>
  The timers of held buttons, written three times in the code: \<open>update_manual_button_timers\<close> of
  \<open>sunnypilot/selfdrive/car/cruise_ext.py\<close> (used by the set speed helper and by the intelligent cruise
  button management), the experimental mode button of \<open>cruise_helpers.py\<close>, and \<open>update_button_timers\<close>
  of \<open>selfdrive/car/cruise.py\<close>. The interface \<open>hold_timer\<close> is what their clients rely on.
\<close>

section \<open>The timers\<close>

type_synonym timers = "(ButtonType \<times> int) list"

definition CRUISE_BUTTON_TIMER :: timers where
  "CRUISE_BUTTON_TIMER =
     [(BT_decelCruise, 0), (BT_accelCruise, 0), (BT_setCruise, 0), (BT_resumeCruise, 0),
      (BT_cancel, 0), (BT_mainCruise, 0)]"

definition tick_timers :: "timers \<Rightarrow> timers" where
  "tick_timers t = map (\<lambda>(k, n). (k, if n > 0 then n + 1 else n)) t"

definition set_timer :: "ButtonEvent \<Rightarrow> timers \<Rightarrow> timers" where
  "set_timer b t =
     (if be_type b \<in> fst ` set t then dict_set (be_type b) (if be_pressed b then 1 else 0) t else t)"

definition update_manual_button_timers :: "CarState \<Rightarrow> timers \<Rightarrow> timers" where
  "update_manual_button_timers CS t = fold set_timer (cs_buttonEvents CS) (tick_timers t)"

definition button_pressed :: "timers \<Rightarrow> bool" where
  "button_pressed t \<longleftrightarrow> list_ex (\<lambda>(k, n). n > 0) t"

section \<open>The interface of a hold timer\<close>

definition quiet_for :: "ButtonType \<Rightarrow> CarState \<Rightarrow> bool" where
  "quiet_for b CS \<longleftrightarrow> list_all (\<lambda>be. be_type be \<noteq> b) (cs_buttonEvents CS)"

definition last_event :: "ButtonType \<Rightarrow> ButtonEvent list \<Rightarrow> bool option" where
  "last_event b es =
     (case filter (\<lambda>be. be_type be = b) (rev es) of [] \<Rightarrow> None | be # _ \<Rightarrow> Some (be_pressed be))"

locale hold_timer =
  fixes update :: "CarState \<Rightarrow> 't \<Rightarrow> 't"
    and held :: "'t \<Rightarrow> ButtonType \<Rightarrow> int"
    and inv :: "'t \<Rightarrow> bool"
    and tracked :: "ButtonType set"
  assumes inv_update: "inv t \<Longrightarrow> inv (update CS t)"
    and held_update: "inv t \<Longrightarrow> b \<in> tracked \<Longrightarrow> held (update CS t) b =
          (case last_event b (cs_buttonEvents CS) of
             None \<Rightarrow> if held t b > 0 then held t b + 1 else held t b
           | Some pressed \<Rightarrow> if pressed then 1 else 0)"
begin

lemma held_nonneg: "inv t \<Longrightarrow> b \<in> tracked \<Longrightarrow> 0 \<le> held t b \<Longrightarrow> 0 \<le> held (update CS t) b"
  by (simp add: held_update split: option.splits)

lemma inv_run: "inv t \<Longrightarrow> inv (fold update css t)"
  by (induction css arbitrary: t) (auto intro: inv_update)

lemma quiet_last: "quiet_for b CS \<Longrightarrow> last_event b (cs_buttonEvents CS) = None"
  by (auto simp: quiet_for_def last_event_def list_all_iff filter_empty_conv split: list.splits)

lemma quiet_run:
  assumes "inv t" "b \<in> tracked" "\<forall>CS\<in>set css. quiet_for b CS" "0 \<le> held t b"
  shows "held (fold update css t) b = (if held t b = 0 then 0 else held t b + int (length css))"
  using assms
proof (induction css arbitrary: t)
  case (Cons CS css)
  have u: "held (update CS t) b = (if held t b > 0 then held t b + 1 else held t b)"
    using Cons.prems by (simp add: held_update quiet_last)
  then show ?case
    using Cons.IH [of "update CS t"] Cons.prems inv_update by auto
qed simp

text \<open>After a press the timer counts the frames the button has been held for.\<close>

lemma hold_run:
  assumes "inv t" "b \<in> tracked" "last_event b (cs_buttonEvents CS) = Some True"
    and "\<forall>CS\<in>set css. quiet_for b CS"
  shows "held (fold update css (update CS t)) b = 1 + int (length css)"
proof -
  have "held (update CS t) b = 1"
    using assms by (simp add: held_update)
  then show ?thesis
    using quiet_run [OF inv_update, of t b css CS] assms by simp
qed

lemma released:
  assumes "inv t" "b \<in> tracked" "last_event b (cs_buttonEvents CS) = Some False"
    and "\<forall>CS\<in>set css. quiet_for b CS"
  shows "held (fold update css (update CS t)) b = 0"
proof -
  have "held (update CS t) b = 0"
    using assms by (simp add: held_update)
  then show ?thesis
    using quiet_run [OF inv_update, of t b css CS] assms by simp
qed

end

section \<open>The manual button timers\<close>

lemma map_of_tick: "map_of (tick_timers t) b = map_option (\<lambda>n. if n > 0 then n + 1 else n) (map_of t b)"
  unfolding tick_timers_def map_of_map by simp

lemma keys_tick: "map fst (tick_timers t) = map fst t"
  by (simp add: tick_timers_def split_def)

lemma map_fst_dict_set: "k \<in> fst ` set d \<Longrightarrow> map fst (dict_set k v d) = map fst d"
proof (induction d)
  case (Cons p d)
  obtain k' v' where p: "p = (k', v')"
    by force
  show ?case
  proof (cases "k' = k")
    case False
    with Cons.prems p have "k \<in> fst ` set d"
      by simp
    with Cons.IH p False show ?thesis
      by simp
  qed (simp add: p)
qed simp

lemma keys_set_timer: "map fst (set_timer b t) = map fst t"
  by (simp add: set_timer_def map_fst_dict_set)

lemma keys_set_timers: "map fst (fold set_timer bs t) = map fst t"
  by (induction bs arbitrary: t) (simp_all add: keys_set_timer)

lemma keys_update_manual: "map fst (update_manual_button_timers CS t) = map fst t"
  by (simp add: update_manual_button_timers_def keys_set_timers keys_tick)

lemma map_of_set_timer:
  "b \<in> fst ` set t \<Longrightarrow> map_of (set_timer be t) b =
     (if be_type be = b then Some (if be_pressed be then 1 else 0) else map_of t b)"
  by (auto simp: set_timer_def map_of_dict_set)

lemma map_of_set_timers:
  "b \<in> fst ` set t \<Longrightarrow> map_of (fold set_timer bs t) b =
     (case last_event b bs of None \<Rightarrow> map_of t b
      | Some pressed \<Rightarrow> Some (if pressed then 1 else 0))"
proof (induction bs rule: rev_induct)
  case (snoc be bs)
  have "b \<in> fst ` set (fold set_timer bs t)"
    using snoc.prems keys_set_timers [of bs t] by (metis list.set_map)
  with snoc show ?case
    by (simp add: map_of_set_timer last_event_def split: list.splits)
qed (simp add: last_event_def)

lemma map_of_update_manual:
  assumes "b \<in> fst ` set t"
  shows "map_of (update_manual_button_timers CS t) b =
     (case last_event b (cs_buttonEvents CS) of
        None \<Rightarrow> map_option (\<lambda>n. if n > 0 then n + 1 else n) (map_of t b)
      | Some pressed \<Rightarrow> Some (if pressed then 1 else 0))"
proof -
  have "b \<in> fst ` set (tick_timers t)"
    using assms keys_tick [of t] by (metis list.set_map)
  then show ?thesis
    by (simp add: update_manual_button_timers_def map_of_set_timers map_of_tick split: option.splits)
qed

interpretation manual: hold_timer update_manual_button_timers "dict_get 0"
  "\<lambda>t :: timers. map fst t = ks" "set ks" for ks
proof
  fix t :: timers and CS b
  assume t: "map fst t = ks" and b: "b \<in> set ks"
  then have "b \<in> fst ` set t"
    by (metis list.set_map)
  moreover from this obtain n where "map_of t b = Some n"
    by (metis domD dom_map_of_conv_image_fst)
  ultimately show "dict_get 0 (update_manual_button_timers CS t) b =
     (case last_event b (cs_buttonEvents CS) of
        None \<Rightarrow> if dict_get 0 t b > 0 then dict_get 0 t b + 1 else dict_get 0 t b
      | Some pressed \<Rightarrow> if pressed then 1 else 0)"
    by (simp add: dict_get_def map_of_update_manual split: option.splits)
qed (simp add: keys_update_manual)

lemma button_pressed_iff:
  assumes "distinct (map fst t)"
  shows "button_pressed t \<longleftrightarrow> (\<exists>b\<in>fst ` set t. dict_get 0 t b > 0)"
proof -
  have "dict_get 0 t k = n" if "(k, n) \<in> set t" for k n
    using assms that by (simp add: dict_get_def)
  then show ?thesis
    by (force simp: button_pressed_def list_ex_iff)
qed

end
