(* ===== verification/CruiseHelper.thy ===== *)
theory CruiseHelper
  imports ButtonTimers EventPair Platform
begin

text \<open>
  \<open>sunnypilot/selfdrive/car/cruise_helpers.py\<close>: holding the distance button for half a second toggles
  the experimental mode, once per hold. \<open>selfdrived\<close> inherits from this class and clears
  \<open>experimental_mode_switched\<close> when the button is released.
\<close>

definition DISTANCE_LONG_PRESS :: int where "DISTANCE_LONG_PRESS = 50"

record CruiseHelper =
  button_frame_counts :: timers
  ch_experimental_mode :: bool
  experimental_mode_switched :: bool

definition new_CruiseHelper :: CruiseHelper where
  "new_CruiseHelper =
     \<lparr>button_frame_counts = [(BT_gapAdjustCruise, 0)], ch_experimental_mode = False,
      experimental_mode_switched = False\<rparr>"

definition update_button_frame_counts :: "CarState \<Rightarrow> CruiseHelper \<Rightarrow> CruiseHelper" where
  "update_button_frame_counts CS ch =
     ch\<lparr>button_frame_counts :=
          fold set_timer (cs_buttonEvents CS) (tick_timers (button_frame_counts ch))\<rparr>"

definition update_experimental_mode :: "bool \<Rightarrow> CruiseHelper \<times> Params \<times> EventsState \<Rightarrow>
    CruiseHelper \<times> Params \<times> EventsState" where
  "update_experimental_mode experimental_mode = (\<lambda>(ch, params, ev).
     if dict_get 0 (button_frame_counts ch) BT_gapAdjustCruise \<ge> DISTANCE_LONG_PRESS
        \<and> \<not> experimental_mode_switched ch
     then (ch\<lparr>ch_experimental_mode := \<not> experimental_mode, experimental_mode_switched := True\<rparr>,
           put_bool ''ExperimentalMode'' (\<not> experimental_mode) params,
           add ev ENSP_experimentalModeSwitched)
     else (ch, params, ev))"

definition ch_update :: "CarParams \<Rightarrow> CarState \<Rightarrow> bool \<Rightarrow> CruiseHelper \<times> Params \<times> EventsState \<Rightarrow>
    CruiseHelper \<times> Params \<times> EventsState" where
  "ch_update CP CS experimental_mode = (\<lambda>(ch, params, ev).
     if cp_openpilotLongitudinalControl CP
     then update_experimental_mode experimental_mode
       (if cr_available (cs_cruiseState CS) then update_button_frame_counts CS ch else ch, params, ev)
     else (ch, params, ev))"

section \<open>The hold\<close>

lemma update_counts_manual:
  "button_frame_counts (update_button_frame_counts CS ch) =
     update_manual_button_timers CS (button_frame_counts ch)"
  by (simp add: update_button_frame_counts_def update_manual_button_timers_def)

definition gap_held :: "CruiseHelper \<Rightarrow> ButtonType \<Rightarrow> int" where
  "gap_held ch b = dict_get 0 (button_frame_counts ch) b"

interpretation gap: hold_timer update_button_frame_counts gap_held
  "\<lambda>ch. map fst (button_frame_counts ch) = [BT_gapAdjustCruise]" "{BT_gapAdjustCruise}"
proof
  fix ch :: CruiseHelper and CS
  assume ch: "map fst (button_frame_counts ch) = [BT_gapAdjustCruise]"
  then show "map fst (button_frame_counts (update_button_frame_counts CS ch)) = [BT_gapAdjustCruise]"
    using manual.inv_update by (simp add: update_counts_manual)
  fix b assume "b \<in> {BT_gapAdjustCruise}"
  then show "gap_held (update_button_frame_counts CS ch) b =
      (case last_event b (cs_buttonEvents CS) of
         None \<Rightarrow> if gap_held ch b > 0 then gap_held ch b + 1 else gap_held ch b
       | Some pressed \<Rightarrow> if pressed then 1 else 0)"
    using manual.held_update [OF ch, of b CS] unfolding gap_held_def update_counts_manual by simp
qed

lemma wf_ch_update:
  "wf_events known_events_sp ev \<Longrightarrow>
     wf_events known_events_sp (snd (snd (ch_update CP CS em (ch, params, ev))))"
  by (auto simp: ch_update_def update_experimental_mode_def intro!: wf_add)

text \<open>The mode is toggled at most once until \<open>experimental_mode_switched\<close> is cleared.\<close>

lemma ch_update_switched:
  "experimental_mode_switched ch \<Longrightarrow>
     ch_update CP CS em (ch, params, ev) =
       ((if cp_openpilotLongitudinalControl CP \<and> cr_available (cs_cruiseState CS)
         then update_button_frame_counts CS ch else ch), params, ev)"
  by (simp add: ch_update_def update_experimental_mode_def update_button_frame_counts_def)

lemma ch_update_toggles:
  assumes "cp_openpilotLongitudinalControl CP" "\<not> experimental_mode_switched ch"
    "ch1 = (if cr_available (cs_cruiseState CS) then update_button_frame_counts CS ch else ch)"
  shows "ch_update CP CS em (ch, params, ev) =
     (if gap_held ch1 BT_gapAdjustCruise \<ge> 50
      then (ch1\<lparr>ch_experimental_mode := \<not> em, experimental_mode_switched := True\<rparr>,
            put_bool ''ExperimentalMode'' (\<not> em) params, add ev ENSP_experimentalModeSwitched)
      else (ch1, params, ev))"
  using assms by (auto simp: ch_update_def update_experimental_mode_def gap_held_def
      DISTANCE_LONG_PRESS_def update_button_frame_counts_def)

section \<open>Properties\<close>

definition ch_run :: "CarParams \<Rightarrow> bool \<Rightarrow> CarState list \<Rightarrow> CruiseHelper \<times> Params \<times> EventsState \<Rightarrow>
    CruiseHelper \<times> Params \<times> EventsState" where
  "ch_run CP em css s = fold (\<lambda>CS. ch_update CP CS em) css s"

lemma ch_update_hold:
  assumes "cp_openpilotLongitudinalControl CP" "cr_available (cs_cruiseState CS)"
    "map fst (button_frame_counts ch) = [BT_gapAdjustCruise]"
    "ch_update CP CS em (ch, params, ev) = (ch', params', ev')"
  shows "map fst (button_frame_counts ch') = [BT_gapAdjustCruise]"
    "gap_held ch' BT_gapAdjustCruise = (case last_event BT_gapAdjustCruise (cs_buttonEvents CS) of
       None \<Rightarrow> if gap_held ch BT_gapAdjustCruise > 0 then gap_held ch BT_gapAdjustCruise + 1
               else gap_held ch BT_gapAdjustCruise
     | Some pressed \<Rightarrow> if pressed then 1 else 0)"
    "experimental_mode_switched ch' \<longleftrightarrow> experimental_mode_switched ch \<or> 50 \<le> gap_held ch' BT_gapAdjustCruise"
    "(params', ev') = (if 50 \<le> gap_held ch' BT_gapAdjustCruise \<and> \<not> experimental_mode_switched ch
       then (put_bool ''ExperimentalMode'' (\<not> em) params, add ev ENSP_experimentalModeSwitched) else (params, ev))"
proof -
  let ?ch1 = "update_button_frame_counts CS ch"
  have sw: "experimental_mode_switched ?ch1 = experimental_mode_switched ch"
    by (simp add: update_button_frame_counts_def)
  have u: "(ch', params', ev') = (if 50 \<le> gap_held ?ch1 BT_gapAdjustCruise \<and> \<not> experimental_mode_switched ch
      then (?ch1\<lparr>ch_experimental_mode := \<not> em, experimental_mode_switched := True\<rparr>,
            put_bool ''ExperimentalMode'' (\<not> em) params, add ev ENSP_experimentalModeSwitched)
      else (?ch1, params, ev))"
    using assms(1,2,4) ch_update_toggles [of CP ch ?ch1 CS em params ev] ch_update_switched [of ch CP CS em params ev]
    by (cases "experimental_mode_switched ch") simp_all
  then have counts: "button_frame_counts ch' = button_frame_counts ?ch1"
    by (auto split: if_splits)
  then have held: "gap_held ch' BT_gapAdjustCruise = gap_held ?ch1 BT_gapAdjustCruise"
    by (simp add: gap_held_def)
  show "map fst (button_frame_counts ch') = [BT_gapAdjustCruise]"
    using gap.inv_update [OF assms(3)] counts by simp
  show "gap_held ch' BT_gapAdjustCruise = (case last_event BT_gapAdjustCruise (cs_buttonEvents CS) of
       None \<Rightarrow> if gap_held ch BT_gapAdjustCruise > 0 then gap_held ch BT_gapAdjustCruise + 1
               else gap_held ch BT_gapAdjustCruise
     | Some pressed \<Rightarrow> if pressed then 1 else 0)"
    unfolding held using gap.held_update [OF assms(3)] by simp
  show "experimental_mode_switched ch' \<longleftrightarrow> experimental_mode_switched ch \<or> 50 \<le> gap_held ch' BT_gapAdjustCruise"
    "(params', ev') = (if 50 \<le> gap_held ch' BT_gapAdjustCruise \<and> \<not> experimental_mode_switched ch
       then (put_bool ''ExperimentalMode'' (\<not> em) params, add ev ENSP_experimentalModeSwitched) else (params, ev))"
    unfolding held using u sw by (auto split: if_splits)
qed

text \<open>Holding the gap button toggles experimental mode once, in the 50th frame: after the
  frame of the press and any number of frames without a gap-button event, the mode has been switched, the
  parameter flipped and one event emitted exactly if at least 50 frames have passed.\<close>

theorem gap_hold_toggles_once:
  assumes "cp_openpilotLongitudinalControl CP" "list_all (\<lambda>CS. cr_available (cs_cruiseState CS)) (CS # css)"
    "last_event BT_gapAdjustCruise (cs_buttonEvents CS) = Some True" "list_all (quiet_for BT_gapAdjustCruise) css"
    "ch_run CP em (CS # css) (new_CruiseHelper, params, ev) = (ch', params', ev')"
  shows "(experimental_mode_switched ch' \<longleftrightarrow> 50 \<le> length (CS # css))
    \<and> params' = (if 50 \<le> length (CS # css) then put_bool ''ExperimentalMode'' (\<not> em) params else params)
    \<and> ev' = (if 50 \<le> length (CS # css) then add ev ENSP_experimentalModeSwitched else ev)"
proof -
  have "map fst (button_frame_counts ch') = [BT_gapAdjustCruise]
    \<and> gap_held ch' BT_gapAdjustCruise = int (length (CS # css))
    \<and> (experimental_mode_switched ch' \<longleftrightarrow> 50 \<le> length (CS # css))
    \<and> params' = (if 50 \<le> length (CS # css) then put_bool ''ExperimentalMode'' (\<not> em) params else params)
    \<and> ev' = (if 50 \<le> length (CS # css) then add ev ENSP_experimentalModeSwitched else ev)"
    using assms(2,4,5)
  proof (induction css arbitrary: ch' params' ev' rule: rev_induct)
    case Nil
    let ?n = new_CruiseHelper
    have n: "map fst (button_frame_counts ?n) = [BT_gapAdjustCruise]" "\<not> experimental_mode_switched ?n"
      by (simp_all add: new_CruiseHelper_def)
    have u: "ch_update CP CS em (?n, params, ev) = (ch', params', ev')"
      using Nil by (simp add: ch_run_def)
    show ?case
      using ch_update_hold [OF assms(1) _ n(1) u] Nil(1) n(2) assms(3) by simp
  next
    case (snoc C cs)
    obtain ch1 params1 ev1 where r: "ch_run CP em (CS # cs) (new_CruiseHelper, params, ev) = (ch1, params1, ev1)"
      by (metis prod_cases3)
    have u: "ch_update CP C em (ch1, params1, ev1) = (ch', params', ev')"
      using snoc.prems(3) r by (simp add: ch_run_def)
    note ih = snoc.IH [OF _ _ r]
    have q: "last_event BT_gapAdjustCruise (cs_buttonEvents C) = None"
      using snoc.prems(2) by (simp add: gap.quiet_last)
    show ?case
      using ch_update_hold [OF assms(1) _ _ u] ih snoc.prems(1,2) q by (auto split: if_splits)
  qed
  then show ?thesis
    by simp
qed

definition gap_CS :: "ButtonEvent list \<Rightarrow> CarState" where
  "gap_CS bes = default_CarState\<lparr>cs_buttonEvents := bes,
     cs_cruiseState := default_CruiseState\<lparr>cr_available := True\<rparr>\<rparr>"

theorem gap_hold_toggles_once_witness:
  "\<exists>ch' params' ev'. ch_run plain_CP True
      (gap_CS [\<lparr>be_type = BT_gapAdjustCruise, be_pressed = True\<rparr>] # replicate 49 (gap_CS []))
      (new_CruiseHelper, Map.empty, init_events (EVENTS_SP plain_env)) = (ch', params', ev') \<and> experimental_mode_switched ch'"
proof -
  let ?css = "gap_CS [\<lparr>be_type = BT_gapAdjustCruise, be_pressed = True\<rparr>] # replicate 49 (gap_CS [])"
  obtain ch' params' ev' where r: "ch_run plain_CP True ?css
      (new_CruiseHelper, Map.empty, init_events (EVENTS_SP plain_env)) = (ch', params', ev')"
    by (metis prod_cases3)
  have "experimental_mode_switched ch' \<longleftrightarrow> 50 \<le> length ?css"
    using gap_hold_toggles_once [OF _ _ _ _ r]
    by (simp add: plain_CP_def gap_CS_def last_event_def quiet_for_def list_all_iff)
  then show ?thesis
    using r by simp
qed

end
