(* ===== verification/Counters.thy ===== *)
theory Counters
  imports Prelude
begin

text \<open>
  Counters of consecutive frames, \<open>n = n + 1 if b else 0\<close>, as the excessive actuation check, the cruise
  mismatch check and the steering fault logic keep them: a counter is the length of the current run.
\<close>

definition count_while :: "bool \<Rightarrow> int \<Rightarrow> int" where
  "count_while b n = (if b then n + 1 else 0)"

lemma count_while_simps [simp]: "count_while True n = n + 1" "count_while False n = 0"
  by (simp_all add: count_while_def)

lemma count_while_run:
  "fold count_while bs 0 = int (length (takeWhile id (rev bs)))"
  by (induction bs rule: rev_induct) (simp_all add: count_while_def)

lemma count_while_nonneg: "0 \<le> n \<Longrightarrow> 0 \<le> count_while b n"
  by (simp add: count_while_def)

lemma take_takeWhile_prefix: "k \<le> length (takeWhile P xs) \<Longrightarrow> list_all P (take k xs)"
proof -
  assume "k \<le> length (takeWhile P xs)"
  then have "take k xs = take k (takeWhile P xs)"
    by (metis min.absorb1 takeWhile_eq_take take_take)
  then show ?thesis
    by (auto simp: list_all_iff dest!: in_set_takeD dest: set_takeWhileD)
qed

text \<open>A counter above \<open>k\<close> means that the last \<open>k + 1\<close> frames all satisfied the condition.\<close>

lemma count_while_above:
  assumes "int k < fold count_while bs 0"
  shows "k < length bs \<and> (\<forall>b\<in>set (drop (length bs - Suc k) bs). b)"
proof -
  have len: "Suc k \<le> length (takeWhile id (rev bs))"
    using assms by (simp add: count_while_run)
  moreover have "length (takeWhile id (rev bs)) \<le> length bs"
    by (metis length_rev length_takeWhile_le)
  ultimately have "k < length bs"
    by simp
  moreover have "list_all id (take (Suc k) (rev bs))"
    using take_takeWhile_prefix [OF len] .
  then have "\<forall>b\<in>set (drop (length bs - Suc k) bs). b"
    by (simp add: take_rev list_all_iff)
  ultimately show ?thesis
    by blast
qed

text \<open>Conversely a run of at least \<open>k + 1\<close> frames brings the counter above \<open>k\<close>.\<close>

lemma count_while_reaches:
  assumes "\<forall>b\<in>set bs. b" "0 \<le> n"
  shows "fold count_while bs n = n + int (length bs)"
  using assms by (induction bs arbitrary: n) (auto simp: count_while_def)

end
