(* ===== verification/ExcessiveActuation.thy ===== *)
theory ExcessiveActuation
  imports Counters Platform EventsBase
begin

text \<open>
  \<open>selfdrive/selfdrived/helpers.py\<close>: the check for actuation beyond the limits. The pose comes from
  \<open>locationd\<close>; \<open>sin\<close> is the floating point sine of the roll, an argument of the model.
\<close>

datatype ExcessiveActuationType = EA_LONGITUDINAL | EA_LATERAL

record CalibratedPose =
  pose_acceleration_x :: rat
  pose_angular_velocity_yaw :: rat

record ExcessiveActuationCheck =
  excessive_counter :: int
  engaged_counter :: int

definition new_ExcessiveActuationCheck :: ExcessiveActuationCheck where
  "new_ExcessiveActuationCheck = \<lparr>excessive_counter = 0, engaged_counter = 0\<rparr>"

definition MIN_EXCESSIVE_ACTUATION_COUNT :: int where
  "MIN_EXCESSIVE_ACTUATION_COUNT = py_trunc (1/4 / DT_CTRL)"

definition MIN_LATERAL_ENGAGE_BUFFER :: int where
  "MIN_LATERAL_ENGAGE_BUFFER = py_trunc (1 / DT_CTRL)"

text \<open>One frame of input: the messages the check reads.\<close>

record ActuationInput =
  ai_longActive :: bool
  ai_latActive :: bool
  ai_roll :: rat
  ai_CS :: CarState
  ai_pose :: CalibratedPose

definition excessive_long_actuation :: "Opendbc \<Rightarrow> ActuationInput \<Rightarrow> bool" where
  "excessive_long_actuation ob ai \<longleftrightarrow>
     ai_longActive ai \<and> (pose_acceleration_x (ai_pose ai) > ob_ACCEL_MAX ob * 2
                         \<or> pose_acceleration_x (ai_pose ai) < ob_ACCEL_MIN ob * 2)"

definition roll_compensated_lateral_accel :: "Opendbc \<Rightarrow> (rat \<Rightarrow> rat) \<Rightarrow> ActuationInput \<Rightarrow> rat" where
  "roll_compensated_lateral_accel ob sin_fl ai =
     cs_vEgo (ai_CS ai) * pose_angular_velocity_yaw (ai_pose ai)
     - sin_fl (ai_roll ai) * ob_ACCELERATION_DUE_TO_GRAVITY ob"

definition ea_update :: "Opendbc \<Rightarrow> (rat \<Rightarrow> rat) \<Rightarrow> ActuationInput \<Rightarrow> ExcessiveActuationCheck \<Rightarrow>
    ExcessiveActuationCheck \<times> ExcessiveActuationType option" where
  "ea_update ob sin_fl ai st =
     (let excessive_long = excessive_long_actuation ob ai;
          engaged = count_while (ai_latActive ai \<and> \<not> cs_steeringPressed (ai_CS ai)) (engaged_counter st);
          excessive_lat =
            (engaged > MIN_LATERAL_ENGAGE_BUFFER
             \<and> \<bar>roll_compensated_lateral_accel ob sin_fl ai\<bar> > ob_ISO_LATERAL_ACCEL ob * 2);
          livepose_valid = \<bar>cs_aEgo (ai_CS ai) - pose_acceleration_x (ai_pose ai)\<bar> < 2;
          excessive = count_while (livepose_valid \<and> (excessive_long \<or> excessive_lat)) (excessive_counter st)
      in (\<lparr>excessive_counter = excessive, engaged_counter = engaged\<rparr>,
          if excessive > MIN_EXCESSIVE_ACTUATION_COUNT
          then Some (if excessive_long then EA_LONGITUDINAL else EA_LATERAL)
          else None))"

section \<open>What a report means\<close>

lemma ea_constants [simp]: "MIN_EXCESSIVE_ACTUATION_COUNT = 25" "MIN_LATERAL_ENGAGE_BUFFER = 100"
  by (simp_all add: MIN_EXCESSIVE_ACTUATION_COUNT_def MIN_LATERAL_ENGAGE_BUFFER_def DT_CTRL_def py_trunc_def)

definition ea_step :: "Opendbc \<Rightarrow> (rat \<Rightarrow> rat) \<Rightarrow> ActuationInput \<Rightarrow> ExcessiveActuationCheck \<Rightarrow>
    ExcessiveActuationCheck" where
  "ea_step ob sin_fl ai st = fst (ea_update ob sin_fl ai st)"

definition lat_engaged :: "ActuationInput \<Rightarrow> bool" where
  "lat_engaged ai \<longleftrightarrow> ai_latActive ai \<and> \<not> cs_steeringPressed (ai_CS ai)"

text \<open>A necessary condition of the counted frames, independent of the counters.\<close>

definition beyond_limits :: "Opendbc \<Rightarrow> (rat \<Rightarrow> rat) \<Rightarrow> ActuationInput \<Rightarrow> bool" where
  "beyond_limits ob sin_fl ai \<longleftrightarrow>
     \<bar>cs_aEgo (ai_CS ai) - pose_acceleration_x (ai_pose ai)\<bar> < 2
     \<and> (excessive_long_actuation ob ai
        \<or> lat_engaged ai
          \<and> \<bar>roll_compensated_lateral_accel ob sin_fl ai\<bar> > ob_ISO_LATERAL_ACCEL ob * 2)"

lemma engaged_run:
  "engaged_counter (fold (ea_step ob sin_fl) ais st) =
     fold count_while (map lat_engaged ais) (engaged_counter st)"
  by (induction ais arbitrary: st) (simp_all add: ea_step_def ea_update_def Let_def lat_engaged_def)

lemma ea_step_excessive:
  assumes "0 \<le> engaged_counter st" "excessive_counter (ea_step ob sin_fl ai st) \<noteq> 0"
  shows "beyond_limits ob sin_fl ai \<and> excessive_counter (ea_step ob sin_fl ai st) = excessive_counter st + 1"
  using assms
  by (auto simp: ea_step_def ea_update_def Let_def count_while_def beyond_limits_def lat_engaged_def
      split: if_splits)

lemma ea_step_nonneg:
  "0 \<le> engaged_counter st \<and> 0 \<le> excessive_counter st \<Longrightarrow>
     0 \<le> engaged_counter (ea_step ob sin_fl ai st) \<and> 0 \<le> excessive_counter (ea_step ob sin_fl ai st)"
  by (simp add: ea_step_def ea_update_def Let_def count_while_def)

lemma ea_run_nonneg:
  "0 \<le> engaged_counter st \<and> 0 \<le> excessive_counter st \<Longrightarrow>
     0 \<le> engaged_counter (fold (ea_step ob sin_fl) ais st)
     \<and> 0 \<le> excessive_counter (fold (ea_step ob sin_fl) ais st)"
  by (induction ais arbitrary: st) (simp_all add: ea_step_nonneg)

text \<open>The counter never exceeds the length of the current run of frames beyond the limits.\<close>

lemma excessive_run:
  "excessive_counter (fold (ea_step ob sin_fl) ais new_ExcessiveActuationCheck)
     \<le> fold count_while (map (beyond_limits ob sin_fl) ais) 0"
proof (induction ais rule: rev_induct)
  case (snoc ai ais)
  let ?st = "fold (ea_step ob sin_fl) ais new_ExcessiveActuationCheck"
  have "0 \<le> engaged_counter ?st" and nonneg: "0 \<le> fold count_while (map (beyond_limits ob sin_fl) ais) 0"
    using ea_run_nonneg [of new_ExcessiveActuationCheck ob sin_fl ais]
    by (simp_all add: new_ExcessiveActuationCheck_def count_while_run)
  then show ?case
    using ea_step_excessive [of ?st ob sin_fl ai] snoc
    by (cases "excessive_counter (ea_step ob sin_fl ai ?st) = 0"; cases "beyond_limits ob sin_fl ai") auto
qed (simp add: new_ExcessiveActuationCheck_def)

lemma ea_report:
  assumes "snd (ea_update ob sin_fl ai (fold (ea_step ob sin_fl) ais new_ExcessiveActuationCheck)) \<noteq> None"
  shows "25 < length (ais @ [ai])
    \<and> (\<forall>x\<in>set (drop (length (ais @ [ai]) - 26) (ais @ [ai])). beyond_limits ob sin_fl x)"
proof -
  let ?xs = "ais @ [ai]"
  have "25 < excessive_counter (fold (ea_step ob sin_fl) ?xs new_ExcessiveActuationCheck)"
    using assms by (auto simp: ea_step_def ea_update_def Let_def split: if_splits)
  then have "int 25 < fold count_while (map (beyond_limits ob sin_fl) ?xs) 0"
    using excessive_run [of ob sin_fl ?xs] by simp
  from count_while_above [OF this] show ?thesis
    by (simp add: drop_map)
qed

text \<open>A lateral report also needs the steering engaged and untouched for more than a second.\<close>

lemma ea_report_lateral:
  assumes "snd (ea_update ob sin_fl ai (fold (ea_step ob sin_fl) ais new_ExcessiveActuationCheck))
      = Some EA_LATERAL"
  shows "100 < length (ais @ [ai])
    \<and> (\<forall>x\<in>set (drop (length (ais @ [ai]) - 101) (ais @ [ai])). lat_engaged x)"
proof -
  let ?xs = "ais @ [ai]"
  have "100 < engaged_counter (fold (ea_step ob sin_fl) ?xs new_ExcessiveActuationCheck)"
    using assms by (auto simp: ea_step_def ea_update_def Let_def count_while_def split: if_splits)
  then have "int 100 < fold count_while (map lat_engaged ?xs) 0"
    using engaged_run [of ob sin_fl ?xs new_ExcessiveActuationCheck]
    by (simp add: new_ExcessiveActuationCheck_def)
  from count_while_above [OF this] show ?thesis
    by (simp add: drop_map)
qed

section \<open>Properties\<close>

text \<open>A report of excessive actuation is never the result of a short spike: the last 26 frames
  (a quarter of a second) were all beyond the limits with a plausible pose, and for a lateral report
  steering was engaged and untouched in each of the last 101 frames.\<close>

theorem actuation_report_is_sustained:
  assumes "snd (ea_update ob sin_fl ai (fold (ea_step ob sin_fl) ais new_ExcessiveActuationCheck)) = Some t"
  shows "25 < length (ais @ [ai])
    \<and> list_all (beyond_limits ob sin_fl) (drop (length (ais @ [ai]) - 26) (ais @ [ai]))
    \<and> (t = EA_LATERAL \<longrightarrow> 100 < length (ais @ [ai])
         \<and> list_all lat_engaged (drop (length (ais @ [ai]) - 101) (ais @ [ai])))"
  using ea_report [of ob sin_fl ai ais] ea_report_lateral [of ob sin_fl ai ais] assms
  by (simp add: list_all_iff)

definition braking_hard :: ActuationInput where
  "braking_hard = \<lparr>ai_longActive = True, ai_latActive = False, ai_roll = 0,
     ai_CS = default_CarState\<lparr>cs_aEgo := -9\<rparr>,
     ai_pose = \<lparr>pose_acceleration_x = -9, pose_angular_velocity_yaw = 0\<rparr>\<rparr>"

lemma hard_braking_step:
  "ea_update plain_ob (\<lambda>x. x) braking_hard st =
     (\<lparr>excessive_counter = excessive_counter st + 1, engaged_counter = 0\<rparr>,
      if excessive_counter st + 1 > 25 then Some EA_LONGITUDINAL else None)"
  by (simp add: ea_update_def Let_def excessive_long_actuation_def braking_hard_def plain_ob_def)

lemma hard_braking_run:
  "fold (ea_step plain_ob (\<lambda>x. x)) (replicate n braking_hard) new_ExcessiveActuationCheck =
     \<lparr>excessive_counter = int n, engaged_counter = 0\<rparr>"
proof (induction n)
  case (Suc n)
  then show ?case
    by (simp add: replicate_append_same [symmetric] ea_step_def hard_braking_step del: replicate_Suc replicate.simps(2))
qed (simp add: new_ExcessiveActuationCheck_def)

theorem actuation_report_is_sustained_witness:
  "snd (ea_update plain_ob (\<lambda>x. x) braking_hard
     (fold (ea_step plain_ob (\<lambda>x. x)) (replicate 25 braking_hard) new_ExcessiveActuationCheck)) = Some EA_LONGITUDINAL
   \<and> beyond_limits plain_ob (\<lambda>x. x) braking_hard"
proof -
  have r: "snd (ea_update plain_ob (\<lambda>x. x) braking_hard
     (fold (ea_step plain_ob (\<lambda>x. x)) (replicate 25 braking_hard) new_ExcessiveActuationCheck)) = Some EA_LONGITUDINAL"
    unfolding hard_braking_run by (simp add: hard_braking_step)
  show ?thesis
    using actuation_report_is_sustained [OF r] r by simp
qed

end
