(* ===== verification/Icbm.thy ===== *)
theory Icbm
  imports ButtonTimers Platform EventsBase
begin

text \<open>
  \<open>sunnypilot/selfdrive/car/intelligent_cruise_button_management\<close>: on cars whose cruise control can
  only be set by its buttons, the controller presses plus and minus until the cluster shows the
  target. \<open>apply_hysteresis\<close> is a function of \<open>opendbc\<close>.
\<close>

section \<open>Class IntelligentCruiseButtonManagement\<close>

datatype IcbmState = I_inactive | I_preActive | I_increasing | I_decreasing | I_holding

datatype SendButtonState = SB_none | SB_increase | SB_decrease

definition INACTIVE_TIMER :: rat where "INACTIVE_TIMER = 4/10"
definition HYST_GAP :: rat where "HYST_GAP = 0"

definition get_minimum_set_speed :: "bool \<Rightarrow> int" where
  "get_minimum_set_speed is_metric = (if is_metric then 30 else 20)"

record Icbm =
  v_target :: int
  v_cruise_cluster :: int
  v_cruise_min :: int
  cruise_button :: SendButtonState
  icbm_state :: IcbmState
  pre_active_timer :: int
  is_ready :: bool
  is_ready_prev :: bool
  v_target_ms_last :: rat
  icbm_is_metric :: bool
  cruise_button_timers :: timers

definition new_Icbm :: Icbm where
  "new_Icbm =
     \<lparr>v_target = 0, v_cruise_cluster = 0, v_cruise_min = 0, cruise_button = SB_none,
      icbm_state = I_inactive, pre_active_timer = 0, is_ready = False, is_ready_prev = False,
      v_target_ms_last = 0, icbm_is_metric = False, cruise_button_timers = CRUISE_BUTTON_TIMER\<rparr>"

definition v_cruise_equal :: "Icbm \<Rightarrow> bool" where
  "v_cruise_equal ic \<longleftrightarrow> v_target ic = v_cruise_cluster ic"

definition icbm_update_calculations :: "Opendbc \<Rightarrow> CarState \<Rightarrow> rat \<Rightarrow> Icbm \<Rightarrow> Icbm" where
  "icbm_update_calculations ob CS vTarget ic =
     (let speed_conv = (if icbm_is_metric ic then MS_TO_KPH else MS_TO_MPH);
          ms_conv = (if icbm_is_metric ic then KPH_TO_MS else MPH_TO_MS);
          last = ob_apply_hysteresis ob vTarget (v_target_ms_last ic) (HYST_GAP * ms_conv)
      in ic\<lparr>v_target_ms_last := last,
            v_target := py_round (last * speed_conv),
            v_cruise_min := get_minimum_set_speed (icbm_is_metric ic),
            v_cruise_cluster := py_round (cr_speedCluster (cs_cruiseState CS) * speed_conv)\<rparr>)"

definition send_button_for :: "IcbmState \<Rightarrow> SendButtonState" where
  "send_button_for s =
     (case s of I_increasing \<Rightarrow> SB_increase | I_decreasing \<Rightarrow> SB_decrease | _ \<Rightarrow> SB_none)"

definition icbm_update_state_machine :: "Icbm \<Rightarrow> Icbm \<times> SendButtonState" where
  "icbm_update_state_machine ic0 =
     (let ic = ic0\<lparr>pre_active_timer := max 0 (pre_active_timer ic0 - 1)\<rparr>;
          ic1 =
            (if icbm_state ic \<noteq> I_inactive then
               (if \<not> is_ready ic then ic\<lparr>icbm_state := I_inactive\<rparr>
                else (case icbm_state ic of
                   I_preActive \<Rightarrow>
                     if pre_active_timer ic \<le> 0 then
                       (if v_cruise_equal ic then ic\<lparr>icbm_state := I_holding\<rparr>
                        else if v_target ic > v_cruise_cluster ic then ic\<lparr>icbm_state := I_increasing\<rparr>
                        else if v_target ic < v_cruise_cluster ic \<and> v_cruise_cluster ic > v_cruise_min ic
                        then ic\<lparr>icbm_state := I_decreasing\<rparr>
                        else ic)
                     else ic
                 | I_holding \<Rightarrow>
                     if \<not> v_cruise_equal ic then ic\<lparr>icbm_state := I_preActive\<rparr> else ic
                 | I_increasing \<Rightarrow>
                     if v_target ic \<le> v_cruise_cluster ic then ic\<lparr>icbm_state := I_holding\<rparr> else ic
                 | I_decreasing \<Rightarrow>
                     if v_target ic \<ge> v_cruise_cluster ic \<or> v_cruise_cluster ic \<le> v_cruise_min ic
                     then ic\<lparr>icbm_state := I_holding\<rparr> else ic
                 | I_inactive \<Rightarrow> ic))
             else
               (if is_ready ic \<and> \<not> is_ready_prev ic
                then ic\<lparr>pre_active_timer := py_trunc (INACTIVE_TIMER / DT_CTRL),
                        icbm_state := I_preActive\<rparr>
                else ic))
      in (ic1, send_button_for (icbm_state ic1)))"

definition update_readiness :: "CarState \<Rightarrow> CarControl \<Rightarrow> Icbm \<Rightarrow> Icbm" where
  "update_readiness CS CC ic =
     (let timers = update_manual_button_timers CS (cruise_button_timers ic);
          ready = cc_enabled CC \<and> \<not> cc_cruise_override CC \<and> \<not> cc_cruise_cancel CC
                  \<and> \<not> cc_cruise_resume CC
      in ic\<lparr>cruise_button_timers := timers, is_ready := ready \<and> \<not> button_pressed timers\<rparr>)"

definition icbm_run :: "Opendbc \<Rightarrow> CarParamsSP \<Rightarrow> CarState \<Rightarrow> CarControl \<Rightarrow> rat \<Rightarrow> bool \<Rightarrow> Icbm \<Rightarrow> Icbm" where
  "icbm_run ob CP_SP CS CC vTarget metric ic =
     (if cpsp_pcmCruiseSpeed CP_SP then ic
      else
        (let ic1 = ic\<lparr>icbm_is_metric := metric\<rparr>;
             ic2 = icbm_update_calculations ob CS vTarget ic1;
             ic3 = update_readiness CS CC ic2;
             (ic4, button) = icbm_update_state_machine ic3
         in ic4\<lparr>cruise_button := button, is_ready_prev := is_ready ic4\<rparr>))"

section \<open>The transitions\<close>

inductive icbm_move :: "Icbm \<Rightarrow> IcbmState \<Rightarrow> bool" for ic where
  lose: "\<not> is_ready ic \<Longrightarrow> icbm_move ic I_inactive"
| stay_inactive: "icbm_state ic = I_inactive \<Longrightarrow> is_ready_prev ic \<Longrightarrow> icbm_move ic I_inactive"
| start: "icbm_state ic = I_inactive \<Longrightarrow> is_ready ic \<Longrightarrow> \<not> is_ready_prev ic \<Longrightarrow> icbm_move ic I_preActive"
| wait: "icbm_state ic = I_preActive \<Longrightarrow> is_ready ic \<Longrightarrow>
    1 < pre_active_timer ic \<or> v_target ic < v_cruise_cluster ic \<and> v_cruise_cluster ic \<le> v_cruise_min ic \<Longrightarrow>
    icbm_move ic I_preActive"
| reached: "icbm_state ic = I_preActive \<Longrightarrow> is_ready ic \<Longrightarrow> pre_active_timer ic \<le> 1 \<Longrightarrow>
    v_target ic = v_cruise_cluster ic \<Longrightarrow> icbm_move ic I_holding"
| up: "icbm_state ic \<in> {I_preActive, I_increasing} \<Longrightarrow> is_ready ic \<Longrightarrow>
    icbm_state ic = I_preActive \<longrightarrow> pre_active_timer ic \<le> 1 \<Longrightarrow>
    v_target ic > v_cruise_cluster ic \<Longrightarrow> icbm_move ic I_increasing"
| down: "icbm_state ic \<in> {I_preActive, I_decreasing} \<Longrightarrow> is_ready ic \<Longrightarrow>
    icbm_state ic = I_preActive \<longrightarrow> pre_active_timer ic \<le> 1 \<Longrightarrow>
    v_target ic < v_cruise_cluster ic \<Longrightarrow> v_cruise_cluster ic > v_cruise_min ic \<Longrightarrow>
    icbm_move ic I_decreasing"
| up_done: "icbm_state ic = I_increasing \<Longrightarrow> is_ready ic \<Longrightarrow> v_target ic \<le> v_cruise_cluster ic \<Longrightarrow>
    icbm_move ic I_holding"
| down_done: "icbm_state ic = I_decreasing \<Longrightarrow> is_ready ic \<Longrightarrow>
    v_target ic \<ge> v_cruise_cluster ic \<or> v_cruise_cluster ic \<le> v_cruise_min ic \<Longrightarrow>
    icbm_move ic I_holding"
| hold: "icbm_state ic = I_holding \<Longrightarrow> is_ready ic \<Longrightarrow>
    icbm_move ic (if v_target ic = v_cruise_cluster ic then I_holding else I_preActive)"

lemma icbm_timer_frames [simp]: "py_trunc (INACTIVE_TIMER / DT_CTRL) = 40"
  by (simp add: INACTIVE_TIMER_def DT_CTRL_def py_trunc_def)

lemma icbm_machine_moves:
  "icbm_move ic (icbm_state (fst (icbm_update_state_machine ic)))"
proof (cases "is_ready ic")
  case False
  then have "icbm_state (fst (icbm_update_state_machine ic)) = I_inactive"
    by (cases "icbm_state ic") (simp_all add: icbm_update_state_machine_def Let_def)
  then show ?thesis
    using False by (simp add: lose)
next
  case True
  show ?thesis
    using True
    by (cases "icbm_state ic")
      (auto simp: icbm_update_state_machine_def Let_def v_cruise_equal_def icbm_move.simps)
qed

lemma icbm_machine_frame:
  "v_target (fst (icbm_update_state_machine ic)) = v_target ic"
  "v_cruise_cluster (fst (icbm_update_state_machine ic)) = v_cruise_cluster ic"
  "v_cruise_min (fst (icbm_update_state_machine ic)) = v_cruise_min ic"
  "is_ready (fst (icbm_update_state_machine ic)) = is_ready ic"
  "cruise_button_timers (fst (icbm_update_state_machine ic)) = cruise_button_timers ic"
  "snd (icbm_update_state_machine ic) = send_button_for (icbm_state (fst (icbm_update_state_machine ic)))"
  by (cases "icbm_state ic"; simp add: icbm_update_state_machine_def Let_def)+

section \<open>Buttons are only pressed towards the target\<close>

lemma send_increase: "send_button_for s = SB_increase \<longleftrightarrow> s = I_increasing"
  by (cases s) (simp_all add: send_button_for_def)

lemma send_decrease: "send_button_for s = SB_decrease \<longleftrightarrow> s = I_decreasing"
  by (cases s) (simp_all add: send_button_for_def)

lemma icbm_machine_increase:
  "snd (icbm_update_state_machine ic) = SB_increase \<Longrightarrow> is_ready ic \<and> v_target ic > v_cruise_cluster ic"
  using icbm_machine_moves [of ic] by (auto simp: icbm_machine_frame(6) send_increase icbm_move.simps split: if_splits)

lemma icbm_machine_decrease:
  "snd (icbm_update_state_machine ic) = SB_decrease \<Longrightarrow>
     is_ready ic \<and> v_target ic < v_cruise_cluster ic \<and> v_cruise_cluster ic > v_cruise_min ic"
  using icbm_machine_moves [of ic] by (auto simp: icbm_machine_frame(6) send_decrease icbm_move.simps split: if_splits)

text \<open>Nothing is sent while a button of the driver is held, or cruise control is not in charge.\<close>

lemma icbm_run_button:
  assumes "\<not> cpsp_pcmCruiseSpeed CP_SP" "ic' = icbm_run ob CP_SP CS CC vTarget metric ic"
  shows "cruise_button ic' = SB_increase \<Longrightarrow> v_target ic' > v_cruise_cluster ic'"
    and "cruise_button ic' = SB_decrease \<Longrightarrow> v_target ic' < v_cruise_cluster ic'
      \<and> v_cruise_cluster ic' > get_minimum_set_speed metric"
    and "cruise_button ic' \<noteq> SB_none \<Longrightarrow> cc_enabled CC \<and> \<not> cc_cruise_override CC
      \<and> \<not> cc_cruise_cancel CC \<and> \<not> cc_cruise_resume CC \<and> \<not> button_pressed (cruise_button_timers ic')"
proof -
  define ic3 where "ic3 = update_readiness CS CC (icbm_update_calculations ob CS vTarget
    (ic\<lparr>icbm_is_metric := metric\<rparr>))"
  have ic': "ic' = (fst (icbm_update_state_machine ic3))
      \<lparr>cruise_button := snd (icbm_update_state_machine ic3), is_ready_prev := is_ready ic3\<rparr>"
    using assms by (simp add: icbm_run_def ic3_def Let_def split_def icbm_machine_frame)
  have ready: "is_ready ic3 \<longleftrightarrow> cc_enabled CC \<and> \<not> cc_cruise_override CC \<and> \<not> cc_cruise_cancel CC
      \<and> \<not> cc_cruise_resume CC \<and> \<not> button_pressed (cruise_button_timers ic3)"
    and min: "v_cruise_min ic3 = get_minimum_set_speed metric"
    by (auto simp: ic3_def update_readiness_def icbm_update_calculations_def Let_def)
  show "cruise_button ic' = SB_increase \<Longrightarrow> v_target ic' > v_cruise_cluster ic'"
    using icbm_machine_increase [of ic3] by (simp add: ic' icbm_machine_frame)
  show "cruise_button ic' = SB_decrease \<Longrightarrow> v_target ic' < v_cruise_cluster ic'
      \<and> v_cruise_cluster ic' > get_minimum_set_speed metric"
    using icbm_machine_decrease [of ic3] min by (simp add: ic' icbm_machine_frame)
  show "cruise_button ic' \<noteq> SB_none \<Longrightarrow> cc_enabled CC \<and> \<not> cc_cruise_override CC
      \<and> \<not> cc_cruise_cancel CC \<and> \<not> cc_cruise_resume CC \<and> \<not> button_pressed (cruise_button_timers ic')"
    using icbm_machine_increase [of ic3] icbm_machine_decrease [of ic3] ready
    by (cases "cruise_button ic'") (simp_all add: ic' icbm_machine_frame)
qed

section \<open>Convergence\<close>

text \<open>
  The closed loop with a car whose cluster speed follows the buttons by one unit per frame, the
  controller being ready and the target constant.
\<close>

definition button_delta :: "SendButtonState \<Rightarrow> int" where
  "button_delta b = (case b of SB_none \<Rightarrow> 0 | SB_increase \<Rightarrow> 1 | SB_decrease \<Rightarrow> -1)"

definition loop_step :: "Icbm \<Rightarrow> Icbm" where
  "loop_step ic =
     (let p = ic\<lparr>v_cruise_cluster := v_cruise_cluster ic + button_delta (cruise_button ic)\<rparr>;
          r = icbm_update_state_machine p
      in (fst r)\<lparr>cruise_button := snd r\<rparr>)"

definition settled :: "Icbm \<Rightarrow> bool" where
  "settled ic \<longleftrightarrow> is_ready ic \<and> icbm_state ic = I_holding \<and> cruise_button ic = SB_none
     \<and> v_cruise_cluster ic = v_target ic"

lemmas loop_defs = loop_step_def Let_def icbm_update_state_machine_def button_delta_def
  v_cruise_equal_def send_button_for_def

lemma loop_frame:
  "is_ready (loop_step ic) = is_ready ic"
  "v_target (loop_step ic) = v_target ic"
  "v_cruise_min (loop_step ic) = v_cruise_min ic"
  "v_cruise_cluster (loop_step ic) = v_cruise_cluster ic + button_delta (cruise_button ic)"
  "cruise_button (loop_step ic) = send_button_for (icbm_state (loop_step ic))"
  by (simp_all add: loop_step_def Let_def icbm_machine_frame)

lemma loop_state:
  assumes "is_ready ic"
  shows "icbm_state ic = I_holding \<Longrightarrow> cruise_button ic = SB_none \<Longrightarrow>
      v_cruise_cluster ic = v_target ic \<Longrightarrow> icbm_state (loop_step ic) = I_holding"
    and "icbm_state ic = I_increasing \<Longrightarrow> cruise_button ic = SB_increase \<Longrightarrow>
      icbm_state (loop_step ic) = (if v_target ic \<le> v_cruise_cluster ic + 1 then I_holding else I_increasing)"
    and "icbm_state ic = I_decreasing \<Longrightarrow> cruise_button ic = SB_decrease \<Longrightarrow> v_cruise_min ic \<le> v_target ic \<Longrightarrow>
      icbm_state (loop_step ic) = (if v_target ic \<ge> v_cruise_cluster ic - 1 then I_holding else I_decreasing)"
    and "icbm_state ic = I_preActive \<Longrightarrow> cruise_button ic = SB_none \<Longrightarrow> pre_active_timer ic \<le> 1 \<Longrightarrow>
      v_cruise_min ic \<le> v_target ic \<Longrightarrow> icbm_state (loop_step ic) =
        (if v_target ic = v_cruise_cluster ic then I_holding
         else if v_target ic > v_cruise_cluster ic then I_increasing else I_decreasing)"
  using assms by (simp_all add: loop_defs)

lemma loop_settled: "settled ic \<Longrightarrow> settled ((loop_step ^^ n) ic)"
proof (induction n)
  case (Suc n)
  then show ?case
    by (simp add: settled_def loop_frame loop_state send_button_for_def button_delta_def)
qed simp

lemma loop_up:
  assumes "is_ready ic" "icbm_state ic = I_increasing" "cruise_button ic = SB_increase"
    "v_target ic = v_cruise_cluster ic + int (Suc n)"
  shows "settled ((loop_step ^^ Suc n) ic)"
  using assms
proof (induction n arbitrary: ic)
  case 0
  then have "icbm_state (loop_step ic) = I_holding"
    by (simp add: loop_state)
  with 0 show ?case
    by (simp add: settled_def loop_frame send_button_for_def button_delta_def)
next
  case (Suc n)
  have "icbm_state (loop_step ic) = I_increasing"
    using Suc.prems by (simp add: loop_state)
  then have "settled ((loop_step ^^ Suc n) (loop_step ic))"
    using Suc.prems by (intro Suc.IH) (simp_all add: loop_frame send_button_for_def button_delta_def)
  then show ?case
    by (metis comp_apply funpow_Suc_right)
qed

lemma loop_down:
  assumes "is_ready ic" "icbm_state ic = I_decreasing" "cruise_button ic = SB_decrease"
    "v_cruise_cluster ic = v_target ic + int (Suc n)" "v_cruise_min ic \<le> v_target ic"
  shows "settled ((loop_step ^^ Suc n) ic)"
  using assms
proof (induction n arbitrary: ic)
  case 0
  then have "icbm_state (loop_step ic) = I_holding"
    by (simp add: loop_state)
  with 0 show ?case
    by (simp add: settled_def loop_frame send_button_for_def button_delta_def)
next
  case (Suc n)
  have "icbm_state (loop_step ic) = I_decreasing"
    using Suc.prems by (simp add: loop_state)
  then have "settled ((loop_step ^^ Suc n) (loop_step ic))"
    using Suc.prems by (intro Suc.IH) (simp_all add: loop_frame send_button_for_def button_delta_def)
  then show ?case
    by (metis comp_apply funpow_Suc_right)
qed

text \<open>From the armed state the target is reached in one frame more than the distance to it.\<close>

lemma loop_converges:
  assumes "is_ready ic" "icbm_state ic = I_preActive" "cruise_button ic = SB_none"
    "pre_active_timer ic \<le> 1" "v_cruise_min ic \<le> v_target ic"
  shows "settled ((loop_step ^^ Suc (nat \<bar>v_target ic - v_cruise_cluster ic\<bar>)) ic)"
proof -
  note first = loop_state(4) [OF assms(1,2,3,4,5)]
  note frame = loop_frame send_button_for_def button_delta_def
  consider "v_target ic = v_cruise_cluster ic"
    | n where "v_target ic = v_cruise_cluster ic + int (Suc n)"
    | n where "v_cruise_cluster ic = v_target ic + int (Suc n)"
    by (metis less_iff_Suc_add nat_less_iff zless_iff_Suc_zadd linorder_less_linear)
  then show ?thesis
  proof cases
    case 1
    then show ?thesis
      using assms first by (simp add: settled_def frame)
  next
    case (2 n)
    have "settled ((loop_step ^^ Suc n) (loop_step ic))"
      using 2 assms first by (intro loop_up) (simp_all add: frame)
    moreover have "nat \<bar>v_target ic - v_cruise_cluster ic\<bar> = Suc n"
      using 2 by simp
    ultimately show ?thesis
      by (metis comp_apply funpow_Suc_right)
  next
    case (3 n)
    have "settled ((loop_step ^^ Suc n) (loop_step ic))"
      using 3 assms first by (intro loop_down) (simp_all add: frame)
    moreover have "nat \<bar>v_target ic - v_cruise_cluster ic\<bar> = Suc n"
      using 3 by simp
    ultimately show ?thesis
      by (metis comp_apply funpow_Suc_right)
  qed
qed

section \<open>Properties\<close>

text \<open>A cruise button is only sent towards the target, never below the minimum set speed, and
  only while openpilot controls the car, cruise control is neither overridden nor cancelled nor resumed,
  and the driver holds no cruise button.\<close>

theorem button_moves_towards_target:
  assumes "\<not> cpsp_pcmCruiseSpeed CP_SP" "icbm_run ob CP_SP CS CC vTarget metric ic = ic'"
  shows "(cruise_button ic' = SB_increase \<longrightarrow> v_cruise_cluster ic' < v_target ic')
    \<and> (cruise_button ic' = SB_decrease \<longrightarrow> v_target ic' < v_cruise_cluster ic'
         \<and> get_minimum_set_speed metric < v_cruise_cluster ic')
    \<and> (cruise_button ic' \<noteq> SB_none \<longrightarrow> cc_enabled CC \<and> \<not> cc_cruise_override CC \<and> \<not> cc_cruise_cancel CC
         \<and> \<not> cc_cruise_resume CC \<and> \<not> button_pressed (cruise_button_timers ic'))"
  using icbm_run_button [OF assms(1) assms(2) [symmetric]] by blast

definition icbm_CC :: CarControl where
  "icbm_CC = \<lparr>cc_enabled = True, cc_latActive = True, cc_longActive = False, cc_accel = 0,
     cc_torque = 0, cc_cruise_override = False, cc_cruise_cancel = False, cc_cruise_resume = False\<rparr>"

definition icbm_CP_SP :: CarParamsSP where
  "icbm_CP_SP = \<lparr>cpsp_flags = 0, cpsp_safetyParam = 0, cpsp_pcmCruiseSpeed = False,
     cpsp_enableGasInterceptor = False, cpsp_icbmAvailable = True\<rparr>"

theorem button_moves_towards_target_witness:
  "let ic = icbm_run plain_ob icbm_CP_SP default_CarState icbm_CC 25 True (new_Icbm\<lparr>icbm_state := I_increasing\<rparr>)
   in cruise_button ic = SB_increase \<and> v_cruise_cluster ic < v_target ic"
proof -
  let ?ic = "icbm_run plain_ob icbm_CP_SP default_CarState icbm_CC 25 True (new_Icbm\<lparr>icbm_state := I_increasing\<rparr>)"
  have "cruise_button ?ic = SB_increase"
    by code_simp
  then show ?thesis
    using button_moves_towards_target [OF _ refl, of icbm_CP_SP plain_ob default_CarState icbm_CC 25 True
        "new_Icbm\<lparr>icbm_state := I_increasing\<rparr>"] by (simp add: icbm_CP_SP_def Let_def)
qed

text \<open>In the closed loop with a car that changes its set speed by one unit per pressed
  button, a ready controller whose start timer has run out brings the cluster speed to the target and
  stops pressing, after one frame more than the distance, and stays there for ever.\<close>

theorem icbm_reaches_target:
  assumes "is_ready ic" "icbm_state ic = I_preActive" "cruise_button ic = SB_none"
    "pre_active_timer ic \<le> 1" "v_cruise_min ic \<le> v_target ic"
    "nat \<bar>v_target ic - v_cruise_cluster ic\<bar> < n"
  shows "icbm_state ((loop_step ^^ n) ic) = I_holding \<and> cruise_button ((loop_step ^^ n) ic) = SB_none
    \<and> v_cruise_cluster ((loop_step ^^ n) ic) = v_target ((loop_step ^^ n) ic)"
proof -
  let ?k = "Suc (nat \<bar>v_target ic - v_cruise_cluster ic\<bar>)"
  have "n = (n - ?k) + ?k"
    using assms(6) by simp
  then have "(loop_step ^^ n) ic = (loop_step ^^ (n - ?k)) ((loop_step ^^ ?k) ic)"
    by (metis comp_apply funpow_add)
  moreover have "settled ((loop_step ^^ ?k) ic)"
    by (rule loop_converges [OF assms(1-5)])
  ultimately have "settled ((loop_step ^^ n) ic)"
    using loop_settled by metis
  then show ?thesis
    by (simp add: settled_def)
qed

theorem icbm_reaches_target_witness:
  "icbm_state ((loop_step ^^ 10) (new_Icbm\<lparr>icbm_state := I_preActive, is_ready := True, v_target := 65,
     v_cruise_cluster := 60, v_cruise_min := 30\<rparr>)) = I_holding"
  using icbm_reaches_target [of "new_Icbm\<lparr>icbm_state := I_preActive, is_ready := True, v_target := 65,
     v_cruise_cluster := 60, v_cruise_min := 30\<rparr>" 10] by (simp add: new_Icbm_def)

end
