(* ===== verification/SelfdriveD.thy ===== *)
theory SelfdriveD
  imports AlertManager Mads CarSpecific CruiseHelper ExcessiveActuation Icbm
begin

text \<open>
  \<open>selfdrive/selfdrived/selfdrived.py\<close>: the process that computes the onroad events from the messages of
  the other processes, runs the engagement state machines on them and picks the alert to show. One
  call of \<open>step\<close> is a function of the state and the inputs of the frame: the car state that arrived,
  the messages and the clock of the subscriber, the calibrated pose, whether the loop lags, and the
  available camera streams. Logging is left out. Long methods are split where the code has comments.
\<close>

section \<open>Configuration, state, inputs\<close>

record SdConfig =
  cf_env :: Env
  cf_ob :: Opendbc
  cf_opendbc_DT :: rat \<comment> \<open>\<open>opendbc.car.DT_CTRL\<close>\<close>
  cf_CP :: CarParams
  cf_CP_SP :: CarParamsSP
  cf_dflt :: "string \<Rightarrow> int"
  cf_OFFROAD :: "string \<rightharpoonup> OffroadAlert"
  cf_gps_service :: string
  cf_sin :: "rat \<Rightarrow> rat"

record SelfdriveD =
  sd_params :: Params
  sd_offroad :: "string \<rightharpoonup> OffroadAlert"
  sd_is_metric :: bool
  is_ldw_enabled :: bool
  sd_disengage_on_accelerator :: bool
  sd_experimental_mode :: bool
  personality :: int
  CS_prev :: CarState
  AM :: AlertManager
  sd_logs :: logs
  initialized :: bool
  sd_enabled :: bool
  sd_active :: bool
  mismatch_counter :: int
  cruise_mismatch_counter :: int
  last_steering_pressed_frame :: int
  distance_traveled :: rat
  last_functional_fan_frame :: int
  events_prev :: "event list"
  events_sp_prev :: "event list"
  recalibrating_seen :: bool
  dm_lockout_set :: bool
  dm_uncertain_alerted :: bool
  excessive_actuation :: bool
  calibrated_pose :: "CalibratedPose option"
  startup_event :: "event option"
  state_machine :: StateMachine
  mads :: Mads
  icbm :: Icbm
  sd_car_events :: CarSpecificEvents
  car_events_sp_low :: bool
  cruise_helper :: CruiseHelper
  excessive_actuation_check :: ExcessiveActuationCheck
  sd_sm :: "SdData SubMaster"

record FrameInput =
  fi_CS :: "CarState option"
  fi_time :: rat
  fi_msgs :: "SdData Msg option list"
  fi_pose :: CalibratedPose
  fi_lagging :: bool
  fi_stream_road :: bool
  fi_stream_wide :: bool

definition emit :: "(bool \<times> event) list \<Rightarrow> SelfdriveD \<Rightarrow> SelfdriveD" where
  "emit gs sd = sd\<lparr>sd_logs := (add_guarded gs (fst (sd_logs sd)), snd (sd_logs sd))\<rparr>"

definition emit_sp :: "(bool \<times> event) list \<Rightarrow> SelfdriveD \<Rightarrow> SelfdriveD" where
  "emit_sp gs sd = sd\<lparr>sd_logs := (fst (sd_logs sd), add_guarded gs (snd (sd_logs sd)))\<rparr>"

definition dat :: "SelfdriveD \<Rightarrow> SdData" where
  "dat sd = data (sd_sm sd)"

definition offroad_alert :: "SdConfig \<Rightarrow> string \<Rightarrow> string option \<Rightarrow> SelfdriveD \<Rightarrow> SelfdriveD option" where
  "offroad_alert cf name extra sd =
     map_option (\<lambda>p. sd\<lparr>sd_offroad := p\<rparr>)
       (set_offroad_alert (cf_OFFROAD cf) name True extra (sd_offroad sd))"

section \<open>Startup\<close>

definition startup_event_of :: "SdConfig \<Rightarrow> bool \<Rightarrow> bool \<Rightarrow> event option" where
  "startup_event_of cf is_remote tested_channel =
     (let car_recognized = (cp_brand (cf_CP cf) \<noteq> ''mock'');
          e0 = (if is_remote \<and> tested_channel then Some EN_startup else Some EN_startupMaster);
          e1 = (if env_mici (cf_env cf) then None else e0)
      in if \<not> car_recognized then Some EN_startupNoCar
         else if cp_passive (cf_CP cf) then Some EN_startupNoControl
         else if cp_secOcRequired (cf_CP cf) \<and> \<not> cp_secOcKeyAvailable (cf_CP cf)
         then Some EN_startupNoSecOcKey
         else e1)"

definition camera_packets :: "string list" where
  "camera_packets = [''roadCameraState'', ''driverCameraState'', ''wideRoadCameraState'']"

definition sensor_packets :: "string list" where
  "sensor_packets = [''accelerometer'', ''gyroscope'']"

definition sd_ignore :: "SdConfig \<Rightarrow> string list" where
  "sd_ignore cf =
     sensor_packets @ [cf_gps_service cf] @ [''alertDebug'', ''lateralManeuverPlan''] @ [''modelDataV2SP'']
     @ (if env_SIMULATION (cf_env cf) then [''driverCameraState'', ''managerState''] else [])
     @ (if env_REPLAY (cf_env cf) then [''roadCameraState'', ''wideRoadCameraState''] else [])"

definition sd_services :: "SdConfig \<Rightarrow> string list" where
  "sd_services cf =
     [''deviceState'', ''pandaStates'', ''peripheralState'', ''modelV2'', ''liveCalibration'',
      ''carOutput'', ''driverMonitoringState'', ''longitudinalPlan'', ''livePose'', ''liveDelay'',
      ''managerState'', ''liveParameters'', ''radarState'', ''liveTorqueParameters'',
      ''controlsState'', ''carControl'', ''driverAssistance'', ''alertDebug'', ''userBookmark'',
      ''audioFeedback'', ''lateralManeuverPlan'', ''modelDataV2SP'', ''longitudinalPlanSP'']
     @ camera_packets @ sensor_packets @ [cf_gps_service cf]"

text \<open>
  \<open>__init__\<close>: \<open>d\<close> are the message defaults, \<open>remote\<close> and \<open>tested\<close> come from the build metadata. First the
  attributes, given the stored parameters and the personality read from them.
\<close>

definition initial_SelfdriveD :: "SdConfig \<Rightarrow> bool \<Rightarrow> bool \<Rightarrow> int \<Rightarrow> Params \<Rightarrow>
    (string \<rightharpoonup> OffroadAlert) \<Rightarrow> SdData \<Rightarrow> SelfdriveD" where
  "initial_SelfdriveD cf remote tested pers params offroad0 d =
     (let CP = cf_CP cf;
          ev0 = init_events (EVENTS (cf_env cf))
      in \<lparr>sd_params = params, sd_offroad = offroad0,
          sd_is_metric = get_bool params ''IsMetric'',
          is_ldw_enabled = get_bool params ''IsLdwEnabled'',
          sd_disengage_on_accelerator = get_bool params ''DisengageOnAccelerator'',
          sd_experimental_mode = False, personality = pers, CS_prev = default_CarState,
          AM = new_AlertManager,
          sd_logs =
            ((if cp_brand CP = ''mock'' then add_static ev0 EN_carUnrecognized
              else if cp_passive CP then add_static ev0 EN_dashcamMode else ev0),
             init_events (EVENTS_SP (cf_env cf))),
          initialized = False, sd_enabled = False, sd_active = False, mismatch_counter = 0,
          cruise_mismatch_counter = 0, last_steering_pressed_frame = 0, distance_traveled = 0,
          last_functional_fan_frame = 0, events_prev = [], events_sp_prev = [],
          recalibrating_seen = False, dm_lockout_set = False, dm_uncertain_alerted = False,
          excessive_actuation = (offroad0 ''Offroad_ExcessiveActuation'' \<noteq> None),
          calibrated_pose = None, startup_event = startup_event_of cf remote tested,
          state_machine = new_StateMachine,
          mads = new_Mads (cf_ob cf) CP (cf_CP_SP cf) (cf_dflt cf) params, icbm = new_Icbm,
          sd_car_events = new_CarSpecificEvents, car_events_sp_low = False,
          cruise_helper = new_CruiseHelper,
          excessive_actuation_check = new_ExcessiveActuationCheck,
          sd_sm = new_SubMaster (sd_services cf) None (sd_ignore cf) (sd_ignore cf) (sd_ignore cf)
            (of_int (py_trunc (1 / DT_CTRL))) (env_SIMULATION (cf_env cf)) d\<rparr>)"

definition new_SelfdriveD :: "SdConfig \<Rightarrow> bool \<Rightarrow> bool \<Rightarrow> Params \<Rightarrow> (string \<rightharpoonup> OffroadAlert) \<Rightarrow> SdData \<Rightarrow>
    SelfdriveD option" where
  "new_SelfdriveD cf remote tested params0 offroad0 d =
     (let CP = cf_CP cf;
          params1 = (if \<not> cp_alphaLongitudinalAvailable CP
                     then params0(''AlphaLongitudinalEnabled'' := None) else params0);
          params2 = (if \<not> cp_openpilotLongitudinalControl CP
                     then params1(''ExperimentalMode'' := None) else params1);
          (pers, params3) = get_sanitize_int_param (cf_dflt cf) ''LongitudinalPersonality'' 0 2 params2;
          sd = initial_SelfdriveD cf remote tested pers params3 offroad0 d
      in if cp_brand CP = ''mock'' then offroad_alert cf ''Offroad_CarUnrecognized'' None sd else Some sd)"

section \<open>update\_events\<close>

subsection \<open>Startup and user events\<close>

definition ue_begin :: "SelfdriveD \<Rightarrow> SelfdriveD" where
  "ue_begin sd0 =
     (let sd1 = sd0\<lparr>sd_logs := (clear (fst (sd_logs sd0)), clear (snd (sd_logs sd0)))\<rparr>;
          joystick = d_lat_debugState (dat sd1);
          lat_maneuver = recv_frame (sd_sm sd1) ''lateralManeuverPlan'' > 0;
          long_maneuver = \<not> lat_maneuver \<and> recv_frame (sd_sm sd1) ''alertDebug'' > 0;
          sd2 = emit [(joystick, EN_joystickDebug), (lat_maneuver, EN_lateralManeuver),
                      (long_maneuver, EN_longitudinalManeuver)] sd1;
          sd3 = (if joystick \<or> lat_maneuver \<or> long_maneuver then sd2\<lparr>startup_event := None\<rparr> else sd2)
      in (case startup_event sd3 of
            None \<Rightarrow> sd3
          | Some e \<Rightarrow> (emit [(True, e)] sd3)\<lparr>startup_event := None\<rparr>))"

definition ue_feedback :: "SelfdriveD \<Rightarrow> SelfdriveD" where
  "ue_feedback sd =
     emit [(updated (sd_sm sd) ''userBookmark'', EN_userBookmark),
           (updated (sd_sm sd) ''audioFeedback'', EN_audioFeedback)] sd"

definition ue_resume :: "SdConfig \<Rightarrow> CarState \<Rightarrow> SelfdriveD \<Rightarrow> SelfdriveD" where
  "ue_resume cf CS sd =
     (let resume_pressed = list_ex (\<lambda>be. be_type be \<in> {BT_accelCruise, BT_resumeCruise}) (cs_buttonEvents CS)
      in emit [(\<not> cp_pcmCruise (cf_CP cf) \<and> cs_vCruise CS > 250 \<and> resume_pressed, EN_resumeBlocked)] sd)"

subsection \<open>Driver monitoring\<close>

definition dm_alert :: "SdData \<Rightarrow> (bool \<times> event) list" where
  "dm_alert d =
     (let vision_dm = (d_dm_activePolicy d = MP_vision)
      in case d_dm_alertLevel d of
           AL_one \<Rightarrow> [(True, if vision_dm then EN_driverDistracted1 else EN_driverUnresponsive1)]
         | AL_two \<Rightarrow> [(True, if vision_dm then EN_driverDistracted2 else EN_driverUnresponsive2)]
         | AL_three \<Rightarrow> [(True, if vision_dm then EN_driverDistracted3 else EN_driverUnresponsive3)]
         | AL_none \<Rightarrow> [])"

definition ue_driver :: "SdConfig \<Rightarrow> SelfdriveD \<Rightarrow> SelfdriveD option" where
  "ue_driver cf sd =
     (if cp_notCar (cf_CP cf) then Some sd
      else
        (let d = dat sd;
             sd1 = (if d_dm_lockout d \<and> \<not> dm_lockout_set sd
                    then sd\<lparr>sd_params := put_bool ''DriverTooDistracted'' True (sd_params sd),
                            dm_lockout_set := True\<rparr>
                    else sd);
             sd2 = emit [(d_dm_lockout d \<or> d_dm_alwaysOnLockout d, EN_tooDistracted)] sd1;
             sd3 = emit (dm_alert d) sd2
         in do {
           sd4 \<leftarrow> (if d_dm_uncertainPercent d \<ge> 100 \<and> \<not> dm_uncertain_alerted sd3
                   then map_option (\<lambda>s. s\<lparr>dm_uncertain_alerted := True\<rparr>)
                          (offroad_alert cf ''Offroad_DriverMonitoringUncertain'' None sd3)
                   else Some sd3);
           Some (sd4\<lparr>sd_logs := (fst (sd_logs sd4), add_from_msg (snd (sd_logs sd4)) (d_lpsp_events d))\<rparr>)
         }))"

subsection \<open>Car events\<close>

definition pedal_pressed :: "bool \<Rightarrow> CarState \<Rightarrow> CarState \<Rightarrow> bool" where
  "pedal_pressed disengage_on_accelerator CSp CS \<longleftrightarrow>
     (cs_gasPressed CS \<and> \<not> cs_gasPressed CSp \<and> disengage_on_accelerator)
     \<or> (cs_brakePressed CS \<and> (\<not> cs_brakePressed CSp \<or> \<not> cs_standstill CS))
     \<or> (cs_regenBraking CS \<and> (\<not> cs_regenBraking CSp \<or> \<not> cs_standstill CS))"

definition ue_car :: "SdConfig \<Rightarrow> CarState \<Rightarrow> SelfdriveD \<Rightarrow> SelfdriveD option" where
  "ue_car cf CS sd =
     (if \<not> cs_canValid CS then Some sd
      else
        (let m = EVENTS (cf_env cf);
             m_sp = EVENTS_SP (cf_env cf);
             (cse, cev) = car_events_update m (cf_ob cf) (cf_opendbc_DT cf) (cf_CP cf) CS (CS_prev sd)
                            (d_carControl (dat sd)) (sd_car_events sd);
             ev1 = add_from_msg (fst (sd_logs sd)) (map fst (to_msg m cev))
         in do {
           (low, ev2, cev_sp) \<leftarrow> car_events_sp_update m_sp (cf_ob cf) (cf_CP cf) (cf_CP_SP cf) CS ev1
                                  (car_events_sp_low sd);
           let sd1 = sd\<lparr>sd_car_events := cse, car_events_sp_low := low,
                        sd_logs := (ev2, add_from_msg (snd (sd_logs sd)) (map fst (to_msg m_sp cev_sp)))\<rparr>;
           Some (emit [(cp_notCar (cf_CP cf) \<and> frame (sd_sm sd1) > py_trunc (2 / DT_CTRL) \<and> initialized sd1,
                        EN_pcmEnable),
                       (pedal_pressed (sd_disengage_on_accelerator sd1) (CS_prev sd1) CS, EN_pedalPressed)]
                   sd1)
         }))"

subsection \<open>Device, calibration, lane departure\<close>

definition ue_device :: "SdConfig \<Rightarrow> SelfdriveD \<Rightarrow> SelfdriveD" where
  "ue_device cf sd0 =
     (let d = dat sd0;
          sim = env_SIMULATION (cf_env cf);
          sd = emit [(thermal_value (d_thermalStatus d) \<ge> thermal_value TH_overheated, EN_overheat),
                     (d_freeSpacePercent d < 7 \<and> \<not> sim, EN_outOfSpace),
                     (d_memoryUsagePercent d > 90 \<and> \<not> sim, EN_lowMemory)] sd0
      in if \<not> d_pandaType_unknown d then
           (if d_fanSpeedRpm d < 500 \<and> d_fanSpeedPercentDesired d > 50
            then emit [(of_int (frame (sd_sm sd) - last_functional_fan_frame sd) * DT_CTRL > 15,
                        EN_fanMalfunction)] sd
            else sd\<lparr>last_functional_fan_frame := frame (sd_sm sd)\<rparr>)
         else sd)"

definition ue_calibration :: "SdConfig \<Rightarrow> SelfdriveD \<Rightarrow> SelfdriveD option" where
  "ue_calibration cf sd =
     (case d_calStatus (dat sd) of
        CAL_calibrated \<Rightarrow> Some sd
      | CAL_uncalibrated \<Rightarrow> Some (emit [(True, EN_calibrationIncomplete)] sd)
      | CAL_recalibrating \<Rightarrow> do {
          sd1 \<leftarrow> (if \<not> recalibrating_seen sd then offroad_alert cf ''Offroad_Recalibration'' None sd
                  else Some sd);
          Some (emit [(True, EN_calibrationRecalibrating)] (sd1\<lparr>recalibrating_seen := True\<rparr>))
        }
      | CAL_invalid \<Rightarrow> Some (emit [(True, EN_calibrationInvalid)] sd))"

definition ue_ldw :: "SelfdriveD \<Rightarrow> SelfdriveD" where
  "ue_ldw sd =
     emit [(is_ldw_enabled sd \<and> valid (sd_sm sd) ''driverAssistance''
            \<and> (d_leftLaneDeparture (dat sd) \<or> d_rightLaneDeparture (dat sd)), EN_ldw)] sd"

subsection \<open>Excessive actuation\<close>

text \<open>The calibrated pose of the frame, \<open>pose\<close>, is the one \<open>locationd\<close>'s calibrator builds.\<close>

definition ea_name :: "ExcessiveActuationType \<Rightarrow> string" where
  "ea_name t = (case t of EA_LONGITUDINAL \<Rightarrow> ''longitudinal'' | EA_LATERAL \<Rightarrow> ''lateral'')"

definition actuation_check :: "SdConfig \<Rightarrow> CarState \<Rightarrow> CalibratedPose \<Rightarrow> SelfdriveD \<Rightarrow> SelfdriveD option" where
  "actuation_check cf CS p sd =
     (let ai = \<lparr>ai_longActive = cc_longActive (d_carControl (dat sd)),
                ai_latActive = cc_latActive (d_carControl (dat sd)),
                ai_roll = d_roll (dat sd), ai_CS = CS, ai_pose = p\<rparr>;
          r = ea_update (cf_ob cf) (cf_sin cf) ai (excessive_actuation_check sd);
          sd1 = sd\<lparr>excessive_actuation_check := fst r\<rparr>
      in (case snd r of
            None \<Rightarrow> Some sd1
          | Some t \<Rightarrow>
              if \<not> excessive_actuation sd1
              then map_option (\<lambda>s. s\<lparr>excessive_actuation := True\<rparr>)
                     (offroad_alert cf ''Offroad_ExcessiveActuation'' (Some (ea_name t)) sd1)
              else Some sd1))"

definition ue_actuation :: "SdConfig \<Rightarrow> CalibratedPose \<Rightarrow> CarState \<Rightarrow> SelfdriveD \<Rightarrow> SelfdriveD option" where
  "ue_actuation cf pose CS sd0 =
     (let sd = (if updated (sd_sm sd0) ''livePose'' then sd0\<lparr>calibrated_pose := Some pose\<rparr> else sd0)
      in do {
        sd2 \<leftarrow> (case calibrated_pose sd of None \<Rightarrow> Some sd | Some p \<Rightarrow> actuation_check cf CS p sd);
        Some (emit [(excessive_actuation sd2, EN_excessiveActuation)] sd2)
      })"

subsection \<open>Lane change and turn, safety of the pandas\<close>

definition ue_lane :: "CarState \<Rightarrow> SelfdriveD \<Rightarrow> SelfdriveD" where
  "ue_lane CS sd0 =
     (let d = dat sd0;
          direction = d_laneChangeDirection d;
          pre = (d_laneChangeState d = LC_preLaneChange);
          blocked = ((cs_leftBlindspot CS \<and> direction = LCD_left)
                     \<or> (cs_rightBlindspot CS \<and> direction = LCD_right));
          sd = emit [(pre \<and> blocked, EN_laneChangeBlocked),
                     (pre \<and> \<not> blocked \<and> direction = LCD_left, EN_preLaneChangeLeft),
                     (pre \<and> \<not> blocked \<and> direction \<noteq> LCD_left, EN_preLaneChangeRight),
                     (d_laneChangeState d \<in> {LC_laneChangeStarting, LC_laneChangeFinishing},
                      EN_laneChange)] sd0
      in emit_sp [(d_laneTurnDirection d = TD_turnLeft, ENSP_laneTurnLeft),
                  (d_laneTurnDirection d = TD_turnRight, ENSP_laneTurnRight)] sd)"

definition safety_mismatch :: "CarParams \<Rightarrow> nat \<Rightarrow> PandaState \<Rightarrow> bool" where
  "safety_mismatch CP i ps =
     (if i < length (cp_safetyConfigs CP) then
        (let sc = cp_safetyConfigs CP ! i
         in ps_safetyModel ps \<noteq> sc_safetyModel sc \<or> ps_safetyParam ps \<noteq> sc_safetyParam sc
            \<or> ps_alternativeExperience ps \<noteq> cp_alternativeExperience CP)
      else ps_safetyModel ps \<notin> set IGNORED_SAFETY_MODES)"

definition panda_guards :: "CarParams \<Rightarrow> int \<Rightarrow> int \<Rightarrow> nat \<Rightarrow> PandaState \<Rightarrow> (bool \<times> event) list" where
  "panda_guards CP fr mismatches i ps =
     [((safety_mismatch CP i ps \<and> of_int fr * DT_CTRL > 10) \<or> ps_safetyRxChecksInvalid ps
       \<or> mismatches \<ge> 200, EN_controlsMismatch),
      (ps_relayMalfunction ps, EN_relayMalfunction)]"

definition ue_pandas :: "SdConfig \<Rightarrow> SelfdriveD \<Rightarrow> SelfdriveD" where
  "ue_pandas cf sd =
     emit (concat (map (\<lambda>(i, ps). panda_guards (cf_CP cf) (frame (sd_sm sd)) (mismatch_counter sd) i ps)
             (enumerate 0 (d_pandaStates (dat sd))))) sd"

subsection \<open>Hardware and system malfunctions\<close>

definition ignored_processes :: "string list" where
  "ignored_processes = [''mapd'']"

definition not_running :: "SdData \<Rightarrow> string list" where
  "not_running d = map pr_name (filter (\<lambda>p. \<not> pr_running p \<and> pr_shouldBeRunning p) (d_processes d))"

definition system_guards :: "SdConfig \<Rightarrow> bool \<Rightarrow> CarState \<Rightarrow> SelfdriveD \<Rightarrow> (bool \<times> event) list" where
  "system_guards cf lagging CS sd =
     (let sm = sd_sm sd;
          d = dat sd;
          sim = env_SIMULATION (cf_env cf);
          dead = (recv_frame sm ''managerState'' \<noteq> 0
                  \<and> list_ex (\<lambda>p. p \<notin> set ignored_processes) (not_running d));
          cameras = (\<not> dead \<and> \<not> sim \<and> \<not> lagging);
          cam_alive = all_alive sm camera_packets;
          radar_can = d_radar_canError d;
          radar_tmp = d_radar_unavailableTemporary d
      in [(dead, EN_processNotRunning),
          (cameras \<and> \<not> cam_alive, EN_cameraMalfunction),
          (cameras \<and> cam_alive \<and> \<not> all_freq_ok sm camera_packets, EN_cameraFrameRate),
          (\<not> env_REPLAY (cf_env cf) \<and> lagging, EN_selfdrivedLagging),
          (radar_can, EN_canError),
          (\<not> radar_can \<and> radar_tmp, EN_radarTempUnavailable),
          (\<not> radar_can \<and> \<not> radar_tmp \<and> d_radar_other_error d, EN_radarFault),
          (\<not> valid sm ''pandaStates'', EN_usbError),
          (cs_canTimeout CS, EN_canBusMissing),
          (\<not> cs_canTimeout CS \<and> \<not> cs_canValid CS, EN_canError)])"

definition ue_system :: "SdConfig \<Rightarrow> bool \<Rightarrow> CarState \<Rightarrow> SelfdriveD \<Rightarrow> SelfdriveD" where
  "ue_system cf lagging CS sd =
     (let num_events = length (events (fst (sd_logs sd)));
          sd1 = emit (system_guards cf lagging CS sd) sd;
          ev = fst (sd_logs sd1);
          has = (\<lambda>t. contains (EVENTS (cf_env cf)) ev (ET_key t));
          has_disable_events = has NO_ENTRY \<and> (has SOFT_DISABLE \<or> has IMMEDIATE_DISABLE);
          no_system_errors = \<not> has_disable_events \<or> length (events ev) = num_events;
          sm = sd_sm sd1
      in if \<not> all_checks sm [] \<and> no_system_errors
         then emit [(\<not> all_alive sm [], EN_commIssue),
                    (all_alive sm [] \<and> \<not> all_freq_ok sm [], EN_commIssueAvgFreq),
                    (all_alive sm [] \<and> all_freq_ok sm [], EN_commIssue)] sd1
         else sd1)"

definition ue_localization :: "SdConfig \<Rightarrow> SelfdriveD \<Rightarrow> SelfdriveD" where
  "ue_localization cf sd =
     (let d = dat sd;
          env = cf_env cf;
          sm = sd_sm sd;
          car = \<not> cp_notCar (cf_CP cf)
      in emit [(car \<and> \<not> d_posenetOK d, EN_posenetInvalid),
               (car \<and> \<not> d_inputsOK d, EN_locationdTemporaryError),
               (car \<and> \<not> d_params_valid d \<and> d_calStatus d = CAL_calibrated
                \<and> \<not> env_TESTING_CLOSET env \<and> (\<not> env_SIMULATION env \<or> env_REPLAY env),
                EN_paramsdTemporaryError),
               (list_ex (\<lambda>s. of_int (frame sm - recv_frame sm s) * DT_CTRL > 10) sensor_packets,
                EN_sensorDataInvalid)] sd)"

subsection \<open>Cruise, steering, collision and GPS\<close>

definition ue_cruise :: "SdConfig \<Rightarrow> CarState \<Rightarrow> SelfdriveD \<Rightarrow> SelfdriveD" where
  "ue_cruise cf CS sd =
     (if \<not> env_REPLAY (cf_env cf) then
        (let cruise_mismatch = cr_enabled (cs_cruiseState CS)
                               \<and> (\<not> sd_enabled sd \<or> \<not> cp_pcmCruise (cf_CP cf));
             sd1 = sd\<lparr>cruise_mismatch_counter := count_while cruise_mismatch (cruise_mismatch_counter sd)\<rparr>
         in emit [(cruise_mismatch_counter sd1 > py_trunc (6 / DT_CTRL), EN_cruiseMismatch)] sd1)
      else sd)"

text \<open>\<open>None\<close> is the \<open>ZeroDivisionError\<close> of the undershooting test.\<close>

definition ue_steer :: "SdConfig \<Rightarrow> CarState \<Rightarrow> SelfdriveD \<Rightarrow> SelfdriveD option" where
  "ue_steer cf CS sd0 =
     (let fr = frame (sd_sm sd0);
          sd = (if cs_steeringPressed CS then sd0\<lparr>last_steering_pressed_frame := fr\<rparr> else sd0);
          recent_steer_pressed = of_int (fr - last_steering_pressed_frame sd) * DT_CTRL < 2;
          d = dat sd
      in if d_lac_active d \<and> \<not> recent_steer_pressed \<and> \<not> cp_notCar (cf_CP cf) then
           (let clipped_speed = max (cs_vEgo CS) (3/10);
                actual = d_curvature d * clipped_speed ^ 2;
                desired = d_desiredCurvature d * clipped_speed ^ 2
            in if 1/1000 + actual = 0 then None
               else
                 (let undershooting = \<bar>desired\<bar> / \<bar>1/1000 + actual\<bar> > 12/10;
                      turning = \<bar>desired\<bar> > 1
                  in Some (emit [(undershooting \<and> turning \<and> d_lac_saturated d, EN_steerSaturated)] sd)))
         else Some sd)"

definition ue_fcw :: "SdConfig \<Rightarrow> CarState \<Rightarrow> SelfdriveD \<Rightarrow> SelfdriveD" where
  "ue_fcw cf CS sd =
     (let d = dat sd;
          stock_long_is_braking = sd_enabled sd \<and> \<not> cp_openpilotLongitudinalControl (cf_CP cf)
                                  \<and> cs_aEgo CS < -5/4;
          model_fcw = d_hardBrakePredicted d \<and> \<not> cs_brakePressed CS \<and> \<not> stock_long_is_braking;
          planner_fcw = d_lp_fcw d \<and> sd_enabled sd
      in emit [((planner_fcw \<or> model_fcw) \<and> \<not> cp_notCar (cf_CP cf), EN_fcw)] sd)"

definition ue_gps :: "SdConfig \<Rightarrow> CarState \<Rightarrow> SelfdriveD \<Rightarrow> SelfdriveD" where
  "ue_gps cf CS sd0 =
     (let sm = sd_sm sd0;
          gps = cf_gps_service cf;
          env = cf_env cf;
          gps_ok = recv_frame sm gps > 0 \<and> of_int (frame sm - recv_frame sm gps) * DT_CTRL < 2;
          sd1 = emit [(\<not> gps_ok \<and> d_inputsOK (dat sd0) \<and> distance_traveled sd0 > 1500, EN_noGps)] sd0;
          sd2 = sd1\<lparr>distance_traveled :=
                  (if gps_ok then 0 else distance_traveled sd1) + \<bar>cs_vEgo CS\<bar> * DT_CTRL\<rparr>
      in emit [((\<not> env_SIMULATION env \<or> env_REPLAY env) \<and> d_frameDropPerc (dat sd2) > 1,
                EN_modeldLagging)] sd2)"

subsection \<open>Cruise buttons\<close>

definition ue_park :: "CarState \<Rightarrow> SelfdriveD \<Rightarrow> SelfdriveD option" where
  "ue_park CS sd =
     (if cs_gearShifter CS = GS_park \<and> md_enabled (mads sd)
      then map_option (\<lambda>p. sd\<lparr>sd_logs := p\<rparr>) (remove_op EN_canBusMissing (sd_logs sd))
      else Some sd)"

definition ue_cruise_helper :: "SdConfig \<Rightarrow> CarState \<Rightarrow> SelfdriveD \<Rightarrow> SelfdriveD" where
  "ue_cruise_helper cf CS sd =
     (case ch_update (cf_CP cf) CS (sd_experimental_mode sd)
             (cruise_helper sd, sd_params sd, snd (sd_logs sd)) of
        (ch, params, sp) \<Rightarrow>
          sd\<lparr>cruise_helper := ch, sd_params := params, sd_logs := (fst (sd_logs sd), sp)\<rparr>)"

definition ue_personality :: "SdConfig \<Rightarrow> CarState \<Rightarrow> SelfdriveD \<Rightarrow> SelfdriveD" where
  "ue_personality cf CS sd =
     (if cp_openpilotLongitudinalControl (cf_CP cf)
         \<and> list_ex (\<lambda>be. \<not> be_pressed be \<and> be_type be = BT_gapAdjustCruise) (cs_buttonEvents CS)
      then
        (let sd1 =
               (if \<not> experimental_mode_switched (cruise_helper sd)
                then (let p = (personality sd - 1) mod 3
                      in emit [(True, EN_personalityChanged)]
                           (sd\<lparr>personality := p,
                               sd_params := (sd_params sd)(''LongitudinalPersonality'' \<mapsto> p)\<rparr>))
                else sd)
         in sd1\<lparr>cruise_helper := (cruise_helper sd1)\<lparr>experimental_mode_switched := False\<rparr>\<rparr>)
      else sd)"

definition ue_icbm :: "SdConfig \<Rightarrow> CarState \<Rightarrow> SelfdriveD \<Rightarrow> SelfdriveD" where
  "ue_icbm cf CS sd =
     sd\<lparr>icbm := icbm_run (cf_ob cf) (cf_CP_SP cf) CS (d_carControl (dat sd)) (d_lpsp_vTarget (dat sd))
                 (sd_is_metric sd) (icbm sd)\<rparr>"

subsection \<open>The method\<close>

definition ue_active :: "SdConfig \<Rightarrow> FrameInput \<Rightarrow> CarState \<Rightarrow> SelfdriveD \<Rightarrow> SelfdriveD option" where
  "ue_active cf fi CS sd0 = do {
     sd1 \<leftarrow> ue_driver cf (ue_resume cf CS sd0);
     sd2 \<leftarrow> ue_car cf CS sd1;
     sd3 \<leftarrow> ue_calibration cf (ue_device cf sd2);
     sd4 \<leftarrow> ue_actuation cf (fi_pose fi) CS (ue_ldw sd3);
     let sd5 = ue_system cf (fi_lagging fi) CS (ue_pandas cf (ue_lane CS sd4));
     sd6 \<leftarrow> ue_steer cf CS (ue_cruise cf CS (ue_localization cf sd5));
     sd7 \<leftarrow> ue_park CS (ue_gps cf CS (ue_fcw cf CS sd6));
     Some (ue_icbm cf CS (ue_personality cf CS (ue_cruise_helper cf CS sd7)))
   }"

definition sd_update_events :: "SdConfig \<Rightarrow> FrameInput \<Rightarrow> CarState \<Rightarrow> SelfdriveD \<Rightarrow> SelfdriveD option" where
  "sd_update_events cf fi CS sd0 =
     (let sd1 = ue_begin sd0
      in if \<not> initialized sd1 then Some (emit [(True, EN_selfdriveInitializing)] sd1)
         else
           (let sd2 = ue_feedback sd1
            in if cp_passive (cf_CP cf) then Some sd2 else ue_active cf fi CS sd2))"

section \<open>The other methods of a step\<close>

text \<open>
  The three ignore lists of the subscriber are the same Python list, so an \<open>append\<close> to two of them
  appends twice to all three.
\<close>

definition ignore_service :: "string \<Rightarrow> 'd SubMaster \<Rightarrow> 'd SubMaster" where
  "ignore_service s sm =
     sm\<lparr>ignore_alive := ignore_alive sm @ [s, s], ignore_valid := ignore_valid sm @ [s, s],
        ignore_average_freq := ignore_average_freq sm @ [s, s]\<rparr>"

definition sd_initialize :: "SdConfig \<Rightarrow> FrameInput \<Rightarrow> CarState \<Rightarrow> SelfdriveD \<Rightarrow> SelfdriveD" where
  "sd_initialize cf fi CS sd =
     (let env = cf_env cf;
          all_valid = cs_canValid CS \<and> all_checks (sd_sm sd) [];
          timed_out = of_int (frame (sd_sm sd)) * DT_CTRL > 6
      in if \<not> initialized sd
            \<and> (all_valid \<or> timed_out \<or> (env_SIMULATION env \<and> \<not> env_REPLAY env)) then
           (let sm1 = (if fi_stream_road fi then sd_sm sd else ignore_service ''roadCameraState'' (sd_sm sd));
                sm2 = (if fi_stream_wide fi then sm1 else ignore_service ''wideRoadCameraState'' sm1);
                ss = (if env_REPLAY env \<and> list_ex ps_controlsAllowed (d_pandaStates (data sm2))
                      then go S_enabled (state_machine sd) else state_machine sd)
            in sd\<lparr>sd_sm := sm2, state_machine := ss, initialized := True\<rparr>)
         else sd)"

definition sd_mismatch :: "SelfdriveD \<Rightarrow> SelfdriveD" where
  "sd_mismatch sd =
     sd\<lparr>mismatch_counter :=
          (if \<not> sd_enabled sd then 0
           else if list_ex (\<lambda>ps. ps_safetyModel ps \<notin> set IGNORED_SAFETY_MODES \<and> \<not> ps_controlsAllowed ps)
                     (d_pandaStates (dat sd))
           then mismatch_counter sd + 1
           else mismatch_counter sd)\<rparr>"

definition sd_data_sample :: "SdConfig \<Rightarrow> FrameInput \<Rightarrow> SelfdriveD \<Rightarrow> (CarState \<times> SelfdriveD) option" where
  "sd_data_sample cf fi sd =
     (let CS = (case fi_CS fi of Some CS \<Rightarrow> CS | None \<Rightarrow> CS_prev sd)
      in do {
        sm' \<leftarrow> update_msgs (fi_time fi) (sd_sm sd) (fi_msgs fi);
        Some (CS, sd_mismatch (sd_initialize cf fi CS (sd\<lparr>sd_sm := sm'\<rparr>)))
      })"

definition LONGITUDINAL_PERSONALITY_MAP :: "int \<Rightarrow> string option" where
  "LONGITUDINAL_PERSONALITY_MAP p =
     (if p = 0 then Some ''aggressive'' else if p = 1 then Some ''standard''
      else if p = 2 then Some ''relaxed'' else None)"

definition sd_clear_types :: "SelfdriveD \<Rightarrow> ET set" where
  "sd_clear_types sd =
     (if WARNING \<notin> set (current_alert_types (state_machine sd)) then {WARNING} else {})
     \<union> (if sd_enabled sd then {NO_ENTRY} else {})"

definition sd_update_alerts :: "SdConfig \<Rightarrow> CarState \<Rightarrow> SelfdriveD \<Rightarrow> SelfdriveD option" where
  "sd_update_alerts cf CS sd = do {
     pers \<leftarrow> LONGITUDINAL_PERSONALITY_MAP (personality sd);
     let args = \<lparr>ca_CP = cf_CP cf, ca_CS = CS, ca_sm = sd_sm sd, ca_metric = sd_is_metric sd,
                 ca_soft_disable_time = soft_disable_timer (state_machine sd), ca_personality = pers\<rparr>;
     let types = current_alert_types (state_machine sd);
     alerts \<leftarrow> create_alerts (EVENTS (cf_env cf)) EVENT_NAME (fst (sd_logs sd)) types args;
     alerts_sp \<leftarrow> create_alerts (EVENTS_SP (cf_env cf)) EVENT_NAME_SP (snd (sd_logs sd)) types args;
     let fr = frame (sd_sm sd);
     Some (sd\<lparr>AM := process_alerts fr (sd_clear_types sd) (add_many fr (alerts @ alerts_sp) (AM sd))\<rparr>)
   }"

record SdOutput =
  out_enabled :: bool
  out_active :: bool
  out_state :: OpenpilotState
  out_engageable :: bool
  out_experimentalMode :: bool
  out_personality :: int
  out_alert :: Alert
  out_onroadEvents :: "(event \<times> ET list) list option"
  out_mads_state :: MadsState
  out_mads_enabled :: bool
  out_mads_active :: bool
  out_mads_available :: bool
  out_icbm_state :: IcbmState
  out_icbm_button :: SendButtonState
  out_icbm_vTarget :: int
  out_onroadEventsSP :: "(event \<times> ET list) list option"

definition publish_selfdriveState :: "SdConfig \<Rightarrow> SelfdriveD \<Rightarrow> SdOutput \<times> SelfdriveD" where
  "publish_selfdriveState cf sd =
     (let m = EVENTS (cf_env cf);
          m_sp = EVENTS_SP (cf_env cf);
          ev = fst (sd_logs sd);
          sp = snd (sd_logs sd);
          second = (frame (sd_sm sd) mod py_trunc (1 / DT_CTRL) = 0)
      in (\<lparr>out_enabled = sd_enabled sd, out_active = sd_active sd,
           out_state = sm_state (state_machine sd),
           out_engageable = \<not> contains m ev (ET_key NO_ENTRY),
           out_experimentalMode = sd_experimental_mode sd, out_personality = personality sd,
           out_alert = current_alert (AM sd),
           out_onroadEvents = (if second \<or> events ev \<noteq> events_prev sd then Some (to_msg m ev) else None),
           out_mads_state = md_state (mads sd), out_mads_enabled = md_enabled (mads sd),
           out_mads_active = md_active (mads sd), out_mads_available = enabled_toggle (mads sd),
           out_icbm_state = icbm_state (icbm sd), out_icbm_button = cruise_button (icbm sd),
           out_icbm_vTarget = v_target (icbm sd),
           out_onroadEventsSP =
             (if second \<or> events sp \<noteq> events_sp_prev sd then Some (to_msg m_sp sp) else None)\<rparr>,
          sd\<lparr>events_prev := events ev, events_sp_prev := events sp\<rparr>))"

definition sd_engage :: "SdConfig \<Rightarrow> SelfdriveD \<Rightarrow> SelfdriveD" where
  "sd_engage cf sd =
     (if \<not> cp_passive (cf_CP cf) \<and> initialized sd then
        (case sm_update (EVENTS (cf_env cf)) (fst (sd_logs sd)) (state_machine sd) of
           (ss, en, act) \<Rightarrow> sd\<lparr>state_machine := ss, sd_enabled := en, sd_active := act\<rparr>)
      else sd)"

definition sd_mads :: "SdConfig \<Rightarrow> CarState \<Rightarrow> SelfdriveD \<Rightarrow> SelfdriveD option" where
  "sd_mads cf CS sd =
     (if \<not> cp_notCar (cf_CP cf) then
        map_option (\<lambda>(md, ss, p). sd\<lparr>mads := md, state_machine := ss, sd_logs := p\<rparr>)
          (md_update (EVENTS (cf_env cf)) (EVENTS_SP (cf_env cf)) (cf_CP cf) (sd_enabled sd)
             (initialized sd) (d_pandaStates (dat sd)) (CS_prev sd) CS
             (mads sd, state_machine sd, sd_logs sd))
      else Some sd)"

definition sd_step :: "SdConfig \<Rightarrow> FrameInput \<Rightarrow> SelfdriveD \<Rightarrow> (SdOutput \<times> SelfdriveD) option" where
  "sd_step cf fi sd0 = do {
     (CS, sd1) \<leftarrow> sd_data_sample cf fi sd0;
     sd2 \<leftarrow> sd_update_events cf fi CS sd1;
     sd3 \<leftarrow> sd_mads cf CS (sd_engage cf sd2);
     sd4 \<leftarrow> sd_update_alerts cf CS sd3;
     let (out, sd5) = publish_selfdriveState cf sd4;
     Some (out, sd5\<lparr>CS_prev := CS\<rparr>)
   }"

text \<open>One round of \<open>params_thread\<close>, on the parameters as they are at that time.\<close>

definition params_thread_round :: "SdConfig \<Rightarrow> Params \<Rightarrow> SelfdriveD \<Rightarrow> SelfdriveD" where
  "params_thread_round cf params sd =
     sd\<lparr>sd_params := params,
        sd_is_metric := get_bool params ''IsMetric'',
        is_ldw_enabled := get_bool params ''IsLdwEnabled'',
        sd_disengage_on_accelerator := get_bool params ''DisengageOnAccelerator'',
        sd_experimental_mode := get_bool params ''ExperimentalMode''
                                \<and> cp_openpilotLongitudinalControl (cf_CP cf),
        personality := get_default (cf_dflt cf) params ''LongitudinalPersonality'',
        mads := read_params params (mads sd)\<rparr>"

end
