(* ===== verification/SelfdriveSteps.thy ===== *)
theory SelfdriveSteps
  imports SelfdriveD
begin

text \<open>
  Lemmas on the steps of \<open>selfdrived\<close>: every section of \<open>update_events\<close> keeps the logs well-formed and
  only adds to them, apart from the three events that the code deletes again; no section raises under
  named conditions on the inputs; and what the state machines do with the resulting logs.
\<close>

section \<open>Extensions of a state\<close>

text \<open>The attributes \<open>update_events\<close> only reads.\<close>

definition core :: "SelfdriveD \<Rightarrow> SdData SubMaster \<times> CarState \<times> bool \<times> StateMachine \<times> Mads \<times>
    bool \<times> bool \<times> bool \<times> int \<times> event option \<times> AlertManager" where
  "core sd = (sd_sm sd, CS_prev sd, sd_disengage_on_accelerator sd, state_machine sd, mads sd,
     initialized sd, sd_enabled sd, sd_active sd, mismatch_counter sd, startup_event sd, AM sd)"

definition personality_ok :: "SelfdriveD \<Rightarrow> bool" where
  "personality_ok sd \<longleftrightarrow> 0 \<le> personality sd \<and> personality sd \<le> 2"

text \<open>The events that a section may delete.\<close>

definition volatile :: "event set" where
  "volatile = {EN_belowSteerSpeed, EN_resumeRequired, EN_canBusMissing}"

definition sd_ext :: "SelfdriveD \<Rightarrow> SelfdriveD \<Rightarrow> bool" where
  "sd_ext s t \<longleftrightarrow> (wf_logs (sd_logs s) \<longrightarrow> wf_logs (sd_logs t)) \<and> core t = core s
     \<and> (personality_ok s \<longrightarrow> personality_ok t)
     \<and> (\<forall>e. e \<notin> volatile \<longrightarrow> has (fst (sd_logs s)) e \<longrightarrow> has (fst (sd_logs t)) e)"

lemma sd_ext_refl [simp]: "sd_ext s s"
  by (simp add: sd_ext_def)

lemma sd_ext_trans: "sd_ext s t \<Longrightarrow> sd_ext t u \<Longrightarrow> sd_ext s u"
  unfolding sd_ext_def by (metis (no_types, lifting))

lemma sd_ext_has: "sd_ext s t \<Longrightarrow> e \<notin> volatile \<Longrightarrow> has (fst (sd_logs s)) e \<Longrightarrow> has (fst (sd_logs t)) e"
  by (simp add: sd_ext_def)

lemma sd_ext_wf: "sd_ext s t \<Longrightarrow> wf_logs (sd_logs s) \<Longrightarrow> wf_logs (sd_logs t)"
  by (simp add: sd_ext_def)

lemma sd_ext_core: "sd_ext s t \<Longrightarrow> core t = core s"
  by (simp add: sd_ext_def)

lemma core_emit [simp]: "core (emit gs sd) = core sd" "core (emit_sp gs sd) = core sd"
  by (simp_all add: core_def emit_def emit_sp_def)

lemma has_emit [simp]:
  "has (fst (sd_logs (emit gs sd))) e \<longleftrightarrow> has (fst (sd_logs sd)) e \<or> (True, e) \<in> set gs"
  by (simp add: emit_def has_add_guarded)

lemma personality_emit [simp]:
  "personality_ok (emit gs sd) = personality_ok sd" "personality_ok (emit_sp gs sd) = personality_ok sd"
  by (simp_all add: personality_ok_def emit_def emit_sp_def)

lemma sd_ext_personality: "sd_ext s t \<Longrightarrow> personality_ok s \<Longrightarrow> personality_ok t"
  by (simp add: sd_ext_def)

lemma ext_emit: "sd_ext s t \<Longrightarrow> snd ` set gs \<subseteq> known_events \<Longrightarrow> sd_ext s (emit gs t)"
  by (auto simp: sd_ext_def, auto simp: emit_def wf_logs_def intro: wf_add_guarded)

lemma ext_emit_sp: "sd_ext s t \<Longrightarrow> snd ` set gs \<subseteq> known_events_sp \<Longrightarrow> sd_ext s (emit_sp gs t)"
  by (simp add: sd_ext_def, simp add: emit_sp_def wf_logs_def wf_add_guarded)

lemma ext_other: "sd_ext s t \<Longrightarrow> core u = core t \<Longrightarrow> sd_logs u = sd_logs t \<Longrightarrow>
    personality u = personality t \<Longrightarrow> sd_ext s u"
  by (simp add: sd_ext_def personality_ok_def)

lemma offroad_ext: "offroad_alert cf n x sd = Some sd' \<Longrightarrow> sd_ext sd sd'"
  by (auto simp: offroad_alert_def sd_ext_def core_def personality_ok_def)

lemma offroad_total: "n \<in> dom (cf_OFFROAD cf) \<Longrightarrow> \<exists>sd'. offroad_alert cf n x sd = Some sd'"
  by (auto simp: offroad_alert_def set_offroad_alert_def)

section \<open>The sections of update\_events\<close>

lemma ext_feedback: "sd_ext sd (ue_feedback sd)"
  by (simp add: ue_feedback_def ext_emit)

lemma ext_resume: "sd_ext sd (ue_resume cf CS sd)"
  by (simp add: ue_resume_def Let_def ext_emit)

lemma dm_alert_known: "snd ` set (dm_alert d) \<subseteq> known_events"
  by (auto simp: dm_alert_def Let_def split: AlertLevel.splits)

lemma ext_driver:
  assumes "ue_driver cf sd = Some sd'" "set (d_lpsp_events (dat sd)) \<subseteq> known_events_sp"
  shows "sd_ext sd sd'"
proof (cases "cp_notCar (cf_CP cf)")
  case False
  define sd1 where "sd1 = (if d_dm_lockout (dat sd) \<and> \<not> dm_lockout_set sd
    then sd\<lparr>sd_params := put_bool ''DriverTooDistracted'' True (sd_params sd), dm_lockout_set := True\<rparr> else sd)"
  define sd3 where "sd3 = emit (dm_alert (dat sd))
    (emit [(d_dm_lockout (dat sd) \<or> d_dm_alwaysOnLockout (dat sd), EN_tooDistracted)] sd1)"
  have "sd_ext sd sd1"
    by (simp add: sd1_def sd_ext_def core_def personality_ok_def)
  then have 3: "sd_ext sd sd3"
    unfolding sd3_def using dm_alert_known by (intro ext_emit) auto
  define q where "q = (if d_dm_uncertainPercent (dat sd) \<ge> 100 \<and> \<not> dm_uncertain_alerted sd3
    then map_option (\<lambda>s. s\<lparr>dm_uncertain_alerted := True\<rparr>)
      (offroad_alert cf ''Offroad_DriverMonitoringUncertain'' None sd3) else Some sd3)"
  have "ue_driver cf sd = Option.bind q (\<lambda>s.
      Some (s\<lparr>sd_logs := (fst (sd_logs s), add_from_msg (snd (sd_logs s)) (d_lpsp_events (dat sd)))\<rparr>))"
    using False by (simp add: ue_driver_def Let_def q_def sd3_def sd1_def)
  then obtain sd4 where q: "q = Some sd4"
    and 4: "sd' = sd4\<lparr>sd_logs := (fst (sd_logs sd4), add_from_msg (snd (sd_logs sd4)) (d_lpsp_events (dat sd)))\<rparr>"
    using assms(1) by (cases q) auto
  have "sd4 = sd3 \<or> (\<exists>y. offroad_alert cf ''Offroad_DriverMonitoringUncertain'' None sd3 = Some y
      \<and> sd4 = y\<lparr>dm_uncertain_alerted := True\<rparr>)"
    using q by (auto simp: q_def split: if_splits)
  then have ext34: "sd_ext sd3 sd4"
  proof (elim disjE exE conjE)
    fix y
    assume "offroad_alert cf ''Offroad_DriverMonitoringUncertain'' None sd3 = Some y"
      and sd4: "sd4 = y\<lparr>dm_uncertain_alerted := True\<rparr>"
    from offroad_ext [OF this(1)] show ?thesis
      by (rule ext_other) (simp_all add: sd4 core_def)
  qed simp
  have "sd_ext sd sd4"
    using 3 ext34 by (rule sd_ext_trans)
  then show ?thesis
    using assms(2) by (simp add: 4 sd_ext_def core_def personality_ok_def wf_logs_def wf_add_from_msg)
qed (use assms in \<open>simp add: ue_driver_def\<close>)

lemma has_add_from_msg: "has (add_from_msg ev es) e \<longleftrightarrow> has ev e \<or> e \<in> set es"
  by (auto simp: has_def set_add_from_msg)

lemma remove_if_has_other:
  assumes "remove_if_has e' ev = Some ev'" "wf_events K ev" "e \<noteq> e'" "has ev e"
  shows "has ev' e"
  using assms remove_eq_Some [OF assms(2), of e'] has_drop_other [OF assms(2,3)]
  by (auto simp: remove_if_has_def split: if_splits)

lemma car_sp_has:
  assumes "car_events_sp_update m_sp ob CP CP_SP CS ev low = Some (low', ev', sp')"
    "wf_events known_events ev" "e \<notin> volatile" "has ev e"
  shows "has ev' e"
proof -
  have e: "e \<noteq> EN_belowSteerSpeed" "e \<noteq> EN_resumeRequired"
    using assms(3) by (auto simp: volatile_def)
  show ?thesis
    using assms(1,4) remove_if_has_other [OF _ assms(2) e(1) assms(4)]
      remove_if_has_other [OF _ assms(2) e(2) assms(4)]
    by (auto simp: car_events_sp_update_def Let_def bind_eq_Some_conv has_add_guarded has_add_if
        split: if_splits)
qed

lemma ext_car:
  assumes "wf_logs (sd_logs sd)"
  shows "\<exists>sd'. ue_car cf CS sd = Some sd' \<and> sd_ext sd sd'
    \<and> (cs_canValid CS \<longrightarrow> pedal_pressed (sd_disengage_on_accelerator sd) (CS_prev sd) CS \<longrightarrow>
        has (fst (sd_logs sd')) EN_pedalPressed)"
proof (cases "cs_canValid CS")
  case True
  let ?m = "EVENTS (cf_env cf)" and ?m_sp = "EVENTS_SP (cf_env cf)"
  define r where "r = car_events_update ?m (cf_ob cf) (cf_opendbc_DT cf) (cf_CP cf) CS (CS_prev sd)
    (d_carControl (dat sd)) (sd_car_events sd)"
  define ev1 where "ev1 = add_from_msg (fst (sd_logs sd)) (map fst (to_msg ?m (snd r)))"
  have "wf_events known_events (snd r)"
    unfolding r_def by (rule wf_car_events_update)
  then have wf1: "wf_events known_events ev1"
    unfolding ev1_def using assms
    by (intro wf_add_from_msg) (auto simp: wf_logs_def wf_events_def to_msg_def)
  obtain low ev2 sp where sp: "car_events_sp_update ?m_sp (cf_ob cf) (cf_CP cf) (cf_CP_SP cf) CS ev1
      (car_events_sp_low sd) = Some (low, ev2, sp)" "wf_events known_events ev2" "events sp = []"
    using car_events_sp_total [OF wf1] by blast
  define sd1 where "sd1 = sd\<lparr>sd_car_events := fst r, car_events_sp_low := low,
    sd_logs := (ev2, add_from_msg (snd (sd_logs sd)) (map fst (to_msg ?m_sp sp)))\<rparr>"
  have "has ev2 e" if "e \<notin> volatile" "has (fst (sd_logs sd)) e" for e
    using car_sp_has [OF sp(1) wf1 that(1)] that(2) by (simp add: ev1_def has_add_from_msg)
  then have ext1: "sd_ext sd sd1"
    using assms sp(2,3) by (simp add: sd_ext_def sd1_def core_def personality_ok_def wf_logs_def to_msg_def)
  let ?gs = "[(cp_notCar (cf_CP cf) \<and> frame (sd_sm sd1) > py_trunc (2 / DT_CTRL) \<and> initialized sd1,
      EN_pcmEnable), (pedal_pressed (sd_disengage_on_accelerator sd1) (CS_prev sd1) CS, EN_pedalPressed)]"
  have "ue_car cf CS sd = Some (emit ?gs sd1)"
    using True sp(1) by (simp add: ue_car_def Let_def split_def flip: r_def ev1_def, simp add: sd1_def)
  moreover have "sd_ext sd (emit ?gs sd1)"
    by (rule ext_emit [OF ext1]) simp
  ultimately show ?thesis
    by (simp add: sd1_def)
qed (simp add: ue_car_def)

lemma ext_device: "sd_ext sd (ue_device cf sd)"
proof -
  define t where "t = emit [(thermal_value (d_thermalStatus (dat sd)) \<ge> thermal_value TH_overheated, EN_overheat),
    (d_freeSpacePercent (dat sd) < 7 \<and> \<not> env_SIMULATION (cf_env cf), EN_outOfSpace),
    (d_memoryUsagePercent (dat sd) > 90 \<and> \<not> env_SIMULATION (cf_env cf), EN_lowMemory)] sd"
  have t: "sd_ext sd t"
    unfolding t_def by (rule ext_emit) auto
  show ?thesis
    unfolding ue_device_def Let_def t_def [symmetric] using t
    by (auto intro: ext_emit ext_other simp: core_def)
qed

lemma ext_calibration: "ue_calibration cf sd = Some sd' \<Longrightarrow> sd_ext sd sd'"
proof -
  assume u: "ue_calibration cf sd = Some sd'"
  show ?thesis
  proof (cases "d_calStatus (dat sd)")
    case CAL_recalibrating
    obtain sd1 where "sd_ext sd sd1"
      "sd' = emit [(True, EN_calibrationRecalibrating)] (sd1\<lparr>recalibrating_seen := True\<rparr>)"
    proof (cases "recalibrating_seen sd")
      case True
      then show ?thesis
        using that [of sd] u CAL_recalibrating by (simp add: ue_calibration_def)
    next
      case False
      then show ?thesis
        using u CAL_recalibrating
        by (auto simp: ue_calibration_def bind_eq_Some_conv intro: that [OF offroad_ext])
    qed
    moreover from this have "sd_ext sd (sd1\<lparr>recalibrating_seen := True\<rparr>)"
      by (auto intro: ext_other simp: core_def)
    ultimately show ?thesis
      by (simp add: ext_emit)
  qed (use u in \<open>auto simp: ue_calibration_def intro: ext_emit\<close>)
qed

lemma ext_ldw: "sd_ext sd (ue_ldw sd)"
  by (simp add: ue_ldw_def ext_emit)

lemma ext_actuation_check:
  assumes "actuation_check cf CS p sd = Some sd'"
  shows "sd_ext sd sd'"
proof -
  define r where "r = ea_update (cf_ob cf) (cf_sin cf)
    \<lparr>ai_longActive = cc_longActive (d_carControl (dat sd)),
     ai_latActive = cc_latActive (d_carControl (dat sd)), ai_roll = d_roll (dat sd), ai_CS = CS, ai_pose = p\<rparr>
    (excessive_actuation_check sd)"
  define t where "t = sd\<lparr>excessive_actuation_check := fst r\<rparr>"
  have t: "sd_ext sd t"
    by (simp add: t_def sd_ext_def core_def personality_ok_def)
  have "sd' = t \<or> (\<exists>y x. offroad_alert cf ''Offroad_ExcessiveActuation'' x t = Some y
      \<and> sd' = y\<lparr>excessive_actuation := True\<rparr>)"
    using assms by (auto simp: actuation_check_def Let_def r_def [symmetric] t_def [symmetric]
        split: option.splits if_splits)
  then show ?thesis
  proof (elim disjE exE conjE)
    fix y x
    assume "offroad_alert cf ''Offroad_ExcessiveActuation'' x t = Some y"
      and sd': "sd' = y\<lparr>excessive_actuation := True\<rparr>"
    then have "sd_ext sd y"
      using sd_ext_trans [OF t offroad_ext] by blast
    then show ?thesis
      by (rule ext_other) (simp_all add: sd' core_def)
  qed (simp add: t)
qed

lemma ext_actuation: "ue_actuation cf pose CS sd = Some sd' \<Longrightarrow> sd_ext sd sd'"
proof -
  assume u: "ue_actuation cf pose CS sd = Some sd'"
  define t where "t = (if updated (sd_sm sd) ''livePose'' then sd\<lparr>calibrated_pose := Some pose\<rparr> else sd)"
  have t: "sd_ext sd t"
    by (simp add: t_def sd_ext_def core_def personality_ok_def)
  obtain sd2 where "sd_ext t sd2" and sd': "sd' = emit [(excessive_actuation sd2, EN_excessiveActuation)] sd2"
    using u
    by (auto simp: ue_actuation_def Let_def bind_eq_Some_conv t_def [symmetric] split: option.splits
        intro: that [OF sd_ext_refl] that [OF ext_actuation_check])
  then have "sd_ext sd sd2"
    using t sd_ext_trans by blast
  then show ?thesis
    unfolding sd' by (rule ext_emit) auto
qed

lemma ext_lane: "sd_ext sd (ue_lane CS sd)"
  by (auto simp: ue_lane_def Let_def intro!: ext_emit_sp ext_emit)

lemma ext_pandas: "sd_ext sd (ue_pandas cf sd)"
  by (auto simp: ue_pandas_def panda_guards_def intro!: ext_emit)

lemma ext_system: "sd_ext sd (ue_system cf lag CS sd)"
  by (auto simp: ue_system_def Let_def system_guards_def intro!: ext_emit)

lemma ext_localization: "sd_ext sd (ue_localization cf sd)"
  by (auto simp: ue_localization_def Let_def intro!: ext_emit)

lemma ext_cruise: "sd_ext sd (ue_cruise cf CS sd)"
proof -
  have "sd_ext sd (sd\<lparr>cruise_mismatch_counter := x\<rparr>)" for x
    by (simp add: sd_ext_def core_def personality_ok_def)
  then show ?thesis
    unfolding ue_cruise_def Let_def by (auto intro!: ext_emit)
qed

lemma ext_steer: "ue_steer cf CS sd = Some sd' \<Longrightarrow> sd_ext sd sd'"
proof -
  assume u: "ue_steer cf CS sd = Some sd'"
  define t where "t = (if cs_steeringPressed CS then sd\<lparr>last_steering_pressed_frame := frame (sd_sm sd)\<rparr> else sd)"
  have "sd_ext sd t"
    by (simp add: t_def sd_ext_def core_def personality_ok_def)
  then show ?thesis
    using u by (auto simp: ue_steer_def Let_def t_def [symmetric] split: if_splits intro: ext_emit)
qed

lemma ext_fcw: "sd_ext sd (ue_fcw cf CS sd)"
  by (auto simp: ue_fcw_def Let_def intro!: ext_emit)

lemma ext_gps: "sd_ext sd (ue_gps cf CS sd)"
proof -
  define t where "t = emit [(\<not> (recv_frame (sd_sm sd) (cf_gps_service cf) > 0 \<and>
      of_int (frame (sd_sm sd) - recv_frame (sd_sm sd) (cf_gps_service cf)) * DT_CTRL < 2)
      \<and> d_inputsOK (dat sd) \<and> distance_traveled sd > 1500, EN_noGps)] sd"
  have "sd_ext sd t"
    unfolding t_def by (rule ext_emit) auto
  then have "sd_ext sd (t\<lparr>distance_traveled := x\<rparr>)" for x
    by (rule ext_other) (simp_all add: core_def)
  then show ?thesis
    unfolding ue_gps_def Let_def t_def [symmetric] by (rule ext_emit) auto
qed

lemma ext_park:
  assumes "wf_logs (sd_logs sd)"
  shows "\<exists>sd'. ue_park CS sd = Some sd' \<and> sd_ext sd sd'"
proof (cases "cs_gearShifter CS = GS_park \<and> md_enabled (mads sd)")
  case True
  define p where "p = (drop_event (fst (sd_logs sd)) EN_canBusMissing, snd (sd_logs sd))"
  have "ue_park CS sd = Some (sd\<lparr>sd_logs := p\<rparr>)"
    using True remove_op_effect(1) [OF assms] by (simp add: ue_park_def p_def)
  moreover have "has (fst p) e" if "e \<notin> volatile" "has (fst (sd_logs sd)) e" for e
    using that assms has_drop_other [of known_events "fst (sd_logs sd)" e EN_canBusMissing]
    by (auto simp: p_def wf_logs_def volatile_def)
  ultimately show ?thesis
    using remove_op_effect(2) [OF assms] by (simp add: sd_ext_def core_def personality_ok_def p_def)
qed (auto simp: ue_park_def)

lemma ext_cruise_helper: "sd_ext sd (ue_cruise_helper cf CS sd)"
proof -
  obtain ch params sp where u: "ch_update (cf_CP cf) CS (sd_experimental_mode sd)
      (cruise_helper sd, sd_params sd, snd (sd_logs sd)) = (ch, params, sp)"
    by (metis prod_cases3)
  have "wf_logs (sd_logs sd) \<Longrightarrow> wf_events known_events_sp sp"
    using wf_ch_update [of "snd (sd_logs sd)" "cf_CP cf" CS "sd_experimental_mode sd" "cruise_helper sd" "sd_params sd"]
    by (simp add: u wf_logs_def)
  then show ?thesis
    by (simp add: ue_cruise_helper_def u sd_ext_def core_def personality_ok_def wf_logs_def)
qed

lemma ext_personality: "sd_ext sd (ue_personality cf CS sd)"
proof -
  have 1: "sd_ext sd (sd\<lparr>personality := x, sd_params := y\<rparr>)" if "0 \<le> x" "x \<le> 2" for x y
    using that by (simp add: sd_ext_def core_def personality_ok_def)
  have 2: "sd_ext sd (emit [(True, EN_personalityChanged)] (sd\<lparr>personality := x mod 3, sd_params := y\<rparr>))" for x y
  proof (rule ext_emit [OF 1])
    show "0 \<le> x mod 3" "x mod 3 \<le> 2"
      using pos_mod_bound [of 3 x] by simp_all
  qed auto
  have 3: "sd_ext sd (u\<lparr>cruise_helper := z\<rparr>)" if "sd_ext sd u" for u z
    by (rule ext_other [OF that]) (simp_all add: core_def)
  show ?thesis
    unfolding ue_personality_def Let_def using 2 by (auto intro!: 3)
qed

lemma ext_icbm: "sd_ext sd (ue_icbm cf CS sd)"
  by (simp add: ue_icbm_def sd_ext_def core_def personality_ok_def)

section \<open>No section raises\<close>

text \<open>
  The inputs under which \<open>update_events\<close> cannot raise: the offroad alerts it sets are in the file, the
  planner only sends events of the table, and the curvature does not cancel the constant in the
  undershooting quotient exactly.
\<close>

definition sd_offroad_names :: "string set" where
  "sd_offroad_names = {''Offroad_DriverMonitoringUncertain'', ''Offroad_Recalibration'',
     ''Offroad_ExcessiveActuation''}"

definition frame_ok :: "SdConfig \<Rightarrow> CarState \<Rightarrow> SdData \<Rightarrow> bool" where
  "frame_ok cf CS d \<longleftrightarrow> sd_offroad_names \<subseteq> dom (cf_OFFROAD cf)
     \<and> set (d_lpsp_events d) \<subseteq> known_events_sp
     \<and> 1/1000 + d_curvature d * (max (cs_vEgo CS) (3/10)) ^ 2 \<noteq> 0"

lemma bind_if_total:
  "(c \<Longrightarrow> \<exists>y. x = Some y) \<Longrightarrow>
     \<exists>y. Option.bind (if c then map_option f x else Some z) (\<lambda>s. Some (g s)) = Some y"
  by (cases c) auto

lemma bind_case_total:
  "(\<And>p. \<exists>y. k p = Some y) \<Longrightarrow>
     \<exists>y. Option.bind (case c of None \<Rightarrow> Some z | Some p \<Rightarrow> k p) (\<lambda>s. Some (g s)) = Some y"
  by (cases c) (auto simp: bind_eq_Some_conv)

lemma driver_total:
  assumes "frame_ok cf CS d"
  shows "\<exists>sd'. ue_driver cf sd = Some sd'"
proof -
  have "\<exists>y. offroad_alert cf ''Offroad_DriverMonitoringUncertain'' None s = Some y" for s
    using assms by (intro offroad_total) (auto simp: frame_ok_def sd_offroad_names_def)
  then show ?thesis
    unfolding ue_driver_def Let_def by (cases "cp_notCar (cf_CP cf)") (simp_all add: bind_if_total)
qed

lemma calibration_total:
  assumes "frame_ok cf CS d"
  shows "\<exists>sd'. ue_calibration cf sd = Some sd'"
proof -
  obtain y where "offroad_alert cf ''Offroad_Recalibration'' None sd = Some y"
    using offroad_total [of "''Offroad_Recalibration''" cf None sd] assms
    by (auto simp: frame_ok_def sd_offroad_names_def)
  then show ?thesis
    by (simp add: ue_calibration_def split: CalStatus.splits)
qed

lemma actuation_total:
  assumes "frame_ok cf CS' d"
  shows "\<exists>sd'. ue_actuation cf pose CS sd = Some sd'"
proof -
  have off: "\<exists>y. offroad_alert cf ''Offroad_ExcessiveActuation'' x s = Some y" for x s
    using assms by (intro offroad_total) (auto simp: frame_ok_def sd_offroad_names_def)
  have check: "\<exists>y. actuation_check cf CS p s = Some y" for p s
    unfolding actuation_check_def Let_def using off by (auto split: option.split)
  show ?thesis
    unfolding ue_actuation_def Let_def by (rule bind_case_total) (rule check)
qed

lemma steer_total:
  assumes "frame_ok cf CS (dat sd)"
  shows "\<exists>sd'. ue_steer cf CS sd = Some sd'"
  using assms by (simp add: ue_steer_def Let_def frame_ok_def dat_def)

lemma core_dat: "core t = core s \<Longrightarrow> dat t = dat s"
  by (simp add: core_def dat_def)

text \<open>The events the safety properties are about, and the section that inserts each.\<close>

lemma pandas_mismatch:
  "200 \<le> mismatch_counter sd \<Longrightarrow> d_pandaStates (dat sd) \<noteq> [] \<Longrightarrow>
     has (fst (sd_logs (ue_pandas cf sd))) EN_controlsMismatch"
  by (cases "d_pandaStates (dat sd)") (auto simp: ue_pandas_def panda_guards_def)

lemma system_can_error:
  "\<not> cs_canValid CS \<Longrightarrow> \<not> cs_canTimeout CS \<Longrightarrow> has (fst (sd_logs (ue_system cf lag CS sd))) EN_canError"
  by (simp add: ue_system_def Let_def system_guards_def)

definition must_have :: "CarState \<Rightarrow> SelfdriveD \<Rightarrow> event \<Rightarrow> bool" where
  "must_have CS sd e \<longleftrightarrow>
     (e = EN_pedalPressed \<and> cs_canValid CS
        \<and> pedal_pressed (sd_disengage_on_accelerator sd) (CS_prev sd) CS)
     \<or> (e = EN_canError \<and> \<not> cs_canValid CS \<and> \<not> cs_canTimeout CS)
     \<or> (e = EN_controlsMismatch \<and> 200 \<le> mismatch_counter sd \<and> d_pandaStates (dat sd) \<noteq> [])"

lemma must_have_stable: "must_have CS sd e \<Longrightarrow> e \<notin> volatile"
  by (auto simp: must_have_def volatile_def)

lemma must_have_core: "core t = core s \<Longrightarrow> must_have CS t e = must_have CS s e"
  by (auto simp: must_have_def core_def dat_def)

lemma ue_active_total:
  assumes wf: "wf_logs (sd_logs sd)" and ok: "frame_ok cf CS (dat sd)"
  shows "\<exists>sd'. ue_active cf fi CS sd = Some sd' \<and> sd_ext sd sd'
    \<and> (\<forall>e. must_have CS sd e \<longrightarrow> has (fst (sd_logs sd')) e)"
proof -
  obtain sd1 where 1: "ue_driver cf (ue_resume cf CS sd) = Some sd1"
    using driver_total [OF ok] by blast
  have "dat (ue_resume cf CS sd) = dat sd"
    by (rule core_dat [OF sd_ext_core [OF ext_resume]])
  then have e1: "sd_ext sd sd1"
    using sd_ext_trans [OF ext_resume ext_driver [OF 1]] ok by (simp add: frame_ok_def)
  obtain sd2 where 2: "ue_car cf CS sd1 = Some sd2" "sd_ext sd1 sd2"
    "cs_canValid CS \<longrightarrow> pedal_pressed (sd_disengage_on_accelerator sd1) (CS_prev sd1) CS \<longrightarrow>
       has (fst (sd_logs sd2)) EN_pedalPressed"
    using ext_car [OF sd_ext_wf [OF e1 wf]] by blast
  have e2: "sd_ext sd sd2"
    by (rule sd_ext_trans [OF e1 2(2)])
  obtain sd3 where 3: "ue_calibration cf (ue_device cf sd2) = Some sd3"
    using calibration_total [OF ok] by blast
  have e23: "sd_ext sd2 sd3"
    by (rule sd_ext_trans [OF ext_device ext_calibration [OF 3]])
  obtain sd4 where 4: "ue_actuation cf (fi_pose fi) CS (ue_ldw sd3) = Some sd4"
    using actuation_total [OF ok] by blast
  have e24: "sd_ext sd2 sd4"
    by (rule sd_ext_trans [OF e23 sd_ext_trans [OF ext_ldw ext_actuation [OF 4]]])
  have e4: "sd_ext sd (ue_lane CS sd4)"
    by (rule sd_ext_trans [OF sd_ext_trans [OF e2 e24] ext_lane])
  define p5 where "p5 = ue_pandas cf (ue_lane CS sd4)"
  define sd5 where "sd5 = ue_system cf (fi_lagging fi) CS p5"
  have e45: "sd_ext (ue_lane CS sd4) p5" "sd_ext p5 sd5"
    unfolding p5_def sd5_def by (rule ext_pandas ext_system)+
  have e5: "sd_ext sd sd5"
    by (rule sd_ext_trans [OF e4 sd_ext_trans [OF e45]])
  define l5 where "l5 = ue_cruise cf CS (ue_localization cf sd5)"
  have l5: "sd_ext sd5 l5"
    unfolding l5_def by (rule sd_ext_trans [OF ext_localization ext_cruise])
  have "dat l5 = dat sd"
    by (rule core_dat [OF sd_ext_core [OF sd_ext_trans [OF e5 l5]]])
  then obtain sd6 where 6: "ue_steer cf CS l5 = Some sd6"
    using steer_total [of cf CS l5] ok by auto
  define g6 where "g6 = ue_gps cf CS (ue_fcw cf CS sd6)"
  have e56: "sd_ext sd5 g6"
    unfolding g6_def by (rule sd_ext_trans [OF sd_ext_trans [OF l5 ext_steer [OF 6]]
        sd_ext_trans [OF ext_fcw ext_gps]])
  obtain sd7 where 7: "ue_park CS g6 = Some sd7" "sd_ext g6 sd7"
    using ext_park [OF sd_ext_wf [OF sd_ext_trans [OF e5 e56] wf]] by blast
  define sd' where "sd' = ue_icbm cf CS (ue_personality cf CS (ue_cruise_helper cf CS sd7))"
  have e7: "sd_ext sd7 sd'"
    unfolding sd'_def
    by (rule sd_ext_trans [OF ext_cruise_helper sd_ext_trans [OF ext_personality ext_icbm]])
  have tail: "sd_ext sd5 sd'"
    by (rule sd_ext_trans [OF e56 sd_ext_trans [OF 7(2) e7]])
  have "ue_active cf fi CS sd = Some sd'"
    by (simp add: ue_active_def 1 2(1) 3 4 6 7(1) Let_def flip: sd'_def g6_def l5_def p5_def sd5_def)
  moreover have "has (fst (sd_logs sd')) e" if e: "must_have CS sd e" for e
  proof -
    have stable: "e \<notin> volatile"
      by (rule must_have_stable [OF e])
    have "must_have CS sd1 e" "must_have CS (ue_lane CS sd4) e"
      using e must_have_core [OF sd_ext_core [OF e1]] must_have_core [OF sd_ext_core [OF e4]] by auto
    then have "has (fst (sd_logs sd2)) e \<or> has (fst (sd_logs p5)) e \<or> has (fst (sd_logs sd5)) e"
      using 2(3) pandas_mismatch [of "ue_lane CS sd4" cf, folded p5_def]
        system_can_error [of CS cf "fi_lagging fi" p5, folded sd5_def]
      by (auto simp: must_have_def)
    moreover have "sd_ext sd2 sd5" "sd_ext p5 sd5"
      using sd_ext_trans [OF sd_ext_trans [OF e24 ext_lane] sd_ext_trans [OF e45]] e45(2) by auto
    ultimately have "has (fst (sd_logs sd5)) e"
      using stable sd_ext_has by blast
    then show ?thesis
      using sd_ext_has [OF tail stable] by blast
  qed
  ultimately show ?thesis
    using sd_ext_trans [OF e5 tail] by blast
qed

end
