(* ===== verification/SelfdriveSafety.thy ===== *)
theory SelfdriveSafety
  imports SelfdriveSteps
begin

text \<open>
  Whole steps of \<open>selfdrived\<close>: a step returns whenever its inputs are in order, it keeps the state
  well-formed, and what it publishes after a pedal press, an invalid CAN bus or a controls mismatch.
\<close>

section \<open>Well-formed states and inputs\<close>

definition sd_wf :: "SelfdriveD \<Rightarrow> bool" where
  "sd_wf sd \<longleftrightarrow> wf_logs (sd_logs sd) \<and> personality_ok sd
     \<and> (\<forall>e. startup_event sd = Some e \<longrightarrow> e \<in> known_events)"

definition frame_CS :: "FrameInput \<Rightarrow> SelfdriveD \<Rightarrow> CarState" where
  "frame_CS fi sd = (case fi_CS fi of Some CS \<Rightarrow> CS | None \<Rightarrow> CS_prev sd)"

text \<open>
  The inputs of a frame are in order after the time \<open>now\<close>: the clock has advanced, every service has
  sent at most one message, and the data after these messages is admissible.
\<close>

definition input_ok :: "SdConfig \<Rightarrow> rat \<Rightarrow> FrameInput \<Rightarrow> SelfdriveD \<Rightarrow> bool" where
  "input_ok cf now fi sd \<longleftrightarrow> now < fi_time fi \<and> one_each (fi_msgs fi)
     \<and> (\<forall>sm'. update_msgs (fi_time fi) (sd_sm sd) (fi_msgs fi) = Some sm' \<longrightarrow>
          frame_ok cf (frame_CS fi sd) (data sm'))"

section \<open>Reading the inputs\<close>

lemma initialize_fields [simp]:
  "sd_logs (sd_initialize cf fi CS sd) = sd_logs sd"
  "startup_event (sd_initialize cf fi CS sd) = startup_event sd"
  "personality (sd_initialize cf fi CS sd) = personality sd"
  "sd_enabled (sd_initialize cf fi CS sd) = sd_enabled sd"
  "sd_active (sd_initialize cf fi CS sd) = sd_active sd"
  "mads (sd_initialize cf fi CS sd) = mads sd"
  "CS_prev (sd_initialize cf fi CS sd) = CS_prev sd"
  "mismatch_counter (sd_initialize cf fi CS sd) = mismatch_counter sd"
  "sd_disengage_on_accelerator (sd_initialize cf fi CS sd) = sd_disengage_on_accelerator sd"
  "data (sd_sm (sd_initialize cf fi CS sd)) = data (sd_sm sd)"
  "freq_tracker (sd_sm (sd_initialize cf fi CS sd)) = freq_tracker (sd_sm sd)"
  by (simp_all add: sd_initialize_def Let_def ignore_service_def)

lemma initialized_stays: "initialized sd \<Longrightarrow> sd_initialize cf fi CS sd = sd"
  by (simp add: sd_initialize_def)

lemma mismatch_fields [simp]:
  "sd_logs (sd_mismatch sd) = sd_logs sd" "startup_event (sd_mismatch sd) = startup_event sd"
  "personality (sd_mismatch sd) = personality sd" "sd_enabled (sd_mismatch sd) = sd_enabled sd"
  "sd_active (sd_mismatch sd) = sd_active sd" "mads (sd_mismatch sd) = mads sd"
  "CS_prev (sd_mismatch sd) = CS_prev sd" "initialized (sd_mismatch sd) = initialized sd"
  "state_machine (sd_mismatch sd) = state_machine sd" "sd_sm (sd_mismatch sd) = sd_sm sd"
  "sd_disengage_on_accelerator (sd_mismatch sd) = sd_disengage_on_accelerator sd"
  by (simp_all add: sd_mismatch_def)

text \<open>What the rest of the step finds: the state with the new messages.\<close>

lemma data_sample_total:
  assumes "trackers_ok now (sd_sm sd)" "input_ok cf now fi sd"
  shows "\<exists>sm'. update_msgs (fi_time fi) (sd_sm sd) (fi_msgs fi) = Some sm'
    \<and> sd_data_sample cf fi sd =
        Some (frame_CS fi sd, sd_mismatch (sd_initialize cf fi (frame_CS fi sd) (sd\<lparr>sd_sm := sm'\<rparr>)))
    \<and> trackers_ok (fi_time fi) sm' \<and> frame_ok cf (frame_CS fi sd) (data sm')"
proof -
  obtain sm' where "update_msgs (fi_time fi) (sd_sm sd) (fi_msgs fi) = Some sm'"
    "trackers_ok (fi_time fi) sm'"
    using update_msgs_total [OF assms(1)] assms(2) unfolding input_ok_def by blast
  then show ?thesis
    using assms(2) by (simp add: sd_data_sample_def input_ok_def Let_def flip: frame_CS_def)
qed

section \<open>The events of a frame\<close>

lemma wf_logs_clear: "wf_logs p \<Longrightarrow> wf_logs (clear (fst p), clear (snd p))"
  by (simp add: wf_logs_def wf_clear)

lemma begin_effect:
  assumes "sd_wf sd"
  shows "sd_wf (ue_begin sd)" "core (ue_begin sd) = core (sd\<lparr>startup_event := None\<rparr>)"
proof -
  let ?gs = "\<lambda>s. [(d_lat_debugState (dat s), EN_joystickDebug),
    (recv_frame (sd_sm s) ''lateralManeuverPlan'' > 0, EN_lateralManeuver),
    (\<not> recv_frame (sd_sm s) ''lateralManeuverPlan'' > 0 \<and> recv_frame (sd_sm s) ''alertDebug'' > 0,
     EN_longitudinalManeuver)]"
  let ?s1 = "sd\<lparr>sd_logs := (clear (fst (sd_logs sd)), clear (snd (sd_logs sd)))\<rparr>"
  define s2 where "s2 = emit (?gs ?s1) ?s1"
  have wf2: "wf_logs (sd_logs s2)" "personality_ok s2"
    using assms wf_logs_clear [of "sd_logs sd"]
    by (auto simp: s2_def sd_wf_def, auto simp: emit_def wf_logs_def personality_ok_def intro!: wf_add_if)
  have fields: "startup_event s2 = startup_event sd"
    "core (s2\<lparr>startup_event := None\<rparr>) = core (sd\<lparr>startup_event := None\<rparr>)"
    by (simp_all add: s2_def emit_def core_def)
  have cases: "ue_begin sd = s2\<lparr>startup_event := None\<rparr> \<or>
      (\<exists>e. startup_event sd = Some e \<and> ue_begin sd = (emit [(True, e)] s2)\<lparr>startup_event := None\<rparr>)"
    using fields(1) unfolding ue_begin_def Let_def s2_def [symmetric] by (cases "startup_event sd") auto
  then show "sd_wf (ue_begin sd)"
    using wf2 assms
    by (elim disjE exE conjE) (auto simp: sd_wf_def emit_def wf_logs_def personality_ok_def wf_add_if)
  show "core (ue_begin sd) = core (sd\<lparr>startup_event := None\<rparr>)"
    using cases fields(2) by (elim disjE exE conjE) (simp_all add: core_def emit_def)
qed

lemma core_dat_eq: "core t = core s \<Longrightarrow> dat t = dat s \<and> initialized t = initialized s"
  by (simp add: core_def dat_def)

lemma sd_ext_sd_wf: "sd_ext s t \<Longrightarrow> sd_wf s \<Longrightarrow> sd_wf t"
  using sd_ext_core [of s t] by (auto simp: sd_ext_def sd_wf_def core_def)

lemma update_events_total:
  assumes "sd_wf sd" "frame_ok cf CS (dat sd)"
  shows "\<exists>sd'. sd_update_events cf fi CS sd = Some sd' \<and> sd_wf sd'
    \<and> core sd' = core (sd\<lparr>startup_event := None\<rparr>)
    \<and> (initialized sd \<longrightarrow> \<not> cp_passive (cf_CP cf) \<longrightarrow>
         (\<forall>e. must_have CS sd e \<longrightarrow> has (fst (sd_logs sd')) e))"
proof -
  define b where "b = ue_begin sd"
  have wf: "sd_wf b" and b: "core b = core (sd\<lparr>startup_event := None\<rparr>)"
    unfolding b_def using begin_effect [OF assms(1)] by auto
  have dat: "dat b = dat sd" "initialized b = initialized sd"
    using core_dat_eq [OF b] by (auto simp: dat_def)
  show ?thesis
  proof (cases "initialized sd \<and> \<not> cp_passive (cf_CP cf)")
    case True
    define f where "f = ue_feedback b"
    have f: "sd_ext b f"
      by (simp add: f_def ext_feedback)
    have wf_f: "sd_wf f"
      by (rule sd_ext_sd_wf [OF f wf])
    have "frame_ok cf CS (dat f)"
      using assms(2) dat core_dat_eq [OF sd_ext_core [OF f]] by simp
    then obtain sd' where a: "ue_active cf fi CS f = Some sd'" "sd_ext f sd'"
      "\<forall>e. must_have CS f e \<longrightarrow> has (fst (sd_logs sd')) e"
      using ue_active_total [of f cf CS fi] wf_f by (auto simp: sd_wf_def)
    have "must_have CS f e = must_have CS sd e" for e
      using must_have_core [OF sd_ext_core [OF f]] must_have_core [OF b, of CS e]
      by (simp add: must_have_def dat_def)
    moreover have "sd_update_events cf fi CS sd = Some sd'"
      using True a(1) dat(2) by (simp add: sd_update_events_def Let_def flip: b_def f_def)
    ultimately show ?thesis
      using a sd_ext_sd_wf [OF a(2) wf_f] sd_ext_core [OF a(2)] sd_ext_core [OF f] b by auto
  next
    case False
    define g where "g = (if initialized sd then ue_feedback b
      else emit [(True, EN_selfdriveInitializing)] b)"
    have g: "sd_ext b g"
      by (auto simp: g_def intro: ext_feedback ext_emit)
    have "sd_update_events cf fi CS sd = Some g"
      using False dat(2) by (auto simp: sd_update_events_def Let_def g_def simp flip: b_def)
    then show ?thesis
      using False sd_ext_sd_wf [OF g wf] sd_ext_core [OF g] b by auto
  qed
qed

section \<open>The state machines of a frame\<close>

lemma engage_fields [simp]:
  "sd_logs (sd_engage cf sd) = sd_logs sd" "mads (sd_engage cf sd) = mads sd"
  "initialized (sd_engage cf sd) = initialized sd" "CS_prev (sd_engage cf sd) = CS_prev sd"
  "sd_sm (sd_engage cf sd) = sd_sm sd" "startup_event (sd_engage cf sd) = startup_event sd"
  "personality (sd_engage cf sd) = personality sd"
  "sd_params (sd_engage cf sd) = sd_params sd" "AM (sd_engage cf sd) = AM sd"
  by (simp_all add: sd_engage_def split: prod.split)

lemma engage_passive:
  "cp_passive (cf_CP cf) \<or> \<not> initialized sd \<Longrightarrow> sd_engage cf sd = sd"
  by (auto simp: sd_engage_def)

lemma engage_step:
  assumes "\<not> cp_passive (cf_CP cf)" "initialized sd"
  shows "state_machine (sd_engage cf sd) =
      sm_step (\<lambda>t. contains (EVENTS (cf_env cf)) (fst (sd_logs sd)) (ET_key t)) (state_machine sd)"
    and "sd_enabled (sd_engage cf sd) \<longleftrightarrow> sm_state (state_machine (sd_engage cf sd)) \<noteq> S_disabled"
    and "sd_active (sd_engage cf sd) \<longleftrightarrow> sm_state (state_machine (sd_engage cf sd)) \<in> set ACTIVE_STATES"
  using assms update_with_flags [of "\<lambda>t. contains (EVENTS (cf_env cf)) (fst (sd_logs sd)) (ET_key t)"
      "state_machine sd"]
  by (auto simp: sd_engage_def sm_update_def sm_step_def split: prod.split)

text \<open>An event that both disables and forbids entry leaves the machine disabled, whatever its state.\<close>

definition stops :: "event set" where
  "stops = (set (events_with USER_DISABLE) \<union> set (events_with IMMEDIATE_DISABLE)) \<inter> set (events_with NO_ENTRY)"

lemma has_contains:
  "has ev e \<Longrightarrow> e \<in> set (events_with t) \<Longrightarrow> contains (EVENTS env) ev (ET_key t)"
  by (auto simp: contains_EVENTS has_def)

lemma engage_stops:
  assumes "\<not> cp_passive (cf_CP cf)" "initialized sd" "has (fst (sd_logs sd)) e" "e \<in> stops"
  shows "sm_state (state_machine (sd_engage cf sd)) = S_disabled"
    and "\<not> sd_enabled (sd_engage cf sd)" and "\<not> sd_active (sd_engage cf sd)"
proof -
  let ?c = "\<lambda>t. contains (EVENTS (cf_env cf)) (fst (sd_logs sd)) (ET_key t)"
  have c: "?c NO_ENTRY" "?c USER_DISABLE \<or> ?c IMMEDIATE_DISABLE"
    using has_contains [OF assms(3)] assms(4) by (auto simp: stops_def)
  have "\<not> sm_engaged (sm_step ?c (state_machine sd))"
    using c ssm.engage_law [of "state_machine sd" ?c] ssm.disengage_law [of "state_machine sd" ?c] by blast
  then show d: "sm_state (state_machine (sd_engage cf sd)) = S_disabled"
    by (simp add: engage_step [OF assms(1,2)] sm_engaged_def)
  show "\<not> sd_enabled (sd_engage cf sd)" "\<not> sd_active (sd_engage cf sd)"
    by (simp_all add: engage_step(2,3) [OF assms(1,2)] d)
qed

lemma mads_total:
  assumes "wf_logs (sd_logs sd)"
  shows "\<exists>sd'. sd_mads cf CS sd = Some sd' \<and> wf_logs (sd_logs sd') \<and> moves_over (sd_logs sd) (sd_logs sd')
    \<and> sd_enabled sd' = sd_enabled sd \<and> sd_active sd' = sd_active sd
    \<and> personality sd' = personality sd \<and> startup_event sd' = startup_event sd \<and> sd_sm sd' = sd_sm sd"
proof (cases "cp_notCar (cf_CP cf)")
  case False
  obtain md' ss' p' where
    "md_update (EVENTS (cf_env cf)) (EVENTS_SP (cf_env cf)) (cf_CP cf) (sd_enabled sd) (initialized sd)
      (d_pandaStates (dat sd)) (CS_prev sd) CS (mads sd, state_machine sd, sd_logs sd) = Some (md', ss', p')"
    "wf_logs p'" "moves_over (sd_logs sd) p'"
    using md_update_total [OF assms] by blast
  then show ?thesis
    using False by (simp add: sd_mads_def)
qed (use assms in \<open>simp add: sd_mads_def\<close>)

section \<open>Alerts and output\<close>

lemma personality_map: "0 \<le> p \<Longrightarrow> p \<le> 2 \<Longrightarrow> \<exists>n. LONGITUDINAL_PERSONALITY_MAP p = Some n"
  by (auto simp: LONGITUDINAL_PERSONALITY_MAP_def)

lemma create_alerts_op:
  "wf_events known_events ev \<Longrightarrow> \<exists>xs. create_alerts (EVENTS env) EVENT_NAME ev ts args = Some xs"
  using EVENT_NAME_covers by (intro create_alerts_Some) (simp_all add: EVENTS_keys)

lemma create_alerts_sp:
  "wf_events known_events_sp ev \<Longrightarrow> \<exists>xs. create_alerts (EVENTS_SP env) EVENT_NAME_SP ev ts args = Some xs"
  using EVENT_NAME_SP_covers by (intro create_alerts_Some) (simp_all add: EVENTS_SP_keys)

lemma update_alerts_total:
  assumes "wf_logs (sd_logs sd)" "personality_ok sd"
  shows "\<exists>am. sd_update_alerts cf CS sd = Some (sd\<lparr>AM := am\<rparr>)"
proof -
  obtain n where n: "LONGITUDINAL_PERSONALITY_MAP (personality sd) = Some n"
    using personality_map assms(2) by (auto simp: personality_ok_def)
  let ?args = "\<lparr>ca_CP = cf_CP cf, ca_CS = CS, ca_sm = sd_sm sd, ca_metric = sd_is_metric sd,
    ca_soft_disable_time = soft_disable_timer (state_machine sd), ca_personality = n\<rparr>"
  let ?ts = "current_alert_types (state_machine sd)"
  obtain xs where "create_alerts (EVENTS (cf_env cf)) EVENT_NAME (fst (sd_logs sd)) ?ts ?args = Some xs"
    using create_alerts_op assms(1) unfolding wf_logs_def by blast
  moreover obtain ys where "create_alerts (EVENTS_SP (cf_env cf)) EVENT_NAME_SP (snd (sd_logs sd)) ?ts ?args = Some ys"
    using create_alerts_sp assms(1) unfolding wf_logs_def by blast
  ultimately show ?thesis
    by (auto simp: sd_update_alerts_def n Let_def)
qed

section \<open>A whole step\<close>

text \<open>
  The states of a step: \<open>s1\<close> has the new messages, \<open>s2\<close> the events, \<open>s3\<close> has run both machines. The
  published record is read off \<open>s3\<close>.
\<close>

definition step_trace :: "SdConfig \<Rightarrow> FrameInput \<Rightarrow> SelfdriveD \<Rightarrow> SelfdriveD \<Rightarrow> SelfdriveD \<Rightarrow> SelfdriveD \<Rightarrow>
    SdOutput \<Rightarrow> SelfdriveD \<Rightarrow> bool" where
  "step_trace cf fi sd s1 s2 s3 out sd' \<longleftrightarrow>
     sd_data_sample cf fi sd = Some (frame_CS fi sd, s1)
     \<and> sd_update_events cf fi (frame_CS fi sd) s1 = Some s2
     \<and> sd_mads cf (frame_CS fi sd) (sd_engage cf s2) = Some s3
     \<and> sd_step cf fi sd = Some (out, sd')
     \<and> out_enabled out = sd_enabled s3 \<and> out_active out = sd_active s3
     \<and> out_state out = sm_state (state_machine s3)
     \<and> out_mads_state out = md_state (mads s3) \<and> out_mads_active out = md_active (mads s3)
     \<and> sd_enabled sd' = sd_enabled s3 \<and> sd_active sd' = sd_active s3 \<and> mads sd' = mads s3
     \<and> state_machine sd' = state_machine s3 \<and> CS_prev sd' = frame_CS fi sd
     \<and> sd_sm sd' = sd_sm s3 \<and> initialized sd' = initialized s3"

lemma step_trace_total:
  assumes "sd_wf sd" "trackers_ok now (sd_sm sd)" "input_ok cf now fi sd"
  shows "\<exists>s1 s2 s3 out sd'. step_trace cf fi sd s1 s2 s3 out sd' \<and> sd_wf sd'
    \<and> trackers_ok (fi_time fi) (sd_sm sd') \<and> sd_wf s2
    \<and> core s2 = core (s1\<lparr>startup_event := None\<rparr>)
    \<and> (initialized s1 \<longrightarrow> \<not> cp_passive (cf_CP cf) \<longrightarrow>
         (\<forall>e. must_have (frame_CS fi sd) s1 e \<longrightarrow> has (fst (sd_logs s2)) e))
    \<and> sd_enabled s3 = sd_enabled (sd_engage cf s2) \<and> sd_active s3 = sd_active (sd_engage cf s2)"
proof -
  let ?CS = "frame_CS fi sd"
  obtain sm' where sm': "trackers_ok (fi_time fi) sm'" "frame_ok cf ?CS (data sm')"
    "sd_data_sample cf fi sd = Some (?CS, sd_mismatch (sd_initialize cf fi ?CS (sd\<lparr>sd_sm := sm'\<rparr>)))"
    using data_sample_total [OF assms(2,3)] by blast
  define s1 where "s1 = sd_mismatch (sd_initialize cf fi ?CS (sd\<lparr>sd_sm := sm'\<rparr>))"
  have wf1: "sd_wf s1" "dat s1 = data sm'" "freq_tracker (sd_sm s1) = freq_tracker sm'"
    using assms(1) by (simp_all add: s1_def sd_wf_def personality_ok_def dat_def)
  obtain s2 where s2: "sd_update_events cf fi ?CS s1 = Some s2" "sd_wf s2"
    "core s2 = core (s1\<lparr>startup_event := None\<rparr>)"
    "initialized s1 \<longrightarrow> \<not> cp_passive (cf_CP cf) \<longrightarrow> (\<forall>e. must_have ?CS s1 e \<longrightarrow> has (fst (sd_logs s2)) e)"
    using update_events_total [OF wf1(1), of cf ?CS fi] sm'(2) wf1(2) by auto
  obtain s3 where s3: "sd_mads cf ?CS (sd_engage cf s2) = Some s3" "wf_logs (sd_logs s3)"
    "sd_enabled s3 = sd_enabled (sd_engage cf s2)" "sd_active s3 = sd_active (sd_engage cf s2)"
    "personality s3 = personality s2" "startup_event s3 = startup_event s2" "sd_sm s3 = sd_sm s2"
    using mads_total [of "sd_engage cf s2" cf ?CS] s2(2) by (auto simp: sd_wf_def)
  obtain am where am: "sd_update_alerts cf ?CS s3 = Some (s3\<lparr>AM := am\<rparr>)"
    using update_alerts_total [OF s3(2), of cf ?CS] s2(2) s3(5) unfolding sd_wf_def personality_ok_def
    by metis
  define r where "r = publish_selfdriveState cf (s3\<lparr>AM := am\<rparr>)"
  have "sd_step cf fi sd = Some (fst r, (snd r)\<lparr>CS_prev := ?CS\<rparr>)"
    using sm'(3) s2(1) s3(1) am by (simp add: sd_step_def s1_def r_def split_def Let_def)
  then have "step_trace cf fi sd s1 s2 s3 (fst r) ((snd r)\<lparr>CS_prev := ?CS\<rparr>)"
    using sm'(3) s2(1) s3(1) by (simp add: step_trace_def s1_def r_def publish_selfdriveState_def Let_def)
  moreover have "sd_wf ((snd r)\<lparr>CS_prev := ?CS\<rparr>)"
    using s2(2) s3(2,5,6) by (simp add: r_def publish_selfdriveState_def Let_def sd_wf_def personality_ok_def)
  moreover have "trackers_ok (fi_time fi) (sd_sm ((snd r)\<lparr>CS_prev := ?CS\<rparr>))"
  proof -
    have "sd_sm s3 = sd_sm s1"
      using s3(7) s2(3) by (simp add: core_def)
    then show ?thesis
      using sm'(1) wf1(3) by (simp add: r_def publish_selfdriveState_def Let_def trackers_ok_def)
  qed
  ultimately show ?thesis
    using s2 s3(3,4) by blast
qed

section \<open>Consequences\<close>

text \<open>The output of a step, as a function of the inputs.\<close>

lemma step_stops:
  assumes "sd_wf sd" "trackers_ok now (sd_sm sd)" "input_ok cf now fi sd" "initialized sd"
    "\<not> cp_passive (cf_CP cf)" "e \<in> stops"
    "\<And>s1. sd_data_sample cf fi sd = Some (frame_CS fi sd, s1) \<Longrightarrow> must_have (frame_CS fi sd) s1 e"
  shows "\<exists>out sd'. sd_step cf fi sd = Some (out, sd') \<and> \<not> out_enabled out \<and> \<not> out_active out"
proof -
  obtain s1 s2 s3 out sd' where t: "step_trace cf fi sd s1 s2 s3 out sd'"
    and core: "core s2 = core (s1\<lparr>startup_event := None\<rparr>)"
    and must: "initialized s1 \<Longrightarrow> must_have (frame_CS fi sd) s1 e \<Longrightarrow> has (fst (sd_logs s2)) e"
    and out: "sd_enabled s3 = sd_enabled (sd_engage cf s2)" "sd_active s3 = sd_active (sd_engage cf s2)"
    using step_trace_total [OF assms(1-3)] assms(5) by blast
  have s1: "sd_data_sample cf fi sd = Some (frame_CS fi sd, s1)"
    using t by (simp add: step_trace_def)
  obtain sm' where "update_msgs (fi_time fi) (sd_sm sd) (fi_msgs fi) = Some sm'"
    "s1 = sd_mismatch (sd_initialize cf fi (frame_CS fi sd) (sd\<lparr>sd_sm := sm'\<rparr>))"
    using data_sample_total [OF assms(2,3)] s1 by auto
  then have "initialized s1"
    using assms(4) by (simp add: initialized_stays)
  moreover from this have "initialized s2"
    using core by (simp add: core_def)
  ultimately have "\<not> sd_enabled (sd_engage cf s2)" "\<not> sd_active (sd_engage cf s2)"
    using engage_stops [OF assms(5) _ must assms(6)] assms(7) [OF s1] by auto
  then show ?thesis
    using t out by (auto simp: step_trace_def)
qed

lemma stops_eval [simp]: "EN_pedalPressed \<in> stops" "EN_canError \<in> stops" "EN_controlsMismatch \<in> stops"
  by (simp_all add: stops_def events_with_eval)

text \<open>The state after reading the inputs of a frame.\<close>

lemma sampled_fields:
  assumes "sd_data_sample cf fi sd = Some (frame_CS fi sd, s1)" "initialized sd"
  shows "sd_disengage_on_accelerator s1 = sd_disengage_on_accelerator sd" "CS_prev s1 = CS_prev sd"
    "initialized s1" "mads s1 = mads sd" "sd_enabled s1 = sd_enabled sd"
    "\<exists>sm'. update_msgs (fi_time fi) (sd_sm sd) (fi_msgs fi) = Some sm' \<and> s1 = sd_mismatch (sd\<lparr>sd_sm := sm'\<rparr>)"
proof -
  obtain sm' where u: "update_msgs (fi_time fi) (sd_sm sd) (fi_msgs fi) = Some sm'"
    "s1 = sd_mismatch (sd\<lparr>sd_sm := sm'\<rparr>)"
    using assms by (auto simp: sd_data_sample_def initialized_stays bind_eq_Some_conv)
  then show "\<exists>sm'. update_msgs (fi_time fi) (sd_sm sd) (fi_msgs fi) = Some sm' \<and> s1 = sd_mismatch (sd\<lparr>sd_sm := sm'\<rparr>)"
    by blast
  show "sd_disengage_on_accelerator s1 = sd_disengage_on_accelerator sd" "CS_prev s1 = CS_prev sd"
    "initialized s1" "mads s1 = mads sd" "sd_enabled s1 = sd_enabled sd"
    using assms(2) by (simp_all add: u(2))
qed

text \<open>A car that is passive never engages openpilot.\<close>

lemma step_passive:
  assumes "cp_passive (cf_CP cf)" "sd_wf sd" "trackers_ok now (sd_sm sd)" "input_ok cf now fi sd"
    "\<not> sd_enabled sd" "\<not> sd_active sd"
  shows "\<exists>out sd'. sd_step cf fi sd = Some (out, sd') \<and> \<not> out_enabled out \<and> \<not> out_active out
    \<and> \<not> sd_enabled sd' \<and> \<not> sd_active sd' \<and> sd_wf sd' \<and> trackers_ok (fi_time fi) (sd_sm sd')"
proof -
  obtain s1 s2 s3 out sd' where t: "step_trace cf fi sd s1 s2 s3 out sd'"
    and keep: "sd_wf sd'" "trackers_ok (fi_time fi) (sd_sm sd')"
    and core: "core s2 = core (s1\<lparr>startup_event := None\<rparr>)"
    and out: "sd_enabled s3 = sd_enabled (sd_engage cf s2)" "sd_active s3 = sd_active (sd_engage cf s2)"
    using step_trace_total [OF assms(2-4)] by blast
  have s1: "sd_data_sample cf fi sd = Some (frame_CS fi sd, s1)"
    using t by (simp add: step_trace_def)
  obtain sm' where "s1 = sd_mismatch (sd_initialize cf fi (frame_CS fi sd) (sd\<lparr>sd_sm := sm'\<rparr>))"
    using data_sample_total [OF assms(3,4)] s1 by auto
  then have "sd_enabled s2 = sd_enabled sd" "sd_active s2 = sd_active sd"
    using core by (simp_all add: core_def)
  then show ?thesis
    using t out keep assms(1,5,6) by (auto simp: step_trace_def engage_passive)
qed

section \<open>The process: frames and parameter rounds\<close>

text \<open>
  \<open>run\<close> repeats \<open>step\<close> while \<open>params_thread\<close> re-reads parameters; a run is a list of both, in any
  interleaving of whole steps and whole rounds. \<open>None\<close> is an exception that ends the process; otherwise
  the published records are collected.
\<close>

datatype SdEvent = Frame FrameInput | ParamsRound Params

fun sd_run :: "SdConfig \<Rightarrow> SdEvent list \<Rightarrow> SelfdriveD \<Rightarrow> (SdOutput list \<times> SelfdriveD) option" where
  "sd_run cf [] sd = Some ([], sd)"
| "sd_run cf (Frame fi # es) sd = do {
     (out, sd') \<leftarrow> sd_step cf fi sd;
     (outs, sd'') \<leftarrow> sd_run cf es sd';
     Some (out # outs, sd'')
   }"
| "sd_run cf (ParamsRound params # es) sd = sd_run cf es (params_thread_round cf params sd)"

text \<open>The inputs of a run are in order: every frame is, and the stored personality is one of the three.\<close>

fun run_ok :: "SdConfig \<Rightarrow> rat \<Rightarrow> SdEvent list \<Rightarrow> SelfdriveD \<Rightarrow> bool" where
  "run_ok cf now [] sd = True"
| "run_ok cf now (Frame fi # es) sd =
     (input_ok cf now fi sd \<and>
      (case sd_step cf fi sd of None \<Rightarrow> True | Some (out, sd') \<Rightarrow> run_ok cf (fi_time fi) es sd'))"
| "run_ok cf now (ParamsRound params # es) sd =
     (get_default (cf_dflt cf) params ''LongitudinalPersonality'' \<in> {0..2}
      \<and> run_ok cf now es (params_thread_round cf params sd))"

lemma params_round_wf:
  "sd_wf sd \<Longrightarrow> get_default (cf_dflt cf) params ''LongitudinalPersonality'' \<in> {0..2} \<Longrightarrow>
     sd_wf (params_thread_round cf params sd)"
  by (simp add: sd_wf_def personality_ok_def params_thread_round_def)

lemma params_round_fields [simp]:
  "sd_sm (params_thread_round cf params sd) = sd_sm sd"
  "sd_enabled (params_thread_round cf params sd) = sd_enabled sd"
  "sd_active (params_thread_round cf params sd) = sd_active sd"
  by (simp_all add: params_thread_round_def)

lemma step_total:
  assumes "sd_wf sd" "trackers_ok now (sd_sm sd)" "input_ok cf now fi sd"
  shows "\<exists>out sd'. sd_step cf fi sd = Some (out, sd') \<and> sd_wf sd' \<and> trackers_ok (fi_time fi) (sd_sm sd')"
  using step_trace_total [OF assms] unfolding step_trace_def by blast

lemma run_total:
  "sd_wf sd \<Longrightarrow> trackers_ok now (sd_sm sd) \<Longrightarrow> run_ok cf now es sd \<Longrightarrow>
     \<exists>outs sd'. sd_run cf es sd = Some (outs, sd') \<and> sd_wf sd'"
proof (induction cf now es sd rule: run_ok.induct)
  case (2 cf now fi es sd)
  obtain out sd' where s: "sd_step cf fi sd = Some (out, sd')" "sd_wf sd'" "trackers_ok (fi_time fi) (sd_sm sd')"
    using step_total [of sd now cf fi] 2(2-4) by auto
  then show ?case
    using 2(1) [OF s(1) refl s(2,3)] 2(4) by auto
next
  case (3 cf now params es sd)
  then show ?case
    using params_round_wf by auto
qed auto

lemma run_passive:
  "cp_passive (cf_CP cf) \<Longrightarrow> sd_wf sd \<Longrightarrow> trackers_ok now (sd_sm sd) \<Longrightarrow> run_ok cf now es sd \<Longrightarrow>
   \<not> sd_enabled sd \<Longrightarrow> \<not> sd_active sd \<Longrightarrow>
     \<exists>outs sd'. sd_run cf es sd = Some (outs, sd') \<and> list_all (\<lambda>out. \<not> out_enabled out \<and> \<not> out_active out) outs"
proof (induction cf now es sd rule: run_ok.induct)
  case (2 cf now fi es sd)
  obtain out sd' where s: "sd_step cf fi sd = Some (out, sd')" "\<not> out_enabled out" "\<not> out_active out"
    "\<not> sd_enabled sd'" "\<not> sd_active sd'" "sd_wf sd'" "trackers_ok (fi_time fi) (sd_sm sd')"
    using step_passive [of cf sd now fi] 2(2-7) by auto
  then show ?case
    using 2(1) [OF s(1) refl 2(2) s(6,7)] 2(5) by auto
next
  case (3 cf now params es sd)
  then show ?case
    using params_round_wf by auto
qed auto

text \<open>A freshly constructed process is well-formed and not enabled.\<close>

lemma sanitized_personality:
  "get_sanitize_int_param dflt key 0 2 params = (v, params') \<Longrightarrow> 0 \<le> v \<and> v \<le> 2"
  using get_sanitize_bounds [of 0 2 dflt key params] by simp

lemma startup_known: "startup_event_of cf remote tested = Some e \<Longrightarrow> e \<in> known_events"
  by (auto simp: startup_event_of_def Let_def split: if_splits)

lemma initial_wf:
  assumes "0 \<le> pers" "pers \<le> 2" "0 \<le> now" "sd = initial_SelfdriveD cf remote tested pers params offroad d"
  shows "sd_wf sd" "trackers_ok now (sd_sm sd)" "\<not> sd_enabled sd" "\<not> sd_active sd" "data (sd_sm sd) = d"
    "startup_event sd = startup_event_of cf remote tested"
proof -
  note fields = assms(4) initial_SelfdriveD_def Let_def
  show "trackers_ok now (sd_sm sd)"
    using trackers_ok_new [OF assms(3)] by (simp add: fields)
  show "data (sd_sm sd) = d"
    by (simp add: fields new_SubMaster_def)
  show "sd_wf sd"
    using assms(1,2) startup_known
    by (auto simp: fields sd_wf_def wf_logs_def personality_ok_def
        intro!: wf_add_static wf_init_EVENTS wf_init_EVENTS_SP)
qed (simp_all add: assms(4) initial_SelfdriveD_def Let_def)

lemma new_wf:
  assumes "new_SelfdriveD cf remote tested params offroad d = Some sd" "0 \<le> now"
  shows "sd_wf sd \<and> trackers_ok now (sd_sm sd) \<and> \<not> sd_enabled sd \<and> \<not> sd_active sd"
proof -
  define r where "r = get_sanitize_int_param (cf_dflt cf) ''LongitudinalPersonality'' 0 2
    (let params1 = (if \<not> cp_alphaLongitudinalAvailable (cf_CP cf)
                    then params(''AlphaLongitudinalEnabled'' := None) else params)
     in if \<not> cp_openpilotLongitudinalControl (cf_CP cf) then params1(''ExperimentalMode'' := None) else params1)"
  obtain pers params3 where r: "r = (pers, params3)"
    by (cases r)
  have i: "sd = initial_SelfdriveD cf remote tested pers params3 offroad d
      \<or> offroad_alert cf ''Offroad_CarUnrecognized'' None (initial_SelfdriveD cf remote tested pers params3 offroad d) = Some sd"
    "0 \<le> pers" "pers \<le> 2"
    using assms(1) sanitized_personality [OF r [unfolded r_def]] r
    by (auto simp: new_SelfdriveD_def Let_def r_def split: if_splits)
  note init = initial_wf [OF i(2,3) assms(2) refl]
  from i(1) show ?thesis
  proof
    assume o: "offroad_alert cf ''Offroad_CarUnrecognized'' None
      (initial_SelfdriveD cf remote tested pers params3 offroad d) = Some sd"
    have "sd_enabled sd = sd_enabled (initial_SelfdriveD cf remote tested pers params3 offroad d)"
      "sd_active sd = sd_active (initial_SelfdriveD cf remote tested pers params3 offroad d)"
      "sd_sm sd = sd_sm (initial_SelfdriveD cf remote tested pers params3 offroad d)"
      using sd_ext_core [OF offroad_ext [OF o]] by (simp_all add: core_def)
    then show ?thesis
      using init sd_ext_sd_wf [OF offroad_ext [OF o] init(1)] by simp
  qed (use init in simp)
qed

end
