(* ===== verification/Samples.thy ===== *)
theory Samples
  imports SelfdriveSafety
begin

text \<open>
  A concrete configuration, car state, set of messages and \<open>selfdrived\<close> state, on which the
  hypotheses of the properties hold.
\<close>

definition sample_env :: Env where
  "sample_env = \<lparr>env_mici = False, env_short_branch = ''release'', env_REPLAY = False,
     env_SIMULATION = False, env_TESTING_CLOSET = False\<rparr>"

definition sample_CP_SP :: CarParamsSP where
  "sample_CP_SP = \<lparr>cpsp_flags = 0, cpsp_safetyParam = 0, cpsp_pcmCruiseSpeed = True,
     cpsp_enableGasInterceptor = False, cpsp_icbmAvailable = False\<rparr>"

definition sample_CC :: CarControl where
  "sample_CC = \<lparr>cc_enabled = False, cc_latActive = False, cc_longActive = False, cc_accel = 0,
     cc_torque = 0, cc_cruise_override = False, cc_cruise_cancel = False, cc_cruise_resume = False\<rparr>"

definition sample_panda :: PandaState where
  "sample_panda = \<lparr>ps_safetyModel = SM_other 1, ps_safetyParam = 0, ps_alternativeExperience = 0,
     ps_safetyRxChecksInvalid = False, ps_controlsAllowed = False, ps_controlsAllowedLateral = False,
     ps_relayMalfunction = False\<rparr>"

definition sample_data :: SdData where
  "sample_data =
     \<lparr>d_lat_debugState = False, d_lac_active = False, d_lac_saturated = False, d_curvature = 0,
      d_vCruise_deprecated = 255, d_carControl = sample_CC, d_dm_lockout = False,
      d_dm_alwaysOnLockout = False, d_dm_alertLevel = AL_none, d_dm_activePolicy = MP_vision,
      d_dm_uncertainPercent = 0, d_lpsp_events = [], d_lpsp_vTarget = 0,
      d_lpsp_resolver = \<lparr>rm_speedLimit = 0, rm_speedLimitFinalLast = 0, rm_speedLimitValid = False,
        rm_speedLimitLastValid = False\<rparr>,
      d_lp_fcw = False, d_thermalStatus = TH_ok, d_freeSpacePercent = 50, d_memoryUsagePercent = 40,
      d_cpuUsagePercent = [], d_cpuTempC = [], d_gpuTempC = [], d_memoryTempC = 40,
      d_fanSpeedPercentDesired = 0, d_fanSpeedRpm = 0, d_pandaType_unknown = False,
      d_calStatus = CAL_calibrated, d_calPerc = 100, d_rpyCalib = [], d_posenetOK = True,
      d_inputsOK = True, d_params_valid = True, d_roll = 0, d_angleOffsetValid = True,
      d_angleOffsetDeg = 0, d_steerRatioValid = True, d_steerRatio = 15,
      d_stiffnessFactorValid = True, d_stiffnessFactor = 1, d_leftLaneDeparture = False,
      d_rightLaneDeparture = False, d_laneChangeState = LC_off, d_laneChangeDirection = LCD_none,
      d_laneTurnDirection = TD_none, d_desiredCurvature = 0, d_hardBrakePredicted = False,
      d_frameDropPerc = 0, d_model_velocity_x = [], d_pandaStates = [sample_panda], d_processes = [],
      d_radar_canError = False, d_radar_unavailableTemporary = False, d_radar_other_error = False,
      d_alertText1 = [], d_alertText2 = [], d_audio_blockNum = 0\<rparr>"

definition sample_offroad :: "string \<rightharpoonup> OffroadAlert" where
  "sample_offroad = map_of (map (\<lambda>n. (n, \<lparr>oa_text = ''text'', oa_severity = 1, oa_extra = []\<rparr>))
     [''Offroad_DriverMonitoringUncertain'', ''Offroad_Recalibration'', ''Offroad_ExcessiveActuation''])"

definition sample_cf :: SdConfig where
  "sample_cf =
     \<lparr>cf_env = sample_env, cf_ob = plain_ob, cf_opendbc_DT = 1/100, cf_CP = plain_CP,
      cf_CP_SP = sample_CP_SP, cf_dflt = (\<lambda>_. 1), cf_OFFROAD = sample_offroad,
      cf_gps_service = ''gpsLocation'', cf_sin = (\<lambda>x. x)\<rparr>"

lemma check_services_data: "check_services t sm ss = Some sm' \<Longrightarrow> data sm' = data sm"
  by (induction t sm ss rule: check_services.induct) (auto simp: bind_eq_Some_conv)

lemma no_messages_data: "update_msgs t sm [] = Some sm' \<Longrightarrow> data sm' = data sm"
  using check_services_data by (fastforce simp: update_msgs_def Let_def)

definition sample_frame :: "rat \<Rightarrow> CarState \<Rightarrow> FrameInput" where
  "sample_frame t CS = \<lparr>fi_CS = Some CS, fi_time = t, fi_msgs = [],
     fi_pose = \<lparr>pose_acceleration_x = 0, pose_angular_velocity_yaw = 0\<rparr>, fi_lagging = False, fi_stream_road = True,
     fi_stream_wide = True\<rparr>"

lemma sample_input:
  assumes "now < t" "data (sd_sm sd) = sample_data"
  shows "input_ok sample_cf now (sample_frame t CS) sd"
  using assms no_messages_data [of t "sd_sm sd"]
  by (auto simp: input_ok_def frame_ok_def sample_cf_def sample_offroad_def sd_offroad_names_def
      sample_data_def sample_frame_def)

definition sample_sd :: SelfdriveD where
  "sample_sd = initial_SelfdriveD sample_cf True True 1 Map.empty Map.empty sample_data"

lemma new_sample: "new_SelfdriveD sample_cf True True Map.empty Map.empty sample_data = Some sample_sd"
  by (simp add: new_SelfdriveD_def sample_sd_def Let_def sample_cf_def plain_CP_def
      get_sanitize_int_param_def get_default_def fun_upd_idem)

lemma sample_sd_ok:
  "sd_wf sample_sd" "trackers_ok 0 (sd_sm sample_sd)" "data (sd_sm sample_sd) = sample_data"
  using initial_wf [OF _ _ order.refl sample_sd_def] by simp_all

text \<open>The same process once it is initialized, and while it is engaged.\<close>

definition running_sd :: SelfdriveD where
  "running_sd = sample_sd\<lparr>initialized := True\<rparr>"

definition engaged_sd :: SelfdriveD where
  "engaged_sd = running_sd\<lparr>state_machine := go S_enabled new_StateMachine, sd_enabled := True, sd_active := True,
     mads := (mads sample_sd)\<lparr>enabled_toggle := True\<rparr>, mismatch_counter := 199\<rparr>"

lemma running_ok:
  "sd_wf running_sd" "trackers_ok 0 (sd_sm running_sd)" "data (sd_sm running_sd) = sample_data"
  "sd_wf engaged_sd" "trackers_ok 0 (sd_sm engaged_sd)" "data (sd_sm engaged_sd) = sample_data"
  using sample_sd_ok by (simp_all add: running_sd_def engaged_sd_def sd_wf_def personality_ok_def)

lemma sample_facts:
  "initialized running_sd" "initialized engaged_sd" "\<not> cp_passive (cf_CP sample_cf)"
  "\<not> cp_notCar (cf_CP sample_cf)" "frame_CS (sample_frame t CS) sd = CS" "enabled_toggle (mads engaged_sd)"
  "CS_prev running_sd = default_CarState" "CS_prev engaged_sd = default_CarState"
  "mismatch_counter engaged_sd = 199" "sd_enabled engaged_sd"
  by (simp_all add: running_sd_def engaged_sd_def sample_sd_def initial_SelfdriveD_def Let_def sample_cf_def
      plain_CP_def frame_CS_def sample_frame_def)

end
