(* ===== verification/SpeedLimit.thy ===== *)
theory SpeedLimit
  imports AlertCallbacks Platform
begin

text \<open>
  \<open>sunnypilot/selfdrive/controls/lib/speed_limit\<close>: \<open>common.py\<close>, \<open>helpers.py\<close> and the resolver, which
  picks one speed limit from the car's camera and the map according to the policy. The clock
  \<open>time.monotonic()\<close> is an input: \<open>fix_age\<close> is the age of the last GPS fix.
\<close>

section \<open>Constants and helpers\<close>

definition LIMIT_ADAPT_ACC :: rat where "LIMIT_ADAPT_ACC = -1"
definition LIMIT_MAX_MAP_DATA_AGE :: rat where "LIMIT_MAX_MAP_DATA_AGE = 10"
definition DT_MDL :: rat where "DT_MDL = 5/100"
definition PARAMS_UPDATE_PERIOD :: rat where "PARAMS_UPDATE_PERIOD = 3"

definition Policy_car_state_only :: int where "Policy_car_state_only = 0"
definition Policy_map_data_only :: int where "Policy_map_data_only = 1"
definition Policy_car_state_priority :: int where "Policy_car_state_priority = 2"
definition Policy_map_data_priority :: int where "Policy_map_data_priority = 3"
definition Policy_combined :: int where "Policy_combined = 4"

definition OffsetType_off :: int where "OffsetType_off = 0"
definition OffsetType_fixed :: int where "OffsetType_fixed = 1"
definition OffsetType_percentage :: int where "OffsetType_percentage = 2"

definition Mode_warning :: int where "Mode_warning = 2"
definition Mode_assist :: int where "Mode_assist = 3"

lemmas policy_defs = Policy_car_state_only_def Policy_map_data_only_def Policy_car_state_priority_def
  Policy_map_data_priority_def Policy_combined_def

lemmas offset_defs = OffsetType_off_def OffsetType_fixed_def OffsetType_percentage_def

definition compare_cluster_target :: "rat \<Rightarrow> rat \<Rightarrow> bool \<Rightarrow> bool \<times> bool" where
  "compare_cluster_target v_cluster target is_metric =
     (let speed_conv = (if is_metric then MS_TO_KPH else MS_TO_MPH);
          v_cluster_conv = py_round (v_cluster * speed_conv);
          target_conv = py_round (target * speed_conv)
      in (v_cluster_conv < target_conv, v_cluster_conv > target_conv))"

definition set_speed_limit_assist_availability :: "CarParams \<Rightarrow> CarParamsSP \<Rightarrow> (string \<Rightarrow> int) \<Rightarrow>
    Params \<Rightarrow> bool \<times> Params" where
  "set_speed_limit_assist_availability CP CP_SP dflt params =
     (let is_release = get_bool params ''IsReleaseSpBranch'';
          disallow_in_release = (cp_brand CP = ''tesla'' \<and> is_release);
          always_disallow = (cp_brand CP = ''rivian'');
          allowed = \<not> (disallow_in_release \<or> always_disallow)
                    \<and> \<not> (\<not> cp_openpilotLongitudinalControl CP \<and> cpsp_pcmCruiseSpeed CP_SP)
      in (allowed,
          if \<not> allowed \<and> get_default dflt params ''SpeedLimitMode'' = Mode_assist
          then params(''SpeedLimitMode'' \<mapsto> Mode_warning) else params))"

text \<open>At most one of the two button requests is made, and only for speeds that display differently.\<close>

lemma compare_cluster_exclusive: "\<not> (fst (compare_cluster_target v t m) \<and> snd (compare_cluster_target v t m))"
  by (simp add: compare_cluster_target_def Let_def)

lemma compare_cluster_plus: "fst (compare_cluster_target v t m) \<Longrightarrow> v < t"
proof -
  assume "fst (compare_cluster_target v t m)"
  moreover define k where "k = (if m then MS_TO_KPH else MS_TO_MPH)"
  ultimately have k: "0 < k" "py_round (v * k) < py_round (t * k)"
    by (simp_all add: compare_cluster_target_def Let_def)
  then have "\<not> t * k \<le> v * k"
    using py_round_mono [of "t * k" "v * k"] by linarith
  with k(1) show "v < t"
    by simp
qed

lemma compare_cluster_minus: "snd (compare_cluster_target v t m) \<Longrightarrow> t < v"
proof -
  assume "snd (compare_cluster_target v t m)"
  moreover define k where "k = (if m then MS_TO_KPH else MS_TO_MPH)"
  ultimately have k: "0 < k" "py_round (t * k) < py_round (v * k)"
    by (simp_all add: compare_cluster_target_def Let_def)
  then have "\<not> v * k \<le> t * k"
    using py_round_mono [of "v * k" "t * k"] by linarith
  with k(1) show "t < v"
    by simp
qed

text \<open>When assist is not available the stored mode is never assist afterwards.\<close>

lemma sla_availability_mode:
  assumes "set_speed_limit_assist_availability CP CP_SP dflt params = (allowed, params')"
  shows "\<not> allowed \<Longrightarrow> get_default dflt params' ''SpeedLimitMode'' \<noteq> Mode_assist"
    and "allowed \<Longrightarrow> params' = params"
  using assms
  by (auto simp: set_speed_limit_assist_availability_def Let_def get_default_def Mode_assist_def
      Mode_warning_def split: if_splits option.splits)

section \<open>Class SpeedLimitResolver\<close>

datatype SpeedLimitSource = SLS_none | SLS_car | SLS_map

record SpeedLimitResolver =
  rs_frame :: int
  limit_solutions :: "SpeedLimitSource \<Rightarrow> rat"
  distance_solutions :: "SpeedLimitSource \<Rightarrow> rat"
  policy :: int
  rs_source :: SpeedLimitSource
  rs_is_metric :: bool
  offset_type :: int
  offset_value :: int
  rs_v_ego :: rat
  speed_limit :: rat
  speed_limit_last :: rat
  speed_limit_final :: rat
  speed_limit_final_last :: rat
  speed_limit_offset :: rat
  rs_distance :: rat

text \<open>The messages a step reads: \<open>carStateSP\<close>, the GPS service and \<open>liveMapDataSP\<close>.\<close>

record ResolverInput =
  ri_car_speedLimit :: rat
  ri_fix_age :: rat
  ri_map_speedLimit :: rat
  ri_map_speedLimitValid :: bool
  ri_map_speedLimitAhead :: rat
  ri_map_speedLimitAheadValid :: bool
  ri_map_speedLimitAheadDistance :: rat

fun policy_to_sources :: "int \<Rightarrow> SpeedLimitSource list option" where
  "policy_to_sources p =
     (if p = Policy_car_state_only then Some [SLS_car]
      else if p = Policy_map_data_only then Some [SLS_map]
      else if p = Policy_car_state_priority then Some [SLS_car, SLS_map]
      else if p = Policy_map_data_priority then Some [SLS_map, SLS_car]
      else if p = Policy_combined then Some [SLS_car, SLS_map]
      else None)"

definition new_SpeedLimitResolver :: "(string \<Rightarrow> int) \<Rightarrow> Params \<Rightarrow> SpeedLimitResolver \<times> Params" where
  "new_SpeedLimitResolver dflt params =
     (let (pol, params1) = get_sanitize_int_param dflt ''SpeedLimitPolicy'' 0 4 params;
          (off, params2) = get_sanitize_int_param dflt ''SpeedLimitOffsetType'' 0 2 params1
      in (\<lparr>rs_frame = -1, limit_solutions = (\<lambda>s. 0), distance_solutions = (\<lambda>s. 0), policy = pol,
           rs_source = SLS_none, rs_is_metric = get_bool params1 ''IsMetric'', offset_type = off,
           offset_value = get_default dflt params2 ''SpeedLimitValueOffset'', rs_v_ego = 0,
           speed_limit = 0, speed_limit_last = 0, speed_limit_final = 0, speed_limit_final_last = 0,
           speed_limit_offset = 0, rs_distance = 0\<rparr>, params2))"

definition update_speed_limit_states :: "SpeedLimitResolver \<Rightarrow> SpeedLimitResolver" where
  "update_speed_limit_states rs =
     (let rs1 = rs\<lparr>speed_limit_final := speed_limit rs + speed_limit_offset rs\<rparr>
      in if speed_limit rs1 > 0
         then rs1\<lparr>speed_limit_last := speed_limit rs1, speed_limit_final_last := speed_limit_final rs1\<rparr>
         else rs1)"

definition speed_limit_valid :: "SpeedLimitResolver \<Rightarrow> bool" where
  "speed_limit_valid rs \<longleftrightarrow> speed_limit rs > 0"

definition speed_limit_last_valid :: "SpeedLimitResolver \<Rightarrow> bool" where
  "speed_limit_last_valid rs \<longleftrightarrow> speed_limit_last rs > 0"

definition rs_update_params :: "(string \<Rightarrow> int) \<Rightarrow> Params \<Rightarrow> SpeedLimitResolver \<Rightarrow> SpeedLimitResolver" where
  "rs_update_params dflt params rs =
     (if rs_frame rs mod py_trunc (PARAMS_UPDATE_PERIOD / DT_MDL) = 0
      then rs\<lparr>policy := get_default dflt params ''SpeedLimitPolicy'',
              rs_is_metric := get_bool params ''IsMetric'',
              offset_type := get_default dflt params ''SpeedLimitOffsetType'',
              offset_value := get_default dflt params ''SpeedLimitValueOffset''\<rparr>
      else rs)"

text \<open>An unknown offset type raises \<open>NotImplementedError\<close>.\<close>

definition get_speed_limit_offset :: "SpeedLimitResolver \<Rightarrow> rat option" where
  "get_speed_limit_offset rs =
     (if offset_type rs = OffsetType_off then Some 0
      else if offset_type rs = OffsetType_fixed
      then Some (of_int (offset_value rs) * (if rs_is_metric rs then KPH_TO_MS else MPH_TO_MS))
      else if offset_type rs = OffsetType_percentage
      then Some (of_int (offset_value rs) * (1/100) * speed_limit rs)
      else None)"

definition reset_limit_sources :: "SpeedLimitSource \<Rightarrow> SpeedLimitResolver \<Rightarrow> SpeedLimitResolver" where
  "reset_limit_sources s rs =
     rs\<lparr>limit_solutions := (limit_solutions rs)(s := 0),
        distance_solutions := (distance_solutions rs)(s := 0)\<rparr>"

definition get_from_car_state :: "ResolverInput \<Rightarrow> SpeedLimitResolver \<Rightarrow> SpeedLimitResolver" where
  "get_from_car_state ri rs0 =
     (let rs = reset_limit_sources SLS_car rs0
      in rs\<lparr>limit_solutions := (limit_solutions rs)(SLS_car := ri_car_speedLimit ri),
            distance_solutions := (distance_solutions rs)(SLS_car := 0)\<rparr>)"

definition calculate_map_data_limits :: "ResolverInput \<Rightarrow> rat \<Rightarrow> rat \<Rightarrow> SpeedLimitResolver \<Rightarrow>
    SpeedLimitResolver" where
  "calculate_map_data_limits ri limit next_limit rs =
     (let distance_since_fix = rs_v_ego rs * ri_fix_age ri;
          distance_ahead = max 0 (ri_map_speedLimitAheadDistance ri - distance_since_fix);
          rs1 = rs\<lparr>limit_solutions := (limit_solutions rs)(SLS_map := limit),
                   distance_solutions := (distance_solutions rs)(SLS_map := 0)\<rparr>
      in if 0 < next_limit \<and> next_limit < rs_v_ego rs1 then
           (let adapt_time = (next_limit - rs_v_ego rs1) / LIMIT_ADAPT_ACC;
                adapt_distance = rs_v_ego rs1 * adapt_time + 1/2 * LIMIT_ADAPT_ACC * adapt_time ^ 2
            in if distance_ahead \<le> adapt_distance
               then rs1\<lparr>limit_solutions := (limit_solutions rs1)(SLS_map := next_limit),
                        distance_solutions := (distance_solutions rs1)(SLS_map := distance_ahead)\<rparr>
               else rs1)
         else rs1)"

definition process_map_data :: "ResolverInput \<Rightarrow> SpeedLimitResolver \<Rightarrow> SpeedLimitResolver" where
  "process_map_data ri rs =
     (if ri_fix_age ri > LIMIT_MAX_MAP_DATA_AGE then rs
      else calculate_map_data_limits ri
             (if ri_map_speedLimitValid ri then ri_map_speedLimit ri else 0)
             (if ri_map_speedLimitAheadValid ri then ri_map_speedLimitAhead ri else 0) rs)"

definition get_from_map_data :: "ResolverInput \<Rightarrow> SpeedLimitResolver \<Rightarrow> SpeedLimitResolver" where
  "get_from_map_data ri rs = process_map_data ri (reset_limit_sources SLS_map rs)"

text \<open>\<open>min(..., key=lambda x: x[1])\<close>: the first of the smallest.\<close>

fun first_min :: "(SpeedLimitSource \<times> rat) list \<Rightarrow> SpeedLimitSource \<times> rat" where
  "first_min [] = (SLS_none, 0)"
| "first_min [x] = x"
| "first_min (x # y # xs) = (if snd y < snd x then first_min (y # xs) else first_min (x # xs))"

definition get_source_solution :: "SpeedLimitResolver \<Rightarrow> SpeedLimitSource option" where
  "get_source_solution rs =
     (case policy_to_sources (policy rs) of
        None \<Rightarrow> None
      | Some sources \<Rightarrow>
          if policy rs \<noteq> Policy_combined then
            (case find (\<lambda>s. limit_solutions rs s > 0) sources of
               Some s \<Rightarrow> Some s | None \<Rightarrow> Some SLS_none)
          else
            (let with_limits = filter (\<lambda>x. snd x > 0) (map (\<lambda>s. (s, limit_solutions rs s)) sources)
             in if with_limits \<noteq> [] then Some (fst (first_min with_limits)) else Some SLS_none))"

definition resolve_limit_sources :: "ResolverInput \<Rightarrow> SpeedLimitResolver \<Rightarrow> SpeedLimitResolver option" where
  "resolve_limit_sources ri rs0 =
     (let rs = get_from_map_data ri (get_from_car_state ri rs0)
      in case get_source_solution rs of
           None \<Rightarrow> None
         | Some s \<Rightarrow>
             Some (rs\<lparr>speed_limit := (if s \<noteq> SLS_none then limit_solutions rs s else 0),
                      rs_distance := (if s \<noteq> SLS_none then distance_solutions rs s else 0),
                      rs_source := s\<rparr>))"

definition rs_update :: "(string \<Rightarrow> int) \<Rightarrow> Params \<Rightarrow> rat \<Rightarrow> ResolverInput \<Rightarrow> SpeedLimitResolver \<Rightarrow>
    SpeedLimitResolver option" where
  "rs_update dflt params v_ego ri rs0 =
     (let rs1 = rs_update_params dflt params (rs0\<lparr>rs_v_ego := v_ego\<rparr>)
      in case resolve_limit_sources ri rs1 of
           None \<Rightarrow> None
         | Some rs2 \<Rightarrow>
             (case get_speed_limit_offset rs2 of
                None \<Rightarrow> None
              | Some off \<Rightarrow>
                  (let rs3 = update_speed_limit_states (rs2\<lparr>speed_limit_offset := off\<rparr>)
                   in Some (rs3\<lparr>rs_frame := rs_frame rs3 + 1\<rparr>))))"

section \<open>The resolved limit\<close>

text \<open>The stored settings that the resolver understands.\<close>

definition settings_ok :: "int \<Rightarrow> int \<Rightarrow> bool" where
  "settings_ok pol off \<longleftrightarrow> pol \<in> {0..4} \<and> off \<in> {0..2}"

lemma policy_total: "0 \<le> p \<Longrightarrow> p \<le> 4 \<Longrightarrow> \<exists>ss. policy_to_sources p = Some ss \<and> ss \<noteq> []"
proof -
  assume "0 \<le> p" "p \<le> 4"
  then have "p = 0 \<or> p = 1 \<or> p = 2 \<or> p = 3 \<or> p = 4"
    by presburger
  then show ?thesis
    by (auto simp: policy_defs)
qed

lemma source_total: "0 \<le> policy rs \<Longrightarrow> policy rs \<le> 4 \<Longrightarrow> \<exists>s. get_source_solution rs = Some s"
  using policy_total [of "policy rs"]
  by (auto simp: get_source_solution_def Let_def simp del: policy_to_sources.simps split: option.splits)

lemma offset_total: "0 \<le> offset_type rs \<Longrightarrow> offset_type rs \<le> 2 \<Longrightarrow> get_speed_limit_offset rs \<noteq> None"
proof -
  assume "0 \<le> offset_type rs" "offset_type rs \<le> 2"
  then have "offset_type rs = 0 \<or> offset_type rs = 1 \<or> offset_type rs = 2"
    by presburger
  then show ?thesis
    by (auto simp: get_speed_limit_offset_def offset_defs simp del: not_None_eq)
qed

lemma first_min_in: "xs \<noteq> [] \<Longrightarrow> first_min xs \<in> set xs"
  by (induction xs rule: first_min.induct) auto

lemma first_min_least: "x \<in> set xs \<Longrightarrow> snd (first_min xs) \<le> snd x"
proof (induction xs arbitrary: x rule: first_min.induct)
  case (3 y z zs)
  show ?case
  proof (cases "snd z < snd y")
    case True
    have "snd (first_min (z # zs)) \<le> snd z"
      using "3.IH"(1) [OF True] by simp
    then show ?thesis
      using "3.IH"(1) [OF True, of x] "3.prems" True by auto
  next
    case False
    have "snd (first_min (y # zs)) \<le> snd y"
      using "3.IH"(2) [OF False] by simp
    then show ?thesis
      using "3.IH"(2) [OF False, of x] "3.prems" False by auto
  qed
qed auto

lemma policy_sources_real: "policy_to_sources p = Some ss \<Longrightarrow> SLS_none \<notin> set ss"
  by (auto split: if_splits)

text \<open>The chosen source has a positive limit; no source is chosen only when none of the policy has one.\<close>

lemma source_positive:
  assumes "get_source_solution rs = Some s" "policy_to_sources (policy rs) = Some ss"
  shows "if s = SLS_none then \<forall>t\<in>set ss. \<not> limit_solutions rs t > 0
    else s \<in> set ss \<and> limit_solutions rs s > 0"
proof -
  note [simp del] = policy_to_sources.simps
  let ?w = "filter (\<lambda>x. snd x > 0) (map (\<lambda>s. (s, limit_solutions rs s)) ss)"
  have none: "SLS_none \<notin> set ss"
    by (rule policy_sources_real [OF assms(2)])
  consider "policy rs \<noteq> Policy_combined" "find (\<lambda>s. limit_solutions rs s > 0) ss = None"
    | t where "policy rs \<noteq> Policy_combined" "find (\<lambda>s. limit_solutions rs s > 0) ss = Some t"
    | "policy rs = Policy_combined" "?w = []" | "policy rs = Policy_combined" "?w \<noteq> []"
    by blast
  then show ?thesis
  proof cases
    case 1
    then have "\<forall>t\<in>set ss. \<not> limit_solutions rs t > 0"
      by (simp add: find_None_iff)
    moreover have "s = SLS_none"
      using assms 1 by (simp add: get_source_solution_def)
    ultimately show ?thesis
      by simp
  next
    case (2 t)
    then have "t \<in> set ss" "limit_solutions rs t > 0"
      by (auto simp: find_Some_iff)
    with none 2 show ?thesis
      using assms by (auto simp: get_source_solution_def)
  next
    case 3
    then show ?thesis
      using assms by (auto simp: get_source_solution_def filter_empty_conv)
  next
    case 4
    then have s: "s = fst (first_min ?w)"
      using assms by (simp add: get_source_solution_def)
    have "first_min ?w \<in> set ?w"
      by (rule first_min_in [OF 4(2)])
    then have "s \<in> set ss" "limit_solutions rs s > 0"
      unfolding s by auto
    with none show ?thesis
      by auto
  qed
qed

text \<open>With the combined policy the limit is the lowest of the positive ones.\<close>

lemma source_combined_least:
  assumes "get_source_solution rs = Some s" "policy rs = Policy_combined"
    "t \<in> {SLS_car, SLS_map}" "limit_solutions rs t > 0"
  shows "limit_solutions rs s \<le> limit_solutions rs t"
proof -
  let ?w = "filter (\<lambda>x. snd x > 0) (map (\<lambda>s. (s, limit_solutions rs s)) [SLS_car, SLS_map])"
  have t: "(t, limit_solutions rs t) \<in> set ?w"
    using assms(3,4) by auto
  then have "?w \<noteq> []"
    by force
  then have s: "s = fst (first_min ?w)" and "first_min ?w \<in> set ?w"
    using assms(1,2) first_min_in [of ?w]
    by (simp_all add: get_source_solution_def policy_defs)
  then have "snd (first_min ?w) = limit_solutions rs s"
    unfolding s by auto
  then show ?thesis
    using first_min_least [OF t] by simp
qed

text \<open>A step with known settings returns; the published limit is the one of the chosen source.\<close>

lemma settings_step:
  assumes "settings_ok (policy rs) (offset_type rs)"
    "settings_ok (get_default dflt params ''SpeedLimitPolicy'') (get_default dflt params ''SpeedLimitOffsetType'')"
  shows "settings_ok (policy (rs_update_params dflt params rs)) (offset_type (rs_update_params dflt params rs))"
  using assms by (simp add: rs_update_params_def)

lemma resolve_frame:
  assumes "resolve_limit_sources ri rs = Some rs'"
  shows "policy rs' = policy rs \<and> offset_type rs' = offset_type rs
    \<and> speed_limit_last rs' = speed_limit_last rs
    \<and> speed_limit_final_last rs' = speed_limit_final_last rs"
  using assms
  by (auto simp: resolve_limit_sources_def Let_def get_from_map_data_def get_from_car_state_def
      reset_limit_sources_def process_map_data_def calculate_map_data_limits_def split: option.splits)

lemma rs_update_total:
  assumes "settings_ok (policy rs) (offset_type rs)"
    "settings_ok (get_default dflt params ''SpeedLimitPolicy'') (get_default dflt params ''SpeedLimitOffsetType'')"
  shows "\<exists>rs'. rs_update dflt params v_ego ri rs = Some rs' \<and> settings_ok (policy rs') (offset_type rs')"
proof -
  define rs1 where "rs1 = rs_update_params dflt params (rs\<lparr>rs_v_ego := v_ego\<rparr>)"
  have ok: "settings_ok (policy rs1) (offset_type rs1)"
    unfolding rs1_def using assms by (intro settings_step) simp_all
  define rs2 where "rs2 = get_from_map_data ri (get_from_car_state ri rs1)"
  have "policy rs2 = policy rs1"
    by (simp add: rs2_def Let_def get_from_map_data_def get_from_car_state_def
        reset_limit_sources_def process_map_data_def calculate_map_data_limits_def)
  then obtain s where "get_source_solution rs2 = Some s"
    using source_total [of rs2] ok by (auto simp: settings_ok_def)
  then obtain rs3 where rs3: "resolve_limit_sources ri rs1 = Some rs3"
    by (simp add: resolve_limit_sources_def Let_def flip: rs2_def)
  have ok3: "settings_ok (policy rs3) (offset_type rs3)"
    using resolve_frame [OF rs3] ok by simp
  then obtain x where "get_speed_limit_offset rs3 = Some x"
    using offset_total [of rs3] by (auto simp: settings_ok_def)
  with rs3 ok3 show ?thesis
    by (simp add: rs_update_def Let_def update_speed_limit_states_def flip: rs1_def)
qed

lemma states_frame: "rs_frame (update_speed_limit_states rs) = rs_frame rs"
  by (simp add: update_speed_limit_states_def Let_def)

text \<open>The last valid limit is kept while there is none.\<close>

lemma rs_update_last:
  assumes "rs_update dflt params v_ego ri rs = Some rs'"
  shows "speed_limit_last rs' = (if speed_limit rs' > 0 then speed_limit rs' else speed_limit_last rs)"
    and "speed_limit_final_last rs' =
      (if speed_limit rs' > 0 then speed_limit rs' + speed_limit_offset rs' else speed_limit_final_last rs)"
proof -
  define rs1 where "rs1 = rs_update_params dflt params (rs\<lparr>rs_v_ego := v_ego\<rparr>)"
  have last: "speed_limit_last rs1 = speed_limit_last rs"
    "speed_limit_final_last rs1 = speed_limit_final_last rs"
    by (simp_all add: rs1_def rs_update_params_def)
  obtain rs2 x where rs2: "resolve_limit_sources ri rs1 = Some rs2"
    and rs': "rs' = (update_speed_limit_states (rs2\<lparr>speed_limit_offset := x\<rparr>))\<lparr>rs_frame := rs_frame rs2 + 1\<rparr>"
    using assms
    by (auto simp: rs_update_def Let_def rs1_def states_frame split: option.splits)
  show "speed_limit_last rs' = (if speed_limit rs' > 0 then speed_limit rs' else speed_limit_last rs)"
    "speed_limit_final_last rs' =
      (if speed_limit rs' > 0 then speed_limit rs' + speed_limit_offset rs' else speed_limit_final_last rs)"
    using resolve_frame [OF rs2] last by (simp_all add: rs' update_speed_limit_states_def Let_def)
qed

section \<open>Properties\<close>

text \<open>The comparison of the cluster speed with a target never asks for both buttons, and
  asks for plus (minus) only when the target really is above (below) the cluster speed.\<close>

theorem cluster_comparison_is_consistent:
  "compare_cluster_target v t m = (req_plus, req_minus) \<Longrightarrow>
     \<not> (req_plus \<and> req_minus) \<and> (req_plus \<longrightarrow> v < t) \<and> (req_minus \<longrightarrow> t < v)"
  using compare_cluster_exclusive [of v t m] compare_cluster_plus [of v t m] compare_cluster_minus [of v t m] by simp

theorem cluster_comparison_is_consistent_witness:
  "compare_cluster_target 10 20 True = (True, False) \<and> (10 :: rat) < 20"
proof -
  have c: "compare_cluster_target 10 20 True = (True, False)"
    by code_simp
  show ?thesis
    using cluster_comparison_is_consistent [OF c] c by simp
qed

text \<open>The resolver takes its limit from a source of the policy that has a positive limit
  and, for the combined policy, from one with the least positive limit; without any positive limit the
  source is none and the limit zero.\<close>

theorem resolver_picks_source:
  assumes "resolve_limit_sources ri rs = Some rs'" "policy_to_sources (policy rs) = Some ss"
  shows "if rs_source rs' = SLS_none then speed_limit rs' = 0 \<and> list_all (\<lambda>s. \<not> 0 < limit_solutions rs' s) ss
    else rs_source rs' \<in> set ss \<and> speed_limit rs' = limit_solutions rs' (rs_source rs') \<and> 0 < speed_limit rs'
      \<and> (policy rs = Policy_combined \<longrightarrow>
           list_all (\<lambda>s. 0 < limit_solutions rs' s \<longrightarrow> speed_limit rs' \<le> limit_solutions rs' s) [SLS_car, SLS_map])"
proof -
  define r where "r = get_from_map_data ri (get_from_car_state ri rs)"
  obtain s where s: "get_source_solution r = Some s"
    and rs': "rs' = r\<lparr>speed_limit := (if s \<noteq> SLS_none then limit_solutions r s else 0),
        rs_distance := (if s \<noteq> SLS_none then distance_solutions r s else 0), rs_source := s\<rparr>"
    using assms(1) by (auto simp: resolve_limit_sources_def Let_def r_def split: option.splits)
  have pol: "policy r = policy rs"
    using resolve_frame [OF assms(1)] rs' by simp
  show ?thesis
    using source_positive [OF s, of ss] source_combined_least [OF s] assms(2)
    unfolding rs' pol by (simp add: list_all_iff)
qed

definition sample_resolver :: SpeedLimitResolver where
  "sample_resolver = fst (new_SpeedLimitResolver (\<lambda>k. if k = ''SpeedLimitPolicy'' then 4 else 0) Map.empty)"

definition sample_ri :: ResolverInput where
  "sample_ri = \<lparr>ri_car_speedLimit = 20, ri_fix_age = 0, ri_map_speedLimit = 15, ri_map_speedLimitValid = True,
     ri_map_speedLimitAhead = 0, ri_map_speedLimitAheadValid = False, ri_map_speedLimitAheadDistance = 0\<rparr>"

lemma sample_resolver_policy: "policy sample_resolver = 4" "offset_type sample_resolver = 0"
  by (simp_all add: sample_resolver_def new_SpeedLimitResolver_def get_sanitize_int_param_def get_default_def)

theorem resolver_picks_source_witness:
  "\<exists>rs'. resolve_limit_sources sample_ri sample_resolver = Some rs' \<and> speed_limit rs' \<le> 20"
proof -
  have p: "policy_to_sources (policy sample_resolver) = Some [SLS_car, SLS_map]"
    unfolding sample_resolver_policy by code_simp
  have "map_option speed_limit (resolve_limit_sources sample_ri sample_resolver) = Some 15"
    by code_simp
  then obtain rs' where r: "resolve_limit_sources sample_ri sample_resolver = Some rs'" "speed_limit rs' = 15"
    by auto
  show ?thesis
    using resolver_picks_source [OF r(1) p] r by (auto split: if_splits)
qed

text \<open>While the stored policy and offset type are in range, an update never raises (no missing
  policy, no unknown offset type), keeps them in range, and the last positive limit, with its offset, is
  remembered when the current one is lost.\<close>

theorem resolver_never_raises:
  assumes "settings_ok (policy rs) (offset_type rs)"
    "settings_ok (get_default dflt params ''SpeedLimitPolicy'') (get_default dflt params ''SpeedLimitOffsetType'')"
  shows "\<exists>rs'. rs_update dflt params v_ego ri rs = Some rs' \<and> settings_ok (policy rs') (offset_type rs')
    \<and> speed_limit_last rs' = (if 0 < speed_limit rs' then speed_limit rs' else speed_limit_last rs)
    \<and> speed_limit_final_last rs' =
        (if 0 < speed_limit rs' then speed_limit rs' + speed_limit_offset rs' else speed_limit_final_last rs)"
  using rs_update_total [OF assms] rs_update_last by metis

theorem resolver_never_raises_witness:
  "\<exists>rs'. rs_update (\<lambda>_. 0) Map.empty 15 sample_ri sample_resolver = Some rs' \<and> settings_ok (policy rs') (offset_type rs')"
  using resolver_never_raises [of sample_resolver "\<lambda>_. 0" Map.empty 15 sample_ri]
  by (simp add: sample_resolver_policy settings_ok_def get_default_def) blast

text \<open>When speed limit assist is not available for the car, the stored mode is not "assist"
  after the check; when it is available, the parameters are untouched.\<close>

theorem unavailable_assist_is_switched_off:
  assumes "set_speed_limit_assist_availability CP CP_SP dflt params = (allowed, params')"
  shows "if allowed then params' = params else get_default dflt params' ''SpeedLimitMode'' \<noteq> Mode_assist"
  using sla_availability_mode [OF assms] by simp

definition rivian_CP_SP :: CarParamsSP where
  "rivian_CP_SP = \<lparr>cpsp_flags = 0, cpsp_safetyParam = 0, cpsp_pcmCruiseSpeed = True,
     cpsp_enableGasInterceptor = False, cpsp_icbmAvailable = False\<rparr>"

theorem unavailable_assist_is_switched_off_witness:
  "get_default (\<lambda>_. 3) (snd (set_speed_limit_assist_availability (plain_CP\<lparr>cp_brand := ''rivian''\<rparr>) rivian_CP_SP
      (\<lambda>_. 3) Map.empty)) ''SpeedLimitMode'' \<noteq> Mode_assist"
proof -
  have "\<not> fst (set_speed_limit_assist_availability (plain_CP\<lparr>cp_brand := ''rivian''\<rparr>) rivian_CP_SP (\<lambda>_. 3) Map.empty)"
    by (simp add: set_speed_limit_assist_availability_def Let_def)
  then show ?thesis
    using unavailable_assist_is_switched_off [OF surjective_pairing, of "plain_CP\<lparr>cp_brand := ''rivian''\<rparr>"
        rivian_CP_SP "\<lambda>_. 3" Map.empty] by simp
qed

end
