(* ===== verification/SpeedLimitAssist.thy ===== *)
theory SpeedLimitAssist
  imports SpeedLimit EventPair
begin

text \<open>
  \<open>speed_limit_assist.py\<close>: the state machine that offers a new speed limit to the driver and follows
  it once it is confirmed, in one version for cars whose cruise control openpilot drives through the
  PCM and one for the others. \<open>now\<close> is \<open>time.monotonic()\<close>. The acceleration solutions of the class are
  never called and are left out.
\<close>

section \<open>Class SpeedLimitAssist\<close>

datatype AssistState = SLA_disabled | SLA_inactive | SLA_preActive | SLA_pending | SLA_adapting | SLA_active

definition SLA_ACTIVE_STATES :: "AssistState list" where
  "SLA_ACTIVE_STATES = [SLA_active, SLA_adapting]"

definition SLA_ENABLED_STATES :: "AssistState list" where
  "SLA_ENABLED_STATES = [SLA_preActive, SLA_pending] @ SLA_ACTIVE_STATES"

definition DISABLED_GUARD_PERIOD :: rat where "DISABLED_GUARD_PERIOD = 1/2"

definition PRE_ACTIVE_GUARD_PERIOD :: "bool \<Rightarrow> rat" where
  "PRE_ACTIVE_GUARD_PERIOD pcm = (if pcm then 15 else 5)"

definition LIMIT_SPEED_OFFSET_TH :: rat where "LIMIT_SPEED_OFFSET_TH = -1"
definition SLA_V_CRUISE_UNSET :: rat where "SLA_V_CRUISE_UNSET = 255"

definition CRUISE_BUTTONS_PLUS :: "ButtonType list" where
  "CRUISE_BUTTONS_PLUS = [BT_accelCruise, BT_resumeCruise]"

definition CRUISE_BUTTONS_MINUS :: "ButtonType list" where
  "CRUISE_BUTTONS_MINUS = [BT_decelCruise, BT_setCruise]"

definition CRUISE_BUTTON_CONFIRM_HOLD :: rat where "CRUISE_BUTTON_CONFIRM_HOLD = 1/2"

record SpeedLimitAssist =
  sla_frame :: int
  long_engaged_timer :: int
  sla_pre_active_timer :: int
  sla_is_metric :: bool
  sla_enabled :: bool
  long_enabled :: bool
  long_enabled_prev :: bool
  is_enabled :: bool
  is_active :: bool
  output_v_target :: rat
  output_a_target :: rat
  sla_v_ego :: rat
  sla_a_ego :: rat
  v_offset :: rat
  target_set_speed_conv :: int
  prev_target_set_speed_conv :: int
  sla_v_cruise_cluster :: rat
  v_cruise_cluster_prev :: rat
  v_cruise_cluster_conv :: int
  prev_v_cruise_cluster_conv :: int
  has_speed_limit :: bool
  sla_speed_limit :: rat
  sla_speed_limit_final_last :: rat
  speed_limit_prev :: rat
  speed_limit_final_last_conv :: int
  prev_speed_limit_final_last_conv :: int
  sla_distance :: rat
  sla_state :: AssistState
  sla_state_prev :: AssistState
  pcm_op_long :: bool
  plus_hold :: rat
  minus_hold :: rat

definition new_SpeedLimitAssist :: "CarParams \<Rightarrow> CarParamsSP \<Rightarrow> (string \<Rightarrow> int) \<Rightarrow> Params \<Rightarrow>
    SpeedLimitAssist \<times> Params" where
  "new_SpeedLimitAssist CP CP_SP dflt params =
     (let params1 = snd (set_speed_limit_assist_availability CP CP_SP dflt params)
      in (\<lparr>sla_frame = -1, long_engaged_timer = 0, sla_pre_active_timer = 0,
           sla_is_metric = get_bool params ''IsMetric'',
           sla_enabled = (get_default dflt params1 ''SpeedLimitMode'' = Mode_assist),
           long_enabled = False, long_enabled_prev = False, is_enabled = False, is_active = False,
           output_v_target = SLA_V_CRUISE_UNSET, output_a_target = 0, sla_v_ego = 0, sla_a_ego = 0,
           v_offset = 0, target_set_speed_conv = 0, prev_target_set_speed_conv = 0,
           sla_v_cruise_cluster = 0, v_cruise_cluster_prev = 0, v_cruise_cluster_conv = 0,
           prev_v_cruise_cluster_conv = 0, has_speed_limit = False, sla_speed_limit = 0,
           sla_speed_limit_final_last = 0, speed_limit_prev = 0, speed_limit_final_last_conv = 0,
           prev_speed_limit_final_last_conv = 0, sla_distance = 0, sla_state = SLA_disabled,
           sla_state_prev = SLA_disabled,
           pcm_op_long = (cp_openpilotLongitudinalControl CP \<and> cp_pcmCruise CP),
           plus_hold = 0, minus_hold = 0\<rparr>, params1))"

subsection \<open>Queries\<close>

definition speed_limit_changed :: "SpeedLimitAssist \<Rightarrow> bool" where
  "speed_limit_changed a \<longleftrightarrow> has_speed_limit a \<and> sla_speed_limit a \<noteq> speed_limit_prev a"

definition v_cruise_cluster_changed :: "SpeedLimitAssist \<Rightarrow> bool" where
  "v_cruise_cluster_changed a \<longleftrightarrow> v_cruise_cluster_conv a \<noteq> prev_v_cruise_cluster_conv a"

definition target_set_speed_confirmed :: "SpeedLimitAssist \<Rightarrow> bool" where
  "target_set_speed_confirmed a \<longleftrightarrow> v_cruise_cluster_conv a = target_set_speed_conv a"

definition v_cruise_cluster_below_confirm_speed_threshold :: "SpeedLimitAssist \<Rightarrow> bool" where
  "v_cruise_cluster_below_confirm_speed_threshold a \<longleftrightarrow>
     v_cruise_cluster_conv a < CONFIRM_SPEED_THRESHOLD (sla_is_metric a)"

definition apply_confirm_speed_threshold :: "SpeedLimitAssist \<Rightarrow> bool" where
  "apply_confirm_speed_threshold a =
     (if v_cruise_cluster_below_confirm_speed_threshold a then True
      else speed_limit_final_last_conv a < CONFIRM_SPEED_THRESHOLD (sla_is_metric a))"

definition get_v_target_from_control :: "SpeedLimitAssist \<Rightarrow> rat" where
  "get_v_target_from_control a =
     (if has_speed_limit a \<and> pcm_op_long a \<and> is_enabled a then sla_speed_limit_final_last a
      else if has_speed_limit a \<and> \<not> pcm_op_long a \<and> is_active a then sla_speed_limit_final_last a
      else SLA_V_CRUISE_UNSET)"

subsection \<open>Inputs\<close>

definition sla_update_params :: "CarParams \<Rightarrow> CarParamsSP \<Rightarrow> (string \<Rightarrow> int) \<Rightarrow>
    SpeedLimitAssist \<times> Params \<Rightarrow> SpeedLimitAssist \<times> Params" where
  "sla_update_params CP CP_SP dflt = (\<lambda>(a, params).
     if sla_frame a mod py_trunc (PARAMS_UPDATE_PERIOD / DT_MDL) = 0 then
       (let params1 = snd (set_speed_limit_assist_availability CP CP_SP dflt params)
        in (a\<lparr>sla_is_metric := get_bool params ''IsMetric'',
              sla_enabled := (get_default dflt params1 ''SpeedLimitMode'' = Mode_assist)\<rparr>, params1))
     else (a, params))"

definition hold_button :: "rat \<Rightarrow> ButtonEvent \<Rightarrow> SpeedLimitAssist \<Rightarrow> SpeedLimitAssist" where
  "hold_button now b a =
     (if \<not> be_pressed b then
        (if be_type b \<in> set CRUISE_BUTTONS_PLUS
         then a\<lparr>plus_hold := max (plus_hold a) (now + CRUISE_BUTTON_CONFIRM_HOLD)\<rparr>
         else if be_type b \<in> set CRUISE_BUTTONS_MINUS
         then a\<lparr>minus_hold := max (minus_hold a) (now + CRUISE_BUTTON_CONFIRM_HOLD)\<rparr>
         else a)
      else a)"

definition update_car_state :: "rat \<Rightarrow> CarState \<Rightarrow> SpeedLimitAssist \<Rightarrow> SpeedLimitAssist" where
  "update_car_state now CS a = fold (hold_button now) (cs_buttonEvents CS) a"

definition get_button_release :: "rat \<Rightarrow> bool \<Rightarrow> bool \<Rightarrow> SpeedLimitAssist \<Rightarrow> bool \<times> SpeedLimitAssist" where
  "get_button_release now req_plus req_minus a =
     (if req_plus \<and> now \<le> plus_hold a then (True, a\<lparr>plus_hold := 0\<rparr>)
      else if req_minus \<and> now \<le> minus_hold a then (True, a\<lparr>minus_hold := 0\<rparr>)
      else (False, a\<lparr>plus_hold := (if now > plus_hold a then 0 else plus_hold a),
                     minus_hold := (if now > minus_hold a then 0 else minus_hold a)\<rparr>))"

definition sla_update_calculations :: "rat \<Rightarrow> SpeedLimitAssist \<Rightarrow> SpeedLimitAssist" where
  "sla_update_calculations v_cluster a0 =
     (let metric = sla_is_metric a0;
          speed_conv = (if metric then MS_TO_KPH else MS_TO_MPH);
          final_conv = py_round (sla_speed_limit_final_last a0 * speed_conv);
          (cst_low, cst_high) = PCM_LONG_REQUIRED_MAX_SET_SPEED metric;
          required_max = (if has_speed_limit a0 \<and> final_conv < CONFIRM_SPEED_THRESHOLD metric
                          then cst_low else cst_high)
      in a0\<lparr>sla_v_cruise_cluster := v_cluster,
            v_offset := sla_speed_limit_final_last a0 - sla_v_ego a0,
            speed_limit_final_last_conv := final_conv,
            v_cruise_cluster_conv := py_round (v_cluster * speed_conv),
            target_set_speed_conv :=
              (if pcm_op_long a0 then py_round (required_max * speed_conv) else final_conv)\<rparr>)"

subsection \<open>State machines\<close>

definition sla_go :: "AssistState \<Rightarrow> SpeedLimitAssist \<Rightarrow> SpeedLimitAssist" where
  "sla_go s a = a\<lparr>sla_state := s\<rparr>"

definition start_pre_active :: "SpeedLimitAssist \<Rightarrow> SpeedLimitAssist" where
  "start_pre_active a =
     a\<lparr>sla_state := SLA_preActive,
       sla_pre_active_timer := py_trunc (PRE_ACTIVE_GUARD_PERIOD (pcm_op_long a) / DT_MDL)\<rparr>"

definition update_confirmed_state :: "SpeedLimitAssist \<Rightarrow> SpeedLimitAssist" where
  "update_confirmed_state a =
     (if has_speed_limit a
      then (if v_offset a < LIMIT_SPEED_OFFSET_TH then sla_go SLA_adapting a else sla_go SLA_active a)
      else sla_go SLA_pending a)"

definition update_non_pcm_long_confirmed_state :: "rat \<Rightarrow> SpeedLimitAssist \<Rightarrow> bool \<times> SpeedLimitAssist" where
  "update_non_pcm_long_confirmed_state now a =
     (if target_set_speed_confirmed a then (True, a)
      else if sla_state a \<noteq> SLA_preActive then (False, a)
      else (let (req_plus, req_minus) =
                  compare_cluster_target (sla_v_cruise_cluster a) (sla_speed_limit_final_last a)
                    (sla_is_metric a)
            in get_button_release now req_plus req_minus a))"

definition tick_assist_timers :: "SpeedLimitAssist \<Rightarrow> SpeedLimitAssist" where
  "tick_assist_timers a =
     a\<lparr>long_engaged_timer := max 0 (long_engaged_timer a - 1),
       sla_pre_active_timer := max 0 (sla_pre_active_timer a - 1)\<rparr>"

definition sla_flags :: "SpeedLimitAssist \<Rightarrow> SpeedLimitAssist" where
  "sla_flags a =
     a\<lparr>is_enabled := (sla_state a \<in> set SLA_ENABLED_STATES),
       is_active := (sla_state a \<in> set SLA_ACTIVE_STATES)\<rparr>"

definition update_state_machine_pcm_op_long :: "SpeedLimitAssist \<Rightarrow> SpeedLimitAssist" where
  "update_state_machine_pcm_op_long a0 =
     (let a = tick_assist_timers a0 in sla_flags
        (if sla_state a \<noteq> SLA_disabled then
           (if \<not> long_enabled a \<or> \<not> sla_enabled a then sla_go SLA_disabled a
            else (case sla_state a of
               SLA_active \<Rightarrow>
                 if v_cruise_cluster_changed a then sla_go SLA_inactive a
                 else if speed_limit_changed a \<and> apply_confirm_speed_threshold a then start_pre_active a
                 else if has_speed_limit a \<and> v_offset a < LIMIT_SPEED_OFFSET_TH
                 then sla_go SLA_adapting a else a
             | SLA_adapting \<Rightarrow>
                 if v_cruise_cluster_changed a then sla_go SLA_inactive a
                 else if speed_limit_changed a \<and> apply_confirm_speed_threshold a then start_pre_active a
                 else if v_offset a \<ge> LIMIT_SPEED_OFFSET_TH then sla_go SLA_active a else a
             | SLA_pending \<Rightarrow>
                 if target_set_speed_confirmed a then update_confirmed_state a
                 else if speed_limit_changed a then start_pre_active a else a
             | SLA_preActive \<Rightarrow>
                 if target_set_speed_confirmed a then update_confirmed_state a
                 else if sla_pre_active_timer a \<le> 0 then sla_go SLA_inactive a else a
             | SLA_inactive \<Rightarrow> a
             | SLA_disabled \<Rightarrow> a))
         else if long_enabled a \<and> sla_enabled a then
           (if \<not> long_enabled_prev a \<or> v_cruise_cluster_changed a
            then a\<lparr>long_engaged_timer := py_trunc (DISABLED_GUARD_PERIOD / DT_MDL)\<rparr>
            else if long_engaged_timer a \<le> 0 then
              (if target_set_speed_confirmed a then update_confirmed_state a
               else if has_speed_limit a then start_pre_active a
               else sla_go SLA_pending a)
            else a)
         else a))"

definition update_state_machine_non_pcm_long :: "rat \<Rightarrow> SpeedLimitAssist \<Rightarrow> SpeedLimitAssist" where
  "update_state_machine_non_pcm_long now a0 =
     (let a = tick_assist_timers a0;
          (confirmed, ac) = update_non_pcm_long_confirmed_state now a
      in sla_flags
        (if sla_state a \<noteq> SLA_disabled then
           (if \<not> long_enabled a \<or> \<not> sla_enabled a then sla_go SLA_disabled a
            else (case sla_state a of
               SLA_active \<Rightarrow>
                 if v_cruise_cluster_changed a then sla_go SLA_inactive a
                 else if speed_limit_changed a \<and> apply_confirm_speed_threshold a then start_pre_active a
                 else a
             | SLA_preActive \<Rightarrow>
                 if confirmed then sla_go SLA_active ac
                 else if sla_pre_active_timer ac \<le> 0 then sla_go SLA_inactive ac else ac
             | SLA_inactive \<Rightarrow>
                 if speed_limit_changed a then start_pre_active a
                 else if confirmed then sla_go SLA_active ac else ac
             | _ \<Rightarrow> a))
         else if long_enabled a \<and> sla_enabled a then
           (if \<not> long_enabled_prev a \<or> v_cruise_cluster_changed a
            then a\<lparr>long_engaged_timer := py_trunc (DISABLED_GUARD_PERIOD / DT_MDL)\<rparr>
            else if long_engaged_timer a \<le> 0 then
              (if confirmed then sla_go SLA_active ac
               else if has_speed_limit ac then start_pre_active ac
               else sla_go SLA_inactive ac)
            else a)
         else a))"

subsection \<open>Events and the step\<close>

definition update_active_event :: "SpeedLimitAssist \<Rightarrow> EventsState \<Rightarrow> EventsState" where
  "update_active_event a sp =
     (if v_cruise_cluster_below_confirm_speed_threshold a then add sp ENSP_speedLimitChanged
      else add sp ENSP_speedLimitActive)"

definition sla_update_events :: "SpeedLimitAssist \<Rightarrow> EventsState \<Rightarrow> EventsState" where
  "sla_update_events a sp0 =
     (let sp1 = (if sla_state a = SLA_preActive then add sp0 ENSP_speedLimitPreActive else sp0);
          sp2 = (if sla_state a = SLA_pending \<and> sla_state_prev a \<noteq> SLA_pending
                 then add sp1 ENSP_speedLimitPending else sp1)
      in if is_active a then
           (if sla_state_prev a \<notin> set SLA_ACTIVE_STATES then update_active_event a sp2
            else if sla_speed_limit a \<noteq> speed_limit_prev a then
              (if speed_limit_prev a \<le> 0 then update_active_event a sp2
               else if speed_limit_prev a > 0 \<and> sla_speed_limit a > 0 then update_active_event a sp2
               else sp2)
            else sp2)
         else sp2)"

record AssistInput =
  in_long_enabled :: bool
  in_v_ego :: rat
  in_a_ego :: rat
  in_v_cruise_cluster :: rat
  in_speed_limit :: rat
  in_speed_limit_final_last :: rat
  in_has_speed_limit :: bool
  in_distance :: rat

definition sla_read :: "AssistInput \<Rightarrow> SpeedLimitAssist \<Rightarrow> SpeedLimitAssist" where
  "sla_read i a =
     a\<lparr>long_enabled := in_long_enabled i, sla_v_ego := in_v_ego i, sla_a_ego := in_a_ego i,
       has_speed_limit := in_has_speed_limit i, sla_speed_limit := in_speed_limit i,
       sla_speed_limit_final_last := in_speed_limit_final_last i, sla_distance := in_distance i\<rparr>"

definition sla_machine :: "rat \<Rightarrow> SpeedLimitAssist \<Rightarrow> SpeedLimitAssist" where
  "sla_machine now a =
     (let a1 = a\<lparr>sla_state_prev := sla_state a\<rparr>
      in if pcm_op_long a1 then update_state_machine_pcm_op_long a1
         else update_state_machine_non_pcm_long now a1)"

definition sla_finish :: "SpeedLimitAssist \<Rightarrow> SpeedLimitAssist" where
  "sla_finish a =
     a\<lparr>speed_limit_prev := sla_speed_limit a, v_cruise_cluster_prev := sla_v_cruise_cluster a,
       long_enabled_prev := long_enabled a, prev_target_set_speed_conv := target_set_speed_conv a,
       prev_v_cruise_cluster_conv := v_cruise_cluster_conv a,
       prev_speed_limit_final_last_conv := speed_limit_final_last_conv a,
       output_v_target := get_v_target_from_control a, output_a_target := sla_a_ego a,
       sla_frame := sla_frame a + 1\<rparr>"

definition sla_update :: "CarParams \<Rightarrow> CarParamsSP \<Rightarrow> (string \<Rightarrow> int) \<Rightarrow> rat \<Rightarrow> AssistInput \<Rightarrow>
    SpeedLimitAssist \<times> Params \<times> EventsState \<Rightarrow> SpeedLimitAssist \<times> Params \<times> EventsState" where
  "sla_update CP CP_SP dflt now i = (\<lambda>(a0, params, sp).
     let (a1, params1) = sla_update_params CP CP_SP dflt (sla_read i a0, params);
         a2 = sla_update_calculations (in_v_cruise_cluster i) a1;
         a3 = sla_machine now a2;
         sp1 = sla_update_events a3 sp
     in (sla_finish a3, params1, sp1))"

section \<open>What the machines guarantee\<close>

lemma sla_sets [simp]:
  "set SLA_ACTIVE_STATES = {SLA_active, SLA_adapting}"
  "set SLA_ENABLED_STATES = {SLA_preActive, SLA_pending, SLA_active, SLA_adapting}"
  by (auto simp: SLA_ACTIVE_STATES_def SLA_ENABLED_STATES_def)

lemma guard_frames [simp]:
  "py_trunc (PRE_ACTIVE_GUARD_PERIOD pcm / DT_MDL) = (if pcm then 300 else 100)"
  "py_trunc (DISABLED_GUARD_PERIOD / DT_MDL) = 10"
  by (simp_all add: PRE_ACTIVE_GUARD_PERIOD_def DISABLED_GUARD_PERIOD_def DT_MDL_def py_trunc_def)

lemmas machine_defs = sla_machine_def Let_def update_state_machine_pcm_op_long_def
  update_state_machine_non_pcm_long_def tick_assist_timers_def sla_flags_def sla_go_def
  start_pre_active_def update_confirmed_state_def split_def

lemma sla_machine_flags:
  "is_enabled (sla_machine now a) \<longleftrightarrow> sla_state (sla_machine now a) \<in> set SLA_ENABLED_STATES"
  "is_active (sla_machine now a) \<longleftrightarrow> sla_state (sla_machine now a) \<in> set SLA_ACTIVE_STATES"
  by (simp_all add: sla_machine_def Let_def update_state_machine_pcm_op_long_def
      update_state_machine_non_pcm_long_def sla_flags_def split_def)

lemma confirmed_fields [simp]:
  "sla_state (snd (update_non_pcm_long_confirmed_state now a)) = sla_state a"
  "has_speed_limit (snd (update_non_pcm_long_confirmed_state now a)) = has_speed_limit a"
  "sla_pre_active_timer (snd (update_non_pcm_long_confirmed_state now a)) = sla_pre_active_timer a"
  "pcm_op_long (snd (update_non_pcm_long_confirmed_state now a)) = pcm_op_long a"
  "long_enabled (snd (update_non_pcm_long_confirmed_state now a)) = long_enabled a"
  "sla_enabled (snd (update_non_pcm_long_confirmed_state now a)) = sla_enabled a"
  "sla_speed_limit_final_last (snd (update_non_pcm_long_confirmed_state now a)) = sla_speed_limit_final_last a"
  by (simp_all add: update_non_pcm_long_confirmed_state_def get_button_release_def Let_def split_def)

lemma sla_machine_frame:
  "has_speed_limit (sla_machine now a) = has_speed_limit a"
  "pcm_op_long (sla_machine now a) = pcm_op_long a"
  "sla_speed_limit_final_last (sla_machine now a) = sla_speed_limit_final_last a"
  "long_enabled (sla_machine now a) = long_enabled a"
  "sla_enabled (sla_machine now a) = sla_enabled a"
  by (cases "sla_state a"; simp add: machine_defs)+

text \<open>The assist is off unless it is enabled and longitudinal control is engaged.\<close>

lemma sla_machine_off:
  "sla_state (sla_machine now a) \<noteq> SLA_disabled \<Longrightarrow> long_enabled a \<and> sla_enabled a"
  by (cases "sla_state a") (auto simp: machine_defs split: if_splits)

text \<open>A pressed button counts as a confirmation only in the direction of the limit.\<close>

definition button_confirms :: "rat \<Rightarrow> SpeedLimitAssist \<Rightarrow> bool" where
  "button_confirms now a \<longleftrightarrow>
     sla_v_cruise_cluster a < sla_speed_limit_final_last a \<and> now \<le> plus_hold a
     \<or> sla_v_cruise_cluster a > sla_speed_limit_final_last a \<and> now \<le> minus_hold a"

lemma confirmed_cases:
  assumes "fst (update_non_pcm_long_confirmed_state now a)"
  shows "target_set_speed_confirmed a \<or> sla_state a = SLA_preActive \<and> button_confirms now a"
proof -
  define r where "r = compare_cluster_target (sla_v_cruise_cluster a) (sla_speed_limit_final_last a)
    (sla_is_metric a)"
  have "fst r \<Longrightarrow> sla_v_cruise_cluster a < sla_speed_limit_final_last a"
    "snd r \<Longrightarrow> sla_v_cruise_cluster a > sla_speed_limit_final_last a"
    unfolding r_def by (rule compare_cluster_plus compare_cluster_minus, assumption)+
  then show ?thesis
    using assms
    by (simp add: update_non_pcm_long_confirmed_state_def get_button_release_def split_def Let_def
        button_confirms_def flip: r_def split: if_splits)
qed

lemma sla_activation_non_pcm:
  assumes "\<not> pcm_op_long a" "sla_state a \<notin> set SLA_ACTIVE_STATES"
    "sla_state (sla_machine now a) \<in> set SLA_ACTIVE_STATES"
  shows "target_set_speed_confirmed a \<or> sla_state a = SLA_preActive \<and> button_confirms now a"
proof -
  define b where "b = tick_assist_timers (a\<lparr>sla_state_prev := sla_state a\<rparr>)"
  have "fst (update_non_pcm_long_confirmed_state now b)"
    using assms by (cases "sla_state a")
      (auto simp: machine_defs b_def split: if_splits)
  then have "target_set_speed_confirmed b \<or> sla_state b = SLA_preActive \<and> button_confirms now b"
    by (rule confirmed_cases)
  then show ?thesis
    by (simp add: b_def tick_assist_timers_def target_set_speed_confirmed_def button_confirms_def)
qed

lemma sla_activation_pcm:
  assumes "pcm_op_long a" "sla_state a \<notin> set SLA_ACTIVE_STATES"
    "sla_state (sla_machine now a) \<in> set SLA_ACTIVE_STATES"
  shows "target_set_speed_confirmed a \<and> has_speed_limit a"
  using assms
  by (cases "sla_state a")
    (auto simp: machine_defs target_set_speed_confirmed_def split: if_splits)

text \<open>A change of the set speed by the driver ends the following of the limit.\<close>

lemma sla_driver_override:
  assumes "sla_state a \<in> set SLA_ACTIVE_STATES" "v_cruise_cluster_changed a"
    "\<not> pcm_op_long a \<longrightarrow> sla_state a \<noteq> SLA_adapting"
  shows "sla_state (sla_machine now a) \<in> {SLA_inactive, SLA_disabled}"
proof -
  have "sla_state a = SLA_active \<or> sla_state a = SLA_adapting \<and> pcm_op_long a"
    using assms(1,3) by auto
  then show ?thesis
    using assms(2) by (elim disjE conjE) (simp_all add: machine_defs v_cruise_cluster_changed_def)
qed

text \<open>While an offer is open its timer runs down.\<close>

lemma sla_pre_active_step:
  assumes "sla_state a = SLA_preActive" "sla_state (sla_machine now a) = SLA_preActive"
  shows "sla_pre_active_timer (sla_machine now a) = sla_pre_active_timer a - 1
    \<and> 0 < sla_pre_active_timer a - 1"
  using assms by (auto simp: machine_defs split: if_splits)

section \<open>The step\<close>

lemma sla_update_eq:
  "sla_update CP CP_SP dflt now i (a, params, sp) =
     (let a1 = fst (sla_update_params CP CP_SP dflt (sla_read i a, params));
          a3 = sla_machine now (sla_update_calculations (in_v_cruise_cluster i) a1)
      in (sla_finish a3, snd (sla_update_params CP CP_SP dflt (sla_read i a, params)),
          sla_update_events a3 sp))"
  by (simp add: sla_update_def Let_def split_def)

lemma sla_before_machine:
  assumes "b = sla_update_calculations (in_v_cruise_cluster i)
    (fst (sla_update_params CP CP_SP dflt (sla_read i a, params)))"
  shows "sla_state b = sla_state a" "sla_pre_active_timer b = sla_pre_active_timer a"
    "pcm_op_long b = pcm_op_long a" "long_enabled b = in_long_enabled i"
    "has_speed_limit b = in_has_speed_limit i"
    "sla_speed_limit_final_last b = in_speed_limit_final_last i"
  using assms
  by (simp_all add: sla_update_calculations_def sla_update_params_def sla_read_def Let_def split_def)

lemma sla_finish_fields [simp]:
  "sla_state (sla_finish a) = sla_state a" "sla_pre_active_timer (sla_finish a) = sla_pre_active_timer a"
  "pcm_op_long (sla_finish a) = pcm_op_long a"
  "output_v_target (sla_finish a) = get_v_target_from_control a"
  by (simp_all add: sla_finish_def)

lemma sla_update_v_target:
  assumes "sla_update CP CP_SP dflt now i (a, params, sp) = (a', params', sp')"
    "output_v_target a' \<noteq> SLA_V_CRUISE_UNSET"
  shows "output_v_target a' = in_speed_limit_final_last i \<and> in_has_speed_limit i \<and> in_long_enabled i
    \<and> sla_state a' \<in> set (if pcm_op_long a then SLA_ENABLED_STATES else SLA_ACTIVE_STATES)"
proof -
  define b where "b = sla_update_calculations (in_v_cruise_cluster i)
    (fst (sla_update_params CP CP_SP dflt (sla_read i a, params)))"
  have a': "a' = sla_finish (sla_machine now b)"
    using assms(1) by (simp add: sla_update_eq Let_def b_def)
  note before = sla_before_machine [OF b_def]
  have "get_v_target_from_control (sla_machine now b) \<noteq> SLA_V_CRUISE_UNSET"
    using assms(2) by (simp add: a')
  then show ?thesis
    using before sla_machine_off [of now b] sla_machine_flags [of now b]
    by (auto simp: a' get_v_target_from_control_def sla_machine_frame split: if_splits)
qed

lemma wf_sla_update:
  "wf_events known_events_sp sp \<Longrightarrow>
     wf_events known_events_sp (snd (snd (sla_update CP CP_SP dflt now i (a, params, sp))))"
  by (auto simp: sla_update_eq Let_def sla_update_events_def update_active_event_def intro!: wf_add)

text \<open>A run of frames, each with its own clock and input.\<close>

definition sla_run :: "CarParams \<Rightarrow> CarParamsSP \<Rightarrow> (string \<Rightarrow> int) \<Rightarrow> (rat \<times> AssistInput) list \<Rightarrow>
    SpeedLimitAssist \<times> Params \<times> EventsState \<Rightarrow> SpeedLimitAssist \<times> Params \<times> EventsState" where
  "sla_run CP CP_SP dflt fs s = fold (\<lambda>(now, i). sla_update CP CP_SP dflt now i) fs s"

lemma sla_offer_bounded:
  assumes "\<forall>k\<le>length fs. sla_state (fst (sla_run CP CP_SP dflt (take k fs) s)) = SLA_preActive"
  shows "fs = [] \<or> int (length fs) < sla_pre_active_timer (fst s)"
  using assms
proof (induction fs arbitrary: s)
  case (Cons f fs)
  obtain now i a params sp where f: "f = (now, i)" and s: "s = (a, params, sp)"
    by (cases f; cases s) auto
  let ?s = "sla_update CP CP_SP dflt now i s"
  have "\<forall>k\<le>length fs. sla_state (fst (sla_run CP CP_SP dflt (take k fs) ?s)) = SLA_preActive"
  proof (intro allI impI)
    fix k assume "k \<le> length fs"
    then show "sla_state (fst (sla_run CP CP_SP dflt (take k fs) ?s)) = SLA_preActive"
      using Cons.prems [rule_format, of "Suc k"] by (simp add: sla_run_def f)
  qed
  then have IH: "fs = [] \<or> int (length fs) < sla_pre_active_timer (fst ?s)"
    by (rule Cons.IH)
  have now: "sla_state a = SLA_preActive" "sla_state (fst ?s) = SLA_preActive"
    using Cons.prems [rule_format, of 0] Cons.prems [rule_format, of 1]
    by (simp_all add: sla_run_def f s)
  define b where "b = sla_update_calculations (in_v_cruise_cluster i)
    (fst (sla_update_params CP CP_SP dflt (sla_read i a, params)))"
  have s': "fst ?s = sla_finish (sla_machine now b)"
    by (simp add: s sla_update_eq Let_def b_def)
  note before = sla_before_machine [OF b_def]
  have "sla_pre_active_timer (fst ?s) = sla_pre_active_timer a - 1" "0 < sla_pre_active_timer a - 1"
    using sla_pre_active_step [of b now] now before s' by simp_all
  with IH show ?case
    by (auto simp: s)
qed simp

section \<open>Properties\<close>

text \<open>Speed limit assist becomes active only with the driver's consent: with the confirmed set
  speed (and, when the car's own cruise control is used, a known limit), or, without it, by a button
  pressed while the offer is pending; and it is never other than disabled when openpilot's longitudinal
  control or the mode "assist" is off.\<close>

theorem assist_needs_confirmation:
  assumes "sla_machine now a = a'"
  shows "(sla_state a \<notin> set SLA_ACTIVE_STATES \<and> sla_state a' \<in> set SLA_ACTIVE_STATES \<longrightarrow>
      (if pcm_op_long a then target_set_speed_confirmed a \<and> has_speed_limit a
       else target_set_speed_confirmed a \<or> sla_state a = SLA_preActive \<and> button_confirms now a))
    \<and> (sla_state a' \<noteq> SLA_disabled \<longrightarrow> long_enabled a \<and> sla_enabled a)"
  using sla_activation_pcm [of a now] sla_activation_non_pcm [of a now] sla_machine_off [of now a] assms by auto

definition offered_assist :: SpeedLimitAssist where
  "offered_assist = (fst (new_SpeedLimitAssist plain_CP rivian_CP_SP (\<lambda>_. 3) Map.empty))
     \<lparr>sla_state := SLA_preActive, sla_pre_active_timer := 100, long_enabled := True, sla_enabled := True,
      has_speed_limit := True\<rparr>"

theorem assist_needs_confirmation_witness:
  "sla_state (sla_machine 0 (offered_assist\<lparr>long_enabled := False\<rparr>)) = SLA_disabled"
proof -
  have "\<not> long_enabled (offered_assist\<lparr>long_enabled := False\<rparr>)"
    by simp
  then show ?thesis
    using assist_needs_confirmation [OF refl, where a = "offered_assist\<lparr>long_enabled := False\<rparr>" and now = 0]
    by blast
qed

text \<open>While assist is active, a change of the set speed by the driver ends it in the same frame
  (except while it is adapting on a car without its own cruise control).\<close>

theorem driver_overrides_assist:
  assumes "sla_state a \<in> set SLA_ACTIVE_STATES" "v_cruise_cluster_changed a" "pcm_op_long a \<or> sla_state a = SLA_active"
  shows "sla_state (sla_machine now a) \<in> {SLA_inactive, SLA_disabled}"
  by (rule sla_driver_override [OF assms(1,2)]) (use assms(3) in auto)

theorem driver_overrides_assist_witness:
  "sla_state (sla_machine 0 (offered_assist\<lparr>sla_state := SLA_active, v_cruise_cluster_conv := 70,
      prev_v_cruise_cluster_conv := 60\<rparr>)) \<in> {SLA_inactive, SLA_disabled}"
  by (rule driver_overrides_assist) (simp_all add: v_cruise_cluster_changed_def)

text \<open>Whenever an update publishes a target speed at all, it is the last final speed limit
  of the input, the input knows a limit, longitudinal control is enabled, and the machine is in one of the
  states that may control the speed.\<close>

theorem assist_target_is_the_limit:
  assumes "sla_update CP CP_SP dflt now i (a, params, sp) = (a', params', sp')"
    "output_v_target a' \<noteq> SLA_V_CRUISE_UNSET"
  shows "output_v_target a' = in_speed_limit_final_last i \<and> in_has_speed_limit i \<and> in_long_enabled i
    \<and> sla_state a' \<in> set (if pcm_op_long a then SLA_ENABLED_STATES else SLA_ACTIVE_STATES)"
  by (rule sla_update_v_target [OF assms])

definition quiet_input :: AssistInput where
  "quiet_input = \<lparr>in_long_enabled = True, in_v_ego = 20, in_a_ego = 0, in_v_cruise_cluster = 25,
     in_speed_limit = 20, in_speed_limit_final_last = 20, in_has_speed_limit = True, in_distance = 0\<rparr>"

definition no_events :: EventsState where
  "no_events = \<lparr>events = [], static_events = [], event_counters = Map.empty\<rparr>"

definition active_assist :: SpeedLimitAssist where
  "active_assist = offered_assist\<lparr>sla_state := SLA_active, prev_v_cruise_cluster_conv := 56, speed_limit_prev := 20\<rparr>"

theorem assist_target_is_the_limit_witness:
  "output_v_target (fst (sla_update plain_CP rivian_CP_SP (\<lambda>_. 3) 100 quiet_input
      (active_assist, Map.empty, no_events))) = 20"
proof -
  let ?r = "sla_update plain_CP rivian_CP_SP (\<lambda>_. 3) 100 quiet_input (active_assist, Map.empty, no_events)"
  have "output_v_target (fst ?r) \<noteq> SLA_V_CRUISE_UNSET"
    by code_simp
  then have "output_v_target (fst ?r) = in_speed_limit_final_last quiet_input"
    using assist_target_is_the_limit [of plain_CP rivian_CP_SP "\<lambda>_. 3" 100 quiet_input active_assist Map.empty
        "no_events" "fst ?r" "fst (snd ?r)" "snd (snd ?r)"] by simp
  then show ?thesis
    by (simp add: quiet_input_def)
qed

text \<open>An offer (state preActive) does not stay open: if the machine is in preActive after each
  of the frames of a run, the run is shorter than the offer timer, which is 300 frames with the car's
  cruise control and 100 without.\<close>

theorem assist_offer_expires:
  assumes "fs \<noteq> []" "list_all (\<lambda>k. sla_state (fst (sla_run CP CP_SP dflt (take k fs) s)) = SLA_preActive) [0..<Suc (length fs)]"
  shows "int (length fs) < sla_pre_active_timer (fst s)"
  using sla_offer_bounded [of fs CP CP_SP dflt s] assms by (auto simp: list_all_iff simp del: upt_Suc)


theorem assist_offer_expires_witness:
  "int (length [(100 :: rat, quiet_input)]) < sla_pre_active_timer offered_assist"
proof -
  let ?s = "(offered_assist, Map.empty, no_events)"
  let ?fs = "[(100, quiet_input\<lparr>in_v_cruise_cluster := 30\<rparr>)]"
  have "list_all (\<lambda>k. sla_state (fst (sla_run plain_CP rivian_CP_SP (\<lambda>_. 3) (take k ?fs) ?s)) = SLA_preActive) [0..<Suc (length ?fs)]"
    by code_simp
  from assist_offer_expires [OF _ this] have "int (length ?fs) < sla_pre_active_timer offered_assist"
    by simp
  then show ?thesis
    by simp
qed

end
