(* ===== verification/VCruise.thy ===== *)
theory VCruise
  imports Icbm SpeedLimitAssist
begin

text \<open>
  \<open>selfdrive/car/cruise.py\<close> with its superclass in \<open>sunnypilot/selfdrive/car/cruise_ext.py\<close>: the set
  speed, changed by the driver's buttons, by the speed limit assist, or read from the car. Speeds are
  in km/h. The buttons with timers of the class are plus and minus.
\<close>

section \<open>Constants\<close>

definition V_CRUISE_MIN :: rat where "V_CRUISE_MIN = 8"
definition V_CRUISE_MAX :: rat where "V_CRUISE_MAX = 145"
definition V_CRUISE_UNSET :: rat where "V_CRUISE_UNSET = 255"
definition V_CRUISE_INITIAL :: rat where "V_CRUISE_INITIAL = 40"
definition V_CRUISE_INITIAL_EXPERIMENTAL_MODE :: rat where "V_CRUISE_INITIAL_EXPERIMENTAL_MODE = 105"
definition IMPERIAL_INCREMENT :: rat where "IMPERIAL_INCREMENT = py_round_dp 1 MPH_TO_KPH"
definition CRUISE_LONG_PRESS :: int where "CRUISE_LONG_PRESS = 50"

definition CRUISE_NEAREST_FUNC :: "ButtonType \<Rightarrow> rat \<Rightarrow> int" where
  "CRUISE_NEAREST_FUNC b x = (if b = BT_accelCruise then \<lceil>x\<rceil> else \<lfloor>x\<rfloor>)"

definition CRUISE_INTERVAL_SIGN :: "ButtonType \<Rightarrow> rat" where
  "CRUISE_INTERVAL_SIGN b = (if b = BT_accelCruise then 1 else -1)"

section \<open>Classes VCruiseHelperSP and VCruiseHelper\<close>

record VCruise =
  v_cruise_kph :: rat
  v_cruise_cluster_kph :: rat
  v_cruise_kph_last :: rat
  vc_v_cruise_min :: rat
  vc_enabled_prev :: bool
  custom_acc_enabled :: bool
  short_increment :: int
  long_increment :: int
  enable_button_timers :: timers
  vc_sla_state :: AssistState
  prev_sla_state :: AssistState
  vc_has_speed_limit :: bool
  vc_speed_limit_final_last :: rat
  speed_limit_final_last_kph :: rat
  prev_speed_limit_final_last_kph :: rat
  req_plus :: bool
  req_minus :: bool
  button_timers :: timers
  change_standstill :: "ButtonType \<Rightarrow> bool" \<comment> \<open>\<open>button_change_states[b]["standstill"]\<close>\<close>
  change_enabled :: "ButtonType \<Rightarrow> bool" \<comment> \<open>\<open>button_change_states[b]["enabled"]\<close>\<close>

definition read_custom_set_speed_params :: "(string \<Rightarrow> int) \<Rightarrow> Params \<Rightarrow> VCruise \<Rightarrow> VCruise" where
  "read_custom_set_speed_params dflt params vc =
     vc\<lparr>custom_acc_enabled := get_bool params ''CustomAccIncrementsEnabled'',
        short_increment := get_default dflt params ''CustomAccShortPressIncrement'',
        long_increment := get_default dflt params ''CustomAccLongPressIncrement''\<rparr>"

definition new_VCruise :: "(string \<Rightarrow> int) \<Rightarrow> Params \<Rightarrow> VCruise" where
  "new_VCruise dflt params =
     \<lparr>v_cruise_kph = V_CRUISE_UNSET, v_cruise_cluster_kph = V_CRUISE_UNSET, v_cruise_kph_last = 0,
      vc_v_cruise_min = 0, vc_enabled_prev = False,
      custom_acc_enabled = get_bool params ''CustomAccIncrementsEnabled'',
      short_increment = get_default dflt params ''CustomAccShortPressIncrement'',
      long_increment = get_default dflt params ''CustomAccLongPressIncrement'',
      enable_button_timers = CRUISE_BUTTON_TIMER, vc_sla_state = SLA_disabled,
      prev_sla_state = SLA_disabled, vc_has_speed_limit = False, vc_speed_limit_final_last = 0,
      speed_limit_final_last_kph = 0, prev_speed_limit_final_last_kph = 0, req_plus = False,
      req_minus = False, button_timers = [(BT_decelCruise, 0), (BT_accelCruise, 0)],
      change_standstill = (\<lambda>b. False), change_enabled = (\<lambda>b. False)\<rparr>"

definition v_cruise_initialized :: "VCruise \<Rightarrow> bool" where
  "v_cruise_initialized vc \<longleftrightarrow> v_cruise_kph vc \<noteq> V_CRUISE_UNSET"

definition clip_int :: "int \<Rightarrow> int \<Rightarrow> int \<Rightarrow> int" where
  "clip_int x lo hi = min (max x lo) hi"

definition update_v_cruise_delta :: "bool \<Rightarrow> rat \<Rightarrow> VCruise \<Rightarrow> bool \<times> rat" where
  "update_v_cruise_delta long_press delta vc =
     (if \<not> custom_acc_enabled vc then (long_press, delta * (if long_press then 5 else 1))
      else
        (let short = clip_int (short_increment vc) 1 10;
             long = clip_int (long_increment vc) 1 10;
             actual = (if long_press then long else short)
         in (actual = 5 \<or> actual = 10, delta * of_int actual)))"

definition vc_get_minimum_set_speed :: "CarParamsSP \<Rightarrow> bool \<Rightarrow> VCruise \<Rightarrow> VCruise" where
  "vc_get_minimum_set_speed CP_SP is_metric vc =
     vc\<lparr>vc_v_cruise_min :=
          (if cpsp_pcmCruiseSpeed CP_SP then V_CRUISE_MIN else of_int (get_minimum_set_speed is_metric))\<rparr>"

definition update_enabled_state :: "CarParamsSP \<Rightarrow> CarState \<Rightarrow> bool \<Rightarrow> VCruise \<Rightarrow> bool \<times> VCruise" where
  "update_enabled_state CP_SP CS enabled vc =
     (if \<not> cpsp_pcmCruiseSpeed CP_SP then
        (let timers = update_manual_button_timers CS (enable_button_timers vc);
             vc1 = vc\<lparr>enable_button_timers := timers\<rparr>
         in if enabled \<and> \<not> vc_enabled_prev vc1
            then (False, vc1\<lparr>vc_enabled_prev := \<not> button_pressed timers\<rparr>)
            else if \<not> enabled then (False, vc1\<lparr>vc_enabled_prev := enabled\<rparr>)
            else (enabled \<and> vc_enabled_prev vc1, vc1))
      else (enabled, vc))"

definition update_speed_limit_assist :: "bool \<Rightarrow> SpeedLimitResolverMsg \<Rightarrow> AssistState \<Rightarrow> VCruise \<Rightarrow> VCruise" where
  "update_speed_limit_assist is_metric resolver state vc =
     (let final_last = rm_speedLimitFinalLast resolver;
          req = compare_cluster_target (v_cruise_cluster_kph vc * KPH_TO_MS) final_last is_metric
      in vc\<lparr>vc_has_speed_limit := rm_speedLimitValid resolver \<or> rm_speedLimitLastValid resolver,
            vc_speed_limit_final_last := final_last,
            speed_limit_final_last_kph := final_last * MS_TO_KPH,
            vc_sla_state := state, req_plus := fst req, req_minus := snd req\<rparr>)"

definition update_speed_limit_final_last_changed :: "VCruise \<Rightarrow> bool" where
  "update_speed_limit_final_last_changed vc \<longleftrightarrow>
     vc_has_speed_limit vc \<and> speed_limit_final_last_kph vc \<noteq> prev_speed_limit_final_last_kph vc"

definition pre_active_confirmed :: "ButtonType \<Rightarrow> VCruise \<Rightarrow> bool" where
  "pre_active_confirmed b vc \<longleftrightarrow>
     (vc_sla_state vc = SLA_preActive \<or> prev_sla_state vc = SLA_preActive)
     \<and> (b = BT_decelCruise \<and> req_minus vc \<or> b = BT_accelCruise \<and> req_plus vc)"

definition update_speed_limit_assist_v_cruise_non_pcm :: "VCruise \<Rightarrow> VCruise" where
  "update_speed_limit_assist_v_cruise_non_pcm vc =
     (let vc1 =
            (if vc_sla_state vc \<in> set SLA_ACTIVE_STATES
                \<and> (prev_sla_state vc \<notin> set SLA_ACTIVE_STATES \<or> update_speed_limit_final_last_changed vc)
             then vc\<lparr>v_cruise_kph := np_clip (py_round_dp 1 (speed_limit_final_last_kph vc))
                                      (vc_v_cruise_min vc) V_CRUISE_MAX\<rparr>
             else vc)
      in vc1\<lparr>prev_sla_state := vc_sla_state vc1,
             prev_speed_limit_final_last_kph := speed_limit_final_last_kph vc1\<rparr>)"

text \<open>
  The button of this frame: the first release of a timed button, unless it ends a long press, and
  otherwise the first button whose timer is a positive multiple of the long press time.
\<close>

definition select_button :: "CarState \<Rightarrow> timers \<Rightarrow> (ButtonType \<times> bool) option" where
  "select_button CS t =
     (case find (\<lambda>b. be_type b \<in> fst ` set t \<and> \<not> be_pressed b) (cs_buttonEvents CS) of
        Some b \<Rightarrow> if dict_get 0 t (be_type b) > CRUISE_LONG_PRESS then None else Some (be_type b, False)
      | None \<Rightarrow>
          (case find (\<lambda>x. snd x \<noteq> 0 \<and> snd x mod CRUISE_LONG_PRESS = 0) t of
             Some x \<Rightarrow> Some (fst x, True)
           | None \<Rightarrow> None))"

definition is_multiple :: "rat \<Rightarrow> rat \<Rightarrow> bool" where
  "is_multiple x d \<longleftrightarrow> of_int \<lfloor>x / d\<rfloor> * d = x"

definition change_v_cruise :: "CarState \<Rightarrow> ButtonType \<Rightarrow> bool \<Rightarrow> rat \<Rightarrow> VCruise \<Rightarrow> rat" where
  "change_v_cruise CS b to_nearest delta vc =
     (let v1 = (if to_nearest \<and> \<not> is_multiple (v_cruise_kph vc) delta
                then of_int (CRUISE_NEAREST_FUNC b (v_cruise_kph vc / delta)) * delta
                else v_cruise_kph vc + delta * CRUISE_INTERVAL_SIGN b);
          v2 = (if cs_gasPressed CS \<and> b \<in> {BT_decelCruise, BT_setCruise}
                then max v1 (cs_vEgo CS * MS_TO_KPH) else v1)
      in np_clip (py_round_dp 1 v2) (vc_v_cruise_min vc) V_CRUISE_MAX)"

definition update_v_cruise_non_pcm :: "CarState \<Rightarrow> bool \<Rightarrow> bool \<Rightarrow> VCruise \<Rightarrow> VCruise" where
  "update_v_cruise_non_pcm CS enabled is_metric vc =
     (if \<not> enabled then vc
      else (case select_button CS (button_timers vc) of
          None \<Rightarrow> vc
        | Some (b, long_press) \<Rightarrow>
            if b = BT_accelCruise \<and> (change_standstill vc b \<or> cr_standstill (cs_cruiseState CS)) then vc
            else if \<not> change_enabled vc b then vc
            else if pre_active_confirmed b vc then vc
            else
              (let (to_nearest, delta) =
                     update_v_cruise_delta long_press (if is_metric then 1 else IMPERIAL_INCREMENT) vc
               in vc\<lparr>v_cruise_kph := change_v_cruise CS b to_nearest delta vc\<rparr>)))"

definition set_change :: "CarState \<Rightarrow> bool \<Rightarrow> ButtonEvent \<Rightarrow> VCruise \<Rightarrow> VCruise" where
  "set_change CS enabled b vc =
     (if be_type b \<in> fst ` set (button_timers vc)
      then vc\<lparr>button_timers := set_timer b (button_timers vc),
              change_standstill := (change_standstill vc)(be_type b := cr_standstill (cs_cruiseState CS)),
              change_enabled := (change_enabled vc)(be_type b := enabled)\<rparr>
      else vc)"

definition update_button_timers :: "bool \<Rightarrow> CarState \<Rightarrow> VCruise \<Rightarrow> VCruise" where
  "update_button_timers enabled CS vc =
     fold (set_change CS enabled) (cs_buttonEvents CS)
       (vc\<lparr>button_timers := tick_timers (button_timers vc)\<rparr>)"

definition update_v_cruise :: "CarParams \<Rightarrow> CarParamsSP \<Rightarrow> CarState \<Rightarrow> bool \<Rightarrow> bool \<Rightarrow> VCruise \<Rightarrow> VCruise" where
  "update_v_cruise CP CP_SP CS enabled is_metric vc0 =
     (let vc1 = vc_get_minimum_set_speed CP_SP is_metric (vc0\<lparr>v_cruise_kph_last := v_cruise_kph vc0\<rparr>);
          (en, vc2) = update_enabled_state CP_SP CS enabled vc1;
          speed = cr_speed (cs_cruiseState CS);
          vc3 =
            (if cr_available (cs_cruiseState CS) then
               (if \<not> cp_pcmCruise CP \<or> (\<not> cpsp_pcmCruiseSpeed CP_SP \<and> en) then
                  (let vc = update_speed_limit_assist_v_cruise_non_pcm
                              (update_v_cruise_non_pcm CS en is_metric vc2)
                   in vc\<lparr>v_cruise_cluster_kph := v_cruise_kph vc\<rparr>)
                else if speed = 0 then
                  vc2\<lparr>v_cruise_kph := V_CRUISE_UNSET, v_cruise_cluster_kph := V_CRUISE_UNSET\<rparr>
                else if speed = -1 then
                  vc2\<lparr>v_cruise_kph := -1, v_cruise_cluster_kph := -1\<rparr>
                else
                  vc2\<lparr>v_cruise_kph := speed * MS_TO_KPH,
                      v_cruise_cluster_kph := cr_speedCluster (cs_cruiseState CS) * MS_TO_KPH\<rparr>)
             else vc2\<lparr>v_cruise_kph := V_CRUISE_UNSET, v_cruise_cluster_kph := V_CRUISE_UNSET\<rparr>)
      in if \<not> cp_pcmCruise CP \<or> \<not> cpsp_pcmCruiseSpeed CP_SP
         then update_button_timers enabled CS vc3 else vc3)"

definition initialize_v_cruise :: "CarParams \<Rightarrow> CarState \<Rightarrow> bool \<Rightarrow> bool \<Rightarrow> VCruise \<Rightarrow> VCruise" where
  "initialize_v_cruise CP CS experimental_mode dynamic_experimental_control vc =
     (if cp_pcmCruise CP then vc
      else
        (let initial = (if experimental_mode \<and> \<not> dynamic_experimental_control
                        then V_CRUISE_INITIAL_EXPERIMENTAL_MODE else V_CRUISE_INITIAL);
             resume = list_ex (\<lambda>b. be_type b \<in> {BT_accelCruise, BT_resumeCruise}) (cs_buttonEvents CS);
             v = (if resume \<and> v_cruise_initialized vc then v_cruise_kph_last vc
                  else of_int (py_round (np_clip (cs_vEgo CS * MS_TO_KPH) initial V_CRUISE_MAX)))
         in vc\<lparr>v_cruise_kph := v, v_cruise_cluster_kph := v\<rparr>))"

section \<open>The button timers\<close>

lemma set_change_timers:
  "button_timers (fold (set_change CS en) bs vc) = fold set_timer bs (button_timers vc)"
  by (induction bs arbitrary: vc) (simp_all add: set_change_def set_timer_def)

lemma update_button_timers_manual:
  "button_timers (update_button_timers en CS vc) = update_manual_button_timers CS (button_timers vc)"
  by (simp add: update_button_timers_def set_change_timers update_manual_button_timers_def)

definition vc_held :: "VCruise \<Rightarrow> ButtonType \<Rightarrow> int" where
  "vc_held vc b = dict_get 0 (button_timers vc) b"

interpretation vct: hold_timer "update_button_timers en" vc_held
  "\<lambda>vc. map fst (button_timers vc) = [BT_decelCruise, BT_accelCruise]" "{BT_decelCruise, BT_accelCruise}"
  for en
proof
  fix vc :: VCruise and CS
  assume vc: "map fst (button_timers vc) = [BT_decelCruise, BT_accelCruise]"
  then show "map fst (button_timers (update_button_timers en CS vc)) = [BT_decelCruise, BT_accelCruise]"
    using manual.inv_update by (simp add: update_button_timers_manual)
  fix b assume "b \<in> {BT_decelCruise, BT_accelCruise}"
  then show "vc_held (update_button_timers en CS vc) b =
      (case last_event b (cs_buttonEvents CS) of
         None \<Rightarrow> if vc_held vc b > 0 then vc_held vc b + 1 else vc_held vc b
       | Some pressed \<Rightarrow> if pressed then 1 else 0)"
    using manual.held_update [OF vc, of b CS] unfolding vc_held_def update_button_timers_manual by auto
qed

section \<open>Bounds of the set speed\<close>

lemma IMPERIAL_INCREMENT_eval [simp]: "IMPERIAL_INCREMENT = 8 / 5"
proof -
  have "py_round (MPH_TO_KPH * 10 ^ 1) = 16"
    by (rule py_round_unique) (simp_all add: CV_defs)
  then show ?thesis
    by (simp add: IMPERIAL_INCREMENT_def py_round_dp_def)
qed

lemma v_cruise_consts [simp]: "V_CRUISE_MIN = 8" "V_CRUISE_MAX = 145" "V_CRUISE_UNSET = 255"
  by (simp_all add: V_CRUISE_MIN_def V_CRUISE_MAX_def V_CRUISE_UNSET_def)

text \<open>A set speed is unset, or between the minimum of the car and the maximum.\<close>

definition set_speed_ok :: "rat \<Rightarrow> bool" where
  "set_speed_ok v \<longleftrightarrow> v = V_CRUISE_UNSET \<or> V_CRUISE_MIN \<le> v \<and> v \<le> V_CRUISE_MAX"

definition vc_inv :: "VCruise \<Rightarrow> bool" where
  "vc_inv vc \<longleftrightarrow> set_speed_ok (v_cruise_kph vc)"

lemma clip_bounds:
  "8 \<le> lo \<Longrightarrow> lo \<le> V_CRUISE_MAX \<Longrightarrow> set_speed_ok (np_clip x lo V_CRUISE_MAX)"
  using np_clip_range [of lo V_CRUISE_MAX x] by (auto simp: set_speed_ok_def)

lemma minimum_bounds:
  "8 \<le> vc_v_cruise_min (vc_get_minimum_set_speed CP_SP m vc)"
  "vc_v_cruise_min (vc_get_minimum_set_speed CP_SP m vc) \<le> 145"
  by (simp_all add: vc_get_minimum_set_speed_def get_minimum_set_speed_def)

lemma update_enabled_frame:
  "v_cruise_kph (snd (update_enabled_state CP_SP CS en vc)) = v_cruise_kph vc"
  "vc_v_cruise_min (snd (update_enabled_state CP_SP CS en vc)) = vc_v_cruise_min vc"
  "v_cruise_kph_last (snd (update_enabled_state CP_SP CS en vc)) = v_cruise_kph_last vc"
  by (simp_all add: update_enabled_state_def Let_def)

lemma non_pcm_frame:
  "vc_v_cruise_min (update_v_cruise_non_pcm CS en m vc) = vc_v_cruise_min vc"
  "v_cruise_kph_last (update_v_cruise_non_pcm CS en m vc) = v_cruise_kph_last vc"
  by (auto simp: update_v_cruise_non_pcm_def Let_def split: option.splits prod.splits)

lemma non_pcm_ok:
  assumes "set_speed_ok (v_cruise_kph vc)" "8 \<le> vc_v_cruise_min vc" "vc_v_cruise_min vc \<le> V_CRUISE_MAX"
  shows "set_speed_ok (v_cruise_kph (update_v_cruise_non_pcm CS en m vc))"
proof -
  have "set_speed_ok (change_v_cruise CS b near d vc)" for b near d
    using clip_bounds [OF assms(2,3)] by (simp add: change_v_cruise_def Let_def del: v_cruise_consts)
  then show ?thesis
    using assms(1) by (simp add: update_v_cruise_non_pcm_def Let_def split_def split: option.split)
qed

lemma sla_non_pcm_ok:
  assumes "set_speed_ok (v_cruise_kph vc)" "8 \<le> vc_v_cruise_min vc" "vc_v_cruise_min vc \<le> V_CRUISE_MAX"
  shows "set_speed_ok (v_cruise_kph (update_speed_limit_assist_v_cruise_non_pcm vc))"
  using assms
  by (auto simp: update_speed_limit_assist_v_cruise_non_pcm_def Let_def simp del: v_cruise_consts
      intro!: clip_bounds)

lemma set_change_frame:
  "v_cruise_kph (fold (set_change CS en) bs vc) = v_cruise_kph vc"
  "v_cruise_kph_last (fold (set_change CS en) bs vc) = v_cruise_kph_last vc"
  by (induction bs arbitrary: vc) (simp_all add: set_change_def)

lemma timers_frame:
  "v_cruise_kph (update_button_timers en CS vc) = v_cruise_kph vc"
  "v_cruise_kph_last (update_button_timers en CS vc) = v_cruise_kph_last vc"
  by (simp_all add: update_button_timers_def set_change_frame)

text \<open>The invariant on a car whose set speed is openpilot's own.\<close>

lemma update_v_cruise_ok:
  assumes "\<not> cp_pcmCruise CP" "vc_inv vc"
  shows "vc_inv (update_v_cruise CP CP_SP CS en m vc)"
    and "v_cruise_kph_last (update_v_cruise CP CP_SP CS en m vc) = v_cruise_kph vc"
proof -
  define vc1 where "vc1 = vc_get_minimum_set_speed CP_SP m (vc\<lparr>v_cruise_kph_last := v_cruise_kph vc\<rparr>)"
  define vc2 where "vc2 = snd (update_enabled_state CP_SP CS en vc1)"
  define e where "e = fst (update_enabled_state CP_SP CS en vc1)"
  have vc2: "set_speed_ok (v_cruise_kph vc2)" "8 \<le> vc_v_cruise_min vc2"
    "vc_v_cruise_min vc2 \<le> V_CRUISE_MAX" "v_cruise_kph_last vc2 = v_cruise_kph vc"
    using assms(2) minimum_bounds [of CP_SP m "vc\<lparr>v_cruise_kph_last := v_cruise_kph vc\<rparr>"]
    by (simp_all add: vc2_def vc1_def update_enabled_frame vc_inv_def, simp_all add: vc_get_minimum_set_speed_def)
  have "set_speed_ok (v_cruise_kph (update_speed_limit_assist_v_cruise_non_pcm
      (update_v_cruise_non_pcm CS e m vc2)))"
    using vc2 by (intro sla_non_pcm_ok non_pcm_ok) (simp_all add: non_pcm_frame)
  moreover have "set_speed_ok V_CRUISE_UNSET"
    by (simp add: set_speed_ok_def)
  moreover have "v_cruise_kph_last (update_speed_limit_assist_v_cruise_non_pcm v) = v_cruise_kph_last v" for v
    by (simp add: update_speed_limit_assist_v_cruise_non_pcm_def Let_def)
  ultimately show "vc_inv (update_v_cruise CP CP_SP CS en m vc)"
    "v_cruise_kph_last (update_v_cruise CP CP_SP CS en m vc) = v_cruise_kph vc"
    using assms(1) vc2
    by (simp_all add: update_v_cruise_def Let_def split_def vc_inv_def timers_frame non_pcm_frame
        flip: vc1_def vc2_def e_def)
qed

lemma py_round_between:
  "of_int a \<le> x \<Longrightarrow> x \<le> of_int b \<Longrightarrow> a \<le> py_round x \<and> py_round x \<le> b"
  using py_round_mono [of "of_int a" x] py_round_mono [of x "of_int b"] by simp

lemma initialize_ok:
  assumes "vc_inv vc" "set_speed_ok (v_cruise_kph_last vc)"
  shows "vc_inv (initialize_v_cruise CP CS em dec vc)"
proof -
  have "set_speed_ok (of_int (py_round (np_clip x lo 145)))" if "lo = 40 \<or> lo = 105" for x lo
  proof -
    have "lo \<le> np_clip x lo 145" "np_clip x lo 145 \<le> 145"
      using np_clip_range [of lo 145 x] that by auto
    then have "40 \<le> py_round (np_clip x lo 145)" "py_round (np_clip x lo 145) \<le> 145"
      using py_round_between [of 40 "np_clip x lo 145" 145] that by auto
    then have "(of_int 40::rat) \<le> of_int (py_round (np_clip x lo 145))"
      "of_int (py_round (np_clip x lo 145)) \<le> (of_int 145::rat)"
      by (simp_all only: of_int_le_iff)
    then show ?thesis
      by (simp add: set_speed_ok_def)
  qed
  then show ?thesis
    using assms
    by (simp add: initialize_v_cruise_def Let_def vc_inv_def V_CRUISE_INITIAL_def
        V_CRUISE_INITIAL_EXPERIMENTAL_MODE_def)
qed

section \<open>A long press goes to the next multiple\<close>

lemma nearest_up:
  assumes "0 < d" "\<not> is_multiple v d"
  shows "v < of_int (CRUISE_NEAREST_FUNC BT_accelCruise (v / d)) * d
    \<and> of_int (CRUISE_NEAREST_FUNC BT_accelCruise (v / d)) * d < v + d"
proof -
  have "v / d \<le> of_int \<lceil>v / d\<rceil>" "of_int \<lceil>v / d\<rceil> < v / d + 1"
    by linarith+
  moreover have "v / d \<noteq> of_int \<lceil>v / d\<rceil>"
  proof
    assume eq: "v / d = of_int \<lceil>v / d\<rceil>"
    then have "of_int \<lfloor>v / d\<rfloor> = v / d"
      by (metis floor_of_int)
    with assms show False
      by (simp add: is_multiple_def)
  qed
  ultimately have "v / d < of_int \<lceil>v / d\<rceil>" "of_int \<lceil>v / d\<rceil> < v / d + 1"
    by (metis order_le_less)+
  then show ?thesis
    using assms(1) by (simp add: CRUISE_NEAREST_FUNC_def field_simps)
qed

lemma nearest_down:
  assumes "0 < d" "\<not> is_multiple v d"
  shows "of_int (CRUISE_NEAREST_FUNC BT_decelCruise (v / d)) * d < v
    \<and> v - d < of_int (CRUISE_NEAREST_FUNC BT_decelCruise (v / d)) * d"
proof -
  have "of_int \<lfloor>v / d\<rfloor> \<le> v / d" "v / d < of_int \<lfloor>v / d\<rfloor> + 1"
    by linarith+
  moreover have "v / d \<noteq> of_int \<lfloor>v / d\<rfloor>"
    using assms by (auto simp: is_multiple_def)
  ultimately have "of_int \<lfloor>v / d\<rfloor> < v / d" "v / d < of_int \<lfloor>v / d\<rfloor> + 1"
    by (metis order_le_less)+
  then show ?thesis
    using assms(1) by (simp add: CRUISE_NEAREST_FUNC_def field_simps)
qed

section \<open>Properties\<close>

text \<open>
  What \<open>card.py\<close> does with the helper in a frame: the message of the planner, the update and, when
  openpilot has just been enabled, the initialization with the car state of the previous frame. Between
  frames its parameter thread may read the increments again.
\<close>

record CruiseFrame =
  fr_CS :: CarState
  fr_CS_prev :: CarState
  fr_enabled :: bool
  fr_just_enabled :: bool
  fr_metric :: bool
  fr_experimental :: bool
  fr_dynamic :: bool
  fr_resolver :: SpeedLimitResolverMsg
  fr_assist :: AssistState
  fr_params :: Params

definition card_cruise_frame :: "CarParams \<Rightarrow> CarParamsSP \<Rightarrow> (string \<Rightarrow> int) \<Rightarrow> CruiseFrame \<Rightarrow> VCruise \<Rightarrow> VCruise" where
  "card_cruise_frame CP CP_SP dflt fr vc =
     (let vc1 = read_custom_set_speed_params dflt (fr_params fr) vc;
          vc2 = update_speed_limit_assist (fr_metric fr) (fr_resolver fr) (fr_assist fr) vc1;
          vc3 = update_v_cruise CP CP_SP (fr_CS fr) (fr_enabled fr) (fr_metric fr) vc2
      in if fr_just_enabled fr
         then initialize_v_cruise CP (fr_CS_prev fr) (fr_experimental fr) (fr_dynamic fr) vc3 else vc3)"

lemma card_frame_ok:
  assumes "\<not> cp_pcmCruise CP" "vc_inv vc"
  shows "vc_inv (card_cruise_frame CP CP_SP dflt fr vc)"
proof -
  define vc2 where "vc2 = update_speed_limit_assist (fr_metric fr) (fr_resolver fr) (fr_assist fr)
    (read_custom_set_speed_params dflt (fr_params fr) vc)"
  have "vc_inv vc2"
    using assms(2) by (simp add: vc2_def vc_inv_def update_speed_limit_assist_def read_custom_set_speed_params_def Let_def)
  define vc3 where "vc3 = update_v_cruise CP CP_SP (fr_CS fr) (fr_enabled fr) (fr_metric fr) vc2"
  have "vc_inv vc3" "set_speed_ok (v_cruise_kph_last vc3)"
    using update_v_cruise_ok [OF assms(1) \<open>vc_inv vc2\<close>] \<open>vc_inv vc2\<close> by (simp_all add: vc3_def vc_inv_def)
  then show ?thesis
    by (simp add: card_cruise_frame_def Let_def initialize_ok flip: vc2_def vc3_def)
qed

text \<open>On a car whose set speed is openpilot's own, after any sequence of frames the set speed
  is either unset (255) or between 8 and 145 km/h, whatever buttons, limits and increments the frames
  bring.\<close>

theorem set_speed_stays_in_range:
  assumes "\<not> cp_pcmCruise CP"
  shows "let v = v_cruise_kph (fold (card_cruise_frame CP CP_SP dflt) frs (new_VCruise dflt params))
    in v = V_CRUISE_UNSET \<or> (V_CRUISE_MIN \<le> v \<and> v \<le> V_CRUISE_MAX)"
proof -
  have "vc_inv (fold (card_cruise_frame CP CP_SP dflt) frs vc)" if "vc_inv vc" for vc
    using that by (induction frs arbitrary: vc) (simp_all add: card_frame_ok [OF assms])
  moreover have "vc_inv (new_VCruise dflt params)"
    by (simp add: vc_inv_def set_speed_ok_def new_VCruise_def)
  ultimately show ?thesis
    by (simp add: vc_inv_def set_speed_ok_def Let_def)
qed

definition enabling_frame :: CruiseFrame where
  "enabling_frame = \<lparr>fr_CS = default_CarState\<lparr>cs_cruiseState := default_CruiseState\<lparr>cr_available := True\<rparr>\<rparr>,
     fr_CS_prev = default_CarState\<lparr>cs_vEgo := 100\<rparr>, fr_enabled = True, fr_just_enabled = True,
     fr_metric = True, fr_experimental = False, fr_dynamic = False,
     fr_resolver = \<lparr>rm_speedLimit = 0, rm_speedLimitFinalLast = 0, rm_speedLimitValid = False,
        rm_speedLimitLastValid = False\<rparr>, fr_assist = SLA_disabled, fr_params = Map.empty\<rparr>"

theorem set_speed_stays_in_range_witness:
  "v_cruise_kph (fold (card_cruise_frame plain_CP rivian_CP_SP (\<lambda>_. 1)) [enabling_frame] (new_VCruise (\<lambda>_. 1) Map.empty)) = 145"
proof -
  have "\<not> cp_pcmCruise plain_CP"
    by (simp add: plain_CP_def)
  note set_speed_stays_in_range [OF this, of rivian_CP_SP "\<lambda>_. 1" "[enabling_frame]" Map.empty]
  moreover have "v_cruise_kph (fold (card_cruise_frame plain_CP rivian_CP_SP (\<lambda>_. 1)) [enabling_frame]
      (new_VCruise (\<lambda>_. 1) Map.empty)) = 145"
    by code_simp
  ultimately show ?thesis
    by simp
qed

text \<open>A long press rounds to the next multiple of the increment in the direction of the
  button: strictly further than the set speed, by less than one increment.\<close>

theorem long_press_reaches_next_multiple:
  assumes "0 < d" "\<not> is_multiple v d"
  shows "v < of_int (CRUISE_NEAREST_FUNC BT_accelCruise (v / d)) * d
    \<and> of_int (CRUISE_NEAREST_FUNC BT_accelCruise (v / d)) * d < v + d
    \<and> of_int (CRUISE_NEAREST_FUNC BT_decelCruise (v / d)) * d < v
    \<and> v - d < of_int (CRUISE_NEAREST_FUNC BT_decelCruise (v / d)) * d"
  using nearest_up [OF assms] nearest_down [OF assms] by blast

theorem long_press_reaches_next_multiple_witness:
  "(47::rat) < of_int (CRUISE_NEAREST_FUNC BT_accelCruise (47 / 5)) * 5"
proof -
  have "\<not> is_multiple (47::rat) 5"
    by code_simp
  then show ?thesis
    using long_press_reaches_next_multiple [of 5 47] by simp
qed

end
