(* ===== verification/Filters.thy ===== *)
theory Filters
  imports Prelude
begin

text \<open>
  The small numeric classes of \<open>common\<close>: \<open>RunningStat\<close> and \<open>RunningStatFilter\<close> (\<open>stat_live.py\<close>),
  \<open>FirstOrderFilter\<close> and \<open>BounceFilter\<close> (\<open>filter_simple.py\<close>), \<open>PIDController\<close> (\<open>pid.py\<close>), and the two
  NumPy functions they call, \<open>np.interp\<close> and \<open>np.sign\<close>. The square root of \<open>np.sqrt\<close> is the
  argument \<open>sqrtf\<close>, since floats are exact rationals here.
\<close>

section \<open>np.interp\<close>

text \<open>Piecewise linear through the points, constant outside; the points are in increasing order.\<close>

fun interp :: "rat \<Rightarrow> (rat \<times> rat) list \<Rightarrow> rat" where
  "interp x [] = 0"
| "interp x [(a, u)] = u"
| "interp x ((a, u) # (b, v) # ps) =
     (if x \<le> a then u
      else if x < b then u + (x - a) * ((v - u) / (b - a))
      else interp x ((b, v) # ps))"

text \<open>Empty lists, or lists of different lengths, raise a \<open>ValueError\<close>.\<close>

definition np_interp :: "rat \<Rightarrow> rat list \<Rightarrow> rat list \<Rightarrow> rat option" where
  "np_interp x xp fp =
     (if xp = [] \<or> length xp \<noteq> length fp then None else Some (interp x (zip xp fp)))"

lemma segment_between:
  fixes a b u v x lo hi :: rat
  assumes "a < x" "x < b" "lo \<le> u" "u \<le> hi" "lo \<le> v" "v \<le> hi"
  shows "lo \<le> u + (x - a) * ((v - u) / (b - a))" "u + (x - a) * ((v - u) / (b - a)) \<le> hi"
proof -
  define t where "t = (x - a) / (b - a)"
  have t: "0 \<le> t" "t \<le> 1"
    using assms(1,2) by (simp_all add: t_def divide_le_eq)
  have e: "u + (x - a) * ((v - u) / (b - a)) = (1 - t) * u + t * v"
    by (simp add: t_def algebra_simps diff_divide_distrib add_divide_distrib)
  have "(1 - t) * lo + t * lo \<le> (1 - t) * u + t * v"
    using assms t by (intro add_mono mult_left_mono) simp_all
  then show "lo \<le> u + (x - a) * ((v - u) / (b - a))"
    unfolding e by (simp add: algebra_simps)
  have "(1 - t) * u + t * v \<le> (1 - t) * hi + t * hi"
    using assms t by (intro add_mono mult_left_mono) simp_all
  then show "u + (x - a) * ((v - u) / (b - a)) \<le> hi"
    unfolding e by (simp add: algebra_simps)
qed

lemma interp_between:
  assumes "ps \<noteq> []" "\<forall>p\<in>set ps. lo \<le> snd p \<and> snd p \<le> hi"
  shows "lo \<le> interp x ps \<and> interp x ps \<le> hi"
  using assms
proof (induction x ps rule: interp.induct)
  case (3 x a u b v ps)
  then show ?case
    using segment_between [of a x b lo u hi v] by auto
qed simp_all

lemma interp_left: "ps \<noteq> [] \<Longrightarrow> x \<le> fst (hd ps) \<Longrightarrow> interp x ps = snd (hd ps)"
  by (cases "(x, ps)" rule: interp.cases) simp_all

lemma np_interp_between:
  assumes "np_interp x xp fp = Some y" "\<forall>v\<in>set fp. lo \<le> v \<and> v \<le> hi"
  shows "lo \<le> y \<and> y \<le> hi"
proof -
  have y: "zip xp fp \<noteq> []" "y = interp x (zip xp fp)"
    using assms(1) by (auto simp: np_interp_def split: if_splits)
  have "\<forall>p\<in>set (zip xp fp). lo \<le> snd p \<and> snd p \<le> hi"
    using assms(2) by (metis prod.collapse set_zip_rightD)
  then show ?thesis
    using interp_between [OF y(1)] y(2) by simp
qed

definition np_sign :: "rat \<Rightarrow> rat" where "np_sign x = sgn x"

section \<open>RunningStat\<close>

record RunningStat =
  max_trackable :: int
  rs_M :: rat
  rs_S :: rat
  rs_n :: int
  M_last :: rat
  S_last :: rat

definition rs_reset :: "RunningStat \<Rightarrow> RunningStat" where
  "rs_reset r = r\<lparr>rs_M := 0, rs_S := 0, M_last := 0, S_last := 0, rs_n := 0\<rparr>"

definition new_RunningStat :: "(rat \<times> rat \<times> int) option \<Rightarrow> int \<Rightarrow> RunningStat" where
  "new_RunningStat priors trackable =
     (case priors of
        Some (m, s, n) \<Rightarrow>
          \<lparr>max_trackable = trackable, rs_M = m, rs_S = s, rs_n = n, M_last = m, S_last = s\<rparr>
      | None \<Rightarrow> \<lparr>max_trackable = trackable, rs_M = 0, rs_S = 0, rs_n = 0, M_last = 0, S_last = 0\<rparr>)"

definition push_data :: "rat \<Rightarrow> RunningStat \<Rightarrow> RunningStat" where
  "push_data x r0 =
     (let r = (if max_trackable r0 < 0 \<or> rs_n r0 < max_trackable r0 then r0\<lparr>rs_n := rs_n r0 + 1\<rparr> else r0)
      in if rs_n r = 0 then r\<lparr>M_last := x, rs_M := x, S_last := 0\<rparr>
         else (let m = M_last r + (x - M_last r) / of_int (rs_n r);
                   s = S_last r + (x - M_last r) * (x - m)
               in r\<lparr>rs_M := m, rs_S := s, M_last := m, S_last := s\<rparr>))"

definition rs_mean :: "RunningStat \<Rightarrow> rat" where "rs_mean r = rs_M r"

definition rs_variance :: "RunningStat \<Rightarrow> rat" where
  "rs_variance r = (if rs_n r \<ge> 2 then rs_S r / (of_int (rs_n r) - 1) else 0)"

definition rs_std :: "(rat \<Rightarrow> rat) \<Rightarrow> RunningStat \<Rightarrow> rat" where
  "rs_std sqrtf r = sqrtf (rs_variance r)"

definition params_to_save :: "RunningStat \<Rightarrow> rat \<times> rat \<times> int" where
  "params_to_save r = (rs_M r, rs_S r, rs_n r)"

text \<open>
  The invariant of Welford's recurrence: the last values are the current ones, and the count, the sum
  and the sum of squares grow by 1, \<open>x\<close> and \<open>x\<^sup>2\<close> with every datum that is counted.
\<close>

definition rs_ok :: "RunningStat \<Rightarrow> bool" where
  "rs_ok r \<longleftrightarrow> 0 \<le> rs_n r \<and> M_last r = rs_M r \<and> S_last r = rs_S r \<and> 0 \<le> rs_S r
    \<and> (rs_n r = 0 \<longrightarrow> rs_S r = 0)"

definition rs_sum :: "RunningStat \<Rightarrow> rat" where "rs_sum r = of_int (rs_n r) * rs_M r"
definition rs_squares :: "RunningStat \<Rightarrow> rat" where "rs_squares r = rs_S r + of_int (rs_n r) * (rs_M r)\<^sup>2"

lemma welford_step:
  fixes n m s x :: rat
  assumes "n + 1 \<noteq> 0"
  defines "m' \<equiv> m + (x - m) / (n + 1)"
  shows "(n + 1) * m' = n * m + x"
    and "s + (x - m) * (x - m') + (n + 1) * m'\<^sup>2 = s + n * m\<^sup>2 + x\<^sup>2"
    and "(x - m) * (x - m') = n * (x - m)\<^sup>2 / (n + 1)"
proof -
  show e: "(n + 1) * m' = n * m + x"
    using assms(1) by (simp add: m'_def field_simps)
  have "(n + 1) * m'\<^sup>2 = (n * m + x) * m'"
    by (simp add: power2_eq_square flip: e)
  moreover have "(n * m + x) * m' = (x - m) * m' + m * ((n + 1) * m')"
    by (simp add: algebra_simps)
  ultimately show "s + (x - m) * (x - m') + (n + 1) * m'\<^sup>2 = s + n * m\<^sup>2 + x\<^sup>2"
    unfolding e by (simp add: algebra_simps power2_eq_square)
  have "x - m' = n * (x - m) / (n + 1)"
    using assms(1) by (simp add: m'_def field_simps)
  then show "(x - m) * (x - m') = n * (x - m)\<^sup>2 / (n + 1)"
    by (simp add: power2_eq_square)
qed

lemma push_data_ok:
  assumes "rs_ok r"
  shows "rs_ok (push_data x r)"
proof -
  define n where "n = (if max_trackable r < 0 \<or> rs_n r < max_trackable r then rs_n r + 1 else rs_n r)"
  define q :: rat where "q = of_int n - 1"
  have n: "0 \<le> n"
    using assms by (simp add: n_def rs_ok_def)
  have p: "push_data x r = (if n = 0 then r\<lparr>rs_n := n, M_last := x, rs_M := x, S_last := 0\<rparr>
      else (let m = M_last r + (x - M_last r) / of_int n; s = S_last r + (x - M_last r) * (x - m)
            in r\<lparr>rs_n := n, rs_M := m, rs_S := s, M_last := m, S_last := s\<rparr>))"
    by (auto simp: push_data_def Let_def n_def)
  show ?thesis
  proof (cases "n = 0")
    case True
    then show ?thesis
      using assms p by (auto simp: rs_ok_def n_def split: if_splits)
  next
    case False
    have q: "0 \<le> q" "q + 1 = of_int n"
      using False n by (simp_all add: q_def)
    have "0 \<le> (x - rs_M r) * (x - (rs_M r + (x - rs_M r) / of_int n))"
      unfolding q(2) [symmetric] using q(1) by (subst welford_step(3)) simp_all
    then show ?thesis
      using assms p False n by (simp add: rs_ok_def Let_def)
  qed
qed

lemma push_data_counted:
  assumes "rs_ok r" "max_trackable r < 0 \<or> rs_n r < max_trackable r"
  shows "rs_n (push_data x r) = rs_n r + 1"
    and "rs_sum (push_data x r) = rs_sum r + x"
    and "rs_squares (push_data x r) = rs_squares r + x\<^sup>2"
    and "max_trackable (push_data x r) = max_trackable r"
proof -
  have n: "0 \<le> rs_n r" "M_last r = rs_M r" "S_last r = rs_S r"
    using assms(1) by (simp_all add: rs_ok_def)
  have "of_int (rs_n r + 1) \<noteq> (0 :: rat)"
    using n(1) unfolding of_int_eq_0_iff by simp
  then have "of_int (rs_n r) + 1 \<noteq> (0 :: rat)"
    by simp
  note w = welford_step [OF this, where m = "rs_M r" and x = x]
  show "rs_n (push_data x r) = rs_n r + 1" "max_trackable (push_data x r) = max_trackable r"
    using assms n by (auto simp: push_data_def Let_def)
  show "rs_sum (push_data x r) = rs_sum r + x" "rs_squares (push_data x r) = rs_squares r + x\<^sup>2"
    using assms(2) n w(1) w(2) [where s = "rs_S r"]
    by (simp_all add: push_data_def Let_def rs_sum_def rs_squares_def)
qed

lemma rs_ok_new: "rs_ok (new_RunningStat None k)"
  by (simp add: rs_ok_def new_RunningStat_def)

lemma push_all:
  assumes "rs_ok r" "max_trackable r < 0"
  shows "rs_ok (fold push_data xs r) \<and> rs_n (fold push_data xs r) = rs_n r + int (length xs)
    \<and> rs_sum (fold push_data xs r) = rs_sum r + sum_list xs
    \<and> rs_squares (fold push_data xs r) = rs_squares r + (\<Sum>x\<leftarrow>xs. x\<^sup>2)"
  using assms
proof (induction xs arbitrary: r)
  case (Cons x xs)
  note c = push_data_counted [OF Cons.prems(1) disjI1 [OF Cons.prems(2)], of x]
  show ?case
    using Cons.IH [OF push_data_ok [OF Cons.prems(1)], of x] Cons.prems(2) c by simp
qed simp

lemma sum_deviations:
  fixes c :: rat
  shows "(\<Sum>x\<leftarrow>xs. (x - c)\<^sup>2) = (\<Sum>x\<leftarrow>xs. x\<^sup>2) - 2 * c * sum_list xs + of_nat (length xs) * c\<^sup>2"
  by (induction xs) (simp_all add: power2_eq_square algebra_simps)

section \<open>RunningStatFilter\<close>

record RunningStatFilter =
  raw_stat :: RunningStat
  filtered_stat :: RunningStat

definition new_RunningStatFilter :: "(rat \<times> rat \<times> int) option \<Rightarrow> (rat \<times> rat \<times> int) option \<Rightarrow> int \<Rightarrow>
    RunningStatFilter" where
  "new_RunningStatFilter raw_priors filtered_priors trackable =
     \<lparr>raw_stat = new_RunningStat raw_priors (-1), filtered_stat = new_RunningStat filtered_priors trackable\<rparr>"

definition rsf_reset :: "RunningStatFilter \<Rightarrow> RunningStatFilter" where
  "rsf_reset f = \<lparr>raw_stat = rs_reset (raw_stat f), filtered_stat = rs_reset (filtered_stat f)\<rparr>"

definition push_and_update :: "(rat \<Rightarrow> rat) \<Rightarrow> rat \<Rightarrow> RunningStatFilter \<Rightarrow> RunningStatFilter" where
  "push_and_update sqrtf x f =
     (let std_last = rs_std sqrtf (raw_stat f);
          f1 = f\<lparr>raw_stat := push_data x (raw_stat f)\<rparr>;
          delta_std = rs_std sqrtf (raw_stat f1) - std_last
      in if delta_std \<le> 0 then f1\<lparr>filtered_stat := push_data x (filtered_stat f1)\<rparr> else f1)"

section \<open>FirstOrderFilter and BounceFilter\<close>

record FirstOrderFilter =
  fo_x :: rat
  fo_dt :: rat
  fo_alpha :: rat
  fo_initialized :: bool

definition update_alpha :: "rat \<Rightarrow> FirstOrderFilter \<Rightarrow> FirstOrderFilter" where
  "update_alpha rc f = f\<lparr>fo_alpha := fo_dt f / (rc + fo_dt f)\<rparr>"

definition new_FirstOrderFilter :: "rat \<Rightarrow> rat \<Rightarrow> rat \<Rightarrow> bool \<Rightarrow> FirstOrderFilter" where
  "new_FirstOrderFilter x0 rc dt init =
     (update_alpha rc \<lparr>fo_x = x0, fo_dt = dt, fo_alpha = 0, fo_initialized = init\<rparr>)"

definition fo_update :: "rat \<Rightarrow> FirstOrderFilter \<Rightarrow> FirstOrderFilter" where
  "fo_update x f =
     (if fo_initialized f then f\<lparr>fo_x := (1 - fo_alpha f) * fo_x f + fo_alpha f * x\<rparr>
      else f\<lparr>fo_initialized := True, fo_x := x\<rparr>)"

record BounceFilter =
  bf_filter :: FirstOrderFilter
  velocity :: FirstOrderFilter
  bounce :: rat

definition new_BounceFilter :: "rat \<Rightarrow> rat \<Rightarrow> rat \<Rightarrow> bool \<Rightarrow> rat \<Rightarrow> BounceFilter" where
  "new_BounceFilter x0 rc dt init b =
     \<lparr>bf_filter = new_FirstOrderFilter x0 rc dt init,
      velocity = new_FirstOrderFilter 0 (15/100) dt True, bounce = b\<rparr>"

definition bf_update :: "rat \<Rightarrow> BounceFilter \<Rightarrow> BounceFilter" where
  "bf_update x b =
     (let f = fo_update x (bf_filter b);
          scale = fo_dt f / (1 / 60);
          v0 = velocity b;
          v1 = fo_update 0 (v0\<lparr>fo_x := fo_x v0 + (x - fo_x f) * bounce b * scale * fo_dt f\<rparr>);
          v2 = (if \<bar>fo_x v1\<bar> < 1 / 1000 then v1\<lparr>fo_x := 0\<rparr> else v1)
      in b\<lparr>bf_filter := f\<lparr>fo_x := fo_x f + fo_x v2\<rparr>, velocity := v2\<rparr>)"

lemma fo_alpha_range:
  assumes "0 < dt" "0 \<le> rc"
  shows "0 < fo_alpha (new_FirstOrderFilter x0 rc dt i)" "fo_alpha (new_FirstOrderFilter x0 rc dt i) \<le> 1"
  using assms by (simp_all add: new_FirstOrderFilter_def update_alpha_def)

lemma fo_update_fields [simp]:
  "fo_alpha (fo_update x f) = fo_alpha f" "fo_dt (fo_update x f) = fo_dt f"
  "fo_initialized (fo_update x f)"
  by (simp_all add: fo_update_def)

text \<open>A filter stays in every interval that holds its value and its inputs, and constant input is
  approached geometrically.\<close>

lemma fo_update_between:
  assumes "0 \<le> fo_alpha f" "fo_alpha f \<le> 1" "lo \<le> fo_x f" "fo_x f \<le> hi" "lo \<le> x" "x \<le> hi"
  shows "lo \<le> fo_x (fo_update x f)" "fo_x (fo_update x f) \<le> hi"
proof -
  let ?a = "fo_alpha f"
  have "(1 - ?a) * lo + ?a * lo \<le> (1 - ?a) * fo_x f + ?a * x"
    using assms by (intro add_mono mult_left_mono) simp_all
  then show "lo \<le> fo_x (fo_update x f)"
    using assms(5) by (simp add: fo_update_def algebra_simps)
  have "(1 - ?a) * fo_x f + ?a * x \<le> (1 - ?a) * hi + ?a * hi"
    using assms by (intro add_mono mult_left_mono) simp_all
  then show "fo_x (fo_update x f) \<le> hi"
    using assms(6) by (simp add: fo_update_def algebra_simps)
qed

lemma fo_constant_input:
  assumes "fo_initialized f"
  shows "fo_x ((fo_update c ^^ n) f) = c + (1 - fo_alpha f) ^ n * (fo_x f - c)
    \<and> fo_alpha ((fo_update c ^^ n) f) = fo_alpha f \<and> fo_initialized ((fo_update c ^^ n) f)"
proof (induction n)
  case (Suc n)
  let ?g = "(fo_update c ^^ n) f"
  have "fo_x ((fo_update c ^^ Suc n) f) = (1 - fo_alpha f) * fo_x ?g + fo_alpha f * c"
    using Suc fo_update_def [of c ?g] by simp
  also have "\<dots> = c + (1 - fo_alpha f) * (fo_x ?g - c)"
    by (simp add: algebra_simps)
  finally show ?case
    using Suc by simp
qed (simp add: assms)

section \<open>PIDController\<close>

text \<open>A gain is a pair of lists, speeds and values; a single number is the table with one point.\<close>

record PIDController =
  pid_k_p :: "rat list \<times> rat list"
  pid_k_i :: "rat list \<times> rat list"
  pid_k_d :: "rat list \<times> rat list"
  pos_limit :: rat
  neg_limit :: rat
  i_dt :: rat
  pid_speed :: rat
  pid_p :: rat
  pid_i :: rat
  pid_d :: rat
  pid_f :: rat
  control :: rat

definition number_gain :: "rat \<Rightarrow> rat list \<times> rat list" where
  "number_gain k = ([0], [k])"

definition pid_reset :: "PIDController \<Rightarrow> PIDController" where
  "pid_reset c = c\<lparr>pid_p := 0, pid_i := 0, pid_d := 0, pid_f := 0, control := 0\<rparr>"

definition set_limits :: "rat \<Rightarrow> rat \<Rightarrow> PIDController \<Rightarrow> PIDController" where
  "set_limits pos neg c = c\<lparr>pos_limit := pos, neg_limit := neg\<rparr>"

definition new_PIDController :: "rat list \<times> rat list \<Rightarrow> rat list \<times> rat list \<Rightarrow> rat list \<times> rat list \<Rightarrow>
    rat \<Rightarrow> rat \<Rightarrow> rat \<Rightarrow> PIDController" where
  "new_PIDController k_p k_i k_d pos neg rate =
     \<lparr>pid_k_p = k_p, pid_k_i = k_i, pid_k_d = k_d, pos_limit = pos, neg_limit = neg, i_dt = 1 / rate,
      pid_speed = 0, pid_p = 0, pid_i = 0, pid_d = 0, pid_f = 0, control = 0\<rparr>"

definition gain_at :: "rat list \<times> rat list \<Rightarrow> rat \<Rightarrow> rat option" where
  "gain_at k speed = np_interp speed (fst k) (snd k)"

text \<open>The new integrator: it is clipped to the limits, and to its old value where the output is beyond one.\<close>

definition pid_integrate :: "rat \<Rightarrow> rat \<Rightarrow> PIDController \<Rightarrow> rat" where
  "pid_integrate ki error c =
     (let i = pid_i c + ki * i_dt c * error;
          test_control = pid_p c + i + pid_d c + pid_f c;
          upper = (if test_control > pos_limit c then pid_i c else pos_limit c);
          lower = (if test_control < neg_limit c then pid_i c else neg_limit c)
      in np_clip i lower upper)"

definition pid_update :: "rat \<Rightarrow> rat \<Rightarrow> rat \<Rightarrow> rat \<Rightarrow> bool \<Rightarrow> PIDController \<Rightarrow> PIDController option" where
  "pid_update error error_rate speed feedforward freeze_integrator c0 = do {
     kp \<leftarrow> gain_at (pid_k_p c0) speed;
     kd \<leftarrow> gain_at (pid_k_d c0) speed;
     let c = c0\<lparr>pid_speed := speed, pid_p := kp * error, pid_d := kd * error_rate, pid_f := feedforward\<rparr>;
     i' \<leftarrow> (if freeze_integrator then Some (pid_i c)
            else map_option (\<lambda>ki. pid_integrate ki error c) (gain_at (pid_k_i c) speed));
     Some (c\<lparr>pid_i := i',
             control := np_clip (pid_p c + i' + pid_d c + pid_f c) (neg_limit c) (pos_limit c)\<rparr>)
   }"

definition gains_ok :: "PIDController \<Rightarrow> bool" where
  "gains_ok c \<longleftrightarrow> list_all (\<lambda>k. fst k \<noteq> [] \<and> length (fst k) = length (snd k)) [pid_k_p c, pid_k_i c, pid_k_d c]"

lemma gain_at_Some: "fst k \<noteq> [] \<Longrightarrow> length (fst k) = length (snd k) \<Longrightarrow> \<exists>v. gain_at k s = Some v"
  by (simp add: gain_at_def np_interp_def)

lemma pid_update_total:
  assumes "gains_ok c"
  shows "\<exists>c'. pid_update e er s ff fz c = Some c'"
proof -
  obtain kp ki kd where "gain_at (pid_k_p c) s = Some kp" "gain_at (pid_k_i c) s = Some ki"
    "gain_at (pid_k_d c) s = Some kd"
    using assms gain_at_Some [of "pid_k_p c" s] gain_at_Some [of "pid_k_i c" s] gain_at_Some [of "pid_k_d c" s]
    by (auto simp: gains_ok_def)
  then show ?thesis
    by (simp add: pid_update_def Let_def)
qed

lemma np_clip_between:
  "lo \<le> hi \<Longrightarrow> lo \<le> np_clip x lo hi" "lo \<le> hi \<Longrightarrow> np_clip x lo hi \<le> hi"
  by (simp_all add: np_clip_def)

text \<open>What an update computes, read off the new record.\<close>

lemma pid_update_Some:
  assumes "pid_update e er s ff fz c = Some c'"
  shows "pos_limit c' = pos_limit c \<and> neg_limit c' = neg_limit c \<and> gains_ok c' = gains_ok c"
    and "control c' = np_clip (pid_p c' + pid_i c' + pid_d c' + pid_f c') (neg_limit c) (pos_limit c)"
    and "pid_i c' = pid_i c \<or>
      (\<exists>i. pid_i c' = np_clip i
        (if pid_p c' + i + pid_d c' + pid_f c' < neg_limit c then pid_i c else neg_limit c)
        (if pid_p c' + i + pid_d c' + pid_f c' > pos_limit c then pid_i c else pos_limit c))"
proof -
  obtain kp kd where k: "gain_at (pid_k_p c) s = Some kp" "gain_at (pid_k_d c) s = Some kd"
    using assms unfolding pid_update_def bind_eq_Some_conv by blast
  define c1 where "c1 = c\<lparr>pid_speed := s, pid_p := kp * e, pid_d := kd * er, pid_f := ff\<rparr>"
  define out where "out i' = c1\<lparr>pid_i := i', control := np_clip (kp * e + i' + kd * er + ff) (neg_limit c) (pos_limit c)\<rparr>" for i'
  define integral where "integral = (if fz then Some (pid_i c) else map_option (\<lambda>ki. pid_integrate ki e c1) (gain_at (pid_k_i c) s))"
  have "pid_update e er s ff fz c = map_option out integral"
    unfolding pid_update_def k Let_def integral_def out_def c1_def by (cases "gain_at (pid_k_i c) s") simp_all
  then obtain i' where c': "c' = out i'" and "integral = Some i'"
    using assms by (cases integral) simp_all
  then have k: "i' = pid_i c \<or> (\<exists>ki. i' = pid_integrate ki e c1)"
    by (auto simp: integral_def split: if_split_asm)
  have i': "i' = pid_i c \<or> (\<exists>i. i' = np_clip i
        (if kp * e + i + kd * er + ff < neg_limit c then pid_i c else neg_limit c)
        (if kp * e + i + kd * er + ff > pos_limit c then pid_i c else pos_limit c))"
    using k unfolding pid_integrate_def Let_def c1_def by auto
  show "pos_limit c' = pos_limit c \<and> neg_limit c' = neg_limit c \<and> gains_ok c' = gains_ok c"
    by (simp add: c' out_def c1_def gains_ok_def)
  show "control c' = np_clip (pid_p c' + pid_i c' + pid_d c' + pid_f c') (neg_limit c) (pos_limit c)"
    by (simp add: c' out_def c1_def)
  show "pid_i c' = pid_i c \<or>
      (\<exists>i. pid_i c' = np_clip i
        (if pid_p c' + i + pid_d c' + pid_f c' < neg_limit c then pid_i c else neg_limit c)
        (if pid_p c' + i + pid_d c' + pid_f c' > pos_limit c then pid_i c else pos_limit c))"
    using i' by (simp add: c' out_def c1_def)
qed

text \<open>The output respects the limits and so does the integrator.\<close>

lemma pid_update_bounds:
  assumes "pid_update e er s ff fz c = Some c'" "neg_limit c \<le> pos_limit c"
  shows "neg_limit c \<le> control c'" "control c' \<le> pos_limit c"
    and "neg_limit c \<le> pid_i c \<Longrightarrow> pid_i c \<le> pos_limit c \<Longrightarrow> neg_limit c \<le> pid_i c' \<and> pid_i c' \<le> pos_limit c"
proof -
  show "neg_limit c \<le> control c'" "control c' \<le> pos_limit c"
    using assms(2) unfolding pid_update_Some(2) [OF assms(1)] by (simp_all add: np_clip_between)
  show "neg_limit c \<le> pid_i c' \<and> pid_i c' \<le> pos_limit c" if "neg_limit c \<le> pid_i c" "pid_i c \<le> pos_limit c"
    using pid_update_Some(3) [OF assms(1)] that assms(2)
    by (auto simp: np_clip_def min_def max_def split: if_splits)
qed

text \<open>Anti-windup: while the output would leave the limits, the integrator does not move further out.\<close>

lemma pid_anti_windup:
  assumes "pid_update e er s ff fz c = Some c'" "neg_limit c \<le> pid_i c" "pid_i c \<le> pos_limit c"
  shows "pos_limit c < pid_p c' + pid_i c' + pid_d c' + pid_f c' \<Longrightarrow> pid_i c' \<le> pid_i c"
    and "pid_p c' + pid_i c' + pid_d c' + pid_f c' < neg_limit c \<Longrightarrow> pid_i c \<le> pid_i c'"
  using pid_update_Some(3) [OF assms(1)] assms(2,3)
  by (auto simp: np_clip_def min_def max_def split: if_splits)

end
