(* ===== verification/DriverMonitor.thy ===== *)
theory DriverMonitor
  imports Filters Platform
begin

text \<open>
  Driver monitoring: \<open>selfdrive/monitoring/policy.py\<close> and one round of the loop of \<open>dmonitoringd.py\<close>.
  The model's predictions are message fields. The trigonometric functions and the square root are the
  arguments \<open>mf\<close>; an index outside a message list (\<open>IndexError\<close>) is \<open>None\<close>. The settings are a record,
  as in the code; \<open>dm_settings\<close> is the one the process uses.
\<close>

definition DT_DMON :: rat where "DT_DMON = 5/100"

definition to_percent :: "rat \<Rightarrow> int" where
  "to_percent v = py_trunc (min (max (v * 100) 0) 100)"

section \<open>DRIVER\_MONITOR\_SETTINGS\<close>

record DmSettings =
  WHEELTOUCH_POLICY_ALERT_1_TIMEOUT :: rat
  WHEELTOUCH_POLICY_ALERT_2_TIMEOUT :: rat
  WHEELTOUCH_POLICY_ALERT_3_TIMEOUT :: rat
  VISION_POLICY_ALERT_1_TIMEOUT :: rat
  VISION_POLICY_ALERT_2_TIMEOUT :: rat
  VISION_POLICY_ALERT_3_TIMEOUT :: rat
  TIMEOUT_RECOVERY_FACTOR_MAX :: rat
  TIMEOUT_RECOVERY_FACTOR_MIN :: rat
  MAX_TERMINAL_ALERTS :: int
  MAX_TERMINAL_DURATION :: int
  FACE_THRESHOLD :: rat
  EYE_THRESHOLD :: rat
  SG_THRESHOLD :: rat
  BLINK_THRESHOLD :: rat
  PHONE_THRESH :: rat
  POSE_PITCH_THRESHOLD :: rat
  POSE_PITCH_THRESHOLD_SLACK :: rat
  POSE_PITCH_THRESHOLD_STRICT :: rat
  POSE_YAW_THRESHOLD :: rat
  POSE_YAW_THRESHOLD_SLACK :: rat
  POSE_YAW_THRESHOLD_STRICT :: rat
  POSE_YAW_MIN_STEER_DEG :: rat
  POSE_YAW_STEER_FACTOR :: rat
  POSE_YAW_STEER_MAX_OFFSET :: rat
  PITCH_NATURAL_OFFSET :: rat
  PITCH_NATURAL_THRESHOLD :: rat
  YAW_NATURAL_OFFSET :: rat
  PITCH_NATURAL_VAR :: rat
  YAW_NATURAL_VAR :: rat
  PITCH_MAX_OFFSET :: rat
  PITCH_MIN_OFFSET :: rat
  YAW_MAX_OFFSET :: rat
  YAW_MIN_OFFSET :: rat
  DCAM_UNCERTAIN_ALERT_THRESHOLD :: rat
  DCAM_UNCERTAIN_ALERT_COUNT :: int
  DCAM_UNCERTAIN_RESET_COUNT :: int
  HI_STD_THRESHOLD :: rat
  HI_STD_FALLBACK_TIME :: int
  DISTRACTED_FILTER_TS :: rat
  POSE_CALIB_MIN_SPEED :: rat
  POSE_OFFSET_MIN_COUNT :: int
  POSE_OFFSET_MAX_COUNT :: int
  WHEELPOS_CALIB_MIN_SPEED :: rat
  WHEELPOS_THRESHOLD :: rat
  WHEELPOS_FILTER_MIN_COUNT :: int
  WHEELPOS_DATA_AVG :: rat
  WHEELPOS_DATA_VAR :: rat
  WHEELPOS_MAX_COUNT :: int

definition dm_settings :: DmSettings where
  "dm_settings =
     \<lparr>WHEELTOUCH_POLICY_ALERT_1_TIMEOUT = 2985,
      WHEELTOUCH_POLICY_ALERT_2_TIMEOUT = 2994,
      WHEELTOUCH_POLICY_ALERT_3_TIMEOUT = 3000,
      VISION_POLICY_ALERT_1_TIMEOUT = 1092,
      VISION_POLICY_ALERT_2_TIMEOUT = 1094,
      VISION_POLICY_ALERT_3_TIMEOUT = 1100,
      TIMEOUT_RECOVERY_FACTOR_MAX = 5,
      TIMEOUT_RECOVERY_FACTOR_MIN = 125/100,
      MAX_TERMINAL_ALERTS = 3,
      MAX_TERMINAL_DURATION = py_trunc (30 / DT_DMON),
      FACE_THRESHOLD = 7/10,
      EYE_THRESHOLD = 65/100,
      SG_THRESHOLD = 9/10,
      BLINK_THRESHOLD = 865/1000,
      PHONE_THRESH = 5/10,
      POSE_PITCH_THRESHOLD = 3133/10000,
      POSE_PITCH_THRESHOLD_SLACK = 3237/10000,
      POSE_PITCH_THRESHOLD_STRICT = 3133/10000,
      POSE_YAW_THRESHOLD = 4020/10000,
      POSE_YAW_THRESHOLD_SLACK = 5042/10000,
      POSE_YAW_THRESHOLD_STRICT = 4020/10000,
      POSE_YAW_MIN_STEER_DEG = 30,
      POSE_YAW_STEER_FACTOR = 15/100,
      POSE_YAW_STEER_MAX_OFFSET = 3927/10000,
      PITCH_NATURAL_OFFSET = 11/1000,
      PITCH_NATURAL_THRESHOLD = 449/1000,
      YAW_NATURAL_OFFSET = 75/1000,
      PITCH_NATURAL_VAR = 3 * (1/100),
      YAW_NATURAL_VAR = 3 * (5/100),
      PITCH_MAX_OFFSET = 124/1000,
      PITCH_MIN_OFFSET = -881/10000,
      YAW_MAX_OFFSET = 289/1000,
      YAW_MIN_OFFSET = -246/10000,
      DCAM_UNCERTAIN_ALERT_THRESHOLD = 1/10,
      DCAM_UNCERTAIN_ALERT_COUNT = py_trunc (60 / DT_DMON),
      DCAM_UNCERTAIN_RESET_COUNT = py_trunc (2 / DT_DMON),
      HI_STD_THRESHOLD = 3/10,
      HI_STD_FALLBACK_TIME = py_trunc (10 / DT_DMON),
      DISTRACTED_FILTER_TS = 25/100,
      POSE_CALIB_MIN_SPEED = 13,
      POSE_OFFSET_MIN_COUNT = py_trunc (60 / DT_DMON),
      POSE_OFFSET_MAX_COUNT = py_trunc (360 / DT_DMON),
      WHEELPOS_CALIB_MIN_SPEED = 11,
      WHEELPOS_THRESHOLD = 5/10,
      WHEELPOS_FILTER_MIN_COUNT = py_trunc (15 / DT_DMON),
      WHEELPOS_DATA_AVG = 3/100,
      WHEELPOS_DATA_VAR = 3 * (55/1000000),
      WHEELPOS_MAX_COUNT = -1\<rparr>"

section \<open>The state\<close>

record MathFuns =
  mf_atan2 :: "rat \<Rightarrow> rat \<Rightarrow> rat"
  mf_sqrt :: "rat \<Rightarrow> rat"
  mf_radians :: "rat \<Rightarrow> rat"

record DriverPose =
  po_yaw :: rat
  po_pitch :: rat
  pitch_offsetter :: RunningStatFilter
  yaw_offsetter :: RunningStatFilter
  po_calibrated :: bool
  low_std :: bool
  cfactor_pitch :: rat
  cfactor_yaw :: rat
  steer_yaw_offset :: rat

definition new_DriverPose :: "DmSettings \<Rightarrow> DriverPose" where
  "new_DriverPose st =
     \<lparr>po_yaw = 0, po_pitch = 0,
      pitch_offsetter = new_RunningStatFilter (Some (PITCH_NATURAL_OFFSET st, PITCH_NATURAL_VAR st, 2)) None
        (POSE_OFFSET_MAX_COUNT st),
      yaw_offsetter = new_RunningStatFilter (Some (YAW_NATURAL_OFFSET st, YAW_NATURAL_VAR st, 2)) None
        (POSE_OFFSET_MAX_COUNT st),
      po_calibrated = False, low_std = True, cfactor_pitch = 1, cfactor_yaw = 1, steer_yaw_offset = 0\<rparr>"

record DriverBlink =
  bl_left :: rat
  bl_right :: rat

definition new_DriverBlink :: DriverBlink where "new_DriverBlink = \<lparr>bl_left = 0, bl_right = 0\<rparr>"

text \<open>The dictionary \<open>distracted_types\<close> has three keys; a missing one reads as false.\<close>

record DistractedTypes =
  dt_pose :: bool
  dt_eye :: bool
  dt_phone :: bool

record DriverMonitoring =
  wheelpos_offsetter :: RunningStatFilter
  dm_pose :: DriverPose
  dm_blink :: DriverBlink
  phone_prob :: rat
  alert_level :: AlertLevel
  always_on :: bool
  distracted_types :: DistractedTypes
  driver_distracted :: bool
  driver_distraction_filter :: FirstOrderFilter
  wheel_on_right :: bool
  wheel_on_right_last :: "bool option"
  wheel_on_right_default :: bool
  face_detected :: bool
  terminal_alert_cnt :: int
  terminal_time :: int
  step_change :: rat
  active_policy :: MonitoringPolicy
  driver_interacting :: bool
  is_model_uncertain :: bool
  hi_stds :: int
  model_std_max :: rat
  threshold_alert_1 :: rat
  threshold_alert_2 :: rat
  dcam_uncertain_cnt :: int
  dcam_reset_cnt :: int
  too_distracted :: bool
  awareness :: rat
  last_vision_awareness :: rat
  last_wheeltouch_awareness :: rat

section \<open>Awareness and policy\<close>

definition reset_awareness :: "DriverMonitoring \<Rightarrow> DriverMonitoring" where
  "reset_awareness dm =
     dm\<lparr>awareness := 1, last_vision_awareness := 1, last_wheeltouch_awareness := 1\<rparr>"

definition set_policy :: "DmSettings \<Rightarrow> MonitoringPolicy \<Rightarrow> DriverMonitoring \<Rightarrow> DriverMonitoring" where
  "set_policy st target_policy dm =
     (if active_policy dm = MP_vision \<and> awareness dm \<le> threshold_alert_2 dm then
        (if target_policy = MP_vision
         then dm\<lparr>step_change := DT_DMON / VISION_POLICY_ALERT_3_TIMEOUT st\<rparr>
         else dm\<lparr>step_change := 0\<rparr>)
      else if awareness dm \<le> 0 then dm
      else if target_policy = MP_vision then
        (let dm1 = (if active_policy dm \<noteq> MP_vision
                    then dm\<lparr>last_wheeltouch_awareness := awareness dm, awareness := last_vision_awareness dm\<rparr>
                    else dm)
         in dm1\<lparr>threshold_alert_1 := 1 - VISION_POLICY_ALERT_1_TIMEOUT st / VISION_POLICY_ALERT_3_TIMEOUT st,
                threshold_alert_2 := 1 - VISION_POLICY_ALERT_2_TIMEOUT st / VISION_POLICY_ALERT_3_TIMEOUT st,
                step_change := DT_DMON / VISION_POLICY_ALERT_3_TIMEOUT st,
                active_policy := MP_vision\<rparr>)
      else
        (let dm1 = (if active_policy dm = MP_vision
                    then dm\<lparr>last_vision_awareness := awareness dm, awareness := last_wheeltouch_awareness dm\<rparr>
                    else dm)
         in dm1\<lparr>threshold_alert_1 := 1 - WHEELTOUCH_POLICY_ALERT_1_TIMEOUT st / WHEELTOUCH_POLICY_ALERT_3_TIMEOUT st,
                threshold_alert_2 := 1 - WHEELTOUCH_POLICY_ALERT_2_TIMEOUT st / WHEELTOUCH_POLICY_ALERT_3_TIMEOUT st,
                step_change := DT_DMON / WHEELTOUCH_POLICY_ALERT_3_TIMEOUT st,
                active_policy := MP_wheeltouch\<rparr>))"

text \<open>\<open>__init__\<close>: \<open>rhd\<close> is the saved wheel side, \<open>locked\<close> the stored \<open>DriverTooDistracted\<close>.\<close>

definition new_DriverMonitoring :: "DmSettings \<Rightarrow> bool \<Rightarrow> bool \<Rightarrow> bool \<Rightarrow> DriverMonitoring" where
  "new_DriverMonitoring st rhd always locked =
     set_policy st MP_vision (reset_awareness
       \<lparr>wheelpos_offsetter = new_RunningStatFilter (Some (WHEELPOS_DATA_AVG st, WHEELPOS_DATA_VAR st, 2)) None
          (WHEELPOS_MAX_COUNT st),
        dm_pose = new_DriverPose st, dm_blink = new_DriverBlink, phone_prob = 0, alert_level = AL_none,
        always_on = always, distracted_types = \<lparr>dt_pose = False, dt_eye = False, dt_phone = False\<rparr>,
        driver_distracted = False,
        driver_distraction_filter = new_FirstOrderFilter 0 (DISTRACTED_FILTER_TS st) DT_DMON True,
        wheel_on_right = False, wheel_on_right_last = None, wheel_on_right_default = rhd,
        face_detected = False, terminal_alert_cnt = 0, terminal_time = 0, step_change = 0,
        active_policy = MP_vision, driver_interacting = False, is_model_uncertain = False, hi_stds = 0,
        model_std_max = 0, threshold_alert_1 = 0, threshold_alert_2 = 0, dcam_uncertain_cnt = 0,
        dcam_reset_cnt = 0, too_distracted = locked,
        awareness = 1, last_vision_awareness = 1, last_wheeltouch_awareness = 1\<rparr>)"

section \<open>Distraction\<close>

definition set_pose_strictness :: "DmSettings \<Rightarrow> rat \<Rightarrow> rat \<Rightarrow> DriverMonitoring \<Rightarrow> DriverMonitoring" where
  "set_pose_strictness st brake_disengage_prob car_speed dm =
     (let k1 = max (-156/100000 * (car_speed - 16)\<^sup>2 + 6/10) (2/10);
          bp_normal = max (min (brake_disengage_prob / k1) (5/10)) 0;
          pitch = interp bp_normal [(0, POSE_PITCH_THRESHOLD_SLACK st), (5/10, POSE_PITCH_THRESHOLD_STRICT st)]
                  / POSE_PITCH_THRESHOLD st;
          yaw = interp bp_normal [(0, POSE_YAW_THRESHOLD_SLACK st), (5/10, POSE_YAW_THRESHOLD_STRICT st)]
                / POSE_YAW_THRESHOLD st
      in dm\<lparr>dm_pose := (dm_pose dm)\<lparr>cfactor_pitch := pitch, cfactor_yaw := yaw\<rparr>\<rparr>)"

definition get_distracted_types :: "DmSettings \<Rightarrow> DriverMonitoring \<Rightarrow> DistractedTypes" where
  "get_distracted_types st dm =
     (let p = dm_pose dm;
          learned = (\<lambda>f. rs_mean (filtered_stat f));
          pitch_error0 =
            (if \<not> po_calibrated p then po_pitch p - PITCH_NATURAL_OFFSET st
             else po_pitch p - min (max (learned (pitch_offsetter p)) (PITCH_MIN_OFFSET st)) (PITCH_MAX_OFFSET st));
          yaw_error0 =
            (if \<not> po_calibrated p then po_yaw p - YAW_NATURAL_OFFSET st
             else po_yaw p - min (max (learned (yaw_offsetter p)) (YAW_MIN_OFFSET st)) (YAW_MAX_OFFSET st));
          pitch_error = (if pitch_error0 > 0 then 0 else \<bar>pitch_error0\<bar>);
          yaw_error =
            (if yaw_error0 * steer_yaw_offset p > 0
             then max (\<bar>yaw_error0\<bar> - min \<bar>steer_yaw_offset p\<bar> (POSE_YAW_STEER_MAX_OFFSET st)) 0
             else \<bar>yaw_error0\<bar>);
          pitch_threshold = (if po_calibrated p then POSE_PITCH_THRESHOLD st * cfactor_pitch p
                             else PITCH_NATURAL_THRESHOLD st);
          yaw_threshold = POSE_YAW_THRESHOLD st * cfactor_yaw p
      in \<lparr>dt_pose = pitch_error > pitch_threshold \<or> yaw_error > yaw_threshold,
          dt_eye = (bl_left (dm_blink dm) + bl_right (dm_blink dm)) * (5/10) > BLINK_THRESHOLD st,
          dt_phone = phone_prob dm > PHONE_THRESH st\<rparr>)"

section \<open>The model's output\<close>

record DriverData =
  faceOrientation :: "rat list"
  faceOrientationStd :: "rat list"
  facePosition :: "rat list"
  facePositionStd :: "rat list"
  faceProb :: rat
  leftEyeProb :: rat
  rightEyeProb :: rat
  leftBlinkProb :: rat
  rightBlinkProb :: rat
  sunglassesProb :: rat
  phoneProb :: rat

record DriverState =
  wheelOnRightProb :: rat
  leftDriverData :: DriverData
  rightDriverData :: DriverData

definition nth_opt :: "'a list \<Rightarrow> nat \<Rightarrow> 'a option" where
  "nth_opt xs i = (if i < length xs then Some (xs ! i) else None)"

definition dcam_undistorted_FL :: rat where "dcam_undistorted_FL = 598"
definition dcam_undistorted_W :: int where "dcam_undistorted_W = 1928"
definition dcam_undistorted_H :: int where "dcam_undistorted_H = 1208"

definition face_orientation_from_model :: "MathFuns \<Rightarrow> rat list \<Rightarrow> rat list \<Rightarrow> rat list \<Rightarrow> (rat \<times> rat) option" where
  "face_orientation_from_model mf orient_model pos_model rpy_calib = do {
     pitch_model \<leftarrow> nth_opt orient_model 0;
     yaw_model \<leftarrow> nth_opt orient_model 1;
     px \<leftarrow> nth_opt pos_model 0;
     py \<leftarrow> nth_opt pos_model 1;
     let face_x = (px + 5/10) * of_int dcam_undistorted_W;
     let face_y = (py + 5/10) * of_int dcam_undistorted_H;
     let yaw_focal_angle = mf_atan2 mf (face_x - of_int (dcam_undistorted_W div 2)) dcam_undistorted_FL;
     let pitch_focal_angle = mf_atan2 mf (face_y - of_int (dcam_undistorted_H div 2)) dcam_undistorted_FL;
     cal_pitch \<leftarrow> nth_opt rpy_calib 1;
     cal_yaw \<leftarrow> nth_opt rpy_calib 2;
     Some (pitch_model + pitch_focal_angle - cal_pitch, - yaw_model + yaw_focal_angle - cal_yaw)
   }"

section \<open>\_update\_states\<close>

text \<open>The arguments that do not change during the call.\<close>

record StateInput =
  si_driver_state :: DriverState
  si_cal_rpy :: "rat list"
  si_car_speed :: rat
  si_op_engaged :: bool
  si_standstill :: bool
  si_demo_mode :: bool
  si_steering_angle_deg :: rat

text \<open>The side of the steering wheel.\<close>

definition choose_wheel :: "DmSettings \<Rightarrow> MathFuns \<Rightarrow> StateInput \<Rightarrow> DriverMonitoring \<Rightarrow> DriverMonitoring" where
  "choose_wheel st mf si dm0 =
     (let ds = si_driver_state si;
          dm = (if si_car_speed si > WHEELPOS_CALIB_MIN_SPEED st
                   \<and> (faceProb (leftDriverData ds) > FACE_THRESHOLD st
                      \<or> faceProb (rightDriverData ds) > FACE_THRESHOLD st)
                then dm0\<lparr>wheelpos_offsetter := push_and_update (mf_sqrt mf) (wheelOnRightProb ds) (wheelpos_offsetter dm0)\<rparr>
                else dm0);
          stat = filtered_stat (wheelpos_offsetter dm);
          wheelpos_calibrated = rs_n stat \<ge> WHEELPOS_FILTER_MIN_COUNT st;
          right0 = (if wheelpos_calibrated \<or> si_demo_mode si then rs_M stat > WHEELPOS_THRESHOLD st
                    else wheel_on_right_default dm);
          right = (case wheel_on_right_last dm of
                     Some prev \<Rightarrow> if si_op_engaged si \<and> prev \<noteq> right0 \<and> \<not> si_demo_mode si then prev else right0
                   | None \<Rightarrow> right0)
      in dm\<lparr>wheel_on_right := right\<rparr>)"

definition chosen_data :: "StateInput \<Rightarrow> DriverMonitoring \<Rightarrow> DriverData" where
  "chosen_data si dm =
     (if wheel_on_right dm then rightDriverData (si_driver_state si) else leftDriverData (si_driver_state si))"

definition data_present :: "DriverData \<Rightarrow> bool" where
  "data_present d \<longleftrightarrow>
     list_all (\<lambda>x. length x > 0) [faceOrientation d, facePosition d, faceOrientationStd d, facePositionStd d]"

text \<open>Face, head pose, eyes and phone.\<close>

definition observe_driver :: "DmSettings \<Rightarrow> MathFuns \<Rightarrow> StateInput \<Rightarrow> DriverData \<Rightarrow> DriverMonitoring \<Rightarrow>
    DriverMonitoring option" where
  "observe_driver st mf si d dm = do {
     (pitch, yaw0) \<leftarrow> face_orientation_from_model mf (faceOrientation d) (facePosition d) (si_cal_rpy si);
     let angle = si_steering_angle_deg si;
     let steer_d = max (\<bar>angle\<bar> - POSE_YAW_MIN_STEER_DEG st) 0;
     let offset0 = mf_radians mf steer_d * - np_sign angle * POSE_YAW_STEER_FACTOR st;
     let right = wheel_on_right dm;
     std0 \<leftarrow> nth_opt (faceOrientationStd d) 0;
     std1 \<leftarrow> nth_opt (faceOrientationStd d) 1;
     let std_max = max std0 std1;
     let visible = (\<lambda>b. if b \<and> sunglassesProb d < SG_THRESHOLD st then 1 else 0);
     Some (dm\<lparr>face_detected := faceProb d > FACE_THRESHOLD st,
              dm_pose := (dm_pose dm)\<lparr>po_pitch := pitch, po_yaw := (if right then - yaw0 else yaw0),
                           steer_yaw_offset := (if right then - offset0 else offset0),
                           low_std := std_max < HI_STD_THRESHOLD st\<rparr>,
              wheel_on_right_last := Some right, model_std_max := std_max,
              dm_blink := \<lparr>bl_left = leftBlinkProb d * visible (leftEyeProb d > EYE_THRESHOLD st),
                           bl_right = rightBlinkProb d * visible (rightEyeProb d > EYE_THRESHOLD st)\<rparr>,
              phone_prob := phoneProb d\<rparr>)
   }"

definition any_distraction :: "DistractedTypes \<Rightarrow> bool" where
  "any_distraction t \<longleftrightarrow> dt_pose t \<or> dt_eye t \<or> dt_phone t"

definition judge_distraction :: "DmSettings \<Rightarrow> DriverData \<Rightarrow> DriverMonitoring \<Rightarrow> DriverMonitoring" where
  "judge_distraction st d dm =
     (let types = get_distracted_types st dm;
          distracted = (any_distraction types \<and> faceProb d > FACE_THRESHOLD st \<and> low_std (dm_pose dm))
      in dm\<lparr>distracted_types := types, driver_distracted := distracted,
            driver_distraction_filter := fo_update (if distracted then 1 else 0) (driver_distraction_filter dm)\<rparr>)"

text \<open>The learned offsets of the head pose.\<close>

definition learn_pose :: "DmSettings \<Rightarrow> MathFuns \<Rightarrow> StateInput \<Rightarrow> DriverMonitoring \<Rightarrow> DriverMonitoring" where
  "learn_pose st mf si dm =
     (let p = dm_pose dm;
          p1 = (if face_detected dm \<and> si_car_speed si > POSE_CALIB_MIN_SPEED st \<and> low_std p
                   \<and> (\<not> si_op_engaged si \<or> \<not> driver_distracted dm)
                then p\<lparr>pitch_offsetter := push_and_update (mf_sqrt mf) (po_pitch p) (pitch_offsetter p),
                       yaw_offsetter := push_and_update (mf_sqrt mf) (po_yaw p) (yaw_offsetter p)\<rparr>
                else p)
      in dm\<lparr>dm_pose := p1\<lparr>po_calibrated :=
               rs_n (filtered_stat (pitch_offsetter p1)) \<ge> POSE_OFFSET_MIN_COUNT st
               \<and> rs_n (filtered_stat (yaw_offsetter p1)) \<ge> POSE_OFFSET_MIN_COUNT st\<rparr>\<rparr>)"

definition count_uncertain :: "DmSettings \<Rightarrow> StateInput \<Rightarrow> DriverMonitoring \<Rightarrow> DriverMonitoring" where
  "count_uncertain st si dm =
     (if face_detected dm \<and> \<not> driver_distracted dm then
        (if model_std_max dm > DCAM_UNCERTAIN_ALERT_THRESHOLD st \<and> \<not> si_standstill si
         then dm\<lparr>dcam_uncertain_cnt := dcam_uncertain_cnt dm + 1, dcam_reset_cnt := 0\<rparr>
         else (let n = dcam_reset_cnt dm + 1
               in dm\<lparr>dcam_reset_cnt := n,
                     dcam_uncertain_cnt := (if n > DCAM_UNCERTAIN_RESET_COUNT st then 0 else dcam_uncertain_cnt dm)\<rparr>))
      else dm)"

text \<open>The policy of the frame, and the count of uncertain frames.\<close>

definition choose_policy :: "DmSettings \<Rightarrow> DriverMonitoring \<Rightarrow> DriverMonitoring" where
  "choose_policy st dm0 =
     (let dm1 = dm0\<lparr>is_model_uncertain := hi_stds dm0 \<ge> HI_STD_FALLBACK_TIME st\<rparr>;
          dm = set_policy st (if face_detected dm1 \<and> \<not> is_model_uncertain dm1 then MP_vision else MP_wheeltouch) dm1
      in if face_detected dm \<and> \<not> low_std (dm_pose dm) \<and> \<not> driver_distracted dm
         then dm\<lparr>hi_stds := hi_stds dm + 1\<rparr>
         else if face_detected dm \<and> low_std (dm_pose dm) then dm\<lparr>hi_stds := 0\<rparr>
         else dm)"

definition update_states :: "DmSettings \<Rightarrow> MathFuns \<Rightarrow> StateInput \<Rightarrow> DriverMonitoring \<Rightarrow> DriverMonitoring option" where
  "update_states st mf si dm0 =
     (let dm1 = choose_wheel st mf si dm0;
          d = chosen_data si dm1
      in if \<not> data_present d then Some dm1
         else map_option
                (\<lambda>dm2. choose_policy st (count_uncertain st si (learn_pose st mf si (judge_distraction st d dm2))))
                (observe_driver st mf si d dm1))"

section \<open>\_update\_events\<close>

record EventInput =
  ei_driver_engaged :: bool
  ei_op_engaged :: bool
  ei_standstill :: bool
  ei_wrong_gear :: bool

definition begin_events :: "DmSettings \<Rightarrow> EventInput \<Rightarrow> DriverMonitoring \<Rightarrow> DriverMonitoring" where
  "begin_events st ei dm =
     dm\<lparr>alert_level := AL_none, driver_interacting := ei_driver_engaged ei,
        too_distracted := (too_distracted dm \<or> terminal_alert_cnt dm \<ge> MAX_TERMINAL_ALERTS st
                           \<or> terminal_time dm \<ge> MAX_TERMINAL_DURATION st)\<rparr>"

text \<open>When monitoring starts afresh.\<close>

definition restarts :: "EventInput \<Rightarrow> DriverMonitoring \<Rightarrow> bool" where
  "restarts ei dm \<longleftrightarrow>
     (let always_on_valid = (always_on dm \<and> \<not> ei_wrong_gear ei)
      in (driver_interacting dm \<and> awareness dm > 0 \<and> active_policy dm = MP_wheeltouch)
         \<or> (\<not> always_on_valid \<and> \<not> ei_op_engaged ei)
         \<or> (always_on_valid \<and> \<not> ei_op_engaged ei \<and> awareness dm \<le> 0))"

definition standstill_exemption :: "EventInput \<Rightarrow> DriverMonitoring \<Rightarrow> bool" where
  "standstill_exemption ei dm \<longleftrightarrow>
     ei_standstill ei \<and> awareness dm - step_change dm \<le> threshold_alert_1 dm"

definition always_on_exemption :: "EventInput \<Rightarrow> DriverMonitoring \<Rightarrow> bool" where
  "always_on_exemption ei dm \<longleftrightarrow>
     (always_on dm \<and> \<not> ei_wrong_gear ei) \<and> \<not> ei_op_engaged ei \<and> awareness dm - step_change dm \<le> 0"

definition attentive :: "EventInput \<Rightarrow> DriverMonitoring \<Rightarrow> bool" where
  "attentive ei dm \<longleftrightarrow>
     awareness dm > 0 \<and>
     ((fo_x (driver_distraction_filter dm) < 37/100 \<and> face_detected dm \<and> low_std (dm_pose dm))
      \<or> standstill_exemption ei dm)"

definition recover :: "DmSettings \<Rightarrow> DriverMonitoring \<Rightarrow> DriverMonitoring" where
  "recover st dm =
     (let a = min (awareness dm
                + ((TIMEOUT_RECOVERY_FACTOR_MAX st - TIMEOUT_RECOVERY_FACTOR_MIN st) * (1 - awareness dm)
                   + TIMEOUT_RECOVERY_FACTOR_MIN st) * step_change dm) 1
      in dm\<lparr>awareness := a,
            last_wheeltouch_awareness :=
              (if a = 1 then min (last_wheeltouch_awareness dm + step_change dm) 1
               else last_wheeltouch_awareness dm)\<rparr>)"

definition certainly_distracted :: "DriverMonitoring \<Rightarrow> bool" where
  "certainly_distracted dm \<longleftrightarrow>
     fo_x (driver_distraction_filter dm) > 63/100 \<and> driver_distracted dm \<and> face_detected dm"

definition maybe_distracted :: "DriverMonitoring \<Rightarrow> bool" where
  "maybe_distracted dm \<longleftrightarrow> is_model_uncertain dm \<or> \<not> face_detected dm"

text \<open>
  The last part: the countdown (\<open>exempt\<close> is computed before the recovery) and the alert, where
  \<open>awareness_prev\<close> is the awareness at the start.
\<close>

definition raise_alert :: "rat \<Rightarrow> DriverMonitoring \<Rightarrow> DriverMonitoring" where
  "raise_alert awareness_prev dm =
     (if awareness dm \<le> 0 then
        dm\<lparr>alert_level := AL_three, terminal_time := terminal_time dm + 1,
           terminal_alert_cnt := (if awareness_prev > 0 then terminal_alert_cnt dm + 1 else terminal_alert_cnt dm)\<rparr>
      else if awareness dm \<le> threshold_alert_2 dm then dm\<lparr>alert_level := AL_two\<rparr>
      else if awareness dm \<le> threshold_alert_1 dm then dm\<lparr>alert_level := AL_one\<rparr>
      else dm)"

definition count_down :: "bool \<Rightarrow> rat \<Rightarrow> DriverMonitoring \<Rightarrow> DriverMonitoring" where
  "count_down exempt awareness_prev dm =
     raise_alert awareness_prev
       (if (certainly_distracted dm \<or> maybe_distracted dm) \<and> \<not> exempt
        then dm\<lparr>awareness := max (awareness dm - step_change dm) (-1/10)\<rparr> else dm)"

definition dm_update_events :: "DmSettings \<Rightarrow> EventInput \<Rightarrow> DriverMonitoring \<Rightarrow> DriverMonitoring" where
  "dm_update_events st ei dm0 =
     (let dm = begin_events st ei dm0;
          exempt = (standstill_exemption ei dm \<or> always_on_exemption ei dm)
      in if restarts ei dm then reset_awareness dm
         else if attentive ei dm then
           (if driver_interacting dm then reset_awareness dm
            else (let dm1 = recover st dm
                  in if awareness dm1 > threshold_alert_2 dm1 then dm1
                     else count_down exempt (awareness dm) dm1))
         else count_down exempt (awareness dm) dm)"

section \<open>The step and the published packet\<close>

record DmInput =
  di_CS :: CarState
  di_sd_enabled :: bool
  di_latActive :: bool
  di_brakeDisengageProbs :: "rat list"
  di_rpyCalib :: "rat list"
  di_driver_state :: DriverState

definition run_step :: "DmSettings \<Rightarrow> MathFuns \<Rightarrow> DmInput \<Rightarrow> bool \<Rightarrow> DriverMonitoring \<Rightarrow> DriverMonitoring option" where
  "run_step st mf di demo dm = do {
     let CS = di_CS di;
     let car_speed = (if demo then 30 else cs_vEgo CS);
     let enabled = (if demo then True else di_sd_enabled di \<or> di_latActive di);
     let wrong_gear = (if demo then False else cs_gearShifter CS \<notin> {GS_drive, GS_low});
     let standstill = (if demo then False else cs_standstill CS);
     let driver_engaged =
       (if demo then False else cs_steeringPressed CS \<or> (di_sd_enabled di \<and> cs_gasPressed CS));
     brake_disengage_prob \<leftarrow> (if demo then Some 1 else nth_opt (di_brakeDisengageProbs di) 0);
     let si = \<lparr>si_driver_state = di_driver_state di,
               si_cal_rpy = (if demo then [0, 0, 0] else di_rpyCalib di), si_car_speed = car_speed,
               si_op_engaged = enabled, si_standstill = standstill, si_demo_mode = demo,
               si_steering_angle_deg = (if demo then 0 else cs_steeringAngleDeg CS)\<rparr>;
     let ei = \<lparr>ei_driver_engaged = driver_engaged, ei_op_engaged = enabled, ei_standstill = standstill,
               ei_wrong_gear = wrong_gear\<rparr>;
     dm' \<leftarrow> update_states st mf si (set_pose_strictness st brake_disengage_prob car_speed dm);
     Some (dm_update_events st ei dm')
   }"

record DmPacket =
  pk_lockout :: bool
  pk_alertCountLockoutPercent :: int
  pk_alertTimeLockoutPercent :: int
  pk_alwaysOn :: bool
  pk_alwaysOnLockout :: bool
  pk_alertLevel :: AlertLevel
  pk_activePolicy :: MonitoringPolicy
  pk_isRHD :: bool
  pk_rhd_calibratedPercent :: int
  pk_rhd_offset :: rat
  pk_vision_awarenessPercent :: int
  pk_vision_awarenessStep :: rat
  pk_isDistracted :: bool
  pk_distractedTypes :: DistractedTypes
  pk_faceDetected :: bool
  pk_pitch :: rat
  pk_yaw :: rat
  pk_calibrated :: bool
  pk_pitch_calibratedPercent :: int
  pk_pitch_offset :: rat
  pk_yaw_calibratedPercent :: int
  pk_yaw_offset :: rat
  pk_uncertainty :: rat
  pk_wheeltouchFallbackPercent :: int
  pk_uncertainOffroadAlertPercent :: int
  pk_wheeltouch_awarenessPercent :: int
  pk_wheeltouch_awarenessStep :: rat
  pk_driverInteracting :: bool

definition get_state_packet :: "DmSettings \<Rightarrow> DriverMonitoring \<Rightarrow> DmPacket" where
  "get_state_packet st dm =
     (let vision = (active_policy dm = MP_vision);
          wheel = filtered_stat (wheelpos_offsetter dm);
          p = dm_pose dm;
          pitch = filtered_stat (pitch_offsetter p);
          yaw = filtered_stat (yaw_offsetter p);
          ratio = (\<lambda>n m. to_percent (of_int n / of_int m))
      in \<lparr>pk_lockout = too_distracted dm,
          pk_alertCountLockoutPercent = ratio (terminal_alert_cnt dm) (MAX_TERMINAL_ALERTS st),
          pk_alertTimeLockoutPercent = ratio (terminal_time dm) (MAX_TERMINAL_DURATION st),
          pk_alwaysOn = always_on dm,
          pk_alwaysOnLockout = (always_on dm \<and> awareness dm \<le> threshold_alert_2 dm),
          pk_alertLevel = alert_level dm, pk_activePolicy = active_policy dm, pk_isRHD = wheel_on_right dm,
          pk_rhd_calibratedPercent = ratio (rs_n wheel) (WHEELPOS_FILTER_MIN_COUNT st),
          pk_rhd_offset = rs_M wheel,
          pk_vision_awarenessPercent = to_percent (if \<not> vision then last_vision_awareness dm else awareness dm),
          pk_vision_awarenessStep = (if vision then step_change dm else 0),
          pk_isDistracted = driver_distracted dm, pk_distractedTypes = distracted_types dm,
          pk_faceDetected = face_detected dm, pk_pitch = po_pitch p, pk_yaw = po_yaw p,
          pk_calibrated = po_calibrated p,
          pk_pitch_calibratedPercent = ratio (rs_n pitch) (POSE_OFFSET_MIN_COUNT st), pk_pitch_offset = rs_M pitch,
          pk_yaw_calibratedPercent = ratio (rs_n yaw) (POSE_OFFSET_MIN_COUNT st), pk_yaw_offset = rs_M yaw,
          pk_uncertainty = model_std_max dm,
          pk_wheeltouchFallbackPercent = ratio (hi_stds dm) (HI_STD_FALLBACK_TIME st),
          pk_uncertainOffroadAlertPercent = ratio (dcam_uncertain_cnt dm) (DCAM_UNCERTAIN_ALERT_COUNT st),
          pk_wheeltouch_awarenessPercent = to_percent (if vision then last_wheeltouch_awareness dm else awareness dm),
          pk_wheeltouch_awarenessStep = (if vision then 0 else step_change dm),
          pk_driverInteracting = driver_interacting dm\<rparr>)"

section \<open>The loop of dmonitoringd\<close>

text \<open>
  One round: \<open>new_output\<close> is \<open>sm.updated['driverStateV2']\<close>, \<open>ds_valid\<close> its validity, \<open>checks_ok\<close> the result of
  \<open>sm.all_checks()\<close>. The result is the new monitor and demo mode, the parameter store, and the packet
  with its validity (none when the model has no new output).
\<close>

definition dmonitoringd_round :: "DmSettings \<Rightarrow> MathFuns \<Rightarrow> bool \<Rightarrow> bool \<Rightarrow> bool \<Rightarrow> int \<Rightarrow> DmInput \<Rightarrow>
    DriverMonitoring \<times> bool \<times> Params \<Rightarrow> (DriverMonitoring \<times> bool \<times> Params \<times> (DmPacket \<times> bool) option) option" where
  "dmonitoringd_round st mf new_output ds_valid checks_ok frameId di = (\<lambda>(dm0, demo0, params).
     if \<not> new_output then Some (dm0, demo0, params, None)
     else do {
       dm1 \<leftarrow> (if demo0 \<and> ds_valid then run_step st mf di True dm0
               else if checks_ok then run_step st mf di demo0 dm0
               else Some dm0);
       let packet = get_state_packet st dm1;
       let live = (frameId mod 40 = 1);
       let dm2 = (if live then dm1\<lparr>always_on := get_bool params ''AlwaysOnDM''\<rparr> else dm1);
       let demo = (if live then get_bool params ''IsDriverViewEnabled'' else demo0);
       let wheel = filtered_stat (wheelpos_offsetter dm2);
       let save = (frameId mod 6000 = 0 \<and> \<not> demo \<and> rs_n wheel > WHEELPOS_FILTER_MIN_COUNT st
                   \<and> wheel_on_right dm2 = (rs_M wheel > WHEELPOS_THRESHOLD st));
       let params' = (if save then put_bool ''IsRhdDetected'' (wheel_on_right dm2) params else params);
       Some (dm2, demo, params', Some (packet, checks_ok))
     })"

end
