(* ===== verification/DriverMonitorSafety.thy ===== *)
theory DriverMonitorSafety
  imports DriverMonitor
begin

text \<open>
  The lemmas about driver monitoring: which part of the state decides the alerts, the invariant of that
  part, how long a red alert lasts, and after how many frames a distracted driver is warned. They use
  the settings of the process, \<open>dm_settings\<close>.
\<close>

abbreviation "st0 \<equiv> dm_settings"

lemma dmon_frames [simp]:
  "py_trunc (30 / DT_DMON) = 600" "py_trunc (60 / DT_DMON) = 1200" "py_trunc (2 / DT_DMON) = 40"
  "py_trunc (10 / DT_DMON) = 200" "py_trunc (360 / DT_DMON) = 7200" "py_trunc (15 / DT_DMON) = 300"
  by (simp_all add: DT_DMON_def py_trunc_def)

section \<open>The part of the state that decides the alerts\<close>

definition alert_core :: "DriverMonitoring \<Rightarrow> rat \<times> rat \<times> rat \<times> rat \<times> rat \<times> rat \<times> MonitoringPolicy" where
  "alert_core dm =
     (awareness dm, last_vision_awareness dm, last_wheeltouch_awareness dm, threshold_alert_1 dm,
      threshold_alert_2 dm, step_change dm, active_policy dm)"

definition terminal_core :: "DriverMonitoring \<Rightarrow> int \<times> int \<times> bool \<times> bool \<times> AlertLevel" where
  "terminal_core dm =
     (terminal_alert_cnt dm, terminal_time dm, too_distracted dm, always_on dm, alert_level dm)"

lemma set_policy_cong:
  "alert_core d1 = alert_core d2 \<Longrightarrow> alert_core (set_policy st t d1) = alert_core (set_policy st t d2)"
  by (auto simp: alert_core_def set_policy_def Let_def)

lemma set_policy_terminal [simp]: "terminal_core (set_policy st t dm) = terminal_core dm"
  by (simp add: terminal_core_def set_policy_def Let_def)

definition same_cores :: "DriverMonitoring \<Rightarrow> DriverMonitoring \<Rightarrow> bool" where
  "same_cores d1 d2 \<longleftrightarrow> alert_core d1 = alert_core d2 \<and> terminal_core d1 = terminal_core d2"

lemma same_cores_trans: "same_cores a b \<Longrightarrow> same_cores b c \<Longrightarrow> same_cores a c"
  by (simp add: same_cores_def)

lemma same_cores_wheel: "same_cores (choose_wheel st mf si dm) dm"
  by (simp add: same_cores_def choose_wheel_def Let_def alert_core_def terminal_core_def)

lemma same_cores_observe:
  "observe_driver st mf si d dm = Some dm' \<Longrightarrow> same_cores dm' dm"
  by (auto simp: same_cores_def observe_driver_def Let_def bind_eq_Some_conv alert_core_def terminal_core_def)

lemma same_cores_judge: "same_cores (judge_distraction st d dm) dm"
  by (simp add: same_cores_def judge_distraction_def Let_def alert_core_def terminal_core_def)

lemma same_cores_learn: "same_cores (learn_pose st mf si dm) dm"
  by (simp add: same_cores_def learn_pose_def Let_def alert_core_def terminal_core_def)

lemma same_cores_uncertain: "same_cores (count_uncertain st si dm) dm"
  by (simp add: same_cores_def count_uncertain_def Let_def alert_core_def terminal_core_def)

lemma same_cores_strictness [simp]: "same_cores (set_pose_strictness st p v dm) dm"
  by (simp add: same_cores_def set_pose_strictness_def Let_def alert_core_def terminal_core_def)

lemma choose_policy_cores:
  "terminal_core (choose_policy st dm) = terminal_core dm
   \<and> (\<exists>t. alert_core (choose_policy st dm) = alert_core (set_policy st t dm))"
proof -
  let ?dm1 = "dm\<lparr>is_model_uncertain := hi_stds dm \<ge> HI_STD_FALLBACK_TIME st\<rparr>"
  let ?t = "if face_detected ?dm1 \<and> \<not> is_model_uncertain ?dm1 then MP_vision else MP_wheeltouch"
  have c: "same_cores ?dm1 dm"
    by (simp add: same_cores_def alert_core_def terminal_core_def)
  have "same_cores (choose_policy st dm) (set_policy st ?t ?dm1)"
    unfolding choose_policy_def Let_def by (simp add: same_cores_def alert_core_def terminal_core_def)
  then show ?thesis
    using c set_policy_cong [of ?dm1 dm st ?t] by (auto simp: same_cores_def)
qed

text \<open>\<open>_update_states\<close> changes the deciding part only by choosing a policy.\<close>

lemma update_states_cores:
  assumes "update_states st mf si dm = Some dm'"
  shows "terminal_core dm' = terminal_core dm
    \<and> (alert_core dm' = alert_core dm \<or> (\<exists>t. alert_core dm' = alert_core (set_policy st t dm)))"
proof -
  define dm1 where "dm1 = choose_wheel st mf si dm"
  show ?thesis
  proof (cases "data_present (chosen_data si dm1)")
    case False
    then have "dm' = dm1"
      using assms by (simp add: update_states_def Let_def dm1_def)
    then show ?thesis
      using same_cores_wheel [of st mf si dm] by (simp add: dm1_def same_cores_def)
  next
    case True
    obtain dm2 where o: "observe_driver st mf si (chosen_data si dm1) dm1 = Some dm2"
      and dm': "dm' = choose_policy st (count_uncertain st si (learn_pose st mf si
        (judge_distraction st (chosen_data si dm1) dm2)))"
      using assms True by (auto simp: update_states_def Let_def dm1_def)
    let ?dm3 = "count_uncertain st si (learn_pose st mf si (judge_distraction st (chosen_data si dm1) dm2))"
    have c: "same_cores ?dm3 dm"
      using same_cores_uncertain same_cores_learn same_cores_judge same_cores_observe [OF o]
        same_cores_wheel [of st mf si dm] unfolding dm1_def by (meson same_cores_trans)
    then show ?thesis
      using choose_policy_cores [of st ?dm3] set_policy_cong [of ?dm3 dm st]
      by (auto simp: dm' same_cores_def)
  qed
qed

section \<open>The invariant\<close>

text \<open>Awareness stays between -0.1 and 1, and the thresholds and the step belong to the active policy.\<close>

definition policy_ok :: "MonitoringPolicy \<Rightarrow> rat \<Rightarrow> rat \<Rightarrow> rat \<Rightarrow> bool" where
  "policy_ok p t1 t2 s \<longleftrightarrow>
     (if p = MP_vision then t1 = 8/1100 \<and> t2 = 6/1100 \<and> s \<in> {0, 1/22000}
      else t1 = 15/3000 \<and> t2 = 6/3000 \<and> s = 1/60000)"

definition dm_inv :: "DriverMonitoring \<Rightarrow> bool" where
  "dm_inv dm \<longleftrightarrow>
     awareness dm \<in> {-1/10..1} \<and> last_vision_awareness dm \<in> {-1/10..1}
     \<and> last_wheeltouch_awareness dm \<in> {-1/10..1}
     \<and> policy_ok (active_policy dm) (threshold_alert_1 dm) (threshold_alert_2 dm) (step_change dm)
     \<and> 0 \<le> terminal_alert_cnt dm \<and> 0 \<le> terminal_time dm
     \<and> (alert_level dm = AL_three \<longrightarrow> awareness dm \<le> 0)"

lemma policy_ok_pos: "policy_ok p t1 t2 s \<Longrightarrow> 0 \<le> s \<and> 0 < t2 \<and> t2 < t1 \<and> t1 < 1"
  by (auto simp: policy_ok_def split: if_splits)

lemma policy_ok_set:
  "policy_ok MP_vision (1 - VISION_POLICY_ALERT_1_TIMEOUT st0 / VISION_POLICY_ALERT_3_TIMEOUT st0)
     (1 - VISION_POLICY_ALERT_2_TIMEOUT st0 / VISION_POLICY_ALERT_3_TIMEOUT st0)
     (DT_DMON / VISION_POLICY_ALERT_3_TIMEOUT st0)"
  "policy_ok MP_wheeltouch (1 - WHEELTOUCH_POLICY_ALERT_1_TIMEOUT st0 / WHEELTOUCH_POLICY_ALERT_3_TIMEOUT st0)
     (1 - WHEELTOUCH_POLICY_ALERT_2_TIMEOUT st0 / WHEELTOUCH_POLICY_ALERT_3_TIMEOUT st0)
     (DT_DMON / WHEELTOUCH_POLICY_ALERT_3_TIMEOUT st0)"
  "policy_ok MP_vision a b s \<Longrightarrow> policy_ok MP_vision a b (DT_DMON / VISION_POLICY_ALERT_3_TIMEOUT st0)"
  "policy_ok MP_vision a b s \<Longrightarrow> policy_ok MP_vision a b 0"
  by (simp_all add: policy_ok_def dm_settings_def DT_DMON_def)

lemma dm_inv_cong:
  assumes "alert_core d1 = alert_core d2" "terminal_core d1 = terminal_core d2"
  shows "dm_inv d1 = dm_inv d2"
  using assms by (simp add: dm_inv_def alert_core_def terminal_core_def)

lemma set_policy_inv: "dm_inv dm \<Longrightarrow> dm_inv (set_policy st0 t dm)"
  by (auto simp: dm_inv_def set_policy_def Let_def policy_ok_set dest: policy_ok_pos)

lemma dm_inv_new: "dm_inv (new_DriverMonitoring st0 rhd always locked)"
  by (simp add: dm_inv_def new_DriverMonitoring_def set_policy_def reset_awareness_def Let_def policy_ok_set)

lemma set_policy_red:
  assumes "awareness dm \<le> 0"
  shows "awareness (set_policy st t dm) = awareness dm" "active_policy (set_policy st t dm) = active_policy dm"
  using assms by (simp_all add: set_policy_def)

lemma update_states_inv:
  assumes "update_states st0 mf si dm = Some dm'" "dm_inv dm"
  shows "dm_inv dm'"
  using update_states_cores [OF assms(1)] assms(2) set_policy_inv [OF assms(2)]
  by (metis dm_inv_cong set_policy_terminal)

lemma strictness_inv [simp]: "dm_inv (set_pose_strictness st p v dm) = dm_inv dm"
  using same_cores_strictness unfolding same_cores_def by (intro dm_inv_cong) blast+

lemma begin_events_inv: "dm_inv dm \<Longrightarrow> dm_inv (begin_events st0 ei dm)"
  by (simp add: dm_inv_def begin_events_def)

lemma reset_inv: "dm_inv dm \<Longrightarrow> alert_level dm \<noteq> AL_three \<Longrightarrow> dm_inv (reset_awareness dm)"
  by (simp add: dm_inv_def reset_awareness_def)

lemma recover_inv:
  assumes "dm_inv dm" "alert_level dm \<noteq> AL_three"
  shows "dm_inv (recover st0 dm)"
proof -
  have s: "0 \<le> step_change dm" and a: "-1/10 \<le> awareness dm" "awareness dm \<le> 1"
    using assms(1) policy_ok_pos by (auto simp: dm_inv_def)
  have "0 \<le> ((5 - 125/100) * (1 - awareness dm) + 125/100) * step_change dm"
    using s a by (intro mult_nonneg_nonneg add_nonneg_nonneg) simp_all
  then have "-1/10 \<le> awareness (recover st0 dm)" "awareness (recover st0 dm) \<le> 1"
    using a by (simp_all add: recover_def Let_def dm_settings_def)
  moreover have "last_wheeltouch_awareness (recover st0 dm) \<in> {-1/10..1}"
    using assms(1) s by (auto simp: recover_def Let_def dm_inv_def)
  moreover have "last_vision_awareness (recover st0 dm) = last_vision_awareness dm"
    "step_change (recover st0 dm) = step_change dm" "active_policy (recover st0 dm) = active_policy dm"
    "threshold_alert_1 (recover st0 dm) = threshold_alert_1 dm" "threshold_alert_2 (recover st0 dm) = threshold_alert_2 dm"
    "terminal_alert_cnt (recover st0 dm) = terminal_alert_cnt dm" "terminal_time (recover st0 dm) = terminal_time dm"
    "alert_level (recover st0 dm) = alert_level dm"
    by (simp_all add: recover_def Let_def)
  ultimately show ?thesis
    using assms unfolding dm_inv_def by simp
qed

lemma raise_alert_inv:
  assumes "dm_inv dm" "alert_level dm \<noteq> AL_three"
  shows "dm_inv (raise_alert a dm)"
  using assms by (auto simp: dm_inv_def raise_alert_def)

lemma count_down_inv:
  assumes "dm_inv dm" "alert_level dm \<noteq> AL_three"
  shows "dm_inv (count_down exempt a dm)"
proof -
  have s: "0 \<le> step_change dm"
    using assms(1) policy_ok_pos by (auto simp: dm_inv_def)
  then have "dm_inv (dm\<lparr>awareness := max (awareness dm - step_change dm) (-1/10)\<rparr>)"
    using assms by (auto simp: dm_inv_def)
  then show ?thesis
    using assms by (auto simp: count_down_def intro!: raise_alert_inv)
qed

lemma dm_update_events_inv:
  assumes "dm_inv dm"
  shows "dm_inv (dm_update_events st0 ei dm)"
proof -
  let ?b = "begin_events st0 ei dm"
  have b: "dm_inv ?b" "alert_level ?b \<noteq> AL_three"
    using begin_events_inv [OF assms] by (simp_all add: begin_events_def)
  have r: "alert_level (recover st0 ?b) \<noteq> AL_three"
    using b(2) by (simp add: recover_def Let_def)
  show ?thesis
    using b reset_inv recover_inv [OF b] r
    by (auto simp: dm_update_events_def Let_def intro!: count_down_inv)
qed

lemma run_step_inv:
  assumes "run_step st0 mf di demo dm = Some dm'" "dm_inv dm"
  shows "dm_inv dm'"
  using assms update_states_inv [of mf _ "set_pose_strictness st0 _ _ dm"]
  by (auto simp: run_step_def Let_def bind_eq_Some_conv intro!: dm_update_events_inv)

section \<open>Runs\<close>

text \<open>A run is a list of frames, each with the flag of the demo mode.\<close>

fun run_steps :: "DmSettings \<Rightarrow> MathFuns \<Rightarrow> (DmInput \<times> bool) list \<Rightarrow> DriverMonitoring \<Rightarrow> DriverMonitoring option" where
  "run_steps st mf [] dm = Some dm"
| "run_steps st mf ((di, demo) # fs) dm = do { dm' \<leftarrow> run_step st mf di demo dm; run_steps st mf fs dm' }"

lemma run_steps_append:
  "run_steps st mf (fs @ gs) dm = do { dm' \<leftarrow> run_steps st mf fs dm; run_steps st mf gs dm' }"
proof (induction st mf fs dm rule: run_steps.induct)
  case (2 st mf di demo fs dm)
  then show ?case
    by (cases "run_step st mf di demo dm") simp_all
qed simp

lemma run_steps_inv:
  assumes "run_steps st0 mf fs dm = Some dm'" "dm_inv dm"
  shows "dm_inv dm'"
  using assms
proof (induction fs arbitrary: dm)
  case (Cons f fs)
  then show ?case
    using run_step_inv by (cases f) (auto simp: bind_eq_Some_conv)
qed simp

definition dm_engaged :: "DmInput \<times> bool \<Rightarrow> bool" where
  "dm_engaged f \<longleftrightarrow> snd f \<or> di_sd_enabled (fst f) \<or> di_latActive (fst f)"

text \<open>A step is the update of the states, then that of the events.\<close>

lemma run_step_cases:
  assumes "run_step st mf di demo dm = Some dm'"
  obtains ei dm1 where "dm' = dm_update_events st ei dm1" "ei_op_engaged ei = dm_engaged (di, demo)"
    "terminal_core dm1 = terminal_core dm"
    "alert_core dm1 = alert_core dm \<or> (\<exists>t. alert_core dm1 = alert_core (set_policy st t dm))"
proof -
  obtain b si ei dm1 where u: "update_states st mf si (set_pose_strictness st b (if demo then 30 else cs_vEgo (di_CS di)) dm) = Some dm1"
    and e: "dm' = dm_update_events st ei dm1" "ei_op_engaged ei = dm_engaged (di, demo)"
    using assms by (cases demo) (auto simp: run_step_def Let_def bind_eq_Some_conv dm_engaged_def)
  let ?d = "set_pose_strictness st b (if demo then 30 else cs_vEgo (di_CS di)) dm"
  have "same_cores ?d dm"
    by simp
  then have "terminal_core dm1 = terminal_core dm"
    "alert_core dm1 = alert_core dm \<or> (\<exists>t. alert_core dm1 = alert_core (set_policy st t dm))"
    using update_states_cores [OF u] set_policy_cong [of ?d dm st] by (auto simp: same_cores_def)
  with e show thesis
    by (intro that [of ei dm1]) simp_all
qed

section \<open>A red alert lasts until disengagement\<close>

lemma red_events:
  assumes "dm_inv dm" "awareness dm \<le> 0" "ei_op_engaged ei"
  shows "awareness (dm_update_events st0 ei dm) \<le> 0 \<and> alert_level (dm_update_events st0 ei dm) = AL_three
    \<and> terminal_time (dm_update_events st0 ei dm) = terminal_time dm + 1
    \<and> terminal_alert_cnt (dm_update_events st0 ei dm) = terminal_alert_cnt dm
    \<and> too_distracted (dm_update_events st0 ei dm) =
        (too_distracted dm \<or> terminal_alert_cnt dm \<ge> 3 \<or> terminal_time dm \<ge> 600)"
proof -
  let ?b = "begin_events st0 ei dm"
  have b: "awareness ?b = awareness dm" "terminal_time ?b = terminal_time dm" "step_change ?b = step_change dm"
    "terminal_alert_cnt ?b = terminal_alert_cnt dm"
    "too_distracted ?b = (too_distracted dm \<or> terminal_alert_cnt dm \<ge> 3 \<or> terminal_time dm \<ge> 600)"
    by (simp_all add: begin_events_def dm_settings_def)
  have s: "0 \<le> step_change dm"
    using assms(1) policy_ok_pos by (auto simp: dm_inv_def)
  have e: "dm_update_events st0 ei dm =
      count_down (standstill_exemption ei ?b \<or> always_on_exemption ei ?b) (awareness dm) ?b"
    using assms(2,3) b by (simp add: dm_update_events_def Let_def restarts_def attentive_def)
  show ?thesis
    unfolding e using assms(2) s b by (simp add: count_down_def raise_alert_def)
qed

lemma red_step:
  assumes "run_step st0 mf di demo dm = Some dm'" "dm_inv dm" "awareness dm \<le> 0" "dm_engaged (di, demo)"
  shows "awareness dm' \<le> 0 \<and> alert_level dm' = AL_three \<and> terminal_time dm' = terminal_time dm + 1
    \<and> too_distracted dm' = (too_distracted dm \<or> terminal_alert_cnt dm \<ge> 3 \<or> terminal_time dm \<ge> 600)"
proof -
  obtain ei dm1 where e: "dm' = dm_update_events st0 ei dm1" "ei_op_engaged ei = dm_engaged (di, demo)"
    and t: "terminal_core dm1 = terminal_core dm"
    and a: "alert_core dm1 = alert_core dm \<or> (\<exists>t. alert_core dm1 = alert_core (set_policy st0 t dm))"
    using run_step_cases [OF assms(1)] by metis
  have aw: "awareness dm1 \<le> 0"
    using a assms(3) set_policy_red [OF assms(3)] by (auto simp: alert_core_def)
  have i: "dm_inv dm1"
    using a t assms(2) set_policy_inv [OF assms(2)] by (metis dm_inv_cong set_policy_terminal)
  show ?thesis
    using red_events [OF i aw, of ei] e assms(4) t by (simp add: terminal_core_def)
qed

lemma red_run:
  assumes "run_steps st0 mf fs dm = Some dm'" "dm_inv dm" "awareness dm \<le> 0" "list_all dm_engaged fs"
  shows "awareness dm' \<le> 0 \<and> (fs \<noteq> [] \<longrightarrow> alert_level dm' = AL_three)
    \<and> terminal_time dm' = terminal_time dm + int (length fs)
    \<and> (too_distracted dm \<or> fs \<noteq> [] \<and> terminal_time dm + int (length fs) > 600 \<longrightarrow> too_distracted dm')"
  using assms
proof (induction fs arbitrary: dm)
  case (Cons f fs)
  obtain di demo where f: "f = (di, demo)"
    by (cases f)
  obtain d1 where d1: "run_step st0 mf di demo dm = Some d1" "run_steps st0 mf fs d1 = Some dm'"
    using Cons.prems(1) f by (auto simp: bind_eq_Some_conv)
  note r = red_step [OF d1(1) Cons.prems(2,3)]
  have "dm_engaged (di, demo)" "list_all dm_engaged fs"
    using Cons.prems(4) f by simp_all
  with r Cons.IH [OF d1(2) run_step_inv [OF d1(1) Cons.prems(2)]] d1(2) show ?case
    by (cases fs) auto
qed simp

text \<open>The lockout is never lifted.\<close>

lemma lockout_parts:
  "too_distracted (reset_awareness dm) = too_distracted dm"
  "too_distracted (recover st dm) = too_distracted dm"
  "too_distracted (raise_alert a dm) = too_distracted dm"
  "too_distracted (count_down x a dm) = too_distracted dm"
  "too_distracted dm \<Longrightarrow> too_distracted (begin_events st ei dm)"
  by (simp_all add: reset_awareness_def recover_def count_down_def raise_alert_def begin_events_def Let_def)

lemma lockout_events: "too_distracted dm \<Longrightarrow> too_distracted (dm_update_events st ei dm)"
  unfolding dm_update_events_def Let_def by (simp add: lockout_parts)

lemma lockout_step:
  assumes "run_step st mf di demo dm = Some dm'" "too_distracted dm"
  shows "too_distracted dm'"
proof (rule run_step_cases [OF assms(1)])
  fix ei dm1 assume "dm' = dm_update_events st ei dm1" "terminal_core dm1 = terminal_core dm"
  then show ?thesis
    using assms(2) lockout_events by (simp add: terminal_core_def)
qed

section \<open>A driver who holds the phone\<close>

text \<open>
  A frame in which the camera clearly sees the driver with a phone, on whichever side the wheel is, in
  an engaged, moving car.
\<close>

definition phone_data :: "DriverData \<Rightarrow> bool" where
  "phone_data d \<longleftrightarrow>
     2 \<le> length (faceOrientation d) \<and> 2 \<le> length (facePosition d) \<and> 2 \<le> length (faceOrientationStd d)
     \<and> facePositionStd d \<noteq> []
     \<and> faceProb d > 7/10 \<and> phoneProb d > 1/2 \<and> faceOrientationStd d ! 0 < 3/10 \<and> faceOrientationStd d ! 1 < 3/10"

definition phone_frame :: "DmInput \<times> bool \<Rightarrow> bool" where
  "phone_frame f \<longleftrightarrow>
     dm_engaged f \<and> \<not> snd f \<and> \<not> cs_standstill (di_CS (fst f)) \<and> di_brakeDisengageProbs (fst f) \<noteq> []
     \<and> 3 \<le> length (di_rpyCalib (fst f))
     \<and> phone_data (leftDriverData (di_driver_state (fst f))) \<and> phone_data (rightDriverData (di_driver_state (fst f)))"

text \<open>The state during such frames.\<close>

definition watched :: "rat \<Rightarrow> DriverMonitoring \<Rightarrow> bool" where
  "watched x dm \<longleftrightarrow>
     active_policy dm = MP_vision \<and> hi_stds dm = 0
     \<and> fo_x (driver_distraction_filter dm) = x \<and> fo_alpha (driver_distraction_filter dm) = 1/6
     \<and> fo_initialized (driver_distraction_filter dm)"

lemma watched_new: "watched 0 (new_DriverMonitoring st0 rhd always locked)"
  by (simp add: watched_def new_DriverMonitoring_def set_policy_def reset_awareness_def Let_def dm_settings_def
      new_FirstOrderFilter_def update_alpha_def DT_DMON_def)

lemma phone_observed:
  assumes "phone_data d" "3 \<le> length (si_cal_rpy si)"
  shows "\<exists>dm'. observe_driver st0 mf si d dm = Some dm' \<and> face_detected dm' \<and> low_std (dm_pose dm')
    \<and> phone_prob dm' > 1/2 \<and> hi_stds dm' = hi_stds dm
    \<and> driver_distraction_filter dm' = driver_distraction_filter dm"
  using assms
  by (auto simp: observe_driver_def face_orientation_from_model_def nth_opt_def phone_data_def Let_def dm_settings_def)

lemma phone_judged:
  assumes "face_detected dm" "low_std (dm_pose dm)" "phone_prob dm > 1/2" "phone_data d" "watched x dm"
  shows "watched (x + (1 - x) / 6) (judge_distraction st0 d dm) \<and> driver_distracted (judge_distraction st0 d dm)
    \<and> face_detected (judge_distraction st0 d dm) \<and> low_std (dm_pose (judge_distraction st0 d dm))"
proof -
  have "dt_phone (get_distracted_types st0 dm)"
    using assms(3) by (simp add: get_distracted_types_def Let_def dm_settings_def)
  then have "any_distraction (get_distracted_types st0 dm) \<and> faceProb d > FACE_THRESHOLD st0 \<and> low_std (dm_pose dm)"
    using assms(2,4) by (simp add: any_distraction_def phone_data_def dm_settings_def)
  then show ?thesis
    using assms by (simp add: judge_distraction_def Let_def watched_def fo_update_def field_simps)
qed

lemma phone_later:
  "watched x (learn_pose st mf si dm) = watched x dm" "watched x (count_uncertain st si dm) = watched x dm"
  "driver_distracted (learn_pose st mf si dm) = driver_distracted dm"
  "driver_distracted (count_uncertain st si dm) = driver_distracted dm"
  "face_detected (learn_pose st mf si dm) = face_detected dm"
  "face_detected (count_uncertain st si dm) = face_detected dm"
  "low_std (dm_pose (learn_pose st mf si dm)) = low_std (dm_pose dm)"
  "low_std (dm_pose (count_uncertain st si dm)) = low_std (dm_pose dm)"
  by (simp_all add: learn_pose_def count_uncertain_def watched_def Let_def)

lemma set_policy_other [simp]:
  "face_detected (set_policy st t dm) = face_detected dm" "dm_pose (set_policy st t dm) = dm_pose dm"
  "driver_distracted (set_policy st t dm) = driver_distracted dm"
  "driver_distraction_filter (set_policy st t dm) = driver_distraction_filter dm"
  "is_model_uncertain (set_policy st t dm) = is_model_uncertain dm" "hi_stds (set_policy st t dm) = hi_stds dm"
  by (simp_all add: set_policy_def Let_def)

lemma vision_kept:
  assumes "dm_inv dm" "active_policy dm = MP_vision"
  shows "active_policy (set_policy st0 MP_vision dm) = MP_vision"
    "awareness (set_policy st0 MP_vision dm) = awareness dm"
    "step_change (set_policy st0 MP_vision dm) = 1/22000"
    "threshold_alert_1 (set_policy st0 MP_vision dm) = 8/1100" "threshold_alert_2 (set_policy st0 MP_vision dm) = 6/1100"
  using assms by (auto simp: set_policy_def Let_def dm_inv_def policy_ok_def dm_settings_def DT_DMON_def split: if_splits)

lemma phone_policy:
  assumes "watched x dm" "face_detected dm" "low_std (dm_pose dm)" "dm_inv dm"
  defines "dm' \<equiv> choose_policy st0 dm"
  shows "watched x dm' \<and> face_detected dm' \<and> low_std (dm_pose dm') \<and> \<not> is_model_uncertain dm'
    \<and> driver_distracted dm' = driver_distracted dm
    \<and> awareness dm' = awareness dm \<and> step_change dm' = 1/22000
    \<and> threshold_alert_1 dm' = 8/1100 \<and> threshold_alert_2 dm' = 6/1100"
proof -
  let ?dm1 = "dm\<lparr>is_model_uncertain := False\<rparr>"
  have i: "dm_inv ?dm1" "active_policy ?dm1 = MP_vision"
    using assms(1,4) by (simp_all add: dm_inv_def watched_def)
  have "dm' = (set_policy st0 MP_vision ?dm1)\<lparr>hi_stds := 0\<rparr>"
    using assms(1-3) by (simp add: dm'_def choose_policy_def Let_def watched_def dm_settings_def)
  then show ?thesis
    using vision_kept [OF i] assms(1-3) by (simp add: watched_def)
qed

lemma phone_states:
  assumes "phone_data (leftDriverData (si_driver_state si))" "phone_data (rightDriverData (si_driver_state si))"
    and "3 \<le> length (si_cal_rpy si)" "watched x dm" "dm_inv dm"
  shows "\<exists>dm'. update_states st0 mf si dm = Some dm' \<and> dm_inv dm' \<and> watched (x + (1 - x) / 6) dm'
    \<and> face_detected dm' \<and> low_std (dm_pose dm') \<and> \<not> is_model_uncertain dm' \<and> driver_distracted dm'
    \<and> awareness dm' = awareness dm \<and> step_change dm' = 1/22000
    \<and> threshold_alert_1 dm' = 8/1100 \<and> threshold_alert_2 dm' = 6/1100
    \<and> terminal_core dm' = terminal_core dm"
proof -
  define dm1 where "dm1 = choose_wheel st0 mf si dm"
  define d where "d = chosen_data si dm1"
  have d: "phone_data d" "data_present d"
    using assms(1,2) by (auto simp: d_def chosen_data_def data_present_def phone_data_def)
  have c1: "same_cores dm1 dm"
    by (simp add: dm1_def same_cores_wheel)
  have w1: "watched x dm1"
    using assms(4) by (simp add: dm1_def choose_wheel_def Let_def watched_def)
  obtain dm2 where o: "observe_driver st0 mf si d dm1 = Some dm2" "face_detected dm2" "low_std (dm_pose dm2)"
    "phone_prob dm2 > 1/2" "hi_stds dm2 = hi_stds dm1" "driver_distraction_filter dm2 = driver_distraction_filter dm1"
    using phone_observed [OF d(1) assms(3)] by blast
  have c2: "same_cores dm2 dm"
    using same_cores_observe [OF o(1)] c1 same_cores_trans by blast
  have w2: "watched x dm2"
    using w1 o(5,6) c2 c1 by (simp add: watched_def same_cores_def alert_core_def)
  define dm3 where "dm3 = count_uncertain st0 si (learn_pose st0 mf si (judge_distraction st0 d dm2))"
  have c3: "same_cores dm3 dm"
    using c2 same_cores_judge same_cores_learn same_cores_uncertain unfolding dm3_def by (meson same_cores_trans)
  have i3: "dm_inv dm3"
    using c3 assms(5) dm_inv_cong [of dm3 dm] by (simp add: same_cores_def)
  have w3: "watched (x + (1 - x) / 6) dm3" "driver_distracted dm3" "face_detected dm3" "low_std (dm_pose dm3)"
    using phone_judged [OF o(2,3,4) d(1) w2] by (simp_all add: dm3_def phone_later)
  have u: "update_states st0 mf si dm = Some (choose_policy st0 dm3)"
    using d(2) o(1) by (simp add: update_states_def Let_def dm3_def flip: dm1_def d_def)
  have a3: "awareness dm3 = awareness dm"
    using c3 by (simp add: same_cores_def alert_core_def)
  have "terminal_core (choose_policy st0 dm3) = terminal_core dm"
    using choose_policy_cores [of st0 dm3] c3 by (simp add: same_cores_def)
  then show ?thesis
    using u phone_policy [OF w3(1,3,4) i3] w3(2) a3 update_states_inv [OF u assms(5)]
    by (intro exI [of _ "choose_policy st0 dm3"]) simp
qed

definition level_of :: "rat \<Rightarrow> rat \<Rightarrow> rat \<Rightarrow> AlertLevel" where
  "level_of t1 t2 a = (if a \<le> 0 then AL_three else if a \<le> t2 then AL_two else if a \<le> t1 then AL_one else AL_none)"

lemma watched_parts:
  "watched x (reset_awareness dm) = watched x dm"
  "watched x (recover st dm) = watched x dm"
  "watched x (raise_alert a dm) = watched x dm"
  "watched x (count_down e a dm) = watched x dm"
  "watched x (begin_events st ei dm) = watched x dm"
  by (simp_all add: watched_def reset_awareness_def recover_def count_down_def raise_alert_def begin_events_def Let_def)

lemma watched_events [simp]: "watched x (dm_update_events st ei dm) = watched x dm"
  unfolding dm_update_events_def Let_def by (simp add: watched_parts)

lemma raise_alert_fields:
  "awareness (raise_alert a dm) = awareness dm"
  "alert_level dm = AL_none \<Longrightarrow>
     alert_level (raise_alert a dm) = level_of (threshold_alert_1 dm) (threshold_alert_2 dm) (awareness dm)"
  by (simp_all add: raise_alert_def level_of_def)

lemma phone_events:
  assumes "watched x dm" "face_detected dm" "low_std (dm_pose dm)" "\<not> is_model_uncertain dm" "driver_distracted dm"
    "step_change dm = s" "threshold_alert_1 dm = t1" "threshold_alert_2 dm = t2"
    "ei_op_engaged ei" "\<not> ei_standstill ei"
  defines "dm' \<equiv> dm_update_events st0 ei dm"
  shows "x < 37/100 \<Longrightarrow> awareness dm = 1 \<Longrightarrow> 0 \<le> s \<Longrightarrow> t2 < 1 \<Longrightarrow> awareness dm' = 1 \<and> alert_level dm' = AL_none"
    and "37/100 \<le> x \<Longrightarrow> x \<le> 63/100 \<Longrightarrow> awareness dm' = awareness dm \<and> alert_level dm' = level_of t1 t2 (awareness dm)"
    and "63/100 < x \<Longrightarrow> awareness dm' = max (awareness dm - s) (-1/10)
      \<and> alert_level dm' = level_of t1 t2 (max (awareness dm - s) (-1/10))"
proof -
  let ?b = "begin_events st0 ei dm"
  have w: "active_policy dm = MP_vision" "fo_x (driver_distraction_filter dm) = x"
    using assms(1) by (simp_all add: watched_def)
  have b: "awareness ?b = awareness dm" "active_policy ?b = MP_vision" "fo_x (driver_distraction_filter ?b) = x"
    "face_detected ?b" "low_std (dm_pose ?b)" "\<not> is_model_uncertain ?b" "driver_distracted ?b"
    "step_change ?b = s" "threshold_alert_1 ?b = t1" "threshold_alert_2 ?b = t2" "alert_level ?b = AL_none"
    using assms w by (simp_all add: begin_events_def)
  have r: "\<not> restarts ei ?b" "\<not> standstill_exemption ei ?b" "\<not> always_on_exemption ei ?b"
    using assms(9,10) b(2) by (simp_all add: restarts_def standstill_exemption_def always_on_exemption_def)
  have att: "attentive ei ?b \<longleftrightarrow> awareness dm > 0 \<and> x < 37/100"
    using b r(2) by (simp add: attentive_def)
  have cd: "count_down False a ?b = raise_alert a (if 63/100 < x then ?b\<lparr>awareness := max (awareness dm - s) (-1/10)\<rparr> else ?b)" for a
    using b by (simp add: count_down_def certainly_distracted_def maybe_distracted_def)
  have e: "dm' = (if awareness dm > 0 \<and> x < 37/100 then
      (if driver_interacting ?b then reset_awareness ?b
       else (let d = recover st0 ?b in if awareness d > threshold_alert_2 d then d else count_down False (awareness ?b) d))
    else count_down False (awareness ?b) ?b)"
    unfolding dm'_def dm_update_events_def Let_def using r att by simp
  show "awareness dm' = 1 \<and> alert_level dm' = AL_none" if "x < 37/100" "awareness dm = 1" "0 \<le> s" "t2 < 1"
  proof -
    have "awareness (recover st0 ?b) = 1" "threshold_alert_2 (recover st0 ?b) = t2" "alert_level (recover st0 ?b) = AL_none"
      using that b by (simp_all add: recover_def Let_def dm_settings_def)
    then show ?thesis
      using that b by (simp add: e Let_def) (simp add: reset_awareness_def)
  qed
  show "awareness dm' = awareness dm \<and> alert_level dm' = level_of t1 t2 (awareness dm)" if "37/100 \<le> x" "x \<le> 63/100"
    using that b by (simp add: e cd raise_alert_fields)
  show "awareness dm' = max (awareness dm - s) (-1/10) \<and> alert_level dm' = level_of t1 t2 (max (awareness dm - s) (-1/10))"
    if "63/100 < x"
    using that b by (simp add: e cd raise_alert_fields)
qed

definition countdown :: "nat \<Rightarrow> rat" where
  "countdown n = max (1 - of_nat (n - 5) / 22000) (-1/10)"

lemma countdown_Suc:
  assumes "5 \<le> n"
  shows "countdown (Suc n) = max (countdown n - 1/22000) (-1/10)"
proof -
  obtain k where n: "n = 5 + k"
    using assms le_Suc_ex by blast
  have "1 - (1 + of_nat k) / 22000 = (1 - of_nat k / 22000) - (1/22000 :: rat)"
    by (simp add: add_divide_distrib)
  then show ?thesis
    by (simp add: countdown_def n)
qed

lemma filter_levels:
  fixes n :: nat
  shows "n \<le> 2 \<Longrightarrow> 1 - (5/6 :: rat) ^ n < 37/100"
    and "3 \<le> n \<Longrightarrow> n \<le> 5 \<Longrightarrow> 37/100 \<le> 1 - (5/6 :: rat) ^ n \<and> 1 - (5/6 :: rat) ^ n \<le> 63/100"
    and "6 \<le> n \<Longrightarrow> 63/100 < 1 - (5/6 :: rat) ^ n"
proof -
  show "1 - (5/6 :: rat) ^ n < 37/100" if "n \<le> 2"
  proof -
    have "n = 0 \<or> n = 1 \<or> n = 2" using that by linarith
    then show ?thesis by (auto simp: power2_eq_square)
  qed
  show "37/100 \<le> 1 - (5/6 :: rat) ^ n \<and> 1 - (5/6 :: rat) ^ n \<le> 63/100" if "3 \<le> n" "n \<le> 5"
  proof -
    have "n = 3 \<or> n = 4 \<or> n = 5" using that by linarith
    then show ?thesis by (auto simp: eval_nat_numeral)
  qed
  show "63/100 < 1 - (5/6 :: rat) ^ n" if "6 \<le> n"
  proof -
    have "(5/6 :: rat) ^ n \<le> (5/6) ^ 6"
      using that by (intro power_decreasing) simp_all
    also have "(5/6 :: rat) ^ 6 < 37/100"
      by (simp add: eval_nat_numeral)
    finally show ?thesis by simp
  qed
qed

definition phone_state :: "nat \<Rightarrow> DriverMonitoring \<Rightarrow> bool" where
  "phone_state n dm \<longleftrightarrow>
     dm_inv dm \<and> watched (1 - (5/6) ^ n) dm \<and> awareness dm = countdown n
     \<and> (0 < n \<longrightarrow> alert_level dm = level_of (8/1100) (6/1100) (countdown n))"

lemma phone_state_step:
  assumes "phone_state n dm" "phone_frame (di, demo)"
  shows "\<exists>dm'. run_step st0 mf di demo dm = Some dm' \<and> phone_state (Suc n) dm'"
proof -
  let ?CS = "di_CS di"
  define d0 where "d0 = set_pose_strictness st0 (hd (di_brakeDisengageProbs di)) (cs_vEgo ?CS) dm"
  define si where "si = \<lparr>si_driver_state = di_driver_state di, si_cal_rpy = di_rpyCalib di,
      si_car_speed = cs_vEgo ?CS, si_op_engaged = di_sd_enabled di \<or> di_latActive di,
      si_standstill = cs_standstill ?CS, si_demo_mode = False, si_steering_angle_deg = cs_steeringAngleDeg ?CS\<rparr>"
  define ei where "ei = \<lparr>ei_driver_engaged = cs_steeringPressed ?CS \<or> (di_sd_enabled di \<and> cs_gasPressed ?CS),
      ei_op_engaged = di_sd_enabled di \<or> di_latActive di, ei_standstill = cs_standstill ?CS,
      ei_wrong_gear = cs_gearShifter ?CS \<notin> {GS_drive, GS_low}\<rparr>"
  let ?x = "1 - (5/6 :: rat) ^ n"
  have f: "\<not> demo" "ei_op_engaged ei" "\<not> ei_standstill ei" "di_brakeDisengageProbs di \<noteq> []"
    "3 \<le> length (si_cal_rpy si)" "phone_data (leftDriverData (si_driver_state si))" "phone_data (rightDriverData (si_driver_state si))"
    using assms(2) by (auto simp: phone_frame_def dm_engaged_def ei_def si_def)
  have w: "watched ?x d0" "dm_inv d0" "awareness d0 = countdown n"
    using assms(1) by (simp_all add: phone_state_def d0_def) (simp_all add: watched_def set_pose_strictness_def Let_def)
  obtain d1 where u: "update_states st0 mf si d0 = Some d1" "dm_inv d1" "watched (?x + (1 - ?x) / 6) d1"
    "face_detected d1" "low_std (dm_pose d1)" "\<not> is_model_uncertain d1" "driver_distracted d1" "awareness d1 = countdown n"
    "step_change d1 = 1/22000" "threshold_alert_1 d1 = 8/1100" "threshold_alert_2 d1 = 6/1100"
    using phone_states [OF f(6,7,5) w(1,2)] w(3) by metis
  have x: "?x + (1 - ?x) / 6 = 1 - (5/6) ^ Suc n"
    by simp
  let ?r = "dm_update_events st0 ei d1"
  have run: "run_step st0 mf di demo dm = Some ?r"
    using u(1) f(1,4) by (simp add: run_step_def Let_def nth_opt_def d0_def si_def ei_def hd_conv_nth)
  note ev = phone_events [OF u(3-7,9-11) f(2,3), unfolded x]
  have "awareness ?r = countdown (Suc n) \<and> alert_level ?r = level_of (8/1100) (6/1100) (countdown (Suc n))"
  proof -
    consider "Suc n \<le> 2" | "3 \<le> Suc n" "Suc n \<le> 5" | "6 \<le> Suc n" by linarith
    then show ?thesis
    proof cases
      case 1
      then show ?thesis using ev(1) filter_levels(1) [of "Suc n"] u(8) by (simp add: countdown_def level_of_def)
    next
      case 2
      then show ?thesis using ev(2) filter_levels(2) [of "Suc n"] u(8) by (simp add: countdown_def)
    next
      case 3
      then show ?thesis using ev(3) filter_levels(3) [of "Suc n"] u(8) countdown_Suc [of n] by simp
    qed
  qed
  then show ?thesis
    using run dm_update_events_inv [OF u(2), of ei] u(3) by (simp add: phone_state_def x)
qed

lemma phone_run:
  assumes "phone_state n dm" "list_all phone_frame fs"
  shows "\<exists>dm'. run_steps st0 mf fs dm = Some dm' \<and> phone_state (n + length fs) dm'"
  using assms
proof (induction fs arbitrary: n dm)
  case (Cons f fs)
  obtain di demo where f: "f = (di, demo)"
    by (cases f)
  then obtain d1 where "run_step st0 mf di demo dm = Some d1" "phone_state (Suc n) d1"
    using phone_state_step [of n dm di demo mf] Cons.prems by auto
  then show ?case
    using Cons.IH [of "Suc n" d1] Cons.prems f by auto
qed simp

section \<open>Properties\<close>

text \<open>C11 (liveness). A driver who holds the phone in view of the camera, in an engaged and moving car, is
  warned after 21840 counted frames (18 minutes and 12 seconds; the filter needs five frames first), for the second
  time after 21880 and with the terminal alert after 22000, whatever else happens, and not earlier.\<close>

theorem phone_driver_is_warned:
  assumes "list_all phone_frame fs" "fs \<noteq> []"
  shows "\<exists>dm. run_steps dm_settings mf fs (new_DriverMonitoring dm_settings rhd always locked) = Some dm
    \<and> alert_level dm =
        (let n = length fs - 5
         in if n < 21840 then AL_none else if n < 21880 then AL_one else if n < 22000 then AL_two else AL_three)"
proof -
  have "phone_state 0 (new_DriverMonitoring st0 rhd always locked)"
    by (simp add: phone_state_def dm_inv_new watched_new countdown_def)
      (simp add: new_DriverMonitoring_def set_policy_def reset_awareness_def Let_def dm_settings_def)
  from phone_run [OF this assms(1), of mf]
  obtain dm where dm: "run_steps st0 mf fs (new_DriverMonitoring st0 rhd always locked) = Some dm"
    "phone_state (length fs) dm"
    by auto
  define n where "n = length fs - 5"
  have c: "countdown (length fs) = max (1 - of_nat n / 22000) (-1/10)"
    by (simp add: countdown_def n_def)
  have "1 - of_nat n / 22000 \<le> (0 :: rat) \<longleftrightarrow> \<not> n < 22000"
    "1 - of_nat n / 22000 \<le> (6/1100 :: rat) \<longleftrightarrow> \<not> n < 21880"
    "1 - of_nat n / 22000 \<le> (8/1100 :: rat) \<longleftrightarrow> \<not> n < 21840"
    by (simp_all add: field_simps not_less)
  then have "level_of (8/1100) (6/1100) (countdown (length fs)) =
      (if n < 21840 then AL_none else if n < 21880 then AL_one else if n < 22000 then AL_two else AL_three)"
    unfolding level_of_def c by simp
  then show ?thesis
    using dm assms(2) by (simp add: phone_state_def n_def Let_def)
qed

text \<open>C12 (safety). A terminal alert is only cleared by disengaging: while openpilot or steering stays
  engaged, the red alert lasts, whatever the driver and the camera do, and after thirty seconds of it the
  driver is locked out.\<close>

theorem red_alert_needs_disengagement:
  assumes "run_steps dm_settings mf (fs @ gs) (new_DriverMonitoring dm_settings rhd always locked) = Some dm'"
    "run_steps dm_settings mf fs (new_DriverMonitoring dm_settings rhd always locked) = Some dm"
    "alert_level dm = AL_three" "list_all dm_engaged gs" "gs \<noteq> []"
  shows "alert_level dm' = AL_three \<and> (600 < length gs \<longrightarrow> too_distracted dm')"
proof -
  have i: "dm_inv dm"
    using run_steps_inv [OF assms(2) dm_inv_new] .
  have r: "run_steps st0 mf gs dm = Some dm'"
    using assms(1,2) by (simp add: run_steps_append)
  have "awareness dm \<le> 0" "0 \<le> terminal_time dm"
    using i assms(3) by (simp_all add: dm_inv_def)
  with red_run [OF r i this(1) assms(4)] assms(5) show ?thesis
    by auto
qed

text \<open>In every run of the process's monitor the awareness stays between -0.1 and 1, a
  terminal alert means that awareness is used up, and a lockout is never lifted.\<close>

theorem monitor_invariant:
  assumes "run_steps dm_settings mf fs (new_DriverMonitoring dm_settings rhd always locked) = Some dm"
  shows "-1/10 \<le> awareness dm \<and> awareness dm \<le> 1 \<and> (alert_level dm = AL_three \<longrightarrow> awareness dm \<le> 0)
    \<and> (\<forall>di demo dm'. too_distracted dm \<and> run_step dm_settings mf di demo dm = Some dm' \<longrightarrow> too_distracted dm')"
  using run_steps_inv [OF assms dm_inv_new] lockout_step by (auto simp: dm_inv_def)

definition plain_mf :: MathFuns where
  "plain_mf = \<lparr>mf_atan2 = (\<lambda>y x. 0), mf_sqrt = (\<lambda>x. x), mf_radians = (\<lambda>x. x)\<rparr>"

definition phone_input :: DmInput where
  "phone_input =
     (let d = \<lparr>faceOrientation = [0, 0], faceOrientationStd = [0, 0], facePosition = [0, 0], facePositionStd = [0, 0],
               faceProb = 1, leftEyeProb = 1, rightEyeProb = 1, leftBlinkProb = 0, rightBlinkProb = 0,
               sunglassesProb = 0, phoneProb = 1\<rparr>
      in \<lparr>di_CS = default_CarState\<lparr>cs_vEgo := 20, cs_gearShifter := GS_drive\<rparr>, di_sd_enabled = True, di_latActive = True,
          di_brakeDisengageProbs = [0], di_rpyCalib = [0, 0, 0],
          di_driver_state = \<lparr>wheelOnRightProb = 0, leftDriverData = d, rightDriverData = d\<rparr>\<rparr>)"

lemma phone_input_frame: "list_all phone_frame (replicate n (phone_input, False))"
  by (simp add: list_all_length phone_frame_def phone_input_def phone_data_def dm_engaged_def Let_def default_CarState_def)

text \<open>Two minutes of it, the length of the unit tests, give no alert.\<close>

theorem phone_driver_is_warned_witness:
  "\<exists>dm. run_steps dm_settings plain_mf (replicate 2400 (phone_input, False))
      (new_DriverMonitoring dm_settings False False False) = Some dm \<and> alert_level dm = AL_none"
  using phone_driver_is_warned [OF phone_input_frame [of 2400], of plain_mf False False False] by (simp add: Let_def)

lemma phone_red:
  "\<exists>dm. run_steps dm_settings plain_mf (replicate 22005 (phone_input, False))
      (new_DriverMonitoring dm_settings False False False) = Some dm \<and> alert_level dm = AL_three \<and> phone_state 22005 dm"
proof -
  have "phone_state 0 (new_DriverMonitoring st0 False False False)"
    by (simp add: phone_state_def dm_inv_new watched_new countdown_def)
      (simp add: new_DriverMonitoring_def set_policy_def reset_awareness_def Let_def dm_settings_def)
  from phone_run [OF this phone_input_frame [of 22005], of plain_mf] show ?thesis
    by (auto simp: phone_state_def countdown_def level_of_def)
qed

theorem red_alert_needs_disengagement_witness:
  "\<exists>dm'. run_steps dm_settings plain_mf (replicate 22005 (phone_input, False) @ replicate 601 (phone_input, False))
      (new_DriverMonitoring dm_settings False False False) = Some dm' \<and> alert_level dm' = AL_three \<and> too_distracted dm'"
proof -
  obtain dm where dm: "run_steps dm_settings plain_mf (replicate 22005 (phone_input, False))
      (new_DriverMonitoring dm_settings False False False) = Some dm" "alert_level dm = AL_three" "phone_state 22005 dm"
    using phone_red by blast
  obtain dm' where "run_steps dm_settings plain_mf (replicate 601 (phone_input, False)) dm = Some dm'"
    using phone_run [OF dm(3) phone_input_frame [of 601], of plain_mf] by blast
  then have r: "run_steps dm_settings plain_mf (replicate 22005 (phone_input, False) @ replicate 601 (phone_input, False))
      (new_DriverMonitoring dm_settings False False False) = Some dm'"
    using dm(1) by (simp only: run_steps_append bind_eq_Some_conv) blast
  have "list_all dm_engaged (replicate 601 (phone_input, False))"
    by (simp add: list_all_length dm_engaged_def phone_input_def Let_def)
  from red_alert_needs_disengagement [OF r dm(1,2) this] r show ?thesis
    by auto
qed

theorem monitor_invariant_witness:
  "\<exists>dm. run_steps dm_settings plain_mf [(phone_input, False)] (new_DriverMonitoring dm_settings False False False) = Some dm
     \<and> awareness dm \<le> 1"
proof -
  obtain dm where dm: "run_steps dm_settings plain_mf (replicate 1 (phone_input, False))
      (new_DriverMonitoring dm_settings False False False) = Some dm"
    using phone_driver_is_warned [OF phone_input_frame [of 1], of plain_mf False False False] by auto
  from monitor_invariant [OF this] dm show ?thesis
    by auto
qed

end
