(* ===== verification/LongControl.thy ===== *)
theory LongControl
  imports Filters Messages EventsBase
begin

text \<open>
  The longitudinal controller \<open>selfdrive/controls/lib/longcontrol.py\<close> and the helpers of
  \<open>selfdrive/controls/lib/drive_helpers.py\<close>. A gain table without points, or with lists of different
  lengths, makes \<open>np.interp\<close> raise, which is \<open>None\<close>. The exponential of \<open>smooth_value\<close> is an argument.
\<close>

section \<open>The state machine\<close>

datatype LongCtrlState = LCS_off | LCS_pid | LCS_stopping | LCS_starting

definition long_control_state_trans :: "CarParams \<Rightarrow> CarParamsSP \<Rightarrow> bool \<Rightarrow> LongCtrlState \<Rightarrow> rat \<Rightarrow> bool \<Rightarrow> bool \<Rightarrow>
    bool \<Rightarrow> LongCtrlState" where
  "long_control_state_trans CP CP_SP active state v_ego should_stop brake_pressed cruise_standstill0 =
     (let cruise_standstill = (cruise_standstill0 \<and> \<not> cpsp_enableGasInterceptor CP_SP);
          stopping_condition = should_stop;
          starting_condition = (\<not> should_stop \<and> \<not> cruise_standstill \<and> \<not> brake_pressed);
          started_condition = (v_ego > cp_vEgoStarting CP)
      in if \<not> active then LCS_off
         else (case state of
             LCS_off \<Rightarrow>
               if \<not> starting_condition then LCS_stopping
               else if starting_condition \<and> cp_startingState CP then LCS_starting
               else LCS_pid
           | LCS_stopping \<Rightarrow>
               if starting_condition \<and> cp_startingState CP then LCS_starting
               else if starting_condition then LCS_pid
               else state
           | _ \<Rightarrow>
               if stopping_condition then LCS_stopping
               else if started_condition then LCS_pid
               else state))"

section \<open>Class LongControl\<close>

record LongControl =
  lc_state :: LongCtrlState
  lc_pid :: PIDController
  last_output_accel :: rat

text \<open>The default limits of \<open>PIDController\<close> are replaced before the first use.\<close>

definition new_LongControl :: "CarParams \<Rightarrow> LongControl" where
  "new_LongControl CP =
     \<lparr>lc_state = LCS_off,
      lc_pid = new_PIDController (cp_longitudinal_kp CP) (cp_longitudinal_ki CP) (number_gain 0)
        (10 ^ 308) (- (10 ^ 308)) (1 / DT_CTRL),
      last_output_accel = 0\<rparr>"

definition lc_reset :: "LongControl \<Rightarrow> LongControl" where
  "lc_reset lc = lc\<lparr>lc_pid := pid_reset (lc_pid lc)\<rparr>"

text \<open>The output of the state, with the controller after it.\<close>

definition lc_output :: "CarParams \<Rightarrow> CarState \<Rightarrow> rat \<Rightarrow> LongControl \<Rightarrow> (rat \<times> LongControl) option" where
  "lc_output CP CS a_target lc =
     (case lc_state lc of
        LCS_off \<Rightarrow> Some (0, lc_reset lc)
      | LCS_stopping \<Rightarrow>
          (let out = last_output_accel lc
           in Some (if out > cp_stopAccel CP then min out 0 - cp_stoppingDecelRate CP * DT_CTRL else out, lc_reset lc))
      | LCS_starting \<Rightarrow> Some (cp_startAccel CP, lc_reset lc)
      | LCS_pid \<Rightarrow>
          map_option (\<lambda>pid. (control pid, lc\<lparr>lc_pid := pid\<rparr>))
            (pid_update (a_target - cs_aEgo CS) 0 (cs_vEgo CS) a_target False (lc_pid lc)))"

definition lc_update :: "CarParams \<Rightarrow> CarParamsSP \<Rightarrow> bool \<Rightarrow> CarState \<Rightarrow> rat \<Rightarrow> bool \<Rightarrow> rat \<times> rat \<Rightarrow> LongControl \<Rightarrow>
    (rat \<times> LongControl) option" where
  "lc_update CP CP_SP active CS a_target should_stop accel_limits lc0 =
     (let lc = lc0\<lparr>lc_pid := set_limits (snd accel_limits) (fst accel_limits) (lc_pid lc0),
                   lc_state := long_control_state_trans CP CP_SP active (lc_state lc0) (cs_vEgo CS) should_stop
                     (cs_brakePressed CS) (cr_standstill (cs_cruiseState CS))\<rparr>
      in map_option (\<lambda>(output_accel, lc1).
             (let a = np_clip output_accel (fst accel_limits) (snd accel_limits)
              in (a, lc1\<lparr>last_output_accel := a\<rparr>)))
           (lc_output CP CS a_target lc))"

section \<open>drive\_helpers\<close>

definition MIN_SPEED :: rat where "MIN_SPEED = 1"
definition MAX_CURVATURE :: rat where "MAX_CURVATURE = 2/10"
definition MIN_STABLE_DELAY :: rat where "MIN_STABLE_DELAY = 3/10"
definition MAX_LATERAL_JERK :: rat where "MAX_LATERAL_JERK = 5"
definition MAX_LATERAL_ACCEL_NO_ROLL :: rat where "MAX_LATERAL_ACCEL_NO_ROLL = 3"
definition ACCELERATION_DUE_TO_GRAVITY :: rat where "ACCELERATION_DUE_TO_GRAVITY = 981/100"

definition clamp :: "rat \<Rightarrow> rat \<Rightarrow> rat \<Rightarrow> rat \<times> bool" where
  "clamp val min_val max_val = (let c = np_clip val min_val max_val in (c, c \<noteq> val))"

definition smooth_value :: "(rat \<Rightarrow> rat) \<Rightarrow> rat \<Rightarrow> rat \<Rightarrow> rat \<Rightarrow> rat \<Rightarrow> rat" where
  "smooth_value expf val prev_val tau dt =
     (let alpha = (if tau > 0 then 1 - expf (- dt / tau) else 1)
      in alpha * val + (1 - alpha) * prev_val)"

definition clip_curvature :: "rat \<Rightarrow> rat \<Rightarrow> rat \<Rightarrow> rat \<Rightarrow> rat \<times> bool" where
  "clip_curvature v_ego0 prev_curvature new_curvature roll =
     (let v_ego = max v_ego0 MIN_SPEED;
          max_curvature_rate = MAX_LATERAL_JERK / v_ego\<^sup>2;
          c1 = np_clip new_curvature (prev_curvature - max_curvature_rate * DT_CTRL)
                 (prev_curvature + max_curvature_rate * DT_CTRL);
          roll_compensation = roll * ACCELERATION_DUE_TO_GRAVITY;
          max_lat_accel = MAX_LATERAL_ACCEL_NO_ROLL + roll_compensation;
          min_lat_accel = - MAX_LATERAL_ACCEL_NO_ROLL + roll_compensation;
          (c2, limited_accel) = clamp c1 (min_lat_accel / v_ego\<^sup>2) (max_lat_accel / v_ego\<^sup>2);
          (c3, limited_max_curv) = clamp c2 (- MAX_CURVATURE) MAX_CURVATURE
      in (c3, limited_accel \<or> limited_max_curv))"

text \<open>
  The plan of the model: \<open>None\<close> for an empty plan of the right length (\<open>IndexError\<close>) and for a delay of zero
  (where NumPy returns an infinity or NaN). The result is the target acceleration and whether to stop.
\<close>

definition get_accel_from_plan :: "rat list \<Rightarrow> rat list \<Rightarrow> rat list \<Rightarrow> rat \<Rightarrow> rat \<Rightarrow> (rat \<times> bool) option" where
  "get_accel_from_plan speeds accels t_idxs action_t vEgoStopping =
     (if length speeds = length t_idxs then
        (case (speeds, accels) of
           (v_now # _, a_now # _) \<Rightarrow> do {
             v_target \<leftarrow>
               (if action_t < MIN_STABLE_DELAY
                then map_option (\<lambda>v. v_now + (action_t / MIN_STABLE_DELAY) * (v - v_now))
                       (np_interp MIN_STABLE_DELAY t_idxs speeds)
                else np_interp action_t t_idxs speeds);
             let a_target = 2 * (v_target - v_now) / action_t - a_now;
             if action_t = 0 then None else Some (a_target, v_now < vEgoStopping \<and> a_target < 1/10)
           }
         | _ \<Rightarrow> None)
      else Some (0, 0 < vEgoStopping))"

definition curv_from_psis :: "rat \<Rightarrow> rat \<Rightarrow> rat \<Rightarrow> rat \<Rightarrow> rat" where
  "curv_from_psis psi_target psi_rate vego0 action_t =
     (let vego = max vego0 MIN_SPEED;
          curv_from_psi = psi_target / (vego * action_t)
      in 2 * curv_from_psi - psi_rate / vego)"

definition get_curvature_from_plan :: "rat list \<Rightarrow> rat list \<Rightarrow> rat list \<Rightarrow> rat \<Rightarrow> rat \<Rightarrow> rat option" where
  "get_curvature_from_plan yaws yaw_rates t_idxs vego action_t = do {
     psi_target \<leftarrow>
       (if action_t < MIN_STABLE_DELAY
        then map_option (\<lambda>p. (action_t / MIN_STABLE_DELAY) * p) (np_interp MIN_STABLE_DELAY t_idxs yaws)
        else np_interp action_t t_idxs yaws);
     (case yaw_rates of
        [] \<Rightarrow> None
      | psi_rate # _ \<Rightarrow> if action_t = 0 then None else Some (curv_from_psis psi_target psi_rate vego action_t))
   }"

section \<open>Runs of the controller\<close>

record LongInput =
  li_active :: bool
  li_CS :: CarState
  li_a_target :: rat
  li_should_stop :: bool
  li_limits :: "rat \<times> rat"

fun lc_run :: "CarParams \<Rightarrow> CarParamsSP \<Rightarrow> LongInput list \<Rightarrow> LongControl \<Rightarrow> (rat list \<times> LongControl) option" where
  "lc_run CP CP_SP [] lc = Some ([], lc)"
| "lc_run CP CP_SP (li # is) lc = do {
     (a, lc') \<leftarrow> lc_update CP CP_SP (li_active li) (li_CS li) (li_a_target li) (li_should_stop li) (li_limits li) lc;
     (as, lc'') \<leftarrow> lc_run CP CP_SP is lc';
     Some (a # as, lc'')
   }"

definition lc_ok :: "LongControl \<Rightarrow> bool" where "lc_ok lc \<longleftrightarrow> gains_ok (lc_pid lc)"

lemma gains_ok_simps [simp]:
  "gains_ok (pid_reset c) = gains_ok c" "gains_ok (set_limits a b c) = gains_ok c"
  by (simp_all add: gains_ok_def pid_reset_def set_limits_def)

lemma lc_ok_new:
  assumes "fst (cp_longitudinal_kp CP) \<noteq> []" "length (fst (cp_longitudinal_kp CP)) = length (snd (cp_longitudinal_kp CP))"
    "fst (cp_longitudinal_ki CP) \<noteq> []" "length (fst (cp_longitudinal_ki CP)) = length (snd (cp_longitudinal_ki CP))"
  shows "lc_ok (new_LongControl CP)"
  using assms by (simp add: lc_ok_def new_LongControl_def new_PIDController_def gains_ok_def number_gain_def)

lemma lc_output_total:
  assumes "lc_ok lc"
  shows "\<exists>out lc'. lc_output CP CS a lc = Some (out, lc') \<and> lc_ok lc' \<and> lc_state lc' = lc_state lc"
proof (cases "lc_state lc")
  case LCS_pid
  obtain pid where "pid_update (a - cs_aEgo CS) 0 (cs_vEgo CS) a False (lc_pid lc) = Some pid"
    using pid_update_total [of "lc_pid lc"] assms unfolding lc_ok_def by blast
  then show ?thesis
    using LCS_pid assms pid_update_Some(1) by (auto simp: lc_output_def lc_ok_def)
qed (use assms in \<open>simp_all add: lc_output_def lc_reset_def lc_ok_def Let_def\<close>)

lemma lc_update_total:
  assumes "lc_ok lc"
  shows "\<exists>a lc'. lc_update CP CP_SP act CS a_target stop lims lc = Some (a, lc') \<and> lc_ok lc'
    \<and> last_output_accel lc' = a \<and> (fst lims \<le> snd lims \<longrightarrow> fst lims \<le> a \<and> a \<le> snd lims)
    \<and> lc_state lc' = long_control_state_trans CP CP_SP act (lc_state lc) (cs_vEgo CS) stop (cs_brakePressed CS)
        (cr_standstill (cs_cruiseState CS))"
proof -
  define lc1 where "lc1 = lc\<lparr>lc_pid := set_limits (snd lims) (fst lims) (lc_pid lc),
      lc_state := long_control_state_trans CP CP_SP act (lc_state lc) (cs_vEgo CS) stop
        (cs_brakePressed CS) (cr_standstill (cs_cruiseState CS))\<rparr>"
  have "lc_ok lc1"
    using assms by (simp add: lc1_def lc_ok_def)
  from lc_output_total [OF this] obtain out lc' where o: "lc_output CP CS a_target lc1 = Some (out, lc')" "lc_ok lc'"
    "lc_state lc' = lc_state lc1"
    by blast
  have "lc_update CP CP_SP act CS a_target stop lims lc =
      Some (np_clip out (fst lims) (snd lims), lc'\<lparr>last_output_accel := np_clip out (fst lims) (snd lims)\<rparr>)"
    using o(1) by (simp add: lc_update_def Let_def flip: lc1_def)
  then show ?thesis
    using o(2,3) by (simp add: lc_ok_def np_clip_between lc1_def)
qed

definition limits_ok :: "LongInput \<Rightarrow> bool" where
  "limits_ok li \<longleftrightarrow> fst (li_limits li) \<le> snd (li_limits li)"

definition within_limits :: "LongInput \<Rightarrow> rat \<Rightarrow> bool" where
  "within_limits li a \<longleftrightarrow> fst (li_limits li) \<le> a \<and> a \<le> snd (li_limits li)"

lemma lc_run_total:
  assumes "lc_ok lc" "list_all limits_ok is"
  shows "\<exists>as lc'. lc_run CP CP_SP is lc = Some (as, lc') \<and> lc_ok lc' \<and> list_all2 within_limits is as"
  using assms
proof (induction "is" arbitrary: lc)
  case (Cons li "is")
  obtain a lc' where u: "lc_update CP CP_SP (li_active li) (li_CS li) (li_a_target li) (li_should_stop li) (li_limits li) lc
      = Some (a, lc')" "lc_ok lc'" "within_limits li a"
    using lc_update_total [OF Cons.prems(1), of CP CP_SP "li_active li" "li_CS li" "li_a_target li"
        "li_should_stop li" "li_limits li"] Cons.prems(2) by (auto simp: limits_ok_def within_limits_def)
  then show ?case
    using Cons.IH [OF u(2)] Cons.prems(2) by auto
qed simp

section \<open>Stopping\<close>

lemma stopping_state [simp]: "long_control_state_trans CP CP_SP True s v True b c = LCS_stopping"
  by (cases s) (simp_all add: long_control_state_trans_def Let_def)

definition stop_step :: "CarParams \<Rightarrow> rat \<Rightarrow> rat" where
  "stop_step CP out = (if out > cp_stopAccel CP then min out 0 - cp_stoppingDecelRate CP * DT_CTRL else out)"

lemma stopping_update:
  "\<exists>lc'. lc_update CP CP_SP True CS a_target True lims lc
      = Some (np_clip (stop_step CP (last_output_accel lc)) (fst lims) (snd lims), lc')
    \<and> last_output_accel lc' = np_clip (stop_step CP (last_output_accel lc)) (fst lims) (snd lims)
    \<and> lc_state lc' = LCS_stopping"
  by (simp add: lc_update_def lc_output_def lc_reset_def Let_def stop_step_def)

text \<open>A frame in which the car is to stop, with limits that admit the stopping deceleration.\<close>

definition stop_frame :: "CarParams \<Rightarrow> LongInput \<Rightarrow> bool" where
  "stop_frame CP li \<longleftrightarrow> li_active li \<and> li_should_stop li \<and>
     fst (li_limits li) \<le> cp_stopAccel CP - cp_stoppingDecelRate CP * DT_CTRL \<and> 0 \<le> snd (li_limits li)"

lemma stop_step_progress:
  assumes "cp_stopAccel CP \<le> 0" "0 < d" "d = cp_stoppingDecelRate CP * DT_CTRL" "lo \<le> cp_stopAccel CP - d" "0 \<le> hi"
    "out \<le> cp_stopAccel CP \<or> out \<le> - (of_nat n * d) \<or> n = 0"
  shows "np_clip (stop_step CP out) lo hi \<le> cp_stopAccel CP
    \<or> np_clip (stop_step CP out) lo hi \<le> - (of_nat (Suc n) * d)"
proof (cases "out > cp_stopAccel CP")
  case True
  have "min out 0 \<le> - (of_nat n * d)"
    using assms(6) True by auto
  moreover have "np_clip (min out 0 - d) lo hi = min out 0 - d"
    using True assms by (auto simp: np_clip_def min_def max_def)
  ultimately show ?thesis
    using True assms(3) by (simp add: stop_step_def algebra_simps)
next
  case False
  then show ?thesis
    using assms by (auto simp: stop_step_def np_clip_def)
qed

lemma stop_run:
  assumes "cp_stopAccel CP \<le> 0" "0 < cp_stoppingDecelRate CP" "list_all (stop_frame CP) is"
    "last_output_accel lc \<le> cp_stopAccel CP \<or> last_output_accel lc \<le> - (of_nat n * (cp_stoppingDecelRate CP * DT_CTRL)) \<or> n = 0"
    "is \<noteq> [] \<or> 0 < n \<and> lc_state lc = LCS_stopping"
  shows "\<exists>as lc'. lc_run CP CP_SP is lc = Some (as, lc') \<and> lc_state lc' = LCS_stopping
    \<and> (last_output_accel lc' \<le> cp_stopAccel CP
       \<or> last_output_accel lc' \<le> - (of_nat (n + length is) * (cp_stoppingDecelRate CP * DT_CTRL)))"
  using assms(3-5)
proof (induction "is" arbitrary: lc n)
  case (Cons li "is")
  let ?d = "cp_stoppingDecelRate CP * DT_CTRL"
  have li: "li_active li" "li_should_stop li" "fst (li_limits li) \<le> cp_stopAccel CP - ?d" "0 \<le> snd (li_limits li)"
    using Cons.prems(1) by (simp_all add: stop_frame_def)
  have d: "0 < ?d"
    using assms(2) by (simp add: DT_CTRL_def)
  obtain lc' where u: "lc_update CP CP_SP True (li_CS li) (li_a_target li) True (li_limits li) lc
      = Some (last_output_accel lc', lc')" "lc_state lc' = LCS_stopping"
    "last_output_accel lc' = np_clip (stop_step CP (last_output_accel lc)) (fst (li_limits li)) (snd (li_limits li))"
    using stopping_update [of CP CP_SP "li_CS li" "li_a_target li" "li_limits li" lc] by metis
  have p: "last_output_accel lc' \<le> cp_stopAccel CP \<or> last_output_accel lc' \<le> - (of_nat (Suc n) * ?d) \<or> Suc n = 0"
    using stop_step_progress [OF assms(1) d refl li(3,4) Cons.prems(2)] u(3) by auto
  have "list_all (stop_frame CP) is"
    using Cons.prems(1) by simp
  from Cons.IH [OF this p] u(2) obtain as lc'' where "lc_run CP CP_SP is lc' = Some (as, lc'')"
    "lc_state lc'' = LCS_stopping" "last_output_accel lc'' \<le> cp_stopAccel CP
      \<or> last_output_accel lc'' \<le> - (of_nat (Suc n + length is) * ?d)"
    by auto
  then show ?case
    using u(1) li(1,2) by simp
qed auto

lemma stop_step_lower:
  assumes "cp_stopAccel CP \<le> 0" "0 < d" "d = cp_stoppingDecelRate CP * DT_CTRL" "lo \<le> cp_stopAccel CP - d" "0 \<le> hi"
  shows "min out (cp_stopAccel CP - d) \<le> np_clip (stop_step CP out) lo hi"
  using assms by (auto simp: stop_step_def np_clip_def min_def max_def)

lemma stop_run_lower:
  assumes "cp_stopAccel CP \<le> 0" "0 < cp_stoppingDecelRate CP" "list_all (stop_frame CP) is"
    "lc_run CP CP_SP is lc = Some (as, lc')"
  shows "min (last_output_accel lc) (cp_stopAccel CP - cp_stoppingDecelRate CP * DT_CTRL) \<le> last_output_accel lc'"
  using assms(3,4)
proof (induction "is" arbitrary: lc as)
  case (Cons li "is")
  let ?d = "cp_stoppingDecelRate CP * DT_CTRL"
  have li: "li_active li" "li_should_stop li" "fst (li_limits li) \<le> cp_stopAccel CP - ?d" "0 \<le> snd (li_limits li)"
    using Cons.prems(1) by (simp_all add: stop_frame_def)
  have d: "0 < ?d"
    using assms(2) by (simp add: DT_CTRL_def)
  obtain a lc1 as' where u: "lc_update CP CP_SP True (li_CS li) (li_a_target li) True (li_limits li) lc = Some (a, lc1)"
    "lc_run CP CP_SP is lc1 = Some (as', lc')"
    using Cons.prems(2) li(1,2) by (auto simp: bind_eq_Some_conv)
  then have "last_output_accel lc1 = np_clip (stop_step CP (last_output_accel lc)) (fst (li_limits li)) (snd (li_limits li))"
    using stopping_update [of CP CP_SP "li_CS li" "li_a_target li" "li_limits li" lc] by auto
  then have "min (last_output_accel lc) (cp_stopAccel CP - ?d) \<le> last_output_accel lc1"
    using stop_step_lower [OF assms(1) d refl li(3,4)] by simp
  moreover have "min (last_output_accel lc1) (cp_stopAccel CP - ?d) \<le> last_output_accel lc'"
    using Cons.IH [OF _ u(2)] Cons.prems(1) by simp
  ultimately show ?case
    by linarith
qed simp

section \<open>The curvature limits\<close>

lemma clamp_id: "\<not> snd (clamp x lo hi) \<Longrightarrow> fst (clamp x lo hi) = x"
  by (simp add: clamp_def Let_def)

lemma clamp_between: "lo \<le> hi \<Longrightarrow> lo \<le> fst (clamp x lo hi) \<and> fst (clamp x lo hi) \<le> hi"
  by (simp add: clamp_def Let_def np_clip_between)

lemma clamp_towards_zero:
  "lo' \<le> 0 \<Longrightarrow> 0 \<le> hi' \<Longrightarrow> lo \<le> 0 \<Longrightarrow> 0 \<le> hi \<Longrightarrow> lo \<le> x \<Longrightarrow> x \<le> hi \<Longrightarrow>
     lo \<le> fst (clamp x lo' hi') \<and> fst (clamp x lo' hi') \<le> hi"
  by (auto simp: clamp_def np_clip_def Let_def)

section \<open>Properties\<close>

text \<open>For gain tables of matching lengths and frames whose lower limit is at most the upper one, no run of a new
  controller raises, and every acceleration it returns lies within the limits of its frame.\<close>

theorem acceleration_within_limits:
  assumes "fst (cp_longitudinal_kp CP) \<noteq> []" "length (fst (cp_longitudinal_kp CP)) = length (snd (cp_longitudinal_kp CP))"
    "fst (cp_longitudinal_ki CP) \<noteq> []" "length (fst (cp_longitudinal_ki CP)) = length (snd (cp_longitudinal_ki CP))"
    "list_all limits_ok is"
  shows "\<exists>as lc'. lc_run CP CP_SP is (new_LongControl CP) = Some (as, lc') \<and> list_all2 within_limits is as"
  using lc_run_total [OF lc_ok_new [OF assms(1-4)] assms(5)] by blast

text \<open>C15 (liveness). While longitudinal control is active and the plan asks to stop, the controller,
  from any state and whatever it commanded before, is in the state "stopping" and brings the commanded acceleration
  down to the stop acceleration within \<open>- stopAccel / (stoppingDecelRate * DT_CTRL)\<close> frames, where it stays;
  it does not go below it by more than one step (or below what it commanded before). Needed are a stop acceleration
  of at most zero, a positive rate, and limits that admit zero and the stop acceleration with one step to spare. No
  frame raises, for any gain tables.\<close>

theorem stopping_reaches_stop_accel:
  assumes "cp_stopAccel CP \<le> 0" "0 < cp_stoppingDecelRate CP" "list_all (stop_frame CP) is" "is \<noteq> []"
    "- cp_stopAccel CP \<le> of_nat (length is) * (cp_stoppingDecelRate CP * DT_CTRL)"
  shows "\<exists>as lc'. lc_run CP CP_SP is lc = Some (as, lc') \<and> lc_state lc' = LCS_stopping
    \<and> last_output_accel lc' \<le> cp_stopAccel CP
    \<and> min (last_output_accel lc) (cp_stopAccel CP - cp_stoppingDecelRate CP * DT_CTRL) \<le> last_output_accel lc'"
proof -
  obtain as lc' where "lc_run CP CP_SP is lc = Some (as, lc')" "lc_state lc' = LCS_stopping"
    "last_output_accel lc' \<le> cp_stopAccel CP"
    using stop_run [OF assms(1-3), of lc 0 CP_SP] assms(4,5) by fastforce
  then show ?thesis
    using stop_run_lower [OF assms(1-3)] by blast
qed

text \<open>The commanded curvature never exceeds the maximum curvature; on a road whose bank does not
  use up the acceleration budget it respects the lateral acceleration limits (with the bank compensated);
  and unless one of these limits is reported, it moved by no more than the lateral jerk limit allows.\<close>

theorem curvature_is_limited:
  assumes "clip_curvature v_ego prev new roll = (c, limited)" "v = max v_ego 1"
  shows "\<bar>c\<bar> \<le> 2/10
    \<and> (\<bar>roll * (981/100)\<bar> \<le> 3 \<longrightarrow> - 3 + roll * (981/100) \<le> c * v\<^sup>2 \<and> c * v\<^sup>2 \<le> 3 + roll * (981/100))
    \<and> (\<not> limited \<longrightarrow> \<bar>c - prev\<bar> \<le> 5 / v\<^sup>2 * (1/100))"
proof -
  define lo hi where "lo = (- 3 + roll * (981/100)) / v\<^sup>2" and "hi = (3 + roll * (981/100)) / v\<^sup>2"
  define c1 where "c1 = np_clip new (prev - 5 / v\<^sup>2 * (1/100)) (prev + 5 / v\<^sup>2 * (1/100))"
  define c2 where "c2 = clamp c1 lo hi"
  have v: "0 < v\<^sup>2"
    using assms(2) by simp
  have c: "c = fst (clamp (fst c2) (-2/10) (2/10))" "limited \<longleftrightarrow> snd c2 \<or> snd (clamp (fst c2) (-2/10) (2/10))"
    using assms by (auto simp: clip_curvature_def Let_def c1_def c2_def lo_def hi_def MAX_LATERAL_JERK_def
        MAX_LATERAL_ACCEL_NO_ROLL_def ACCELERATION_DUE_TO_GRAVITY_def MAX_CURVATURE_def MIN_SPEED_def DT_CTRL_def
        split: prod.splits)
  have "\<bar>c\<bar> \<le> 2/10"
    using clamp_between [of "-2/10" "2/10" "fst c2"] unfolding c(1) abs_le_iff by auto
  moreover have "- 3 + roll * (981/100) \<le> c * v\<^sup>2 \<and> c * v\<^sup>2 \<le> 3 + roll * (981/100)" if "\<bar>roll * (981/100)\<bar> \<le> 3"
  proof -
    have z: "lo \<le> 0" "0 \<le> hi" "lo \<le> hi"
      using that v by (auto simp: lo_def hi_def divide_le_0_iff zero_le_divide_iff divide_right_mono abs_le_iff)
    have "lo \<le> c \<and> c \<le> hi"
      using clamp_towards_zero [of "-2/10" "2/10" lo hi "fst c2"] clamp_between [OF z(3), of c1] z
      by (simp add: c(1) c2_def)
    then show ?thesis
      using v by (simp add: lo_def hi_def divide_le_eq le_divide_eq)
  qed
  moreover have "\<bar>c - prev\<bar> \<le> 5 / v\<^sup>2 * (1/100)" if "\<not> limited"
  proof -
    have "c = c1"
      using that c clamp_id c2_def by metis
    moreover have "0 \<le> 5 / v\<^sup>2 * (1/100)"
      using v by simp
    ultimately show ?thesis
      unfolding c1_def by (auto simp: np_clip_def min_def max_def abs_le_iff)
  qed
  ultimately show ?thesis
    by blast
qed

definition stop_input :: LongInput where
  "stop_input = \<lparr>li_active = True, li_CS = default_CarState, li_a_target = 0, li_should_stop = True, li_limits = (-4, 2)\<rparr>"

definition plain_CP_SP :: CarParamsSP where
  "plain_CP_SP = \<lparr>cpsp_flags = 0, cpsp_safetyParam = 0, cpsp_pcmCruiseSpeed = True,
     cpsp_enableGasInterceptor = False, cpsp_icbmAvailable = False\<rparr>"

theorem acceleration_within_limits_witness:
  "\<exists>a lc'. lc_run plain_CP plain_CP_SP [stop_input] (new_LongControl plain_CP) = Some ([a], lc') \<and> -4 \<le> a \<and> a \<le> 2"
  using acceleration_within_limits [of plain_CP "[stop_input]" plain_CP_SP]
  by (auto simp: plain_CP_def limits_ok_def stop_input_def within_limits_def list_all2_Cons1)

theorem stopping_reaches_stop_accel_witness:
  "\<exists>as lc'. lc_run plain_CP plain_CP_SP (replicate 250 stop_input) (new_LongControl plain_CP) = Some (as, lc')
     \<and> lc_state lc' = LCS_stopping \<and> last_output_accel lc' \<le> -2
     \<and> -201/100 \<le> last_output_accel lc'"
  using stopping_reaches_stop_accel [of plain_CP "replicate 250 stop_input" plain_CP_SP "new_LongControl plain_CP"]
  by (auto simp: plain_CP_def stop_input_def stop_frame_def list_all_length DT_CTRL_def new_LongControl_def)

theorem curvature_is_limited_witness:
  "\<bar>fst (clip_curvature 20 0 1 0)\<bar> \<le> 2/10"
  using curvature_is_limited [OF surjective_pairing refl, of 20 0 1 0] by simp

end
