(* ===== verification/LaneChange.thy ===== *)
theory LaneChange
  imports Messages SpeedLimit
begin

text \<open>
  Lane changes and turns: \<open>selfdrive/controls/lib/desire_helper.py\<close> with the two controllers of
  sunnypilot, \<open>auto_lane_change.py\<close> and \<open>lane_turn_desire.py\<close>. The stored parameters are the record
  \<open>LaneParams\<close>; the controllers read it every 50 frames. The timer of a lane change is an exact number here; the
  code adds up floats, whose sum passes the limit of ten seconds one frame earlier.
\<close>

datatype Desire =
    D_none | D_turnLeft | D_turnRight | D_laneChangeLeft | D_laneChangeRight | D_keepLeft | D_keepRight

definition LANE_CHANGE_SPEED_MIN :: rat where "LANE_CHANGE_SPEED_MIN = 20 * MPH_TO_MS"
definition LANE_CHANGE_TIME_MAX :: rat where "LANE_CHANGE_TIME_MAX = 10"

record LaneParams =
  lp_AutoLaneChangeTimer :: int
  lp_AutoLaneChangeBsmDelay :: bool
  lp_LaneTurnDesire :: bool
  lp_LaneTurnValue :: rat

section \<open>AutoLaneChangeController\<close>

definition ALC_OFF :: int where "ALC_OFF = -1"
definition ALC_NUDGE :: int where "ALC_NUDGE = 0"
definition ALC_NUDGELESS :: int where "ALC_NUDGELESS = 1"

definition AUTO_LANE_CHANGE_TIMER :: "int \<Rightarrow> rat option" where
  "AUTO_LANE_CHANGE_TIMER mode =
     map_of [(-1, 0), (0, 0), (1, 5/100), (2, 5/10), (3, 1), (4, 2), (5, 3)] mode"

definition ONE_SECOND_DELAY :: rat where "ONE_SECOND_DELAY = -1"

record AutoLaneChange =
  lane_change_wait_timer :: rat
  alc_read_counter :: int
  lane_change_delay :: rat
  lane_change_set_timer :: int
  lane_change_bsm_delay :: bool
  prev_brake_pressed :: bool
  auto_lane_change_allowed :: bool
  prev_lane_change :: bool

definition alc_read_params :: "LaneParams \<Rightarrow> AutoLaneChange \<Rightarrow> AutoLaneChange" where
  "alc_read_params lp alc =
     alc\<lparr>lane_change_bsm_delay := lp_AutoLaneChangeBsmDelay lp, lane_change_set_timer := lp_AutoLaneChangeTimer lp\<rparr>"

definition new_AutoLaneChange :: "LaneParams \<Rightarrow> AutoLaneChange" where
  "new_AutoLaneChange lp =
     alc_read_params lp
       \<lparr>lane_change_wait_timer = 0, alc_read_counter = 0, lane_change_delay = 0,
        lane_change_set_timer = lp_AutoLaneChangeTimer lp, lane_change_bsm_delay = False,
        prev_brake_pressed = False, auto_lane_change_allowed = False, prev_lane_change = False\<rparr>"

definition alc_reset :: "LaneChangeState \<Rightarrow> LaneChangeDirection \<Rightarrow> AutoLaneChange \<Rightarrow> AutoLaneChange" where
  "alc_reset state direction alc =
     (if state = LC_off \<and> direction = LCD_none
      then alc\<lparr>lane_change_wait_timer := 0, prev_brake_pressed := False, prev_lane_change := False\<rparr>
      else alc)"

definition alc_update_params :: "LaneParams \<Rightarrow> AutoLaneChange \<Rightarrow> AutoLaneChange" where
  "alc_update_params lp alc =
     (let alc1 = (if alc_read_counter alc mod 50 = 0 then alc_read_params lp alc else alc)
      in alc1\<lparr>alc_read_counter := alc_read_counter alc1 + 1\<rparr>)"

definition update_lane_change_timers :: "bool \<Rightarrow> AutoLaneChange \<Rightarrow> AutoLaneChange" where
  "update_lane_change_timers blindspot_detected alc =
     (let delay = (case AUTO_LANE_CHANGE_TIMER (lane_change_set_timer alc) of Some t \<Rightarrow> t | None \<Rightarrow> 0);
          wait = lane_change_wait_timer alc + DT_MDL;
          wait' = (if lane_change_bsm_delay alc \<and> blindspot_detected \<and> delay > 0
                   then (if delay = 5/100 then ONE_SECOND_DELAY else delay + ONE_SECOND_DELAY)
                   else wait)
      in alc\<lparr>lane_change_delay := delay, lane_change_wait_timer := wait'\<rparr>)"

definition update_allowed :: "AutoLaneChange \<Rightarrow> bool" where
  "update_allowed alc =
     (if lane_change_set_timer alc \<in> {ALC_OFF, ALC_NUDGE} then False
      else if prev_brake_pressed alc then False
      else if prev_lane_change alc then False
      else lane_change_wait_timer alc > lane_change_delay alc)"

definition alc_update_lane_change :: "bool \<Rightarrow> bool \<Rightarrow> AutoLaneChange \<Rightarrow> AutoLaneChange" where
  "alc_update_lane_change blindspot_detected brake_pressed alc0 =
     (let alc1 = (if brake_pressed \<and> \<not> prev_brake_pressed alc0
                  then alc0\<lparr>prev_brake_pressed := brake_pressed\<rparr> else alc0);
          alc2 = update_lane_change_timers blindspot_detected alc1
      in alc2\<lparr>auto_lane_change_allowed := update_allowed alc2\<rparr>)"

definition alc_update_state :: "LaneChangeState \<Rightarrow> LaneChangeDirection \<Rightarrow> AutoLaneChange \<Rightarrow> AutoLaneChange" where
  "alc_update_state state direction alc =
     alc_reset state direction
       (if state = LC_laneChangeStarting then alc\<lparr>prev_lane_change := True\<rparr> else alc)"

section \<open>LaneTurnController\<close>

record LaneTurn =
  turn_direction :: TurnDirection
  lane_turn_value :: rat
  lt_read_counter :: int
  lt_enabled :: bool

definition new_LaneTurn :: "LaneParams \<Rightarrow> LaneTurn" where
  "new_LaneTurn lp =
     \<lparr>turn_direction = TD_none, lane_turn_value = lp_LaneTurnValue lp * MPH_TO_MS, lt_read_counter = 0,
      lt_enabled = lp_LaneTurnDesire lp\<rparr>"

definition lt_read_params :: "LaneParams \<Rightarrow> LaneTurn \<Rightarrow> LaneTurn" where
  "lt_read_params lp lt =
     lt\<lparr>lt_enabled := lp_LaneTurnDesire lp,
        lane_turn_value := min LANE_CHANGE_SPEED_MIN (lp_LaneTurnValue lp * MPH_TO_MS)\<rparr>"

definition lt_update_params :: "LaneParams \<Rightarrow> LaneTurn \<Rightarrow> LaneTurn" where
  "lt_update_params lp lt =
     (let lt1 = (if lt_read_counter lt mod 50 = 0 then lt_read_params lp lt else lt)
      in lt1\<lparr>lt_read_counter := lt_read_counter lt1 + 1\<rparr>)"

definition update_lane_turn :: "CarState \<Rightarrow> LaneTurn \<Rightarrow> LaneTurn" where
  "update_lane_turn CS lt =
     lt\<lparr>turn_direction :=
          (if cs_leftBlinker CS \<and> \<not> cs_rightBlinker CS \<and> cs_vEgo CS < lane_turn_value lt \<and> \<not> cs_leftBlindspot CS
           then TD_turnLeft
           else if cs_rightBlinker CS \<and> \<not> cs_leftBlinker CS \<and> cs_vEgo CS < lane_turn_value lt \<and> \<not> cs_rightBlindspot CS
           then TD_turnRight
           else TD_none)\<rparr>"

definition get_turn_direction :: "LaneTurn \<Rightarrow> TurnDirection" where
  "get_turn_direction lt = (if \<not> lt_enabled lt then TD_none else turn_direction lt)"

section \<open>DesireHelper\<close>

definition DESIRES :: "LaneChangeDirection \<Rightarrow> LaneChangeState \<Rightarrow> Desire" where
  "DESIRES direction state =
     (case direction of
        LCD_none \<Rightarrow> D_none
      | LCD_left \<Rightarrow> (case state of LC_laneChangeStarting \<Rightarrow> D_laneChangeLeft | LC_laneChangeFinishing \<Rightarrow> D_laneChangeLeft
                       | _ \<Rightarrow> D_none)
      | LCD_right \<Rightarrow> (case state of LC_laneChangeStarting \<Rightarrow> D_laneChangeRight | LC_laneChangeFinishing \<Rightarrow> D_laneChangeRight
                       | _ \<Rightarrow> D_none))"

definition TURN_DESIRES :: "TurnDirection \<Rightarrow> Desire" where
  "TURN_DESIRES t = (case t of TD_none \<Rightarrow> D_none | TD_turnLeft \<Rightarrow> D_turnLeft | TD_turnRight \<Rightarrow> D_turnRight)"

record DesireHelper =
  lane_change_state :: LaneChangeState
  lane_change_direction :: LaneChangeDirection
  lane_change_timer :: rat
  lane_change_ll_prob :: rat
  keep_pulse_timer :: rat
  prev_one_blinker :: bool
  desire :: Desire
  dh_alc :: AutoLaneChange
  lane_turn_controller :: LaneTurn
  lane_turn_direction :: TurnDirection

definition new_DesireHelper :: "LaneParams \<Rightarrow> DesireHelper" where
  "new_DesireHelper lp =
     \<lparr>lane_change_state = LC_off, lane_change_direction = LCD_none, lane_change_timer = 0, lane_change_ll_prob = 1,
      keep_pulse_timer = 0, prev_one_blinker = False, desire = D_none, dh_alc = new_AutoLaneChange lp,
      lane_turn_controller = new_LaneTurn lp, lane_turn_direction = TD_none\<rparr>"

definition get_lane_change_direction :: "CarState \<Rightarrow> LaneChangeDirection" where
  "get_lane_change_direction CS = (if cs_leftBlinker CS then LCD_left else LCD_right)"

definition one_blinker :: "CarState \<Rightarrow> bool" where
  "one_blinker CS \<longleftrightarrow> cs_leftBlinker CS \<noteq> cs_rightBlinker CS"

definition below_lane_change_speed :: "CarState \<Rightarrow> bool" where
  "below_lane_change_speed CS \<longleftrightarrow> cs_vEgo CS < LANE_CHANGE_SPEED_MIN"

definition torque_applied :: "CarState \<Rightarrow> LaneChangeDirection \<Rightarrow> bool" where
  "torque_applied CS direction \<longleftrightarrow>
     cs_steeringPressed CS \<and>
     ((cs_steeringTorque CS > 0 \<and> direction = LCD_left) \<or> (cs_steeringTorque CS < 0 \<and> direction = LCD_right))"

definition blindspot_detected :: "CarState \<Rightarrow> LaneChangeDirection \<Rightarrow> bool" where
  "blindspot_detected CS direction \<longleftrightarrow>
     (cs_leftBlindspot CS \<and> direction = LCD_left) \<or> (cs_rightBlindspot CS \<and> direction = LCD_right)"

text \<open>The parameters and the turn direction come first.\<close>

definition dh_begin :: "LaneParams \<Rightarrow> CarState \<Rightarrow> DesireHelper \<Rightarrow> DesireHelper" where
  "dh_begin lp CS dh =
     (let lt = update_lane_turn CS (lt_update_params lp (lane_turn_controller dh))
      in dh\<lparr>dh_alc := alc_update_params lp (dh_alc dh), lane_turn_controller := lt,
            lane_turn_direction := get_turn_direction lt\<rparr>)"

definition pre_lane_change :: "CarState \<Rightarrow> DesireHelper \<Rightarrow> DesireHelper" where
  "pre_lane_change CS dh0 =
     (let direction = get_lane_change_direction CS;
          blindspot = blindspot_detected CS direction;
          dh = dh0\<lparr>lane_change_direction := direction,
                   dh_alc := alc_update_lane_change blindspot (cs_brakePressed CS) (dh_alc dh0)\<rparr>
      in if \<not> one_blinker CS \<or> below_lane_change_speed CS
         then dh\<lparr>lane_change_state := LC_off, lane_change_direction := LCD_none\<rparr>
         else if (torque_applied CS direction \<or> auto_lane_change_allowed (dh_alc dh)) \<and> \<not> blindspot
         then dh\<lparr>lane_change_state := LC_laneChangeStarting\<rparr>
         else dh)"

definition advance :: "CarState \<Rightarrow> bool \<Rightarrow> rat \<Rightarrow> DesireHelper \<Rightarrow> DesireHelper" where
  "advance CS lateral_active lane_change_prob dh =
     (if \<not> lateral_active \<or> lane_change_timer dh > LANE_CHANGE_TIME_MAX \<or> lane_change_set_timer (dh_alc dh) = ALC_OFF
      then dh\<lparr>lane_change_state := LC_off, lane_change_direction := LCD_none\<rparr>
      else (case lane_change_state dh of
          LC_off \<Rightarrow>
            if one_blinker CS \<and> \<not> prev_one_blinker dh \<and> \<not> below_lane_change_speed CS
            then dh\<lparr>lane_change_state := LC_preLaneChange, lane_change_ll_prob := 1,
                    lane_change_direction := get_lane_change_direction CS\<rparr>
            else dh
        | LC_preLaneChange \<Rightarrow> pre_lane_change CS dh
        | LC_laneChangeStarting \<Rightarrow>
            (let p = max (lane_change_ll_prob dh - 2 * DT_MDL) 0
             in dh\<lparr>lane_change_ll_prob := p,
                   lane_change_state := (if lane_change_prob < 2/100 \<and> p < 1/100 then LC_laneChangeFinishing
                                         else LC_laneChangeStarting)\<rparr>)
        | LC_laneChangeFinishing \<Rightarrow>
            (let p = min (lane_change_ll_prob dh + DT_MDL) 1;
                 dh1 = dh\<lparr>lane_change_ll_prob := p\<rparr>
             in if p > 99/100
                then dh1\<lparr>lane_change_direction := LCD_none,
                         lane_change_state := (if one_blinker CS then LC_preLaneChange else LC_off)\<rparr>
                else dh1)))"

text \<open>The rest of \<open>update\<close>: timer, desire, keep pulse.\<close>

definition dh_finish :: "CarState \<Rightarrow> DesireHelper \<Rightarrow> DesireHelper" where
  "dh_finish CS dh0 =
     (let state = lane_change_state dh0;
          timer = (if state \<in> {LC_off, LC_preLaneChange} then 0 else lane_change_timer dh0 + DT_MDL);
          d = (if lane_turn_direction dh0 \<noteq> TD_none then TURN_DESIRES (lane_turn_direction dh0)
               else DESIRES (lane_change_direction dh0) state);
          pulse = keep_pulse_timer dh0 + DT_MDL;
          dh = dh0\<lparr>lane_change_timer := timer, prev_one_blinker := one_blinker CS, desire := d\<rparr>;
          dh1 = (if state \<in> {LC_off, LC_laneChangeStarting} then dh\<lparr>keep_pulse_timer := 0\<rparr>
                 else if state = LC_preLaneChange then
                   (if pulse > 1 then dh\<lparr>keep_pulse_timer := 0\<rparr>
                    else dh\<lparr>keep_pulse_timer := pulse, desire := (if d \<in> {D_keepLeft, D_keepRight} then D_none else d)\<rparr>)
                 else dh)
      in dh1\<lparr>dh_alc := alc_update_state state (lane_change_direction dh1) (dh_alc dh1)\<rparr>)"

definition dh_update :: "LaneParams \<Rightarrow> CarState \<Rightarrow> bool \<Rightarrow> rat \<Rightarrow> DesireHelper \<Rightarrow> DesireHelper" where
  "dh_update lp CS lateral_active lane_change_prob dh =
     dh_finish CS (advance CS lateral_active lane_change_prob (dh_begin lp CS dh))"

section \<open>Runs\<close>

record LaneInput =
  ln_params :: LaneParams
  ln_CS :: CarState
  ln_lateral_active :: bool
  ln_prob :: rat

definition dh_step :: "LaneInput \<Rightarrow> DesireHelper \<Rightarrow> DesireHelper" where
  "dh_step li = dh_update (ln_params li) (ln_CS li) (ln_lateral_active li) (ln_prob li)"

definition dh_run :: "LaneInput list \<Rightarrow> DesireHelper \<Rightarrow> DesireHelper" where
  "dh_run lis dh = fold dh_step lis dh"

lemma dh_begin_fields [simp]:
  "lane_change_state (dh_begin lp CS dh) = lane_change_state dh"
  "lane_change_direction (dh_begin lp CS dh) = lane_change_direction dh"
  "lane_change_timer (dh_begin lp CS dh) = lane_change_timer dh"
  "prev_one_blinker (dh_begin lp CS dh) = prev_one_blinker dh"
  "dh_alc (dh_begin lp CS dh) = alc_update_params lp (dh_alc dh)"
  by (simp_all add: dh_begin_def Let_def)

lemma dh_finish_fields [simp]:
  "lane_change_state (dh_finish CS dh) = lane_change_state dh"
  "lane_change_direction (dh_finish CS dh) = lane_change_direction dh"
  "lane_change_timer (dh_finish CS dh) =
     (if lane_change_state dh \<in> {LC_off, LC_preLaneChange} then 0 else lane_change_timer dh + DT_MDL)"
  "lane_turn_direction (dh_finish CS dh) = lane_turn_direction dh"
  by (simp_all add: dh_finish_def Let_def)

lemma dh_finish_desire:
  "desire (dh_finish CS dh) =
     (if lane_turn_direction dh \<noteq> TD_none then TURN_DESIRES (lane_turn_direction dh)
      else DESIRES (lane_change_direction dh) (lane_change_state dh))"
  by (auto simp: dh_finish_def Let_def TURN_DESIRES_def DESIRES_def
      split: TurnDirection.splits LaneChangeDirection.splits LaneChangeState.splits)

lemma advance_fields [simp]:
  "lane_change_timer (advance CS act prob dh) = lane_change_timer dh"
  "lane_turn_direction (advance CS act prob dh) = lane_turn_direction dh"
  by (cases "lane_change_state dh"; simp add: advance_def pre_lane_change_def Let_def)+

lemma alc_update_params_fields [simp]:
  "prev_brake_pressed (alc_update_params lp alc) = prev_brake_pressed alc"
  "prev_lane_change (alc_update_params lp alc) = prev_lane_change alc"
  by (simp_all add: alc_update_params_def alc_read_params_def Let_def)

section \<open>The transitions\<close>

text \<open>
  The moves of a lane change; \<open>go\<close> is the condition that lets one go on (lateral control, the time limit
  and the mode), \<open>alc\<close> the automatic controller after its update.
\<close>

inductive lane_move :: "CarState \<Rightarrow> bool \<Rightarrow> bool \<Rightarrow> AutoLaneChange \<Rightarrow> LaneChangeState \<Rightarrow> LaneChangeState \<Rightarrow> bool"
  for CS go pob alc where
  abort: "\<not> go \<Longrightarrow> lane_move CS go pob alc s LC_off"
| request: "go \<Longrightarrow> one_blinker CS \<Longrightarrow> \<not> pob \<Longrightarrow> \<not> below_lane_change_speed CS \<Longrightarrow>
    lane_move CS go pob alc LC_off LC_preLaneChange"
| rest: "go \<Longrightarrow> \<not> one_blinker CS \<or> pob \<or> below_lane_change_speed CS \<Longrightarrow> lane_move CS go pob alc LC_off LC_off"
| cancel: "go \<Longrightarrow> \<not> one_blinker CS \<or> below_lane_change_speed CS \<Longrightarrow> lane_move CS go pob alc LC_preLaneChange LC_off"
| start: "go \<Longrightarrow> one_blinker CS \<Longrightarrow> \<not> below_lane_change_speed CS \<Longrightarrow>
    torque_applied CS (get_lane_change_direction CS) \<or> auto_lane_change_allowed alc \<Longrightarrow>
    \<not> blindspot_detected CS (get_lane_change_direction CS) \<Longrightarrow>
    lane_move CS go pob alc LC_preLaneChange LC_laneChangeStarting"
| wait: "go \<Longrightarrow> one_blinker CS \<Longrightarrow> \<not> below_lane_change_speed CS \<Longrightarrow>
    (\<not> torque_applied CS (get_lane_change_direction CS) \<and> \<not> auto_lane_change_allowed alc)
      \<or> blindspot_detected CS (get_lane_change_direction CS) \<Longrightarrow>
    lane_move CS go pob alc LC_preLaneChange LC_preLaneChange"
| leave: "go \<Longrightarrow> s' \<in> {LC_laneChangeStarting, LC_laneChangeFinishing} \<Longrightarrow>
    lane_move CS go pob alc LC_laneChangeStarting s'"
| arrive: "go \<Longrightarrow> s' = LC_laneChangeFinishing \<or> s' = (if one_blinker CS then LC_preLaneChange else LC_off) \<Longrightarrow>
    lane_move CS go pob alc LC_laneChangeFinishing s'"

inductive_simps lane_move_starting: "lane_move CS go pob alc s LC_laneChangeStarting"
inductive_cases lane_move_changing: "lane_move CS go pob alc s LC_laneChangeFinishing"

definition may_go :: "LaneInput \<Rightarrow> DesireHelper \<Rightarrow> bool" where
  "may_go li dh \<longleftrightarrow> ln_lateral_active li \<and> lane_change_timer dh \<le> 10
     \<and> lane_change_set_timer (alc_update_params (ln_params li) (dh_alc dh)) \<noteq> ALC_OFF"

definition alc_in_pre :: "LaneInput \<Rightarrow> DesireHelper \<Rightarrow> AutoLaneChange" where
  "alc_in_pre li dh =
     alc_update_lane_change (blindspot_detected (ln_CS li) (get_lane_change_direction (ln_CS li)))
       (cs_brakePressed (ln_CS li)) (alc_update_params (ln_params li) (dh_alc dh))"

lemma dh_step_moves:
  "lane_move (ln_CS li) (may_go li dh) (prev_one_blinker dh) (alc_in_pre li dh)
     (lane_change_state dh) (lane_change_state (dh_step li dh))"
proof (cases "may_go li dh")
  case False
  then have "lane_change_state (dh_step li dh) = LC_off"
    by (auto simp: dh_step_def dh_update_def advance_def may_go_def LANE_CHANGE_TIME_MAX_def)
  then show ?thesis
    using False by (simp add: lane_move.abort)
next
  case True
  then have go: "ln_lateral_active li" "\<not> lane_change_timer dh > LANE_CHANGE_TIME_MAX"
    "lane_change_set_timer (alc_update_params (ln_params li) (dh_alc dh)) \<noteq> ALC_OFF"
    by (simp_all add: may_go_def LANE_CHANGE_TIME_MAX_def)
  show ?thesis
    using True go
    by (cases "lane_change_state dh")
      (auto simp: dh_step_def dh_update_def advance_def pre_lane_change_def alc_in_pre_def Let_def intro: lane_move.intros)
qed

lemma dh_step_timer:
  "lane_change_timer (dh_step li dh) =
     (if lane_change_state (dh_step li dh) \<in> {LC_off, LC_preLaneChange} then 0 else lane_change_timer dh + DT_MDL)"
  by (simp add: dh_step_def dh_update_def)

lemma may_go_if_changing:
  "lane_change_state (dh_step li dh) \<noteq> LC_off \<Longrightarrow> may_go li dh"
  using dh_step_moves [of li dh] by (auto elim: lane_move.cases)

text \<open>The automatic controller allows a change only without the brake.\<close>

lemma alc_allowed:
  assumes "auto_lane_change_allowed (alc_in_pre li dh)"
  shows "\<not> cs_brakePressed (ln_CS li) \<and> \<not> prev_brake_pressed (dh_alc dh) \<and> \<not> prev_lane_change (dh_alc dh)
    \<and> lane_change_set_timer (alc_update_params (ln_params li) (dh_alc dh)) \<notin> {ALC_OFF, ALC_NUDGE}"
  using assms
  by (auto simp: alc_in_pre_def alc_update_lane_change_def update_allowed_def update_lane_change_timers_def Let_def
      split: if_splits)

section \<open>The direction\<close>

definition dir_ok :: "DesireHelper \<Rightarrow> bool" where
  "dir_ok dh \<longleftrightarrow>
     (lane_change_state dh = LC_off \<longrightarrow> lane_change_direction dh = LCD_none)
     \<and> (lane_change_state dh \<in> {LC_laneChangeStarting, LC_laneChangeFinishing} \<longrightarrow> lane_change_direction dh \<noteq> LCD_none)"

lemma dir_ok_step: "dir_ok dh \<Longrightarrow> dir_ok (dh_step li dh)"
  by (cases "lane_change_state dh")
    (auto simp: dir_ok_def dh_step_def dh_update_def advance_def pre_lane_change_def get_lane_change_direction_def Let_def)

lemma dir_ok_run: "dir_ok dh \<Longrightarrow> dir_ok (dh_run lis dh)"
  unfolding dh_run_def by (induction lis arbitrary: dh) (simp_all add: dir_ok_step)

lemma desire_of_state:
  "dir_ok dh \<Longrightarrow> desire dh =
     (if lane_turn_direction dh \<noteq> TD_none then TURN_DESIRES (lane_turn_direction dh)
      else DESIRES (lane_change_direction dh) (lane_change_state dh)) \<Longrightarrow>
   desire dh \<in> {D_laneChangeLeft, D_laneChangeRight} \<Longrightarrow>
     lane_change_state dh \<in> {LC_laneChangeStarting, LC_laneChangeFinishing}
     \<and> lane_change_direction dh = (if desire dh = D_laneChangeLeft then LCD_left else LCD_right)"
  by (auto simp: DESIRES_def TURN_DESIRES_def
      split: LaneChangeDirection.splits LaneChangeState.splits TurnDirection.splits if_splits)

section \<open>The time limit\<close>

definition changing :: "DesireHelper \<Rightarrow> bool" where
  "changing dh \<longleftrightarrow> lane_change_state dh \<in> {LC_laneChangeStarting, LC_laneChangeFinishing}"

lemma changing_step:
  assumes "changing (dh_step li dh)"
  shows "lane_change_timer (dh_step li dh) = lane_change_timer dh + DT_MDL" "lane_change_timer dh \<le> 10"
    "ln_lateral_active li"
  using assms may_go_if_changing [of li dh] dh_step_timer [of li dh] by (auto simp: changing_def may_go_def)

lemma timer_nonneg: "0 \<le> lane_change_timer dh \<Longrightarrow> 0 \<le> lane_change_timer (dh_step li dh)"
  by (simp add: dh_step_timer DT_MDL_def)

lemma timer_nonneg_run: "0 \<le> lane_change_timer dh \<Longrightarrow> 0 \<le> lane_change_timer (dh_run lis dh)"
  unfolding dh_run_def by (induction lis arbitrary: dh) (simp_all add: timer_nonneg)

lemma changing_run:
  assumes "t \<le> lane_change_timer dh" "\<forall>k. 0 < k \<and> k \<le> n \<longrightarrow> changing (dh_run (take k lis) dh)" "n \<le> length lis"
  shows "t + of_nat n * DT_MDL \<le> lane_change_timer (dh_run (take n lis) dh)"
  using assms(2,3)
proof (induction n)
  case 0
  then show ?case
    using assms(1) by (simp add: dh_run_def)
next
  case (Suc n)
  have e: "dh_run (take (Suc n) lis) dh = dh_step (lis ! n) (dh_run (take n lis) dh)"
    using Suc.prems(2) by (simp add: dh_run_def take_Suc_conv_app_nth)
  have "changing (dh_run (take (Suc n) lis) dh)"
    using Suc.prems(1) by blast
  then have "lane_change_timer (dh_run (take (Suc n) lis) dh) = lane_change_timer (dh_run (take n lis) dh) + DT_MDL"
    unfolding e by (rule changing_step(1))
  then show ?case
    using Suc by (simp add: algebra_simps)
qed

lemma dh_run_snoc: "dh_run (lis @ [li]) dh = dh_step li (dh_run lis dh)"
  by (simp add: dh_run_def)

lemma dir_ok_new: "dir_ok (new_DesireHelper lp)"
  by (simp add: dir_ok_def new_DesireHelper_def)

lemma changing_timer:
  "changing (dh_run lis (new_DesireHelper lp)) \<Longrightarrow> DT_MDL \<le> lane_change_timer (dh_run lis (new_DesireHelper lp))"
proof (cases lis rule: rev_cases)
  case Nil
  then show "changing (dh_run lis (new_DesireHelper lp)) \<Longrightarrow> ?thesis"
    by (simp add: dh_run_def changing_def new_DesireHelper_def)
next
  case (snoc lis' li)
  have "0 \<le> lane_change_timer (dh_run lis' (new_DesireHelper lp))"
    by (rule timer_nonneg_run) (simp add: new_DesireHelper_def)
  then show "changing (dh_run lis (new_DesireHelper lp)) \<Longrightarrow> ?thesis"
    using changing_step(1) [of li "dh_run lis' (new_DesireHelper lp)"] by (simp add: snoc dh_run_snoc)
qed

section \<open>What the automatic controller remembers\<close>

text \<open>
  The two flags of \<open>AutoLaneChange\<close> over one step: the brake flag is raised in the state
  \<open>preLaneChange\<close> only, and both are cleared in the state \<open>off\<close>.
\<close>

lemma alc_flags [simp]:
  "prev_brake_pressed (alc_update_lane_change bs br alc) \<longleftrightarrow> prev_brake_pressed alc \<or> br"
  "prev_lane_change (alc_update_lane_change bs br alc) = prev_lane_change alc"
  "prev_brake_pressed (alc_update_state s d alc) \<longleftrightarrow> prev_brake_pressed alc \<and> \<not> (s = LC_off \<and> d = LCD_none)"
  "prev_lane_change (alc_update_state s d alc) \<longleftrightarrow>
     (prev_lane_change alc \<or> s = LC_laneChangeStarting) \<and> \<not> (s = LC_off \<and> d = LCD_none)"
  by (auto simp: alc_update_lane_change_def update_lane_change_timers_def alc_update_state_def alc_reset_def Let_def)

lemma dh_finish_alc [simp]:
  "dh_alc (dh_finish CS dh) = alc_update_state (lane_change_state dh) (lane_change_direction dh) (dh_alc dh)"
  by (simp add: dh_finish_def Let_def)

lemma advance_flags:
  "prev_brake_pressed (dh_alc (advance CS act prob dh)) \<longleftrightarrow> prev_brake_pressed (dh_alc dh)
     \<or> (act \<and> lane_change_timer dh \<le> 10 \<and> lane_change_set_timer (dh_alc dh) \<noteq> ALC_OFF
        \<and> lane_change_state dh = LC_preLaneChange \<and> cs_brakePressed CS)"
  "prev_lane_change (dh_alc (advance CS act prob dh)) = prev_lane_change (dh_alc dh)"
  by (cases "lane_change_state dh"; auto simp: advance_def pre_lane_change_def LANE_CHANGE_TIME_MAX_def Let_def)+

lemma dh_step_flags:
  assumes "dir_ok dh"
  shows "lane_change_state (dh_step li dh) = LC_off \<Longrightarrow>
      \<not> prev_brake_pressed (dh_alc (dh_step li dh)) \<and> \<not> prev_lane_change (dh_alc (dh_step li dh))"
    "lane_change_state (dh_step li dh) \<noteq> LC_off \<Longrightarrow> prev_brake_pressed (dh_alc (dh_step li dh)) \<longleftrightarrow>
      prev_brake_pressed (dh_alc dh) \<or> lane_change_state dh = LC_preLaneChange \<and> cs_brakePressed (ln_CS li)"
    "lane_change_state (dh_step li dh) \<noteq> LC_off \<Longrightarrow> prev_lane_change (dh_alc (dh_step li dh)) \<longleftrightarrow>
      prev_lane_change (dh_alc dh) \<or> lane_change_state (dh_step li dh) = LC_laneChangeStarting"
proof -
  let ?dh = "advance (ln_CS li) (ln_lateral_active li) (ln_prob li) (dh_begin (ln_params li) (ln_CS li) dh)"
  have fin: "dh_step li dh = dh_finish (ln_CS li) ?dh"
    by (simp add: dh_step_def dh_update_def)
  have dir: "lane_change_direction ?dh = LCD_none" if "lane_change_state (dh_step li dh) = LC_off"
    using dir_ok_step [OF assms, of li] that by (simp add: dir_ok_def dh_step_def dh_update_def dh_finish_def Let_def split: if_splits)
  then show "lane_change_state (dh_step li dh) = LC_off \<Longrightarrow>
      \<not> prev_brake_pressed (dh_alc (dh_step li dh)) \<and> \<not> prev_lane_change (dh_alc (dh_step li dh))"
    by (simp add: fin)
  show "lane_change_state (dh_step li dh) \<noteq> LC_off \<Longrightarrow> prev_brake_pressed (dh_alc (dh_step li dh)) \<longleftrightarrow>
      prev_brake_pressed (dh_alc dh) \<or> lane_change_state dh = LC_preLaneChange \<and> cs_brakePressed (ln_CS li)"
    using may_go_if_changing [of li dh] by (simp add: fin advance_flags may_go_def)
  show "lane_change_state (dh_step li dh) \<noteq> LC_off \<Longrightarrow> prev_lane_change (dh_alc (dh_step li dh)) \<longleftrightarrow>
      prev_lane_change (dh_alc dh) \<or> lane_change_state (dh_step li dh) = LC_laneChangeStarting"
    by (simp add: fin advance_flags)
qed

text \<open>
  The frames \<open>lis\<close> end in a wait for a lane change: \<open>entry\<close> is the frame in which the blinker came
  on and the state went from \<open>off\<close> to \<open>preLaneChange\<close>, and \<open>waiting\<close> the frames in
  \<open>preLaneChange\<close> since.
\<close>

definition waits_since :: "LaneParams \<Rightarrow> LaneInput list \<Rightarrow> LaneInput list \<Rightarrow> LaneInput \<Rightarrow> LaneInput list \<Rightarrow> bool" where
  "waits_since lp lis before entry waiting \<longleftrightarrow> lis = before @ entry # waiting
     \<and> lane_change_state (dh_run before (new_DesireHelper lp)) = LC_off
     \<and> list_all (\<lambda>n. lane_change_state (dh_run (before @ entry # take n waiting) (new_DesireHelper lp)) = LC_preLaneChange)
         [0..<Suc (length waiting)]"

lemma waits_since_entry:
  "lane_change_state (dh_run lis (new_DesireHelper lp)) = LC_off \<Longrightarrow>
   lane_change_state (dh_step li (dh_run lis (new_DesireHelper lp))) = LC_preLaneChange \<Longrightarrow>
   waits_since lp (lis @ [li]) lis li []"
  by (simp add: waits_since_def dh_run_snoc)

lemma waits_since_snoc:
  assumes "waits_since lp lis before entry waiting"
    "lane_change_state (dh_step li (dh_run lis (new_DesireHelper lp))) = LC_preLaneChange"
  shows "waits_since lp (lis @ [li]) before entry (waiting @ [li])"
proof -
  have lis: "lis = before @ entry # waiting"
    using assms(1) by (simp add: waits_since_def)
  have last: "lane_change_state (dh_run (before @ entry # waiting @ [li]) (new_DesireHelper lp)) = LC_preLaneChange"
    using assms(2) dh_run_snoc [of lis li] by (simp add: lis)
  have "lane_change_state (dh_run (before @ entry # take n (waiting @ [li])) (new_DesireHelper lp)) = LC_preLaneChange"
    if "n \<le> Suc (length waiting)" for n
  proof (cases "n = Suc (length waiting)")
    case False
    then show ?thesis
      using assms(1) that by (simp add: waits_since_def list_all_iff del: upt_Suc)
  qed (use last in simp)
  then show ?thesis
    using assms(1) by (simp add: waits_since_def list_all_iff del: upt_Suc)
qed

text \<open>In every run the flags tell what happened in the current wait.\<close>

definition remembers :: "LaneParams \<Rightarrow> LaneInput list \<Rightarrow> bool" where
  "remembers lp lis \<longleftrightarrow> (let dh = dh_run lis (new_DesireHelper lp) in
     dir_ok dh
     \<and> (lane_change_state dh = LC_off \<longrightarrow> \<not> prev_brake_pressed (dh_alc dh))
     \<and> (changing dh \<longrightarrow> prev_lane_change (dh_alc dh))
     \<and> (lane_change_state dh = LC_preLaneChange \<and> \<not> prev_lane_change (dh_alc dh) \<and> \<not> prev_brake_pressed (dh_alc dh) \<longrightarrow>
          (\<exists>before entry waiting. waits_since lp lis before entry waiting
             \<and> list_all (\<lambda>w. \<not> cs_brakePressed (ln_CS w)) waiting)))"

lemma remembers_step:
  assumes "remembers lp lis"
  shows "remembers lp (lis @ [li])"
proof -
  define dh where "dh = dh_run lis (new_DesireHelper lp)"
  have dh': "dh_run (lis @ [li]) (new_DesireHelper lp) = dh_step li dh"
    by (simp add: dh_run_snoc dh_def)
  have ok: "dir_ok dh" and off: "lane_change_state dh = LC_off \<Longrightarrow> \<not> prev_brake_pressed (dh_alc dh)"
    and chg: "changing dh \<Longrightarrow> prev_lane_change (dh_alc dh)"
    and pre: "lane_change_state dh = LC_preLaneChange \<Longrightarrow> \<not> prev_lane_change (dh_alc dh) \<Longrightarrow>
      \<not> prev_brake_pressed (dh_alc dh) \<Longrightarrow> \<exists>before entry waiting. waits_since lp lis before entry waiting
        \<and> list_all (\<lambda>w. \<not> cs_brakePressed (ln_CS w)) waiting"
    using assms by (simp_all add: remembers_def dh_def Let_def)
  note flags = dh_step_flags [OF ok, of li]
  note move = dh_step_moves [of li dh]
  have 1: "changing (dh_step li dh) \<Longrightarrow> prev_lane_change (dh_alc (dh_step li dh))"
    using move chg flags(3) by (auto simp: changing_def elim: lane_move.cases)
  have 2: "\<exists>before entry waiting. waits_since lp (lis @ [li]) before entry waiting
        \<and> list_all (\<lambda>w. \<not> cs_brakePressed (ln_CS w)) waiting"
    if p: "lane_change_state (dh_step li dh) = LC_preLaneChange" "\<not> prev_lane_change (dh_alc (dh_step li dh))"
      "\<not> prev_brake_pressed (dh_alc (dh_step li dh))"
  proof (cases "lane_change_state dh = LC_off")
    case True
    then have "waits_since lp (lis @ [li]) lis li []"
      using waits_since_entry [of lis lp li] p(1) by (simp add: dh_def)
    then show ?thesis
      by (intro exI conjI, assumption) simp
  next
    case False
    moreover have "\<not> changing dh"
      using chg flags(3) p by auto
    ultimately have s: "lane_change_state dh = LC_preLaneChange"
      by (cases "lane_change_state dh") (auto simp: changing_def)
    have b: "\<not> prev_brake_pressed (dh_alc dh)" "\<not> cs_brakePressed (ln_CS li)" "\<not> prev_lane_change (dh_alc dh)"
      using flags(2,3) p s by auto
    from pre [OF s b(3,1)] obtain before entry waiting where
      "waits_since lp lis before entry waiting" "list_all (\<lambda>w. \<not> cs_brakePressed (ln_CS w)) waiting"
      by blast
    then have "waits_since lp (lis @ [li]) before entry (waiting @ [li])
        \<and> list_all (\<lambda>w. \<not> cs_brakePressed (ln_CS w)) (waiting @ [li])"
      using waits_since_snoc [of lp lis before entry waiting li] p(1) b(2) by (simp add: dh_def)
    then show ?thesis
      by blast
  qed
  show ?thesis
    using dir_ok_step [OF ok] flags(1) 1 2 by (simp add: remembers_def Let_def dh')
qed

lemma remembers_run: "remembers lp lis"
proof (induction lis rule: rev_induct)
  case Nil
  show ?case
    using dir_ok_new by (simp add: remembers_def dh_run_def)
      (simp add: new_DesireHelper_def new_AutoLaneChange_def alc_read_params_def changing_def)
next
  case (snoc li lis)
  then show ?case
    by (rule remembers_step)
qed

section \<open>Properties\<close>

text \<open>Every step of \<open>DesireHelper.update\<close> makes one of the moves of \<open>lane_move\<close>.\<close>

theorem lane_change_refines:
  "lane_move (ln_CS li) (may_go li dh) (prev_one_blinker dh) (alc_in_pre li dh)
     (lane_change_state dh) (lane_change_state (dh_step li dh))"
  by (rule dh_step_moves)

text \<open>C13 (safety). In every run of \<open>DesireHelper\<close> a lane change only starts from the state \<open>preLaneChange\<close>, with
  lateral control active, exactly one blinker on, at 20 mph or more, with no car in the blind spot of that side,
  and when the driver either pushes the wheel to that side, or chose an automatic mode and does not brake in this
  frame and did not brake in any frame of the wait: the frames since the one in which the state went from
  \<open>off\<close> to \<open>preLaneChange\<close>. (A brake press in that first frame itself is not recorded by the code and
  does not prevent an automatic change.)\<close>

theorem lane_change_needs_consent:
  assumes "dh = dh_run lis (new_DesireHelper lp)" "lane_change_state dh \<noteq> LC_laneChangeStarting"
    "lane_change_state (dh_step li dh) = LC_laneChangeStarting" "CS = ln_CS li" "side = get_lane_change_direction CS"
  shows "lane_change_state dh = LC_preLaneChange \<and> ln_lateral_active li \<and> cs_leftBlinker CS \<noteq> cs_rightBlinker CS
    \<and> 20 * MPH_TO_MS \<le> cs_vEgo CS \<and> \<not> blindspot_detected CS side
    \<and> (torque_applied CS side
       \<or> (lane_change_set_timer (alc_update_params (ln_params li) (dh_alc dh)) \<notin> {ALC_OFF, ALC_NUDGE}
          \<and> \<not> cs_brakePressed CS
          \<and> (\<exists>before entry waiting. waits_since lp lis before entry waiting
               \<and> list_all (\<lambda>w. \<not> cs_brakePressed (ln_CS w)) waiting)))"
proof -
  have start: "lane_change_state dh = LC_preLaneChange" "may_go li dh" "one_blinker CS" "\<not> below_lane_change_speed CS"
    "\<not> blindspot_detected CS side" "torque_applied CS side \<or> auto_lane_change_allowed (alc_in_pre li dh)"
    using dh_step_moves [of li dh] assms(2-5) by (auto simp: lane_move_starting split: if_splits)
  have "\<exists>before entry waiting. waits_since lp lis before entry waiting
      \<and> list_all (\<lambda>w. \<not> cs_brakePressed (ln_CS w)) waiting" if "auto_lane_change_allowed (alc_in_pre li dh)"
    using remembers_run [of lp lis] alc_allowed [OF that] start(1) by (simp add: remembers_def Let_def assms(1))
  then show ?thesis
    using start alc_allowed [of li dh] assms(4)
    by (auto simp: may_go_def one_blinker_def below_lane_change_speed_def LANE_CHANGE_SPEED_MIN_def)
qed

text \<open>In every run, the model is only asked to change lanes while a lane change is under way to that
  side, and never in a frame without lateral control.\<close>

theorem desire_follows_lane_change:
  assumes "desire (dh_step li (dh_run lis (new_DesireHelper lp))) = d" "d = D_laneChangeLeft \<or> d = D_laneChangeRight"
  shows "lane_change_state (dh_step li (dh_run lis (new_DesireHelper lp))) \<in> {LC_laneChangeStarting, LC_laneChangeFinishing}
    \<and> lane_change_direction (dh_step li (dh_run lis (new_DesireHelper lp))) = (if d = D_laneChangeLeft then LCD_left else LCD_right)
    \<and> ln_lateral_active li"
proof -
  let ?dh = "dh_run lis (new_DesireHelper lp)"
  have "dir_ok (new_DesireHelper lp)"
    by (simp add: dir_ok_def new_DesireHelper_def)
  then have i: "dir_ok (dh_step li ?dh)"
    by (intro dir_ok_step dir_ok_run)
  have "desire (dh_step li ?dh) = (if lane_turn_direction (dh_step li ?dh) \<noteq> TD_none
      then TURN_DESIRES (lane_turn_direction (dh_step li ?dh))
      else DESIRES (lane_change_direction (dh_step li ?dh)) (lane_change_state (dh_step li ?dh)))"
    by (simp add: dh_step_def dh_update_def dh_finish_desire)
  from desire_of_state [OF i this] assms
  have s: "lane_change_state (dh_step li ?dh) \<in> {LC_laneChangeStarting, LC_laneChangeFinishing}"
    "lane_change_direction (dh_step li ?dh) = (if d = D_laneChangeLeft then LCD_left else LCD_right)"
    by auto
  then show ?thesis
    using changing_step(3) [of li ?dh] by (simp add: changing_def)
qed

text \<open>C14 (termination). No lane change lasts more than 201 frames (10.05 seconds): of any 202 consecutive states of a
  run, the first one included, one is \<open>off\<close> or \<open>preLaneChange\<close>, whatever the inputs. (The timer is
  tested before it is advanced, so the limit of ten seconds, 200 frames, is passed by one frame.)\<close>

theorem lane_change_ends:
  assumes "201 \<le> length after"
  shows "\<exists>k\<le>201. lane_change_state (dh_run (take k after) (dh_run before (new_DesireHelper lp))) \<in> {LC_off, LC_preLaneChange}"
proof (rule ccontr)
  let ?dh = "dh_run before (new_DesireHelper lp)"
  assume "\<not> ?thesis"
  then have c: "changing (dh_run (take k after) ?dh)" if "k \<le> 201" for k
    using that by (cases "lane_change_state (dh_run (take k after) ?dh)") (force simp: changing_def)+
  have t0: "DT_MDL \<le> lane_change_timer ?dh"
    using c [of 0] by (intro changing_timer) (simp add: dh_run_def)
  have "DT_MDL + of_nat 200 * DT_MDL \<le> lane_change_timer (dh_run (take 200 after) ?dh)"
    using c assms t0 by (intro changing_run) auto
  moreover have "dh_run (take 201 after) ?dh = dh_step (after ! 200) (dh_run (take 200 after) ?dh)"
    using assms take_Suc_conv_app_nth [of 200 after] by (simp add: dh_run_def)
  then have "lane_change_timer (dh_run (take 200 after) ?dh) \<le> 10"
    using c [of 201] changing_step(2) [of "after ! 200"] by simp
  ultimately show False
    by (simp add: DT_MDL_def)
qed

text \<open>Examples: the driver signals left at 20 m/s, and then pushes the wheel to the left.\<close>

definition left_CS :: CarState where
  "left_CS = default_CarState\<lparr>cs_vEgo := 20, cs_leftBlinker := True, cs_steeringPressed := True, cs_steeringTorque := 1\<rparr>"

definition nudge_params :: LaneParams where
  "nudge_params = \<lparr>lp_AutoLaneChangeTimer = 0, lp_AutoLaneChangeBsmDelay = False, lp_LaneTurnDesire = False,
     lp_LaneTurnValue = 19\<rparr>"

definition nudge_frame :: LaneInput where
  "nudge_frame = \<lparr>ln_params = nudge_params, ln_CS = left_CS, ln_lateral_active = True, ln_prob = 0\<rparr>"

text \<open>The same without the push, in the automatic mode "nudgeless": the change starts in the fourth frame.\<close>

definition auto_frame :: LaneInput where
  "auto_frame = \<lparr>ln_params = nudge_params\<lparr>lp_AutoLaneChangeTimer := 1\<rparr>,
     ln_CS = left_CS\<lparr>cs_steeringPressed := False\<rparr>, ln_lateral_active = True, ln_prob = 0\<rparr>"

definition auto_waiting :: DesireHelper where
  "auto_waiting = dh_run [auto_frame, auto_frame] (new_DesireHelper (ln_params auto_frame))"

theorem lane_change_needs_consent_witness:
  "lane_change_state auto_waiting = LC_preLaneChange \<and>
   lane_change_state (dh_step auto_frame auto_waiting) = LC_laneChangeStarting \<and>
   (\<exists>before entry waiting. waits_since (ln_params auto_frame) [auto_frame, auto_frame] before entry waiting
     \<and> list_all (\<lambda>w. \<not> cs_brakePressed (ln_CS w)) waiting)"
proof -
  have s: "lane_change_state auto_waiting \<noteq> LC_laneChangeStarting"
    "lane_change_state (dh_step auto_frame auto_waiting) = LC_laneChangeStarting"
    "\<not> torque_applied (ln_CS auto_frame) (get_lane_change_direction (ln_CS auto_frame))"
    by code_simp+
  from lane_change_needs_consent [OF auto_waiting_def s(1,2) refl refl] s(2,3) show ?thesis
    by blast
qed

theorem desire_follows_lane_change_witness:
  "lane_change_direction (dh_step nudge_frame (dh_run [nudge_frame] (new_DesireHelper nudge_params))) = LCD_left"
proof -
  have "desire (dh_step nudge_frame (dh_run [nudge_frame] (new_DesireHelper nudge_params))) = D_laneChangeLeft"
    by code_simp
  from desire_follows_lane_change [OF this] show ?thesis
    by simp
qed

theorem lane_change_ends_witness:
  "\<exists>k\<le>201. lane_change_state (dh_run (take k (replicate 201 nudge_frame)) (dh_run [nudge_frame] (new_DesireHelper nudge_params)))
     \<in> {LC_off, LC_preLaneChange}"
  using lane_change_ends [of "replicate 201 nudge_frame" "[nudge_frame]" nudge_params] by simp

end
