(* ===== verification/Dec.thy ===== *)
theory Dec
  imports Filters SpeedLimit
begin

text \<open>
  The dynamic experimental controller, \<open>sunnypilot/selfdrive/controls/lib/dec/dec.py\<close> with its constants:
  the smoothing filter, the manager of the mode transitions, and the decision between the modes "acc" and
  "blended". The endpoint attribute, which starts as infinity, is an option.
\<close>

datatype DecMode = Mode_acc | Mode_blended

definition TRAJECTORY_SIZE :: nat where "TRAJECTORY_SIZE = 33"
definition SET_MODE_TIMEOUT :: int where "SET_MODE_TIMEOUT = 15"

section \<open>WMACConstants\<close>

definition LEAD_PROB :: rat where "LEAD_PROB = 45/100"
definition SLOW_DOWN_PROB :: rat where "SLOW_DOWN_PROB = 3/10"
definition SLOW_DOWN_BP :: "rat list" where "SLOW_DOWN_BP = [0, 10, 20, 30, 40, 50, 55, 60]"
definition SLOW_DOWN_DIST :: "rat list" where "SLOW_DOWN_DIST = [32, 46, 64, 86, 108, 130, 145, 165]"
definition SLOWNESS_PROB :: rat where "SLOWNESS_PROB = 55/100"
definition SLOWNESS_CRUISE_OFFSET :: rat where "SLOWNESS_CRUISE_OFFSET = 1025/1000"

section \<open>SmoothKalmanFilter\<close>

record SmoothKalmanFilter =
  kf_x :: rat
  kf_P :: rat
  kf_R :: rat
  kf_Q :: rat
  kf_alpha :: rat
  smoothing_factor :: rat
  kf_initialized :: bool
  kf_history :: "rat list"
  max_history :: nat
  kf_confidence :: rat

definition new_SmoothKalmanFilter :: "rat \<Rightarrow> rat \<Rightarrow> rat \<Rightarrow> rat \<Rightarrow> SmoothKalmanFilter" where
  "new_SmoothKalmanFilter measurement_noise process_noise alpha smoothing =
     \<lparr>kf_x = 0, kf_P = 1, kf_R = measurement_noise, kf_Q = process_noise, kf_alpha = alpha,
      smoothing_factor = smoothing, kf_initialized = False, kf_history = [], max_history = 10,
      kf_confidence = 0\<rparr>"

definition effective_gain :: "rat \<Rightarrow> SmoothKalmanFilter \<Rightarrow> rat" where
  "effective_gain p f =
     (let k = p / (p + kf_R f) in k * (1 - smoothing_factor f) + smoothing_factor f * (1/10))"

definition kf_add_data :: "rat \<Rightarrow> SmoothKalmanFilter \<Rightarrow> SmoothKalmanFilter" where
  "kf_add_data measurement f0 =
     (let h = (if length (kf_history f0) \<ge> max_history f0 then tl (kf_history f0) else kf_history f0);
          f = f0\<lparr>kf_history := h @ [measurement]\<rparr>
      in if \<not> kf_initialized f then f\<lparr>kf_x := measurement, kf_initialized := True, kf_confidence := 1/10\<rparr>
         else
           (let p = kf_alpha f * kf_P f + kf_Q f;
                k = effective_gain p f;
                innovation = measurement - kf_x f
            in f\<lparr>kf_x := kf_x f + k * innovation, kf_P := (1 - k) * p,
                 kf_confidence := (if \<bar>innovation\<bar> < 1/10 then min 1 (kf_confidence f + 5/100)
                                   else max (1/10) (kf_confidence f - 2/100))\<rparr>))"

definition kf_get_value :: "SmoothKalmanFilter \<Rightarrow> rat option" where
  "kf_get_value f = (if kf_initialized f then Some (kf_x f) else None)"

definition kf_reset_data :: "SmoothKalmanFilter \<Rightarrow> SmoothKalmanFilter" where
  "kf_reset_data f = f\<lparr>kf_initialized := False, kf_history := [], kf_confidence := 0\<rparr>"

text \<open>\<open>get_value() or 0.0\<close>.\<close>

definition kf_value_or_0 :: "SmoothKalmanFilter \<Rightarrow> rat" where
  "kf_value_or_0 f = (case kf_get_value f of Some v \<Rightarrow> v | None \<Rightarrow> 0)"

section \<open>ModeTransitionManager\<close>

record ModeManager =
  current_mode :: DecMode
  mode_confidence :: "DecMode \<Rightarrow> rat"
  transition_timeout :: int
  min_mode_duration :: int
  mode_duration :: int
  emergency_override :: bool

definition new_ModeManager :: ModeManager where
  "new_ModeManager =
     \<lparr>current_mode = Mode_acc, mode_confidence = (\<lambda>m. if m = Mode_acc then 1 else 0), transition_timeout = 0,
      min_mode_duration = 10, mode_duration = 0, emergency_override = False\<rparr>"

definition request_mode :: "DecMode \<Rightarrow> rat \<Rightarrow> bool \<Rightarrow> ModeManager \<Rightarrow> ModeManager" where
  "request_mode mode confidence emergency mm0 =
     (if emergency then
        mm0\<lparr>emergency_override := True, current_mode := mode, transition_timeout := SET_MODE_TIMEOUT,
            mode_duration := 0\<rparr>
      else
        (let mm = mm0\<lparr>mode_confidence :=
                        (\<lambda>m. if m = mode then min 1 (mode_confidence mm0 m + 1/10 * confidence)
                             else max 0 (mode_confidence mm0 m - 5/100))\<rparr>;
             threshold = (if mode \<noteq> current_mode mm then 6/10 else 3/10)
         in if mode_duration mm < min_mode_duration mm \<and> \<not> emergency_override mm then mm
            else if mode_confidence mm mode > threshold \<and> mode \<noteq> current_mode mm \<and> transition_timeout mm = 0
            then mm\<lparr>transition_timeout := SET_MODE_TIMEOUT, current_mode := mode, mode_duration := 0\<rparr>
            else mm))"

definition mm_update :: "ModeManager \<Rightarrow> ModeManager" where
  "mm_update mm0 =
     (let mm = mm0\<lparr>transition_timeout := (if transition_timeout mm0 > 0 then transition_timeout mm0 - 1
                                           else transition_timeout mm0),
                   mode_duration := mode_duration mm0 + 1\<rparr>
      in mm\<lparr>emergency_override := (emergency_override mm \<and> \<not> mode_duration mm > 20),
            mode_confidence := (\<lambda>m. mode_confidence mm m * (98/100))\<rparr>)"

section \<open>DynamicExperimentalController\<close>

record Dec =
  dec_enabled :: bool
  dec_active :: bool
  dec_frame :: int
  urgency :: rat
  mode_manager :: ModeManager
  lead_filter :: SmoothKalmanFilter
  slow_down_filter :: SmoothKalmanFilter
  slowness_filter :: SmoothKalmanFilter
  mpc_fcw_filter :: SmoothKalmanFilter
  has_lead_filtered :: bool
  has_slow_down :: bool
  has_slowness :: bool
  has_mpc_fcw :: bool
  v_ego_kph :: rat
  dec_v_cruise_kph :: rat
  has_standstill :: bool
  mpc_fcw_crash_cnt :: int
  standstill_count :: int
  endpoint_x :: "rat option"
  expected_distance :: rat
  trajectory_valid :: bool

definition new_Dec :: "Params \<Rightarrow> Dec" where
  "new_Dec params =
     \<lparr>dec_enabled = get_bool params ''DynamicExperimentalControl'', dec_active = False, dec_frame = 0, urgency = 0,
      mode_manager = new_ModeManager,
      lead_filter = new_SmoothKalmanFilter (15/100) (5/100) (102/100) (8/10),
      slow_down_filter = new_SmoothKalmanFilter (1/10) (1/10) (105/100) (7/10),
      slowness_filter = new_SmoothKalmanFilter (1/10) (6/100) (1015/1000) (92/100),
      mpc_fcw_filter = new_SmoothKalmanFilter (2/10) (1/10) (11/10) (5/10),
      has_lead_filtered = False, has_slow_down = False, has_slowness = False, has_mpc_fcw = False,
      v_ego_kph = 0, dec_v_cruise_kph = 0, has_standstill = False, mpc_fcw_crash_cnt = 0, standstill_count = 0,
      endpoint_x = None, expected_distance = 0, trajectory_valid = False\<rparr>"

text \<open>What a frame reads: the messages, the crash count of the planner's MPC, and the parameter store.\<close>

record DecInput =
  dci_CS :: CarState
  dci_lead_status :: bool
  dci_position_x :: "rat list"
  dci_orientation_x :: "rat list"
  dci_experimentalMode :: bool
  dci_crash_cnt :: int
  dci_params :: Params

definition dec_read_params :: "Params \<Rightarrow> Dec \<Rightarrow> Dec" where
  "dec_read_params params d =
     (if dec_frame d mod py_trunc (1 / DT_MDL) = 0
      then d\<lparr>dec_enabled := get_bool params ''DynamicExperimentalControl''\<rparr> else d)"

text \<open>The urgency of a full trajectory.\<close>

definition trajectory_urgency :: "rat \<Rightarrow> rat \<Rightarrow> rat \<Rightarrow> rat" where
  "trajectory_urgency v_kph endpoint expected =
     (if endpoint < expected then
        (let shortage_ratio = (expected - endpoint) / expected;
             u1 = min 1 (shortage_ratio * 2);
             u2 = (if endpoint < expected * (3/10) then min 1 (u1 * 2) else u1)
         in if v_kph > 25 then min 1 (u2 * (1 + (v_kph - 25) / 80)) else u2)
      else 0)"

definition calculate_slow_down :: "rat list \<Rightarrow> rat list \<Rightarrow> Dec \<Rightarrow> Dec" where
  "calculate_slow_down position_x orientation_x d =
     (if length position_x \<noteq> TRAJECTORY_SIZE \<or> length orientation_x \<noteq> TRAJECTORY_SIZE then
        (let f = kf_add_data (if v_ego_kph d > 20 then 3/10 else 0) (slow_down_filter d);
             u = kf_value_or_0 f
         in d\<lparr>endpoint_x := None, trajectory_valid := False, slow_down_filter := f,
              has_slow_down := u > SLOW_DOWN_PROB, urgency := u\<rparr>)
      else
        (let e = position_x ! (TRAJECTORY_SIZE - 1);
             expected = interp (v_ego_kph d) (zip SLOW_DOWN_BP SLOW_DOWN_DIST);
             f = kf_add_data (trajectory_urgency (v_ego_kph d) e expected) (slow_down_filter d);
             u = kf_value_or_0 f
         in d\<lparr>endpoint_x := Some e, trajectory_valid := True, expected_distance := expected,
              slow_down_filter := f, has_slow_down := u > SLOW_DOWN_PROB * (8/10), urgency := u\<rparr>))"

definition of_bool_rat :: "bool \<Rightarrow> rat" where "of_bool_rat b = (if b then 1 else 0)"

definition calculate_slowness :: "Dec \<Rightarrow> Dec" where
  "calculate_slowness d =
     (if \<not> standstill_count d > 5 \<and> \<not> has_slow_down d then
        (let f = kf_add_data (of_bool_rat (v_ego_kph d \<le> dec_v_cruise_kph d * SLOWNESS_CRUISE_OFFSET)) (slowness_filter d);
             threshold = SLOWNESS_PROB * (if has_slowness d then 8/10 else 11/10)
         in d\<lparr>slowness_filter := f, has_slowness := kf_value_or_0 f > threshold\<rparr>)
      else d)"

definition dec_update_calculations :: "DecInput \<Rightarrow> Dec \<Rightarrow> Dec" where
  "dec_update_calculations di d0 =
     (let CS = dci_CS di;
          n = standstill_count d0;
          lead = kf_add_data (of_bool_rat (dci_lead_status di)) (lead_filter d0);
          fcw = kf_value_or_0 (mpc_fcw_filter d0);
          d1 = d0\<lparr>v_ego_kph := cs_vEgo CS * (36/10), dec_v_cruise_kph := cs_vCruise CS,
                  has_standstill := cs_standstill CS,
                  standstill_count := (if cs_standstill CS then min 20 (n + 1) else max 0 (n - 1)),
                  lead_filter := lead, has_lead_filtered := kf_value_or_0 lead > LEAD_PROB,
                  mpc_fcw_filter := kf_add_data (of_bool_rat (mpc_fcw_crash_cnt d0 > 0)) (mpc_fcw_filter d0),
                  has_mpc_fcw := fcw > 5/10\<rparr>
      in calculate_slowness (calculate_slow_down (dci_position_x di) (dci_orientation_x di) d1))"

text \<open>The request of the frame: mode, confidence, emergency.\<close>

definition slow_down_request :: "rat \<Rightarrow> Dec \<Rightarrow> DecMode \<times> rat \<times> bool" where
  "slow_down_request factor d =
     (if urgency d > 7/10 then (Mode_blended, 1, True) else (Mode_blended, min 1 (urgency d * factor), False))"

definition radarless_mode :: "Dec \<Rightarrow> DecMode \<times> rat \<times> bool" where
  "radarless_mode d =
     (if has_mpc_fcw d then (Mode_blended, 1, True)
      else if standstill_count d > 3 then (Mode_blended, 9/10, False)
      else if has_slow_down d then slow_down_request (15/10) d
      else if has_slowness d \<and> \<not> has_slow_down d then (Mode_acc, 8/10, False)
      else (Mode_acc, 7/10, False))"

definition radar_mode :: "Dec \<Rightarrow> DecMode \<times> rat \<times> bool" where
  "radar_mode d =
     (if has_mpc_fcw d then (Mode_blended, 1, True)
      else if has_lead_filtered d \<and> \<not> standstill_count d > 3 then (Mode_acc, 1, False)
      else if has_slow_down d then slow_down_request (13/10) d
      else if standstill_count d > 3 then (Mode_blended, 9/10, False)
      else if has_slowness d \<and> \<not> has_slow_down d then (Mode_acc, 8/10, False)
      else (Mode_acc, 7/10, False))"

definition dec_sample :: "DecInput \<Rightarrow> Dec \<Rightarrow> Dec" where
  "dec_sample di d =
     dec_update_calculations di ((dec_read_params (dci_params di) d)\<lparr>mpc_fcw_crash_cnt := dci_crash_cnt di\<rparr>)"

definition dec_update :: "bool \<Rightarrow> DecInput \<Rightarrow> Dec \<Rightarrow> Dec" where
  "dec_update radarUnavailable di d0 =
     (let d = dec_sample di d0;
          (mode, confidence, emergency) = (if radarUnavailable then radarless_mode d else radar_mode d)
      in d\<lparr>mode_manager := mm_update (request_mode mode confidence emergency (mode_manager d)),
           dec_active := dci_experimentalMode di \<and> dec_enabled d, dec_frame := dec_frame d + 1\<rparr>)"

definition dec_mode :: "Dec \<Rightarrow> DecMode" where "dec_mode d = current_mode (mode_manager d)"

section \<open>The filter stays between its measurements\<close>

definition kf_ok :: "SmoothKalmanFilter \<Rightarrow> bool" where
  "kf_ok f \<longleftrightarrow>
     0 < kf_P f \<and> 0 < kf_R f \<and> 0 \<le> kf_Q f \<and> 0 < kf_alpha f \<and> 0 \<le> smoothing_factor f \<and> smoothing_factor f \<le> 1
     \<and> kf_x f \<in> {0..1} \<and> kf_confidence f \<in> {0..1} \<and> length (kf_history f) \<le> 10 \<and> max_history f = 10"

lemma effective_gain_range:
  assumes "0 < p" "0 < kf_R f" "0 \<le> smoothing_factor f" "smoothing_factor f \<le> 1"
  shows "0 < effective_gain p f" "effective_gain p f < 1"
proof -
  define k where "k = p / (p + kf_R f)"
  have k: "0 < k" "k < 1"
    using assms by (simp_all add: k_def divide_less_eq)
  have e: "effective_gain p f = k + smoothing_factor f * (1/10 - k)"
    by (simp add: effective_gain_def Let_def k_def [symmetric] algebra_simps)
  have e': "effective_gain p f = k * (1 - smoothing_factor f) + smoothing_factor f * (1/10)"
    by (simp add: effective_gain_def Let_def k_def [symmetric])
  have "0 < k * (1 - smoothing_factor f) + smoothing_factor f * (1/10)"
  proof (cases "smoothing_factor f = 0")
    case True
    then show ?thesis using k by simp
  next
    case False
    then have "0 < smoothing_factor f * (1/10)" "0 \<le> k * (1 - smoothing_factor f)"
      using assms k by simp_all
    then show ?thesis by linarith
  qed
  then show "0 < effective_gain p f"
    using e' by simp
  have "k * (1 - smoothing_factor f) + smoothing_factor f * (1/10) < 1"
  proof (cases "smoothing_factor f = 1")
    case True
    then show ?thesis by simp
  next
    case False
    then have "k * (1 - smoothing_factor f) < 1 * (1 - smoothing_factor f)"
      using assms k by (intro mult_strict_right_mono) simp_all
    moreover have "smoothing_factor f * (1/10) \<le> smoothing_factor f"
      using assms by simp
    ultimately have "k * (1 - smoothing_factor f) + smoothing_factor f * (1/10) < 1 * (1 - smoothing_factor f) + smoothing_factor f"
      by (rule add_less_le_mono)
    then show ?thesis by simp
  qed
  then show "effective_gain p f < 1"
    using e' by simp
qed

lemma convex_unit:
  fixes x m k :: rat
  assumes "0 < k" "k < 1" "0 \<le> x" "x \<le> 1" "0 \<le> m" "m \<le> 1"
  shows "0 \<le> x + k * (m - x)" "x + k * (m - x) \<le> 1"
proof -
  have e: "x + k * (m - x) = (1 - k) * x + k * m"
    by (simp add: algebra_simps)
  have "0 \<le> (1 - k) * x" "0 \<le> k * m"
    using assms by simp_all
  then show "0 \<le> x + k * (m - x)"
    unfolding e by linarith
  have "(1 - k) * x \<le> (1 - k) * 1" "k * m \<le> k * 1"
    using assms by (intro mult_left_mono; simp)+
  then have "(1 - k) * x + k * m \<le> (1 - k) * 1 + k * 1"
    by (rule add_mono)
  then show "x + k * (m - x) \<le> 1"
    unfolding e by simp
qed

lemma kf_ok_add:
  assumes "kf_ok f" "0 \<le> m" "m \<le> 1"
  shows "kf_ok (kf_add_data m f)" "kf_initialized (kf_add_data m f)"
proof -
  define p where "p = kf_alpha f * kf_P f + kf_Q f"
  have p: "0 < p"
    using assms(1) by (simp add: p_def kf_ok_def add_pos_nonneg)
  define k where "k = effective_gain p f"
  have k: "0 < k" "k < 1"
    using effective_gain_range [OF p, of f] assms(1) by (simp_all add: k_def kf_ok_def)
  define h where "h = (if length (kf_history f) \<ge> max_history f then tl (kf_history f) else kf_history f) @ [m]"
  have h: "length h \<le> 10"
    using assms(1) by (auto simp: h_def kf_ok_def)
  have e: "kf_add_data m f =
      (if \<not> kf_initialized f then f\<lparr>kf_history := h, kf_x := m, kf_initialized := True, kf_confidence := 1/10\<rparr>
       else f\<lparr>kf_history := h, kf_x := kf_x f + k * (m - kf_x f), kf_P := (1 - k) * p,
              kf_confidence := (if \<bar>m - kf_x f\<bar> < 1/10 then min 1 (kf_confidence f + 5/100)
                                else max (1/10) (kf_confidence f - 2/100))\<rparr>)"
    by (simp add: kf_add_data_def Let_def h_def k_def p_def effective_gain_def)
  show "kf_initialized (kf_add_data m f)"
    by (simp add: e)
  show "kf_ok (kf_add_data m f)"
    using assms h k p convex_unit [OF k, of "kf_x f" m] by (simp add: e kf_ok_def le_max_iff_disj)
qed

lemma kf_value_range: "kf_ok f \<Longrightarrow> 0 \<le> kf_value_or_0 f \<and> kf_value_or_0 f \<le> 1"
  by (simp add: kf_value_or_0_def kf_get_value_def kf_ok_def)

section \<open>The mode manager\<close>

definition mm_ok :: "ModeManager \<Rightarrow> bool" where
  "mm_ok mm \<longleftrightarrow>
     (\<forall>m. mode_confidence mm m \<in> {0..1}) \<and> transition_timeout mm \<in> {0..15} \<and> 0 \<le> mode_duration mm"

lemma mm_ok_confidence:
  assumes "mm_ok mm"
  shows "0 \<le> mode_confidence mm m" "mode_confidence mm m \<le> 1" "mode_confidence mm m - 1/20 \<le> 1"
    "mode_confidence mm m * 49 \<le> 50"
proof -
  show c: "0 \<le> mode_confidence mm m" "mode_confidence mm m \<le> 1"
    using assms by (simp_all add: mm_ok_def)
  then show "mode_confidence mm m - 1/20 \<le> 1" "mode_confidence mm m * 49 \<le> 50"
    by linarith+
qed

lemma mm_ok_request:
  assumes "mm_ok mm" "0 \<le> c"
  shows "mm_ok (request_mode mode c e mm)"
  using assms mm_ok_confidence [OF assms(1)] unfolding mm_ok_def request_mode_def Let_def SET_MODE_TIMEOUT_def
  by simp

lemma mm_ok_update:
  assumes "mm_ok mm"
  shows "mm_ok (mm_update mm)"
  using assms mm_ok_confidence [OF assms] unfolding mm_ok_def mm_update_def Let_def by simp

text \<open>While the time-out runs, a request that is no emergency does not change the mode.\<close>

lemma request_during_timeout:
  "0 < transition_timeout mm \<Longrightarrow> current_mode (request_mode mode c False mm) = current_mode mm
     \<and> transition_timeout (request_mode mode c False mm) = transition_timeout mm"
  by (simp add: request_mode_def Let_def)

lemma request_changes:
  "current_mode (request_mode mode c e mm) \<noteq> current_mode mm \<Longrightarrow>
     transition_timeout (request_mode mode c e mm) = 15"
  by (auto simp: request_mode_def Let_def SET_MODE_TIMEOUT_def split: if_splits)

lemma mm_update_fields [simp]:
  "current_mode (mm_update mm) = current_mode mm"
  "transition_timeout (mm_update mm) = (if transition_timeout mm > 0 then transition_timeout mm - 1 else transition_timeout mm)"
  by (simp_all add: mm_update_def Let_def)

section \<open>The invariant\<close>

definition dec_inv :: "Dec \<Rightarrow> bool" where
  "dec_inv d \<longleftrightarrow>
     kf_ok (lead_filter d) \<and> kf_ok (slow_down_filter d) \<and> kf_ok (slowness_filter d) \<and> kf_ok (mpc_fcw_filter d)
     \<and> mm_ok (mode_manager d) \<and> urgency d \<in> {0..1} \<and> standstill_count d \<in> {0..20}"

lemma dec_inv_new: "dec_inv (new_Dec params)"
  by (simp add: dec_inv_def new_Dec_def kf_ok_def new_SmoothKalmanFilter_def mm_ok_def new_ModeManager_def)

lemma trajectory_urgency_range:
  assumes "0 < expected"
  shows "0 \<le> trajectory_urgency v e expected \<and> trajectory_urgency v e expected \<le> 1"
proof (cases "e < expected")
  case True
  define u1 where "u1 = min 1 ((expected - e) / expected * 2)"
  define u2 where "u2 = (if e < expected * (3/10) then min 1 (u1 * 2) else u1)"
  have "0 \<le> (expected - e) / expected * 2"
    using True assms by simp
  then have u1: "0 \<le> u1" "u1 \<le> 1"
    by (simp_all add: u1_def)
  then have u2: "0 \<le> u2" "u2 \<le> 1"
    by (simp_all add: u2_def)
  have "trajectory_urgency v e expected = (if v > 25 then min 1 (u2 * (1 + (v - 25) / 80)) else u2)"
    using True unfolding trajectory_urgency_def Let_def u1_def u2_def by (simp only: if_True)
  moreover have "0 \<le> u2 * (1 + (v - 25) / 80)" if "v > 25"
    using u2 that by simp
  ultimately show ?thesis
    using u2 by simp
qed (simp add: trajectory_urgency_def)

lemma expected_positive: "0 < interp v (zip SLOW_DOWN_BP SLOW_DOWN_DIST)"
proof -
  have "32 \<le> interp v (zip SLOW_DOWN_BP SLOW_DOWN_DIST) \<and> interp v (zip SLOW_DOWN_BP SLOW_DOWN_DIST) \<le> 165"
    by (rule interp_between) (simp_all add: SLOW_DOWN_BP_def SLOW_DOWN_DIST_def)
  then show ?thesis by linarith
qed

lemma slow_down_inv: "dec_inv d \<Longrightarrow> dec_inv (calculate_slow_down px ox d)"
  unfolding calculate_slow_down_def Let_def
  by (auto simp: dec_inv_def kf_ok_add kf_value_range trajectory_urgency_range expected_positive)

lemma slowness_inv: "dec_inv d \<Longrightarrow> dec_inv (calculate_slowness d)"
  unfolding calculate_slowness_def Let_def by (auto simp: dec_inv_def kf_ok_add of_bool_rat_def)

lemma dec_sample_inv: "dec_inv d \<Longrightarrow> dec_inv (dec_sample di d)"
  unfolding dec_sample_def dec_update_calculations_def dec_read_params_def Let_def
  by (rule slowness_inv, rule slow_down_inv) (auto simp: dec_inv_def kf_ok_add of_bool_rat_def)

definition dec_request :: "bool \<Rightarrow> Dec \<Rightarrow> DecMode \<times> rat \<times> bool" where
  "dec_request radarUnavailable d = (if radarUnavailable then radarless_mode d else radar_mode d)"

lemma dec_request_confidence: "dec_inv d \<Longrightarrow> 0 \<le> fst (snd (dec_request rl d))"
  by (auto simp: dec_request_def radarless_mode_def radar_mode_def slow_down_request_def dec_inv_def)

lemma dec_update_manager:
  "mode_manager (dec_update rl di d) =
     mm_update (request_mode (fst (dec_request rl (dec_sample di d))) (fst (snd (dec_request rl (dec_sample di d))))
       (snd (snd (dec_request rl (dec_sample di d)))) (mode_manager (dec_sample di d)))"
  by (simp add: dec_update_def dec_request_def Let_def split: prod.splits)

lemma dec_sample_manager [simp]: "mode_manager (dec_sample di d) = mode_manager d"
  by (simp add: dec_sample_def dec_update_calculations_def calculate_slowness_def calculate_slow_down_def
      dec_read_params_def Let_def)

lemma dec_update_inv:
  assumes "dec_inv d"
  shows "dec_inv (dec_update rl di d)"
proof -
  let ?s = "dec_sample di d"
  have i: "dec_inv ?s"
    using dec_sample_inv [OF assms] .
  have "mm_ok (mode_manager (dec_update rl di d))"
    unfolding dec_update_manager using i dec_request_confidence [OF i]
    by (intro mm_ok_update mm_ok_request) (simp_all add: dec_inv_def)
  then show ?thesis
    using i by (simp add: dec_inv_def dec_update_def Let_def split: prod.splits)
qed

section \<open>Runs\<close>

definition dec_run :: "bool \<Rightarrow> DecInput list \<Rightarrow> Dec \<Rightarrow> Dec" where
  "dec_run rl dis d = fold (dec_update rl) dis d"

lemma dec_run_inv: "dec_inv d \<Longrightarrow> dec_inv (dec_run rl dis d)"
  unfolding dec_run_def by (induction dis arbitrary: d) (simp_all add: dec_update_inv)

text \<open>No frame of the run is an emergency: a warning of the planner, or an urgency above 0.7.\<close>

fun calm :: "bool \<Rightarrow> DecInput list \<Rightarrow> Dec \<Rightarrow> bool" where
  "calm rl [] d = True"
| "calm rl (di # dis) d \<longleftrightarrow>
     \<not> snd (snd (dec_request rl (dec_sample di d))) \<and> calm rl dis (dec_update rl di d)"

lemma emergency_cause:
  "snd (snd (dec_request rl d)) \<Longrightarrow> has_mpc_fcw d \<or> (has_slow_down d \<and> urgency d > 7/10)"
  by (auto simp: dec_request_def radarless_mode_def radar_mode_def slow_down_request_def split: if_splits)

lemma calm_during_timeout:
  assumes "calm rl dis d" "int (length dis) \<le> transition_timeout (mode_manager d)"
  shows "dec_mode (dec_run rl dis d) = dec_mode d"
  using assms
proof (induction dis arbitrary: d)
  case (Cons di dis)
  let ?r = "dec_request rl (dec_sample di d)"
  have t: "0 < transition_timeout (mode_manager d)" "\<not> snd (snd ?r)"
    using Cons.prems by simp_all
  have m: "mode_manager (dec_update rl di d) = mm_update (request_mode (fst ?r) (fst (snd ?r)) False (mode_manager d))"
    using t(2) by (simp add: dec_update_manager)
  have "int (length dis) \<le> transition_timeout (mode_manager (dec_update rl di d))"
    using Cons.prems(2) t(1) request_during_timeout [OF t(1)] by (simp add: m)
  with Cons.IH [of "dec_update rl di d"] Cons.prems(1) show ?case
    using request_during_timeout [OF t(1)] by (simp add: dec_run_def dec_mode_def m)
qed (simp add: dec_run_def)

section \<open>Properties\<close>

text \<open>In every run all filtered signals, the urgency and the mode confidences stay between 0 and 1,
  the standstill counter between 0 and 20 and the time-out between 0 and 15, whatever trajectories the model sends.\<close>

theorem dec_invariant:
  "kf_value_or_0 (lead_filter (dec_run rl dis (new_Dec params))) \<in> {0..1}
   \<and> urgency (dec_run rl dis (new_Dec params)) \<in> {0..1}
   \<and> (\<forall>m. mode_confidence (mode_manager (dec_run rl dis (new_Dec params))) m \<in> {0..1})
   \<and> standstill_count (dec_run rl dis (new_Dec params)) \<in> {0..20}
   \<and> transition_timeout (mode_manager (dec_run rl dis (new_Dec params))) \<in> {0..15}"
  using dec_run_inv [OF dec_inv_new, of rl dis params] kf_value_range by (auto simp: dec_inv_def mm_ok_def)

text \<open>The controller does not flap: after a change of the mode, the mode stays for the next fourteen frames,
  unless one of them is an emergency (a collision warning of the planner or an urgency above 0.7).\<close>

theorem dec_does_not_flap:
  assumes "dec_mode (dec_update rl di d) \<noteq> dec_mode d" "calm rl dis (dec_update rl di d)" "length dis \<le> 14"
  shows "dec_mode (dec_run rl dis (dec_update rl di d)) = dec_mode (dec_update rl di d)"
proof -
  have "transition_timeout (mode_manager (dec_update rl di d)) = 14"
    using assms(1) request_changes by (force simp: dec_mode_def dec_update_manager)
  then show ?thesis
    using calm_during_timeout [OF assms(2)] assms(3) by simp
qed

definition calm_input :: DecInput where
  "calm_input = \<lparr>dci_CS = default_CarState\<lparr>cs_vEgo := 10, cs_vCruise := 100\<rparr>, dci_lead_status = True,
     dci_position_x = replicate 33 200, dci_orientation_x = replicate 33 0, dci_experimentalMode = True,
     dci_crash_cnt = 0, dci_params = Map.empty\<rparr>"

definition blended_dec :: Dec where
  "blended_dec = (new_Dec Map.empty)\<lparr>mode_manager := new_ModeManager\<lparr>current_mode := Mode_blended, mode_duration := 20\<rparr>\<rparr>"

theorem dec_does_not_flap_witness:
  "let d = dec_update False calm_input blended_dec
   in dec_mode d = Mode_acc \<and> dec_mode (dec_run False [calm_input, calm_input] d) = Mode_acc"
proof -
  let ?d = "dec_update False calm_input blended_dec"
  have a: "dec_mode ?d = Mode_acc" "dec_mode blended_dec = Mode_blended" "calm False [calm_input, calm_input] ?d"
    by code_simp+
  then show ?thesis
    using dec_does_not_flap [of False calm_input blended_dec "[calm_input, calm_input]"] by (simp add: Let_def)
qed

end
