(* ===== verification/PowerMonitoring.thy ===== *)
theory PowerMonitoring
  imports Filters Platform
begin

text \<open>
  The power monitor of \<open>system/hardware/power_monitoring.py\<close>, which decides when a parked device shuts
  down, and the fan controller of \<open>system/hardware/fan_controller.py\<close>. The clock (\<open>time.monotonic\<close>) and
  the measured power draw are arguments; the lock, the statistics and the log calls are left out. A
  \<open>ValueError\<close> is caught inside the methods that raise it, so it is a branch that leaves the rest undone.
\<close>

section \<open>power\_monitoring\<close>

definition CAR_VOLTAGE_LOW_PASS_K :: rat where "CAR_VOLTAGE_LOW_PASS_K = 11/1000"
definition CAR_BATTERY_CAPACITY_uWh :: rat where "CAR_BATTERY_CAPACITY_uWh = 30000000"
definition CAR_CHARGING_RATE_W :: rat where "CAR_CHARGING_RATE_W = 45"
definition VBATT_PAUSE_CHARGING :: rat where "VBATT_PAUSE_CHARGING = 118/10"
definition MAX_TIME_OFFROAD_S :: rat where "MAX_TIME_OFFROAD_S = 30 * 3600"
definition MIN_ON_TIME_S :: rat where "MIN_ON_TIME_S = 3600"
definition DELAY_SHUTDOWN_TIME_S :: rat where "DELAY_SHUTDOWN_TIME_S = 300"
definition VOLTAGE_SHUTDOWN_MIN_OFFROAD_TIME_S :: rat where "VOLTAGE_SHUTDOWN_MIN_OFFROAD_TIME_S = 60"

lemmas power_constants = CAR_VOLTAGE_LOW_PASS_K_def CAR_BATTERY_CAPACITY_uWh_def CAR_CHARGING_RATE_W_def
  VBATT_PAUSE_CHARGING_def MAX_TIME_OFFROAD_S_def MIN_ON_TIME_S_def DELAY_SHUTDOWN_TIME_S_def
  VOLTAGE_SHUTDOWN_MIN_OFFROAD_TIME_S_def

record PowerMonitoring =
  last_measurement_time :: "rat option"
  last_save_time :: rat
  power_used_uWh :: rat
  next_pulsed_measurement_time :: "rat option"
  car_voltage_mV :: rat
  car_voltage_instant_mV :: rat
  car_battery_capacity_uWh :: rat

definition new_PowerMonitoring :: "Params \<Rightarrow> PowerMonitoring" where
  "new_PowerMonitoring params =
     \<lparr>last_measurement_time = None, last_save_time = 0, power_used_uWh = 0, next_pulsed_measurement_time = None,
      car_voltage_mV = 12000, car_voltage_instant_mV = 12000,
      car_battery_capacity_uWh = max (CAR_BATTERY_CAPACITY_uWh / 10)
        (case params ''CarBatteryCapacity'' of Some c \<Rightarrow> of_int c | None \<Rightarrow> 0)\<rparr>"

text \<open>The time 0 is falsy in Python, so a measurement at 0 is not integrated.\<close>

definition perform_integration :: "rat \<Rightarrow> rat \<Rightarrow> PowerMonitoring \<Rightarrow> PowerMonitoring" where
  "perform_integration t current_power pm =
     (case last_measurement_time pm of
        None \<Rightarrow> pm
      | Some l \<Rightarrow>
          if l = 0 then pm
          else (let integration_time_h = (t - l) / 3600;
                    power_used = current_power * 1000000 * integration_time_h
                in if power_used < 0 then pm
                   else pm\<lparr>power_used_uWh := power_used_uWh pm + power_used,
                           car_battery_capacity_uWh := car_battery_capacity_uWh pm - power_used,
                           last_measurement_time := Some t\<rparr>))"

text \<open>The part of \<open>calculate\<close> before the integration: the filter, the cap and the saved capacity.\<close>

definition measure_voltage :: "rat \<Rightarrow> rat \<Rightarrow> PowerMonitoring \<times> Params \<Rightarrow> PowerMonitoring \<times> Params" where
  "measure_voltage now voltage = (\<lambda>(pm0, params).
     let cap = min (max (car_battery_capacity_uWh pm0) 0) CAR_BATTERY_CAPACITY_uWh;
         pm = pm0\<lparr>car_voltage_instant_mV := voltage,
                  car_voltage_mV := voltage * CAR_VOLTAGE_LOW_PASS_K + car_voltage_mV pm0 * (1 - CAR_VOLTAGE_LOW_PASS_K),
                  car_battery_capacity_uWh := cap\<rparr>
     in if now - last_save_time pm \<ge> 10
        then (pm\<lparr>last_save_time := now\<rparr>, params(''CarBatteryCapacity'' \<mapsto> py_trunc cap))
        else (pm, params))"

definition integrate_charge :: "rat \<Rightarrow> rat \<Rightarrow> PowerMonitoring \<Rightarrow> PowerMonitoring" where
  "integrate_charge now l pm =
     (let integration_time_h = (now - l) / 3600
      in if integration_time_h < 0 then pm\<lparr>power_used_uWh := 0\<rparr>
         else pm\<lparr>power_used_uWh := 0,
                 car_battery_capacity_uWh :=
                   car_battery_capacity_uWh pm + CAR_CHARGING_RATE_W * 1000000 * integration_time_h,
                 last_measurement_time := Some now\<rparr>)"

definition calculate :: "rat \<Rightarrow> rat \<Rightarrow> rat option \<Rightarrow> bool \<Rightarrow> PowerMonitoring \<times> Params \<Rightarrow>
    PowerMonitoring \<times> Params" where
  "calculate now current_power voltage ignition s =
     (case voltage of
        None \<Rightarrow> ((fst s)\<lparr>last_measurement_time := None, next_pulsed_measurement_time := None, power_used_uWh := 0\<rparr>, snd s)
      | Some v \<Rightarrow>
          (let (pm, params) = measure_voltage now v s
           in case last_measurement_time pm of
                None \<Rightarrow> (pm\<lparr>last_measurement_time := Some now\<rparr>, params)
              | Some l \<Rightarrow> (if ignition then integrate_charge now l pm
                            else perform_integration now current_power pm, params)))"

definition get_power_used :: "PowerMonitoring \<Rightarrow> int" where
  "get_power_used pm = py_trunc (power_used_uWh pm)"

definition get_car_battery_capacity :: "PowerMonitoring \<Rightarrow> int" where
  "get_car_battery_capacity pm = py_trunc (car_battery_capacity_uWh pm)"

definition max_time_offroad_exceeded :: "Params \<Rightarrow> rat \<Rightarrow> bool" where
  "max_time_offroad_exceeded params offroad_time =
     (let limit = (case params ''MaxTimeOffroad'' of
                     Some p \<Rightarrow> if p \<ge> 0 then of_int (p * 60) else MAX_TIME_OFFROAD_S
                   | None \<Rightarrow> MAX_TIME_OFFROAD_S)
      in 0 < limit \<and> limit \<le> offroad_time)"

definition should_shutdown :: "Params \<Rightarrow> rat \<Rightarrow> bool \<Rightarrow> bool \<Rightarrow> rat option \<Rightarrow> bool \<Rightarrow> PowerMonitoring \<Rightarrow> bool" where
  "should_shutdown params now ignition in_car offroad_timestamp started_seen pm =
     (case offroad_timestamp of
        None \<Rightarrow> False
      | Some ts \<Rightarrow>
          (let offroad_time = now - ts;
               low_voltage = car_voltage_mV pm < VBATT_PAUSE_CHARGING * 1000
                             \<and> offroad_time > VOLTAGE_SHUTDOWN_MIN_OFFROAD_TIME_S;
               due = (max_time_offroad_exceeded params offroad_time \<or> low_voltage
                      \<or> car_battery_capacity_uWh pm \<le> 0)
                     \<and> \<not> ignition \<and> \<not> get_bool params ''DisablePowerDown'' \<and> in_car
                     \<and> offroad_time > DELAY_SHUTDOWN_TIME_S
           in (due \<or> get_bool params ''ForcePowerDown'') \<and> (started_seen \<or> now > MIN_ON_TIME_S)))"

section \<open>fan\_controller\<close>

text \<open>The set point is 5 degrees higher except on the device type "mici".\<close>

definition FAN_OFFSET :: "bool \<Rightarrow> rat" where "FAN_OFFSET is_mici = (if is_mici then 0 else 5)"

record FanController =
  last_ignition :: bool
  controller :: PIDController

definition new_FanController :: "rat \<Rightarrow> FanController" where
  "new_FanController rate =
     \<lparr>last_ignition = False,
      controller = new_PIDController (number_gain 0) (number_gain (4/1000)) (number_gain 0) (10 ^ 308) (- (10 ^ 308)) rate\<rparr>"

definition fan_update :: "bool \<Rightarrow> rat \<Rightarrow> bool \<Rightarrow> FanController \<Rightarrow> (int \<times> FanController) option" where
  "fan_update is_mici cur_temp ignition fc =
     (let c = set_limits (if ignition then 100 else 30) (if ignition then 30 else 0) (controller fc);
          c' = (if ignition \<noteq> last_ignition fc then pid_reset c else c)
      in do {
        ff \<leftarrow> np_interp cur_temp [60 + FAN_OFFSET is_mici, 100 + FAN_OFFSET is_mici] [0, 100];
        c'' \<leftarrow> pid_update (cur_temp - (75 + FAN_OFFSET is_mici)) 0 0 ff False c';
        Some (py_trunc (control c''), \<lparr>last_ignition = ignition, controller = c''\<rparr>)
      })"

section \<open>The monitor over a run\<close>

text \<open>A tick is the time, the power draw, the voltage (\<open>None\<close> without a panda) and the ignition.\<close>

type_synonym Tick = "rat \<times> rat \<times> rat option \<times> bool"

definition ticks :: "Tick list \<Rightarrow> PowerMonitoring \<times> Params \<Rightarrow> PowerMonitoring \<times> Params" where
  "ticks ts s = fold (\<lambda>(now, draw, voltage, ignition). calculate now draw voltage ignition) ts s"

lemma ticks_Cons [simp]: "ticks ((now, d, v, i) # ts) s = ticks ts (calculate now d v i s)"
  by (simp add: ticks_def)

lemma ticks_Nil [simp]: "ticks [] s = s"
  by (simp add: ticks_def)

lemmas calculate_defs = calculate_def measure_voltage_def integrate_charge_def perform_integration_def Let_def

lemma calculate_params:
  "snd (calculate now d v i (pm, params)) = params \<or>
   (\<exists>c. 0 \<le> c \<and> c \<le> CAR_BATTERY_CAPACITY_uWh
        \<and> snd (calculate now d v i (pm, params)) = params(''CarBatteryCapacity'' \<mapsto> py_trunc c))"
proof -
  have "0 \<le> min (max (car_battery_capacity_uWh pm) 0) CAR_BATTERY_CAPACITY_uWh"
    by (simp add: CAR_BATTERY_CAPACITY_uWh_def)
  then show ?thesis
    by (auto simp: calculate_def measure_voltage_def Let_def split: option.splits intro!: exI [of _ "min (max (car_battery_capacity_uWh pm) 0) CAR_BATTERY_CAPACITY_uWh"])
qed

text \<open>The filtered voltage stays in every interval that holds it and the measured voltages.\<close>

lemma calculate_voltage:
  assumes "lo \<le> car_voltage_mV pm" "car_voltage_mV pm \<le> hi" "\<forall>x. v = Some x \<longrightarrow> lo \<le> x \<and> x \<le> hi"
  shows "lo \<le> car_voltage_mV (fst (calculate now d v i (pm, params)))
    \<and> car_voltage_mV (fst (calculate now d v i (pm, params))) \<le> hi"
proof (cases v)
  case None
  then show ?thesis
    using assms by (simp add: calculate_def)
next
  case (Some x)
  have "car_voltage_mV (fst (calculate now d v i (pm, params))) = x * (11/1000) + car_voltage_mV pm * (989/1000)"
    using Some by (simp add: calculate_defs CAR_VOLTAGE_LOW_PASS_K_def split: option.split)
  then show ?thesis
    using assms Some by auto
qed

definition stored_ok :: "Params \<Rightarrow> bool" where
  "stored_ok params \<longleftrightarrow> (\<forall>c. params ''CarBatteryCapacity'' = Some c \<longrightarrow> 0 \<le> c \<and> c \<le> 30000000)"

lemma py_trunc_bounds: "0 \<le> c \<Longrightarrow> c \<le> 30000000 \<Longrightarrow> 0 \<le> py_trunc c \<and> py_trunc c \<le> 30000000"
  by (auto simp: py_trunc_def le_floor_iff floor_le_iff)

lemma stored_ok_calculate: "stored_ok params \<Longrightarrow> stored_ok (snd (calculate now d v i (pm, params)))"
  using calculate_params [of now d v i pm params] py_trunc_bounds
  by (auto simp: stored_ok_def CAR_BATTERY_CAPACITY_uWh_def)

lemma get_bool_calculate:
  "k \<noteq> ''CarBatteryCapacity'' \<Longrightarrow> get_bool (snd (calculate now d v i (pm, params))) k = get_bool params k"
  using calculate_params [of now d v i pm params] by (auto simp: get_bool_def)

section \<open>A parked car\<close>

text \<open>One measurement while parked takes at least the power \<open>P\<close> times the elapsed time.\<close>

lemma parked_step:
  assumes "last_measurement_time pm = Some l" "0 < l" "l < now" "P \<le> d" "0 \<le> P"
    "min (car_battery_capacity_uWh pm) CAR_BATTERY_CAPACITY_uWh \<le> max 0 e"
  shows "last_measurement_time (fst (calculate now d (Some v) False (pm, params))) = Some now"
    and "min (car_battery_capacity_uWh (fst (calculate now d (Some v) False (pm, params)))) CAR_BATTERY_CAPACITY_uWh
      \<le> max 0 (e - P * 1000000 * ((now - l) / 3600))"
proof -
  let ?h = "(now - l) / 3600"
  define cap where "cap = min (max (car_battery_capacity_uWh pm) 0) CAR_BATTERY_CAPACITY_uWh"
  have u: "P * 1000000 * ?h \<le> d * 1000000 * ?h" "0 \<le> P * 1000000 * ?h"
    using assms(3,4,5) by (simp_all add: divide_right_mono mult_right_mono)
  then have n: "\<not> d * 1000000 * ?h < 0"
    by linarith
  have s: "last_measurement_time (fst (calculate now d (Some v) False (pm, params))) = Some now
    \<and> car_battery_capacity_uWh (fst (calculate now d (Some v) False (pm, params))) = cap - d * 1000000 * ?h"
    using assms(1,2) n unfolding calculate_def measure_voltage_def perform_integration_def Let_def cap_def
    by simp
  then show "last_measurement_time (fst (calculate now d (Some v) False (pm, params))) = Some now"
    by simp
  have "cap \<le> max 0 e"
    using assms(6) by (auto simp: cap_def CAR_BATTERY_CAPACITY_uWh_def min_def max_def split: if_splits)
  then show "min (car_battery_capacity_uWh (fst (calculate now d (Some v) False (pm, params)))) CAR_BATTERY_CAPACITY_uWh
      \<le> max 0 (e - P * 1000000 * ?h)"
    using s u by (auto simp: max_def min_def split: if_splits)
qed

text \<open>Measurements while parked: increasing times, a voltage, no ignition, at least the power \<open>P\<close>.\<close>

fun parked :: "rat \<Rightarrow> rat \<Rightarrow> Tick list \<Rightarrow> bool" where
  "parked P t [] = True"
| "parked P t ((now, d, v, i) # ts) \<longleftrightarrow> t < now \<and> P \<le> d \<and> v \<noteq> None \<and> \<not> i \<and> parked P now ts"

definition last_time :: "rat \<Rightarrow> Tick list \<Rightarrow> rat" where
  "last_time t ts = (if ts = [] then t else fst (last ts))"

lemma last_time_simps [simp]:
  "last_time t [] = t" "last_time t (x # ts) = last_time (fst x) ts"
  by (simp_all add: last_time_def)

lemma parked_run:
  assumes "last_measurement_time (fst s) = Some t" "0 < t" "parked P t ts" "0 \<le> P"
    "min (car_battery_capacity_uWh (fst s)) CAR_BATTERY_CAPACITY_uWh \<le> max 0 e"
  shows "min (car_battery_capacity_uWh (fst (ticks ts s))) CAR_BATTERY_CAPACITY_uWh
      \<le> max 0 (e - P * 1000000 * ((last_time t ts - t) / 3600))
    \<and> get_bool (snd (ticks ts s)) ''DisablePowerDown'' = get_bool (snd s) ''DisablePowerDown''"
  using assms
proof (induction ts arbitrary: s t e)
  case (Cons x ts)
  obtain now d v where x: "x = (now, d, Some v, False)"
    using Cons.prems(3) by (cases x) auto
  obtain pm params where s: "s = (pm, params)" by (cases s)
  let ?s' = "calculate now d (Some v) False (pm, params)"
  have t: "t < now" "P \<le> d" "parked P now ts"
    using Cons.prems(3) by (simp_all add: x)
  note st = parked_step [OF _ Cons.prems(2) t(1,2) Cons.prems(4), of pm e v params]
  have d: "e - P * 1000000 * ((now - t) / 3600) - P * 1000000 * ((last_time now ts - now) / 3600) =
      e - P * 1000000 * ((last_time now ts - t) / 3600)"
    by (simp add: algebra_simps diff_divide_distrib)
  have "min (car_battery_capacity_uWh (fst (ticks ts ?s'))) CAR_BATTERY_CAPACITY_uWh \<le>
        max 0 (e - P * 1000000 * ((now - t) / 3600) - P * 1000000 * ((last_time now ts - now) / 3600))
      \<and> get_bool (snd (ticks ts ?s')) ''DisablePowerDown'' = get_bool (snd ?s') ''DisablePowerDown''"
    using Cons.IH [OF _ _ t(3) Cons.prems(4)] st Cons.prems(1,2,5) t(1) by (simp add: s)
  then show ?case
    unfolding d using get_bool_calculate by (simp add: s x)
qed simp

section \<open>The fan\<close>

definition fan_ok :: "FanController \<Rightarrow> bool" where
  "fan_ok fc \<longleftrightarrow> gains_ok (controller fc)"

lemma fan_ok_new: "fan_ok (new_FanController rate)"
  by (simp add: fan_ok_def new_FanController_def gains_ok_def new_PIDController_def number_gain_def)

lemma gains_ok_reset [simp]: "gains_ok (pid_reset c) = gains_ok c" "gains_ok (set_limits p n c) = gains_ok c"
  by (simp_all add: gains_ok_def pid_reset_def set_limits_def)

lemma limits_reset [simp]:
  "pos_limit (pid_reset c) = pos_limit c" "neg_limit (pid_reset c) = neg_limit c"
  "pos_limit (set_limits p n c) = p" "neg_limit (set_limits p n c) = n"
  by (simp_all add: pid_reset_def set_limits_def)

lemma fan_update_total:
  assumes "fan_ok fc"
  shows "\<exists>p fc'. fan_update mici temp ign fc = Some (p, fc') \<and> fan_ok fc'
    \<and> (if ign then 30 \<le> p \<and> p \<le> 100 else 0 \<le> p \<and> p \<le> 30)"
proof -
  define c where "c = (let c = set_limits (if ign then 100 else 30) (if ign then 30 else 0) (controller fc)
      in if ign \<noteq> last_ignition fc then pid_reset c else c)"
  have c: "gains_ok c" "pos_limit c = (if ign then 100 else 30)" "neg_limit c = (if ign then 30 else 0)"
    using assms by (simp_all add: c_def Let_def fan_ok_def)
  obtain ff where ff: "np_interp temp [60 + FAN_OFFSET mici, 100 + FAN_OFFSET mici] [0, 100] = Some ff"
    by (simp add: np_interp_def)
  obtain c' where u: "pid_update (temp - (75 + FAN_OFFSET mici)) 0 0 ff False c = Some c'"
    using pid_update_total [OF c(1)] by blast
  have b: "neg_limit c \<le> control c'" "control c' \<le> pos_limit c"
    using pid_update_bounds [OF u] c by simp_all
  have t: "of_int lo \<le> x \<Longrightarrow> x \<le> of_int hi \<Longrightarrow> 0 \<le> lo \<Longrightarrow> lo \<le> py_trunc x \<and> py_trunc x \<le> hi" for lo hi x
    by (auto simp: py_trunc_def le_floor_iff floor_le_iff)
  have "fan_update mici temp ign fc = Some (py_trunc (control c'), \<lparr>last_ignition = ign, controller = c'\<rparr>)"
    using ff u unfolding fan_update_def c_def Let_def by simp
  moreover have "gains_ok c'"
    using pid_update_Some(1) [OF u] c by simp
  moreover have "if ign then 30 \<le> py_trunc (control c') \<and> py_trunc (control c') \<le> 100
      else 0 \<le> py_trunc (control c') \<and> py_trunc (control c') \<le> 30"
    using b c t [of 30 "control c'" 100] t [of 0 "control c'" 30] by (cases ign) simp_all
  ultimately show ?thesis
    by (simp add: fan_ok_def)
qed

section \<open>Properties\<close>

text \<open>A parked device cannot drain the car battery for ever: when it draws at least \<open>P\<close> watts, then
  108000 / P seconds of measurements (30 Wh) exhaust the budget, whatever it was at the start, and the device
  shuts down, unless powering down is disabled.\<close>

theorem parked_device_shuts_down:
  assumes "last_measurement_time pm = Some t" "0 < t" "0 < P" "parked P t ts" "108000 / P \<le> last_time t ts - t"
    "\<not> get_bool params ''DisablePowerDown''" "last_time t ts - off_ts > 300" "ticks ts (pm, params) = (pm', params')"
  shows "should_shutdown params' (last_time t ts) False True (Some off_ts) True pm'"
proof -
  have "108000 \<le> (last_time t ts - t) * P"
    using assms(3,5) by (simp add: divide_le_eq)
  then have "30000000 \<le> P * 1000000 * ((last_time t ts - t) / 3600)"
    by (simp add: mult.commute)
  moreover have "min (car_battery_capacity_uWh pm') CAR_BATTERY_CAPACITY_uWh
      \<le> max 0 (CAR_BATTERY_CAPACITY_uWh - P * 1000000 * ((last_time t ts - t) / 3600))
    \<and> get_bool params' ''DisablePowerDown'' = get_bool params ''DisablePowerDown''"
    using parked_run [of "(pm, params)" t P ts CAR_BATTERY_CAPACITY_uWh] assms(1-4,8)
    by (simp add: CAR_BATTERY_CAPACITY_uWh_def)
  ultimately have "car_battery_capacity_uWh pm' \<le> 0" "\<not> get_bool params' ''DisablePowerDown''"
    using assms(6) by (auto simp: CAR_BATTERY_CAPACITY_uWh_def min_def split: if_splits)
  then show ?thesis
    using assms(7) by (simp add: should_shutdown_def Let_def DELAY_SHUTDOWN_TIME_S_def)
qed

definition parked_monitor :: PowerMonitoring where
  "parked_monitor = (new_PowerMonitoring Map.empty)\<lparr>last_measurement_time := Some 10, car_battery_capacity_uWh := 30000000\<rparr>"

theorem parked_device_shuts_down_witness:
  "let (pm', params') = ticks [(5410, 5, Some 12500, False), (21610, 6, Some 12500, False)] (parked_monitor, Map.empty)
   in should_shutdown params' 21610 False True (Some 10) True pm'"
proof -
  have t: "last_time 10 [(5410, 5, Some 12500, False), (21610, 6, Some 12500, False)] = (21610 :: rat)"
    by simp
  obtain pm' params' where e:
    "ticks [(5410, 5, Some 12500, False), (21610, 6, Some 12500, False)] (parked_monitor, Map.empty) = (pm', params')"
    by fastforce
  show ?thesis
    using parked_device_shuts_down [OF _ _ _ _ _ _ _ e, of 10 5 10] unfolding t e
    by (simp add: parked_monitor_def get_bool_def)
qed

text \<open>Whatever is measured, the stored battery capacity stays between 0 and 30 Wh, a restarted device
  begins with a budget between 3 and 30 Wh, and the filtered voltage stays within the range of the measured ones.\<close>

theorem power_budget_bounds:
  assumes "stored_ok params" "\<forall>(now, draw, voltage, ignition)\<in>set ts. \<forall>v. voltage = Some v \<longrightarrow> lo \<le> v \<and> v \<le> hi"
    "lo \<le> 12000" "12000 \<le> hi" "ticks ts (new_PowerMonitoring params, params) = (pm', params')"
  shows "stored_ok params' \<and> car_battery_capacity_uWh (new_PowerMonitoring params') \<in> {3000000..30000000}
    \<and> car_voltage_mV pm' \<in> {lo..hi}"
proof -
  have "stored_ok (snd (ticks ts s)) \<and> car_voltage_mV (fst (ticks ts s)) \<in> {lo..hi}"
    if "stored_ok (snd s)" "car_voltage_mV (fst s) \<in> {lo..hi}" for s
    using assms(2) that
  proof (induction ts arbitrary: s)
    case (Cons x ts)
    obtain now d v i where x: "x = (now, d, v, i)" by (cases x)
    show ?case
      using Cons.IH [of "calculate now d v i s"] Cons.prems stored_ok_calculate [of "snd s" now d v i "fst s"]
        calculate_voltage [of lo "fst s" hi v now d i "snd s"] by (simp add: x)
  qed simp
  from this [of "(new_PowerMonitoring params, params)"] have s: "stored_ok params'" "car_voltage_mV pm' \<in> {lo..hi}"
    using assms by (simp_all add: new_PowerMonitoring_def)
  then have "car_battery_capacity_uWh (new_PowerMonitoring params') \<in> {3000000..30000000}"
    by (auto simp: new_PowerMonitoring_def stored_ok_def CAR_BATTERY_CAPACITY_uWh_def split: option.split)
  with s show ?thesis by simp
qed

theorem power_budget_bounds_witness:
  "stored_ok (snd (ticks [(20, 3, Some 11000, False), (40, 3, Some 13000, True)] (new_PowerMonitoring Map.empty, Map.empty)))"
  using power_budget_bounds [OF _ _ _ _ prod.collapse [symmetric], of Map.empty
    "[(20, 3, Some 11000, False), (40, 3, Some 13000, True)]" 11000 13000] by (simp add: stored_ok_def)

end
