(* ===== verification/Hardwared.thy ===== *)
theory Hardwared
  imports PowerMonitoring Services
begin

text \<open>
  The hardware daemon, \<open>system/hardware/hardwared.py\<close>: the thermal status, the decision when the device
  goes onroad and offroad, the power monitor and the fan, and the loop that collects the slow hardware
  state. A round of the hardware thread is the function \<open>hw_step\<close>; a round that ends early (the thread
  runs at 2 Hz and on edges of the ignition) publishes nothing. Sensors, the clock, the parameter store and
  the received messages are its input; the clock, which the thread reads several times in a round, is read once,
  and all the times of a round are this one. What a round only copies into the message (usage figures, network
  statistics, power draws), log calls, the kernel log and the status packet for the server are left out.
\<close>

definition DT_HW :: rat where "DT_HW = 5/10"
definition TEMP_TAU :: rat where "TEMP_TAU = 5"
definition DISCONNECT_TIMEOUT :: rat where "DISCONNECT_TIMEOUT = 5"
definition ONROAD_CYCLE_TIME :: rat where "ONROAD_CYCLE_TIME = 1"

definition training_version :: string where "training_version = ''0.2.0''"
definition terms_version :: string where "terms_version = ''2''"
definition terms_version_sp :: string where "terms_version_sp = ''1.0''"

section \<open>Thermal bands\<close>

type_synonym ThermalBand = "rat option \<times> rat option"

definition THERMAL_BANDS :: "bool \<Rightarrow> (ThermalStatus \<times> ThermalBand) list" where
  "THERMAL_BANDS is_mici =
     (if is_mici then
        [(TH_ok, (None, Some 100)), (TH_overheated, (Some 92, Some 107)), (TH_critical, (Some 98, None))]
      else
        [(TH_ok, (None, Some 96)), (TH_overheated, (Some 88, Some 107)), (TH_critical, (Some 94, None))])"

definition OFFROAD_DANGER_TEMP :: "bool \<Rightarrow> rat" where
  "OFFROAD_DANGER_TEMP is_mici = (if is_mici then 85 else 75)"

fun index_of :: "'a \<Rightarrow> 'a list \<Rightarrow> nat" where
  "index_of x [] = 0"
| "index_of x (y # ys) = (if y = x then 0 else Suc (index_of x ys))"

text \<open>One move between the bands; a status without a band is a \<open>KeyError\<close>, a place behind the last band an
  \<open>IndexError\<close>, and the place before the first is, as in Python, the last.\<close>

definition thermal_move :: "bool \<Rightarrow> rat \<Rightarrow> ThermalStatus \<Rightarrow> ThermalStatus option" where
  "thermal_move is_mici temp status =
     (case map_of (THERMAL_BANDS is_mici) status of
        None \<Rightarrow> None
      | Some (min_temp, max_temp) \<Rightarrow>
          (let names = map fst (THERMAL_BANDS is_mici);
               idx = index_of status names
           in if (case min_temp of None \<Rightarrow> False | Some m \<Rightarrow> temp < m)
              then Some (if idx = 0 then last names else names ! (idx - 1))
              else if (case max_temp of None \<Rightarrow> False | Some m \<Rightarrow> temp > m)
              then (if idx + 1 < length names then Some (names ! (idx + 1)) else None)
              else Some status))"

section \<open>The slow hardware state\<close>

record HardwareState =
  network_type :: nat
  network_info :: "string option"
  network_strength :: nat
  network_stats :: "int \<times> int" \<comment> \<open>\<open>wwanTx\<close> and \<open>wwanRx\<close>\<close>
  network_metered :: bool
  modem_temps :: "int list"

definition no_HardwareState :: HardwareState where
  "no_HardwareState =
     \<lparr>network_type = 0, network_info = None, network_strength = 0, network_stats = (-1, -1),
      network_metered = False, modem_temps = []\<rparr>"

text \<open>
  A round of \<open>hw_state_thread\<close>: every ten seconds the state is read (\<open>None\<close> when the reading raised), an
  empty list of modem temperatures is replaced by the previous one, and the state is put into the queue of
  size one, unless that is full.
\<close>

record HwStateThread =
  hst_count :: int
  prev_hw_state :: "HardwareState option"
  hw_queue :: "HardwareState option"

definition hw_state_round :: "HardwareState option \<Rightarrow> HwStateThread \<Rightarrow> HwStateThread" where
  "hw_state_round reading t =
     (let t' = t\<lparr>hst_count := hst_count t + 1\<rparr>
      in if hst_count t mod py_trunc (10 / DT_HW) \<noteq> 0 then t'
         else (case reading of
             None \<Rightarrow> t'
           | Some r \<Rightarrow>
               (let hw = (case prev_hw_state t of
                            Some p \<Rightarrow> if modem_temps r = [] then r\<lparr>modem_temps := modem_temps p\<rparr> else r
                          | None \<Rightarrow> r)
                in t'\<lparr>hw_queue := (if hw_queue t = None then Some hw else hw_queue t), prev_hw_state := Some hw\<rparr>)))"

section \<open>State and input of the hardware thread\<close>

type_synonym Conditions = "(string \<times> bool) list"

definition all_values :: "Conditions \<Rightarrow> bool" where "all_values d = list_all snd d"

record HwConfig =
  hc_TICI :: bool
  hc_device_type :: string
  hc_channel_type :: string
  hc_channel :: string

definition is_mici :: "HwConfig \<Rightarrow> bool" where "is_mici cf \<longleftrightarrow> hc_device_type cf = ''mici''"

record HwState =
  hw_count :: int
  onroad_conditions :: Conditions
  startup_conditions :: Conditions
  off_ts :: "rat option"
  started_ts :: "rat option"
  started_seen :: bool
  thermal_status :: ThermalStatus
  last_hw_state :: HardwareState
  all_temp_filter :: FirstOrderFilter
  offroad_temp_filter :: FirstOrderFilter
  should_start_prev :: bool
  in_car :: bool
  engaged_prev :: bool
  pwrsave :: bool
  offroad_cycle_count :: int
  power_monitor :: PowerMonitoring
  uptime_offroad :: rat
  uptime_onroad :: rat
  last_uptime_ts :: rat
  fan_controller :: FanController
  prev_offroad_states :: "string \<rightharpoonup> bool \<times> string option"

definition new_HwState :: "Params \<Rightarrow> rat \<Rightarrow> rat \<Rightarrow> rat \<Rightarrow> HwState" where
  "new_HwState params up_off up_on now =
     \<lparr>hw_count = 0,
      onroad_conditions = [(''ignition'', False), (''not_onroad_cycle'', True), (''device_temp_good'', True)],
      startup_conditions = [], off_ts = None, started_ts = None, started_seen = False, thermal_status = TH_ok,
      last_hw_state = no_HardwareState,
      all_temp_filter = new_FirstOrderFilter 0 TEMP_TAU DT_HW False,
      offroad_temp_filter = new_FirstOrderFilter 0 TEMP_TAU DT_HW False,
      should_start_prev = False, in_car = False, engaged_prev = False, pwrsave = False, offroad_cycle_count = 0,
      power_monitor = new_PowerMonitoring params, uptime_offroad = up_off, uptime_onroad = up_on,
      last_uptime_ts = now, fan_controller = new_FanController (of_int (py_trunc (1 / DT_HW))),
      prev_offroad_states = Map.empty\<rparr>"

record HwPanda =
  hp_ignitionLine :: bool
  hp_ignitionCan :: bool
  hp_unknown :: bool \<comment> \<open>\<open>pandaType == unknown\<close>\<close>
  hp_connected :: bool \<comment> \<open>\<open>harnessStatus != notConnected\<close>\<close>

record HwInput =
  hi_now :: rat
  hi_frame :: int
  hi_panda_updated :: bool
  hi_pandas :: "HwPanda list"
  hi_panda_recv_time :: rat
  hi_selfdrive_updated :: bool
  hi_selfdrive_enabled :: bool
  hi_voltage :: "rat option" \<comment> \<open>\<open>None\<close> when the type of the peripheral panda is unknown\<close>
  hi_current_power :: rat
  hi_hw :: "HardwareState option"
  hi_memoryTempC :: rat
  hi_cpuTempC :: "rat list"
  hi_gpuTempC :: "rat list"
  hi_pmicTempC :: "rat list"
  hi_freeSpacePercent :: rat
  hi_brightness :: rat
  hi_booted :: bool
  hi_params :: Params
  hi_HasAcceptedTerms :: "string option"
  hi_HasAcceptedTermsSP :: "string option"
  hi_CompletedTrainingVersion :: "string option"

record HwOutput =
  ho_started :: bool
  ho_startedMonoTime :: int
  ho_thermalStatus :: ThermalStatus
  ho_maxTempC :: rat
  ho_fanSpeedPercentDesired :: int
  ho_networkMetered :: bool
  ho_offroadPowerUsageUwh :: int
  ho_carBatteryCapacityUwh :: int
  ho_alerts :: "(string \<times> bool \<times> string option) list"
  ho_power_save :: "bool option"
  ho_uptimes :: "(rat \<times> rat) option"
  ho_params :: Params

section \<open>The stages of a round\<close>

text \<open>The request to cycle and the ignition; both happen in every round.\<close>

definition onroad_cycle :: "HwInput \<Rightarrow> HwState \<Rightarrow> HwState" where
  "onroad_cycle hi s =
     (let n = (if get_bool (hi_params hi) ''OnroadCycleRequested'' then hi_frame hi else offroad_cycle_count s)
      in s\<lparr>offroad_cycle_count := n,
           onroad_conditions := dict_set ''not_onroad_cycle''
             (of_int (hi_frame hi - n) \<ge> ONROAD_CYCLE_TIME * service_frequency ''pandaStates'') (onroad_conditions s)\<rparr>)"

definition cycle_params :: "HwInput \<Rightarrow> Params" where
  "cycle_params hi =
     (if get_bool (hi_params hi) ''OnroadCycleRequested''
      then put_bool ''OnroadCycleRequested'' False (hi_params hi) else hi_params hi)"

definition panda_ignition :: "HwPanda list \<Rightarrow> bool" where
  "panda_ignition ps = list_ex (\<lambda>p. hp_ignitionLine p \<or> hp_ignitionCan p) (filter (\<lambda>p. \<not> hp_unknown p) ps)"

definition read_ignition :: "HwInput \<Rightarrow> HwState \<Rightarrow> HwState" where
  "read_ignition hi s =
     (if hi_panda_updated hi \<and> hi_pandas hi \<noteq> [] then
        s\<lparr>onroad_conditions := dict_set ''ignition'' (panda_ignition (hi_pandas hi)) (onroad_conditions s),
          in_car := hp_connected (hd (hi_pandas hi))\<rparr>
      else if hi_now hi - hi_panda_recv_time hi > DISCONNECT_TIMEOUT \<and> dict_get False (onroad_conditions s) ''ignition'' then
        s\<lparr>onroad_conditions := dict_set ''ignition'' False (onroad_conditions s)\<rparr>
      else s)"

definition ignition_of :: "HwState \<Rightarrow> bool" where
  "ignition_of s = dict_get False (onroad_conditions s) ''ignition''"

definition skip_round :: "HwInput \<Rightarrow> HwState \<Rightarrow> bool" where
  "skip_round hi s \<longleftrightarrow>
     (let ign_edge = ((started_ts s \<noteq> None) \<noteq> all_values (onroad_conditions s))
      in hi_frame hi mod py_round (service_frequency ''pandaStates'' * DT_HW) \<noteq> 0 \<and> \<not> ign_edge)"

definition max_default :: "rat list \<Rightarrow> rat" where
  "max_default xs = (case xs of [] \<Rightarrow> 0 | x # ys \<Rightarrow> fold max ys x)"

text \<open>The temperatures: the two filters, and the fan that follows the second.\<close>

definition read_temps :: "HwConfig \<Rightarrow> HwInput \<Rightarrow> HwState \<Rightarrow> (int \<times> HwState) option" where
  "read_temps cf hi s0 =
     (let s = (case hi_hw hi of None \<Rightarrow> s0 | Some hw \<Rightarrow> s0\<lparr>last_hw_state := hw\<rparr>);
          t0 = max_default [hi_memoryTempC hi, max_default (hi_cpuTempC hi), max_default (hi_gpuTempC hi)];
          t1 = max_default [hi_memoryTempC hi, max_default (hi_cpuTempC hi), max_default (hi_gpuTempC hi),
                            max_default (hi_pmicTempC hi)];
          off = fo_update t0 (offroad_temp_filter s);
          al = fo_update t1 (all_temp_filter s)
      in map_option (\<lambda>(fan, fc). (fan, s\<lparr>offroad_temp_filter := off, all_temp_filter := al, fan_controller := fc\<rparr>))
           (fan_update (is_mici cf) (fo_x al) (ignition_of s) (fan_controller s)))"

definition offroad_for_5_min :: "rat \<Rightarrow> HwState \<Rightarrow> bool" where
  "offroad_for_5_min now s \<longleftrightarrow>
     started_ts s = None
     \<and> (\<not> started_seen s \<or> (case off_ts s of None \<Rightarrow> True | Some t \<Rightarrow> now - t > 60 * 5))"

definition read_thermal :: "HwConfig \<Rightarrow> HwInput \<Rightarrow> HwState \<Rightarrow> HwState option" where
  "read_thermal cf hi s =
     (if offroad_for_5_min (hi_now hi) s \<and> fo_x (offroad_temp_filter s) > OFFROAD_DANGER_TEMP (is_mici cf)
      then Some (s\<lparr>thermal_status := TH_critical\<rparr>)
      else map_option (\<lambda>st. s\<lparr>thermal_status := st\<rparr>)
             (thermal_move (is_mici cf) (fo_x (all_temp_filter s)) (thermal_status s)))"

text \<open>The conditions. Writing a key keeps its place in the dictionary.\<close>

definition unsupported_combo :: "HwConfig \<Rightarrow> bool" where
  "unsupported_combo cf \<longleftrightarrow> hc_TICI cf \<and> hc_device_type cf = ''tici'' \<and> hc_channel_type cf \<noteq> ''tici''"

definition startup_now :: "HwConfig \<Rightarrow> HwInput \<Rightarrow> HwState \<Rightarrow> Conditions" where
  "startup_now cf hi s =
     (let p = hi_params hi in
      [(''up_to_date'', p ''Offroad_ConnectivityNeeded'' = None \<or> get_bool p ''DisableUpdates'' \<or> get_bool p ''SnoozeUpdate''),
       (''no_excessive_actuation'', p ''Offroad_ExcessiveActuation'' = None),
       (''not_uninstalling'', \<not> get_bool p ''DoUninstall''),
       (''accepted_terms'', hi_HasAcceptedTerms hi = Some terms_version),
       (''accepted_terms_sp'', hi_HasAcceptedTermsSP hi = Some terms_version_sp),
       (''free_space'', hi_freeSpacePercent hi > 2),
       (''completed_training'', hi_CompletedTrainingVersion hi = Some training_version),
       (''not_driver_view'', \<not> get_bool p ''IsDriverViewEnabled''),
       (''not_taking_snapshot'', \<not> get_bool p ''IsTakingSnapshot''),
       (''device_temp_engageable'', thermal_value (thermal_status s) < thermal_value TH_overheated),
       (''device_booted'', dict_get False (startup_conditions s) ''device_booted'' \<or> hi_booted hi),
       (''not_always_offroad'', \<not> get_bool p ''OffroadMode''),
       (''not_tici'', \<not> unsupported_combo cf)])"

definition set_conditions :: "HwConfig \<Rightarrow> HwInput \<Rightarrow> HwState \<Rightarrow> HwState" where
  "set_conditions cf hi s =
     s\<lparr>startup_conditions := dict_update (startup_conditions s) (startup_now cf hi s),
       onroad_conditions := dict_update (onroad_conditions s)
         [(''not_always_offroad'', \<not> get_bool (hi_params hi) ''OffroadMode''),
          (''not_tici'', \<not> unsupported_combo cf),
          (''device_temp_good'', thermal_value (thermal_status s) < thermal_value TH_critical)]\<rparr>"

definition set_alert_if_changed :: "string \<Rightarrow> bool \<Rightarrow> string option \<Rightarrow> HwState \<Rightarrow>
    (string \<times> bool \<times> string option) list \<times> HwState" where
  "set_alert_if_changed name show extra s =
     (if prev_offroad_states s name = Some (show, extra) then ([], s)
      else ([(name, show, extra)], s\<lparr>prev_offroad_states := (prev_offroad_states s)(name \<mapsto> (show, extra))\<rparr>))"

definition show_temp_alert :: "HwState \<Rightarrow> bool" where
  "show_temp_alert s \<longleftrightarrow>
     (\<not> dict_get False (onroad_conditions s) ''device_temp_good''
      \<or> \<not> dict_get False (startup_conditions s) ''device_temp_engageable'') \<and> ignition_of s"

definition should_start_now :: "HwState \<Rightarrow> bool" where
  "should_start_now s \<longleftrightarrow>
     all_values (onroad_conditions s) \<and> (started_ts s = None \<longrightarrow> all_values (startup_conditions s))"

text \<open>The parameter \<open>IsEngaged\<close>, cleared at every change between onroad and offroad.\<close>

definition track_engaged :: "bool \<Rightarrow> HwInput \<Rightarrow> HwState \<times> Params \<Rightarrow> HwState \<times> Params" where
  "track_engaged should_start hi = (\<lambda>(s0, p0).
     let (s, p) = (if should_start \<noteq> should_start_prev s0 \<or> hw_count s0 = 0
                   then (s0\<lparr>engaged_prev := False\<rparr>, put_bool ''IsEngaged'' False p0) else (s0, p0))
     in if hi_selfdrive_updated hi \<and> hi_selfdrive_enabled hi \<noteq> engaged_prev s
        then (s\<lparr>engaged_prev := hi_selfdrive_enabled hi\<rparr>, put_bool ''IsEngaged'' (hi_selfdrive_enabled hi) p)
        else (s, p))"

definition start_or_stop :: "bool \<Rightarrow> rat \<Rightarrow> HwState \<Rightarrow> HwState" where
  "start_or_stop should_start now s =
     (if should_start then
        (if started_ts s = None then s\<lparr>off_ts := None, started_ts := Some now, started_seen := True\<rparr>
         else s\<lparr>off_ts := None\<rparr>)
      else s\<lparr>started_ts := None, off_ts := (case off_ts s of None \<Rightarrow> Some now | t \<Rightarrow> t)\<rparr>)"

text \<open>\<open>if ts:\<close> of a time stamp: \<open>None\<close> and 0 are false.\<close>

definition stamp_set :: "rat option \<Rightarrow> bool" where
  "stamp_set ts \<longleftrightarrow> ts \<noteq> None \<and> ts \<noteq> Some 0"

definition count_uptime :: "rat \<Rightarrow> HwState \<Rightarrow> HwState" where
  "count_uptime now s =
     (if stamp_set (off_ts s) then
        s\<lparr>uptime_offroad := uptime_offroad s + (now - max (last_uptime_ts s) (the (off_ts s))), last_uptime_ts := now\<rparr>
      else if stamp_set (started_ts s) then
        s\<lparr>uptime_onroad := uptime_onroad s + (now - max (last_uptime_ts s) (the (started_ts s))), last_uptime_ts := now\<rparr>
      else s\<lparr>last_uptime_ts := now\<rparr>)"

section \<open>A round\<close>

definition before_skip :: "HwInput \<Rightarrow> HwState \<Rightarrow> HwState" where
  "before_skip hi s = read_ignition hi (onroad_cycle hi s)"

text \<open>The power monitor and the order to shut down.\<close>

definition check_power :: "HwInput \<Rightarrow> HwState \<times> Params \<Rightarrow> HwState \<times> Params" where
  "check_power hi = (\<lambda>(s, p0).
     let p = put_bool ''GithubRunnerSufficientVoltage'' (case hi_voltage hi of None \<Rightarrow> False | Some v \<Rightarrow> v > 9000) p0;
         (pm, p') = calculate (hi_now hi) (hi_current_power hi) (hi_voltage hi) (ignition_of s) (power_monitor s, p)
     in (s\<lparr>power_monitor := pm\<rparr>,
         if should_shutdown p' (hi_now hi) (ignition_of s) (in_car s) (off_ts s) (started_seen s) pm
         then put_bool ''DoShutdown'' True p' else p'))"

text \<open>The message, from the state at the end of the round.\<close>

definition device_message :: "HwConfig \<Rightarrow> HwInput \<Rightarrow> int \<Rightarrow> (string \<times> bool \<times> string option) list \<Rightarrow> bool option \<Rightarrow>
    HwState \<times> Params \<Rightarrow> HwOutput" where
  "device_message cf hi fan alerts power_save = (\<lambda>(s, p).
     \<lparr>ho_started = started_ts s \<noteq> None \<and> \<not> get_bool (hi_params hi) ''OffroadMode'',
      ho_startedMonoTime = py_trunc (1000000000 * (case started_ts s of None \<Rightarrow> 0 | Some t \<Rightarrow> t)),
      ho_thermalStatus = thermal_status s, ho_maxTempC = fo_x (all_temp_filter s),
      ho_fanSpeedPercentDesired = fan,
      ho_networkMetered = network_metered (last_hw_state s),
      ho_offroadPowerUsageUwh = get_power_used (power_monitor s),
      ho_carBatteryCapacityUwh = max 0 (get_car_battery_capacity (power_monitor s)),
      ho_alerts = (''Offroad_TiciSupport'', unsupported_combo cf, Some (hc_channel cf)) # alerts,
      ho_power_save = power_save,
      ho_uptimes = (if hw_count s mod py_trunc (60 / DT_HW) = 0 then Some (uptime_offroad s, uptime_onroad s) else None),
      ho_params = put_bool ''NetworkMetered'' (network_metered (last_hw_state s)) p\<rparr>)"

text \<open>From the conditions to the end of the round; \<open>fan\<close> is the output of the controller.\<close>

definition finish_round :: "HwConfig \<Rightarrow> HwInput \<Rightarrow> int \<Rightarrow> HwState \<Rightarrow> HwState \<times> HwOutput" where
  "finish_round cf hi fan s1 =
     (let s2 = set_conditions cf hi s1;
          show = show_temp_alert s2;
          (alerts, s3) = set_alert_if_changed ''Offroad_TemperatureTooHigh'' show
            (Some (str_fixed 1 (fo_x (offroad_temp_filter s2)) @ ''C'')) s2;
          should_start = should_start_now s3;
          (s4, p2) = track_engaged should_start hi (s3, cycle_params hi);
          save = (\<not> ignition_of s4 \<and> hi_brightness hi < 1/1000);
          power_save = (if save \<noteq> pwrsave s4 \<or> hw_count s4 = 0 then Some save else None);
          (s5, p3) = check_power hi (start_or_stop should_start (hi_now hi) (s4\<lparr>pwrsave := save\<rparr>), p2);
          s6 = count_uptime (hi_now hi) s5
      in (s6\<lparr>hw_count := hw_count s6 + 1, should_start_prev := should_start\<rparr>,
          device_message cf hi (if show then 100 else fan) alerts power_save (s6, p3)))"

definition hw_step :: "HwConfig \<Rightarrow> HwInput \<Rightarrow> HwState \<Rightarrow> (HwState \<times> Params \<times> HwOutput option) option" where
  "hw_step cf hi s0 =
     (let s = before_skip hi s0
      in if skip_round hi s then Some (s, cycle_params hi, None)
         else do {
           (fan, s') \<leftarrow> read_temps cf hi s;
           s1 \<leftarrow> read_thermal cf hi s';
           (case finish_round cf hi fan s1 of (s2, out) \<Rightarrow> Some (s2, ho_params out, Some out))
         })"

text \<open>A run: the published records and the final state.\<close>

fun hw_run :: "HwConfig \<Rightarrow> HwInput list \<Rightarrow> HwState \<Rightarrow> (HwOutput list \<times> HwState) option" where
  "hw_run cf [] s = Some ([], s)"
| "hw_run cf (hi # his) s = do {
     (s', p, out) \<leftarrow> hw_step cf hi s;
     (outs, s'') \<leftarrow> hw_run cf his s';
     Some ((case out of None \<Rightarrow> outs | Some x \<Rightarrow> x # outs), s'')
   }"

section \<open>Conditions and thermal status\<close>

lemma all_values_get: "all_values d \<Longrightarrow> map_of d k = Some v \<Longrightarrow> v"
  by (metis all_values_def list_all_iff map_of_SomeD snd_conv)

definition banded :: "ThermalStatus \<Rightarrow> bool" where
  "banded st \<longleftrightarrow> st \<in> {TH_ok, TH_overheated, TH_critical}"

lemma thermal_move_total: "banded st \<Longrightarrow> \<exists>st'. thermal_move mici temp st = Some st' \<and> banded st'"
  by (auto simp: banded_def thermal_move_def THERMAL_BANDS_def Let_def)

definition hw_inv :: "HwState \<Rightarrow> bool" where
  "hw_inv s \<longleftrightarrow>
     fan_ok (fan_controller s) \<and> banded (thermal_status s)
     \<and> map_of (onroad_conditions s) ''ignition'' \<noteq> None
     \<and> (started_ts s \<noteq> None \<longrightarrow> off_ts s = None \<and> started_seen s \<and> thermal_status s \<noteq> TH_critical)"

lemma hw_inv_new: "hw_inv (new_HwState params a b now)"
  by (simp add: hw_inv_def new_HwState_def fan_ok_new banded_def)

text \<open>The stages before the conditions leave the rest alone.\<close>

lemma before_skip_fields [simp]:
  "started_ts (before_skip hi s) = started_ts s" "off_ts (before_skip hi s) = off_ts s"
  "started_seen (before_skip hi s) = started_seen s" "thermal_status (before_skip hi s) = thermal_status s"
  "fan_controller (before_skip hi s) = fan_controller s" "startup_conditions (before_skip hi s) = startup_conditions s"
  by (simp_all add: before_skip_def read_ignition_def onroad_cycle_def Let_def)

lemma before_skip_ignition:
  "map_of (onroad_conditions s) ''ignition'' \<noteq> None \<Longrightarrow>
     map_of (onroad_conditions (before_skip hi s)) ''ignition'' = Some (ignition_of (before_skip hi s))"
  by (auto simp: before_skip_def read_ignition_def onroad_cycle_def Let_def ignition_of_def dict_get_def)

lemma panda_lost:
  "\<not> hi_panda_updated hi \<Longrightarrow> hi_now hi - hi_panda_recv_time hi > 5 \<Longrightarrow> \<not> ignition_of (before_skip hi s)"
  by (auto simp: before_skip_def read_ignition_def onroad_cycle_def Let_def ignition_of_def DISCONNECT_TIMEOUT_def)

lemma read_temps_fields:
  assumes "read_temps cf hi s = Some (fan, s')"
  shows "started_ts s' = started_ts s" "off_ts s' = off_ts s" "started_seen s' = started_seen s"
    "thermal_status s' = thermal_status s" "onroad_conditions s' = onroad_conditions s"
    "startup_conditions s' = startup_conditions s" "in_car s' = in_car s"
  using assms by (auto simp: read_temps_def Let_def split: option.splits)

lemma read_temps_total:
  assumes "fan_ok (fan_controller s)"
  shows "\<exists>fan s'. read_temps cf hi s = Some (fan, s') \<and> fan_ok (fan_controller s') \<and> 0 \<le> fan \<and> fan \<le> 100"
proof -
  define s' where "s' = (case hi_hw hi of None \<Rightarrow> s | Some hw \<Rightarrow> s\<lparr>last_hw_state := hw\<rparr>)"
  have s': "fan_controller s' = fan_controller s" "ignition_of s' = ignition_of s"
    by (simp_all add: s'_def ignition_of_def split: option.split)
  have "\<exists>p fc'. fan_update (is_mici cf) temp (ignition_of s') (fan_controller s') = Some (p, fc')
    \<and> fan_ok fc' \<and> 0 \<le> p \<and> p \<le> 100" for temp
    using fan_update_total [OF assms, of "is_mici cf" temp "ignition_of s"] s' by (auto split: if_splits)
  then show ?thesis
    unfolding read_temps_def Let_def s'_def [symmetric] by fastforce
qed

lemma read_thermal_fields:
  assumes "read_thermal cf hi s = Some s'"
  shows "started_ts s' = started_ts s" "off_ts s' = off_ts s" "started_seen s' = started_seen s"
    "fan_controller s' = fan_controller s" "onroad_conditions s' = onroad_conditions s"
    "startup_conditions s' = startup_conditions s" "in_car s' = in_car s"
  using assms by (auto simp: read_thermal_def split: if_splits)

lemma read_thermal_total:
  assumes "banded (thermal_status s)"
  shows "\<exists>s'. read_thermal cf hi s = Some s' \<and> banded (thermal_status s')"
  using thermal_move_total [OF assms, of "is_mici cf" "fo_x (all_temp_filter s)"]
  by (auto simp: read_thermal_def banded_def)

section \<open>A round as a whole\<close>

definition hw_core where
  "hw_core s = (started_ts s, off_ts s, started_seen s, thermal_status s, fan_controller s,
     onroad_conditions s, startup_conditions s, in_car s)"

lemma hw_core_stages [simp]:
  "hw_core (snd (set_alert_if_changed name show extra s)) = hw_core s"
  "hw_core (fst (track_engaged b hi (s, p))) = hw_core s"
  "hw_core (fst (check_power hi (s, p))) = hw_core s"
  "hw_core (count_uptime now s) = hw_core s"
  "hw_core (s\<lparr>pwrsave := x\<rparr>) = hw_core s"
  "hw_core (s\<lparr>hw_count := n, should_start_prev := b\<rparr>) = hw_core s"
  by (simp_all add: hw_core_def set_alert_if_changed_def track_engaged_def check_power_def count_uptime_def
      case_prod_beta Let_def)

lemma should_start_core: "hw_core s = hw_core s' \<Longrightarrow> should_start_now s = should_start_now s'"
  by (simp add: hw_core_def should_start_now_def)

lemma start_or_stop_core: "hw_core s = hw_core s' \<Longrightarrow> hw_core (start_or_stop b now s) = hw_core (start_or_stop b now s')"
  by (simp add: hw_core_def start_or_stop_def)

text \<open>After the conditions are set, a round changes nothing of this but the start and stop.\<close>

lemma finish_round_core:
  assumes "finish_round cf hi fan s1 = (s', out)"
  shows "hw_core s' = hw_core (start_or_stop (should_start_now (set_conditions cf hi s1)) (hi_now hi) (set_conditions cf hi s1))"
proof -
  define s2 where "s2 = set_conditions cf hi s1"
  define s3 where "s3 = snd (set_alert_if_changed ''Offroad_TemperatureTooHigh'' (show_temp_alert s2)
            (Some (str_fixed 1 (fo_x (offroad_temp_filter s2)) @ ''C'')) s2)"
  have s3: "hw_core s3 = hw_core s2"
    by (simp add: s3_def)
  define s4 where "s4 = fst (track_engaged (should_start_now s3) hi (s3, cycle_params hi))"
  have "s' = fst (finish_round cf hi fan s1)"
    using assms by simp
  then have "hw_core s' = hw_core (start_or_stop (should_start_now s3) (hi_now hi)
      (s4\<lparr>pwrsave := \<not> ignition_of s4 \<and> hi_brightness hi < 1/1000\<rparr>))"
    unfolding finish_round_def Let_def case_prod_beta fst_conv s2_def [symmetric] s3_def [symmetric] s4_def [symmetric]
    by (simp only: hw_core_stages)
  also have "\<dots> = hw_core (start_or_stop (should_start_now s2) (hi_now hi) s2)"
    unfolding should_start_core [OF s3] by (rule start_or_stop_core) (simp add: s3 s4_def)
  finally show ?thesis
    by (simp add: s2_def)
qed

lemma finish_round_fields:
  assumes "finish_round cf hi fan s1 = (s', out)"
  defines "s2 \<equiv> set_conditions cf hi s1"
  shows "started_ts s' = (if should_start_now s2 then (if started_ts s1 = None then Some (hi_now hi) else started_ts s1) else None)"
    and "off_ts s' = (if should_start_now s2 then None else case off_ts s1 of None \<Rightarrow> Some (hi_now hi) | t \<Rightarrow> t)"
    and "started_seen s' = (started_seen s1 \<or> should_start_now s2 \<and> started_ts s1 = None)"
    and "thermal_status s' = thermal_status s1" "fan_controller s' = fan_controller s1"
    and "onroad_conditions s' = onroad_conditions s2" "startup_conditions s' = startup_conditions s2"
    and "in_car s' = in_car s1"
proof -
  have "started_ts s2 = started_ts s1" "off_ts s2 = off_ts s1" "started_seen s2 = started_seen s1"
    "thermal_status s2 = thermal_status s1" "fan_controller s2 = fan_controller s1" "in_car s2 = in_car s1"
    by (simp_all add: s2_def set_conditions_def)
  note f = finish_round_core [OF assms(1), folded s2_def, unfolded hw_core_def start_or_stop_def] this
  show "started_ts s' = (if should_start_now s2 then (if started_ts s1 = None then Some (hi_now hi) else started_ts s1) else None)"
    "off_ts s' = (if should_start_now s2 then None else case off_ts s1 of None \<Rightarrow> Some (hi_now hi) | t \<Rightarrow> t)"
    "started_seen s' = (started_seen s1 \<or> should_start_now s2 \<and> started_ts s1 = None)"
    "thermal_status s' = thermal_status s1" "fan_controller s' = fan_controller s1"
    "onroad_conditions s' = onroad_conditions s2" "startup_conditions s' = startup_conditions s2"
    "in_car s' = in_car s1"
    using f by (auto split: if_splits)
qed

text \<open>The published record shows the state at the end, and the order to shut down comes from the power monitor.\<close>

lemma finish_round_out:
  assumes "finish_round cf hi fan s1 = (s', out)"
  shows "\<exists>fan' alerts sv s5 p2 n b. fan' \<in> {fan, 100}
    \<and> out = device_message cf hi fan' alerts sv (count_uptime (hi_now hi) (fst (check_power hi (s5, p2))), snd (check_power hi (s5, p2)))
    \<and> s' = (count_uptime (hi_now hi) (fst (check_power hi (s5, p2))))\<lparr>hw_count := n, should_start_prev := b\<rparr>
    \<and> get_bool p2 ''DoShutdown'' = get_bool (hi_params hi) ''DoShutdown''
    \<and> get_bool p2 ''ForcePowerDown'' = get_bool (hi_params hi) ''ForcePowerDown''
    \<and> get_bool p2 ''DisablePowerDown'' = get_bool (hi_params hi) ''DisablePowerDown''"
proof -
  define s3 where "s3 = snd (set_alert_if_changed ''Offroad_TemperatureTooHigh'' (show_temp_alert (set_conditions cf hi s1))
            (Some (str_fixed 1 (fo_x (offroad_temp_filter (set_conditions cf hi s1))) @ ''C'')) (set_conditions cf hi s1))"
  define t where "t = track_engaged (should_start_now s3) hi (s3, cycle_params hi)"
  have t: "get_bool (snd t) k = get_bool (hi_params hi) k" if "k \<noteq> ''IsEngaged''" "k \<noteq> ''OnroadCycleRequested''" for k
    using that by (auto simp: t_def track_engaged_def cycle_params_def)
  define s5 where "s5 = start_or_stop (should_start_now s3) (hi_now hi)
      ((fst t)\<lparr>pwrsave := \<not> ignition_of (fst t) \<and> hi_brightness hi < 1/1000\<rparr>)"
  have e: "s' = fst (finish_round cf hi fan s1)" "out = snd (finish_round cf hi fan s1)"
    using assms by simp_all
  note unfold = finish_round_def Let_def case_prod_beta fst_conv snd_conv s3_def [symmetric] t_def [symmetric]
    s5_def [symmetric]
  have s': "s' = (count_uptime (hi_now hi) (fst (check_power hi (s5, snd t))))
      \<lparr>hw_count := hw_count (count_uptime (hi_now hi) (fst (check_power hi (s5, snd t)))) + 1,
       should_start_prev := should_start_now s3\<rparr>"
    unfolding e unfold by (rule refl)
  have out: "\<exists>fan' alerts sv. fan' \<in> {fan, 100} \<and> out = device_message cf hi fan' alerts sv
      (count_uptime (hi_now hi) (fst (check_power hi (s5, snd t))), snd (check_power hi (s5, snd t)))"
    unfolding e unfold by (intro exI, rule conjI [OF _ refl]) simp
  from out obtain fan' alerts sv where "fan' \<in> {fan, 100}" "out = device_message cf hi fan' alerts sv
      (count_uptime (hi_now hi) (fst (check_power hi (s5, snd t))), snd (check_power hi (s5, snd t)))"
    by blast
  then show ?thesis
    using s' by (intro exI conjI) (assumption | rule t; simp)+
qed

lemma hw_step_cases:
  assumes "hw_step cf hi s = Some (s', p, r)"
  obtains (skipped) "r = None" "s' = before_skip hi s" "skip_round hi (before_skip hi s)"
  | (full) fan s0 s1 out where "r = Some out" "p = ho_params out" "read_temps cf hi (before_skip hi s) = Some (fan, s0)"
      "read_thermal cf hi s0 = Some s1" "finish_round cf hi fan s1 = (s', out)"
proof (cases "skip_round hi (before_skip hi s)")
  case True
  then show ?thesis
    using assms skipped by (simp add: hw_step_def Let_def)
next
  case False
  with assms obtain fan s0 s1 where t: "read_temps cf hi (before_skip hi s) = Some (fan, s0)" "read_thermal cf hi s0 = Some s1"
    and e: "(case finish_round cf hi fan s1 of (s2, out) \<Rightarrow> Some (s2, ho_params out, Some out)) = Some (s', p, r)"
    by (auto simp: hw_step_def Let_def bind_eq_Some_conv)
  obtain s2 out where "finish_round cf hi fan s1 = (s2, out)" by fastforce
  with t e show ?thesis
    by (intro full [of out fan s0 s1]) simp_all
qed

text \<open>What the conditions say, key by key.\<close>

lemma onroad_requires:
  assumes "should_start_now (set_conditions cf hi s)"
  shows "map_of (onroad_conditions s) ''ignition'' = Some b \<Longrightarrow> b"
    and "\<not> get_bool (hi_params hi) ''OffroadMode''" "\<not> unsupported_combo cf" "thermal_status s \<noteq> TH_critical"
proof -
  note g = all_values_get [of "onroad_conditions (set_conditions cf hi s)"]
  have a: "all_values (onroad_conditions (set_conditions cf hi s))"
    using assms by (simp add: should_start_now_def)
  note g = g [OF a]
  show "map_of (onroad_conditions s) ''ignition'' = Some b \<Longrightarrow> b"
    using g [of "''ignition''"] by (simp add: set_conditions_def)
  show "\<not> get_bool (hi_params hi) ''OffroadMode''"
    using g [of "''not_always_offroad''"] by (simp add: set_conditions_def)
  show "\<not> unsupported_combo cf"
    using g [of "''not_tici''"] by (simp add: set_conditions_def)
  show "thermal_status s \<noteq> TH_critical"
    using g [of "''device_temp_good''"] by (auto simp: set_conditions_def)
qed

lemma map_of_rev_distinct: "distinct (map fst xs) \<Longrightarrow> map_of (rev xs) = map_of xs"
  by (rule map_of_eqI) (auto simp: map_of_eq_Some_iff rev_map [symmetric])

lemma map_of_startup:
  "map_of (startup_now cf hi s) k = Some v \<Longrightarrow> map_of (startup_conditions (set_conditions cf hi s)) k = Some v"
proof -
  have "distinct (map fst (startup_now cf hi s))"
    by (simp add: startup_now_def Let_def)
  note map_of_rev_distinct [OF this]
  then show "map_of (startup_now cf hi s) k = Some v \<Longrightarrow> map_of (startup_conditions (set_conditions cf hi s)) k = Some v"
    by (simp add: set_conditions_def map_of_dict_update)
qed

lemma startup_requires:
  assumes "should_start_now (set_conditions cf hi s)" "started_ts s = None" "map_of (startup_now cf hi s) k = Some v"
  shows v
  using all_values_get [OF _ map_of_startup [OF assms(3)]] assms(1,2)
  by (simp add: should_start_now_def set_conditions_def)

lemma map_of_dict_update_mono: "map_of d k \<noteq> None \<Longrightarrow> map_of (dict_update d e) k \<noteq> None"
  by (auto simp: map_of_dict_update map_add_def split: option.splits)

text \<open>The invariant.\<close>

lemma hw_inv_before_skip: "hw_inv s \<Longrightarrow> hw_inv (before_skip hi s)"
  using before_skip_ignition [of s hi] by (simp add: hw_inv_def)

lemma hw_inv_finish:
  assumes "finish_round cf hi fan s1 = (s', out)" "fan_ok (fan_controller s1)" "banded (thermal_status s1)"
    "map_of (onroad_conditions s1) ''ignition'' \<noteq> None" "started_ts s1 \<noteq> None \<longrightarrow> off_ts s1 = None \<and> started_seen s1"
  shows "hw_inv s'"
proof -
  note f = finish_round_fields [OF assms(1)]
  have "map_of (onroad_conditions s') ''ignition'' \<noteq> None"
    unfolding f using assms(4) map_of_dict_update_mono by (simp add: set_conditions_def)
  moreover have "started_ts s' \<noteq> None \<longrightarrow> off_ts s' = None \<and> started_seen s' \<and> thermal_status s' \<noteq> TH_critical"
    using f onroad_requires(4) [of cf hi s1] assms(5) by auto
  ultimately show ?thesis
    using assms(2,3) f by (simp add: hw_inv_def)
qed

lemma hw_step_total:
  assumes "hw_inv s"
  shows "\<exists>s' p r. hw_step cf hi s = Some (s', p, r) \<and> hw_inv s'
    \<and> (\<forall>out. r = Some out \<longrightarrow> banded (ho_thermalStatus out) \<and> ho_fanSpeedPercentDesired out \<in> {0..100})"
proof (cases "skip_round hi (before_skip hi s)")
  case True
  then show ?thesis
    using hw_inv_before_skip [OF assms] by (simp add: hw_step_def Let_def)
next
  case False
  let ?b = "before_skip hi s"
  have b: "hw_inv ?b"
    using hw_inv_before_skip [OF assms] .
  obtain fan s0 where s0: "read_temps cf hi ?b = Some (fan, s0)" "fan_ok (fan_controller s0)" "0 \<le> fan" "fan \<le> 100"
    using read_temps_total [of ?b cf hi] b by (auto simp: hw_inv_def)
  note f0 = read_temps_fields [OF s0(1)]
  obtain s1 where s1: "read_thermal cf hi s0 = Some s1" "banded (thermal_status s1)"
    using read_thermal_total [of s0 cf hi] f0 b by (auto simp: hw_inv_def)
  note f1 = read_thermal_fields [OF s1(1)]
  obtain s' out where fr: "finish_round cf hi fan s1 = (s', out)" by fastforce
  have "hw_inv s'"
    using hw_inv_finish [OF fr] b s0(2) s1(2) f0 f1 by (simp add: hw_inv_def)
  moreover have "banded (ho_thermalStatus out)" "ho_fanSpeedPercentDesired out \<in> {0..100}"
    using finish_round_out [OF fr] finish_round_fields(4) [OF fr] s0(3,4) s1(2)
      hw_core_stages(4) by (auto simp: device_message_def hw_core_def)
  ultimately show ?thesis
    using s0(1) s1(1) fr False by (simp add: hw_step_def Let_def)
qed

lemma hw_step_inv: "hw_inv s \<Longrightarrow> hw_step cf hi s = Some (s', p, r) \<Longrightarrow> hw_inv s'"
  using hw_step_total [of s cf hi] by auto

lemma hw_run_inv: "hw_inv s \<Longrightarrow> hw_run cf his s = Some (outs, s') \<Longrightarrow> hw_inv s'"
proof (induction his arbitrary: s outs)
  case (Cons hi his)
  then obtain t p r outs' where "hw_step cf hi s = Some (t, p, r)" "hw_run cf his t = Some (outs', s')"
    by (auto simp: bind_eq_Some_conv)
  then show ?case
    using hw_step_inv [OF Cons.prems(1)] Cons.IH by blast
qed simp

lemma reachable_inv: "hw_run cf his (new_HwState params a b now) = Some (outs, s) \<Longrightarrow> hw_inv s"
  using hw_run_inv [OF hw_inv_new] .

end
