(* ===== verification/HardwaredSafety.thy ===== *)
theory HardwaredSafety
  imports Hardwared
begin

text \<open>
  The properties of the hardware thread: it never raises, the device goes onroad only when every condition
  holds, leaves the road on a lost panda or a critical temperature, is shut down only while parked, and the
  thermal status does not oscillate.
\<close>

section \<open>Lemmas\<close>

lemma hw_run_total:
  "hw_inv s \<Longrightarrow> \<exists>outs s'. hw_run cf his s = Some (outs, s')
     \<and> list_all (\<lambda>out. banded (ho_thermalStatus out) \<and> ho_fanSpeedPercentDesired out \<in> {0..100}) outs"
proof (induction his arbitrary: s)
  case (Cons hi his)
  obtain t p r where t: "hw_step cf hi s = Some (t, p, r)" "hw_inv t"
    "\<forall>out. r = Some out \<longrightarrow> banded (ho_thermalStatus out) \<and> ho_fanSpeedPercentDesired out \<in> {0..100}"
    using hw_step_total [OF Cons.prems, of cf hi] by blast
  then show ?case
    using Cons.IH [OF t(2)] by (auto split: option.split)
qed simp

text \<open>A round that starts the device is complete and found every condition true.\<close>

lemma starting_round:
  assumes "hw_inv s" "hw_step cf hi s = Some (s', p, r)" "started_ts s = None" "started_ts s' \<noteq> None"
  obtains s1 where "should_start_now (set_conditions cf hi s1)" "started_ts s1 = None"
    "startup_conditions s1 = startup_conditions s" "thermal_status s1 = thermal_status s'"
    "ignition_of s' \<and> ignition_of s1" "banded (thermal_status s')"
  using assms(2)
proof (cases rule: hw_step_cases)
  case skipped
  then show ?thesis
    using assms(3,4) by simp
next
  case (full fan s0 s1 out)
  note f = finish_round_fields [OF full(5)] read_thermal_fields [OF full(4)] read_temps_fields [OF full(3)]
  have s1: "started_ts s1 = None" "startup_conditions s1 = startup_conditions s"
    "onroad_conditions s1 = onroad_conditions (before_skip hi s)"
    using f assms(3) by simp_all
  have go: "should_start_now (set_conditions cf hi s1)"
    using f(1) assms(4) by (auto split: if_splits)
  have "map_of (onroad_conditions (before_skip hi s)) ''ignition'' = Some (ignition_of (before_skip hi s))"
    using before_skip_ignition assms(1) by (simp add: hw_inv_def)
  then have i: "map_of (onroad_conditions s1) ''ignition'' = Some (ignition_of s1)"
    by (simp add: s1 ignition_of_def)
  then have "ignition_of s1"
    using onroad_requires(1) [OF go] by blast
  moreover have "ignition_of s' = ignition_of s1"
    unfolding ignition_of_def f(6) set_conditions_def by (simp add: dict_get_def)
  ultimately show ?thesis
    using that [OF go s1(1,2)] f(4) hw_step_inv [OF assms(1,2)] by (simp add: hw_inv_def)
qed

text \<open>A round that orders the shut-down does so on the word of the power monitor.\<close>

lemma shutdown_round:
  assumes "hw_step cf hi s = Some (s', p, r)" "\<not> get_bool (hi_params hi) ''DoShutdown''" "get_bool p ''DoShutdown''"
  shows "\<exists>t. off_ts s' = Some t
    \<and> (get_bool (hi_params hi) ''ForcePowerDown''
       \<or> \<not> ignition_of s' \<and> in_car s' \<and> \<not> get_bool (hi_params hi) ''DisablePowerDown'' \<and> hi_now hi - t > 300)
    \<and> (started_seen s' \<or> hi_now hi > 3600)"
  using assms(1)
proof (cases rule: hw_step_cases)
  case skipped
  then show ?thesis
    using assms by (auto simp: hw_step_def Let_def cycle_params_def split: if_splits)
next
  case (full fan s0 s1 out)
  from finish_round_out [OF full(5)] obtain fan' alerts sv s5 p2 n b where
    out: "out = device_message cf hi fan' alerts sv (count_uptime (hi_now hi) (fst (check_power hi (s5, p2))), snd (check_power hi (s5, p2)))"
    and s': "s' = (count_uptime (hi_now hi) (fst (check_power hi (s5, p2))))\<lparr>hw_count := n, should_start_prev := b\<rparr>"
    and p2: "get_bool p2 ''DoShutdown'' = get_bool (hi_params hi) ''DoShutdown''"
      "get_bool p2 ''ForcePowerDown'' = get_bool (hi_params hi) ''ForcePowerDown''"
      "get_bool p2 ''DisablePowerDown'' = get_bool (hi_params hi) ''DisablePowerDown''"
    by blast
  have "hw_core s' = hw_core s5"
    unfolding s' by (simp only: hw_core_stages)
  then have c: "off_ts s' = off_ts s5" "in_car s' = in_car s5" "ignition_of s' = ignition_of s5" "started_seen s' = started_seen s5"
    by (simp_all add: hw_core_def ignition_of_def)
  have "get_bool (snd (check_power hi (s5, p2))) ''DoShutdown''"
    using assms(3) full(2) out by (simp add: device_message_def)
  then show ?thesis
    using p2 assms(2) c
    by (auto simp: check_power_def Let_def case_prod_beta get_bool_calculate should_shutdown_def
        DELAY_SHUTDOWN_TIME_S_def MIN_ON_TIME_S_def split: if_splits option.splits)
qed

section \<open>Properties\<close>

text \<open>The hardware thread never raises, whatever temperatures, messages and parameters it meets: the status
  always has a thermal band, and the published fan speed is a percentage.\<close>

theorem hardware_thread_never_raises:
  "\<exists>outs s. hw_run cf his (new_HwState params up_off up_on now) = Some (outs, s)
     \<and> list_all (\<lambda>out. ho_thermalStatus out \<in> {TH_ok, TH_overheated, TH_critical}
         \<and> ho_fanSpeedPercentDesired out \<in> {0..100}) outs"
  using hw_run_total [OF hw_inv_new] unfolding banded_def by blast

text \<open>C24 (safety). The device goes onroad only when everything is in order: the ignition is on, both terms are accepted
  and the training is completed, the device has booted, is not hot and has free space, no uninstallation, snapshot,
  driver view, forced offroad mode or excessive actuation is pending, updates are not overdue, and the branch
  supports the device.\<close>

theorem onroad_only_when_allowed:
  assumes "hw_run cf his (new_HwState params up_off up_on now) = Some (outs, s)"
    "hw_step cf hi s = Some (s', p, r)" "started_ts s = None" "started_ts s' \<noteq> None"
  shows "ignition_of s' \<and> hi_HasAcceptedTerms hi = Some ''2'' \<and> hi_HasAcceptedTermsSP hi = Some ''1.0''
    \<and> hi_CompletedTrainingVersion hi = Some ''0.2.0'' \<and> thermal_status s' = TH_ok \<and> hi_freeSpacePercent hi > 2
    \<and> (hi_booted hi \<or> dict_get False (startup_conditions s) ''device_booted'')
    \<and> \<not> get_bool (hi_params hi) ''DoUninstall'' \<and> \<not> get_bool (hi_params hi) ''IsTakingSnapshot''
    \<and> \<not> get_bool (hi_params hi) ''IsDriverViewEnabled'' \<and> \<not> get_bool (hi_params hi) ''OffroadMode''
    \<and> hi_params hi ''Offroad_ExcessiveActuation'' = None
    \<and> (hi_params hi ''Offroad_ConnectivityNeeded'' = None \<or> get_bool (hi_params hi) ''DisableUpdates''
       \<or> get_bool (hi_params hi) ''SnoozeUpdate'')
    \<and> \<not> unsupported_combo cf"
proof -
  obtain s1 where s1: "should_start_now (set_conditions cf hi s1)" "started_ts s1 = None"
    "startup_conditions s1 = startup_conditions s" "thermal_status s1 = thermal_status s'"
    "ignition_of s' \<and> ignition_of s1" "banded (thermal_status s')"
    using starting_round [OF reachable_inv [OF assms(1)] assms(2-4)] by blast
  note c = startup_requires [OF s1(1,2)]
  have "thermal_value (thermal_status s1) < thermal_value TH_overheated"
    using c [of "''device_temp_engageable''"] by (simp add: startup_now_def Let_def)
  then have "thermal_status s' = TH_ok"
    using s1(4,6) by (auto simp: banded_def thermal_value_def)
  then show ?thesis
    using s1(3,5) onroad_requires(2,3) [OF s1(1)] c [of "''up_to_date''"] c [of "''no_excessive_actuation''"]
      c [of "''not_uninstalling''"] c [of "''accepted_terms''"] c [of "''accepted_terms_sp''"] c [of "''free_space''"]
      c [of "''completed_training''"] c [of "''not_driver_view''"] c [of "''not_taking_snapshot''"]
      c [of "''device_booted''"]
    by (simp add: startup_now_def Let_def terms_version_def terms_version_sp_def training_version_def disj_commute)
qed

text \<open>When the panda has been silent for more than five seconds, or the device has become critically hot,
  the round leaves the device offroad; a lost panda is noticed also in the rounds between the 2 Hz ones.\<close>

theorem device_leaves_road:
  assumes "hw_run cf his (new_HwState params up_off up_on now) = Some (outs, s)"
    "hw_step cf hi s = Some (s', p, r)"
    "\<not> hi_panda_updated hi \<and> hi_now hi - hi_panda_recv_time hi > 5 \<or> thermal_status s' = TH_critical"
  shows "started_ts s' = None \<and> (\<forall>out. r = Some out \<longrightarrow> \<not> ho_started out)"
proof -
  note inv = reachable_inv [OF assms(1)]
  note inv' = hw_step_inv [OF inv assms(2)]
  let ?b = "before_skip hi s"
  have i: "map_of (onroad_conditions ?b) ''ignition'' = Some (ignition_of ?b)"
    using before_skip_ignition inv by (simp add: hw_inv_def)
  have stop: "started_ts s' = None"
  proof (cases "thermal_status s' = TH_critical")
    case True
    then show ?thesis using inv' by (auto simp: hw_inv_def)
  next
    case False
    then have lost: "\<not> ignition_of ?b"
      using assms(3) panda_lost by blast
    show ?thesis
      using assms(2)
    proof (cases rule: hw_step_cases)
      case skipped
      have "\<not> all_values (onroad_conditions ?b)"
        using all_values_get [OF _ i] lost by blast
      then show ?thesis
        using skipped by (simp add: skip_round_def Let_def)
    next
      case (full fan s0 s1 out)
      note f = finish_round_fields [OF full(5)] read_thermal_fields [OF full(4)] read_temps_fields [OF full(3)]
      have "\<not> should_start_now (set_conditions cf hi s1)"
        using onroad_requires(1) [of cf hi s1] i lost f by auto
      then show ?thesis
        using f(1) by simp
    qed
  qed
  have "\<not> ho_started out" if r: "r = Some out" for out
    using assms(2)
  proof (cases rule: hw_step_cases)
    case (full fan s0 s1 out)
    then show ?thesis
      using r stop finish_round_out [OF full(5)] by (auto simp: device_message_def)
  qed (simp add: r)
  with stop show ?thesis by blast
qed

text \<open>C25 (safety). A round orders the shut-down only when the device is offroad and has run for an hour or been onroad,
  and, unless it is forced, the ignition is off, the device is in a car, powering down is not disabled, and the drive
  ended more than five minutes ago.\<close>

theorem shutdown_only_when_parked:
  assumes "hw_run cf his (new_HwState params up_off up_on now) = Some (outs, s)"
    "hw_step cf hi s = Some (s', p, r)" "\<not> get_bool (hi_params hi) ''DoShutdown''" "get_bool p ''DoShutdown''"
  shows "started_ts s' = None \<and> (started_seen s' \<or> hi_now hi > 3600)
    \<and> (get_bool (hi_params hi) ''ForcePowerDown''
       \<or> \<not> ignition_of s' \<and> in_car s' \<and> \<not> get_bool (hi_params hi) ''DisablePowerDown''
         \<and> (\<exists>t. off_ts s' = Some t \<and> hi_now hi - t > 300))"
  using shutdown_round [OF assms(2-4)] hw_step_inv [OF reachable_inv [OF assms(1)] assms(2)]
  by (auto simp: hw_inv_def)

text \<open>The thermal status does not oscillate: at a constant temperature two moves settle it, and then it
  stays.\<close>

theorem thermal_status_settles:
  assumes "status \<in> {TH_ok, TH_overheated, TH_critical}"
  shows "\<exists>a b. thermal_move mici temp status = Some a \<and> thermal_move mici temp a = Some b
    \<and> thermal_move mici temp b = Some b"
  using assms by (auto simp: thermal_move_def THERMAL_BANDS_def Let_def)

section \<open>Witnesses\<close>

definition road_cf :: HwConfig where
  "road_cf = \<lparr>hc_TICI = True, hc_device_type = ''tizi'', hc_channel_type = ''release'', hc_channel = ''release-tizi''\<rparr>"

definition road_hi :: "rat \<Rightarrow> int \<Rightarrow> bool \<Rightarrow> Params \<Rightarrow> HwInput" where
  "road_hi t fr ign params =
     \<lparr>hi_now = t, hi_frame = fr, hi_panda_updated = ign, hi_pandas = [\<lparr>hp_ignitionLine = ign,
        hp_ignitionCan = False, hp_unknown = False, hp_connected = True\<rparr>], hi_panda_recv_time = 0,
      hi_selfdrive_updated = False, hi_selfdrive_enabled = False, hi_voltage = Some 12500, hi_current_power = 3,
      hi_hw = None, hi_memoryTempC = 40, hi_cpuTempC = [50, 45], hi_gpuTempC = [], hi_pmicTempC = [42],
      hi_freeSpacePercent = 50, hi_brightness = 0, hi_booted = True, hi_params = params,
      hi_HasAcceptedTerms = Some ''2'', hi_HasAcceptedTermsSP = Some ''1.0'',
      hi_CompletedTrainingVersion = Some ''0.2.0''\<rparr>"

definition parked_hw :: HwState where
  "parked_hw = new_HwState Map.empty 0 0 0"

lemma road_start:
  "case hw_step road_cf (road_hi 1 10 True Map.empty) parked_hw of None \<Rightarrow> False | Some (s, p, r) \<Rightarrow> started_ts s \<noteq> None"
  by code_simp

lemma road_forced:
  "case hw_step road_cf (road_hi 4000 10 False [''ForcePowerDown'' \<mapsto> 1]) parked_hw of None \<Rightarrow> False
   | Some (s, p, r) \<Rightarrow> get_bool p ''DoShutdown''"
  by code_simp

lemma parked_hw_run: "hw_run road_cf [] (new_HwState Map.empty 0 0 0) = Some ([], parked_hw)"
  by (simp add: parked_hw_def)

lemma parked_hw_off: "started_ts parked_hw = None"
  by (simp add: parked_hw_def new_HwState_def)

theorem onroad_only_when_allowed_witness:
  "\<exists>s p r. hw_step road_cf (road_hi 1 10 True Map.empty) parked_hw = Some (s, p, r) \<and> ignition_of s \<and> thermal_status s = TH_ok"
proof -
  obtain s p r where "hw_step road_cf (road_hi 1 10 True Map.empty) parked_hw = Some (s, p, r)" "started_ts s \<noteq> None"
    using road_start by (auto split: option.splits)
  then show ?thesis
    using onroad_only_when_allowed [OF parked_hw_run _ parked_hw_off] by blast
qed

theorem device_leaves_road_witness:
  "\<exists>s p r. hw_step road_cf (road_hi 4000 10 False Map.empty) parked_hw = Some (s, p, r) \<and> started_ts s = None"
proof -
  obtain s p r where "hw_step road_cf (road_hi 4000 10 False Map.empty) parked_hw = Some (s, p, r)"
    using hw_step_total [OF reachable_inv [OF parked_hw_run]] by blast
  then show ?thesis
    using device_leaves_road [OF parked_hw_run, of "road_hi 4000 10 False Map.empty"]
    by (auto simp: road_hi_def)
qed

theorem shutdown_only_when_parked_witness:
  "\<exists>s p r. hw_step road_cf (road_hi 4000 10 False [''ForcePowerDown'' \<mapsto> 1]) parked_hw = Some (s, p, r)
     \<and> get_bool p ''DoShutdown'' \<and> started_ts s = None"
proof -
  let ?hi = "road_hi 4000 10 False [''ForcePowerDown'' \<mapsto> 1]"
  obtain s p r where s: "hw_step road_cf ?hi parked_hw = Some (s, p, r)" "get_bool p ''DoShutdown''"
    using road_forced by (auto split: option.splits)
  have "\<not> get_bool (hi_params ?hi) ''DoShutdown''"
    by (simp add: road_hi_def get_bool_def)
  from shutdown_only_when_parked [OF parked_hw_run s(1) this s(2)] s show ?thesis by blast
qed

theorem thermal_status_settles_witness:
  "\<exists>a b. thermal_move True 120 TH_ok = Some a \<and> thermal_move True 120 a = Some b \<and> thermal_move True 120 b = Some b"
  using thermal_status_settles [of TH_ok True 120] by simp

end
