(* ===== verification/UbxFramer.thy ===== *)
theory UbxFramer
  imports BinaryStruct
begin

text \<open>
  The class \<open>UbxFramer\<close> of \<open>system/ubloxd/ubloxd.py\<close>: it collects raw bytes and cuts UBX frames out of them.
  Shown here: whatever comes out is a well-formed frame of the input, a clean stream of frames comes out
  unchanged however it is cut into pieces, and, as a defect, a preamble that is cut after garbage is lost.
\<close>

section \<open>The framer\<close>

definition PREAMBLE1 :: byte where "PREAMBLE1 = 0xB5"
definition PREAMBLE2 :: byte where "PREAMBLE2 = 0x62"
definition HEADER_SIZE :: nat where "HEADER_SIZE = 6"
definition CHECKSUM_SIZE :: nat where "CHECKSUM_SIZE = 2"

record UbxFramer =
  buf :: "byte list"
  last_log_time :: rat

definition new_UbxFramer :: UbxFramer where
  "new_UbxFramer = \<lparr>buf = [], last_log_time = 0\<rparr>"

definition framer_reset :: "UbxFramer \<Rightarrow> UbxFramer" where
  "framer_reset fr = fr\<lparr>buf := []\<rparr>"

text \<open>The two sums are kept to eight bits, as words are.\<close>

definition fletcher :: "byte list \<Rightarrow> byte \<times> byte" where
  "fletcher bs = fold (\<lambda>b (ck_a, ck_b). (ck_a + b, ck_b + (ck_a + b))) bs (0, 0)"

text \<open>The slice \<open>frame[2:-2]\<close> and the last two bytes.\<close>

definition checksum_ok :: "byte list \<Rightarrow> bool" where
  "checksum_ok frm =
     (let (ck_a, ck_b) = fletcher (drop 2 (take (length frm - 2) frm))
      in ck_a = frm ! (length frm - 2) \<and> ck_b = frm ! (length frm - 1))"

text \<open>\<open>buf.find\<close> of the preamble.\<close>

fun find_preamble :: "byte list \<Rightarrow> nat option" where
  "find_preamble (a # b # bs) =
     (if a = PREAMBLE1 \<and> b = PREAMBLE2 then Some 0 else map_option Suc (find_preamble (b # bs)))"
| "find_preamble _ = None"

definition total_len :: "byte list \<Rightarrow> nat" where
  "total_len b = HEADER_SIZE + le_nat (take 2 (drop 4 b)) + CHECKSUM_SIZE"

text \<open>The loop: the frames found, and what stays in the buffer.\<close>

function frame_loop :: "byte list \<Rightarrow> byte list list \<times> byte list" where
  "frame_loop b0 =
     (if length b0 < 2 then ([], b0)
      else (case find_preamble b0 of
          None \<Rightarrow> ([], [])
        | Some start \<Rightarrow>
            (let b = drop start b0
             in if length b < HEADER_SIZE then ([], b)
                else if length b < total_len b then ([], b)
                else if checksum_ok (take (total_len b) b)
                then (case frame_loop (drop (total_len b) b) of (out, rest) \<Rightarrow> (take (total_len b) b # out, rest))
                else frame_loop (drop 1 b))))"
  by pat_completeness auto
termination
  by (relation "measure length") (auto simp: total_len_def HEADER_SIZE_def)

declare frame_loop.simps [simp del]

definition add_data :: "rat \<Rightarrow> byte list \<Rightarrow> UbxFramer \<Rightarrow> byte list list \<times> UbxFramer" where
  "add_data log_time incoming fr0 =
     (let fr = fr0\<lparr>last_log_time := log_time\<rparr>
      in if incoming = [] then ([], fr)
         else (let (out, rest) = frame_loop (buf fr @ incoming) in (out, fr\<lparr>buf := rest\<rparr>)))"

text \<open>The pieces of a stream, fed one after the other.\<close>

fun add_all :: "(rat \<times> byte list) list \<Rightarrow> UbxFramer \<Rightarrow> byte list list \<times> UbxFramer" where
  "add_all [] fr = ([], fr)"
| "add_all ((t, c) # cs) fr =
     (let (out, fr') = add_data t c fr; (outs, fr'') = add_all cs fr' in (out @ outs, fr''))"

section \<open>Well-formed frames\<close>

definition valid_frame :: "byte list \<Rightarrow> bool" where
  "valid_frame f \<longleftrightarrow>
     8 \<le> length f \<and> take 2 f = [PREAMBLE1, PREAMBLE2] \<and> length f = total_len f \<and> checksum_ok f"

text \<open>The reference encoder of a message.\<close>

definition ubx_frame :: "byte \<Rightarrow> byte \<Rightarrow> byte list \<Rightarrow> byte list" where
  "ubx_frame cls ident payload =
     (let body = [cls, ident, of_nat (length payload mod 256), of_nat (length payload div 256)] @ payload;
          (ck_a, ck_b) = fletcher body
      in [PREAMBLE1, PREAMBLE2] @ body @ [ck_a, ck_b])"

lemma valid_ubx_frame:
  assumes "length payload < 65536"
  shows "valid_frame (ubx_frame cls ident payload)"
proof -
  let ?n = "length payload"
  obtain a b where ck: "fletcher ([cls, ident, of_nat (?n mod 256), of_nat (?n div 256)] @ payload) = (a, b)"
    by fastforce
  have f: "ubx_frame cls ident payload =
      [PREAMBLE1, PREAMBLE2, cls, ident, of_nat (?n mod 256), of_nat (?n div 256)] @ payload @ [a, b]"
    using ck by (simp add: ubx_frame_def)
  have "?n div 256 < 256"
    using assms by (simp add: less_mult_imp_div_less)
  then have n: "unat (of_nat (?n mod 256) :: byte) + 256 * unat (of_nat (?n div 256) :: byte) = ?n"
    by (simp add: unat_of_nat)
  have "checksum_ok (ubx_frame cls ident payload)"
    unfolding checksum_ok_def f using ck by (simp add: nth_append)
  then show ?thesis
    using n unfolding valid_frame_def f total_len_def HEADER_SIZE_def CHECKSUM_SIZE_def by simp
qed

text \<open>A prefix of a frame that is not the whole frame.\<close>

definition part_of_frame :: "byte list \<Rightarrow> bool" where
  "part_of_frame p \<longleftrightarrow> p = [] \<or> (\<exists>f q. valid_frame f \<and> f = p @ q \<and> q \<noteq> [])"

lemma valid_frame_start:
  assumes "valid_frame f"
  obtains bs where "f = PREAMBLE1 # PREAMBLE2 # bs" "6 \<le> length bs"
proof -
  obtain a b bs where "f = a # b # bs"
    using assms by (cases f; cases "tl f") (auto simp: valid_frame_def)
  then show ?thesis
    using assms that by (simp add: valid_frame_def)
qed

lemma find_at_start [simp]: "find_preamble (PREAMBLE1 # PREAMBLE2 # bs) = Some 0"
  by simp

lemma total_len_append: "6 \<le> length p \<Longrightarrow> total_len (p @ q) = total_len p"
  by (simp add: total_len_def)

lemma frame_loop_part:
  assumes "part_of_frame p"
  shows "frame_loop p = ([], p)"
proof (cases "length p < 2")
  case True
  then show ?thesis by (simp add: frame_loop.simps [of p])
next
  case False
  then obtain f q where f: "valid_frame f" "f = p @ q" "q \<noteq> []"
    using assms by (auto simp: part_of_frame_def)
  obtain bs where "f = PREAMBLE1 # PREAMBLE2 # bs"
    using valid_frame_start [OF f(1)] by blast
  then obtain cs where p: "p = PREAMBLE1 # PREAMBLE2 # cs"
    using False f(2) by (cases p; cases "tl p") auto
  have "length p < total_len p" if "6 \<le> length p"
    using f total_len_append [OF that, of q] by (cases q) (auto simp: valid_frame_def)
  then show ?thesis
    unfolding frame_loop.simps [of p] by (auto simp: p HEADER_SIZE_def Let_def)
qed

lemma frame_loop_frame:
  assumes "valid_frame f"
  shows "frame_loop (f @ rest) = (f # fst (frame_loop rest), snd (frame_loop rest))"
proof -
  obtain bs where f: "f = PREAMBLE1 # PREAMBLE2 # bs"
    using valid_frame_start [OF assms] by blast
  then have s: "find_preamble (f @ rest) = Some 0"
    by simp
  have l: "8 \<le> length f" "total_len (f @ rest) = length f" "checksum_ok f"
    using assms total_len_append [of f rest] by (auto simp: valid_frame_def)
  then have "length (f @ rest) \<ge> 2" "\<not> length (f @ rest) < 6" "\<not> length (f @ rest) < total_len (f @ rest)"
    by simp_all
  then show ?thesis
    using l s by (simp add: frame_loop.simps [of "f @ rest"] HEADER_SIZE_def Let_def case_prod_beta del: length_append)
qed

lemma frame_loop_stream:
  "list_all valid_frame fs \<Longrightarrow> part_of_frame p \<Longrightarrow> frame_loop (concat fs @ p) = (fs, p)"
  by (induction fs) (simp_all add: frame_loop_part frame_loop_frame)

text \<open>A prefix of a stream of frames is some of the frames and a part of the next.\<close>

lemma stream_prefix:
  assumes "list_all valid_frame fs" "concat fs = b @ rest"
  shows "\<exists>n p. n \<le> length fs \<and> b = concat (take n fs) @ p \<and> part_of_frame p \<and> concat (drop n fs) = p @ rest"
  using assms
proof (induction fs arbitrary: b)
  case Nil
  then show ?case by (simp add: part_of_frame_def)
next
  case (Cons f fs)
  show ?case
  proof (cases "length b < length f")
    case True
    then have t: "take (length b) f = b" "drop (length b) f \<noteq> []"
      using Cons.prems(2) by (auto simp: append_eq_append_conv_if)
    then have "f = b @ drop (length b) f"
      by (metis append_take_drop_id)
    moreover note t(2)
    moreover have "valid_frame f"
      using Cons.prems(1) by simp
    ultimately have "part_of_frame b"
      unfolding part_of_frame_def by blast
    then show ?thesis
      using Cons.prems(2) by (intro exI [of _ 0] exI [of _ b]) simp
  next
    case False
    then obtain b' where b: "b = f @ b'" "concat fs = b' @ rest"
      using Cons.prems(2) by (auto simp: append_eq_append_conv2 append_eq_append_conv_if)
    then obtain n p where "n \<le> length fs" "b' = concat (take n fs) @ p" "part_of_frame p" "concat (drop n fs) = p @ rest"
      using Cons.IH [of b'] Cons.prems(1) by auto
    then show ?thesis
      using b(1) by (intro exI [of _ "Suc n"] exI [of _ p]) simp
  qed
qed

text \<open>The state while a clean stream arrives: the buffer is a part of the next frame.\<close>

lemma add_all_stream:
  assumes "list_all valid_frame fs" "part_of_frame (buf fr)" "buf fr @ concat (map snd cs) = concat fs"
  shows "\<exists>t. add_all cs fr = (fs, \<lparr>buf = [], last_log_time = t\<rparr>)"
  using assms
proof (induction cs arbitrary: fs fr)
  case Nil
  have "frame_loop (buf fr) = ([], buf fr)" "frame_loop (concat fs @ []) = (fs, [])"
    using frame_loop_part [OF Nil(2)] frame_loop_stream [OF Nil(1), of "[]"] by (simp_all add: part_of_frame_def)
  then show ?case
    using Nil(3) by (intro exI [of _ "last_log_time fr"]) (cases fr, auto)
next
  case (Cons x cs)
  obtain t c where x: "x = (t, c)" by (cases x)
  obtain n p where n: "n \<le> length fs" "buf fr @ c = concat (take n fs) @ p" "part_of_frame p"
    "concat (drop n fs) = p @ concat (map snd cs)"
    using stream_prefix [OF Cons.prems(1), of "buf fr @ c" "concat (map snd cs)"] Cons.prems(3) by (auto simp: x)
  define fr' where "fr' = \<lparr>buf = p, last_log_time = t\<rparr>"
  have v: "list_all valid_frame (take n fs)" "list_all valid_frame (drop n fs)"
    using Cons.prems(1) by (metis append_take_drop_id list_all_append)+
  have l: "frame_loop (buf fr @ c) = (take n fs, p)"
    unfolding n(2) by (rule frame_loop_stream [OF v(1) n(3)])
  have a: "add_data t c fr = (take n fs, fr')"
  proof (cases "c = []")
    case True
    then have "(take n fs, p) = ([], buf fr)"
      using l frame_loop_part [OF Cons.prems(2)] by simp
    then show ?thesis
      using True by (simp add: add_data_def Let_def fr'_def)
  next
    case False
    then show ?thesis
      using l by (simp add: add_data_def Let_def fr'_def)
  qed
  obtain u where "add_all cs fr' = (drop n fs, \<lparr>buf = [], last_log_time = u\<rparr>)"
    using Cons.IH [OF v(2), of fr'] n(3,4) by (auto simp: fr'_def)
  then show ?case
    by (simp add: x a)
qed

text \<open>Everything that comes out is a well-formed piece of the input.\<close>

lemma find_preamble_Some:
  "find_preamble b = Some i \<Longrightarrow> i + 2 \<le> length b \<and> take 2 (drop i b) = [PREAMBLE1, PREAMBLE2]"
  by (induction b arbitrary: i rule: find_preamble.induct) (auto split: if_splits)

lemma frame_loop_sound:
  "f \<in> set (fst (frame_loop b)) \<Longrightarrow> valid_frame f \<and> (\<exists>xs ys. b = xs @ f @ ys)"
proof (induction b rule: frame_loop.induct)
  case (1 b0)
  show ?case
  proof (cases "length b0 < 2 \<or> find_preamble b0 = None")
    case True
    then show ?thesis
      using "1.prems" by (auto simp: frame_loop.simps [of b0] split: if_splits)
  next
    case False
    then obtain i where i: "find_preamble b0 = Some i" "\<not> length b0 < 2" by auto
    define b where "b = drop i b0"
    have b: "b0 = take i b0 @ b" "take 2 b = [PREAMBLE1, PREAMBLE2]"
      using find_preamble_Some [OF i(1)] by (simp_all add: b_def)
    note eq = frame_loop.simps [of b0] i b_def [symmetric]
    show ?thesis
    proof (cases "length b < HEADER_SIZE \<or> length b < total_len b")
      case True
      then show ?thesis
        using "1.prems" by (auto simp: eq Let_def split: if_splits)
    next
      case long: False
      show ?thesis
      proof (cases "checksum_ok (take (total_len b) b)")
        case True
        have "f = take (total_len b) b \<or> f \<in> set (fst (frame_loop (drop (total_len b) b)))"
          using "1.prems" long True by (auto simp: eq Let_def case_prod_beta)
        then show ?thesis
        proof
          assume f: "f = take (total_len b) b"
          have "8 \<le> total_len b"
            by (simp add: total_len_def HEADER_SIZE_def CHECKSUM_SIZE_def)
          moreover have "total_len f = total_len b"
            unfolding f using calculation by (simp add: total_len_def take_drop flip: f)
          ultimately have "valid_frame f"
            using long True b(2) by (simp add: valid_frame_def f min_absorb2 take_take)
          then show ?thesis
            using b(1) f by (metis append_take_drop_id)
        next
          assume "f \<in> set (fst (frame_loop (drop (total_len b) b)))"
          then have "valid_frame f \<and> (\<exists>xs ys. drop (total_len b) b = xs @ f @ ys)"
            using "1.IH"(1) [OF i(2,1) refl] long True unfolding b_def by blast
          then show ?thesis
            by (metis append_assoc append_take_drop_id b(1))
        qed
      next
        case False
        then have "f \<in> set (fst (frame_loop (drop 1 b)))"
          using "1.prems" long by (auto simp: eq Let_def)
        then have "valid_frame f \<and> (\<exists>xs ys. drop 1 b = xs @ f @ ys)"
          using "1.IH"(2) [OF i(2,1) refl] long False unfolding b_def by blast
        then show ?thesis
          by (metis append_assoc append_take_drop_id b(1))
      qed
    qed
  qed
qed

section \<open>Bytes before a frame\<close>

lemma find_preamble_snoc: "find_preamble xs = None \<Longrightarrow> find_preamble (xs @ [PREAMBLE1]) = None"
  by (induction xs rule: find_preamble.induct) (auto simp: PREAMBLE1_def PREAMBLE2_def split: if_splits)

lemma find_preamble_noise:
  "find_preamble xs = None \<Longrightarrow> find_preamble (xs @ PREAMBLE1 # PREAMBLE2 # bs) = Some (length xs)"
  by (induction xs rule: find_preamble.induct) (auto simp: PREAMBLE1_def PREAMBLE2_def split: if_splits)

text \<open>Bytes without a preamble are skipped, and the frames after them come out.\<close>

lemma frame_loop_noise:
  assumes "find_preamble xs = None" "list_all valid_frame fs" "fs \<noteq> [] \<or> 2 \<le> length xs"
  shows "frame_loop (xs @ concat fs) = (fs, [])"
proof (cases fs)
  case Nil
  then show ?thesis
    using assms by (simp add: frame_loop.simps [of xs])
next
  case (Cons f fs')
  obtain bs where f: "f = PREAMBLE1 # PREAMBLE2 # bs"
    using assms(2) valid_frame_start [of f] by (auto simp: Cons)
  have "find_preamble (xs @ concat fs) = Some (length xs)" "find_preamble (concat fs) = Some 0"
    "\<not> length (concat fs) < 2"
    using find_preamble_noise [OF assms(1)] by (simp_all add: Cons f)
  then have "frame_loop (xs @ concat fs) = frame_loop (concat fs)"
    by (simp add: frame_loop.simps [of "xs @ concat fs"] frame_loop.simps [of "concat fs"])
  then show ?thesis
    using frame_loop_stream [OF assms(2), of "[]"] by (simp add: part_of_frame_def)
qed

section \<open>Properties\<close>

text \<open>C30 (roundtrip). A stream of messages, each encoded as a UBX frame, comes out of the framer frame by frame, however it
  is cut into pieces on the way, and leaves the buffer empty.\<close>

theorem frames_survive_chunking:
  assumes "\<forall>(cls, ident, payload)\<in>set msgs. length payload < 65536"
    "concat (map snd pieces) = concat (map (\<lambda>(cls, ident, payload). ubx_frame cls ident payload) msgs)"
  shows "\<exists>t. add_all pieces new_UbxFramer =
    (map (\<lambda>(cls, ident, payload). ubx_frame cls ident payload) msgs, \<lparr>buf = [], last_log_time = t\<rparr>)"
  by (rule add_all_stream)
    (use assms in \<open>auto simp: list_all_iff new_UbxFramer_def part_of_frame_def intro: valid_ubx_frame\<close>)

text \<open>The framer never invents a frame: whatever the state and the bytes, a frame that comes out is a
  contiguous piece of the buffered and incoming bytes with the preamble, the announced length and the right checksum.\<close>

theorem frames_are_genuine:
  assumes "add_data t incoming fr = (out, fr')" "f \<in> set out"
  shows "valid_frame f \<and> (\<exists>xs ys. buf fr @ incoming = xs @ f @ ys)"
  using assms frame_loop_sound [of f "buf fr @ incoming"]
  by (auto simp: add_data_def Let_def case_prod_beta split: if_splits)

text \<open>C37 (functional). A preamble that is cut after other bytes is lost. Let a framer with an empty buffer get some bytes
  without a preamble, and then a frame that has no second preamble inside, followed by any frames. When a
  message ends after the first byte of the frame's preamble, this byte is thrown away with the bytes before it
  and the frame never comes out, only the frames after it do; when everything arrives in one message, it does.\<close>

theorem split_preamble_is_lost:
  assumes "buf fr = []" "noise \<noteq> []" "find_preamble noise = None" "valid_frame f" "find_preamble (tl f) = None"
    "list_all valid_frame fs"
  shows "fst (add_all [(t1, noise @ [PREAMBLE1]), (t2, tl f @ concat fs)] fr) = fs
    \<and> fst (add_all [(t1, (noise @ f) @ concat fs)] fr) = f # fs"
proof -
  obtain bs where f: "f = PREAMBLE1 # PREAMBLE2 # bs" "6 \<le> length bs"
    using valid_frame_start [OF assms(4)] by blast
  have one: "frame_loop (noise @ [PREAMBLE1]) = ([], [])"
    using assms(2) find_preamble_snoc [OF assms(3)] by (simp add: frame_loop.simps [of "noise @ [PREAMBLE1]"])
  have two: "fst (frame_loop (tl f @ concat fs)) = fs"
    using frame_loop_noise [OF assms(5,6)] f(2) by (simp add: f(1))
  have "frame_loop (noise @ concat (f # fs)) = (f # fs, [])"
    using frame_loop_noise [OF assms(3), of "f # fs"] assms(4,6) by simp
  then show ?thesis
    using one two assms(1) by (simp add: add_data_def f(1) Let_def case_prod_beta)
qed

section \<open>Witnesses\<close>

definition two_messages :: "(byte \<times> byte \<times> byte list) list" where
  "two_messages = [(1, 7, [1, 2, 3]), (2, 19, [])]"

definition two_frames :: "byte list" where
  "two_frames = concat (map (\<lambda>(cls, ident, payload). ubx_frame cls ident payload) two_messages)"

theorem frames_survive_chunking_witness:
  "\<exists>t. add_all [(1, take 1 two_frames), (2, take 12 (drop 1 two_frames)), (3, drop 13 two_frames)] new_UbxFramer =
     ([ubx_frame 1 7 [1, 2, 3], ubx_frame 2 19 []], \<lparr>buf = [], last_log_time = t\<rparr>)"
proof -
  let ?pieces = "[(1, take 1 two_frames), (2, take 12 (drop 1 two_frames)), (3, drop 13 two_frames)] :: (rat \<times> byte list) list"
  have "drop 13 two_frames = drop 12 (drop 1 two_frames)"
    by simp
  then have "concat (map snd ?pieces) = concat (map (\<lambda>(cls, ident, payload). ubx_frame cls ident payload) two_messages)"
    by (simp only: concat.simps list.map snd_conv append_Nil2 append_take_drop_id two_frames_def [symmetric])
  moreover have "\<forall>(cls, ident, payload)\<in>set two_messages. length payload < 65536"
    by (simp add: two_messages_def)
  ultimately show ?thesis
    using frames_survive_chunking [of two_messages ?pieces] by (simp add: two_messages_def)
qed

text \<open>A zero byte, then a frame of which the first byte arrives alone.\<close>

theorem split_preamble_is_lost_witness:
  "fst (add_all [(1, [0] @ [PREAMBLE1]), (2, tl (ubx_frame 1 7 [4]) @ concat [ubx_frame 2 19 []])] new_UbxFramer)
     = [ubx_frame 2 19 []]"
proof -
  have "find_preamble (tl (ubx_frame 1 7 [4])) = None" "find_preamble [0] = None"
    by code_simp+
  moreover have "valid_frame (ubx_frame 1 7 [4])" "valid_frame (ubx_frame 2 19 [])"
    by (simp_all add: valid_ubx_frame)
  ultimately show ?thesis
    using split_preamble_is_lost [of new_UbxFramer "[0]" "ubx_frame 1 7 [4]" "[ubx_frame 2 19 []]" 1 2]
    by (simp add: new_UbxFramer_def)
qed

theorem frames_are_genuine_witness:
  "valid_frame (ubx_frame 1 7 [])
    \<and> (\<exists>xs ys. buf new_UbxFramer @ ubx_frame 1 7 [] = xs @ ubx_frame 1 7 [] @ ys)"
proof -
  have "add_data 1 (ubx_frame 1 7 []) new_UbxFramer = ([ubx_frame 1 7 []], \<lparr>buf = [], last_log_time = 1\<rparr>)"
    by code_simp
  then show ?thesis
    by (rule frames_are_genuine) simp
qed

end
