(* ===== verification/BinaryStructLaws.thy ===== *)
theory BinaryStructLaws
  imports BinaryStruct
begin

text \<open>
  The laws of the schema language: the bit reader returns the bits of the stream, most significant first,
  parsed values have the type of their descriptor, and the reader stays inside its data.
\<close>

section \<open>Bits of a byte stream\<close>

definition byte_bits :: "byte \<Rightarrow> bool list" where
  "byte_bits b = map (bit b) (rev [0..<8])"

definition stream_bits :: "byte list \<Rightarrow> bool list" where
  "stream_bits bs = concat (map byte_bits bs)"

fun be_nat :: "bool list \<Rightarrow> nat" where
  "be_nat [] = 0"
| "be_nat (b # bs) = of_bool b * 2 ^ length bs + be_nat bs"

definition bit_position :: "BinaryReader \<Rightarrow> nat" where
  "bit_position r = 8 * rd_pos r + rd_bit r"

definition rd_ok :: "BinaryReader \<Rightarrow> bool" where
  "rd_ok r \<longleftrightarrow> rd_bit r < 8 \<and> bit_position r \<le> 8 * length (rd_data r)"

text \<open>The reader moved to a bit position.\<close>

definition seek_bit :: "nat \<Rightarrow> BinaryReader \<Rightarrow> BinaryReader" where
  "seek_bit p r = r\<lparr>rd_pos := p div 8, rd_bit := p mod 8\<rparr>"

lemma seek_bit_fields [simp]:
  "rd_data (seek_bit p r) = rd_data r" "bit_position (seek_bit p r) = p" "rd_bit (seek_bit p r) < 8"
  by (simp_all add: seek_bit_def bit_position_def)

lemma seek_bit_here: "rd_bit r < 8 \<Longrightarrow> seek_bit (bit_position r) r = r"
  by (simp add: seek_bit_def bit_position_def)

lemma seek_bit_at: "q < 8 \<Longrightarrow> seek_bit (8 * p + q) r = r\<lparr>rd_pos := p, rd_bit := q\<rparr>"
  by (simp add: seek_bit_def)

lemma seek_bit_seek [simp]: "seek_bit p (seek_bit q r) = seek_bit p r"
  by (simp add: seek_bit_def)

lemma length_byte_bits [simp]: "length (byte_bits b) = 8"
  by (simp add: byte_bits_def)

lemma length_stream_bits [simp]: "length (stream_bits bs) = 8 * length bs"
  by (induction bs) (simp_all add: stream_bits_def)

lemma be_nat_append: "be_nat (xs @ ys) = be_nat xs * 2 ^ length ys + be_nat ys"
  by (induction xs) (simp_all add: power_add algebra_simps)

lemma be_nat_less: "be_nat xs < 2 ^ length xs"
  by (induction xs) auto

lemma be_nat_slice: "be_nat (map (bit x) (rev [a..<a + k])) = take_bit k (drop_bit a x)"
  for x :: nat
  by (induction k) (simp_all add: take_bit_Suc_from_most bit_drop_bit_eq)

lemma byte_slice:
  assumes "i + k \<le> 8"
  shows "be_nat (take k (drop i (byte_bits b))) = take_bit k (drop_bit (8 - i - k) (unat b))"
proof -
  have "take k (drop i (rev [0..<8])) = rev [8 - i - k..<8 - i - k + k]"
    using assms by (simp add: drop_rev take_rev)
  moreover have "bit b = bit (unat b)"
    by (simp add: fun_eq_iff bit_unsigned_iff) 
  ultimately show ?thesis
    by (simp add: byte_bits_def drop_map take_map be_nat_slice)
qed

lemma stream_slice:
  assumes "p < length bs" "i + k \<le> 8"
  shows "take k (drop (8 * p + i) (stream_bits bs)) = take k (drop i (byte_bits (bs ! p)))"
proof -
  have d: "drop (8 * p) (stream_bits bs) = stream_bits (drop p bs)"
  proof (induction p arbitrary: bs)
    case (Suc p)
    show ?case
      using Suc [of "tl bs"] by (cases bs) (simp_all add: stream_bits_def)
  qed simp
  have "drop p bs = bs ! p # drop (Suc p) bs"
    using assms(1) by (rule Cons_nth_drop_Suc [symmetric])
  then have "drop (8 * p + i) (stream_bits bs) = drop i (byte_bits (bs ! p) @ stream_bits (drop (Suc p) bs))"
    using d by (simp add: stream_bits_def flip: drop_drop add.commute)
  then show ?thesis
    using assms(2) by simp
qed

lemma push_or_take:
  assumes "x < 2 ^ k"
  shows "push_bit k r OR x = r * 2 ^ k + (x :: nat)"
proof -
  have "push_bit k r + x = push_bit k r OR x"
  proof (rule disjunctive_add_eq_or, rule bit_eqI)
    fix n
    have "bit x n \<Longrightarrow> n < k"
      using assms by (metis bit_take_bit_iff take_bit_nat_eq_self)
    then show "bit (push_bit k r AND x) n = bit 0 n"
      by (auto simp: bit_and_iff bit_push_bit_iff)
  qed
  then show ?thesis by (simp add: push_bit_eq_mult)
qed

section \<open>The bit reader\<close>

lemma read_bits_loop_eq:
  assumes "rd_ok r"
  shows "read_bits_loop result n r =
    (if bit_position r + n \<le> 8 * length (rd_data r)
     then Inr (result * 2 ^ n + be_nat (take n (drop (bit_position r) (stream_bits (rd_data r)))), seek_bit (bit_position r + n) r)
     else Inl EOFError)"
  using assms
proof (induction result n r rule: read_bits_loop.induct)
  case (1 result n r)
  let ?s = "stream_bits (rd_data r)"
  have b: "rd_bit r < 8" "bit_position r \<le> 8 * length (rd_data r)"
    using "1.prems" by (simp_all add: rd_ok_def)
  consider "n = 0" | "n \<noteq> 0" "length (rd_data r) \<le> rd_pos r" | "n \<noteq> 0" "rd_pos r < length (rd_data r)"
    by linarith
  then show ?case
  proof cases
    case 1
    then show ?thesis
      using b by (simp add: read_bits_loop.simps [of result 0 r] seek_bit_here)
  next
    case 2
    then have "8 * length (rd_data r) < bit_position r + n"
      unfolding bit_position_def by linarith
    with 2 show ?thesis
      by (simp add: read_bits_loop.simps [of result n r])
  next
    case 3
    define k where "k = min n (8 - rd_bit r)"
    define byte_val where "byte_val = unat (rd_data r ! rd_pos r)"
    define extracted where "extracted = drop_bit (8 - rd_bit r - k) byte_val AND mask k"
    define r' where "r' = (if rd_bit r + k \<ge> 8 then r\<lparr>rd_bit := 0, rd_pos := rd_pos r + 1\<rparr> else r\<lparr>rd_bit := rd_bit r + k\<rparr>)"
    have k: "k \<le> n" "rd_bit r + k \<le> 8" "0 < k"
      using 3 b by (simp_all add: k_def)
    have loop: "read_bits_loop result n r = read_bits_loop (push_bit k result OR extracted) (n - k) r'"
    proof -
      have c: "(n = 0) = False" "(length (rd_data r) \<le> rd_pos r) = False"
        using 3 by simp_all
      show ?thesis
        unfolding read_bits_loop.simps [of result n r] c if_False Let_def extracted_def byte_val_def r'_def k_def
        by (rule refl)
    qed
    have r': "r' = seek_bit (bit_position r + k) r"
    proof (cases "rd_bit r + k = 8")
      case True
      then have "bit_position r + k = 8 * Suc (rd_pos r) + 0"
        by (simp add: bit_position_def)
      then show ?thesis
        using True seek_bit_at [of 0 "Suc (rd_pos r)" r] by (simp add: r'_def)
    next
      case False
      then have "rd_bit r + k < 8"
        using k(2) by simp
      then show ?thesis
        using seek_bit_at [of "rd_bit r + k" "rd_pos r" r] by (simp add: r'_def bit_position_def add.assoc)
    qed
    have pos: "bit_position r + k \<le> 8 * length (rd_data r)"
      using 3 k(2) unfolding bit_position_def by linarith
    have ok: "rd_ok r'"
      unfolding rd_ok_def r' by (simp add: pos)
    have x: "extracted = be_nat (take k (drop (bit_position r) ?s))"
      unfolding bit_position_def stream_slice [OF 3(2) k(2)] byte_slice [OF k(2)]
      by (simp add: extracted_def byte_val_def take_bit_eq_mask and.commute)
    then have "extracted < 2 ^ k"
      using be_nat_less [of "take k (drop (bit_position r) ?s)"] pos by (simp add: min_absorb2)
    then have acc: "push_bit k result OR extracted = result * 2 ^ k + extracted"
      by (rule push_or_take)
    have IH: "read_bits_loop (push_bit k result OR extracted) (n - k) r' =
        (if bit_position r' + (n - k) \<le> 8 * length (rd_data r')
         then Inr ((push_bit k result OR extracted) * 2 ^ (n - k) + be_nat (take (n - k) (drop (bit_position r') (stream_bits (rd_data r')))),
           seek_bit (bit_position r' + (n - k)) r')
         else Inl EOFError)"
      unfolding r'_def extracted_def byte_val_def k_def
      using 3 ok [unfolded r'_def k_def] by (intro "1.IH" [OF _ _ refl refl refl refl refl refl]) (assumption | simp only: not_le)+
    have "take n (drop (bit_position r) ?s) = take k (drop (bit_position r) ?s) @ take (n - k) (drop (bit_position r + k) ?s)"
      using k(1) by (metis add.commute drop_drop le_add_diff_inverse take_add)
    then have cut: "be_nat (take n (drop (bit_position r) ?s)) =
        extracted * 2 ^ (n - k) + be_nat (take (n - k) (drop (bit_position r + k) ?s))"
      if "bit_position r + n \<le> 8 * length (rd_data r)"
      using that k(1) by (simp add: be_nat_append x min_absorb2)
    have pow: "2 ^ n = 2 ^ k * (2 ^ (n - k) :: nat)"
      using k(1) by (simp flip: power_add)
    have n: "bit_position r + k + (n - k) = bit_position r + n"
      using k(1) by simp
    show ?thesis
    proof (cases "bit_position r + n \<le> 8 * length (rd_data r)")
      case True
      then show ?thesis
        unfolding loop IH unfolding acc r' seek_bit_fields seek_bit_seek n pow cut [OF True]
        by (simp add: algebra_simps)
    next
      case False
      then show ?thesis
        unfolding loop IH unfolding acc r' seek_bit_fields n by simp
    qed
  qed
qed

text \<open>The reader returns the next \<open>n\<close> bits of the stream as a number, or runs out of data.\<close>

lemma read_bits_eq:
  assumes "rd_ok r"
  shows "read_bits_int_be n r =
    (if bit_position r + n \<le> 8 * length (rd_data r)
     then Inr (be_nat (take n (drop (bit_position r) (stream_bits (rd_data r)))), seek_bit (bit_position r + n) r)
     else Inl EOFError)"
  by (simp add: read_bits_int_be_def read_bits_loop_eq [OF assms])

section \<open>The reader stays inside its data\<close>

text \<open>Alignment rounds a bit position up to the next byte.\<close>

definition round_up :: "nat \<Rightarrow> nat" where "round_up p = 8 * ((p + 7) div 8)"

lemma align_position:
  assumes "rd_ok r"
  shows "bit_position (align_to_byte r) = round_up (bit_position r)" "rd_bit (align_to_byte r) = 0"
    "rd_data (align_to_byte r) = rd_data r" "rd_ok (align_to_byte r)" "8 * rd_pos (align_to_byte r) = round_up (bit_position r)"
proof -
  have r: "round_up (bit_position r) = (if rd_bit r = 0 then 8 * rd_pos r else 8 * (rd_pos r + 1))"
  proof -
    have "(8 * rd_pos r + rd_bit r + 7) div 8 = rd_pos r + (rd_bit r + 7) div 8"
      by (simp add: add.assoc)
    moreover have "(rd_bit r + 7) div 8 = (if rd_bit r = 0 then 0 else 1)"
      using assms by (auto simp: rd_ok_def)
    ultimately show ?thesis
      by (simp add: round_up_def bit_position_def)
  qed
  then show "bit_position (align_to_byte r) = round_up (bit_position r)" "rd_bit (align_to_byte r) = 0"
    "rd_data (align_to_byte r) = rd_data r" "8 * rd_pos (align_to_byte r) = round_up (bit_position r)"
    by (simp_all add: align_to_byte_def bit_position_def)
  have "8 * rd_pos r + rd_bit r \<le> 8 * length (rd_data r)"
    using assms by (simp add: rd_ok_def bit_position_def)
  then have "0 < rd_bit r \<Longrightarrow> 8 + 8 * rd_pos r \<le> 8 * length (rd_data r)"
    by presburger
  then show "rd_ok (align_to_byte r)"
    using assms by (auto simp: rd_ok_def align_to_byte_def bit_position_def)
qed

lemma read_bytes_eq:
  assumes "rd_ok r"
  shows "read_bytes n r =
    (if round_up (bit_position r) + 8 * n \<le> 8 * length (rd_data r)
     then Inr (take n (drop (round_up (bit_position r) div 8) (rd_data r)), seek_bit (round_up (bit_position r) + 8 * n) r)
     else Inl EOFError)"
proof -
  note a = align_position [OF assms]
  have q: "require n (align_to_byte r) \<longleftrightarrow> round_up (bit_position r) + 8 * n \<le> 8 * length (rd_data r)"
    unfolding require_def a(3) a(5) [symmetric] by linarith
  have "round_up (bit_position r) + 8 * n = 8 * (rd_pos (align_to_byte r) + n) + 0"
    using a(5) by simp
  then have "seek_bit (round_up (bit_position r) + 8 * n) r = r\<lparr>rd_pos := rd_pos (align_to_byte r) + n, rd_bit := 0\<rparr>"
    using seek_bit_at [of 0 "rd_pos (align_to_byte r) + n" r] by simp
  then have "(align_to_byte r)\<lparr>rd_pos := rd_pos (align_to_byte r) + n\<rparr> = seek_bit (round_up (bit_position r) + 8 * n) r"
    using a(2) by (cases r) (auto simp: align_to_byte_def split: if_splits)
  moreover have "rd_pos (align_to_byte r) = round_up (bit_position r) div 8"
    using a(5) by linarith
  ultimately show ?thesis
    unfolding read_bytes_def Let_def q a(3) by simp
qed

text \<open>A successful read moves forward inside the same data.\<close>

definition moves_to :: "BinaryReader \<Rightarrow> BinaryReader \<Rightarrow> bool" where
  "moves_to r r' \<longleftrightarrow> rd_ok r' \<and> rd_data r' = rd_data r \<and> bit_position r \<le> bit_position r'"

lemma moves_to_refl: "rd_ok r \<Longrightarrow> moves_to r r"
  by (simp add: moves_to_def)

lemma moves_to_trans: "moves_to r r' \<Longrightarrow> moves_to r' r'' \<Longrightarrow> moves_to r r''"
  by (simp add: moves_to_def)

lemma round_up_ge: "p \<le> round_up p"
  unfolding round_up_def by linarith

lemma moves_read_bytes:
  assumes "rd_ok r" "read_bytes n r = Inr (bs, r')"
  shows "moves_to r r'" "length bs = n"
proof -
  have l: "round_up (bit_position r) + 8 * n \<le> 8 * length (rd_data r)"
    "bs = take n (drop (round_up (bit_position r) div 8) (rd_data r))" "r' = seek_bit (round_up (bit_position r) + 8 * n) r"
    using assms(2) unfolding read_bytes_eq [OF assms(1)] by (auto split: if_splits)
  show "moves_to r r'"
    using l round_up_ge [of "bit_position r"] by (simp add: moves_to_def rd_ok_def)
  have "round_up (bit_position r) div 8 + n \<le> length (rd_data r)"
    using l(1) by (simp add: round_up_def)
  then show "length bs = n"
    by (simp add: l(2))
qed

lemma moves_read_bits:
  assumes "rd_ok r" "read_bits_int_be n r = Inr (v, r')"
  shows "moves_to r r'" "v < 2 ^ n"
proof -
  have l: "bit_position r + n \<le> 8 * length (rd_data r)"
    "v = be_nat (take n (drop (bit_position r) (stream_bits (rd_data r))))" "r' = seek_bit (bit_position r + n) r"
    using assms(2) unfolding read_bits_eq [OF assms(1)] by (auto split: if_splits)
  show "moves_to r r'"
    using l by (simp add: moves_to_def rd_ok_def)
  show "v < 2 ^ n"
    using be_nat_less [of "take n (drop (bit_position r) (stream_bits (rd_data r)))"] l(1)
    by (simp add: l(2) min_absorb2)
qed

lemma rd_ok_new [simp]: "rd_ok (new_BinaryReader bs)" "bit_position (new_BinaryReader bs) = 0"
  "rd_data (new_BinaryReader bs) = bs"
  by (simp_all add: rd_ok_def new_BinaryReader_def bit_position_def)

section \<open>Typing\<close>

inductive typed :: "FieldType \<Rightarrow> Value \<Rightarrow> bool" where
  typed_int: "int_size bits \<Longrightarrow> (if sgnd then - (2 ^ (bits - 1)) \<le> n \<and> n < 2 ^ (bits - 1) else 0 \<le> n \<and> n < 2 ^ bits) \<Longrightarrow>
    typed (IntType bits sgnd big_endian) (VInt n)"
| typed_float: "float_size bits \<Longrightarrow> n < 2 ^ bits \<Longrightarrow> typed (FloatType bits) (VFloat n)"
| typed_bit: "typed (BitsType 1) (VBool b)"
| typed_bits: "n \<noteq> 1 \<Longrightarrow> 0 \<le> v \<Longrightarrow> v < 2 ^ n \<Longrightarrow> typed (BitsType n) (VInt v)"
| typed_bytes: "typed (BytesType (length bs)) (VBytes bs)"
| typed_array: "\<forall>v\<in>set vs. typed el v \<Longrightarrow> typed (ArrayType el count_field) (VList vs)"
| typed_case: "(k, ft) \<in> set cases \<Longrightarrow> typed ft v \<Longrightarrow> typed (SwitchType selector cases dflt) v"
| typed_default: "typed ft v \<Longrightarrow> typed (SwitchType selector cases (Some ft)) v"
| typed_none: "typed (SwitchType selector cases None) VNone"
| typed_member: "n \<in> set members \<Longrightarrow> typed (EnumType base members) (VEnum n)"
| typed_raw: "typed base v \<Longrightarrow> typed (EnumType base members) v"
| typed_const: "typed base v \<Longrightarrow> py_eq v expected \<Longrightarrow> typed (ConstType base expected) v"
| typed_sub: "typed el v \<Longrightarrow> typed (SubstreamType length_field el) v"
| typed_struct: "list_all2 (\<lambda>f w. fst f = fst w \<and> typed (snd f) (snd w)) fs vs \<Longrightarrow> typed (Struct cls fs) (VObj cls vs)"
  monos list_all2_mono

lemma le_nat_less: "le_nat bs < 2 ^ (8 * length bs)"
proof (induction bs)
  case (Cons b bs)
  have "unat b < 256"
    using unsigned_less [of b] by simp
  moreover have "2 ^ (8 * length (b # bs)) = (256 :: nat) * 2 ^ (8 * length bs)"
    by (simp add: power_add)
  ultimately show ?case
    using Cons by simp
qed simp

lemma typed_unpack:
  assumes "int_size bits" "length bs = bits div 8"
  shows "typed (IntType bits sgnd big_endian) (VInt (unpack_int bits sgnd big_endian bs))"
proof (rule typed_int [OF assms(1)])
  define n where "n = int (le_nat (if big_endian then rev bs else bs))"
  have l: "8 * length bs = bits"
    using assms by (auto simp: int_size_def)
  have "le_nat (if big_endian then rev bs else bs) < 2 ^ bits"
    using le_nat_less [of "if big_endian then rev bs else bs"] l by (simp split: if_splits)
  then have "n < 2 ^ bits" "0 \<le> n"
    unfolding n_def by (metis of_nat_less_iff of_nat_numeral of_nat_power, simp)
  moreover have "(2 :: int) ^ bits = 2 * 2 ^ (bits - 1)"
    using assms(1) by (auto simp: int_size_def)
  ultimately show "if sgnd then - (2 ^ (bits - 1)) \<le> unpack_int bits sgnd big_endian bs \<and> unpack_int bits sgnd big_endian bs < 2 ^ (bits - 1)
      else 0 \<le> unpack_int bits sgnd big_endian bs \<and> unpack_int bits sgnd big_endian bs < 2 ^ bits"
    by (simp add: unpack_int_def Let_def flip: n_def)
qed

lemma parse_times_rule:
  assumes "\<And>r v r'. rd_ok r \<Longrightarrow> f r = Inr (v, r') \<Longrightarrow> typed el v \<and> moves_to r r'"
    "rd_ok r" "parse_times n f r = Inr (vs, r')"
  shows "(\<forall>v\<in>set vs. typed el v) \<and> moves_to r r' \<and> length vs = n"
  using assms(2,3)
proof (induction n arbitrary: r vs)
  case 0
  then show ?case by (simp add: moves_to_refl)
next
  case (Suc n)
  then obtain v r1 ws where w: "f r = Inr (v, r1)" "parse_times n f r1 = Inr (ws, r')" "vs = v # ws"
    by (auto simp: bindE_Inr)
  have m: "typed el v" "moves_to r r1"
    using assms(1) [OF Suc.prems(1) w(1)] by simp_all
  then have "rd_ok r1" by (simp add: moves_to_def)
  with Suc.IH [OF _ w(2)] m show ?case
    using moves_to_trans [of r r1 r'] by (simp add: w(3))
qed

text \<open>Every parse gives a value of the type of its descriptor and moves the reader forward.\<close>

lemma parse_sound:
  "rd_ok r \<Longrightarrow> parse_field ft obj r = Inr (v, r') \<Longrightarrow> typed ft v \<and> moves_to r r'"
  "rd_ok r \<Longrightarrow> parse_fields cls fs done r = Inr (v, r') \<Longrightarrow> moves_to r r' \<and>
     (\<exists>vs. v = VObj cls (done @ vs) \<and> list_all2 (\<lambda>f w. fst f = fst w \<and> typed (snd f) (snd w)) fs vs)"
  "rd_ok r \<Longrightarrow> parse_case cases dflt key obj r = Inr (v, r') \<Longrightarrow> moves_to r r' \<and>
     ((\<exists>k ft. (k, ft) \<in> set cases \<and> typed ft v) \<or> (\<exists>ft. dflt = Some ft \<and> typed ft v) \<or> dflt = None \<and> v = VNone)"
proof (induction ft obj r and cls fs "done" r and cases dflt key obj r arbitrary: v r' and v r' and v r'
    rule: parse_field_parse_fields_parse_case.induct)
  case (1 bits sgnd big_endian obj r)
  then show ?case
    using typed_unpack moves_read_bytes [of r "bits div 8"] by (auto simp: bindE_Inr split: if_splits)
next
  case (2 bits obj r)
  then obtain bs where b: "float_size bits" "read_bytes (bits div 8) r = Inr (bs, r')" "v = VFloat (le_nat bs)"
    by (auto simp: bindE_Inr split: if_splits)
  note m = moves_read_bytes [OF 2(1) b(2)]
  have "8 * length bs = bits"
    using b(1) m(2) by (auto simp: float_size_def)
  then have "le_nat bs < 2 ^ bits"
    using le_nat_less [of bs] by simp
  with b m show ?case
    by (simp add: typed_float)
next
  case (3 n obj r)
  then obtain w where w: "read_bits_int_be n r = Inr (w, r')" "v = (if n = 1 then VBool (w \<noteq> 0) else VInt (int w))"
    by (auto simp: bindE_Inr)
  note m = moves_read_bits [OF 3(1) w(1)]
  have "int w < 2 ^ n"
    using m(2) by (metis of_nat_less_iff of_nat_numeral of_nat_power)
  with m w(2) show ?case
    using typed_bit [of "w \<noteq> 0"] typed_bits [of n "int w"] by simp
next
  case (4 n obj r)
  then show ?case
    using moves_read_bytes [of r n] typed_bytes by (auto simp: bindE_Inr)
next
  case (5 el count_field obj r)
  then obtain n vs where w: "parse_times n (parse_field el obj) r = Inr (vs, r')" "v = VList vs"
    by (auto simp: bindE_Inr)
  show ?case
    using parse_times_rule [of "parse_field el obj" el, OF 5(1) 5(2) w(1)] by (simp add: w(2) typed_array)
next
  case (6 selector cases dflt obj r)
  then obtain key where k: "parse_case cases dflt key obj r = Inr (v, r')"
    by (auto simp: bindE_Inr)
  show ?case
    using 6(1) [OF 6(2) k] typed_case typed_default typed_none by blast
next
  case (7 base members obj r)
  then obtain raw where w: "parse_field base obj r = Inr (raw, r')"
    "v = (case py_num raw of Some n \<Rightarrow> if n \<in> set members then VEnum n else raw | None \<Rightarrow> raw)"
    by (auto simp: bindE_Inr)
  have "typed base raw \<and> moves_to r r'"
    using 7(1) [OF 7(2) w(1)] .
  then show ?case
    using w(2) typed_member [of _ members base] typed_raw [of base raw members] by (auto split: option.splits)
next
  case (8 base expected obj r)
  then show ?case
    using typed_const by (auto simp: bindE_Inr split: if_splits)
next
  case (9 length_field el obj r)
  then obtain n bs w r2 where w: "read_bytes n r = Inr (bs, r')" "parse_field el obj (new_BinaryReader bs) = Inr (v, r2)"
    by (auto simp: bindE_Inr)
  show ?case
    using 9(1) [OF rd_ok_new(1) w(2)] moves_read_bytes [OF 9(2) w(1)] typed_sub by blast
next
  case (10 cls flds obj r)
  then show ?case
    using typed_struct by fastforce
next
  case (11 cls "done" r)
  then show ?case
    by (auto simp: moves_to_refl)
next
  case (12 cls name ft flds "done" r)
  then obtain w r1 where w: "parse_field ft (VObj cls done) r = Inr (w, r1)"
    "parse_fields cls flds (done @ [(name, w)]) r1 = Inr (v, r')"
    by (auto simp: bindE_Inr)
  have t: "typed ft w" "moves_to r r1"
    using "12.IH"(1) [OF "12.prems"(1) w(1)] by simp_all
  then have "rd_ok r1" by (simp add: moves_to_def)
  then obtain vs where "moves_to r1 r'" "v = VObj cls ((done @ [(name, w)]) @ vs)"
    "list_all2 (\<lambda>f w. fst f = fst w \<and> typed (snd f) (snd w)) flds vs"
    using "12.IH"(2) w(2) by blast
  then show ?case
    using t moves_to_trans by (intro conjI exI [of _ "(name, w) # vs"]) auto
next
  case (13 dflt key obj r)
  then show ?case
    by (auto simp: moves_to_refl split: option.splits)
next
  case (14 k ft cases dflt key obj r)
  then show ?case
    by (fastforce split: if_splits)
qed

section \<open>Descriptors of a fixed size\<close>

text \<open>
  The bit position after a field that starts at a given one, for descriptors whose size does not depend on
  the data. Such a parse succeeds exactly when the data reaches that position.
\<close>

function fixed_end :: "FieldType \<Rightarrow> nat \<Rightarrow> nat option"
  and fixed_ends :: "(string \<times> FieldType) list \<Rightarrow> nat \<Rightarrow> nat option" where
  "fixed_end (IntType bits sgnd big_endian) p = (if int_size bits then Some (round_up p + bits) else None)"
| "fixed_end (FloatType bits) p = (if float_size bits then Some (round_up p + bits) else None)"
| "fixed_end (BitsType n) p = Some (p + n)"
| "fixed_end (BytesType n) p = Some (round_up p + 8 * n)"
| "fixed_end (ArrayType el count_field) p = None"
| "fixed_end (SwitchType selector cases dflt) p = None"
| "fixed_end (EnumType base members) p = fixed_end base p"
| "fixed_end (ConstType base expected) p = None"
| "fixed_end (SubstreamType length_field el) p = None"
| "fixed_end (Struct cls flds) p = fixed_ends flds p"
| "fixed_ends [] p = Some p"
| "fixed_ends ((name, ft) # flds) p = (case fixed_end ft p of None \<Rightarrow> None | Some q \<Rightarrow> fixed_ends flds q)"
  by pat_completeness auto
termination
  by (relation "measure (\<lambda>x. case x of Inl (ft, _) \<Rightarrow> size ft | Inr (fs, _) \<Rightarrow> size_list (size_prod (\<lambda>_. 0) size) fs)")
    simp_all

lemma fixed_end_ge:
  "fixed_end ft p = Some q \<Longrightarrow> p \<le> q"
  "fixed_ends fs p = Some q \<Longrightarrow> p \<le> q"
proof (induction ft p and fs p arbitrary: q and q rule: fixed_end_fixed_ends.induct)
  case (12 name ft flds p)
  then show ?case
    by (fastforce split: option.splits)
qed (auto split: if_splits intro: trans_le_add1 [OF round_up_ge])

lemma rd_ok_seek: "p \<le> 8 * length (rd_data r) \<Longrightarrow> rd_ok (seek_bit p r)"
  by (simp add: rd_ok_def)

lemma fixed_parse:
  "fixed_end ft p = Some q \<Longrightarrow> rd_ok r \<Longrightarrow> bit_position r = p \<Longrightarrow>
     (if q \<le> 8 * length (rd_data r) then \<exists>v. parse_field ft obj r = Inr (v, seek_bit q r) else parse_field ft obj r = Inl EOFError)"
  "fixed_ends fs p = Some q \<Longrightarrow> rd_ok r \<Longrightarrow> bit_position r = p \<Longrightarrow>
     (if q \<le> 8 * length (rd_data r) then \<exists>v. parse_fields cls fs done r = Inr (v, seek_bit q r)
      else parse_fields cls fs done r = Inl EOFError)"
proof (induction ft p and fs p arbitrary: obj q r and q r cls "done" rule: fixed_end_fixed_ends.induct)
  case (1 bits sgnd big_endian p)
  have "8 * (bits div 8) = bits" if "int_size bits"
    using that by (auto simp: int_size_def)
  then show ?case
    using 1 by (auto simp: read_bytes_eq split: if_splits)
next
  case (2 bits p)
  have "8 * (bits div 8) = bits" if "float_size bits"
    using that by (auto simp: float_size_def)
  then show ?case
    using 2 by (auto simp: read_bytes_eq split: if_splits)
next
  case (3 n p)
  then show ?case by (auto simp: read_bits_eq)
next
  case (4 n p)
  then show ?case by (auto simp: read_bytes_eq)
next
  case (7 base members p)
  have "fixed_end base p = Some q"
    using "7.prems"(1) by simp
  note IH = "7.IH" [OF this "7.prems"(2,3), of obj]
  show ?case
  proof (cases "q \<le> 8 * length (rd_data r)")
    case True
    with IH obtain v where "parse_field base obj r = Inr (v, seek_bit q r)" by auto
    with True show ?thesis by simp
  next
    case False
    with IH show ?thesis by simp
  qed
next
  case (10 cls flds p)
  then show ?case
    using "10.IH" [of q r cls "[]"] by simp
next
  case (11 p)
  then show ?case
    by (auto simp: seek_bit_here rd_ok_def)
next
  case (12 name ft flds p)
  then obtain q1 where q: "fixed_end ft p = Some q1" "fixed_ends flds q1 = Some q"
    by (auto split: option.splits)
  note le = fixed_end_ge(2) [OF q(2)]
  note 1 = "12.IH"(1) [OF q(1) "12.prems"(2,3), of "VObj cls done"]
  show ?case
  proof (cases "q1 \<le> 8 * length (rd_data r)")
    case True
    then obtain v where v: "parse_field ft (VObj cls done) r = Inr (v, seek_bit q1 r)"
      using 1 by auto
    show ?thesis
      using "12.IH"(2) [OF q(1) q(2) rd_ok_seek [OF True], of cls "done @ [(name, v)]"] v
      by (auto split: if_splits)
  next
    case False
    then show ?thesis
      using 1 le by simp
  qed
qed simp_all

lemma from_bytes_fixed:
  assumes "fixed_end ft 0 = Some q"
  shows "(\<exists>v. from_bytes ft bs = Inr v) \<longleftrightarrow> q \<le> 8 * length bs"
    and "\<not> q \<le> 8 * length bs \<Longrightarrow> from_bytes ft bs = Inl EOFError"
  using fixed_parse(1) [OF assms, of "new_BinaryReader bs" VNone] by (auto simp: from_bytes_def split: if_splits)

lemma from_bytes_typed: "from_bytes ft bs = Inr v \<Longrightarrow> typed ft v"
  using parse_sound(1) [of "new_BinaryReader bs" ft VNone] by (auto simp: from_bytes_def bindE_Inr)

section \<open>Properties\<close>

text \<open>C32 (equivalence). The bit reader agrees with the reference: from a position inside its data it returns the next \<open>n\<close> bits
  of the stream, most significant first, as a number and moves on by \<open>n\<close> bits, or it raises \<open>EOFError\<close> when fewer
  bits are left.\<close>

theorem bit_reader_reads_stream:
  assumes "rd_bit r < 8" "bit_position r \<le> 8 * length (rd_data r)"
  shows "read_bits_int_be n r =
    (if bit_position r + n \<le> 8 * length (rd_data r)
     then Inr (be_nat (take n (drop (bit_position r) (stream_bits (rd_data r)))), seek_bit (bit_position r + n) r)
     else Inl EOFError)"
  by (rule read_bits_eq) (simp add: rd_ok_def assms)

theorem bit_reader_reads_stream_witness:
  "read_bits_int_be 6 \<lparr>rd_data = [0xA5, 0xC3], rd_pos = 0, rd_bit = 4\<rparr> =
     Inr (23, \<lparr>rd_data = [0xA5, 0xC3], rd_pos = 1, rd_bit = 2\<rparr>)"
proof -
  let ?r = "\<lparr>rd_data = [0xA5, 0xC3], rd_pos = 0, rd_bit = 4\<rparr> :: BinaryReader"
  have "be_nat (take 6 (drop 4 (stream_bits [0xA5, 0xC3]))) = 23"
    by code_simp
  then show ?thesis
    using bit_reader_reads_stream [of ?r 6] by (simp add: bit_position_def seek_bit_def)
qed

text \<open>C33 (type). Whatever the bytes, a parse that succeeds gives a value of the type of its descriptor: integers in the range
  of their width and sign, lists, enumerations, and objects with exactly the fields of their class, in order.\<close>

theorem parsed_value_has_type:
  assumes "from_bytes ft data = Inr v"
  shows "typed ft v"
  by (rule from_bytes_typed [OF assms])

theorem parsed_value_has_type_witness:
  "typed (Struct ''Pair'' [(''a'', s8), (''b'', EnumType u16 [258])]) (VObj ''Pair'' [(''a'', VInt (-1)), (''b'', VEnum 258)])"
proof -
  have "from_bytes (Struct ''Pair'' [(''a'', s8), (''b'', EnumType u16 [258])]) [0xFF, 2, 1] =
      Inr (VObj ''Pair'' [(''a'', VInt (-1)), (''b'', VEnum 258)])"
    by code_simp
  then show ?thesis
    by (rule parsed_value_has_type)
qed

end
