(* ===== verification/UbxSchemas.thy ===== *)
theory UbxSchemas
  imports BinaryStructLaws
begin

text \<open>
  The schemas of \<open>system/ubloxd\<close>: UBX messages (\<open>ubx.py\<close>), GPS subframes (\<open>gps.py\<close>) and GLONASS strings
  (\<open>glonass.py\<close>), class by class, with the properties that join a sign bit and a magnitude. The section
  at the end shows how long the data of a message must be.
\<close>

section \<open>ubx.py\<close>

definition GnssType :: "int list" where "GnssType = [0, 1, 2, 3, 4, 5, 6]"

definition Ubx_Measurement :: FieldType where
  "Ubx_Measurement = Struct ''Ubx.RxmRawx.Measurement''
     [(''pr_mes'', f64), (''cp_mes'', f64), (''do_mes'', f32), (''gnss_id'', EnumType u8 GnssType),
      (''sv_id'', u8), (''reserved2'', BytesType 1), (''freq_id'', u8), (''lock_time'', u16), (''cno'', u8),
      (''pr_stdev'', u8), (''cp_stdev'', u8), (''do_stdev'', u8), (''trk_stat'', u8),
      (''reserved3'', BytesType 1)]"

definition Ubx_RxmRawx :: FieldType where
  "Ubx_RxmRawx = Struct ''Ubx.RxmRawx''
     [(''rcv_tow'', f64), (''week'', u16), (''leap_s'', s8), (''num_meas'', u8), (''rec_stat'', u8),
      (''reserved1'', BytesType 3), (''meas'', ArrayType Ubx_Measurement ''num_meas'')]"

definition Ubx_RxmSfrbx :: FieldType where
  "Ubx_RxmSfrbx = Struct ''Ubx.RxmSfrbx''
     [(''gnss_id'', EnumType u8 GnssType), (''sv_id'', u8), (''reserved1'', BytesType 1), (''freq_id'', u8),
      (''num_words'', u8), (''reserved2'', BytesType 1), (''version'', u8), (''reserved3'', BytesType 1),
      (''body'', ArrayType u32 ''num_words'')]"

definition Ubx_Nav :: FieldType where
  "Ubx_Nav = Struct ''Ubx.NavSat.Nav''
     [(''gnss_id'', EnumType u8 GnssType), (''sv_id'', u8), (''cno'', u8), (''elev'', s8), (''azim'', s16),
      (''pr_res'', s16), (''flags'', u32)]"

definition Ubx_NavSat :: FieldType where
  "Ubx_NavSat = Struct ''Ubx.NavSat''
     [(''itow'', u32), (''version'', u8), (''num_svs'', u8), (''reserved'', BytesType 2),
      (''svs'', ArrayType Ubx_Nav ''num_svs'')]"

definition Ubx_NavPvt :: FieldType where
  "Ubx_NavPvt = Struct ''Ubx.NavPvt''
     [(''i_tow'', u32), (''year'', u16), (''month'', u8), (''day'', u8), (''hour'', u8), (''min'', u8),
      (''sec'', u8), (''valid'', u8), (''t_acc'', u32), (''nano'', s32), (''fix_type'', u8),
      (''flags'', u8), (''flags2'', u8), (''num_sv'', u8), (''lon'', s32), (''lat'', s32),
      (''height'', s32), (''h_msl'', s32), (''h_acc'', u32), (''v_acc'', u32), (''vel_n'', s32),
      (''vel_e'', s32), (''vel_d'', s32), (''g_speed'', s32), (''head_mot'', s32), (''s_acc'', s32),
      (''head_acc'', u32), (''p_dop'', u16), (''flags3'', u8), (''reserved1'', BytesType 5),
      (''head_veh'', s32), (''mag_dec'', s16), (''mag_acc'', u16)]"

definition Ubx_ConfigSource :: "int list" where "Ubx_ConfigSource = [102, 111, 112, 113]"

definition Ubx_MonHw2 :: FieldType where
  "Ubx_MonHw2 = Struct ''Ubx.MonHw2''
     [(''ofs_i'', s8), (''mag_i'', u8), (''ofs_q'', s8), (''mag_q'', u8),
      (''cfg_source'', EnumType u8 Ubx_ConfigSource), (''reserved1'', BytesType 3), (''low_lev_cfg'', u32),
      (''reserved2'', BytesType 8), (''post_status'', u32), (''reserved3'', BytesType 4)]"

definition Ubx_AntennaStatus :: "int list" where "Ubx_AntennaStatus = [0, 1, 2, 3, 4]"

definition Ubx_AntennaPower :: "int list" where "Ubx_AntennaPower = [0, 1, 2]"

definition Ubx_MonHw :: FieldType where
  "Ubx_MonHw = Struct ''Ubx.MonHw''
     [(''pin_sel'', u32), (''pin_bank'', u32), (''pin_dir'', u32), (''pin_val'', u32),
      (''noise_per_ms'', u16), (''agc_cnt'', u16), (''a_status'', EnumType u8 Ubx_AntennaStatus),
      (''a_power'', EnumType u8 Ubx_AntennaPower), (''flags'', u8), (''reserved1'', BytesType 1),
      (''used_mask'', u32), (''vp'', BytesType 17), (''jam_ind'', u8), (''reserved2'', BytesType 2),
      (''pin_irq'', u32), (''pull_h'', u32), (''pull_l'', u32)]"

definition Ubx :: FieldType where
  "Ubx = Struct ''Ubx''
     [(''magic'', ConstType (BytesType 2) (VBytes [0xb5, 0x62])), (''msg_type'', u16be), (''length'', u16),
      (''body'', SubstreamType ''length'' (SwitchType ''msg_type''
        [(0x0107, Ubx_NavPvt), (0x0213, Ubx_RxmSfrbx), (0x0215, Ubx_RxmRawx), (0x0A09, Ubx_MonHw),
         (0x0A0B, Ubx_MonHw2), (0x0135, Ubx_NavSat)] None)),
      (''checksum'', u16)]"

section \<open>gps.py\<close>

definition Gps_Tlm :: FieldType where
  "Gps_Tlm = Struct ''Gps.Tlm''
     [(''preamble'', ConstType (BytesType 1) (VBytes [0x8b])), (''tlm'', BitsType 14),
      (''integrity_status'', BitsType 1), (''reserved'', BitsType 1)]"

definition Gps_How :: FieldType where
  "Gps_How = Struct ''Gps.How''
     [(''tow_count'', BitsType 17), (''alert'', BitsType 1), (''anti_spoof'', BitsType 1),
      (''subframe_id'', BitsType 3), (''reserved'', BitsType 2)]"

definition Gps_Subframe1 :: FieldType where
  "Gps_Subframe1 = Struct ''Gps.Subframe1''
     [(''week_no'', BitsType 10), (''code'', BitsType 2), (''sv_accuracy'', BitsType 4),
      (''sv_health'', BitsType 6), (''iodc_msb'', BitsType 2), (''l2_p_data_flag'', BitsType 1),
      (''reserved1'', BitsType 23), (''reserved2'', BitsType 24), (''reserved3'', BitsType 24),
      (''reserved4'', BitsType 16), (''t_gd'', s8), (''iodc_lsb'', u8), (''t_oc'', u16be), (''af_2'', s8),
      (''af_1'', s16be), (''af_0_sign'', BitsType 1), (''af_0_value'', BitsType 21),
      (''reserved5'', BitsType 2)]"

definition Gps_Subframe2 :: FieldType where
  "Gps_Subframe2 = Struct ''Gps.Subframe2''
     [(''iode'', u8), (''c_rs'', s16be), (''delta_n'', s16be), (''m_0'', s32be), (''c_uc'', s16be),
      (''e'', s32be), (''c_us'', s16be), (''sqrt_a'', u32be), (''t_oe'', u16be),
      (''fit_interval_flag'', BitsType 1), (''aoda'', BitsType 5), (''reserved'', BitsType 2)]"

definition Gps_Subframe3 :: FieldType where
  "Gps_Subframe3 = Struct ''Gps.Subframe3''
     [(''c_ic'', s16be), (''omega_0'', s32be), (''c_is'', s16be), (''i_0'', s32be), (''c_rc'', s16be),
      (''omega'', s32be), (''omega_dot_sign'', BitsType 1), (''omega_dot_value'', BitsType 23),
      (''iode'', u8), (''idot_sign'', BitsType 1), (''idot_value'', BitsType 13),
      (''reserved'', BitsType 2)]"

definition Gps_IonosphereData :: FieldType where
  "Gps_IonosphereData = Struct ''Gps.Subframe4.IonosphereData''
     [(''a0'', s8), (''a1'', s8), (''a2'', s8), (''a3'', s8), (''b0'', s8), (''b1'', s8), (''b2'', s8),
      (''b3'', s8)]"

definition Gps_Subframe4 :: FieldType where
  "Gps_Subframe4 = Struct ''Gps.Subframe4''
     [(''data_id'', BitsType 2), (''page_id'', BitsType 6),
      (''body'', SwitchType ''page_id'' [(56, Gps_IonosphereData)] None)]"

definition Gps :: FieldType where
  "Gps = Struct ''Gps''
     [(''tlm'', Gps_Tlm), (''how'', Gps_How),
      (''body'', SwitchType ''how.subframe_id'' 
        [(1, Gps_Subframe1), (2, Gps_Subframe2), (3, Gps_Subframe3), (4, Gps_Subframe4)] None)]"

section \<open>glonass.py\<close>

definition Glonass_String1 :: FieldType where
  "Glonass_String1 = Struct ''Glonass.String1''
     [(''not_used'', BitsType 2), (''p1'', BitsType 2), (''t_k'', BitsType 12),
      (''x_vel_sign'', BitsType 1), (''x_vel_value'', BitsType 23), (''x_accel_sign'', BitsType 1),
      (''x_accel_value'', BitsType 4), (''x_sign'', BitsType 1), (''x_value'', BitsType 26)]"

definition Glonass_String2 :: FieldType where
  "Glonass_String2 = Struct ''Glonass.String2''
     [(''b_n'', BitsType 3), (''p2'', BitsType 1), (''t_b'', BitsType 7), (''not_used'', BitsType 5),
      (''y_vel_sign'', BitsType 1), (''y_vel_value'', BitsType 23), (''y_accel_sign'', BitsType 1),
      (''y_accel_value'', BitsType 4), (''y_sign'', BitsType 1), (''y_value'', BitsType 26)]"

definition Glonass_String3 :: FieldType where
  "Glonass_String3 = Struct ''Glonass.String3''
     [(''p3'', BitsType 1), (''gamma_n_sign'', BitsType 1), (''gamma_n_value'', BitsType 10),
      (''not_used'', BitsType 1), (''p'', BitsType 2), (''l_n'', BitsType 1), (''z_vel_sign'', BitsType 1),
      (''z_vel_value'', BitsType 23), (''z_accel_sign'', BitsType 1), (''z_accel_value'', BitsType 4),
      (''z_sign'', BitsType 1), (''z_value'', BitsType 26)]"

definition Glonass_String4 :: FieldType where
  "Glonass_String4 = Struct ''Glonass.String4''
     [(''tau_n_sign'', BitsType 1), (''tau_n_value'', BitsType 21), (''delta_tau_n_sign'', BitsType 1),
      (''delta_tau_n_value'', BitsType 4), (''e_n'', BitsType 5), (''not_used_1'', BitsType 14),
      (''p4'', BitsType 1), (''f_t'', BitsType 4), (''not_used_2'', BitsType 3), (''n_t'', BitsType 11),
      (''n'', BitsType 5), (''m'', BitsType 2)]"

definition Glonass_String5 :: FieldType where
  "Glonass_String5 = Struct ''Glonass.String5''
     [(''n_a'', BitsType 11), (''tau_c'', BitsType 32), (''not_used'', BitsType 1), (''n_4'', BitsType 5),
      (''tau_gps'', BitsType 22), (''l_n'', BitsType 1)]"

definition Glonass_StringNonImmediate :: FieldType where
  "Glonass_StringNonImmediate = Struct ''Glonass.StringNonImmediate''
     [(''data_1'', BitsType 64), (''data_2'', BitsType 8)]"

definition Glonass :: FieldType where
  "Glonass = Struct ''Glonass''
     [(''idle_chip'', BitsType 1), (''string_number'', BitsType 4),
      (''data'', SwitchType ''string_number''
        [(1, Glonass_String1), (2, Glonass_String2), (3, Glonass_String3), (4, Glonass_String4),
         (5, Glonass_String5)] (Some Glonass_StringNonImmediate)),
      (''hamming_code'', BitsType 8), (''pad_1'', BitsType 11), (''superframe_number'', BitsType 16),
      (''pad_2'', BitsType 8), (''frame_number'', BitsType 8)]"

section \<open>Attributes of a parsed object\<close>

text \<open>
  Reading an attribute of a parsed object. A parsed object has the attributes of its class (\<open>parse_sound\<close>), so
  the default values never show.
\<close>

definition attr :: "Value \<Rightarrow> string \<Rightarrow> Value" where
  "attr v name = (case get_attr name v of Inl _ \<Rightarrow> VNone | Inr x \<Rightarrow> x)"

definition num :: "Value \<Rightarrow> string \<Rightarrow> int" where
  "num v name = (case py_num (attr v name) of None \<Rightarrow> 0 | Some n \<Rightarrow> n)"

definition flag :: "Value \<Rightarrow> string \<Rightarrow> bool" where
  "flag v name \<longleftrightarrow> num v name \<noteq> 0"

definition is_class :: "string \<Rightarrow> Value \<Rightarrow> bool" where
  "is_class cls v \<longleftrightarrow> (case v of VObj c _ \<Rightarrow> c = cls | _ \<Rightarrow> False)"

section \<open>Computed properties\<close>

definition gps_af_0 :: "Value \<Rightarrow> int" where
  "gps_af_0 s = (if flag s ''af_0_sign'' then num s ''af_0_value'' - 2 ^ 21 else num s ''af_0_value'')"

definition gps_omega_dot :: "Value \<Rightarrow> int" where
  "gps_omega_dot s = (if flag s ''omega_dot_sign'' then num s ''omega_dot_value'' - 2 ^ 23 else num s ''omega_dot_value'')"

definition gps_idot :: "Value \<Rightarrow> int" where
  "gps_idot s = (if flag s ''idot_sign'' then num s ''idot_value'' - 2 ^ 13 else num s ''idot_value'')"

definition gl_x_vel :: "Value \<Rightarrow> int" where
  "gl_x_vel s = (if flag s ''x_vel_sign'' then num s ''x_vel_value'' * (- 1) else num s ''x_vel_value'')"

definition gl_x_accel :: "Value \<Rightarrow> int" where
  "gl_x_accel s = (if flag s ''x_accel_sign'' then num s ''x_accel_value'' * (- 1) else num s ''x_accel_value'')"

definition gl_x :: "Value \<Rightarrow> int" where
  "gl_x s = (if flag s ''x_sign'' then num s ''x_value'' * (- 1) else num s ''x_value'')"

definition gl_y_vel :: "Value \<Rightarrow> int" where
  "gl_y_vel s = (if flag s ''y_vel_sign'' then num s ''y_vel_value'' * (- 1) else num s ''y_vel_value'')"

definition gl_y_accel :: "Value \<Rightarrow> int" where
  "gl_y_accel s = (if flag s ''y_accel_sign'' then num s ''y_accel_value'' * (- 1) else num s ''y_accel_value'')"

definition gl_y :: "Value \<Rightarrow> int" where
  "gl_y s = (if flag s ''y_sign'' then num s ''y_value'' * (- 1) else num s ''y_value'')"

definition gl_gamma_n :: "Value \<Rightarrow> int" where
  "gl_gamma_n s = (if flag s ''gamma_n_sign'' then num s ''gamma_n_value'' * (- 1) else num s ''gamma_n_value'')"

definition gl_z_vel :: "Value \<Rightarrow> int" where
  "gl_z_vel s = (if flag s ''z_vel_sign'' then num s ''z_vel_value'' * (- 1) else num s ''z_vel_value'')"

definition gl_z_accel :: "Value \<Rightarrow> int" where
  "gl_z_accel s = (if flag s ''z_accel_sign'' then num s ''z_accel_value'' * (- 1) else num s ''z_accel_value'')"

definition gl_z :: "Value \<Rightarrow> int" where
  "gl_z s = (if flag s ''z_sign'' then num s ''z_value'' * (- 1) else num s ''z_value'')"

definition gl_tau_n :: "Value \<Rightarrow> int" where
  "gl_tau_n s = (if flag s ''tau_n_sign'' then num s ''tau_n_value'' * (- 1) else num s ''tau_n_value'')"

definition gl_delta_tau_n :: "Value \<Rightarrow> int" where
  "gl_delta_tau_n s = (if flag s ''delta_tau_n_sign'' then num s ''delta_tau_n_value'' * (- 1) else num s ''delta_tau_n_value'')"

section \<open>Message sizes\<close>

lemmas schema_defs = Ubx_NavPvt_def Ubx_MonHw_def Ubx_MonHw2_def Gps_Tlm_def Gps_How_def Gps_Subframe1_def
  Gps_Subframe2_def Gps_Subframe3_def Gps_Subframe4_def Gps_IonosphereData_def
  Glonass_String1_def Glonass_String2_def Glonass_String3_def Glonass_String4_def Glonass_String5_def
  Glonass_StringNonImmediate_def int_types

lemma navpvt_end: "fixed_end Ubx_NavPvt 0 = Some (8 * 92)"
  by (simp add: schema_defs int_size_def round_up_def)

lemma monhw_end: "fixed_end Ubx_MonHw 0 = Some (8 * 60)"
  by (simp add: schema_defs int_size_def round_up_def)

lemma monhw2_end: "fixed_end Ubx_MonHw2 0 = Some (8 * 28)"
  by (simp add: schema_defs int_size_def round_up_def)

text \<open>The fixed messages parse exactly when their data is long enough, whatever it contains: a position and
  velocity report needs 92 bytes, the hardware reports 60 and 28. Anything shorter raises \<open>EOFError\<close>.\<close>

theorem messages_need_their_size:
  "(case from_bytes Ubx_NavPvt data of Inr v \<Rightarrow> 92 \<le> length data | Inl e \<Rightarrow> length data < 92 \<and> e = EOFError)
   \<and> (case from_bytes Ubx_MonHw data of Inr v \<Rightarrow> 60 \<le> length data | Inl e \<Rightarrow> length data < 60 \<and> e = EOFError)
   \<and> (case from_bytes Ubx_MonHw2 data of Inr v \<Rightarrow> 28 \<le> length data | Inl e \<Rightarrow> length data < 28 \<and> e = EOFError)"
  using from_bytes_fixed [OF navpvt_end, of data] from_bytes_fixed [OF monhw_end, of data]
    from_bytes_fixed [OF monhw2_end, of data]
  by (auto split: sum.split)

end
