(* ===== verification/Ubloxd.thy ===== *)
theory Ubloxd
  imports UbxFramer UbxSchemas
begin

text \<open>
  The parser of \<open>system/ubloxd/ubloxd.py\<close>: the class \<open>UbloxMsgParser\<close> with its caches of GPS subframes and
  GLONASS strings, and a round of \<open>main\<close>. A parsed frame raises, yields nothing, or yields a message for a
  service; an exception is caught in \<open>main\<close>, which drops the frame, but what was cached before stays.
  Messages are field lists; numbers are exact (no rounding to binary floats), and a float of a raw
  measurement is kept as its bit pattern.
\<close>

datatype MsgVal = MNum rat | MFloat nat | MBool bool | MList "MsgVal list" | MRec "(string \<times> MsgVal) list"

type_synonym Msg = "(string \<times> MsgVal) list"

datatype Outcome = Raised | Nothing | Sent string Msg

definition SECS_IN_MIN :: int where "SECS_IN_MIN = 60"
definition SECS_IN_HR :: int where "SECS_IN_HR = 60 * SECS_IN_MIN"
definition SECS_IN_DAY :: int where "SECS_IN_DAY = 24 * SECS_IN_HR"
definition SECS_IN_WEEK :: int where "SECS_IN_WEEK = 7 * SECS_IN_DAY"

definition bit_at :: "int \<Rightarrow> nat \<Rightarrow> bool" where "bit_at b shift = bit b shift"

definition gpsPi :: rat where "gpsPi = 31415926535898 / 10 ^ 13"

definition glonass_URA_lookup :: "(int \<times> rat) list" where
  "glonass_URA_lookup =
     [(0, 1), (1, 2), (2, 25/10), (3, 4), (4, 5), (5, 7), (6, 10), (7, 12), (8, 14), (9, 16), (10, 32), (11, 64),
      (12, 128), (13, 256), (14, 512), (15, 1024)]"

text \<open>\<open>math.pow(2, -n)\<close>.\<close>

definition pow2_neg :: "nat \<Rightarrow> rat" where "pow2_neg n = 1 / 2 ^ n"

definition scaled :: "int \<Rightarrow> nat \<Rightarrow> MsgVal" where "scaled v n = MNum (of_int v * pow2_neg n)"

section \<open>State\<close>

text \<open>The caches are dictionaries by satellite or by frequency, in insertion order.\<close>

record Caches =
  gps_subframes :: "int \<Rightarrow> (int \<times> byte list) list"
  glonass_strings :: "int \<Rightarrow> (int \<times> byte list) list"
  glonass_string_times :: "int \<Rightarrow> (int \<times> rat) list"
  glonass_string_superframes :: "int \<Rightarrow> (int \<times> int) list"

record UbloxMsgParser =
  framer :: UbxFramer
  caches :: Caches

definition no_Caches :: Caches where
  "no_Caches = \<lparr>gps_subframes = \<lambda>_. [], glonass_strings = \<lambda>_. [], glonass_string_times = \<lambda>_. [],
     glonass_string_superframes = \<lambda>_. []\<rparr>"

definition new_UbloxMsgParser :: UbloxMsgParser where
  "new_UbloxMsgParser = \<lparr>framer = new_UbxFramer, caches = no_Caches\<rparr>"

section \<open>NAV-PVT\<close>

text \<open>
  \<open>calendar.timegm\<close>: days since 1970 by \<open>datetime.date(year, month, 1)\<close>, which raises for a month outside
  1 to 12 or a year outside 1 to 9999; day, hour, minute and second are added unchecked.
\<close>

definition is_leap :: "int \<Rightarrow> bool" where
  "is_leap y \<longleftrightarrow> y mod 4 = 0 \<and> (y mod 100 \<noteq> 0 \<or> y mod 400 = 0)"

definition days_before_year :: "int \<Rightarrow> int" where
  "days_before_year y = (let q = y - 1 in q * 365 + q div 4 - q div 100 + q div 400)"

definition days_before_month :: "int \<Rightarrow> int \<Rightarrow> int" where
  "days_before_month y m =
     [0, 31, 59, 90, 120, 151, 181, 212, 243, 273, 304, 334] ! nat (m - 1) + of_bool (m > 2 \<and> is_leap y)"

definition timegm :: "int \<Rightarrow> int \<Rightarrow> int \<Rightarrow> int \<Rightarrow> int \<Rightarrow> int \<Rightarrow> int option" where
  "timegm year month day hour minute second =
     (if month \<in> {1..12} \<and> year \<in> {1..9999} then
        (let days = days_before_year year + days_before_month year month + 1 - 719163 + day - 1;
             hours = days * 24 + hour;
             minutes = hours * 60 + minute
         in Some (minutes * 60 + second))
      else None)"

text \<open>The number of \<open>ublox\<close> in the enumeration of the message schema.\<close>

definition SENSOR_SOURCE_UBLOX :: rat where "SENSOR_SOURCE_UBLOX = 6"

definition gen_nav_pvt :: "Value \<Rightarrow> Outcome" where
  "gen_nav_pvt msg =
     (let n = (\<lambda>name. of_int (num msg name) :: rat);
          utc_tt = (case timegm (num msg ''year'') (num msg ''month'') (num msg ''day'') (num msg ''hour'')
                      (num msg ''min'') (num msg ''sec'') of None \<Rightarrow> 0 | Some t \<Rightarrow> t)
      in Sent ''gpsLocationExternal''
        [(''source'', MNum SENSOR_SOURCE_UBLOX),
         (''flags'', MNum (n ''flags'')),
         (''hasFix'', MBool (num msg ''flags'' mod 2 = 1)),
         (''latitude'', MNum (n ''lat'' / 10 ^ 7)),
         (''longitude'', MNum (n ''lon'' / 10 ^ 7)),
         (''altitude'', MNum (n ''height'' / 10 ^ 3)),
         (''speed'', MNum (n ''g_speed'' / 10 ^ 3)),
         (''bearingDeg'', MNum (n ''head_mot'' / 10 ^ 5)),
         (''horizontalAccuracy'', MNum (n ''h_acc'' / 10 ^ 3)),
         (''satelliteCount'', MNum (n ''num_sv'')),
         (''unixTimestampMillis'', MNum (of_int (py_trunc (of_int utc_tt * 10 ^ 3 + n ''nano'' / 10 ^ 6)))),
         (''vNED'', MList [MNum (n ''vel_n'' / 10 ^ 3), MNum (n ''vel_e'' / 10 ^ 3), MNum (n ''vel_d'' / 10 ^ 3)]),
         (''verticalAccuracy'', MNum (n ''v_acc'' / 10 ^ 3)),
         (''speedAccuracy'', MNum (n ''s_acc'' / 10 ^ 3)),
         (''bearingAccuracyDeg'', MNum (n ''head_acc'' / 10 ^ 5))])"

section \<open>GPS ephemeris\<close>

text \<open>The bytes of a subframe: 24 data bits of each of the ten words, without parity and padding.\<close>

definition word_bytes :: "nat \<Rightarrow> byte list" where
  "word_bytes w0 = (let w = drop_bit 6 w0 in [of_nat (drop_bit 16 w), of_nat (drop_bit 8 w), of_nat w])"

text \<open>The message from the three subframes, or \<open>None\<close> when their issue numbers differ.\<close>

definition gps_week :: "Value \<Rightarrow> Value \<Rightarrow> Value \<Rightarrow> int" where
  "gps_week s1 sf2 s2 =
     (let w1 = num s1 ''week_no'' + 1024;
          w2 = (if w1 < 1877 then w1 + 1024 else w1)
      in if num s2 ''t_oe'' = 0 \<and> num (attr sf2 ''how'') ''tow_count'' * 6 \<ge> SECS_IN_WEEK - 2 * SECS_IN_HR
         then w2 + 1 else w2)"

definition gps_message :: "int \<Rightarrow> Value \<Rightarrow> Value \<Rightarrow> Value \<Rightarrow> Msg" where
  "gps_message sv_id sf1 sf2 sf3 =
     (let s1 = attr sf1 ''body''; s2 = attr sf2 ''body''; s3 = attr sf3 ''body'';
          week = of_int (gps_week s1 sf2 s2);
          angle = (\<lambda>v n. MNum (of_int v * pow2_neg n * gpsPi))
      in [(''svId'', MNum (of_int sv_id)),
          (''tgd'', scaled (num s1 ''t_gd'') 31),
          (''toc'', MNum (of_int (num s1 ''t_oc'' * 2 ^ 4))),
          (''af2'', scaled (num s1 ''af_2'') 55),
          (''af1'', scaled (num s1 ''af_1'') 43),
          (''af0'', scaled (gps_af_0 s1) 31),
          (''svHealth'', MNum (of_int (num s1 ''sv_health''))),
          (''towCount'', MNum (of_int (num (attr sf1 ''how'') ''tow_count''))),
          (''crs'', scaled (num s2 ''c_rs'') 5),
          (''deltaN'', angle (num s2 ''delta_n'') 43),
          (''m0'', angle (num s2 ''m_0'') 31),
          (''cuc'', scaled (num s2 ''c_uc'') 29),
          (''ecc'', scaled (num s2 ''e'') 33),
          (''cus'', scaled (num s2 ''c_us'') 29),
          (''a'', MNum ((of_int (num s2 ''sqrt_a'') * pow2_neg 19)\<^sup>2)),
          (''toe'', MNum (of_int (num s2 ''t_oe'' * 2 ^ 4))),
          (''cic'', scaled (num s3 ''c_ic'') 29),
          (''omega0'', angle (num s3 ''omega_0'') 31),
          (''cis'', scaled (num s3 ''c_is'') 29),
          (''i0'', angle (num s3 ''i_0'') 31),
          (''crc'', scaled (num s3 ''c_rc'') 5),
          (''omega'', angle (num s3 ''omega'') 31),
          (''omegaDot'', angle (gps_omega_dot s3) 43),
          (''iode'', MNum (of_int (num s3 ''iode''))),
          (''iDot'', angle (gps_idot s3) 43),
          (''toeWeek'', MNum week),
          (''tocWeek'', MNum week)])"

text \<open>The end of the method, once the three subframes of the satellite are cached.\<close>

definition gps_complete :: "int \<Rightarrow> Caches \<Rightarrow> Caches \<times> Outcome" where
  "gps_complete sv_id c =
     (let sub = (\<lambda>i. case map_of (gps_subframes c sv_id) i of None \<Rightarrow> Inl ValueError | Some b \<Rightarrow> from_bytes Gps b)
      in case (sub 1, sub 2, sub 3) of
           (Inr sf1, Inr sf2, Inr sf3) \<Rightarrow>
             if is_class ''Gps.Subframe1'' (attr sf1 ''body'') \<and> is_class ''Gps.Subframe2'' (attr sf2 ''body'')
                \<and> is_class ''Gps.Subframe3'' (attr sf3 ''body'')
             then (c\<lparr>gps_subframes := (gps_subframes c)(sv_id := [])\<rparr>,
                   if num (attr sf1 ''body'') ''iodc_lsb'' = num (attr sf2 ''body'') ''iode''
                      \<and> num (attr sf2 ''body'') ''iode'' = num (attr sf3 ''body'') ''iode''
                   then Sent ''ubloxGnss'' [(''ephemeris'', MRec (gps_message sv_id sf1 sf2 sf3))] else Nothing)
             else (c, Raised)
         | _ \<Rightarrow> (c, Raised))"

definition parse_gps_ephemeris :: "int \<Rightarrow> nat list \<Rightarrow> Caches \<Rightarrow> Caches \<times> Outcome" where
  "parse_gps_ephemeris sv_id body c0 =
     (if length body \<noteq> 10 then (c0, Nothing)
      else (let data = concat (map word_bytes body)
            in case from_bytes Gps data of
                 Inl _ \<Rightarrow> (c0, Raised)
               | Inr sf \<Rightarrow>
                   (let subframe_id = num (attr sf ''how'') ''subframe_id''
                    in if subframe_id < 1 \<or> subframe_id > 3 then (c0, Nothing)
                       else (let d = dict_set subframe_id data (gps_subframes c0 sv_id);
                                 c = c0\<lparr>gps_subframes := (gps_subframes c0)(sv_id := d)\<rparr>
                             in if length d \<noteq> 3 then (c, Nothing) else gps_complete sv_id c))))"

section \<open>GLONASS ephemeris\<close>

definition string_bytes :: "nat \<Rightarrow> byte list" where
  "string_bytes w = map (\<lambda>i. of_nat (drop_bit (8 * i) w)) [3, 2, 1, 0]"

text \<open>
  Whether the cached strings belong to another superframe: the loop over the string numbers, with its two
  flags. An unknown superframe number makes the times decide, from then on.
\<close>

definition glonass_check :: "rat \<Rightarrow> int \<Rightarrow> int \<Rightarrow> int \<Rightarrow> Caches \<Rightarrow> bool" where
  "glonass_check now freq_id string_number superframe c =
     snd (fold (\<lambda>i (unknown, clear).
       if map_of (glonass_strings c freq_id) i = None then (unknown, clear)
       else (let sf_prev = dict_get 0 (glonass_string_superframes c freq_id) i;
                 unknown' = (unknown \<or> sf_prev = 0 \<or> superframe = 0);
                 clear' = (clear \<or> \<not> (sf_prev = 0 \<or> superframe = 0) \<and> sf_prev \<noteq> superframe);
                 prev_time = dict_get 0 (glonass_string_times c freq_id) i
             in (unknown',
                 clear' \<or> unknown' \<and> \<bar>(prev_time - 2 * of_int i) - (now - 2 * of_int string_number)\<bar> > 10)))
       [1..5] (False, False))"

definition glonass_clear :: "int \<Rightarrow> Caches \<Rightarrow> Caches" where
  "glonass_clear freq_id c =
     c\<lparr>glonass_strings := (glonass_strings c)(freq_id := []),
       glonass_string_superframes := (glonass_string_superframes c)(freq_id := []),
       glonass_string_times := (glonass_string_times c)(freq_id := [])\<rparr>"

definition glonass_store :: "rat \<Rightarrow> int \<Rightarrow> int \<Rightarrow> int \<Rightarrow> byte list \<Rightarrow> Caches \<Rightarrow> Caches" where
  "glonass_store now freq_id string_number superframe data c =
     c\<lparr>glonass_strings := (glonass_strings c)(freq_id := dict_set string_number data (glonass_strings c freq_id)),
       glonass_string_superframes := (glonass_string_superframes c)
         (freq_id := dict_set string_number superframe (glonass_string_superframes c freq_id)),
       glonass_string_times := (glonass_string_times c)
         (freq_id := dict_set string_number now (glonass_string_times c freq_id))\<rparr>"

definition glonass_message :: "int \<Rightarrow> int \<Rightarrow> Value \<Rightarrow> Value \<Rightarrow> Value \<Rightarrow> Value \<Rightarrow> Value \<Rightarrow> Msg" where
  "glonass_message sv_id freq_id s1 s2 s3 s4 s5 =
     (let tk = num s1 ''t_k'';
          int_field = (\<lambda>v. MNum (of_int v))
      in [(''svId'', int_field sv_id), (''freqNum'', int_field (freq_id - 7)),
          (''p1'', int_field (num s1 ''p1'')), (''tk'', int_field tk),
          (''xVel'', scaled (gl_x_vel s1) 20), (''xAccel'', scaled (gl_x_accel s1) 30), (''x'', scaled (gl_x s1) 11),
          (''svHealth'', int_field (drop_bit 2 (num s2 ''b_n'') OR of_bool (flag s3 ''l_n''))),
          (''p2'', int_field (num s2 ''p2'')), (''tb'', int_field (num s2 ''t_b'')),
          (''yVel'', scaled (gl_y_vel s2) 20), (''yAccel'', scaled (gl_y_accel s2) 30), (''y'', scaled (gl_y s2) 11),
          (''p3'', int_field (num s3 ''p3'')), (''gammaN'', scaled (gl_gamma_n s3) 40),
          (''zVel'', scaled (gl_z_vel s3) 20), (''zAccel'', scaled (gl_z_accel s3) 30), (''z'', scaled (gl_z s3) 11),
          (''nt'', int_field (num s4 ''n_t'')),
          (''tauN'', scaled (gl_tau_n s4) 30), (''deltaTauN'', scaled (gl_delta_tau_n s4) 30),
          (''age'', int_field (num s4 ''e_n'')), (''p4'', int_field (num s4 ''p4'')),
          (''svURA'', MNum (case map_of glonass_URA_lookup (num s4 ''f_t'') of None \<Rightarrow> 0 | Some u \<Rightarrow> u)),
          (''svType'', int_field (num s4 ''m'')),
          (''n4'', int_field (num s5 ''n_4'')),
          (''tkSeconds'', int_field (SECS_IN_HR * (drop_bit 7 tk AND 31) + SECS_IN_MIN * (drop_bit 1 tk AND 63)
             + (tk AND 1) * 30))])"

text \<open>The five cached strings in turn: one that does not parse ends the method, one of another class raises.\<close>

fun read_strings :: "(int \<Rightarrow> Error + Value) \<Rightarrow> (int \<times> string) list \<Rightarrow> Outcome + Value list" where
  "read_strings sub [] = Inr []"
| "read_strings sub ((i, cls) # rest) =
     (case sub i of
        Inl _ \<Rightarrow> Inl Nothing
      | Inr s \<Rightarrow>
          if is_class cls s then (case read_strings sub rest of Inl e \<Rightarrow> Inl e | Inr ss \<Rightarrow> Inr (s # ss)) else Inl Raised)"

definition glonass_complete :: "int \<Rightarrow> int \<Rightarrow> Caches \<Rightarrow> Caches \<times> Outcome" where
  "glonass_complete sv_id freq_id c =
     (let sub = (\<lambda>i. case map_of (glonass_strings c freq_id) i of None \<Rightarrow> Inl ValueError
                     | Some b \<Rightarrow> bindE (from_bytes Glonass b) (\<lambda>g. Inr (attr g ''data'')))
      in case read_strings sub [(1, ''Glonass.String1''), (2, ''Glonass.String2''), (3, ''Glonass.String3''),
           (4, ''Glonass.String4''), (5, ''Glonass.String5'')] of
           Inr [s1, s2, s3, s4, s5] \<Rightarrow>
             (c\<lparr>glonass_strings := (glonass_strings c)(freq_id := [])\<rparr>,
              Sent ''ubloxGnss'' [(''glonassEphemeris'', MRec (glonass_message sv_id freq_id s1 s2 s3 s4 s5))])
         | Inr _ \<Rightarrow> (c, Raised)
         | Inl e \<Rightarrow> (c, e))"

definition parse_glonass_ephemeris :: "rat \<Rightarrow> int \<Rightarrow> int \<Rightarrow> nat list \<Rightarrow> Caches \<Rightarrow> Caches \<times> Outcome" where
  "parse_glonass_ephemeris now sv_id freq_id body c0 =
     (if length body \<noteq> 4 then (c0, Nothing)
      else (let data = concat (map string_bytes body)
            in case from_bytes Glonass data of
                 Inl _ \<Rightarrow> (c0, Raised)
               | Inr gl \<Rightarrow>
                   (let string_number = num gl ''string_number'';
                        superframe = num gl ''superframe_number''
                    in if string_number < 1 \<or> string_number > 5 \<or> flag gl ''idle_chip'' then (c0, Nothing)
                       else (let c1 = (if glonass_check now freq_id string_number superframe c0
                                       then glonass_clear freq_id c0 else c0);
                                 c = glonass_store now freq_id string_number superframe data c1
                             in if sv_id = 255 \<or> length (glonass_strings c freq_id) \<noteq> 5 then (c, Nothing)
                                else glonass_complete sv_id freq_id c))))"

section \<open>Measurements and hardware status\<close>

text \<open>
  \<open>x.value\<close> of an enumerated field: a number outside the enumeration stays a plain integer, which has no
  attribute \<open>value\<close>, so reading it raises.
\<close>

definition enum_value :: "Value \<Rightarrow> int option" where
  "enum_value v = (case v of VEnum n \<Rightarrow> Some n | _ \<Rightarrow> None)"

definition raw_float :: "Value \<Rightarrow> string \<Rightarrow> MsgVal" where
  "raw_float v name = (case attr v name of VFloat b \<Rightarrow> MFloat b | _ \<Rightarrow> MFloat 0)"

definition int_field :: "Value \<Rightarrow> string \<Rightarrow> MsgVal" where
  "int_field v name = MNum (of_int (num v name))"

definition items :: "Value \<Rightarrow> Value list" where
  "items v = (case v of VList vs \<Rightarrow> vs | _ \<Rightarrow> [])"

fun collect :: "(Value \<Rightarrow> MsgVal option) \<Rightarrow> Value list \<Rightarrow> MsgVal list option" where
  "collect f [] = Some []"
| "collect f (v # vs) = (case f v of None \<Rightarrow> None | Some m \<Rightarrow> map_option ((#) m) (collect f vs))"

definition rawx_measurement :: "Value \<Rightarrow> MsgVal option" where
  "rawx_measurement m =
     map_option (\<lambda>gnss. MRec
       [(''svId'', int_field m ''sv_id''), (''pseudorange'', raw_float m ''pr_mes''),
        (''carrierCycles'', raw_float m ''cp_mes''), (''doppler'', raw_float m ''do_mes''),
        (''gnssId'', MNum (of_int gnss)), (''glonassFrequencyIndex'', int_field m ''freq_id''),
        (''locktime'', int_field m ''lock_time''), (''cno'', int_field m ''cno''),
        (''pseudorangeStdev'', MNum (1/100 * 2 ^ nat (num m ''pr_stdev'' AND 15))),
        (''carrierPhaseStdev'', MNum (4/1000 * of_int (num m ''cp_stdev'' AND 15))),
        (''dopplerStdev'', MNum (2/1000 * 2 ^ nat (num m ''do_stdev'' AND 15))),
        (''trackingStatus'', MRec
          [(''pseudorangeValid'', MBool (bit_at (num m ''trk_stat'') 0)),
           (''carrierPhaseValid'', MBool (bit_at (num m ''trk_stat'') 1)),
           (''halfCycleValid'', MBool (bit_at (num m ''trk_stat'') 2)),
           (''halfCycleSubtracted'', MBool (bit_at (num m ''trk_stat'') 3))])])
     (enum_value (attr m ''gnss_id''))"

text \<open>The field \<open>leapSeconds\<close> is a \<open>UInt16\<close>, \<open>leap_s\<close> is signed: assigning a negative number raises.\<close>

definition gen_rxm_rawx :: "Value \<Rightarrow> Outcome" where
  "gen_rxm_rawx msg =
     (if num msg ''leap_s'' < 0 then Raised else case collect rawx_measurement (items (attr msg ''meas'')) of
        None \<Rightarrow> Raised
      | Some ms \<Rightarrow>
          Sent ''ubloxGnss'' [(''measurementReport'', MRec
            [(''rcvTow'', raw_float msg ''rcv_tow''), (''gpsWeek'', int_field msg ''week''),
             (''leapSeconds'', int_field msg ''leap_s''), (''measurements'', MList ms),
             (''numMeas'', int_field msg ''num_meas''),
             (''receiverStatus'', MRec [(''leapSecValid'', MBool (bit_at (num msg ''rec_stat'') 0)),
                                        (''clkReset'', MBool (bit_at (num msg ''rec_stat'') 2))])])])"

definition nav_sat_sv :: "Value \<Rightarrow> MsgVal option" where
  "nav_sat_sv s =
     map_option (\<lambda>gnss. MRec
       [(''svId'', int_field s ''sv_id''), (''gnssId'', MNum (of_int gnss)), (''flagsBitfield'', int_field s ''flags''),
        (''cno'', int_field s ''cno''), (''elevationDeg'', int_field s ''elev''), (''azimuthDeg'', int_field s ''azim''),
        (''pseudorangeResidual'', MNum (of_int (num s ''pr_res'') * (1/10)))])
     (enum_value (attr s ''gnss_id''))"

definition gen_nav_sat :: "Value \<Rightarrow> Outcome" where
  "gen_nav_sat msg =
     (case collect nav_sat_sv (items (attr msg ''svs'')) of
        None \<Rightarrow> Raised
      | Some svs \<Rightarrow> Sent ''ubloxGnss'' [(''satReport'', MRec [(''iTow'', int_field msg ''itow''), (''svs'', MList svs)])])"

definition gen_mon_hw :: "Value \<Rightarrow> Outcome" where
  "gen_mon_hw msg =
     (case (enum_value (attr msg ''a_status''), enum_value (attr msg ''a_power'')) of
        (Some st, Some pw) \<Rightarrow>
          Sent ''ubloxGnss'' [(''hwStatus'', MRec
            [(''noisePerMS'', int_field msg ''noise_per_ms''), (''flags'', int_field msg ''flags''),
             (''agcCnt'', int_field msg ''agc_cnt''), (''aStatus'', MNum (of_int st)), (''aPower'', MNum (of_int pw)),
             (''jamInd'', int_field msg ''jam_ind'')])]
      | _ \<Rightarrow> Raised)"

definition cfg_map :: "(int \<times> int) list" where
  "cfg_map = [(113, 1), (111, 2), (112, 3), (102, 4)]"

definition gen_mon_hw2 :: "Value \<Rightarrow> Outcome" where
  "gen_mon_hw2 msg =
     Sent ''ubloxGnss'' [(''hwStatus2'', MRec
       [(''ofsI'', int_field msg ''ofs_i''), (''magI'', int_field msg ''mag_i''),
        (''ofsQ'', int_field msg ''ofs_q''), (''magQ'', int_field msg ''mag_q''),
        (''cfgSource'', MNum (of_int (case map_of cfg_map (num msg ''cfg_source'') of None \<Rightarrow> 0 | Some n \<Rightarrow> n))),
        (''lowLevCfg'', int_field msg ''low_lev_cfg''), (''postStatus'', int_field msg ''post_status'')])]"

section \<open>Frames\<close>

text \<open>RXM-SFRBX is read by hand: header of eight bytes, then words of four.\<close>

fun words_of :: "byte list \<Rightarrow> nat list" where
  "words_of (a # b # c # d # bs) = le_nat [a, b, c, d] # words_of bs"
| "words_of _ = []"

definition parse_sfrbx :: "rat \<Rightarrow> byte list \<Rightarrow> Caches \<Rightarrow> Caches \<times> Outcome" where
  "parse_sfrbx now payload c =
     (if length payload < 8 then (c, Nothing)
      else (let gnss_id = uint (payload ! 0); sv_id = uint (payload ! 1); freq_id = uint (payload ! 3);
                num_words = unat (payload ! 4)
            in if 8 + 4 * num_words \<noteq> length payload then (c, Nothing)
               else if gnss_id \<notin> set GnssType then (c, Raised)
               else if gnss_id = 0 then parse_gps_ephemeris sv_id (words_of (drop 8 payload)) c
               else if gnss_id = 6 then parse_glonass_ephemeris now sv_id freq_id (words_of (drop 8 payload)) c
               else (c, Nothing)))"

definition with_body :: "FieldType \<Rightarrow> (Value \<Rightarrow> Outcome) \<Rightarrow> byte list \<Rightarrow> Caches \<Rightarrow> Caches \<times> Outcome" where
  "with_body ft gen payload c = (c, case from_bytes ft payload of Inl _ \<Rightarrow> Raised | Inr v \<Rightarrow> gen v)"

definition parse_payload :: "rat \<Rightarrow> nat \<Rightarrow> byte list \<Rightarrow> Caches \<Rightarrow> Caches \<times> Outcome" where
  "parse_payload now msg_type payload c =
     (if msg_type = 0x0107 then with_body Ubx_NavPvt gen_nav_pvt payload c
      else if msg_type = 0x0213 then parse_sfrbx now payload c
      else if msg_type = 0x0215 then with_body Ubx_RxmRawx gen_rxm_rawx payload c
      else if msg_type = 0x0A09 then with_body Ubx_MonHw gen_mon_hw payload c
      else if msg_type = 0x0A0B then with_body Ubx_MonHw2 gen_mon_hw2 payload c
      else if msg_type = 0x0135 then with_body Ubx_NavSat gen_nav_sat payload c
      else (c, Nothing))"

definition parse_frame :: "byte list \<Rightarrow> UbloxMsgParser \<Rightarrow> UbloxMsgParser \<times> Outcome" where
  "parse_frame frm p =
     (let msg_type = 256 * unat (frm ! 2) + unat (frm ! 3);
          payload = drop 6 (take (length frm - 2) frm);
          (c, out) = parse_payload (last_log_time (framer p)) msg_type payload (caches p)
      in (p\<lparr>caches := c\<rparr>, out))"

section \<open>A round of the loop\<close>

fun parse_frames :: "byte list list \<Rightarrow> UbloxMsgParser \<Rightarrow> (string \<times> Msg) list \<times> UbloxMsgParser" where
  "parse_frames [] p = ([], p)"
| "parse_frames (f # fs) p =
     (let (p', out) = parse_frame f p; (msgs, p'') = parse_frames fs p'
      in (case out of Sent service dat \<Rightarrow> (service, dat) # msgs | _ \<Rightarrow> msgs, p''))"

definition ubloxd_round :: "rat \<Rightarrow> byte list \<Rightarrow> UbloxMsgParser \<Rightarrow> (string \<times> Msg) list \<times> UbloxMsgParser" where
  "ubloxd_round log_time data p =
     (let (frames, fr) = add_data log_time data (framer p) in parse_frames frames (p\<lparr>framer := fr\<rparr>))"

fun ubloxd_run :: "(rat \<times> byte list) list \<Rightarrow> UbloxMsgParser \<Rightarrow> (string \<times> Msg) list \<times> UbloxMsgParser" where
  "ubloxd_run [] p = ([], p)"
| "ubloxd_run ((t, data) # rest) p =
     (let (msgs, p') = ubloxd_round t data p; (msgs', p'') = ubloxd_run rest p' in (msgs @ msgs', p''))"

end
