(* ===== verification/UbloxdSafety.thy ===== *)
theory UbloxdSafety
  imports Ubloxd
begin

text \<open>
  The properties of the GNSS parser: when the data of a message is long enough, when a navigation message
  raises, and which subframes an ephemeris is made of.
\<close>

section \<open>Objects\<close>

lemma attr_VObj [simp]: "attr (VObj cls fs) name = (case map_of fs name of None \<Rightarrow> VNone | Some x \<Rightarrow> x)"
  by (simp add: attr_def get_attr_def split: option.split)

lemma is_class_VObj [simp]: "is_class cls (VObj c fs) = (c = cls)"
  by (simp add: is_class_def)

text \<open>The objects a class parses to.\<close>

lemma parse_Struct_class:
  "parse_field (Struct cls fs) obj r = Inr (v, r') \<Longrightarrow> \<exists>vs. v = VObj cls vs"
proof -
  have "parse_fields cls fs done r = Inr (v, r') \<Longrightarrow> \<exists>vs. v = VObj cls vs" for "done" r
    by (induction fs arbitrary: "done" r) (auto simp: bindE_Inr)
  then show "parse_field (Struct cls fs) obj r = Inr (v, r') \<Longrightarrow> \<exists>vs. v = VObj cls vs"
    by simp
qed

text \<open>A field that is a number by its type is a number in Python.\<close>

lemma typed_bits_num: "typed (BitsType n) v \<Longrightarrow> \<exists>k. py_num v = Some k"
  by (auto elim!: typed.cases simp: py_num_def)

lemma typed_u8_num: "typed (IntType b s e) v \<Longrightarrow> \<exists>k. py_num v = Some k"
  by (auto elim!: typed.cases simp: py_num_def)

lemma py_num_key: "py_num v = Some k \<Longrightarrow> switch_key v = Inr (Some k)"
  by (cases v) (simp_all add: py_num_def switch_key_def)

lemma typed_attr:
  assumes "typed (Struct cls fs) v" "map_of fs name = Some ft"
  shows "\<exists>w. get_attr name v = Inr w \<and> typed ft w"
proof -
  obtain vs where v: "v = VObj cls vs" and all: "list_all2 (\<lambda>f w. fst f = fst w \<and> typed (snd f) (snd w)) fs vs"
    using assms(1) by (auto elim: typed.cases)
  from all assms(2) have "\<exists>w. map_of vs name = Some w \<and> typed ft w"
    by (induction fs vs rule: list_all2_induct) (auto split: if_splits)
  then show ?thesis
    by (auto simp: v get_attr_def)
qed

section \<open>GPS subframes\<close>

lemma gps_ends:
  "fixed_ends [(''tlm'', BitsType 14), (''integrity_status'', BitsType 1), (''reserved'', BitsType 1)] 8 = Some 24"
  "fixed_end Gps_How 24 = Some 48"
  "fixed_end Gps_Subframe1 48 = Some 240" "fixed_end Gps_Subframe2 48 = Some 240" "fixed_end Gps_Subframe3 48 = Some 240"
  "fixed_end Gps_IonosphereData 56 = Some 120"
  by (simp_all add: schema_defs int_size_def round_up_def)

lemma fixed_ok:
  assumes "fixed_end ft p = Some q" "bit_position r = p" "rd_ok r" "q \<le> 8 * length (rd_data r)"
  obtains v where "parse_field ft obj r = Inr (v, seek_bit q r)" "typed ft v"
proof -
  obtain v where v: "parse_field ft obj r = Inr (v, seek_bit q r)"
    using fixed_parse(1) [OF assms(1,3,2), of obj] assms(4) by auto
  show ?thesis
    using that [OF v] parse_sound(1) [OF assms(3) v] by simp
qed

lemma subframe4_parse:
  assumes "rd_ok r" "bit_position r = 48" "length (rd_data r) = 30"
  shows "\<exists>v r'. parse_field Gps_Subframe4 obj r = Inr (v, r')"
proof -
  have e: "fixed_end (BitsType 2) 48 = Some 50" "fixed_end (BitsType 6) 50 = Some 56"
    by simp_all
  obtain v1 where v1: "parse_field (BitsType 2) (VObj ''Gps.Subframe4'' []) r = Inr (v1, seek_bit 50 r)"
    using fixed_ok [OF e(1) assms(2,1)] assms(3) by auto
  obtain v2 where v2: "parse_field (BitsType 6) (VObj ''Gps.Subframe4'' [(''data_id'', v1)]) (seek_bit 50 r) = Inr (v2, seek_bit 56 r)"
    "typed (BitsType 6) v2"
    using fixed_ok [OF e(2), of "seek_bit 50 r"] rd_ok_seek [of 50 r] assms(3) by auto
  obtain k where k: "py_num v2 = Some k"
    using typed_bits_num [OF v2(2)] by blast
  obtain v3 where v3: "parse_field Gps_IonosphereData (VObj ''Gps.Subframe4'' [(''data_id'', v1), (''page_id'', v2)]) (seek_bit 56 r)
      = Inr (v3, seek_bit 120 r)"
    using fixed_ok [OF gps_ends(6), of "seek_bit 56 r"] rd_ok_seek [of 56 r] assms(3) by auto
  show ?thesis
    using v1 v2 v3 py_num_key [OF k] unfolding Gps_Subframe4_def parse_field.simps(10)
    by (simp add: resolve_path_def get_attr_def del: parse_field.simps(3))
qed

text \<open>Thirty bytes are a subframe exactly when they begin with the preamble, and the class of the body is that of its number.\<close>

definition gps_body_ok :: "int \<Rightarrow> Value \<Rightarrow> bool" where
  "gps_body_ok k bd \<longleftrightarrow>
     (k = 1 \<longrightarrow> is_class ''Gps.Subframe1'' bd) \<and> (k = 2 \<longrightarrow> is_class ''Gps.Subframe2'' bd)
     \<and> (k = 3 \<longrightarrow> is_class ''Gps.Subframe3'' bd)"

lemma gps_parse:
  assumes "length b = 30"
  shows "b ! 0 \<noteq> 0x8b \<Longrightarrow> from_bytes Gps b = Inl ValueError"
    and "b ! 0 = 0x8b \<Longrightarrow> \<exists>v. from_bytes Gps b = Inr v \<and> gps_body_ok (num (attr v ''how'') ''subframe_id'') (attr v ''body'')"
proof -
  define r where "r = new_BinaryReader b"
  have r: "rd_ok r" "bit_position r = 0" "rd_data r = b"
    by (simp_all add: r_def)
  have t1: "take (Suc 0) b = [b ! 0]"
    using assms by (cases b) simp_all
  have pre: "read_bytes (Suc 0) r = Inr ([b ! 0], seek_bit 8 r)"
    using assms by (simp add: read_bytes_eq [OF r(1)] r round_up_def t1)
  have eq: "py_eq (VBytes [b ! 0]) (VBytes [0x8b]) = (b ! 0 = 0x8b)"
    by (simp add: py_eq_def py_num_def)
  show "from_bytes Gps b = Inl ValueError" if "b ! 0 \<noteq> 0x8b"
    using that by (simp add: from_bytes_def Gps_def Gps_Tlm_def pre eq flip: r_def)
  assume p: "b ! 0 = 0x8b"
  let ?tail = "[(''tlm'', BitsType 14), (''integrity_status'', BitsType 1), (''reserved'', BitsType 1)]"
  obtain t where t: "parse_fields ''Gps.Tlm'' ?tail [(''preamble'', VBytes [b ! 0])] (seek_bit 8 r) = Inr (t, seek_bit 24 r)"
    using fixed_parse(2) [OF gps_ends(1), of "seek_bit 8 r" "''Gps.Tlm''" "[(''preamble'', VBytes [b ! 0])]"]
      rd_ok_seek [of 8 r] assms r by auto
  then have tlm: "parse_field Gps_Tlm (VObj ''Gps'' []) r = Inr (t, seek_bit 24 r)"
    using eq p unfolding Gps_Tlm_def parse_field.simps(10) by (subst parse_fields.simps(2)) (simp add: pre del: parse_fields.simps(2))
  obtain h where h: "parse_field Gps_How (VObj ''Gps'' [(''tlm'', t)]) (seek_bit 24 r) = Inr (h, seek_bit 48 r)" "typed Gps_How h"
    using fixed_ok [OF gps_ends(2), of "seek_bit 24 r"] rd_ok_seek [of 24 r] assms r by auto
  obtain w where w: "get_attr ''subframe_id'' h = Inr w" "typed (BitsType 3) w"
    using typed_attr [OF h(2) [unfolded Gps_How_def], of "''subframe_id''" "BitsType 3"] by auto
  obtain k where k: "py_num w = Some k"
    using typed_bits_num [OF w(2)] by blast
  let ?obj = "VObj ''Gps'' [(''tlm'', t), (''how'', h)]" and ?r = "seek_bit 48 r"
  have r48: "rd_ok ?r" "bit_position ?r = 48" "length (rd_data ?r) = 30"
    using rd_ok_seek [of 48 r] assms r by simp_all
  let ?cases = "[(1, Gps_Subframe1), (2, Gps_Subframe2), (3, Gps_Subframe3), (4, Gps_Subframe4)] :: (int \<times> FieldType) list"
  have sub: "\<exists>bd r'. parse_field ft ?obj ?r = Inr (bd, r') \<and> is_class cls bd"
    if "fixed_end ft 48 = Some 240" "\<exists>fs. ft = Struct cls fs" for ft cls
  proof -
    note ft = that
    obtain v where v: "parse_field ft ?obj ?r = Inr (v, seek_bit 240 ?r)"
      using fixed_ok [OF ft(1) r48(2,1)] r48(3) by auto
    then show ?thesis
      using ft(2) parse_Struct_class by fastforce
  qed
  have "\<exists>bd r'. parse_case ?cases None (Some k) ?obj ?r = Inr (bd, r') \<and> gps_body_ok k bd"
  proof -
    consider "k = 1" | "k = 2" | "k = 3" | "k = 4" | "k \<notin> {1, 2, 3, 4}" by blast
    then show ?thesis
    proof cases
      case 1
      then show ?thesis
        using sub [OF gps_ends(3), of "''Gps.Subframe1''"] by (auto simp: gps_body_ok_def Gps_Subframe1_def)
    next
      case 2
      then show ?thesis
        using sub [OF gps_ends(4), of "''Gps.Subframe2''"] by (auto simp: gps_body_ok_def Gps_Subframe2_def)
    next
      case 3
      then show ?thesis
        using sub [OF gps_ends(5), of "''Gps.Subframe3''"] by (auto simp: gps_body_ok_def Gps_Subframe3_def)
    next
      case 4
      then show ?thesis
        using subframe4_parse [OF r48, of ?obj] by (auto simp: gps_body_ok_def)
    next
      case 5
      then show ?thesis
        by (auto simp: gps_body_ok_def)
    qed
  qed
  then obtain bd r' where bd: "parse_case ?cases None (Some k) ?obj ?r = Inr (bd, r')" "gps_body_ok k bd"
    by blast
  have "resolve_path ?obj ''how.subframe_id'' = Inr w"
    using w(1) by (simp add: resolve_path_def get_attr_def)
  then have body: "parse_field (SwitchType ''how.subframe_id'' ?cases None) ?obj ?r = Inr (bd, r')"
    using bd(1) py_num_key [OF k] by (simp only: parse_field.simps bindE_simps)
  have "from_bytes Gps b = Inr (VObj ''Gps'' [(''tlm'', t), (''how'', h), (''body'', bd)])"
    using tlm h(1) body unfolding from_bytes_def Gps_def parse_field.simps(10) r_def [symmetric]
    by (simp del: parse_field.simps parse_case.simps)
  moreover have "num h ''subframe_id'' = k"
    using w(1) k by (simp add: num_def attr_def)
  ultimately show "\<exists>v. from_bytes Gps b = Inr v \<and> gps_body_ok (num (attr v ''how'') ''subframe_id'') (attr v ''body'')"
    using bd(2) by simp
qed

section \<open>GLONASS strings\<close>

lemma glonass_ends:
  "fixed_end Glonass_String1 5 = Some 77" "fixed_end Glonass_String2 5 = Some 77" "fixed_end Glonass_String3 5 = Some 77"
  "fixed_end Glonass_String4 5 = Some 77" "fixed_end Glonass_String5 5 = Some 77"
  "fixed_end Glonass_StringNonImmediate 5 = Some 77"
  "fixed_ends [(''hamming_code'', BitsType 8), (''pad_1'', BitsType 11), (''superframe_number'', BitsType 16),
      (''pad_2'', BitsType 8), (''frame_number'', BitsType 8)] 77 = Some 128"
  by (simp_all add: schema_defs)

definition glonass_class :: "int \<Rightarrow> string" where
  "glonass_class k =
     (if k = 1 then ''Glonass.String1'' else if k = 2 then ''Glonass.String2'' else if k = 3 then ''Glonass.String3''
      else if k = 4 then ''Glonass.String4'' else if k = 5 then ''Glonass.String5'' else ''Glonass.StringNonImmediate'')"

text \<open>Sixteen bytes are always a string, and the class of its data is that of its number.\<close>

lemma glonass_parse:
  assumes "length b = 16"
  shows "\<exists>v. from_bytes Glonass b = Inr v \<and> is_class (glonass_class (num v ''string_number'')) (attr v ''data'')"
proof -
  define r where "r = new_BinaryReader b"
  have r: "rd_ok r" "bit_position r = 0" "rd_data r = b"
    by (simp_all add: r_def)
  have e: "fixed_end (BitsType 1) 0 = Some 1" "fixed_end (BitsType 4) 1 = Some 5"
    by simp_all
  obtain i where i: "parse_field (BitsType 1) (VObj ''Glonass'' []) r = Inr (i, seek_bit 1 r)"
    using fixed_ok [OF e(1) r(2,1)] assms r by auto
  obtain w where w: "parse_field (BitsType 4) (VObj ''Glonass'' [(''idle_chip'', i)]) (seek_bit 1 r) = Inr (w, seek_bit 5 r)"
    "typed (BitsType 4) w"
    using fixed_ok [OF e(2), of "seek_bit 1 r"] rd_ok_seek [of 1 r] assms r by auto
  obtain k where k: "py_num w = Some k"
    using typed_bits_num [OF w(2)] by blast
  let ?obj = "VObj ''Glonass'' [(''idle_chip'', i), (''string_number'', w)]" and ?r = "seek_bit 5 r"
  have r5: "rd_ok ?r" "bit_position ?r = 5" "length (rd_data ?r) = 16"
    using rd_ok_seek [of 5 r] assms r by simp_all
  let ?cases = "[(1, Glonass_String1), (2, Glonass_String2), (3, Glonass_String3), (4, Glonass_String4),
      (5, Glonass_String5)] :: (int \<times> FieldType) list"
  have sub: "\<exists>bd. parse_field ft ?obj ?r = Inr (bd, seek_bit 77 r) \<and> is_class cls bd"
    if "fixed_end ft 5 = Some 77" "\<exists>fs. ft = Struct cls fs" for ft cls
  proof -
    note ft = that
    obtain v where v: "parse_field ft ?obj ?r = Inr (v, seek_bit 77 ?r)"
      using fixed_ok [OF ft(1) r5(2,1)] r5(3) by auto
    then show ?thesis
      using ft(2) parse_Struct_class by fastforce
  qed
  have "\<exists>bd. parse_case ?cases (Some Glonass_StringNonImmediate) (Some k) ?obj ?r = Inr (bd, seek_bit 77 r)
      \<and> is_class (glonass_class k) bd"
    using sub [OF glonass_ends(1), of "''Glonass.String1''"] sub [OF glonass_ends(2), of "''Glonass.String2''"]
      sub [OF glonass_ends(3), of "''Glonass.String3''"] sub [OF glonass_ends(4), of "''Glonass.String4''"]
      sub [OF glonass_ends(5), of "''Glonass.String5''"] sub [OF glonass_ends(6), of "''Glonass.StringNonImmediate''"]
    by (simp add: glonass_class_def Glonass_String1_def Glonass_String2_def Glonass_String3_def Glonass_String4_def
        Glonass_String5_def Glonass_StringNonImmediate_def del: parse_field.simps)
  then obtain bd where bd: "parse_case ?cases (Some Glonass_StringNonImmediate) (Some k) ?obj ?r = Inr (bd, seek_bit 77 r)"
    "is_class (glonass_class k) bd"
    by blast
  have "resolve_path ?obj ''string_number'' = Inr w"
    by (simp add: resolve_path_def get_attr_def)
  then have body: "parse_field (SwitchType ''string_number'' ?cases (Some Glonass_StringNonImmediate)) ?obj ?r = Inr (bd, seek_bit 77 r)"
    using bd(1) py_num_key [OF k] by (simp only: parse_field.simps bindE_simps)
  let ?rest = "[(''hamming_code'', BitsType 8), (''pad_1'', BitsType 11), (''superframe_number'', BitsType 16),
      (''pad_2'', BitsType 8), (''frame_number'', BitsType 8)]" and ?done = "[(''idle_chip'', i), (''string_number'', w), (''data'', bd)]"
  obtain v where v: "parse_fields ''Glonass'' ?rest ?done (seek_bit 77 r) = Inr (v, seek_bit 128 r)"
    using fixed_parse(2) [OF glonass_ends(7), of "seek_bit 77 r" "''Glonass''" ?done] rd_ok_seek [of 77 r] assms r by auto
  obtain vs where vs: "v = VObj ''Glonass'' (?done @ vs)"
    using parse_sound(2) [OF _ v] rd_ok_seek [of 77 r] assms r by auto
  have "from_bytes Glonass b = Inr v"
    using i w(1) body v unfolding from_bytes_def Glonass_def parse_field.simps(10) r_def [symmetric]
    by (simp del: parse_field.simps parse_case.simps)
  moreover have "num v ''string_number'' = k" "attr v ''data'' = bd"
    using k by (simp_all add: num_def vs)
  ultimately show ?thesis
    using bd(2) by auto
qed

section \<open>The caches\<close>

text \<open>Everything cached was parsed once and is filed under its own number.\<close>

definition gps_cache_ok :: "(int \<times> byte list) list \<Rightarrow> bool" where
  "gps_cache_ok d \<longleftrightarrow>
     distinct (map fst d) \<and> fst ` set d \<subseteq> {1..3}
     \<and> (\<forall>(i, b)\<in>set d. length b = 30 \<and> b ! 0 = 0x8b
          \<and> (\<exists>v. from_bytes Gps b = Inr v \<and> num (attr v ''how'') ''subframe_id'' = i \<and> gps_body_ok i (attr v ''body'')))"

definition glonass_cache_ok :: "(int \<times> byte list) list \<Rightarrow> bool" where
  "glonass_cache_ok d \<longleftrightarrow>
     distinct (map fst d) \<and> fst ` set d \<subseteq> {1..5}
     \<and> (\<forall>(i, b)\<in>set d. \<exists>v. from_bytes Glonass b = Inr v \<and> is_class (glonass_class i) (attr v ''data''))"

definition caches_ok :: "Caches \<Rightarrow> bool" where
  "caches_ok c \<longleftrightarrow> (\<forall>sv. gps_cache_ok (gps_subframes c sv)) \<and> (\<forall>f. glonass_cache_ok (glonass_strings c f))"

lemma caches_ok_new: "caches_ok no_Caches"
  by (simp add: caches_ok_def no_Caches_def gps_cache_ok_def glonass_cache_ok_def)

lemma set_dict_set: "x \<in> set (dict_set k v d) \<Longrightarrow> x = (k, v) \<or> x \<in> set d"
  by (induction d) (auto split: if_splits)

lemma full_dict:
  assumes "distinct (map fst d)" "fst ` set d \<subseteq> A" "finite A" "card A \<le> length d" "i \<in> A"
  shows "\<exists>b. map_of d i = Some b \<and> (i, b) \<in> set d"
proof -
  have "card (fst ` set d) = length d"
    using assms(1) by (metis distinct_card length_map set_map)
  then have "fst ` set d = A"
    using assms(2-4) by (intro card_seteq) simp_all
  then obtain b where "(i, b) \<in> set d"
    using assms(5) by force
  then show ?thesis
    using map_of_is_SomeI [OF assms(1)] by blast
qed

lemma length_word_bytes: "length (concat (map word_bytes ws)) = 3 * length ws"
  by (induction ws) (simp_all add: word_bytes_def Let_def)

lemma length_string_bytes: "length (concat (map string_bytes ws)) = 4 * length ws"
  by (induction ws) (simp_all add: string_bytes_def)

lemma gps_store_ok:
  assumes "gps_cache_ok d" "length b = 30" "b ! 0 = 0x8b" "from_bytes Gps b = Inr v" "num (attr v ''how'') ''subframe_id'' = i"
    "1 \<le> i" "i \<le> 3"
  shows "gps_cache_ok (dict_set i b d)"
proof -
  have "gps_body_ok i (attr v ''body'')"
    using gps_parse(2) [OF assms(2,3)] assms(4,5) by auto
  then have new: "length b = 30 \<and> b ! 0 = 0x8b
      \<and> (\<exists>v. from_bytes Gps b = Inr v \<and> num (attr v ''how'') ''subframe_id'' = i \<and> gps_body_ok i (attr v ''body''))"
    using assms(2-5) by blast
  show ?thesis
    unfolding gps_cache_ok_def
  proof (intro conjI ballI)
    show "distinct (map fst (dict_set i b d))"
      using assms(1) by (intro distinct_dict_set) (simp add: gps_cache_ok_def)
    show "fst ` set (dict_set i b d) \<subseteq> {1..3}"
      using assms(1,6,7) by (simp add: gps_cache_ok_def)
    fix x assume "x \<in> set (dict_set i b d)"
    then show "case x of (i, b) \<Rightarrow> length b = 30 \<and> b ! 0 = 0x8b
      \<and> (\<exists>v. from_bytes Gps b = Inr v \<and> num (attr v ''how'') ''subframe_id'' = i \<and> gps_body_ok i (attr v ''body''))"
      using set_dict_set [of x i b d] new assms(1) by (auto simp: gps_cache_ok_def)
  qed
qed

lemma gps_complete_full:
  assumes "gps_cache_ok (gps_subframes c sv)" "length (gps_subframes c sv) = 3"
  shows "\<exists>b1 b2 b3 sf1 sf2 sf3. map_of (gps_subframes c sv) 1 = Some b1 \<and> map_of (gps_subframes c sv) 2 = Some b2
    \<and> map_of (gps_subframes c sv) 3 = Some b3
    \<and> from_bytes Gps b1 = Inr sf1 \<and> from_bytes Gps b2 = Inr sf2 \<and> from_bytes Gps b3 = Inr sf3
    \<and> gps_complete sv c = (c\<lparr>gps_subframes := (gps_subframes c)(sv := [])\<rparr>,
        if num (attr sf1 ''body'') ''iodc_lsb'' = num (attr sf2 ''body'') ''iode''
           \<and> num (attr sf2 ''body'') ''iode'' = num (attr sf3 ''body'') ''iode''
        then Sent ''ubloxGnss'' [(''ephemeris'', MRec (gps_message sv sf1 sf2 sf3))] else Nothing)"
proof -
  have "\<exists>b v. map_of (gps_subframes c sv) i = Some b \<and> from_bytes Gps b = Inr v \<and> gps_body_ok i (attr v ''body'')"
    if "i \<in> {1..3}" for i
    using full_dict [of "gps_subframes c sv" "{1..3}" i] assms that unfolding gps_cache_ok_def by fastforce
  from this [of 1] this [of 2] this [of 3] show ?thesis
    by (auto simp: gps_complete_def gps_body_ok_def)
qed

lemma glonass_store_ok:
  assumes "glonass_cache_ok d" "from_bytes Glonass b = Inr v" "is_class (glonass_class i) (attr v ''data'')" "1 \<le> i" "i \<le> 5"
  shows "glonass_cache_ok (dict_set i b d)"
  unfolding glonass_cache_ok_def
proof (intro conjI ballI)
  show "distinct (map fst (dict_set i b d))"
    using assms(1) by (intro distinct_dict_set) (simp add: glonass_cache_ok_def)
  show "fst ` set (dict_set i b d) \<subseteq> {1..5}"
    using assms(1,4,5) by (simp add: glonass_cache_ok_def)
  fix x assume "x \<in> set (dict_set i b d)"
  then show "case x of (i, b) \<Rightarrow> \<exists>v. from_bytes Glonass b = Inr v \<and> is_class (glonass_class i) (attr v ''data'')"
    using set_dict_set [of x i b d] assms(1-3) by (auto simp: glonass_cache_ok_def)
qed

lemma glonass_complete_full:
  assumes "glonass_cache_ok (glonass_strings c f)" "length (glonass_strings c f) = 5"
  shows "\<exists>m. glonass_complete sv f c = (c\<lparr>glonass_strings := (glonass_strings c)(f := [])\<rparr>,
    Sent ''ubloxGnss'' [(''glonassEphemeris'', MRec m)])"
proof -
  have "\<exists>b v. map_of (glonass_strings c f) i = Some b \<and> from_bytes Glonass b = Inr v \<and> is_class (glonass_class i) (attr v ''data'')"
    if "i \<in> {1..5}" for i
    using full_dict [of "glonass_strings c f" "{1..5}" i] assms that unfolding glonass_cache_ok_def by fastforce
  from this [of 1] this [of 2] this [of 3] this [of 4] this [of 5] show ?thesis
    by (auto simp: glonass_complete_def glonass_class_def)
qed

text \<open>What a GPS subframe of ten words does, and what a GLONASS string of four words does.\<close>

lemma gps_step:
  assumes "caches_ok c" "parse_gps_ephemeris sv body c = (c', out)"
  shows "caches_ok c'" "out = Raised \<Longrightarrow> length body = 10 \<and> concat (map word_bytes body) ! 0 \<noteq> 0x8b"
proof -
  define data where "data = concat (map word_bytes body)"
  have "caches_ok c' \<and> (out = Raised \<longrightarrow> length body = 10 \<and> data ! 0 \<noteq> 0x8b)"
  proof (cases "length body = 10 \<and> data ! 0 = 0x8b")
    case False
    show ?thesis
    proof (cases "length body = 10")
      case True
      then have "from_bytes Gps data = Inl ValueError"
        using False by (intro gps_parse(1)) (simp_all add: data_def length_word_bytes)
      then show ?thesis
        using True False assms by (auto simp: parse_gps_ephemeris_def Let_def simp flip: data_def)
    next
      case no: False
      then show ?thesis
        using assms by (simp add: parse_gps_ephemeris_def)
    qed
  next
    case True
    then have l: "length data = 30"
      by (simp add: data_def length_word_bytes)
    obtain v where v: "from_bytes Gps data = Inr v"
      using gps_parse(2) [OF l] True by blast
    define i where "i = num (attr v ''how'') ''subframe_id''"
    define d where "d = dict_set i data (gps_subframes c sv)"
    define c1 where "c1 = c\<lparr>gps_subframes := (gps_subframes c)(sv := d)\<rparr>"
    have p: "parse_gps_ephemeris sv body c =
        (if i < 1 \<or> i > 3 then (c, Nothing) else if length d \<noteq> 3 then (c1, Nothing) else gps_complete sv c1)"
      using True v by (simp add: parse_gps_ephemeris_def Let_def i_def d_def c1_def flip: data_def)
    show ?thesis
    proof (cases "i < 1 \<or> i > 3")
      case True
      then show ?thesis using p assms by auto
    next
      case i: False
      have d: "gps_cache_ok d"
        unfolding d_def using gps_store_ok [OF _ l _ v, of "gps_subframes c sv" i] assms(1) True i
        by (simp add: caches_ok_def i_def)
      then have c1: "caches_ok c1"
        using assms(1) by (simp add: caches_ok_def c1_def)
      have "gps_cache_ok (gps_subframes c1 sv)"
        using d by (simp add: c1_def)
      moreover have "caches_ok (c1\<lparr>gps_subframes := (gps_subframes c1)(sv := [])\<rparr>)"
        using c1 by (simp add: caches_ok_def gps_cache_ok_def)
      ultimately show ?thesis
        using p i assms(2) c1 gps_complete_full [of c1 sv] by (auto simp: c1_def split: if_splits)
    qed
  qed
  then show "caches_ok c'" "out = Raised \<Longrightarrow> length body = 10 \<and> concat (map word_bytes body) ! 0 \<noteq> 0x8b"
    by (simp_all add: data_def)
qed

lemma glonass_step:
  assumes "caches_ok c" "parse_glonass_ephemeris now sv f body c = (c', out)"
  shows "caches_ok c' \<and> out \<noteq> Raised"
proof (cases "length body = 4")
  case False
  then show ?thesis using assms by (simp add: parse_glonass_ephemeris_def)
next
  case True
  define data where "data = concat (map string_bytes body)"
  have "length data = 16"
    using True by (simp add: data_def length_string_bytes)
  then obtain v where v: "from_bytes Glonass data = Inr v" "is_class (glonass_class (num v ''string_number'')) (attr v ''data'')"
    using glonass_parse by blast
  define i where "i = num v ''string_number''"
  define c1 where "c1 = (if glonass_check now f i (num v ''superframe_number'') c then glonass_clear f c else c)"
  define c2 where "c2 = glonass_store now f i (num v ''superframe_number'') data c1"
  have p: "parse_glonass_ephemeris now sv f body c =
      (if i < 1 \<or> i > 5 \<or> flag v ''idle_chip'' then (c, Nothing)
       else if sv = 255 \<or> length (glonass_strings c2 f) \<noteq> 5 then (c2, Nothing) else glonass_complete sv f c2)"
    using True v(1) by (simp add: parse_glonass_ephemeris_def Let_def i_def c1_def c2_def flip: data_def)
  show ?thesis
  proof (cases "i < 1 \<or> i > 5 \<or> flag v ''idle_chip''")
    case True
    then show ?thesis using p assms by auto
  next
    case i: False
    have c1: "caches_ok c1"
      using assms(1) by (auto simp: c1_def caches_ok_def glonass_clear_def glonass_cache_ok_def)
    then have c2: "caches_ok c2"
      using glonass_store_ok [of "glonass_strings c1 f" data v i] v i
      by (auto simp: caches_ok_def c2_def glonass_store_def i_def)
    moreover have "caches_ok (c2\<lparr>glonass_strings := (glonass_strings c2)(f := [])\<rparr>)"
      using c2 by (simp add: caches_ok_def glonass_cache_ok_def)
    ultimately show ?thesis
      using p i assms(2) glonass_complete_full [of c2 f sv] by (auto simp: caches_ok_def split: if_splits)
  qed
qed

lemma navigation_ok:
  assumes "caches_ok c"
  shows "caches_ok (fst (parse_gps_ephemeris sv body c))" "caches_ok (fst (parse_glonass_ephemeris now sv f body c))"
  using gps_step(1) [OF assms prod.collapse [symmetric]] glonass_step [OF assms prod.collapse [symmetric]] by simp_all

lemma parse_payload_ok: "caches_ok c \<Longrightarrow> caches_ok (fst (parse_payload now mt payload c))"
  by (simp add: parse_payload_def with_body_def parse_sfrbx_def Let_def navigation_ok)

lemma parse_frame_ok: "caches_ok (caches p) \<Longrightarrow> parse_frame f p = (p', out) \<Longrightarrow> caches_ok (caches p')"
  using parse_payload_ok by (auto simp: parse_frame_def Let_def case_prod_beta)

lemma parse_frames_ok: "caches_ok (caches p) \<Longrightarrow> parse_frames fs p = (msgs, p') \<Longrightarrow> caches_ok (caches p')"
proof (induction fs arbitrary: p msgs)
  case (Cons f fs)
  obtain q out where q: "parse_frame f p = (q, out)" by fastforce
  obtain ms p2 where "parse_frames fs q = (ms, p2)" by fastforce
  then show ?case
    using Cons.IH [OF parse_frame_ok [OF Cons.prems(1) q]] Cons.prems(2) q by simp
qed simp

lemma ubloxd_run_ok: "caches_ok (caches p) \<Longrightarrow> ubloxd_run ins p = (msgs, p') \<Longrightarrow> caches_ok (caches p')"
proof (induction ins arbitrary: p msgs)
  case (Cons x ins)
  obtain t data where x: "x = (t, data)" by (cases x)
  obtain frames fr where a: "add_data t data (framer p) = (frames, fr)" by fastforce
  obtain ms q where q: "parse_frames frames (p\<lparr>framer := fr\<rparr>) = (ms, q)" by fastforce
  have "caches_ok (caches q)"
    using parse_frames_ok [OF _ q] Cons.prems(1) by simp
  then show ?case
    using Cons.IH [of q] Cons.prems(2) a q by (auto simp: x ubloxd_round_def split: prod.splits)
qed simp

lemma gps_cache_subframe:
  assumes "gps_cache_ok d" "map_of d i = Some b" "from_bytes Gps b = Inr v"
  shows "num (attr v ''how'') ''subframe_id'' = i"
  using assms map_of_SomeD [of d i b] by (fastforce simp: gps_cache_ok_def)

lemma gps_sent:
  assumes "caches_ok c" "parse_gps_ephemeris sv body c = (c', Sent service m)"
  shows "service = ''ubloxGnss'' \<and> gps_subframes c' sv = [] \<and> (\<exists>b1 b2 b3 sf1 sf2 sf3.
    {b1, b2, b3} \<subseteq> {concat (map word_bytes body)} \<union> snd ` set (gps_subframes c sv)
    \<and> from_bytes Gps b1 = Inr sf1 \<and> from_bytes Gps b2 = Inr sf2 \<and> from_bytes Gps b3 = Inr sf3
    \<and> num (attr sf1 ''how'') ''subframe_id'' = 1 \<and> num (attr sf2 ''how'') ''subframe_id'' = 2
    \<and> num (attr sf3 ''how'') ''subframe_id'' = 3
    \<and> num (attr sf1 ''body'') ''iodc_lsb'' = num (attr sf2 ''body'') ''iode''
    \<and> num (attr sf2 ''body'') ''iode'' = num (attr sf3 ''body'') ''iode''
    \<and> m = [(''ephemeris'', MRec (gps_message sv sf1 sf2 sf3))])"
proof -
  define data where "data = concat (map word_bytes body)"
  have l: "length data = 30"
    using assms(2) by (auto simp: data_def length_word_bytes parse_gps_ephemeris_def split: if_splits)
  obtain v where v: "from_bytes Gps data = Inr v"
    using assms(2) by (auto simp: parse_gps_ephemeris_def Let_def split: if_splits sum.splits simp flip: data_def)
  have pre: "data ! 0 = 0x8b"
    using gps_parse(1) [OF l] v by fastforce
  define i where "i = num (attr v ''how'') ''subframe_id''"
  define d where "d = dict_set i data (gps_subframes c sv)"
  define c1 where "c1 = c\<lparr>gps_subframes := (gps_subframes c)(sv := d)\<rparr>"
  have i: "1 \<le> i" "i \<le> 3" "length d = 3" "gps_complete sv c1 = (c', Sent service m)"
    using assms(2) v by (auto simp: parse_gps_ephemeris_def Let_def i_def d_def c1_def split: if_splits simp flip: data_def)
  have d: "gps_cache_ok d"
    unfolding d_def using gps_store_ok [OF _ l pre v, of "gps_subframes c sv" i] assms(1) i
    by (simp add: caches_ok_def i_def)
  have c1: "gps_subframes c1 sv = d"
    by (simp add: c1_def)
  from gps_complete_full [of c1 sv, unfolded c1, OF d i(3)]
  obtain b1 b2 b3 sf1 sf2 sf3 where b: "map_of d 1 = Some b1" "map_of d 2 = Some b2" "map_of d 3 = Some b3"
    "from_bytes Gps b1 = Inr sf1" "from_bytes Gps b2 = Inr sf2" "from_bytes Gps b3 = Inr sf3"
    and e: "gps_complete sv c1 = (c1\<lparr>gps_subframes := (gps_subframes c1)(sv := [])\<rparr>,
        if num (attr sf1 ''body'') ''iodc_lsb'' = num (attr sf2 ''body'') ''iode''
           \<and> num (attr sf2 ''body'') ''iode'' = num (attr sf3 ''body'') ''iode''
        then Sent ''ubloxGnss'' [(''ephemeris'', MRec (gps_message sv sf1 sf2 sf3))] else Nothing)"
    by blast
  have "snd ` set d \<subseteq> {data} \<union> snd ` set (gps_subframes c sv)"
    using set_dict_set [of _ i data "gps_subframes c sv"] by (force simp: d_def)
  moreover have "{b1, b2, b3} \<subseteq> snd ` set d"
    using map_of_SomeD [OF b(1)] map_of_SomeD [OF b(2)] map_of_SomeD [OF b(3)] by force
  ultimately have sub: "{b1, b2, b3} \<subseteq> {data} \<union> snd ` set (gps_subframes c sv)"
    by (rule order_trans [rotated])
  have sent: "num (attr sf1 ''body'') ''iodc_lsb'' = num (attr sf2 ''body'') ''iode''"
    "num (attr sf2 ''body'') ''iode'' = num (attr sf3 ''body'') ''iode''" "service = ''ubloxGnss''"
    "m = [(''ephemeris'', MRec (gps_message sv sf1 sf2 sf3))]" "c' = c1\<lparr>gps_subframes := (gps_subframes c1)(sv := [])\<rparr>"
    using e unfolding i(4) by (simp_all split: if_splits)
  have "service = ''ubloxGnss'' \<and> gps_subframes c' sv = []"
    using sent(3,5) by simp
  moreover note sub b(4-6) gps_cache_subframe [OF d b(1,4)] gps_cache_subframe [OF d b(2,5)]
    gps_cache_subframe [OF d b(3,6)] sent(1,2,4)
  ultimately show ?thesis
    unfolding data_def by blast
qed

section \<open>Properties\<close>

text \<open>C31 (error). After any run of the loop, a navigation message raises only when its satellite system is unknown, or when it
  is a GPS subframe of ten words whose first byte is not the preamble. In particular no GLONASS string raises, and
  the assertions on the classes of cached subframes and strings hold.\<close>

theorem navigation_raises_only:
  assumes "ubloxd_run ins new_UbloxMsgParser = (msgs, p)" "parse_sfrbx now payload (caches p) = (c', Raised)"
  shows "uint (payload ! 0) \<notin> {0..6}
    \<or> uint (payload ! 0) = 0 \<and> length (words_of (drop 8 payload)) = 10
      \<and> concat (map word_bytes (words_of (drop 8 payload))) ! 0 \<noteq> 0x8b"
proof -
  have ok: "caches_ok (caches p)"
    using ubloxd_run_ok [OF _ assms(1)] by (simp add: new_UbloxMsgParser_def caches_ok_new)
  have "set GnssType = {0..6}"
    by (auto simp: GnssType_def)
  then show ?thesis
    using assms(2) gps_step(2) [OF ok] glonass_step [OF ok]
    by (fastforce simp: parse_sfrbx_def Let_def split: if_splits)
qed

text \<open>A published GPS ephemeris is made of subframes 1, 2 and 3 of one satellite that carry the same issue of data:
  the new one and those cached before. The satellite's cache is empty afterwards, so no subframe is used twice.\<close>

theorem ephemeris_is_consistent:
  assumes "ubloxd_run ins new_UbloxMsgParser = (msgs, p)"
    "parse_gps_ephemeris sv body (caches p) = (c', Sent service m)"
  shows "service = ''ubloxGnss'' \<and> gps_subframes c' sv = [] \<and> (\<exists>b1 b2 b3 sf1 sf2 sf3.
    {b1, b2, b3} \<subseteq> {concat (map word_bytes body)} \<union> snd ` set (gps_subframes (caches p) sv)
    \<and> from_bytes Gps b1 = Inr sf1 \<and> from_bytes Gps b2 = Inr sf2 \<and> from_bytes Gps b3 = Inr sf3
    \<and> num (attr sf1 ''how'') ''subframe_id'' = 1 \<and> num (attr sf2 ''how'') ''subframe_id'' = 2
    \<and> num (attr sf3 ''how'') ''subframe_id'' = 3
    \<and> num (attr sf1 ''body'') ''iodc_lsb'' = num (attr sf2 ''body'') ''iode''
    \<and> num (attr sf2 ''body'') ''iode'' = num (attr sf3 ''body'') ''iode''
    \<and> m = [(''ephemeris'', MRec (gps_message sv sf1 sf2 sf3))])"
  by (rule gps_sent [OF _ assms(2)])
    (use ubloxd_run_ok [OF _ assms(1)] in \<open>simp add: new_UbloxMsgParser_def caches_ok_new\<close>)

lemma collect_None: "v \<in> set vs \<Longrightarrow> f v = None \<Longrightarrow> collect f vs = None"
  by (induction vs) (auto split: option.split)

text \<open>C38 (functional). One satellite of an unknown system makes the whole report disappear: the schema keeps its number as a plain
  integer, whose attribute \<open>value\<close> does not exist, so the report of all satellites raises and is dropped.\<close>

theorem unknown_system_drops_report:
  assumes "from_bytes Ubx_NavSat payload = Inr v" "s \<in> set (items (attr v ''svs''))" "attr s ''gnss_id'' = VInt n"
  shows "parse_payload now 0x0135 payload c = (c, Raised)"
  using collect_None [OF assms(2), of nav_sat_sv] assms(1,3)
  by (simp add: parse_payload_def with_body_def gen_nav_sat_def nav_sat_sv_def enum_value_def)

text \<open>The clock correction of GPS subframe 1 is read in two's complement of its 22 bits, as the interface
  specification defines it, not as sign and magnitude as the comment in the source says.\<close>

theorem gps_correction_is_twos_complement:
  assumes "from_bytes Gps_Subframe1 data = Inr s"
  shows "gps_af_0 s = (let n = of_bool (flag s ''af_0_sign'') * 2 ^ 21 + num s ''af_0_value'' in if n \<ge> 2 ^ 21 then n - 2 ^ 22 else n)
    \<and> - (2 ^ 21) \<le> gps_af_0 s \<and> gps_af_0 s < 2 ^ 21"
proof -
  have "\<exists>w. get_attr ''af_0_value'' s = Inr w \<and> typed (BitsType 21) w"
    by (rule typed_attr [OF from_bytes_typed [OF assms, unfolded Gps_Subframe1_def]]) simp
  then have "0 \<le> num s ''af_0_value'' \<and> num s ''af_0_value'' < 2 ^ 21"
    by (auto simp: num_def attr_def py_num_def elim!: typed.cases)
  then show ?thesis
    by (simp add: gps_af_0_def Let_def)
qed

section \<open>Witnesses\<close>

lemmas read_simps = from_bytes_def new_BinaryReader_def read_bits_int_be_def read_bits_loop.simps mask_eq_exp_minus_1 Let_def
  read_bytes_def align_to_byte_def require_def int_size_def unpack_int_def py_eq_def py_num_def resolve_path_def
  switch_key_def get_attr_def drop_bit_eq_div

text \<open>One frame at a time through the framer and the parser.\<close>

lemma add_frame:
  assumes "length payload < 65536" "buf fr = []"
  shows "add_data t (ubx_frame cls ident payload) fr = ([ubx_frame cls ident payload], fr\<lparr>last_log_time := t\<rparr>)"
proof -
  have "ubx_frame cls ident payload \<noteq> []"
    by (simp add: ubx_frame_def Let_def case_prod_beta)
  then show ?thesis
    using frame_loop_frame [OF valid_ubx_frame [OF assms(1)], of cls ident "[]"] frame_loop.simps [of "[]"] assms(2)
    by (cases fr) (simp add: add_data_def)
qed

lemma parse_ubx_frame:
  "parse_frame (ubx_frame cls ident payload) p =
    (let (c, out) = parse_payload (last_log_time (framer p)) (256 * unat cls + unat ident) payload (caches p)
     in (p\<lparr>caches := c\<rparr>, out))"
  by (simp add: parse_frame_def ubx_frame_def Let_def case_prod_beta)

lemma ubloxd_round_frame:
  assumes "length payload < 65536" "buf (framer p) = []"
  shows "ubloxd_round t (ubx_frame 2 0x13 payload) p =
    (case parse_sfrbx t payload (caches p) of (c, out) \<Rightarrow>
      (case out of Sent service dat \<Rightarrow> [(service, dat)] | _ \<Rightarrow> [], p\<lparr>framer := (framer p)\<lparr>last_log_time := t\<rparr>, caches := c\<rparr>))"
  by (cases "parse_sfrbx t payload (caches p)")
    (simp add: ubloxd_round_def add_frame [OF assms] parse_ubx_frame parse_payload_def)

text \<open>Three subframes of satellite 5 with the issue of data 42.\<close>

definition gps_words :: "int \<Rightarrow> nat list" where
  "gps_words i = 0x22C00000 # 256 * nat i #
     (if i = 1 then [0, 0, 0, 0, 0, 0x0A800000, 0, 0] else if i = 2 then [0x0A800000, 0, 0, 0, 0, 0, 0, 0]
      else [0, 0, 0, 0, 0, 0, 0, 0x0A800000])"

definition gps_payload :: "int \<Rightarrow> byte list" where
  "gps_payload i = [0, 5, 0, 0, 10, 0, 0, 0] @ concat (map (\<lambda>w. map (\<lambda>k. of_nat (w div 256 ^ k)) [0, 1, 2, 3]) (gps_words i))"

definition gps_bytes :: "int \<Rightarrow> byte list" where
  "gps_bytes i = concat (map word_bytes (gps_words i))"

lemma gps_bytes_eq:
  "gps_bytes 1 = [0x8b, 0, 0, 0, 0, 4, 0, 0, 0, 0, 0, 0, 0, 0, 0, 0, 0, 0, 0, 0, 0, 42, 0, 0, 0, 0, 0, 0, 0, 0]"
  "gps_bytes 2 = [0x8b, 0, 0, 0, 0, 8, 42, 0, 0, 0, 0, 0, 0, 0, 0, 0, 0, 0, 0, 0, 0, 0, 0, 0, 0, 0, 0, 0, 0, 0]"
  "gps_bytes 3 = [0x8b, 0, 0, 0, 0, 12, 0, 0, 0, 0, 0, 0, 0, 0, 0, 0, 0, 0, 0, 0, 0, 0, 0, 0, 0, 0, 0, 42, 0, 0]"
  by (simp_all add: gps_bytes_def gps_words_def word_bytes_def)

lemma gps_payload_words: "words_of (drop 8 (gps_payload i)) = gps_words i" if "i \<in> {1, 2, 3}"
  using that by (auto simp: gps_payload_def gps_words_def)


lemma gps_subframe:
  "\<exists>v. from_bytes Gps (gps_bytes 1) = Inr v \<and> num (attr v ''how'') ''subframe_id'' = 1
    \<and> is_class ''Gps.Subframe1'' (attr v ''body'') \<and> num (attr v ''body'') ''iodc_lsb'' = 42"
  "\<exists>v. from_bytes Gps (gps_bytes 2) = Inr v \<and> num (attr v ''how'') ''subframe_id'' = 2
    \<and> is_class ''Gps.Subframe2'' (attr v ''body'') \<and> num (attr v ''body'') ''iode'' = 42"
  "\<exists>v. from_bytes Gps (gps_bytes 3) = Inr v \<and> num (attr v ''how'') ''subframe_id'' = 3
    \<and> is_class ''Gps.Subframe3'' (attr v ''body'') \<and> num (attr v ''body'') ''iode'' = 42"
  unfolding gps_bytes_eq by (simp_all add: schema_defs Gps_def read_simps num_def)

definition subframe_inputs :: "(rat \<times> byte list) list" where
  "subframe_inputs = [(1, ubx_frame 2 0x13 (gps_payload 1)), (2, ubx_frame 2 0x13 (gps_payload 2))]"

definition two_subframes :: Caches where
  "two_subframes = no_Caches\<lparr>gps_subframes := (\<lambda>_. [])(5 := [(1, gps_bytes 1), (2, gps_bytes 2)])\<rparr>"

lemma length_gps_payload: "i \<in> {1, 2, 3} \<Longrightarrow> length (gps_payload i) = 48"
  by (auto simp: gps_payload_def gps_words_def)

lemma gps_payload_head:
  "gps_payload i ! 0 = 0" "gps_payload i ! Suc 0 = 5" "gps_payload i ! 3 = 0" "gps_payload i ! 4 = 10"
  by (simp_all add: gps_payload_def)

lemma parse_gps_payload:
  "i \<in> {1, 2, 3} \<Longrightarrow> parse_sfrbx now (gps_payload i) c = parse_gps_ephemeris 5 (gps_words i) c"
  by (simp add: parse_sfrbx_def length_gps_payload gps_payload_head gps_payload_words GnssType_def Let_def)

lemma length_gps_words [simp]: "length (gps_words i) = 10"
  by (simp add: gps_words_def)

lemma parse_gps_first:
  "parse_gps_ephemeris 5 (gps_words 1) no_Caches = (no_Caches\<lparr>gps_subframes := (\<lambda>_. [])(5 := [(1, gps_bytes 1)])\<rparr>, Nothing)"
  "parse_gps_ephemeris 5 (gps_words 2) (no_Caches\<lparr>gps_subframes := (\<lambda>_. [])(5 := [(1, gps_bytes 1)])\<rparr>) = (two_subframes, Nothing)"
  using gps_subframe(1,2)
  by (auto simp: parse_gps_ephemeris_def two_subframes_def Let_def no_Caches_def gps_bytes_def length_gps_words)

lemma run_two_subframes:
  "\<exists>p. ubloxd_run subframe_inputs new_UbloxMsgParser = ([], p) \<and> caches p = two_subframes"
  by (simp add: subframe_inputs_def ubloxd_round_frame length_gps_payload parse_gps_payload new_UbloxMsgParser_def
      new_UbxFramer_def parse_gps_first)

lemma parse_gps_third:
  "\<exists>c' m. parse_gps_ephemeris 5 (gps_words 3) two_subframes = (c', Sent ''ubloxGnss'' m)"
proof -
  obtain v1 v2 v3 where "from_bytes Gps (gps_bytes 1) = Inr v1" "from_bytes Gps (gps_bytes 2) = Inr v2"
    "from_bytes Gps (gps_bytes 3) = Inr v3" "is_class ''Gps.Subframe1'' (attr v1 ''body'')"
    "is_class ''Gps.Subframe2'' (attr v2 ''body'')" "is_class ''Gps.Subframe3'' (attr v3 ''body'')"
    "num (attr v3 ''how'') ''subframe_id'' = 3" "num (attr v1 ''body'') ''iodc_lsb'' = 42"
    "num (attr v2 ''body'') ''iode'' = 42" "num (attr v3 ''body'') ''iode'' = 42"
    using gps_subframe by blast
  moreover have "concat (map word_bytes (gps_words 3)) = gps_bytes 3"
    by (simp add: gps_bytes_def)
  ultimately show ?thesis
    by (simp add: parse_gps_ephemeris_def two_subframes_def Let_def gps_complete_def no_Caches_def)
qed

theorem ephemeris_is_consistent_witness:
  "\<exists>p c' m. ubloxd_run subframe_inputs new_UbloxMsgParser = ([], p)
    \<and> parse_gps_ephemeris 5 (gps_words 3) (caches p) = (c', Sent ''ubloxGnss'' m) \<and> gps_subframes c' 5 = []"
proof -
  obtain p where p: "ubloxd_run subframe_inputs new_UbloxMsgParser = ([], p)" "caches p = two_subframes"
    using run_two_subframes by blast
  obtain c' m where m: "parse_gps_ephemeris 5 (gps_words 3) (caches p) = (c', Sent ''ubloxGnss'' m)"
    using parse_gps_third p(2) by auto
  show ?thesis
    using p(1) m ephemeris_is_consistent [OF p(1) m] by blast
qed

text \<open>A message of a satellite system with number 7.\<close>

theorem navigation_raises_only_witness:
  "uint ([7, 0, 0, 0, 0, 0, 0, 0] ! 0 :: byte) \<notin> {0..6}"
proof -
  have "ubloxd_run [] new_UbloxMsgParser = ([], new_UbloxMsgParser)"
    by simp
  moreover have "parse_sfrbx 0 [7, 0, 0, 0, 0, 0, 0, 0] (caches new_UbloxMsgParser) = (caches new_UbloxMsgParser, Raised)"
    by (simp add: parse_sfrbx_def GnssType_def)
  ultimately show ?thesis
    using navigation_raises_only by fastforce
qed

text \<open>A satellite report with a single satellite, of system 7.\<close>

definition sat_report :: "byte list" where
  "sat_report = [0, 0, 0, 0, 1, 1, 0, 0] @ [7, 3, 40, 0, 0, 0, 0, 0, 0, 0, 0, 0]"

lemma sat_report_parse:
  "\<exists>v s. from_bytes Ubx_NavSat sat_report = Inr v \<and> s \<in> set (items (attr v ''svs'')) \<and> attr s ''gnss_id'' = VInt 7"
  by (simp add: Ubx_NavSat_def Ubx_Nav_def GnssType_def int_types sat_report_def read_simps to_count_def items_def)

theorem unknown_system_drops_report_witness:
  "parse_payload 0 0x0135 sat_report no_Caches = (no_Caches, Raised)"
  using sat_report_parse unknown_system_drops_report by blast

theorem gps_correction_is_twos_complement_witness:
  "\<exists>s. from_bytes Gps_Subframe1 (replicate 24 0) = Inr s \<and> gps_af_0 s < 2 ^ 21"
proof -
  have "fixed_end Gps_Subframe1 0 = Some 192"
    by (simp add: schema_defs int_size_def round_up_def)
  then obtain s where "from_bytes Gps_Subframe1 (replicate 24 0) = Inr s"
    using from_bytes_fixed [of Gps_Subframe1 192 "replicate 24 0"] by auto
  then show ?thesis
    using gps_correction_is_twos_complement by blast
qed

end
