(* ===== verification/ParamStore.thy ===== *)
theory ParamStore
  imports Prelude
begin

text \<open>
  The parameter store as the manager sees it: the table of keys of \<open>common/params_keys.h\<close> with flags, types and
  defaults, the operations of \<open>common/params.cc\<close> on it, and the migrations of
  \<open>sunnypilot/system/params_migration.py\<close>. The store is a map from keys to typed values; the files behind it
  hold their text. An empty file reads as no value.
\<close>

section \<open>Values and keys\<close>

datatype JSON = JNull | JBool bool | JNum rat | JStr string | JList "JSON list" | JObj "(string \<times> JSON) list"

datatype ParamVal =
    PStr string | PBool bool | PInt int | PFloat rat | PTime string | PJson JSON | PBytes string

datatype ParamKeyType = T_STRING | T_BOOL | T_INT | T_FLOAT | T_TIME | T_JSON | T_BYTES

datatype ParamKeyFlag =
    PERSISTENT | CLEAR_ON_MANAGER_START | CLEAR_ON_ONROAD_TRANSITION | CLEAR_ON_OFFROAD_TRANSITION | DONT_LOG
  | DEVELOPMENT_ONLY | CLEAR_ON_IGNITION_ON | BACKUP

type_synonym ParamKeyAttributes = "ParamKeyFlag list \<times> ParamKeyType \<times> ParamVal option"

definition PARAM_KEYS_1 :: "(string \<times> ParamKeyAttributes) list" where
  "PARAM_KEYS_1 =
    [(''AccessToken'', [CLEAR_ON_MANAGER_START, DONT_LOG], T_STRING, None),
     (''AdbEnabled'', [PERSISTENT, BACKUP], T_BOOL, None),
     (''AlwaysOnDM'', [PERSISTENT, BACKUP], T_BOOL, None),
     (''ApiCache_Device'', [PERSISTENT], T_STRING, None),
     (''ApiCache_FirehoseStats'', [PERSISTENT], T_JSON, None),
     (''AssistNowToken'', [PERSISTENT], T_STRING, None),
     (''AthenadPid'', [PERSISTENT], T_INT, None),
     (''AthenadUploadQueue'', [PERSISTENT], T_JSON, None),
     (''AthenadRecentlyViewedRoutes'', [PERSISTENT], T_STRING, None),
     (''BootCount'', [PERSISTENT], T_INT, None),
     (''CalibrationParams'', [PERSISTENT], T_BYTES, None),
     (''CameraDebugExpGain'', [CLEAR_ON_MANAGER_START], T_STRING, None),
     (''CameraDebugExpTime'', [CLEAR_ON_MANAGER_START], T_STRING, None),
     (''CarBatteryCapacity'', [PERSISTENT], T_INT, None),
     (''CarParams'', [CLEAR_ON_MANAGER_START, CLEAR_ON_ONROAD_TRANSITION], T_BYTES, None),
     (''CarParamsCache'', [CLEAR_ON_MANAGER_START], T_BYTES, None),
     (''CarParamsPersistent'', [PERSISTENT], T_BYTES, None),
     (''CarParamsPrevRoute'', [PERSISTENT], T_BYTES, None),
     (''CompletedTrainingVersion'', [PERSISTENT], T_STRING, Some (PStr ''0'')),
     (''ControlsReady'', [CLEAR_ON_MANAGER_START, CLEAR_ON_ONROAD_TRANSITION], T_BOOL, None),
     (''CurrentBootlog'', [PERSISTENT], T_STRING, None),
     (''CurrentRoute'', [CLEAR_ON_MANAGER_START, CLEAR_ON_ONROAD_TRANSITION], T_STRING, None),
     (''DisableLogging'', [CLEAR_ON_MANAGER_START, CLEAR_ON_ONROAD_TRANSITION], T_BOOL, None),
     (''DisablePowerDown'', [PERSISTENT, BACKUP], T_BOOL, None),
     (''DisableUpdates'', [PERSISTENT, BACKUP], T_BOOL, Some (PBool False)),
     (''DisengageOnAccelerator'', [PERSISTENT, BACKUP], T_BOOL, Some (PBool False)),
     (''DongleId'', [PERSISTENT], T_STRING, None),
     (''DoReboot'', [CLEAR_ON_MANAGER_START], T_BOOL, None),
     (''DoShutdown'', [CLEAR_ON_MANAGER_START], T_BOOL, None),
     (''DoUninstall'', [CLEAR_ON_MANAGER_START], T_BOOL, None),
     (''DriverTooDistracted'', [CLEAR_ON_MANAGER_START, CLEAR_ON_IGNITION_ON], T_BOOL, None),
     (''AlphaLongitudinalEnabled'', [PERSISTENT, DEVELOPMENT_ONLY, BACKUP], T_BOOL, None),
     (''ExperimentalMode'', [PERSISTENT, BACKUP], T_BOOL, None),
     (''ExperimentalModeConfirmed'', [PERSISTENT, BACKUP], T_BOOL, None),
     (''FirmwareQueryDone'', [CLEAR_ON_MANAGER_START, CLEAR_ON_ONROAD_TRANSITION], T_BOOL, None),
     (''ForcePowerDown'', [PERSISTENT], T_BOOL, None),
     (''GitBranch'', [PERSISTENT], T_STRING, None),
     (''GitCommit'', [PERSISTENT], T_STRING, None),
     (''GitCommitDate'', [PERSISTENT], T_STRING, None),
     (''GitDiff'', [PERSISTENT], T_STRING, None),
     (''GithubSshKeys'', [PERSISTENT, BACKUP], T_STRING, None),
     (''GithubUsername'', [PERSISTENT, BACKUP], T_STRING, None),
     (''GitRemote'', [PERSISTENT], T_STRING, None),
     (''GsmApn'', [PERSISTENT, BACKUP], T_STRING, None),
     (''GsmMetered'', [PERSISTENT, BACKUP], T_BOOL, Some (PBool True)),
     (''GsmRoaming'', [PERSISTENT, BACKUP], T_BOOL, None),
     (''HardwareSerial'', [PERSISTENT], T_STRING, None),
     (''HasAcceptedTerms'', [PERSISTENT], T_STRING, Some (PStr ''0'')),
     (''InstallDate'', [PERSISTENT], T_TIME, None),
     (''IsDriverViewEnabled'', [CLEAR_ON_MANAGER_START], T_BOOL, None),
     (''IsEngaged'', [PERSISTENT], T_BOOL, None),
     (''IsLdwEnabled'', [PERSISTENT, BACKUP], T_BOOL, None),
     (''IsMetric'', [PERSISTENT, BACKUP], T_BOOL, None),
     (''IsOffroad'', [CLEAR_ON_MANAGER_START], T_BOOL, None),
     (''IsOnroad'', [PERSISTENT], T_BOOL, None),
     (''IsRhdDetected'', [PERSISTENT], T_BOOL, None),
     (''IsReleaseBranch'', [CLEAR_ON_MANAGER_START], T_BOOL, None),
     (''IsTakingSnapshot'', [CLEAR_ON_MANAGER_START], T_BOOL, None),
     (''IsTestedBranch'', [CLEAR_ON_MANAGER_START], T_BOOL, None),
     (''JoystickDebugMode'', [CLEAR_ON_MANAGER_START, CLEAR_ON_OFFROAD_TRANSITION], T_BOOL, None),
     (''LanguageSetting'', [PERSISTENT, BACKUP], T_STRING, Some (PStr ''en'')),
     (''LastAthenaPingTime'', [CLEAR_ON_MANAGER_START], T_INT, None),
     (''LastGPSPosition'', [PERSISTENT], T_STRING, None),
     (''LastManagerExitReason'', [CLEAR_ON_MANAGER_START], T_STRING, None),
     (''LastOffroadStatusPacket'', [CLEAR_ON_MANAGER_START, CLEAR_ON_OFFROAD_TRANSITION], T_JSON, None),
     (''LastAgnosPowerMonitorShutdown'', [CLEAR_ON_MANAGER_START], T_STRING, None),
     (''LastPowerDropDetected'', [CLEAR_ON_MANAGER_START], T_STRING, None),
     (''LastUpdateException'', [CLEAR_ON_MANAGER_START], T_STRING, None)]"

definition PARAM_KEYS_2 :: "(string \<times> ParamKeyAttributes) list" where
  "PARAM_KEYS_2 =
    [(''LastUpdateRouteCount'', [PERSISTENT], T_INT, Some (PInt 0)),
     (''LastUpdateTime'', [PERSISTENT], T_TIME, None),
     (''LastUpdateUptimeOnroad'', [PERSISTENT], T_FLOAT, Some (PFloat (0))),
     (''LiveDelay'', [PERSISTENT, BACKUP], T_BYTES, None),
     (''LiveParameters'', [PERSISTENT], T_JSON, None),
     (''LiveParametersV2'', [PERSISTENT], T_BYTES, None),
     (''LivestreamEncoderBitrate'', [CLEAR_ON_MANAGER_START, DONT_LOG], T_INT, None),
     (''LiveTorqueParameters'', [PERSISTENT, DONT_LOG], T_BYTES, None),
     (''LocationFilterInitialState'', [PERSISTENT], T_BYTES, None),
     (''LateralManeuverMode'', [CLEAR_ON_MANAGER_START, CLEAR_ON_OFFROAD_TRANSITION], T_BOOL, None),
     (''LongitudinalManeuverMode'', [CLEAR_ON_MANAGER_START, CLEAR_ON_OFFROAD_TRANSITION], T_BOOL, None),
     (''LongitudinalPersonality'', [PERSISTENT, BACKUP], T_INT, Some (PInt 1)),
     (''NetworkMetered'', [PERSISTENT, BACKUP], T_BOOL, None),
     (''ObdMultiplexingChanged'', [CLEAR_ON_MANAGER_START, CLEAR_ON_ONROAD_TRANSITION], T_BOOL, None),
     (''ObdMultiplexingEnabled'', [CLEAR_ON_MANAGER_START, CLEAR_ON_ONROAD_TRANSITION], T_BOOL, None),
     (''Offroad_CarUnrecognized'', [CLEAR_ON_MANAGER_START, CLEAR_ON_ONROAD_TRANSITION], T_JSON, None),
     (''Offroad_ConnectivityNeeded'', [CLEAR_ON_MANAGER_START], T_JSON, None),
     (''Offroad_ConnectivityNeededPrompt'', [CLEAR_ON_MANAGER_START], T_JSON, None),
     (''Offroad_ExcessiveActuation'', [PERSISTENT], T_JSON, None),
     (''Offroad_IsTakingSnapshot'', [CLEAR_ON_MANAGER_START], T_JSON, None),
     (''Offroad_NeosUpdate'', [CLEAR_ON_MANAGER_START], T_JSON, None),
     (''Offroad_NoFirmware'', [CLEAR_ON_MANAGER_START, CLEAR_ON_ONROAD_TRANSITION], T_JSON, None),
     (''Offroad_Recalibration'', [CLEAR_ON_MANAGER_START, CLEAR_ON_ONROAD_TRANSITION], T_JSON, None),
     (''Offroad_TemperatureTooHigh'', [CLEAR_ON_MANAGER_START], T_JSON, None),
     (''Offroad_UnregisteredHardware'', [CLEAR_ON_MANAGER_START], T_JSON, None),
     (''Offroad_UpdateFailed'', [CLEAR_ON_MANAGER_START], T_JSON, None),
     (''Offroad_DriverMonitoringUncertain'', [CLEAR_ON_MANAGER_START, CLEAR_ON_ONROAD_TRANSITION], T_JSON, None),
     (''OnroadCycleRequested'', [CLEAR_ON_MANAGER_START], T_BOOL, None),
     (''OpenpilotEnabledToggle'', [PERSISTENT, BACKUP], T_BOOL, Some (PBool True)),
     (''PandaHeartbeatLost'', [CLEAR_ON_MANAGER_START, CLEAR_ON_OFFROAD_TRANSITION], T_BOOL, None),
     (''PrimeType'', [PERSISTENT], T_INT, None),
     (''RecordAudio'', [PERSISTENT, BACKUP], T_BOOL, None),
     (''RecordAudioFeedback'', [PERSISTENT, BACKUP], T_BOOL, Some (PBool False)),
     (''RecordFront'', [PERSISTENT, BACKUP], T_BOOL, None),
     (''RecordFrontLock'', [PERSISTENT], T_BOOL, None),
     (''SecOCKey'', [PERSISTENT, DONT_LOG, BACKUP], T_STRING, None),
     (''ShowDebugInfo'', [PERSISTENT], T_BOOL, None),
     (''RouteCount'', [PERSISTENT], T_INT, Some (PInt 0)),
     (''SnoozeUpdate'', [CLEAR_ON_MANAGER_START, CLEAR_ON_OFFROAD_TRANSITION], T_BOOL, None),
     (''SshEnabled'', [PERSISTENT, BACKUP], T_BOOL, None),
     (''TermsVersion'', [PERSISTENT], T_STRING, None),
     (''TorqueBar'', [PERSISTENT, BACKUP], T_BOOL, Some (PBool False)),
     (''TrainingVersion'', [PERSISTENT], T_STRING, None),
     (''UbloxAvailable'', [PERSISTENT], T_BOOL, None),
     (''UpdateAvailable'', [CLEAR_ON_MANAGER_START, CLEAR_ON_ONROAD_TRANSITION], T_BOOL, None),
     (''UpdateFailedCount'', [CLEAR_ON_MANAGER_START], T_INT, None),
     (''UpdaterAvailableBranches'', [PERSISTENT], T_STRING, None),
     (''UpdaterCurrentDescription'', [CLEAR_ON_MANAGER_START], T_STRING, None),
     (''UpdaterCurrentReleaseNotes'', [CLEAR_ON_MANAGER_START], T_BYTES, None),
     (''UpdaterFetchAvailable'', [CLEAR_ON_MANAGER_START], T_BOOL, None),
     (''UpdaterNewDescription'', [CLEAR_ON_MANAGER_START], T_STRING, None),
     (''UpdaterNewReleaseNotes'', [CLEAR_ON_MANAGER_START], T_BYTES, None),
     (''UpdaterState'', [CLEAR_ON_MANAGER_START], T_STRING, None),
     (''UpdaterTargetBranch'', [CLEAR_ON_MANAGER_START], T_STRING, None),
     (''UpdaterLastFetchTime'', [PERSISTENT], T_TIME, None),
     (''UptimeOffroad'', [PERSISTENT], T_FLOAT, Some (PFloat (0))),
     (''UptimeOnroad'', [PERSISTENT], T_FLOAT, Some (PFloat (0))),
     (''UsbGpuPresent'', [CLEAR_ON_MANAGER_START, CLEAR_ON_OFFROAD_TRANSITION], T_BOOL, None),
     (''UsbGpuCompiled'', [CLEAR_ON_MANAGER_START, CLEAR_ON_OFFROAD_TRANSITION], T_BOOL, None),
     (''Version'', [PERSISTENT], T_STRING, None),
     (''ApiCache_DriveStats'', [PERSISTENT], T_JSON, None),
     (''AutoLaneChangeBsmDelay'', [PERSISTENT, BACKUP], T_BOOL, Some (PBool False)),
     (''AutoLaneChangeTimer'', [PERSISTENT, BACKUP], T_INT, Some (PInt 0)),
     (''BlinkerLateralReengageDelay'', [PERSISTENT, BACKUP], T_INT, Some (PInt 0)),
     (''BlinkerMinLateralControlSpeed'', [PERSISTENT, BACKUP], T_INT, Some (PInt 20)),
     (''BlinkerPauseLateralControl'', [PERSISTENT, BACKUP], T_INT, Some (PInt 0)),
     (''Brightness'', [PERSISTENT, BACKUP], T_INT, Some (PInt 0)),
     (''CarList'', [PERSISTENT], T_JSON, None)]"

definition PARAM_KEYS_3 :: "(string \<times> ParamKeyAttributes) list" where
  "PARAM_KEYS_3 =
    [(''CarParamsSP'', [CLEAR_ON_MANAGER_START, CLEAR_ON_ONROAD_TRANSITION], T_BYTES, None),
     (''CarParamsSPCache'', [CLEAR_ON_MANAGER_START], T_BYTES, None),
     (''CarParamsSPPersistent'', [PERSISTENT], T_BYTES, None),
     (''CarPlatformBundle'', [PERSISTENT, BACKUP], T_JSON, None),
     (''ChevronInfo'', [PERSISTENT, BACKUP], T_INT, Some (PInt 4)),
     (''CompletedSunnylinkConsentVersion'', [PERSISTENT], T_STRING, Some (PStr ''0'')),
     (''CustomAccIncrementsEnabled'', [PERSISTENT, BACKUP], T_BOOL, Some (PBool False)),
     (''CustomAccLongPressIncrement'', [PERSISTENT, BACKUP], T_INT, Some (PInt 5)),
     (''CustomAccShortPressIncrement'', [PERSISTENT, BACKUP], T_INT, Some (PInt 1)),
     (''DeviceBootMode'', [PERSISTENT, BACKUP], T_INT, Some (PInt 0)),
     (''DevUIInfo'', [PERSISTENT, BACKUP], T_INT, Some (PInt 0)),
     (''EnableCopyparty'', [PERSISTENT, BACKUP], T_BOOL, None),
     (''EnableGithubRunner'', [PERSISTENT, BACKUP], T_BOOL, None),
     (''GreenLightAlert'', [PERSISTENT, BACKUP], T_BOOL, Some (PBool False)),
     (''GithubRunnerSufficientVoltage'', [CLEAR_ON_MANAGER_START], T_BOOL, None),
     (''HasAcceptedTermsSP'', [PERSISTENT], T_STRING, Some (PStr ''0'')),
     (''HideVEgoUI'', [PERSISTENT, BACKUP], T_BOOL, Some (PBool False)),
     (''IntelligentCruiseButtonManagement'', [PERSISTENT, BACKUP], T_BOOL, None),
     (''InteractivityTimeout'', [PERSISTENT, BACKUP], T_INT, Some (PInt 0)),
     (''IsDevelopmentBranch'', [CLEAR_ON_MANAGER_START], T_BOOL, None),
     (''IsReleaseSpBranch'', [CLEAR_ON_MANAGER_START], T_BOOL, None),
     (''LastGPSPositionLLK'', [PERSISTENT], T_STRING, None),
     (''LeadDepartAlert'', [PERSISTENT, BACKUP], T_BOOL, Some (PBool False)),
     (''MaxTimeOffroad'', [PERSISTENT, BACKUP], T_INT, Some (PInt 1800)),
     (''ModelRunnerTypeCache'', [CLEAR_ON_ONROAD_TRANSITION], T_INT, None),
     (''OffroadMode'', [CLEAR_ON_MANAGER_START], T_BOOL, None),
     (''Offroad_TiciSupport'', [CLEAR_ON_MANAGER_START], T_JSON, None),
     (''OnroadScreenOffBrightness'', [PERSISTENT, BACKUP], T_INT, Some (PInt 0)),
     (''OnroadScreenOffBrightnessMigrated'', [PERSISTENT, BACKUP], T_STRING, Some (PStr ''0.0'')),
     (''OnroadScreenOffTimer'', [PERSISTENT, BACKUP], T_INT, Some (PInt 15)),
     (''OnroadScreenOffTimerMigrated'', [PERSISTENT, BACKUP], T_STRING, Some (PStr ''0.0'')),
     (''OnroadUploads'', [PERSISTENT, BACKUP], T_BOOL, Some (PBool True)),
     (''QuickBootToggle'', [PERSISTENT, BACKUP], T_BOOL, Some (PBool False)),
     (''QuietMode'', [PERSISTENT, BACKUP], T_BOOL, Some (PBool False)),
     (''RainbowMode'', [PERSISTENT, BACKUP], T_BOOL, Some (PBool False)),
     (''RocketFuel'', [PERSISTENT, BACKUP], T_BOOL, Some (PBool False)),
     (''ShowAdvancedControls'', [PERSISTENT, BACKUP], T_BOOL, Some (PBool False)),
     (''ShowTurnSignals'', [PERSISTENT, BACKUP], T_BOOL, Some (PBool False)),
     (''StandstillTimer'', [PERSISTENT, BACKUP], T_BOOL, Some (PBool False)),
     (''TrueVEgoUI'', [PERSISTENT, BACKUP], T_BOOL, Some (PBool False)),
     (''Mads'', [PERSISTENT, BACKUP], T_BOOL, Some (PBool True)),
     (''MadsMainCruiseAllowed'', [PERSISTENT, BACKUP], T_BOOL, Some (PBool True)),
     (''MadsSteeringMode'', [PERSISTENT, BACKUP], T_INT, Some (PInt 0)),
     (''MadsUnifiedEngagementMode'', [PERSISTENT, BACKUP], T_BOOL, Some (PBool True)),
     (''ModelManager_ActiveBundle'', [PERSISTENT], T_JSON, None),
     (''ModelManager_ClearCache'', [CLEAR_ON_MANAGER_START], T_BOOL, None),
     (''ModelManager_DownloadIndex'', [CLEAR_ON_MANAGER_START, CLEAR_ON_ONROAD_TRANSITION], T_INT, None),
     (''ModelManager_Favs'', [PERSISTENT, BACKUP], T_STRING, None),
     (''ModelManager_LastSyncTime'', [CLEAR_ON_MANAGER_START, CLEAR_ON_OFFROAD_TRANSITION], T_INT, Some (PInt 0)),
     (''ModelManager_ModelsCache'', [PERSISTENT, BACKUP], T_JSON, None),
     (''NeuralNetworkLateralControl'', [PERSISTENT, BACKUP], T_BOOL, Some (PBool False)),
     (''EnableSunnylinkUploader'', [PERSISTENT, BACKUP], T_BOOL, None),
     (''LastSunnylinkPingTime'', [CLEAR_ON_MANAGER_START], T_INT, None),
     (''ParamsVersion'', [PERSISTENT], T_INT, None),
     (''SunnylinkCache_Roles'', [PERSISTENT], T_STRING, None),
     (''SunnylinkCache_Users'', [PERSISTENT], T_STRING, None),
     (''SunnylinkDongleId'', [PERSISTENT], T_STRING, None),
     (''SunnylinkdPid'', [PERSISTENT], T_INT, None),
     (''SunnylinkEnabled'', [PERSISTENT], T_BOOL, Some (PBool True)),
     (''SunnylinkTempFault'', [CLEAR_ON_MANAGER_START, CLEAR_ON_OFFROAD_TRANSITION], T_BOOL, Some (PBool False)),
     (''BackupManager_CreateBackup'', [PERSISTENT], T_BOOL, None),
     (''BackupManager_RestoreVersion'', [PERSISTENT], T_STRING, None),
     (''HyundaiLongitudinalTuning'', [PERSISTENT, BACKUP], T_INT, Some (PInt 0)),
     (''SubaruStopAndGo'', [PERSISTENT, BACKUP], T_BOOL, Some (PBool False)),
     (''SubaruStopAndGoManualParkingBrake'', [PERSISTENT, BACKUP], T_BOOL, Some (PBool False)),
     (''TeslaCoopSteering'', [PERSISTENT, BACKUP], T_BOOL, Some (PBool False)),
     (''ToyotaEnforceStockLongitudinal'', [PERSISTENT, BACKUP], T_BOOL, Some (PBool False)),
     (''ToyotaStopAndGoHack'', [PERSISTENT, BACKUP], T_BOOL, Some (PBool False))]"

definition PARAM_KEYS_4 :: "(string \<times> ParamKeyAttributes) list" where
  "PARAM_KEYS_4 =
    [(''DynamicExperimentalControl'', [PERSISTENT, BACKUP], T_BOOL, Some (PBool False)),
     (''BlindSpot'', [PERSISTENT, BACKUP], T_BOOL, Some (PBool False)),
     (''CameraOffset'', [PERSISTENT, BACKUP], T_FLOAT, Some (PFloat (0))),
     (''LagdToggle'', [PERSISTENT, BACKUP], T_BOOL, Some (PBool True)),
     (''LagdToggleDelay'', [PERSISTENT, BACKUP], T_FLOAT, Some (PFloat (1 / 5))),
     (''LagdValueCache'', [PERSISTENT], T_FLOAT, Some (PFloat (1 / 5))),
     (''LaneTurnDesire'', [PERSISTENT, BACKUP], T_BOOL, Some (PBool False)),
     (''LaneTurnValue'', [PERSISTENT, BACKUP], T_FLOAT, Some (PFloat (19))),
     (''PlanplusControl'', [PERSISTENT, BACKUP], T_FLOAT, Some (PFloat (1))),
     (''MapAdvisorySpeedLimit'', [CLEAR_ON_ONROAD_TRANSITION], T_FLOAT, None),
     (''MapdVersion'', [PERSISTENT], T_STRING, None),
     (''MapSpeedLimit'', [CLEAR_ON_ONROAD_TRANSITION], T_FLOAT, Some (PFloat (0))),
     (''NextMapSpeedLimit'', [CLEAR_ON_ONROAD_TRANSITION], T_JSON, None),
     (''Offroad_OSMUpdateRequired'', [CLEAR_ON_MANAGER_START], T_JSON, None),
     (''OsmDbUpdatesCheck'', [CLEAR_ON_MANAGER_START], T_BOOL, None),
     (''OSMDownloadBounds'', [PERSISTENT], T_STRING, None),
     (''OsmDownloadedDate'', [PERSISTENT], T_STRING, Some (PStr ''0.0'')),
     (''OSMDownloadLocations'', [PERSISTENT], T_JSON, None),
     (''OSMDownloadProgress'', [CLEAR_ON_MANAGER_START], T_JSON, None),
     (''OsmLocal'', [PERSISTENT], T_BOOL, None),
     (''OsmLocationName'', [PERSISTENT], T_STRING, None),
     (''OsmLocationTitle'', [PERSISTENT], T_STRING, None),
     (''OsmLocationUrl'', [PERSISTENT], T_STRING, None),
     (''OsmStateName'', [PERSISTENT], T_STRING, Some (PStr ''All'')),
     (''OsmStateTitle'', [PERSISTENT], T_STRING, None),
     (''OsmWayTest'', [PERSISTENT], T_STRING, None),
     (''RoadName'', [CLEAR_ON_ONROAD_TRANSITION], T_STRING, None),
     (''RoadNameToggle'', [PERSISTENT, BACKUP], T_BOOL, Some (PBool False)),
     (''SpeedLimitMode'', [PERSISTENT, BACKUP], T_INT, Some (PInt 1)),
     (''SpeedLimitOffsetType'', [PERSISTENT, BACKUP], T_INT, Some (PInt 0)),
     (''SpeedLimitPolicy'', [PERSISTENT, BACKUP], T_INT, Some (PInt 3)),
     (''SpeedLimitValueOffset'', [PERSISTENT, BACKUP], T_INT, Some (PInt 0)),
     (''MapTargetVelocities'', [CLEAR_ON_ONROAD_TRANSITION], T_STRING, None),
     (''SmartCruiseControlMap'', [PERSISTENT, BACKUP], T_BOOL, Some (PBool False)),
     (''SmartCruiseControlVision'', [PERSISTENT, BACKUP], T_BOOL, Some (PBool False)),
     (''CustomTorqueParams'', [PERSISTENT, BACKUP], T_BOOL, None),
     (''EnforceTorqueControl'', [PERSISTENT, BACKUP], T_BOOL, None),
     (''LiveTorqueParamsToggle'', [PERSISTENT, BACKUP], T_BOOL, None),
     (''LiveTorqueParamsRelaxedToggle'', [PERSISTENT, BACKUP], T_BOOL, None),
     (''TorqueControlTune'', [PERSISTENT, BACKUP], T_FLOAT, Some (PFloat (0))),
     (''TorqueParamsOverrideEnabled'', [PERSISTENT, BACKUP], T_BOOL, Some (PBool False)),
     (''TorqueParamsOverrideFriction'', [PERSISTENT, BACKUP], T_FLOAT, Some (PFloat (1 / 10))),
     (''TorqueParamsOverrideLatAccelFactor'', [PERSISTENT, BACKUP], T_FLOAT, Some (PFloat (5 / 2)))]"

definition PARAM_KEYS :: "(string \<times> ParamKeyAttributes) list" where
  "PARAM_KEYS = PARAM_KEYS_1 @ PARAM_KEYS_2 @ PARAM_KEYS_3 @ PARAM_KEYS_4"

definition param_flags :: "string \<Rightarrow> ParamKeyFlag list option" where
  "param_flags k = map_option fst (map_of PARAM_KEYS k)"

definition param_default :: "string \<Rightarrow> ParamVal option" where
  "param_default k = (case map_of PARAM_KEYS k of None \<Rightarrow> None | Some (_, _, d) \<Rightarrow> d)"

section \<open>Operations\<close>

type_synonym ParamStore = "string \<rightharpoonup> ParamVal"

definition ps_get :: "string \<Rightarrow> ParamStore \<Rightarrow> ParamVal option" where
  "ps_get k s = (case s k of Some (PStr []) \<Rightarrow> None | Some (PBytes []) \<Rightarrow> None | v \<Rightarrow> v)"

definition ps_get_default :: "string \<Rightarrow> ParamStore \<Rightarrow> ParamVal option" where
  "ps_get_default k s = (case ps_get k s of None \<Rightarrow> param_default k | v \<Rightarrow> v)"

definition ps_get_bool :: "string \<Rightarrow> ParamStore \<Rightarrow> bool" where
  "ps_get_bool k s \<longleftrightarrow> s k = Some (PBool True)"

definition ps_put_bool :: "string \<Rightarrow> bool \<Rightarrow> ParamStore \<Rightarrow> ParamStore" where
  "ps_put_bool k b s = s(k \<mapsto> PBool b)"

text \<open>\<open>clearAll\<close> deletes the keys with the flag, and every file whose name is not a key.\<close>

definition clear_all :: "ParamKeyFlag \<Rightarrow> ParamStore \<Rightarrow> ParamStore" where
  "clear_all f s = (\<lambda>k. case param_flags k of None \<Rightarrow> None | Some fs \<Rightarrow> if f \<in> set fs then None else s k)"

lemma ps_get_bool_put [simp]:
  "ps_get_bool k (ps_put_bool k' b s) \<longleftrightarrow> (if k = k' then b else ps_get_bool k s)"
  by (simp add: ps_get_bool_def ps_put_bool_def)

lemma ps_get_bool_update [simp]:
  "ps_get_bool k (s(k' \<mapsto> v)) \<longleftrightarrow> (if k = k' then v = PBool True else ps_get_bool k s)"
  by (simp add: ps_get_bool_def)

lemma clear_all_flagged: "param_flags k = Some fs \<Longrightarrow> f \<in> set fs \<Longrightarrow> clear_all f s k = None"
  by (simp add: clear_all_def)

lemma clear_all_kept: "param_flags k = Some fs \<Longrightarrow> f \<notin> set fs \<Longrightarrow> clear_all f s k = s k"
  by (simp add: clear_all_def)

text \<open>The defaults, for every key of the table without a value.\<close>

definition set_defaults :: "ParamStore \<Rightarrow> ParamStore" where
  "set_defaults s =
     fold (\<lambda>(k, _, _, d) s'. case (d, ps_get k s') of (Some v, None) \<Rightarrow> s'(k \<mapsto> v) | _ \<Rightarrow> s') PARAM_KEYS s"

section \<open>Migrations\<close>

definition ONROAD_BRIGHTNESS_MIGRATION_VERSION :: string where
  "ONROAD_BRIGHTNESS_MIGRATION_VERSION = ''1.0''"

definition ONROAD_BRIGHTNESS_TIMER_MIGRATION_VERSION :: string where
  "ONROAD_BRIGHTNESS_TIMER_MIGRATION_VERSION = ''1.0''"

definition ONROAD_BRIGHTNESS_TIMER_VALUES :: "(int \<times> int) list" where
  "ONROAD_BRIGHTNESS_TIMER_VALUES =
     [(0, 3), (1, 5), (2, 7), (3, 10), (4, 15), (5, 30)] @ map (\<lambda>i. (i, (i - 5) * 60)) [6..15]"

definition VALID_TIMER_VALUES :: "int list" where
  "VALID_TIMER_VALUES = map snd ONROAD_BRIGHTNESS_TIMER_VALUES"

text \<open>The value has the type of its key, an integer; anything else would raise, and the handler leaves the store alone.\<close>

definition migrate_brightness :: "ParamStore \<Rightarrow> ParamStore" where
  "migrate_brightness s =
     (if ps_get ''OnroadScreenOffBrightnessMigrated'' s = Some (PStr ONROAD_BRIGHTNESS_MIGRATION_VERSION) then s
      else (case ps_get_default ''OnroadScreenOffBrightness'' s of
          Some (PInt val) \<Rightarrow>
            (if val \<ge> 2 then s(''OnroadScreenOffBrightness'' \<mapsto> PInt (val + 1)) else s)
              (''OnroadScreenOffBrightnessMigrated'' \<mapsto> PStr ONROAD_BRIGHTNESS_MIGRATION_VERSION)
        | _ \<Rightarrow> s))"

definition migrate_timer :: "ParamStore \<Rightarrow> ParamStore" where
  "migrate_timer s =
     (if ps_get ''OnroadScreenOffTimerMigrated'' s = Some (PStr ONROAD_BRIGHTNESS_TIMER_MIGRATION_VERSION) then s
      else (case ps_get_default ''OnroadScreenOffTimer'' s of
          Some (PInt val) \<Rightarrow>
            (if val \<in> set VALID_TIMER_VALUES then s else s(''OnroadScreenOffTimer'' \<mapsto> PInt 15))
              (''OnroadScreenOffTimerMigrated'' \<mapsto> PStr ONROAD_BRIGHTNESS_TIMER_MIGRATION_VERSION)
        | _ \<Rightarrow> s))"

text \<open>
  The car platform: \<open>migration\<close> is the table \<open>MIGRATION\<close> of opendbc and \<open>car_list\<close> the object of the generated
  car list. The new bundle is the entry with the same model if there is one, else the first entry of the platform.
\<close>

definition json_get :: "string \<Rightarrow> JSON \<Rightarrow> JSON option" where
  "json_get k j = (case j of JObj fs \<Rightarrow> map_of fs k | _ \<Rightarrow> None)"

definition json_fields :: "JSON \<Rightarrow> (string \<times> JSON) list" where
  "json_fields j = (case j of JObj fs \<Rightarrow> fs | _ \<Rightarrow> [])"

definition migrate_car_platform_bundle :: "(string \<rightharpoonup> string) \<Rightarrow> (string \<times> JSON) list \<Rightarrow> ParamStore \<Rightarrow> ParamStore" where
  "migrate_car_platform_bundle migration car_list s =
     (case ps_get ''CarPlatformBundle'' s of
        Some (PJson bundle) \<Rightarrow>
          (case json_get ''platform'' bundle of
             Some (JStr old_platform) \<Rightarrow>
               (case (if old_platform = [] then None else migration old_platform) of
                  None \<Rightarrow> s
                | Some new_platform \<Rightarrow>
                    (let candidates = filter (\<lambda>(k, v). json_get ''platform'' v = Some (JStr new_platform)) car_list;
                         old_model = json_get ''model'' bundle;
                         bundle' =
                           (case (filter (\<lambda>(k, v). json_get ''model'' v = old_model) candidates, candidates) of
                              ((key, data) # _, _) \<Rightarrow> dict_set ''name'' (JStr key) (json_fields data)
                            | ([], (key, data) # _) \<Rightarrow> dict_set ''name'' (JStr key) (json_fields data)
                            | ([], []) \<Rightarrow> dict_set ''platform'' (JStr new_platform) (json_fields bundle))
                     in s(''CarPlatformBundle'' \<mapsto> PJson (JObj bundle'))))
           | _ \<Rightarrow> s)
      | _ \<Rightarrow> s)"

definition run_migration :: "(string \<rightharpoonup> string) \<Rightarrow> (string \<times> JSON) list \<Rightarrow> ParamStore \<Rightarrow> ParamStore" where
  "run_migration migration car_list s =
     migrate_car_platform_bundle migration car_list (migrate_timer (migrate_brightness s))"

end
