(* ===== verification/ManagerProcess.thy ===== *)
theory ManagerProcess
  imports ParamStore Messages
begin

text \<open>
  The processes of \<open>system/manager/process.py\<close>: starting, stopping and restarting a managed process, and
  \<open>ensure_running\<close>. The operating system is a table of children with the signals they got and their exit code,
  and a table of other processes with their command line. How a program reacts to signals is the parameter
  \<open>obeys\<close>: its exit code at the end of the wait of five seconds, if it has exited by then. SIGKILL followed by
  \<open>join\<close> ends any child.
\<close>

section \<open>Loops that thread a state\<close>

fun for_each :: "('a \<Rightarrow> 'w \<Rightarrow> 'b \<times> 'w) \<Rightarrow> 'a list \<Rightarrow> 'w \<Rightarrow> 'b list \<times> 'w" where
  "for_each f [] w = ([], w)"
| "for_each f (x # xs) w = (let (y, w') = f x w; (ys, w'') = for_each f xs w' in (y # ys, w''))"

section \<open>The operating system\<close>

datatype Signal = SIGINT | SIGKILL

record Child =
  ch_name :: string
  ch_signals :: "Signal list"
  ch_exitcode :: "int option"

record OS =
  os_next_pid :: int
  os_children :: "int \<rightharpoonup> Child"
  os_others :: "int \<rightharpoonup> string"

type_synonym Obeys = "string \<Rightarrow> Signal list \<Rightarrow> int option"

definition os_exitcode :: "OS \<Rightarrow> int \<Rightarrow> int option" where
  "os_exitcode os pid = (case os_children os pid of None \<Rightarrow> None | Some c \<Rightarrow> ch_exitcode c)"

definition os_alive :: "OS \<Rightarrow> int \<Rightarrow> bool" where
  "os_alive os pid \<longleftrightarrow> (\<exists>c. os_children os pid = Some c \<and> ch_exitcode c = None)"

lemma os_alive_code [code]:
  "os_alive os pid = (case os_children os pid of None \<Rightarrow> False | Some c \<Rightarrow> ch_exitcode c = None)"
  by (simp add: os_alive_def split: option.split)

definition os_update :: "int \<Rightarrow> (Child \<Rightarrow> Child) \<Rightarrow> OS \<Rightarrow> OS" where
  "os_update pid f os =
     os\<lparr>os_children := (os_children os)(pid := map_option f (os_children os pid))\<rparr>"

text \<open>\<open>Process.start\<close> forks, \<open>os.kill\<close> delivers a signal, and a child exits.\<close>

definition os_fork :: "string \<Rightarrow> OS \<Rightarrow> int \<times> OS" where
  "os_fork name os =
     (let pid = os_next_pid os
      in (pid, os\<lparr>os_next_pid := pid + 1,
                  os_children := (os_children os)(pid \<mapsto> \<lparr>ch_name = name, ch_signals = [], ch_exitcode = None\<rparr>)\<rparr>))"

definition os_kill :: "int \<Rightarrow> Signal \<Rightarrow> OS \<Rightarrow> OS" where
  "os_kill pid sig = os_update pid (\<lambda>c. c\<lparr>ch_signals := ch_signals c @ [sig]\<rparr>)"

definition os_exit :: "int \<Rightarrow> int \<Rightarrow> OS \<Rightarrow> OS" where
  "os_exit pid code = os_update pid (\<lambda>c. if ch_exitcode c = None then c\<lparr>ch_exitcode := Some code\<rparr> else c)"

section \<open>Managed processes\<close>

datatype ProcKind = NativeKind | PythonKind | DaemonKind

text \<open>A predicate sees the file system (which paths exist) and may write parameters.\<close>

type_synonym Files = "string \<Rightarrow> bool"

type_synonym ShouldRun = "Files \<Rightarrow> bool \<Rightarrow> ParamStore \<Rightarrow> CarParams \<Rightarrow> bool \<times> ParamStore"

record ManagerProcess =
  mp_name :: string
  mp_kind :: ProcKind
  mp_target :: "string list" \<comment> \<open>the module, or the directory and the command line\<close>
  mp_should_run :: ShouldRun
  mp_enabled :: bool
  mp_sigkill :: bool
  mp_restart_if_crash :: bool
  mp_param_name :: string \<comment> \<open>of a daemon\<close>
  mp_proc :: "int option"
  mp_shutting_down :: bool

definition NativeProcess :: "string \<Rightarrow> string \<Rightarrow> string list \<Rightarrow> ShouldRun \<Rightarrow> bool \<Rightarrow> bool \<Rightarrow> ManagerProcess" where
  "NativeProcess name cwd cmdline should_run enabled sigkill =
     \<lparr>mp_name = name, mp_kind = NativeKind, mp_target = cwd # cmdline, mp_should_run = should_run,
      mp_enabled = enabled, mp_sigkill = sigkill, mp_restart_if_crash = False, mp_param_name = [],
      mp_proc = None, mp_shutting_down = False\<rparr>"

definition PythonProcess :: "string \<Rightarrow> string \<Rightarrow> ShouldRun \<Rightarrow> bool \<Rightarrow> bool \<Rightarrow> ManagerProcess" where
  "PythonProcess name mdl should_run enabled restart_if_crash =
     \<lparr>mp_name = name, mp_kind = PythonKind, mp_target = [mdl], mp_should_run = should_run,
      mp_enabled = enabled, mp_sigkill = False, mp_restart_if_crash = restart_if_crash, mp_param_name = [],
      mp_proc = None, mp_shutting_down = False\<rparr>"

definition DaemonProcess :: "string \<Rightarrow> string \<Rightarrow> string \<Rightarrow> ManagerProcess" where
  "DaemonProcess name mdl param_name =
     \<lparr>mp_name = name, mp_kind = DaemonKind, mp_target = [mdl], mp_should_run = (\<lambda>_ _ s _. (True, s)),
      mp_enabled = True, mp_sigkill = False, mp_restart_if_crash = False, mp_param_name = param_name,
      mp_proc = None, mp_shutting_down = False\<rparr>"

section \<open>Stopping\<close>

text \<open>\<open>signal\<close>: nothing happens without a child or when it has already exited.\<close>

definition mp_signal :: "Signal \<Rightarrow> ManagerProcess \<Rightarrow> OS \<Rightarrow> OS" where
  "mp_signal sig p os =
     (case mp_proc p of None \<Rightarrow> os | Some pid \<Rightarrow> if os_exitcode os pid \<noteq> None then os else os_kill pid sig os)"

definition join_process :: "Obeys \<Rightarrow> int \<Rightarrow> OS \<Rightarrow> OS" where
  "join_process obeys pid os =
     (case os_children os pid of
        None \<Rightarrow> os
      | Some c \<Rightarrow> (case obeys (ch_name c) (ch_signals c) of None \<Rightarrow> os | Some code \<Rightarrow> os_exit pid code os))"

text \<open>After the wait: SIGKILL if the child is still there, and forget it once it has exited.\<close>

definition stop_kill :: "bool \<Rightarrow> int \<Rightarrow> ManagerProcess \<Rightarrow> OS \<Rightarrow> OS" where
  "stop_kill retry pid p os =
     (if os_exitcode os pid = None \<and> retry then os_exit pid (-9) (mp_signal SIGKILL p os) else os)"

definition stop_done :: "int \<Rightarrow> ManagerProcess \<Rightarrow> OS \<Rightarrow> int option \<times> ManagerProcess \<times> OS" where
  "stop_done pid p os =
     (case os_exitcode os pid of
        None \<Rightarrow> (None, p, os)
      | Some code \<Rightarrow> (Some code, p\<lparr>mp_shutting_down := False, mp_proc := None\<rparr>, os))"

definition stop_process :: "Obeys \<Rightarrow> bool \<Rightarrow> bool \<Rightarrow> Signal option \<Rightarrow> ManagerProcess \<Rightarrow> OS \<Rightarrow>
    int option \<times> ManagerProcess \<times> OS" where
  "stop_process obeys retry block sig p os =
     (case mp_proc p of
        None \<Rightarrow> (None, p, os)
      | Some pid \<Rightarrow>
          if os_exitcode os pid \<noteq> None then stop_done pid p os
          else if mp_shutting_down p then stop_done pid p (stop_kill retry pid p (join_process obeys pid os))
          else
            (let s = (case sig of Some s \<Rightarrow> s | None \<Rightarrow> if mp_sigkill p then SIGKILL else SIGINT);
                 os1 = mp_signal s p os;
                 p1 = p\<lparr>mp_shutting_down := True\<rparr>
             in if \<not> block then (None, p1, os1)
                else stop_done pid p1 (stop_kill retry pid p1 (join_process obeys pid os1))))"

definition mp_stop :: "Obeys \<Rightarrow> bool \<Rightarrow> bool \<Rightarrow> Signal option \<Rightarrow> ManagerProcess \<Rightarrow> OS \<Rightarrow> ManagerProcess \<times> OS" where
  "mp_stop obeys retry block sig p os =
     (if mp_kind p = DaemonKind then (p, os) else snd (stop_process obeys retry block sig p os))"

section \<open>Starting\<close>

definition start_child :: "Obeys \<Rightarrow> ManagerProcess \<Rightarrow> OS \<Rightarrow> ManagerProcess \<times> OS" where
  "start_child obeys p0 os0 =
     (let (p, os) = (if mp_shutting_down p0 then mp_stop obeys True True None p0 os0 else (p0, os0))
      in if mp_proc p \<noteq> None then (p, os)
         else (let (pid, os') = os_fork (mp_name p) os in (p\<lparr>mp_proc := Some pid, mp_shutting_down := False\<rparr>, os')))"

text \<open>
  A daemon is meant to outlive the manager: it is running when the stored process exists and its command line
  contains the module. \<open>Popen\<close> makes it a child of the manager for the operating system, but no managed process
  keeps it (\<open>proc\<close> stays \<open>None\<close>), it is never signalled or joined, and it is found again by its process id alone.
  The model therefore keeps it with the other processes, in \<open>os_others\<close>, and not in \<open>os_children\<close>.
\<close>

definition daemon_running :: "string \<Rightarrow> ParamVal option \<Rightarrow> OS \<Rightarrow> bool" where
  "daemon_running mdl v os =
     (case v of
        Some (PInt pid) \<Rightarrow> (case os_others os pid of None \<Rightarrow> False | Some cmdline \<Rightarrow> is_infix mdl cmdline)
      | _ \<Rightarrow> False)"

definition start_daemon :: "ManagerProcess \<Rightarrow> OS \<times> ParamStore \<Rightarrow> OS \<times> ParamStore" where
  "start_daemon p = (\<lambda>(os, s).
     let mdl = hd (mp_target p)
     in if daemon_running mdl (ps_get (mp_param_name p) s) os then (os, s)
        else (let pid = os_next_pid os
              in (os\<lparr>os_next_pid := pid + 1,
                     os_others := (os_others os)(pid \<mapsto> ''python'' @ [CHR 0x00] @ ''-m'' @ [CHR 0x00] @ mdl @ [CHR 0x00])\<rparr>,
                  s(mp_param_name p \<mapsto> PInt pid))))"

definition mp_start :: "Obeys \<Rightarrow> ManagerProcess \<Rightarrow> OS \<times> ParamStore \<Rightarrow> ManagerProcess \<times> OS \<times> ParamStore" where
  "mp_start obeys p = (\<lambda>(os, s).
     if mp_kind p = DaemonKind then (p, start_daemon p (os, s))
     else (let (p', os') = start_child obeys p os in (p', os', s)))"

definition mp_restart :: "Obeys \<Rightarrow> ManagerProcess \<Rightarrow> OS \<times> ParamStore \<Rightarrow> ManagerProcess \<times> OS \<times> ParamStore" where
  "mp_restart obeys p = (\<lambda>(os, s).
     let (p', os') = mp_stop obeys True True (Some SIGKILL) p os in mp_start obeys p' (os', s))"

section \<open>The published state\<close>

record MgProcessState =
  pst_name :: string
  pst_running :: bool
  pst_shouldBeRunning :: bool
  pst_pid :: int
  pst_exitCode :: int

definition get_process_state_msg :: "OS \<Rightarrow> ManagerProcess \<Rightarrow> MgProcessState" where
  "get_process_state_msg os p =
     (case mp_proc p of
        None \<Rightarrow> \<lparr>pst_name = mp_name p, pst_running = False, pst_shouldBeRunning = False, pst_pid = 0, pst_exitCode = 0\<rparr>
      | Some pid \<Rightarrow>
          \<lparr>pst_name = mp_name p, pst_running = os_alive os pid, pst_shouldBeRunning = (\<not> mp_shutting_down p),
           pst_pid = pid, pst_exitCode = (case os_exitcode os pid of None \<Rightarrow> 0 | Some c \<Rightarrow> c)\<rparr>)"

section \<open>ensure_running\<close>

definition mp_wanted :: "Files \<Rightarrow> string list \<Rightarrow> bool \<Rightarrow> CarParams \<Rightarrow> ManagerProcess \<Rightarrow> ParamStore \<Rightarrow> bool \<times> ParamStore" where
  "mp_wanted fs not_run started CP p s =
     (if mp_enabled p \<and> mp_name p \<notin> set not_run then mp_should_run p fs started s CP else (False, s))"

text \<open>The first loop, for one process: whether it goes to the list of running processes, and its new state.\<close>

definition settle_process :: "Obeys \<Rightarrow> Files \<Rightarrow> string list \<Rightarrow> bool \<Rightarrow> CarParams \<Rightarrow> ManagerProcess \<Rightarrow> OS \<times> ParamStore \<Rightarrow>
    (bool \<times> ManagerProcess) \<times> OS \<times> ParamStore" where
  "settle_process obeys fs not_run started CP p = (\<lambda>(os, s0).
     let (wanted, s) = mp_wanted fs not_run started CP p s0
     in if wanted then
          (if mp_restart_if_crash p \<and> (\<exists>pid. mp_proc p = Some pid \<and> \<not> os_alive os pid)
           then (let (p', w) = mp_restart obeys p (os, s) in ((True, p'), w))
           else ((True, p), os, s))
        else (let (p', os') = mp_stop obeys True False None p os in ((False, p'), os', s)))"

definition settle_all :: "Obeys \<Rightarrow> Files \<Rightarrow> string list \<Rightarrow> bool \<Rightarrow> CarParams \<Rightarrow> ManagerProcess list \<Rightarrow> OS \<times> ParamStore \<Rightarrow>
    (bool \<times> ManagerProcess) list \<times> OS \<times> ParamStore" where
  "settle_all obeys fs not_run started CP = for_each (settle_process obeys fs not_run started CP)"

text \<open>The second loop starts the running processes.\<close>

definition start_wanted :: "Obeys \<Rightarrow> bool \<times> ManagerProcess \<Rightarrow> OS \<times> ParamStore \<Rightarrow> ManagerProcess \<times> OS \<times> ParamStore" where
  "start_wanted obeys x w = (if fst x then mp_start obeys (snd x) w else (snd x, w))"

definition start_all :: "Obeys \<Rightarrow> (bool \<times> ManagerProcess) list \<Rightarrow> OS \<times> ParamStore \<Rightarrow> ManagerProcess list \<times> OS \<times> ParamStore" where
  "start_all obeys = for_each (start_wanted obeys)"

definition ensure_running :: "Obeys \<Rightarrow> Files \<Rightarrow> string list \<Rightarrow> bool \<Rightarrow> CarParams \<Rightarrow> ManagerProcess list \<Rightarrow> OS \<times> ParamStore \<Rightarrow>
    string list \<times> ManagerProcess list \<times> OS \<times> ParamStore" where
  "ensure_running obeys fs not_run started CP ps w =
     (let (xs, w') = settle_all obeys fs not_run started CP ps w;
          (ps', w'') = start_all obeys xs w'
      in (map (mp_name \<circ> snd) (filter fst xs), ps', w''))"

end
