(* ===== verification/ProcessConfig.thy ===== *)
theory ProcessConfig
  imports ManagerProcess
begin

text \<open>
  The process table of \<open>system/manager/process_config.py\<close>: the predicates that decide whether a process should
  run and the list \<open>procs\<close>, with the helpers of \<open>sunnypilot/sunnylink/utils.py\<close> and
  \<open>sunnypilot/models/helpers.py\<close> they call. What the module reads when it is imported (platform, environment,
  directories) is the record \<open>ProcEnv\<close>; the runner of the active model bundle, a message of the schema read from
  JSON, is its field \<open>env_active_runner\<close>.
\<close>

record ProcEnv =
  env_WEBCAM :: bool
  env_PC :: bool
  env_TICI :: bool
  env_Darwin :: bool
  env_mapd_root :: string
  env_MAPD_PATH :: string
  env_crash_log_root :: string
  env_log_root :: string
  env_model_root :: string
  env_sunnypilot_root :: string
  env_active_runner :: "ParamStore \<Rightarrow> int option"

section \<open>sunnylink and the model runner\<close>

definition UNREGISTERED_SUNNYLINK_DONGLE_ID :: string where
  "UNREGISTERED_SUNNYLINK_DONGLE_ID = ''UnregisteredDevice''"

definition get_sunnylink_status :: "ParamStore \<Rightarrow> bool \<times> bool \<times> bool" where
  "get_sunnylink_status params =
     (let is_sunnylink_enabled = ps_get_bool ''SunnylinkEnabled'' params;
          is_registered = ps_get ''SunnylinkDongleId'' params \<notin> {None, Some (PStr UNREGISTERED_SUNNYLINK_DONGLE_ID)};
          is_on_temporary_fault = ps_get_bool ''SunnylinkTempFault'' params
      in (is_sunnylink_enabled, is_registered, is_on_temporary_fault))"

definition sunnylink_ready :: "ParamStore \<Rightarrow> bool" where
  "sunnylink_ready params =
     (let (is_sunnylink_enabled, is_registered, is_on_temporary_fault) = get_sunnylink_status params
      in is_sunnylink_enabled \<and> is_registered \<and> \<not> is_on_temporary_fault)"

definition use_sunnylink_uploader :: "ParamStore \<Rightarrow> bool" where
  "use_sunnylink_uploader params \<longleftrightarrow>
     \<not> ps_get_bool ''NetworkMetered'' params \<and> sunnylink_ready params \<and> ps_get_bool ''EnableSunnylinkUploader'' params"

definition sunnylink_need_register :: "ParamStore \<Rightarrow> bool" where
  "sunnylink_need_register params =
     (let (is_sunnylink_enabled, is_registered, is_on_temporary_fault) = get_sunnylink_status params
      in is_sunnylink_enabled \<and> \<not> is_registered \<and> \<not> is_on_temporary_fault)"

text \<open>The enumeration \<open>Runner\<close> of the schema.\<close>

definition Runner_tinygrad :: int where "Runner_tinygrad = 1"
definition Runner_stock :: int where "Runner_stock = 2"

definition get_active_model_runner :: "ProcEnv \<Rightarrow> ParamStore \<Rightarrow> bool \<Rightarrow> int \<times> ParamStore" where
  "get_active_model_runner env params force_check =
     (let cached_runner_type = (case ps_get ''ModelRunnerTypeCache'' params of Some (PInt n) \<Rightarrow> Some n | _ \<Rightarrow> None)
      in case (cached_runner_type, force_check) of
           (Some n, False) \<Rightarrow> (n, params)
         | _ \<Rightarrow>
             (let runner_type = (case env_active_runner env params of Some r \<Rightarrow> r | None \<Rightarrow> Runner_stock)
              in (runner_type,
                  if cached_runner_type \<noteq> Some runner_type then params(''ModelRunnerTypeCache'' \<mapsto> PInt runner_type)
                  else params)))"

section \<open>Predicates\<close>

text \<open>Predicates that only read.\<close>

definition reads :: "(bool \<Rightarrow> ParamStore \<Rightarrow> CarParams \<Rightarrow> bool) \<Rightarrow> ShouldRun" where
  "reads f = (\<lambda>fs started params CP. (f started params CP, params))"

definition driverview :: ShouldRun where
  "driverview = reads (\<lambda>started params CP. started \<or> ps_get_bool ''IsDriverViewEnabled'' params)"

definition notcar :: ShouldRun where "notcar = reads (\<lambda>started params CP. started \<and> cp_notCar CP)"

definition iscar :: ShouldRun where "iscar = reads (\<lambda>started params CP. started \<and> \<not> cp_notCar CP)"

definition logging_wanted :: ShouldRun where
  "logging_wanted =
     reads (\<lambda>started params CP.
       let run = (\<not> cp_notCar CP) \<or> \<not> ps_get_bool ''DisableLogging'' params in started \<and> run)"

definition ublox_available :: "Files \<Rightarrow> bool" where
  "ublox_available fs \<longleftrightarrow> fs ''/dev/ttyHS0'' \<and> \<not> fs ''/persist/comma/use-quectel-gps''"

definition ublox :: ShouldRun where
  "ublox = (\<lambda>fs started params CP.
     let use_ublox = ublox_available fs
     in (started \<and> use_ublox,
         if use_ublox \<noteq> ps_get_bool ''UbloxAvailable'' params then ps_put_bool ''UbloxAvailable'' use_ublox params
         else params))"

definition joystick :: ShouldRun where
  "joystick = reads (\<lambda>started params CP. started \<and> ps_get_bool ''JoystickDebugMode'' params)"

definition not_joystick :: ShouldRun where
  "not_joystick = reads (\<lambda>started params CP. started \<and> \<not> ps_get_bool ''JoystickDebugMode'' params)"

definition long_maneuver :: ShouldRun where
  "long_maneuver = reads (\<lambda>started params CP. started \<and> ps_get_bool ''LongitudinalManeuverMode'' params)"

definition lat_maneuver :: ShouldRun where
  "lat_maneuver = reads (\<lambda>started params CP. started \<and> ps_get_bool ''LateralManeuverMode'' params)"

definition not_long_maneuver :: ShouldRun where
  "not_long_maneuver = reads (\<lambda>started params CP. started \<and> \<not> ps_get_bool ''LongitudinalManeuverMode'' params)"

definition qcomgps :: ShouldRun where
  "qcomgps = (\<lambda>fs started params CP. (started \<and> \<not> ublox_available fs, params))"

definition always_run :: ShouldRun where "always_run = reads (\<lambda>started params CP. True)"

definition only_onroad :: ShouldRun where "only_onroad = reads (\<lambda>started params CP. started)"

definition only_offroad :: ShouldRun where "only_offroad = reads (\<lambda>started params CP. \<not> started)"

definition use_github_runner :: "ProcEnv \<Rightarrow> ShouldRun" where
  "use_github_runner env =
     reads (\<lambda>started params CP.
       \<not> env_PC env \<and> ps_get_bool ''EnableGithubRunner'' params
       \<and> (\<not> ps_get_bool ''NetworkMetered'' params \<and> \<not> ps_get_bool ''GithubRunnerSufficientVoltage'' params))"

definition use_copyparty :: ShouldRun where
  "use_copyparty = reads (\<lambda>started params CP. ps_get_bool ''EnableCopyparty'' params)"

definition sunnylink_ready_shim :: ShouldRun where
  "sunnylink_ready_shim = reads (\<lambda>started params CP. sunnylink_ready params)"

definition sunnylink_need_register_shim :: ShouldRun where
  "sunnylink_need_register_shim = reads (\<lambda>started params CP. sunnylink_need_register params)"

definition use_sunnylink_uploader_shim :: ShouldRun where
  "use_sunnylink_uploader_shim = reads (\<lambda>started params CP. use_sunnylink_uploader params)"

definition is_tinygrad_model :: "ProcEnv \<Rightarrow> ShouldRun" where
  "is_tinygrad_model env = (\<lambda>fs started params CP.
     let (runner, params') = get_active_model_runner env params (\<not> started) in (runner = Runner_tinygrad, params'))"

definition is_stock_model :: "ProcEnv \<Rightarrow> ShouldRun" where
  "is_stock_model env = (\<lambda>fs started params CP.
     let (runner, params') = get_active_model_runner env params (\<not> started) in (runner = Runner_stock, params'))"

definition mapd_ready :: "ProcEnv \<Rightarrow> ShouldRun" where
  "mapd_ready env = (\<lambda>fs started params CP. (fs (env_mapd_root env), params))"

definition uploader_ready :: ShouldRun where
  "uploader_ready = (\<lambda>fs started params CP.
     if \<not> ps_get_bool ''OnroadUploads'' params then only_offroad fs started params CP
     else always_run fs started params CP)"

text \<open>Both arguments are evaluated, one after the other.\<close>

definition or_fns :: "ShouldRun \<Rightarrow> ShouldRun \<Rightarrow> ShouldRun" where
  "or_fns f g = (\<lambda>fs started params CP.
     let (a, params1) = f fs started params CP; (b, params2) = g fs started params1 CP in (a \<or> b, params2))"

definition and_fns :: "ShouldRun \<Rightarrow> ShouldRun \<Rightarrow> ShouldRun" where
  "and_fns f g = (\<lambda>fs started params CP.
     let (a, params1) = f fs started params CP; (b, params2) = g fs started params1 CP in (a \<and> b, params2))"

section \<open>The table\<close>

definition base_procs :: "ProcEnv \<Rightarrow> ManagerProcess list" where
  "base_procs env =
     [DaemonProcess ''manage_athenad'' ''system.athena.manage_athenad'' ''AthenadPid'',
      NativeProcess ''loggerd'' ''system/loggerd'' [''./loggerd''] logging_wanted True False,
      NativeProcess ''encoderd'' ''system/loggerd'' [''./encoderd''] only_onroad True False,
      NativeProcess ''stream_encoderd'' ''system/loggerd'' [''./encoderd'', ''--stream''] notcar True False,
      PythonProcess ''logmessaged'' ''system.logmessaged'' always_run True False,
      NativeProcess ''camerad'' ''system/camerad'' [''./camerad''] driverview (\<not> env_WEBCAM env) False,
      PythonProcess ''webcamerad'' ''tools.webcam.camerad'' driverview (env_WEBCAM env) False,
      PythonProcess ''proclogd'' ''system.proclogd'' only_onroad (\<not> env_Darwin env) False,
      PythonProcess ''journald'' ''system.journald'' only_onroad (\<not> env_Darwin env) False,
      PythonProcess ''micd'' ''system.micd'' iscar True False,
      PythonProcess ''timed'' ''system.timed'' always_run (\<not> env_PC env) False,
      PythonProcess ''modeld'' ''selfdrive.modeld.modeld'' (and_fns only_onroad (is_stock_model env)) True False,
      PythonProcess ''dmonitoringmodeld'' ''selfdrive.modeld.dmonitoringmodeld'' driverview (env_WEBCAM env \<or> \<not> env_PC env) False,
      PythonProcess ''sensord'' ''system.sensord.sensord'' only_onroad (\<not> env_PC env) False,
      PythonProcess ''ui'' ''selfdrive.ui.ui'' always_run True True,
      PythonProcess ''soundd'' ''selfdrive.ui.soundd'' driverview True False,
      PythonProcess ''locationd'' ''selfdrive.locationd.locationd'' only_onroad True False,
      NativeProcess ''_pandad'' ''selfdrive/pandad'' [''./pandad''] always_run False False,
      PythonProcess ''calibrationd'' ''selfdrive.locationd.calibrationd'' only_onroad True False,
      PythonProcess ''torqued'' ''selfdrive.locationd.torqued'' only_onroad True False,
      PythonProcess ''controlsd'' ''selfdrive.controls.controlsd'' (and_fns not_joystick iscar) True False,
      PythonProcess ''joystickd'' ''tools.joystick.joystickd'' (or_fns joystick notcar) True False,
      PythonProcess ''selfdrived'' ''selfdrive.selfdrived.selfdrived'' only_onroad True False,
      PythonProcess ''card'' ''selfdrive.car.card'' only_onroad True False,
      PythonProcess ''deleter'' ''system.loggerd.deleter'' always_run True False,
      PythonProcess ''dmonitoringd'' ''selfdrive.monitoring.dmonitoringd'' driverview (env_WEBCAM env \<or> \<not> env_PC env) False,
      PythonProcess ''qcomgpsd'' ''system.qcomgpsd.qcomgpsd'' qcomgps (env_TICI env) False,
      PythonProcess ''pandad'' ''selfdrive.pandad.pandad'' always_run True False,
      PythonProcess ''paramsd'' ''selfdrive.locationd.paramsd'' only_onroad True False,
      PythonProcess ''lagd'' ''selfdrive.locationd.lagd'' only_onroad True False,
      PythonProcess ''ubloxd'' ''system.ubloxd.ubloxd'' ublox (env_TICI env) False,
      PythonProcess ''pigeond'' ''system.ubloxd.pigeond'' ublox (env_TICI env) False,
      PythonProcess ''plannerd'' ''selfdrive.controls.plannerd'' not_long_maneuver True False,
      PythonProcess ''maneuversd'' ''tools.longitudinal_maneuvers.maneuversd'' long_maneuver True False,
      PythonProcess ''lateral_maneuversd'' ''tools.lateral_maneuvers.lateral_maneuversd'' lat_maneuver True False,
      PythonProcess ''radard'' ''selfdrive.controls.radard'' only_onroad True False,
      PythonProcess ''hardwared'' ''system.hardware.hardwared'' always_run True False,
      PythonProcess ''modem'' ''system.hardware.tici.modem'' always_run (env_TICI env) False,
      PythonProcess ''tombstoned'' ''system.tombstoned'' always_run (\<not> env_PC env) False,
      PythonProcess ''updated'' ''system.updated.updated'' only_offroad (\<not> env_PC env) False,
      PythonProcess ''uploader'' ''system.loggerd.uploader'' uploader_ready True False,
      PythonProcess ''dashcam_uploader'' ''system.loggerd.dashcam_uploader'' only_offroad (env_TICI env) False,
      PythonProcess ''statsd'' ''system.statsd'' always_run True False,
      PythonProcess ''feedbackd'' ''selfdrive.ui.feedback.feedbackd'' only_onroad True False,
      NativeProcess ''bridge'' ''cereal/messaging'' [''./bridge''] notcar True False,
      PythonProcess ''webrtcd'' ''system.webrtc.webrtcd'' notcar True False,
      PythonProcess ''webjoystick'' ''tools.bodyteleop.web'' notcar True False,
      PythonProcess ''joystick'' ''tools.joystick.joystick_control'' (and_fns joystick iscar) True False,
      DaemonProcess ''manage_sunnylinkd'' ''sunnypilot.sunnylink.athena.manage_sunnylinkd'' ''SunnylinkdPid'',
      PythonProcess ''sunnylink_registration_manager'' ''sunnypilot.sunnylink.registration_manager'' sunnylink_need_register_shim True False,
      PythonProcess ''statsd_sp'' ''sunnypilot.sunnylink.statsd'' (and_fns always_run sunnylink_ready_shim) True False]"

definition sunnypilot_procs :: "ProcEnv \<Rightarrow> ManagerProcess list" where
  "sunnypilot_procs env =
     [PythonProcess ''models_manager'' ''sunnypilot.models.manager'' only_offroad True False,
      NativeProcess ''modeld_tinygrad'' ''sunnypilot/modeld_v2'' [''./modeld''] (and_fns only_onroad (is_tinygrad_model env)) True False,
      PythonProcess ''backup_manager'' ''sunnypilot.sunnylink.backups.manager'' (and_fns only_offroad sunnylink_ready_shim) True False,
      NativeProcess ''mapd'' (env_mapd_root env) [''bash'', ''-c'', env_MAPD_PATH env @ '' > /dev/null 2>&1''] (mapd_ready env) True False,
      PythonProcess ''mapd_manager'' ''sunnypilot.mapd.mapd_manager'' always_run True False,
      NativeProcess ''locationd_llk'' ''sunnypilot/selfdrive/locationd'' [''./locationd''] only_onroad True False]"

text \<open>Processes that exist only when their files do, at import.\<close>

definition optional_procs :: "ProcEnv \<Rightarrow> Files \<Rightarrow> ManagerProcess list" where
  "optional_procs env fs =
     (if fs ''./github_runner.sh'' then
        [NativeProcess ''github_runner_start'' ''system/manager'' [''./github_runner.sh'', ''start'']
           (and_fns only_offroad (use_github_runner env)) True False] else [])
     @ (if fs ''../../sunnypilot/sunnylink/uploader.py'' then
        [PythonProcess ''sunnylink_uploader'' ''sunnypilot.sunnylink.uploader'' use_sunnylink_uploader_shim True False] else [])
     @ (if fs ''../../third_party/copyparty/copyparty-sfx.py'' then
        [NativeProcess ''copyparty-sfx'' ''third_party/copyparty''
           [''./copyparty-sfx.py'', ''-v'' @ env_crash_log_root env @ '':/swaglogs:r'',
            ''-v'' @ env_log_root env @ '':/routes:r'', ''-v'' @ env_model_root env @ '':/models:rw'',
            ''-v'' @ env_sunnypilot_root env @ '':/sunnypilot:rw'', ''-p8080'', ''-z'', ''-q'']
           (and_fns only_offroad use_copyparty) True False] else [])"

definition procs :: "ProcEnv \<Rightarrow> Files \<Rightarrow> ManagerProcess list" where
  "procs env fs = base_procs env @ sunnypilot_procs env @ optional_procs env fs"

text \<open>The dictionary by name: a later process of the same name takes the place of an earlier one.\<close>

definition managed_processes :: "ProcEnv \<Rightarrow> Files \<Rightarrow> ManagerProcess list" where
  "managed_processes env fs = map snd (foldl (\<lambda>d p. dict_set (mp_name p) p d) [] (procs env fs))"

end
