(* ===== verification/ManagerProcessLaws.thy ===== *)
theory ManagerProcessLaws
  imports ManagerProcess
begin

text \<open>
  The contract of the process operations: whatever happens to one process, its record stays in step with the
  table of children, no live child is forgotten, and the children of other processes are not touched. The locale
  \<open>process_pass\<close> lifts it to a loop over the processes; every loop of the manager is an interpretation.
\<close>

section \<open>The children of one process\<close>

definition kids :: "string \<Rightarrow> OS \<Rightarrow> int \<rightharpoonup> Child" where
  "kids n os pid = (case os_children os pid of Some c \<Rightarrow> if ch_name c = n then Some c else None | None \<Rightarrow> None)"

definition fresh_pids :: "OS \<Rightarrow> bool" where
  "fresh_pids os \<longleftrightarrow> (\<forall>pid \<ge> os_next_pid os. os_children os pid = None)"

text \<open>The record knows its live child, and what it points to is a child of its name.\<close>

definition proc_ok :: "ManagerProcess \<Rightarrow> OS \<Rightarrow> bool" where
  "proc_ok p os \<longleftrightarrow>
     (\<forall>pid. mp_proc p = Some pid \<longrightarrow> kids (mp_name p) os pid \<noteq> None)
     \<and> (\<forall>pid c. kids (mp_name p) os pid = Some c \<longrightarrow> ch_exitcode c = None \<longrightarrow> mp_proc p = Some pid)
     \<and> (mp_shutting_down p \<longrightarrow> mp_proc p \<noteq> None)
     \<and> (mp_kind p = DaemonKind \<longrightarrow> mp_proc p = None)"

text \<open>Same process: only the child and the flag differ.\<close>

definition same_process :: "ManagerProcess \<Rightarrow> ManagerProcess \<Rightarrow> bool" where
  "same_process p p' \<longleftrightarrow> p' = p\<lparr>mp_proc := mp_proc p', mp_shutting_down := mp_shutting_down p'\<rparr>"

definition op_ok :: "ManagerProcess \<Rightarrow> OS \<Rightarrow> ManagerProcess \<Rightarrow> OS \<Rightarrow> bool" where
  "op_ok p os p' os' \<longleftrightarrow>
     same_process p p' \<and> proc_ok p' os' \<and> fresh_pids os' \<and> (\<forall>m. m \<noteq> mp_name p \<longrightarrow> kids m os' = kids m os)"

lemma same_processD:
  "same_process p p' \<Longrightarrow> mp_name p' = mp_name p" "same_process p p' \<Longrightarrow> mp_kind p' = mp_kind p"
  "same_process p p' \<Longrightarrow> mp_should_run p' = mp_should_run p" "same_process p p' \<Longrightarrow> mp_enabled p' = mp_enabled p"
  "same_process p p' \<Longrightarrow> mp_restart_if_crash p' = mp_restart_if_crash p" "same_process p p' \<Longrightarrow> mp_target p' = mp_target p"
  by (cases p; cases p'; simp add: same_process_def)+

lemma same_process_refl [simp]: "same_process p p"
  by (simp add: same_process_def)

lemma same_process_update [simp]: "same_process p (p\<lparr>mp_proc := x, mp_shutting_down := b\<rparr>)"
  "same_process p (p\<lparr>mp_shutting_down := b, mp_proc := x\<rparr>)" "same_process p (p\<lparr>mp_shutting_down := b\<rparr>)"
  by (cases p; simp add: same_process_def)+

lemma same_process_trans: "same_process p q \<Longrightarrow> same_process q r \<Longrightarrow> same_process p r"
  by (cases p; cases q; cases r; simp add: same_process_def)

lemma op_ok_refl: "proc_ok p os \<Longrightarrow> fresh_pids os \<Longrightarrow> op_ok p os p os"
  by (simp add: op_ok_def)

lemma op_ok_trans:
  "op_ok p os p1 os1 \<Longrightarrow> op_ok p1 os1 p2 os2 \<Longrightarrow> op_ok p os p2 os2"
  unfolding op_ok_def using same_process_trans [of p p1 p2] same_processD(1) [of p p1] by metis

lemma proc_ok_kids: "kids (mp_name p) os' = kids (mp_name p) os \<Longrightarrow> proc_ok p os' = proc_ok p os"
  by (simp add: proc_ok_def)

text \<open>The effect of the system calls on the children.\<close>

lemma kids_update:
  assumes "\<And>c. ch_name (f c) = ch_name c"
  shows "kids n (os_update pid f os) = (\<lambda>x. if x = pid then map_option f (kids n os pid) else kids n os x)"
  using assms by (auto simp: kids_def os_update_def fun_eq_iff split: option.splits)

lemma fresh_update [simp]: "fresh_pids (os_update pid f os) = fresh_pids os"
  by (auto simp: fresh_pids_def os_update_def)

lemma kids_fork:
  assumes "os_fork name os = (pid, os')" "fresh_pids os"
  shows "kids n os' = (if n = name then (kids n os)(pid \<mapsto> \<lparr>ch_name = name, ch_signals = [], ch_exitcode = None\<rparr>) else kids n os)"
    and "fresh_pids os'" and "kids n os pid = None"
proof -
  have os': "pid = os_next_pid os" "os_next_pid os' = pid + 1"
    "os_children os' = (os_children os)(pid \<mapsto> \<lparr>ch_name = name, ch_signals = [], ch_exitcode = None\<rparr>)"
    using assms(1) by (auto simp: os_fork_def Let_def)
  have new: "os_children os pid = None"
    using assms(2) by (simp add: fresh_pids_def os'(1))
  show "kids n os' = (if n = name then (kids n os)(pid \<mapsto> \<lparr>ch_name = name, ch_signals = [], ch_exitcode = None\<rparr>) else kids n os)"
    by (auto simp: kids_def os'(3) new fun_eq_iff)
  show "fresh_pids os'"
    using assms(2) by (simp add: fresh_pids_def os')
  show "kids n os pid = None"
    by (simp add: kids_def new)
qed

text \<open>A process that may act on child \<open>pid\<close>: it is its own.\<close>

lemma own_child:
  assumes "proc_ok p os" "mp_proc p = Some pid"
  obtains c where "os_children os pid = Some c" "ch_name c = mp_name p"
  using assms by (fastforce simp: proc_ok_def kids_def split: option.splits if_splits)

lemma update_own_ok:
  assumes "proc_ok p os" "fresh_pids os" "mp_proc p = Some pid" "\<And>c. ch_name (f c) = ch_name c"
    "\<And>c. ch_exitcode c \<noteq> None \<Longrightarrow> ch_exitcode (f c) \<noteq> None"
  shows "op_ok p os p (os_update pid f os)"
proof -
  obtain c where c: "os_children os pid = Some c" "ch_name c = mp_name p"
    using own_child [OF assms(1,3)] .
  have "m \<noteq> mp_name p \<Longrightarrow> kids m os pid = None" for m
    using c by (simp add: kids_def)
  then show ?thesis
    using assms c by (auto simp: op_ok_def proc_ok_def kids_update fun_eq_iff)
qed

lemma mp_signal_ok: "proc_ok p os \<Longrightarrow> fresh_pids os \<Longrightarrow> op_ok p os p (mp_signal sig p os)"
  by (auto simp: mp_signal_def os_kill_def intro: op_ok_refl update_own_ok split: option.splits)

lemma os_exit_ok: "proc_ok p os \<Longrightarrow> fresh_pids os \<Longrightarrow> mp_proc p = Some pid \<Longrightarrow> op_ok p os p (os_exit pid code os)"
  unfolding os_exit_def by (rule update_own_ok) auto

lemma join_process_ok:
  "proc_ok p os \<Longrightarrow> fresh_pids os \<Longrightarrow> mp_proc p = Some pid \<Longrightarrow> op_ok p os p (join_process obeys pid os)"
  by (auto simp: join_process_def intro: op_ok_refl os_exit_ok split: option.splits)

lemma op_okD:
  "op_ok p os p' os' \<Longrightarrow> proc_ok p' os'" "op_ok p os p' os' \<Longrightarrow> fresh_pids os'" "op_ok p os p' os' \<Longrightarrow> same_process p p'"
  by (simp_all add: op_ok_def)

lemma stop_kill_ok:
  assumes "proc_ok p os" "fresh_pids os" "mp_proc p = Some pid"
  shows "op_ok p os p (stop_kill retry pid p os)"
proof -
  note s = mp_signal_ok [OF assms(1,2), of SIGKILL]
  show ?thesis
    using op_ok_trans [OF s os_exit_ok [OF op_okD(1,2) [OF s] assms(3)]] op_ok_refl [OF assms(1,2)]
    by (simp add: stop_kill_def)
qed

lemma flag_ok: "proc_ok p os \<Longrightarrow> fresh_pids os \<Longrightarrow> mp_proc p = Some pid \<Longrightarrow> op_ok p os (p\<lparr>mp_shutting_down := True\<rparr>) os"
  by (simp add: op_ok_def proc_ok_def)

lemma stop_done_ok:
  assumes "proc_ok p os" "fresh_pids os" "mp_proc p = Some pid" "stop_done pid p os = (ret, p', os')"
  shows "op_ok p os p' os'" "os_exitcode os pid \<noteq> None \<Longrightarrow> mp_proc p' = None"
proof -
  have "op_ok p os p' os' \<and> (os_exitcode os pid \<noteq> None \<longrightarrow> mp_proc p' = None)"
  proof (cases "os_exitcode os pid")
    case None
    then show ?thesis
      using assms op_ok_refl [OF assms(1,2)] by (simp add: stop_done_def)
  next
    case (Some code)
    then have "p' = p\<lparr>mp_shutting_down := False, mp_proc := None\<rparr>" "os' = os"
      using assms(4) by (simp_all add: stop_done_def)
    moreover have "ch_exitcode c \<noteq> None" if "kids (mp_name p) os x = Some c" for x c
      using assms(1,3) Some that
      by (cases "x = pid") (auto simp: proc_ok_def kids_def os_exitcode_def split: option.splits if_splits)
    ultimately show ?thesis
      using assms(1,2) by (auto simp: op_ok_def proc_ok_def)
  qed
  then show "op_ok p os p' os'" "os_exitcode os pid \<noteq> None \<Longrightarrow> mp_proc p' = None"
    by simp_all
qed

text \<open>After SIGKILL and \<open>join\<close> the child has exited.\<close>

lemma stop_kill_dead:
  "proc_ok p os \<Longrightarrow> mp_proc p = Some pid \<Longrightarrow> os_exitcode (stop_kill True pid p os) pid \<noteq> None"
  using own_child [of p os pid]
  by (auto simp: stop_kill_def mp_signal_def os_exit_def os_kill_def os_update_def os_exitcode_def split: option.splits)

lemma kill_wait:
  assumes "proc_ok p os" "fresh_pids os" "mp_proc p = Some pid"
    "stop_done pid p (stop_kill True pid p (join_process obeys pid os)) = (ret, p', os')"
  shows "op_ok p os p' os'" "mp_proc p' = None"
proof -
  note j = join_process_ok [OF assms(1-3), of obeys]
  note k = stop_kill_ok [OF op_okD(1,2) [OF j] assms(3), of True]
  note d = stop_done_ok [OF op_okD(1,2) [OF k] assms(3,4)]
  show "op_ok p os p' os'"
    by (rule op_ok_trans [OF j op_ok_trans [OF k d(1)]])
  show "mp_proc p' = None"
    by (rule d(2) [OF stop_kill_dead [OF op_okD(1) [OF j] assms(3)]])
qed

section \<open>The operations\<close>

lemma mp_stop_ok:
  assumes "proc_ok p os" "fresh_pids os" "mp_stop obeys True block sig p os = (p', os')"
  shows "op_ok p os p' os'"
    and "block \<Longrightarrow> mp_proc p' = None"
    and "mp_shutting_down p \<Longrightarrow> mp_proc p' = None"
    and "mp_proc p' = None \<or> mp_shutting_down p'"
proof -
  have "op_ok p os p' os' \<and> (block \<or> mp_shutting_down p \<longrightarrow> mp_proc p' = None) \<and> (mp_proc p' = None \<or> mp_shutting_down p')"
  proof (cases "mp_kind p = DaemonKind \<or> mp_proc p = None")
    case True
    then have "mp_proc p = None"
      using assms(1) by (auto simp: proc_ok_def)
    moreover have "p' = p" "os' = os"
      using assms(3) calculation by (auto simp: mp_stop_def stop_process_def split: if_splits)
    ultimately show ?thesis
      using op_ok_refl [OF assms(1,2)] by simp
  next
    case False
    then obtain pid where pid: "mp_proc p = Some pid" "mp_kind p \<noteq> DaemonKind" by auto
    show ?thesis
    proof (cases "os_exitcode os pid \<noteq> None \<or> mp_shutting_down p")
      case True
      then obtain ret where "stop_done pid p os = (ret, p', os') \<and> os_exitcode os pid \<noteq> None
          \<or> stop_done pid p (stop_kill True pid p (join_process obeys pid os)) = (ret, p', os')"
        using assms(3) pid
        by (cases "stop_done pid p os"; cases "stop_done pid p (stop_kill True pid p (join_process obeys pid os))")
          (auto simp: mp_stop_def stop_process_def split: if_splits)
      then show ?thesis
        using stop_done_ok [OF assms(1,2) pid(1)] kill_wait [OF assms(1,2) pid(1)] by blast
    next
      case alive: False
      define sg where "sg = (case sig of Some s \<Rightarrow> s | None \<Rightarrow> if mp_sigkill p then SIGKILL else SIGINT)"
      define os1 where "os1 = mp_signal sg p os"
      define p1 where "p1 = p\<lparr>mp_shutting_down := True\<rparr>"
      note sent = mp_signal_ok [OF assms(1,2), of sg, folded os1_def]
      note one = op_ok_trans [OF sent flag_ok [OF op_okD(1,2) [OF sent] pid(1)], folded p1_def]
      have p1: "mp_proc p1 = Some pid" "mp_shutting_down p1"
        using pid by (simp_all add: p1_def)
      show ?thesis
      proof (cases block)
        case False
        then have "p' = p1" "os' = os1"
          using assms(3) pid alive by (simp_all add: mp_stop_def stop_process_def Let_def sg_def os1_def p1_def)
        then show ?thesis
          using one False alive p1 by simp
      next
        case True
        then obtain ret where "stop_done pid p1 (stop_kill True pid p1 (join_process obeys pid os1)) = (ret, p', os')"
          using assms(3) pid alive
          by (cases "stop_done pid p1 (stop_kill True pid p1 (join_process obeys pid os1))")
            (auto simp: mp_stop_def stop_process_def Let_def sg_def os1_def p1_def)
        note w = kill_wait [OF op_okD(1,2) [OF one] p1(1) this]
        show ?thesis
          using op_ok_trans [OF one w(1)] w(2) by simp
      qed
    qed
  qed
  then show "op_ok p os p' os'" "block \<Longrightarrow> mp_proc p' = None" "mp_shutting_down p \<Longrightarrow> mp_proc p' = None"
    "mp_proc p' = None \<or> mp_shutting_down p'"
    by simp_all
qed

lemma start_child_ok:
  assumes "proc_ok p os" "fresh_pids os" "mp_kind p \<noteq> DaemonKind" "start_child obeys p os = (p', os')"
  shows "op_ok p os p' os'"
    and "\<exists>pid. mp_proc p' = Some pid \<and> \<not> mp_shutting_down p'
      \<and> (mp_proc p = None \<or> mp_shutting_down p \<or> os_alive os pid \<longrightarrow> os_alive os' pid)"
proof -
  obtain p1 os1 where one: "(if mp_shutting_down p then mp_stop obeys True True None p os else (p, os)) = (p1, os1)"
    by fastforce
  have ok: "op_ok p os p1 os1" "mp_shutting_down p \<Longrightarrow> mp_proc p1 = None" "\<not> mp_shutting_down p \<Longrightarrow> p1 = p \<and> os1 = os"
    using one mp_stop_ok(1,2) [OF assms(1,2), of obeys True None p1 os1] op_ok_refl [OF assms(1,2)]
    by (auto split: if_splits)
  have "op_ok p os p' os' \<and> (\<exists>pid. mp_proc p' = Some pid \<and> \<not> mp_shutting_down p'
      \<and> (mp_proc p = None \<or> mp_shutting_down p \<or> os_alive os pid \<longrightarrow> os_alive os' pid))"
  proof (cases "mp_proc p1 = None")
    case False
    then have "\<not> mp_shutting_down p"
      using ok(2) by auto
    moreover from this have "p1 = p" "os1 = os"
      using ok(3) by simp_all
    ultimately show ?thesis
      using assms(4) one False ok(1) by (auto simp: start_child_def)
  next
    case True
    obtain pid os2 where f: "os_fork (mp_name p1) os1 = (pid, os2)" by fastforce
    note k = kids_fork [OF f op_okD(2) [OF ok(1)]]
    have e: "p' = p1\<lparr>mp_proc := Some pid, mp_shutting_down := False\<rparr>" "os' = os2"
      using assms(4) one True f by (simp_all add: start_child_def)
    have n: "mp_name p1 = mp_name p" "mp_kind p1 \<noteq> DaemonKind"
      using same_processD(1,2) [OF op_okD(3) [OF ok(1)]] assms(3) by simp_all
    have "op_ok p1 os1 p' os'"
      using op_okD(1) [OF ok(1)] k n True by (auto simp: op_ok_def proc_ok_def e)
    moreover have "os_alive os' pid"
      using f by (auto simp: e os_alive_def os_fork_def Let_def)
    ultimately show ?thesis
      using op_ok_trans [OF ok(1)] by (simp add: e)
  qed
  then show "op_ok p os p' os'" "\<exists>pid. mp_proc p' = Some pid \<and> \<not> mp_shutting_down p'
      \<and> (mp_proc p = None \<or> mp_shutting_down p \<or> os_alive os pid \<longrightarrow> os_alive os' pid)"
    by simp_all
qed

lemma start_daemon_kids: "start_daemon p (os, s) = (os', s') \<Longrightarrow> kids n os' = kids n os"
  by (auto simp: start_daemon_def Let_def kids_def fun_eq_iff split: if_splits option.splits)

lemma start_daemon_fresh: "start_daemon p (os, s) = (os', s') \<Longrightarrow> fresh_pids os \<Longrightarrow> fresh_pids os'"
  by (auto simp: start_daemon_def Let_def fresh_pids_def split: if_splits)

lemma mp_start_ok:
  assumes "proc_ok p os" "fresh_pids os" "mp_start obeys p (os, s) = (p', os', s')"
  shows "op_ok p os p' os'"
proof (cases "mp_kind p = DaemonKind")
  case True
  then have p: "p' = p" "start_daemon p (os, s) = (os', s')"
    using assms(3) by (auto simp: mp_start_def)
  show ?thesis
    using assms(1,2) start_daemon_kids [OF p(2)] start_daemon_fresh [OF p(2)]
    by (simp add: op_ok_def p(1) proc_ok_def)
next
  case False
  then show ?thesis
    using assms start_child_ok(1) [OF assms(1,2) False] by (auto simp: mp_start_def split: prod.splits)
qed

lemma mp_restart_ok:
  assumes "proc_ok p os" "fresh_pids os" "mp_restart obeys p (os, s) = (p', os', s')"
  shows "op_ok p os p' os'"
proof -
  obtain p1 os1 where one: "mp_stop obeys True True (Some SIGKILL) p os = (p1, os1)" by fastforce
  note ok = mp_stop_ok(1) [OF assms(1,2) one]
  have "mp_start obeys p1 (os1, s) = (p', os', s')"
    using assms(3) one by (simp add: mp_restart_def)
  then show ?thesis
    using op_ok_trans [OF ok mp_start_ok [OF op_okD(1,2) [OF ok]]] by blast
qed

lemma settle_process_ok:
  assumes "proc_ok p os" "fresh_pids os" "settle_process obeys fs not_run started CP p (os, s) = ((w, p'), os', s')"
  shows "op_ok p os p' os'"
proof -
  obtain wanted s1 where w: "mp_wanted fs not_run started CP p s = (wanted, s1)" by fastforce
  obtain q os2 where st: "mp_stop obeys True False None p os = (q, os2)" by fastforce
  obtain q3 os3 s3 where re: "mp_restart obeys p (os, s1) = (q3, os3, s3)" by (cases "mp_restart obeys p (os, s1)") auto
  show ?thesis
    using assms(3) w st re mp_stop_ok(1) [OF assms(1,2) st] mp_restart_ok [OF assms(1,2) re] op_ok_refl [OF assms(1,2)]
    by (auto simp: settle_process_def split: if_splits)
qed

lemma start_wanted_ok:
  assumes "proc_ok (snd x) os" "fresh_pids os" "start_wanted obeys x (os, s) = (p', os', s')"
  shows "op_ok (snd x) os p' os'"
  using assms mp_start_ok [OF assms(1,2)] op_ok_refl [OF assms(1,2)] by (auto simp: start_wanted_def split: if_splits)

section \<open>Loops over the processes\<close>

text \<open>The table of children and the processes agree: every live child is known to exactly one process.\<close>

definition managed :: "ManagerProcess list \<Rightarrow> OS \<Rightarrow> bool" where
  "managed ps os \<longleftrightarrow>
     fresh_pids os \<and> distinct (map mp_name ps) \<and> (\<forall>p\<in>set ps. proc_ok p os)
     \<and> (\<forall>pid c. os_children os pid = Some c \<longrightarrow> ch_exitcode c = None \<longrightarrow> ch_name c \<in> mp_name ` set ps)"

text \<open>The states a process had in a loop: its own children are as they were before its turn, and stay afterwards.\<close>

definition its_turn :: "('a \<Rightarrow> OS \<times> ParamStore \<Rightarrow> 'b \<times> OS \<times> ParamStore) \<Rightarrow> string \<Rightarrow> 'a \<Rightarrow> OS \<Rightarrow> 'b \<Rightarrow> OS \<Rightarrow> bool" where
  "its_turn f n x os y os' \<longleftrightarrow>
     (\<exists>os1 s1 os2 s2. f x (os1, s1) = (y, os2, s2) \<and> fresh_pids os1 \<and> kids n os1 = kids n os \<and> kids n os2 = kids n os')"

locale process_pass =
  fixes f :: "'a \<Rightarrow> OS \<times> ParamStore \<Rightarrow> 'b \<times> OS \<times> ParamStore"
    and before :: "'a \<Rightarrow> ManagerProcess" and after :: "'b \<Rightarrow> ManagerProcess"
  assumes step_ok: "proc_ok (before x) os \<Longrightarrow> fresh_pids os \<Longrightarrow> f x (os, s) = (y, os', s') \<Longrightarrow>
    op_ok (before x) os (after y) os'"
begin

lemma pass_ok:
  assumes "for_each f xs (os, s) = (ys, os', s')" "fresh_pids os" "\<forall>x\<in>set xs. proc_ok (before x) os"
    "distinct (map (mp_name \<circ> before) xs)"
  shows "fresh_pids os' \<and> (\<forall>m. m \<notin> (mp_name \<circ> before) ` set xs \<longrightarrow> kids m os' = kids m os)
    \<and> list_all2 (\<lambda>x y. same_process (before x) (after y) \<and> proc_ok (after y) os'
        \<and> its_turn f (mp_name (before x)) x os y os') xs ys"
  using assms
proof (induction xs arbitrary: os s ys os' s')
  case Nil
  then show ?case by simp
next
  case (Cons x xs)
  obtain y os1 s1 where one: "f x (os, s) = (y, os1, s1)" by (cases "f x (os, s)") auto
  obtain zs os2 s2 where rest: "for_each f xs (os1, s1) = (zs, os2, s2)" by (cases "for_each f xs (os1, s1)") auto
  have e: "ys = y # zs" "os' = os2"
    using Cons.prems(1) one rest by simp_all
  have ok: "op_ok (before x) os (after y) os1"
    using step_ok [OF _ Cons.prems(2) one] Cons.prems(3) by simp
  have others: "m \<noteq> mp_name (before x) \<Longrightarrow> kids m os1 = kids m os" for m
    using ok by (simp add: op_ok_def)
  have zs_ok: "\<forall>z\<in>set xs. proc_ok (before z) os1"
  proof
    fix z
    assume z: "z \<in> set xs"
    then have "mp_name (before z) \<noteq> mp_name (before x)"
      using Cons.prems(4) by (auto simp: image_iff)
    show "proc_ok (before z) os1"
      unfolding proc_ok_kids [OF others [OF \<open>mp_name (before z) \<noteq> mp_name (before x)\<close>]]
      using Cons.prems(3) z by simp
  qed
  have d: "distinct (map (mp_name \<circ> before) xs)" "mp_name (before x) \<notin> (mp_name \<circ> before) ` set xs"
    using Cons.prems(4) by (auto simp: comp_def)
  note IH = Cons.IH [OF rest op_okD(2) [OF ok] zs_ok d(1)]
  have mine: "kids (mp_name (before x)) os2 = kids (mp_name (before x)) os1"
    using IH d(2) by blast
  have "its_turn f (mp_name (before x)) x os y os2"
    unfolding its_turn_def using one Cons.prems(2) mine
    by (intro exI [of _ os] exI [of _ s] exI [of _ os1] exI [of _ s1]) simp
  moreover have "same_process (before x) (after y)" "proc_ok (after y) os2"
    using op_okD(1,3) [OF ok] proc_ok_kids [of "after y" os2 os1] mine same_processD(1) [OF op_okD(3) [OF ok]] by simp_all
  moreover have "list_all2 (\<lambda>x y. same_process (before x) (after y) \<and> proc_ok (after y) os2
      \<and> its_turn f (mp_name (before x)) x os y os2) xs zs"
  proof (rule list_all2_mono [of "\<lambda>x y. x \<in> set xs \<and> (same_process (before x) (after y) \<and> proc_ok (after y) os2
      \<and> its_turn f (mp_name (before x)) x os1 y os2)"])
    show "list_all2 (\<lambda>x y. x \<in> set xs \<and> (same_process (before x) (after y) \<and> proc_ok (after y) os2
      \<and> its_turn f (mp_name (before x)) x os1 y os2)) xs zs"
      using IH by (auto simp: list_all2_conv_all_nth)
  next
    fix z w
    assume a: "z \<in> set xs \<and> (same_process (before z) (after w) \<and> proc_ok (after w) os2
      \<and> its_turn f (mp_name (before z)) z os1 w os2)"
    then have "mp_name (before z) \<noteq> mp_name (before x)"
      using d(2) by (auto simp: image_iff)
    then show "same_process (before z) (after w) \<and> proc_ok (after w) os2 \<and> its_turn f (mp_name (before z)) z os w os2"
      using a others by (simp add: its_turn_def)
  qed
  moreover have "kids m os2 = kids m os" if "m \<notin> (mp_name \<circ> before) ` set (x # xs)" for m
    using that IH others by simp
  ultimately show ?case
    using IH by (simp add: e)
qed

lemma pass_managed:
  assumes "managed (map before xs) os" "for_each f xs (os, s) = (ys, os', s')"
  shows "managed (map after ys) os'"
    and "list_all2 (\<lambda>x y. same_process (before x) (after y) \<and> proc_ok (after y) os'
      \<and> its_turn f (mp_name (before x)) x os y os') xs ys"
proof -
  have pre: "fresh_pids os" "\<forall>x\<in>set xs. proc_ok (before x) os" "distinct (map (mp_name \<circ> before) xs)"
    using assms(1) by (simp_all add: managed_def)
  note ok = pass_ok [OF assms(2) pre]
  then show l: "list_all2 (\<lambda>x y. same_process (before x) (after y) \<and> proc_ok (after y) os'
      \<and> its_turn f (mp_name (before x)) x os y os') xs ys"
    by blast
  have names: "map (mp_name \<circ> after) ys = map (mp_name \<circ> before) xs"
    using l by (induction rule: list_all2_induct) (simp_all add: same_processD(1))
  have ys: "\<forall>y\<in>set ys. proc_ok (after y) os'"
    using l by (induction rule: list_all2_induct) simp_all
  have "ch_name c \<in> (mp_name \<circ> before) ` set xs" if c: "os_children os' pid = Some c" "ch_exitcode c = None" for pid c
  proof (rule ccontr)
    assume out: "ch_name c \<notin> (mp_name \<circ> before) ` set xs"
    then have "kids (ch_name c) os = kids (ch_name c) os'"
      using ok by metis
    moreover have "kids (ch_name c) os' pid = Some c"
      using c(1) by (simp add: kids_def)
    ultimately have "kids (ch_name c) os pid = Some c"
      by simp
    then show False
      using assms(1) c(2) out by (force simp: managed_def kids_def split: option.splits if_splits)
  qed
  moreover have "mp_name ` set (map after ys) = (mp_name \<circ> before) ` set xs" "distinct (map mp_name (map after ys))"
    using arg_cong [OF names, of set] names pre(3) by (simp_all add: image_comp comp_def)
  ultimately show "managed (map after ys) os'"
    using ok ys unfolding managed_def by auto
qed

end

interpretation settle: process_pass "settle_process obeys fs not_run started CP" "\<lambda>p. p" snd
  for obeys fs not_run started CP
proof unfold_locales
  fix p os s y os' s'
  assume "proc_ok p os" "fresh_pids os" "settle_process obeys fs not_run started CP p (os, s) = (y, os', s')"
  then show "op_ok p os (snd y) os'"
    using settle_process_ok by (cases y) auto
qed

interpretation start: process_pass "start_wanted obeys" snd "\<lambda>p. p" for obeys
  by unfold_locales (rule start_wanted_ok)

text \<open>Both loops of \<open>ensure_running\<close>.\<close>

lemma ensure_running_managed:
  assumes "managed ps os" "ensure_running obeys fs not_run started CP ps (os, s) = (running, ps', os', s')"
  shows "managed ps' os'" "map mp_name ps' = map mp_name ps"
proof -
  obtain xs os1 s1 where one: "settle_all obeys fs not_run started CP ps (os, s) = (xs, os1, s1)"
    by (cases "settle_all obeys fs not_run started CP ps (os, s)") auto
  have two: "start_all obeys xs (os1, s1) = (ps', os', s')"
    using assms(2) one by (auto simp: ensure_running_def split: prod.splits)
  have "managed (map (\<lambda>p. p) ps) os"
    using assms(1) by simp
  note m1 = settle.pass_managed [OF this one [unfolded settle_all_def]]
  note m2 = start.pass_managed [OF m1(1) two [unfolded start_all_def]]
  show "managed ps' os'"
    using m2(1) by simp
  have "map (mp_name \<circ> snd) xs = map mp_name ps"
    using m1(2) by (induction rule: list_all2_induct) (simp_all add: same_processD(1))
  moreover have "map mp_name ps' = map (mp_name \<circ> snd) xs"
    using m2(2) by (induction rule: list_all2_induct) (simp_all add: same_processD(1))
  ultimately show "map mp_name ps' = map mp_name ps"
    by simp
qed

end
