(* ===== verification/Manager.thy ===== *)
theory Manager
  imports ProcessConfig ManagerProcessLaws
begin

text \<open>
  The manager, \<open>system/manager/manager.py\<close>: the parameters it sets when it starts, the loop that keeps the
  processes running, and the cleanup. A round is the function \<open>manager_round\<close>; what the rest of the system does
  between rounds (children that exit, parameters written by others) is part of its input. The registration of
  this fork (\<open>system/athena/registration.py\<close>) always stores the dongle id of an unregistered device. Importing the
  modules, log files, folders, the watchdog file and the power commands themselves are not modelled.
\<close>

section \<open>manager_init\<close>

record InitInput =
  ii_version :: string
  ii_git_commit :: string
  ii_git_commit_date :: string
  ii_channel :: string
  ii_git_origin :: string
  ii_development_channel :: bool
  ii_tested_channel :: bool
  ii_release_channel :: bool
  ii_release_sp_channel :: bool
  ii_serial :: string
  ii_migration :: "string \<rightharpoonup> string" \<comment> \<open>\<open>MIGRATION\<close> of opendbc\<close>
  ii_car_list :: "(string \<times> JSON) list"
  ii_offroad_alert :: "string \<Rightarrow> JSON" \<comment> \<open>the texts of \<open>alerts_offroad.json\<close>\<close>

definition UNREGISTERED_DONGLE_ID :: string where "UNREGISTERED_DONGLE_ID = ''UnregisteredDevice''"

definition set_offroad_param :: "(string \<Rightarrow> JSON) \<Rightarrow> string \<Rightarrow> bool \<Rightarrow> ParamStore \<Rightarrow> ParamStore" where
  "set_offroad_param texts alert show_alert s = s(alert := if show_alert then Some (PJson (texts alert)) else None)"

text \<open>The write of the id is queued; it is taken as done when the call returns.\<close>

definition register :: "ProcEnv \<Rightarrow> InitInput \<Rightarrow> ParamStore \<Rightarrow> string \<times> ParamStore" where
  "register env ii s =
     (let dongle_id = UNREGISTERED_DONGLE_ID
      in (dongle_id,
          set_offroad_param (ii_offroad_alert ii) ''Offroad_UnregisteredHardware''
            (dongle_id = UNREGISTERED_DONGLE_ID \<and> \<not> env_PC env) (s(''DongleId'' \<mapsto> PStr dongle_id))))"

definition clear_on_start :: "ParamStore \<Rightarrow> ParamStore" where
  "clear_on_start s =
     clear_all CLEAR_ON_IGNITION_ON (clear_all CLEAR_ON_OFFROAD_TRANSITION
       (clear_all CLEAR_ON_ONROAD_TRANSITION (clear_all CLEAR_ON_MANAGER_START s)))"

definition boot_params :: "ProcEnv \<Rightarrow> InitInput \<Rightarrow> ParamStore \<Rightarrow> ParamStore" where
  "boot_params env ii s0 =
     (let s1 = (if ps_get ''DeviceBootMode'' s0 = Some (PInt 1) then ps_put_bool ''OffroadMode'' True s0 else s0);
          s2 = (if ps_get_bool ''RecordFrontLock'' s1 then ps_put_bool ''RecordFront'' True s1 else s1)
      in if env_PC env then s2 else run_migration (ii_migration ii) (ii_car_list ii) s2)"

definition version_params :: "InitInput \<Rightarrow> ParamStore \<Rightarrow> ParamStore" where
  "version_params ii s =
     s(''Version'' \<mapsto> PStr (ii_version ii), ''GitCommit'' \<mapsto> PStr (ii_git_commit ii),
       ''GitCommitDate'' \<mapsto> PStr (ii_git_commit_date ii), ''GitBranch'' \<mapsto> PStr (ii_channel ii),
       ''GitRemote'' \<mapsto> PStr (ii_git_origin ii), ''IsDevelopmentBranch'' \<mapsto> PBool (ii_development_channel ii),
       ''IsTestedBranch'' \<mapsto> PBool (ii_tested_channel ii), ''IsReleaseBranch'' \<mapsto> PBool (ii_release_channel ii),
       ''IsReleaseSpBranch'' \<mapsto> PBool (ii_release_sp_channel ii), ''HardwareSerial'' \<mapsto> PStr (ii_serial ii))"

definition manager_init :: "ProcEnv \<Rightarrow> InitInput \<Rightarrow> ParamStore \<Rightarrow> ParamStore" where
  "manager_init env ii s =
     snd (register env ii (version_params ii (set_defaults (boot_params env ii (clear_on_start s)))))"

section \<open>The loop\<close>

record Manager =
  mg_procs :: "ManagerProcess list"
  mg_os :: OS
  mg_params :: ParamStore
  mg_ignore :: "string list"
  mg_started_prev :: bool
  mg_ignition_prev :: bool

definition write_onroad_params :: "bool \<Rightarrow> ParamStore \<Rightarrow> ParamStore" where
  "write_onroad_params started s = ps_put_bool ''IsOffroad'' (\<not> started) (ps_put_bool ''IsOnroad'' started s)"

text \<open>\<open>block\<close> is the environment variable \<open>BLOCK\<close>, split at commas; \<open>noboard\<close> that \<open>NOBOARD\<close> is set.\<close>

definition ignored :: "bool \<Rightarrow> string list \<Rightarrow> ParamStore \<Rightarrow> string list" where
  "ignored noboard block s =
     (if ps_get ''DongleId'' s \<in> {None, Some (PStr UNREGISTERED_DONGLE_ID)} then [''manage_athenad'', ''uploader''] else [])
     @ (if noboard then [''pandad''] else []) @ filter (\<lambda>x. x \<noteq> []) block"

definition manager_start :: "Obeys \<Rightarrow> Files \<Rightarrow> CarParams \<Rightarrow> bool \<Rightarrow> string list \<Rightarrow> ManagerProcess list \<Rightarrow> OS \<Rightarrow> ParamStore \<Rightarrow> Manager" where
  "manager_start obeys fs CP noboard block ps os s0 =
     (let ignore = ignored noboard block s0;
          (_, ps', os', s) = ensure_running obeys fs ignore False CP ps (os, write_onroad_params False s0)
      in \<lparr>mg_procs = ps', mg_os = os', mg_params = s, mg_ignore = ignore, mg_started_prev = False, mg_ignition_prev = False\<rparr>)"

record MgPanda =
  mgp_ignitionLine :: bool
  mgp_ignitionCan :: bool
  mgp_unknown :: bool

record ManagerInput =
  mi_exits :: "(int \<times> int) list" \<comment> \<open>children that exited, with their codes\<close>
  mi_writes :: "(string \<times> ParamVal option) list" \<comment> \<open>parameters written or removed by others\<close>
  mi_files :: Files
  mi_started :: bool
  mi_pandas :: "MgPanda list"
  mi_CP :: CarParams
  mi_now :: string \<comment> \<open>\<open>datetime.now()\<close> as text\<close>

definition mi_ignition :: "ManagerInput \<Rightarrow> bool" where
  "mi_ignition mi = list_ex (\<lambda>p. mgp_ignitionLine p \<or> mgp_ignitionCan p) (filter (\<lambda>p. \<not> mgp_unknown p) (mi_pandas mi))"

text \<open>What happened since the last round.\<close>

definition others_act :: "ManagerInput \<Rightarrow> Manager \<Rightarrow> Manager" where
  "others_act mi mg =
     mg\<lparr>mg_os := fold (\<lambda>(pid, code). os_exit pid code) (mi_exits mi) (mg_os mg),
        mg_params := fold (\<lambda>(k, v) s. s(k := v)) (mi_writes mi) (mg_params mg)\<rparr>"

definition clear_transition :: "bool \<Rightarrow> bool \<Rightarrow> ParamStore \<Rightarrow> ParamStore" where
  "clear_transition started started_prev s =
     (if started \<and> \<not> started_prev then clear_all CLEAR_ON_ONROAD_TRANSITION s
      else if \<not> started \<and> started_prev then clear_all CLEAR_ON_OFFROAD_TRANSITION s else s)"

definition round_params :: "ManagerInput \<Rightarrow> Manager \<Rightarrow> ParamStore" where
  "round_params mi mg =
     (let started = mi_started mi;
          s1 = clear_transition started (mg_started_prev mg) (mg_params mg);
          s2 = (if mi_ignition mi \<and> \<not> mg_ignition_prev mg then clear_all CLEAR_ON_IGNITION_ON s1 else s1)
      in if started \<noteq> mg_started_prev mg then write_onroad_params started s2 else s2)"

text \<open>The shutdown parameters, and the reason kept from the last of them.\<close>

definition SHUTDOWN_PARAMS :: "string list" where
  "SHUTDOWN_PARAMS = [''DoUninstall'', ''DoShutdown'', ''DoReboot'']"

definition check_shutdown :: "string \<Rightarrow> ParamStore \<Rightarrow> bool \<times> ParamStore" where
  "check_shutdown now s =
     fold (\<lambda>param (shutdown, s').
        if ps_get_bool param s' then (True, s'(''LastManagerExitReason'' \<mapsto> PStr (param @ '' '' @ now))) else (shutdown, s'))
       SHUTDOWN_PARAMS (False, s)"

definition manager_round :: "Obeys \<Rightarrow> ManagerInput \<Rightarrow> Manager \<Rightarrow> MgProcessState list \<times> bool \<times> Manager" where
  "manager_round obeys mi mg0 =
     (let mg = others_act mi mg0;
          (_, ps, os, s1) = ensure_running obeys (mi_files mi) (mg_ignore mg) (mi_started mi) (mi_CP mi) (mg_procs mg)
            (mg_os mg, round_params mi mg);
          (shutdown, s) = check_shutdown (mi_now mi) s1
      in (map (get_process_state_msg os) ps, shutdown,
          mg\<lparr>mg_procs := ps, mg_os := os, mg_params := s, mg_started_prev := mi_started mi,
             mg_ignition_prev := mi_ignition mi\<rparr>))"

text \<open>The loop ends after the round that saw a shutdown parameter.\<close>

fun manager_run :: "Obeys \<Rightarrow> ManagerInput list \<Rightarrow> Manager \<Rightarrow> Manager" where
  "manager_run obeys [] mg = mg"
| "manager_run obeys (mi # mis) mg =
     (let (_, shutdown, mg') = manager_round obeys mi mg in if shutdown then mg' else manager_run obeys mis mg')"

section \<open>Cleanup and power\<close>

definition stop_one :: "Obeys \<Rightarrow> bool \<Rightarrow> ManagerProcess \<Rightarrow> OS \<times> ParamStore \<Rightarrow> ManagerProcess \<times> OS \<times> ParamStore" where
  "stop_one obeys block p = (\<lambda>(os, s). let (p', os') = mp_stop obeys True block None p os in (p', os', s))"

definition manager_cleanup :: "Obeys \<Rightarrow> Manager \<Rightarrow> Manager" where
  "manager_cleanup obeys mg =
     (let (ps1, w1) = for_each (stop_one obeys False) (mg_procs mg) (mg_os mg, mg_params mg);
          (ps2, os2, s2) = for_each (stop_one obeys True) ps1 w1
      in mg\<lparr>mg_procs := ps2, mg_os := os2, mg_params := s2\<rparr>)"

datatype PowerAction = Uninstall | Reboot | Shutdown

definition power_action :: "ParamStore \<Rightarrow> PowerAction option" where
  "power_action s =
     (if ps_get_bool ''DoUninstall'' s then Some Uninstall
      else if ps_get_bool ''DoReboot'' s then Some Reboot
      else if ps_get_bool ''DoShutdown'' s then Some Shutdown
      else None)"

text \<open>Everything a run of the program starts from.\<close>

record ManagerSetup =
  su_obeys :: Obeys
  su_env :: ProcEnv
  su_init :: InitInput
  su_files :: Files
  su_CP :: CarParams \<comment> \<open>of the message default\<close>
  su_noboard :: bool
  su_block :: "string list"
  su_next_pid :: int
  su_others :: "int \<rightharpoonup> string"
  su_params :: ParamStore

definition manager_boot :: "ManagerSetup \<Rightarrow> Manager" where
  "manager_boot su =
     manager_start (su_obeys su) (su_files su) (su_CP su) (su_noboard su) (su_block su)
       (managed_processes (su_env su) (su_files su))
       \<lparr>os_next_pid = su_next_pid su, os_children = Map.empty, os_others = su_others su\<rparr>
       (manager_init (su_env su) (su_init su) (su_params su))"

definition manager_after :: "ManagerSetup \<Rightarrow> ManagerInput list \<Rightarrow> Manager" where
  "manager_after su mis = manager_run (su_obeys su) mis (manager_boot su)"

text \<open>
  \<open>main\<close>: the loop ends after a round that saw a shutdown parameter or, by an exception or signal, between two
  rounds (the list of inputs ends), and the cleanup follows. An exception inside \<open>ensure_running\<close>, after a
  \<open>Process\<close> was created and before it was started, is not modelled.
\<close>

definition manager_main :: "ManagerSetup \<Rightarrow> ManagerInput list \<Rightarrow> Manager \<times> PowerAction option" where
  "manager_main su mis =
     (let mg = manager_cleanup (su_obeys su) (manager_after su mis) in (mg, power_action (mg_params mg)))"

end
