(* ===== verification/ManagerInvariant.thy ===== *)
theory ManagerInvariant
  imports Manager
begin

text \<open>
  What the reachable states of the manager keep: the table of children agrees with the processes, and the
  processes are those of the table. One round is traced for each process (\<open>its_round\<close>), and the parameters a
  round may write are bounded (\<open>round_params_kept\<close>).
\<close>

section \<open>The processes and their children\<close>

interpretation halt: process_pass "stop_one obeys block" "\<lambda>p. p" "\<lambda>p. p" for obeys block
proof unfold_locales
  fix p os s p' os' s'
  assume "proc_ok p os" "fresh_pids os" "stop_one obeys block p (os, s) = (p', os', s')"
  then show "op_ok p os p' os'"
    using mp_stop_ok(1) by (auto simp: stop_one_def split: prod.splits)
qed

lemma foldl_dict_names:
  assumes "distinct (map fst d)" "\<forall>(k, p)\<in>set d. k = mp_name p \<and> P p" "\<forall>p\<in>set ps. P p"
  shows "distinct (map fst (foldl (\<lambda>d p. dict_set (mp_name p) p d) d ps))
    \<and> (\<forall>(k, p)\<in>set (foldl (\<lambda>d p. dict_set (mp_name p) p d) d ps). k = mp_name p \<and> P p)"
  using assms
proof (induction ps arbitrary: d)
  case (Cons q ps)
  have "(k, p) \<in> set (dict_set (mp_name q) q d) \<Longrightarrow> k = mp_name p \<and> P p" for k p
  proof -
    have "x \<in> set (dict_set (mp_name q) q d) \<Longrightarrow> x = (mp_name q, q) \<or> x \<in> set d" for x
      by (induction d) (auto split: if_splits)
    then show "(k, p) \<in> set (dict_set (mp_name q) q d) \<Longrightarrow> k = mp_name p \<and> P p"
      using Cons.prems(2,3) by fastforce
  qed
  then have "\<forall>(k, p)\<in>set (dict_set (mp_name q) q d). k = mp_name p \<and> P p"
    by blast
  from Cons.IH [OF distinct_dict_set [OF Cons.prems(1)] this] show ?case
    using Cons.prems(3) by simp
qed simp

lemma managed_processes_from:
  assumes "\<forall>p\<in>set (procs env fs). P p"
  shows "distinct (map mp_name (managed_processes env fs))" "\<forall>p\<in>set (managed_processes env fs). P p"
proof -
  let ?d = "foldl (\<lambda>d p. dict_set (mp_name p) p d) [] (procs env fs)"
  have d: "distinct (map fst ?d)" "\<forall>(k, p)\<in>set ?d. k = mp_name p \<and> P p"
    using foldl_dict_names [of "[]" P "procs env fs"] assms by simp_all
  then have "map mp_name (managed_processes env fs) = map fst ?d"
    by (auto simp: managed_processes_def)
  then show "distinct (map mp_name (managed_processes env fs))"
    using d(1) by simp
  show "\<forall>p\<in>set (managed_processes env fs). P p"
    using d(2) by (auto simp: managed_processes_def)
qed

text \<open>A new table has no child.\<close>

lemma procs_new: "p \<in> set (procs env fs) \<Longrightarrow> mp_proc p = None \<and> \<not> mp_shutting_down p"
  by (auto simp: procs_def base_procs_def sunnypilot_procs_def optional_procs_def NativeProcess_def PythonProcess_def
      DaemonProcess_def split: if_splits)

lemma managed_boot:
  "managed (managed_processes env fs) \<lparr>os_next_pid = n, os_children = Map.empty, os_others = others\<rparr>"
proof -
  have new: "\<forall>p\<in>set (procs env fs). mp_proc p = None \<and> \<not> mp_shutting_down p"
    using procs_new by blast
  show ?thesis
    using managed_processes_from [OF new] by (simp add: managed_def fresh_pids_def proc_ok_def kids_def)
qed

lemma managed_exit: "managed ps os \<Longrightarrow> managed ps (os_exit pid code os)"
proof -
  assume m: "managed ps os"
  have k: "kids n (os_exit pid code os) x = Some c \<Longrightarrow> \<exists>c0. kids n os x = Some c0 \<and> (ch_exitcode c = None \<longrightarrow> c0 = c)" for n x c
    by (auto simp: os_exit_def kids_update split: if_splits)
  have d: "kids n os x \<noteq> None \<Longrightarrow> kids n (os_exit pid code os) x \<noteq> None" for n x
    by (auto simp: os_exit_def kids_update)
  have "proc_ok p os \<Longrightarrow> proc_ok p (os_exit pid code os)" for p
    using k d unfolding proc_ok_def by metis
  moreover have "\<exists>c0. os_children os x = Some c0 \<and> (ch_exitcode c = None \<longrightarrow> c0 = c)"
    if "os_children (os_exit pid code os) x = Some c" for x c
    using that by (auto simp: os_exit_def os_update_def split: if_splits)
  moreover have "fresh_pids (os_exit pid code os)"
    using m by (simp add: os_exit_def managed_def)
  ultimately show ?thesis
    using m unfolding managed_def by metis
qed

lemma managed_others: "managed (mg_procs mg) (mg_os mg) \<Longrightarrow> managed (mg_procs mg) (mg_os (others_act mi mg))"
proof -
  assume m: "managed (mg_procs mg) (mg_os mg)"
  have "managed (mg_procs mg) os \<Longrightarrow> managed (mg_procs mg) (fold (\<lambda>(pid, code). os_exit pid code) xs os)" for xs os
    by (induction xs arbitrary: os) (auto simp: managed_exit)
  then show ?thesis
    using m by (simp add: others_act_def)
qed

lemma others_act_fields [simp]:
  "mg_procs (others_act mi mg) = mg_procs mg" "mg_ignore (others_act mi mg) = mg_ignore mg"
  "mg_started_prev (others_act mi mg) = mg_started_prev mg" "mg_ignition_prev (others_act mi mg) = mg_ignition_prev mg"
  by (simp_all add: others_act_def)

definition next_manager :: "Obeys \<Rightarrow> ManagerInput \<Rightarrow> Manager \<Rightarrow> Manager" where
  "next_manager obeys mi mg = snd (snd (manager_round obeys mi mg))"

text \<open>What the reachable states keep: the table of children, and the processes of the list up to their children.\<close>

definition mg_ok :: "ManagerProcess list \<Rightarrow> string list \<Rightarrow> Manager \<Rightarrow> bool" where
  "mg_ok ps ignore mg \<longleftrightarrow>
     managed (mg_procs mg) (mg_os mg) \<and> list_all2 same_process ps (mg_procs mg) \<and> mg_ignore mg = ignore"

section \<open>One process in one round\<close>

lemma alive_kids:
  "proc_ok p os \<Longrightarrow> mp_proc p = Some pid \<Longrightarrow> os_alive os pid \<longleftrightarrow> (\<exists>c. kids (mp_name p) os pid = Some c \<and> ch_exitcode c = None)"
  by (auto simp: proc_ok_def os_alive_def kids_def split: option.splits if_splits)

lemma no_live_kids:
  assumes "proc_ok p os" "mp_proc p = None" "os_children os pid = Some c" "ch_name c = mp_name p"
  shows "ch_exitcode c \<noteq> None"
proof -
  have "kids (mp_name p) os pid = Some c"
    using assms(3,4) by (simp add: kids_def)
  then show ?thesis
    using assms(1,2) by (auto simp: proc_ok_def)
qed

definition its_round :: "Obeys \<Rightarrow> Files \<Rightarrow> string list \<Rightarrow> bool \<Rightarrow> CarParams \<Rightarrow> ManagerProcess \<Rightarrow> OS \<Rightarrow> ManagerProcess \<Rightarrow> OS \<Rightarrow> bool" where
  "its_round obeys fs not_run started CP p os p' os' \<longleftrightarrow>
     (\<exists>wq os1. its_turn (settle_process obeys fs not_run started CP) (mp_name p) p os wq os1 \<and> same_process p (snd wq)
        \<and> its_turn (start_wanted obeys) (mp_name p) wq os1 p' os')"

lemma ensure_running_each:
  assumes "managed ps os" "ensure_running obeys fs not_run started CP ps (os, s) = (running, ps', os', s')"
  shows "list_all2 (\<lambda>p p'. same_process p p' \<and> proc_ok p' os' \<and> its_round obeys fs not_run started CP p os p' os') ps ps'"
proof -
  obtain xs os1 s1 where one: "settle_all obeys fs not_run started CP ps (os, s) = (xs, os1, s1)"
    by (cases "settle_all obeys fs not_run started CP ps (os, s)") auto
  have two: "start_all obeys xs (os1, s1) = (ps', os', s')"
    using assms(2) one by (auto simp: ensure_running_def split: prod.splits)
  have "managed (map (\<lambda>p. p) ps) os"
    using assms(1) by simp
  note m1 = settle.pass_managed [OF this one [unfolded settle_all_def]]
  note m2 = start.pass_managed(2) [OF m1(1) two [unfolded start_all_def]]
  show ?thesis
  proof (rule list_all2_trans [OF _ m1(2) m2])
    fix p wq p'
    assume a: "same_process p (snd wq) \<and> proc_ok (snd wq) os1
        \<and> its_turn (settle_process obeys fs not_run started CP) (mp_name p) p os wq os1"
      and b: "same_process (snd wq) p' \<and> proc_ok p' os' \<and> its_turn (start_wanted obeys) (mp_name (snd wq)) wq os1 p' os'"
    have "mp_name (snd wq) = mp_name p"
      using a same_processD(1) by blast
    then show "same_process p p' \<and> proc_ok p' os' \<and> its_round obeys fs not_run started CP p os p' os'"
      using a b same_process_trans unfolding its_round_def by metis
  qed
qed

lemma its_turnE:
  assumes "its_turn f n x os y os'"
  obtains os1 s1 os2 s2 where "f x (os1, s1) = (y, os2, s2)" "fresh_pids os1" "kids n os1 = kids n os" "kids n os2 = kids n os'"
  using assms unfolding its_turn_def by blast

lemma unwanted_round:
  assumes "proc_ok p os" "its_round obeys fs not_run started CP p os p' os'"
    "\<And>s. \<not> fst (mp_wanted fs not_run started CP p s)"
  shows "mp_proc p' = None \<or> mp_shutting_down p'" "mp_shutting_down p \<Longrightarrow> mp_proc p' = None"
    "mp_proc p = None \<Longrightarrow> kids (mp_name p) os' = kids (mp_name p) os \<and> mp_proc p' = None"
proof -
  obtain wq os1 where t: "its_turn (settle_process obeys fs not_run started CP) (mp_name p) p os wq os1"
    "its_turn (start_wanted obeys) (mp_name p) wq os1 p' os'"
    using assms(2) unfolding its_round_def by blast
  from t(1) obtain osa sa osb sb where a: "settle_process obeys fs not_run started CP p (osa, sa) = (wq, osb, sb)"
    "fresh_pids osa" "kids (mp_name p) osa = kids (mp_name p) os" "kids (mp_name p) osb = kids (mp_name p) os1"
    by (rule its_turnE)
  obtain q os2 where st: "mp_stop obeys True False None p osa = (q, os2)" by fastforce
  have e: "wq = (False, q)" "osb = os2"
    using a(1) st assms(3) [of sa] by (auto simp: settle_process_def split: prod.splits if_splits)
  from t(2) have p': "p' = q" "kids (mp_name p) os' = kids (mp_name p) os1"
    by (auto simp: start_wanted_def e elim!: its_turnE)
  have "proc_ok p osa"
    using assms(1) proc_ok_kids [OF a(3)] by simp
  note s = mp_stop_ok [OF this a(2) st]
  show "mp_proc p' = None \<or> mp_shutting_down p'" "mp_shutting_down p \<Longrightarrow> mp_proc p' = None"
    using s(3,4) by (simp_all add: p')
  assume "mp_proc p = None"
  then have "q = p" "os2 = osa"
    using st by (auto simp: mp_stop_def stop_process_def split: if_splits)
  then show "kids (mp_name p) os' = kids (mp_name p) os \<and> mp_proc p' = None"
    using a(3,4) p' e(2) \<open>mp_proc p = None\<close> by simp
qed

lemma wanted_round:
  assumes "proc_ok p os" "its_round obeys fs not_run started CP p os p' os'" "proc_ok p' os'" "same_process p p'"
    "\<And>s. fst (mp_wanted fs not_run started CP p s)" "mp_kind p \<noteq> DaemonKind"
  shows "\<exists>pid. mp_proc p' = Some pid \<and> \<not> mp_shutting_down p' \<and> (mp_restart_if_crash p \<or> mp_proc p = None \<longrightarrow> os_alive os' pid)"
proof -
  obtain wq os1 where t: "its_turn (settle_process obeys fs not_run started CP) (mp_name p) p os wq os1"
    "its_turn (start_wanted obeys) (mp_name p) wq os1 p' os'" "same_process p (snd wq)"
    using assms(2) unfolding its_round_def by blast
  from t(1) obtain osa sa osb sb where a: "settle_process obeys fs not_run started CP p (osa, sa) = (wq, osb, sb)"
    "fresh_pids osa" "kids (mp_name p) osa = kids (mp_name p) os" "kids (mp_name p) osb = kids (mp_name p) os1"
    by (rule its_turnE)
  from t(2) obtain osc sc osd sd where c: "start_wanted obeys wq (osc, sc) = (p', osd, sd)"
    "fresh_pids osc" "kids (mp_name p) osc = kids (mp_name p) os1" "kids (mp_name p) osd = kids (mp_name p) os'"
    by (rule its_turnE)
  obtain q where wq: "wq = (True, q)"
    using a(1) assms(5) [of sa] by (auto simp: settle_process_def split: prod.splits if_splits)
  have n: "mp_name q = mp_name p" "mp_kind q \<noteq> DaemonKind" "mp_name p' = mp_name p"
    using same_processD(1,2) [OF t(3)] assms(6) same_processD(1) [OF assms(4)] by (simp_all add: wq)
  have oka: "proc_ok p osa"
    using assms(1) proc_ok_kids [OF a(3)] by simp
  have op: "op_ok p osa q osb"
    using settle_process_ok [OF oka a(2) a(1) [unfolded wq]] .
  have okc: "proc_ok q osc"
    using op_okD(1) [OF op] proc_ok_kids [of q osc osb] a(4) c(3) n(1) by simp
  have sc: "start_child obeys q osc = (p', osd)"
    using c(1) n(2) by (auto simp: start_wanted_def wq mp_start_def split: prod.splits)
  obtain pid where pid: "mp_proc p' = Some pid" "\<not> mp_shutting_down p'"
    "mp_proc q = None \<or> mp_shutting_down q \<or> os_alive osc pid \<longrightarrow> os_alive osd pid"
    using start_child_ok(2) [OF okc c(2) n(2) sc] by blast
  have okd: "proc_ok p' osd"
    using op_okD(1) [OF start_child_ok(1) [OF okc c(2) n(2) sc]] .
  have end_alive: "os_alive os' pid = os_alive osd pid"
    using alive_kids [OF assms(3) pid(1)] alive_kids [OF okd pid(1)] c(4) n(3) by simp
  have "os_alive osd pid" if live: "mp_restart_if_crash p \<or> mp_proc p = None"
  proof (cases "mp_restart_if_crash p \<and> (\<exists>x. mp_proc p = Some x \<and> \<not> os_alive osa x)")
    case True
    obtain p1 os2 where st: "mp_stop obeys True True (Some SIGKILL) p osa = (p1, os2)" by fastforce
    note k = mp_stop_ok [OF oka a(2) st]
    obtain w s2 where w: "mp_wanted fs not_run started CP p sa = (w, s2)" by fastforce
    have "mp_start obeys p1 (os2, s2) = (q, osb, sb)"
      using a(1) True assms(5) [of sa] st w by (auto simp: settle_process_def mp_restart_def wq split: prod.splits)
    moreover have "mp_kind p1 \<noteq> DaemonKind"
      using same_processD(2) [OF op_okD(3) [OF k(1)]] assms(6) by simp
    ultimately have sb: "start_child obeys p1 os2 = (q, osb)" "mp_kind p1 \<noteq> DaemonKind"
      by (auto simp: mp_start_def split: prod.splits)
    obtain x where x: "mp_proc q = Some x" "\<not> mp_shutting_down q" "os_alive osb x"
      using start_child_ok(2) [OF op_okD(1,2) [OF k(1)] sb(2,1)] k(2) by auto
    then have "os_alive osc x"
      using alive_kids [OF okc x(1)] alive_kids [OF op_okD(1) [OF op] x(1)] a(4) c(3) n(1) by simp
    moreover have "x = pid"
      using sc x(1,2) pid(1) by (simp add: start_child_def)
    ultimately show ?thesis
      using pid(3) by simp
  next
    case False
    then have q: "q = p" "osb = osa"
      using a(1) assms(5) [of sa] by (auto simp: settle_process_def wq split: prod.splits if_splits)
    show ?thesis
    proof (cases "mp_proc p = None \<or> mp_shutting_down p")
      case True
      then show ?thesis
        using pid(3) q(1) by auto
    next
      case alive: False
      then obtain x where x: "mp_proc p = Some x" "os_alive osa x"
        using False live by auto
      have "kids (mp_name p) osc = kids (mp_name p) osa"
        by (rule trans [OF c(3) trans [OF a(4) [symmetric]]]) (simp only: q(2))
      then have "os_alive osc x"
        using x(2) unfolding alive_kids [OF okc [unfolded q(1)] x(1)] alive_kids [OF oka x(1)] by simp
      moreover have "x = pid"
        using sc x(1) alive pid(1) by (simp add: start_child_def q(1))
      ultimately show ?thesis
        using pid(3) by simp
    qed
  qed
  then have "mp_restart_if_crash p \<or> mp_proc p = None \<longrightarrow> os_alive os' pid"
    using end_alive by simp
  then show ?thesis
    using pid(1,2) by simp
qed

section \<open>Reachable states\<close>

lemma round_each:
  assumes "managed (mg_procs mg) (mg_os mg)"
  shows "managed (mg_procs (next_manager obeys mi mg)) (mg_os (next_manager obeys mi mg))"
    and "list_all2 (\<lambda>p p'. same_process p p' \<and> proc_ok p' (mg_os (next_manager obeys mi mg))
      \<and> its_round obeys (mi_files mi) (mg_ignore mg) (mi_started mi) (mi_CP mi) p (mg_os (others_act mi mg)) p'
          (mg_os (next_manager obeys mi mg))) (mg_procs mg) (mg_procs (next_manager obeys mi mg))"
    and "mg_ignore (next_manager obeys mi mg) = mg_ignore mg" "mg_started_prev (next_manager obeys mi mg) = mi_started mi"
proof -
  let ?mg = "others_act mi mg"
  obtain running ps os s where e: "ensure_running obeys (mi_files mi) (mg_ignore mg) (mi_started mi) (mi_CP mi) (mg_procs mg)
      (mg_os ?mg, round_params mi ?mg) = (running, ps, os, s)"
    by (cases "ensure_running obeys (mi_files mi) (mg_ignore mg) (mi_started mi) (mi_CP mi) (mg_procs mg)
      (mg_os ?mg, round_params mi ?mg)") auto
  have n: "mg_procs (next_manager obeys mi mg) = ps" "mg_os (next_manager obeys mi mg) = os"
    "mg_ignore (next_manager obeys mi mg) = mg_ignore mg" "mg_started_prev (next_manager obeys mi mg) = mi_started mi"
    using e by (simp_all add: next_manager_def manager_round_def Let_def case_prod_beta)
  note m = managed_others [OF assms, of mi]
  show "managed (mg_procs (next_manager obeys mi mg)) (mg_os (next_manager obeys mi mg))"
    using ensure_running_managed(1) [OF m] e by (simp add: n)
  show "list_all2 (\<lambda>p p'. same_process p p' \<and> proc_ok p' (mg_os (next_manager obeys mi mg))
      \<and> its_round obeys (mi_files mi) (mg_ignore mg) (mi_started mi) (mi_CP mi) p (mg_os (others_act mi mg)) p'
          (mg_os (next_manager obeys mi mg))) (mg_procs mg) (mg_procs (next_manager obeys mi mg))"
    using ensure_running_each [OF m] e by (simp add: n)
  show "mg_ignore (next_manager obeys mi mg) = mg_ignore mg" "mg_started_prev (next_manager obeys mi mg) = mi_started mi"
    by (simp_all add: n)
qed

lemma mg_ok_round: "mg_ok ps ig mg \<Longrightarrow> mg_ok ps ig (next_manager obeys mi mg)"
proof -
  assume ok: "mg_ok ps ig mg"
  then have m: "managed (mg_procs mg) (mg_os mg)" and l: "list_all2 same_process ps (mg_procs mg)"
    by (simp_all add: mg_ok_def)
  have "list_all2 same_process (mg_procs mg) (mg_procs (next_manager obeys mi mg))"
    using round_each(2) [OF m, of obeys mi] by (rule list_all2_mono) simp
  from list_all2_trans [OF same_process_trans l this] show ?thesis
    using ok round_each(1,3) [OF m] by (simp add: mg_ok_def)
qed

lemma mg_ok_run: "mg_ok ps ig mg \<Longrightarrow> mg_ok ps ig (manager_run obeys mis mg)"
proof (induction mis arbitrary: mg)
  case (Cons mi mis)
  then show ?case
    using mg_ok_round [OF Cons.prems, of obeys mi] by (auto simp: next_manager_def split: prod.splits)
qed simp

definition su_ignore :: "ManagerSetup \<Rightarrow> string list" where
  "su_ignore su = ignored (su_noboard su) (su_block su) (manager_init (su_env su) (su_init su) (su_params su))"

lemma mg_ok_after: "mg_ok (managed_processes (su_env su) (su_files su)) (su_ignore su) (manager_after su mis)"
proof -
  let ?ps = "managed_processes (su_env su) (su_files su)"
  let ?os = "\<lparr>os_next_pid = su_next_pid su, os_children = Map.empty, os_others = su_others su\<rparr>"
  let ?s = "manager_init (su_env su) (su_init su) (su_params su)"
  obtain running ps os s where e: "ensure_running (su_obeys su) (su_files su) (su_ignore su) False (su_CP su) ?ps
      (?os, write_onroad_params False ?s) = (running, ps, os, s)"
    by (cases "ensure_running (su_obeys su) (su_files su) (su_ignore su) False (su_CP su) ?ps
      (?os, write_onroad_params False ?s)") auto
  have "list_all2 same_process ?ps ps"
    using ensure_running_each [OF managed_boot e] by (rule list_all2_mono) simp
  then have "mg_ok ?ps (su_ignore su) (manager_boot su)"
    using ensure_running_managed(1) [OF managed_boot e] e
    by (simp add: mg_ok_def manager_boot_def manager_start_def Let_def su_ignore_def)
  then show ?thesis
    unfolding manager_after_def by (rule mg_ok_run)
qed

text \<open>The processes of a reachable state are those of the table, and all of the table are there.\<close>

lemma in_table:
  assumes "mg_ok (managed_processes env fs) ig mg" "p \<in> set (mg_procs mg)" "\<forall>q\<in>set (procs env fs). P q"
  obtains q where "P q" "same_process q p"
proof -
  obtain i where i: "i < length (mg_procs mg)" "p = mg_procs mg ! i"
    using assms(2) by (auto simp: in_set_conv_nth)
  have l: "list_all2 same_process (managed_processes env fs) (mg_procs mg)"
    using assms(1) by (simp add: mg_ok_def)
  have "managed_processes env fs ! i \<in> set (managed_processes env fs)" "same_process (managed_processes env fs ! i) p"
    using i l by (auto simp: list_all2_conv_all_nth)
  then show ?thesis
    using managed_processes_from(2) [OF assms(3)] that by blast
qed

lemma foldl_dict_keys: "n \<in> fst ` set d \<or> n \<in> mp_name ` set ps \<Longrightarrow> n \<in> fst ` set (foldl (\<lambda>d p. dict_set (mp_name p) p d) d ps)"
proof (induction ps arbitrary: d)
  case (Cons q ps)
  have "fst ` set (dict_set (mp_name q) q d) = insert (mp_name q) (fst ` set d)"
    by (induction d) auto
  then have "n \<in> fst ` set (dict_set (mp_name q) q d) \<or> n \<in> mp_name ` set ps"
    using Cons.prems by auto
  then show ?case
    using Cons.IH by simp
qed simp

lemma table_has:
  assumes "mg_ok (managed_processes env fs) ig mg" "n \<in> mp_name ` set (procs env fs)"
  shows "\<exists>p\<in>set (mg_procs mg). mp_name p = n"
proof -
  let ?d = "foldl (\<lambda>d p. dict_set (mp_name p) p d) [] (procs env fs)"
  have "n \<in> fst ` set ?d"
    using foldl_dict_keys [of n "[]" "procs env fs"] assms(2) by simp
  moreover have "\<forall>(k, p)\<in>set ?d. k = mp_name p \<and> True"
    using foldl_dict_names [of "[]" "\<lambda>_. True" "procs env fs"] by simp
  ultimately have "n \<in> set (map mp_name (managed_processes env fs))"
    by (force simp: managed_processes_def)
  moreover have "map mp_name (managed_processes env fs) = map mp_name (mg_procs mg)"
  proof -
    have "list_all2 same_process (managed_processes env fs) (mg_procs mg)"
      using assms(1) by (simp add: mg_ok_def)
    then show ?thesis
      by (induction rule: list_all2_induct) (simp_all add: same_processD(1))
  qed
  ultimately show ?thesis
    by auto
qed

section \<open>Facts of the table\<close>

lemma process_fields [simp]:
  "mp_name (NativeProcess n cwd cmd sr en k) = n" "mp_should_run (NativeProcess n cwd cmd sr en k) = sr"
  "mp_name (PythonProcess n m sr en r) = n" "mp_should_run (PythonProcess n m sr en r) = sr"
  "mp_name (DaemonProcess n m pn) = n" "mp_kind (PythonProcess n m sr en r) = PythonKind"
  "mp_enabled (PythonProcess n m sr en r) = en" "mp_restart_if_crash (PythonProcess n m sr en r) = r"
  by (simp_all add: NativeProcess_def PythonProcess_def DaemonProcess_def)

definition ONROAD_PROCESSES :: "string list" where
  "ONROAD_PROCESSES =
     [''loggerd'', ''encoderd'', ''stream_encoderd'', ''proclogd'', ''journald'', ''micd'', ''modeld'', ''sensord'',
      ''locationd'', ''calibrationd'', ''torqued'', ''controlsd'', ''joystickd'', ''selfdrived'', ''card'', ''qcomgpsd'',
      ''paramsd'', ''lagd'', ''ubloxd'', ''pigeond'', ''plannerd'', ''maneuversd'', ''lateral_maneuversd'', ''radard'',
      ''feedbackd'', ''bridge'', ''webrtcd'', ''webjoystick'', ''joystick'', ''modeld_tinygrad'', ''locationd_llk'']"

lemma not_started [simp]:
  "\<not> fst (only_onroad fs False s CP)" "\<not> fst (notcar fs False s CP)" "\<not> fst (iscar fs False s CP)"
  "\<not> fst (logging_wanted fs False s CP)" "\<not> fst (joystick fs False s CP)" "\<not> fst (not_joystick fs False s CP)"
  "\<not> fst (long_maneuver fs False s CP)" "\<not> fst (lat_maneuver fs False s CP)" "\<not> fst (not_long_maneuver fs False s CP)"
  "\<not> fst (qcomgps fs False s CP)" "\<not> fst (ublox fs False s CP)"
  by (simp_all add: only_onroad_def notcar_def iscar_def logging_wanted_def joystick_def not_joystick_def
      long_maneuver_def lat_maneuver_def not_long_maneuver_def qcomgps_def ublox_def reads_def Let_def)

lemma combined_not_started:
  "\<not> fst (f fs st s CP) \<Longrightarrow> \<not> fst (and_fns f g fs st s CP)"
  "(\<And>s. \<not> fst (f fs st s CP)) \<Longrightarrow> (\<And>s. \<not> fst (g fs st s CP)) \<Longrightarrow> \<not> fst (or_fns f g fs st s CP)"
  by (simp_all add: and_fns_def or_fns_def case_prod_beta Let_def)

definition parks :: "ManagerProcess \<Rightarrow> bool" where
  "parks p \<longleftrightarrow> (\<forall>fs s CP. \<not> fst (mp_should_run p fs False s CP))"

lemma parks_simps [simp]:
  "parks (PythonProcess n m only_onroad en r)" "parks (NativeProcess n cwd cmd only_onroad en k)"
  "parks (NativeProcess n cwd cmd logging_wanted en k)" "parks (NativeProcess n cwd cmd notcar en k)"
  "parks (PythonProcess n m notcar en r)" "parks (PythonProcess n m iscar en r)"
  "parks (PythonProcess n m long_maneuver en r)" "parks (PythonProcess n m lat_maneuver en r)"
  "parks (PythonProcess n m not_long_maneuver en r)" "parks (PythonProcess n m qcomgps en r)"
  "parks (PythonProcess n m ublox en r)" "parks (PythonProcess n m (and_fns only_onroad f) en r)"
  "parks (NativeProcess n cwd cmd (and_fns only_onroad f) en k)" "parks (PythonProcess n m (and_fns not_joystick f) en r)"
  "parks (PythonProcess n m (and_fns joystick f) en r)" "parks (PythonProcess n m (or_fns joystick notcar) en r)"
  by (simp_all add: parks_def combined_not_started)

lemma all_procs:
  "(\<forall>p\<in>set (procs env fs). P p) \<longleftrightarrow> list_all P (base_procs env) \<and> list_all P (sunnypilot_procs env) \<and> list_all P (optional_procs env fs)"
  by (auto simp: procs_def list_all_iff)

lemma onroad_parks: "\<forall>p\<in>set (procs env fs). mp_name p \<in> set ONROAD_PROCESSES \<longrightarrow> parks p"
  unfolding all_procs
proof (intro conjI)
  show "list_all (\<lambda>p. mp_name p \<in> set ONROAD_PROCESSES \<longrightarrow> parks p) (base_procs env)"
    by (simp add: base_procs_def ONROAD_PROCESSES_def)
qed (simp_all add: sunnypilot_procs_def optional_procs_def ONROAD_PROCESSES_def)

lemma ui_process:
  "\<forall>p\<in>set (procs env fs). mp_name p = ''ui'' \<longrightarrow>
     mp_should_run p = always_run \<and> mp_enabled p \<and> mp_restart_if_crash p \<and> mp_kind p = PythonKind"
  unfolding all_procs
  by (intro conjI) (simp_all add: base_procs_def sunnypilot_procs_def optional_procs_def)

lemma ui_in_table: "''ui'' \<in> mp_name ` set (procs env fs)"
  by (simp add: procs_def base_procs_def)

section \<open>Cleanup\<close>

lemma stop_blocking:
  assumes "managed ps os" "for_each (stop_one obeys True) ps (os, s) = (ps', os', s')"
  shows "\<not> os_alive os' pid"
proof
  assume "os_alive os' pid"
  then obtain c where c: "os_children os' pid = Some c" "ch_exitcode c = None"
    by (auto simp: os_alive_def)
  have m: "managed (map (\<lambda>p. p) ps) os"
    using assms(1) by simp
  note m1 = halt.pass_managed [OF m assms(2)]
  have "ch_name c \<in> mp_name ` set ps'"
    using m1(1) c by (simp add: managed_def)
  then obtain p where p: "p \<in> set ps'" "mp_name p = ch_name c"
    by auto
  obtain i where i: "i < length ps'" "p = ps' ! i"
    using p(1) by (auto simp: in_set_conv_nth)
  then have t: "its_turn (stop_one obeys True) (mp_name (ps ! i)) (ps ! i) os p os'" "proc_ok p os'" "length ps = length ps'"
    using m1(2) by (auto simp: list_all2_conv_all_nth)
  have ok: "proc_ok (ps ! i) os"
    using assms(1) i t(3) by (auto simp: managed_def)
  from t(1) have "mp_proc p = None"
  proof (rule its_turnE)
    fix os1 s1 os2 s2
    assume a: "stop_one obeys True (ps ! i) (os1, s1) = (p, os2, s2)" "fresh_pids os1"
      "kids (mp_name (ps ! i)) os1 = kids (mp_name (ps ! i)) os"
    have "proc_ok (ps ! i) os1"
      using ok proc_ok_kids [OF a(3)] by simp
    then show "mp_proc p = None"
      using mp_stop_ok(2) [OF _ a(2)] a(1) by (auto simp: stop_one_def split: prod.splits)
  qed
  from no_live_kids [OF t(2) this c(1)] p(2) c(2) show False
    by simp
qed

lemma cleanup_dead:
  assumes "managed (mg_procs mg) (mg_os mg)"
  shows "\<not> os_alive (mg_os (manager_cleanup obeys mg)) pid"
proof -
  obtain ps1 os1 s1 where one: "for_each (stop_one obeys False) (mg_procs mg) (mg_os mg, mg_params mg) = (ps1, os1, s1)"
    by (cases "for_each (stop_one obeys False) (mg_procs mg) (mg_os mg, mg_params mg)") auto
  obtain ps2 os2 s2 where two: "for_each (stop_one obeys True) ps1 (os1, s1) = (ps2, os2, s2)"
    by (cases "for_each (stop_one obeys True) ps1 (os1, s1)") auto
  have "managed (map (\<lambda>p. p) (mg_procs mg)) (mg_os mg)"
    using assms by simp
  from halt.pass_managed(1) [OF this one] have "managed ps1 os1"
    by simp
  from stop_blocking [OF this two] show ?thesis
    by (simp add: manager_cleanup_def one two)
qed

section \<open>Parameters in a round\<close>

lemma for_each_keeps:
  assumes "\<And>x w y w'. x \<in> set xs \<Longrightarrow> f x w = (y, w') \<Longrightarrow> I w \<Longrightarrow> I w'" "for_each f xs w = (ys, w')" "I w"
  shows "I w'"
  using assms
proof (induction xs arbitrary: w ys w')
  case (Cons x xs)
  obtain y w1 where one: "f x w = (y, w1)" by fastforce
  obtain zs w2 where rest: "for_each f xs w1 = (zs, w2)" by fastforce
  have "I w1"
    using Cons.prems(1) [of x] one Cons.prems(3) by simp
  have "I w2"
  proof (rule Cons.IH [OF _ rest \<open>I w1\<close>])
    fix z v y v'
    assume "z \<in> set xs" "f z v = (y, v')" "I v"
    then show "I v'"
      using Cons.prems(1) [of z v y v'] by simp
  qed
  then show ?case
    using Cons.prems(2) one rest by simp
qed simp

text \<open>What a process writes: the parameters of its predicate, and its pid if it is a daemon.\<close>

definition writes_only :: "string set \<Rightarrow> ManagerProcess \<Rightarrow> bool" where
  "writes_only ks p \<longleftrightarrow>
     (mp_kind p = DaemonKind \<longrightarrow> mp_param_name p \<in> ks)
     \<and> (\<forall>fs st s CP k. k \<notin> ks \<longrightarrow> snd (mp_should_run p fs st s CP) k = s k)"

lemma writes_only_same: "same_process p q \<Longrightarrow> writes_only ks q = writes_only ks p"
  by (cases p; cases q; simp add: same_process_def writes_only_def)

lemma mp_start_params:
  "writes_only ks p \<Longrightarrow> mp_start obeys p (os, s) = (p', os', s') \<Longrightarrow> k \<notin> ks \<Longrightarrow> s' k = s k"
  by (auto simp: mp_start_def start_daemon_def Let_def writes_only_def split: if_splits prod.splits)

lemma mp_stop_same: "mp_stop obeys r b sig p os = (p', os') \<Longrightarrow> same_process p p'"
  by (auto simp: mp_stop_def stop_process_def stop_done_def Let_def split: if_splits option.splits)

lemma start_child_same:
  assumes "start_child obeys p os = (p', os')"
  shows "same_process p p'"
proof -
  obtain q os1 where q: "(if mp_shutting_down p then mp_stop obeys True True None p os else (p, os)) = (q, os1)"
    by fastforce
  then have "same_process p q"
    using mp_stop_same by (auto split: if_splits)
  moreover have "same_process q p'"
    using assms q by (auto simp: start_child_def split: if_splits prod.splits)
  ultimately show ?thesis
    by (rule same_process_trans)
qed

lemma settle_params:
  assumes "writes_only ks p" "settle_process obeys fs ig st CP p (os, s) = ((w, p'), os', s')" "k \<notin> ks"
  shows "s' k = s k" "writes_only ks p'"
proof -
  obtain wanted s1 where w: "mp_wanted fs ig st CP p s = (wanted, s1)" by fastforce
  have k: "s1 k = s k"
    using w assms(1,3) by (auto simp: mp_wanted_def writes_only_def split: if_splits)
      (metis snd_conv)+
  obtain q os1 where q: "mp_stop obeys True True (Some SIGKILL) p os = (q, os1)" by fastforce
  obtain q2 os2 where q2: "mp_stop obeys True False None p os = (q2, os2)" by fastforce
  obtain q3 os3 s3 where q3: "mp_start obeys q (os1, s1) = (q3, os3, s3)" by (cases "mp_start obeys q (os1, s1)") auto
  have wq: "writes_only ks q" "writes_only ks q2"
    using writes_only_same [OF mp_stop_same [OF q]] writes_only_same [OF mp_stop_same [OF q2]] assms(1) by simp_all
  have "same_process q q3"
    using q3 start_child_same by (auto simp: mp_start_def split: if_splits prod.splits)
  then have "writes_only ks q3" "s3 k = s1 k"
    using writes_only_same wq(1) mp_start_params [OF wq(1) q3 assms(3)] by blast+
  then show "s' k = s k" "writes_only ks p'"
    using assms(1,2) w q q2 q3 wq k by (auto simp: settle_process_def mp_restart_def split: if_splits)
qed

definition TABLE_WRITES :: "string set" where
  "TABLE_WRITES = {''UbloxAvailable'', ''ModelRunnerTypeCache'', ''AthenadPid'', ''SunnylinkdPid''}"

definition pure_but :: "string set \<Rightarrow> ShouldRun \<Rightarrow> bool" where
  "pure_but ks f \<longleftrightarrow> (\<forall>fs st s CP k. k \<notin> ks \<longrightarrow> snd (f fs st s CP) k = s k)"

lemma pure_but_and: "pure_but ks f \<Longrightarrow> pure_but ks g \<Longrightarrow> pure_but ks (and_fns f g)"
  by (simp add: pure_but_def and_fns_def case_prod_beta Let_def)

lemma pure_but_or: "pure_but ks f \<Longrightarrow> pure_but ks g \<Longrightarrow> pure_but ks (or_fns f g)"
  by (simp add: pure_but_def or_fns_def case_prod_beta Let_def)

lemma runner_writes: "k \<noteq> ''ModelRunnerTypeCache'' \<Longrightarrow> snd (get_active_model_runner env s force) k = s k"
  by (simp add: get_active_model_runner_def Let_def split: option.splits bool.splits)

lemma pure_but_reads [simp]: "pure_but ks (reads f)"
  by (simp add: pure_but_def reads_def)

lemma pure_but_simps [simp]:
  "pure_but ks driverview" "pure_but ks notcar" "pure_but ks iscar" "pure_but ks logging_wanted" "pure_but ks joystick"
  "pure_but ks not_joystick" "pure_but ks long_maneuver" "pure_but ks lat_maneuver" "pure_but ks not_long_maneuver"
  "pure_but ks always_run" "pure_but ks only_onroad" "pure_but ks only_offroad" "pure_but ks (use_github_runner env)"
  "pure_but ks use_copyparty" "pure_but ks sunnylink_ready_shim" "pure_but ks sunnylink_need_register_shim"
  "pure_but ks use_sunnylink_uploader_shim"
  by (simp_all add: driverview_def notcar_def iscar_def logging_wanted_def joystick_def not_joystick_def
      long_maneuver_def lat_maneuver_def not_long_maneuver_def always_run_def only_onroad_def only_offroad_def
      use_github_runner_def use_copyparty_def sunnylink_ready_shim_def sunnylink_need_register_shim_def
      use_sunnylink_uploader_shim_def)

lemma pure_but_others [simp]:
  "pure_but ks qcomgps" "pure_but ks (mapd_ready env)" "pure_but ks uploader_ready" "pure_but TABLE_WRITES ublox"
  "pure_but TABLE_WRITES (is_tinygrad_model env)" "pure_but TABLE_WRITES (is_stock_model env)"
  by (simp_all add: pure_but_def qcomgps_def mapd_ready_def uploader_ready_def only_offroad_def always_run_def reads_def
      ublox_def ps_put_bool_def TABLE_WRITES_def is_tinygrad_model_def is_stock_model_def case_prod_beta Let_def runner_writes)

lemma writes_only_simps [simp]:
  "pure_but ks sr \<Longrightarrow> writes_only ks (PythonProcess n m sr en r)"
  "pure_but ks sr \<Longrightarrow> writes_only ks (NativeProcess n cwd cmd sr en k)"
  "pn \<in> ks \<Longrightarrow> writes_only ks (DaemonProcess n m pn)"
  by (simp_all add: writes_only_def pure_but_def PythonProcess_def NativeProcess_def DaemonProcess_def)

lemma table_writes: "\<forall>p\<in>set (procs env fs). writes_only TABLE_WRITES p"
proof -
  have "''AthenadPid'' \<in> TABLE_WRITES" "''SunnylinkdPid'' \<in> TABLE_WRITES"
    by (simp_all add: TABLE_WRITES_def)
  then show ?thesis
    unfolding all_procs
    by (intro conjI) (simp_all add: base_procs_def sunnypilot_procs_def optional_procs_def pure_but_and pure_but_or)
qed

lemma ensure_running_params:
  assumes "managed ps os" "ensure_running obeys fs ig st CP ps (os, s) = (running, ps', os', s')"
    "\<forall>p\<in>set ps. writes_only ks p" "k \<notin> ks"
  shows "s' k = s k"
proof -
  obtain xs os1 s1 where one: "for_each (settle_process obeys fs ig st CP) ps (os, s) = (xs, os1, s1)"
    by (cases "for_each (settle_process obeys fs ig st CP) ps (os, s)") auto
  have two: "for_each (start_wanted obeys) xs (os1, s1) = (ps', os', s')"
    using assms(2) one by (auto simp: ensure_running_def settle_all_def start_all_def split: prod.splits)
  have m: "managed (map (\<lambda>p. p) ps) os"
    using assms(1) by simp
  have "(\<lambda>(o1, s2). s2 k = s k) (os1, s1)"
  proof (rule for_each_keeps [OF _ one, of "\<lambda>(o1, s2). s2 k = s k"])
    fix p w y w'
    assume "p \<in> set ps" "settle_process obeys fs ig st CP p w = (y, w')" "(\<lambda>(o1, s2). s2 k = s k) w"
    then show "(\<lambda>(o1, s2). s2 k = s k) w'"
      using settle_params(1) [of ks p obeys fs ig st CP "fst w" "snd w" "fst y" "snd y" "fst w'" "snd w'" k] assms(3,4)
      by (cases w; cases w'; cases y) auto
  qed simp
  moreover have ws: "\<forall>x\<in>set xs. writes_only ks (snd x)"
  proof
    fix x
    assume "x \<in> set xs"
    then obtain i where "i < length xs" "x = xs ! i"
      by (auto simp: in_set_conv_nth)
    then show "writes_only ks (snd x)"
      using settle.pass_managed(2) [OF m one] assms(3) writes_only_same by (fastforce simp: list_all2_conv_all_nth)
  qed
  have "(\<lambda>(o1, s2). s2 k = s1 k) (os', s')"
  proof (rule for_each_keeps [OF _ two, of "\<lambda>(o1, s2). s2 k = s1 k"])
    fix x w y w'
    assume "x \<in> set xs" "start_wanted obeys x w = (y, w')" "(\<lambda>(o1, s2). s2 k = s1 k) w"
    then show "(\<lambda>(o1, s2). s2 k = s1 k) w'"
      using mp_start_params [of ks "snd x" obeys "fst w" "snd w" y "fst w'" "snd w'" k] ws assms(4)
      by (cases w; cases w') (auto simp: start_wanted_def split: if_splits)
  qed simp
  ultimately show ?thesis
    by simp
qed

lemma round_params_kept:
  assumes "mg_ok (managed_processes env fs) ig mg" "k \<notin> insert ''LastManagerExitReason'' TABLE_WRITES"
  shows "mg_params (next_manager obeys mi mg) k = round_params mi (others_act mi mg) k"
proof -
  let ?mg = "others_act mi mg"
  have m: "managed (mg_procs mg) (mg_os ?mg)"
    using managed_others assms(1) by (auto simp: mg_ok_def)
  have w: "\<forall>p\<in>set (mg_procs mg). writes_only TABLE_WRITES p"
  proof
    fix p
    assume "p \<in> set (mg_procs mg)"
    then obtain q where "writes_only TABLE_WRITES q" "same_process q p"
      by (rule in_table [OF assms(1) _ table_writes])
    then show "writes_only TABLE_WRITES p"
      using writes_only_same by blast
  qed
  obtain running ps os s where e: "ensure_running obeys (mi_files mi) (mg_ignore mg) (mi_started mi) (mi_CP mi) (mg_procs mg)
      (mg_os ?mg, round_params mi ?mg) = (running, ps, os, s)"
    by (cases "ensure_running obeys (mi_files mi) (mg_ignore mg) (mi_started mi) (mi_CP mi) (mg_procs mg)
      (mg_os ?mg, round_params mi ?mg)") auto
  have "s k = round_params mi ?mg k"
    using ensure_running_params [OF m e w] assms(2) by simp
  moreover have "snd (check_shutdown (mi_now mi) s) k = s k"
    using assms(2) by (simp add: check_shutdown_def SHUTDOWN_PARAMS_def)
  moreover have "mg_params (next_manager obeys mi mg) = snd (check_shutdown (mi_now mi) s)"
    using e by (simp add: next_manager_def manager_round_def Let_def case_prod_beta)
  ultimately show ?thesis
    by simp
qed

end
