(* ===== verification/ManagerSafety.thy ===== *)
theory ManagerSafety
  imports ManagerInvariant
begin

text \<open>
  What the manager guarantees for the processes it starts with multiprocessing (not the daemons): no live
  child is ever forgotten, the cleanup leaves none behind, processes of the
  drive are gone after two rounds offroad, the user interface is alive after every round, debugging modes end
  with the drive, and predicates that exclude each other do.
\<close>

lemma live_child_name:
  assumes "managed ps os" "os_children os pid = Some c" "ch_exitcode c = None"
  obtains p where "p \<in> set ps" "mp_name p = ch_name c"
proof -
  have "ch_name c \<in> mp_name ` set ps"
    using assms unfolding managed_def by blast
  then show ?thesis
    using that by auto
qed

section \<open>Properties\<close>

text \<open>C21 (invariant). In the state after every round of the manager, the live processes that it started with
  \<open>multiprocessing\<close> (native and Python processes, the table \<open>os_children\<close>) are exactly the live ones that its managed
  processes point to, under their names, and no two managed processes have the same name: no such process is
  forgotten, and none runs twice. (Daemons are not covered: they are started with \<open>Popen\<close>, no managed process
  points to them, and the code finds them again by the stored process id only.)\<close>

theorem live_children_are_managed:
  "{(ch_name c, pid) | c pid. os_children (mg_os (manager_after su mis)) pid = Some c \<and> ch_exitcode c = None}
     = {(mp_name p, pid) | p pid. p \<in> set (mg_procs (manager_after su mis)) \<and> mp_proc p = Some pid
          \<and> os_alive (mg_os (manager_after su mis)) pid}
   \<and> distinct (map mp_name (mg_procs (manager_after su mis)))"
proof -
  let ?mg = "manager_after su mis"
  have m: "managed (mg_procs ?mg) (mg_os ?mg)"
    using mg_ok_after [of su mis] by (simp add: mg_ok_def)
  have "\<exists>p. p \<in> set (mg_procs ?mg) \<and> mp_proc p = Some pid \<and> mp_name p = ch_name c"
    if c: "os_children (mg_os ?mg) pid = Some c" "ch_exitcode c = None" for pid c
  proof -
    obtain p where p: "p \<in> set (mg_procs ?mg)" "mp_name p = ch_name c"
      using live_child_name [OF m c] .
    have "proc_ok p (mg_os ?mg)" "kids (mp_name p) (mg_os ?mg) pid = Some c"
      using m p c by (simp_all add: managed_def kids_def)
    then show ?thesis
      using p c(2) by (auto simp: proc_ok_def)
  qed
  moreover have "ch_name c = mp_name p"
    if "p \<in> set (mg_procs ?mg)" "mp_proc p = Some pid" "os_children (mg_os ?mg) pid = Some c" for p pid c
  proof -
    have "proc_ok p (mg_os ?mg)"
      using m that(1) by (simp add: managed_def)
    then show ?thesis
      using that(2,3) own_child by fastforce
  qed
  ultimately have "{(ch_name c, pid) | c pid. os_children (mg_os ?mg) pid = Some c \<and> ch_exitcode c = None}
     = {(mp_name p, pid) | p pid. p \<in> set (mg_procs ?mg) \<and> mp_proc p = Some pid \<and> os_alive (mg_os ?mg) pid}"
    unfolding os_alive_def by force
  then show ?thesis
    using m by (simp add: managed_def)
qed

lemma os_others_simps [simp]:
  "os_others (os_exit pid code os) = os_others os"
  "os_others (mp_signal sig p os) = os_others os"
  "os_others (join_process obeys pid os) = os_others os"
  "os_others (snd (snd (stop_done pid p os))) = os_others os"
  by (simp_all add: os_exit_def os_kill_def os_update_def mp_signal_def join_process_def stop_done_def split: option.split)

lemma os_others_stop: "os_others (snd (mp_stop obeys retry block sig p os)) = os_others os"
proof -
  have kill: "os_others (stop_kill retry pid q os') = os_others os'" for pid q os'
    by (simp add: stop_kill_def)
  show ?thesis
  proof (cases "mp_proc p")
    case (Some pid)
    then show ?thesis
      by (simp add: mp_stop_def stop_process_def kill Let_def)
  qed (simp add: mp_stop_def stop_process_def)
qed

lemma cleanup_keeps_others: "os_others (mg_os (manager_cleanup obeys mg)) = os_others (mg_os mg)"
proof -
  let ?I = "\<lambda>w :: OS \<times> ParamStore. os_others (fst w) = os_others (mg_os mg)"
  have step: "?I w'" if "stop_one obeys b p w = (p', w')" "?I w" for b p p' and w w' :: "OS \<times> ParamStore"
    using that os_others_stop [of obeys True b None p "fst w"]
    by (auto simp: stop_one_def split: prod.splits)
  obtain ps1 w1 where one: "for_each (stop_one obeys False) (mg_procs mg) (mg_os mg, mg_params mg) = (ps1, w1)"
    by (cases "for_each (stop_one obeys False) (mg_procs mg) (mg_os mg, mg_params mg)") auto
  obtain ps2 w2 where two: "for_each (stop_one obeys True) ps1 w1 = (ps2, w2)"
    by (cases "for_each (stop_one obeys True) ps1 w1") auto
  have "?I w1"
    by (rule for_each_keeps [OF _ one, where I = ?I]) (use step in auto)
  then have "?I w2"
    by (rule for_each_keeps [OF _ two, where I = ?I, rotated]) (use step in blast)
  then show ?thesis
    using one two by (auto simp: manager_cleanup_def split: prod.splits)
qed

text \<open>C22 (safety). When the manager has ended after any number of rounds (on a request to shut down, to reboot or to
  uninstall, or because it was interrupted between two rounds) and has cleaned up, none of the processes it
  started with \<open>multiprocessing\<close> is alive, however they react to signals; the daemons, which outlive the
  manager, are untouched. (An end inside a round, between creating a process and starting it, is not modelled.)\<close>

theorem cleanup_leaves_nothing:
  "\<not> os_alive (mg_os (fst (manager_main su mis))) pid
   \<and> os_others (mg_os (fst (manager_main su mis))) = os_others (mg_os (manager_after su mis))"
  using cleanup_dead [of "manager_after su mis"] mg_ok_after [of su mis]
  by (simp add: manager_main_def mg_ok_def cleanup_keeps_others Let_def)

lemma child_of_round:
  assumes "mg_ok (managed_processes env fs) ig mg" "p' \<in> set (mg_procs (next_manager obeys mi mg))"
  obtains p where "p \<in> set (mg_procs mg)" "same_process p p'" "proc_ok p' (mg_os (next_manager obeys mi mg))"
    "proc_ok p (mg_os (others_act mi mg))"
    "its_round obeys (mi_files mi) ig (mi_started mi) (mi_CP mi) p (mg_os (others_act mi mg)) p' (mg_os (next_manager obeys mi mg))"
proof -
  have m: "managed (mg_procs mg) (mg_os mg)" "mg_ignore mg = ig"
    using assms(1) by (simp_all add: mg_ok_def)
  obtain i where i: "i < length (mg_procs (next_manager obeys mi mg))" "p' = mg_procs (next_manager obeys mi mg) ! i"
    using assms(2) by (auto simp: in_set_conv_nth)
  then have l: "i < length (mg_procs mg)" "same_process (mg_procs mg ! i) p'" "proc_ok p' (mg_os (next_manager obeys mi mg))"
    "its_round obeys (mi_files mi) ig (mi_started mi) (mi_CP mi) (mg_procs mg ! i) (mg_os (others_act mi mg)) p'
      (mg_os (next_manager obeys mi mg))"
    using round_each(2) [OF m(1), of obeys mi] m(2) by (auto simp: list_all2_conv_all_nth)
  moreover have "mg_procs mg ! i \<in> set (mg_procs mg)"
    using l(1) by simp
  moreover from this have "proc_ok (mg_procs mg ! i) (mg_os (others_act mi mg))"
    using managed_others [OF m(1), of mi] by (simp add: managed_def)
  ultimately show ?thesis
    using that by blast
qed

text \<open>C23 (liveness). After two rounds in which the device is offroad no process of the drive is alive, among them everything that
  steers or brakes: the first round signals it, the second waits and kills it.\<close>

theorem drive_ends_in_two_rounds:
  assumes "\<not> mi_started a" "\<not> mi_started b"
  shows "{c \<in> ran (os_children (mg_os (next_manager obeys b (next_manager obeys a (manager_after su mis))))).
    ch_exitcode c = None \<and> ch_name c \<in> set ONROAD_PROCESSES} = {}"
proof (rule ccontr)
  let ?mg = "manager_after su mis"
  let ?mg1 = "next_manager obeys a ?mg"
  let ?mg2 = "next_manager obeys b ?mg1"
  assume "\<not> ?thesis"
  then obtain c pid where child: "os_children (mg_os ?mg2) pid = Some c" and alive: "ch_exitcode c = None"
    and name: "ch_name c \<in> set ONROAD_PROCESSES"
    by (auto simp: ran_def)
  note ok = mg_ok_after [of su mis]
  note ok1 = mg_ok_round [OF ok, of obeys a]
  note ok2 = mg_ok_round [OF ok1, of obeys b]
  have "managed (mg_procs ?mg2) (mg_os ?mg2)"
    using ok2 by (simp add: mg_ok_def)
  then obtain p2 where p2: "p2 \<in> set (mg_procs ?mg2)" "mp_name p2 = ch_name c"
    using live_child_name child alive by blast
  obtain p1 where p1: "p1 \<in> set (mg_procs ?mg1)" "same_process p1 p2" "proc_ok p2 (mg_os ?mg2)" "proc_ok p1 (mg_os (others_act b ?mg1))"
    "its_round obeys (mi_files b) (su_ignore su) (mi_started b) (mi_CP b) p1 (mg_os (others_act b ?mg1)) p2 (mg_os ?mg2)"
    using child_of_round [OF ok1 p2(1)] .
  obtain p0 where p0: "same_process p0 p1" "proc_ok p0 (mg_os (others_act a ?mg))"
    "its_round obeys (mi_files a) (su_ignore su) (mi_started a) (mi_CP a) p0 (mg_os (others_act a ?mg)) p1 (mg_os ?mg1)"
    using child_of_round [OF ok p1(1)] .
  obtain q where q: "mp_name q \<in> set ONROAD_PROCESSES \<longrightarrow> parks q" "same_process q p2"
    using in_table [OF ok2 p2(1) onroad_parks] .
  have "mp_name q = ch_name c"
    using same_processD(1) [OF q(2)] p2(2) by simp
  then have "parks q"
    using q(1) name by simp
  then have parks: "parks p2" "parks p1" "parks p0"
    using same_processD(3) [OF q(2)] same_processD(3) [OF p1(2)] same_processD(3) [OF p0(1)]
    by (simp_all add: parks_def)
  have un: "\<not> fst (mp_wanted fs ig False CP p s)" if "parks p" for fs ig CP p s
    using that by (simp add: mp_wanted_def parks_def)
  have "mp_proc p1 = None \<or> mp_shutting_down p1"
    using unwanted_round(1) [OF p0(2,3)] un [OF parks(3)] assms(1) by simp
  then have "mp_proc p2 = None"
    using unwanted_round(2,3) [OF p1(4,5)] un [OF parks(2)] assms(2) by auto
  from no_live_kids [OF p1(3) this child] p2(2) alive show False
    by simp
qed

text \<open>The user interface is alive after every round, unless it is blocked by hand: if it has crashed, the round starts
  it again.\<close>

theorem ui_is_alive:
  assumes "''ui'' \<notin> set (su_ignore su)"
  shows "\<exists>p\<in>set (mg_procs (next_manager obeys mi (manager_after su mis))). \<exists>pid. mp_name p = ''ui'' \<and> mp_proc p = Some pid
    \<and> os_alive (mg_os (next_manager obeys mi (manager_after su mis))) pid"
proof -
  let ?mg = "manager_after su mis"
  let ?mg1 = "next_manager obeys mi ?mg"
  note ok = mg_ok_after [of su mis]
  note ok1 = mg_ok_round [OF ok, of obeys mi]
  obtain p' where p': "p' \<in> set (mg_procs ?mg1)" "mp_name p' = ''ui''"
    using table_has [OF ok1 ui_in_table] by blast
  obtain p where p: "same_process p p'" "proc_ok p' (mg_os ?mg1)" "proc_ok p (mg_os (others_act mi ?mg))"
    "its_round obeys (mi_files mi) (su_ignore su) (mi_started mi) (mi_CP mi) p (mg_os (others_act mi ?mg)) p' (mg_os ?mg1)"
    using child_of_round [OF ok p'(1)] .
  obtain q where q: "mp_name q = ''ui'' \<longrightarrow> mp_should_run q = always_run \<and> mp_enabled q \<and> mp_restart_if_crash q \<and> mp_kind q = PythonKind"
    "same_process q p'"
    using in_table [OF ok1 p'(1) ui_process] .
  have "mp_name q = ''ui''"
    using same_processD(1) [OF q(2)] p'(2) by simp
  then have f: "mp_name p = ''ui''" "mp_should_run p = always_run" "mp_enabled p" "mp_restart_if_crash p" "mp_kind p \<noteq> DaemonKind"
    using q same_processD [OF q(2)] same_processD [OF p(1)] by auto
  have "fst (mp_wanted (mi_files mi) (su_ignore su) (mi_started mi) (mi_CP mi) p s)" for s
    using assms f by (simp add: mp_wanted_def always_run_def reads_def)
  from wanted_round [OF p(3,4,2,1) this f(5)] show ?thesis
    using f(4) p' by blast
qed

lemma init_unregistered: "ps_get ''DongleId'' (manager_init env ii s) = Some (PStr UNREGISTERED_DONGLE_ID)"
  by (simp add: manager_init_def register_def set_offroad_param_def Let_def ps_get_def UNREGISTERED_DONGLE_ID_def)

lemma uploader_ignored: "''uploader'' \<in> set (su_ignore su)"
  by (simp add: su_ignore_def ignored_def init_unregistered)

lemma uploader_in_table: "''uploader'' \<in> mp_name ` set (procs env fs)"
  by (simp add: procs_def base_procs_def)

lemma no_kids_proc: "proc_ok p os \<Longrightarrow> kids (mp_name p) os = Map.empty \<Longrightarrow> mp_proc p = None"
  by (auto simp: proc_ok_def)

lemma kids_exits: "kids n os = Map.empty \<Longrightarrow> kids n (fold (\<lambda>(pid, code). os_exit pid code) xs os) = Map.empty"
proof (induction xs arbitrary: os)
  case (Cons x xs)
  then have "kids n (os_exit (fst x) (snd x) os) = Map.empty"
    by (auto simp: os_exit_def kids_update)
  then show ?case
    using Cons.IH by (simp add: case_prod_beta)
qed simp

lemma ignored_round:
  assumes "proc_ok p os" "its_round obeys fs ig st CP p os p' os'" "mp_name p \<in> set ig" "kids (mp_name p) os = Map.empty"
  shows "kids (mp_name p) os' = Map.empty"
  using unwanted_round(3) [OF assms(1,2) _ no_kids_proc [OF assms(1,4)]] assms(3,4) by (simp add: mp_wanted_def)

lemma uploader_run:
  assumes "mg_ok (managed_processes env fs) ig mg" "''uploader'' \<in> set ig" "kids ''uploader'' (mg_os mg) = Map.empty"
  shows "kids ''uploader'' (mg_os (manager_run obeys mis mg)) = Map.empty"
  using assms
proof (induction mis arbitrary: mg)
  case (Cons mi mis)
  let ?mg1 = "next_manager obeys mi mg"
  note ok1 = mg_ok_round [OF Cons.prems(1), of obeys mi]
  obtain p' where p': "p' \<in> set (mg_procs ?mg1)" "mp_name p' = ''uploader''"
    using table_has [OF ok1 uploader_in_table] by blast
  obtain p where p: "same_process p p'" "proc_ok p (mg_os (others_act mi mg))"
    "its_round obeys (mi_files mi) ig (mi_started mi) (mi_CP mi) p (mg_os (others_act mi mg)) p' (mg_os ?mg1)"
    using child_of_round [OF Cons.prems(1) p'(1)] .
  have n: "mp_name p = ''uploader''"
    using same_processD(1) [OF p(1)] p'(2) by simp
  have "kids ''uploader'' (mg_os (others_act mi mg)) = Map.empty"
    using kids_exits Cons.prems(3) by (simp add: others_act_def)
  then have "kids ''uploader'' (mg_os ?mg1) = Map.empty"
    using ignored_round [OF p(2,3)] Cons.prems(2) by (simp add: n)
  then show ?case
    using Cons.IH [OF ok1 Cons.prems(2)] by (auto simp: next_manager_def split: prod.splits)
qed simp

text \<open>The uploader never runs, not even once: the registration of this fork always stores the dongle id of an
  unregistered device, and the manager ignores the uploader for such a device.\<close>

theorem uploader_never_runs:
  "''uploader'' \<notin> ch_name ` ran (os_children (mg_os (manager_after su mis)))"
proof
  assume "''uploader'' \<in> ch_name ` ran (os_children (mg_os (manager_after su mis)))"
  then obtain pid c where child: "os_children (mg_os (manager_after su mis)) pid = Some c" and n: "ch_name c = ''uploader''"
    by (auto simp: ran_def)
  let ?ps = "managed_processes (su_env su) (su_files su)"
  let ?os = "\<lparr>os_next_pid = su_next_pid su, os_children = Map.empty, os_others = su_others su\<rparr>"
  let ?s = "manager_init (su_env su) (su_init su) (su_params su)"
  obtain running ps os s where e: "ensure_running (su_obeys su) (su_files su) (su_ignore su) False (su_CP su) ?ps
      (?os, write_onroad_params False ?s) = (running, ps, os, s)"
    by (cases "ensure_running (su_obeys su) (su_files su) (su_ignore su) False (su_CP su) ?ps
      (?os, write_onroad_params False ?s)") auto
  have boot: "mg_os (manager_boot su) = os" "mg_ok ?ps (su_ignore su) (manager_boot su)"
    using e mg_ok_after [of su "[]"] by (simp_all add: manager_boot_def manager_start_def Let_def su_ignore_def manager_after_def)
  have empty: "kids m ?os = Map.empty" for m
    by (simp add: kids_def fun_eq_iff)
  obtain i where i: "i < length ps" "mp_name (ps ! i) = ''uploader''"
    using table_has [OF boot(2) uploader_in_table] e
    by (auto simp: manager_boot_def manager_start_def Let_def su_ignore_def in_set_conv_nth)
  then have t: "same_process (?ps ! i) (ps ! i)" "i < length ?ps"
    "its_round (su_obeys su) (su_files su) (su_ignore su) False (su_CP su) (?ps ! i) ?os (ps ! i) os"
    using ensure_running_each [OF managed_boot e] by (auto simp: list_all2_conv_all_nth)
  have "proc_ok (?ps ! i) ?os" "mp_name (?ps ! i) = ''uploader''"
    using managed_boot [of "su_env su" "su_files su" "su_next_pid su" "su_others su"] nth_mem [OF t(2)]
      same_processD(1) [OF t(1)] i(2) unfolding managed_def by simp_all
  then have "kids ''uploader'' os = Map.empty"
    using ignored_round [OF _ t(3)] uploader_ignored empty by metis
  then have "kids ''uploader'' (mg_os (manager_after su mis)) = Map.empty"
    using uploader_run [OF boot(2) uploader_ignored] boot(1) by (simp add: manager_after_def)
  then have "kids ''uploader'' (mg_os (manager_after su mis)) pid = None"
    by simp
  then show False
    using child n by (simp add: kids_def)
qed

lemma debug_mode_flags:
  "param_flags ''JoystickDebugMode'' = Some [CLEAR_ON_MANAGER_START, CLEAR_ON_OFFROAD_TRANSITION]"
  "param_flags ''LongitudinalManeuverMode'' = Some [CLEAR_ON_MANAGER_START, CLEAR_ON_OFFROAD_TRANSITION]"
  "param_flags ''LateralManeuverMode'' = Some [CLEAR_ON_MANAGER_START, CLEAR_ON_OFFROAD_TRANSITION]"
  by code_simp+

text \<open>The debugging modes end with the drive: in the round that sees the device go offroad, the joystick and the
  maneuver modes are removed, whatever else wrote them before.\<close>

theorem debug_modes_end_with_drive:
  assumes "mg_started_prev (manager_after su mis)" "\<not> mi_started mi"
    "k \<in> {''JoystickDebugMode'', ''LongitudinalManeuverMode'', ''LateralManeuverMode''}"
  shows "mg_params (next_manager obeys mi (manager_after su mis)) k = None"
proof -
  obtain fs where flags: "param_flags k = Some fs" "CLEAR_ON_OFFROAD_TRANSITION \<in> set fs"
    using assms(3) debug_mode_flags by auto
  have k: "k \<noteq> ''IsOnroad''" "k \<noteq> ''IsOffroad''"
    using assms(3) by auto
  have "clear_all CLEAR_ON_OFFROAD_TRANSITION s k = None" "s k = None \<Longrightarrow> clear_all f s k = None" for s f
    using flags by (simp_all add: clear_all_def)
  then have "round_params mi (others_act mi (manager_after su mis)) k = None"
    using assms(1,2) k by (simp add: round_params_def clear_transition_def write_onroad_params_def ps_put_bool_def Let_def)
  moreover have "k \<notin> insert ''LastManagerExitReason'' TABLE_WRITES"
    using assms(3) by (auto simp: TABLE_WRITES_def)
  ultimately show ?thesis
    using round_params_kept [OF mg_ok_after] by simp
qed

text \<open>Predicates that exclude each other: onroad exactly one of the controls and the joystick runs, exactly one of the
  planner and the longitudinal maneuvers, exactly one of the two GNSS receivers, and at most one of the two model
  runners even when the first of them fills the cache that the second reads.\<close>

theorem exclusive_processes:
  "fst (and_fns not_joystick iscar fs started s CP) = (started \<and> \<not> fst (or_fns joystick notcar fs started s CP))
   \<and> fst (not_long_maneuver fs started s CP) = (started \<and> \<not> fst (long_maneuver fs started s CP))
   \<and> fst (qcomgps fs started s CP) = (started \<and> \<not> fst (ublox fs started s CP))
   \<and> \<not> (fst (and_fns only_onroad (is_stock_model env) fs started s CP)
        \<and> fst (and_fns only_onroad (is_tinygrad_model env) fs started
                (snd (and_fns only_onroad (is_stock_model env) fs started s CP)) CP))"
proof (intro conjI)
  show "\<not> (fst (and_fns only_onroad (is_stock_model env) fs started s CP)
        \<and> fst (and_fns only_onroad (is_tinygrad_model env) fs started
                (snd (and_fns only_onroad (is_stock_model env) fs started s CP)) CP))"
    by (auto simp: and_fns_def only_onroad_def reads_def is_stock_model_def is_tinygrad_model_def case_prod_beta Let_def
        get_active_model_runner_def ps_get_def Runner_stock_def Runner_tinygrad_def split: option.splits ParamVal.splits)
qed (auto simp: and_fns_def or_fns_def not_joystick_def joystick_def iscar_def notcar_def not_long_maneuver_def long_maneuver_def
    qcomgps_def ublox_def reads_def Let_def)

section \<open>Witnesses\<close>

definition sample_proc_env :: ProcEnv where
  "sample_proc_env =
     \<lparr>env_WEBCAM = False, env_PC = False, env_TICI = True, env_Darwin = False, env_mapd_root = ''/data/media/0/osm'',
      env_MAPD_PATH = ''/data/media/0/osm/mapd'', env_crash_log_root = ''/data/community/crashes'',
      env_log_root = ''/data/media/0/realdata'', env_model_root = ''/data/media/0/models'',
      env_sunnypilot_root = ''/data/openpilot'', env_active_runner = (\<lambda>_. None)\<rparr>"

definition sample_init :: InitInput where
  "sample_init =
     \<lparr>ii_version = ''0.10'', ii_git_commit = ''abc'', ii_git_commit_date = [], ii_channel = ''dev'', ii_git_origin = [],
      ii_development_channel = True, ii_tested_channel = False, ii_release_channel = False,
      ii_release_sp_channel = False, ii_serial = ''1234'', ii_migration = Map.empty, ii_car_list = [],
      ii_offroad_alert = (\<lambda>_. JObj [])\<rparr>"

text \<open>A device whose programs ignore every signal but SIGKILL.\<close>

definition sample_setup :: ManagerSetup where
  "sample_setup =
     \<lparr>su_obeys = (\<lambda>_ _. None), su_env = sample_proc_env, su_init = sample_init, su_files = (\<lambda>_. False), su_CP = plain_CP,
      su_noboard = False, su_block = [], su_next_pid = 1000, su_others = Map.empty, su_params = Map.empty\<rparr>"

definition sample_round :: "bool \<Rightarrow> ManagerInput" where
  "sample_round started =
     \<lparr>mi_exits = [], mi_writes = [(''JoystickDebugMode'', Some (PBool True))], mi_files = (\<lambda>_. False), mi_started = started,
      mi_pandas = [\<lparr>mgp_ignitionLine = started, mgp_ignitionCan = False, mgp_unknown = False\<rparr>], mi_CP = plain_CP, mi_now = []\<rparr>"

lemma sample_round_started [simp]: "mi_started (sample_round b) = b"
  by (simp add: sample_round_def)

theorem drive_ends_in_two_rounds_witness:
  "{c \<in> ran (os_children (mg_os (next_manager (su_obeys sample_setup) (sample_round False)
      (next_manager (su_obeys sample_setup) (sample_round False) (manager_after sample_setup [sample_round True]))))).
    ch_exitcode c = None \<and> ch_name c \<in> set ONROAD_PROCESSES} = {}"
  by (rule drive_ends_in_two_rounds) simp_all

theorem ui_is_alive_witness:
  "\<exists>p\<in>set (mg_procs (next_manager (su_obeys sample_setup) (sample_round True) (manager_after sample_setup []))).
    \<exists>pid. mp_name p = ''ui'' \<and> mp_proc p = Some pid
    \<and> os_alive (mg_os (next_manager (su_obeys sample_setup) (sample_round True) (manager_after sample_setup []))) pid"
  by (rule ui_is_alive) (simp add: su_ignore_def ignored_def init_unregistered sample_setup_def)

theorem debug_modes_end_with_drive_witness:
  "mg_params (next_manager (su_obeys sample_setup) (sample_round False) (manager_after sample_setup [sample_round True]))
     ''JoystickDebugMode'' = None"
proof (rule debug_modes_end_with_drive)
  have "manager_after sample_setup [sample_round True] = next_manager (su_obeys sample_setup) (sample_round True) (manager_boot sample_setup)"
    by (simp add: manager_after_def next_manager_def split: prod.splits)
  then show "mg_started_prev (manager_after sample_setup [sample_round True])"
    using round_each(4) [of "manager_boot sample_setup"] mg_ok_after [of sample_setup "[]"]
    by (simp add: mg_ok_def manager_after_def)
qed simp_all

end
