(* ===== verification/LpaIo.thy ===== *)
theory LpaIo
  imports Tlv
begin

text \<open>
  The serial side of \<open>system/hardware/tici/lpa.py\<close>: \<open>AtClient\<close>, its AT commands, the channel to the ISD-R
  application and the APDUs sent over it. Every operation is a function of the client and of what is outside it; an
  exception is the left value of the result, the state it leaves behind is kept.

  Outside are, as queues that an operation takes its answers from: how the modem reacts to the commands written to it
  (an exception of the serial port, or finitely many lines followed by silence until the timeout), whether opening and
  flushing the port fail, and the replies of the SM-DP+ server. A queue that has run out stands for a modem that is
  silent, a port that opens and a server that cannot be reached. Every finite behaviour of the outside is such a
  value, and nothing is assumed of it. What the client does is appended to \<open>trace\<close>.

  A \<open>str\<close> is the list of its UTF-8 bytes.
\<close>

section \<open>Exceptions and state\<close>

datatype LpaExn =
    RuntimeError string | LPAError string | LPAProfileNotFoundError string
  | TimeoutError | SerialException | TermiosError | OtherOSError
  | ValueErr | IndexErr | KeyErr | AttributeErr
  | RequestsError

definition is_runtime_error :: "LpaExn \<Rightarrow> bool" where
  "is_runtime_error e =
     (case e of RuntimeError _ \<Rightarrow> True | LPAError _ \<Rightarrow> True | LPAProfileNotFoundError _ \<Rightarrow> True | _ \<Rightarrow> False)"

definition is_os_error :: "LpaExn \<Rightarrow> bool" where
  "is_os_error e \<longleftrightarrow> e \<in> {TimeoutError, SerialException, OtherOSError, RequestsError}"

datatype RxItem = RxLine "byte list" | RxRaises LpaExn

datatype ModemReply = WriteRaises LpaExn | Lines "RxItem list"

record Es9pStatus =
  st_status :: "string option"
  st_reason :: "string option"
  st_subject :: "string option"
  st_message :: "string option"

datatype HttpReply = HttpRaises LpaExn | EmptyBody | Body "Es9pStatus option" "string \<rightharpoonup> string"

datatype Event =
    At string | RawWrite "byte list" | ResetModem
  | Post string string "(string \<times> string) list"
  | PortClosed

record Lpa =
  channel :: "string option"
  serial_open :: bool
  rx :: "RxItem list"
  replies :: "ModemReply list"
  opens :: "LpaExn option list"
  flushes :: "LpaExn option list"
  https :: "HttpReply list"
  time_valid :: bool
  locked :: bool
  trace :: "Event list"

section \<open>Operations\<close>

type_synonym 'a io = "Lpa \<Rightarrow> Lpa \<times> (LpaExn + 'a)"

definition ret :: "'a \<Rightarrow> 'a io" where "ret x = (\<lambda>s. (s, Inr x))"

definition throw :: "LpaExn \<Rightarrow> 'a io" where "throw e = (\<lambda>s. (s, Inl e))"

definition modify :: "(Lpa \<Rightarrow> Lpa) \<Rightarrow> unit io" where "modify f = (\<lambda>s. (f s, Inr ()))"

definition bindM :: "'a io \<Rightarrow> ('a \<Rightarrow> 'b io) \<Rightarrow> 'b io" where
  "bindM m f = (\<lambda>s. case m s of (s', Inl e) \<Rightarrow> (s', Inl e) | (s', Inr x) \<Rightarrow> f x s')"

definition seqM :: "'a io \<Rightarrow> 'b io \<Rightarrow> 'b io" where "seqM m n = bindM m (\<lambda>_. n)"

text \<open>\<open>try: m except p as e: h e\<close> and \<open>try: m finally: f\<close>.\<close>

definition catchM :: "'a io \<Rightarrow> (LpaExn \<Rightarrow> bool) \<Rightarrow> (LpaExn \<Rightarrow> 'a io) \<Rightarrow> 'a io" where
  "catchM m p h = (\<lambda>s. case m s of (s', Inl e) \<Rightarrow> if p e then h e s' else (s', Inl e) | (s', Inr x) \<Rightarrow> (s', Inr x))"

definition finallyM :: "'a io \<Rightarrow> unit io \<Rightarrow> 'a io" where
  "finallyM m f = (\<lambda>s. case m s of (s', r) \<Rightarrow> (case f s' of (s'', Inl e) \<Rightarrow> (s'', Inl e) | (s'', Inr _) \<Rightarrow> (s'', r)))"

definition gets :: "(Lpa \<Rightarrow> 'a) \<Rightarrow> 'a io" where "gets f = (\<lambda>s. (s, Inr (f s)))"

definition lift_sum :: "LpaExn + 'a \<Rightarrow> 'a io" where "lift_sum r = (\<lambda>s. (s, r))"

definition set_channel :: "string option \<Rightarrow> unit io" where "set_channel c = modify (channel_update (\<lambda>_. c))"

definition log_event :: "Event \<Rightarrow> unit io" where "log_event e = modify (\<lambda>s. s\<lparr>trace := trace s @ [e]\<rparr>)"

section \<open>Text\<close>

text \<open>The bytes of a text, and the text in bytes: what is no UTF-8 is dropped.\<close>

definition encode_str :: "string \<Rightarrow> byte list" where "encode_str s = map of_char s"

definition decode_bytes :: "byte list \<Rightarrow> string" where "decode_bytes bs = map (\<lambda>b. char_of (unat b)) bs"

definition utf8_len :: "byte \<Rightarrow> byte list \<Rightarrow> nat" where
  "utf8_len a bs =
     (let x = unat a; cont = \<lambda>n lo hi. length bs \<ge> n \<and> unat (bs ! 0) \<in> {lo..hi} \<and> (\<forall>b\<in>set (take n bs). unat b \<in> {128..191})
      in if x < 128 then 1
         else if x \<in> {194..223} then (if cont 1 128 191 then 2 else 0)
         else if x = 224 then (if cont 2 160 191 then 3 else 0)
         else if x = 237 then (if cont 2 128 159 then 3 else 0)
         else if x \<in> {225..239} then (if cont 2 128 191 then 3 else 0)
         else if x = 240 then (if cont 3 144 191 then 4 else 0)
         else if x = 244 then (if cont 3 128 143 then 4 else 0)
         else if x \<in> {241..243} then (if cont 3 128 191 then 4 else 0)
         else 0)"

fun utf8_ignore :: "byte list \<Rightarrow> byte list" where
  "utf8_ignore [] = []"
| "utf8_ignore (a # bs) =
     (case utf8_len a bs of 0 \<Rightarrow> utf8_ignore bs | Suc n \<Rightarrow> a # take n bs @ utf8_ignore (drop n bs))"

definition decode_utf8 :: "byte list \<Rightarrow> string" where "decode_utf8 bs = decode_bytes (utf8_ignore bs)"

definition is_space :: "char \<Rightarrow> bool" where
  "is_space c \<longleftrightarrow> (let n = (of_char c :: nat) in n = 32 \<or> n \<in> {9..13} \<or> n \<in> {28..31})"

definition strip_of :: "(char \<Rightarrow> bool) \<Rightarrow> string \<Rightarrow> string" where
  "strip_of p s = rev (dropWhile p (rev (dropWhile p s)))"

definition starts_with :: "string \<Rightarrow> string \<Rightarrow> bool" where
  "starts_with p s \<longleftrightarrow> take (length p) s = p"

text \<open>\<open>s.split(sep, 1)\<close>: the text before the first separator, and the text after it if there is one.\<close>

definition split_once :: "char \<Rightarrow> string \<Rightarrow> string \<times> string option" where
  "split_once sep s = (takeWhile (\<lambda>c. c \<noteq> sep) s, if sep \<in> set s then Some (tl (dropWhile (\<lambda>c. c \<noteq> sep) s)) else None)"

definition hex_digit :: "nat \<Rightarrow> char" where "hex_digit n = ''0123456789ABCDEF'' ! n"

definition hex_byte :: "byte \<Rightarrow> string" where "hex_byte b = [hex_digit (unat b div 16), hex_digit (unat b mod 16)]"

definition hex_upper :: "byte list \<Rightarrow> string" where "hex_upper bs = concat (map hex_byte bs)"

definition hex_value :: "char \<Rightarrow> nat option" where
  "hex_value c =
     (let n = (of_char c :: nat)
      in if n \<in> {48..57} then Some (n - 48) else if n \<in> {65..70} then Some (n - 55)
         else if n \<in> {97..102} then Some (n - 87) else None)"

text \<open>\<open>bytes.fromhex\<close>: pairs of digits with white space between the pairs.\<close>

fun from_hex :: "string \<Rightarrow> LpaExn + byte list" where
  "from_hex [] = Inr []"
| "from_hex [c] = (if is_space c then Inr [] else Inl ValueErr)"
| "from_hex (c # d # cs) =
     (if is_space c then from_hex (d # cs)
      else (case (hex_value c, hex_value d) of
          (Some a, Some b) \<Rightarrow> (case from_hex cs of Inl e \<Rightarrow> Inl e | Inr bs \<Rightarrow> Inr (of_nat (16 * a + b) # bs))
        | _ \<Rightarrow> Inl ValueErr))"

section \<open>AT commands\<close>

definition send :: "string \<Rightarrow> unit io" where
  "send cmd =
     (if \<not> is_ascii cmd then throw ValueErr
      else seqM (log_event (At cmd))
        (\<lambda>s. case replies s of
            [] \<Rightarrow> (s, Inr ())
          | WriteRaises e # rs \<Rightarrow> (s\<lparr>replies := rs\<rparr>, Inl e)
          | Lines ls # rs \<Rightarrow> (s\<lparr>replies := rs, rx := rx s @ ls\<rparr>, Inr ())))"

text \<open>Reading goes on until a final result code, a timeout (an empty line read) or an exception.\<close>

fun expect_lines :: "RxItem list \<Rightarrow> string list \<Rightarrow> RxItem list \<times> (LpaExn + string list)" where
  "expect_lines [] acc = ([], Inl TimeoutError)"
| "expect_lines (RxRaises e # items) acc = (items, Inl e)"
| "expect_lines (RxLine raw # items) acc =
     (let line = strip_of is_space (decode_utf8 raw)
      in if raw = [] then (items, Inl TimeoutError)
         else if line = [] then expect_lines items acc
         else if line = ''OK'' then (items, Inr acc)
         else if line = ''ERROR'' \<or> starts_with ''+CME ERROR'' line
         then (items, Inl (RuntimeError (''AT command failed: '' @ line)))
         else expect_lines items (acc @ [line]))"

definition expect :: "string list io" where
  "expect = (\<lambda>s. case expect_lines (rx s) [] of (items, r) \<Rightarrow> (s\<lparr>rx := items\<rparr>, r))"

definition open_serial :: "unit io" where
  "open_serial =
     (\<lambda>s. case opens s of
        [] \<Rightarrow> (s\<lparr>serial_open := True, rx := []\<rparr>, Inr ())
      | None # os \<Rightarrow> (s\<lparr>serial_open := True, rx := [], opens := os\<rparr>, Inr ())
      | Some e # os \<Rightarrow> (s\<lparr>opens := os\<rparr>, Inl e))"

definition close_serial :: "unit io" where "close_serial = modify (serial_open_update (\<lambda>_. False))"

definition ensure_serial :: "bool \<Rightarrow> unit io" where
  "ensure_serial reconnect =
     seqM (if reconnect then seqM (set_channel None) close_serial else ret ())
       (bindM (gets serial_open) (\<lambda>is_open. if is_open then ret () else open_serial))"

definition query :: "string \<Rightarrow> string list io" where
  "query cmd =
     seqM (ensure_serial False)
       (catchM (seqM (send cmd) expect) (\<lambda>e. e = SerialException)
          (\<lambda>_. seqM (ensure_serial True) (seqM (send cmd) expect)))"

definition reset_input_buffer :: "unit io" where
  "reset_input_buffer =
     (\<lambda>s. case flushes s of
        [] \<Rightarrow> (s\<lparr>rx := []\<rparr>, Inr ())
      | None # fs \<Rightarrow> (s\<lparr>rx := [], flushes := fs\<rparr>, Inr ())
      | Some e # fs \<Rightarrow> (s\<lparr>flushes := fs\<rparr>, Inl e))"

definition send_raw :: "byte list \<Rightarrow> unit io" where
  "send_raw data = seqM (ensure_serial False) (seqM reset_input_buffer
     (seqM (log_event (RawWrite data))
       (\<lambda>s. case replies s of
           [] \<Rightarrow> (s, Inr ())
         | WriteRaises e # rs \<Rightarrow> (s\<lparr>replies := rs\<rparr>, Inl e)
         | Lines ls # rs \<Rightarrow> (s\<lparr>replies := rs, rx := rx s @ ls\<rparr>, Inr ()))))"

section \<open>The channel to the ISD-R application\<close>

definition ISDR_AID :: string where "ISDR_AID = ''A0000005591010FFFFFFFF8900000100''"

definition cho_command :: string where "cho_command = ''AT+CCHO='' @ [CHR 0x22] @ ISDR_AID @ [CHR 0x22]"

definition chc_command :: "string \<Rightarrow> string" where "chc_command ch = ''AT+CCHC='' @ ch"

text \<open>\<open>f"{self.channel}"\<close>.\<close>

definition channel_text :: "string option \<Rightarrow> string" where
  "channel_text c = (case c of None \<Rightarrow> ''None'' | Some ch \<Rightarrow> ch)"

text \<open>\<open>line.split(":", 1)[1]\<close> of a line that has a colon.\<close>

definition after_colon :: "string \<Rightarrow> string" where
  "after_colon line = (case split_once (CHR '':'') line of (_, Some t) \<Rightarrow> t | _ \<Rightarrow> [])"

definition opened_channel :: "string list \<Rightarrow> string option" where
  "opened_channel lines =
     List.find (\<lambda>ch. ch \<noteq> [])
       (map (\<lambda>line. strip_of is_space (after_colon line)) (filter (starts_with ''+CCHO:'') lines))"

definition close_channel :: "(LpaExn \<Rightarrow> bool) \<Rightarrow> unit io" where
  "close_channel ignored =
     bindM (gets channel) (\<lambda>c. case c of
         None \<Rightarrow> ret ()
       | Some ch \<Rightarrow> seqM (catchM (seqM (query (chc_command ch)) (ret ())) ignored (\<lambda>_. ret ())) (set_channel None))"

definition open_isdr_once :: "unit io" where
  "open_isdr_once =
     seqM (close_channel is_runtime_error)
       (seqM (bindM (gets serial_open) (\<lambda>is_open.
            if is_open
            then catchM reset_input_buffer (\<lambda>e. is_os_error e \<or> e \<in> {SerialException, TermiosError}) (\<lambda>_. ensure_serial True)
            else ret ()))
         (bindM (query cho_command) (\<lambda>lines. case opened_channel lines of
              None \<Rightarrow> throw (RuntimeError ''Failed to open ISD-R application'')
            | Some ch \<Rightarrow> set_channel (Some ch))))"

text \<open>The script that restarts the modem is taken to be there: \<open>subprocess.run\<close> does not raise.\<close>

definition reset_modem :: "unit io" where
  "reset_modem = seqM close_serial (log_event ResetModem)"

definition OPEN_ISDR_RETRIES :: nat where "OPEN_ISDR_RETRIES = 10"
definition OPEN_ISDR_RESET_ATTEMPT :: nat where "OPEN_ISDR_RESET_ATTEMPT = 5"

text \<open>The attempts from the given one on.\<close>

fun open_attempts :: "nat list \<Rightarrow> unit io" where
  "open_attempts [] = throw (RuntimeError ''Failed to open ISD-R after retries'')"
| "open_attempts (attempt # rest) =
     catchM open_isdr_once (\<lambda>e. is_runtime_error e \<or> e \<in> {TimeoutError, TermiosError, SerialException})
       (\<lambda>_. seqM (if attempt = OPEN_ISDR_RESET_ATTEMPT then reset_modem else ret ()) (open_attempts rest))"

definition open_isdr :: "unit io" where "open_isdr = open_attempts [0..<OPEN_ISDR_RETRIES]"

text \<open>\<open>AtClient.close\<close>, run once at exit: the port object stays, closed.\<close>

definition close_client :: "unit io" where
  "close_client =
     finallyM (close_channel (\<lambda>e. is_runtime_error e \<or> e = TimeoutError))
       (bindM (gets serial_open) (\<lambda>is_open. if is_open then log_event PortClosed else ret ()))"

section \<open>APDUs\<close>

definition cgla_command :: "string option \<Rightarrow> byte list \<Rightarrow> string" where
  "cgla_command ch apdu =
     (let hex_payload = hex_upper apdu
      in ''AT+CGLA='' @ channel_text ch @ '','' @ str_nat (length hex_payload) @ '','' @ [CHR 0x22] @ hex_payload @ [CHR 0x22])"

text \<open>The data and the status word in the first line that has them; a payload that is no hexadecimal raises.\<close>

fun find_cgla :: "string list \<Rightarrow> LpaExn + (byte list \<times> byte \<times> byte)" where
  "find_cgla [] = Inl (RuntimeError ''Missing +CGLA response'')"
| "find_cgla (line # lines) =
     (if starts_with ''+CGLA:'' line
      then (case split_once (CHR '','') (after_colon line) of
          (_, None) \<Rightarrow> find_cgla lines
        | (_, Some part) \<Rightarrow>
            (case from_hex (strip_of (\<lambda>c. c = CHR 0x22) (strip_of is_space part)) of
               Inl e \<Rightarrow> Inl e
             | Inr data \<Rightarrow>
                 if length data \<ge> 2
                 then Inr (take (length data - 2) data, data ! (length data - 2), data ! (length data - 1))
                 else find_cgla lines))
      else find_cgla lines)"

definition send_apdu_once :: "byte list \<Rightarrow> (byte list \<times> byte \<times> byte) io" where
  "send_apdu_once apdu =
     seqM (bindM (gets channel) (\<lambda>c. if c = None then open_isdr else ret ()))
       (bindM (gets channel) (\<lambda>c. bindM (query (cgla_command c apdu)) (\<lambda>lines. lift_sum (find_cgla lines))))"

definition SEND_APDU_RETRIES :: nat where "SEND_APDU_RETRIES = 3"

fun apdu_attempts :: "byte list \<Rightarrow> nat list \<Rightarrow> (byte list \<times> byte \<times> byte) io" where
  "apdu_attempts apdu [] = throw (RuntimeError ''send_apdu failed'')"
| "apdu_attempts apdu (attempt # rest) =
     catchM (send_apdu_once apdu) (\<lambda>e. is_runtime_error e \<or> e = ValueErr)
       (\<lambda>e. seqM (set_channel None) (if attempt = SEND_APDU_RETRIES - 1 then throw e else apdu_attempts apdu rest))"

definition send_apdu :: "byte list \<Rightarrow> (byte list \<times> byte \<times> byte) io" where
  "send_apdu apdu = apdu_attempts apdu [0..<SEND_APDU_RETRIES]"

end
