(* ===== verification/TlvLaws.thy ===== *)
theory TlvLaws
  imports Tlv
begin

text \<open>
  The codecs of \<open>Tlv\<close> read back what they write: elements of tag-length-value data, the digits of an ICCID, and
  base64. The elements found in any data are consecutive slices of it.
\<close>

section \<open>Numbers in bytes\<close>

lemma be_value_snoc: "be_value (bs @ [b]) = 256 * be_value bs + unat b"
  by (simp add: be_value.simps)

lemma be_value_Nil [simp]: "be_value [] = 0"
  by (simp add: be_value.simps)

lemma be_value_bytes: "be_value (be_bytes n) = n"
proof (induction n rule: be_bytes.induct)
  case (1 n)
  show ?case
  proof (cases "n = 0")
    case False
    then show ?thesis
      using 1 unfolding be_bytes.simps [of n] by (simp add: be_value_snoc unat_of_nat)
  qed (simp add: be_bytes.simps)
qed

lemma length_be_bytes: "n < 256 ^ k \<Longrightarrow> length (be_bytes n) \<le> k"
proof (induction k arbitrary: n)
  case 0
  then show ?case by (simp add: be_bytes.simps)
next
  case (Suc k)
  have "n div 256 < 256 ^ k"
    using Suc.prems by (simp add: less_mult_imp_div_less mult.commute)
  then show ?case
    using Suc.IH unfolding be_bytes.simps [of n] by simp
qed

lemma be_value_int_bytes: "be_value (int_bytes n) = n"
  using be_value_snoc [of "[]" 0] by (simp add: int_bytes_def be_value_bytes)

section \<open>Elements\<close>

text \<open>The tags of one byte, and those of two bytes whose first announces a second one.\<close>

definition tag_ok :: "nat \<Rightarrow> bool" where
  "tag_ok t \<longleftrightarrow> (if t > 255 then t < 65536 \<and> t div 256 mod 32 = 31 \<and> t mod 256 < 128 else t mod 32 \<noteq> 31)"

lemma read_tag_encoded:
  assumes "tag_ok t" "t > 255"
  shows "read_tag (of_nat (t div 256)) (of_nat (t mod 256) # bs) = (t, bs)"
proof -
  have "t div 256 < 256"
    using assms by (simp add: tag_ok_def less_mult_imp_div_less)
  then show ?thesis
    using assms by (simp add: tag_ok_def read_tag_def unat_of_nat)
qed

lemma read_size_short: "n \<le> 127 \<Longrightarrow> read_size (of_nat n # bs) = Some (n, bs)"
  by (simp add: read_size_def unat_of_nat)

lemma read_size_long:
  assumes "length (be_bytes n) \<le> 127"
  shows "read_size (of_nat (128 + length (be_bytes n)) # be_bytes n @ bs) = Some (n, bs)"
proof -
  have "unat (of_nat (128 + length (be_bytes n)) :: byte) = 128 + length (be_bytes n)"
    using assms by (simp only: unat_of_nat) simp
  then show ?thesis
    by (simp add: read_size_def Let_def be_value_bytes del: of_nat_add)
qed

lemma one_tlv_encoded:
  assumes "tag_ok t" "length v < 256 ^ 4"
  shows "one_tlv (encode_tlv t v @ rest) = Some (t, v, rest)"
proof -
  have l: "length (be_bytes (length v)) \<le> 127"
    using length_be_bytes [OF assms(2)] by simp
  have s: "read_size (drop (if t > 255 then 2 else 1) (encode_tlv t v @ rest)) = Some (length v, v @ rest)"
    using read_size_short [of "length v" "v @ rest"] read_size_long [OF l, of "v @ rest"]
    by (simp add: encode_tlv_def Let_def del: of_nat_add)
  show ?thesis
  proof (cases "t > 255")
    case True
    then obtain bs where e: "encode_tlv t v @ rest = of_nat (t div 256) # of_nat (t mod 256) # bs"
      by (cases "length v \<le> 127") (simp_all add: encode_tlv_def Let_def)
    then show ?thesis
      using s read_tag_encoded [OF assms(1) True] True by (simp add: one_tlv_def)
  next
    case False
    then obtain bs where e: "encode_tlv t v @ rest = of_nat t # bs"
      by (cases "length v \<le> 127") (simp_all add: encode_tlv_def Let_def)
    have "read_tag (of_nat t) bs = (t, bs)"
      using assms(1) False by (simp add: read_tag_def tag_ok_def unat_of_nat)
    then show ?thesis
      using s e False by (simp add: one_tlv_def)
  qed
qed

lemma iter_tlv_Nil [simp]: "iter_tlv_at p [] = []" "iter_tlv [] = []"
  by (simp_all add: iter_tlv_at.simps [of p "[]"] iter_tlv_at.simps [of 0 "[]"] iter_tlv_def one_tlv_def)

lemma iter_tlv_at_shift: "map (\<lambda>(t, v, _, _). (t, v)) (iter_tlv_at p data) = map (\<lambda>(t, v, _, _). (t, v)) (iter_tlv_at q data)"
proof (induction p data arbitrary: q rule: iter_tlv_at.induct)
  case (1 p data)
  show ?case
  proof (cases "one_tlv data")
    case None
    then show ?thesis
      unfolding iter_tlv_at.simps [of p data] iter_tlv_at.simps [of q data] by simp
  next
    case (Some x)
    then obtain t v rest where x: "one_tlv data = Some (t, v, rest)"
      by (cases x) auto
    show ?thesis
      unfolding iter_tlv_at.simps [of p data] iter_tlv_at.simps [of q data]
      using 1 [OF x refl refl refl] by (simp add: x Let_def)
  qed
qed

lemma iter_tlv_step: "one_tlv data = Some (t, v, rest) \<Longrightarrow> iter_tlv data = (t, v) # iter_tlv rest"
  using iter_tlv_at_shift [of "length data - length rest" rest 0]
  by (simp add: iter_tlv_def iter_tlv_at.simps [of 0 data] Let_def)

lemma find_tag_step:
  "one_tlv data = Some (t, v, rest) \<Longrightarrow> find_tag data target = (if t = target then Some v else find_tag rest target)"
  by (simp add: find_tag_def iter_tlv_step)

lemma find_tag_Nil [simp]: "find_tag [] t = None"
  by (simp add: find_tag_def)

text \<open>The elements are consecutive slices: each starts where the one before it ended, and its value is the end of its slice.\<close>

lemma one_tlv_slice:
  assumes "one_tlv data = Some (t, v, rest)"
  shows "\<exists>hdr. data = hdr @ v @ rest \<and> hdr \<noteq> []"
proof (cases data)
  case (Cons b bs)
  obtain t' r where t: "read_tag b bs = (t', r)" by fastforce
  have "\<exists>xs. bs = xs @ snd (read_tag b bs)"
  proof -
    have "\<exists>xs. cs = xs @ snd (tag_rest n cs)" for n cs
    proof (induction n cs rule: tag_rest.induct)
      case (2 n c cs)
      then obtain xs where "\<not> unat c < 128 \<Longrightarrow> cs = xs @ snd (tag_rest (256 * n + unat c) cs)"
        by (metis (full_types))
      then show ?case
        by (cases "unat c < 128") (auto simp: Let_def intro: exI [of _ "[c]"] exI [of _ "c # xs"])
    qed simp
    then show ?thesis
      by (simp add: read_tag_def)
  qed
  then obtain xs where xs: "bs = xs @ r"
    by (auto simp: t)
  obtain n r' where n: "read_size r = Some (n, r')" "v = take n r'" "rest = drop n r'"
    using assms by (auto simp: one_tlv_def Cons t split: option.splits if_splits)
  have "\<exists>ys. r = ys @ r'"
  proof (cases r)
    case (Cons a as)
    then show ?thesis
      using n(1) append_take_drop_id [of "unat a - 128" as]
      by (auto simp: read_size_def Let_def split: if_splits intro: exI [of _ "[a]"] exI [of _ "a # take (unat a - 128) as"])
  qed (use n(1) in \<open>simp add: read_size_def\<close>)
  then obtain ys where "r = ys @ r'" by blast
  then have "data = (b # xs @ ys) @ v @ rest"
    using xs n by (simp add: Cons)
  then show ?thesis by blast
qed (use assms in \<open>simp add: one_tlv_def\<close>)

section \<open>Digits\<close>

lemma digit_value_less: "is_digit c \<Longrightarrow> digit_value c < 10"
  by (auto simp: is_digit_def digit_value_def)

lemma digit_of_value: "is_digit c \<Longrightarrow> digit (digit_value c) = c"
  by (auto simp: is_digit_def digit_value_def digit_def)

lemma tbcd_Nil [simp]: "tbcd_to_string [] = []"
  by (simp add: tbcd_to_string_def)

lemma tbcd_Cons:
  "tbcd_to_string (b # bs) = map digit (filter (\<lambda>n. n \<le> 9) [unat b mod 16, unat b div 16]) @ tbcd_to_string bs"
  by (simp add: tbcd_to_string_def)

lemma unat_nibbles: "a \<le> 9 \<Longrightarrow> b \<le> 15 \<Longrightarrow> unat (of_nat (a + 16 * b) :: byte) = a + 16 * b"
  by (simp only: unat_of_nat) simp

lemma tbcd_pair:
  assumes "a \<le> 9" "b \<le> 9"
  shows "tbcd_to_string (of_nat (a + 16 * b) # bs) = digit a # digit b # tbcd_to_string bs"
  using assms unat_nibbles [of a b] by (simp only: tbcd_Cons) simp

lemma tbcd_last:
  assumes "a \<le> 9"
  shows "tbcd_to_string [of_nat (a + 16 * 15)] = [digit a]"
proof -
  have "(a + 16 * 15) mod 16 = a" "(a + 16 * 15) div 16 = 15"
    using assms by (simp_all only: mod_mult_self2 div_mult_self2) simp_all
  then show ?thesis
    using assms unat_nibbles [of a 15] by (simp only: tbcd_Cons) simp
qed

lemma tbcd_pack: "\<forall>d\<in>set ds. d \<le> 9 \<Longrightarrow> tbcd_to_string (pack_digits ds) = map digit ds"
proof (induction ds rule: pack_digits.induct)
  case (2 a)
  then show ?case using tbcd_last [of a] by (simp only: pack_digits.simps) simp
next
  case (3 a b ds)
  then show ?case using tbcd_pair [of a b "pack_digits ds"] by (simp only: pack_digits.simps) simp
qed simp

lemma tbcd_roundtrip: "tbcd_to_string (string_to_tbcd s) = filter is_digit s"
proof -
  have "\<forall>d\<in>set (map digit_value (filter is_digit s)). d \<le> 9"
    using digit_value_less by fastforce
  from tbcd_pack [OF this] have "tbcd_to_string (string_to_tbcd s) = map (digit \<circ> digit_value) (filter is_digit s)"
    by (simp add: string_to_tbcd_def)
  also have "\<dots> = filter is_digit s"
    by (rule map_idI) (simp add: digit_of_value)
  finally show ?thesis .
qed

section \<open>Several elements\<close>

definition encode_all :: "(nat \<times> byte list) list \<Rightarrow> byte list" where
  "encode_all es = concat (map (\<lambda>(t, v). encode_tlv t v) es)"

lemma encode_all_simps [simp]:
  "encode_all [] = []" "encode_all ((t, v) # es) = encode_tlv t v @ encode_all es"
  by (simp_all add: encode_all_def)

lemma iter_tlv_encode_all:
  "list_all (\<lambda>(t, v). tag_ok t \<and> length v < 256 ^ 4) es \<Longrightarrow> iter_tlv (encode_all es) = es"
proof (induction es)
  case (Cons e es)
  obtain t v where e: "e = (t, v)" by fastforce
  then have "one_tlv (encode_all (e # es)) = Some (t, v, encode_all es)"
    using Cons.prems by (simp add: one_tlv_encoded)
  moreover have "iter_tlv (encode_all es) = es"
    using Cons.prems by (intro Cons.IH) simp
  ultimately show ?case
    by (simp add: iter_tlv_step e)
qed simp

text \<open>A tag that has been written is found, the first of several.\<close>

lemma find_tag_encode_all:
  "list_all (\<lambda>(t, v). tag_ok t \<and> length v < 256 ^ 4) es \<Longrightarrow> find_tag (encode_all es) t = map_of es t"
proof (induction es)
  case (Cons e es)
  obtain u v where e: "e = (u, v)" by fastforce
  then have "one_tlv (encode_all (e # es)) = Some (u, v, encode_all es)"
    using Cons.prems by (simp add: one_tlv_encoded)
  moreover have "find_tag (encode_all es) t = map_of es t"
    using Cons.prems by (intro Cons.IH) simp
  ultimately show ?case
    by (simp add: find_tag_step e)
qed simp

section \<open>base64\<close>

lemma base64_table:
  "list_all (\<lambda>n. b64_index (BASE64 ! n) = Some n \<and> BASE64 ! n \<notin> {CHR ''='', CHR 0x0A, CHR 0x0D, CHR '' '', CHR 0x09} \<and>
     (of_char (BASE64 ! n) :: nat) < 128) [0..<64]"
  by code_simp

lemma base64_char:
  assumes "n < 64"
  shows "b64_index (BASE64 ! n) = Some n" "BASE64 ! n \<noteq> CHR ''=''"
    "BASE64 ! n \<notin> {CHR 0x0A, CHR 0x0D, CHR '' '', CHR 0x09}" "(of_char (BASE64 ! n) :: nat) < 128"
  using base64_table assms by (auto simp: list_all_iff)

lemma b64_read:
  "n < 64 \<Longrightarrow> b64_decode 0 left pads (BASE64 ! n # cs) = b64_decode 1 n 0 cs"
  "n < 64 \<Longrightarrow> b64_decode 1 left pads (BASE64 ! n # cs) =
     bindE (b64_decode 2 (n mod 16) 0 cs) (\<lambda>bs. Inr (of_nat (4 * left + n div 16) # bs))"
  "n < 64 \<Longrightarrow> b64_decode 2 left pads (BASE64 ! n # cs) =
     bindE (b64_decode 3 (n mod 4) 0 cs) (\<lambda>bs. Inr (of_nat (16 * left + n div 4) # bs))"
  "n < 64 \<Longrightarrow> b64_decode 3 left pads (BASE64 ! n # cs) = bindE (b64_decode 0 0 0 cs) (\<lambda>bs. Inr (of_nat (64 * left + n) # bs))"
  by (simp_all add: base64_char)

lemma b64_pad:
  "b64_decode 2 left 0 (CHR ''='' # CHR ''='' # cs) = Inr []"
  "b64_decode 3 left 0 (CHR ''='' # cs) = Inr []"
  by simp_all

lemma byte_less: "unat (a :: byte) < 256"
  using unsigned_less [of a] by simp

lemma glue:
  fixes r k m :: nat
  assumes "r < k"
  shows "(m * k + r) div k = m" "(m * k + r) mod k = r"
  using assms by simp_all

lemma byte_nibbles:
  fixes a :: byte
  shows "unat a div 16 < 16" "unat a div 64 < 4"
  using byte_less [of a] by (simp_all add: less_mult_imp_div_less)

lemma byte_split:
  fixes a b c :: byte
  shows "4 * (unat a div 4) + unat a mod 4 * 16 div 16 = unat a"
    "4 * (unat a div 4) + (unat a mod 4 * 16 + unat b div 16) div 16 = unat a"
    "16 * ((unat a mod 4 * 16 + unat b div 16) mod 16) + unat b mod 16 * 4 div 4 = unat b"
    "16 * ((unat a mod 4 * 16 + unat b div 16) mod 16) + (unat b mod 16 * 4 + unat c div 64) div 4 = unat b"
    "64 * ((unat b mod 16 * 4 + unat c div 64) mod 4) + unat c mod 64 = unat c"
  unfolding glue [OF byte_nibbles(1)] glue [OF byte_nibbles(2)] by (simp_all add: mult_div_mod_eq)

lemma sextet_less:
  fixes a b c :: byte
  shows "unat a div 4 < 64" "unat a mod 4 * 16 < 64" "unat a mod 4 * 16 + unat b div 16 < 64"
    "unat b mod 16 * 4 < 64" "unat b mod 16 * 4 + unat c div 64 < 64" "unat c mod 64 < 64"
proof -
  have "unat a mod 4 \<le> 3" "unat b mod 16 \<le> 15"
    using mod_less_divisor [of 4 "unat a"] mod_less_divisor [of 16 "unat b"] by linarith+
  then show "unat a mod 4 * 16 < 64" "unat a mod 4 * 16 + unat b div 16 < 64"
    "unat b mod 16 * 4 < 64" "unat b mod 16 * 4 + unat c div 64 < 64"
    using byte_nibbles(1) [of b] byte_nibbles(2) [of c] by linarith+
qed (use byte_less [of a] in \<open>simp_all add: less_mult_imp_div_less\<close>)

lemmas b64_step =
  b64_read(1) [OF sextet_less(1)] b64_read(2) [OF sextet_less(2)] b64_read(2) [OF sextet_less(3)]
  b64_read(3) [OF sextet_less(4)] b64_read(3) [OF sextet_less(5)] b64_read(4) [OF sextet_less(6)] b64_pad

lemma b64_decode_encode: "b64_decode 0 0 0 (b64e bs) = Inr bs"
  by (induction bs rule: b64e.induct)
    (simp_all only: b64e.simps append.simps b64_step byte_split bindE_def sum.case, simp_all)

lemma b64e_chars: "c \<in> set (b64e bs) \<Longrightarrow> c = CHR ''='' \<or> (\<exists>n<64. c = BASE64 ! n)"
proof (induction bs rule: b64e.induct)
  case (2 a)
  then show ?case using sextet_less(1,2) [of a] by (simp only: b64e.simps list.set insert_iff empty_iff) blast
next
  case (3 a b)
  then show ?case using sextet_less(1) [of a] sextet_less(3) [of a b] sextet_less(4) [of b] by (simp only: b64e.simps list.set insert_iff empty_iff) blast
next
  case (4 a b c bs)
  then show ?case using sextet_less(1) [of a] sextet_less(3) [of a b] sextet_less(5) [of b c] sextet_less(6) [of c]
    by (simp only: b64e.simps set_append list.set Un_iff insert_iff empty_iff) blast
qed simp

lemma b64e_clean: "base64_trim (b64e bs) = b64e bs" "is_ascii (b64e bs)"
proof -
  have c: "c \<notin> {CHR 0x0A, CHR 0x0D, CHR '' '', CHR 0x09} \<and> (of_char c :: nat) < 128" if "c \<in> set (b64e bs)" for c
    using b64e_chars [OF that] base64_char by auto
  then show "base64_trim (b64e bs) = b64e bs"
    unfolding base64_trim_def by (intro filter_True) blast
  show "is_ascii (b64e bs)"
    using c by (simp add: is_ascii_def list_all_iff)
qed

lemma base64_roundtrip: "b64d (b64e bs) = Inr bs"
  by (simp add: b64d_def b64_decode_encode b64e_clean)

end
