(* ===== verification/LpaIoLaws.thy ===== *)
theory LpaIoLaws
  imports LpaIo TlvLaws
begin

text \<open>
  What every operation on the modem leaves related to what it found. The locale \<open>io_effect\<close> is a reflexive and
  transitive relation of states, \<open>modem_effect\<close> one that the primitive operations on the port respect; all of the
  client's operations then respect it. The interpretations: the lines still to come never become more, so that an
  answered APDU uses some up, and the trace only grows while the lock and the clock are untouched.
\<close>

definition upholds :: "(Lpa \<Rightarrow> Lpa \<Rightarrow> bool) \<Rightarrow> 'a io \<Rightarrow> bool" where
  "upholds R m \<longleftrightarrow> (\<forall>s. R s (fst (m s)))"

lemma upholdsD: "upholds R m \<Longrightarrow> m s = (s', r) \<Longrightarrow> R s s'"
  by (metis upholds_def fst_conv)

lemma upholdsI: "(\<And>s s' r. m s = (s', r) \<Longrightarrow> R s s') \<Longrightarrow> upholds R m"
  by (metis upholds_def prod.collapse)

lemmas io_defs = ret_def throw_def gets_def lift_sum_def modify_def bindM_def seqM_def catchM_def finallyM_def

locale io_effect =
  fixes R :: "Lpa \<Rightarrow> Lpa \<Rightarrow> bool"
  assumes R_refl [simp]: "R s s"
    and R_trans: "R s t \<Longrightarrow> R t u \<Longrightarrow> R s u"
begin

lemma upholds_pure: "upholds R (ret x)" "upholds R (throw e)" "upholds R (gets f)" "upholds R (lift_sum r)"
  by (simp_all add: upholds_def io_defs)

lemma upholds_bind: "upholds R m \<Longrightarrow> (\<And>x. upholds R (f x)) \<Longrightarrow> upholds R (bindM m f)"
  by (rule upholdsI) (auto simp: bindM_def split: prod.splits sum.splits dest: upholdsD intro: R_trans)

lemma upholds_seq: "upholds R m \<Longrightarrow> upholds R n \<Longrightarrow> upholds R (seqM m n)"
  unfolding seqM_def by (rule upholds_bind)

lemma upholds_catch: "upholds R m \<Longrightarrow> (\<And>e. upholds R (h e)) \<Longrightarrow> upholds R (catchM m p h)"
  by (rule upholdsI) (auto simp: catchM_def split: prod.splits sum.splits if_splits dest: upholdsD intro: R_trans)

lemma upholds_finally: "upholds R m \<Longrightarrow> upholds R f \<Longrightarrow> upholds R (finallyM m f)"
  by (rule upholdsI) (auto simp: finallyM_def split: prod.splits sum.splits dest: upholdsD intro: R_trans)

lemma upholds_if: "upholds R m \<Longrightarrow> upholds R n \<Longrightarrow> upholds R (if b then m else n)"
  by simp

lemma upholds_option: "upholds R m \<Longrightarrow> (\<And>x. upholds R (f x)) \<Longrightarrow> upholds R (case v of None \<Rightarrow> m | Some x \<Rightarrow> f x)"
  by (cases v) simp_all

lemma upholds_sum: "(\<And>x. upholds R (f x)) \<Longrightarrow> (\<And>y. upholds R (g y)) \<Longrightarrow> upholds R (case v of Inl x \<Rightarrow> f x | Inr y \<Rightarrow> g y)"
  by (cases v) simp_all

lemma upholds_prod: "(\<And>x y. upholds R (f x y)) \<Longrightarrow> upholds R (case p of (x, y) \<Rightarrow> f x y)"
  by (cases p) simp

lemmas upholds_intros = upholds_pure upholds_bind upholds_seq upholds_catch upholds_finally upholds_if upholds_option upholds_sum upholds_prod

end

locale modem_effect = io_effect +
  assumes upholds_set_channel: "upholds R (set_channel c)"
    and upholds_close_serial: "upholds R close_serial"
    and upholds_open_serial: "upholds R open_serial"
    and upholds_flush: "upholds R reset_input_buffer"
    and upholds_send: "upholds R (send cmd)"
    and upholds_expect: "upholds R expect"
    and upholds_reset: "upholds R (log_event ResetModem)"
begin

lemmas upholds_port = upholds_set_channel upholds_close_serial upholds_open_serial upholds_flush upholds_send upholds_expect upholds_reset

lemma upholds_ensure_serial: "upholds R (ensure_serial b)"
  unfolding ensure_serial_def by (intro upholds_intros upholds_port)

lemma upholds_query: "upholds R (query cmd)"
  unfolding query_def by (intro upholds_intros upholds_port upholds_ensure_serial)

lemma upholds_close_channel: "upholds R (close_channel p)"
  unfolding close_channel_def by (intro upholds_intros upholds_port upholds_query)

lemma upholds_open_isdr_once: "upholds R open_isdr_once"
  unfolding open_isdr_once_def by (intro upholds_intros upholds_port upholds_query upholds_ensure_serial upholds_close_channel)

lemma upholds_reset_modem: "upholds R reset_modem"
  unfolding reset_modem_def by (intro upholds_intros upholds_port)

lemma upholds_open_attempts: "upholds R (open_attempts as)"
  by (induction as) (auto intro!: upholds_intros upholds_open_isdr_once upholds_reset_modem)

lemma upholds_open_isdr: "upholds R open_isdr"
  unfolding open_isdr_def by (rule upholds_open_attempts)

lemma upholds_send_apdu_once: "upholds R (send_apdu_once apdu)"
  unfolding send_apdu_once_def by (intro upholds_intros upholds_open_isdr upholds_query)

lemma upholds_apdu_attempts: "upholds R (apdu_attempts apdu as)"
  by (induction as) (auto intro!: upholds_intros upholds_send_apdu_once upholds_port)

lemma upholds_send_apdu: "upholds R (send_apdu apdu)"
  unfolding send_apdu_def by (rule upholds_apdu_attempts)

end

section \<open>The lines to come\<close>

fun reply_size :: "ModemReply \<Rightarrow> nat" where
  "reply_size (WriteRaises e) = 1"
| "reply_size (Lines ls) = Suc (length ls)"

definition pending :: "Lpa \<Rightarrow> nat" where
  "pending s = length (rx s) + sum_list (map reply_size (replies s))"

lemma expect_lines_length: "expect_lines items acc = (rest, r) \<Longrightarrow> length rest \<le> length items"
  by (induction items acc rule: expect_lines.induct) (auto simp: Let_def split: if_splits)

lemma expect_lines_uses: "expect_lines items acc = (rest, Inr lines) \<Longrightarrow> length rest < length items"
  by (induction items acc rule: expect_lines.induct) (auto simp: Let_def split: if_splits)

interpretation lines_left: modem_effect "\<lambda>s s'. pending s' \<le> pending s"
proof
  show "upholds (\<lambda>s s'. pending s' \<le> pending s) expect"
    by (auto simp: upholds_def expect_def pending_def split: prod.splits dest: expect_lines_length)
  show "upholds (\<lambda>s s'. pending s' \<le> pending s) (send cmd)" for cmd
    by (auto simp: upholds_def send_def io_defs log_event_def pending_def split: list.splits ModemReply.splits)
qed (auto simp: upholds_def set_channel_def close_serial_def open_serial_def reset_input_buffer_def log_event_def io_defs
       pending_def split: list.splits option.splits)

lemma expect_uses: "expect s = (s', Inr lines) \<Longrightarrow> pending s' < pending s"
  by (auto simp: expect_def pending_def split: prod.splits dest: expect_lines_uses)

text \<open>A result means that the first part had one.\<close>

lemma bindM_Inr: "bindM m f s = (s', Inr y) \<Longrightarrow> \<exists>t x. m s = (t, Inr x) \<and> f x t = (s', Inr y)"
  by (auto simp: bindM_def split: prod.splits sum.splits)

lemma seqM_Inr: "seqM m n s = (s', Inr y) \<Longrightarrow> \<exists>t x. m s = (t, Inr x) \<and> n t = (s', Inr y)"
  unfolding seqM_def by (rule bindM_Inr)

lemma catchM_Inr:
  assumes "catchM m p h s = (s', Inr y)"
  obtains (ok) "m s = (s', Inr y)" | (handled) t e where "m s = (t, Inl e)" "p e" "h e t = (s', Inr y)"
  using assms by (auto simp: catchM_def split: prod.splits sum.splits if_splits)

lemma send_expect_uses:
  assumes "seqM (send cmd) expect s = (s', Inr lines)"
  shows "pending s' < pending s"
proof -
  obtain t x where t: "send cmd s = (t, Inr x)" "expect t = (s', Inr lines)"
    using seqM_Inr [OF assms] by blast
  show ?thesis
    using upholdsD [OF lines_left.upholds_send t(1)] expect_uses [OF t(2)] by linarith
qed

lemma query_uses: 
  assumes "query cmd s = (s', Inr lines)"
  shows "pending s' < pending s"
proof -
  obtain t x where t: "ensure_serial False s = (t, Inr x)"
    and q: "catchM (seqM (send cmd) expect) (\<lambda>e. e = SerialException)
       (\<lambda>_. seqM (ensure_serial True) (seqM (send cmd) expect)) t = (s', Inr lines)"
    using seqM_Inr [OF assms [unfolded query_def]] by blast
  have "pending t \<le> pending s"
    using upholdsD [OF lines_left.upholds_ensure_serial t] .
  moreover have "pending s' < pending t"
    using q
  proof (cases rule: catchM_Inr)
    case (handled u e)
    obtain v y where v: "ensure_serial True u = (v, Inr y)" "seqM (send cmd) expect v = (s', Inr lines)"
      using seqM_Inr [OF handled(3)] by blast
    have "pending v \<le> pending u" "pending s' < pending v"
      using upholdsD [OF lines_left.upholds_ensure_serial v(1)] send_expect_uses [OF v(2)] .
    moreover have "pending u \<le> pending t"
      using upholdsD [OF lines_left.upholds_seq [OF lines_left.upholds_send lines_left.upholds_expect] handled(1)] .
    ultimately show ?thesis by linarith
  qed (rule send_expect_uses)
  ultimately show ?thesis by linarith
qed

lemma send_apdu_once_uses:
  assumes "send_apdu_once apdu s = (s', Inr r)"
  shows "pending s' < pending s"
proof -
  obtain t x where t: "bindM (gets channel) (\<lambda>c. if c = None then open_isdr else ret ()) s = (t, Inr x)"
    and q: "bindM (gets channel) (\<lambda>c. bindM (query (cgla_command c apdu)) (\<lambda>lines. lift_sum (find_cgla lines))) t = (s', Inr r)"
    using seqM_Inr [OF assms [unfolded send_apdu_once_def]] by blast
  have "upholds (\<lambda>s s'. pending s' \<le> pending s) (bindM (gets channel) (\<lambda>c. if c = None then open_isdr else ret ()))"
    by (intro lines_left.upholds_intros lines_left.upholds_open_isdr)
  then have "pending t \<le> pending s"
    using t by (rule upholdsD)
  moreover obtain lines where "query (cgla_command (channel t) apdu) t = (s', Inr lines)"
    using q by (auto simp: bindM_def gets_def lift_sum_def split: prod.splits sum.splits)
  ultimately show ?thesis
    using query_uses by fastforce
qed

text \<open>An APDU that is answered uses up lines, so that only finitely many are.\<close>

lemma send_apdu_uses: "send_apdu apdu s = (s', Inr r) \<Longrightarrow> pending s' < pending s"
proof -
  have "apdu_attempts apdu as s = (s', Inr r) \<Longrightarrow> pending s' < pending s" for as
  proof (induction as arbitrary: s)
    case (Cons a as)
    from Cons.prems [unfolded apdu_attempts.simps] show ?case
    proof (cases rule: catchM_Inr)
      case (handled t e)
      have "apdu_attempts apdu as (t\<lparr>channel := None\<rparr>) = (s', Inr r)"
        using handled(3) by (auto simp: seqM_def bindM_def set_channel_def modify_def throw_def split: if_splits)
      from Cons.IH [OF this] have "pending s' < pending t"
        by (simp add: pending_def)
      then show ?thesis
        using upholdsD [OF lines_left.upholds_send_apdu_once handled(1)] by linarith
    qed (rule send_apdu_once_uses)
  qed (simp add: throw_def)
  then show "send_apdu apdu s = (s', Inr r) \<Longrightarrow> pending s' < pending s"
    unfolding send_apdu_def .
qed

end
