(* ===== verification/LpaCard.thy ===== *)
theory LpaCard
  imports LpaIoLaws
begin

text \<open>
  The eUICC as \<open>system/hardware/tici/lpa.py\<close> speaks to it: commands cut into APDUs, the responses collected, and
  the structures in them: profiles, notifications, install results, and the bound profile package with its cuts.
\<close>

section \<open>Results and tags\<close>

definition bindS :: "'e + 'a \<Rightarrow> ('a \<Rightarrow> 'e + 'b) \<Rightarrow> 'e + 'b" where
  "bindS m f = (case m of Inl e \<Rightarrow> Inl e | Inr x \<Rightarrow> f x)"

fun mapS :: "('a \<Rightarrow> 'e + 'b) \<Rightarrow> 'a list \<Rightarrow> 'e + 'b list" where
  "mapS f [] = Inr []"
| "mapS f (x # xs) = bindS (f x) (\<lambda>y. bindS (mapS f xs) (\<lambda>ys. Inr (y # ys)))"

definition TAG_ICCID :: nat where "TAG_ICCID = 0x5A"
definition TAG_STATUS :: nat where "TAG_STATUS = 0x80"
definition TAG_EUICC_INFO :: nat where "TAG_EUICC_INFO = 0xBF20"
definition TAG_PREPARE_DOWNLOAD :: nat where "TAG_PREPARE_DOWNLOAD = 0xBF21"
definition TAG_BPP_COMMAND :: nat where "TAG_BPP_COMMAND = 0xBF23"
definition TAG_PROFILE_METADATA :: nat where "TAG_PROFILE_METADATA = 0xBF25"
definition TAG_INSTALL_RESULT_DATA :: nat where "TAG_INSTALL_RESULT_DATA = 0xBF27"
definition TAG_LIST_NOTIFICATION :: nat where "TAG_LIST_NOTIFICATION = 0xBF28"
definition TAG_SET_NICKNAME :: nat where "TAG_SET_NICKNAME = 0xBF29"
definition TAG_RETRIEVE_NOTIFICATION :: nat where "TAG_RETRIEVE_NOTIFICATION = 0xBF2B"
definition TAG_PROFILE_INFO_LIST :: nat where "TAG_PROFILE_INFO_LIST = 0xBF2D"
definition TAG_EUICC_CHALLENGE :: nat where "TAG_EUICC_CHALLENGE = 0xBF2E"
definition TAG_NOTIFICATION_METADATA :: nat where "TAG_NOTIFICATION_METADATA = 0xBF2F"
definition TAG_NOTIFICATION_SENT :: nat where "TAG_NOTIFICATION_SENT = 0xBF30"
definition TAG_ENABLE_PROFILE :: nat where "TAG_ENABLE_PROFILE = 0xBF31"
definition TAG_DELETE_PROFILE :: nat where "TAG_DELETE_PROFILE = 0xBF33"
definition TAG_BPP :: nat where "TAG_BPP = 0xBF36"
definition TAG_PROFILE_INSTALL_RESULT :: nat where "TAG_PROFILE_INSTALL_RESULT = 0xBF37"
definition TAG_AUTH_SERVER :: nat where "TAG_AUTH_SERVER = 0xBF38"
definition TAG_CANCEL_SESSION :: nat where "TAG_CANCEL_SESSION = 0xBF41"
definition TAG_OK :: nat where "TAG_OK = 0xA0"

fun hex_nat :: "nat \<Rightarrow> string" where
  "hex_nat n = (if n < 16 then [hex_digit n] else hex_nat (n div 16) @ [hex_digit (n mod 16)])"

declare hex_nat.simps [simp del]

definition require_tag :: "byte list \<Rightarrow> nat \<Rightarrow> string \<Rightarrow> LpaExn + byte list" where
  "require_tag data target label =
     (case find_tag data target of
        None \<Rightarrow> Inl (RuntimeError (''Missing '' @ (if label = [] then ''tag 0x'' @ hex_nat target else label)))
      | Some v \<Rightarrow> Inr v)"

definition first_byte :: "byte list \<Rightarrow> LpaExn + byte" where
  "first_byte v = (case v of [] \<Rightarrow> Inl IndexErr | b # _ \<Rightarrow> Inr b)"

section \<open>Commands\<close>

definition ES10X_MSS :: nat where "ES10X_MSS = 120"

text \<open>Status \<open>61xx\<close> announces more data; every answer uses up lines of the modem, so the loop ends.\<close>

function get_response :: "byte list \<Rightarrow> byte \<Rightarrow> byte \<Rightarrow> byte list io" where
  "get_response response sw1 sw2 s =
     (if sw1 = 0x61 then
        (case send_apdu [0x80, 0xC0, 0x00, 0x00, sw2] s of
           (s', Inl e) \<Rightarrow> (s', Inl e)
         | (s', Inr (segment, sw1', sw2')) \<Rightarrow> get_response (response @ segment) sw1' sw2' s')
      else if unat sw1 div 16 = 9 then ret response s
      else throw (RuntimeError (''APDU failed with SW='' @ hex_byte sw1 @ hex_byte sw2)) s)"
  by pat_completeness auto
termination
  by (relation "measure (\<lambda>(_, _, _, s). pending s)") (auto dest: send_apdu_uses [OF sym])

declare get_response.simps [simp del]

definition store_data_apdu :: "nat \<Rightarrow> bool \<Rightarrow> byte list \<Rightarrow> byte list" where
  "store_data_apdu sequence is_last chunk =
     [0x80, 0xE2, if is_last then 0x91 else 0x11, of_nat sequence, of_nat (length chunk)] @ chunk"

function es10x_loop :: "nat \<Rightarrow> byte list \<Rightarrow> byte list \<Rightarrow> byte list io" where
  "es10x_loop sequence response data =
     (if data = [] then ret response
      else bindM (send_apdu (store_data_apdu sequence (length data \<le> ES10X_MSS) (take ES10X_MSS data)))
        (\<lambda>(segment, sw1, sw2). bindM (get_response (response @ segment) sw1 sw2)
          (\<lambda>response'. es10x_loop (sequence + 1) response' (drop ES10X_MSS data))))"
  by pat_completeness auto
termination
  by (relation "measure (\<lambda>(_, _, data). length data)") (auto simp: ES10X_MSS_def)

declare es10x_loop.simps [simp del]

definition es10x_command :: "byte list \<Rightarrow> byte list io" where
  "es10x_command data = es10x_loop 0 [] data"

section \<open>Structures\<close>

datatype FieldValue = Str string | Num nat

type_synonym Fields = "string \<rightharpoonup> FieldValue"
type_synonym FieldMap = "(nat \<times> string \<times> (byte list \<Rightarrow> LpaExn + FieldValue option)) list"

definition label_of :: "(nat \<times> string) list \<Rightarrow> byte list \<Rightarrow> LpaExn + FieldValue option" where
  "label_of labels v =
     bindS (first_byte v) (\<lambda>b. Inr (Some (Str (case map_of labels (unat b) of None \<Rightarrow> ''unknown'' | Some l \<Rightarrow> l))))"

definition text_or_none :: "byte list \<Rightarrow> LpaExn + FieldValue option" where
  "text_or_none v = Inr (if decode_utf8 v = [] then None else Some (Str (decode_utf8 v)))"

definition STATE_LABELS :: "(nat \<times> string) list" where
  "STATE_LABELS = [(0, ''disabled''), (1, ''enabled''), (255, ''unknown'')]"
definition ICON_LABELS :: "(nat \<times> string) list" where
  "ICON_LABELS = [(0, ''jpeg''), (1, ''png''), (255, ''unknown'')]"
definition CLASS_LABELS :: "(nat \<times> string) list" where
  "CLASS_LABELS = [(0, ''test''), (1, ''provisioning''), (2, ''operational''), (255, ''unknown'')]"

definition PROFILE :: FieldMap where
  "PROFILE =
    [(TAG_ICCID, ''iccid'', \<lambda>v. Inr (Some (Str (tbcd_to_string v)))),
     (0x4F, ''isdpAid'', \<lambda>v. Inr (Some (Str (hex_upper v)))),
     (0x9F70, ''profileState'', label_of STATE_LABELS),
     (0x90, ''profileNickname'', text_or_none),
     (0x91, ''serviceProviderName'', text_or_none),
     (0x92, ''profileName'', text_or_none),
     (0x93, ''iconType'', label_of ICON_LABELS),
     (0x94, ''icon'', \<lambda>v. Inr (Some (Str (b64e v)))),
     (0x95, ''profileClass'', label_of CLASS_LABELS)]"

fun decode_fields :: "FieldMap \<Rightarrow> (nat \<times> byte list) list \<Rightarrow> Fields \<Rightarrow> LpaExn + Fields" where
  "decode_fields field_map [] result = Inr result"
| "decode_fields field_map ((tag, v) # es) result =
     (case map_of field_map tag of
        None \<Rightarrow> decode_fields field_map es result
      | Some (name, decoder) \<Rightarrow> bindS (decoder v) (\<lambda>x. decode_fields field_map es (result(name := x))))"

text \<open>A field that no element gives is \<open>None\<close>.\<close>

definition decode_struct :: "byte list \<Rightarrow> FieldMap \<Rightarrow> LpaExn + Fields" where
  "decode_struct data field_map = decode_fields field_map (iter_tlv data) (\<lambda>_. None)"

definition decode_profiles :: "byte list \<Rightarrow> LpaExn + Fields list" where
  "decode_profiles blob =
     bindS (require_tag blob TAG_PROFILE_INFO_LIST ''ProfileInfoList'') (\<lambda>root.
       case find_tag root TAG_OK of
         None \<Rightarrow> Inr []
       | Some list_ok \<Rightarrow> mapS (\<lambda>(t, v). decode_struct v PROFILE) (filter (\<lambda>(t, v). t = 0xE3) (iter_tlv list_ok)))"

definition NOTIFICATION_OPERATIONS :: "(nat \<times> string) list" where
  "NOTIFICATION_OPERATIONS = [(0x80, ''install''), (0x40, ''enable''), (0x20, ''disable''), (0x10, ''delete'')]"

text \<open>The first operation whose bit is set in the second byte; the keys are the single bits of the upper half.\<close>

definition notification_operation :: "byte list \<Rightarrow> string" where
  "notification_operation v =
     (case List.find (\<lambda>(m, _). length v \<ge> 2 \<and> odd (unat (v ! 1) div m)) NOTIFICATION_OPERATIONS of
        None \<Rightarrow> ''unknown''
      | Some (_, name) \<Rightarrow> name)"

definition NOTIFICATION :: FieldMap where
  "NOTIFICATION =
    [(TAG_STATUS, ''seqNumber'', \<lambda>v. Inr (Some (Num (be_value v)))),
     (0x81, ''profileManagementOperation'', \<lambda>v. Inr (Some (Str (notification_operation v)))),
     (0x0C, ''notificationAddress'', \<lambda>v. Inr (Some (Str (decode_utf8 v)))),
     (TAG_ICCID, ''iccid'', \<lambda>v. Inr (Some (Str (tbcd_to_string v))))]"

definition decode_notifications :: "byte list \<Rightarrow> LpaExn + Fields list" where
  "decode_notifications response =
     bindS (require_tag response TAG_LIST_NOTIFICATION ''ListNotificationResponse'') (\<lambda>root.
       case find_tag root TAG_OK of
         None \<Rightarrow> Inr []
       | Some metadata_list \<Rightarrow>
           mapS (\<lambda>(t, v). decode_struct v NOTIFICATION)
             (filter (\<lambda>(t, v). t = TAG_NOTIFICATION_METADATA) (iter_tlv metadata_list)))"

section \<open>The bound profile package\<close>

definition slice :: "nat \<Rightarrow> nat \<Rightarrow> 'a list \<Rightarrow> 'a list" where
  "slice a b xs = take (b - a) (drop a xs)"

definition byte_at :: "byte list \<Rightarrow> nat \<Rightarrow> LpaExn + byte" where
  "byte_at data i = (if i < length data then Inr (data ! i) else Inl IndexErr)"

definition parse_tlv_header_len :: "byte list \<Rightarrow> LpaExn + nat" where
  "parse_tlv_header_len data =
     bindS (byte_at data 0) (\<lambda>b.
       let tag_len = (if unat b mod 32 = 31 then 2 else 1)
       in bindS (byte_at data tag_len) (\<lambda>length_byte.
            Inr (tag_len + (if unat length_byte \<ge> 128 then 1 + unat length_byte mod 128 else 1))))"

text \<open>One element of the package: what it adds to the chunks.\<close>

definition element_chunks ::
  "byte list \<Rightarrow> nat \<Rightarrow> byte list \<Rightarrow> nat \<times> byte list \<times> nat \<times> nat \<Rightarrow> LpaExn + byte list list" where
  "element_chunks bpp val_start root_value e =
     (case e of (tag, value, start, end') \<Rightarrow>
        if tag = TAG_BPP_COMMAND then Inr [take (val_start + end') bpp]
        else if tag \<in> {0xA0, 0xA2} then Inr [slice (val_start + start) (val_start + end') bpp]
        else if tag \<in> {0xA1, 0xA3} then
          bindS (parse_tlv_header_len (slice start end' root_value)) (\<lambda>hdr_len.
            Inr (slice (val_start + start) (val_start + start + hdr_len) bpp #
              map (\<lambda>(_, _, cs, ce). slice cs ce value) (iter_tlv_at 0 value)))
        else Inr [])"

definition split_bpp :: "byte list \<Rightarrow> LpaExn + byte list list" where
  "split_bpp bpp =
     (case List.find (\<lambda>(tag, _). tag = TAG_BPP) (iter_tlv_at 0 bpp) of
        None \<Rightarrow> Inl (RuntimeError ''Invalid BoundProfilePackage'')
      | Some (_, root_value, start, end') \<Rightarrow>
          bindS (parse_tlv_header_len (slice start end' bpp)) (\<lambda>hdr_len.
            bindS (mapS (element_chunks bpp (start + hdr_len) root_value) (iter_tlv_at 0 root_value)) (\<lambda>chunks.
              Inr (concat chunks))))"

record InstallResult =
  seqNumber :: nat
  success :: bool
  bppCommandId :: "nat option"
  errorReason :: "nat option"

definition truthy :: "byte list option \<Rightarrow> byte list option" where
  "truthy v = (case v of None \<Rightarrow> None | Some bs \<Rightarrow> if bs = [] then None else Some bs)"

fun install_outcome :: "(nat \<times> byte list) list \<Rightarrow> InstallResult \<Rightarrow> InstallResult" where
  "install_outcome [] result = result"
| "install_outcome ((tag, value) # es) result =
     install_outcome es
       (if tag = 0xA0 then result\<lparr>success := True\<rparr>
        else if tag = 0xA1
        then (let result' = (case truthy (find_tag value TAG_STATUS) of
                               None \<Rightarrow> result | Some v \<Rightarrow> result\<lparr>bppCommandId := Some (be_value v)\<rparr>)
              in (case truthy (find_tag value 0x81) of
                    None \<Rightarrow> result' | Some v \<Rightarrow> result'\<lparr>errorReason := Some (be_value v)\<rparr>))
        else result)"

definition parse_install_result :: "byte list \<Rightarrow> InstallResult option" where
  "parse_install_result response =
     (case truthy (find_tag response TAG_PROFILE_INSTALL_RESULT) of
        None \<Rightarrow> None
      | Some root_data \<Rightarrow>
          (case truthy (find_tag root_data TAG_INSTALL_RESULT_DATA) of
             None \<Rightarrow> None
           | Some result_data \<Rightarrow>
               let seq = (case truthy (find_tag result_data TAG_NOTIFICATION_METADATA) of
                            None \<Rightarrow> 0
                          | Some notif_meta \<Rightarrow> (case truthy (find_tag notif_meta TAG_STATUS) of None \<Rightarrow> 0 | Some v \<Rightarrow> be_value v));
                   result = \<lparr>seqNumber = seq, success = False, bppCommandId = None, errorReason = None\<rparr>
               in Some (case truthy (find_tag result_data 0xA2) of
                    None \<Rightarrow> result
                  | Some final_result \<Rightarrow> install_outcome (iter_tlv final_result) result)))"

end
