(* ===== verification/Lpa.thy ===== *)
theory Lpa
  imports LpaCard
begin

text \<open>
  The sessions of \<open>system/hardware/tici/lpa.py\<close>: requests to the SM-DP+ server, the notifications that are reported
  to it and then removed, the download of a profile, and \<open>TiciLPA\<close>, whose operations hold the lock and the channel.
\<close>

section \<open>Requests to the server\<close>

definition ES9P_ERROR_MESSAGES :: "((string \<times> string) \<times> string) list" where
  "ES9P_ERROR_MESSAGES =
    [((''3.8'', ''8.2.6''), ''This eSIM profile is already installed on another device. Please use a new QR code.''),
     ((''3.8'', ''8.2.1''), ''This eSIM profile has expired. Please request a new QR code.''),
     ((''3.8'', ''8.1''), ''The SM-DP+ server refused this request.''),
     ((''3.1'', ''8.2.6''), ''This eSIM profile has been revoked by the carrier.''),
     ((''3.9'', ''8.2.6''), ''This eSIM profile download has already been completed.''),
     ((''2.1'', ''8.8''), ''The device is not compatible with this eSIM profile.''),
     ((''1.2'', ''8.1''), ''The SM-DP+ server is temporarily unavailable. Try again later.'')]"

definition or_unknown :: "string option \<Rightarrow> string" where
  "or_unknown v = (case v of None \<Rightarrow> ''unknown'' | Some t \<Rightarrow> t)"

definition es9p_failure :: "Es9pStatus \<Rightarrow> string \<Rightarrow> string" where
  "es9p_failure st error_prefix =
     (let reason = or_unknown (st_reason st); subject = or_unknown (st_subject st)
      in case map_of ES9P_ERROR_MESSAGES (reason, subject) of
           Some msg \<Rightarrow> msg
         | None \<Rightarrow> error_prefix @ '' failed: '' @ reason @ ''/'' @ subject @ '' - '' @ or_unknown (st_message st))"

text \<open>The fields of the answer; a key that is missing is undefined.\<close>

definition es9p_request :: "string \<Rightarrow> string \<Rightarrow> (string \<times> string) list \<Rightarrow> string \<Rightarrow> (string \<rightharpoonup> string) io" where
  "es9p_request smdp_address endpoint payload error_prefix =
     seqM (log_event (Post smdp_address endpoint payload))
       (\<lambda>s. case https s of
           [] \<Rightarrow> (s, Inl RequestsError)
         | HttpRaises e # hs \<Rightarrow> (s\<lparr>https := hs\<rparr>, Inl e)
         | EmptyBody # hs \<Rightarrow> (s\<lparr>https := hs\<rparr>, Inr (\<lambda>_. None))
         | Body status answer # hs \<Rightarrow>
             (s\<lparr>https := hs\<rparr>,
              case status of
                None \<Rightarrow> Inr answer
              | Some st \<Rightarrow>
                  if st_status st = Some ''Failed'' then Inl (RuntimeError (es9p_failure st error_prefix)) else Inr answer))"

definition b64_field :: "(string \<rightharpoonup> string) \<Rightarrow> string \<Rightarrow> string io" where
  "b64_field data key = (case data key of None \<Rightarrow> throw KeyErr | Some v \<Rightarrow> ret (base64_trim v))"

definition b64d_io :: "string \<Rightarrow> byte list io" where
  "b64d_io t = (case b64d t of Inl _ \<Rightarrow> throw ValueErr | Inr bs \<Rightarrow> ret bs)"

section \<open>Profiles and notifications\<close>

definition list_profiles :: "Fields list io" where
  "list_profiles = bindM (es10x_command [0xBF, 0x2D, 0]) (\<lambda>blob. lift_sum (decode_profiles blob))"

definition set_profile_nickname :: "string \<Rightarrow> string \<Rightarrow> unit io" where
  "set_profile_nickname iccid nickname =
     (if length (encode_str nickname) > 64 then throw ValueErr
      else bindM (es10x_command (encode_tlv TAG_SET_NICKNAME
             (encode_tlv TAG_ICCID (string_to_tbcd iccid) @ encode_tlv 0x90 (encode_str nickname)))) (\<lambda>response.
           bindM (lift_sum (bindS (require_tag response TAG_SET_NICKNAME ''SetNicknameResponse'') (\<lambda>r.
             bindS (require_tag r TAG_STATUS ''SetNickname status'') first_byte))) (\<lambda>code.
               if code = 0x01 then throw (LPAError (''profile '' @ iccid @ '' not found''))
               else if code \<noteq> 0x00 then throw (RuntimeError (''SetNickname failed with status 0x'' @ hex_byte code))
               else ret ())))"

definition list_notifications :: "Fields list io" where
  "list_notifications =
     bindM (es10x_command (encode_tlv TAG_LIST_NOTIFICATION [])) (\<lambda>response. lift_sum (decode_notifications response))"

text \<open>\<open>int_bytes(seq_number)\<close>: without a number it raises.\<close>

definition seq_bytes :: "FieldValue option \<Rightarrow> byte list io" where
  "seq_bytes v = (case v of Some (Num n) \<Rightarrow> ret (int_bytes n) | _ \<Rightarrow> throw AttributeErr)"

definition field_text :: "FieldValue option \<Rightarrow> string" where
  "field_text v = (case v of Some (Str t) \<Rightarrow> t | _ \<Rightarrow> ''None'')"

definition process_notification :: "Fields \<Rightarrow> unit io" where
  "process_notification notification =
     bindM (seq_bytes (notification ''seqNumber'')) (\<lambda>seq.
     bindM (es10x_command (encode_tlv TAG_RETRIEVE_NOTIFICATION (encode_tlv TAG_OK (encode_tlv TAG_STATUS seq)))) (\<lambda>response.
     bindM (lift_sum (bindS (require_tag response TAG_RETRIEVE_NOTIFICATION ''RetrieveNotificationsListResponse'') (\<lambda>r.
         require_tag r TAG_OK ''RetrieveNotificationsListResponse''))) (\<lambda>content.
     case List.find (\<lambda>(t, v). t = TAG_PROFILE_INSTALL_RESULT \<or> t = 0x30) (iter_tlv content) of
       None \<Rightarrow> throw (RuntimeError ''Missing PendingNotification'')
     | Some (_, pending_notif) \<Rightarrow>
         bindM (es9p_request (field_text (notification ''notificationAddress'')) ''handleNotification''
             [(''pendingNotification'', b64e pending_notif)] ''HandleNotification'') (\<lambda>_.
         bindM (es10x_command (encode_tlv TAG_NOTIFICATION_SENT (encode_tlv TAG_STATUS seq))) (\<lambda>response'.
         bindM (lift_sum (bindS (require_tag response' TAG_NOTIFICATION_SENT ''NotificationSentResponse'') (\<lambda>r.
             require_tag r TAG_STATUS ''RemoveNotificationFromList status''))) (\<lambda>status.
         if be_value status \<noteq> 0 then throw (RuntimeError ''RemoveNotificationFromList failed'') else ret ()))))))"

text \<open>Whatever happens to one notification, the next one is processed.\<close>

fun process_each :: "Fields list \<Rightarrow> unit io" where
  "process_each [] = ret ()"
| "process_each (n # ns) = seqM (catchM (process_notification n) (\<lambda>_. True) (\<lambda>_. ret ())) (process_each ns)"

definition process_notifications :: "unit io" where
  "process_notifications = bindM list_notifications process_each"

section \<open>Authentication and download\<close>

definition AUTH_SERVER_ERROR_CODES :: "(nat \<times> string) list" where
  "AUTH_SERVER_ERROR_CODES =
    [(0x01, ''eUICCVerificationFailed''), (0x02, ''eUICCCertificateExpired''), (0x03, ''eUICCCertificateRevoked''),
     (0x05, ''invalidServerSignature''), (0x06, ''euiccCiPKUnknown''), (0x0A, ''matchingIdRefused''),
     (0x10, ''insufficientMemory'')]"

definition get_challenge_and_info :: "(byte list \<times> byte list) io" where
  "get_challenge_and_info =
     bindM (es10x_command (encode_tlv TAG_EUICC_CHALLENGE [])) (\<lambda>challenge_resp.
     bindM (lift_sum (bindS (require_tag challenge_resp TAG_EUICC_CHALLENGE ''GetEuiccDataResponse'') (\<lambda>r.
         require_tag r TAG_STATUS ''challenge in response''))) (\<lambda>challenge.
     bindM (es10x_command (encode_tlv TAG_EUICC_INFO [])) (\<lambda>info_resp.
     bindM (lift_sum (require_tag info_resp TAG_EUICC_INFO ''GetEuiccInfo1Response'')) (\<lambda>_. ret (challenge, info_resp)))))"

text \<open>\<open>f"{n:02X}"\<close>.\<close>

definition hex02 :: "nat \<Rightarrow> string" where
  "hex02 n = (if n < 16 then CHR ''0'' # hex_nat n else hex_nat n)"

definition authenticate_server :: "string \<Rightarrow> string \<Rightarrow> string \<Rightarrow> string \<Rightarrow> string \<Rightarrow> string io" where
  "authenticate_server b64_signed1 b64_sig1 b64_pk_id b64_cert matching_id =
     (let device_info = encode_tlv TAG_STATUS [0x35, 0x29, 0x06, 0x11] @ encode_tlv 0xA1 [];
          ctx_inner = encode_tlv TAG_STATUS (encode_str matching_id) @ encode_tlv 0xA1 device_info
      in bindM (b64d_io b64_signed1) (\<lambda>signed1. bindM (b64d_io b64_sig1) (\<lambda>sig1.
         bindM (b64d_io b64_pk_id) (\<lambda>pk_id. bindM (b64d_io b64_cert) (\<lambda>cert.
         bindM (es10x_command (encode_tlv TAG_AUTH_SERVER (signed1 @ sig1 @ pk_id @ cert @ encode_tlv 0xA0 ctx_inner)))
           (\<lambda>response.
         bindM (lift_sum (require_tag response TAG_AUTH_SERVER ''AuthenticateServerResponse'')) (\<lambda>root_data.
           case find_tag root_data 0xA1 of
             None \<Rightarrow> ret (b64e response)
           | Some error_tag \<Rightarrow>
               (let code = be_value error_tag
                in throw (RuntimeError (''AuthenticateServer rejected by eUICC: '' @
                     (case map_of AUTH_SERVER_ERROR_CODES code of None \<Rightarrow> ''unknown'' | Some m \<Rightarrow> m) @
                     '' (0x'' @ hex02 code @ '')''))))))))))"

text \<open>The hash of a confirmation code is an argument: \<open>sha256\<close> of \<open>hashlib\<close>.\<close>

definition prepare_download ::
  "(byte list \<Rightarrow> byte list) \<Rightarrow> string \<Rightarrow> string \<Rightarrow> string \<Rightarrow> string option \<Rightarrow> string io" where
  "prepare_download sha256 b64_signed2 b64_sig2 b64_cert cc =
     bindM (b64d_io b64_signed2) (\<lambda>smdp_signed2. bindM (b64d_io b64_sig2) (\<lambda>smdp_signature2.
     bindM (b64d_io b64_cert) (\<lambda>smdp_certificate.
     case find_tag smdp_signed2 0x30 of
       None \<Rightarrow> throw (RuntimeError ''Invalid smdpSigned2'')
     | Some signed2_root \<Rightarrow>
         (case (find_tag signed2_root TAG_STATUS, find_tag signed2_root 0x01) of
            (Some transaction_id, Some cc_required_flag) \<Rightarrow>
              if be_value cc_required_flag \<noteq> 0 \<and> (cc = None \<or> cc = Some [])
              then throw (RuntimeError ''Confirmation code required but not provided'')
              else (let confirmation =
                          (if be_value cc_required_flag \<noteq> 0
                           then encode_tlv 0x04 (sha256 (sha256 (encode_str (the cc)) @ transaction_id)) else [])
                    in bindM (es10x_command (encode_tlv TAG_PREPARE_DOWNLOAD
                           (smdp_signed2 @ smdp_signature2 @ confirmation @ smdp_certificate))) (\<lambda>response.
                       bindM (lift_sum (require_tag response TAG_PREPARE_DOWNLOAD ''PrepareDownloadResponse'')) (\<lambda>_.
                         ret (b64e response))))
          | _ \<Rightarrow> throw (RuntimeError ''Invalid smdpSigned2'')))))"

definition BPP_COMMAND_NAMES :: "(nat \<times> string) list" where
  "BPP_COMMAND_NAMES =
    [(0, ''initialiseSecureChannel''), (1, ''configureISDP''), (2, ''storeMetadata''), (3, ''storeMetadata2''),
     (4, ''replaceSessionKeys''), (5, ''loadProfileElements'')]"

definition BPP_ERROR_REASONS :: "(nat \<times> string) list" where
  "BPP_ERROR_REASONS =
    [(1, ''incorrectInputValues''), (2, ''invalidSignature''), (3, ''invalidTransactionId''),
     (4, ''unsupportedCrtValues''), (5, ''unsupportedRemoteOperationType''), (6, ''unsupportedProfileClass''),
     (7, ''scp03tStructureError''), (8, ''scp03tSecurityError''), (9, ''iccidAlreadyExistsOnEuicc''),
     (10, ''insufficientMemoryForProfile''), (11, ''installInterrupted''), (12, ''peProcessingError''),
     (13, ''dataMismatch''), (14, ''invalidNAA'')]"

definition BPP_ERROR_MESSAGES :: "(nat \<times> string) list" where
  "BPP_ERROR_MESSAGES =
    [(9, ''This eSIM profile is already installed on this device.''),
     (10, ''Not enough memory on the eUICC to install this profile.''),
     (12, ''Profile installation failed. The QR code may have already been used.'')]"

text \<open>The chunks go to the eUICC in order until one of them is answered with a result.\<close>

fun load_chunks :: "byte list list \<Rightarrow> InstallResult option io" where
  "load_chunks [] = ret None"
| "load_chunks (chunk # chunks) =
     bindM (es10x_command chunk) (\<lambda>response.
       case (if response = [] then None else parse_install_result response) of
         Some result \<Rightarrow> ret (Some result)
       | None \<Rightarrow> load_chunks chunks)"

definition name_or_unknown :: "(nat \<times> string) list \<Rightarrow> nat option \<Rightarrow> string" where
  "name_or_unknown names v =
     (case v of
        None \<Rightarrow> ''unknown(None)''
      | Some n \<Rightarrow> (case map_of names n of Some m \<Rightarrow> m | None \<Rightarrow> ''unknown('' @ str_nat n @ '')''))"

definition install_failure :: "InstallResult \<Rightarrow> nat \<Rightarrow> string" where
  "install_failure result reason =
     (case map_of BPP_ERROR_MESSAGES reason of
        Some msg \<Rightarrow> msg
      | None \<Rightarrow> ''Profile installation failed at '' @ name_or_unknown BPP_COMMAND_NAMES (bppCommandId result) @ '': '' @
                name_or_unknown BPP_ERROR_REASONS (Some reason))"

definition load_bpp :: "string \<Rightarrow> InstallResult io" where
  "load_bpp b64_bpp =
     bindM (b64d_io b64_bpp) (\<lambda>bpp.
     bindM (lift_sum (split_bpp bpp)) (\<lambda>chunks.
     bindM (load_chunks chunks) (\<lambda>found.
       case found of
         None \<Rightarrow> throw (RuntimeError ''Profile installation failed: no result from eUICC'')
       | Some result \<Rightarrow>
           if success result then ret result
           else (case errorReason result of
               Some reason \<Rightarrow> throw (RuntimeError (install_failure result reason))
             | None \<Rightarrow> throw (RuntimeError ''Profile installation failed: no result from eUICC'')))))"

definition parse_metadata :: "string \<Rightarrow> Fields io" where
  "parse_metadata b64_metadata =
     bindM (b64d_io b64_metadata) (\<lambda>bs.
       case find_tag bs TAG_PROFILE_METADATA of
         None \<Rightarrow> throw (RuntimeError ''Invalid profileMetadata'')
       | Some root_data \<Rightarrow> lift_sum (decode_struct root_data PROFILE))"

definition cancel_session :: "byte list \<Rightarrow> byte \<Rightarrow> string io" where
  "cancel_session transaction_id reason =
     bindM (es10x_command (encode_tlv TAG_CANCEL_SESSION (encode_tlv 0x80 transaction_id @ encode_tlv 0x81 [reason])))
       (\<lambda>response. ret (b64e response))"

fun split_all :: "char \<Rightarrow> string \<Rightarrow> string list" where
  "split_all sep [] = [[]]"
| "split_all sep (c # cs) =
     (if c = sep then [] # split_all sep cs
      else (case split_all sep cs of [] \<Rightarrow> [[c]] | p # ps \<Rightarrow> (c # p) # ps))"

definition parse_lpa_activation_code :: "string \<Rightarrow> LpaExn + string \<times> string" where
  "parse_lpa_activation_code activation_code =
     (if \<not> starts_with ''LPA:'' activation_code then Inl ValueErr
      else (case split_all (CHR ''$'') (drop 4 activation_code) of
          [_, smdp_address, matching_id] \<Rightarrow> Inr (smdp_address, matching_id)
        | _ \<Rightarrow> Inl ValueErr))"

definition cancel_session_safe :: "string \<Rightarrow> string \<Rightarrow> unit io" where
  "cancel_session_safe smdp tx_id =
     bindM (catchM (bindM (b64d_io tx_id) (\<lambda>tx. cancel_session tx 127)) (\<lambda>_. True) (\<lambda>_. ret [])) (\<lambda>b64_cancel.
       catchM (seqM (es9p_request smdp ''cancelSession''
           [(''transactionId'', tx_id), (''cancelSessionResponse'', b64_cancel)] ''CancelSession'') (ret ()))
         (\<lambda>_. True) (\<lambda>_. ret ()))"

text \<open>Steps 2 to 5 of the download, with the transaction known.\<close>

definition download_steps ::
  "(byte list \<Rightarrow> byte list) \<Rightarrow> string \<Rightarrow> string \<Rightarrow> (string \<rightharpoonup> string) \<Rightarrow> string \<Rightarrow> string option io" where
  "download_steps sha256 smdp matching_id auth tx_id =
     bindM (b64_field auth ''serverSigned1'') (\<lambda>signed1. bindM (b64_field auth ''serverSignature1'') (\<lambda>sig1.
     bindM (b64_field auth ''euiccCiPKIdToBeUsed'') (\<lambda>pk_id. bindM (b64_field auth ''serverCertificate'') (\<lambda>cert1.
     bindM (authenticate_server signed1 sig1 pk_id cert1 matching_id) (\<lambda>b64_auth.
     bindM (es9p_request smdp ''authenticateClient''
         [(''transactionId'', tx_id), (''authenticateServerResponse'', b64_auth)] ''Authentication'') (\<lambda>cli.
     bindM (b64_field cli ''profileMetadata'') (\<lambda>metadata. bindM (parse_metadata metadata) (\<lambda>profile.
     bindM (b64_field cli ''smdpSigned2'') (\<lambda>signed2. bindM (b64_field cli ''smdpSignature2'') (\<lambda>sig2.
     bindM (b64_field cli ''smdpCertificate'') (\<lambda>cert2.
     bindM (prepare_download sha256 signed2 sig2 cert2 None) (\<lambda>b64_prep.
     bindM (es9p_request smdp ''getBoundProfilePackage''
         [(''transactionId'', tx_id), (''prepareDownloadResponse'', b64_prep)] ''GetBoundProfilePackage'') (\<lambda>bpp.
     bindM (b64_field bpp ''boundProfilePackage'') (\<lambda>package.
     seqM (load_bpp package)
       (ret (case profile ''iccid'' of Some (Str iccid) \<Rightarrow> Some iccid | _ \<Rightarrow> None))))))))))))))))"

definition download_profile :: "(byte list \<Rightarrow> byte list) \<Rightarrow> string \<Rightarrow> string option io" where
  "download_profile sha256 activation_code =
     bindM (gets time_valid) (\<lambda>valid.
     if \<not> valid
     then throw (RuntimeError ''System time is not set; TLS certificate validation requires a valid clock'')
     else bindM (lift_sum (parse_lpa_activation_code activation_code)) (\<lambda>(smdp, matching_id).
       bindM get_challenge_and_info (\<lambda>(challenge, euicc_info).
       bindM (es9p_request smdp ''initiateAuthentication''
           [(''smdpAddress'', smdp), (''euiccChallenge'', b64e challenge), (''euiccInfo1'', b64e euicc_info),
            (''matchingId'', matching_id)] ''Authentication'') (\<lambda>auth.
       bindM (b64_field auth ''transactionId'') (\<lambda>tx_id.
         catchM (download_steps sha256 smdp matching_id auth tx_id) (\<lambda>_. True)
           (\<lambda>e. seqM (if tx_id \<noteq> [] then cancel_session_safe smdp tx_id else ret ()) (throw e)))))))"

section \<open>TiciLPA\<close>

definition acquire_lock :: "'a io \<Rightarrow> 'a io" where
  "acquire_lock body =
     seqM (modify (locked_update (\<lambda>_. True))) (finallyM body (modify (locked_update (\<lambda>_. False))))"

definition acquire_channel :: "'a io \<Rightarrow> 'a io" where
  "acquire_channel body =
     acquire_lock (finallyM (seqM open_isdr body) (close_channel (\<lambda>e. is_runtime_error e \<or> e = TimeoutError)))"

record Profile =
  pf_iccid :: "string option"
  pf_nickname :: string
  pf_enabled :: bool
  pf_provider :: string

text \<open>\<open>Profile.is_comma\<close>; a profile without a number has no \<open>startswith\<close>.\<close>

definition is_comma :: "Profile \<Rightarrow> LpaExn + bool" where
  "is_comma p =
     (if pf_provider p \<noteq> ''Webbing'' then Inr False
      else (case pf_iccid p of None \<Rightarrow> Inl AttributeErr | Some iccid \<Rightarrow> Inr (starts_with ''8985235'' iccid)))"

definition or_empty :: "FieldValue option \<Rightarrow> string" where
  "or_empty v = (case v of Some (Str t) \<Rightarrow> t | _ \<Rightarrow> [])"

definition make_profile :: "Fields \<Rightarrow> Profile" where
  "make_profile p =
     \<lparr>pf_iccid = (case p ''iccid'' of Some (Str t) \<Rightarrow> Some t | _ \<Rightarrow> None),
      pf_nickname = or_empty (p ''profileNickname''),
      pf_enabled = (p ''profileState'' = Some (Str ''enabled'')),
      pf_provider = or_empty (p ''serviceProviderName'')\<rparr>"

definition TiciLPA_list_profiles :: "Profile list io" where
  "TiciLPA_list_profiles = acquire_channel (bindM list_profiles (\<lambda>ps. ret (map make_profile ps)))"

definition TiciLPA_process_notifications :: "unit io" where
  "TiciLPA_process_notifications =
     bindM (gets time_valid) (\<lambda>valid.
       if \<not> valid
       then throw (RuntimeError ''System time is not set; TLS certificate validation requires a valid clock'')
       else acquire_channel process_notifications)"

definition PROFILE_ERROR_CODES :: "(nat \<times> string) list" where
  "PROFILE_ERROR_CODES =
    [(0x01, ''iccidOrAidNotFound''), (0x02, ''profileNotInDisabledState''), (0x03, ''disallowedByPolicy''),
     (0x04, ''wrongProfileReenabling''), (0x05, ''catBusy''), (0x06, ''undefinedError'')]"

definition profile_error :: "string \<Rightarrow> byte \<Rightarrow> LpaExn" where
  "profile_error operation code =
     LPAError (operation @ '' failed: '' @
       (case map_of PROFILE_ERROR_CODES (unat code) of None \<Rightarrow> ''unknown'' | Some m \<Rightarrow> m) @ '' (0x'' @ hex_byte code @ '')'')"

definition delete_command :: "string \<Rightarrow> byte list" where
  "delete_command iccid = encode_tlv TAG_DELETE_PROFILE (encode_tlv TAG_ICCID (string_to_tbcd iccid))"

definition TiciLPA_delete_profile :: "string \<Rightarrow> unit io" where
  "TiciLPA_delete_profile iccid =
     bindM TiciLPA_list_profiles (\<lambda>profiles.
       case List.find (\<lambda>p. pf_iccid p = Some iccid) profiles of
         None \<Rightarrow> throw (LPAProfileNotFoundError (''profile not found: '' @ iccid))
       | Some profile \<Rightarrow>
           bindM (lift_sum (is_comma profile)) (\<lambda>comma.
             if comma then throw (LPAError ''refusing to delete a comma profile'')
             else bindM (acquire_channel (bindM (es10x_command (delete_command iccid)) (\<lambda>response.
                    lift_sum (bindS (require_tag response TAG_DELETE_PROFILE ''DeleteProfileResponse'') (\<lambda>r.
                      bindS (require_tag r TAG_STATUS ''DeleteProfile status'') first_byte))))) (\<lambda>code.
                    if code \<noteq> 0 then throw (profile_error ''DeleteProfile'' code) else ret ())))"

definition TiciLPA_download_profile :: "(byte list \<Rightarrow> byte list) \<Rightarrow> string \<Rightarrow> string option \<Rightarrow> unit io" where
  "TiciLPA_download_profile sha256 qr nickname =
     acquire_channel (bindM (download_profile sha256 qr) (\<lambda>found.
       case (nickname, found) of
         (Some name, Some iccid) \<Rightarrow> if name \<noteq> [] \<and> iccid \<noteq> [] then set_profile_nickname iccid name else ret ()
       | _ \<Rightarrow> ret ()))"

definition TiciLPA_nickname_profile :: "string \<Rightarrow> string \<Rightarrow> unit io" where
  "TiciLPA_nickname_profile iccid nickname = acquire_channel (set_profile_nickname iccid nickname)"

definition enable_profile :: "string \<Rightarrow> byte io" where
  "enable_profile iccid =
     bindM (es10x_command (encode_tlv TAG_ENABLE_PROFILE
         (encode_tlv TAG_OK (encode_tlv TAG_ICCID (string_to_tbcd iccid)) @ [0x01, 0x01, 0x01]))) (\<lambda>response.
       lift_sum (bindS (require_tag response TAG_ENABLE_PROFILE ''EnableProfileResponse'') (\<lambda>r.
         bindS (require_tag r TAG_STATUS ''EnableProfile status'') first_byte)))"

definition TiciLPA_switch_profile :: "string \<Rightarrow> unit io" where
  "TiciLPA_switch_profile iccid =
     acquire_channel (bindM (enable_profile iccid) (\<lambda>code.
       bindM (if code = 0x05 then seqM reset_modem (seqM open_isdr (enable_profile iccid)) else ret code) (\<lambda>code'.
         if code' \<notin> {0x00, 0x02} then throw (profile_error ''EnableProfile'' code') else ret ())))"

definition TiciLPA_is_euicc :: "bool io" where
  "TiciLPA_is_euicc =
     acquire_lock (bindM (catchM (bindM (query cho_command) (\<lambda>lines. ret (Some lines))) is_runtime_error (\<lambda>_. ret None))
       (\<lambda>answer. case answer of
           None \<Rightarrow> ret False
         | Some lines \<Rightarrow>
             (case opened_channel lines of
                None \<Rightarrow> ret False
              | Some ch \<Rightarrow>
                  seqM (catchM (seqM (query (chc_command ch)) (ret ())) (\<lambda>e. is_runtime_error e \<or> e = TimeoutError) (\<lambda>_. ret ()))
                    (seqM (set_channel None) (ret True)))))"

end
