(* ===== verification/LpaLaws.thy ===== *)
theory LpaLaws
  imports Lpa
begin

text \<open>
  What the sessions on the eUICC leave related to what they found: the locale \<open>card_effect\<close> carries a relation of
  states that the operations on the port respect through every exchange with the eUICC. Its interpretations follow
  the trace of events. Then the cuts of a command into APDUs and of a package into chunks.
\<close>

section \<open>Exchanges with the eUICC\<close>

lemma get_response_io:
  "get_response response sw1 sw2 =
     (if sw1 = 0x61 then bindM (send_apdu [0x80, 0xC0, 0x00, 0x00, sw2]) (\<lambda>(segment, a, b). get_response (response @ segment) a b)
      else if unat sw1 div 16 = 9 then ret response
      else throw (RuntimeError (''APDU failed with SW='' @ hex_byte sw1 @ hex_byte sw2)))"
  by (rule ext) (simp add: get_response.simps [of response sw1 sw2] bindM_def split: prod.split sum.split)

context modem_effect
begin

lemma upholds_get_response: "upholds R (get_response response sw1 sw2)"
proof (rule upholdsI)
  show "get_response response sw1 sw2 s = (s', r) \<Longrightarrow> R s s'" for s s' r
  proof (induction response sw1 sw2 s rule: get_response.induct)
    case (1 response sw1 sw2 s)
    obtain t q where t: "send_apdu [0x80, 0xC0, 0x00, 0x00, sw2] s = (t, q)" by fastforce
    have "R s t"
      using upholdsD [OF upholds_send_apdu t] .
    show ?case
    proof (cases q)
      case (Inl e)
      then show ?thesis
        using 1(2) \<open>R s t\<close> unfolding get_response.simps [of response sw1 sw2 s]
        by (auto simp: t ret_def throw_def split: if_splits)
    next
      case (Inr x)
      obtain segment a b where x: "x = (segment, a, b)" by (cases x)
      show ?thesis
      proof (cases "sw1 = 0x61")
        case True
        then have "get_response (response @ segment) a b t = (s', r)"
          using 1(2) unfolding get_response.simps [of response sw1 sw2 s] by (simp add: t Inr x)
        then have "R t s'"
          using 1(1) [OF True t [symmetric] Inr x [symmetric] refl] by blast
        then show ?thesis
          using \<open>R s t\<close> R_trans by blast
      next
        case False
        then show ?thesis
          using 1(2) unfolding get_response.simps [of response sw1 sw2 s]
          by (auto simp: ret_def throw_def split: if_splits)
      qed
    qed
  qed
qed

lemma upholds_es10x_loop: "upholds R (es10x_loop n response data)"
proof (induction n response data rule: es10x_loop.induct)
  case (1 n response data)
  show ?case
  proof (cases "data = []")
    case False
    then show ?thesis
      unfolding es10x_loop.simps [of n response data] by (intro upholds_intros upholds_send_apdu upholds_get_response 1)
  qed (simp add: es10x_loop.simps [of n response "[]"] upholds_pure)
qed

lemma upholds_es10x: "upholds R (es10x_command data)"
  unfolding es10x_command_def by (rule upholds_es10x_loop)

lemma upholds_load_chunks: "upholds R (load_chunks chunks)"
  by (induction chunks) (auto intro!: upholds_intros upholds_es10x)

lemma upholds_b64: "upholds R (b64d_io t)" "upholds R (b64_field data key)"
  unfolding b64d_io_def b64_field_def by (intro upholds_intros)+

lemmas upholds_card_intros = upholds_intros upholds_es10x upholds_load_chunks upholds_b64

lemma upholds_get_challenge_and_info: "upholds R get_challenge_and_info"
  unfolding get_challenge_and_info_def by (intro upholds_card_intros)

lemma upholds_authenticate_server: "upholds R (authenticate_server a b c d m)"
  unfolding authenticate_server_def Let_def by (intro upholds_card_intros)

lemma upholds_prepare_download: "upholds R (prepare_download h a b c d)"
  unfolding prepare_download_def Let_def by (intro upholds_card_intros)

lemma upholds_load_bpp: "upholds R (load_bpp package)"
  unfolding load_bpp_def by (intro upholds_card_intros)

lemma upholds_parse_metadata: "upholds R (parse_metadata m)"
  unfolding parse_metadata_def by (intro upholds_card_intros)

lemma upholds_cancel_session: "upholds R (cancel_session tx reason)"
  unfolding cancel_session_def by (intro upholds_card_intros)

lemma upholds_lists: "upholds R list_profiles" "upholds R list_notifications"
  unfolding list_profiles_def list_notifications_def by (intro upholds_card_intros)+

lemma upholds_nickname: "upholds R (set_profile_nickname iccid name)"
  unfolding set_profile_nickname_def by (intro upholds_card_intros)

lemma upholds_enable_profile: "upholds R (enable_profile iccid)"
  unfolding enable_profile_def by (intro upholds_card_intros)

end

text \<open>The modem hears commands and resets; the server, the clock and the lock are not concerned.\<close>

definition is_post :: "Event \<Rightarrow> bool" where
  "is_post e \<longleftrightarrow> (case e of Post _ _ _ \<Rightarrow> True | _ \<Rightarrow> False)"

definition modem_only :: "Lpa \<Rightarrow> Lpa \<Rightarrow> bool" where
  "modem_only s s' \<longleftrightarrow>
     (\<exists>es. trace s' = trace s @ es \<and> filter is_post es = []) \<and>
     https s' = https s \<and> locked s' = locked s \<and> time_valid s' = time_valid s"

lemma modem_only_simps:
  "trace s' = trace s \<Longrightarrow> https s' = https s \<Longrightarrow> locked s' = locked s \<Longrightarrow> time_valid s' = time_valid s \<Longrightarrow> modem_only s s'"
  by (simp add: modem_only_def)

interpretation modem_only: modem_effect modem_only
proof
  show "modem_only s u" if "modem_only s t" "modem_only t u" for s t u
    using that by (fastforce simp: modem_only_def)
  show "upholds modem_only (send cmd)" for cmd
    by (rule upholdsI) (auto simp: send_def io_defs log_event_def modem_only_def is_post_def
      split: list.splits ModemReply.splits if_splits)
  show "upholds modem_only (log_event ResetModem)"
    by (rule upholdsI) (auto simp: io_defs log_event_def modem_only_def is_post_def)
qed (auto intro!: upholdsI modem_only_simps simp: set_channel_def close_serial_def open_serial_def reset_input_buffer_def
      expect_def io_defs split: list.splits option.splits prod.splits)

text \<open>The posts among the events that an operation adds.\<close>

definition posts :: "Lpa \<Rightarrow> Event list" where "posts s = filter is_post (trace s)"

lemma modem_only_posts: "modem_only s s' \<Longrightarrow> posts s' = posts s \<and> https s' = https s"
  by (auto simp: modem_only_def posts_def)

section \<open>A command in APDUs\<close>

text \<open>All the APDUs of a command, and the exchange of a list of them.\<close>

function store_data_apdus :: "nat \<Rightarrow> byte list \<Rightarrow> byte list list" where
  "store_data_apdus sequence data =
     (if data = [] then []
      else store_data_apdu sequence (length data \<le> ES10X_MSS) (take ES10X_MSS data) #
        store_data_apdus (sequence + 1) (drop ES10X_MSS data))"
  by pat_completeness auto
termination
  by (relation "measure (\<lambda>(_, data). length data)") (auto simp: ES10X_MSS_def)

declare store_data_apdus.simps [simp del]

lemma store_data_Nil [simp]: "store_data_apdus n [] = []"
  by (simp add: store_data_apdus.simps [of n "[]"])

fun exchange_all :: "byte list \<Rightarrow> byte list list \<Rightarrow> byte list io" where
  "exchange_all response [] = ret response"
| "exchange_all response (apdu # apdus) =
     bindM (send_apdu apdu) (\<lambda>(segment, sw1, sw2). bindM (get_response (response @ segment) sw1 sw2)
       (\<lambda>response'. exchange_all response' apdus))"

lemma es10x_loop_exchanges: "es10x_loop n response data = exchange_all response (store_data_apdus n data)"
proof (induction n response data rule: es10x_loop.induct)
  case (1 n response data)
  then show ?case
    by (cases "data = []") (simp_all add: es10x_loop.simps [of n response data] es10x_loop.simps [of n response "[]"] store_data_apdus.simps [of n data])
qed

lemma store_data_payload: "concat (map (drop 5) (store_data_apdus n data)) = data"
proof (induction n data rule: store_data_apdus.induct)
  case (1 n data)
  then show ?case
    by (cases "data = []") (simp_all add: store_data_apdus.simps [of n data] store_data_apdu_def)
qed

lemma store_data_size: "list_all (\<lambda>a. 5 < length a \<and> length a \<le> 125 \<and> unat (a ! 4) = length a - 5) (store_data_apdus n data)"
proof (induction n data rule: store_data_apdus.induct)
  case (1 n data)
  have "unat (of_nat (min (length data) 120) :: byte) = min (length data) 120"
    by (simp add: unat_of_nat)
  then show ?case
    using 1 by (cases "data = []") (simp_all add: store_data_apdus.simps [of n data] store_data_apdu_def ES10X_MSS_def)
qed

text \<open>Only the last APDU says so.\<close>

lemma store_data_last:
  "data \<noteq> [] \<Longrightarrow> map (\<lambda>a. a ! 2) (store_data_apdus n data) = replicate ((length data - 1) div 120) 0x11 @ [0x91]"
proof (induction n data rule: store_data_apdus.induct)
  case (1 n data)
  show ?case
  proof (cases "length data \<le> 120")
    case True
    then show ?thesis
      using 1(2) by (simp add: store_data_apdus.simps [of n data] store_data_apdu_def
          ES10X_MSS_def)
  next
    case False
    then have "length data - 1 = (length (drop 120 data) - 1) + 120"
      by simp
    then have "(length data - 1) div 120 = Suc ((length (drop 120 data) - 1) div 120)"
      by (simp only: div_add_self2)
    then show ?thesis
      using False 1 by (simp add: store_data_apdus.simps [of n data] store_data_apdu_def ES10X_MSS_def)
  qed
qed

section \<open>The chunks of a package\<close>

fun placed :: "nat \<Rightarrow> (nat \<times> byte list) list \<Rightarrow> (nat \<times> byte list \<times> nat \<times> nat) list" where
  "placed p [] = []"
| "placed p ((t, v) # es) =
     (let q = p + length (encode_tlv t v) in (t, v, p, q) # placed q es)"

definition elements_ok :: "(nat \<times> byte list) list \<Rightarrow> bool" where
  "elements_ok es = list_all (\<lambda>(t, v). tag_ok t \<and> length v < 256 ^ 4) es"

lemma iter_tlv_placed: "elements_ok es \<Longrightarrow> iter_tlv_at p (encode_all es) = placed p es"
proof (induction es arbitrary: p)
  case (Cons e es)
  obtain t v where e: "e = (t, v)" by fastforce
  then have "one_tlv (encode_all (e # es)) = Some (t, v, encode_all es)"
    using Cons.prems by (simp add: elements_ok_def one_tlv_encoded)
  then show ?case
    using Cons.IH Cons.prems
    by (simp add: e iter_tlv_at.simps [of p "encode_tlv t v @ encode_all es"] elements_ok_def Let_def)
qed simp

lemma header_of_long:
  fixes k n :: nat
  assumes "k \<le> 127"
  shows "unat (of_nat (128 + k) :: byte) = 128 + k"
  using assms by (simp only: unat_of_nat) simp

lemma header_length:
  assumes "tag_ok t" "length v < 256 ^ 4"
  shows "parse_tlv_header_len (encode_tlv t v) = Inr (length (encode_tlv t v) - length v)"
proof -
  define tag where "tag = (if t > 255 then [of_nat (t div 256), of_nat (t mod 256)] else [of_nat t] :: byte list)"
  define k where "k = length (be_bytes (length v))"
  define len where "len = (if length v \<le> 127 then [of_nat (length v)] else of_nat (128 + k) # be_bytes (length v) :: byte list)"
  have e: "encode_tlv t v = tag @ len @ v"
    by (simp add: encode_tlv_def Let_def tag_def len_def k_def)
  have k: "k \<le> 127"
    using length_be_bytes [OF assms(2)] by (simp add: k_def)
  have "t div 256 < 256" if "t > 255"
    using assms(1) that by (simp add: tag_ok_def less_mult_imp_div_less)
  then have tag: "(if unat (tag ! 0) mod 32 = 31 then 2 else 1) = length tag" "tag \<noteq> []"
    using assms(1) by (auto simp: tag_def tag_ok_def unat_of_nat)
  have len: "len \<noteq> []"
    "(if unat (len ! 0) \<ge> 128 then 1 + unat (len ! 0) mod 128 else 1) = length len"
    using header_of_long [OF k] k by (auto simp: len_def unat_of_nat k_def simp del: of_nat_add)
  have "byte_at (tag @ len @ v) 0 = Inr (tag ! 0)" "byte_at (tag @ len @ v) (length tag) = Inr (len ! 0)"
    using tag(2) len(1) by (auto simp: byte_at_def nth_append)
  then show ?thesis
    unfolding e parse_tlv_header_len_def Let_def by (simp only: bindS_def sum.case tag(1) len(2)) simp
qed

text \<open>What stands at the place of an element.\<close>

lemma slice_mid: "slice (length xs) (length xs + length ys) (xs @ ys @ zs) = ys"
  by (simp add: slice_def)

lemma placed_slices: "map (\<lambda>(_, _, cs, ce). slice cs ce (xs @ encode_all es)) (placed (length xs) es) = map (\<lambda>(t, v). encode_tlv t v) es"
proof (induction es arbitrary: xs)
  case (Cons e es)
  obtain t v where e: "e = (t, v)" by fastforce
  show ?case
    using Cons.IH [of "xs @ encode_tlv t v"] slice_mid [of xs "encode_tlv t v" "encode_all es"] by (simp add: e Let_def)
qed simp

text \<open>An element that the splitting handles: the command, plain data, or a sequence that is sent piece by piece.\<close>

definition package_element :: "nat \<times> byte list \<Rightarrow> bool" where
  "package_element e =
     (case e of (t, v) \<Rightarrow>
        t \<in> {0xA0, 0xA2} \<or> (t \<in> {0xA1, 0xA3} \<and> (\<exists>kids. elements_ok kids \<and> v = encode_all kids)))"

lemma element_chunks_cover:
  assumes "package_element (t, v)" "tag_ok t" "length v < 256 ^ 4"
  defines "n \<equiv> length (encode_tlv t v)"
  shows "\<exists>cs. element_chunks (hdr @ xs @ encode_tlv t v @ zs) (length hdr) (xs @ encode_tlv t v @ zs)
      (t, v, length xs, length xs + n) = Inr cs \<and> concat cs = encode_tlv t v"
proof -
  have whole: "slice (length hdr + length xs) (length hdr + (length xs + n)) (hdr @ xs @ encode_tlv t v @ zs) = encode_tlv t v"
    using slice_mid [of "hdr @ xs" "encode_tlv t v" zs] by (simp add: n_def add.assoc)
  have own: "slice (length xs) (length xs + n) (xs @ encode_tlv t v @ zs) = encode_tlv t v"
    using slice_mid [of xs "encode_tlv t v" zs] by (simp add: n_def)
  show ?thesis
  proof (cases "t \<in> {0xA0, 0xA2}")
    case True
    then show ?thesis
      using whole by (auto simp: element_chunks_def TAG_BPP_COMMAND_def)
  next
    case False
    then obtain kids where t: "t \<in> {0xA1, 0xA3}" and kids: "elements_ok kids" "v = encode_all kids"
      using assms(1) by (auto simp: package_element_def)
    have "drop (length (encode_tlv t v) - length v) (encode_tlv t v) = v"
      by (simp add: encode_tlv_def Let_def)
    then obtain h where h: "encode_tlv t v = h @ v"
      by (metis append_take_drop_id)
    have "slice (length hdr + length xs) (length hdr + length xs + (length (encode_tlv t v) - length v))
        (hdr @ xs @ encode_tlv t v @ zs) = h"
      using slice_mid [of "hdr @ xs" h "v @ zs"] by (simp add: h add.assoc)
    moreover have "concat (map (\<lambda>(_, _, cs, ce). slice cs ce v) (iter_tlv_at 0 v)) = v"
      using placed_slices [of "[]" kids] iter_tlv_placed [OF kids(1), of 0] by (simp add: kids(2)) (simp add: encode_all_def)
    ultimately show ?thesis
      using t own header_length [OF assms(2,3)] by (auto simp: element_chunks_def TAG_BPP_COMMAND_def bindS_def h)
  qed
qed

lemma chunks_cover:
  assumes "list_all package_element es" "elements_ok es"
  shows "\<exists>css. mapS (element_chunks (hdr @ xs @ encode_all es) (length hdr) (xs @ encode_all es)) (placed (length xs) es) =
      Inr css \<and> concat (concat css) = encode_all es"
  using assms
proof (induction es arbitrary: xs)
  case (Cons e es)
  obtain t v where e: "e = (t, v)" by fastforce
  obtain cs where cs: "element_chunks (hdr @ xs @ encode_tlv t v @ encode_all es) (length hdr) (xs @ encode_tlv t v @ encode_all es)
      (t, v, length xs, length xs + length (encode_tlv t v)) = Inr cs" "concat cs = encode_tlv t v"
    using element_chunks_cover [of t v hdr xs "encode_all es"] Cons.prems by (auto simp: e elements_ok_def)
  obtain css where css: "mapS (element_chunks (hdr @ (xs @ encode_tlv t v) @ encode_all es) (length hdr) ((xs @ encode_tlv t v) @ encode_all es))
      (placed (length (xs @ encode_tlv t v)) es) = Inr css" "concat (concat css) = encode_all es"
    using Cons.IH [of "xs @ encode_tlv t v"] Cons.prems by (auto simp: e elements_ok_def)
  show ?case
    using cs css by (auto simp: e Let_def bindS_def)
qed simp

lemma split_bpp_cover:
  fixes a :: "byte list" and es :: "(nat \<times> byte list) list"
  defines "root_data \<equiv> encode_all ((TAG_BPP_COMMAND, a) # es)"
  assumes ok: "elements_ok ((TAG_BPP_COMMAND, a) # es)" "list_all package_element es" "length root_data < 256 ^ 4"
  shows "\<exists>cs. split_bpp (encode_tlv TAG_BPP root_data) = Inr (take (length (encode_tlv TAG_BPP root_data) - length (encode_all es))
      (encode_tlv TAG_BPP root_data) # cs) \<and> concat cs = encode_all es"
proof -
  have t: "tag_ok TAG_BPP"
    by (simp add: tag_ok_def TAG_BPP_def)
  let ?b = "encode_tlv TAG_BPP root_data" and ?c = "encode_tlv TAG_BPP_COMMAND a"
  have "drop (length ?b - length root_data) ?b = root_data"
    by (simp add: encode_tlv_def Let_def)
  then obtain h where h: "?b = h @ root_data"
    by (metis append_take_drop_id)
  have root_at: "iter_tlv_at 0 ?b = [(TAG_BPP, root_data, 0, length ?b)]"
    using iter_tlv_placed [of "[(TAG_BPP, root_data)]" 0] t ok(3) by (simp add: elements_ok_def)
  have hdr: "parse_tlv_header_len (slice 0 (length ?b) ?b) = Inr (length h)"
    using header_length [OF t ok(3)] by (simp add: slice_def h)
  have elems: "iter_tlv_at 0 root_data = (TAG_BPP_COMMAND, a, 0, length ?c) # placed (length ?c) es"
    using iter_tlv_placed [OF ok(1), of 0] by (simp add: root_data_def Let_def)
  obtain css where css: "mapS (element_chunks (h @ ?c @ encode_all es) (length h) (?c @ encode_all es)) (placed (length ?c) es) = Inr css"
      "concat (concat css) = encode_all es"
    using chunks_cover [of es h ?c] ok(1,2) by (auto simp: elements_ok_def)
  have r: "root_data = ?c @ encode_all es"
    by (simp add: root_data_def)
  have "take (length h + length ?c) ?b = h @ ?c"
    unfolding h by (simp add: r)
  then have "split_bpp ?b = Inr ((h @ ?c) # concat css)"
    using css(1) [folded r, folded h] by (simp add: split_bpp_def root_at hdr bindS_def elems element_chunks_def)
  moreover have "take (length ?b - length (encode_all es)) ?b = h @ ?c"
    unfolding h by (simp add: r)
  ultimately show ?thesis
    using css(2) by auto
qed

end
