(* ===== verification/LpaAnswers.thy ===== *)
theory LpaAnswers
  imports LpaLaws
begin

text \<open>
  An eUICC that answers: what the client reads of a reply is what the card sent. A command of one APDU over an open
  channel returns the data of the card's reply; the conversations of the examples follow from it.
\<close>

section \<open>Text and hexadecimal\<close>

lemma hex_table:
  "list_all (\<lambda>n. hex_value (hex_digit n) = Some n \<and> \<not> is_space (hex_digit n) \<and> hex_digit n \<noteq> CHR 0x22 \<and>
     hex_digit n \<noteq> CHR '','' \<and> (of_char (hex_digit n) :: nat) < 128) [0..<16]"
  by code_simp

lemma hex_char:
  assumes "n < 16"
  shows "hex_value (hex_digit n) = Some n" "\<not> is_space (hex_digit n)" "hex_digit n \<noteq> CHR 0x22"
    "hex_digit n \<noteq> CHR '',''" "(of_char (hex_digit n) :: nat) < 128"
  using hex_table assms by (auto simp: list_all_iff)

lemma hex_upper_simps [simp]: "hex_upper [] = []" "hex_upper (b # bs) = hex_byte b @ hex_upper bs"
  by (simp_all add: hex_upper_def)

lemma byte_halves: "unat (b :: byte) div 16 < 16" "unat b mod 16 < 16"
  using byte_nibbles(1) [of b] by simp_all

lemma hex_upper_chars: "c \<in> set (hex_upper bs) \<Longrightarrow> \<exists>n<16. c = hex_digit n"
proof (induction bs)
  case (Cons b bs)
  then show ?case
    using byte_halves [of b] by (auto simp: hex_byte_def intro: exI [of _ "unat b div 16"] exI [of _ "unat b mod 16"])
qed simp

text \<open>What is written in hexadecimal is read back.\<close>

lemma from_hex_upper: "from_hex (hex_upper bs) = Inr bs"
proof (induction bs)
  case (Cons b bs)
  have "(of_nat (16 * (unat b div 16) + unat b mod 16) :: byte) = b"
    by (simp only: mult_div_mod_eq) simp
  then show ?case
    using Cons.IH hex_char [OF byte_halves(1) [of b]] hex_char [OF byte_halves(2) [of b]] by (simp add: hex_byte_def)
qed simp

lemma strip_of_id: "s = [] \<or> (\<not> p (hd s) \<and> \<not> p (last s)) \<Longrightarrow> strip_of p s = s"
proof -
  assume "s = [] \<or> (\<not> p (hd s) \<and> \<not> p (last s))"
  then have "dropWhile p s = s" "dropWhile p (rev s) = rev s"
    by (auto simp: dropWhile_eq_self_iff hd_rev)
  then show ?thesis
    by (simp add: strip_of_def)
qed

lemma strip_hex: "strip_of is_space (hex_upper bs) = hex_upper bs" "strip_of (\<lambda>c. c = CHR 0x22) (hex_upper bs) = hex_upper bs"
proof -
  have "\<not> is_space c \<and> c \<noteq> CHR 0x22" if "c \<in> set (hex_upper bs)" for c
    using hex_upper_chars [OF that] hex_char(2,3) by metis
  then show "strip_of is_space (hex_upper bs) = hex_upper bs" "strip_of (\<lambda>c. c = CHR 0x22) (hex_upper bs) = hex_upper bs"
    by (auto intro!: strip_of_id dest: hd_in_set last_in_set)
qed

lemma is_ascii_append [simp]: "is_ascii (s @ t) \<longleftrightarrow> is_ascii s \<and> is_ascii t"
  by (simp add: is_ascii_def)

lemma is_ascii_Cons: "is_ascii (c # s) \<longleftrightarrow> (of_char c :: nat) < 128 \<and> is_ascii s"
  by (simp add: is_ascii_def)

lemma is_ascii_Nil [simp]: "is_ascii []"
  by (simp add: is_ascii_def)

lemma is_ascii_hex [simp]: "is_ascii (hex_upper bs)"
  using hex_upper_chars [of _ bs] hex_char(5) by (fastforce simp: is_ascii_def list_all_iff)

lemma is_ascii_str_nat [simp]: "is_ascii (str_nat n)"
proof (induction n rule: str_nat.induct)
  case (1 n)
  have "(of_char (digit (n mod 10)) :: nat) < 128"
    using mod_less_divisor [of 10 n] by (simp add: digit_def)
  then show ?case
    using 1 by (subst str_nat.simps) (auto simp: is_ascii_Cons digit_def)
qed

lemma unat_of_char [simp]: "unat (of_char c :: byte) = of_char c"
proof -
  have "unat (of_nat (of_char c) :: byte) = of_char c"
    using nat_of_char_less_256 [of c] by (simp add: unat_of_nat del: of_nat_of_char)
  then show ?thesis
    by (simp only: of_nat_of_char)
qed

lemma decode_ascii:
  assumes "is_ascii t"
  shows "decode_utf8 (encode_str t) = t"
proof -
  have "utf8_ignore (encode_str t) = encode_str t"
    using assms by (induction t) (auto simp: encode_str_def is_ascii_Cons utf8_len_def Let_def)
  then show ?thesis
    by (simp add: decode_utf8_def decode_bytes_def encode_str_def o_def)
qed

section \<open>Replies\<close>

definition card_reply :: "byte list \<Rightarrow> ModemReply" where
  "card_reply bs = Lines [RxLine (encode_str (''+CGLA: 0,'' @ hex_upper (bs @ [0x90, 0]))), RxLine (encode_str ''OK'')]"

definition modem_ok :: "string \<Rightarrow> ModemReply" where
  "modem_ok line = Lines [RxLine (encode_str line), RxLine (encode_str ''OK'')]"

text \<open>A client with an open port, of which everything that was sent has been read.\<close>

definition quiet :: "Lpa \<Rightarrow> bool" where
  "quiet s \<longleftrightarrow> serial_open s \<and> rx s = []"

lemma expect_card:
  "expect_lines [RxLine (encode_str (''+CGLA: 0,'' @ hex_upper bs)), RxLine (encode_str ''OK'')] [] = ([], Inr [''+CGLA: 0,'' @ hex_upper bs])"
proof -
  have a: "is_ascii (''+CGLA: 0,'' @ hex_upper bs)" "is_ascii ''OK''"
    by (simp_all add: is_ascii_Cons)
  have "\<not> is_space (last (''+CGLA: 0,'' @ hex_upper bs))"
    using hex_upper_chars [of "last (hex_upper bs)" bs] hex_char(2) last_in_set
    by (cases "hex_upper bs = []") (auto simp: is_space_def)
  then have "strip_of is_space (''+CGLA: 0,'' @ hex_upper bs) = ''+CGLA: 0,'' @ hex_upper bs" "strip_of is_space ''OK'' = ''OK''"
    by (auto intro!: strip_of_id simp: is_space_def)
  then show ?thesis
    using decode_ascii [OF a(1)] decode_ascii [OF a(2)] by (simp add: starts_with_def encode_str_def)
qed

lemma find_card: "find_cgla [''+CGLA: 0,'' @ hex_upper (bs @ [a, b])] = Inr (bs, a, b)"
  by (simp add: starts_with_def after_colon_def split_once_def strip_hex from_hex_upper nth_append)

lemma query_card:
  assumes "quiet s" "replies s = card_reply bs # rs" "is_ascii cmd"
  shows "query cmd s = (s\<lparr>replies := rs, trace := trace s @ [At cmd]\<rparr>, Inr [''+CGLA: 0,'' @ hex_upper (bs @ [0x90, 0])])"
  using assms expect_card [of "bs @ [0x90, 0]"]
  by (simp add: query_def ensure_serial_def io_defs send_def expect_def log_event_def card_reply_def quiet_def)

lemma send_apdu_card:
  assumes "quiet s" "replies s = card_reply bs # rs" "channel s = Some ch" "is_ascii ch"
  shows "send_apdu apdu s = (s\<lparr>replies := rs, trace := trace s @ [At (cgla_command (Some ch) apdu)]\<rparr>, Inr (bs, 0x90, 0))"
proof -
  have "is_ascii (cgla_command (Some ch) apdu)"
    using assms(4) by (simp add: cgla_command_def Let_def channel_text_def is_ascii_Cons)
  then have "send_apdu_once apdu s = (s\<lparr>replies := rs, trace := trace s @ [At (cgla_command (Some ch) apdu)]\<rparr>, Inr (bs, 0x90, 0))"
    by (simp add: send_apdu_once_def seqM_def bindM_def gets_def ret_def lift_sum_def assms(3) query_card [OF assms(1,2)] find_card
        del: find_cgla.simps append.simps)
  moreover have "[0..<SEND_APDU_RETRIES] = [0, 1, 2]"
    by (simp add: SEND_APDU_RETRIES_def upt_rec)
  ultimately show ?thesis
    by (simp add: send_apdu_def catchM_def)
qed

text \<open>A command of one APDU returns what the card answered.\<close>

lemma es10x_card:
  assumes "quiet s" "replies s = card_reply bs # rs" "channel s = Some ch" "is_ascii ch" "data \<noteq> []" "length data \<le> 120"
  shows "es10x_command data s =
    (s\<lparr>replies := rs, trace := trace s @ [At (cgla_command (Some ch) (store_data_apdu 0 True data))]\<rparr>, Inr bs)"
  using assms send_apdu_card [OF assms(1-4), of "store_data_apdu 0 True data"]
  by (simp add: es10x_command_def es10x_loop.simps [of _ _ data] es10x_loop.simps [of _ _ "[]"] bindM_def get_response.simps
      ret_def ES10X_MSS_def)

section \<open>Conversations\<close>

lemma find_encoded:
  "tag_ok t \<Longrightarrow> length v \<le> 127 \<Longrightarrow> find_tag (encode_tlv t v @ rest) target = (if t = target then Some v else find_tag rest target)"
  by (rule find_tag_step) (simp add: one_tlv_encoded)

lemma find_encoded_one:
  "tag_ok t \<Longrightarrow> length v \<le> 127 \<Longrightarrow> find_tag (encode_tlv t v) target = (if t = target then Some v else None)"
  using find_encoded [of t v "[]" target] by simp

lemma length_encode: "length v \<le> 127 \<Longrightarrow> length (encode_tlv t v) = (if t > 255 then 3 else 2) + length v"
  by (simp add: encode_tlv_def)

lemma iter_single: "tag_ok t \<Longrightarrow> length v \<le> 127 \<Longrightarrow> iter_tlv (encode_tlv t v) = [(t, v)]"
  using iter_tlv_encode_all [of "[(t, v)]"] by simp

lemma encode_nonempty: "encode_tlv t v \<noteq> []"
  by (simp add: encode_tlv_def Let_def)

lemmas tag_defs =
  TAG_ICCID_def TAG_STATUS_def TAG_EUICC_INFO_def TAG_PREPARE_DOWNLOAD_def TAG_BPP_COMMAND_def TAG_PROFILE_METADATA_def
  TAG_INSTALL_RESULT_DATA_def TAG_LIST_NOTIFICATION_def TAG_SET_NICKNAME_def TAG_RETRIEVE_NOTIFICATION_def
  TAG_PROFILE_INFO_LIST_def TAG_EUICC_CHALLENGE_def TAG_NOTIFICATION_METADATA_def TAG_NOTIFICATION_SENT_def
  TAG_ENABLE_PROFILE_def TAG_DELETE_PROFILE_def TAG_BPP_def TAG_PROFILE_INSTALL_RESULT_def TAG_AUTH_SERVER_def
  TAG_CANCEL_SESSION_def TAG_OK_def

lemma tags_ok:
  "tag_ok TAG_ICCID" "tag_ok TAG_STATUS" "tag_ok TAG_EUICC_INFO" "tag_ok TAG_PREPARE_DOWNLOAD" "tag_ok TAG_BPP_COMMAND"
  "tag_ok TAG_PROFILE_METADATA" "tag_ok TAG_EUICC_CHALLENGE" "tag_ok TAG_BPP" "tag_ok TAG_AUTH_SERVER" "tag_ok TAG_DELETE_PROFILE"
  "tag_ok TAG_PROFILE_INFO_LIST" "tag_ok TAG_OK" "tag_ok 0xE3" "tag_ok 0xA1" "tag_ok 0x30" "tag_ok 1"
  by (simp_all add: tag_defs tag_ok_def)

lemma status_not_one: "TAG_STATUS \<noteq> 1"
  by (simp add: TAG_STATUS_def)

lemmas talk = find_encoded find_encoded_one length_encode encode_nonempty tags_ok

text \<open>A client with an open channel and what it will hear.\<close>

definition talking :: "bool \<Rightarrow> string option \<Rightarrow> ModemReply list \<Rightarrow> HttpReply list \<Rightarrow> Event list \<Rightarrow> Lpa" where
  "talking lk ch rs hs tr =
     \<lparr>channel = ch, serial_open = True, rx = [], replies = rs, opens = [], flushes = [], https = hs, time_valid = True,
      locked = lk, trace = tr\<rparr>"

lemma talking_simps [simp]:
  "trace (talking lk ch rs hs tr) = tr" "https (talking lk ch rs hs tr) = hs" "time_valid (talking lk ch rs hs tr)"
  by (simp_all add: talking_def)

lemma talking_es10x:
  "is_ascii ch \<Longrightarrow> data \<noteq> [] \<Longrightarrow> length data \<le> 120 \<Longrightarrow>
     es10x_command data (talking lk (Some ch) (card_reply bs # rs) hs tr) =
       (talking lk (Some ch) rs hs (tr @ [At (cgla_command (Some ch) (store_data_apdu 0 True data))]), Inr bs)"
  by (subst es10x_card) (auto simp: talking_def quiet_def)

lemma talking_es9p:
  "es9p_request smdp name payload p (talking lk ch rs (Body None answer # hs) tr) =
     (talking lk ch rs hs (tr @ [Post smdp name payload]), Inr answer)"
  "es9p_request smdp name payload p (talking lk ch rs (HttpRaises e # hs) tr) =
     (talking lk ch rs hs (tr @ [Post smdp name payload]), Inl e)"
  by (simp_all add: es9p_request_def log_event_def io_defs talking_def)

lemma b64_read_back:
  "b64d_io (b64e bs) = ret bs" "b64d_io [] = ret []"
  using base64_roundtrip [of "[]"] by (simp_all add: b64d_io_def base64_roundtrip)

lemma b64_field_encoded:
  "data key = Some (b64e bs) \<Longrightarrow> b64_field data key = ret (b64e bs)" "data key = Some [] \<Longrightarrow> b64_field data key = ret []"
  by (simp_all add: b64_field_def b64e_clean) (simp add: base64_trim_def)

text \<open>The eUICC and the server of a download that succeeds.\<close>

definition download_answers :: "ModemReply list" where
  "download_answers =
     [card_reply (encode_tlv TAG_EUICC_CHALLENGE (encode_tlv TAG_STATUS [1])),
      card_reply (encode_tlv TAG_EUICC_INFO []),
      card_reply (encode_tlv TAG_AUTH_SERVER []),
      card_reply (encode_tlv TAG_PREPARE_DOWNLOAD []),
      card_reply (encode_tlv TAG_PROFILE_INSTALL_RESULT (encode_tlv TAG_INSTALL_RESULT_DATA (encode_tlv 0xA2 (encode_tlv 0xA0 []))))]"

definition download_fields :: "string \<rightharpoonup> string" where
  "download_fields =
     [''transactionId'' \<mapsto> b64e [1], ''serverSigned1'' \<mapsto> [], ''serverSignature1'' \<mapsto> [], ''euiccCiPKIdToBeUsed'' \<mapsto> [],
      ''serverCertificate'' \<mapsto> [],
      ''profileMetadata'' \<mapsto> b64e (encode_tlv TAG_PROFILE_METADATA (encode_tlv TAG_ICCID [0x98, 0xF1])),
      ''smdpSigned2'' \<mapsto> b64e (encode_tlv 0x30 (encode_tlv TAG_STATUS [1] @ encode_tlv 1 [0])),
      ''smdpSignature2'' \<mapsto> [], ''smdpCertificate'' \<mapsto> [],
      ''boundProfilePackage'' \<mapsto> b64e (encode_tlv TAG_BPP (encode_tlv TAG_BPP_COMMAND [1]))]"

lemma download_fields:
  "b64_field download_fields ''transactionId'' = ret (b64e [1])"
  "b64_field download_fields ''serverSigned1'' = ret []" "b64_field download_fields ''serverSignature1'' = ret []"
  "b64_field download_fields ''euiccCiPKIdToBeUsed'' = ret []" "b64_field download_fields ''serverCertificate'' = ret []"
  "b64_field download_fields ''profileMetadata'' = ret (b64e (encode_tlv TAG_PROFILE_METADATA (encode_tlv TAG_ICCID [0x98, 0xF1])))"
  "b64_field download_fields ''smdpSigned2'' = ret (b64e (encode_tlv 0x30 (encode_tlv TAG_STATUS [1] @ encode_tlv 1 [0])))"
  "b64_field download_fields ''smdpSignature2'' = ret []" "b64_field download_fields ''smdpCertificate'' = ret []"
  "b64_field download_fields ''boundProfilePackage'' = ret (b64e (encode_tlv TAG_BPP (encode_tlv TAG_BPP_COMMAND [1])))"
  by (simp_all add: download_fields_def b64_field_encoded del: b64e.simps One_nat_def)

lemma answered_challenge:
  "get_challenge_and_info (talking lk (Some ''1'') (card_reply (encode_tlv TAG_EUICC_CHALLENGE (encode_tlv TAG_STATUS [1])) #
       card_reply (encode_tlv TAG_EUICC_INFO []) # rs) hs tr) =
   (talking lk (Some ''1'') rs hs (tr @ map (\<lambda>d. At (cgla_command (Some ''1'') (store_data_apdu 0 True d)))
       [encode_tlv TAG_EUICC_CHALLENGE [], encode_tlv TAG_EUICC_INFO []]), Inr ([1], encode_tlv TAG_EUICC_INFO []))"
  by (simp add: get_challenge_and_info_def bindM_def talking_es10x is_ascii_Cons lift_sum_def require_tag_def bindS_def ret_def talk)

lemma answered_authentication:
  "authenticate_server [] [] [] [] [CHR ''b''] (talking lk (Some ''1'') (card_reply (encode_tlv TAG_AUTH_SERVER []) # rs) hs tr) =
   (talking lk (Some ''1'') rs hs (tr @ [At (cgla_command (Some ''1'') (store_data_apdu 0 True (encode_tlv TAG_AUTH_SERVER
      (encode_tlv 0xA0 (encode_tlv TAG_STATUS (encode_str ''b'') @ encode_tlv 0xA1
        (encode_tlv TAG_STATUS [0x35, 0x29, 0x06, 0x11] @ encode_tlv 0xA1 []))))))]), Inr (b64e (encode_tlv TAG_AUTH_SERVER [])))"
  by (simp add: authenticate_server_def bindM_def b64_read_back ret_def talking_es10x is_ascii_Cons lift_sum_def require_tag_def
      talk encode_str_def)

lemma answered_preparation:
  "prepare_download h (b64e (encode_tlv 0x30 (encode_tlv TAG_STATUS [1] @ encode_tlv 1 [0]))) [] [] None
     (talking lk (Some ''1'') (card_reply (encode_tlv TAG_PREPARE_DOWNLOAD []) # rs) hs tr) =
   (talking lk (Some ''1'') rs hs (tr @ [At (cgla_command (Some ''1'') (store_data_apdu 0 True (encode_tlv TAG_PREPARE_DOWNLOAD
      (encode_tlv 0x30 (encode_tlv TAG_STATUS [1] @ encode_tlv 1 [0])))))]), Inr (b64e (encode_tlv TAG_PREPARE_DOWNLOAD [])))"
  by (simp add: prepare_download_def bindM_def b64_read_back ret_def talking_es10x is_ascii_Cons lift_sum_def require_tag_def
      talk be_value.simps status_not_one del: One_nat_def)

lemma small_package: "split_bpp (encode_tlv TAG_BPP (encode_tlv TAG_BPP_COMMAND [1])) = Inr [encode_tlv TAG_BPP (encode_tlv TAG_BPP_COMMAND [1])]"
  by (simp add: encode_tlv_def tag_defs split_bpp_def iter_tlv_at.simps one_tlv_def read_tag_def read_size_def slice_def
      parse_tlv_header_len_def byte_at_def bindS_def element_chunks_def)

lemma answered_metadata:
  "parse_metadata (b64e (encode_tlv TAG_PROFILE_METADATA (encode_tlv TAG_ICCID [0x98, 0xF1]))) s =
     (s, Inr [''iccid'' \<mapsto> Str ''891''])"
proof -
  have "tbcd_to_string [0x98, 0xF1] = ''891''"
    by code_simp
  moreover have "map_of PROFILE TAG_ICCID = Some (''iccid'', \<lambda>v. Inr (Some (Str (tbcd_to_string v))))"
    by (simp add: PROFILE_def)
  ultimately have "decode_struct (encode_tlv TAG_ICCID [0x98, 0xF1]) PROFILE = Inr [''iccid'' \<mapsto> Str ''891'']"
    by (simp add: decode_struct_def iter_single talk bindS_def)
  then show ?thesis
    by (simp add: parse_metadata_def bindM_def b64_read_back ret_def talk lift_sum_def)
qed

lemma answered_package:
  "load_bpp (b64e (encode_tlv TAG_BPP (encode_tlv TAG_BPP_COMMAND [1]))) (talking lk (Some ''1'')
     (card_reply (encode_tlv TAG_PROFILE_INSTALL_RESULT (encode_tlv TAG_INSTALL_RESULT_DATA (encode_tlv 0xA2 (encode_tlv 0xA0 [])))) # rs) hs tr) =
   (talking lk (Some ''1'') rs hs (tr @ [At (cgla_command (Some ''1'') (store_data_apdu 0 True
       (encode_tlv TAG_BPP (encode_tlv TAG_BPP_COMMAND [1]))))]),
    Inr \<lparr>seqNumber = 0, success = True, bppCommandId = None, errorReason = None\<rparr>)"
proof -
  have t: "tag_ok TAG_PROFILE_INSTALL_RESULT" "tag_ok TAG_INSTALL_RESULT_DATA" "tag_ok 0xA2" "tag_ok 0xA0"
      "TAG_INSTALL_RESULT_DATA \<noteq> TAG_NOTIFICATION_METADATA" "TAG_NOTIFICATION_METADATA \<noteq> 0xA2"
    by (simp_all add: tag_defs tag_ok_def)
  have "parse_install_result (encode_tlv TAG_PROFILE_INSTALL_RESULT (encode_tlv TAG_INSTALL_RESULT_DATA (encode_tlv 0xA2 (encode_tlv 0xA0 [])))) =
      Some \<lparr>seqNumber = 0, success = True, bppCommandId = None, errorReason = None\<rparr>"
    using t by (simp add: parse_install_result_def talk truthy_def iter_single)
  then show ?thesis
    by (simp add: load_bpp_def bindM_def b64_read_back ret_def small_package lift_sum_def talking_es10x is_ascii_Cons talk)
qed

lemma demo_code: "parse_lpa_activation_code ''LPA:1$a$b'' = Inr (''a'', ''b'')"
  by code_simp

lemma demo_download:
  "snd (download_profile (\<lambda>bs. bs) ''LPA:1$a$b''
     (talking False (Some ''1'') download_answers (replicate 3 (Body None download_fields)) [])) = Inr (Some ''891'')"
proof -
  have 3: "replicate 3 (Body None download_fields) = [Body None download_fields, Body None download_fields, Body None download_fields]"
    by (simp add: numeral_3_eq_3)
  show ?thesis
    unfolding 3 download_answers_def download_profile_def demo_code
    by (simp add: bindM_def gets_def lift_sum_def answered_challenge talking_es9p download_fields ret_def catchM_def
      download_steps_def answered_authentication answered_metadata answered_preparation seqM_def answered_package
      del: b64e.simps One_nat_def map_upds_def)
qed

text \<open>A session that lists and deletes a profile.\<close>

definition modem_done :: ModemReply where "modem_done = Lines [RxLine (encode_str ''OK'')]"

lemma expect_open: "expect_lines [RxLine (encode_str ''+CCHO: 1''), RxLine (encode_str ''OK'')] [] = ([], Inr [''+CCHO: 1''])"
  by code_simp

lemma expect_done: "expect_lines [RxLine (encode_str ''OK'')] [] = ([], Inr [])"
  by code_simp

lemma opened_one: "opened_channel [''+CCHO: 1''] = Some ''1''"
  by code_simp

lemma cho_ascii: "is_ascii cho_command" "is_ascii (chc_command ''1'')"
  by code_simp+

lemma talking_open:
  "open_isdr (talking lk None (modem_ok ''+CCHO: 1'' # rs) hs tr) = (talking lk (Some ''1'') rs hs (tr @ [At cho_command]), Inr ())"
proof -
  have "open_isdr_once (talking lk None (modem_ok ''+CCHO: 1'' # rs) hs tr) = (talking lk (Some ''1'') rs hs (tr @ [At cho_command]), Inr ())"
    using expect_open opened_one
    by (simp add: open_isdr_once_def close_channel_def reset_input_buffer_def query_def ensure_serial_def send_def expect_def
        log_event_def set_channel_def io_defs talking_def modem_ok_def cho_ascii del: expect_lines.simps)
  moreover have "[0..<OPEN_ISDR_RETRIES] = 0 # [1..<OPEN_ISDR_RETRIES]"
    by (simp add: OPEN_ISDR_RETRIES_def upt_rec)
  ultimately show ?thesis
    by (simp add: open_isdr_def catchM_def)
qed

lemma talking_close:
  "close_channel p (talking lk (Some ''1'') (modem_done # rs) hs tr) = (talking lk None rs hs (tr @ [At (chc_command ''1'')]), Inr ())"
  using expect_done
  by (simp add: close_channel_def query_def ensure_serial_def send_def expect_def
      log_event_def set_channel_def io_defs talking_def modem_done_def cho_ascii del: expect_lines.simps)

definition listing :: "byte list" where
  "listing = encode_tlv TAG_PROFILE_INFO_LIST (encode_tlv TAG_OK (encode_tlv 0xE3 (encode_tlv TAG_ICCID [0x98, 0xF1])))"

lemma demo_delete:
  "snd (TiciLPA_delete_profile ''891'' (talking False None
     [modem_ok ''+CCHO: 1'', card_reply listing, modem_done, modem_ok ''+CCHO: 1'',
      card_reply (encode_tlv TAG_DELETE_PROFILE (encode_tlv TAG_STATUS [0])), modem_done] [] [])) = Inr ()"
proof -
  have t: "tbcd_to_string [0x98, 0xF1] = ''891''" "string_to_tbcd ''891'' = [0x98, 0xF1]"
    by code_simp+
  have p: "map_of PROFILE TAG_ICCID = Some (''iccid'', \<lambda>v. Inr (Some (Str (tbcd_to_string v))))"
    by (simp add: PROFILE_def)
  have d: "decode_profiles listing = Inr [[''iccid'' \<mapsto> Str ''891'']]"
    by (simp add: decode_profiles_def require_tag_def listing_def talk bindS_def iter_single decode_struct_def p t)
  have lock: "(talking lk ch rs hs tr)\<lparr>locked := b\<rparr> = talking b ch rs hs tr" for lk ch rs hs tr b
    by (simp add: talking_def)
  show ?thesis
    by (simp add: TiciLPA_delete_profile_def TiciLPA_list_profiles_def acquire_channel_def acquire_lock_def seqM_def bindM_def
        modify_def finallyM_def lock talking_open list_profiles_def talking_es10x is_ascii_Cons lift_sum_def d ret_def talking_close
        make_profile_def is_comma_def or_empty_def delete_command_def t talk require_tag_def bindS_def first_byte_def)
qed

end
