(* ===== verification/LpaSafety.thy ===== *)
theory LpaSafety
  imports LpaAnswers
begin

text \<open>
  What the eSIM manager guarantees: its codecs read back what they write, a command and a package arrive whole, a
  download asks the server in the order of the protocol and is cancelled when it fails, a notification stays on the
  eUICC until the server has taken it, a session leaves neither lock nor channel, and the profiles of comma are kept.
\<close>

section \<open>Endpoints in order\<close>

definition endpoint :: "Event \<Rightarrow> string" where
  "endpoint e = (case e of Post _ name _ \<Rightarrow> name | _ \<Rightarrow> [])"

text \<open>With a result, the operation has asked these endpoints.\<close>

definition asks :: "'a io \<Rightarrow> string list \<Rightarrow> bool" where
  "asks m names \<longleftrightarrow> (\<forall>s s' x. m s = (s', Inr x) \<longrightarrow> map endpoint (posts s') = map endpoint (posts s) @ names)"

lemma asks_modem: "upholds modem_only m \<Longrightarrow> asks m []"
  by (auto simp: asks_def dest!: upholdsD modem_only_posts)

lemma asks_bind: "asks m ns \<Longrightarrow> (\<And>x. asks (f x) ns') \<Longrightarrow> asks (bindM m f) (ns @ ns')"
  unfolding asks_def by (fastforce dest!: bindM_Inr)

lemma asks_none: "asks m [] \<Longrightarrow> (\<And>x. asks (f x) ns) \<Longrightarrow> asks (bindM m f) ns"
  using asks_bind [of m "[]" f ns] by simp

lemma asks_one: "asks m [n] \<Longrightarrow> (\<And>x. asks (f x) ns) \<Longrightarrow> asks (bindM m f) (n # ns)"
  using asks_bind [of m "[n]" f ns] by simp

lemma asks_throw: "asks (throw e) ns"
  by (simp add: asks_def throw_def)

lemma asks_split:
  "asks m ns \<Longrightarrow> asks m' ns \<Longrightarrow> asks (if b then m else m') ns"
  "(\<And>x y. asks (f x y) ns) \<Longrightarrow> asks (case p of (x, y) \<Rightarrow> f x y) ns"
  by (simp_all split: prod.split)

lemma asks_catch:
  "asks m ns \<Longrightarrow> (\<And>e s s' x. h e s \<noteq> (s', Inr x)) \<Longrightarrow> asks (catchM m p h) ns"
  unfolding asks_def by (auto elim!: catchM_Inr)

lemma seq_throw: "seqM m (throw e) s \<noteq> (s', Inr x)"
  by (auto simp: seqM_def bindM_def throw_def split: prod.splits sum.splits)

lemma es9p_posts: "es9p_request smdp name payload p s = (s', r) \<Longrightarrow> trace s' = trace s @ [Post smdp name payload]"
  by (auto simp: es9p_request_def log_event_def io_defs split: list.splits HttpReply.splits)

lemma asks_es9p: "asks (es9p_request smdp name payload p) [name]"
  by (auto simp: asks_def posts_def is_post_def endpoint_def dest: es9p_posts)

lemma asks_download_steps:
  "asks (download_steps sha256 smdp m auth tx) [''authenticateClient'', ''getBoundProfilePackage'']"
  unfolding download_steps_def seqM_def
  by (rule asks_none [OF asks_modem [OF modem_only.upholds_b64(2)]] | rule asks_none [OF asks_modem [OF modem_only.upholds_authenticate_server]]
      | rule asks_none [OF asks_modem [OF modem_only.upholds_parse_metadata]] | rule asks_none [OF asks_modem [OF modem_only.upholds_prepare_download]]
      | rule asks_none [OF asks_modem [OF modem_only.upholds_load_bpp]] | rule asks_one [OF asks_es9p]
      | rule asks_modem [OF modem_only.upholds_pure(1)])+

lemma asks_download:
  "asks (download_profile sha256 code) [''initiateAuthentication'', ''authenticateClient'', ''getBoundProfilePackage'']"
  unfolding download_profile_def
  by (intro asks_none [OF asks_modem [OF modem_only.upholds_pure(3)]] asks_none [OF asks_modem [OF modem_only.upholds_pure(4)]]
      asks_none [OF asks_modem [OF modem_only.upholds_get_challenge_and_info]] asks_none [OF asks_modem [OF modem_only.upholds_b64(2)]]
      asks_one [OF asks_es9p] asks_split asks_throw asks_catch asks_download_steps seq_throw)

section \<open>The transaction of a download\<close>

definition of_transaction :: "string \<Rightarrow> string \<Rightarrow> Event \<Rightarrow> bool" where
  "of_transaction smdp tx e =
     (case e of Post a _ payload \<Rightarrow> a = smdp \<and> (case payload of [] \<Rightarrow> False | x # _ \<Rightarrow> x = (''transactionId'', tx)) | _ \<Rightarrow> False)"

definition posts_within :: "string \<Rightarrow> string \<Rightarrow> Lpa \<Rightarrow> Lpa \<Rightarrow> bool" where
  "posts_within smdp tx s s' \<longleftrightarrow> (\<exists>ps. posts s' = posts s @ ps \<and> list_all (of_transaction smdp tx) ps)"

lemma modem_only_within: "modem_only s s' \<Longrightarrow> posts_within smdp tx s s'"
  by (drule modem_only_posts) (simp add: posts_within_def)

lemma upholds_within: "upholds modem_only m \<Longrightarrow> upholds (posts_within smdp tx) m"
  by (auto simp: upholds_def modem_only_within)

interpretation within: io_effect "posts_within smdp tx" for smdp tx
proof
  show "posts_within smdp tx s u" if "posts_within smdp tx s t" "posts_within smdp tx t u" for s t u
    using that by (fastforce simp: posts_within_def)
qed (simp add: posts_within_def)

lemma es9p_within:
  "upholds (posts_within smdp tx) (es9p_request smdp name ((''transactionId'', tx) # payload) p)"
  by (rule upholdsI) (auto simp: posts_within_def posts_def is_post_def of_transaction_def dest!: es9p_posts)

lemma download_steps_within: "upholds (posts_within smdp tx) (download_steps sha256 smdp m auth tx)"
  unfolding download_steps_def
  by (intro within.upholds_intros es9p_within upholds_within [OF modem_only.upholds_b64(2)]
      upholds_within [OF modem_only.upholds_authenticate_server] upholds_within [OF modem_only.upholds_parse_metadata]
      upholds_within [OF modem_only.upholds_prepare_download] upholds_within [OF modem_only.upholds_load_bpp])

definition cancels :: "string \<Rightarrow> string \<Rightarrow> Event \<Rightarrow> bool" where
  "cancels smdp tx e \<longleftrightarrow> (\<exists>c. e = Post smdp ''cancelSession'' [(''transactionId'', tx), (''cancelSessionResponse'', c)])"

lemma bindM_Inl:
  assumes "bindM m f s = (s', Inl e)"
  obtains (first) "m s = (s', Inl e)" | (second) t x where "m s = (t, Inr x)" "f x t = (s', Inl e)"
  using assms by (auto simp: bindM_def split: prod.splits sum.splits)

lemma upholds_posts: "upholds modem_only m \<Longrightarrow> m s = (s', r) \<Longrightarrow> posts s' = posts s"
  by (auto dest!: upholdsD modem_only_posts)

lemma cancel_posts: "\<exists>e. posts (fst (cancel_session_safe smdp tx s)) = posts s @ [e] \<and> cancels smdp tx e"
proof -
  obtain t c where t: "catchM (bindM (b64d_io tx) (\<lambda>tx. cancel_session tx 127)) (\<lambda>_. True) (\<lambda>_. ret []) s = (t, Inr c)"
    unfolding catchM_def ret_def
    by (cases "bindM (b64d_io tx) (\<lambda>tx. cancel_session tx 127) s"; cases "snd (bindM (b64d_io tx) (\<lambda>tx. cancel_session tx 127) s)") auto
  moreover have "upholds modem_only (catchM (bindM (b64d_io tx) (\<lambda>tx. cancel_session tx 127)) (\<lambda>_. True) (\<lambda>_. ret []))"
    by (intro modem_only.upholds_card_intros modem_only.upholds_cancel_session)
  ultimately have "posts t = posts s"
    by (metis upholds_posts)
  obtain u q where u: "es9p_request smdp ''cancelSession'' [(''transactionId'', tx), (''cancelSessionResponse'', c)] ''CancelSession'' t = (u, q)"
    by fastforce
  have "cancel_session_safe smdp tx s = (u, Inr ())"
    unfolding cancel_session_safe_def bindM_def [of "catchM _ _ _"] t
    by (simp add: catchM_def seqM_def bindM_def u ret_def split: sum.split)
  then show ?thesis
    using es9p_posts [OF u] \<open>posts t = posts s\<close> by (simp add: posts_def is_post_def cancels_def)
qed

text \<open>From the transaction on: either no transaction number was given, or what follows ends with its cancellation.\<close>

lemma download_end_posts:
  assumes "catchM (download_steps sha256 smdp m auth tx) (\<lambda>_. True)
      (\<lambda>e. seqM (if tx \<noteq> [] then cancel_session_safe smdp tx else ret ()) (throw e)) s = (s', Inl e)"
  shows "\<exists>qs. posts s' = posts s @ qs \<and> list_all (of_transaction smdp tx) qs \<and> (tx = [] \<or> (qs \<noteq> [] \<and> cancels smdp tx (last qs)))"
proof -
  obtain t e' where t: "download_steps sha256 smdp m auth tx s = (t, Inl e')"
    and h: "seqM (if tx \<noteq> [] then cancel_session_safe smdp tx else ret ()) (throw e' :: string option io) t = (s', Inl e)"
    using assms by (auto simp: catchM_def split: prod.splits sum.splits)
  obtain qs where qs: "posts t = posts s @ qs" "list_all (of_transaction smdp tx) qs"
    using upholdsD [OF download_steps_within t] by (auto simp: posts_within_def)
  show ?thesis
  proof (cases "tx = []")
    case True
    then show ?thesis
      using h qs by (auto simp: seqM_def bindM_def ret_def throw_def)
  next
    case False
    obtain c where c: "posts (fst (cancel_session_safe smdp tx t)) = posts t @ [c]" "cancels smdp tx c"
      using cancel_posts by blast
    have "s' = fst (cancel_session_safe smdp tx t)"
      using h False by (auto simp: seqM_def bindM_def throw_def split: prod.splits sum.splits)
    moreover have "of_transaction smdp tx c"
      using c(2) by (auto simp: cancels_def of_transaction_def)
    ultimately show ?thesis
      using c qs by (intro exI [of _ "qs @ [c]"]) simp
  qed
qed

lemma failed_download_posts:
  assumes "download_profile sha256 code s = (s', Inl e)"
  obtains "posts s' = posts s"
  | p0 where "posts s' = posts s @ [p0]" "endpoint p0 = ''initiateAuthentication''"
  | p0 qs smdp tx where "posts s' = posts s @ p0 # qs" "endpoint p0 = ''initiateAuthentication''"
      "list_all (of_transaction smdp tx) qs" "tx = [] \<or> (qs \<noteq> [] \<and> cancels smdp tx (last qs))"
  using assms unfolding download_profile_def
proof (cases rule: bindM_Inl)
  case first
  then show ?thesis using that(1) by (simp add: gets_def)
next
  case (second t valid)
  then have t: "posts t = posts s"
    using upholds_posts [OF modem_only.upholds_pure(3)] by blast
  show ?thesis
  proof (cases valid)
    case False
    then show ?thesis
      using second(2) that(1) t by (simp add: throw_def)
  next
    case True
    from second(2) [unfolded eqTrueI [OF True] not_True_eq_False if_False] show ?thesis
    proof (cases rule: bindM_Inl)
      case first
      then show ?thesis
        using that(1) t by (auto simp: lift_sum_def)
    next
      case (second u x)
      then have u: "posts u = posts s"
        using t by (auto simp: lift_sum_def)
      obtain smdp m where x: "x = (smdp, m)" by fastforce
      from second(2) [unfolded x prod.case] show ?thesis
      proof (cases rule: bindM_Inl)
        case first
        then show ?thesis
          using that(1) u upholds_posts [OF modem_only.upholds_get_challenge_and_info] by metis
      next
        case (second v y)
        then have v: "posts v = posts s"
          using u upholds_posts [OF modem_only.upholds_get_challenge_and_info] by metis
        obtain a b where y: "y = (a, b)" by fastforce
        from second(2) [unfolded y prod.case] show ?thesis
        proof (cases rule: bindM_Inl)
          case first
          then show ?thesis
            using that(2) v by (auto dest!: es9p_posts simp: posts_def is_post_def endpoint_def)
        next
          case (second w auth)
          then obtain p0 where w: "posts w = posts s @ [p0]" "endpoint p0 = ''initiateAuthentication''"
            using v by (auto dest!: es9p_posts simp: posts_def is_post_def endpoint_def)
          from second(2) show ?thesis
          proof (cases rule: bindM_Inl)
            case first
            then show ?thesis
              using that(2) w upholds_posts [OF modem_only.upholds_b64(2)] by metis
          next
            case (second w' tx)
            then have "posts w' = posts w"
              using upholds_posts [OF modem_only.upholds_b64(2)] by metis
            then show ?thesis
              using that(3) [of p0 _ smdp tx] w download_end_posts [OF second(2)] by auto
          qed
        qed
      qed
    qed
  qed
qed

section \<open>Notifications\<close>

text \<open>The next request to the server fails.\<close>

definition server_refuses :: "HttpReply list \<Rightarrow> bool" where
  "server_refuses hs =
     (case hs of
        [] \<Rightarrow> True
      | HttpRaises e # _ \<Rightarrow> True
      | EmptyBody # _ \<Rightarrow> False
      | Body None _ # _ \<Rightarrow> False
      | Body (Some st) _ # _ \<Rightarrow> st_status st = Some ''Failed'')"

lemma refused_request:
  "server_refuses (https s) \<Longrightarrow> es9p_request smdp name payload p s = (s', r) \<Longrightarrow> \<exists>e. r = Inl e"
  by (auto simp: server_refuses_def es9p_request_def log_event_def io_defs split: list.splits HttpReply.splits option.splits)

text \<open>Events are added, and a request to the server, if there is one, is the last of them.\<close>

definition report_last :: "Lpa \<Rightarrow> Lpa \<Rightarrow> bool" where
  "report_last s s' \<longleftrightarrow> (\<exists>es. trace s' = trace s @ es \<and> filter is_post (butlast es) = [])"

lemma modem_only_last: "modem_only s s' \<Longrightarrow> report_last s s'"
  unfolding modem_only_def report_last_def by (fastforce simp: filter_empty_conv dest: in_set_butlastD)

lemma modem_then_report:
  assumes "upholds modem_only m" "server_refuses (https s)"
    and f: "\<And>t x. server_refuses (https t) \<Longrightarrow> report_last t (fst (f x t))"
  shows "report_last s (fst (bindM m f s))"
proof -
  obtain t q where t: "m s = (t, q)" by fastforce
  have mo: "modem_only s t"
    using upholdsD [OF assms(1) t] .
  show ?thesis
  proof (cases q)
    case (Inl e)
    then show ?thesis
      using modem_only_last [OF mo] by (simp add: bindM_def t)
  next
    case (Inr x)
    obtain es where es: "trace t = trace s @ es" "filter is_post es = []" "https t = https s"
      using mo by (auto simp: modem_only_def)
    then obtain es' where "trace (fst (f x t)) = trace t @ es'" "filter is_post (butlast es') = []"
      using f [of t x] assms(2) by (auto simp: report_last_def)
    then show ?thesis
      using es by (intro iffD2 [OF report_last_def] exI [of _ "es @ es'"]) (auto simp: bindM_def t Inr butlast_append filter_empty_conv dest: in_set_butlastD)
  qed
qed

lemma report_refused:
  assumes "server_refuses (https s)"
  shows "report_last s (fst (bindM (es9p_request smdp name payload p) f s))"
proof -
  obtain t q where t: "es9p_request smdp name payload p s = (t, q)" by fastforce
  then obtain e where "q = Inl e"
    using refused_request [OF assms] by blast
  then show ?thesis
    using es9p_posts [OF t] by (auto simp: bindM_def t report_last_def)
qed

lemma report_refused_throw: "report_last s (fst (throw e s))"
  by (simp add: throw_def report_last_def)

lemma upholds_seq_bytes: "upholds modem_only (seq_bytes v)"
  unfolding seq_bytes_def by (auto intro: modem_only.upholds_pure split: option.split FieldValue.split)

section \<open>Sessions\<close>

lemma close_channel_closes: "close_channel p s = (s', Inr ()) \<Longrightarrow> channel s' = None"
  by (auto simp: close_channel_def seqM_def set_channel_def modify_def gets_def ret_def split: option.splits dest!: bindM_Inr)

lemma acquire_lock_run:
  "acquire_lock m s = (case m (s\<lparr>locked := True\<rparr>) of (t, q) \<Rightarrow> (t\<lparr>locked := False\<rparr>, q))"
  by (simp add: acquire_lock_def seqM_def bindM_def finallyM_def modify_def)

lemma finally_closed: "finallyM m (close_channel p) s = (t, Inr x) \<Longrightarrow> channel t = None"
  by (auto simp: finallyM_def split: prod.splits sum.splits dest: close_channel_closes)

lemma bind_pure:
  "bindM (gets g) f s = f (g s) s" "bindM (lift_sum (Inr x)) f s = f x s" "bindM (ret x) f s = f x s"
  by (simp_all add: bindM_def gets_def lift_sum_def ret_def)

text \<open>The download of the example, when the server does not answer the second request.\<close>

lemma refused_client:
  "\<exists>t. download_profile (\<lambda>bs. bs) ''LPA:1$a$b''
       (talking False (Some ''1'') download_answers [Body None download_fields, HttpRaises RequestsError] []) =
     seqM (cancel_session_safe ''a'' (b64e [1])) (throw RequestsError) t \<and>
   posts t \<noteq> [] \<and> tl (posts t) = [Post ''a'' ''authenticateClient''
      [(''transactionId'', b64e [1]), (''authenticateServerResponse'', b64e (encode_tlv TAG_AUTH_SERVER []))]]"
proof -
  have "b64e [1] \<noteq> []"
    by simp
  then show ?thesis
    unfolding download_answers_def download_profile_def demo_code
    by (simp add: bind_pure bindM_def [of get_challenge_and_info]
      bindM_def [of "es9p_request _ _ _ _"] bindM_def [of "authenticate_server _ _ _ _ _"]
      answered_challenge talking_es9p download_fields catchM_def
      download_steps_def answered_authentication posts_def is_post_def del: b64e.simps One_nat_def)
      ((intro exI conjI refl; simp add: is_post_def), simp_all add: is_post_def)
qed

section \<open>Properties\<close>

text \<open>What the codecs of the eSIM manager write they read back: base64 of any bytes, and the swapped digits of
an ICCID, of which only the digits are kept.\<close>

theorem codecs_read_back:
  "b64d (b64e bs) = Inr bs \<and> tbcd_to_string (string_to_tbcd iccid) = filter is_digit iccid"
  by (simp add: base64_roundtrip tbcd_roundtrip)

text \<open>Elements with tags of one or two bytes and values of less than four gigabytes that are written one after the other
are read back in their order, and looking for a tag gives the first of them that has it.\<close>

theorem elements_read_back:
  assumes "elements_ok es"
  shows "iter_tlv (encode_all es) = es \<and> find_tag (encode_all es) t = map_of es t"
  using assms by (simp add: elements_ok_def iter_tlv_encode_all find_tag_encode_all)

theorem elements_read_back_witness:
  "iter_tlv (encode_all [(0x5A, [0x98]), (TAG_BPP, replicate 200 7)]) = [(0x5A, [0x98]), (TAG_BPP, replicate 200 7)] \<and>
   find_tag (encode_all [(0x5A, [0x98]), (TAG_BPP, replicate 200 7)]) TAG_BPP = Some (replicate 200 7)"
  using elements_read_back [of "[(0x5A, [0x98]), (TAG_BPP, replicate 200 7)]" TAG_BPP]
  by (simp add: elements_ok_def tag_ok_def TAG_BPP_def)

text \<open>C29 (equivalence). Sending a command is the exchange of a list of APDUs, in their order, whose payloads are together the command:
none carries more than 120 bytes, each names its length, and only the last one is marked as the last.\<close>

theorem command_arrives_whole:
  "es10x_command data = exchange_all [] (store_data_apdus 0 data) \<and>
   concat (map (drop 5) (store_data_apdus 0 data)) = data \<and>
   list_all (\<lambda>a. 5 < length a \<and> length a \<le> 125 \<and> unat (a ! 4) = length a - 5) (store_data_apdus 0 data) \<and>
   map (\<lambda>a. a ! 2) (store_data_apdus 0 data) =
     (if data = [] then [] else replicate ((length data - 1) div 120) 0x11 @ [0x91])"
  by (simp add: es10x_command_def es10x_loop_exchanges store_data_payload store_data_size store_data_last)

text \<open>A bound profile package, that is the command element and then data elements and sequences of elements, is
cut into chunks that are, one after the other, the whole package; the first is everything up to the end of the command.\<close>

theorem package_is_cut_whole:
  assumes "elements_ok ((TAG_BPP_COMMAND, a) # es)" "list_all package_element es"
    and "length (encode_all ((TAG_BPP_COMMAND, a) # es)) < 256 ^ 4"
  defines "bpp \<equiv> encode_tlv TAG_BPP (encode_all ((TAG_BPP_COMMAND, a) # es))"
  shows "\<exists>chunks. split_bpp bpp = Inr (take (length bpp - length (encode_all es)) bpp # chunks) \<and>
    take (length bpp - length (encode_all es)) bpp @ concat chunks = bpp"
proof -
  obtain cs where cs: "split_bpp bpp = Inr (take (length bpp - length (encode_all es)) bpp # cs)" "concat cs = encode_all es"
    using split_bpp_cover [OF assms(1,2,3)] by (auto simp: bpp_def)
  have "drop (length bpp - length (encode_all es)) bpp = encode_all es"
    by (simp add: bpp_def encode_tlv_def [of TAG_BPP] Let_def)
  then show ?thesis
    using cs append_take_drop_id [of "length bpp - length (encode_all es)" bpp] by (intro exI [of _ cs]) simp
qed

theorem package_is_cut_whole_witness:
  "\<exists>chunks. split_bpp (encode_tlv TAG_BPP (encode_all [(TAG_BPP_COMMAND, [1, 2]), (0xA0, [3]), (0xA1, encode_all [(0x87, [4]), (0x87, [5])])])) =
     Inr ([0xBF, 0x36, 16, 0xBF, 0x23, 2, 1, 2] # chunks) \<and>
   [0xBF, 0x36, 16, 0xBF, 0x23, 2, 1, 2] @ concat chunks =
     encode_tlv TAG_BPP (encode_all [(TAG_BPP_COMMAND, [1, 2]), (0xA0, [3]), (0xA1, encode_all [(0x87, [4]), (0x87, [5])])])"
proof -
  have "package_element (0xA1, encode_all [(0x87, [4]), (0x87, [5])])"
    unfolding package_element_def by (auto simp: elements_ok_def tag_ok_def intro!: exI [of _ "[(0x87, [4]), (0x87, [5])]"])
  moreover have "package_element (0xA0, [3])"
    by (simp add: package_element_def)
  ultimately show ?thesis
    using package_is_cut_whole [of "[1, 2]" "[(0xA0, [3]), (0xA1, encode_all [(0x87, [4]), (0x87, [5])])]"]
    by (simp add: elements_ok_def tag_ok_def TAG_BPP_COMMAND_def TAG_BPP_def encode_tlv_def)
qed

text \<open>A download that succeeds has asked the server to initiate the authentication, to authenticate the client and
for the package, in this order, once each and nothing else.\<close>

theorem download_asks_in_order:
  assumes "download_profile sha256 code s = (s', Inr iccid)"
  shows "map endpoint (posts s') =
    map endpoint (posts s) @ [''initiateAuthentication'', ''authenticateClient'', ''getBoundProfilePackage'']"
  using asks_download assms unfolding asks_def by blast

theorem download_asks_in_order_witness:
  "map endpoint (posts (fst (download_profile (\<lambda>bs. bs) ''LPA:1$a$b''
      (talking False (Some ''1'') download_answers (replicate 3 (Body None download_fields)) [])))) =
   [''initiateAuthentication'', ''authenticateClient'', ''getBoundProfilePackage'']"
proof -
  let ?s = "talking False (Some ''1'') download_answers (replicate 3 (Body None download_fields)) []"
  have "snd (download_profile (\<lambda>bs. bs) ''LPA:1$a$b'' ?s) = Inr (Some ''891'')"
    by (rule demo_download)
  then have "download_profile (\<lambda>bs. bs) ''LPA:1$a$b'' ?s = (fst (download_profile (\<lambda>bs. bs) ''LPA:1$a$b'' ?s), Inr (Some ''891''))"
    by (metis prod.collapse)
  from download_asks_in_order [OF this] show ?thesis
    by (simp add: posts_def)
qed

text \<open>C26 (safety). When a download fails after the server was asked to authenticate the client for a transaction, the last request
the server gets is the cancellation of that transaction, at the same address, whatever the eUICC or the server did.\<close>

theorem failed_download_is_cancelled:
  assumes "download_profile sha256 code s = (s', Inl e)" "posts s' = posts s @ ps"
    and "Post smdp ''authenticateClient'' ((''transactionId'', tx) # payload) \<in> set ps" "tx \<noteq> []"
  shows "\<exists>response. last ps = Post smdp ''cancelSession'' [(''transactionId'', tx), (''cancelSessionResponse'', response)]"
  using assms(1)
proof (cases rule: failed_download_posts)
  case (3 p0 qs smdp' tx')
  then have ps: "ps = p0 # qs"
    using assms(2) by simp
  moreover have "p0 \<noteq> Post smdp ''authenticateClient'' ((''transactionId'', tx) # payload)"
    using 3(2) by (auto simp: endpoint_def)
  ultimately have q: "Post smdp ''authenticateClient'' ((''transactionId'', tx) # payload) \<in> set qs"
    using assms(3) by auto
  then have "smdp' = smdp" "tx' = tx"
    using 3(3) by (auto simp: list_all_iff of_transaction_def)
  then show ?thesis
    using 3(4) assms(4) ps by (auto simp: cancels_def)
qed (use assms(2,3) in \<open>auto simp: endpoint_def\<close>)

theorem failed_download_is_cancelled_witness:
  "\<exists>response. last (posts (fst (download_profile (\<lambda>bs. bs) ''LPA:1$a$b'' (talking False (Some ''1'') download_answers
       [Body None download_fields, HttpRaises RequestsError] [])))) =
     Post ''a'' ''cancelSession'' [(''transactionId'', b64e [1]), (''cancelSessionResponse'', response)]"
proof -
  let ?s = "talking False (Some ''1'') download_answers [Body None download_fields, HttpRaises RequestsError] []"
  let ?a = "Post ''a'' ''authenticateClient'' [(''transactionId'', b64e [1]), (''authenticateServerResponse'', b64e (encode_tlv TAG_AUTH_SERVER []))]"
  obtain p0 t where t: "download_profile (\<lambda>bs. bs) ''LPA:1$a$b'' ?s =
      seqM (cancel_session_safe ''a'' (b64e [1])) (throw RequestsError) t" "posts t = [p0, ?a]"
    using refused_client list.exhaust_sel by metis
  obtain c where "posts (fst (cancel_session_safe ''a'' (b64e [1]) t)) = posts t @ [c]" "cancels ''a'' (b64e [1]) c"
    using cancel_posts by blast
  moreover have r: "fst (download_profile (\<lambda>bs. bs) ''LPA:1$a$b'' ?s) = fst (cancel_session_safe ''a'' (b64e [1]) t)"
    "\<exists>e. snd (download_profile (\<lambda>bs. bs) ''LPA:1$a$b'' ?s) = Inl e"
    by (simp_all add: t seqM_def bindM_def throw_def split: prod.split sum.split)
  moreover obtain s' e where s': "download_profile (\<lambda>bs. bs) ''LPA:1$a$b'' ?s = (s', Inl e)"
    using r(2) by (metis prod.collapse)
  ultimately have "posts s' = posts ?s @ [p0, ?a, c]"
    using t by (simp add: posts_def)
  from failed_download_is_cancelled [OF s' this, of "''a''" "b64e [1]"
      "[(''authenticateServerResponse'', b64e (encode_tlv TAG_AUTH_SERVER []))]"] show ?thesis
    using \<open>posts s' = _\<close> s' b64e.simps(2) [of 1] by (simp add: posts_def del: b64e.simps One_nat_def)
qed

text \<open>When the server does not take the report of a notification, the report is the last thing that is done for it: the
eUICC is not told to remove the notification.\<close>

theorem refused_report_stays:
  assumes "server_refuses (https s)"
  shows "report_last s (fst (process_notification notification s))"
  unfolding process_notification_def
  by (intro modem_then_report [OF _ assms] modem_then_report report_refused report_refused_throw upholds_seq_bytes
      modem_only.upholds_es10x modem_only.upholds_pure) (auto intro: report_refused report_refused_throw split: option.split)

theorem refused_report_stays_witness:
  "report_last (talking False (Some ''1'') [card_reply (encode_tlv TAG_RETRIEVE_NOTIFICATION (encode_tlv TAG_OK (encode_tlv 0x30 [])))]
       [HttpRaises RequestsError] [])
     (fst (process_notification [''seqNumber'' \<mapsto> Num 7, ''notificationAddress'' \<mapsto> Str ''a'']
       (talking False (Some ''1'') [card_reply (encode_tlv TAG_RETRIEVE_NOTIFICATION (encode_tlv TAG_OK (encode_tlv 0x30 [])))]
         [HttpRaises RequestsError] [])))"
  by (rule refused_report_stays) (simp add: server_refuses_def)

text \<open>A session on the eUICC never keeps the lock, and one that returns normally has closed its channel.\<close>

theorem session_leaves_nothing:
  "\<not> locked (fst (acquire_channel body s)) \<and>
   (case snd (acquire_channel body s) of Inl _ \<Rightarrow> True | Inr _ \<Rightarrow> channel (fst (acquire_channel body s)) = None)"
proof -
  let ?close = "close_channel (\<lambda>e. is_runtime_error e \<or> e = TimeoutError)"
  obtain t q where t: "finallyM (seqM open_isdr body) ?close (s\<lparr>locked := True\<rparr>) = (t, q)"
    by fastforce
  have a: "acquire_channel body s = (t\<lparr>locked := False\<rparr>, q)"
    unfolding acquire_channel_def acquire_lock_run by (simp only: t prod.case)
  have "channel t = None" if "q = Inr x" for x
    using t finally_closed that by metis
  then show ?thesis
    by (simp add: a split: sum.split)
qed

text \<open>A profile is deleted only when the eUICC listed it and it is not one of comma.\<close>

theorem comma_profile_is_kept:
  assumes "TiciLPA_delete_profile iccid s = (s', Inr ())"
  shows "\<exists>t profiles p. TiciLPA_list_profiles s = (t, Inr profiles) \<and> p \<in> set profiles \<and> pf_iccid p = Some iccid \<and>
    \<not> (pf_provider p = ''Webbing'' \<and> starts_with ''8985235'' iccid)"
proof -
  obtain t profiles where t: "TiciLPA_list_profiles s = (t, Inr profiles)"
    and rest: "(case List.find (\<lambda>p. pf_iccid p = Some iccid) profiles of
         None \<Rightarrow> throw (LPAProfileNotFoundError (''profile not found: '' @ iccid))
       | Some profile \<Rightarrow>
           bindM (lift_sum (is_comma profile)) (\<lambda>comma.
             if comma then throw (LPAError ''refusing to delete a comma profile'')
             else bindM (acquire_channel (bindM (es10x_command (delete_command iccid)) (\<lambda>response.
                    lift_sum (bindS (require_tag response TAG_DELETE_PROFILE ''DeleteProfileResponse'') (\<lambda>r.
                      bindS (require_tag r TAG_STATUS ''DeleteProfile status'') first_byte))))) (\<lambda>code.
                    if code \<noteq> 0 then throw (profile_error ''DeleteProfile'' code) else ret ()))) t = (s', Inr ())"
    using bindM_Inr [OF assms [unfolded TiciLPA_delete_profile_def]] by blast
  obtain p where p: "List.find (\<lambda>p. pf_iccid p = Some iccid) profiles = Some p"
    using rest by (cases "List.find (\<lambda>p. pf_iccid p = Some iccid) profiles") (auto simp: throw_def)
  then have "is_comma p = Inr False"
    using rest by (cases "is_comma p") (auto simp: bindM_def lift_sum_def throw_def split: if_splits)
  moreover have "p \<in> set profiles" "pf_iccid p = Some iccid"
    using p by (auto simp: find_Some_iff)
  ultimately show ?thesis
    using t by (auto simp: is_comma_def)
qed

theorem comma_profile_is_kept_witness:
  "\<exists>t profiles p. TiciLPA_list_profiles (talking False None
     [modem_ok ''+CCHO: 1'', card_reply listing, modem_done, modem_ok ''+CCHO: 1'',
      card_reply (encode_tlv TAG_DELETE_PROFILE (encode_tlv TAG_STATUS [0])), modem_done] [] []) = (t, Inr profiles) \<and>
     p \<in> set profiles \<and> pf_iccid p = Some ''891'' \<and> \<not> (pf_provider p = ''Webbing'' \<and> starts_with ''8985235'' ''891'')"
  using comma_profile_is_kept [OF surjective_pairing [THEN trans, OF arg_cong [OF demo_delete, of "Pair _"]]] .

end
