(* ===== verification/Modem.thy ===== *)
theory Modem
  imports Lpa
begin

text \<open>
  The modem daemon \<open>system/hardware/tici/modem.py\<close>, which brings the modem up, waits for the network, dials with
  \<open>pppd\<close> and watches the connection: its state, its calls to the system, and the session of \<open>pppd\<close>.

  What is outside is an argument, a record of functions of the number of calls made so far: whether the device file
  of the modem is there, the parameter files, how the modem answers, whether \<open>pppd\<close> has ended, the return codes of
  commands and the files of the kernel. Any of them may differ from call to call, and calls may raise: a handler
  gives \<open>None\<close> for an exception that leaves it, and its state is kept. Commands, dials and the observation that
  \<open>pppd\<close> has ended are recorded in a log.
  Of \<open>ip rule del\<close>, which is repeated until it fails, the number of rules that are left is outside as well.
\<close>

section \<open>State and outside\<close>

datatype ConnState = INITIALIZING | SEARCHING | CONNECTING | CONNECTED | DISCONNECTING

definition state_value :: "ConnState \<Rightarrow> string" where
  "state_value st =
     (case st of INITIALIZING \<Rightarrow> ''INITIALIZING'' | SEARCHING \<Rightarrow> ''SEARCHING'' | CONNECTING \<Rightarrow> ''CONNECTING''
      | CONNECTED \<Rightarrow> ''CONNECTED'' | DISCONNECTING \<Rightarrow> ''DISCONNECTING'')"

record Published =
  p_state :: string
  p_connected :: bool
  p_ip_address :: string
  p_iccid :: string
  p_mcc_mnc :: string
  p_imei :: string
  p_modem_version :: string
  p_signal_strength :: int
  p_signal_quality :: int
  p_network_type :: string
  p_operator :: string
  p_band :: string
  p_channel :: int
  p_registration :: string
  p_temperatures :: "int list"
  p_extra :: string
  p_tx_bytes :: int
  p_rx_bytes :: int

definition INITIAL_STATE :: Published where
  "INITIAL_STATE =
     \<lparr>p_state = ''INITIALIZING'', p_connected = False, p_ip_address = [], p_iccid = [], p_mcc_mnc = [], p_imei = [],
      p_modem_version = [], p_signal_strength = 0, p_signal_quality = 0, p_network_type = ''unknown'', p_operator = [],
      p_band = [], p_channel = 0, p_registration = ''unknown'', p_temperatures = [], p_extra = [], p_tx_bytes = 0,
      p_rx_bytes = 0\<rparr>"

datatype ModemEvent = AtSent string | Ran "string list" | Dialed | SeenEnded | PortReset | Wrote Published

text \<open>\<open>S\<close> is the state that is published; the file has the time of publishing besides.\<close>

record Modem =
  ppp_proc :: bool
  ppp_fails :: nat
  ppp_peer :: string
  sim_change :: bool
  apn :: string
  roaming_allowed :: bool
  S :: Published
  calls :: nat
  happened :: "ModemEvent list"

datatype ParamFile = Missing | Unreadable | Content string

datatype AtAnswer = LockRaises | LockBusy | PortRaises LpaExn | Answer "RxItem list"

record Outside =
  port_exists :: "nat \<Rightarrow> bool"
  param_file :: "nat \<Rightarrow> string \<Rightarrow> ParamFile"
  at_answer :: "nat \<Rightarrow> string \<Rightarrow> AtAnswer"
  pppd_ended :: "nat \<Rightarrow> bool"
  return_code :: "nat \<Rightarrow> string list \<Rightarrow> int"
  rules_left :: "nat \<Rightarrow> nat"
  call_raises :: "nat \<Rightarrow> bool"
  ppp0_address :: "nat \<Rightarrow> string list option"
  byte_counter :: "nat \<Rightarrow> string \<Rightarrow> string option"

definition new_modem :: Modem where
  "new_modem =
     \<lparr>ppp_proc = False, ppp_fails = 0, ppp_peer = [], sim_change = False, apn = [], roaming_allowed = True,
      S = INITIAL_STATE, calls = 0, happened = []\<rparr>"

type_synonym 'a act = "Modem \<Rightarrow> Modem \<times> 'a option"

definition okA :: "'a \<Rightarrow> 'a act" where "okA x = (\<lambda>m. (m, Some x))"
definition failA :: "'a act" where "failA = (\<lambda>m. (m, None))"
definition getA :: "(Modem \<Rightarrow> 'a) \<Rightarrow> 'a act" where "getA f = (\<lambda>m. (m, Some (f m)))"
definition putA :: "(Modem \<Rightarrow> Modem) \<Rightarrow> unit act" where "putA f = (\<lambda>m. (f m, Some ()))"

definition bindA :: "'a act \<Rightarrow> ('a \<Rightarrow> 'b act) \<Rightarrow> 'b act" where
  "bindA a f = (\<lambda>m. case a m of (m', None) \<Rightarrow> (m', None) | (m', Some x) \<Rightarrow> f x m')"

definition seqA :: "'a act \<Rightarrow> 'b act \<Rightarrow> 'b act" where "seqA a b = bindA a (\<lambda>_. b)"

text \<open>\<open>try: a except Exception: b\<close>.\<close>

definition tryA :: "'a act \<Rightarrow> 'a act \<Rightarrow> 'a act" where
  "tryA a b = (\<lambda>m. case a m of (m', None) \<Rightarrow> b m' | (m', Some x) \<Rightarrow> (m', Some x))"

definition logA :: "ModemEvent \<Rightarrow> unit act" where "logA e = putA (\<lambda>m. m\<lparr>happened := happened m @ [e]\<rparr>)"

text \<open>The number of this call.\<close>

definition stampA :: "nat act" where "stampA = (\<lambda>m. (m\<lparr>calls := calls m + 1\<rparr>, Some (calls m)))"

section \<open>Text\<close>

definition split_on :: "char \<Rightarrow> string \<Rightarrow> string list" where "split_on = split_all"

fun words_from :: "string \<Rightarrow> string \<Rightarrow> string list" where
  "words_from w [] = (if w = [] then [] else [w])"
| "words_from w (c # cs) = (if is_space c then (if w = [] then words_from [] cs else w # words_from [] cs) else words_from (w @ [c]) cs)"

definition contains_text :: "string \<Rightarrow> string \<Rightarrow> bool" where
  "contains_text p t = list_ex (\<lambda>i. starts_with p (drop i t)) [0..<length t + 1]"

definition all_digits :: "string \<Rightarrow> bool" where "all_digits t \<longleftrightarrow> t \<noteq> [] \<and> list_all is_digit t"

definition digits_value :: "string \<Rightarrow> nat" where
  "digits_value t = fold (\<lambda>c n. 10 * n + digit_value c) t 0"

text \<open>\<open>int(text)\<close>: white space around it, a sign, digits with single underscores between them.\<close>

definition py_int :: "string \<Rightarrow> int option" where
  "py_int t =
     (let s = strip_of is_space t;
          (neg, body) = (case s of c # cs \<Rightarrow> if c = CHR ''-'' then (True, cs) else if c = CHR ''+'' then (False, cs) else (False, s)
                         | [] \<Rightarrow> (False, []));
          groups = split_on (CHR ''_'') body
      in if list_all all_digits groups
         then Some ((if neg then -1 else 1) * int (digits_value (concat groups))) else None)"

definition rstrip_of :: "char \<Rightarrow> string \<Rightarrow> string" where "rstrip_of c t = rev (dropWhile (\<lambda>d. d = c) (rev t))"

text \<open>\<open>IPv4Address(text)\<close> does not raise: four decimal numbers up to 255, without leading zeros.\<close>

definition is_octet :: "string \<Rightarrow> bool" where
  "is_octet t \<longleftrightarrow> all_digits t \<and> length t \<le> 3 \<and> (t = ''0'' \<or> hd t \<noteq> CHR ''0'') \<and> digits_value t \<le> 255"

definition is_ipv4 :: "string \<Rightarrow> bool" where
  "is_ipv4 t \<longleftrightarrow> length (split_on (CHR ''.'') t) = 4 \<and> list_all is_octet (split_on (CHR ''.'') t)"

section \<open>Calls\<close>

definition port_there :: "Outside \<Rightarrow> bool act" where
  "port_there w = bindA stampA (\<lambda>t. okA (port_exists w t))"

definition run_cmd :: "Outside \<Rightarrow> string list \<Rightarrow> int act" where
  "run_cmd w cmd =
     bindA stampA (\<lambda>t. if call_raises w t then failA else seqA (logA (Ran cmd)) (okA (return_code w t cmd)))"

definition read_param :: "Outside \<Rightarrow> string \<Rightarrow> string act" where
  "read_param w key =
     bindA stampA (\<lambda>t. case param_file w t key of
         Missing \<Rightarrow> okA [] | Unreadable \<Rightarrow> failA | Content c \<Rightarrow> okA (strip_of is_space c))"

definition CREG :: "(int \<times> string) list" where
  "CREG = [(0, ''not_registered''), (1, ''home''), (2, ''searching''), (3, ''denied''), (4, ''unknown''), (5, ''roaming'')]"

definition parse_reg :: "string \<Rightarrow> string" where
  "parse_reg v =
     (case split_on (CHR '','') v of
        _ # field # _ \<Rightarrow>
          (case py_int (strip_of (\<lambda>c. c = CHR 0x22) field) of
             None \<Rightarrow> ''unknown''
           | Some n \<Rightarrow> (case map_of CREG n of None \<Rightarrow> ''unknown'' | Some r \<Rightarrow> r))
      | _ \<Rightarrow> ''unknown'')"

definition WEBBING_ICCID_PREFIX :: string where "WEBBING_ICCID_PREFIX = ''8985235''"

definition is_roaming_allowed :: "Outside \<Rightarrow> bool act" where
  "is_roaming_allowed w =
     bindA (getA (p_iccid \<circ> S)) (\<lambda>iccid.
       if starts_with WEBBING_ICCID_PREFIX iccid then okA True
       else bindA (read_param w ''GsmRoaming'') (\<lambda>v. okA (v = ''1'')))"

text \<open>The state is changed even when writing it raises.\<close>

definition publish_state :: "Outside \<Rightarrow> (Published \<Rightarrow> Published) \<Rightarrow> unit act" where
  "publish_state w f =
     seqA (putA (\<lambda>m. m\<lparr>S := f (S m)\<rparr>))
       (bindA stampA (\<lambda>t. if call_raises w t then failA else bindA (getA S) (\<lambda>p. logA (Wrote p))))"

definition at_caught :: "LpaExn \<Rightarrow> bool" where "at_caught e \<longleftrightarrow> is_runtime_error e \<or> is_os_error e"

definition at_cmd :: "Outside \<Rightarrow> string \<Rightarrow> string list act" where
  "at_cmd w cmd =
     bindA stampA (\<lambda>t. case at_answer w t cmd of
         LockRaises \<Rightarrow> failA
       | LockBusy \<Rightarrow> okA []
       | PortRaises e \<Rightarrow> if at_caught e then okA [] else failA
       | Answer items \<Rightarrow>
           seqA (logA (AtSent cmd))
             (case expect_lines items [] of
                (_, Inr lines) \<Rightarrow> okA lines
              | (_, Inl e) \<Rightarrow> if at_caught e then okA [] else failA))"

definition at_value :: "string list \<Rightarrow> string \<Rightarrow> string option" where
  "at_value lines pfx =
     (case filter (\<lambda>line. contains_text pfx line \<and> CHR '':'' \<in> set line) lines of
        [] \<Rightarrow> None
      | line # _ \<Rightarrow> Some (strip_of is_space (after_colon line)))"

definition atv :: "Outside \<Rightarrow> string \<Rightarrow> string \<Rightarrow> string option act" where
  "atv w cmd pfx = bindA (at_cmd w cmd) (\<lambda>lines. okA (at_value lines pfx))"

text \<open>\<open>self._atv(cmd, pfx) or ""\<close>.\<close>

definition atv_text :: "Outside \<Rightarrow> string \<Rightarrow> string \<Rightarrow> string act" where
  "atv_text w cmd pfx = bindA (atv w cmd pfx) (\<lambda>v. okA (case v of None \<Rightarrow> [] | Some t \<Rightarrow> t))"

section \<open>The PPP session\<close>

definition MAX_FAILS :: nat where "MAX_FAILS = 3"

definition ppp_start :: "Outside \<Rightarrow> unit act" where
  "ppp_start w =
     bindA stampA (\<lambda>t. if call_raises w t then failA
       else seqA (putA (\<lambda>m. m\<lparr>ppp_proc := True, ppp_peer := []\<rparr>)) (logA Dialed))"

definition ppp_kill :: "Outside \<Rightarrow> unit act" where
  "ppp_kill w = seqA (run_cmd w [''sudo'', ''killall'', ''-9'', ''pppd'']) (putA (ppp_peer_update (\<lambda>_. [])))"

text \<open>Whatever happens on the data port is caught.\<close>

definition reset_data_port :: "unit act" where "reset_data_port = logA PortReset"

definition has_exited :: "Outside \<Rightarrow> bool act" where
  "has_exited w =
     bindA (getA ppp_proc) (\<lambda>p. if \<not> p then okA False
       else bindA stampA (\<lambda>t. if pppd_ended w t then seqA (logA SeenEnded) (okA True) else okA False))"

definition record_fail :: "bool act" where
  "record_fail = seqA (putA (\<lambda>m. m\<lparr>ppp_fails := ppp_fails m + 1\<rparr>)) (getA (\<lambda>m. ppp_fails m \<ge> MAX_FAILS))"

fun delete_rules :: "Outside \<Rightarrow> nat \<Rightarrow> unit act" where
  "delete_rules w 0 = okA ()"
| "delete_rules w (Suc n) = seqA (run_cmd w [''sudo'', ''ip'', ''rule'', ''del'', ''table'', ''1000'']) (delete_rules w n)"

definition cleanup_routes :: "Outside \<Rightarrow> unit act" where
  "cleanup_routes w =
     seqA (run_cmd w [''sudo'', ''ip'', ''route'', ''del'', ''default'', ''dev'', ''ppp0''])
     (seqA (run_cmd w [''sudo'', ''ip'', ''route'', ''flush'', ''table'', ''1000''])
     (seqA (bindA stampA (\<lambda>t. delete_rules w (rules_left w t + 1)))
     (seqA (run_cmd w [''sudo'', ''resolvectl'', ''revert'', ''ppp0'']) (okA ()))))"

text \<open>Commands one after the other, until one does not return zero.\<close>

fun run_all :: "Outside \<Rightarrow> string list list \<Rightarrow> bool act" where
  "run_all w [] = okA True"
| "run_all w (cmd # cmds) = bindA (run_cmd w cmd) (\<lambda>code. if code \<noteq> 0 then okA False else run_all w cmds)"

definition route_cmds :: "string \<Rightarrow> string \<Rightarrow> string list list" where
  "route_cmds ip peer =
     [[''sudo'', ''ip'', ''route'', ''add'', ''default'', ''via'', peer, ''dev'', ''ppp0'', ''metric'', ''1000''],
      [''sudo'', ''ip'', ''route'', ''add'', ''default'', ''via'', peer, ''dev'', ''ppp0'', ''table'', ''1000''],
      [''sudo'', ''ip'', ''rule'', ''add'', ''from'', ip, ''table'', ''1000'']]"

definition maybe_install_routes :: "Outside \<Rightarrow> string \<Rightarrow> string \<Rightarrow> bool act" where
  "maybe_install_routes w ip peer =
     bindA (getA ppp_peer) (\<lambda>current.
       if peer = [] \<or> peer = current then okA False
       else if \<not> is_ipv4 ip \<or> \<not> is_ipv4 peer then seqA (ppp_kill w) (okA False)
       else seqA (cleanup_routes w)
         (bindA (run_all w (route_cmds ip peer)) (\<lambda>done_all.
            if done_all then seqA (putA (ppp_peer_update (\<lambda>_. peer))) (okA True)
            else seqA (cleanup_routes w) (seqA (ppp_kill w) (okA False)))))"

definition maybe_install_dns :: "Outside \<Rightarrow> string list \<Rightarrow> bool act" where
  "maybe_install_dns w servers =
     (if servers = [] then okA False
      else bindA (run_all w [[''sudo'', ''resolvectl'', ''dns'', ''ppp0''] @ servers,
                             [''sudo'', ''resolvectl'', ''default-route'', ''ppp0'', ''yes'']]) (\<lambda>done_all.
             if done_all then okA True else seqA (ppp_kill w) (okA False)))"

end
