(* ===== verification/ModemStates.thy ===== *)
theory ModemStates
  imports Modem
begin

text \<open>
  The states of the modem daemon \<open>system/hardware/tici/modem.py\<close>: the handler of each, what a connected modem is polled
  for, and the loop that runs a handler once a second.
\<close>

section \<open>Bringing the modem up\<close>

definition AT_INIT :: "string list" where
  "AT_INIT = [''ATE0'', ''ATV1'', ''AT+CMEE=1'', ''ATX4'', ''AT&C1'', ''AT+CREG=2'', ''AT+CGREG=2'']"

fun at_each :: "Outside \<Rightarrow> string list \<Rightarrow> unit act" where
  "at_each w [] = okA ()"
| "at_each w (c # cs) = seqA (at_cmd w c) (at_each w cs)"

definition init_at_channel :: "Outside \<Rightarrow> bool act" where
  "init_at_channel w =
     seqA (at_each w AT_INIT) (bindA (at_cmd w ''AT+CGMI'') (\<lambda>r. okA (case r of [] \<Rightarrow> False | l # _ \<Rightarrow> \<not> starts_with ''AT'' l)))"

definition quoted :: "string \<Rightarrow> string" where "quoted t = [CHR 0x22] @ t @ [CHR 0x22]"

definition CONFIGURE_CMDS :: "string list" where
  "CONFIGURE_CMDS =
     [''AT+CGDCONT=0,'' @ quoted ''IP'' @ '','' @ quoted [],
      ''AT+QSIMDET=1,0'', ''AT+QSIMSTAT=1'',
      ''AT+QNVW=5280,0,'' @ quoted ''0102000000000000'',
      ''AT+QNVFW='' @ quoted ''/nv/item_files/ims/IMS_enable'' @ '',00'',
      ''AT+QNVFW='' @ quoted ''/nv/item_files/modem/mmode/ue_usage_setting'' @ '',01'']"

definition configure_modem :: "Outside \<Rightarrow> string \<Rightarrow> unit act" where
  "configure_modem w modem_version = (if starts_with ''EG25'' modem_version then at_each w CONFIGURE_CMDS else okA ())"

record Identity =
  id_imei :: string
  id_iccid :: string
  id_mcc_mnc :: string
  id_modem_version :: string

definition first_line :: "Outside \<Rightarrow> string \<Rightarrow> string act" where
  "first_line w cmd = bindA (at_cmd w cmd) (\<lambda>r. okA (case r of [] \<Rightarrow> [] | l # _ \<Rightarrow> strip_of is_space l))"

definition read_iccid :: "Outside \<Rightarrow> string act" where
  "read_iccid w = bindA (atv_text w ''AT+QCCID'' ''+QCCID:'') (\<lambda>v. okA (rstrip_of (CHR ''F'') v))"

definition read_identity :: "Outside \<Rightarrow> Identity act" where
  "read_identity w =
     bindA (first_line w ''AT+CGSN'') (\<lambda>imei.
     bindA (read_iccid w) (\<lambda>iccid.
     bindA (first_line w ''AT+CIMI'') (\<lambda>imsi.
     bindA (first_line w ''AT+GMR'') (\<lambda>modem_version. okA
       \<lparr>id_imei = (if all_digits imei \<and> 14 \<le> length imei \<and> length imei \<le> 17 then imei else []),
        id_iccid = (if all_digits iccid then iccid else []),
        id_mcc_mnc = (if all_digits imsi \<and> length imsi \<ge> 6 then take 6 imsi else []),
        id_modem_version = modem_version\<rparr>))))"

definition with_identity :: "Identity \<Rightarrow> Published \<Rightarrow> Published" where
  "with_identity i p =
     p\<lparr>p_imei := id_imei i, p_iccid := id_iccid i, p_mcc_mnc := id_mcc_mnc i, p_modem_version := id_modem_version i\<rparr>"

text \<open>From the moment the port is there and no \<open>pppd\<close> is left.\<close>

definition bring_up :: "Outside \<Rightarrow> ConnState act" where
  "bring_up w =
     seqA (cleanup_routes w)
     (bindA (init_at_channel w) (\<lambda>echo_off. if \<not> echo_off then okA INITIALIZING else
      bindA (read_identity w) (\<lambda>identity.
        if id_iccid identity = [] \<or> id_imei identity = [] then okA INITIALIZING else
        seqA (configure_modem w (id_modem_version identity))
        (seqA (putA (\<lambda>m. m\<lparr>S := with_identity identity (S m)\<rparr>))
        (bindA (read_param w ''GsmApn'') (\<lambda>new_apn. seqA (putA (apn_update (\<lambda>_. new_apn)))
        (bindA (is_roaming_allowed w) (\<lambda>allowed. seqA (putA (roaming_allowed_update (\<lambda>_. allowed)))
        (seqA (at_cmd w (''AT+CGDCONT=1,'' @ quoted ''IP'' @ '','' @ quoted new_apn))
        (seqA (putA (sim_change_update (\<lambda>_. False)))
        (seqA (publish_state w (with_identity identity)) (okA SEARCHING))))))))))))"

definition do_initializing :: "Outside \<Rightarrow> ConnState act" where
  "do_initializing w =
     bindA (port_there w) (\<lambda>there. if \<not> there then okA INITIALIZING else seqA (ppp_kill w) (bring_up w))"

section \<open>Searching, connecting, connected\<close>

definition sim_or_port_gone :: "Outside \<Rightarrow> bool act" where
  "sim_or_port_gone w =
     bindA (getA sim_change) (\<lambda>changed. if changed then okA True else bindA (port_there w) (\<lambda>there. okA (\<not> there)))"

definition searching_idle :: "Outside \<Rightarrow> ConnState act" where
  "searching_idle w =
     bindA (sim_or_port_gone w) (\<lambda>gone.
       if gone then seqA (port_there w) (okA DISCONNECTING) else okA SEARCHING)"

definition registered :: "string \<Rightarrow> bool" where "registered reg \<longleftrightarrow> reg \<in> {''home'', ''roaming''}"

definition do_searching :: "Outside \<Rightarrow> ConnState act" where
  "do_searching w =
     bindA (is_roaming_allowed w) (\<lambda>allowed. seqA (putA (roaming_allowed_update (\<lambda>_. allowed)))
     (bindA (atv_text w ''AT+CREG?'' ''+CREG:'') (\<lambda>v. if v = [] then searching_idle w else
      bindA (atv_text w ''AT+CGREG?'' ''+CGREG:'') (\<lambda>v'.
        let reg = parse_reg v; greg = parse_reg v'
        in if reg = ''roaming'' \<and> \<not> allowed
           then seqA (publish_state w (p_registration_update (\<lambda>_. reg))) (okA SEARCHING)
           else if registered reg \<and> registered greg
           then seqA (publish_state w (p_registration_update (\<lambda>_. reg))) (okA CONNECTING)
           else bindA (getA (p_registration \<circ> S)) (\<lambda>known.
                  seqA (if reg \<noteq> known then publish_state w (p_registration_update (\<lambda>_. reg)) else okA ())
                    (searching_idle w))))))"

definition do_connecting :: "Outside \<Rightarrow> ConnState act" where
  "do_connecting w =
     seqA (putA (\<lambda>m. m\<lparr>ppp_fails := 0, sim_change := False\<rparr>)) (seqA (ppp_start w) (okA CONNECTED))"

definition handle_pppd_exit :: "Outside \<Rightarrow> ConnState act" where
  "handle_pppd_exit w =
     bindA (sim_or_port_gone w) (\<lambda>gone. if gone then okA DISCONNECTING else
     bindA record_fail (\<lambda>give_up. if give_up then okA DISCONNECTING else
     seqA reset_data_port
     (bindA (port_there w) (\<lambda>there. if \<not> there then okA DISCONNECTING else seqA (ppp_start w) (okA CONNECTED)))))"

definition params_changed :: "Outside \<Rightarrow> bool act" where
  "params_changed w =
     bindA (read_param w ''GsmApn'') (\<lambda>new_apn. bindA (getA apn) (\<lambda>old_apn.
       if new_apn \<noteq> old_apn then okA True
       else bindA (is_roaming_allowed w) (\<lambda>new_roaming. getA (\<lambda>m. new_roaming \<noteq> roaming_allowed m))))"

definition check_iccid :: "Outside \<Rightarrow> ConnState \<Rightarrow> unit act" where
  "check_iccid w st =
     bindA (getA (p_iccid \<circ> S)) (\<lambda>known.
       if st = INITIALIZING \<or> st = DISCONNECTING \<or> known = [] then okA ()
       else bindA (read_iccid w) (\<lambda>iccid.
         if iccid \<noteq> [] \<and> iccid \<noteq> known then putA (sim_change_update (\<lambda>_. True)) else okA ()))"

section \<open>Polling\<close>

text \<open>What a poll adds to the published state, or nothing.\<close>

type_synonym update = "(Published \<Rightarrow> Published) option"

definition signal_update :: "string \<Rightarrow> update" where
  "signal_update v =
     (case split_on (CHR '','') v of
        [] \<Rightarrow> None
      | field # _ \<Rightarrow>
          (case py_int field of
             None \<Rightarrow> None
           | Some rssi \<Rightarrow>
               if rssi = 99 then None
               else Some (\<lambda>p. p\<lparr>p_signal_strength := rssi,
                                 p_signal_quality := min 100 (sgn rssi * (\<bar>rssi\<bar> * 100 div 31))\<rparr>)))"

definition NETWORK_TYPE :: "(int \<times> string) list" where
  "NETWORK_TYPE =
     [(0, ''gsm''), (1, ''gsm''), (3, ''gsm''), (8, ''gsm''), (2, ''utran''), (4, ''utran''), (5, ''utran''), (6, ''utran''),
      (7, ''lte''), (9, ''lte''), (10, ''lte''), (11, ''nr''), (12, ''nr''), (13, ''nr'')]"

definition operator_update :: "string \<Rightarrow> update" where
  "operator_update v =
     (let p = split_on (CHR '','') v;
          name = strip_of (\<lambda>c. c = CHR 0x22) (p ! 2)
      in if length p < 3 then None
         else (case (if length p \<ge> 4 then py_int (p ! 3) else None) of
             None \<Rightarrow> Some (\<lambda>s. s\<lparr>p_operator := name\<rparr>)
           | Some n \<Rightarrow> Some (\<lambda>s. s\<lparr>p_operator := name,
                 p_network_type := (case map_of NETWORK_TYPE n of None \<Rightarrow> ''unknown'' | Some k \<Rightarrow> k)\<rparr>)))"

definition unquote :: "string \<Rightarrow> string" where "unquote t = filter (\<lambda>c. c \<noteq> CHR 0x22) t"

definition band_update :: "string \<Rightarrow> update" where
  "band_update v =
     (let info = split_on (CHR '','') (unquote v)
      in if length info < 4 then None
         else (case py_int (info ! 3) of
             None \<Rightarrow> None
           | Some n \<Rightarrow> Some (\<lambda>s. s\<lparr>p_band := info ! 2, p_channel := n\<rparr>)))"

fun ints_of :: "string list \<Rightarrow> int list option" where
  "ints_of [] = Some []"
| "ints_of (x # xs) =
     (case py_int x of
        None \<Rightarrow> None
      | Some n \<Rightarrow> (case ints_of xs of None \<Rightarrow> None | Some ns \<Rightarrow> Some (n # ns)))"

definition temps_update :: "string \<Rightarrow> update" where
  "temps_update v =
     (case ints_of (filter (\<lambda>x. strip_of is_space x \<noteq> []) (split_on (CHR '','') v)) of
        None \<Rightarrow> None
      | Some ts \<Rightarrow> Some (\<lambda>s. s\<lparr>p_temperatures := filter (\<lambda>t. t \<noteq> 255) ts\<rparr>))"

text \<open>A poll whose answer is missing or empty adds nothing.\<close>

definition poll_value :: "Outside \<Rightarrow> string \<Rightarrow> string \<Rightarrow> (string \<Rightarrow> update) \<Rightarrow> update act" where
  "poll_value w cmd pfx f = bindA (atv_text w cmd pfx) (\<lambda>v. okA (if v = [] then None else f v))"

definition poll_signal :: "Outside \<Rightarrow> update act" where
  "poll_signal w = poll_value w ''AT+CSQ'' ''+CSQ:'' signal_update"
definition poll_operator :: "Outside \<Rightarrow> update act" where
  "poll_operator w = poll_value w ''AT+COPS?'' ''+COPS:'' operator_update"
definition poll_band :: "Outside \<Rightarrow> update act" where
  "poll_band w = poll_value w ''AT+QNWINFO'' ''+QNWINFO:'' band_update"
definition poll_extra :: "Outside \<Rightarrow> update act" where
  "poll_extra w = poll_value w (''AT+QENG='' @ quoted ''servingcell'') ''+QENG:'' (\<lambda>v. Some (p_extra_update (\<lambda>_. unquote v)))"
definition poll_temps :: "Outside \<Rightarrow> update act" where
  "poll_temps w = poll_value w ''AT+QTEMP'' ''+QTEMP:'' temps_update"

definition read_cellular_dns :: "Outside \<Rightarrow> string list act" where
  "read_cellular_dns w =
     bindA (atv_text w ''AT+CGCONTRDP=1'' ''+CGCONTRDP:'') (\<lambda>v. okA
       (if v = [] then []
        else filter is_ipv4 (take 2 (drop 5
               (map (\<lambda>f. strip_of (\<lambda>c. c = CHR 0x22) (strip_of is_space f)) (split_on (CHR '','') v))))))"

text \<open>
  The word after the first \<open>inet\<close> of the first line that has one, and the word after \<open>peer\<close>, both up to the slash.
  \<open>None\<close> is the \<open>IndexError\<close> of a line that ends there.
\<close>

definition word_after :: "string \<Rightarrow> string list \<Rightarrow> string option" where
  "word_after key ws =
     (case dropWhile (\<lambda>x. x \<noteq> key) ws of _ # x # _ \<Rightarrow> Some (takeWhile (\<lambda>c. c \<noteq> CHR ''/'') x) | _ \<Rightarrow> None)"

fun iface_address :: "string list \<Rightarrow> (string \<times> string) option" where
  "iface_address [] = Some ([], [])"
| "iface_address (line # lines) =
     (let parts = words_from [] line
      in if ''inet'' \<notin> set parts then iface_address lines
         else (case word_after ''inet'' parts of
             None \<Rightarrow> None
           | Some ip \<Rightarrow>
               if ''peer'' \<in> set parts
               then (case word_after ''peer'' parts of None \<Rightarrow> None | Some peer \<Rightarrow> Some (ip, peer))
               else Some (ip, [])))"

definition poll_iface :: "Outside \<Rightarrow> update act" where
  "poll_iface w =
     tryA (bindA stampA (\<lambda>t. case ppp0_address w t of
         None \<Rightarrow> failA
       | Some lines \<Rightarrow>
           (case iface_address lines of
              None \<Rightarrow> failA
            | Some (ip, peer) \<Rightarrow>
                if ip \<noteq> [] then
                  bindA (maybe_install_routes w ip peer) (\<lambda>installed.
                    seqA (if installed then bindA (read_cellular_dns w) (maybe_install_dns w) else okA False)
                      (okA (Some (\<lambda>s. s\<lparr>p_ip_address := ip, p_connected := True\<rparr>))))
                else getA (\<lambda>m. if p_connected (S m) then Some (\<lambda>s. s\<lparr>p_connected := False, p_ip_address := []\<rparr>) else None))))
       (okA None)"

definition read_counter :: "Outside \<Rightarrow> string \<Rightarrow> int act" where
  "read_counter w name =
     bindA stampA (\<lambda>t. case byte_counter w t name of
         None \<Rightarrow> failA | Some text \<Rightarrow> (case py_int text of None \<Rightarrow> failA | Some n \<Rightarrow> okA n))"

definition poll_byte_counters :: "Outside \<Rightarrow> update act" where
  "poll_byte_counters w =
     tryA (bindA (read_counter w ''tx_bytes'') (\<lambda>tx. bindA (read_counter w ''rx_bytes'') (\<lambda>rx.
         okA (Some (\<lambda>s. s\<lparr>p_tx_bytes := tx, p_rx_bytes := rx\<rparr>)))))
       (okA None)"

fun poll_all :: "(Outside \<Rightarrow> update act) list \<Rightarrow> Outside \<Rightarrow> update list act" where
  "poll_all [] w = okA []"
| "poll_all (f # fs) w = bindA (f w) (\<lambda>u. bindA (poll_all fs w) (\<lambda>us. okA (u # us)))"

text \<open>The updates are merged in order and published together, if there are any.\<close>

definition merged :: "update list \<Rightarrow> update" where
  "merged us =
     (let fs = map the (filter (\<lambda>u. u \<noteq> None) us)
      in if fs = [] then None else Some (\<lambda>p. fold (\<lambda>f s. f s) fs p))"

definition poll :: "Outside \<Rightarrow> unit act" where
  "poll w =
     bindA (poll_all [poll_signal, poll_operator, poll_band, poll_extra, poll_temps, poll_iface, poll_byte_counters] w) (\<lambda>us.
       case merged us of None \<Rightarrow> okA () | Some f \<Rightarrow> publish_state w f)"

definition do_connected :: "Outside \<Rightarrow> ConnState act" where
  "do_connected w =
     bindA (has_exited w) (\<lambda>exited. if exited then handle_pppd_exit w else
     bindA (sim_or_port_gone w) (\<lambda>gone. if gone then okA DISCONNECTING else
     bindA (params_changed w) (\<lambda>changed. if changed then okA DISCONNECTING else
     seqA (poll w) (okA CONNECTED))))"

definition do_disconnecting :: "Outside \<Rightarrow> ConnState act" where
  "do_disconnecting w =
     seqA (publish_state w (\<lambda>_. INITIAL_STATE)) (seqA (ppp_kill w) (seqA (cleanup_routes w) (seqA reset_data_port
       (seqA (putA (sim_change_update (\<lambda>_. False))) (okA INITIALIZING)))))"

section \<open>The loop\<close>

definition handler :: "ConnState \<Rightarrow> Outside \<Rightarrow> ConnState act" where
  "handler st =
     (case st of INITIALIZING \<Rightarrow> do_initializing | SEARCHING \<Rightarrow> do_searching | CONNECTING \<Rightarrow> do_connecting
      | CONNECTED \<Rightarrow> do_connected | DISCONNECTING \<Rightarrow> do_disconnecting)"

text \<open>One round: any exception leads to \<open>DISCONNECTING\<close>.\<close>

definition modem_round :: "Outside \<Rightarrow> ConnState \<times> Modem \<Rightarrow> ConnState \<times> Modem" where
  "modem_round w sm =
     (case sm of (st, m) \<Rightarrow>
        (case seqA (check_iccid w st)
                (bindA (handler st w) (\<lambda>st'.
                   seqA (if st' \<noteq> st then publish_state w (p_state_update (\<lambda>_. state_value st')) else okA ()) (okA st'))) m of
           (m', None) \<Rightarrow> (DISCONNECTING, m')
         | (m', Some st') \<Rightarrow> (st', m')))"

fun modem_rounds :: "nat \<Rightarrow> Outside \<Rightarrow> ConnState \<times> Modem \<Rightarrow> ConnState \<times> Modem" where
  "modem_rounds 0 w sm = sm"
| "modem_rounds (Suc n) w sm = modem_rounds n w (modem_round w sm)"

text \<open>Before the loop; \<open>has_mm\<close> is whether ModemManager is installed.\<close>

definition modem_start :: "Outside \<Rightarrow> bool \<Rightarrow> unit act" where
  "modem_start w has_mm =
     seqA (publish_state w (p_state_update (\<lambda>_. state_value INITIALIZING)))
     (seqA (if has_mm then
              seqA (run_cmd w [''sudo'', ''systemctl'', ''mask'', ''--runtime'', ''ModemManager''])
                (run_cmd w [''sudo'', ''systemctl'', ''stop'', ''ModemManager''])
            else okA 0)
       (ppp_kill w))"

definition modem_stop :: "Outside \<Rightarrow> bool \<Rightarrow> unit act" where
  "modem_stop w has_mm =
     seqA (ppp_kill w) (seqA (cleanup_routes w)
       (if has_mm then
          seqA (run_cmd w [''sudo'', ''systemctl'', ''unmask'', ''--runtime'', ''ModemManager''])
            (seqA (run_cmd w [''sudo'', ''systemctl'', ''start'', ''ModemManager'']) (okA ()))
        else okA ()))"

text \<open>The daemon, told to stop in its \<open>n\<close>th round.\<close>

definition modem_main :: "Outside \<Rightarrow> bool \<Rightarrow> nat \<Rightarrow> Modem \<times> unit option" where
  "modem_main w has_mm n =
     (case modem_start w has_mm new_modem of
        (m, None) \<Rightarrow> (m, None)
      | (m, Some _) \<Rightarrow> modem_stop w has_mm (snd (modem_rounds n w (INITIALIZING, m))))"

end
