(* ===== verification/ModemSafety.thy ===== *)
theory ModemSafety
  imports ModemStates
begin

text \<open>
  What the modem daemon guarantees in every state it can reach, whatever the modem, the files and the commands do:
  no second \<open>pppd\<close> is started beside a running one, a connection is given up after three failed dials, and it is
  only made where the network may be used. A SIM that was changed is seen while connected; while roaming is denied
  it is not.
\<close>

section \<open>Effects of the operations\<close>

definition follows :: "(Modem \<Rightarrow> Modem \<Rightarrow> bool) \<Rightarrow> 'a act \<Rightarrow> bool" where
  "follows R a \<longleftrightarrow> (\<forall>m. R m (fst (a m)))"

lemma followsD: "follows R a \<Longrightarrow> a m = (m', r) \<Longrightarrow> R m m'"
  by (metis follows_def fst_conv)

lemma followsI: "(\<And>m m' r. a m = (m', r) \<Longrightarrow> R m m') \<Longrightarrow> follows R a"
  by (metis follows_def prod.collapse)

lemmas act_defs = okA_def failA_def getA_def putA_def bindA_def seqA_def tryA_def logA_def stampA_def

locale act_effect =
  fixes R :: "Modem \<Rightarrow> Modem \<Rightarrow> bool"
  assumes R_refl [simp]: "R m m"
    and R_trans: "R m m' \<Longrightarrow> R m' m'' \<Longrightarrow> R m m''"
    and R_stamp: "R m (m\<lparr>calls := n\<rparr>)"
    and R_log: "e \<noteq> Dialed \<Longrightarrow> R m (m\<lparr>happened := happened m @ [e]\<rparr>)"
    and R_peer: "R m (m\<lparr>ppp_peer := p\<rparr>)"
    and R_sim: "R m (m\<lparr>sim_change := b\<rparr>)"
begin

lemma follows_pure: "follows R (okA x)" "follows R failA" "follows R (getA f)" "follows R stampA"
  by (simp_all add: follows_def act_defs R_stamp)

lemma follows_log: "e \<noteq> Dialed \<Longrightarrow> follows R (logA e)"
  by (simp add: follows_def act_defs R_log)

lemma follows_put: "follows R (putA (ppp_peer_update (\<lambda>_. p)))" "follows R (putA (sim_change_update (\<lambda>_. b)))"
  by (simp_all add: follows_def putA_def R_peer R_sim)

lemma follows_bind: "follows R a \<Longrightarrow> (\<And>x. follows R (f x)) \<Longrightarrow> follows R (bindA a f)"
  by (rule followsI) (auto simp: bindA_def split: prod.splits option.splits dest: followsD intro: R_trans)

lemma follows_seq: "follows R a \<Longrightarrow> follows R b \<Longrightarrow> follows R (seqA a b)"
  unfolding seqA_def by (rule follows_bind)

lemma follows_try: "follows R a \<Longrightarrow> follows R b \<Longrightarrow> follows R (tryA a b)"
  by (rule followsI) (auto simp: tryA_def split: prod.splits option.splits dest: followsD intro: R_trans)

lemma follows_split:
  "follows R a \<Longrightarrow> follows R b \<Longrightarrow> follows R (if c then a else b)"
  "follows R a \<Longrightarrow> (\<And>x. follows R (f x)) \<Longrightarrow> follows R (case v of None \<Rightarrow> a | Some x \<Rightarrow> f x)"
  "(\<And>x y. follows R (g x y)) \<Longrightarrow> follows R (case p of (x, y) \<Rightarrow> g x y)"
  by (simp_all split: option.split prod.split)

lemmas follows_intros = follows_pure follows_put follows_bind follows_seq follows_try follows_split

lemma follows_port_there: "follows R (port_there w)"
  unfolding port_there_def by (intro follows_intros)

lemma follows_run_cmd: "follows R (run_cmd w cmd)"
  unfolding run_cmd_def by (intro follows_intros follows_log) simp

lemma follows_read_param: "follows R (read_param w key)"
  unfolding read_param_def by (intro follows_bind follows_pure) (auto split: ParamFile.split intro: follows_pure)

lemma follows_roaming: "follows R (is_roaming_allowed w)"
  unfolding is_roaming_allowed_def by (intro follows_intros follows_read_param)

lemma follows_at_cmd: "follows R (at_cmd w cmd)"
  unfolding at_cmd_def
  by (intro follows_bind follows_pure)
    (auto split: AtAnswer.split prod.split sum.split intro!: follows_pure follows_seq follows_log follows_split)

lemma follows_atv: "follows R (atv_text w cmd pfx)"
  unfolding atv_text_def atv_def by (intro follows_intros follows_at_cmd)

lemma follows_kill: "follows R (ppp_kill w)"
  unfolding ppp_kill_def by (intro follows_intros follows_run_cmd)

lemma follows_reset: "follows R reset_data_port"
  unfolding reset_data_port_def by (rule follows_log) simp

lemma follows_exited: "follows R (has_exited w)"
  unfolding has_exited_def by (intro follows_intros follows_log) simp

lemma follows_rules: "follows R (delete_rules w n)"
  by (induction n) (auto intro!: follows_intros follows_run_cmd)

lemma follows_cleanup: "follows R (cleanup_routes w)"
  unfolding cleanup_routes_def by (intro follows_intros follows_run_cmd follows_rules)

lemma follows_run_all: "follows R (run_all w cmds)"
  by (induction cmds) (auto intro!: follows_intros follows_run_cmd)

lemma follows_install: "follows R (maybe_install_routes w ip peer)" "follows R (maybe_install_dns w servers)"
  unfolding maybe_install_routes_def maybe_install_dns_def
  by (intro follows_intros follows_run_all follows_kill follows_cleanup)+

lemma follows_at_each: "follows R (at_each w cmds)"
  by (induction cmds) (auto intro!: follows_intros follows_at_cmd)

lemma follows_init: "follows R (init_at_channel w)" "follows R (configure_modem w v)"
  unfolding init_at_channel_def configure_modem_def by (intro follows_intros follows_at_each follows_at_cmd)+

lemma follows_iccid: "follows R (read_iccid w)"
  unfolding read_iccid_def by (intro follows_intros follows_atv)

lemma follows_identity: "follows R (read_identity w)"
  unfolding read_identity_def first_line_def by (intro follows_intros follows_at_cmd follows_iccid)

lemma follows_gone: "follows R (sim_or_port_gone w)"
  unfolding sim_or_port_gone_def by (intro follows_intros follows_port_there)

lemma follows_idle: "follows R (searching_idle w)"
  unfolding searching_idle_def by (intro follows_intros follows_gone follows_port_there)

lemma follows_params_changed: "follows R (params_changed w)"
  unfolding params_changed_def by (intro follows_intros follows_read_param follows_roaming)

lemma follows_check_iccid: "follows R (check_iccid w st)"
  unfolding check_iccid_def by (intro follows_intros follows_iccid)

lemma follows_polls:
  "follows R (poll_signal w)" "follows R (poll_operator w)" "follows R (poll_band w)" "follows R (poll_extra w)"
  "follows R (poll_temps w)" "follows R (poll_iface w)" "follows R (poll_byte_counters w)"
  unfolding poll_signal_def poll_operator_def poll_band_def poll_extra_def poll_temps_def poll_value_def poll_iface_def
    poll_byte_counters_def read_counter_def read_cellular_dns_def
  by (intro follows_intros follows_atv follows_install)+

lemma follows_poll_all:
  "follows R (poll_all [poll_signal, poll_operator, poll_band, poll_extra, poll_temps, poll_iface, poll_byte_counters] w)"
  by (simp, intro follows_intros follows_polls)

end

text \<open>The events since then hold no dial, and the failures are the same.\<close>

definition no_dial :: "Modem \<Rightarrow> Modem \<Rightarrow> bool" where
  "no_dial m m' \<longleftrightarrow> (\<exists>es. happened m' = happened m @ es \<and> Dialed \<notin> set es) \<and> ppp_fails m' = ppp_fails m"

interpretation no_dial: act_effect no_dial
proof
  show "no_dial m m'' " if "no_dial m m'" "no_dial m' m''" for m m' m''
    using that by (fastforce simp: no_dial_def)
qed (auto simp: no_dial_def)

text \<open>Nor is anything changed on which the connection depends.\<close>

definition same_net :: "Modem \<Rightarrow> Modem \<Rightarrow> bool" where
  "same_net m m' \<longleftrightarrow>
     no_dial m m' \<and> p_registration (S m') = p_registration (S m) \<and> roaming_allowed m' = roaming_allowed m"

interpretation same_net: act_effect same_net
proof
  show "same_net m m''" if "same_net m m'" "same_net m' m''" for m m' m''
    using that no_dial.R_trans by (simp add: same_net_def) blast
qed (auto simp: same_net_def no_dial_def)

lemma publish_no_dial: "follows no_dial (publish_state w f)"
  unfolding publish_state_def
  by (intro no_dial.follows_intros no_dial.follows_log) (auto simp: follows_def putA_def no_dial_def)

lemma publish_same_net: "(\<And>p. p_registration (f p) = p_registration p) \<Longrightarrow> follows same_net (publish_state w f)"
  unfolding publish_state_def
  by (intro same_net.follows_intros same_net.follows_log) (auto simp: follows_def putA_def same_net_def no_dial_def)

lemma update_registration:
  "signal_update v = Some f \<Longrightarrow> p_registration (f p) = p_registration p"
  "operator_update v = Some f \<Longrightarrow> p_registration (f p) = p_registration p"
  "band_update v = Some f \<Longrightarrow> p_registration (f p) = p_registration p"
  "temps_update v = Some f \<Longrightarrow> p_registration (f p) = p_registration p"
  by (auto simp: signal_update_def operator_update_def band_update_def temps_update_def Let_def
      split: list.splits option.splits if_splits)

text \<open>A poll only changes what it polls.\<close>

definition keeps_registration :: "update \<Rightarrow> bool" where
  "keeps_registration u \<longleftrightarrow> (case u of None \<Rightarrow> True | Some f \<Rightarrow> \<forall>p. p_registration (f p) = p_registration p)"

definition gives :: "('a \<Rightarrow> bool) \<Rightarrow> 'a act \<Rightarrow> bool" where
  "gives P a \<longleftrightarrow> (\<forall>m m' x. a m = (m', Some x) \<longrightarrow> P x)"

lemma gives_pure: "P x \<Longrightarrow> gives P (okA x)" "gives P failA" "(\<And>m. P (f m)) \<Longrightarrow> gives P (getA f)"
  by (simp_all add: gives_def act_defs)

lemma gives_bind: "(\<And>x. gives P (f x)) \<Longrightarrow> gives P (bindA a f)"
  by (auto simp: gives_def bindA_def split: prod.splits option.splits)

lemma gives_bind_of: "gives Q a \<Longrightarrow> (\<And>x. Q x \<Longrightarrow> gives P (f x)) \<Longrightarrow> gives P (bindA a f)"
  by (fastforce simp: gives_def bindA_def split: prod.splits option.splits)

lemma gives_seq: "gives P b \<Longrightarrow> gives P (seqA a b)"
  unfolding seqA_def by (rule gives_bind)

lemma gives_try: "gives P a \<Longrightarrow> gives P b \<Longrightarrow> gives P (tryA a b)"
  by (auto simp: gives_def tryA_def split: prod.splits option.splits)

lemma gives_split:
  "gives P a \<Longrightarrow> gives P b \<Longrightarrow> gives P (if c then a else b)"
  "gives P a \<Longrightarrow> (\<And>x. gives P (f x)) \<Longrightarrow> gives P (case v of None \<Rightarrow> a | Some x \<Rightarrow> f x)"
  "(\<And>x y. gives P (g x y)) \<Longrightarrow> gives P (case p of (x, y) \<Rightarrow> g x y)"
  by (simp_all split: option.split prod.split)

lemma polls_keep_registration:
  "gives keeps_registration (poll_signal w)" "gives keeps_registration (poll_operator w)"
  "gives keeps_registration (poll_band w)" "gives keeps_registration (poll_extra w)"
  "gives keeps_registration (poll_temps w)" "gives keeps_registration (poll_iface w)"
  "gives keeps_registration (poll_byte_counters w)"
  unfolding poll_signal_def poll_operator_def poll_band_def poll_extra_def poll_temps_def poll_value_def poll_iface_def
    poll_byte_counters_def
  by (intro gives_bind gives_seq gives_try gives_split gives_pure;
      simp add: keeps_registration_def update_registration split: option.split)+

lemma poll_all_registration:
  "gives (list_all keeps_registration)
     (poll_all [poll_signal, poll_operator, poll_band, poll_extra, poll_temps, poll_iface, poll_byte_counters] w)"
  unfolding poll_all.simps
  by (intro gives_bind_of [OF polls_keep_registration(1)] gives_bind_of [OF polls_keep_registration(2)]
      gives_bind_of [OF polls_keep_registration(3)] gives_bind_of [OF polls_keep_registration(4)]
      gives_bind_of [OF polls_keep_registration(5)] gives_bind_of [OF polls_keep_registration(6)]
      gives_bind_of [OF polls_keep_registration(7)] gives_bind_of [where Q = "list_all keeps_registration"] gives_pure)
    simp_all

lemma fold_registration:
  "list_all (\<lambda>f. \<forall>p. p_registration (f p) = p_registration p) fs \<Longrightarrow> p_registration (fold (\<lambda>f s. f s) fs p) = p_registration p"
  by (induction fs arbitrary: p) simp_all

lemma merged_registration:
  assumes "list_all keeps_registration us" "merged us = Some f"
  shows "p_registration (f p) = p_registration p"
proof -
  have "list_all (\<lambda>f. \<forall>p. p_registration (f p) = p_registration p) (map the (filter (\<lambda>u. u \<noteq> None) us))"
    using assms(1) by (induction us) (auto simp: keeps_registration_def)
  then show ?thesis
    using assms(2) by (auto simp: merged_def Let_def fold_registration split: if_splits)
qed

section \<open>Dials\<close>

definition KILL_PPPD :: "string list" where "KILL_PPPD = [''sudo'', ''killall'', ''-9'', ''pppd'']"

text \<open>
  Whether a \<open>pppd\<close> may be running after an event, and that none was when one was started. A \<open>killall -9 pppd\<close>
  that returned counts as a kill, whatever its return code, which \<open>PPPSession.kill\<close> ignores as well.
\<close>

definition running_after :: "bool \<Rightarrow> ModemEvent \<Rightarrow> bool" where
  "running_after r e =
     (case e of Dialed \<Rightarrow> True | SeenEnded \<Rightarrow> False | Ran cmd \<Rightarrow> if cmd = KILL_PPPD then False else r | _ \<Rightarrow> r)"

fun may_run :: "bool \<Rightarrow> ModemEvent list \<Rightarrow> bool" where
  "may_run r [] = r"
| "may_run r (e # es) = may_run (running_after r e) es"

fun dials_alone :: "bool \<Rightarrow> ModemEvent list \<Rightarrow> bool" where
  "dials_alone r [] = True"
| "dials_alone r (e # es) = ((e \<noteq> Dialed \<or> \<not> r) \<and> dials_alone (running_after r e) es)"

lemma may_run_append: "may_run r (xs @ ys) = may_run (may_run r xs) ys"
  by (induction xs arbitrary: r) simp_all

lemma dials_alone_append: "dials_alone r (xs @ ys) \<longleftrightarrow> dials_alone r xs \<and> dials_alone (may_run r xs) ys"
  by (induction xs arbitrary: r) auto

lemma no_dial_events:
  assumes "Dialed \<notin> set es"
  shows "dials_alone r es" "may_run r es \<Longrightarrow> r"
proof -
  show "dials_alone r es"
    using assms by (induction es arbitrary: r) auto
  show "may_run r es \<Longrightarrow> r"
    using assms by (induction es arbitrary: r) (fastforce simp: running_after_def split: ModemEvent.splits if_splits)+
qed

definition running :: "Modem \<Rightarrow> bool" where "running m = may_run False (happened m)"
definition alone :: "Modem \<Rightarrow> bool" where "alone m = dials_alone False (happened m)"

lemma no_dial_alone: "no_dial m m' \<Longrightarrow> alone m \<Longrightarrow> alone m'"
  by (auto simp: no_dial_def alone_def dials_alone_append no_dial_events)

lemma no_dial_running: "no_dial m m' \<Longrightarrow> running m' \<Longrightarrow> running m"
  by (auto simp: no_dial_def running_def may_run_append dest: no_dial_events)

section \<open>The invariant\<close>

definition net_allowed :: "Modem \<Rightarrow> bool" where
  "net_allowed m \<longleftrightarrow>
     p_registration (S m) = ''home'' \<or> (p_registration (S m) = ''roaming'' \<and> roaming_allowed m)"

definition modem_inv :: "ConnState \<Rightarrow> Modem \<Rightarrow> bool" where
  "modem_inv st m \<longleftrightarrow>
     alone m \<and> (running m \<longrightarrow> st \<notin> {SEARCHING, CONNECTING}) \<and> ppp_fails m \<le> 3 \<and>
     (st = CONNECTED \<longrightarrow> ppp_fails m < 3) \<and> (st \<in> {CONNECTING, CONNECTED} \<longrightarrow> net_allowed m)"

text \<open>The invariant of the state a handler ends in, also by an exception.\<close>

definition result_inv :: "Modem \<times> ConnState option \<Rightarrow> bool" where
  "result_inv r = (case r of (m, None) \<Rightarrow> modem_inv DISCONNECTING m | (m, Some st) \<Rightarrow> modem_inv st m)"

lemma inv_disconnecting: "modem_inv st m \<Longrightarrow> no_dial m m' \<Longrightarrow> st' \<in> {INITIALIZING, DISCONNECTING} \<Longrightarrow> modem_inv st' m'"
  using no_dial_alone [of m m'] by (auto simp: modem_inv_def no_dial_def)

lemma inv_searching: "modem_inv st m \<Longrightarrow> \<not> running m \<Longrightarrow> no_dial m m' \<Longrightarrow> modem_inv SEARCHING m'"
  using no_dial_alone [of m m'] no_dial_running [of m m'] by (auto simp: modem_inv_def no_dial_def)

lemma inv_same_net: "modem_inv st m \<Longrightarrow> same_net m m' \<Longrightarrow> modem_inv st m'"
  using no_dial_alone [of m m'] no_dial_running [of m m']
  by (auto simp: modem_inv_def same_net_def no_dial_def net_allowed_def)

lemma put_no_dial:
  "follows no_dial (putA (apn_update f))" "follows no_dial (putA (roaming_allowed_update g))" "follows no_dial (putA (\<lambda>m. m\<lparr>S := h m\<rparr>))"
  by (auto simp: follows_def putA_def no_dial_def)

lemma kill_ends: "ppp_kill w m = (m', Some x) \<Longrightarrow> \<not> running m'"
  by (auto simp: ppp_kill_def run_cmd_def act_defs running_def may_run_append running_after_def KILL_PPPD_def split: if_splits)

lemma bindA_Some: "bindA a f m = (m', Some y) \<Longrightarrow> \<exists>t x. a m = (t, Some x) \<and> f x t = (m', Some y)"
  by (auto simp: bindA_def split: prod.splits option.splits)

lemma bring_up_effect:
  "follows no_dial (bring_up w)" "gives (\<lambda>st. st \<in> {INITIALIZING, SEARCHING}) (bring_up w)"
  unfolding bring_up_def
  by (intro no_dial.follows_intros no_dial.follows_cleanup no_dial.follows_init no_dial.follows_identity put_no_dial
        no_dial.follows_read_param no_dial.follows_roaming no_dial.follows_at_cmd publish_no_dial)
    (intro gives_bind gives_seq gives_split gives_pure; simp)

lemma initializing_inv:
  assumes "modem_inv INITIALIZING m"
  shows "result_inv (do_initializing w m)"
proof -
  have whole: "follows no_dial (do_initializing w)" "gives (\<lambda>st. st \<in> {INITIALIZING, SEARCHING}) (do_initializing w)"
    unfolding do_initializing_def
    by (intro no_dial.follows_intros no_dial.follows_port_there no_dial.follows_kill bring_up_effect)
      (intro gives_bind gives_split gives_pure gives_seq bring_up_effect; simp)
  obtain m' r where m': "do_initializing w m = (m', r)" by fastforce
  have nd: "no_dial m m'"
    using followsD [OF whole(1) m'] .
  have "\<not> running m'" if r: "r = Some SEARCHING"
  proof -
    obtain t1 b where "(if \<not> b then okA INITIALIZING else seqA (ppp_kill w) (bring_up w)) t1 = (m', Some SEARCHING)"
      using bindA_Some [OF m' [unfolded do_initializing_def r]] by blast
    then have "seqA (ppp_kill w) (bring_up w) t1 = (m', Some SEARCHING)"
      by (simp add: okA_def split: if_splits)
    then obtain t2 x where "ppp_kill w t1 = (t2, Some x)" "bring_up w t2 = (m', Some SEARCHING)"
      unfolding seqA_def by (blast dest: bindA_Some)
    then show ?thesis
      using kill_ends no_dial_running followsD [OF bring_up_effect(1)] by blast
  qed
  moreover have "st' \<in> {INITIALIZING, SEARCHING}" if "r = Some st'" for st'
    using whole(2) m' that by (simp add: gives_def)
  moreover have "modem_inv st' m'" if "st' \<in> {INITIALIZING, DISCONNECTING}" for st'
    using inv_disconnecting [OF assms nd that] .
  moreover have "alone m'" "ppp_fails m' \<le> 3"
    using no_dial_alone [OF nd] nd assms by (auto simp: modem_inv_def no_dial_def)
  ultimately show ?thesis
    by (cases r) (auto simp: result_inv_def m' modem_inv_def)
qed

text \<open>What an operation that returns makes true.\<close>

definition carries :: "(Modem \<Rightarrow> bool) \<Rightarrow> 'a act \<Rightarrow> ('a \<Rightarrow> Modem \<Rightarrow> bool) \<Rightarrow> bool" where
  "carries P a Q \<longleftrightarrow> (\<forall>m m' x. P m \<longrightarrow> a m = (m', Some x) \<longrightarrow> Q x m')"

lemma carries_bind: "carries P a Q \<Longrightarrow> (\<And>x. carries (Q x) (f x) R) \<Longrightarrow> carries P (bindA a f) R"
  unfolding carries_def by (blast dest: bindA_Some)

lemma carries_seq: "carries P a (\<lambda>_. Q) \<Longrightarrow> carries Q b R \<Longrightarrow> carries P (seqA a b) R"
  unfolding seqA_def by (rule carries_bind)

lemma carries_allowed: "follows same_net a \<Longrightarrow> carries (\<lambda>m. roaming_allowed m = b) a (\<lambda>_ m. roaming_allowed m = b)"
  by (auto simp: carries_def same_net_def dest!: followsD)

lemma carries_gives: "gives (\<lambda>x. x \<noteq> CONNECTING) a \<Longrightarrow> carries P a (\<lambda>st m. st = CONNECTING \<longrightarrow> net_allowed m)"
  by (auto simp: carries_def gives_def)

lemma publish_result:
  "publish_state w f m = (m', Some x) \<Longrightarrow> S m' = f (S m) \<and> roaming_allowed m' = roaming_allowed m"
  by (auto simp: publish_state_def act_defs split: if_splits)

lemma carries_registration:
  "registered reg \<Longrightarrow> (reg = ''roaming'' \<Longrightarrow> allowed) \<Longrightarrow>
     carries (\<lambda>m. roaming_allowed m = allowed) (seqA (publish_state w (p_registration_update (\<lambda>_. reg))) (okA CONNECTING))
       (\<lambda>st m. st = CONNECTING \<longrightarrow> net_allowed m)"
  by (auto simp: carries_def seqA_def okA_def net_allowed_def registered_def dest!: bindA_Some publish_result)

lemma idle_gives: "gives (\<lambda>st. st \<in> {SEARCHING, DISCONNECTING}) (searching_idle w)"
  unfolding searching_idle_def by (intro gives_bind gives_seq gives_split gives_pure; simp)

lemma idle_not_connecting: "gives (\<lambda>x. x \<noteq> CONNECTING) (searching_idle w)"
  using idle_gives by (fastforce simp: gives_def)

lemma searching_net: "carries (\<lambda>_. True) (do_searching w) (\<lambda>st m. st = CONNECTING \<longrightarrow> net_allowed m)"
  unfolding do_searching_def
proof (rule carries_bind [where Q = "\<lambda>_ _. True"], simp add: carries_def)
  fix allowed
  show "carries (\<lambda>_. True) (seqA (putA (roaming_allowed_update (\<lambda>_. allowed)))
     (bindA (atv_text w ''AT+CREG?'' ''+CREG:'') (\<lambda>v. if v = [] then searching_idle w else
      bindA (atv_text w ''AT+CGREG?'' ''+CGREG:'') (\<lambda>v'.
        let reg = parse_reg v; greg = parse_reg v'
        in if reg = ''roaming'' \<and> \<not> allowed
           then seqA (publish_state w (p_registration_update (\<lambda>_. reg))) (okA SEARCHING)
           else if registered reg \<and> registered greg
           then seqA (publish_state w (p_registration_update (\<lambda>_. reg))) (okA CONNECTING)
           else bindA (getA (p_registration \<circ> S)) (\<lambda>known.
                  seqA (if reg \<noteq> known then publish_state w (p_registration_update (\<lambda>_. reg)) else okA ())
                    (searching_idle w)))))) (\<lambda>st m. st = CONNECTING \<longrightarrow> net_allowed m)"
    (is "carries _ (seqA _ (bindA _ (\<lambda>v. if v = [] then _ else bindA _ (?f v)))) _")
  proof (rule carries_seq [where Q = "\<lambda>m. roaming_allowed m = allowed"], simp add: carries_def putA_def,
      rule carries_bind [OF carries_allowed [OF same_net.follows_atv]])
    fix v
    have "carries (\<lambda>m. roaming_allowed m = allowed) (?f v v') (\<lambda>st m. st = CONNECTING \<longrightarrow> net_allowed m)" for v'
    proof (cases "parse_reg v = ''roaming'' \<and> \<not> allowed")
      case True
      then show ?thesis
        by (simp add: Let_def carries_gives gives_seq gives_pure)
    next
      case a: False
      show ?thesis
      proof (cases "registered (parse_reg v) \<and> registered (parse_reg v')")
        case True
        then have "carries (\<lambda>m. roaming_allowed m = allowed)
            (seqA (publish_state w (p_registration_update (\<lambda>_. parse_reg v))) (okA CONNECTING)) (\<lambda>st m. st = CONNECTING \<longrightarrow> net_allowed m)"
          using a by (intro carries_registration) auto
        then show ?thesis
          using a True by (auto simp: Let_def)
      next
        case False
        have "?f v v' = bindA (getA (p_registration \<circ> S)) (\<lambda>known.
            seqA (if parse_reg v \<noteq> known then publish_state w (p_registration_update (\<lambda>_. parse_reg v)) else okA ()) (searching_idle w))"
          unfolding Let_def using a False by (simp only: if_False)
        then show ?thesis
          by (simp add: carries_gives gives_bind gives_seq idle_not_connecting)
      qed
    qed
    then show "carries (\<lambda>m. roaming_allowed m = allowed) (if v = [] then searching_idle w else bindA (atv_text w ''AT+CGREG?'' ''+CGREG:'') (?f v))
        (\<lambda>st m. st = CONNECTING \<longrightarrow> net_allowed m)"
      by (auto intro: carries_gives idle_not_connecting carries_bind [OF carries_allowed [OF same_net.follows_atv]])
  qed
qed

lemma searching_effect:
  "follows no_dial (do_searching w)" "gives (\<lambda>st. st \<in> {SEARCHING, CONNECTING, DISCONNECTING}) (do_searching w)"
proof -
  show "follows no_dial (do_searching w)"
    unfolding do_searching_def Let_def
    by (intro no_dial.follows_intros no_dial.follows_roaming put_no_dial no_dial.follows_atv no_dial.follows_idle publish_no_dial)
  have "gives (\<lambda>st. st \<in> {SEARCHING, CONNECTING, DISCONNECTING}) (searching_idle w)"
    using idle_gives by (fastforce simp: gives_def)
  then show "gives (\<lambda>st. st \<in> {SEARCHING, CONNECTING, DISCONNECTING}) (do_searching w)"
    unfolding do_searching_def Let_def by (intro gives_bind gives_seq gives_split gives_pure; simp)
qed

lemma searching_inv:
  assumes "modem_inv SEARCHING m"
  shows "result_inv (do_searching w m)"
proof -
  obtain m' r where m': "do_searching w m = (m', r)" by fastforce
  have nd: "no_dial m m'"
    using followsD [OF searching_effect(1) m'] .
  have i: "modem_inv DISCONNECTING m'" "modem_inv SEARCHING m'"
    using inv_disconnecting [OF assms nd] inv_searching [OF assms _ nd] assms by (auto simp: modem_inv_def)
  then show ?thesis
  proof (cases r)
    case (Some st)
    then have "st \<in> {SEARCHING, CONNECTING, DISCONNECTING}" "st = CONNECTING \<Longrightarrow> net_allowed m'"
      using searching_effect(2) searching_net m' by (auto simp: gives_def carries_def)
    then show ?thesis
      using i by (auto simp: result_inv_def m' Some modem_inv_def)
  qed (simp add: result_inv_def m')
qed

lemma start_inv:
  assumes "alone m" "\<not> running m" "ppp_fails m < 3" "net_allowed m"
  shows "result_inv (seqA (ppp_start w) (okA CONNECTED) m)"
  using assms
  by (auto simp: result_inv_def ppp_start_def act_defs modem_inv_def alone_def running_def dials_alone_append net_allowed_def)

lemma connecting_inv:
  assumes "modem_inv CONNECTING m"
  shows "result_inv (do_connecting w m)"
proof -
  have "result_inv (seqA (ppp_start w) (okA CONNECTED) (m\<lparr>ppp_fails := 0, sim_change := False\<rparr>))"
    using assms by (intro start_inv) (auto simp: modem_inv_def alone_def running_def net_allowed_def)
  then show ?thesis
    by (simp add: do_connecting_def seqA_def bindA_def putA_def)
qed

lemma result_inv_fail: "modem_inv st m \<Longrightarrow> no_dial m m' \<Longrightarrow> result_inv (m', None)"
  by (simp add: result_inv_def inv_disconnecting)

lemma result_bind:
  assumes "\<And>t. a m = (t, None) \<Longrightarrow> result_inv (t, None)" "\<And>t x. a m = (t, Some x) \<Longrightarrow> result_inv (f x t)"
  shows "result_inv (bindA a f m)"
  using assms by (cases "a m"; cases "snd (a m)") (auto simp: bindA_def)

text \<open>After an operation that concerns neither dials nor the network, what follows is to be shown.\<close>

lemma result_same_net:
  assumes "modem_inv st m" "follows same_net a"
    and "\<And>t x. a m = (t, Some x) \<Longrightarrow> modem_inv st t \<Longrightarrow> (running t \<longrightarrow> running m) \<Longrightarrow> result_inv (f x t)"
  shows "result_inv (bindA a f m)"
proof (rule result_bind)
  show "result_inv (t, None)" if "a m = (t, None)" for t
    using result_inv_fail [OF assms(1)] followsD [OF assms(2) that] by (simp add: same_net_def)
  show "result_inv (f x t)" if "a m = (t, Some x)" for t x
    using followsD [OF assms(2) that] inv_same_net [OF assms(1)] no_dial_running by (intro assms(3) [OF that]) (auto simp: same_net_def)
qed

lemma result_ok: "modem_inv st m \<Longrightarrow> st' = st \<or> st' = DISCONNECTING \<Longrightarrow> result_inv (okA st' m)"
  by (auto simp: result_inv_def okA_def modem_inv_def)

lemma pppd_exit_inv:
  assumes "modem_inv CONNECTED m" "\<not> running m"
  shows "result_inv (handle_pppd_exit w m)"
  unfolding handle_pppd_exit_def
proof (rule result_same_net [OF assms(1) same_net.follows_gone])
  fix t gone
  assume t: "modem_inv CONNECTED t" "running t \<longrightarrow> running m"
  have next_dial: "result_inv (seqA reset_data_port (bindA (port_there w)
      (\<lambda>there. if \<not> there then okA DISCONNECTING else seqA (ppp_start w) (okA CONNECTED))) u)"
    if u: "modem_inv CONNECTED u" "\<not> running u" for u
    unfolding seqA_def [of reset_data_port]
  proof (rule result_same_net [OF u(1) same_net.follows_reset], rule result_same_net [OF _ same_net.follows_port_there])
    fix t1 t2 x b
    assume "modem_inv CONNECTED t1" "running t1 \<longrightarrow> running u" then show "modem_inv CONNECTED t1" by simp
    assume "modem_inv CONNECTED t2" "running t2 \<longrightarrow> running t1" "running t1 \<longrightarrow> running u"
    then show "result_inv ((if \<not> b then okA DISCONNECTING else seqA (ppp_start w) (okA CONNECTED)) t2)"
      using u by (auto intro: result_ok start_inv simp: modem_inv_def)
  qed
  show "result_inv ((if gone then okA DISCONNECTING else bindA record_fail (\<lambda>give_up. if give_up then okA DISCONNECTING else
     seqA reset_data_port (bindA (port_there w) (\<lambda>there. if \<not> there then okA DISCONNECTING else seqA (ppp_start w) (okA CONNECTED))))) t)"
  proof (cases gone)
    case False
    let ?u = "t\<lparr>ppp_fails := ppp_fails t + 1\<rparr>"
    have r: "record_fail t = (?u, Some (ppp_fails ?u \<ge> 3))"
      by (simp add: record_fail_def act_defs MAX_FAILS_def)
    have "alone ?u = alone t" "running ?u = running t" "net_allowed ?u = net_allowed t"
      by (simp_all add: alone_def running_def net_allowed_def)
    then have "modem_inv DISCONNECTING ?u" "ppp_fails ?u < 3 \<Longrightarrow> modem_inv CONNECTED ?u" "\<not> running ?u"
      using t assms(2) by (auto simp: modem_inv_def)
    then show ?thesis
      using False next_dial [of ?u] by (simp add: bindA_def r result_ok)
  qed (use t in \<open>simp add: result_ok\<close>)
qed

lemma poll_same_net: "follows same_net (poll w)"
proof (rule followsI)
  fix m m' r
  assume p: "poll w m = (m', r)"
  let ?all = "poll_all [poll_signal, poll_operator, poll_band, poll_extra, poll_temps, poll_iface, poll_byte_counters] w"
  obtain t q where t: "?all m = (t, q)" by fastforce
  have a: "same_net m t"
    using followsD [OF same_net.follows_poll_all t] .
  show "same_net m m'"
  proof (cases q)
    case None
    then show ?thesis
      using p a t by (simp add: poll_def bindA_def)
  next
    case (Some us)
    have "list_all keeps_registration us"
      using poll_all_registration t Some unfolding gives_def by blast
    then have "follows same_net (case merged us of None \<Rightarrow> okA () | Some f \<Rightarrow> publish_state w f)"
      by (auto split: option.split intro: same_net.follows_pure publish_same_net merged_registration)
    then have "same_net t m'"
      using p t Some by (auto simp: poll_def bindA_def dest: followsD)
    then show ?thesis
      using a same_net.R_trans by blast
  qed
qed

lemma exited_seen: "has_exited w m = (t, Some True) \<Longrightarrow> \<not> running t"
  by (auto simp: has_exited_def act_defs running_def may_run_append running_after_def split: if_splits)

lemma connected_inv:
  assumes "modem_inv CONNECTED m"
  shows "result_inv (do_connected w m)"
  unfolding do_connected_def
proof (rule result_same_net [OF assms same_net.follows_exited])
  fix t exited
  assume e: "has_exited w m = (t, Some exited)" and t: "modem_inv CONNECTED t"
  have "result_inv (bindA (sim_or_port_gone w) (\<lambda>gone. if gone then okA DISCONNECTING else
      bindA (params_changed w) (\<lambda>changed. if changed then okA DISCONNECTING else seqA (poll w) (okA CONNECTED))) t)"
  proof (rule result_same_net [OF t same_net.follows_gone])
    fix t1 gone
    assume t1: "modem_inv CONNECTED t1"
    have "result_inv (bindA (params_changed w) (\<lambda>changed. if changed then okA DISCONNECTING else seqA (poll w) (okA CONNECTED)) t1)"
    proof (rule result_same_net [OF t1 same_net.follows_params_changed])
      fix t2 changed
      assume t2: "modem_inv CONNECTED t2"
      have "result_inv (bindA (poll w) (\<lambda>_. okA CONNECTED) t2)"
        by (rule result_same_net [OF t2 poll_same_net]) (simp add: result_ok)
      then show "result_inv ((if changed then okA DISCONNECTING else seqA (poll w) (okA CONNECTED)) t2)"
        using t2 by (simp add: seqA_def result_ok)
    qed
    then show "result_inv ((if gone then okA DISCONNECTING else
        bindA (params_changed w) (\<lambda>changed. if changed then okA DISCONNECTING else seqA (poll w) (okA CONNECTED))) t1)"
      using t1 by (simp add: result_ok)
  qed
  then show "result_inv ((if exited then handle_pppd_exit w else bindA (sim_or_port_gone w) (\<lambda>gone. if gone then okA DISCONNECTING else
      bindA (params_changed w) (\<lambda>changed. if changed then okA DISCONNECTING else seqA (poll w) (okA CONNECTED)))) t)"
    using pppd_exit_inv [OF t] exited_seen e by (cases exited) auto
qed

lemma disconnecting_effect: "follows no_dial (do_disconnecting w)" "gives (\<lambda>st. st = INITIALIZING) (do_disconnecting w)"
  unfolding do_disconnecting_def
  by (intro no_dial.follows_intros publish_no_dial no_dial.follows_kill no_dial.follows_cleanup no_dial.follows_reset)
    (intro gives_seq gives_pure; simp)

lemma disconnecting_inv:
  assumes "modem_inv DISCONNECTING m"
  shows "result_inv (do_disconnecting w m)"
proof -
  obtain m' r where m': "do_disconnecting w m = (m', r)" by fastforce
  have "no_dial m m'"
    using followsD [OF disconnecting_effect(1) m'] .
  moreover have "st = INITIALIZING" if "r = Some st" for st
    using disconnecting_effect(2) m' that by (simp add: gives_def)
  ultimately show ?thesis
    using inv_disconnecting [OF assms] by (auto simp: result_inv_def m' split: option.split)
qed

lemma handler_inv: "modem_inv st m \<Longrightarrow> result_inv (handler st w m)"
  by (cases st) (simp_all add: handler_def initializing_inv searching_inv connecting_inv connected_inv disconnecting_inv)

lemma round_inv:
  assumes "modem_inv st m" "modem_round w (st, m) = (st', m')"
  shows "modem_inv st' m'"
proof -
  let ?publish = "\<lambda>st'. seqA (if st' \<noteq> st then publish_state w (p_state_update (\<lambda>_. state_value st')) else okA ()) (okA st')"
  have "result_inv (bindA (check_iccid w st) (\<lambda>_. bindA (handler st w) ?publish) m)"
  proof (rule result_same_net [OF assms(1) same_net.follows_check_iccid], rule result_bind)
    fix t t1
    assume t: "modem_inv st t" and "handler st w t = (t1, None)"
    then show "result_inv (t1, None)"
      using handler_inv by metis
  next
    fix t t1 st1
    assume t: "modem_inv st t" and "handler st w t = (t1, Some st1)"
    then have "modem_inv st1 t1"
      using handler_inv [OF t, of w] by (simp add: result_inv_def)
    then show "result_inv (?publish st1 t1)"
      unfolding seqA_def
      by (rule result_same_net) (auto intro: same_net.follows_pure publish_same_net result_ok)
  qed
  then show ?thesis
    using assms(2) by (auto simp: modem_round_def seqA_def [of "check_iccid w st"] result_inv_def split: prod.splits option.splits)
qed

lemma rounds_inv: "modem_inv (fst sm) (snd sm) \<Longrightarrow> modem_inv (fst (modem_rounds n w sm)) (snd (modem_rounds n w sm))"
proof (induction n arbitrary: sm)
  case (Suc n)
  have "modem_inv (fst (modem_round w sm)) (snd (modem_round w sm))"
    using round_inv [OF Suc.prems, of w] by simp
  then show ?case
    by (simp add: Suc.IH)
qed simp

lemma start_alone: "follows no_dial (modem_start w has_mm)"
  unfolding modem_start_def by (intro no_dial.follows_intros publish_no_dial no_dial.follows_run_cmd no_dial.follows_kill)

text \<open>The states of the daemon after \<open>n\<close> rounds.\<close>

definition modem_after :: "Outside \<Rightarrow> bool \<Rightarrow> nat \<Rightarrow> ConnState \<times> Modem" where
  "modem_after w has_mm n = modem_rounds n w (INITIALIZING, fst (modem_start w has_mm new_modem))"

lemma after_inv: "modem_inv (fst (modem_after w has_mm n)) (snd (modem_after w has_mm n))"
proof -
  have "modem_inv INITIALIZING new_modem"
    by (simp add: modem_inv_def new_modem_def alone_def)
  moreover have "no_dial new_modem (fst (modem_start w has_mm new_modem))"
    using start_alone by (simp add: follows_def)
  ultimately show ?thesis
    unfolding modem_after_def using inv_disconnecting rounds_inv by fastforce
qed

section \<open>A changed SIM\<close>

lemma lines_caught: "expect_lines (map RxLine raws) acc = (rest, Inl e) \<Longrightarrow> at_caught e"
proof (induction raws arbitrary: acc)
  case Nil
  then show ?case by (auto simp: at_caught_def is_os_error_def)
next
  case (Cons raw raws)
  then show ?case
    by (auto simp: at_caught_def is_os_error_def is_runtime_error_def Let_def split: if_splits)
qed

text \<open>A network that is roaming, with no parameter set, while the SIM is what \<open>sim\<close> says at each call.\<close>

definition denied_roaming :: "(nat \<Rightarrow> string) \<Rightarrow> Outside" where
  "denied_roaming sim =
     \<lparr>port_exists = (\<lambda>_. True), param_file = (\<lambda>_ _. Missing),
      at_answer = (\<lambda>t cmd. Answer (map RxLine
        ((if cmd = ''AT+CREG?'' then [encode_str ''+CREG: 2,5'']
          else if cmd = ''AT+QCCID'' then [encode_str (''+QCCID: '' @ sim t)] else []) @ [encode_str ''OK'']))),
      pppd_ended = (\<lambda>_. False), return_code = (\<lambda>_ _. 0), rules_left = (\<lambda>_. 0), call_raises = (\<lambda>_. False),
      ppp0_address = (\<lambda>_. None), byte_counter = (\<lambda>_ _. None)\<rparr>"

lemma denied_at_cmd: "\<exists>n es lines. at_cmd (denied_roaming sim) cmd m = (m\<lparr>calls := n, happened := es\<rparr>, Some lines)"
proof -
  let ?raws = "(if cmd = ''AT+CREG?'' then [encode_str ''+CREG: 2,5'']
      else if cmd = ''AT+QCCID'' then [encode_str (''+QCCID: '' @ sim (calls m))] else []) @ [encode_str ''OK'']"
  obtain rest r where e: "expect_lines (map RxLine ?raws) [] = (rest, r)" by fastforce
  have "at_answer (denied_roaming sim) (calls m) cmd = Answer (map RxLine ?raws)"
    by (simp add: denied_roaming_def)
  moreover have "r = Inl e' \<Longrightarrow> at_caught e'" for e'
    using lines_caught e by blast
  ultimately show ?thesis
    using e by (cases r) (auto simp: at_cmd_def act_defs)
qed

lemma denied_atv: "\<exists>n es v. atv_text (denied_roaming sim) cmd pfx m = (m\<lparr>calls := n, happened := es\<rparr>, Some v)"
proof -
  obtain n es lines where "at_cmd (denied_roaming sim) cmd m = (m\<lparr>calls := n, happened := es\<rparr>, Some lines)"
    using denied_at_cmd by blast
  then show ?thesis
    by (intro exI [of _ n] exI [of _ es]) (simp add: atv_text_def atv_def bindA_def okA_def)
qed

lemma denied_creg: "\<exists>n es. atv_text (denied_roaming sim) ''AT+CREG?'' ''+CREG:'' m = (m\<lparr>calls := n, happened := es\<rparr>, Some ''2,5'')"
proof -
  have "expect_lines [RxLine (encode_str ''+CREG: 2,5''), RxLine (encode_str ''OK'')] [] = ([], Inr [''+CREG: 2,5''])"
    by code_simp
  moreover have "at_value [''+CREG: 2,5''] ''+CREG:'' = Some ''2,5''"
    by code_simp
  ultimately show ?thesis
    by (simp add: atv_text_def atv_def at_cmd_def denied_roaming_def act_defs del: expect_lines.simps) auto
qed

lemma reg_roaming: "parse_reg ''2,5'' = ''roaming''"
  by code_simp

text \<open>
  An outside in which the modem stays registered as roaming and roaming is not switched on: every read of the
  registration succeeds and says so, other commands to the modem may fail in the ways that are caught, the parameter
  is readable and not 1, and the state can be published. Whether the port is there and which SIM is reported is open.
\<close>

definition stays_denied :: "Outside \<Rightarrow> bool" where
  "stays_denied w \<longleftrightarrow>
     (\<forall>m. \<exists>v. snd (atv_text w ''AT+CREG?'' ''+CREG:'' m) = Some v \<and> parse_reg v = ''roaming'')
     \<and> (\<forall>cmd m. snd (at_cmd w cmd m) \<noteq> None)
     \<and> (\<forall>m. \<exists>v. snd (read_param w ''GsmRoaming'' m) = Some v \<and> v \<noteq> ''1'')
     \<and> (\<forall>t. \<not> call_raises w t)"

lemma denied_roaming_stays: "stays_denied (denied_roaming sim)"
proof -
  have "\<exists>v. snd (atv_text (denied_roaming sim) ''AT+CREG?'' ''+CREG:'' m) = Some v \<and> parse_reg v = ''roaming''" for m
  proof -
    obtain n es where "atv_text (denied_roaming sim) ''AT+CREG?'' ''+CREG:'' m = (m\<lparr>calls := n, happened := es\<rparr>, Some ''2,5'')"
      using denied_creg by blast
    then show ?thesis
      by (simp add: reg_roaming)
  qed
  moreover have "snd (at_cmd (denied_roaming sim) cmd m) \<noteq> None" for cmd m
  proof -
    obtain n es lines where "at_cmd (denied_roaming sim) cmd m = (m\<lparr>calls := n, happened := es\<rparr>, Some lines)"
      using denied_at_cmd by blast
    then show ?thesis
      by simp
  qed
  moreover have "snd (read_param (denied_roaming sim) ''GsmRoaming'' m) = Some []" for m
    by (simp add: read_param_def denied_roaming_def act_defs)
  moreover have "\<not> call_raises (denied_roaming sim) t" for t
    by (simp add: denied_roaming_def)
  ultimately show ?thesis
    unfolding stays_denied_def by auto
qed

text \<open>Reading leaves the published state and the flag alone.\<close>

definition same_sim :: "Modem \<Rightarrow> Modem \<Rightarrow> bool" where
  "same_sim m m' \<longleftrightarrow> S m' = S m \<and> sim_change m' = sim_change m"

lemma at_cmd_same: "same_sim m (fst (at_cmd w cmd m))"
  by (auto simp: same_sim_def at_cmd_def act_defs split: AtAnswer.split prod.split sum.split)

lemma read_param_same: "same_sim m (fst (read_param w key m))"
  by (auto simp: same_sim_def read_param_def act_defs split: ParamFile.split)

lemma atv_text_same: "same_sim m (fst (atv_text w cmd pfx m))"
  using at_cmd_same [of m w cmd] by (auto simp: atv_text_def atv_def bindA_def okA_def split: prod.splits option.splits)

lemma atv_text_total:
  assumes "stays_denied w"
  obtains m' v where "atv_text w cmd pfx m = (m', Some v)" "same_sim m m'"
proof -
  have "snd (at_cmd w cmd m) \<noteq> None"
    using assms by (simp add: stays_denied_def)
  then obtain m' lines where "at_cmd w cmd m = (m', Some lines)"
    by (metis not_None_eq prod.collapse)
  then have "\<exists>v. atv_text w cmd pfx m = (m', Some v)"
    by (simp add: atv_text_def atv_def bindA_def okA_def)
  then show ?thesis
    using that atv_text_same [of m w cmd pfx] by force
qed

lemma denied_searching:
  assumes "stays_denied w" "\<not> starts_with WEBBING_ICCID_PREFIX (p_iccid (S m))"
  shows "\<exists>m'. do_searching w m = (m', Some SEARCHING) \<and> p_iccid (S m') = p_iccid (S m) \<and> sim_change m' = sim_change m"
proof -
  obtain m1 where a: "is_roaming_allowed w m = (m1, Some False)" "same_sim m m1"
  proof -
    obtain v where v: "snd (read_param w ''GsmRoaming'' m) = Some v" "v \<noteq> ''1''"
      using assms(1) unfolding stays_denied_def by blast
    then have "read_param w ''GsmRoaming'' m = (fst (read_param w ''GsmRoaming'' m), Some v)"
      by (metis prod.collapse)
    then show ?thesis
      using that [of "fst (read_param w ''GsmRoaming'' m)"] assms(2) v(2) read_param_same [of m w "''GsmRoaming''"]
      by (cases "read_param w ''GsmRoaming'' m") (simp add: is_roaming_allowed_def bindA_def getA_def okA_def)
  qed
  let ?m1 = "m1\<lparr>roaming_allowed := False\<rparr>"
  obtain m2 v where c: "atv_text w ''AT+CREG?'' ''+CREG:'' ?m1 = (m2, Some v)" "same_sim ?m1 m2" "parse_reg v = ''roaming''"
  proof -
    obtain v where "snd (atv_text w ''AT+CREG?'' ''+CREG:'' ?m1) = Some v" "parse_reg v = ''roaming''"
      using assms(1) unfolding stays_denied_def by blast
    then show ?thesis
      using that [of _ v] atv_text_same [of ?m1 w "''AT+CREG?''" "''+CREG:''"] by (metis prod.collapse)
  qed
  obtain m3 v' where g: "atv_text w ''AT+CGREG?'' ''+CGREG:'' m2 = (m3, Some v')" "same_sim m2 m3"
    using atv_text_total [OF assms(1)] .
  have "v \<noteq> []"
    using c(3) by (auto simp: parse_reg_def split_on_def)
  moreover have "call_raises w t = False" for t
    using assms(1) by (simp add: stays_denied_def)
  ultimately show ?thesis
    using a c g by (simp add: do_searching_def bindA_def seqA_def putA_def publish_state_def stampA_def getA_def
        logA_def okA_def Let_def same_sim_def)
qed

lemma denied_check:
  assumes "stays_denied w"
  shows "\<exists>m'. check_iccid w st m = (m', Some ()) \<and> S m' = S m \<and> (sim_change m \<longrightarrow> sim_change m')"
proof -
  obtain m' v where "atv_text w ''AT+QCCID'' ''+QCCID:'' m = (m', Some v)" "same_sim m m'"
    using atv_text_total [OF assms] .
  then show ?thesis
    by (auto simp: check_iccid_def read_iccid_def bindA_def getA_def okA_def putA_def same_sim_def)
qed

lemma denied_round:
  assumes "stays_denied w" "\<not> starts_with WEBBING_ICCID_PREFIX (p_iccid (S m))"
  shows "\<exists>m'. modem_round w (SEARCHING, m) = (SEARCHING, m') \<and> p_iccid (S m') = p_iccid (S m)
    \<and> (sim_change m \<longrightarrow> sim_change m')"
proof -
  obtain m1 where m1: "check_iccid w SEARCHING m = (m1, Some ())" "S m1 = S m" "sim_change m \<longrightarrow> sim_change m1"
    using denied_check [OF assms(1)] by blast
  then obtain m2 where "do_searching w m1 = (m2, Some SEARCHING)" "p_iccid (S m2) = p_iccid (S m)" "sim_change m2 = sim_change m1"
    using denied_searching [OF assms(1), of m1] assms(2) by auto
  then show ?thesis
    using m1 by (simp add: modem_round_def seqA_def bindA_def handler_def okA_def)
qed

lemma connected_changed:
  assumes "sim_change m" "do_connected w m = (m', r)"
  shows "r \<in> {None, Some DISCONNECTING}"
proof -
  have gone: "sim_or_port_gone w t = (t, Some True)" if "sim_change t" for t
    using that by (simp add: sim_or_port_gone_def act_defs)
  have "sim_change t" if "has_exited w m = (t, Some b)" for t b
    using that assms(1) by (auto simp: has_exited_def act_defs split: if_splits)
  then show ?thesis
    using assms(2) gone
    by (cases "has_exited w m"; cases "snd (has_exited w m)")
      (auto simp: do_connected_def handle_pppd_exit_def bindA_def okA_def split: if_splits)
qed

section \<open>Properties\<close>

text \<open>C27 (safety). The modem daemon never starts \<open>pppd\<close> while one that it started may still be running: between two dials it has
seen the first one end or has killed it, in every sequence of rounds, whatever happens outside.\<close>

theorem one_pppd_at_a_time:
  "dials_alone False (happened (snd (modem_after w has_mm n)))"
  using after_inv [of w has_mm n] by (simp add: modem_inv_def alone_def)

text \<open>C28 (safety). In every state in which the modem daemon dials or is connected, the modem was last seen registered at home, or
roaming while roaming was allowed, and fewer than three dials have failed since it began to connect.\<close>

theorem connected_only_where_allowed:
  "case modem_after w has_mm n of (st, m) \<Rightarrow>
     (case st of CONNECTING \<Rightarrow> net_allowed m | CONNECTED \<Rightarrow> net_allowed m \<and> ppp_fails m < 3 | _ \<Rightarrow> ppp_fails m \<le> 3)"
  using after_inv [of w has_mm n] by (auto simp: modem_inv_def split: prod.split ConnState.split)

text \<open>When a connected modem reports another SIM, the same round gives the connection up.\<close>

theorem changed_sim_reconnects:
  assumes "read_iccid w m = (t, Some iccid)" "iccid \<notin> {[], p_iccid (S m)}" "p_iccid (S m) \<noteq> []"
  shows "fst (modem_round w (CONNECTED, m)) = DISCONNECTING"
proof -
  have c: "check_iccid w CONNECTED m = (t\<lparr>sim_change := True\<rparr>, Some ())"
    using assms by (auto simp: check_iccid_def bindA_def getA_def putA_def)
  obtain t' r where t': "do_connected w (t\<lparr>sim_change := True\<rparr>) = (t', r)" by fastforce
  then have "r \<in> {None, Some DISCONNECTING}"
    by (rule connected_changed [rotated]) simp
  then show ?thesis
    using t' by (auto simp: modem_round_def seqA_def bindA_def c handler_def okA_def split: prod.split option.split)
qed

theorem changed_sim_reconnects_witness:
  "fst (modem_round (denied_roaming (\<lambda>_. ''89852350000F'')) (CONNECTED, new_modem\<lparr>S := INITIAL_STATE\<lparr>p_iccid := ''8944000''\<rparr>\<rparr>)) =
     DISCONNECTING"
proof -
  let ?w = "denied_roaming (\<lambda>_. ''89852350000F'')"
  let ?m = "new_modem\<lparr>S := INITIAL_STATE\<lparr>p_iccid := ''8944000''\<rparr>\<rparr>"
  have "snd (read_iccid ?w ?m) = Some ''89852350000''"
    by code_simp
  then have "read_iccid ?w ?m = (fst (read_iccid ?w ?m), Some ''89852350000'')"
    by (metis prod.collapse)
  then show ?thesis
    by (rule changed_sim_reconnects) simp_all
qed

text \<open>C39 (functional). Let the daemon search with a SIM that may not roam without permission, outside of the home network. As long as
every read of the registration succeeds and reports roaming, roaming is not switched on, and neither publishing nor
the lock or port raises something that is not caught, it keeps searching under the number of that SIM in every
later round, and a change of the SIM that it has noticed stays noted and is not acted on, whichever SIM is
reported and whether or not the port is still there. (A read of the registration that fails would end this.)\<close>

theorem denied_roaming_misses_new_sim:
  assumes "stays_denied w" "\<not> starts_with WEBBING_ICCID_PREFIX (p_iccid (S m))" "(st, m') = modem_rounds n w (SEARCHING, m)"
  shows "st = SEARCHING \<and> p_iccid (S m') = p_iccid (S m) \<and> (sim_change m \<longrightarrow> sim_change m')"
  using assms(2,3)
proof (induction n arbitrary: m)
  case (Suc n)
  obtain m1 where m1: "modem_round w (SEARCHING, m) = (SEARCHING, m1)" "p_iccid (S m1) = p_iccid (S m)"
    "sim_change m \<longrightarrow> sim_change m1"
    using denied_round [OF assms(1) Suc.prems(1)] by blast
  then show ?case
    using Suc.IH [of m1] Suc.prems by simp
qed simp

text \<open>The new SIM has the prefix of those that may roam.\<close>

theorem denied_roaming_misses_new_sim_witness:
  "let m = new_modem\<lparr>sim_change := True, S := INITIAL_STATE\<lparr>p_iccid := ''8944000''\<rparr>\<rparr>;
       r = modem_rounds 5 (denied_roaming (\<lambda>_. ''8985235000'')) (SEARCHING, m)
   in fst r = SEARCHING \<and> p_iccid (S (snd r)) = ''8944000'' \<and> sim_change (snd r)"
  using denied_roaming_misses_new_sim [OF denied_roaming_stays _ prod.collapse,
      of "new_modem\<lparr>sim_change := True, S := INITIAL_STATE\<lparr>p_iccid := ''8944000''\<rparr>\<rparr>" 5 "\<lambda>_. ''8985235000''"]
  by (simp add: starts_with_def WEBBING_ICCID_PREFIX_def Let_def)

end
