(* ===== verification/SmartCruise.thy ===== *)
theory SmartCruise
  imports VCruise Filters
begin

text \<open>
  Smart cruise control, \<open>sunnypilot/selfdrive/controls/lib/smart_cruise_control\<close>: \<open>vision_controller.py\<close> slows
  down for the curves that the driving model predicts, \<open>map_controller.py\<close> for those of the map.

  The square root is the argument \<open>sqrtf\<close>, and the distance on the sphere is built from the arguments
  \<open>sinf\<close>, \<open>cosf\<close>, \<open>atan2f\<close>, since floats are exact rationals here. The target speed of the vision
  controller is a quotient of NumPy floats, hence infinite on a straight road and not a number when the
  predicted acceleration is negative.
\<close>

definition MIN_V :: rat where "MIN_V = 20 * KPH_TO_MS"

definition params_due :: "int \<Rightarrow> bool" where
  "params_due n \<longleftrightarrow> n mod py_trunc (PARAMS_UPDATE_PERIOD / DT_MDL) = 0"

section \<open>Floats that may be infinite or not a number\<close>

datatype Float = Fin rat | PosInf | NaN

fun less_float :: "Float \<Rightarrow> Float \<Rightarrow> bool" where
  "less_float (Fin a) (Fin b) \<longleftrightarrow> a < b"
| "less_float (Fin _) PosInf \<longleftrightarrow> True"
| "less_float _ _ \<longleftrightarrow> False"

definition max_float :: "Float \<Rightarrow> Float \<Rightarrow> Float" where
  "max_float a b = (if less_float a b then b else a)"

fun add_float :: "Float \<Rightarrow> rat \<Rightarrow> Float" where
  "add_float (Fin a) b = Fin (a + b)"
| "add_float PosInf _ = PosInf"
| "add_float NaN _ = NaN"

text \<open>\<open>(a / x) ** 0.5\<close> for a positive number and a NumPy float.\<close>

definition root_of_quotient :: "(rat \<Rightarrow> rat) \<Rightarrow> rat \<Rightarrow> rat \<Rightarrow> Float" where
  "root_of_quotient sqrtf a x = (if x = 0 then PosInf else if a / x < 0 then NaN else Fin (sqrtf (a / x)))"

section \<open>Vision\<close>

datatype VisionState = Vision_disabled | Vision_enabled | Vision_entering | Vision_turning | Vision_leaving | Vision_overriding

definition VISION_ACTIVE_STATES :: "VisionState list" where
  "VISION_ACTIVE_STATES = [Vision_entering, Vision_turning, Vision_leaving]"

definition VISION_ENABLED_STATES :: "VisionState list" where
  "VISION_ENABLED_STATES = [Vision_enabled, Vision_overriding] @ VISION_ACTIVE_STATES"

definition ENTERING_PRED_LAT_ACC_TH :: rat where "ENTERING_PRED_LAT_ACC_TH = 13/10"
definition ABORT_ENTERING_PRED_LAT_ACC_TH :: rat where "ABORT_ENTERING_PRED_LAT_ACC_TH = 11/10"
definition TURNING_LAT_ACC_TH :: rat where "TURNING_LAT_ACC_TH = 16/10"
definition LEAVING_LAT_ACC_TH :: rat where "LEAVING_LAT_ACC_TH = 13/10"
definition FINISH_LAT_ACC_TH :: rat where "FINISH_LAT_ACC_TH = 11/10"
definition A_LAT_REG_MAX :: rat where "A_LAT_REG_MAX = 2"
definition NO_OVERSHOOT_TIME_HORIZON :: rat where "NO_OVERSHOOT_TIME_HORIZON = 4"
definition ENTERING_SMOOTH_DECEL_V :: "rat list" where "ENTERING_SMOOTH_DECEL_V = [-2/10, -1]"
definition ENTERING_SMOOTH_DECEL_BP :: "rat list" where "ENTERING_SMOOTH_DECEL_BP = [13/10, 3]"
definition TURNING_ACC_V :: "rat list" where "TURNING_ACC_V = [5/10, 0, -4/10]"
definition TURNING_ACC_BP :: "rat list" where "TURNING_ACC_BP = [15/10, 23/10, 3]"
definition LEAVING_ACC :: rat where "LEAVING_ACC = 5/10"

record SccVision =
  vi_v_target :: Float
  vi_a_target :: rat
  vi_v_ego :: rat
  vi_a_ego :: rat
  vi_output_v_target :: Float
  vi_output_a_target :: rat
  vi_frame :: int
  vi_long_enabled :: bool
  vi_long_override :: bool
  vi_is_enabled :: bool
  vi_is_active :: bool
  vi_enabled :: bool
  vi_v_cruise_setpoint :: rat
  vi_state :: VisionState
  current_lat_acc :: rat
  max_pred_lat_acc :: rat

definition new_SccVision :: "Params \<Rightarrow> SccVision" where
  "new_SccVision params =
     \<lparr>vi_v_target = Fin 0, vi_a_target = 0, vi_v_ego = 0, vi_a_ego = 0, vi_output_v_target = Fin V_CRUISE_UNSET,
      vi_output_a_target = 0, vi_frame = -1, vi_long_enabled = False, vi_long_override = False,
      vi_is_enabled = False, vi_is_active = False, vi_enabled = get_bool params ''SmartCruiseControlVision'',
      vi_v_cruise_setpoint = 0, vi_state = Vision_disabled, current_lat_acc = 0, max_pred_lat_acc = 0\<rparr>"

text \<open>What the controllers of this file read of the messages and parameters.\<close>

record SccInput =
  sci_params :: Params
  sci_orientationRate_z :: "rat list"
  sci_velocity_x :: "rat list"
  sci_curvature :: rat
  sci_long_enabled :: bool
  sci_long_override :: bool
  sci_v_ego :: rat
  sci_a_ego :: rat
  sci_v_cruise :: rat

definition vision_update_params :: "Params \<Rightarrow> SccVision \<Rightarrow> SccVision" where
  "vision_update_params params v =
     (if params_due (vi_frame v) then v\<lparr>vi_enabled := get_bool params ''SmartCruiseControlVision''\<rparr> else v)"

text \<open>The product of two NumPy arrays: of the same length, or one of a single element; otherwise it raises.\<close>

definition np_times :: "rat list \<Rightarrow> rat list \<Rightarrow> rat list option" where
  "np_times xs ys =
     (if length xs = length ys then Some (map2 (*) xs ys)
      else case xs of [x] \<Rightarrow> Some (map ((*) x) ys)
         | _ \<Rightarrow> (case ys of [y] \<Rightarrow> Some (map (\<lambda>x. x * y) xs) | _ \<Rightarrow> None))"

text \<open>\<open>np.percentile\<close> interpolates linearly between the sorted elements; without elements it raises.\<close>

definition np_percentile :: "rat list \<Rightarrow> rat \<Rightarrow> rat option" where
  "np_percentile xs q =
     (if xs = [] then None
      else (let s = sort xs; h = q / 100 * of_nat (length s - 1); j = nat \<lfloor>h\<rfloor>;
                low = s ! j; high = s ! min (j + 1) (length s - 1)
            in Some (low + (high - low) * (h - of_int \<lfloor>h\<rfloor>))))"

definition vision_update_calculations :: "(rat \<Rightarrow> rat) \<Rightarrow> SccInput \<Rightarrow> SccVision \<Rightarrow> SccVision option" where
  "vision_update_calculations sqrtf si v =
     (if \<not> vi_long_enabled v then Some v
      else
        (let v1 = v\<lparr>current_lat_acc := (vi_v_ego v)\<^sup>2 * \<bar>sci_curvature si\<bar>\<rparr>
         in case Option.bind (np_times (map abs (sci_orientationRate_z si)) (sci_velocity_x si)) (\<lambda>xs. np_percentile xs 97) of
              None \<Rightarrow> None
            | Some p \<Rightarrow>
                (let v_ego = max (vi_v_ego v) (1/10); max_curve = p / v_ego\<^sup>2
                 in Some (v1\<lparr>max_pred_lat_acc := p, vi_v_target := root_of_quotient sqrtf A_LAT_REG_MAX max_curve\<rparr>))))"

definition vision_next :: "SccVision \<Rightarrow> VisionState" where
  "vision_next v =
     (if vi_state v \<noteq> Vision_disabled then
        (if \<not> vi_long_enabled v \<or> \<not> vi_enabled v then Vision_disabled
         else if vi_long_override v then Vision_overriding
         else case vi_state v of
             Vision_enabled \<Rightarrow> (if vi_v_ego v \<le> MIN_V then Vision_enabled
                           else if max_pred_lat_acc v \<ge> ENTERING_PRED_LAT_ACC_TH then Vision_entering else Vision_enabled)
           | Vision_overriding \<Rightarrow> (if \<not> vi_long_override v then Vision_enabled else Vision_overriding)
           | Vision_entering \<Rightarrow> (if current_lat_acc v \<ge> TURNING_LAT_ACC_TH then Vision_turning
                            else if max_pred_lat_acc v < ABORT_ENTERING_PRED_LAT_ACC_TH then Vision_enabled else Vision_entering)
           | Vision_turning \<Rightarrow> (if current_lat_acc v \<le> LEAVING_LAT_ACC_TH then Vision_leaving else Vision_turning)
           | Vision_leaving \<Rightarrow> (if current_lat_acc v \<ge> TURNING_LAT_ACC_TH then Vision_turning
                           else if current_lat_acc v < FINISH_LAT_ACC_TH then Vision_enabled else Vision_leaving)
           | Vision_disabled \<Rightarrow> Vision_disabled)
      else if vi_long_enabled v \<and> vi_enabled v then (if vi_long_override v then Vision_overriding else Vision_enabled)
      else Vision_disabled)"

definition vision_update_state_machine :: "SccVision \<Rightarrow> SccVision" where
  "vision_update_state_machine v =
     (let s = vision_next v
      in v\<lparr>vi_state := s, vi_is_enabled := s \<in> set VISION_ENABLED_STATES, vi_is_active := s \<in> set VISION_ACTIVE_STATES\<rparr>)"

definition vision_update_solution :: "SccVision \<Rightarrow> rat option" where
  "vision_update_solution v =
     (if vi_state v \<notin> set VISION_ACTIVE_STATES then Some (vi_a_ego v)
      else case vi_state v of
          Vision_entering \<Rightarrow> np_interp (max_pred_lat_acc v) ENTERING_SMOOTH_DECEL_BP ENTERING_SMOOTH_DECEL_V
        | Vision_turning \<Rightarrow> np_interp (current_lat_acc v) TURNING_ACC_BP TURNING_ACC_V
        | Vision_leaving \<Rightarrow> Some LEAVING_ACC
        | _ \<Rightarrow> None)"

definition vision_v_target_from_control :: "SccVision \<Rightarrow> Float" where
  "vision_v_target_from_control v =
     (if vi_is_active v then add_float (max_float (vi_v_target v) (Fin MIN_V)) (vi_a_target v * NO_OVERSHOOT_TIME_HORIZON)
      else Fin V_CRUISE_UNSET)"

definition vision_update :: "(rat \<Rightarrow> rat) \<Rightarrow> SccInput \<Rightarrow> SccVision \<Rightarrow> SccVision option" where
  "vision_update sqrtf si v0 =
     (let v1 = vision_update_params (sci_params si)
                 (v0\<lparr>vi_long_enabled := sci_long_enabled si, vi_long_override := sci_long_override si,
                    vi_v_ego := sci_v_ego si, vi_a_ego := sci_a_ego si, vi_v_cruise_setpoint := sci_v_cruise si\<rparr>)
      in case vision_update_calculations sqrtf si v1 of
           None \<Rightarrow> None
         | Some v2 \<Rightarrow>
             (let v3 = vision_update_state_machine v2
              in map_option (\<lambda>a. let v4 = v3\<lparr>vi_a_target := a\<rparr>
                     in v4\<lparr>vi_output_v_target := vision_v_target_from_control v4, vi_output_a_target := a,
                           vi_frame := vi_frame v4 + 1\<rparr>)
                   (vision_update_solution v3)))"

section \<open>Map\<close>

datatype MapState = Map_disabled | Map_enabled | Map_turning | Map_overriding

definition MAP_ACTIVE_STATES :: "MapState list" where "MAP_ACTIVE_STATES = [Map_turning]"

definition MAP_ENABLED_STATES :: "MapState list" where
  "MAP_ENABLED_STATES = [Map_enabled, Map_overriding] @ MAP_ACTIVE_STATES"

definition TARGET_JERK :: rat where "TARGET_JERK = -6/10"
definition TARGET_ACCEL :: rat where "TARGET_ACCEL = -12/10"
definition TARGET_OFFSET :: rat where "TARGET_OFFSET = 1"
definition R_EARTH :: rat where "R_EARTH = 6373000"

definition calculate_velocity :: "rat \<Rightarrow> rat \<Rightarrow> rat \<Rightarrow> rat \<Rightarrow> rat" where
  "calculate_velocity t target_jerk a_ego v_ego = v_ego + a_ego * t + target_jerk / 2 * t\<^sup>2"

definition calculate_distance :: "rat \<Rightarrow> rat \<Rightarrow> rat \<Rightarrow> rat \<Rightarrow> rat" where
  "calculate_distance t target_jerk a_ego v_ego = t * v_ego + a_ego / 2 * t\<^sup>2 + target_jerk / 6 * t ^ 3"

text \<open>The functions of the module \<open>math\<close> that the distance uses, and the constant \<open>TO_RADIANS\<close>.\<close>

record MathFns =
  sinf :: "rat \<Rightarrow> rat"
  cosf :: "rat \<Rightarrow> rat"
  atan2f :: "rat \<Rightarrow> rat \<Rightarrow> rat"
  sqrtf :: "rat \<Rightarrow> rat"
  to_radians :: rat

definition distance_to_point :: "MathFns \<Rightarrow> rat \<Rightarrow> rat \<Rightarrow> rat \<Rightarrow> rat \<Rightarrow> rat" where
  "distance_to_point mf ax ay bx by1 =
     (let a = sinf mf ((bx - ax) / 2) * sinf mf ((bx - ax) / 2)
              + cosf mf ax * cosf mf bx * sinf mf ((by1 - ay) / 2) * sinf mf ((by1 - ay) / 2);
          c = 2 * atan2f mf (sqrtf mf a) (sqrtf mf (1 - a))
      in R_EARTH * c)"

record TargetVelocity =
  tv_latitude :: rat
  tv_longitude :: rat
  tv_velocity :: rat

record SccMap =
  mp_v_target :: rat
  mp_v_ego :: rat
  mp_a_ego :: rat
  mp_output_v_target :: rat
  mp_output_a_target :: rat
  mp_enabled_param :: bool
  mp_long_enabled :: bool
  mp_long_override :: bool
  mp_is_enabled :: bool
  mp_is_active :: bool
  mp_state :: MapState
  mp_v_cruise :: rat
  target_lat :: rat
  target_lon :: rat
  mp_frame :: int
  last_position :: "rat \<times> rat"
  target_velocities :: "TargetVelocity list"

text \<open>The two parameters in memory, after \<open>json.loads\<close>: \<open>None\<close> for a missing one, or a position without its keys.\<close>

record MapInput =
  mi_position :: "(rat \<times> rat) option"
  mi_velocities :: "TargetVelocity list option"

definition coordinate_from_param :: "MapInput \<Rightarrow> rat \<times> rat" where
  "coordinate_from_param mi = (case mi_position mi of None \<Rightarrow> (0, 0) | Some p \<Rightarrow> p)"

definition velocities_from_param :: "MapInput \<Rightarrow> TargetVelocity list" where
  "velocities_from_param mi = (case mi_velocities mi of None \<Rightarrow> [] | Some vs \<Rightarrow> vs)"

definition new_SccMap :: "Params \<Rightarrow> MapInput \<Rightarrow> SccMap" where
  "new_SccMap params mi =
     \<lparr>mp_v_target = 0, mp_v_ego = 0, mp_a_ego = 0, mp_output_v_target = V_CRUISE_UNSET, mp_output_a_target = 0,
      mp_enabled_param = get_bool params ''SmartCruiseControlMap'', mp_long_enabled = False, mp_long_override = False,
      mp_is_enabled = False, mp_is_active = False, mp_state = Map_disabled, mp_v_cruise = 0, target_lat = 0,
      target_lon = 0, mp_frame = -1, last_position = coordinate_from_param mi,
      target_velocities = velocities_from_param mi\<rparr>"

definition map_update_params :: "Params \<Rightarrow> SccMap \<Rightarrow> SccMap" where
  "map_update_params params m =
     (if params_due (mp_frame m) then m\<lparr>mp_enabled_param := get_bool params ''SmartCruiseControlMap''\<rparr> else m)"

text \<open>Our place on the path: the first of the nearest points, if one is nearer than a kilometre.\<close>

fun nearest :: "rat list \<Rightarrow> nat \<Rightarrow> rat \<Rightarrow> nat \<Rightarrow> nat" where
  "nearest [] i min_dist min_idx = min_idx"
| "nearest (d # ds) i min_dist min_idx =
     (if d < min_dist then nearest ds (i + 1) d i else nearest ds (i + 1) min_dist min_idx)"

text \<open>The time in which braking with the target jerk is thought to reach the velocity \<open>tv\<close>, with the formula of the
code. A negative discriminant makes both candidates complex: \<open>None\<close>.\<close>

definition jerk_time :: "(rat \<Rightarrow> rat) \<Rightarrow> rat \<Rightarrow> rat \<Rightarrow> rat \<Rightarrow> rat option" where
  "jerk_time sq a_ego v_ego tv =
     (let a = 1/2 * TARGET_JERK; b = a_ego; c = v_ego - tv; disc = b\<^sup>2 - 4 * a * c
      in if disc < 0 then None
         else (let t_a = -1 * (sq disc + b) / 2 * a; t_b = (sq disc - b) / 2 * a
               in Some (if t_a > 0 then t_a else t_b)))"

definition braking_distance :: "(rat \<Rightarrow> rat) \<Rightarrow> rat \<Rightarrow> rat \<Rightarrow> rat \<Rightarrow> rat option" where
  "braking_distance sq a_ego v_ego tv =
     (let a_diff = a_ego - TARGET_ACCEL;
          accel_t = \<bar>a_diff / TARGET_JERK\<bar>;
          min_accel_v = calculate_velocity accel_t TARGET_JERK a_ego v_ego
      in if tv > min_accel_v
         then map_option (\<lambda>t. calculate_distance t TARGET_JERK a_ego v_ego) (jerk_time sq a_ego v_ego tv)
         else Some (calculate_distance accel_t TARGET_JERK a_ego v_ego
                    + calculate_distance \<bar>(min_accel_v - tv) / TARGET_ACCEL\<bar> 0 TARGET_ACCEL min_accel_v))"

definition must_slow :: "(rat \<Rightarrow> rat) \<Rightarrow> rat \<Rightarrow> rat \<Rightarrow> TargetVelocity \<Rightarrow> rat \<Rightarrow> bool" where
  "must_slow sq a_ego v_ego p d \<longleftrightarrow>
     tv_velocity p \<le> v_ego
     \<and> (case braking_distance sq a_ego v_ego (tv_velocity p) of
          None \<Rightarrow> False
        | Some max_d \<Rightarrow> d < max_d + tv_velocity p * TARGET_OFFSET)"

text \<open>The first point with the smallest velocity, below 100 m/s.\<close>

fun slowest :: "TargetVelocity list \<Rightarrow> rat \<times> rat \<times> rat \<Rightarrow> rat \<times> rat \<times> rat" where
  "slowest [] best = best"
| "slowest (p # ps) best =
     (if tv_velocity p < fst best then slowest ps (tv_velocity p, tv_latitude p, tv_longitude p) else slowest ps best)"

definition is_target :: "SccMap \<Rightarrow> TargetVelocity \<Rightarrow> bool" where
  "is_target m p \<longleftrightarrow> tv_velocity p \<le> mp_v_ego m \<and> tv_latitude p = target_lat m \<and> tv_longitude p = target_lon m
     \<and> tv_velocity p = mp_v_target m"

definition map_update_calculations :: "MathFns \<Rightarrow> MapInput \<Rightarrow> SccMap \<Rightarrow> SccMap" where
  "map_update_calculations mf mi m0 =
     (let m = m0\<lparr>last_position := coordinate_from_param mi, target_velocities := velocities_from_param mi\<rparr>;
          (lat, lon) = last_position m; rad = (\<lambda>x. x * to_radians mf);
          distances = map (\<lambda>p. distance_to_point mf (rad lat) (rad lon) (rad (tv_latitude p)) (rad (tv_longitude p)))
                        (target_velocities m);
          min_idx = nearest distances 0 1000 0;
          forward_points = drop min_idx (target_velocities m); forward_distances = drop min_idx distances;
          valid = map fst (filter (\<lambda>(p, d). must_slow (sqrtf mf) (mp_a_ego m) (mp_v_ego m) p d)
                    (zip forward_points forward_distances));
          (min_v, lat1, lon1) = slowest valid (100, 0, 0)
      in if mp_v_target m < min_v \<and> \<not> (target_lat m = 0 \<and> target_lon m = 0) \<and> list_ex (is_target m) forward_points
         then m
         else m\<lparr>mp_v_target := min_v, target_lat := lat1, target_lon := lon1\<rparr>)"

definition slower_ahead :: "SccMap \<Rightarrow> bool" where
  "slower_ahead m \<longleftrightarrow> mp_v_cruise m > mp_v_target m \<and> mp_v_target m \<noteq> 0"

definition map_next :: "SccMap \<Rightarrow> MapState" where
  "map_next m =
     (if mp_state m \<noteq> Map_disabled then
        (if \<not> mp_long_enabled m \<or> \<not> mp_enabled_param m then Map_disabled
         else if mp_long_override m then Map_overriding
         else case mp_state m of
             Map_enabled \<Rightarrow> (if slower_ahead m then Map_turning else Map_enabled)
           | Map_turning \<Rightarrow> (if mp_v_cruise m \<le> mp_v_target m \<or> mp_v_target m = 0 then Map_enabled else Map_turning)
           | Map_overriding \<Rightarrow> (if \<not> mp_long_override m then (if slower_ahead m then Map_turning else Map_enabled) else Map_overriding)
           | Map_disabled \<Rightarrow> Map_disabled)
      else if mp_long_enabled m \<and> mp_enabled_param m then (if mp_long_override m then Map_overriding else Map_enabled)
      else Map_disabled)"

definition map_update_state_machine :: "SccMap \<Rightarrow> SccMap" where
  "map_update_state_machine m =
     (let s = map_next m
      in m\<lparr>mp_state := s, mp_is_enabled := s \<in> set MAP_ENABLED_STATES, mp_is_active := s \<in> set MAP_ACTIVE_STATES\<rparr>)"

definition map_v_target_from_control :: "SccMap \<Rightarrow> rat" where
  "map_v_target_from_control m = (if mp_is_active m then max (mp_v_target m) MIN_V else V_CRUISE_UNSET)"

definition map_update :: "MathFns \<Rightarrow> MapInput \<Rightarrow> SccInput \<Rightarrow> SccMap \<Rightarrow> SccMap" where
  "map_update mf mi si m0 =
     (let m1 = m0\<lparr>mp_long_enabled := sci_long_enabled si, mp_long_override := sci_long_override si,
                  mp_v_ego := sci_v_ego si, mp_a_ego := sci_a_ego si, mp_v_cruise := sci_v_cruise si\<rparr>;
          m2 = map_update_state_machine (map_update_calculations mf mi (map_update_params (sci_params si) m1))
      in m2\<lparr>mp_output_v_target := map_v_target_from_control m2, mp_output_a_target := mp_a_ego m2,
            mp_frame := mp_frame m2 + 1\<rparr>)"

section \<open>SmartCruiseControl\<close>

record SmartCruiseControl =
  scc_vision :: SccVision
  scc_map :: SccMap

definition new_SmartCruiseControl :: "Params \<Rightarrow> MapInput \<Rightarrow> SmartCruiseControl" where
  "new_SmartCruiseControl params mi = \<lparr>scc_vision = new_SccVision params, scc_map = new_SccMap params mi\<rparr>"

definition scc_update :: "MathFns \<Rightarrow> MapInput \<Rightarrow> SccInput \<Rightarrow> SmartCruiseControl \<Rightarrow> SmartCruiseControl option" where
  "scc_update mf mi si s =
     (let m = map_update mf mi si (scc_map s)
      in map_option (\<lambda>v. \<lparr>scc_vision = v, scc_map = m\<rparr>) (vision_update (sqrtf mf) si (scc_vision s)))"

end
