(* ===== verification/E2EAlerts.thy ===== *)
theory E2EAlerts
  imports SpeedLimit EventPair
begin

text \<open>
  The chimes of \<open>sunnypilot/selfdrive/controls/lib/e2e_alerts_helper.py\<close>: the light turns green, the lead
  departs. Timers count model frames of 50 ms. The comparison \<open>timer * DT_MDL > 0.3\<close> holds from 6 frames on,
  because the float \<open>6 * 0.05\<close> is a little more than \<open>0.3\<close>; the others are exact.
\<close>

datatype E2EState = E2E_inactive | E2E_armed | E2E_consumed

definition GREEN_LIGHT_X_THRESHOLD :: rat where "GREEN_LIGHT_X_THRESHOLD = 30"
definition LEAD_DEPART_DIST_THRESHOLD :: rat where "LEAD_DEPART_DIST_THRESHOLD = 1"

definition trigger_time_over :: "int \<Rightarrow> bool" where "trigger_time_over timer \<longleftrightarrow> timer \<ge> 6"

record E2EAlertsHelper =
  e2_frame :: int
  green_light_state :: E2EState
  lead_depart_state :: E2EState
  green_light_alert :: bool
  green_light_alert_enabled :: bool
  lead_depart_alert :: bool
  lead_depart_alert_enabled :: bool
  green_light_trigger_timer :: int
  lead_depart_trigger_timer :: int
  last_lead_distance :: rat
  last_moving_frame :: int
  allowed :: bool
  last_allowed :: bool
  e2_has_lead :: bool
  lead_depart_arm_timer :: int
  lead_depart_confirmed_lead :: bool
  lead_depart_armed :: bool

definition new_E2EAlertsHelper :: "Params \<Rightarrow> E2EAlertsHelper" where
  "new_E2EAlertsHelper params =
     \<lparr>e2_frame = -1, green_light_state = E2E_inactive, lead_depart_state = E2E_inactive,
      green_light_alert = False, green_light_alert_enabled = get_bool params ''GreenLightAlert'',
      lead_depart_alert = False, lead_depart_alert_enabled = get_bool params ''LeadDepartAlert'',
      green_light_trigger_timer = 0, lead_depart_trigger_timer = 0, last_lead_distance = -1,
      last_moving_frame = -1, allowed = False, last_allowed = False, e2_has_lead = False,
      lead_depart_arm_timer = 0, lead_depart_confirmed_lead = False, lead_depart_armed = False\<rparr>"

record E2EInput =
  e2i_params :: Params
  e2i_CS :: CarState
  e2i_CC_enabled :: bool
  e2i_model_x :: "rat list"
  e2i_lead_status :: bool
  e2i_lead_dRel :: rat

definition e2e_read_params :: "Params \<Rightarrow> E2EAlertsHelper \<Rightarrow> E2EAlertsHelper" where
  "e2e_read_params params h =
     (if e2_frame h mod py_trunc (PARAMS_UPDATE_PERIOD / DT_MDL) = 0
      then h\<lparr>green_light_alert_enabled := get_bool params ''GreenLightAlert'',
             lead_depart_alert_enabled := get_bool params ''LeadDepartAlert''\<rparr>
      else h)"

definition update_allowed_alerts :: "E2EInput \<Rightarrow> E2EAlertsHelper \<Rightarrow> E2EAlertsHelper" where
  "update_allowed_alerts ei h =
     (let CS = e2i_CS ei;
          moving = (\<not> cs_standstill CS \<and> cs_vEgo CS > 1/10);
          h1 = h\<lparr>e2_has_lead := e2i_lead_status ei, last_moving_frame := (if moving then e2_frame h else last_moving_frame h)\<rparr>;
          recent_moving = (last_moving_frame h1 = -1 \<or> of_int (e2_frame h1 - last_moving_frame h1) * DT_MDL < 2)
      in h1\<lparr>allowed := \<not> moving \<and> \<not> cs_gasPressed CS \<and> \<not> e2i_CC_enabled ei \<and> \<not> recent_moving\<rparr>)"

text \<open>The last point of an empty path raises \<open>IndexError\<close>.\<close>

definition green_light_step :: "E2EInput \<Rightarrow> E2EAlertsHelper \<Rightarrow> (bool \<times> E2EAlertsHelper) option" where
  "green_light_step ei h =
     (if green_light_state h = E2E_armed then
        (if e2i_model_x ei = [] then None
         else (let n = (if last (e2i_model_x ei) > GREEN_LIGHT_X_THRESHOLD then green_light_trigger_timer h + 1 else 0)
               in Some (trigger_time_over n, h\<lparr>green_light_trigger_timer := n\<rparr>)))
      else Some (False, h\<lparr>green_light_trigger_timer := 0\<rparr>))"

definition lead_depart_arm :: "E2EInput \<Rightarrow> E2EAlertsHelper \<Rightarrow> E2EAlertsHelper" where
  "lead_depart_arm ei h =
     (let close_lead_valid = (e2_has_lead h \<and> e2i_lead_dRel ei < 8);
          confirmed = (if allowed h \<and> \<not> last_allowed h \<and> close_lead_valid then True
                       else if \<not> allowed h then False else lead_depart_confirmed_lead h);
          n = lead_depart_arm_timer h + 1
      in if allowed h \<and> confirmed \<and> close_lead_valid
         then h\<lparr>lead_depart_confirmed_lead := confirmed, lead_depart_arm_timer := n,
                lead_depart_armed := (if of_int n * DT_MDL \<ge> 1 then True else lead_depart_armed h)\<rparr>
         else h\<lparr>lead_depart_confirmed_lead := confirmed, lead_depart_arm_timer := 0, lead_depart_armed := False\<rparr>)"

definition lead_depart_step :: "E2EInput \<Rightarrow> E2EAlertsHelper \<Rightarrow> bool \<times> E2EAlertsHelper" where
  "lead_depart_step ei h =
     (if lead_depart_state h = E2E_armed then
        (let dRel = e2i_lead_dRel ei;
             d = (if last_lead_distance h = -1 \<or> dRel < last_lead_distance h then dRel else last_lead_distance h);
             n = (if d \<noteq> -1 \<and> dRel - d > LEAD_DEPART_DIST_THRESHOLD then lead_depart_trigger_timer h + 1 else 0)
         in (trigger_time_over n, h\<lparr>last_lead_distance := d, lead_depart_trigger_timer := n\<rparr>))
      else (False, h\<lparr>last_lead_distance := -1, lead_depart_trigger_timer := 0\<rparr>))"

definition update_alert_trigger :: "E2EInput \<Rightarrow> E2EAlertsHelper \<Rightarrow> (bool \<times> bool \<times> E2EAlertsHelper) option" where
  "update_alert_trigger ei h0 =
     (case green_light_step ei (update_allowed_alerts ei h0) of
        None \<Rightarrow> None
      | Some (green, h1) \<Rightarrow>
          (let (lead, h2) = lead_depart_step ei (lead_depart_arm ei h1)
           in Some (green, lead, h2\<lparr>last_allowed := allowed h2\<rparr>)))"

definition e2e_next :: "E2EState \<Rightarrow> bool \<Rightarrow> bool \<Rightarrow> bool \<Rightarrow> E2EState \<times> bool" where
  "e2e_next st enabled allow triggered =
     (if st \<noteq> E2E_inactive then
        (if \<not> allow \<or> \<not> enabled then E2E_inactive
         else if st = E2E_armed then (if triggered then E2E_consumed else st) else st)
      else if allow \<and> enabled then E2E_armed else st, triggered)"

definition e2e_update :: "E2EInput \<Rightarrow> E2EAlertsHelper \<times> EventsState \<Rightarrow> (E2EAlertsHelper \<times> EventsState) option" where
  "e2e_update ei = (\<lambda>(h0, sp).
     (case update_alert_trigger ei (e2e_read_params (e2i_params ei) h0) of
        None \<Rightarrow> None
      | Some (green, lead, h) \<Rightarrow>
          (let (gs, ga) = e2e_next (green_light_state h) (green_light_alert_enabled h) (allowed h \<and> \<not> e2_has_lead h) green;
               (ls, la) = e2e_next (lead_depart_state h) (lead_depart_alert_enabled h) (allowed h \<and> lead_depart_armed h) lead
           in Some (h\<lparr>green_light_state := gs, green_light_alert := ga, lead_depart_state := ls, lead_depart_alert := la,
                      e2_frame := e2_frame h + 1\<rparr>,
                    if ga \<or> la then add sp ENSP_e2eChime else sp))))"


section \<open>Alerts that need a wait\<close>

fun run_states :: "('i \<Rightarrow> 's \<Rightarrow> 's option) \<Rightarrow> 'i list \<Rightarrow> 's \<Rightarrow> 's list option" where
  "run_states step [] s = Some []"
| "run_states step (i # ins) s =
     (case step i s of None \<Rightarrow> None | Some s' \<Rightarrow> map_option (\<lambda>ss. s' # ss) (run_states step ins s'))"

text \<open>Alerts are at least \<open>n\<close> frames apart, when the last one was \<open>r\<close> frames ago.\<close>

fun spaced :: "nat \<Rightarrow> nat \<Rightarrow> bool list \<Rightarrow> bool" where
  "spaced n r [] = True"
| "spaced n r (a # as) = (if a then n \<le> r + 1 \<and> spaced n 0 as else spaced n (r + 1) as)"

text \<open>An alert is armed, its timer counts, and when it fires it is no longer armed.\<close>

locale armed_alert =
  fixes step :: "'i \<Rightarrow> 's \<Rightarrow> 's option"
    and armed :: "'s \<Rightarrow> bool" and timer :: "'s \<Rightarrow> int" and alert :: "'s \<Rightarrow> bool"
  assumes fires: "step i s = Some s' \<Longrightarrow> alert s' \<Longrightarrow> armed s \<and> 5 \<le> timer s \<and> \<not> armed s'"
    and counts: "step i s = Some s' \<Longrightarrow> armed s' \<Longrightarrow> timer s' \<le> (if armed s then timer s + 1 else 0)"
begin

lemma alerts_spaced:
  assumes "run_states step ins s = Some ss" "armed s \<Longrightarrow> timer s + 1 \<le> int r"
  shows "spaced 7 r (map alert ss)"
  using assms
proof (induction ins arbitrary: s ss r)
  case (Cons i ins)
  obtain s' ss' where s': "step i s = Some s'" "run_states step ins s' = Some ss'" "ss = s' # ss'"
    using Cons.prems(1) by (auto split: option.splits)
  show ?case
  proof (cases "alert s'")
    case True
    then have "6 \<le> r" "\<not> armed s'"
      using fires [OF s'(1)] Cons.prems(2) by auto
    then show ?thesis
      using True Cons.IH [OF s'(2), of 0] s'(3) by simp
  next
    case False
    have "armed s' \<Longrightarrow> timer s' + 1 \<le> int (r + 1)"
      using counts [OF s'(1)] Cons.prems(2) by (auto split: if_splits)
    then show ?thesis
      using False Cons.IH [OF s'(2), of "r + 1"] s'(3) by simp
  qed
qed simp

end

lemma allowed_fields [simp]:
  "green_light_state (update_allowed_alerts ei h) = green_light_state h"
  "lead_depart_state (update_allowed_alerts ei h) = lead_depart_state h"
  "green_light_trigger_timer (update_allowed_alerts ei h) = green_light_trigger_timer h"
  "lead_depart_trigger_timer (update_allowed_alerts ei h) = lead_depart_trigger_timer h"
  "green_light_state (e2e_read_params p h) = green_light_state h"
  "lead_depart_state (e2e_read_params p h) = lead_depart_state h"
  "green_light_trigger_timer (e2e_read_params p h) = green_light_trigger_timer h"
  "lead_depart_trigger_timer (e2e_read_params p h) = lead_depart_trigger_timer h"
  "green_light_state (lead_depart_arm ei h) = green_light_state h"
  "lead_depart_state (lead_depart_arm ei h) = lead_depart_state h"
  "green_light_trigger_timer (lead_depart_arm ei h) = green_light_trigger_timer h"
  "lead_depart_trigger_timer (lead_depart_arm ei h) = lead_depart_trigger_timer h"
  by (simp_all add: update_allowed_alerts_def e2e_read_params_def lead_depart_arm_def Let_def)

lemma triggers:
  assumes "update_alert_trigger ei h = Some (green, lead, h')"
  shows "green_light_state h' = green_light_state h" "lead_depart_state h' = lead_depart_state h"
    "green \<Longrightarrow> green_light_state h = E2E_armed \<and> 5 \<le> green_light_trigger_timer h"
    "lead \<Longrightarrow> lead_depart_state h = E2E_armed \<and> 5 \<le> lead_depart_trigger_timer h"
    "green_light_trigger_timer h' = 0 \<or> green_light_state h = E2E_armed \<and> green_light_trigger_timer h' = green_light_trigger_timer h + 1"
    "lead_depart_trigger_timer h' = 0 \<or> lead_depart_state h = E2E_armed \<and> lead_depart_trigger_timer h' = lead_depart_trigger_timer h + 1"
  using assms
  by (auto simp: update_alert_trigger_def green_light_step_def lead_depart_step_def trigger_time_over_def Let_def
      split: option.splits if_splits)

lemma e2e_next_law:
  "snd (e2e_next st en al t) = t" "st = E2E_armed \<Longrightarrow> t \<Longrightarrow> fst (e2e_next st en al t) \<noteq> E2E_armed"
  by (auto simp: e2e_next_def)

lemma e2e_updateE:
  assumes "e2e_update ei s = Some s'"
  obtains green lead h where "update_alert_trigger ei (e2e_read_params (e2i_params ei) (fst s)) = Some (green, lead, h)"
    "green_light_alert (fst s') = green" "lead_depart_alert (fst s') = lead"
    "green_light_state (fst s') = fst (e2e_next (green_light_state h) (green_light_alert_enabled h) (allowed h \<and> \<not> e2_has_lead h) green)"
    "lead_depart_state (fst s') = fst (e2e_next (lead_depart_state h) (lead_depart_alert_enabled h) (allowed h \<and> lead_depart_armed h) lead)"
    "green_light_trigger_timer (fst s') = green_light_trigger_timer h" "lead_depart_trigger_timer (fst s') = lead_depart_trigger_timer h"
  using assms
  by (auto simp: e2e_update_def Let_def e2e_next_law split: option.splits prod.splits)
    (metis e2e_next_law(1) fst_conv snd_conv)+

abbreviation "green_timer s \<equiv> max 0 (green_light_trigger_timer (fst s))"
abbreviation "lead_timer s \<equiv> max 0 (lead_depart_trigger_timer (fst s))"

lemma alert_laws:
  assumes "e2e_update ei s = Some s'"
  shows "green_light_alert (fst s') \<Longrightarrow>
      green_light_state (fst s) = E2E_armed \<and> 5 \<le> green_timer s \<and> green_light_state (fst s') \<noteq> E2E_armed"
    "green_light_state (fst s') = E2E_armed \<Longrightarrow>
      green_timer s' \<le> (if green_light_state (fst s) = E2E_armed then green_timer s + 1 else 0)"
    "lead_depart_alert (fst s') \<Longrightarrow>
      lead_depart_state (fst s) = E2E_armed \<and> 5 \<le> lead_timer s \<and> lead_depart_state (fst s') \<noteq> E2E_armed"
    "lead_depart_state (fst s') = E2E_armed \<Longrightarrow>
      lead_timer s' \<le> (if lead_depart_state (fst s) = E2E_armed then lead_timer s + 1 else 0)"
proof -
  obtain green lead h where u: "update_alert_trigger ei (e2e_read_params (e2i_params ei) (fst s)) = Some (green, lead, h)"
    and f: "green_light_alert (fst s') = green" "lead_depart_alert (fst s') = lead"
    "green_light_state (fst s') = fst (e2e_next (green_light_state h) (green_light_alert_enabled h) (allowed h \<and> \<not> e2_has_lead h) green)"
    "lead_depart_state (fst s') = fst (e2e_next (lead_depart_state h) (lead_depart_alert_enabled h) (allowed h \<and> lead_depart_armed h) lead)"
    "green_light_trigger_timer (fst s') = green_light_trigger_timer h" "lead_depart_trigger_timer (fst s') = lead_depart_trigger_timer h"
    using assms by (rule e2e_updateE)
  note t = triggers [OF u, simplified]
  show "green_light_alert (fst s') \<Longrightarrow>
      green_light_state (fst s) = E2E_armed \<and> 5 \<le> green_timer s \<and> green_light_state (fst s') \<noteq> E2E_armed"
    using t(1,3) f(1,3) e2e_next_law(2) by auto
  show "lead_depart_alert (fst s') \<Longrightarrow>
      lead_depart_state (fst s) = E2E_armed \<and> 5 \<le> lead_timer s \<and> lead_depart_state (fst s') \<noteq> E2E_armed"
    using t(2,4) f(2,4) e2e_next_law(2) by auto
  show "green_timer s' \<le> (if green_light_state (fst s) = E2E_armed then green_timer s + 1 else 0)"
    using t(5) f(5) by auto
  show "lead_timer s' \<le> (if lead_depart_state (fst s) = E2E_armed then lead_timer s + 1 else 0)"
    using t(6) f(6) by auto
qed

interpretation green: armed_alert e2e_update "\<lambda>s. green_light_state (fst s) = E2E_armed" green_timer "\<lambda>s. green_light_alert (fst s)"
  by unfold_locales (fact alert_laws)+

interpretation lead: armed_alert e2e_update "\<lambda>s. lead_depart_state (fst s) = E2E_armed" lead_timer "\<lambda>s. lead_depart_alert (fst s)"
  by unfold_locales (fact alert_laws)+

text \<open>The chimes do not repeat: two chimes for a green light, and two for a departing lead, are at least seven model
frames apart, and neither sounds in the first six frames of the process.\<close>

theorem chimes_are_apart:
  "case run_states e2e_update eis (new_E2EAlertsHelper params, sp) of
     None \<Rightarrow> True
   | Some ss \<Rightarrow> spaced 7 0 (map (\<lambda>s. green_light_alert (fst s)) ss) \<and> spaced 7 0 (map (\<lambda>s. lead_depart_alert (fst s)) ss)"
  using green.alerts_spaced [of eis "(new_E2EAlertsHelper params, sp)" _ 0]
    lead.alerts_spaced [of eis "(new_E2EAlertsHelper params, sp)" _ 0]
  by (auto simp: new_E2EAlertsHelper_def split: option.split)

end
