(* ===== verification/PlannerSP.thy ===== *)
theory PlannerSP
  imports SmartCruise E2EAlerts Dec LongControl
begin

text \<open>
  \<open>LongitudinalPlannerSP\<close> of \<open>sunnypilot/selfdrive/controls/lib/longitudinal_planner.py\<close>: in every model frame it
  takes the lowest of the speeds that the driver, smart cruise control and speed limit assist ask for, and
  decides whether the model's own plan is used.
\<close>

section \<open>Inputs\<close>

text \<open>The fields of the driving model's message that the planner reads.\<close>

record ModelMsg =
  md_position_x :: "rat list"
  md_velocity_x :: "rat list"
  md_acceleration_x :: "rat list"
  md_orientation_x :: "rat list"
  md_orientationRate_z :: "rat list"
  md_gasPressProbs :: "rat list"
  md_desiredAcceleration :: rat
  md_shouldStop :: bool

text \<open>The messages of a frame, the parameters, and the clock.\<close>

record PlannerInput =
  pi_CS :: CarState
  pi_model :: ModelMsg
  pi_CC_enabled :: bool
  pi_CC_override :: bool
  pi_CC_orientationNED :: "rat list"
  pi_experimentalMode :: bool
  pi_selfdrive_enabled :: bool
  pi_personality :: nat
  pi_longControlState :: LongCtrlState
  pi_forceDecel :: bool
  pi_curvature :: rat
  pi_angleOffsetDeg :: rat
  pi_lead_status :: bool
  pi_lead_dRel :: rat
  pi_limits :: ResolverInput
  pi_map :: MapInput
  pi_now :: rat

text \<open>What stays the same: the car, the defaults of the parameters, the functions of \<open>math\<close>, and the constants of
the submodule \<open>opendbc\<close>. \<open>CarParams\<close> has further fields here, which only the planner reads.\<close>

record PlannerEnv =
  pe_CP :: CarParams
  pe_CP_SP :: CarParamsSP
  pe_radarUnavailable :: bool
  pe_steerRatio :: rat
  pe_wheelbase :: rat
  pe_longitudinalActuatorDelay :: rat
  pe_vEgoStopping :: rat
  pe_dflt :: "string \<Rightarrow> int"
  pe_math :: MathFns
  pe_opendbc :: Opendbc

section \<open>LongitudinalPlannerSP\<close>

datatype LongitudinalPlanSource = S_cruise | S_sccVision | S_sccMap | S_speedLimitAssist

record PlannerSP =
  pl_events_sp :: EventsState
  pl_resolver :: SpeedLimitResolver
  pl_dec :: Dec
  pl_scc :: SmartCruiseControl
  pl_sla :: SpeedLimitAssist
  pl_source :: LongitudinalPlanSource
  pl_e2e_alerts_helper :: E2EAlertsHelper
  pl_output_v_target :: rat
  pl_output_a_target :: rat

text \<open>The resolver is constructed twice, as in the code; the attribute \<open>generation\<close> is not read.\<close>

definition new_PlannerSP :: "PlannerEnv \<Rightarrow> 'a events_mapping \<Rightarrow> MapInput \<Rightarrow> Params \<Rightarrow> PlannerSP \<times> Params" where
  "new_PlannerSP pe mapping mi params =
     (let (_, params1) = new_SpeedLimitResolver (pe_dflt pe) params;
          dec = new_Dec params1;
          scc = new_SmartCruiseControl params1 mi;
          (rs, params2) = new_SpeedLimitResolver (pe_dflt pe) params1;
          (sla, params3) = new_SpeedLimitAssist (pe_CP pe) (pe_CP_SP pe) (pe_dflt pe) params2
      in (\<lparr>pl_events_sp = init_events mapping, pl_resolver = rs, pl_dec = dec, pl_scc = scc, pl_sla = sla,
           pl_source = S_cruise, pl_e2e_alerts_helper = new_E2EAlertsHelper params3, pl_output_v_target = 0,
           pl_output_a_target = 0\<rparr>, params3))"

definition is_e2e :: "PlannerInput \<Rightarrow> PlannerSP \<Rightarrow> bool" where
  "is_e2e pin p =
     (if \<not> dec_active (pl_dec p) then pi_experimentalMode pin
      else pi_experimentalMode pin \<and> dec_mode (pl_dec p) = Mode_blended)"

text \<open>\<open>min(targets, key=...)\<close>: the first of the smallest. The first entry is finite, and neither infinity nor a
value that is not a number compares as smaller, so the chosen speed is finite.\<close>

fun pick_target :: "LongitudinalPlanSource \<times> rat \<times> rat \<Rightarrow> (LongitudinalPlanSource \<times> Float \<times> rat) list \<Rightarrow>
    LongitudinalPlanSource \<times> rat \<times> rat" where
  "pick_target best [] = best"
| "pick_target best ((s, Fin v, a) # ts) = pick_target (if v < fst (snd best) then (s, v, a) else best) ts"
| "pick_target best ((s, PosInf, a) # ts) = pick_target best ts"
| "pick_target best ((s, NaN, a) # ts) = pick_target best ts"

definition scc_input :: "PlannerInput \<Rightarrow> Params \<Rightarrow> rat \<Rightarrow> rat \<Rightarrow> rat \<Rightarrow> SccInput" where
  "scc_input pin params v_ego a_ego v_cruise =
     \<lparr>sci_params = params, sci_orientationRate_z = md_orientationRate_z (pi_model pin),
      sci_velocity_x = md_velocity_x (pi_model pin), sci_curvature = pi_curvature pin,
      sci_long_enabled = pi_CC_enabled pin, sci_long_override = pi_CC_override pin, sci_v_ego = v_ego,
      sci_a_ego = a_ego, sci_v_cruise = v_cruise\<rparr>"

definition assist_input :: "PlannerInput \<Rightarrow> SpeedLimitResolver \<Rightarrow> rat \<Rightarrow> rat \<Rightarrow> AssistInput" where
  "assist_input pin rs v_ego a_ego =
     \<lparr>in_long_enabled = pi_CC_enabled pin, in_v_ego = v_ego, in_a_ego = a_ego,
      in_v_cruise_cluster = min (cs_vCruiseCluster (pi_CS pin)) V_CRUISE_MAX * KPH_TO_MS,
      in_speed_limit = speed_limit rs, in_speed_limit_final_last = speed_limit_final_last rs,
      in_has_speed_limit = (speed_limit_valid rs \<or> speed_limit_last_valid rs), in_distance = rs_distance rs\<rparr>"

definition plan_targets :: "SmartCruiseControl \<Rightarrow> SpeedLimitAssist \<Rightarrow> (LongitudinalPlanSource \<times> Float \<times> rat) list" where
  "plan_targets scc sla =
     [(S_sccVision, vi_output_v_target (scc_vision scc), vi_output_a_target (scc_vision scc)),
      (S_sccMap, Fin (mp_output_v_target (scc_map scc)), mp_output_a_target (scc_map scc)),
      (S_speedLimitAssist, Fin (output_v_target sla), output_a_target sla)]"

definition update_targets :: "PlannerEnv \<Rightarrow> PlannerInput \<Rightarrow> rat \<Rightarrow> rat \<Rightarrow> rat \<Rightarrow> PlannerSP \<times> Params \<Rightarrow>
    (PlannerSP \<times> Params) option" where
  "update_targets pe pin v_ego a_ego v_cruise = (\<lambda>(p, params). do {
     scc \<leftarrow> scc_update (pe_math pe) (pi_map pin) (scc_input pin params v_ego a_ego v_cruise) (pl_scc p);
     rs \<leftarrow> rs_update (pe_dflt pe) params v_ego (pi_limits pin) (pl_resolver p);
     let (sla, params1, sp) = sla_update (pe_CP pe) (pe_CP_SP pe) (pe_dflt pe) (pi_now pin)
           (assist_input pin rs v_ego a_ego) (pl_sla p, params, pl_events_sp p);
     let (s, v, a) = pick_target (S_cruise, v_cruise, a_ego) (plan_targets scc sla);
     Some (p\<lparr>pl_scc := scc, pl_resolver := rs, pl_sla := sla, pl_events_sp := sp, pl_source := s,
             pl_output_v_target := v, pl_output_a_target := a\<rparr>, params1)
   })"

definition dec_input :: "PlannerInput \<Rightarrow> Params \<Rightarrow> int \<Rightarrow> DecInput" where
  "dec_input pin params crash_cnt =
     \<lparr>dci_CS = pi_CS pin, dci_lead_status = pi_lead_status pin, dci_position_x = md_position_x (pi_model pin),
      dci_orientation_x = md_orientation_x (pi_model pin), dci_experimentalMode = pi_experimentalMode pin,
      dci_crash_cnt = crash_cnt, dci_params = params\<rparr>"

definition e2e_input :: "PlannerInput \<Rightarrow> Params \<Rightarrow> E2EInput" where
  "e2e_input pin params =
     \<lparr>e2i_params = params, e2i_CS = pi_CS pin, e2i_CC_enabled = pi_CC_enabled pin,
      e2i_model_x = md_position_x (pi_model pin), e2i_lead_status = pi_lead_status pin,
      e2i_lead_dRel = pi_lead_dRel pin\<rparr>"

definition planner_sp_update :: "PlannerEnv \<Rightarrow> PlannerInput \<Rightarrow> int \<Rightarrow> Params \<Rightarrow> PlannerSP \<Rightarrow> PlannerSP option" where
  "planner_sp_update pe pin crash_cnt params p =
     (let dec = dec_update (pe_radarUnavailable pe) (dec_input pin params crash_cnt) (pl_dec p)
      in map_option (\<lambda>(h, sp). p\<lparr>pl_dec := dec, pl_e2e_alerts_helper := h, pl_events_sp := sp\<rparr>)
           (e2e_update (e2e_input pin params) (pl_e2e_alerts_helper p, clear (pl_events_sp p))))"

section \<open>The published plan\<close>

record PlanSPMsg =
  sp_valid :: bool
  sp_longitudinalPlanSource :: LongitudinalPlanSource
  sp_vTarget :: rat
  sp_aTarget :: rat
  sp_events :: "(event \<times> ET list) list"
  sp_dec_blended :: bool
  sp_dec_enabled :: bool
  sp_dec_active :: bool
  sp_vision :: "VisionState \<times> Float \<times> rat \<times> rat \<times> rat \<times> bool \<times> bool"
  sp_map :: "MapState \<times> rat \<times> rat \<times> bool \<times> bool"
  sp_resolver :: SpeedLimitResolver
  sp_assist :: "AssistState \<times> bool \<times> bool \<times> rat \<times> rat"
  sp_greenLightAlert :: bool
  sp_leadDepartAlert :: bool

definition publish_longitudinal_plan_sp :: "'a events_mapping \<Rightarrow> bool \<Rightarrow> PlannerSP \<Rightarrow> PlanSPMsg" where
  "publish_longitudinal_plan_sp mapping checks p =
     (let v = scc_vision (pl_scc p); m = scc_map (pl_scc p); sla = pl_sla p
      in \<lparr>sp_valid = checks, sp_longitudinalPlanSource = pl_source p, sp_vTarget = pl_output_v_target p,
          sp_aTarget = pl_output_a_target p, sp_events = to_msg mapping (pl_events_sp p),
          sp_dec_blended = (dec_mode (pl_dec p) = Mode_blended), sp_dec_enabled = dec_enabled (pl_dec p),
          sp_dec_active = dec_active (pl_dec p),
          sp_vision = (vi_state v, vi_output_v_target v, vi_output_a_target v, current_lat_acc v, max_pred_lat_acc v,
                       vi_is_enabled v, vi_is_active v),
          sp_map = (mp_state m, mp_output_v_target m, mp_output_a_target m, mp_is_enabled m, mp_is_active m),
          sp_resolver = pl_resolver p,
          sp_assist = (sla_state sla, is_enabled sla, is_active sla, output_v_target sla, output_a_target sla),
          sp_greenLightAlert = green_light_alert (pl_e2e_alerts_helper p),
          sp_leadDepartAlert = lead_depart_alert (pl_e2e_alerts_helper p)\<rparr>)"

end
