(* ===== verification/LongPlanner.thy ===== *)
theory LongPlanner
  imports PlannerSP DriverMonitor
begin

text \<open>
  The process \<open>plannerd\<close>: \<open>LongitudinalPlanner\<close> (\<open>selfdrive/controls/lib/longitudinal_planner.py\<close>), which turns
  the set speed, the model and the solver's plan into a target acceleration, the lane departure warning
  (\<open>ldw.py\<close>) and the loop of \<open>selfdrive/controls/plannerd.py\<close>.

  The model predictive controller (\<open>LongitudinalMpc\<close>) runs a solver that the build generates: it is the argument
  \<open>mpc\<close>, with a state of its own type, whatever it computes.
\<close>

definition index_function :: "nat \<Rightarrow> rat \<Rightarrow> rat \<Rightarrow> rat" where
  "index_function idx max_val max_idx = max_val * (of_nat idx / max_idx)\<^sup>2"

definition IDX_N :: nat where "IDX_N = 33"
definition CONTROL_N :: nat where "CONTROL_N = 17"
definition T_IDXS :: "rat list" where "T_IDXS = map (\<lambda>i. index_function i 10 32) [0..<IDX_N]"
definition T_IDXS_MPC :: "rat list" where "T_IDXS_MPC = map (\<lambda>i. index_function i 10 12) [0..<13]"
definition CONTROL_N_T_IDX :: "rat list" where "CONTROL_N_T_IDX = take CONTROL_N T_IDXS"

text \<open>\<open>np.interp\<close> at every element of an array.\<close>

definition interp_all :: "rat list \<Rightarrow> rat list \<Rightarrow> rat list \<Rightarrow> rat list option" where
  "interp_all ts xp fp = those (map (\<lambda>t. np_interp t xp fp) ts)"

section \<open>Acceleration limits\<close>

definition A_CRUISE_MAX_VALS :: "rat list" where "A_CRUISE_MAX_VALS = [16/10, 12/10, 8/10, 6/10]"
definition A_CRUISE_MAX_BP :: "rat list" where "A_CRUISE_MAX_BP = [0, 10, 25, 40]"
definition A_TOTAL_MAX_V :: "rat list" where "A_TOTAL_MAX_V = [17/10, 32/10]"
definition A_TOTAL_MAX_BP :: "rat list" where "A_TOTAL_MAX_BP = [20, 40]"
definition ALLOW_THROTTLE_THRESHOLD :: rat where "ALLOW_THROTTLE_THRESHOLD = 4/10"
definition MIN_ALLOW_THROTTLE_SPEED :: rat where "MIN_ALLOW_THROTTLE_SPEED = 25/10"

definition get_max_accel :: "rat \<Rightarrow> rat option" where
  "get_max_accel v_ego = np_interp v_ego A_CRUISE_MAX_BP A_CRUISE_MAX_VALS"

definition get_coast_accel :: "MathFns \<Rightarrow> rat \<Rightarrow> rat" where
  "get_coast_accel mf pitch = sinf mf pitch * (-565/100) - 3/10"

definition limit_accel_in_turns :: "PlannerEnv \<Rightarrow> rat \<Rightarrow> rat \<Rightarrow> rat \<times> rat \<Rightarrow> (rat \<times> rat) option" where
  "limit_accel_in_turns pe v_ego angle_steers a_target = do {
     a_total_max \<leftarrow> np_interp v_ego A_TOTAL_MAX_BP A_TOTAL_MAX_V;
     if pe_steerRatio pe * pe_wheelbase pe = 0 then None
     else (let a_y = v_ego\<^sup>2 * angle_steers * to_radians (pe_math pe) / (pe_steerRatio pe * pe_wheelbase pe);
               a_x_allowed = sqrtf (pe_math pe) (max (a_total_max\<^sup>2 - a_y\<^sup>2) 0)
           in Some (fst a_target, min (snd a_target) a_x_allowed))
   }"

section \<open>LongitudinalPlanner\<close>

text \<open>The controller: its step is given what constrains it, the personality, the current speed and acceleration and
the cruise speed (it also reads the radar's message); the result are the trajectories and the number of predicted crashes.\<close>

record 'm Mpc =
  mpc_step :: "bool \<Rightarrow> nat \<Rightarrow> rat \<Rightarrow> rat \<Rightarrow> PlannerInput \<Rightarrow> rat \<Rightarrow> 'm \<Rightarrow> 'm option"
  mpc_v_solution :: "'m \<Rightarrow> rat list"
  mpc_a_solution :: "'m \<Rightarrow> rat list"
  mpc_j_solution :: "'m \<Rightarrow> rat list"
  mpc_crash_cnt :: "'m \<Rightarrow> int"
  mpc_source :: "'m \<Rightarrow> string"

record 'm Planner =
  lp_sp :: PlannerSP
  lp_mpc :: 'm
  lp_mpc_source :: string
  lp_fcw :: bool
  lp_allow_throttle :: bool
  lp_a_desired :: rat
  lp_v_desired_filter :: FirstOrderFilter
  lp_prev_accel_clip :: "rat \<times> rat"
  lp_output_should_stop :: bool
  lp_v_trajectory :: "rat list"
  lp_a_trajectory :: "rat list"
  lp_j_trajectory :: "rat list"

text \<open>The attribute \<open>output_a_target\<close> of this class is the one of \<open>LongitudinalPlannerSP\<close>, its base class.\<close>

definition new_Planner :: "PlannerEnv \<Rightarrow> 'a events_mapping \<Rightarrow> MapInput \<Rightarrow> 'm Mpc \<Rightarrow> 'm \<Rightarrow> Params \<Rightarrow> 'm Planner \<times> Params" where
  "new_Planner pe mapping mi mpc m0 params =
     (let (sp, params1) = new_PlannerSP pe mapping mi params
      in (\<lparr>lp_sp = sp, lp_mpc = m0, lp_mpc_source = mpc_source mpc m0, lp_fcw = False, lp_allow_throttle = True,
           lp_a_desired = 0, lp_v_desired_filter = new_FirstOrderFilter 0 2 DT_MDL True,
           lp_prev_accel_clip = (ob_ACCEL_MIN (pe_opendbc pe), ob_ACCEL_MAX (pe_opendbc pe)),
           lp_output_should_stop = False, lp_v_trajectory = replicate CONTROL_N 0,
           lp_a_trajectory = replicate CONTROL_N 0, lp_j_trajectory = replicate CONTROL_N 0\<rparr>, params1))"

definition parse_model :: "ModelMsg \<Rightarrow> (rat list \<times> rat list \<times> rat list \<times> rat list \<times> rat) option" where
  "parse_model md = do {
     let zeros = replicate (length T_IDXS_MPC) 0;
     (x, v, a) \<leftarrow>
       (if length (md_position_x md) = IDX_N \<and> length (md_velocity_x md) = IDX_N \<and> length (md_acceleration_x md) = IDX_N
        then do {
          x \<leftarrow> interp_all T_IDXS_MPC T_IDXS (md_position_x md);
          v \<leftarrow> interp_all T_IDXS_MPC T_IDXS (md_velocity_x md);
          a \<leftarrow> interp_all T_IDXS_MPC T_IDXS (md_acceleration_x md);
          Some (x, v, a)
        }
        else Some (zeros, zeros, zeros));
     Some (x, v, a, zeros, (case md_gasPressProbs md of _ # p # _ \<Rightarrow> p | _ \<Rightarrow> 1))
   }"

text \<open>The coasting acceleration on the slope.\<close>

definition coast_accel :: "PlannerEnv \<Rightarrow> PlannerInput \<Rightarrow> rat" where
  "coast_accel pe pin =
     (case pi_CC_orientationNED pin of [_, pitch, _] \<Rightarrow> get_coast_accel (pe_math pe) pitch
      | _ \<Rightarrow> ob_ACCEL_MAX (pe_opendbc pe))"

definition must_reset :: "PlannerEnv \<Rightarrow> PlannerInput \<Rightarrow> bool" where
  "must_reset pe pin \<longleftrightarrow>
     (if cp_openpilotLongitudinalControl (pe_CP pe) then pi_longControlState pin = LCS_off else \<not> pi_selfdrive_enabled pin)
     \<or> cs_vCruise (pi_CS pin) = V_CRUISE_UNSET"

definition turn_limits :: "PlannerEnv \<Rightarrow> PlannerInput \<Rightarrow> (rat \<times> rat) option" where
  "turn_limits pe pin = do {
     hi \<leftarrow> get_max_accel (cs_vEgo (pi_CS pin));
     limit_accel_in_turns pe (cs_vEgo (pi_CS pin)) (cs_steeringAngleDeg (pi_CS pin) - pi_angleOffsetDeg pin)
       (ob_ACCEL_MIN (pe_opendbc pe), hi)
   }"

text \<open>Without throttle the upper limit falls to coasting between 2.5 and 5 m/s.\<close>

definition coast_limits :: "rat \<Rightarrow> rat \<Rightarrow> rat \<times> rat \<Rightarrow> (rat \<times> rat) option" where
  "coast_limits v_ego accel_coast lims = do {
     let coast = max accel_coast (fst lims);
     c \<leftarrow> np_interp v_ego [MIN_ALLOW_THROTTLE_SPEED, MIN_ALLOW_THROTTLE_SPEED * 2] [snd lims, coast];
     Some (fst lims, min (snd lims) c)
   }"

definition clip_near :: "rat \<Rightarrow> rat \<Rightarrow> rat" where
  "clip_near prev x = np_clip x (prev - 5/100) (prev + 5/100)"

text \<open>The first half of \<open>update\<close>: the limits, and the filtered speed.\<close>

definition planner_limits :: "PlannerEnv \<Rightarrow> PlannerInput \<Rightarrow> 'm Planner \<Rightarrow> ((rat \<times> rat) \<times> 'm Planner) option" where
  "planner_limits pe pin lp = do {
     let v_ego = cs_vEgo (pi_CS pin);
     lims \<leftarrow> turn_limits pe pin;
     let lp1 = (if must_reset pe pin
                then lp\<lparr>lp_v_desired_filter := (lp_v_desired_filter lp)\<lparr>fo_x := v_ego\<rparr>,
                        lp_a_desired := np_clip (cs_aEgo (pi_CS pin)) (fst lims) (snd lims)\<rparr>
                else lp);
     let f = fo_update v_ego (lp_v_desired_filter lp1);
     (_, _, _, _, throttle_prob) \<leftarrow> parse_model (pi_model pin);
     let allow = (throttle_prob > ALLOW_THROTTLE_THRESHOLD \<or> v_ego \<le> MIN_ALLOW_THROTTLE_SPEED);
     lim1 \<leftarrow> (if allow then Some lims else coast_limits v_ego (coast_accel pe pin) lims);
     Some (lim1, lp1\<lparr>lp_v_desired_filter := f\<lparr>fo_x := max 0 (fo_x f)\<rparr>, lp_allow_throttle := allow\<rparr>)
   }"

text \<open>The solver's part of \<open>update\<close>.\<close>

definition planner_solve :: "'m Mpc \<Rightarrow> PlannerInput \<Rightarrow> bool \<Rightarrow> rat \<Rightarrow> 'm Planner \<Rightarrow> 'm Planner option" where
  "planner_solve mpc pin prev_accel_constraint v_cruise lp = do {
     m \<leftarrow> mpc_step mpc prev_accel_constraint (pi_personality pin) (fo_x (lp_v_desired_filter lp)) (lp_a_desired lp) pin
           v_cruise (lp_mpc lp);
     vs \<leftarrow> interp_all CONTROL_N_T_IDX T_IDXS_MPC (mpc_v_solution mpc m);
     as \<leftarrow> interp_all CONTROL_N_T_IDX T_IDXS_MPC (mpc_a_solution mpc m);
     js \<leftarrow> interp_all CONTROL_N_T_IDX (butlast T_IDXS_MPC) (mpc_j_solution mpc m);
     a \<leftarrow> np_interp DT_MDL CONTROL_N_T_IDX as;
     let f = lp_v_desired_filter lp;
     Some (lp\<lparr>lp_mpc := m, lp_mpc_source := mpc_source mpc m, lp_v_trajectory := vs, lp_a_trajectory := as,
              lp_j_trajectory := js, lp_fcw := (mpc_crash_cnt mpc m > 2 \<and> \<not> cs_standstill (pi_CS pin)),
              lp_a_desired := a,
              lp_v_desired_filter := f\<lparr>fo_x := fo_x f + DT_MDL * (a + lp_a_desired lp) / 2\<rparr>\<rparr>)
   }"

text \<open>The output: the solver's acceleration or, in end-to-end mode, the model's when it is lower; within the limits,
which move by at most 0.05 per frame.\<close>

definition planner_output :: "PlannerEnv \<Rightarrow> PlannerInput \<Rightarrow> rat \<times> rat \<Rightarrow> 'm Planner \<Rightarrow> 'm Planner option" where
  "planner_output pe pin lims lp = do {
     (a_mpc, stop_mpc) \<leftarrow> get_accel_from_plan (lp_v_trajectory lp) (lp_a_trajectory lp) CONTROL_N_T_IDX
         (pe_longitudinalActuatorDelay pe + DT_MDL) (pe_vEgoStopping pe);
     let a_e2e = md_desiredAcceleration (pi_model pin);
     let e2e = is_e2e pin (lp_sp lp);
     let a = (if e2e then min a_e2e a_mpc else a_mpc);
     let lim1 = (clip_near (fst (lp_prev_accel_clip lp)) (fst lims), clip_near (snd (lp_prev_accel_clip lp)) (snd lims));
     Some (lp\<lparr>lp_output_should_stop := (if e2e then md_shouldStop (pi_model pin) \<or> stop_mpc else stop_mpc),
              lp_mpc_source := (if e2e \<and> a < a_mpc then ''e2e'' else lp_mpc_source lp),
              lp_sp := (lp_sp lp)\<lparr>pl_output_a_target := np_clip a (fst lim1) (snd lim1)\<rparr>,
              lp_prev_accel_clip := lim1\<rparr>)
   }"

definition cruise_speed :: "PlannerInput \<Rightarrow> rat" where
  "cruise_speed pin = min (cs_vCruise (pi_CS pin)) V_CRUISE_MAX * KPH_TO_MS"

definition planner_update :: "PlannerEnv \<Rightarrow> 'm Mpc \<Rightarrow> PlannerInput \<Rightarrow> 'm Planner \<times> Params \<Rightarrow> ('m Planner \<times> Params) option" where
  "planner_update pe mpc pin = (\<lambda>(lp, params). do {
     sp \<leftarrow> planner_sp_update pe pin (mpc_crash_cnt mpc (lp_mpc lp)) params (lp_sp lp);
     (lims, lp1) \<leftarrow> planner_limits pe pin (lp\<lparr>lp_sp := sp\<rparr>);
     (sp1, params1) \<leftarrow> update_targets pe pin (fo_x (lp_v_desired_filter lp1)) (lp_a_desired lp1) (cruise_speed pin)
         (lp_sp lp1, params);
     let v_cruise = (if pi_forceDecel pin then 0 else pl_output_v_target sp1);
     lp2 \<leftarrow> planner_solve mpc pin (\<not> (must_reset pe pin \<or> cs_standstill (pi_CS pin))) v_cruise
           (lp1\<lparr>lp_sp := sp1, lp_a_desired := pl_output_a_target sp1\<rparr>);
     lp3 \<leftarrow> planner_output pe pin lims lp2;
     Some (lp3, params1)
   })"

text \<open>The message \<open>longitudinalPlan\<close>, without the three time stamps.\<close>

record PlanMsg =
  lpm_valid :: bool
  lpm_speeds :: "rat list"
  lpm_accels :: "rat list"
  lpm_jerks :: "rat list"
  lpm_hasLead :: bool
  lpm_source :: string
  lpm_fcw :: bool
  lpm_aTarget :: rat
  lpm_shouldStop :: bool
  lpm_allowBrake :: bool
  lpm_allowThrottle :: bool

definition planner_publish :: "'a events_mapping \<Rightarrow> bool \<Rightarrow> bool \<Rightarrow> PlannerInput \<Rightarrow> 'm Planner \<Rightarrow> PlanMsg \<times> PlanSPMsg" where
  "planner_publish mapping checks checks_sp pin lp =
     (\<lparr>lpm_valid = checks, lpm_speeds = lp_v_trajectory lp, lpm_accels = lp_a_trajectory lp,
       lpm_jerks = lp_j_trajectory lp, lpm_hasLead = pi_lead_status pin, lpm_source = lp_mpc_source lp,
       lpm_fcw = lp_fcw lp, lpm_aTarget = pl_output_a_target (lp_sp lp), lpm_shouldStop = lp_output_should_stop lp,
       lpm_allowBrake = True, lpm_allowThrottle = lp_allow_throttle lp\<rparr>,
      publish_longitudinal_plan_sp mapping checks_sp (lp_sp lp))"

section \<open>Lane departure warning\<close>

definition CAMERA_OFFSET :: rat where "CAMERA_OFFSET = 4/100"
definition LDW_MIN_SPEED :: rat where "LDW_MIN_SPEED = 31 * MPH_TO_MS"
definition LANE_DEPARTURE_THRESHOLD :: rat where "LANE_DEPARTURE_THRESHOLD = 1/10"

record LaneDepartureWarning =
  ldw_left :: bool
  ldw_right :: bool
  last_blinker_frame :: int

definition new_LaneDepartureWarning :: LaneDepartureWarning where
  "new_LaneDepartureWarning = \<lparr>ldw_left = False, ldw_right = False, last_blinker_frame = 0\<rparr>"

record LaneMsg =
  lm_desirePrediction :: "rat list"
  lm_laneLineProbs :: "rat list"
  lm_laneLines_y :: "rat list list"

definition Desire_laneChangeLeft :: nat where "Desire_laneChangeLeft = 3"
definition Desire_laneChangeRight :: nat where "Desire_laneChangeRight = 4"

text \<open>A lane line is only looked at when it is visible; a missing element raises \<open>IndexError\<close>.\<close>

definition lane_close :: "LaneMsg \<Rightarrow> nat \<Rightarrow> (rat \<Rightarrow> bool) \<Rightarrow> rat \<Rightarrow> bool option" where
  "lane_close lm i close prob =
     (if prob > 1/2 then Option.bind (nth_opt (lm_laneLines_y lm) i) (\<lambda>ys. map_option close (nth_opt ys 0)) else Some False)"

definition ldw_update :: "int \<Rightarrow> LaneMsg \<Rightarrow> CarState \<Rightarrow> bool \<Rightarrow> LaneDepartureWarning \<Rightarrow> LaneDepartureWarning option" where
  "ldw_update fr lm CS latActive w =
     (let blinker_frame = (if cs_leftBlinker CS \<or> cs_rightBlinker CS then fr else last_blinker_frame w);
          w1 = w\<lparr>last_blinker_frame := blinker_frame\<rparr>;
          recent_blinker = of_int (fr - blinker_frame) * DT_CTRL < 5;
          ldw_allowed = (cs_vEgo CS > LDW_MIN_SPEED \<and> \<not> recent_blinker \<and> \<not> latActive)
      in if lm_desirePrediction lm \<noteq> [] \<and> ldw_allowed then do {
           right_prob \<leftarrow> nth_opt (lm_laneLineProbs lm) 2;
           left_prob \<leftarrow> nth_opt (lm_laneLineProbs lm) 1;
           l_prob \<leftarrow> nth_opt (lm_desirePrediction lm) Desire_laneChangeLeft;
           r_prob \<leftarrow> nth_opt (lm_desirePrediction lm) Desire_laneChangeRight;
           l_close \<leftarrow> lane_close lm 1 (\<lambda>y. y > - (108/100 + CAMERA_OFFSET)) left_prob;
           r_close \<leftarrow> lane_close lm 2 (\<lambda>y. y < 108/100 - CAMERA_OFFSET) right_prob;
           Some (w1\<lparr>ldw_left := (l_prob > LANE_DEPARTURE_THRESHOLD \<and> l_close),
                    ldw_right := (r_prob > LANE_DEPARTURE_THRESHOLD \<and> r_close)\<rparr>)
         }
         else Some (w1\<lparr>ldw_left := False, ldw_right := False\<rparr>))"

section \<open>The loop of plannerd\<close>

record RoundInput =
  ro_in :: PlannerInput
  ro_lanes :: LaneMsg
  ro_frame :: int
  ro_latActive :: bool
  ro_model_updated :: bool
  ro_plan_checks :: bool
  ro_plan_sp_checks :: bool
  ro_ldw_checks :: bool

record PlannerOutput =
  po_plan :: PlanMsg
  po_plan_sp :: PlanSPMsg
  po_departure :: "bool \<times> bool \<times> bool"

definition round_buttons :: "PlannerInput \<Rightarrow> 'm Planner \<Rightarrow> 'm Planner" where
  "round_buttons pin lp =
     lp\<lparr>lp_sp := (lp_sp lp)\<lparr>pl_sla := update_car_state (pi_now pin) (pi_CS pin) (pl_sla (lp_sp lp))\<rparr>\<rparr>"

definition plannerd_round :: "PlannerEnv \<Rightarrow> 'a events_mapping \<Rightarrow> 'm Mpc \<Rightarrow> RoundInput \<Rightarrow>
    'm Planner \<times> LaneDepartureWarning \<times> Params \<Rightarrow>
    (PlannerOutput option \<times> 'm Planner \<times> LaneDepartureWarning \<times> Params) option" where
  "plannerd_round pe mapping mpc ri = (\<lambda>(lp0, w, params).
     (let lp1 = round_buttons (ro_in ri) lp0
      in if \<not> ro_model_updated ri then Some (None, lp1, w, params)
         else do {
           (lp2, params1) \<leftarrow> planner_update pe mpc (ro_in ri) (lp1, params);
           let (plan, plan_sp) = planner_publish mapping (ro_plan_checks ri) (ro_plan_sp_checks ri) (ro_in ri) lp2;
           w1 \<leftarrow> ldw_update (ro_frame ri) (ro_lanes ri) (pi_CS (ro_in ri)) (ro_latActive ri) w;
           Some (Some \<lparr>po_plan = plan, po_plan_sp = plan_sp, po_departure = (ro_ldw_checks ri, ldw_left w1, ldw_right w1)\<rparr>,
                 lp2, w1, params1)
         }))"

fun plannerd_run :: "PlannerEnv \<Rightarrow> 'a events_mapping \<Rightarrow> 'm Mpc \<Rightarrow> RoundInput list \<Rightarrow>
    'm Planner \<times> LaneDepartureWarning \<times> Params \<Rightarrow>
    (PlannerOutput list \<times> 'm Planner \<times> LaneDepartureWarning \<times> Params) option" where
  "plannerd_run pe mapping mpc [] s = Some ([], s)"
| "plannerd_run pe mapping mpc (ri # ris) s = do {
     (out, s1) \<leftarrow> plannerd_round pe mapping mpc ri s;
     (outs, s2) \<leftarrow> plannerd_run pe mapping mpc ris s1;
     Some ((case out of None \<Rightarrow> [] | Some x \<Rightarrow> [x]) @ outs, s2)
   }"

end
