(* ===== verification/SmartCruiseLaws.thy ===== *)
theory SmartCruiseLaws
  imports SmartCruise
begin

text \<open>
  What the two controllers of smart cruise control have in common, as a locale interpreted on both state machines,
  and what they compute: the bounds of the vision controller's acceleration, and the distance at which the map
  controller starts to brake, compared with the one that its own model of braking needs.
\<close>

section \<open>Features that slow the car down\<close>

text \<open>A step is given: longitudinal control on, the feature switched on, the driver overrides, other inputs.\<close>

locale slowing_feature =
  fixes step :: "bool \<Rightarrow> bool \<Rightarrow> bool \<Rightarrow> 'i \<Rightarrow> 's \<Rightarrow> 's"
    and active :: "'s \<Rightarrow> bool"
    and off overriding :: 's
  assumes off_law: "\<not> (l \<and> e) \<Longrightarrow> step l e ov i s = off"
    and override_law: "l \<Longrightarrow> e \<Longrightarrow> step l e True i s = overriding"
    and wait_law: "\<not> active (step l e ov i off)"
    and idle_law: "\<not> active off" "\<not> active overriding"
begin

lemma active_allowed:
  assumes "active (step l e ov i s)"
  shows "l" "e" "\<not> ov" "s \<noteq> off"
  using assms off_law [of l e ov i s] override_law [of l e i s] idle_law wait_law [of l e ov i]
  by (cases l; cases e; cases ov; auto)+

fun steps :: "(bool \<times> bool \<times> bool \<times> 'i) list \<Rightarrow> 's \<Rightarrow> 's" where
  "steps [] s = s"
| "steps ((l, e, ov, i) # xs) s = steps xs (step l e ov i s)"

lemma steps_append: "steps (xs @ [(l, e, ov, i)]) s = step l e ov i (steps xs s)"
  by (induction xs arbitrary: s) auto

text \<open>An active feature has been allowed in the last two frames, and was not overridden in the last.\<close>

lemma active_for_two:
  assumes "active (steps (xs @ [(l1, e1, ov1, i1), (l2, e2, ov2, i2)]) s)"
  shows "l1 \<and> e1 \<and> l2 \<and> e2 \<and> \<not> ov2"
proof -
  have a: "active (step l2 e2 ov2 i2 (step l1 e1 ov1 i1 (steps xs s)))"
    using assms steps_append [of "xs @ [(l1, e1, ov1, i1)]" l2 e2 ov2 i2 s] by (simp add: steps_append)
  then show ?thesis
    using active_allowed [OF a] off_law [of l1 e1 ov1 i1] by blast
qed

end

text \<open>The machine of the vision controller, on the inputs that the features share and the record of the others.\<close>

definition vision_step :: "bool \<Rightarrow> bool \<Rightarrow> bool \<Rightarrow> SccVision \<Rightarrow> VisionState \<Rightarrow> VisionState" where
  "vision_step l e ov v s =
     vision_next (v\<lparr>vi_long_enabled := l, vi_enabled := e, vi_long_override := ov, vi_state := s\<rparr>)"

definition map_step :: "bool \<Rightarrow> bool \<Rightarrow> bool \<Rightarrow> SccMap \<Rightarrow> MapState \<Rightarrow> MapState" where
  "map_step l e ov m s =
     map_next (m\<lparr>mp_long_enabled := l, mp_enabled_param := e, mp_long_override := ov, mp_state := s\<rparr>)"

lemma scc_states [simp]:
  "set VISION_ACTIVE_STATES = {Vision_entering, Vision_turning, Vision_leaving}"
  "set VISION_ENABLED_STATES = - {Vision_disabled}"
  "set MAP_ACTIVE_STATES = {Map_turning}"
  "set MAP_ENABLED_STATES = - {Map_disabled}"
proof -
  have "set VISION_ENABLED_STATES = {Vision_enabled, Vision_overriding, Vision_entering, Vision_turning, Vision_leaving}"
    by (auto simp: VISION_ENABLED_STATES_def VISION_ACTIVE_STATES_def)
  then show "set VISION_ENABLED_STATES = - {Vision_disabled}"
    by (auto intro: VisionState.exhaust)
  have "set MAP_ENABLED_STATES = {Map_enabled, Map_overriding, Map_turning}"
    by (auto simp: MAP_ENABLED_STATES_def MAP_ACTIVE_STATES_def)
  then show "set MAP_ENABLED_STATES = - {Map_disabled}"
    by (auto intro: MapState.exhaust)
qed (auto simp: VISION_ACTIVE_STATES_def MAP_ACTIVE_STATES_def)

interpretation vision: slowing_feature vision_step "\<lambda>s. s \<in> set VISION_ACTIVE_STATES" Vision_disabled Vision_overriding
  by unfold_locales (auto simp: vision_step_def vision_next_def)

interpretation mapped: slowing_feature map_step "\<lambda>s. s \<in> set MAP_ACTIVE_STATES" Map_disabled Map_overriding
  by unfold_locales (auto simp: map_step_def map_next_def)

lemma vision_next_step: "vision_next v = vision_step (vi_long_enabled v) (vi_enabled v) (vi_long_override v) v (vi_state v)"
  by (simp add: vision_step_def)

lemma map_next_step: "map_next m = map_step (mp_long_enabled m) (mp_enabled_param m) (mp_long_override m) m (mp_state m)"
  by (simp add: map_step_def)

section \<open>What an update leaves\<close>

lemma root_of_quotient_fin:
  assumes "root_of_quotient sq a x = Fin r"
  shows "r = sq (a / x)" "x \<noteq> 0" "0 \<le> a / x"
  using assms by (auto simp: root_of_quotient_def split: if_splits)

lemma vision_calc_fields:
  assumes "vision_update_calculations sq si v = Some v'"
  shows "vi_long_enabled v' = vi_long_enabled v" "vi_enabled v' = vi_enabled v" "vi_long_override v' = vi_long_override v"
    "vi_state v' = vi_state v" "vi_a_ego v' = vi_a_ego v" "vi_frame v' = vi_frame v" "vi_v_ego v' = vi_v_ego v"
  using assms by (auto simp: vision_update_calculations_def Let_def split: if_splits option.splits)

lemma vision_params_fields:
  "vi_long_enabled (vision_update_params params v) = vi_long_enabled v"
  "vi_long_override (vision_update_params params v) = vi_long_override v"
  "vi_state (vision_update_params params v) = vi_state v" "vi_a_ego (vision_update_params params v) = vi_a_ego v"
  "vi_v_ego (vision_update_params params v) = vi_v_ego v"
  by (simp_all add: vision_update_params_def)

lemma vision_updateE:
  assumes "vision_update sq si v0 = Some v'"
  obtains v2 where "vi_long_enabled v2 = sci_long_enabled si" "vi_long_override v2 = sci_long_override si"
    "vi_state v2 = vi_state v0" "vi_a_ego v2 = sci_a_ego si" "vi_v_ego v2 = sci_v_ego si"
    "vi_state v' = vision_next v2" "vi_is_active v' \<longleftrightarrow> vi_state v' \<in> set VISION_ACTIVE_STATES"
    "vi_output_v_target v' = vision_v_target_from_control v'" "vi_output_a_target v' = vi_a_target v'"
    "vision_update_solution v' = Some (vi_a_target v')" "vi_v_target v' = vi_v_target v2"
proof -
  define v1 where "v1 = vision_update_params (sci_params si)
    (v0\<lparr>vi_long_enabled := sci_long_enabled si, vi_long_override := sci_long_override si,
       vi_v_ego := sci_v_ego si, vi_a_ego := sci_a_ego si, vi_v_cruise_setpoint := sci_v_cruise si\<rparr>)"
  obtain v2 where v2: "vision_update_calculations sq si v1 = Some v2"
    using assms by (auto simp: vision_update_def Let_def split: option.splits simp flip: v1_def)
  obtain a where a: "vision_update_solution (vision_update_state_machine v2) = Some a"
    and v': "v' = (let v4 = vision_update_state_machine v2\<lparr>vi_a_target := a\<rparr>
      in v4\<lparr>vi_output_v_target := vision_v_target_from_control v4, vi_output_a_target := a, vi_frame := vi_frame v4 + 1\<rparr>)"
    using assms v2 by (auto simp: vision_update_def Let_def simp flip: v1_def)
  note f = vision_calc_fields [OF v2] vision_params_fields
  show thesis
    by (rule that [of v2])
      (use a in \<open>(cases "vision_next v2"; simp add: f v' v1_def Let_def vision_update_state_machine_def
        vision_v_target_from_control_def vision_update_solution_def)+\<close>)
qed

lemma map_calc_fields:
  "mp_long_enabled (map_update_calculations mf mi m) = mp_long_enabled m"
  "mp_enabled_param (map_update_calculations mf mi m) = mp_enabled_param m"
  "mp_long_override (map_update_calculations mf mi m) = mp_long_override m"
  "mp_state (map_update_calculations mf mi m) = mp_state m"
  "mp_a_ego (map_update_calculations mf mi m) = mp_a_ego m"
  by (auto simp: map_update_calculations_def Let_def split: prod.splits)

lemma map_params_fields:
  "mp_long_enabled (map_update_params params m) = mp_long_enabled m"
  "mp_long_override (map_update_params params m) = mp_long_override m"
  "mp_state (map_update_params params m) = mp_state m" "mp_a_ego (map_update_params params m) = mp_a_ego m"
  by (simp_all add: map_update_params_def)


section \<open>The vision controller's acceleration and speed\<close>

lemma vision_solution_bounds:
  assumes "vision_update_solution v = Some a" "vi_state v \<in> set VISION_ACTIVE_STATES"
  shows "-1 \<le> a \<and> a \<le> 1/2"
  using assms
  by (auto simp: vision_update_solution_def ENTERING_SMOOTH_DECEL_V_def TURNING_ACC_V_def LEAVING_ACC_def
      dest!: np_interp_between [where lo = "-1" and hi = "1/2"])

lemma max_float_fin: "max_float x (Fin m) = Fin r \<Longrightarrow> m \<le> r"
  by (cases x) (auto simp: max_float_def split: if_splits)

lemma add_float_fin: "add_float x b = Fin r \<longleftrightarrow> x = Fin (r - b)"
  by (cases x) auto

section \<open>The map controller's braking time\<close>

text \<open>The code multiplies by \<open>a = -0.3\<close> where it should divide: it gets 9 percent of the root.\<close>

lemma jerk_time_short:
  assumes "tv < v_ego" "0 \<le> sq (a_ego\<^sup>2 + 12/10 * (v_ego - tv))"
    "(sq (a_ego\<^sup>2 + 12/10 * (v_ego - tv)))\<^sup>2 = a_ego\<^sup>2 + 12/10 * (v_ego - tv)"
  shows "\<exists>T. jerk_time sq a_ego v_ego tv = Some (9/100 * T) \<and> 0 < T \<and> calculate_velocity T TARGET_JERK a_ego v_ego = tv"
proof -
  define disc where "disc = a_ego\<^sup>2 + 12/10 * (v_ego - tv)"
  define s where "s = sq disc"
  have d: "a_ego\<^sup>2 - 4 * (1/2 * TARGET_JERK) * (v_ego - tv) = disc"
    by (simp add: disc_def TARGET_JERK_def)
  have s: "0 \<le> s" "s\<^sup>2 = disc"
    using assms(2,3) by (simp_all add: s_def disc_def)
  then have "\<bar>a_ego\<bar>\<^sup>2 < s\<^sup>2"
    using assms(1) by (simp add: disc_def)
  then have "\<bar>a_ego\<bar> < s"
    using s(1) power2_less_imp_less by blast
  then have pos: "0 < s + a_ego"
    by linarith
  have "\<not> disc < 0"
    using s(2) by (metis not_less zero_le_power2)
  then have "jerk_time sq a_ego v_ego tv = Some (9/100 * (5/3 * (s + a_ego)))"
    using pos unfolding jerk_time_def Let_def d s_def [symmetric] by (simp add: TARGET_JERK_def field_simps)
  moreover have "calculate_velocity (5/3 * (s + a_ego)) TARGET_JERK a_ego v_ego = tv"
    using s(2) by (simp add: calculate_velocity_def TARGET_JERK_def disc_def power2_eq_square field_simps)
  moreover have "0 < 5/3 * (s + a_ego)"
    using pos by simp
  ultimately show ?thesis
    by blast
qed

lemma late_start:
  assumes "0 < T" "calculate_velocity T TARGET_JERK 0 v_ego = tv" "0 \<le> tv" "v_ego - 12/10 < tv" "tv \<le> v_ego - 37/100"
  shows "calculate_distance (9/100 * T) TARGET_JERK 0 v_ego + tv < calculate_distance T TARGET_JERK 0 v_ego"
proof -
  have tv: "tv = v_ego - 3/10 * T\<^sup>2"
    using assms(2) by (simp add: calculate_velocity_def TARGET_JERK_def)
  have "T < 2"
  proof (rule power2_less_imp_less)
    show "T\<^sup>2 < 2\<^sup>2"
      using tv assms(4) by simp
  qed simp
  have "11/10 < T"
  proof (rule power2_less_imp_less)
    show "(11/10)\<^sup>2 < T\<^sup>2"
      using tv assms(5) by (simp add: power2_eq_square)
  qed (use assms(1) in simp)
  then have "0 \<le> v_ego * (91/100 * T - 1)"
    using assms(3,5) by (intro mult_nonneg_nonneg) linarith+
  moreover have "0 < T\<^sup>2 * (3/10 - 999271/10000000 * T)"
    using \<open>T < 2\<close> assms(1) by (intro mult_pos_pos) simp_all
  ultimately show ?thesis
    by (simp add: calculate_distance_def TARGET_JERK_def tv power2_eq_square power3_eq_cube field_simps)
qed

section \<open>Properties\<close>

text \<open>C20 (safety). While longitudinal control is off or the driver overrides it, smart cruise control does not ask for any
speed: both controllers give the value for "unset", which lies above every set speed.\<close>

theorem smart_cruise_needs_permission:
  assumes "scc_update mf mi si s = Some s'" "\<not> sci_long_enabled si \<or> sci_long_override si"
  shows "vi_output_v_target (scc_vision s') = Fin V_CRUISE_UNSET \<and> mp_output_v_target (scc_map s') = V_CRUISE_UNSET"
proof -
  have u: "vision_update (sqrtf mf) si (scc_vision s) = Some (scc_vision s')" "scc_map s' = map_update mf mi si (scc_map s)"
    using assms(1) by (auto simp: scc_update_def Let_def)
  obtain v2 where v2: "vi_long_enabled v2 = sci_long_enabled si" "vi_long_override v2 = sci_long_override si"
    "vi_state (scc_vision s') = vision_next v2" "vi_is_active (scc_vision s') \<longleftrightarrow> vi_state (scc_vision s') \<in> set VISION_ACTIVE_STATES"
    "vi_output_v_target (scc_vision s') = vision_v_target_from_control (scc_vision s')"
    using u(1) by (rule vision_updateE)
  have "\<not> vi_is_active (scc_vision s')"
    using vision.active_allowed(1,3) [of "vi_long_enabled v2" "vi_enabled v2" "vi_long_override v2" v2 "vi_state v2"] v2 assms(2)
    by (auto simp: vision_next_step)
  moreover have "\<not> mp_is_active (scc_map s')"
  proof
    define m1 where "m1 = map_update_calculations mf mi (map_update_params (sci_params si)
      ((scc_map s)\<lparr>mp_long_enabled := sci_long_enabled si, mp_long_override := sci_long_override si,
         mp_v_ego := sci_v_ego si, mp_a_ego := sci_a_ego si, mp_v_cruise := sci_v_cruise si\<rparr>))"
    have m1: "mp_long_enabled m1 = sci_long_enabled si" "mp_long_override m1 = sci_long_override si"
      by (simp_all add: m1_def map_calc_fields map_params_fields)
    assume "mp_is_active (scc_map s')"
    then have "map_next m1 \<in> set MAP_ACTIVE_STATES"
      by (simp add: u(2) map_update_def Let_def map_update_state_machine_def flip: m1_def)
    then show False
      using mapped.active_allowed(1,3) assms(2) unfolding map_next_step m1 by blast
  qed
  ultimately show ?thesis
    using v2(5) by (simp add: vision_v_target_from_control_def u(2) map_update_def Let_def map_v_target_from_control_def)
qed

definition sample_scc_input :: SccInput where
  "sample_scc_input =
     \<lparr>sci_params = (\<lambda>_. Some 1), sci_orientationRate_z = [1/10], sci_velocity_x = [20], sci_curvature = 1/200,
      sci_long_enabled = True, sci_long_override = False, sci_v_ego = 20, sci_a_ego = 0, sci_v_cruise = 25\<rparr>"

definition sample_math :: MathFns where
  "sample_math = \<lparr>sinf = (\<lambda>x. x), cosf = (\<lambda>_. 1), atan2f = (\<lambda>y x. y), sqrtf = (\<lambda>x. x), to_radians = 1/57\<rparr>"

theorem smart_cruise_needs_permission_witness:
  "\<exists>s'. scc_update sample_math \<lparr>mi_position = None, mi_velocities = None\<rparr> (sample_scc_input\<lparr>sci_long_override := True\<rparr>)
       (new_SmartCruiseControl Map.empty \<lparr>mi_position = None, mi_velocities = None\<rparr>) = Some s'
     \<and> vi_output_v_target (scc_vision s') = Fin V_CRUISE_UNSET \<and> mp_output_v_target (scc_map s') = V_CRUISE_UNSET"
proof -
  let ?si = "sample_scc_input\<lparr>sci_long_override := True\<rparr>" and ?mi = "\<lparr>mi_position = None, mi_velocities = None\<rparr>"
  have "(case scc_update sample_math ?mi ?si (new_SmartCruiseControl Map.empty ?mi) of None \<Rightarrow> False | Some _ \<Rightarrow> True)"
    by code_simp
  then have "\<exists>s'. scc_update sample_math ?mi ?si (new_SmartCruiseControl Map.empty ?mi) = Some s'"
    by (auto split: option.splits)
  then show ?thesis
    using smart_cruise_needs_permission [of sample_math ?mi ?si] by (auto simp: sample_scc_input_def)
qed

text \<open>The vision controller never brakes harder than 1 m/s$^2$ for a curve, never accelerates by more than half of
that, and never asks for a speed more than 4 m/s below its minimum of 20 km/h.\<close>

theorem vision_slows_gently:
  assumes "vision_update sq si v = Some v'" "vi_is_active v'"
  shows "-1 \<le> vi_output_a_target v' \<and> vi_output_a_target v' \<le> 1/2 \<and>
    (case vi_output_v_target v' of Fin r \<Rightarrow> MIN_V - 4 \<le> r | _ \<Rightarrow> True)"
proof -
  obtain v2 where v2: "vi_is_active v' \<longleftrightarrow> vi_state v' \<in> set VISION_ACTIVE_STATES"
    "vi_output_v_target v' = vision_v_target_from_control v'" "vi_output_a_target v' = vi_a_target v'"
    "vision_update_solution v' = Some (vi_a_target v')"
    using assms(1) by (rule vision_updateE)
  then have "-1 \<le> vi_a_target v' \<and> vi_a_target v' \<le> 1/2"
    using vision_solution_bounds assms(2) by blast
  then show ?thesis
    using v2 assms(2)
    by (auto simp: vision_v_target_from_control_def NO_OVERSHOOT_TIME_HORIZON_def add_float_fin split: Float.split
        dest!: max_float_fin)
qed

theorem vision_slows_gently_witness:
  "\<exists>v'. vision_update (\<lambda>_. 20) sample_scc_input (new_SccVision (\<lambda>_. Some 1)\<lparr>vi_state := Vision_enabled\<rparr>) = Some v'
     \<and> -1 \<le> vi_output_a_target v' \<and> vi_output_a_target v' \<le> 1/2"
proof -
  let ?v = "new_SccVision (\<lambda>_. Some 1)\<lparr>vi_state := Vision_enabled\<rparr>"
  have "map_option vi_is_active (vision_update (\<lambda>_. 20) sample_scc_input ?v) = Some True"
    by code_simp
  then obtain v' where "vision_update (\<lambda>_. 20) sample_scc_input ?v = Some v'" "vi_is_active v'"
    by auto
  then show ?thesis
    using vision_slows_gently [of "\<lambda>_. 20" sample_scc_input ?v v'] by blast
qed

text \<open>C40 (functional). Towards a curve whose speed is between 0.37 and 1.2 m/s below a steady speed the map controller
starts to brake too late. Let T be the time in which the target jerk brings the car down to the speed of the curve.
The code computes 9 percent of T, and so asks for the speed of the curve exactly when the distance to it is below
the distance travelled in 9 percent of T plus one second at the speed of the curve; this is less than the
distance that the car travels while it brakes for T.\<close>

theorem map_brakes_too_late:
  assumes "0 \<le> tv_velocity p" "v_ego - 12/10 < tv_velocity p" "tv_velocity p \<le> v_ego - 37/100"
    "0 \<le> sq (12/10 * (v_ego - tv_velocity p))"
    "(sq (12/10 * (v_ego - tv_velocity p)))\<^sup>2 = 12/10 * (v_ego - tv_velocity p)"
  shows "\<exists>T d. 0 < T \<and> calculate_velocity T TARGET_JERK 0 v_ego = tv_velocity p
    \<and> d = calculate_distance (9/100 * T) TARGET_JERK 0 v_ego + tv_velocity p * 1
    \<and> {x. must_slow sq 0 v_ego p x} = {x. x < d}
    \<and> d < calculate_distance T TARGET_JERK 0 v_ego"
proof -
  let ?tv = "tv_velocity p"
  obtain T where T: "jerk_time sq 0 v_ego ?tv = Some (9/100 * T)" "0 < T" "calculate_velocity T TARGET_JERK 0 v_ego = ?tv"
    using jerk_time_short [of ?tv v_ego sq 0] assms(3-5) by auto
  have min_v: "calculate_velocity \<bar>(0 - TARGET_ACCEL) / TARGET_JERK\<bar> TARGET_JERK 0 v_ego < ?tv"
    using assms(2) by (simp add: calculate_velocity_def TARGET_ACCEL_def TARGET_JERK_def power2_eq_square)
  define d where "d = calculate_distance (9/100 * T) TARGET_JERK 0 v_ego + ?tv"
  have dist: "braking_distance sq 0 v_ego ?tv = Some (calculate_distance (9/100 * T) TARGET_JERK 0 v_ego)"
    using min_v T(1) by (simp add: braking_distance_def Let_def)
  have "?tv \<le> v_ego"
    using assms(3) by simp
  then have "{x. must_slow sq 0 v_ego p x} = {x. x < d}"
    using dist by (simp add: must_slow_def d_def TARGET_OFFSET_def)
  moreover have "d < calculate_distance T TARGET_JERK 0 v_ego"
    using late_start [OF T(2,3) assms(1-3)] by (simp add: d_def)
  ultimately show ?thesis
    using T by (intro exI [of _ T] exI [of _ d]) (simp add: d_def)
qed

text \<open>At 10 m/s towards a curve for 9.028 m/s the car brakes for 1.8 seconds and 17.4 m; the code starts at 10.6 m.\<close>

definition late_point :: TargetVelocity where
  "late_point = \<lparr>tv_latitude = 1, tv_longitude = 1, tv_velocity = 9028/1000\<rparr>"

theorem map_brakes_too_late_witness:
  "\<exists>T d. 0 < T \<and> calculate_velocity T TARGET_JERK 0 10 = 9028/1000
    \<and> {x. must_slow (\<lambda>_. 108/100) 0 10 late_point x} = {x. x < d} \<and> d < calculate_distance T TARGET_JERK 0 10"
  using map_brakes_too_late [of late_point 10 "\<lambda>_. 108/100"] by (auto simp: late_point_def power2_eq_square)

end
