(* ===== verification/PlannerSafety.thy ===== *)
theory PlannerSafety
  imports LongPlanner SmartCruiseLaws
begin

text \<open>
  What the planner process guarantees: which speed it chooses, the limits of its acceleration in every run, what
  the end-to-end mode may change, and that it never raises on admissible inputs.
\<close>

section \<open>The chosen speed\<close>

lemma pick_target_least:
  "fst (snd (pick_target best ts)) \<le> fst (snd best)"
  "(s, Fin v, a) \<in> set ts \<Longrightarrow> fst (snd (pick_target best ts)) \<le> v"
proof -
  show *: "fst (snd (pick_target best ts)) \<le> fst (snd best)" for best ts
    by (induction best ts rule: pick_target.induct) (auto split: if_splits)
  show "(s, Fin v, a) \<in> set ts \<Longrightarrow> fst (snd (pick_target best ts)) \<le> v"
  proof (induction best ts rule: pick_target.induct)
    case (2 best s' v' a' ts)
    then show ?case
      using * [of "(s', v', a')" ts] * [of best ts] by (auto split: if_splits intro: order_trans)
  qed auto
qed

lemma pick_target_member:
  "pick_target best ts = (s, v, a) \<Longrightarrow> best = (s, v, a) \<or> (s, Fin v, a) \<in> set ts"
  by (induction best ts rule: pick_target.induct) (auto split: if_splits)

lemma update_targetsE:
  assumes "update_targets pe pin v_ego a_ego v_cruise (p, params) = Some (p', params')"
  obtains scc rs sla sp s v a where
    "scc_update (pe_math pe) (pi_map pin) (scc_input pin params v_ego a_ego v_cruise) (pl_scc p) = Some scc"
    "pick_target (S_cruise, v_cruise, a_ego) (plan_targets scc sla) = (s, v, a)"
    "p' = p\<lparr>pl_scc := scc, pl_resolver := rs, pl_sla := sla, pl_events_sp := sp, pl_source := s,
             pl_output_v_target := v, pl_output_a_target := a\<rparr>"
    "rs_update (pe_dflt pe) params v_ego (pi_limits pin) (pl_resolver p) = Some rs"
    "sla_update (pe_CP pe) (pe_CP_SP pe) (pe_dflt pe) (pi_now pin) (assist_input pin rs v_ego a_ego)
       (pl_sla p, params, pl_events_sp p) = (sla, params', sp)"
proof -
  obtain scc rs where r: "scc_update (pe_math pe) (pi_map pin) (scc_input pin params v_ego a_ego v_cruise) (pl_scc p) = Some scc"
    "rs_update (pe_dflt pe) params v_ego (pi_limits pin) (pl_resolver p) = Some rs"
    using assms by (auto simp: update_targets_def bind_eq_Some_conv)
  obtain sla params1 sp where sla: "sla_update (pe_CP pe) (pe_CP_SP pe) (pe_dflt pe) (pi_now pin) (assist_input pin rs v_ego a_ego)
       (pl_sla p, params, pl_events_sp p) = (sla, params1, sp)"
    by (metis prod_cases3)
  obtain s v a where t: "pick_target (S_cruise, v_cruise, a_ego) (plan_targets scc sla) = (s, v, a)"
    by (metis prod_cases3)
  show thesis
    by (rule that [OF r(1) t _ r(2)]) (use assms in \<open>simp_all add: update_targets_def r sla t\<close>)
qed

section \<open>Limits of the acceleration\<close>

definition planner_env_ok :: "PlannerEnv \<Rightarrow> bool" where
  "planner_env_ok pe \<longleftrightarrow>
     ob_ACCEL_MIN (pe_opendbc pe) \<le> 0 \<and> 16/10 \<le> ob_ACCEL_MAX (pe_opendbc pe)
     \<and> (\<forall>x\<ge>0. 0 \<le> sqrtf (pe_math pe) x)
     \<and> pe_steerRatio pe * pe_wheelbase pe \<noteq> 0 \<and> pe_longitudinalActuatorDelay pe + DT_MDL \<noteq> 0"

definition clip_ok :: "PlannerEnv \<Rightarrow> rat \<times> rat \<Rightarrow> bool" where
  "clip_ok pe c \<longleftrightarrow> fst c = ob_ACCEL_MIN (pe_opendbc pe) \<and> ob_ACCEL_MIN (pe_opendbc pe) \<le> snd c
     \<and> snd c \<le> ob_ACCEL_MAX (pe_opendbc pe)"

lemma turn_limits_ok:
  assumes "planner_env_ok pe" "turn_limits pe pin = Some c"
  shows "clip_ok pe c"
proof -
  obtain hi where hi: "get_max_accel (cs_vEgo (pi_CS pin)) = Some hi"
    and l: "limit_accel_in_turns pe (cs_vEgo (pi_CS pin)) (cs_steeringAngleDeg (pi_CS pin) - pi_angleOffsetDeg pin)
       (ob_ACCEL_MIN (pe_opendbc pe), hi) = Some c"
    using assms(2) by (auto simp: turn_limits_def bind_eq_Some_conv)
  obtain y where "c = (ob_ACCEL_MIN (pe_opendbc pe), min hi (sqrtf (pe_math pe) (max y 0)))"
    using l by (auto simp: limit_accel_in_turns_def Let_def bind_eq_Some_conv split: if_split_asm)
  moreover have "0 \<le> hi \<and> hi \<le> 16/10"
    by (rule np_interp_between [OF hi [unfolded get_max_accel_def]]) (simp add: A_CRUISE_MAX_VALS_def)
  moreover have "0 \<le> sqrtf (pe_math pe) (max y 0)"
    using assms(1) by (simp add: planner_env_ok_def)
  moreover have "ob_ACCEL_MIN (pe_opendbc pe) \<le> 0" "16/10 \<le> ob_ACCEL_MAX (pe_opendbc pe)"
    using assms(1) by (simp_all add: planner_env_ok_def)
  ultimately show ?thesis
    unfolding clip_ok_def by (simp add: min_def)
qed

lemma coast_limits_ok:
  assumes "clip_ok pe c" "coast_limits v coast c = Some c'"
  shows "clip_ok pe c'"
proof -
  obtain x where x: "np_interp v [MIN_ALLOW_THROTTLE_SPEED, MIN_ALLOW_THROTTLE_SPEED * 2] [snd c, max coast (fst c)] = Some x"
    and c': "c' = (fst c, min (snd c) x)"
    using assms(2) by (auto simp: coast_limits_def Let_def bind_eq_Some_conv)
  have "ob_ACCEL_MIN (pe_opendbc pe) \<le> x"
    using np_interp_between [OF x, of "ob_ACCEL_MIN (pe_opendbc pe)" "max (snd c) (max coast (fst c))"] assms(1)
    by (auto simp: clip_ok_def)
  then show ?thesis
    using assms(1) c' by (auto simp: clip_ok_def)
qed

lemma planner_limits_ok:
  assumes "planner_env_ok pe" "planner_limits pe pin lp = Some (c, lp')"
  shows "clip_ok pe c" "lp_prev_accel_clip lp' = lp_prev_accel_clip lp" "lp_sp lp' = lp_sp lp" "lp_mpc lp' = lp_mpc lp"
proof -
  obtain c0 where c0: "turn_limits pe pin = Some c0" "c = c0 \<or> (\<exists>v a. coast_limits v a c0 = Some c)"
    using assms(2) by (auto simp: planner_limits_def Let_def bind_eq_Some_conv split: if_split_asm prod.split_asm)
  then show "clip_ok pe c"
    using turn_limits_ok [OF assms(1)] coast_limits_ok by blast
  show "lp_prev_accel_clip lp' = lp_prev_accel_clip lp" "lp_sp lp' = lp_sp lp" "lp_mpc lp' = lp_mpc lp"
    using assms(2) by (auto simp: planner_limits_def Let_def bind_eq_Some_conv split: prod.split_asm)
qed

lemma clip_near_ok:
  assumes "clip_ok pe p" "clip_ok pe c"
  shows "clip_ok pe (clip_near (fst p) (fst c), clip_near (snd p) (snd c))"
  using assms by (auto simp: clip_ok_def clip_near_def np_clip_def)

lemma planner_solve_frame:
  assumes "planner_solve mpc pin b v lp = Some lp'"
  shows "lp_prev_accel_clip lp' = lp_prev_accel_clip lp" "lp_sp lp' = lp_sp lp"
  using assms by (auto simp: planner_solve_def Let_def bind_eq_Some_conv)

lemma planner_output_ok:
  assumes "clip_ok pe (lp_prev_accel_clip lp)" "clip_ok pe c" "planner_output pe pin c lp = Some lp'"
  shows "clip_ok pe (lp_prev_accel_clip lp')"
    "ob_ACCEL_MIN (pe_opendbc pe) \<le> pl_output_a_target (lp_sp lp')"
    "pl_output_a_target (lp_sp lp') \<le> snd (lp_prev_accel_clip lp')"
proof -
  let ?c = "(clip_near (fst (lp_prev_accel_clip lp)) (fst c), clip_near (snd (lp_prev_accel_clip lp)) (snd c))"
  obtain a where a: "lp_prev_accel_clip lp' = ?c" "pl_output_a_target (lp_sp lp') = np_clip a (fst ?c) (snd ?c)"
    using assms(3) by (auto simp: planner_output_def Let_def bind_eq_Some_conv split: prod.split_asm)
  have "clip_ok pe ?c"
    using clip_near_ok assms(1,2) by blast
  moreover from this have "fst ?c \<le> snd ?c" "fst ?c = ob_ACCEL_MIN (pe_opendbc pe)"
    by (simp_all add: clip_ok_def)
  ultimately show "clip_ok pe (lp_prev_accel_clip lp')" "ob_ACCEL_MIN (pe_opendbc pe) \<le> pl_output_a_target (lp_sp lp')"
    "pl_output_a_target (lp_sp lp') \<le> snd (lp_prev_accel_clip lp')"
    unfolding a using np_clip_between [of "fst ?c" "snd ?c" a] by simp_all
qed

lemma planner_update_ok:
  assumes "planner_env_ok pe" "clip_ok pe (lp_prev_accel_clip lp)"
    "planner_update pe mpc pin (lp, params) = Some (lp', params')"
  shows "clip_ok pe (lp_prev_accel_clip lp')" "ob_ACCEL_MIN (pe_opendbc pe) \<le> pl_output_a_target (lp_sp lp')"
    "pl_output_a_target (lp_sp lp') \<le> snd (lp_prev_accel_clip lp')"
proof -
  obtain sp c lp1 sp1 b v lp2 where l: "planner_limits pe pin (lp\<lparr>lp_sp := sp\<rparr>) = Some (c, lp1)"
    "planner_solve mpc pin b v (lp1\<lparr>lp_sp := sp1, lp_a_desired := pl_output_a_target sp1\<rparr>) = Some lp2"
    "planner_output pe pin c lp2 = Some lp'"
    using assms(3) by (auto simp: planner_update_def Let_def bind_eq_Some_conv split: prod.split_asm)
  have "clip_ok pe (lp_prev_accel_clip lp2)" "clip_ok pe c"
    using planner_limits_ok [OF assms(1) l(1)] planner_solve_frame [OF l(2)] assms(2) by simp_all
  from planner_output_ok [OF this l(3)]
  show "clip_ok pe (lp_prev_accel_clip lp')" "ob_ACCEL_MIN (pe_opendbc pe) \<le> pl_output_a_target (lp_sp lp')"
    "pl_output_a_target (lp_sp lp') \<le> snd (lp_prev_accel_clip lp')"
    by blast+
qed

definition plan_ok :: "PlannerEnv \<Rightarrow> PlannerOutput \<Rightarrow> bool" where
  "plan_ok pe out \<longleftrightarrow> ob_ACCEL_MIN (pe_opendbc pe) \<le> lpm_aTarget (po_plan out)
     \<and> lpm_aTarget (po_plan out) \<le> ob_ACCEL_MAX (pe_opendbc pe)"

lemma round_ok:
  assumes "planner_env_ok pe" "clip_ok pe (lp_prev_accel_clip lp)"
    "plannerd_round pe mapping mpc ri (lp, w, params) = Some (out, lp', w', params')"
  shows "clip_ok pe (lp_prev_accel_clip lp')" "case out of None \<Rightarrow> True | Some x \<Rightarrow> plan_ok pe x"
proof -
  have c: "clip_ok pe (lp_prev_accel_clip (round_buttons (ro_in ri) lp))"
    using assms(2) by (simp add: round_buttons_def)
  have "clip_ok pe (lp_prev_accel_clip lp') \<and> (case out of None \<Rightarrow> True | Some x \<Rightarrow> plan_ok pe x)"
  proof (cases "ro_model_updated ri")
    case True
    then obtain p where u: "planner_update pe mpc (ro_in ri) (round_buttons (ro_in ri) lp, params) = Some (lp', p)"
      and out: "\<exists>x. out = Some x \<and> lpm_aTarget (po_plan x) = pl_output_a_target (lp_sp lp')"
      using assms(3) by (fastforce simp: plannerd_round_def planner_publish_def Let_def bind_eq_Some_conv)
    from planner_update_ok [OF assms(1) c u] show ?thesis
      using out by (auto simp: plan_ok_def clip_ok_def)
  qed (use assms(3) c in \<open>auto simp: plannerd_round_def Let_def\<close>)
  then show "clip_ok pe (lp_prev_accel_clip lp')" "case out of None \<Rightarrow> True | Some x \<Rightarrow> plan_ok pe x"
    by blast+
qed

lemma run_limits:
  assumes "planner_env_ok pe" "clip_ok pe (lp_prev_accel_clip (fst s))" "plannerd_run pe mapping mpc ris s = Some (outs, s')"
  shows "list_all (plan_ok pe) outs"
  using assms(2,3)
proof (induction ris arbitrary: s outs)
  case (Cons ri ris)
  obtain lp w params where s: "s = (lp, w, params)"
    by (cases s) auto
  obtain out lp1 w1 p1 outs1 where r: "plannerd_round pe mapping mpc ri s = Some (out, lp1, w1, p1)"
    "plannerd_run pe mapping mpc ris (lp1, w1, p1) = Some (outs1, s')" "outs = (case out of None \<Rightarrow> [] | Some x \<Rightarrow> [x]) @ outs1"
    using Cons.prems(2) by (auto simp: bind_eq_Some_conv)
  note k = round_ok [OF assms(1) _ r(1) [unfolded s]]
  show ?case
    using Cons.IH [OF _ r(2)] k Cons.prems(1) r(3) by (auto simp: s split: option.splits)
qed simp


section \<open>The process never raises\<close>

lemma those_total: "list_all (\<lambda>x. x \<noteq> None) xs \<Longrightarrow> \<exists>ys. those xs = Some ys \<and> length ys = length xs"
  by (induction xs) auto

lemma np_interp_total: "xp \<noteq> [] \<Longrightarrow> length xp = length fp \<Longrightarrow> \<exists>y. np_interp x xp fp = Some y"
  by (simp add: np_interp_def)

lemma interp_all_total:
  assumes "xp \<noteq> []" "length xp = length fp"
  shows "\<exists>ys. interp_all ts xp fp = Some ys \<and> length ys = length ts"
  using those_total [of "map (\<lambda>t. np_interp t xp fp) ts"] np_interp_total [OF assms]
  by (simp add: interp_all_def list_all_iff)

lemma index_lengths [simp]:
  "length T_IDXS = 33" "length T_IDXS_MPC = 13" "length CONTROL_N_T_IDX = 17" "length (butlast T_IDXS_MPC) = 12"
  "T_IDXS \<noteq> []" "T_IDXS_MPC \<noteq> []" "CONTROL_N_T_IDX \<noteq> []" "butlast T_IDXS_MPC \<noteq> []"
proof -
  show l: "length T_IDXS = 33" "length T_IDXS_MPC = 13" "length CONTROL_N_T_IDX = 17"
    by (simp_all add: T_IDXS_def T_IDXS_MPC_def CONTROL_N_T_IDX_def CONTROL_N_def IDX_N_def)
  show b: "length (butlast T_IDXS_MPC) = 12"
    by (simp add: l)
  show "T_IDXS \<noteq> []" "T_IDXS_MPC \<noteq> []" "CONTROL_N_T_IDX \<noteq> []"
    using l by auto
  show "butlast T_IDXS_MPC \<noteq> []"
    using b by (metis list.size(3) zero_neq_numeral)
qed

subsection \<open>Admissible inputs\<close>

definition settings_stored :: "PlannerEnv \<Rightarrow> Params \<Rightarrow> bool" where
  "settings_stored pe params \<longleftrightarrow>
     settings_ok (get_default (pe_dflt pe) params ''SpeedLimitPolicy'') (get_default (pe_dflt pe) params ''SpeedLimitOffsetType'')"

text \<open>The controller returns for the three personalities, with trajectories of its length.\<close>

definition mpc_ok :: "'m Mpc \<Rightarrow> bool" where
  "mpc_ok mpc \<longleftrightarrow>
     (\<forall>b q v a pin c m. q \<le> 2 \<longrightarrow>
        (case mpc_step mpc b q v a pin c m of
           None \<Rightarrow> False
         | Some m' \<Rightarrow> length (mpc_v_solution mpc m') = 13 \<and> length (mpc_a_solution mpc m') = 13
                      \<and> length (mpc_j_solution mpc m') = 12))"

definition planner_input_ok :: "PlannerInput \<Rightarrow> bool" where
  "planner_input_ok pin \<longleftrightarrow>
     md_position_x (pi_model pin) \<noteq> [] \<and> md_orientationRate_z (pi_model pin) \<noteq> []
     \<and> length (md_orientationRate_z (pi_model pin)) = length (md_velocity_x (pi_model pin)) \<and> pi_personality pin \<le> 2"

definition lanes_ok :: "LaneMsg \<Rightarrow> bool" where
  "lanes_ok lm \<longleftrightarrow>
     (lm_desirePrediction lm = [] \<or> 4 < length (lm_desirePrediction lm)) \<and> 2 < length (lm_laneLineProbs lm)
     \<and> 2 < length (lm_laneLines_y lm) \<and> list_all (\<lambda>ys. ys \<noteq> []) (lm_laneLines_y lm)"

definition round_input_ok :: "RoundInput \<Rightarrow> bool" where
  "round_input_ok ri \<longleftrightarrow> planner_input_ok (ro_in ri) \<and> lanes_ok (ro_lanes ri)"

definition resolver_ok :: "PlannerSP \<Rightarrow> bool" where
  "resolver_ok p \<longleftrightarrow> settings_ok (policy (pl_resolver p)) (offset_type (pl_resolver p))"

subsection \<open>Step by step\<close>

lemma vision_solution_total: "\<exists>a. vision_update_solution v = Some a"
  by (auto simp: vision_update_solution_def np_interp_def ENTERING_SMOOTH_DECEL_BP_def ENTERING_SMOOTH_DECEL_V_def
      TURNING_ACC_BP_def TURNING_ACC_V_def split: VisionState.split)

lemma vision_update_total:
  assumes "sci_orientationRate_z si \<noteq> []" "length (sci_orientationRate_z si) = length (sci_velocity_x si)"
  shows "\<exists>v'. vision_update sq si v = Some v'"
proof -
  have "vision_update_calculations sq si w \<noteq> None" for w
    using assms by (auto simp: vision_update_calculations_def np_times_def np_percentile_def Let_def)
  then show ?thesis
    using vision_solution_total by (auto simp: vision_update_def Let_def split: option.split)
qed

lemma sla_params:
  assumes "sla_update CP CP_SP dflt now i (a, params, sp) = (a', params', sp')" "k \<noteq> ''SpeedLimitMode''"
  shows "get_default dflt params' k = get_default dflt params k"
  using assms
  by (auto simp: sla_update_def sla_update_params_def set_speed_limit_assist_availability_def get_default_def Let_def
      split: prod.split_asm if_split_asm)

lemma update_targets_total:
  assumes "planner_input_ok pin" "resolver_ok p" "settings_stored pe params"
  shows "\<exists>p' params'. update_targets pe pin v_ego a_ego v_cruise (p, params) = Some (p', params')
    \<and> resolver_ok p' \<and> settings_stored pe params'"
proof -
  obtain v where v: "vision_update (sqrtf (pe_math pe)) (scc_input pin params v_ego a_ego v_cruise) (scc_vision (pl_scc p)) = Some v"
    using vision_update_total [of "scc_input pin params v_ego a_ego v_cruise"] assms(1)
    by (auto simp: scc_input_def planner_input_ok_def)
  then obtain scc where scc: "scc_update (pe_math pe) (pi_map pin) (scc_input pin params v_ego a_ego v_cruise) (pl_scc p) = Some scc"
    by (auto simp: scc_update_def Let_def)
  obtain rs where rs: "rs_update (pe_dflt pe) params v_ego (pi_limits pin) (pl_resolver p) = Some rs"
    "settings_ok (policy rs) (offset_type rs)"
    using rs_update_total assms(2,3) by (metis resolver_ok_def settings_stored_def)
  obtain sla params1 sp where sla: "sla_update (pe_CP pe) (pe_CP_SP pe) (pe_dflt pe) (pi_now pin) (assist_input pin rs v_ego a_ego)
       (pl_sla p, params, pl_events_sp p) = (sla, params1, sp)"
    by (metis prod_cases3)
  obtain s v' a where t: "pick_target (S_cruise, v_cruise, a_ego) (plan_targets scc sla) = (s, v', a)"
    by (metis prod_cases3)
  have "settings_stored pe params1"
    using assms(3) sla_params [OF sla] by (simp add: settings_stored_def)
  then show ?thesis
    using rs by (simp add: update_targets_def scc sla t resolver_ok_def)
qed

lemma planner_sp_update_total:
  assumes "planner_input_ok pin"
  shows "\<exists>p'. planner_sp_update pe pin n params p = Some p' \<and> pl_resolver p' = pl_resolver p"
proof -
  let ?h = "e2e_read_params params (pl_e2e_alerts_helper p)"
  have "green_light_step (e2e_input pin params) h \<noteq> None" for h
    using assms by (auto simp: green_light_step_def e2e_input_def planner_input_ok_def Let_def)
  then have "update_alert_trigger (e2e_input pin params) ?h \<noteq> None"
    by (auto simp: update_alert_trigger_def Let_def split: option.split prod.split)
  then obtain g l h where "update_alert_trigger (e2e_input pin params) ?h = Some (g, l, h)"
    by auto
  then have "e2e_update (e2e_input pin params) (pl_e2e_alerts_helper p, clear (pl_events_sp p)) \<noteq> None"
    by (simp add: e2e_update_def Let_def e2e_input_def split: prod.split)
  then show ?thesis
    by (auto simp: planner_sp_update_def Let_def)
qed

lemma parse_model_total: "\<exists>r. parse_model md = Some r"
proof (cases "length (md_position_x md) = IDX_N \<and> length (md_velocity_x md) = IDX_N \<and> length (md_acceleration_x md) = IDX_N")
  case True
  have "\<exists>ys. interp_all T_IDXS_MPC T_IDXS xs = Some ys" if "length xs = IDX_N" for xs
    using interp_all_total [of T_IDXS xs] that by (auto simp: IDX_N_def)
  then obtain x v a where "interp_all T_IDXS_MPC T_IDXS (md_position_x md) = Some x"
    "interp_all T_IDXS_MPC T_IDXS (md_velocity_x md) = Some v" "interp_all T_IDXS_MPC T_IDXS (md_acceleration_x md) = Some a"
    using True by metis
  then show ?thesis
    using True by (simp add: parse_model_def)
qed (auto simp: parse_model_def Let_def)

lemma planner_limits_total:
  assumes "planner_env_ok pe"
  shows "\<exists>c lp'. planner_limits pe pin lp = Some (c, lp')"
proof -
  have "turn_limits pe pin \<noteq> None"
    using assms by (auto simp: turn_limits_def get_max_accel_def limit_accel_in_turns_def Let_def np_interp_def
        A_CRUISE_MAX_BP_def A_CRUISE_MAX_VALS_def A_TOTAL_MAX_BP_def A_TOTAL_MAX_V_def planner_env_ok_def)
  then obtain c where c: "turn_limits pe pin = Some c"
    by auto
  obtain x1 x2 x3 x4 q where q: "parse_model (pi_model pin) = Some (x1, x2, x3, x4, q)"
    using parse_model_total [of "pi_model pin"] by (metis prod_cases5)
  show ?thesis
    by (simp add: planner_limits_def c q Let_def coast_limits_def np_interp_def)
qed

lemma planner_solve_total:
  assumes "mpc_ok mpc" "planner_input_ok pin"
  shows "\<exists>lp'. planner_solve mpc pin b v lp = Some lp' \<and> length (lp_v_trajectory lp') = 17 \<and> length (lp_a_trajectory lp') = 17"
proof -
  obtain m where m: "mpc_step mpc b (pi_personality pin) (fo_x (lp_v_desired_filter lp)) (lp_a_desired lp) pin v (lp_mpc lp) = Some m"
    "length (mpc_v_solution mpc m) = 13" "length (mpc_a_solution mpc m) = 13" "length (mpc_j_solution mpc m) = 12"
    using assms by (force simp: mpc_ok_def planner_input_ok_def split: option.splits)
  obtain vs as js where s: "interp_all CONTROL_N_T_IDX T_IDXS_MPC (mpc_v_solution mpc m) = Some vs" "length vs = 17"
    "interp_all CONTROL_N_T_IDX T_IDXS_MPC (mpc_a_solution mpc m) = Some as" "length as = 17"
    "interp_all CONTROL_N_T_IDX (butlast T_IDXS_MPC) (mpc_j_solution mpc m) = Some js"
    using interp_all_total [of T_IDXS_MPC "mpc_v_solution mpc m" CONTROL_N_T_IDX]
      interp_all_total [of T_IDXS_MPC "mpc_a_solution mpc m" CONTROL_N_T_IDX]
      interp_all_total [of "butlast T_IDXS_MPC" "mpc_j_solution mpc m" CONTROL_N_T_IDX] m by auto
  obtain a where "np_interp DT_MDL CONTROL_N_T_IDX as = Some a"
    using np_interp_total [of CONTROL_N_T_IDX as DT_MDL] s(4) by auto
  then show ?thesis
    using m(1) s by (simp add: planner_solve_def Let_def)
qed

lemma planner_output_total:
  assumes "planner_env_ok pe" "length (lp_v_trajectory lp) = 17" "length (lp_a_trajectory lp) = 17"
  shows "\<exists>lp'. planner_output pe pin c lp = Some lp' \<and> pl_resolver (lp_sp lp') = pl_resolver (lp_sp lp)"
proof -
  obtain v vs a as where l: "lp_v_trajectory lp = v # vs" "lp_a_trajectory lp = a # as"
    using assms(2,3) by (metis length_0_conv neq_Nil_conv zero_neq_numeral)
  have "get_accel_from_plan (lp_v_trajectory lp) (lp_a_trajectory lp) CONTROL_N_T_IDX
         (pe_longitudinalActuatorDelay pe + DT_MDL) (pe_vEgoStopping pe) \<noteq> None"
    using assms(1,2) np_interp_total [of CONTROL_N_T_IDX "v # vs"] l
    by (auto simp: get_accel_from_plan_def planner_env_ok_def Let_def np_interp_def)
  then show ?thesis
    by (auto simp: planner_output_def Let_def)
qed

lemma planner_update_total:
  assumes "planner_env_ok pe" "mpc_ok mpc" "planner_input_ok pin" "resolver_ok (lp_sp lp)" "settings_stored pe params"
  shows "\<exists>lp' params'. planner_update pe mpc pin (lp, params) = Some (lp', params')
    \<and> resolver_ok (lp_sp lp') \<and> settings_stored pe params'"
proof -
  obtain sp where sp: "planner_sp_update pe pin (mpc_crash_cnt mpc (lp_mpc lp)) params (lp_sp lp) = Some sp" "resolver_ok sp"
    using planner_sp_update_total [OF assms(3)] assms(4) by (metis resolver_ok_def)
  obtain c lp1 where c: "planner_limits pe pin (lp\<lparr>lp_sp := sp\<rparr>) = Some (c, lp1)"
    using planner_limits_total [OF assms(1)] by blast
  then have r1: "resolver_ok (lp_sp lp1)"
    using planner_limits_ok(3) [OF assms(1) c] sp(2) by simp
  obtain sp1 params1 where t: "update_targets pe pin (fo_x (lp_v_desired_filter lp1)) (lp_a_desired lp1) (cruise_speed pin)
      (lp_sp lp1, params) = Some (sp1, params1)" "resolver_ok sp1" "settings_stored pe params1"
    using update_targets_total [OF assms(3) r1 assms(5)] by blast
  let ?v = "if pi_forceDecel pin then 0 else pl_output_v_target sp1"
  obtain lp2 where s: "planner_solve mpc pin (\<not> (must_reset pe pin \<or> cs_standstill (pi_CS pin))) ?v
      (lp1\<lparr>lp_sp := sp1, lp_a_desired := pl_output_a_target sp1\<rparr>) = Some lp2"
    "length (lp_v_trajectory lp2) = 17" "length (lp_a_trajectory lp2) = 17"
    using planner_solve_total [OF assms(2,3)] by blast
  obtain lp3 where o: "planner_output pe pin c lp2 = Some lp3" "pl_resolver (lp_sp lp3) = pl_resolver (lp_sp lp2)"
    using planner_output_total [OF assms(1) s(2,3)] by blast
  have "resolver_ok (lp_sp lp3)"
    using o(2) planner_solve_frame(2) [OF s(1)] t(2) by (simp add: resolver_ok_def)
  then show ?thesis
    using sp(1) c t(1,3) s(1) o(1) by (simp add: planner_update_def Let_def)
qed

lemma ldw_update_total:
  assumes "lanes_ok lm"
  shows "\<exists>w'. ldw_update fr lm CS la w = Some w'"
proof -
  have "lane_close lm i f p \<noteq> None" if "i \<le> 2" for i f p
    using assms that
    by (auto simp: lane_close_def lanes_ok_def nth_opt_def list_all_length)
  then obtain l r where
    "lane_close lm 1 (\<lambda>y. y > - (108/100 + CAMERA_OFFSET)) (lm_laneLineProbs lm ! 1) = Some l"
    "lane_close lm 2 (\<lambda>y. y < 108/100 - CAMERA_OFFSET) (lm_laneLineProbs lm ! 2) = Some r"
    by (metis not_None_eq one_le_numeral order_refl)
  then show ?thesis
    using assms
    by (auto simp: ldw_update_def Let_def lanes_ok_def nth_opt_def Desire_laneChangeLeft_def Desire_laneChangeRight_def)
qed

lemma round_total:
  assumes "planner_env_ok pe" "mpc_ok mpc" "round_input_ok ri" "resolver_ok (lp_sp lp)" "settings_stored pe params"
  shows "\<exists>out lp' w' params'. plannerd_round pe mapping mpc ri (lp, w, params) = Some (out, lp', w', params')
    \<and> resolver_ok (lp_sp lp') \<and> settings_stored pe params'"
proof -
  let ?lp = "round_buttons (ro_in ri) lp"
  have r: "resolver_ok (lp_sp ?lp)"
    using assms(4) by (simp add: round_buttons_def resolver_ok_def)
  obtain lp' params' where u: "planner_update pe mpc (ro_in ri) (?lp, params) = Some (lp', params')"
    "resolver_ok (lp_sp lp')" "settings_stored pe params'"
    using planner_update_total [OF assms(1,2) _ r assms(5)] assms(3) unfolding round_input_ok_def by blast
  obtain w' where "ldw_update (ro_frame ri) (ro_lanes ri) (pi_CS (ro_in ri)) (ro_latActive ri) w = Some w'"
    using ldw_update_total assms(3) unfolding round_input_ok_def by blast
  then show ?thesis
    using u r assms(5) by (auto simp: plannerd_round_def Let_def split: prod.split)
qed

lemma planner_run_total:
  assumes "planner_env_ok pe" "mpc_ok mpc" "list_all round_input_ok ris" "resolver_ok (lp_sp (fst s))"
    "settings_stored pe (snd (snd s))"
  shows "\<exists>outs s'. plannerd_run pe mapping mpc ris s = Some (outs, s')"
  using assms(3-5)
proof (induction ris arbitrary: s)
  case (Cons ri ris)
  obtain lp w params where s: "s = (lp, w, params)"
    by (cases s) auto
  obtain out lp' w' params' where r: "plannerd_round pe mapping mpc ri s = Some (out, lp', w', params')"
    "resolver_ok (lp_sp lp')" "settings_stored pe params'"
    using round_total [OF assms(1,2), of ri lp params mapping w] Cons.prems by (auto simp: s)
  then obtain outs s' where "plannerd_run pe mapping mpc ris (lp', w', params') = Some (outs, s')"
    using Cons.IH [of "(lp', w', params')"] Cons.prems by auto
  then show ?case
    using r(1) by (cases s') simp
qed (metis plannerd_run.simps(1))

lemma sanitized_settings:
  assumes "new_SpeedLimitResolver dflt params = (rs, params')"
  shows "settings_ok (policy rs) (offset_type rs)"
    "settings_ok (get_default dflt params' ''SpeedLimitPolicy'') (get_default dflt params' ''SpeedLimitOffsetType'')"
proof -
  obtain v1 p1 where a: "get_sanitize_int_param dflt ''SpeedLimitPolicy'' 0 4 params = (v1, p1)"
    by (metis surj_pair)
  obtain v2 p2 where b: "get_sanitize_int_param dflt ''SpeedLimitOffsetType'' 0 2 p1 = (v2, p2)"
    by (metis surj_pair)
  have r: "policy rs = v1" "offset_type rs = v2" "params' = p2"
    using assms by (auto simp: new_SpeedLimitResolver_def a b)
  have "v1 \<in> {0..4}" "v2 \<in> {0..2}"
    using get_sanitize_bounds [of 0 4 dflt "''SpeedLimitPolicy''" params] get_sanitize_bounds [of 0 2 dflt "''SpeedLimitOffsetType''" p1] a b
    by simp_all
  moreover have "get_default dflt p2 ''SpeedLimitPolicy'' = v1"
    using get_sanitize_stored(1) [OF a] b by (auto simp: get_sanitize_int_param_def get_default_def Let_def split: if_split_asm)
  ultimately show "settings_ok (policy rs) (offset_type rs)"
    "settings_ok (get_default dflt params' ''SpeedLimitPolicy'') (get_default dflt params' ''SpeedLimitOffsetType'')"
    using get_sanitize_stored(1) [OF b] by (simp_all add: settings_ok_def r)
qed

lemma new_planner_ok:
  assumes "new_Planner pe mapping mi mpc m0 params = (lp, params')"
  shows "resolver_ok (lp_sp lp)" "settings_stored pe params'" "planner_env_ok pe \<Longrightarrow> clip_ok pe (lp_prev_accel_clip lp)"
proof -
  obtain sp where sp: "new_PlannerSP pe mapping mi params = (sp, params')" "lp_sp lp = sp"
    "lp_prev_accel_clip lp = (ob_ACCEL_MIN (pe_opendbc pe), ob_ACCEL_MAX (pe_opendbc pe))"
    using assms by (auto simp: new_Planner_def Let_def split: prod.splits)
  obtain rs0 p1 rs p2 where p: "new_SpeedLimitResolver (pe_dflt pe) params = (rs0, p1)"
    "new_SpeedLimitResolver (pe_dflt pe) p1 = (rs, p2)"
    by (metis surj_pair)
  have n: "pl_resolver sp = rs" "params' = snd (new_SpeedLimitAssist (pe_CP pe) (pe_CP_SP pe) (pe_dflt pe) p2)"
    using sp(1) by (auto simp: new_PlannerSP_def p Let_def split: prod.splits)
  have "get_default (pe_dflt pe) params' k = get_default (pe_dflt pe) p2 k" if "k \<noteq> ''SpeedLimitMode''" for k
    using that by (simp add: n new_SpeedLimitAssist_def set_speed_limit_assist_availability_def get_default_def Let_def)
  then show "resolver_ok (lp_sp lp)" "settings_stored pe params'"
    using sanitized_settings [OF p(2)] sp(2) n(1) by (simp_all add: resolver_ok_def settings_stored_def)
  show "planner_env_ok pe \<Longrightarrow> clip_ok pe (lp_prev_accel_clip lp)"
    by (simp add: sp(3) clip_ok_def planner_env_ok_def)
qed

section \<open>Concrete inputs\<close>

definition sample_planner_env :: PlannerEnv where
  "sample_planner_env =
     \<lparr>pe_CP = plain_CP, pe_CP_SP = plain_CP_SP, pe_radarUnavailable = False, pe_steerRatio = 15, pe_wheelbase = 27/10,
      pe_longitudinalActuatorDelay = 15/100, pe_vEgoStopping = 1/2, pe_dflt = (\<lambda>_. 0), pe_math = sample_math,
      pe_opendbc = plain_ob\<rparr>"

text \<open>A solver without state, which always brakes gently.\<close>

definition sample_mpc :: "unit Mpc" where
  "sample_mpc =
     \<lparr>mpc_step = (\<lambda>_ _ _ _ _ _ m. Some m), mpc_v_solution = (\<lambda>_. replicate 13 20), mpc_a_solution = (\<lambda>_. replicate 13 (-1)),
      mpc_j_solution = (\<lambda>_. replicate 12 0), mpc_crash_cnt = (\<lambda>_. 0), mpc_source = (\<lambda>_. ''cruise'')\<rparr>"

definition sample_model :: ModelMsg where
  "sample_model =
     \<lparr>md_position_x = replicate 33 50, md_velocity_x = replicate 33 20, md_acceleration_x = replicate 33 0,
      md_orientation_x = replicate 33 0, md_orientationRate_z = replicate 33 (1/100), md_gasPressProbs = [1, 1],
      md_desiredAcceleration = -2, md_shouldStop = False\<rparr>"

definition sample_pin :: PlannerInput where
  "sample_pin =
     \<lparr>pi_CS = default_CarState\<lparr>cs_vEgo := 20\<rparr>, pi_model = sample_model, pi_CC_enabled = True, pi_CC_override = False,
      pi_CC_orientationNED = [0, 0, 0], pi_experimentalMode = True, pi_selfdrive_enabled = True, pi_personality = 1,
      pi_longControlState = LCS_pid, pi_forceDecel = False, pi_curvature = 0, pi_angleOffsetDeg = 0,
      pi_lead_status = False, pi_lead_dRel = 0, pi_limits = sample_ri,
      pi_map = \<lparr>mi_position = None, mi_velocities = None\<rparr>, pi_now = 0\<rparr>"

definition sample_planner_round :: RoundInput where
  "sample_planner_round =
     \<lparr>ro_in = sample_pin,
      ro_lanes = \<lparr>lm_desirePrediction = replicate 8 0, lm_laneLineProbs = replicate 4 1, lm_laneLines_y = replicate 4 [0]\<rparr>,
      ro_frame = 1, ro_latActive = True, ro_model_updated = True, ro_plan_checks = True, ro_plan_sp_checks = True,
      ro_ldw_checks = True\<rparr>"

definition sample_planner :: "unit Planner \<times> Params" where
  "sample_planner = new_Planner sample_planner_env ([] :: unit events_mapping) (pi_map sample_pin) sample_mpc () Map.empty"

lemma sample_planner_ok:
  "planner_env_ok sample_planner_env" "mpc_ok sample_mpc" "round_input_ok sample_planner_round"
  by (simp_all add: planner_env_ok_def sample_planner_env_def plain_ob_def sample_math_def DT_MDL_def mpc_ok_def sample_mpc_def
      round_input_ok_def sample_planner_round_def planner_input_ok_def sample_pin_def sample_model_def lanes_ok_def list_all_iff)

section \<open>Properties\<close>

text \<open>C16 (safety). The planner drives at the lowest of the speeds that the driver, both controllers of smart cruise control and speed
limit assist ask for, with the acceleration of the one it follows: never above the set speed, and never at a speed
that is infinite or not a number.\<close>

theorem lowest_speed_wins:
  "case update_targets pe pin v_ego a_ego v_cruise (p, params) of
     None \<Rightarrow> True
   | Some (p', _) \<Rightarrow>
       pl_output_v_target p' \<le> v_cruise \<and> pl_output_v_target p' \<le> mp_output_v_target (scc_map (pl_scc p'))
       \<and> pl_output_v_target p' \<le> output_v_target (pl_sla p')
       \<and> (case vi_output_v_target (scc_vision (pl_scc p')) of Fin v \<Rightarrow> pl_output_v_target p' \<le> v | _ \<Rightarrow> True)
       \<and> (pl_source p', Fin (pl_output_v_target p'), pl_output_a_target p')
           \<in> set ((S_cruise, Fin v_cruise, a_ego) # plan_targets (pl_scc p') (pl_sla p'))"
proof (cases "update_targets pe pin v_ego a_ego v_cruise (p, params)")
  case (Some r)
  obtain p' params' where r: "r = (p', params')"
    by (cases r) auto
  obtain scc rs sla sp s v a where t: "pick_target (S_cruise, v_cruise, a_ego) (plan_targets scc sla) = (s, v, a)"
    and p': "p' = p\<lparr>pl_scc := scc, pl_resolver := rs, pl_sla := sla, pl_events_sp := sp, pl_source := s,
             pl_output_v_target := v, pl_output_a_target := a\<rparr>"
    using Some unfolding r by (rule update_targetsE)
  have le: "(s', Fin v', a') \<in> set (plan_targets scc sla) \<Longrightarrow> v \<le> v'" for s' v' a'
    using pick_target_least(2) [of s' v' a' "plan_targets scc sla" "(S_cruise, v_cruise, a_ego)"] t by simp
  show ?thesis
    using pick_target_least(1) [of "(S_cruise, v_cruise, a_ego)" "plan_targets scc sla"] t pick_target_member [OF t]
      le [of S_sccMap] le [of S_speedLimitAssist] le [of S_sccVision]
    by (auto simp: Some r p' plan_targets_def split: Float.split)
qed simp

text \<open>C17 (bounds). In every run of the planner process, whatever the model, the solver and the car report, each published target
acceleration lies within the limits of the car's interface.\<close>

theorem planned_acceleration_within_limits:
  assumes "planner_env_ok pe" "new_Planner pe mapping mi mpc m0 params = (lp, params')"
  shows "case plannerd_run pe mapping mpc ris (lp, new_LaneDepartureWarning, params') of
     None \<Rightarrow> True
   | Some (outs, _) \<Rightarrow> list_all (plan_ok pe) outs"
  using run_limits [OF assms(1), of "(lp, new_LaneDepartureWarning, params')"] new_planner_ok(3) [OF assms(2) assms(1)]
  by (auto split: option.split)

theorem planned_acceleration_within_limits_witness:
  "\<exists>outs s'. plannerd_run sample_planner_env ([] :: unit events_mapping) sample_mpc [sample_planner_round]
       (fst sample_planner, new_LaneDepartureWarning, snd sample_planner) = Some (outs, s') \<and> list_all (plan_ok sample_planner_env) outs"
proof -
  have n: "new_Planner sample_planner_env ([] :: unit events_mapping) (pi_map sample_pin) sample_mpc () Map.empty
      = (fst sample_planner, snd sample_planner)"
    by (simp add: sample_planner_def)
  have "\<exists>outs s'. plannerd_run sample_planner_env ([] :: unit events_mapping) sample_mpc [sample_planner_round]
       (fst sample_planner, new_LaneDepartureWarning, snd sample_planner) = Some (outs, s')"
    by (rule planner_run_total [OF sample_planner_ok(1,2)]) (use new_planner_ok(1,2) [OF n] sample_planner_ok(3) in simp_all)
  then show ?thesis
    using planned_acceleration_within_limits [OF sample_planner_ok(1) n, where ris = "[sample_planner_round]"] by (force simp del: plannerd_run.simps)
qed



text \<open>C19 (safety). The model's own plan can only make the car slower: in the same situation, the end-to-end mode gives no higher
acceleration than the normal mode, with the same limits for the next frame, and stops whenever that stops.\<close>

theorem model_plan_only_slows:
  "case (planner_output pe pin c lp, planner_output pe (pin\<lparr>pi_experimentalMode := False\<rparr>) c lp) of
     (Some e2e, Some normal) \<Rightarrow>
       pl_output_a_target (lp_sp e2e) \<le> pl_output_a_target (lp_sp normal)
       \<and> lp_prev_accel_clip e2e = lp_prev_accel_clip normal
       \<and> lp_output_should_stop normal \<le> lp_output_should_stop e2e
   | (None, None) \<Rightarrow> True
   | _ \<Rightarrow> False"
proof -
  have clip_mono: "x \<le> y \<Longrightarrow> np_clip x lo hi \<le> np_clip y lo hi" for x y lo hi :: rat
    by (auto simp: np_clip_def min_def max_def)
  have [simp]: "is_e2e (pin\<lparr>pi_experimentalMode := False\<rparr>) p = False" for p
    by (simp add: is_e2e_def)
  show ?thesis
    by (cases "get_accel_from_plan (lp_v_trajectory lp) (lp_a_trajectory lp) CONTROL_N_T_IDX
         (pe_longitudinalActuatorDelay pe + DT_MDL) (pe_vEgoStopping pe)")
      (auto simp: planner_output_def Let_def intro!: clip_mono)
qed

end
