(* ===== verification/Radar.thy ===== *)
theory Radar
  imports SpeedLimit Filters DriverMonitor
begin

unbundle bit_operations_syntax

text \<open>
  The process \<open>radard\<close> (\<open>selfdrive/controls/radard.py\<close>): it keeps a track with a Kalman filter for every point of
  the car's radar, matches the lead cars that the driving model sees with these tracks, and publishes the
  two leads that the planner follows. The exponential function is the argument \<open>expf\<close>.

  A dictionary is an association list in the order of insertion; a lead is an option, \<open>None\<close> for the dictionary
  that holds only the status \<open>False\<close>. The validity and the times of the published message are left out.
\<close>

definition LEAD_ACCEL_TAU :: rat where "LEAD_ACCEL_TAU = 15/10"
definition V_EGO_STATIONARY :: rat where "V_EGO_STATIONARY = 4"
definition RADAR_TO_CAMERA :: rat where "RADAR_TO_CAMERA = 152/100"

section \<open>KF1D (common/simple\_kalman.py)\<close>

record KF1D =
  x0_0 :: rat
  x1_0 :: rat
  K0_0 :: rat
  K1_0 :: rat
  A_K_0 :: rat
  A_K_1 :: rat
  A_K_2 :: rat
  A_K_3 :: rat

record KalmanParams =
  kp_A :: "(rat \<times> rat) \<times> (rat \<times> rat)"
  kp_C :: "rat \<times> rat"
  kp_K :: "rat \<times> rat"

definition new_KF1D :: "rat \<times> rat \<Rightarrow> KalmanParams \<Rightarrow> KF1D" where
  "new_KF1D x kp =
     (let ((a00, a01), (a10, a11)) = kp_A kp; (c0, c1) = kp_C kp; (k0, k1) = kp_K kp
      in \<lparr>x0_0 = fst x, x1_0 = snd x, K0_0 = k0, K1_0 = k1, A_K_0 = a00 - k0 * c0, A_K_1 = a01 - k0 * c1,
          A_K_2 = a10 - k1 * c0, A_K_3 = a11 - k1 * c1\<rparr>)"

definition kf1d_update :: "rat \<Rightarrow> KF1D \<Rightarrow> KF1D" where
  "kf1d_update meas f =
     f\<lparr>x0_0 := A_K_0 f * x0_0 f + A_K_1 f * x1_0 f + K0_0 f * meas,
       x1_0 := A_K_2 f * x0_0 f + A_K_3 f * x1_0 f + K1_0 f * meas\<rparr>"

definition gain_K0 :: "rat list" where
  "gain_K0 = map (\<lambda>k. k / 10 ^ 8)
     [12287673, 14556536, 16522756, 18281627, 19886890, 21372394, 22761098, 24069424, 25309600, 26491023, 27621103,
      28705801, 29750003, 30757767, 31732515, 32677158, 33594201, 34485814, 35353899, 36200124]"

definition gain_K1 :: "rat list" where
  "gain_K1 = map (\<lambda>k. k / 10 ^ 8)
     [29666309, 29330885, 29042818, 28787125, 28555364, 28342219, 28144091, 27958406, 27783249, 27617149, 27458948,
      27307714, 27162685, 27023228, 26888809, 26758976, 26633338, 26511557, 26393339, 26278425]"

text \<open>The assertion on the time step is \<open>None\<close> when it fails.\<close>

definition new_KalmanParams :: "rat \<Rightarrow> KalmanParams option" where
  "new_KalmanParams dt =
     (if dt > 1/100 \<and> dt < 2/10 then
        (let dts = map (\<lambda>i. of_nat i * (1/100)) [1..<21]
         in case (np_interp dt dts gain_K0, np_interp dt dts gain_K1) of
              (Some k0, Some k1) \<Rightarrow> Some \<lparr>kp_A = ((1, dt), (0, 1)), kp_C = (1, 0), kp_K = (k0, k1)\<rparr>
            | _ \<Rightarrow> None)
      else None)"

section \<open>Track\<close>

record Track =
  tk_identifier :: int
  tk_cnt :: nat
  tk_aLeadTau :: FirstOrderFilter
  tk_kf :: KF1D
  tk_dRel :: rat
  tk_yRel :: rat
  tk_vRel :: rat
  tk_vLead :: rat
  tk_measured :: bool
  tk_vLeadK :: rat
  tk_aLeadK :: rat

text \<open>The attributes after \<open>kf\<close> are set by the first update, which follows at once.\<close>

definition new_Track :: "int \<Rightarrow> rat \<Rightarrow> KalmanParams \<Rightarrow> Track" where
  "new_Track identifier v_lead kp =
     \<lparr>tk_identifier = identifier, tk_cnt = 0,
      tk_aLeadTau = new_FirstOrderFilter LEAD_ACCEL_TAU (45/100) DT_MDL True, tk_kf = new_KF1D (v_lead, 0) kp,
      tk_dRel = 0, tk_yRel = 0, tk_vRel = 0, tk_vLead = 0, tk_measured = False, tk_vLeadK = 0, tk_aLeadK = 0\<rparr>"

record RadarPoint =
  rp_trackId :: int
  rp_dRel :: rat
  rp_yRel :: rat
  rp_vRel :: rat
  rp_measured :: bool

definition track_update :: "RadarPoint \<Rightarrow> rat \<Rightarrow> Track \<Rightarrow> Track" where
  "track_update p v_lead t =
     (let kf = (if tk_cnt t > 0 then kf1d_update v_lead (tk_kf t) else tk_kf t);
          tau = tk_aLeadTau t
      in t\<lparr>tk_dRel := rp_dRel p, tk_yRel := rp_yRel p, tk_vRel := rp_vRel p, tk_vLead := v_lead,
           tk_measured := rp_measured p, tk_kf := kf, tk_vLeadK := x0_0 kf, tk_aLeadK := x1_0 kf,
           tk_aLeadTau := (if \<bar>x1_0 kf\<bar> < 1/2 then tau\<lparr>fo_x := LEAD_ACCEL_TAU\<rparr> else fo_update 0 tau),
           tk_cnt := tk_cnt t + 1\<rparr>)"

record Lead =
  ld_dRel :: rat
  ld_yRel :: rat
  ld_vRel :: rat
  ld_vLead :: rat
  ld_vLeadK :: rat
  ld_aLeadK :: rat
  ld_aLeadTau :: rat
  ld_fcw :: bool
  ld_modelProb :: rat
  ld_radar :: bool
  ld_radarTrackId :: int

definition is_potential_fcw :: "rat \<Rightarrow> bool" where "is_potential_fcw model_prob \<longleftrightarrow> model_prob > 9/10"

definition get_RadarState :: "rat \<Rightarrow> Track \<Rightarrow> Lead" where
  "get_RadarState model_prob t =
     \<lparr>ld_dRel = tk_dRel t, ld_yRel = tk_yRel t, ld_vRel = tk_vRel t, ld_vLead = tk_vLead t, ld_vLeadK = tk_vLeadK t,
      ld_aLeadK = tk_aLeadK t, ld_aLeadTau = fo_x (tk_aLeadTau t), ld_fcw = is_potential_fcw model_prob,
      ld_modelProb = model_prob, ld_radar = True, ld_radarTrackId = tk_identifier t\<rparr>"

definition potential_low_speed_lead :: "rat \<Rightarrow> Track \<Rightarrow> bool" where
  "potential_low_speed_lead v_ego t \<longleftrightarrow>
     \<bar>tk_yRel t\<bar> < 1 \<and> v_ego < V_EGO_STATIONARY \<and> 75/100 < tk_dRel t \<and> tk_dRel t < 25"

section \<open>Matching the model's leads\<close>

text \<open>The model's lead (\<open>LeadDataV3\<close>): the trajectories of its position, speed and acceleration.\<close>

record LeadMsg =
  lm_prob :: rat
  lm_x :: "rat list"
  lm_xStd :: "rat list"
  lm_y :: "rat list"
  lm_yStd :: "rat list"
  lm_v :: "rat list"
  lm_vStd :: "rat list"
  lm_a :: "rat list"

definition laplacian_pdf :: "(rat \<Rightarrow> rat) \<Rightarrow> rat \<Rightarrow> rat \<Rightarrow> rat \<Rightarrow> rat" where
  "laplacian_pdf expf x mu b0 = (let b = max b0 (1 / 10 ^ 4) in expf (- \<bar>x - mu\<bar> / b))"

text \<open>\<open>max(..., key=...)\<close>: the first of the largest, \<open>ValueError\<close> without elements; \<open>min\<close> likewise.\<close>

fun first_max :: "('a \<Rightarrow> rat) \<Rightarrow> 'a list \<Rightarrow> 'a option" where
  "first_max f [] = None"
| "first_max f [x] = Some x"
| "first_max f (x # y # xs) = first_max f ((if f y > f x then y else x) # xs)"

definition first_least :: "('a \<Rightarrow> rat) \<Rightarrow> 'a list \<Rightarrow> 'a option" where
  "first_least f = first_max (\<lambda>x. - f x)"

text \<open>The first elements of the lists of a lead; an empty list raises \<open>IndexError\<close>.\<close>

record LeadHead =
  lh_x :: rat
  lh_xStd :: rat
  lh_y :: rat
  lh_yStd :: rat
  lh_v :: rat
  lh_vStd :: rat

definition lead_head :: "LeadMsg \<Rightarrow> LeadHead option" where
  "lead_head lm = do {
     x \<leftarrow> nth_opt (lm_x lm) 0; xs \<leftarrow> nth_opt (lm_xStd lm) 0;
     y \<leftarrow> nth_opt (lm_y lm) 0; ys \<leftarrow> nth_opt (lm_yStd lm) 0;
     v \<leftarrow> nth_opt (lm_v lm) 0; vs \<leftarrow> nth_opt (lm_vStd lm) 0;
     Some \<lparr>lh_x = x, lh_xStd = xs, lh_y = y, lh_yStd = ys, lh_v = v, lh_vStd = vs\<rparr>
   }"

definition match_prob :: "(rat \<Rightarrow> rat) \<Rightarrow> rat \<Rightarrow> LeadHead \<Rightarrow> Track \<Rightarrow> rat" where
  "match_prob expf v_ego h c =
     laplacian_pdf expf (tk_dRel c) (lh_x h - RADAR_TO_CAMERA) (lh_xStd h)
     * laplacian_pdf expf (tk_yRel c) (- lh_y h) (lh_yStd h)
     * laplacian_pdf expf (tk_vRel c + v_ego) (lh_v h) (lh_vStd h)"

definition dist_sane :: "LeadHead \<Rightarrow> Track \<Rightarrow> bool" where
  "dist_sane h t \<longleftrightarrow>
     \<bar>tk_dRel t - (lh_x h - RADAR_TO_CAMERA)\<bar> < max ((lh_x h - RADAR_TO_CAMERA) * (25/100)) 5"

definition vel_sane :: "rat \<Rightarrow> LeadHead \<Rightarrow> Track \<Rightarrow> bool" where
  "vel_sane v_ego h t \<longleftrightarrow> \<bar>tk_vRel t + v_ego - lh_v h\<bar> < 10 \<or> v_ego + tk_vRel t > 3"

text \<open>The outer option is an exception, the inner one the absence of a match.\<close>

definition match_vision_to_track :: "(rat \<Rightarrow> rat) \<Rightarrow> rat \<Rightarrow> LeadMsg \<Rightarrow> Track list \<Rightarrow> Track option option" where
  "match_vision_to_track expf v_ego lm tracks = do {
     h \<leftarrow> lead_head lm;
     t \<leftarrow> first_max (match_prob expf v_ego h) tracks;
     Some (if dist_sane h t \<and> vel_sane v_ego h t then Some t else None)
   }"

definition get_RadarState_from_vision :: "LeadMsg \<Rightarrow> rat \<Rightarrow> rat \<Rightarrow> rat \<Rightarrow> Lead option" where
  "get_RadarState_from_vision lm v_ego model_v_ego lead_prob = do {
     v \<leftarrow> nth_opt (lm_v lm) 0;
     x \<leftarrow> nth_opt (lm_x lm) 0;
     y \<leftarrow> nth_opt (lm_y lm) 0;
     a \<leftarrow> nth_opt (lm_a lm) 0;
     let lead_v_rel_pred = v - model_v_ego;
     Some \<lparr>ld_dRel = x - RADAR_TO_CAMERA, ld_yRel = - y, ld_vRel = lead_v_rel_pred, ld_vLead = v_ego + lead_v_rel_pred,
           ld_vLeadK = v_ego + lead_v_rel_pred, ld_aLeadK = a, ld_aLeadTau = 3/10, ld_fcw = False,
           ld_modelProb = lead_prob, ld_radar = False, ld_radarTrackId = -1\<rparr>
   }"

text \<open>The car's parameters, and the flags of \<open>opendbc\<close> that choose the lateral position of the model.\<close>

record RadarEnv =
  re_CP :: CarParams
  re_CP_SP :: CarParamsSP
  re_ENHANCED_SCC :: nat
  re_CANFD_CAMERA_SCC :: nat
  re_CAMERA_SCC :: nat
  re_expf :: "rat \<Rightarrow> rat"

definition get_custom_yrel :: "RadarEnv \<Rightarrow> LeadMsg \<Rightarrow> Lead \<Rightarrow> Lead option" where
  "get_custom_yrel re lm ld =
     (if cp_brand (re_CP re) = ''hyundai''
         \<and> (cpsp_flags (re_CP_SP re) AND re_ENHANCED_SCC re \<noteq> 0
            \<or> cp_flags (re_CP re) AND (re_CANFD_CAMERA_SCC re OR re_CAMERA_SCC re) \<noteq> 0)
      then map_option (\<lambda>y. ld\<lparr>ld_yRel := - y\<rparr>) (nth_opt (lm_y lm) 0)
      else Some ld)"

definition low_speed_lead :: "rat \<Rightarrow> Track list \<Rightarrow> Lead option \<Rightarrow> Lead option" where
  "low_speed_lead v_ego tracks ld =
     (case first_least tk_dRel (filter (potential_low_speed_lead v_ego) tracks) of
        None \<Rightarrow> ld
      | Some c \<Rightarrow>
          (case ld of
             None \<Rightarrow> Some (get_RadarState 0 c)
           | Some l \<Rightarrow> if tk_dRel c < ld_dRel l then Some (get_RadarState 0 c) else ld))"

definition get_lead :: "RadarEnv \<Rightarrow> rat \<Rightarrow> bool \<Rightarrow> Track list \<Rightarrow> LeadMsg \<Rightarrow> rat \<Rightarrow> rat \<Rightarrow> bool \<Rightarrow> Lead option option" where
  "get_lead re v_ego rdy tracks lm model_v_ego lead_prob low_speed_override = do {
     track \<leftarrow> (if tracks \<noteq> [] \<and> rdy \<and> lead_prob > 1/2 then match_vision_to_track (re_expf re) v_ego lm tracks
               else Some None);
     ld \<leftarrow> (case track of
              Some t \<Rightarrow> map_option Some (get_custom_yrel re lm (get_RadarState lead_prob t))
            | None \<Rightarrow> if rdy \<and> lead_prob > 1/2 then map_option Some (get_RadarState_from_vision lm v_ego model_v_ego lead_prob)
                      else Some None);
     Some (if low_speed_override then low_speed_lead v_ego tracks ld else ld)
   }"

section \<open>RadarD\<close>

record RadarD =
  rd_tracks :: "(int \<times> Track) list"
  rd_kalman_params :: KalmanParams
  rd_lead_prob_filters :: "FirstOrderFilter \<times> FirstOrderFilter"
  rd_v_ego :: rat
  rd_v_ego_hist :: "rat list"
  rd_hist_maxlen :: nat
  rd_last_v_ego_frame :: int
  rd_ready :: bool

definition new_RadarD :: "rat \<Rightarrow> RadarD option" where
  "new_RadarD delay =
     map_option (\<lambda>kp. \<lparr>rd_tracks = [], rd_kalman_params = kp,
         rd_lead_prob_filters = (new_FirstOrderFilter 0 (2/10) DT_MDL True, new_FirstOrderFilter 0 (2/10) DT_MDL True),
         rd_v_ego = 0, rd_v_ego_hist = [0], rd_hist_maxlen = nat (py_round (delay / DT_MDL)) + 1,
         rd_last_v_ego_frame = -1, rd_ready = False\<rparr>)
       (new_KalmanParams DT_MDL)"

record RadarInput =
  rdi_seen_model :: bool
  rdi_car_frame :: int
  rdi_v_ego :: rat
  rdi_points :: "RadarPoint list"
  rdi_velocity_x :: "rat list"
  rdi_leads :: "LeadMsg list"

text \<open>Appending to a \<open>deque\<close> of bounded length drops elements at the other end.\<close>

definition deque_append :: "nat \<Rightarrow> 'a \<Rightarrow> 'a list \<Rightarrow> 'a list" where
  "deque_append n x xs = drop (length xs + 1 - n) (xs @ [x])"

definition radar_v_ego :: "RadarInput \<Rightarrow> RadarD \<Rightarrow> RadarD" where
  "radar_v_ego i rd =
     (let rd1 = rd\<lparr>rd_ready := rdi_seen_model i\<rparr>
      in if rdi_car_frame i \<noteq> rd_last_v_ego_frame rd1
         then rd1\<lparr>rd_v_ego := rdi_v_ego i, rd_v_ego_hist := deque_append (rd_hist_maxlen rd1) (rdi_v_ego i) (rd_v_ego_hist rd1),
                  rd_last_v_ego_frame := rdi_car_frame i\<rparr>
         else rd1)"

text \<open>The points by their identifier: a later point replaces an earlier one at its place.\<close>

definition points_by_id :: "RadarPoint list \<Rightarrow> (int \<times> RadarPoint) list" where
  "points_by_id ps = dict_update [] (map (\<lambda>p. (rp_trackId p, p)) ps)"

definition track_point :: "KalmanParams \<Rightarrow> rat \<Rightarrow> int \<times> RadarPoint \<Rightarrow> (int \<times> Track) list \<Rightarrow> (int \<times> Track) list" where
  "track_point kp v = (\<lambda>(i, p) tracks.
     (let v_lead = rp_vRel p + v;
          t = (case map_of tracks i of None \<Rightarrow> new_Track i v_lead kp | Some t \<Rightarrow> t)
      in dict_set i (track_update p v_lead t) tracks))"

definition update_tracks :: "RadarPoint list \<Rightarrow> RadarD \<Rightarrow> RadarD" where
  "update_tracks ps rd =
     (let ar_pts = points_by_id ps;
          kept = filter (\<lambda>(i, t). i \<in> set (map fst ar_pts)) (rd_tracks rd)
      in rd\<lparr>rd_tracks := fold (track_point (rd_kalman_params rd) (hd (rd_v_ego_hist rd))) ar_pts kept\<rparr>)"

text \<open>The filter follows a rising probability at once and a falling one slowly.\<close>

definition lead_prob_update :: "rat \<Rightarrow> FirstOrderFilter \<Rightarrow> FirstOrderFilter" where
  "lead_prob_update p f = (if p > fo_x f then f\<lparr>fo_x := p\<rparr> else fo_update p f)"

record RadarStateMsg =
  rs_leadOne :: "Lead option"
  rs_leadTwo :: "Lead option"

definition radar_leads :: "RadarEnv \<Rightarrow> RadarInput \<Rightarrow> RadarD \<Rightarrow> (RadarStateMsg \<times> RadarD) option" where
  "radar_leads re i rd =
     (let model_v_ego = (case rdi_velocity_x i of v # _ \<Rightarrow> v | [] \<Rightarrow> rd_v_ego rd);
          tracks = map snd (rd_tracks rd)
      in case rdi_leads i of
           l0 # l1 # _ \<Rightarrow>
             (let f0 = lead_prob_update (lm_prob l0) (fst (rd_lead_prob_filters rd));
                  f1 = lead_prob_update (lm_prob l1) (snd (rd_lead_prob_filters rd))
              in do {
                one \<leftarrow> get_lead re (rd_v_ego rd) (rd_ready rd) tracks l0 model_v_ego (fo_x f0) True;
                two \<leftarrow> get_lead re (rd_v_ego rd) (rd_ready rd) tracks l1 model_v_ego (fo_x f1) False;
                Some (\<lparr>rs_leadOne = one, rs_leadTwo = two\<rparr>, rd\<lparr>rd_lead_prob_filters := (f0, f1)\<rparr>)
              })
         | _ \<Rightarrow> Some (\<lparr>rs_leadOne = None, rs_leadTwo = None\<rparr>, rd))"

definition radar_update :: "RadarEnv \<Rightarrow> RadarInput \<Rightarrow> RadarD \<Rightarrow> (RadarStateMsg \<times> RadarD) option" where
  "radar_update re i rd = radar_leads re i (update_tracks (rdi_points i) (radar_v_ego i rd))"

fun radar_run :: "RadarEnv \<Rightarrow> RadarInput list \<Rightarrow> RadarD \<Rightarrow> (RadarStateMsg list \<times> RadarD) option" where
  "radar_run re [] rd = Some ([], rd)"
| "radar_run re (i # is) rd = do {
     (m, rd1) \<leftarrow> radar_update re i rd;
     (ms, rd2) \<leftarrow> radar_run re is rd1;
     Some (m # ms, rd2)
   }"

end
