(* ===== verification/RadarSafety.thy ===== *)
theory RadarSafety
  imports Radar
begin

text \<open>
  What radard guarantees: its tracks are those of the radar's last message, a slow car never loses an obstacle close
  in front of it, a radar lead without that reason is one the model confirms, and the process never raises.
\<close>

section \<open>Library\<close>

lemma first_max_in: "first_max f xs = Some x \<Longrightarrow> x \<in> set xs"
  by (induction f xs rule: first_max.induct) (auto split: if_splits)

lemma first_max_greatest: "first_max f xs = Some x \<Longrightarrow> y \<in> set xs \<Longrightarrow> f y \<le> f x"
proof (induction f xs arbitrary: y rule: first_max.induct)
  case (3 f a b xs)
  then show ?case
    by (fastforce split: if_splits)
qed auto

lemma first_max_total: "xs \<noteq> [] \<Longrightarrow> \<exists>x. first_max f xs = Some x"
  by (induction f xs rule: first_max.induct) auto

lemma first_least_smallest: "first_least f xs = Some x \<Longrightarrow> y \<in> set xs \<Longrightarrow> f x \<le> f y"
  using first_max_greatest [of "\<lambda>x. - f x" xs x y] by (simp add: first_least_def)

lemma distinct_dict_update: "distinct (map fst d) \<Longrightarrow> distinct (map fst (dict_update d e))"
  by (induction d e rule: dict_update.induct) (auto intro: distinct_dict_set)

section \<open>The tracks are the radar's points\<close>

definition of_point :: "int \<Rightarrow> RadarPoint \<Rightarrow> int \<times> rat \<times> rat \<times> rat \<times> bool" where
  "of_point i p = (i, rp_dRel p, rp_yRel p, rp_vRel p, rp_measured p)"

definition of_track :: "Track \<Rightarrow> int \<times> rat \<times> rat \<times> rat \<times> bool" where
  "of_track t = (tk_identifier t, tk_dRel t, tk_yRel t, tk_vRel t, tk_measured t)"

definition tracks_wf :: "(int \<times> Track) list \<Rightarrow> bool" where
  "tracks_wf ts \<longleftrightarrow> distinct (map fst ts) \<and> list_all (\<lambda>(i, t). tk_identifier t = i) ts"

lemma tracks_wf_get: "tracks_wf ts \<Longrightarrow> map_of ts i = Some t \<Longrightarrow> tk_identifier t = i"
  by (auto simp: tracks_wf_def list_all_iff dest: map_of_SomeD)

lemma tracks_wf_set:
  assumes "tracks_wf ts" "tk_identifier t = i"
  shows "tracks_wf (dict_set i t ts)"
proof -
  have "set (dict_set i t ts) \<subseteq> insert (i, t) (set ts)"
    by (induction ts) (auto split: if_splits)
  then show ?thesis
    using assms distinct_dict_set [of ts i t] by (auto simp: tracks_wf_def list_all_iff)
qed

lemma of_track_update: "of_track (track_update p v t) = of_point (tk_identifier t) p"
  by (simp add: track_update_def of_track_def of_point_def Let_def)

lemma track_point_wf:
  assumes "tracks_wf ts"
  shows "tracks_wf (track_point kp v (i, p) ts)"
    "map_option of_track (map_of (track_point kp v (i, p) ts) j) =
       (if j = i then Some (of_point i p) else map_option of_track (map_of ts j))"
proof -
  obtain t where t: "track_point kp v (i, p) ts = dict_set i (track_update p (rp_vRel p + v) t) ts" "tk_identifier t = i"
    using tracks_wf_get [OF assms]
    by (cases "map_of ts i") (auto simp: track_point_def Let_def new_Track_def)
  have id: "tk_identifier (track_update p w t) = i" for w
    using t(2) by (simp add: track_update_def Let_def)
  show "tracks_wf (track_point kp v (i, p) ts)"
    using tracks_wf_set [OF assms id] t(1) by simp
  show "map_option of_track (map_of (track_point kp v (i, p) ts) j) =
       (if j = i then Some (of_point i p) else map_option of_track (map_of ts j))"
    by (simp add: t of_track_update)
qed

lemma track_points_wf:
  assumes "tracks_wf ts" "distinct (map fst ps)"
  shows "tracks_wf (fold (track_point kp v) ps ts) \<and>
    map_option of_track (map_of (fold (track_point kp v) ps ts) j) =
      (case map_of ps j of Some p \<Rightarrow> Some (of_point j p) | None \<Rightarrow> map_option of_track (map_of ts j))"
  using assms
proof (induction ps arbitrary: ts)
  case (Cons x ps)
  obtain i p where x: "x = (i, p)"
    by fastforce
  note w = track_point_wf [OF Cons.prems(1), of kp v i p]
  have "map_of ps i = None"
    using Cons.prems(2) by (auto simp: x map_of_eq_None_iff)
  then show ?case
    using Cons.IH [OF w(1)] Cons.prems(2) w(2) [of j] by (auto simp: x split: option.split)
qed simp

lemma points_by_id_facts:
  "distinct (map fst (points_by_id ps))"
  "map_of (points_by_id ps) i = map_of (rev (map (\<lambda>p. (rp_trackId p, p)) ps)) i"
  by (simp_all add: points_by_id_def distinct_dict_update map_of_dict_update)

lemma update_tracks_points:
  assumes "tracks_wf (rd_tracks rd)"
  shows "tracks_wf (rd_tracks (update_tracks ps rd))"
    "map_option of_track (map_of (rd_tracks (update_tracks ps rd)) j) = map_option (of_point j) (map_of (points_by_id ps) j)"
proof -
  let ?kept = "filter (\<lambda>(i, t). i \<in> set (map fst (points_by_id ps))) (rd_tracks rd)"
  have k: "tracks_wf ?kept"
    using assms by (auto simp: tracks_wf_def list_all_iff distinct_map_filter)
  note w = track_points_wf [OF k points_by_id_facts(1) [of ps], of "rd_kalman_params rd" "hd (rd_v_ego_hist rd)"]
  show "tracks_wf (rd_tracks (update_tracks ps rd))"
    using w by (simp add: update_tracks_def Let_def)
  have "map_of (points_by_id ps) j = None \<Longrightarrow> map_of ?kept j = None"
    by (force simp: map_of_eq_None_iff)
  then show "map_option of_track (map_of (rd_tracks (update_tracks ps rd)) j) = map_option (of_point j) (map_of (points_by_id ps) j)"
    using w [of j] by (auto simp: update_tracks_def Let_def split: option.splits)
qed

lemma radar_leads_tracks:
  assumes "radar_leads re i rd = Some (m, rd')"
  shows "rd_tracks rd' = rd_tracks rd" "rd_v_ego rd' = rd_v_ego rd"
  using assms by (auto simp: radar_leads_def Let_def bind_eq_Some_conv split: list.splits)

lemma radar_update_tracks:
  assumes "radar_update re i rd = Some (m, rd')" "tracks_wf (rd_tracks rd)"
  shows "tracks_wf (rd_tracks rd')"
    "map_option of_track (map_of (rd_tracks rd') j) = map_option (of_point j) (map_of (points_by_id (rdi_points i)) j)"
proof -
  have "tracks_wf (rd_tracks (radar_v_ego i rd))"
    using assms(2) by (simp add: radar_v_ego_def Let_def)
  note w = update_tracks_points [OF this, of "rdi_points i"]
  show "tracks_wf (rd_tracks rd')"
    "map_option of_track (map_of (rd_tracks rd') j) = map_option (of_point j) (map_of (points_by_id (rdi_points i)) j)"
    using radar_leads_tracks(1) [OF assms(1) [unfolded radar_update_def]] w by simp_all
qed

lemma radar_run_wf:
  assumes "radar_run re is rd = Some (ms, rd')" "tracks_wf (rd_tracks rd)"
  shows "tracks_wf (rd_tracks rd')"
  using assms
proof (induction "is" arbitrary: rd ms)
  case (Cons i "is")
  then obtain m rd1 ms1 where "radar_update re i rd = Some (m, rd1)" "radar_run re is rd1 = Some (ms1, rd')"
    by (auto simp: bind_eq_Some_conv)
  then show ?case
    using Cons.IH radar_update_tracks(1) Cons.prems(2) by blast
qed simp


lemma radar_run_last:
  "radar_run re (is @ [i]) rd = Some (ms, rd') \<Longrightarrow>
     \<exists>ms1 rd1 m. radar_run re is rd = Some (ms1, rd1) \<and> radar_update re i rd1 = Some (m, rd')"
  by (induction "is" arbitrary: rd ms) (fastforce simp: bind_eq_Some_conv)+

section \<open>Leads\<close>

lemma low_speed_lead_closest:
  assumes "t \<in> set tracks" "potential_low_speed_lead v_ego t"
  shows "\<exists>l. low_speed_lead v_ego tracks ld = Some l \<and> ld_dRel l \<le> tk_dRel t"
proof -
  have t: "t \<in> set (filter (potential_low_speed_lead v_ego) tracks)"
    using assms by simp
  then obtain c where c: "first_least tk_dRel (filter (potential_low_speed_lead v_ego) tracks) = Some c"
    using first_max_total [of "filter (potential_low_speed_lead v_ego) tracks"] unfolding first_least_def
    by (metis empty_iff list.set(1))
  have "tk_dRel c \<le> tk_dRel t"
    using first_least_smallest [OF c t] by simp
  then show ?thesis
    using c by (auto simp: low_speed_lead_def get_RadarState_def split: option.split)
qed

lemma get_lead_override:
  "get_lead re v_ego rdy tracks lm model_v_ego prob True = Some ld' \<Longrightarrow> \<exists>ld. ld' = low_speed_lead v_ego tracks ld"
  by (auto simp: get_lead_def bind_eq_Some_conv)

text \<open>A lead that does not come from the override: the filtered probability is above one half, and a lead of the radar
is near the one of the model.\<close>

definition confirmed :: "rat \<Rightarrow> LeadMsg \<Rightarrow> rat \<Rightarrow> Lead \<Rightarrow> bool" where
  "confirmed v_ego lm prob l \<longleftrightarrow>
     1/2 < prob \<and>
     (case lead_head lm of
        None \<Rightarrow> \<not> ld_radar l
      | Some h \<Rightarrow> \<bar>ld_dRel l - (lh_x h - RADAR_TO_CAMERA)\<bar> < max ((lh_x h - RADAR_TO_CAMERA) * (25/100)) 5)"

lemma custom_yrel_fields:
  assumes "get_custom_yrel re lm ld = Some ld'"
  shows "ld_dRel ld' = ld_dRel ld" "ld_radar ld' = ld_radar ld"
  using assms by (auto simp: get_custom_yrel_def split: if_splits)

lemma get_lead_confirmed:
  assumes "get_lead re v_ego rdy tracks lm model_v_ego prob False = Some (Some l)"
  shows "confirmed v_ego lm prob l"
proof -
  consider t where "rdy" "1/2 < prob" "match_vision_to_track (re_expf re) v_ego lm tracks = Some (Some t)"
      "get_custom_yrel re lm (get_RadarState prob t) = Some l"
    | "1/2 < prob" "get_RadarState_from_vision lm v_ego model_v_ego prob = Some l"
    using assms by (auto simp: get_lead_def bind_eq_Some_conv split: if_splits option.splits)
  then show ?thesis
  proof cases
    case 1
    then have "ld_dRel l = tk_dRel t"
      using custom_yrel_fields(1) by (simp add: get_RadarState_def)
    moreover obtain h where "lead_head lm = Some h" "dist_sane h t"
      using 1(3) by (auto simp: match_vision_to_track_def bind_eq_Some_conv split: if_splits)
    ultimately show ?thesis
      using 1(2) by (simp add: confirmed_def dist_sane_def)
  next
    case 2
    then obtain x where x: "nth_opt (lm_x lm) 0 = Some x" "ld_dRel l = x - RADAR_TO_CAMERA" "\<not> ld_radar l"
      by (auto simp: get_RadarState_from_vision_def bind_eq_Some_conv Let_def)
    then have "lead_head lm = Some h \<Longrightarrow> lh_x h = x" for h
      by (auto simp: lead_head_def bind_eq_Some_conv)
    then show ?thesis
      using 2(1) x by (auto simp: confirmed_def max_def split: option.split)
  qed
qed

section \<open>Totality\<close>

definition lead_msg_ok :: "LeadMsg \<Rightarrow> bool" where
  "lead_msg_ok lm \<longleftrightarrow> lm_x lm \<noteq> [] \<and> lm_xStd lm \<noteq> [] \<and> lm_y lm \<noteq> [] \<and> lm_yStd lm \<noteq> [] \<and> lm_v lm \<noteq> [] \<and> lm_vStd lm \<noteq> []
     \<and> lm_a lm \<noteq> []"

lemma get_lead_total:
  assumes "lead_msg_ok lm"
  shows "\<exists>ld. get_lead re v_ego rdy tracks lm model_v_ego prob ov = Some ld"
proof -
  obtain h where h: "lead_head lm = Some h"
    using assms by (auto simp: lead_head_def lead_msg_ok_def nth_opt_def)
  have m: "match_vision_to_track (re_expf re) v_ego lm tracks \<noteq> None" if "tracks \<noteq> []"
    using first_max_total [OF that, of "match_prob (re_expf re) v_ego h"] h by (auto simp: match_vision_to_track_def)
  have o: "get_custom_yrel re lm ld \<noteq> None" "get_RadarState_from_vision lm v_ego model_v_ego prob \<noteq> None" for ld
    using assms by (auto simp: get_custom_yrel_def get_RadarState_from_vision_def lead_msg_ok_def nth_opt_def Let_def)
  have "get_lead re v_ego rdy tracks lm model_v_ego prob ov \<noteq> None"
    using m o by (auto simp: get_lead_def bind_eq_None_conv split: option.splits if_splits simp del: not_None_eq)
  then show ?thesis
    by simp
qed

lemma radar_update_total:
  assumes "list_all lead_msg_ok (rdi_leads i)"
  shows "\<exists>m rd'. radar_update re i rd = Some (m, rd')"
proof -
  define g where "g = (\<lambda>lm v r t mv p ov. the (get_lead re v r t lm mv p ov))"
  have g: "get_lead re v r t lm mv p ov = Some (g lm v r t mv p ov)" if "lm \<in> set (rdi_leads i)" for v r t lm mv p ov
    using get_lead_total [of lm re v r t mv p ov] that assms by (auto simp: list_all_iff g_def)
  have "\<exists>r. radar_leads re i rd1 = Some r" for rd1
    by (auto simp: radar_leads_def Let_def g split: list.split)
  then show ?thesis
    by (auto simp: radar_update_def)
qed

lemma radar_run_total:
  "list_all (\<lambda>i. list_all lead_msg_ok (rdi_leads i)) is \<Longrightarrow> \<exists>ms rd'. radar_run re is rd = Some (ms, rd')"
proof (induction "is" arbitrary: rd)
  case (Cons i "is")
  obtain m rd1 where u: "radar_update re i rd = Some (m, rd1)"
    using radar_update_total [of i re rd] Cons.prems by auto
  then obtain ms rd2 where "radar_run re is rd1 = Some (ms, rd2)"
    using Cons.IH [of rd1] Cons.prems by auto
  then show ?case
    using u by simp
qed simp

lemma new_KalmanParams_total: "\<exists>kp. new_KalmanParams DT_MDL = Some kp"
  by (simp add: new_KalmanParams_def DT_MDL_def np_interp_def gain_K0_def gain_K1_def Let_def)

lemma new_RadarD_total: "\<exists>rd. new_RadarD delay = Some rd \<and> rd_tracks rd = []"
  using new_KalmanParams_total by (auto simp: new_RadarD_def)

section \<open>Properties\<close>

text \<open>The tracks are those of the radar's last message: after every frame of a run there is one track for each
identifier in it, with the distance, lateral position and speed of the last point that has it, and no other.\<close>

theorem tracks_are_radar_points:
  "case Option.bind (new_RadarD delay) (radar_run re (is @ [i])) of
     None \<Rightarrow> True
   | Some (_, rd) \<Rightarrow> tracks_wf (rd_tracks rd) \<and>
       map_option of_track (map_of (rd_tracks rd) k) =
         map_option (of_point k) (map_of (rev (map (\<lambda>p. (rp_trackId p, p)) (rdi_points i))) k)"
proof -
  obtain rd0 where rd0: "new_RadarD delay = Some rd0" "rd_tracks rd0 = []"
    using new_RadarD_total by blast
  show ?thesis
  proof (cases "radar_run re (is @ [i]) rd0")
    case (Some r)
    obtain ms rd where r: "r = (ms, rd)"
      by fastforce
    obtain ms1 rd1 m where s: "radar_run re is rd0 = Some (ms1, rd1)" "radar_update re i rd1 = Some (m, rd)"
      using radar_run_last [of re "is" i rd0 ms rd] Some r by auto
    have "tracks_wf (rd_tracks rd1)"
      using radar_run_wf [OF s(1)] rd0(2) by (simp add: tracks_wf_def)
    then show ?thesis
      using radar_update_tracks [OF s(2)] Some r rd0(1) by (simp add: points_by_id_facts)
  qed (simp add: rd0)
qed

text \<open>At low speed the first lead is never farther away than an obstacle that the radar sees close in front of the car:
whatever the model says, a point less than a metre to the side and between 0.75 and 25 metres ahead is, or lies
behind, the published lead.\<close>

theorem close_obstacle_is_lead:
  assumes "radar_update re i rd = Some (m, rd')" "l0 # l1 # ls = rdi_leads i" "(k, t) \<in> set (rd_tracks rd')"
    "\<bar>tk_yRel t\<bar> < 1" "3/4 < tk_dRel t" "tk_dRel t < 25" "rd_v_ego rd' < 4"
  shows "\<exists>l. rs_leadOne m = Some l \<and> ld_dRel l \<le> tk_dRel t"
proof -
  let ?rd = "update_tracks (rdi_points i) (radar_v_ego i rd)"
  have l: "radar_leads re i ?rd = Some (m, rd')"
    using assms(1) by (simp add: radar_update_def)
  have leads: "rdi_leads i = l0 # l1 # ls"
    using assms(2) by simp
  note same = radar_leads_tracks [OF l]
  have "potential_low_speed_lead (rd_v_ego ?rd) t"
    using assms(4-7) same(2) by (simp add: potential_low_speed_lead_def V_EGO_STATIONARY_def)
  moreover have "t \<in> set (map snd (rd_tracks ?rd))"
    using assms(3) same(1) by force
  ultimately have "\<exists>l. low_speed_lead (rd_v_ego ?rd) (map snd (rd_tracks ?rd)) ld = Some l \<and> ld_dRel l \<le> tk_dRel t" for ld
    using low_speed_lead_closest by blast
  moreover obtain v p where "get_lead re (rd_v_ego ?rd) (rd_ready ?rd) (map snd (rd_tracks ?rd)) l0 v p True = Some (rs_leadOne m)"
    using l by (auto simp: radar_leads_def leads Let_def bind_eq_Some_conv)
  then obtain ld where "rs_leadOne m = low_speed_lead (rd_v_ego ?rd) (map snd (rd_tracks ?rd)) ld"
    using get_lead_override by blast
  ultimately show ?thesis
    by metis
qed

definition sample_radar_env :: RadarEnv where
  "sample_radar_env =
     \<lparr>re_CP = plain_CP, re_CP_SP = rivian_CP_SP, re_ENHANCED_SCC = 1, re_CANFD_CAMERA_SCC = 2, re_CAMERA_SCC = 4,
      re_expf = (\<lambda>x. if x = 0 then 1 else 0)\<rparr>"

definition sample_lead :: LeadMsg where
  "sample_lead =
     \<lparr>lm_prob = 9/10, lm_x = [30], lm_xStd = [1], lm_y = [0], lm_yStd = [1], lm_v = [3], lm_vStd = [1], lm_a = [0]\<rparr>"

text \<open>An obstacle 10 metres ahead, nearer than the lead of the model.\<close>

definition sample_radar_input :: RadarInput where
  "sample_radar_input =
     \<lparr>rdi_seen_model = True, rdi_car_frame = 1, rdi_v_ego = 3,
      rdi_points = [\<lparr>rp_trackId = 7, rp_dRel = 10, rp_yRel = 0, rp_vRel = -3, rp_measured = True\<rparr>],
      rdi_velocity_x = [3], rdi_leads = [sample_lead, sample_lead]\<rparr>"

definition sample_RadarD :: RadarD where
  "sample_RadarD = the (new_RadarD 0)"

lemma sample_radar_step:
  "map_option (\<lambda>(m, rd). (map_option ld_dRel (rs_leadOne m), map_option ld_dRel (rs_leadTwo m),
      map (\<lambda>(k, t). (k, tk_dRel t, tk_yRel t)) (rd_tracks rd), rd_v_ego rd))
    (radar_update sample_radar_env sample_radar_input sample_RadarD)
   = Some (Some 10, Some (2848/100), [(7, 10, 0)], 3)"
  by code_simp

theorem close_obstacle_is_lead_witness:
  "\<exists>m rd'. radar_update sample_radar_env sample_radar_input sample_RadarD = Some (m, rd')
     \<and> (\<exists>l. rs_leadOne m = Some l \<and> ld_dRel l \<le> 10)"
proof -
  obtain m rd' where u: "radar_update sample_radar_env sample_radar_input sample_RadarD = Some (m, rd')"
    "map (\<lambda>(k, t). (k, tk_dRel t, tk_yRel t)) (rd_tracks rd') = [(7, 10, 0)]" "rd_v_ego rd' = 3"
    using sample_radar_step by auto
  then obtain k t where "(k, t) \<in> set (rd_tracks rd')" "tk_dRel t = 10" "tk_yRel t = 0"
    by (auto simp: map_eq_Cons_conv)
  then show ?thesis
    using close_obstacle_is_lead [OF u(1), of sample_lead sample_lead "[]" k t] u by (auto simp: sample_radar_input_def)
qed

text \<open>The second lead is never a false echo of the radar: it is published only while the filtered probability of the
model's second lead is above one half, at a distance within 5 metres, or a quarter, of the model's.\<close>

theorem second_lead_is_confirmed:
  assumes "radar_update re i rd = Some (m, rd')" "l0 # l1 # ls = rdi_leads i"
  shows "case rs_leadTwo m of
      None \<Rightarrow> True
    | Some l \<Rightarrow> confirmed (rd_v_ego rd') l1 (fo_x (snd (rd_lead_prob_filters rd'))) l"
proof -
  let ?rd = "update_tracks (rdi_points i) (radar_v_ego i rd)"
  obtain v f where "get_lead re (rd_v_ego ?rd) (rd_ready ?rd) (map snd (rd_tracks ?rd)) l1 v (fo_x f) False = Some (rs_leadTwo m)"
    "snd (rd_lead_prob_filters rd') = f" "rd_v_ego rd' = rd_v_ego ?rd"
    using assms(1) by (auto simp: radar_update_def radar_leads_def assms(2) [symmetric] Let_def bind_eq_Some_conv)
  then show ?thesis
    using get_lead_confirmed by (auto split: option.split)
qed

theorem second_lead_is_confirmed_witness:
  "\<exists>m rd' l. radar_update sample_radar_env sample_radar_input sample_RadarD = Some (m, rd') \<and> rs_leadTwo m = Some l
     \<and> confirmed 3 sample_lead (fo_x (snd (rd_lead_prob_filters rd'))) l"
proof -
  obtain m rd' l where u: "radar_update sample_radar_env sample_radar_input sample_RadarD = Some (m, rd')"
    "rd_v_ego rd' = 3" "rs_leadTwo m = Some l"
    using sample_radar_step by auto
  then show ?thesis
    using second_lead_is_confirmed [OF u(1), of sample_lead sample_lead "[]"] by (simp add: sample_radar_input_def)
qed

text \<open>radard never raises: from its construction, every run over messages whose leads have their elements goes on.\<close>

theorem radard_never_raises:
  assumes "list_all (\<lambda>i. list_all lead_msg_ok (rdi_leads i)) is"
  shows "\<exists>ms rd. Option.bind (new_RadarD delay) (radar_run re is) = Some (ms, rd)"
  using radar_run_total [OF assms] new_RadarD_total [of delay] by fastforce

theorem radard_never_raises_witness:
  "\<exists>ms rd. Option.bind (new_RadarD 0) (radar_run sample_radar_env [sample_radar_input, sample_radar_input]) = Some (ms, rd)"
  by (rule radard_never_raises) (simp add: sample_radar_input_def sample_lead_def lead_msg_ok_def)

end
