(* ===== verification/Spec2Isabelle.thy ===== *)
theory Spec2Isabelle
  imports Samples VCruise SpeedLimitAssist DriverMonitorSafety LongControl LaneChange Dec HardwaredSafety UbloxdSafety ManagerSafety LpaSafety ModemSafety PlannerSafety RadarSafety
begin

text \<open>
  The control core of sunnypilot and the daemons around it: which events the car and the system raise, how
  they engage and disengage openpilot and the steering assistance MADS, which alert is shown, how the driver
  is monitored, how the set speed, the planned speed and the lanes follow the driver and the road, and how the
  device starts and stops its processes, decides when it is onroad, reads its GNSS receiver, manages its
  eSIM and keeps its modem connected. The code is Python; this development translates it definition by
  definition and proves what makes it safe. Messages, the parameter store, the clock, sensors, the modem, the
  eUICC and servers, the operating system and the constants of the submodule \<open>opendbc\<close> are arguments.

  \<^bold>\<open>The program.\<close> sunnypilot is a set of processes that meet through messages and the parameter store.
  \<^item> \<open>manager\<close> (\<open>system/manager\<close>) starts and stops all others: each has a predicate over the parameters, the
    car and whether the device is onroad.
  \<^item> \<open>hardwared\<close> (\<open>system/hardware/hardwared.py\<close>) decides from the pandas, the temperatures and the parameters
    when the device is onroad, and from the voltage of the car battery when it shuts down.
  \<^item> \<open>selfdrived\<close> (\<open>selfdrive/selfdrived/selfdrived.py\<close>) runs at 100 Hz. A frame reads the messages (class
    \<open>SubMaster\<close>), collects onroad events into two logs (classes \<open>Events\<close> and \<open>EventsSP\<close>), runs the engagement
    state machine on the first log, lets MADS (\<open>sunnypilot/mads\<close>) rewrite both logs and run its own state machine,
    turns the events into alerts, picks the one to show, and publishes the result.
  \<^item> \<open>dmonitoringd\<close> judges from the output of a neural network whether the driver pays attention.
  \<^item> \<open>card\<close> keeps the set speed (\<open>VCruiseHelper\<close>) and raises the events of the car; on cars whose cruise control
    openpilot does not replace, the cruise-button controller presses the buttons.
  \<^item> \<open>radard\<close> keeps a track for each point of the radar, matches them with the cars that the model sees, and
    publishes the two leads.
  \<^item> \<open>plannerd\<close> chooses a speed (set speed, speed limit, smart cruise control on curves) and turns the trajectories
    of the solver and of the model into an acceleration; \<open>controlsd\<close> follows it with \<open>LongControl\<close>;
    \<open>DesireHelper\<close> tells the model when to change lanes.
  \<^item> \<open>ubloxd\<close> parses the GNSS receiver; \<open>lpa.py\<close> manages the profiles of the eSIM over the modem, and \<open>modem.py\<close>
    dials and watches the connection.

  \<^bold>\<open>Theories and sources.\<close>
  \<^item> \<open>Prelude\<close>: Python's \<open>int\<close>, \<open>round\<close>, string formatting, \<open>bisect.insort\<close>, NumPy's \<open>clip\<close> and \<open>interp\<close> and
    insertion-ordered dictionaries, which the sources use.
  \<^item> \<open>MovingAverage\<close> (\<open>common/utils.py\<close>), \<open>Filters\<close> (\<open>common\<close>: filters, running statistics, \<open>PIDController\<close>),
    \<open>Services\<close> (\<open>cereal/services.py\<close>), \<open>SubMaster\<close> (\<open>cereal/messaging/__init__.py\<close>): liveness, frequency and
    validity of the subscribed services.
  \<^item> \<open>Messages\<close>, \<open>Platform\<close>: the message fields the code reads (\<open>cereal/log.capnp\<close>, \<open>cereal/custom.capnp\<close>
    and the car schema of \<open>opendbc\<close>), unit conversions, the parameter store.
  \<^item> \<open>EventNames\<close>, \<open>EventsBase\<close> (\<open>events_base.py\<close>), \<open>AlertCallbacks\<close>, \<open>EventTable\<close>, \<open>EventTableSP\<close>
    (the tables of both \<open>events.py\<close>, alert by alert), \<open>EventLogs\<close> (the tables as a whole), \<open>EventPair\<close>
    (the two logs together), \<open>AlertManager\<close> (\<open>alertmanager.py\<close>).
  \<^item> \<open>StateMachine\<close> (\<open>selfdrived/state.py\<close>), \<open>MadsState\<close> (\<open>mads/state.py\<close>), \<open>Mads\<close> (\<open>mads/mads.py\<close>,
    \<open>mads/helpers.py\<close>), \<open>ExcessiveActuation\<close> (\<open>selfdrived/helpers.py\<close>), \<open>SelfdriveD\<close> (the process),
    \<open>SelfdriveSteps\<close> and \<open>SelfdriveSafety\<close> (its lemmas), \<open>Samples\<close> (concrete inputs), and this theory (the
    properties of the whole process).
  \<^item> \<open>DriverMonitor\<close> (\<open>selfdrive/monitoring\<close>) and \<open>DriverMonitorSafety\<close>.
  \<^item> \<open>Counters\<close>, \<open>ButtonTimers\<close> (\<open>update_manual_button_timers\<close>), \<open>CruiseHelper\<close> (\<open>cruise_helpers.py\<close>),
    \<open>CarSpecific\<close> (both \<open>car_specific.py\<close>), \<open>VCruise\<close> (\<open>car/cruise.py\<close>, \<open>cruise_ext.py\<close>), \<open>Icbm\<close>
    (\<open>intelligent_cruise_button_management\<close>).
  \<^item> \<open>LaneChange\<close> (\<open>desire_helper.py\<close>, \<open>auto_lane_change.py\<close>, \<open>lane_turn_desire.py\<close>), \<open>LongControl\<close>
    (\<open>longcontrol.py\<close>, \<open>drive_helpers.py\<close>).
  \<^item> \<open>SpeedLimit\<close> (\<open>speed_limit_resolver.py\<close> and the helpers), \<open>SpeedLimitAssist\<close>, \<open>Dec\<close> (the dynamic experimental
    controller), \<open>SmartCruise\<close> and \<open>SmartCruiseLaws\<close> (\<open>smart_cruise_control\<close>), \<open>E2EAlerts\<close>
    (\<open>e2e_alerts_helper.py\<close>), \<open>PlannerSP\<close> and \<open>LongPlanner\<close> (both \<open>longitudinal_planner.py\<close>, \<open>plannerd.py\<close>, lane
    departure warnings) and \<open>PlannerSafety\<close>.
  \<^item> \<open>Radar\<close> (\<open>radard.py\<close>, \<open>common/simple_kalman.py\<close>) and \<open>RadarSafety\<close>.
  \<^item> \<open>ParamStore\<close> (\<open>common/params_keys.h\<close> as the manager uses it), \<open>ManagerProcess\<close> (\<open>process.py\<close>),
    \<open>ManagerProcessLaws\<close>, \<open>ProcessConfig\<close> (\<open>process_config.py\<close>), \<open>Manager\<close> (\<open>manager.py\<close>), \<open>ManagerInvariant\<close>,
    \<open>ManagerSafety\<close>.
  \<^item> \<open>PowerMonitoring\<close> (\<open>power_monitoring.py\<close>), \<open>Hardwared\<close> (\<open>hardwared.py\<close>, \<open>fan_controller.py\<close>) and
    \<open>HardwaredSafety\<close>.
  \<^item> \<open>BinaryStruct\<close> and \<open>BinaryStructLaws\<close> (\<open>binary_struct.py\<close>), \<open>UbxSchemas\<close> (\<open>ubx.py\<close>, \<open>gps.py\<close>, \<open>glonass.py\<close>),
    \<open>UbxFramer\<close>, \<open>Ubloxd\<close> (\<open>ubloxd.py\<close>) and \<open>UbloxdSafety\<close>.
  \<^item> \<open>Tlv\<close> and \<open>TlvLaws\<close> (the codecs), \<open>LpaIo\<close> and \<open>LpaIoLaws\<close> (the AT client), \<open>LpaCard\<close> (APDUs), \<open>Lpa\<close> (the
    sessions), \<open>LpaLaws\<close>, \<open>LpaAnswers\<close> (an answering card) and \<open>LpaSafety\<close>: all of \<open>system/hardware/tici/lpa.py\<close>.
  \<^item> \<open>Modem\<close>, \<open>ModemStates\<close> (\<open>system/hardware/tici/modem.py\<close>) and \<open>ModemSafety\<close>.

  \<^bold>\<open>How the code is represented.\<close> A class is a record with the attributes of the code; a method is a
  function from the state to the state. An exception is \<open>None\<close>, an element of a sum type, or a result of the
  monads of \<open>LpaIo\<close> and \<open>Modem\<close>, which keep the state at the raise, so every \<open>KeyError\<close>, missing
  enumeration value, short read and division by zero of the modelled code is a branch. Floats are exact rationals:
  thresholds and conversions are the decimal numbers of the sources, and rounding errors of binary floats are not
  modelled. (Frame counts agree with the code where the durations are exact multiples of the period; the timer
  of a lane change, a sum of floats in the code, passes its limit one frame later here.) Bytes are words of eight
  bits. Events are the raw numbers of the message schema. Dictionaries whose order matters are association lists,
  the others are functions on their keys. What happens outside a process is an input of each round (messages,
  exits of children, writes of parameters), a script (the lines of the modem for \<open>lpa.py\<close>) or a function of the
  number of calls made so far (the outside of \<open>modem.py\<close>). Recursion is structural, or has a termination
  proof; loops over the outside end with its script; no fuel is used.

  \<^bold>\<open>What is shown.\<close> Interfaces are locales, interpreted on the definitions of the model: \<open>event_log\<close> (both
  logs), \<open>engagement_machine\<close> (the machine of \<open>selfdrived\<close>, on queries and on event logs, and MADS),
  \<open>hold_timer\<close> (the three kinds of button timers), \<open>slowing_feature\<close> (both controllers of smart cruise
  control), \<open>armed_alert\<close> (both chimes of the planner), \<open>process_pass\<close> (every loop of the manager over its
  processes), \<open>io_effect\<close> and \<open>modem_effect\<close> (what operations on the eSIM's modem preserve) and \<open>act_effect\<close>
  (the same for the modem daemon). For each state machine the transitions are an inductive relation, and the code is
  proved to make exactly these moves. The properties of this theory concern whole runs of \<open>selfdrived\<close>: it
  never raises on admissible inputs, and after a pedal press, an invalid CAN bus or a lasting controls mismatch
  the published record is disengaged. Those of the components are stated at the end of their theories: engagement
  and disengagement of both machines, attention of the driver, consent to and length of lane changes, stopping, the
  planned speed and acceleration, the leads of the radar, the processes that run and end, onroad conditions and shutdown, framing and
  parsing of GNSS messages, commands to the eUICC and failed downloads, and what the modem dials and when. Some
  theorems exhibit defects of the code; the manifest lists them.

  \<^bold>\<open>Not modelled.\<close> Logging, process priorities and thread scheduling inside a step (a run interleaves
  whole steps and whole parameter rounds); the build metadata and the calibrator of \<open>locationd\<close> (arguments);
  sockets (a frame is given the messages that arrived); the MPC solver, the neural networks, lateral control and
  localization; the user interface, logging, upload and update services. Daemons of the manager are, for the model,
  processes outside its table of children, and an exception inside a round of the manager is not followed by
  its cleanup. A \<open>killall\<close> of the modem daemon counts as effective when it returns; the script with which
  \<open>lpa.py\<close> resets the modem does not fail; \<open>hardwared\<close> reads the clock once per round.
\<close>

section \<open>Properties of the whole process\<close>

text \<open>C1 (error). A freshly constructed process never raises an exception, over any interleaving of frames
  and parameter rounds whose inputs are in order: the clock advances, a socket delivers at most one
  message per frame, the messages are admissible (\<open>frame_ok\<close>) and the stored personality is in range.\<close>

theorem selfdrived_never_raises:
  assumes "new_SelfdriveD cf remote tested params offroad d = Some sd" "run_ok cf 0 es sd"
  shows "\<exists>outs sd'. sd_run cf es sd = Some (outs, sd') \<and> sd_wf sd'"
  using new_wf [OF assms(1), of 0] run_total [of sd 0 cf es] assms(2) by auto

theorem selfdrived_never_raises_witness:
  "\<exists>outs sd'. sd_run sample_cf [ParamsRound Map.empty, Frame (sample_frame 1 default_CarState)] sample_sd = Some (outs, sd')
     \<and> sd_wf sd'"
proof (rule selfdrived_never_raises [OF new_sample])
  have "data (sd_sm (params_thread_round sample_cf Map.empty sample_sd)) = sample_data"
    by (simp add: sample_sd_ok)
  then show "run_ok sample_cf 0 [ParamsRound Map.empty, Frame (sample_frame 1 default_CarState)] sample_sd"
    using sample_input [of 0 1] by (auto simp: get_default_def sample_cf_def split: option.split)
qed

text \<open>C3 (safety). With a valid CAN bus, a frame in which the driver presses the brake (newly, or while
  moving), presses the regen paddle likewise, or newly presses the gas with "disengage on accelerator" set,
  publishes openpilot as neither enabled nor active.\<close>

theorem pedal_press_disengages:
  assumes "sd_wf sd" "trackers_ok now (sd_sm sd)" "input_ok cf now fi sd" "initialized sd"
    "\<not> cp_passive (cf_CP cf)" "CS = frame_CS fi sd" "CS0 = CS_prev sd" "cs_canValid CS"
    "cs_gasPressed CS \<and> \<not> cs_gasPressed CS0 \<and> sd_disengage_on_accelerator sd
     \<or> cs_brakePressed CS \<and> (\<not> cs_brakePressed CS0 \<or> \<not> cs_standstill CS)
     \<or> cs_regenBraking CS \<and> (\<not> cs_regenBraking CS0 \<or> \<not> cs_standstill CS)"
  shows "\<exists>out sd'. sd_step cf fi sd = Some (out, sd') \<and> \<not> out_enabled out \<and> \<not> out_active out"
proof (rule step_stops [OF assms(1-5)])
  fix s1 assume "sd_data_sample cf fi sd = Some (frame_CS fi sd, s1)"
  from sampled_fields [OF this assms(4)] show "must_have (frame_CS fi sd) s1 EN_pedalPressed"
    using assms(6-9) unfolding must_have_def pedal_pressed_def by simp
qed simp

definition braking_CS :: CarState where
  "braking_CS = default_CarState\<lparr>cs_canValid := True, cs_brakePressed := True, cs_vEgo := 20\<rparr>"

theorem pedal_press_disengages_witness:
  "\<exists>out sd'. sd_step sample_cf (sample_frame 1 braking_CS) engaged_sd = Some (out, sd')
     \<and> \<not> out_enabled out \<and> \<not> out_active out"
  by (rule pedal_press_disengages [OF running_ok(4,5) sample_input _ _ refl refl])
    (simp_all add: sample_facts running_ok, simp_all add: braking_CS_def default_CarState_def)

text \<open>C4 (safety). When the safety firmware has refused control for 200 engaged frames (the counter is at
  199 and a panda with a real safety mode still disagrees), the frame publishes openpilot as disabled.\<close>

theorem controls_mismatch_disengages:
  assumes "sd_wf sd" "trackers_ok now (sd_sm sd)" "input_ok cf now fi sd" "initialized sd"
    "\<not> cp_passive (cf_CP cf)" "sd_enabled sd" "199 \<le> mismatch_counter sd"
    "update_msgs (fi_time fi) (sd_sm sd) (fi_msgs fi) = Some sm'"
    "list_ex (\<lambda>ps. ps_safetyModel ps \<notin> set IGNORED_SAFETY_MODES \<and> \<not> ps_controlsAllowed ps) (d_pandaStates (data sm'))"
  shows "\<exists>out sd'. sd_step cf fi sd = Some (out, sd') \<and> \<not> out_enabled out \<and> \<not> out_active out"
proof (rule step_stops [OF assms(1-5)])
  fix s1 assume "sd_data_sample cf fi sd = Some (frame_CS fi sd, s1)"
  from sampled_fields(6) [OF this assms(4)] have "s1 = sd_mismatch (sd\<lparr>sd_sm := sm'\<rparr>)"
    using assms(8) by auto
  then have "200 \<le> mismatch_counter s1" "d_pandaStates (dat s1) \<noteq> []"
    using assms(6,7,9) by (auto simp: sd_mismatch_def dat_def)
  then show "must_have (frame_CS fi sd) s1 EN_controlsMismatch"
    by (simp add: must_have_def)
qed simp

theorem controls_mismatch_disengages_witness:
  "\<exists>out sd'. sd_step sample_cf (sample_frame 1 default_CarState) engaged_sd = Some (out, sd')
     \<and> \<not> out_enabled out \<and> \<not> out_active out"
proof -
  obtain sm' where u: "update_msgs 1 (sd_sm engaged_sd) [] = Some sm'"
    using update_msgs_total [OF running_ok(5), of 1 "[]"] by auto
  have "data sm' = sample_data"
    using no_messages_data [OF u] by (simp add: running_ok)
  then have p: "list_ex (\<lambda>ps. ps_safetyModel ps \<notin> set IGNORED_SAFETY_MODES \<and> \<not> ps_controlsAllowed ps) (d_pandaStates (data sm'))"
    by (simp add: sample_data_def sample_panda_def IGNORED_SAFETY_MODES_def)
  have u': "update_msgs (fi_time (sample_frame 1 default_CarState)) (sd_sm engaged_sd)
      (fi_msgs (sample_frame 1 default_CarState)) = Some sm'"
    using u by (simp add: sample_frame_def)
  show ?thesis
    by (rule controls_mismatch_disengages [OF running_ok(4,5) sample_input _ _ _ _ u' p])
      (simp_all add: sample_facts running_ok)
qed

text \<open>C2 (safety). A frame with an invalid CAN bus that has not timed out publishes openpilot as disabled
  and, on a real car with MADS switched on, steering as inactive.\<close>

theorem can_error_stops_everything:
  assumes "sd_wf sd" "trackers_ok now (sd_sm sd)" "input_ok cf now fi sd" "initialized sd"
    "\<not> cp_passive (cf_CP cf)" "\<not> cs_canValid (frame_CS fi sd)" "\<not> cs_canTimeout (frame_CS fi sd)"
    "\<not> cp_notCar (cf_CP cf)" "enabled_toggle (mads sd)"
  shows "\<exists>out sd'. sd_step cf fi sd = Some (out, sd') \<and> \<not> out_enabled out \<and> \<not> out_active out \<and> \<not> out_mads_active out"
proof -
  obtain s1 s2 s3 out sd' where t: "step_trace cf fi sd s1 s2 s3 out sd'" and wf2: "sd_wf s2"
    and core: "core s2 = core (s1\<lparr>startup_event := None\<rparr>)"
    and must: "initialized s1 \<Longrightarrow> must_have (frame_CS fi sd) s1 EN_canError \<Longrightarrow> has (fst (sd_logs s2)) EN_canError"
    and out: "sd_enabled s3 = sd_enabled (sd_engage cf s2)" "sd_active s3 = sd_active (sd_engage cf s2)"
    using step_trace_total [OF assms(1-3)] assms(5) by blast
  have s1: "sd_data_sample cf fi sd = Some (frame_CS fi sd, s1)"
    and m: "sd_mads cf (frame_CS fi sd) (sd_engage cf s2) = Some s3"
    using t by (simp_all add: step_trace_def)
  note f = sampled_fields [OF s1 assms(4)]
  have s2: "initialized s2" "mads s2 = mads sd"
    using core f(3,4) by (simp_all add: core_def)
  have has: "has (fst (sd_logs s2)) EN_canError"
    using must f(3) assms(6,7) by (simp add: must_have_def)
  have "\<not> sd_enabled s3" "\<not> sd_active s3"
    using engage_stops [OF assms(5) s2(1) has] out by simp_all
  moreover have "\<not> md_active (mads s3)"
  proof -
    let ?e = "sd_engage cf s2"
    obtain md' ss' p' where u: "md_update (EVENTS (cf_env cf)) (EVENTS_SP (cf_env cf)) (cf_CP cf) (sd_enabled ?e)
        True (d_pandaStates (dat ?e)) (CS_prev ?e) (frame_CS fi sd) (mads ?e, state_machine ?e, sd_logs ?e)
        = Some (md', ss', p')" "mads s3 = md'"
      using m assms(8) s2(1) by (auto simp: sd_mads_def)
    have "\<not> md_active md'"
      using md_update_fault [OF _ u(1), of EN_canError] wf2 has s2(2) assms(5,9)
      by (simp add: sd_wf_def events_with_eval MADS_REMOVED_def PAUSE_CAUSES_def cruise_only_events_def)
    then show ?thesis
      using u(2) by simp
  qed
  ultimately show ?thesis
    using t by (auto simp: step_trace_def)
qed

theorem can_error_stops_everything_witness:
  "\<exists>out sd'. sd_step sample_cf (sample_frame 1 default_CarState) engaged_sd = Some (out, sd')
     \<and> \<not> out_enabled out \<and> \<not> out_active out \<and> \<not> out_mads_active out"
  by (rule can_error_stops_everything [OF running_ok(4,5) sample_input])
    (simp_all add: sample_facts running_ok, simp_all add: default_CarState_def)

text \<open>C5 (safety). A car that is passive (dashcam mode) is never engaged: over any admissible run of a
  freshly constructed process, no published record is enabled or active.\<close>

theorem passive_car_never_engages:
  assumes "new_SelfdriveD cf remote tested params offroad d = Some sd" "cp_passive (cf_CP cf)" "run_ok cf 0 es sd"
  shows "\<exists>outs sd'. sd_run cf es sd = Some (outs, sd') \<and> list_all (\<lambda>out. \<not> out_enabled out \<and> \<not> out_active out) outs"
  using new_wf [OF assms(1), of 0] run_passive [OF assms(2) _ _ assms(3)] by auto

definition passive_cf :: SdConfig where
  "passive_cf = sample_cf\<lparr>cf_CP := plain_CP\<lparr>cp_passive := True\<rparr>\<rparr>"

lemma passive_input:
  assumes "now < t" "data (sd_sm sd) = sample_data"
  shows "input_ok passive_cf now (sample_frame t CS) sd"
  using sample_input [OF assms, of CS] by (simp add: input_ok_def frame_ok_def passive_cf_def)

theorem passive_car_never_engages_witness:
  "\<exists>outs sd'. sd_run passive_cf [Frame (sample_frame 1 default_CarState)]
      (initial_SelfdriveD passive_cf True True 1 Map.empty Map.empty sample_data) = Some (outs, sd')
     \<and> list_all (\<lambda>out. \<not> out_enabled out \<and> \<not> out_active out) outs"
proof (rule passive_car_never_engages)
  let ?sd = "initial_SelfdriveD passive_cf True True 1 Map.empty Map.empty sample_data"
  show "new_SelfdriveD passive_cf True True Map.empty Map.empty sample_data = Some ?sd"
    by (simp add: new_SelfdriveD_def Let_def passive_cf_def sample_cf_def plain_CP_def
        get_sanitize_int_param_def get_default_def fun_upd_idem)
  show "cp_passive (cf_CP passive_cf)"
    by (simp add: passive_cf_def)
  have "data (sd_sm ?sd) = sample_data"
    using initial_wf(5) [OF _ _ order.refl refl] by simp
  then show "run_ok passive_cf 0 [Frame (sample_frame 1 default_CarState)] ?sd"
    using passive_input [of 0 1 ?sd] by (simp split: option.split)
qed


end
